(* ===== verification/Prelude.thy ===== *)
theory Prelude
  imports Complex_Main "HOL-Library.AList"
begin

text \<open>
  Shared vocabulary of the development: the exceptions the program raises, results as sums,
  the Python string operations the sources use (on 8-bit code points, case mapping for ASCII
  letters), recognisers for the fixed regular expressions, Python dictionaries as association
  lists in insertion order, and the collections of facts the component theories extend.
\<close>

named_theorems wf_simps \<open>well-formedness predicates of the component theories, unfolded\<close>
named_theorems op_defs \<open>definitions of operations that component proofs unfold together\<close>

section \<open>Exceptions and results\<close>

text \<open>Runtime values: the JSON values of Python; floats are rationals.\<close>

datatype json =
    JNull
  | JBool bool
  | JInt int
  | JFloat rat
  | JStr string
  | JList "json list"
  | JObj "(string \<times> json) list"

text \<open>
  A classified surface failure (\<^verbatim>\<open>surfaces/models.py\<close>, class SurfaceError). The
  private binary frame is kept as its bytes.
\<close>

record surface_error =
  se_code :: string
  se_message :: string
  se_recoverable :: bool
  se_effect_absent :: bool
  se_intervention_recommended :: bool
  se_expected :: "(string \<times> json) list option"
  se_observed :: "(string \<times> json) list option"
  se_failure_frame :: "string option"

datatype exn =
    ValueError string
  | TypeError string
  | KeyError string
  | RuntimeError string
  | OSError string
  | LeaseConflictError string
  | LeaseExpiredError string
  | LeaseNotFoundError string
  | InterventionConflictError string
  | InterventionNotFoundError string
  | InterventionTransitionError string
  | InterventionAuthorizationError string
  | HumanInputConflictError string
  | ContractValidationError string string
  | ResumeValidationError string string
  | EvidenceRejectedError string
  | ArtifactPrivacyError string string
  | ModelProviderError string string
  | DiscoveryBlockedError string
  | CapabilityNotFoundError string
  | CapabilityConflictError string
  | CapabilityIntegrityError string
  | CapabilityPublicationError string
  | CapabilityAssetError string
  | DiscoverySuiteError string
  | SurfaceFailure surface_error

type_synonym 'a result = "exn + 'a"

text \<open>Sequencing of results: the first raised exception leaves the function.\<close>

fun bind_r :: "'a result \<Rightarrow> ('a \<Rightarrow> 'b result) \<Rightarrow> 'b result" where
  "bind_r (Inl e) f = Inl e"
| "bind_r (Inr x) f = f x"

lemma bind_r_Inr_iff: "bind_r m f = Inr y \<longleftrightarrow> (\<exists>x. m = Inr x \<and> f x = Inr y)"
  by (cases m) auto

lemma bind_r_Inl_iff: "bind_r m f = Inl e \<longleftrightarrow> m = Inl e \<or> (\<exists>x. m = Inr x \<and> f x = Inl e)"
  by (cases m) auto

text \<open>A guard: raise \<open>e\<close> unless \<open>b\<close>.\<close>

definition check :: "bool \<Rightarrow> exn \<Rightarrow> unit result" where
  "check b e = (if b then Inr () else Inl e)"

lemma check_Inr [simp]: "check b e = Inr u \<longleftrightarrow> b"
  by (simp add: check_def)

lemma check_Inl [simp]: "check b e = Inl e' \<longleftrightarrow> \<not> b \<and> e' = e"
  by (auto simp: check_def)

lemma bind_check [simp]: "bind_r (check b e) f = (if b then f () else Inl e)"
  by (simp add: check_def)

text \<open>A loop whose body may raise, in list order.\<close>

fun each :: "('a \<Rightarrow> unit result) \<Rightarrow> 'a list \<Rightarrow> unit result" where
  "each f [] = Inr ()"
| "each f (x # xs) = bind_r (f x) (\<lambda>_. each f xs)"

lemma each_Inr_iff: "each f xs = Inr u \<longleftrightarrow> (\<forall>x\<in>set xs. f x = Inr ())"
  by (induction xs) (auto simp: bind_r_Inr_iff)

text \<open>A comprehension whose element may raise, in list order.\<close>

fun map_r :: "('a \<Rightarrow> 'b result) \<Rightarrow> 'a list \<Rightarrow> 'b list result" where
  "map_r f [] = Inr []"
| "map_r f (x # xs) = bind_r (f x) (\<lambda>y. bind_r (map_r f xs) (\<lambda>ys. Inr (y # ys)))"

lemma map_r_Inr_iff: "map_r f xs = Inr ys \<longleftrightarrow> list_all2 (\<lambda>x y. f x = Inr y) xs ys"
  by (induction xs arbitrary: ys) (auto simp: bind_r_Inr_iff list_all2_Cons1)

lemma bind_r_cong [fundef_cong]:
  "m = m' \<Longrightarrow> (\<And>x. m' = Inr x \<Longrightarrow> f x = g x) \<Longrightarrow> bind_r m f = bind_r m' g"
  by (cases m') auto

lemma map_r_cong [fundef_cong]:
  "xs = ys \<Longrightarrow> (\<And>x. x \<in> set ys \<Longrightarrow> f x = g x) \<Longrightarrow> map_r f xs = map_r g ys"
  by (induction xs arbitrary: ys) auto

lemma each_cong [fundef_cong]:
  "xs = ys \<Longrightarrow> (\<And>x. x \<in> set ys \<Longrightarrow> f x = g x) \<Longrightarrow> each f xs = each g ys"
  by (induction xs arbitrary: ys) auto

section \<open>Python strings\<close>

definition lower_letters :: string where
  "lower_letters = ''abcdefghijklmnopqrstuvwxyz''"

definition upper_letters :: string where
  "upper_letters = ''ABCDEFGHIJKLMNOPQRSTUVWXYZ''"

definition digits :: string where
  "digits = ''0123456789''"

lemmas char_class_defs = lower_letters_def upper_letters_def digits_def

text \<open>\<open>str.isspace\<close> on one code point below 256.\<close>

definition py_isspace :: "char \<Rightarrow> bool" where
  "py_isspace c = (of_char c \<in> set [9, 10, 11, 12, 13, 28, 29, 30, 31, 32, 133, 160 :: nat])"

definition py_lstrip :: "string \<Rightarrow> string" where
  "py_lstrip s = dropWhile py_isspace s"

definition py_strip :: "string \<Rightarrow> string" where
  "py_strip s = rev (dropWhile py_isspace (rev (dropWhile py_isspace s)))"

text \<open>\<open>not s.strip()\<close>: the string is empty after stripping.\<close>

definition blank :: "string \<Rightarrow> bool" where
  "blank s = list_all py_isspace s"

lemma blank_iff_strip_empty: "blank s \<longleftrightarrow> py_strip s = []"
proof
  assume "blank s"
  then show "py_strip s = []"
    by (auto simp: blank_def py_strip_def list_all_iff dest: set_dropWhileD)
next
  assume "py_strip s = []"
  then have all: "\<forall>c\<in>set (dropWhile py_isspace s). py_isspace c"
    by (simp add: py_strip_def)
  have "dropWhile py_isspace s = []"
  proof (rule ccontr)
    assume ne: "dropWhile py_isspace s \<noteq> []"
    then have "\<not> py_isspace (hd (dropWhile py_isspace s))" by (rule hd_dropWhile)
    with all ne show False by (metis list.set_sel(1))
  qed
  then show "blank s" by (simp add: blank_def list_all_iff)
qed

fun starts_with :: "string \<Rightarrow> string \<Rightarrow> bool" where
  "starts_with [] s = True"
| "starts_with (p # ps) [] = False"
| "starts_with (p # ps) (c # cs) = (p = c \<and> starts_with ps cs)"

lemma starts_with_iff: "starts_with p s \<longleftrightarrow> (\<exists>t. s = p @ t)"
  by (induction p s rule: starts_with.induct) auto

definition ends_with :: "string \<Rightarrow> string \<Rightarrow> bool" where
  "ends_with p s = starts_with (rev p) (rev s)"

text \<open>Python's \<open>sub in s\<close> on strings.\<close>

fun contains_str :: "string \<Rightarrow> string \<Rightarrow> bool" where
  "contains_str sub [] = (sub = [])"
| "contains_str sub (c # cs) = (starts_with sub (c # cs) \<or> contains_str sub cs)"

text \<open>\<open>str.split(sep)\<close> for a one-character separator: never the empty list.\<close>

fun split_on :: "char \<Rightarrow> string \<Rightarrow> string list" where
  "split_on sep [] = [[]]"
| "split_on sep (c # cs) =
     (if c = sep then [] # split_on sep cs
      else (case split_on sep cs of [] \<Rightarrow> [[c]] | w # ws \<Rightarrow> (c # w) # ws))"

lemma split_on_not_Nil [simp]: "split_on sep s \<noteq> []"
  by (induction s) (auto split: list.splits)

text \<open>\<open>sep.join(parts)\<close>.\<close>

fun join_with :: "string \<Rightarrow> string list \<Rightarrow> string" where
  "join_with sep [] = []"
| "join_with sep [w] = w"
| "join_with sep (w # v # ws) = w @ sep @ join_with sep (v # ws)"

lemma join_split [simp]: "join_with [sep] (split_on sep s) = s"
proof (induction s)
  case (Cons c cs)
  then show ?case
    by (cases "split_on sep cs"; cases "tl (split_on sep cs)") (auto split: list.splits)
qed simp

text \<open>\<open>s.strip(chars)\<close> for one character.\<close>

definition strip_char :: "char \<Rightarrow> string \<Rightarrow> string" where
  "strip_char c s = rev (dropWhile (\<lambda>x. x = c) (rev (dropWhile (\<lambda>x. x = c) s)))"

text \<open>Lower-casing of an ASCII letter; \<open>casefold\<close> agrees with it on ASCII.\<close>

definition ascii_lower_char :: "char \<Rightarrow> char" where
  "ascii_lower_char c =
     (case map_of (zip upper_letters lower_letters) c of None \<Rightarrow> c | Some d \<Rightarrow> d)"

definition py_lower :: "string \<Rightarrow> string" where
  "py_lower s = map ascii_lower_char s"

abbreviation py_casefold :: "string \<Rightarrow> string" where
  "py_casefold \<equiv> py_lower"

text \<open>
  A full match of a pattern \<open>[first][rest]{lo,hi}\<close>; \<open>hi = None\<close> is an open upper bound.
\<close>

fun matches_ident :: "string \<Rightarrow> string \<Rightarrow> nat \<Rightarrow> nat option \<Rightarrow> string \<Rightarrow> bool" where
  "matches_ident fs rs lo hi [] = False"
| "matches_ident fs rs lo hi (c # cs) =
     (c \<in> set fs \<and> list_all (\<lambda>d. d \<in> set rs) cs \<and> lo \<le> length cs \<and>
      (case hi of None \<Rightarrow> True | Some h \<Rightarrow> length cs \<le> h))"

definition ident_chars :: string where
  "ident_chars = lower_letters @ digits @ ''_''"

definition dotted_ident_chars :: string where
  "dotted_ident_chars = lower_letters @ digits @ ''_.-''"

text \<open>\<open>[a-z][a-z0-9_]*(\.[a-z][a-z0-9_]*)+\<close>: at least two dot-separated identifiers.\<close>

definition is_capability_id :: "string \<Rightarrow> bool" where
  "is_capability_id s =
     (let parts = split_on (CHR ''.'') s in
      2 \<le> length parts \<and> list_all (matches_ident lower_letters ident_chars 0 None) parts)"

text \<open>\<open>0|[1-9][0-9]*\<close> and the three-part version \<open>major.minor.patch\<close>.\<close>

definition is_version_number :: "string \<Rightarrow> bool" where
  "is_version_number s = (s = ''0'' \<or> matches_ident ''123456789'' digits 0 None s)"

definition is_semantic_version :: "string \<Rightarrow> bool" where
  "is_semantic_version s =
     (let parts = split_on (CHR ''.'') s in
      length parts = 3 \<and> list_all is_version_number parts)"

text \<open>\<open>[0-9a-f]{n}\<close>.\<close>

definition hex_digits :: string where
  "hex_digits = ''0123456789abcdef''"

definition is_hex :: "nat \<Rightarrow> string \<Rightarrow> bool" where
  "is_hex n s = (length s = n \<and> list_all (\<lambda>c. c \<in> set hex_digits) s)"

text \<open>
  The path test shared by routes and route patterns: absolute, without query, fragment, empty
  or parent segments.
\<close>

definition safe_absolute_path :: "string \<Rightarrow> bool" where
  "safe_absolute_path s =
     (starts_with ''/'' s \<and> \<not> contains_str ''?'' s \<and> \<not> contains_str ''#'' s \<and>
      \<not> contains_str ''//'' s \<and> \<not> contains_str ''..'' s)"

text \<open>Bytes are kept as 8-bit characters.\<close>

type_synonym bytes = string

definition png_signature :: bytes where
  "png_signature = map char_of [137, 80, 78, 71, 13, 10, 26, 10 :: nat]"

section \<open>Python dictionaries in insertion order\<close>

type_synonym 'v dict = "(string \<times> 'v) list"

abbreviation dict_get :: "'v dict \<Rightarrow> string \<Rightarrow> 'v option" where
  "dict_get \<equiv> map_of"

abbreviation dict_set :: "string \<Rightarrow> 'v \<Rightarrow> 'v dict \<Rightarrow> 'v dict" where
  "dict_set \<equiv> AList.update"

abbreviation dict_keys :: "'v dict \<Rightarrow> string list" where
  "dict_keys d \<equiv> map fst d"

abbreviation dict_values :: "'v dict \<Rightarrow> 'v list" where
  "dict_values d \<equiv> map snd d"

text \<open>
  A dictionary built from a comprehension over pairs: a repeated key keeps its first position
  and takes the last value, as in Python.
\<close>

definition dict_of_pairs :: "(string \<times> 'v) list \<Rightarrow> 'v dict" where
  "dict_of_pairs ps = fold (\<lambda>(k, v). dict_set k v) ps []"

lemma dict_get_set [simp]: "dict_get (dict_set k v d) = (dict_get d)(k \<mapsto> v)"
  by (rule update_conv')

lemma dict_keys_set: "set (dict_keys (dict_set k v d)) = insert k (set (dict_keys d))"
  by (induction d) auto

lemma distinct_dict_set: "distinct (dict_keys d) \<Longrightarrow> distinct (dict_keys (dict_set k v d))"
  by (rule distinct_update)

lemma fold_dict_get:
  "dict_get (fold (\<lambda>(k, v). dict_set k v) ps d) k =
     (case map_of (rev ps) k of None \<Rightarrow> dict_get d k | Some v \<Rightarrow> Some v)"
  by (induction ps arbitrary: d) (auto simp: map_add_def split: option.splits)

lemma dict_of_pairs_get: "dict_get (dict_of_pairs ps) k = map_of (rev ps) k"
  by (simp add: dict_of_pairs_def fold_dict_get split: option.splits)

lemma map_of_rev_distinct: "distinct (map fst ps) \<Longrightarrow> map_of (rev ps) = map_of ps"
  by (metis distinct_rev map_of_inject_set rev_map set_rev)

lemma dict_of_pairs_distinct:
  "distinct (map fst ps) \<Longrightarrow> dict_get (dict_of_pairs ps) k = map_of ps k"
  by (simp add: dict_of_pairs_get map_of_rev_distinct)

end
