(* ===== verification/Ids.thy ===== *)
theory Ids
  imports Prelude
begin

text \<open>
  \<^verbatim>\<open>shared/ids.py\<close> and the datetimes the domain objects carry
  (\<^verbatim>\<open>shared/clock.py\<close>): typed opaque identifiers, and instants with or without a
  UTC offset.
\<close>

section \<open>Typed identifiers\<close>

datatype entity_kind =
    EXECUTION | RUN | SUITE | SESSION | INTERVENTION | EVIDENCE | DECISION | EVENT | TRACE

fun entity_prefix :: "entity_kind \<Rightarrow> string" where
  "entity_prefix EXECUTION = ''exe''"
| "entity_prefix RUN = ''run''"
| "entity_prefix SUITE = ''sui''"
| "entity_prefix SESSION = ''ses''"
| "entity_prefix INTERVENTION = ''int''"
| "entity_prefix EVIDENCE = ''evd''"
| "entity_prefix DECISION = ''dec''"
| "entity_prefix EVENT = ''evt''"
| "entity_prefix TRACE = ''trc''"

definition all_entity_kinds :: "entity_kind list" where
  "all_entity_kinds =
     [EXECUTION, RUN, SUITE, SESSION, INTERVENTION, EVIDENCE, DECISION, EVENT, TRACE]"

text \<open>\<open>EntityKind(prefix)\<close>: the enum's lookup by value.\<close>

definition entity_kind_of :: "string \<Rightarrow> entity_kind option" where
  "entity_kind_of p = find (\<lambda>k. entity_prefix k = p) all_entity_kinds"

text \<open>The pattern \<open>[a-z]{3}_[0-9a-f]{32}\<close>: its two groups.\<close>

fun match_id :: "string \<Rightarrow> (string \<times> string) option" where
  "match_id (a # b # c # u # rest) =
     (if list_all (\<lambda>x. x \<in> set lower_letters) [a, b, c] \<and> u = CHR ''_'' \<and> is_hex 32 rest
      then Some ([a, b, c], rest) else None)"
| "match_id _ = None"

text \<open>\<open>new_id\<close>: the 32 hexadecimal digits of a fresh UUID are an argument.\<close>

definition new_id :: "string \<Rightarrow> entity_kind \<Rightarrow> string" where
  "new_id uuid_hex kind = entity_prefix kind @ ''_'' @ uuid_hex"

text \<open>
  \<open>parse_id\<close>: 32 hexadecimal digits always form a UUID, so only the prefix lookup can fail
  after the match.
\<close>

definition parse_id :: "string \<Rightarrow> entity_kind option \<Rightarrow> string result" where
  "parse_id value expected_kind =
     (case match_id value of
        None \<Rightarrow>
          Inl (ValueError ''identifier must have a known three-letter prefix and UUID payload'')
      | Some (prefix, payload) \<Rightarrow>
          (case entity_kind_of prefix of
             None \<Rightarrow>
               Inl (ValueError ''identifier contains an unknown prefix or invalid UUID payload'')
           | Some kind \<Rightarrow>
               (case expected_kind of
                  None \<Rightarrow> Inr value
                | Some expected \<Rightarrow>
                    if kind = expected then Inr value
                    else Inl (ValueError (''expected a '' @ entity_prefix expected @
                           '' identifier, received '' @ entity_prefix kind)))))"

abbreviation is_id :: "entity_kind \<Rightarrow> string \<Rightarrow> bool" where
  "is_id kind value \<equiv> parse_id value (Some kind) = Inr value"

lemma entity_kind_of_Some: "entity_kind_of p = Some k \<longleftrightarrow> p = entity_prefix k"
  by (cases k) (auto simp: entity_kind_of_def all_entity_kinds_def)

lemma entity_prefix_inj [simp]: "entity_prefix k = entity_prefix k' \<longleftrightarrow> k = k'"
  by (metis entity_kind_of_Some option.inject)

lemma match_id_Some:
  "match_id v = Some (p, h) \<longleftrightarrow>
     (\<exists>a b c. p = [a, b, c] \<and> set p \<subseteq> set lower_letters \<and> v = p @ ''_'' @ h \<and> is_hex 32 h)"
proof (cases v rule: match_id.cases)
  case (1 a b c u rest)
  then show ?thesis by (auto simp: subset_iff)
qed auto

lemma parse_id_value: "parse_id v k = Inr w \<Longrightarrow> w = v"
  by (auto simp: parse_id_def split: option.splits if_splits)

lemma is_id_iff: "parse_id v (Some k) = Inr w \<longleftrightarrow> w = v \<and> (\<exists>h. v = new_id h k \<and> is_hex 32 h)"
proof
  assume "parse_id v (Some k) = Inr w"
  then obtain p h where "match_id v = Some (p, h)" "entity_kind_of p = Some k" "w = v"
    by (auto simp: parse_id_def split: option.splits if_splits)
  then show "w = v \<and> (\<exists>h. v = new_id h k \<and> is_hex 32 h)"
    by (auto simp: match_id_Some entity_kind_of_Some new_id_def)
next
  assume "w = v \<and> (\<exists>h. v = new_id h k \<and> is_hex 32 h)"
  then obtain h where v: "w = v" "v = entity_prefix k @ ''_'' @ h" "is_hex 32 h"
    by (auto simp: new_id_def)
  have "set (entity_prefix k) \<subseteq> set lower_letters"
    by (cases k) (simp_all add: lower_letters_def)
  moreover have "\<exists>a b c. entity_prefix k = [a, b, c]"
    by (cases k) simp_all
  ultimately have "match_id v = Some (entity_prefix k, h)"
    using v by (auto simp: match_id_Some)
  with v show "parse_id v (Some k) = Inr w"
    by (auto simp: parse_id_def entity_kind_of_Some split: option.splits)
qed

lemma parse_new_id: "is_hex 32 h \<Longrightarrow> parse_id (new_id h k) (Some k) = Inr (new_id h k)"
  by (auto simp: is_id_iff)

text \<open>An identifier belongs to one kind only.\<close>

lemma is_id_kind_unique: "is_id k v \<Longrightarrow> is_id k' v \<Longrightarrow> k = k'"
  by (auto simp: parse_id_def split: option.splits if_splits)

section \<open>Instants\<close>

text \<open>
  A \<open>datetime\<close> as its instant in microseconds and whether it carries an offset. Python
  compares and equates aware datetimes by instant, so the offset's value is immaterial.
\<close>

record datetime =
  dt_instant :: int
  dt_aware :: bool

text \<open>\<open>clock.now()\<close> reads an aware UTC instant.\<close>

definition utc :: "int \<Rightarrow> datetime" where
  "utc t = \<lparr>dt_instant = t, dt_aware = True\<rparr>"

lemma utc_simps [simp]: "dt_instant (utc t) = t" "dt_aware (utc t)" "utc t = utc u \<longleftrightarrow> t = u"
  by (simp_all add: utc_def)

end
