(* ===== verification/Leases.thy ===== *)
theory Leases
  imports Ids
begin

text \<open>
  Control leases: the owner and lease aggregates of \<^verbatim>\<open>interventions/models.py\<close>, and
  the versioned lease service with its in-memory compare-and-swap repository of
  \<^verbatim>\<open>interventions/leases.py\<close>. The repository Protocol of
  \<^verbatim>\<open>interventions/ports.py\<close> is a record of operations; the service is written over
  it, as the code is, and its properties are proved from the contract of the locale
  \<open>lease_store\<close>, which the in-memory repository satisfies. Each read of the clock is an
  argument of its own, in the order the code reads it.
\<close>

section \<open>Owners and leases\<close>

datatype owner_kind = OwnAutomation | OwnPaused | OwnHuman | OwnNone

record control_owner =
  owner_kind :: owner_kind
  principal_id :: "string option"

text \<open>The constructor \<open>ControlOwner(kind, principal_id)\<close> with its \<open>__post_init__\<close>.\<close>

definition mk_control_owner :: "owner_kind \<Rightarrow> string option \<Rightarrow> control_owner result" where
  "mk_control_owner k p =
     (if k = OwnHuman \<and> (case p of None \<Rightarrow> True | Some s \<Rightarrow> blank s)
      then Inl (ValueError ''human control owner requires a principal ID'')
      else if k \<noteq> OwnHuman \<and> p \<noteq> None
      then Inl (ValueError ''only a human control owner may include a principal ID'')
      else Inr \<lparr>owner_kind = k, principal_id = p\<rparr>)"

definition AUTOMATION_OWNER :: control_owner where
  "AUTOMATION_OWNER = \<lparr>owner_kind = OwnAutomation, principal_id = None\<rparr>"

definition PAUSED_OWNER :: control_owner where
  "PAUSED_OWNER = \<lparr>owner_kind = OwnPaused, principal_id = None\<rparr>"

definition NO_OWNER :: control_owner where
  "NO_OWNER = \<lparr>owner_kind = OwnNone, principal_id = None\<rparr>"

abbreviation human_owner :: "string \<Rightarrow> control_owner" where
  "human_owner op \<equiv> \<lparr>owner_kind = OwnHuman, principal_id = Some op\<rparr>"

text \<open>The property \<open>value\<close>: the wire form of an owner.\<close>

definition owner_value :: "control_owner \<Rightarrow> string" where
  "owner_value ow =
     (case owner_kind ow of
        OwnHuman \<Rightarrow> ''human:'' @ (case principal_id ow of None \<Rightarrow> ''None'' | Some p \<Rightarrow> p)
      | OwnAutomation \<Rightarrow> ''automation''
      | OwnPaused \<Rightarrow> ''automation_paused''
      | OwnNone \<Rightarrow> ''none'')"

record control_lease =
  lease_session :: string
  lease_owner :: control_owner
  lease_version :: int
  issued_at :: datetime
  last_heartbeat :: datetime
  expires_at :: datetime
  lease_intervention :: "string option"

definition requires_intervention :: "owner_kind \<Rightarrow> bool" where
  "requires_intervention k = (k \<in> {OwnPaused, OwnHuman})"

text \<open>The constructor \<open>ControlLease(...)\<close>: \<open>__post_init__\<close> on the given fields.\<close>

definition mk_control_lease :: "control_lease \<Rightarrow> control_lease result" where
  "mk_control_lease l =
     bind_r (parse_id (lease_session l) (Some SESSION)) (\<lambda>_.
     bind_r (case lease_intervention l of None \<Rightarrow> Inr ''''
             | Some i \<Rightarrow> parse_id i (Some INTERVENTION)) (\<lambda>_.
     if lease_version l < 1 then Inl (ValueError ''lease version must be positive'')
     else if \<not> dt_aware (issued_at l) \<or> \<not> dt_aware (last_heartbeat l) \<or> \<not> dt_aware (expires_at l)
     then Inl (ValueError ''lease timestamps must include an offset'')
     else if \<not> (dt_instant (issued_at l) \<le> dt_instant (last_heartbeat l) \<and>
                 dt_instant (last_heartbeat l) < dt_instant (expires_at l))
     then Inl (ValueError ''lease timestamps must be ordered from issuance through expiry'')
     else if requires_intervention (owner_kind (lease_owner l)) \<noteq> (lease_intervention l \<noteq> None)
     then Inl (ValueError ''paused and human leases require exactly one intervention binding'')
     else Inr l))"

text \<open>The class invariant every constructed lease satisfies.\<close>

definition lease_ok :: "control_lease \<Rightarrow> bool" where
  "lease_ok l =
     (is_id SESSION (lease_session l) \<and>
      (case lease_intervention l of None \<Rightarrow> True | Some i \<Rightarrow> is_id INTERVENTION i) \<and>
      1 \<le> lease_version l \<and>
      dt_aware (issued_at l) \<and> dt_aware (last_heartbeat l) \<and> dt_aware (expires_at l) \<and>
      dt_instant (issued_at l) \<le> dt_instant (last_heartbeat l) \<and>
      dt_instant (last_heartbeat l) < dt_instant (expires_at l) \<and>
      requires_intervention (owner_kind (lease_owner l)) = (lease_intervention l \<noteq> None))"

lemma mk_control_lease_Inr: "mk_control_lease l = Inr l' \<longleftrightarrow> l' = l \<and> lease_ok l"
proof -
  have id: "parse_id v k = Inr w \<longleftrightarrow> w = v \<and> parse_id v k = Inr v" for v k w
    using parse_id_value by blast
  show ?thesis
    by (cases "lease_intervention l")
       (auto simp: mk_control_lease_def lease_ok_def bind_r_Inr_iff not_less
             dest: parse_id_value)
qed

lemma owner_kind_consts [simp]:
  "owner_kind AUTOMATION_OWNER = OwnAutomation" "owner_kind PAUSED_OWNER = OwnPaused"
  "owner_kind NO_OWNER = OwnNone" "principal_id AUTOMATION_OWNER = None"
  "principal_id PAUSED_OWNER = None" "principal_id NO_OWNER = None"
  by (simp_all add: AUTOMATION_OWNER_def PAUSED_OWNER_def NO_OWNER_def)

lemma requires_intervention_simps [simp]:
  "requires_intervention OwnHuman" "requires_intervention OwnPaused"
  "\<not> requires_intervention OwnAutomation" "\<not> requires_intervention OwnNone"
  by (simp_all add: requires_intervention_def)

lemma owner_consts_distinct [simp]:
  "AUTOMATION_OWNER \<noteq> PAUSED_OWNER" "PAUSED_OWNER \<noteq> AUTOMATION_OWNER"
  "AUTOMATION_OWNER \<noteq> human_owner op" "human_owner op \<noteq> AUTOMATION_OWNER"
  "PAUSED_OWNER \<noteq> human_owner op" "human_owner op \<noteq> PAUSED_OWNER"
  "NO_OWNER \<noteq> PAUSED_OWNER" "PAUSED_OWNER \<noteq> NO_OWNER"
  "NO_OWNER \<noteq> AUTOMATION_OWNER" "AUTOMATION_OWNER \<noteq> NO_OWNER"
  "NO_OWNER \<noteq> human_owner op" "human_owner op \<noteq> NO_OWNER"
  by (auto simp: AUTOMATION_OWNER_def PAUSED_OWNER_def NO_OWNER_def)

text \<open>The class invariant of an owner.\<close>

definition owner_ok :: "control_owner \<Rightarrow> bool" where
  "owner_ok ow =
     (case principal_id ow of
        None \<Rightarrow> owner_kind ow \<noteq> OwnHuman | Some p \<Rightarrow> owner_kind ow = OwnHuman \<and> \<not> blank p)"

lemma mk_control_owner_ok:
  "mk_control_owner k p = Inr ow \<longleftrightarrow> ow = \<lparr>owner_kind = k, principal_id = p\<rparr> \<and> owner_ok ow"
  by (auto simp: mk_control_owner_def owner_ok_def split: option.splits)

lemma owner_ok_simps [simp]:
  "owner_ok AUTOMATION_OWNER" "owner_ok PAUSED_OWNER" "owner_ok NO_OWNER"
  "owner_ok (human_owner op) \<longleftrightarrow> \<not> blank op"
  by (simp_all add: owner_ok_def)

lemma owner_ok_paused: "owner_ok ow \<Longrightarrow> owner_kind ow = OwnPaused \<Longrightarrow> ow = PAUSED_OWNER"
  by (cases ow) (auto simp: owner_ok_def PAUSED_OWNER_def split: option.splits)

section \<open>The repository port and its in-memory adapter\<close>

text \<open>
  \<open>ControlLeaseRepository\<close>: an operation that raises leaves the repository unchanged, so the
  new repository is part of the successful result only.
\<close>

record 'r lease_repository =
  lr_create :: "'r \<Rightarrow> control_lease \<Rightarrow> (control_lease \<times> 'r) result"
  lr_get :: "'r \<Rightarrow> string \<Rightarrow> control_lease result"
  lr_cas :: "'r \<Rightarrow> string \<Rightarrow> int \<Rightarrow> control_owner \<Rightarrow> control_lease
              \<Rightarrow> (control_lease \<times> 'r) result"

type_synonym leases = "string \<rightharpoonup> control_lease"

definition mem_create :: "leases \<Rightarrow> control_lease \<Rightarrow> (control_lease \<times> leases) result" where
  "mem_create m lease =
     (case m (lease_session lease) of
        Some _ \<Rightarrow> Inl (LeaseConflictError ''a lease already exists for this session'')
      | None \<Rightarrow> Inr (lease, m(lease_session lease \<mapsto> lease)))"

definition mem_get :: "leases \<Rightarrow> string \<Rightarrow> control_lease result" where
  "mem_get m session_id =
     (case m session_id of
        None \<Rightarrow> Inl (LeaseNotFoundError session_id) | Some l \<Rightarrow> Inr l)"

definition mem_compare_and_swap ::
  "leases \<Rightarrow> string \<Rightarrow> int \<Rightarrow> control_owner \<Rightarrow> control_lease \<Rightarrow> (control_lease \<times> leases) result"
where
  "mem_compare_and_swap m session_id expected_version expected_owner replacement =
     (case m session_id of
        None \<Rightarrow> Inl (LeaseNotFoundError session_id)
      | Some current \<Rightarrow>
          if lease_version current \<noteq> expected_version \<or> lease_owner current \<noteq> expected_owner
          then Inl (LeaseConflictError ''control lease version or owner is stale'')
          else if lease_session replacement \<noteq> lease_session current
          then Inl (ValueError ''replacement lease cannot change session identity'')
          else if lease_version replacement \<noteq> lease_version current + 1
          then Inl (ValueError ''replacement lease version must increment exactly once'')
          else Inr (replacement, m(session_id \<mapsto> replacement)))"

definition in_memory_leases :: "leases lease_repository" where
  "in_memory_leases =
     \<lparr>lr_create = mem_create, lr_get = mem_get, lr_cas = mem_compare_and_swap\<rparr>"

section \<open>The lease service\<close>

text \<open>\<open>ControlLeaseService.__post_init__\<close>.\<close>

definition check_ttl :: "int \<Rightarrow> unit result" where
  "check_ttl ttl = check (0 < ttl) (ValueError ''control lease TTL must be positive'')"

definition assert_current ::
  "int \<Rightarrow> control_lease \<Rightarrow> int \<Rightarrow> control_owner \<Rightarrow> bool \<Rightarrow> unit result" where
  "assert_current t current expected_version expected_owner require_unexpired =
     (if lease_version current \<noteq> expected_version \<or> lease_owner current \<noteq> expected_owner
      then Inl (LeaseConflictError ''control lease version or owner is stale'')
      else if require_unexpired \<and> dt_instant (expires_at current) \<le> t
      then Inl (LeaseExpiredError ''control lease has expired'')
      else Inr ())"

text \<open>\<open>replace(current, ...)\<close> runs the constructor's checks again.\<close>

definition prepare_heartbeat ::
  "int \<Rightarrow> int \<Rightarrow> int \<Rightarrow> control_lease \<Rightarrow> int \<Rightarrow> control_owner \<Rightarrow> control_lease result" where
  "prepare_heartbeat ttl t1 t2 current expected_version ow =
     bind_r (assert_current t1 current expected_version ow True) (\<lambda>_.
     mk_control_lease (current\<lparr>lease_version := lease_version current + 1,
                               last_heartbeat := utc t2, expires_at := utc (t2 + ttl)\<rparr>))"

definition prepare_transfer ::
  "int \<Rightarrow> int \<Rightarrow> int \<Rightarrow> control_lease \<Rightarrow> int \<Rightarrow> control_owner \<Rightarrow> control_owner
     \<Rightarrow> string option \<Rightarrow> bool \<Rightarrow> control_lease result" where
  "prepare_transfer ttl t1 t2 current expected_version expected_owner next_owner
     intervention_id require_unexpired =
     bind_r (assert_current t1 current expected_version expected_owner require_unexpired) (\<lambda>_.
     mk_control_lease
       \<lparr>lease_session = lease_session current, lease_owner = next_owner,
        lease_version = lease_version current + 1, issued_at = utc t2,
        last_heartbeat = utc t2, expires_at = utc (t2 + ttl),
        lease_intervention = intervention_id\<rparr>)"

definition create_for_automation ::
  "'r lease_repository \<Rightarrow> int \<Rightarrow> int \<Rightarrow> 'r \<Rightarrow> string \<Rightarrow> (control_lease \<times> 'r) result" where
  "create_for_automation R ttl t r session_id =
     bind_r (parse_id session_id (Some SESSION)) (\<lambda>sid.
     bind_r (mk_control_lease
       \<lparr>lease_session = sid, lease_owner = AUTOMATION_OWNER, lease_version = 1,
        issued_at = utc t, last_heartbeat = utc t, expires_at = utc (t + ttl),
        lease_intervention = None\<rparr>) (\<lambda>lease.
     lr_create R r lease))"

definition svc_transfer ::
  "'r lease_repository \<Rightarrow> int \<Rightarrow> int \<Rightarrow> int \<Rightarrow> 'r \<Rightarrow> string \<Rightarrow> int \<Rightarrow> control_owner
     \<Rightarrow> control_owner \<Rightarrow> string option \<Rightarrow> bool \<Rightarrow> (control_lease \<times> 'r) result" where
  "svc_transfer R ttl t1 t2 r session_id expected_version expected_owner next_owner
     intervention_id require_unexpired =
     bind_r (lr_get R r session_id) (\<lambda>current.
     bind_r (prepare_transfer ttl t1 t2 current expected_version expected_owner next_owner
               intervention_id require_unexpired) (\<lambda>replacement.
     lr_cas R r session_id expected_version expected_owner replacement))"

definition svc_pause ::
  "'r lease_repository \<Rightarrow> int \<Rightarrow> int \<Rightarrow> int \<Rightarrow> 'r \<Rightarrow> string \<Rightarrow> int \<Rightarrow> string
     \<Rightarrow> (control_lease \<times> 'r) result" where
  "svc_pause R ttl t1 t2 r session_id expected_version intervention_id =
     bind_r (parse_id intervention_id (Some INTERVENTION)) (\<lambda>iid.
     svc_transfer R ttl t1 t2 r session_id expected_version AUTOMATION_OWNER PAUSED_OWNER
       (Some iid) True)"

definition svc_claim ::
  "'r lease_repository \<Rightarrow> int \<Rightarrow> int \<Rightarrow> int \<Rightarrow> 'r \<Rightarrow> string \<Rightarrow> int \<Rightarrow> string \<Rightarrow> string
     \<Rightarrow> (control_lease \<times> 'r) result" where
  "svc_claim R ttl t1 t2 r session_id expected_version intervention_id operator_id =
     (if operator_id = [] then Inl (ValueError ''operator ID is required'')
      else bind_r (parse_id intervention_id (Some INTERVENTION)) (\<lambda>iid.
       bind_r (lr_get R r session_id) (\<lambda>current.
       if lease_intervention current \<noteq> Some iid
       then Inl (LeaseConflictError ''intervention is not bound to this control lease'')
       else bind_r (mk_control_owner OwnHuman (Some operator_id)) (\<lambda>human.
         svc_transfer R ttl t1 t2 r session_id expected_version PAUSED_OWNER human
           (Some iid) False))))"

definition svc_reclaim_expired ::
  "'r lease_repository \<Rightarrow> int \<Rightarrow> int \<Rightarrow> int \<Rightarrow> int \<Rightarrow> 'r \<Rightarrow> string \<Rightarrow> int \<Rightarrow> string \<Rightarrow> string
     \<Rightarrow> (control_lease \<times> 'r) result" where
  "svc_reclaim_expired R ttl t0 t1 t2 r session_id expected_version intervention_id operator_id =
     bind_r (lr_get R r session_id) (\<lambda>current.
     bind_r (parse_id intervention_id (Some INTERVENTION)) (\<lambda>iid.
     if lease_version current \<noteq> expected_version \<or> lease_intervention current \<noteq> Some iid
     then Inl (LeaseConflictError ''control lease version or intervention is stale'')
     else if owner_kind (lease_owner current) \<noteq> OwnHuman
     then Inl (LeaseConflictError ''only an expired human lease can be reclaimed'')
     else if t0 < dt_instant (expires_at current)
     then Inl (LeaseConflictError ''the current human control lease is still active'')
     else bind_r (mk_control_owner OwnHuman (Some operator_id)) (\<lambda>human.
       svc_transfer R ttl t1 t2 r session_id expected_version (lease_owner current) human
         (Some iid) False)))"

definition svc_release ::
  "'r lease_repository \<Rightarrow> int \<Rightarrow> int \<Rightarrow> int \<Rightarrow> 'r \<Rightarrow> string \<Rightarrow> int \<Rightarrow> string
     \<Rightarrow> (control_lease \<times> 'r) result" where
  "svc_release R ttl t1 t2 r session_id expected_version operator_id =
     bind_r (lr_get R r session_id) (\<lambda>current.
     bind_r (mk_control_owner OwnHuman (Some operator_id)) (\<lambda>human.
     svc_transfer R ttl t1 t2 r session_id expected_version human PAUSED_OWNER
       (lease_intervention current) True))"

definition svc_begin_resume ::
  "'r lease_repository \<Rightarrow> int \<Rightarrow> int \<Rightarrow> int \<Rightarrow> 'r \<Rightarrow> string \<Rightarrow> int \<Rightarrow> string
     \<Rightarrow> (control_lease \<times> 'r) result" where
  "svc_begin_resume R ttl t1 t2 r session_id expected_version operator_id =
     svc_release R ttl t1 t2 r session_id expected_version operator_id"

definition svc_complete_resume ::
  "'r lease_repository \<Rightarrow> int \<Rightarrow> int \<Rightarrow> int \<Rightarrow> 'r \<Rightarrow> string \<Rightarrow> int \<Rightarrow> (control_lease \<times> 'r) result"
where
  "svc_complete_resume R ttl t1 t2 r session_id expected_version =
     svc_transfer R ttl t1 t2 r session_id expected_version PAUSED_OWNER AUTOMATION_OWNER None True"

definition svc_terminate ::
  "'r lease_repository \<Rightarrow> int \<Rightarrow> int \<Rightarrow> int \<Rightarrow> 'r \<Rightarrow> string \<Rightarrow> int \<Rightarrow> control_owner
     \<Rightarrow> (control_lease \<times> 'r) result" where
  "svc_terminate R ttl t1 t2 r session_id expected_version expected_owner =
     svc_transfer R ttl t1 t2 r session_id expected_version expected_owner NO_OWNER None
       (expected_owner \<noteq> PAUSED_OWNER)"

definition assert_can_act ::
  "'r lease_repository \<Rightarrow> int \<Rightarrow> 'r \<Rightarrow> string \<Rightarrow> int \<Rightarrow> control_owner \<Rightarrow> control_lease result" where
  "assert_can_act R t r session_id expected_version ow =
     bind_r (lr_get R r session_id) (\<lambda>current.
     if lease_version current \<noteq> expected_version \<or> lease_owner current \<noteq> ow
     then Inl (LeaseConflictError ''control lease version or owner is stale'')
     else if dt_instant (expires_at current) \<le> t
     then Inl (LeaseExpiredError ''control lease has expired'')
     else Inr current)"

definition svc_heartbeat ::
  "'r lease_repository \<Rightarrow> int \<Rightarrow> int \<Rightarrow> int \<Rightarrow> int \<Rightarrow> 'r \<Rightarrow> string \<Rightarrow> int \<Rightarrow> control_owner
     \<Rightarrow> (control_lease \<times> 'r) result" where
  "svc_heartbeat R ttl t0 t1 t2 r session_id expected_version ow =
     bind_r (assert_can_act R t0 r session_id expected_version ow) (\<lambda>current.
     bind_r (prepare_heartbeat ttl t1 t2 current expected_version ow) (\<lambda>replacement.
     lr_cas R r session_id expected_version ow replacement))"

section \<open>The service over any repository that keeps the contract\<close>

text \<open>
  What the service relies on: reads return the stored lease, creation needs a free session,
  and a swap succeeds exactly when version and owner are the stored ones and the replacement
  is the next version of the same session.
\<close>

locale lease_store =
  fixes R :: "'r lease_repository"
    and lookup :: "'r \<Rightarrow> string \<Rightarrow> control_lease option"
  assumes get_lookup: "lr_get R r s =
      (case lookup r s of None \<Rightarrow> Inl (LeaseNotFoundError s) | Some l \<Rightarrow> Inr l)"
    and create_ok: "lr_create R r l = Inr (l', r') \<Longrightarrow>
      lookup r (lease_session l) = None \<and> l' = l \<and>
      lookup r' = (lookup r)(lease_session l \<mapsto> l)"
    and create_free: "lookup r (lease_session l) = None \<Longrightarrow> \<exists>r'. lr_create R r l = Inr (l, r')"
    and cas_ok: "lr_cas R r s v ow l = Inr (l', r') \<Longrightarrow>
      \<exists>cur. lookup r s = Some cur \<and> lease_version cur = v \<and> lease_owner cur = ow \<and>
        lease_session l = lease_session cur \<and> lease_version l = v + 1 \<and> l' = l \<and>
        lookup r' = (lookup r)(s \<mapsto> l)"
    and cas_fresh: "lookup r s = Some cur \<Longrightarrow> lease_session l = lease_session cur \<Longrightarrow>
      lease_version l = lease_version cur + 1 \<Longrightarrow>
      \<exists>r'. lr_cas R r s (lease_version cur) (lease_owner cur) l = Inr (l, r')"
begin

lemma get_Inr: "lr_get R r s = Inr l \<longleftrightarrow> lookup r s = Some l"
  by (auto simp: get_lookup split: option.splits)

lemma transfer_ok:
  assumes "svc_transfer R ttl t1 t2 r s v ow nxt iid req = Inr (l, r')"
  shows "\<exists>cur. lookup r s = Some cur \<and> lease_version cur = v \<and> lease_owner cur = ow \<and>
    (req \<longrightarrow> t1 < dt_instant (expires_at cur)) \<and> lease_session l = lease_session cur \<and>
    lease_owner l = nxt \<and> lease_version l = v + 1 \<and> lease_intervention l = iid \<and>
    expires_at l = utc (t2 + ttl) \<and> lease_ok l \<and> lookup r' = (lookup r)(s \<mapsto> l)"
  using assms
  by (auto simp: svc_transfer_def prepare_transfer_def assert_current_def bind_r_Inr_iff
        get_Inr mk_control_lease_Inr not_le split: if_splits dest!: cas_ok)

lemma heartbeat_ok:
  assumes "svc_heartbeat R ttl t0 t1 t2 r s v ow = Inr (l, r')"
  shows "\<exists>cur. lookup r s = Some cur \<and> lease_version cur = v \<and> lease_owner cur = ow \<and>
    t0 < dt_instant (expires_at cur) \<and> t1 < dt_instant (expires_at cur) \<and>
    lease_session l = lease_session cur \<and>
    lease_owner l = ow \<and> lease_version l = v + 1 \<and>
    lease_intervention l = lease_intervention cur \<and>
    expires_at l = utc (t2 + ttl) \<and> lease_ok l \<and> lookup r' = (lookup r)(s \<mapsto> l)"
  using assms
  by (auto simp: svc_heartbeat_def prepare_heartbeat_def assert_can_act_def assert_current_def
        bind_r_Inr_iff get_Inr mk_control_lease_Inr not_le split: if_splits dest!: cas_ok)

lemma create_automation_ok:
  assumes "create_for_automation R ttl t r s = Inr (l, r')"
  shows "lookup r s = None \<and> lease_session l = s \<and> lease_owner l = AUTOMATION_OWNER \<and>
    lease_version l = 1 \<and> lease_ok l \<and> lookup r' = (lookup r)(s \<mapsto> l)"
proof -
  let ?l = "\<lparr>lease_session = s, lease_owner = AUTOMATION_OWNER, lease_version = 1,
        issued_at = utc t, last_heartbeat = utc t, expires_at = utc (t + ttl),
        lease_intervention = None\<rparr>"
  from assms obtain sid where sid: "parse_id s (Some SESSION) = Inr sid"
    and "bind_r (mk_control_lease (?l\<lparr>lease_session := sid\<rparr>)) (lr_create R r) = Inr (l, r')"
    by (auto simp: create_for_automation_def bind_r_Inr_iff)
  moreover from sid have "sid = s" by (rule parse_id_value)
  ultimately have "lease_ok ?l" "lr_create R r ?l = Inr (l, r')"
    by (simp_all add: bind_r_Inr_iff mk_control_lease_Inr)
  then show ?thesis by (auto dest!: create_ok)
qed

lemma can_act_iff:
  "assert_can_act R t r s v ow = Inr l \<longleftrightarrow>
     lookup r s = Some l \<and> lease_version l = v \<and> lease_owner l = ow \<and>
     t < dt_instant (expires_at l)"
  by (cases "lookup r s") (auto simp: assert_can_act_def get_lookup)

text \<open>At most one owner, with one version, may act on a session.\<close>

lemma one_actor:
  "assert_can_act R t r s v ow = Inr l \<Longrightarrow> assert_can_act R t' r s v' ow' = Inr l' \<Longrightarrow>
     v' = v \<and> ow' = ow \<and> l' = l"
  by (simp add: can_act_iff)

end

section \<open>Runs of the lease service\<close>

text \<open>
  Every state change the service offers, by any caller at any clock readings: the moves of
  the control state machine.
\<close>

inductive lease_step :: "'r lease_repository \<Rightarrow> int \<Rightarrow> 'r \<Rightarrow> 'r \<Rightarrow> bool" for R ttl where
  ls_create: "create_for_automation R ttl t r s = Inr (l, r') \<Longrightarrow> lease_step R ttl r r'"
| ls_pause: "svc_pause R ttl t1 t2 r s v iid = Inr (l, r') \<Longrightarrow> lease_step R ttl r r'"
| ls_claim: "svc_claim R ttl t1 t2 r s v iid op = Inr (l, r') \<Longrightarrow> lease_step R ttl r r'"
| ls_reclaim: "svc_reclaim_expired R ttl t0 t1 t2 r s v iid op = Inr (l, r') \<Longrightarrow>
     lease_step R ttl r r'"
| ls_release: "svc_release R ttl t1 t2 r s v op = Inr (l, r') \<Longrightarrow> lease_step R ttl r r'"
| ls_begin_resume: "svc_begin_resume R ttl t1 t2 r s v op = Inr (l, r') \<Longrightarrow> lease_step R ttl r r'"
| ls_complete_resume: "svc_complete_resume R ttl t1 t2 r s v = Inr (l, r') \<Longrightarrow>
     lease_step R ttl r r'"
| ls_terminate: "svc_terminate R ttl t1 t2 r s v ow = Inr (l, r') \<Longrightarrow> lease_step R ttl r r'"
| ls_heartbeat: "svc_heartbeat R ttl t0 t1 t2 r s v ow = Inr (l, r') \<Longrightarrow> lease_step R ttl r r'"

inductive lease_run :: "'r lease_repository \<Rightarrow> int \<Rightarrow> 'r \<Rightarrow> 'r \<Rightarrow> bool" for R ttl where
  run_refl: "lease_run R ttl r r"
| run_step: "lease_run R ttl r r' \<Longrightarrow> lease_step R ttl r' r'' \<Longrightarrow> lease_run R ttl r r''"

text \<open>
  The abstract move of one step on the map of leases: one session's lease is created as
  version 1, or replaced by the next version of itself.
\<close>

definition lease_move :: "leases \<Rightarrow> leases \<Rightarrow> bool" where
  "lease_move m m' =
     (\<exists>s l. lease_ok l \<and> m' = m(s \<mapsto> l) \<and>
        (case m s of
           None \<Rightarrow> lease_version l = 1 \<and> lease_session l = s \<and> lease_owner l = AUTOMATION_OWNER
         | Some cur \<Rightarrow> lease_session l = lease_session cur \<and>
             lease_version l = lease_version cur + 1))"

definition leases_wf :: "leases \<Rightarrow> bool" where
  "leases_wf m = (\<forall>s l. m s = Some l \<longrightarrow> lease_ok l \<and> lease_session l = s)"

lemma lease_move_wf:
  assumes "lease_move m m'" "leases_wf m"
  shows "leases_wf m'"
proof -
  from assms(1) obtain s l where l: "lease_ok l" "m' = m(s \<mapsto> l)"
    and "case m s of None \<Rightarrow> lease_version l = 1 \<and> lease_session l = s \<and> lease_owner l = AUTOMATION_OWNER
         | Some cur \<Rightarrow> lease_session l = lease_session cur \<and> lease_version l = lease_version cur + 1"
    unfolding lease_move_def by blast
  with assms(2) have "lease_session l = s"
    by (auto simp: leases_wf_def split: option.splits)
  with l assms(2) show ?thesis by (simp add: leases_wf_def)
qed

text \<open>A move never lowers a version, and only a larger version holds a different lease.\<close>

definition versions_advance :: "leases \<Rightarrow> leases \<Rightarrow> bool" where
  "versions_advance m m' =
     (\<forall>s l. m s = Some l \<longrightarrow>
        (\<exists>l'. m' s = Some l' \<and> (l' = l \<or> lease_version l < lease_version l')))"

lemma versions_advance_refl [simp]: "versions_advance m m"
  by (auto simp: versions_advance_def)

lemma versions_advance_trans:
  assumes "versions_advance m m'" "versions_advance m' m''"
  shows "versions_advance m m''"
  unfolding versions_advance_def
proof (intro allI impI)
  fix s l
  assume "m s = Some l"
  with assms(1) obtain l' where l': "m' s = Some l'" "l' = l \<or> lease_version l < lease_version l'"
    unfolding versions_advance_def by blast
  with assms(2) obtain l'' where "m'' s = Some l''" "l'' = l' \<or> lease_version l' < lease_version l''"
    unfolding versions_advance_def by blast
  with l'(2) show "\<exists>l'. m'' s = Some l' \<and> (l' = l \<or> lease_version l < lease_version l')"
    by auto
qed

lemma lease_move_advance: "lease_move m m' \<Longrightarrow> versions_advance m m'"
  by (auto simp: lease_move_def versions_advance_def split: option.splits)

context lease_store begin

lemma transfer_moves:
  "svc_transfer R ttl t1 t2 r s v ow nxt iid req = Inr (l, r') \<Longrightarrow>
     lease_move (lookup r) (lookup r')"
  by (drule transfer_ok) (auto simp: lease_move_def intro!: exI[of _ s] exI[of _ l])

lemma heartbeat_moves:
  "svc_heartbeat R ttl t0 t1 t2 r s v ow = Inr (l, r') \<Longrightarrow> lease_move (lookup r) (lookup r')"
  by (drule heartbeat_ok) (auto simp: lease_move_def intro!: exI[of _ s] exI[of _ l])

lemma create_moves:
  "create_for_automation R ttl t r s = Inr (l, r') \<Longrightarrow> lease_move (lookup r) (lookup r')"
  by (drule create_automation_ok) (auto simp: lease_move_def intro!: exI[of _ s] exI[of _ l])

lemma release_moves:
  "svc_release R ttl t1 t2 r s v op = Inr (l, r') \<Longrightarrow> lease_move (lookup r) (lookup r')"
  unfolding svc_release_def bind_r_Inr_iff by (elim exE conjE) (rule transfer_moves)

lemma step_moves: "lease_step R ttl r r' \<Longrightarrow> lease_move (lookup r) (lookup r')"
proof (induction rule: lease_step.induct)
  case (ls_create t r s l r')
  then show ?case by (rule create_moves)
next
  case (ls_pause t1 t2 r s v iid l r')
  then show ?case
    unfolding svc_pause_def bind_r_Inr_iff by (elim exE conjE) (rule transfer_moves)
next
  case (ls_claim t1 t2 r s v iid op l r')
  then show ?case
    by (auto simp: svc_claim_def bind_r_Inr_iff split: if_splits intro: transfer_moves)
next
  case (ls_reclaim t0 t1 t2 r s v iid op l r')
  then show ?case
    by (auto simp: svc_reclaim_expired_def bind_r_Inr_iff split: if_splits intro: transfer_moves)
next
  case (ls_release t1 t2 r s v op l r')
  then show ?case by (rule release_moves)
next
  case (ls_begin_resume t1 t2 r s v op l r')
  then show ?case unfolding svc_begin_resume_def by (rule release_moves)
next
  case (ls_complete_resume t1 t2 r s v l r')
  then show ?case unfolding svc_complete_resume_def by (rule transfer_moves)
next
  case (ls_terminate t1 t2 r s v ow l r')
  then show ?case unfolding svc_terminate_def by (rule transfer_moves)
next
  case (ls_heartbeat t0 t1 t2 r s v ow l r')
  then show ?case by (rule heartbeat_moves)
qed

lemma run_wf: "lease_run R ttl r r' \<Longrightarrow> leases_wf (lookup r) \<Longrightarrow> leases_wf (lookup r')"
  by (induction rule: lease_run.induct) (auto intro: lease_move_wf step_moves)

lemma run_advance: "lease_run R ttl r r' \<Longrightarrow> versions_advance (lookup r) (lookup r')"
  by (induction rule: lease_run.induct)
     (auto intro: versions_advance_trans lease_move_advance step_moves)

text \<open>A caller that read a lease and lost the race is refused, whatever owner it claims.\<close>

lemma stale_refused:
  assumes "lease_run R ttl r r'" "lookup r s = Some l" "lookup r' s \<noteq> Some l"
  shows "assert_can_act R t r' s (lease_version l) ow =
           Inl (LeaseConflictError ''control lease version or owner is stale'')"
    and "svc_transfer R ttl t1 t2 r' s (lease_version l) ow nxt iid req =
           Inl (LeaseConflictError ''control lease version or owner is stale'')"
proof -
  from run_advance[OF assms(1)] assms(2,3)
  obtain l' where l': "lookup r' s = Some l'" "lease_version l < lease_version l'"
    unfolding versions_advance_def by blast
  then show "assert_can_act R t r' s (lease_version l) ow =
           Inl (LeaseConflictError ''control lease version or owner is stale'')"
    by (simp add: assert_can_act_def get_lookup)
  from l' show "svc_transfer R ttl t1 t2 r' s (lease_version l) ow nxt iid req =
           Inl (LeaseConflictError ''control lease version or owner is stale'')"
    by (simp add: svc_transfer_def prepare_transfer_def assert_current_def get_lookup)
qed

end

text \<open>The in-memory repository keeps the contract, with the map itself as its abstraction.\<close>

interpretation memory_leases: lease_store in_memory_leases "\<lambda>m. m"
  by unfold_locales
     (auto simp: in_memory_leases_def mem_create_def mem_get_def mem_compare_and_swap_def
       split: option.splits if_splits)

end
