(* ===== verification/SurfaceModels.thy ===== *)
theory SurfaceModels
  imports Ids
begin

text \<open>
  The serializable surface facts of \<^verbatim>\<open>surfaces/models.py\<close> and the risk and data
  classifications of \<^verbatim>\<open>policy/types.py\<close>. Each dataclass is a record with its
  \<open>__post_init__\<close> as a constructor that may raise. Floating-point fields are rationals: the
  code only compares them.
\<close>

section \<open>Risk and data classification\<close>

datatype risk = READ_ONLY | REVERSIBLE | SENSITIVE | IRREVERSIBLE

text \<open>\<open>RISK_RANK\<close>: the position in the enum.\<close>

fun risk_rank :: "risk \<Rightarrow> nat" where
  "risk_rank READ_ONLY = 0"
| "risk_rank REVERSIBLE = 1"
| "risk_rank SENSITIVE = 2"
| "risk_rank IRREVERSIBLE = 3"

instantiation risk :: linorder
begin

definition less_eq_risk :: "risk \<Rightarrow> risk \<Rightarrow> bool" where
  "less_eq_risk a b = (risk_rank a \<le> risk_rank b)"

definition less_risk :: "risk \<Rightarrow> risk \<Rightarrow> bool" where
  "less_risk a b = (risk_rank a < risk_rank b)"

instance
proof
  fix a b c :: risk
  show "(a < b) = (a \<le> b \<and> \<not> b \<le> a)"
    by (auto simp: less_eq_risk_def less_risk_def)
  show "a \<le> a" by (simp add: less_eq_risk_def)
  show "a \<le> b \<Longrightarrow> b \<le> c \<Longrightarrow> a \<le> c" by (simp add: less_eq_risk_def)
  show "a \<le> b \<Longrightarrow> b \<le> a \<Longrightarrow> a = b"
    by (cases a; cases b) (simp_all add: less_eq_risk_def)
  show "a \<le> b \<or> b \<le> a" by (auto simp: less_eq_risk_def)
qed

end

datatype data_classification =
    PUBLIC | OPERATIONAL | CUSTOMER_IDENTIFIER | PERSONAL | FINANCIAL | CREDENTIAL | SECRET

datatype decision = ALLOW | DENY | REQUIRE_HUMAN_APPROVAL

section \<open>Screen geometry and frames\<close>

record viewport =
  vp_width :: int
  vp_height :: int
  vp_scale :: rat

definition mk_viewport :: "viewport \<Rightarrow> viewport result" where
  "mk_viewport v =
     (if vp_width v \<le> 0 \<or> vp_height v \<le> 0 \<or> vp_scale v \<le> 0
      then Inl (ValueError ''viewport dimensions and scale must be positive'') else Inr v)"

record screen_region =
  sr_x :: int
  sr_y :: int
  sr_width :: int
  sr_height :: int

definition mk_screen_region :: "screen_region \<Rightarrow> screen_region result" where
  "mk_screen_region r =
     (if sr_x r < 0 \<or> sr_y r < 0 \<or> sr_width r \<le> 0 \<or> sr_height r \<le> 0
      then Inl (ValueError ''screen region must have non-negative origin and positive size'')
      else Inr r)"

text \<open>The property \<open>center\<close>; Python's \<open>//\<close> is floor division.\<close>

definition region_center :: "screen_region \<Rightarrow> int \<times> int" where
  "region_center r = (sr_x r + sr_width r div 2, sr_y r + sr_height r div 2)"

lemma region_center_inside:
  "mk_screen_region r = Inr r' \<Longrightarrow> region_center r' = (cx, cy) \<Longrightarrow>
     sr_x r' \<le> cx \<and> cx < sr_x r' + sr_width r' \<and> sr_y r' \<le> cy \<and> cy < sr_y r' + sr_height r'"
  by (auto simp: mk_screen_region_def region_center_def split: if_splits)

record visual_token =
  tok_text :: string
  tok_confidence :: rat
  tok_region :: screen_region

definition mk_visual_token :: "visual_token \<Rightarrow> visual_token result" where
  "mk_visual_token t =
     (if tok_text t = [] \<or> \<not> (0 \<le> tok_confidence t \<and> tok_confidence t \<le> 1)
      then Inl (ValueError ''visual token requires text and normalized confidence'') else Inr t)"

record visual_target_data =
  vt_region :: screen_region
  vt_method :: string
  vt_confidence :: rat
  vt_frame_hash :: string

definition mk_visual_target_data :: "visual_target_data \<Rightarrow> visual_target_data result" where
  "mk_visual_target_data t =
     (if vt_method t = [] \<or> vt_frame_hash t = [] \<or>
         \<not> (0 \<le> vt_confidence t \<and> vt_confidence t \<le> 1)
      then Inl (ValueError ''visual target requires a method and normalized confidence'')
      else Inr t)"

record actionable_control =
  ac_role :: string
  ac_name :: string
  ac_count :: int

definition mk_actionable_control :: "actionable_control \<Rightarrow> actionable_control result" where
  "mk_actionable_control c =
     (if ac_role c = [] \<or> ac_name c = [] \<or> \<not> (1 \<le> ac_count c \<and> ac_count c \<le> 100)
      then Inl (ValueError ''actionable controls require a role, name, and bounded count'')
      else Inr c)"

record extractable_field =
  ef_label :: string
  ef_count :: int

definition mk_extractable_field :: "extractable_field \<Rightarrow> extractable_field result" where
  "mk_extractable_field f =
     (if ef_label f = [] \<or> \<not> (1 \<le> ef_count f \<and> ef_count f \<le> 100)
      then Inl (ValueError ''extractable fields require a label and bounded count'')
      else Inr f)"

record surface_frame =
  sf_content :: bytes
  sf_viewport :: viewport

definition mk_surface_frame :: "surface_frame \<Rightarrow> surface_frame result" where
  "mk_surface_frame f =
     (if sf_content f = [] then Inl (ValueError ''surface frame content cannot be empty'')
      else Inr f)"

record sanitized_surface_frame =
  ssf_content :: bytes
  ssf_directives :: "string list"

definition mk_sanitized_surface_frame ::
  "sanitized_surface_frame \<Rightarrow> sanitized_surface_frame result" where
  "mk_sanitized_surface_frame f =
     (if \<not> starts_with png_signature (ssf_content f)
      then Inl (ValueError ''sanitized surface frame must contain PNG content'')
      else if ssf_directives f = []
      then Inl (ValueError ''sanitized surface frame must declare its masking policy'')
      else Inr f)"

section \<open>Human input\<close>

datatype human_key =
    KEY_ENTER | KEY_ESCAPE | KEY_TAB | KEY_SHIFT_TAB | KEY_BACKSPACE | KEY_DELETE
  | KEY_ARROW_UP | KEY_ARROW_DOWN | KEY_ARROW_LEFT | KEY_ARROW_RIGHT

fun human_key_value :: "human_key \<Rightarrow> string" where
  "human_key_value KEY_ENTER = ''Enter''"
| "human_key_value KEY_ESCAPE = ''Escape''"
| "human_key_value KEY_TAB = ''Tab''"
| "human_key_value KEY_SHIFT_TAB = ''Shift+Tab''"
| "human_key_value KEY_BACKSPACE = ''Backspace''"
| "human_key_value KEY_DELETE = ''Delete''"
| "human_key_value KEY_ARROW_UP = ''ArrowUp''"
| "human_key_value KEY_ARROW_DOWN = ''ArrowDown''"
| "human_key_value KEY_ARROW_LEFT = ''ArrowLeft''"
| "human_key_value KEY_ARROW_RIGHT = ''ArrowRight''"

datatype human_input =
    HumanPointerInput int int
  | HumanTextInput string
  | HumanKeyInput human_key

definition mk_human_input :: "human_input \<Rightarrow> human_input result" where
  "mk_human_input i =
     (case i of
        HumanPointerInput x y \<Rightarrow>
          if x < 0 \<or> y < 0 then Inl (ValueError ''pointer coordinates cannot be negative'')
          else Inr i
      | HumanTextInput s \<Rightarrow>
          if \<not> (1 \<le> length s \<and> length s \<le> 1000)
          then Inl (ValueError ''human text input must contain between 1 and 1000 characters'')
          else Inr i
      | HumanKeyInput k \<Rightarrow> Inr i)"

section \<open>Observations, targets and receipts\<close>

record normalized_observation =
  obs_id :: string
  obs_session_id :: string
  obs_captured_at :: datetime
  obs_route :: string
  obs_viewport :: viewport
  obs_fingerprint :: string
  obs_landmarks :: "string list"
  obs_frame_titles :: "string list"
  obs_controls :: "actionable_control list"
  obs_fields :: "extractable_field list"
  obs_tokens :: "visual_token list"
  obs_active_element :: "string option"
  obs_dialog_text :: "string option"
  obs_screenshot_key :: "string option"

definition mk_observation :: "normalized_observation \<Rightarrow> normalized_observation result" where
  "mk_observation ob =
     bind_r (parse_id (obs_id ob) (Some EVENT)) (\<lambda>_.
     bind_r (parse_id (obs_session_id ob) (Some SESSION)) (\<lambda>_.
     if \<not> dt_aware (obs_captured_at ob)
     then Inl (ValueError ''observation timestamp must include an offset'')
     else if \<not> starts_with ''/'' (obs_route ob) \<or> contains_str ''?'' (obs_route ob) \<or>
             contains_str ''#'' (obs_route ob)
     then Inl (ValueError ''observation route must be an absolute path without query or fragment'')
     else if blank (obs_fingerprint ob)
     then Inl (ValueError ''observation fingerprint cannot be empty'')
     else if \<exists>v\<in>set (obs_landmarks ob). blank v
     then Inl (ValueError ''observation landmarks cannot contain empty values'')
     else if \<exists>v\<in>set (obs_frame_titles ob). blank v
     then Inl (ValueError ''observation frame titles cannot contain empty values'')
     else if (case obs_screenshot_key ob of None \<Rightarrow> False
              | Some k \<Rightarrow> \<not> starts_with ''evidence://'' k)
     then Inl (ValueError ''observation screenshot reference must use the evidence scheme'')
     else Inr ob))"

record resolved_target =
  rt_handle :: string
  rt_description :: string
  rt_candidate_index :: int
  rt_observed_count :: int
  rt_registered_risk :: "risk option"
  rt_visual :: "visual_target_data option"

definition mk_resolved_target :: "resolved_target \<Rightarrow> resolved_target result" where
  "mk_resolved_target t =
     (if blank (rt_handle t) \<or> blank (rt_description t)
      then Inl (ValueError ''a resolved target requires a handle and description'')
      else if rt_candidate_index t < 0 \<or> rt_observed_count t \<noteq> 1
      then Inl (ValueError ''a resolved target must identify exactly one candidate match'')
      else Inr t)"

datatype action_status = COMPLETED | FAILED

record action_receipt =
  ar_status :: action_status
  ar_started_at :: datetime
  ar_completed_at :: datetime
  ar_observed_effect :: "string option"
  ar_error_code :: "string option"

definition mk_action_receipt :: "action_receipt \<Rightarrow> action_receipt result" where
  "mk_action_receipt r =
     (if \<not> dt_aware (ar_started_at r) \<or> \<not> dt_aware (ar_completed_at r)
      then Inl (ValueError ''action receipt timestamps must include an offset'')
      else if dt_instant (ar_completed_at r) < dt_instant (ar_started_at r)
      then Inl (ValueError ''action completion cannot precede its start'')
      else if ar_status r = FAILED \<and> (case ar_error_code r of None \<Rightarrow> True | Some c \<Rightarrow> c = [])
      then Inl (ValueError ''failed action receipt requires an error code'')
      else if ar_status r \<noteq> FAILED \<and> ar_error_code r \<noteq> None
      then Inl (ValueError ''only failed action receipts can contain an error code'')
      else Inr r)"

end
