(* ===== verification/Interventions.thy ===== *)
theory Interventions
  imports Leases SurfaceModels
begin

text \<open>
  The intervention aggregate of \<^verbatim>\<open>interventions/models.py\<close>: the safe routing context,
  the operator frames and input commands, and the lifecycle
  open, claimed, resuming, resolved, terminated with one operation per transition. A frozen
  dataclass's \<open>replace\<close> runs \<open>__post_init__\<close> again, so every operation ends in the
  constructor.
\<close>

section \<open>Frames and input commands\<close>

record intervention_frame =
  fr_content :: bytes
  fr_sequence :: int
  fr_viewport :: viewport
  fr_next_client_sequence :: int

definition mk_intervention_frame :: "intervention_frame \<Rightarrow> intervention_frame result" where
  "mk_intervention_frame f =
     (if fr_sequence f < 1 then Inl (ValueError ''frame sequence must be positive'')
      else if fr_next_client_sequence f < 1
      then Inl (ValueError ''next client sequence must be positive'')
      else Inr f)"

record human_input_command =
  hc_client_sequence :: int
  hc_source_frame_sequence :: int
  hc_viewport :: viewport
  hc_action :: human_input

definition mk_human_input_command :: "human_input_command \<Rightarrow> human_input_command result" where
  "mk_human_input_command c =
     (if hc_client_sequence c < 1 \<or> hc_source_frame_sequence c < 1
      then Inl (ValueError ''input and source-frame sequences must be positive'')
      else if (case hc_action c of
                 HumanPointerInput x y \<Rightarrow>
                   vp_width (hc_viewport c) \<le> x \<or> vp_height (hc_viewport c) \<le> y
               | _ \<Rightarrow> False)
      then Inl (ValueError ''pointer coordinates must fall inside the source viewport'')
      else Inr c)"

datatype audit_value = AuditInt int | AuditStr string

text \<open>\<open>audit_details\<close>: a text input is recorded by its length only.\<close>

definition audit_details :: "human_input_command \<Rightarrow> audit_value dict" where
  "audit_details c =
     [(''client_sequence'', AuditInt (hc_client_sequence c)),
      (''source_frame_sequence'', AuditInt (hc_source_frame_sequence c)),
      (''viewport_height'', AuditInt (vp_height (hc_viewport c))),
      (''viewport_width'', AuditInt (vp_width (hc_viewport c)))] @
     (case hc_action c of
        HumanPointerInput x y \<Rightarrow>
          [(''input_type'', AuditStr ''pointer''), (''x'', AuditInt x), (''y'', AuditInt y)]
      | HumanKeyInput k \<Rightarrow>
          [(''input_type'', AuditStr ''key''), (''key'', AuditStr (human_key_value k))]
      | HumanTextInput s \<Rightarrow>
          [(''input_type'', AuditStr ''text''), (''character_count'', AuditInt (int (length s)))])"

text \<open>The typed text never reaches the audit record: equal lengths give equal records.\<close>

lemma audit_details_hides_text:
  "length s = length s' \<Longrightarrow>
     audit_details (c\<lparr>hc_action := HumanTextInput s\<rparr>) =
     audit_details (c\<lparr>hc_action := HumanTextInput s'\<rparr>)"
  by (simp add: audit_details_def)

section \<open>Routing context\<close>

datatype intervention_run_mode = MODE_DISCOVERY | MODE_REPLAY

record intervention_context =
  ctx_run_mode :: intervention_run_mode
  ctx_application_family :: string
  ctx_tenant :: string
  ctx_task_summary :: string
  ctx_surface_route :: string
  ctx_step_id :: "string option"
  ctx_capability_id :: "string option"
  ctx_capability_version :: "string option"
  ctx_capability_name :: "string option"

text \<open>Python truth of an optional string.\<close>

definition truthy :: "string option \<Rightarrow> bool" where
  "truthy x = (case x of None \<Rightarrow> False | Some s \<Rightarrow> s \<noteq> [])"

definition is_family_id :: "string \<Rightarrow> bool" where
  "is_family_id = matches_ident lower_letters ident_chars 1 (Some 63)"

definition is_tenant_id :: "string \<Rightarrow> bool" where
  "is_tenant_id = matches_ident lower_letters (ident_chars @ ''-'') 1 (Some 63)"

definition is_step_id :: "string \<Rightarrow> bool" where
  "is_step_id = matches_ident lower_letters dotted_ident_chars 1 None"

definition is_trigger_code :: "string \<Rightarrow> bool" where
  "is_trigger_code = matches_ident lower_letters ident_chars 0 (Some 63)"

definition mk_intervention_context :: "intervention_context \<Rightarrow> intervention_context result" where
  "mk_intervention_context c =
     (let caps = [ctx_capability_id c, ctx_capability_version c, ctx_capability_name c] in
      if blank (ctx_application_family c) \<or> blank (ctx_tenant c) \<or> blank (ctx_task_summary c) \<or>
         blank (ctx_surface_route c)
      then Inl (ValueError ''intervention context requires non-empty routing fields'')
      else if \<not> is_family_id (ctx_application_family c)
      then Inl (ValueError ''intervention application family is invalid'')
      else if \<not> is_tenant_id (ctx_tenant c)
      then Inl (ValueError ''intervention tenant is invalid'')
      else if 1000 < length (ctx_task_summary c)
      then Inl (ValueError ''intervention task summary is too long'')
      else if \<not> safe_absolute_path (ctx_surface_route c)
      then Inl (ValueError ''intervention surface route must be a safe absolute path'')
      else if (case ctx_step_id c of None \<Rightarrow> False | Some s \<Rightarrow> \<not> is_step_id s)
      then Inl (ValueError ''intervention step ID is invalid'')
      else if ctx_run_mode c = MODE_REPLAY \<and> \<not> list_all truthy caps
      then Inl (ValueError ''replay intervention context requires capability metadata'')
      else if ctx_run_mode c = MODE_DISCOVERY \<and> list_ex truthy caps
      then Inl (ValueError ''discovery intervention context cannot identify a capability'')
      else if (case ctx_capability_id c of None \<Rightarrow> False | Some s \<Rightarrow> \<not> is_capability_id s)
      then Inl (ValueError ''intervention capability ID is invalid'')
      else if (case ctx_capability_version c of None \<Rightarrow> False | Some s \<Rightarrow> \<not> is_semantic_version s)
      then Inl (ValueError ''intervention capability version is invalid'')
      else Inr c)"

section \<open>The intervention aggregate\<close>

datatype intervention_status = OPEN | CLAIMED | RESUMING | RESOLVED | TERMINATED

record intervention =
  int_id :: string
  int_run_id :: string
  int_session_id :: string
  int_trigger_code :: string
  int_explanation :: string
  int_status :: intervention_status
  int_created_at :: datetime
  int_context :: intervention_context
  int_operator_id :: "string option"
  int_resolution :: "string option"

definition requires_operator :: "intervention_status \<Rightarrow> bool" where
  "requires_operator s = (s \<in> {CLAIMED, RESUMING, RESOLVED})"

definition requires_resolution :: "intervention_status \<Rightarrow> bool" where
  "requires_resolution s = (s \<in> {RESOLVED, TERMINATED})"

definition mk_intervention :: "intervention \<Rightarrow> intervention result" where
  "mk_intervention i =
     bind_r (parse_id (int_id i) (Some INTERVENTION)) (\<lambda>_.
     bind_r (parse_id (int_run_id i) (Some RUN)) (\<lambda>_.
     bind_r (parse_id (int_session_id i) (Some SESSION)) (\<lambda>_.
     if \<not> is_trigger_code (int_trigger_code i)
     then Inl (ValueError ''intervention trigger code is invalid'')
     else if blank (int_explanation i) \<or> 1000 < length (int_explanation i)
     then Inl (ValueError ''intervention explanation must be non-empty and bounded'')
     else if \<not> dt_aware (int_created_at i)
     then Inl (ValueError ''intervention timestamp must include an offset'')
     else if requires_operator (int_status i) \<and> int_operator_id i = None
     then Inl (ValueError ''intervention status and operator ownership disagree'')
     else if int_status i = OPEN \<and> int_operator_id i \<noteq> None
     then Inl (ValueError ''intervention status and operator ownership disagree'')
     else if requires_resolution (int_status i) \<noteq> (int_resolution i \<noteq> None)
     then Inl (ValueError ''intervention terminal status and resolution disagree'')
     else if (case int_operator_id i of None \<Rightarrow> False | Some s \<Rightarrow> blank s)
     then Inl (ValueError ''intervention operator ID cannot be empty'')
     else if (case int_resolution i of None \<Rightarrow> False | Some s \<Rightarrow> blank s)
     then Inl (ValueError ''intervention resolution cannot be empty'')
     else Inr i)))"

text \<open>The class invariant, and that the constructor establishes exactly it.\<close>

definition intervention_ok :: "intervention \<Rightarrow> bool" where
  "intervention_ok i =
     (is_id INTERVENTION (int_id i) \<and> is_id RUN (int_run_id i) \<and>
      is_id SESSION (int_session_id i) \<and> is_trigger_code (int_trigger_code i) \<and>
      \<not> blank (int_explanation i) \<and> length (int_explanation i) \<le> 1000 \<and>
      dt_aware (int_created_at i) \<and>
      (requires_operator (int_status i) \<longrightarrow> int_operator_id i \<noteq> None) \<and>
      (int_status i = OPEN \<longrightarrow> int_operator_id i = None) \<and>
      (requires_resolution (int_status i) = (int_resolution i \<noteq> None)) \<and>
      (\<forall>s. int_operator_id i = Some s \<longrightarrow> \<not> blank s) \<and>
      (\<forall>s. int_resolution i = Some s \<longrightarrow> \<not> blank s))"

lemma bind_parse_id:
  "bind_r (parse_id v k) (\<lambda>_. m) = Inr x \<longleftrightarrow> parse_id v k = Inr v \<and> m = Inr x"
  by (cases "parse_id v k") (auto dest: parse_id_value)

lemma mk_intervention_Inr: "mk_intervention i = Inr i' \<longleftrightarrow> i' = i \<and> intervention_ok i"
  by (cases "int_operator_id i"; cases "int_resolution i")
     (auto simp: mk_intervention_def intervention_ok_def bind_parse_id not_less)

definition intv_claim :: "intervention \<Rightarrow> string \<Rightarrow> intervention result" where
  "intv_claim i operator_id =
     (if int_status i \<noteq> OPEN
      then Inl (InterventionTransitionError ''only an open intervention can be claimed'')
      else if operator_id = [] then Inl (ValueError ''operator ID is required'')
      else mk_intervention (i\<lparr>int_status := CLAIMED, int_operator_id := Some operator_id\<rparr>))"

definition intv_release :: "intervention \<Rightarrow> intervention result" where
  "intv_release i =
     (if int_status i \<noteq> CLAIMED
      then Inl (InterventionTransitionError ''only a claimed intervention can be released'')
      else mk_intervention (i\<lparr>int_status := OPEN, int_operator_id := None\<rparr>))"

definition intv_reassign :: "intervention \<Rightarrow> string \<Rightarrow> intervention result" where
  "intv_reassign i operator_id =
     (if int_status i \<noteq> CLAIMED
      then Inl (InterventionTransitionError ''only a claimed intervention can be reassigned'')
      else if operator_id = [] then Inl (ValueError ''operator ID is required'')
      else mk_intervention (i\<lparr>int_operator_id := Some operator_id\<rparr>))"

definition intv_begin_resume :: "intervention \<Rightarrow> intervention result" where
  "intv_begin_resume i =
     (if int_status i \<noteq> CLAIMED
      then Inl (InterventionTransitionError ''only a claimed intervention can resume'')
      else mk_intervention (i\<lparr>int_status := RESUMING\<rparr>))"

definition intv_reopen :: "intervention \<Rightarrow> string \<Rightarrow> intervention result" where
  "intv_reopen i explanation =
     (if int_status i \<noteq> RESUMING
      then Inl (InterventionTransitionError ''only a resuming intervention can reopen'')
      else if blank explanation then Inl (ValueError ''reopen explanation is required'')
      else mk_intervention
        (i\<lparr>int_status := OPEN, int_operator_id := None, int_explanation := explanation\<rparr>))"

definition intv_resolve :: "intervention \<Rightarrow> string \<Rightarrow> intervention result" where
  "intv_resolve i resolution =
     (if int_status i \<noteq> RESUMING
      then Inl (InterventionTransitionError ''only a resuming intervention can resolve'')
      else if blank resolution then Inl (ValueError ''resolution is required'')
      else mk_intervention (i\<lparr>int_status := RESOLVED, int_resolution := Some resolution\<rparr>))"

definition intv_terminate :: "intervention \<Rightarrow> string \<Rightarrow> intervention result" where
  "intv_terminate i resolution =
     (if int_status i \<notin> {OPEN, CLAIMED}
      then Inl (InterventionTransitionError
                  ''only an open or claimed intervention can terminate'')
      else if blank resolution then Inl (ValueError ''resolution is required'')
      else mk_intervention (i\<lparr>int_status := TERMINATED, int_resolution := Some resolution\<rparr>))"

lemmas intv_op_defs = intv_claim_def intv_release_def intv_reassign_def intv_begin_resume_def
  intv_reopen_def intv_resolve_def intv_terminate_def

definition active_status :: "intervention_status \<Rightarrow> bool" where
  "active_status s = (s \<in> {OPEN, CLAIMED, RESUMING})"

lemma status_predicates [simp]:
  "active_status OPEN" "active_status CLAIMED" "active_status RESUMING"
  "\<not> active_status RESOLVED" "\<not> active_status TERMINATED"
  "requires_operator CLAIMED" "requires_operator RESUMING" "requires_operator RESOLVED"
  "\<not> requires_operator OPEN" "\<not> requires_operator TERMINATED"
  "requires_resolution RESOLVED" "requires_resolution TERMINATED"
  "\<not> requires_resolution OPEN" "\<not> requires_resolution CLAIMED" "\<not> requires_resolution RESUMING"
  by (simp_all add: active_status_def requires_operator_def requires_resolution_def)

section \<open>The lifecycle as a transition graph\<close>

text \<open>The documented state machine, as a relation on statuses.\<close>

inductive lifecycle :: "intervention_status \<Rightarrow> intervention_status \<Rightarrow> bool" where
  lc_claim: "lifecycle OPEN CLAIMED"
| lc_release: "lifecycle CLAIMED OPEN"
| lc_reassign: "lifecycle CLAIMED CLAIMED"
| lc_begin_resume: "lifecycle CLAIMED RESUMING"
| lc_reopen: "lifecycle RESUMING OPEN"
| lc_resolve: "lifecycle RESUMING RESOLVED"
| lc_terminate_open: "lifecycle OPEN TERMINATED"
| lc_terminate_claimed: "lifecycle CLAIMED TERMINATED"

inductive_simps lifecycle_from:
  "lifecycle OPEN s" "lifecycle CLAIMED s" "lifecycle RESUMING s"
  "lifecycle RESOLVED s" "lifecycle TERMINATED s"

text \<open>The operations as one type of commands, with the method each stands for.\<close>

datatype intv_command =
    CmdClaim string | CmdRelease | CmdReassign string | CmdBeginResume
  | CmdReopen string | CmdResolve string | CmdTerminate string

fun run_command :: "intervention \<Rightarrow> intv_command \<Rightarrow> intervention result" where
  "run_command i (CmdClaim op) = intv_claim i op"
| "run_command i CmdRelease = intv_release i"
| "run_command i (CmdReassign op) = intv_reassign i op"
| "run_command i CmdBeginResume = intv_begin_resume i"
| "run_command i (CmdReopen e) = intv_reopen i e"
| "run_command i (CmdResolve r) = intv_resolve i r"
| "run_command i (CmdTerminate r) = intv_terminate i r"

text \<open>The identity of an intervention: what no transition may change.\<close>

definition same_identity :: "intervention \<Rightarrow> intervention \<Rightarrow> bool" where
  "same_identity i j =
     (int_id j = int_id i \<and> int_run_id j = int_run_id i \<and> int_session_id j = int_session_id i \<and>
      int_created_at j = int_created_at i \<and> int_trigger_code j = int_trigger_code i \<and>
      int_context j = int_context i)"

lemma run_command_lifecycle:
  "run_command i c = Inr j \<Longrightarrow>
     lifecycle (int_status i) (int_status j) \<and> same_identity i j \<and> intervention_ok j"
  by (cases c)
     (auto simp: intv_op_defs mk_intervention_Inr same_identity_def
           intro: lifecycle.intros split: if_splits)

lemma run_command_terminal:
  "\<not> active_status (int_status i) \<Longrightarrow>
     \<exists>m. run_command i c = Inl (InterventionTransitionError m)"
  by (cases c; cases "int_status i") (auto simp: intv_op_defs)

end
