(* ===== verification/Transactions.thy ===== *)
theory Transactions
  imports Interventions
begin

text \<open>
  The paired state of interventions and leases: the transition aggregate and atomic repository
  of \<^verbatim>\<open>interventions/transactions.py\<close> and the router of
  \<^verbatim>\<open>interventions/router.py\<close> that opens interventions. The two focused in-memory
  repositories share one record; an operation runs under both locks, so it is one function on
  that record, and an operation that raises leaves it unchanged.
\<close>

section \<open>State\<close>

record handoff_store =
  hs_interventions :: "intervention dict"
  hs_observations :: "normalized_observation dict"
  hs_leases :: leases

definition empty_handoff_store :: handoff_store where
  "empty_handoff_store =
     \<lparr>hs_interventions = [], hs_observations = [], hs_leases = Map.empty\<rparr>"

section \<open>The transition aggregate\<close>

fun expected_owner_kind :: "intervention_status \<Rightarrow> owner_kind" where
  "expected_owner_kind OPEN = OwnPaused"
| "expected_owner_kind CLAIMED = OwnHuman"
| "expected_owner_kind RESUMING = OwnPaused"
| "expected_owner_kind RESOLVED = OwnAutomation"
| "expected_owner_kind TERMINATED = OwnNone"

text \<open>The constructor \<open>InterventionTransition(intervention, lease)\<close>.\<close>

definition mk_transition ::
  "intervention \<Rightarrow> control_lease \<Rightarrow> (intervention \<times> control_lease) result" where
  "mk_transition i l =
     (if int_session_id i \<noteq> lease_session l
      then Inl (ValueError ''intervention and lease must identify the same session'')
      else if owner_kind (lease_owner l) \<noteq> expected_owner_kind (int_status i)
      then Inl (ValueError ''intervention status and control-lease owner disagree'')
      else if active_status (int_status i) \<and> lease_intervention l \<noteq> Some (int_id i)
      then Inl (ValueError ''active intervention is not bound to its control lease'')
      else if \<not> active_status (int_status i) \<and> lease_intervention l \<noteq> None
      then Inl (ValueError ''terminal intervention cannot retain a control-lease binding'')
      else if int_status i = CLAIMED \<and> principal_id (lease_owner l) \<noteq> int_operator_id i
      then Inl (ValueError ''claimed intervention and human lease have different operators'')
      else Inr (i, l))"

definition transition_ok :: "intervention \<Rightarrow> control_lease \<Rightarrow> bool" where
  "transition_ok i l =
     (int_session_id i = lease_session l \<and>
      owner_kind (lease_owner l) = expected_owner_kind (int_status i) \<and>
      lease_intervention l = (if active_status (int_status i) then Some (int_id i) else None) \<and>
      (int_status i = CLAIMED \<longrightarrow> principal_id (lease_owner l) = int_operator_id i))"

lemma mk_transition_Inr: "mk_transition i l = Inr p \<longleftrightarrow> p = (i, l) \<and> transition_ok i l"
  by (auto simp: mk_transition_def transition_ok_def)

section \<open>The atomic repository\<close>

definition find_intervention :: "handoff_store \<Rightarrow> string \<Rightarrow> intervention result" where
  "find_intervention st intervention_id =
     (case dict_get (hs_interventions st) intervention_id of
        None \<Rightarrow> Inl (InterventionNotFoundError intervention_id) | Some i \<Rightarrow> Inr i)"

definition find_lease :: "handoff_store \<Rightarrow> string \<Rightarrow> control_lease result" where
  "find_lease st session_id =
     (case hs_leases st session_id of
        None \<Rightarrow> Inl (LeaseNotFoundError session_id) | Some l \<Rightarrow> Inr l)"

definition validate_intervention_replacement :: "intervention \<Rightarrow> intervention \<Rightarrow> unit result" where
  "validate_intervention_replacement current replacement =
     (if int_id replacement \<noteq> int_id current \<or> int_run_id replacement \<noteq> int_run_id current \<or>
         int_session_id replacement \<noteq> int_session_id current \<or>
         int_created_at replacement \<noteq> int_created_at current \<or>
         int_trigger_code replacement \<noteq> int_trigger_code current \<or>
         int_context replacement \<noteq> int_context current
      then Inl (ValueError ''intervention replacement cannot change immutable identity'')
      else Inr ())"

definition validate_lease_replacement :: "control_lease \<Rightarrow> control_lease \<Rightarrow> unit result" where
  "validate_lease_replacement current replacement =
     (if lease_session replacement \<noteq> lease_session current
      then Inl (ValueError ''replacement lease cannot change session identity'')
      else if replacement = current then Inr ()
      else if lease_version replacement \<noteq> lease_version current + 1
      then Inl (ValueError ''replacement lease version must increment exactly once'')
      else Inr ())"

lemma validate_intervention_replacement_Inr:
  "validate_intervention_replacement i j = Inr u \<longleftrightarrow> same_identity i j"
  by (auto simp: validate_intervention_replacement_def same_identity_def)

lemma validate_lease_replacement_Inr:
  "validate_lease_replacement l k = Inr u \<longleftrightarrow>
     lease_session k = lease_session l \<and> (k = l \<or> lease_version k = lease_version l + 1)"
  by (auto simp: validate_lease_replacement_def)

definition tr_get :: "handoff_store \<Rightarrow> string \<Rightarrow> (intervention \<times> control_lease) result" where
  "tr_get st intervention_id =
     bind_r (find_intervention st intervention_id) (\<lambda>i.
     bind_r (find_lease st (int_session_id i)) (\<lambda>l.
     mk_transition i l))"

definition tr_list_active ::
  "handoff_store \<Rightarrow> intervention_run_mode option \<Rightarrow> (intervention \<times> control_lease) list result" where
  "tr_list_active st run_mode =
     (let interventions = sort_key (\<lambda>i. dt_instant (int_created_at i))
            [i \<leftarrow> dict_values (hs_interventions st). active_status (int_status i) \<and>
               (case run_mode of None \<Rightarrow> True | Some m \<Rightarrow> ctx_run_mode (int_context i) = m)]
      in bind_r (map_r (\<lambda>i. bind_r (find_lease st (int_session_id i)) (\<lambda>l. Inr (i, l)))
                   interventions) (\<lambda>pairs.
         map_r (\<lambda>(i, l). mk_transition i l) pairs))"

definition tr_create_paused ::
  "handoff_store \<Rightarrow> intervention \<Rightarrow> normalized_observation \<Rightarrow> int \<Rightarrow> control_owner
     \<Rightarrow> control_lease \<Rightarrow> ((intervention \<times> control_lease) \<times> handoff_store) result" where
  "tr_create_paused st i observation expected_version expected_owner replacement_lease =
     (if dict_get (hs_interventions st) (int_id i) \<noteq> None
      then Inl (InterventionConflictError ''intervention identity is already routed'')
      else bind_r (find_lease st (int_session_id i)) (\<lambda>current_lease.
        if lease_version current_lease \<noteq> expected_version \<or>
           lease_owner current_lease \<noteq> expected_owner
        then Inl (LeaseConflictError ''control lease version or owner is stale'')
        else if obs_session_id observation \<noteq> int_session_id i
        then Inl (ValueError ''observation does not belong to the intervention session'')
        else bind_r (validate_lease_replacement current_lease replacement_lease) (\<lambda>_.
          bind_r (mk_transition i replacement_lease) (\<lambda>(i', l').
          Inr ((i', l'),
            st\<lparr>hs_interventions := dict_set (int_id i) i (hs_interventions st),
               hs_observations := dict_set (int_id i) observation (hs_observations st),
               hs_leases := (hs_leases st)(int_session_id i \<mapsto> replacement_lease)\<rparr>)))))"

definition tr_compare_and_swap ::
  "handoff_store \<Rightarrow> string \<Rightarrow> intervention_status \<Rightarrow> int \<Rightarrow> control_owner \<Rightarrow> intervention
     \<Rightarrow> control_lease \<Rightarrow> ((intervention \<times> control_lease) \<times> handoff_store) result" where
  "tr_compare_and_swap st intervention_id expected_status expected_version expected_owner
     replacement_intervention replacement_lease =
     bind_r (find_intervention st intervention_id) (\<lambda>current.
     bind_r (find_lease st (int_session_id current)) (\<lambda>current_lease.
     if int_status current \<noteq> expected_status
     then Inl (InterventionConflictError ''intervention status is stale'')
     else if lease_version current_lease \<noteq> expected_version \<or>
             lease_owner current_lease \<noteq> expected_owner
     then Inl (LeaseConflictError ''control lease version or owner is stale'')
     else bind_r (validate_intervention_replacement current replacement_intervention) (\<lambda>_.
       bind_r (validate_lease_replacement current_lease replacement_lease) (\<lambda>_.
       bind_r (mk_transition replacement_intervention replacement_lease) (\<lambda>(i', l').
       Inr ((i', l'),
         st\<lparr>hs_interventions := dict_set intervention_id i' (hs_interventions st),
            hs_leases := (hs_leases st)(lease_session current_lease \<mapsto> l')\<rparr>))))))"

section \<open>The router\<close>

definition router_get :: "handoff_store \<Rightarrow> string \<Rightarrow> intervention result" where
  "router_get st intervention_id = find_intervention st intervention_id"

definition router_observation :: "handoff_store \<Rightarrow> string \<Rightarrow> normalized_observation result" where
  "router_observation st intervention_id =
     (case dict_get (hs_observations st) intervention_id of
        None \<Rightarrow> Inl (InterventionNotFoundError intervention_id) | Some ob \<Rightarrow> Inr ob)"

definition router_list_open :: "handoff_store \<Rightarrow> intervention list" where
  "router_list_open st = [i \<leftarrow> dict_values (hs_interventions st). int_status i = OPEN]"

definition router_list_active ::
  "handoff_store \<Rightarrow> intervention_run_mode option \<Rightarrow> intervention list" where
  "router_list_active st run_mode =
     sort_key (\<lambda>i. dt_instant (int_created_at i))
       [i \<leftarrow> dict_values (hs_interventions st). active_status (int_status i) \<and>
          (case run_mode of None \<Rightarrow> True | Some m \<Rightarrow> ctx_run_mode (int_context i) = m)]"

text \<open>
  \<open>open\<close>: \<open>t0\<close> is the creation instant, \<open>t1\<close> and \<open>t2\<close> the two clock reads of
  \<open>prepare_transfer\<close>. An empty explanation counts as a missing one.
\<close>

definition router_open ::
  "int \<Rightarrow> int \<Rightarrow> int \<Rightarrow> int \<Rightarrow> handoff_store \<Rightarrow> string \<Rightarrow> string \<Rightarrow> string \<Rightarrow> int \<Rightarrow> string
     \<Rightarrow> string option \<Rightarrow> normalized_observation \<Rightarrow> intervention_context \<Rightarrow> string option
     \<Rightarrow> (string \<times> handoff_store) result" where
  "router_open ttl t0 t1 t2 st intervention_id run_id session_id expected_version code step_id
     observation ctx explanation =
     bind_r (parse_id intervention_id (Some INTERVENTION)) (\<lambda>iid.
     bind_r (parse_id run_id (Some RUN)) (\<lambda>rid.
     bind_r (parse_id session_id (Some SESSION)) (\<lambda>sid.
     if obs_session_id observation \<noteq> sid
     then Inl (ValueError ''observation does not belong to the intervention session'')
     else
       (let safe_explanation =
              (if truthy explanation then the explanation
               else if truthy step_id
               then ''Automation paused safely at '' @ the step_id @ ''.''
               else ''Automation paused safely.'')
        in bind_r (mk_intervention
             \<lparr>int_id = iid, int_run_id = rid, int_session_id = sid, int_trigger_code = code,
              int_explanation = safe_explanation, int_status = OPEN, int_created_at = utc t0,
              int_context = ctx, int_operator_id = None, int_resolution = None\<rparr>) (\<lambda>i.
           bind_r (find_lease st session_id) (\<lambda>current_lease.
           bind_r (prepare_transfer ttl t1 t2 current_lease expected_version AUTOMATION_OWNER
                     PAUSED_OWNER (Some iid) True) (\<lambda>replacement_lease.
           bind_r (tr_create_paused st i observation expected_version AUTOMATION_OWNER
                     replacement_lease) (\<lambda>(_, st').
           Inr (intervention_id, st')))))))))"

end
