(* ===== verification/Coordinator.thy ===== *)
theory Coordinator
  imports Transactions
begin

text \<open>
  The lease-coordinated intervention operations of \<^verbatim>\<open>interventions/service.py\<close>, over
  the repository port of \<^verbatim>\<open>interventions/ports.py\<close>. Every operation reads the pair,
  plans the replacement pair from the values it read, and commits it with one compare-and-swap;
  the plan is a definition of its own, so that a commit which arrives after other callers'
  operations can be stated too.
\<close>

section \<open>The repository port\<close>

record 't transition_repository =
  tp_get :: "'t \<Rightarrow> string \<Rightarrow> (intervention \<times> control_lease) result"
  tp_list_active :: "'t \<Rightarrow> intervention_run_mode option
     \<Rightarrow> (intervention \<times> control_lease) list result"
  tp_create_paused :: "'t \<Rightarrow> intervention \<Rightarrow> normalized_observation \<Rightarrow> int \<Rightarrow> control_owner
     \<Rightarrow> control_lease \<Rightarrow> ((intervention \<times> control_lease) \<times> 't) result"
  tp_cas :: "'t \<Rightarrow> string \<Rightarrow> intervention_status \<Rightarrow> int \<Rightarrow> control_owner \<Rightarrow> intervention
     \<Rightarrow> control_lease \<Rightarrow> ((intervention \<times> control_lease) \<times> 't) result"

definition in_memory_transitions :: "handoff_store transition_repository" where
  "in_memory_transitions =
     \<lparr>tp_get = tr_get, tp_list_active = tr_list_active, tp_create_paused = tr_create_paused,
      tp_cas = tr_compare_and_swap\<rparr>"

section \<open>Plans\<close>

definition plan_claim ::
  "int \<Rightarrow> int \<Rightarrow> int \<Rightarrow> int \<Rightarrow> intervention \<Rightarrow> control_lease \<Rightarrow> int \<Rightarrow> string
     \<Rightarrow> (intervention \<times> control_lease) result" where
  "plan_claim ttl t0 t1 t2 current current_lease expected_version operator_id =
     (case int_status current of
        OPEN \<Rightarrow>
          bind_r (intv_claim current operator_id) (\<lambda>replacement.
          if lease_intervention current_lease \<noteq> Some (int_id current)
          then Inl (LeaseConflictError ''intervention is not bound to this control lease'')
          else bind_r (mk_control_owner OwnHuman (Some operator_id)) (\<lambda>human.
            bind_r (prepare_transfer ttl t1 t2 current_lease expected_version PAUSED_OWNER human
                      (Some (int_id current)) False) (\<lambda>lease.
            Inr (replacement, lease))))
      | CLAIMED \<Rightarrow>
          bind_r (intv_reassign current operator_id) (\<lambda>replacement.
          if lease_intervention current_lease \<noteq> Some (int_id current) \<or>
             owner_kind (lease_owner current_lease) \<noteq> OwnHuman
          then Inl (LeaseConflictError ''only a bound, expired human lease can be reclaimed'')
          else if t0 < dt_instant (expires_at current_lease)
          then Inl (LeaseConflictError ''the current human control lease is still active'')
          else bind_r (mk_control_owner OwnHuman (Some operator_id)) (\<lambda>human.
            bind_r (prepare_transfer ttl t1 t2 current_lease expected_version
                      (lease_owner current_lease) human (Some (int_id current)) False) (\<lambda>lease.
            Inr (replacement, lease))))
      | _ \<Rightarrow> Inl (InterventionTransitionError ''only an open or expired claim can be claimed''))"

definition plan_release ::
  "int \<Rightarrow> int \<Rightarrow> int \<Rightarrow> intervention \<Rightarrow> control_lease \<Rightarrow> int \<Rightarrow> string
     \<Rightarrow> (intervention \<times> control_lease) result" where
  "plan_release ttl t1 t2 current current_lease expected_version operator_id =
     (if int_operator_id current \<noteq> Some operator_id
      then Inl (InterventionAuthorizationError ''operator does not own this intervention'')
      else bind_r (intv_release current) (\<lambda>replacement.
        bind_r (mk_control_owner OwnHuman (Some operator_id)) (\<lambda>human.
        bind_r (prepare_transfer ttl t1 t2 current_lease expected_version human PAUSED_OWNER
                  (Some (int_id current)) True) (\<lambda>lease.
        Inr (replacement, lease)))))"

definition plan_begin_resume ::
  "int \<Rightarrow> int \<Rightarrow> int \<Rightarrow> intervention \<Rightarrow> control_lease \<Rightarrow> int \<Rightarrow> string
     \<Rightarrow> (intervention \<times> control_lease) result" where
  "plan_begin_resume ttl t1 t2 current current_lease expected_version operator_id =
     (if int_operator_id current \<noteq> Some operator_id
      then Inl (InterventionAuthorizationError ''operator does not own this intervention'')
      else bind_r (intv_begin_resume current) (\<lambda>replacement.
        bind_r (mk_control_owner OwnHuman (Some operator_id)) (\<lambda>human.
        bind_r (prepare_transfer ttl t1 t2 current_lease expected_version human PAUSED_OWNER
                  (Some (int_id current)) True) (\<lambda>lease.
        Inr (replacement, lease)))))"

definition plan_reopen ::
  "intervention \<Rightarrow> control_lease \<Rightarrow> string \<Rightarrow> (intervention \<times> control_lease) result" where
  "plan_reopen current current_lease explanation =
     bind_r (intv_reopen current explanation) (\<lambda>replacement.
     if lease_owner current_lease \<noteq> PAUSED_OWNER
     then Inl (RuntimeError ''a reopened intervention must retain paused ownership'')
     else Inr (replacement, current_lease))"

definition plan_complete_resume ::
  "int \<Rightarrow> int \<Rightarrow> int \<Rightarrow> intervention \<Rightarrow> control_lease \<Rightarrow> int \<Rightarrow> string
     \<Rightarrow> (intervention \<times> control_lease) result" where
  "plan_complete_resume ttl t1 t2 current current_lease expected_version resolution =
     bind_r (intv_resolve current resolution) (\<lambda>replacement.
     bind_r (prepare_transfer ttl t1 t2 current_lease expected_version PAUSED_OWNER
               AUTOMATION_OWNER None True) (\<lambda>lease.
     Inr (replacement, lease)))"

definition plan_heartbeat ::
  "int \<Rightarrow> int \<Rightarrow> int \<Rightarrow> intervention \<Rightarrow> control_lease \<Rightarrow> int \<Rightarrow> string
     \<Rightarrow> (intervention \<times> control_lease) result" where
  "plan_heartbeat ttl t1 t2 current current_lease expected_version operator_id =
     (if int_status current \<noteq> CLAIMED \<or> int_operator_id current \<noteq> Some operator_id
      then Inl (InterventionAuthorizationError ''operator does not own this intervention'')
      else bind_r (mk_control_owner OwnHuman (Some operator_id)) (\<lambda>human.
        bind_r (prepare_heartbeat ttl t1 t2 current_lease expected_version human) (\<lambda>lease.
        Inr (current, lease))))"

definition plan_terminate ::
  "int \<Rightarrow> int \<Rightarrow> int \<Rightarrow> intervention \<Rightarrow> control_lease \<Rightarrow> int \<Rightarrow> string option \<Rightarrow> string
     \<Rightarrow> (intervention \<times> control_lease) result" where
  "plan_terminate ttl t1 t2 current current_lease expected_version operator_id resolution =
     bind_r (if int_status current = OPEN then Inr PAUSED_OWNER
             else if int_status current = CLAIMED \<and> int_operator_id current = operator_id
             then mk_control_owner OwnHuman operator_id
             else Inl (InterventionAuthorizationError
                         ''operator cannot terminate this intervention state'')) (\<lambda>expected_owner.
     bind_r (intv_terminate current resolution) (\<lambda>replacement.
     bind_r (prepare_transfer ttl t1 t2 current_lease expected_version expected_owner NO_OWNER
               None (expected_owner \<noteq> PAUSED_OWNER)) (\<lambda>lease.
     Inr (replacement, lease))))"

section \<open>Operations\<close>

definition coord_get ::
  "'t transition_repository \<Rightarrow> 't \<Rightarrow> string \<Rightarrow> (intervention \<times> control_lease) result" where
  "coord_get T st intervention_id =
     bind_r (tp_get T st intervention_id) (\<lambda>(i, l). mk_transition i l)"

definition coord_list_active ::
  "'t transition_repository \<Rightarrow> 't \<Rightarrow> intervention_run_mode option
     \<Rightarrow> (intervention \<times> control_lease) list result" where
  "coord_list_active T st run_mode =
     bind_r (tp_list_active T st run_mode) (map_r (\<lambda>(i, l). mk_transition i l))"

definition coord_commit ::
  "'t transition_repository \<Rightarrow> 't \<Rightarrow> intervention \<Rightarrow> control_lease \<Rightarrow> intervention \<Rightarrow> control_lease
     \<Rightarrow> ((intervention \<times> control_lease) \<times> 't) result" where
  "coord_commit T st current current_lease replacement replacement_lease =
     bind_r (tp_cas T st (int_id current) (int_status current) (lease_version current_lease)
               (lease_owner current_lease) replacement replacement_lease) (\<lambda>((i, l), st').
     bind_r (mk_transition i l) (\<lambda>p. Inr (p, st')))"

definition coord_claim ::
  "'t transition_repository \<Rightarrow> int \<Rightarrow> int \<Rightarrow> int \<Rightarrow> int \<Rightarrow> 't \<Rightarrow> string \<Rightarrow> int \<Rightarrow> string
     \<Rightarrow> ((intervention \<times> control_lease) \<times> 't) result" where
  "coord_claim T ttl t0 t1 t2 st intervention_id expected_version operator_id =
     bind_r (tp_get T st intervention_id) (\<lambda>(current, current_lease).
     bind_r (plan_claim ttl t0 t1 t2 current current_lease expected_version operator_id)
       (\<lambda>(replacement, lease). coord_commit T st current current_lease replacement lease))"

definition coord_release ::
  "'t transition_repository \<Rightarrow> int \<Rightarrow> int \<Rightarrow> int \<Rightarrow> 't \<Rightarrow> string \<Rightarrow> int \<Rightarrow> string
     \<Rightarrow> ((intervention \<times> control_lease) \<times> 't) result" where
  "coord_release T ttl t1 t2 st intervention_id expected_version operator_id =
     bind_r (tp_get T st intervention_id) (\<lambda>(current, current_lease).
     bind_r (plan_release ttl t1 t2 current current_lease expected_version operator_id)
       (\<lambda>(replacement, lease). coord_commit T st current current_lease replacement lease))"

definition coord_begin_resume ::
  "'t transition_repository \<Rightarrow> int \<Rightarrow> int \<Rightarrow> int \<Rightarrow> 't \<Rightarrow> string \<Rightarrow> int \<Rightarrow> string
     \<Rightarrow> ((intervention \<times> control_lease) \<times> 't) result" where
  "coord_begin_resume T ttl t1 t2 st intervention_id expected_version operator_id =
     bind_r (tp_get T st intervention_id) (\<lambda>(current, current_lease).
     bind_r (plan_begin_resume ttl t1 t2 current current_lease expected_version operator_id)
       (\<lambda>(replacement, lease). coord_commit T st current current_lease replacement lease))"

definition coord_reopen ::
  "'t transition_repository \<Rightarrow> 't \<Rightarrow> string \<Rightarrow> string
     \<Rightarrow> ((intervention \<times> control_lease) \<times> 't) result" where
  "coord_reopen T st intervention_id explanation =
     bind_r (tp_get T st intervention_id) (\<lambda>(current, current_lease).
     bind_r (plan_reopen current current_lease explanation)
       (\<lambda>(replacement, lease). coord_commit T st current current_lease replacement lease))"

definition coord_complete_resume ::
  "'t transition_repository \<Rightarrow> int \<Rightarrow> int \<Rightarrow> int \<Rightarrow> 't \<Rightarrow> string \<Rightarrow> int \<Rightarrow> string
     \<Rightarrow> ((intervention \<times> control_lease) \<times> 't) result" where
  "coord_complete_resume T ttl t1 t2 st intervention_id expected_version resolution =
     bind_r (tp_get T st intervention_id) (\<lambda>(current, current_lease).
     bind_r (plan_complete_resume ttl t1 t2 current current_lease expected_version resolution)
       (\<lambda>(replacement, lease). coord_commit T st current current_lease replacement lease))"

definition coord_heartbeat ::
  "'t transition_repository \<Rightarrow> int \<Rightarrow> int \<Rightarrow> int \<Rightarrow> 't \<Rightarrow> string \<Rightarrow> int \<Rightarrow> string
     \<Rightarrow> ((intervention \<times> control_lease) \<times> 't) result" where
  "coord_heartbeat T ttl t1 t2 st intervention_id expected_version operator_id =
     bind_r (tp_get T st intervention_id) (\<lambda>(current, current_lease).
     bind_r (plan_heartbeat ttl t1 t2 current current_lease expected_version operator_id)
       (\<lambda>(replacement, lease). coord_commit T st current current_lease replacement lease))"

definition coord_terminate ::
  "'t transition_repository \<Rightarrow> int \<Rightarrow> int \<Rightarrow> int \<Rightarrow> 't \<Rightarrow> string \<Rightarrow> int \<Rightarrow> string option \<Rightarrow> string
     \<Rightarrow> ((intervention \<times> control_lease) \<times> 't) result" where
  "coord_terminate T ttl t1 t2 st intervention_id expected_version operator_id resolution =
     bind_r (tp_get T st intervention_id) (\<lambda>(current, current_lease).
     bind_r (plan_terminate ttl t1 t2 current current_lease expected_version operator_id resolution)
       (\<lambda>(replacement, lease). coord_commit T st current current_lease replacement lease))"

section \<open>Requests\<close>

text \<open>The coordinator's state-changing methods as one type, to quantify over all of them.\<close>

datatype coord_request =
    ReqClaim int string
  | ReqRelease int string
  | ReqBeginResume int string
  | ReqReopen string
  | ReqCompleteResume int string
  | ReqHeartbeat int string
  | ReqTerminate int "string option" string

fun plan_request ::
  "int \<Rightarrow> int \<Rightarrow> int \<Rightarrow> int \<Rightarrow> coord_request \<Rightarrow> intervention \<Rightarrow> control_lease
     \<Rightarrow> (intervention \<times> control_lease) result" where
  "plan_request ttl t0 t1 t2 (ReqClaim v op) i l = plan_claim ttl t0 t1 t2 i l v op"
| "plan_request ttl t0 t1 t2 (ReqRelease v op) i l = plan_release ttl t1 t2 i l v op"
| "plan_request ttl t0 t1 t2 (ReqBeginResume v op) i l = plan_begin_resume ttl t1 t2 i l v op"
| "plan_request ttl t0 t1 t2 (ReqReopen e) i l = plan_reopen i l e"
| "plan_request ttl t0 t1 t2 (ReqCompleteResume v r) i l = plan_complete_resume ttl t1 t2 i l v r"
| "plan_request ttl t0 t1 t2 (ReqHeartbeat v op) i l = plan_heartbeat ttl t1 t2 i l v op"
| "plan_request ttl t0 t1 t2 (ReqTerminate v op r) i l = plan_terminate ttl t1 t2 i l v op r"

fun coord_run ::
  "'t transition_repository \<Rightarrow> int \<Rightarrow> int \<Rightarrow> int \<Rightarrow> int \<Rightarrow> 't \<Rightarrow> string \<Rightarrow> coord_request
     \<Rightarrow> ((intervention \<times> control_lease) \<times> 't) result" where
  "coord_run T ttl t0 t1 t2 st iid (ReqClaim v op) = coord_claim T ttl t0 t1 t2 st iid v op"
| "coord_run T ttl t0 t1 t2 st iid (ReqRelease v op) = coord_release T ttl t1 t2 st iid v op"
| "coord_run T ttl t0 t1 t2 st iid (ReqBeginResume v op) =
     coord_begin_resume T ttl t1 t2 st iid v op"
| "coord_run T ttl t0 t1 t2 st iid (ReqReopen e) = coord_reopen T st iid e"
| "coord_run T ttl t0 t1 t2 st iid (ReqCompleteResume v r) =
     coord_complete_resume T ttl t1 t2 st iid v r"
| "coord_run T ttl t0 t1 t2 st iid (ReqHeartbeat v op) = coord_heartbeat T ttl t1 t2 st iid v op"
| "coord_run T ttl t0 t1 t2 st iid (ReqTerminate v op r) =
     coord_terminate T ttl t1 t2 st iid v op r"

lemma coord_run_plan:
  "coord_run T ttl t0 t1 t2 st iid req =
     bind_r (tp_get T st iid) (\<lambda>(i, l).
     bind_r (plan_request ttl t0 t1 t2 req i l) (\<lambda>(i', l'). coord_commit T st i l i' l'))"
  by (cases req)
     (simp_all add: coord_claim_def coord_release_def coord_begin_resume_def coord_reopen_def
        coord_complete_resume_def coord_heartbeat_def coord_terminate_def)

end
