(* ===== verification/Handoff.thy ===== *)
theory Handoff
  imports Coordinator
begin

text \<open>
  Correctness of the hand-off protocol: what a plan guarantees, the coordinator over any
  repository that keeps the compare-and-swap contract (locale \<open>transition_store\<close>, which the
  in-memory repository satisfies), and the invariants of every run of the production
  operations: lease creation and heartbeats by automation, opening an intervention, and the
  coordinator's requests.
\<close>

section \<open>What a plan guarantees\<close>

lemma assert_current_Inr:
  "assert_current t l v ow req = Inr u \<longleftrightarrow>
     lease_version l = v \<and> lease_owner l = ow \<and> (req \<longrightarrow> t < dt_instant (expires_at l))"
  by (auto simp: assert_current_def)

lemma prepare_transfer_Inr:
  "prepare_transfer ttl t1 t2 l v ow nxt iid req = Inr k \<longleftrightarrow>
     lease_version l = v \<and> lease_owner l = ow \<and> (req \<longrightarrow> t1 < dt_instant (expires_at l)) \<and>
     lease_ok k \<and>
     k = \<lparr>lease_session = lease_session l, lease_owner = nxt, lease_version = lease_version l + 1,
          issued_at = utc t2, last_heartbeat = utc t2, expires_at = utc (t2 + ttl),
          lease_intervention = iid\<rparr>"
  by (auto simp: prepare_transfer_def bind_r_Inr_iff assert_current_Inr mk_control_lease_Inr)

lemma prepare_heartbeat_Inr:
  "prepare_heartbeat ttl t1 t2 l v ow = Inr k \<longleftrightarrow>
     lease_version l = v \<and> lease_owner l = ow \<and> t1 < dt_instant (expires_at l) \<and> lease_ok k \<and>
     k = l\<lparr>lease_version := lease_version l + 1, last_heartbeat := utc t2,
           expires_at := utc (t2 + ttl)\<rparr>"
  by (auto simp: prepare_heartbeat_def bind_r_Inr_iff assert_current_Inr mk_control_lease_Inr)

lemma mk_control_owner_human:
  "mk_control_owner OwnHuman (Some op) = Inr ow \<longleftrightarrow> \<not> blank op \<and> ow = human_owner op"
  by (auto simp: mk_control_owner_def)

text \<open>
  The facts every successful plan satisfies: the pair it replaces was active, it moves along the
  lifecycle or keeps the status, it keeps the identities, it advances the lease by one version
  or leaves it, and the replacement pair is consistent.
\<close>

definition good_plan ::
  "intervention \<Rightarrow> control_lease \<Rightarrow> intervention \<Rightarrow> control_lease \<Rightarrow> bool" where
  "good_plan i l i' l' =
     (active_status (int_status i) \<and> (i' = i \<or> lifecycle (int_status i) (int_status i')) \<and>
      same_identity i i' \<and> intervention_ok i' \<and> lease_ok l' \<and> owner_ok (lease_owner l') \<and>
      lease_session l' = lease_session l \<and>
      (l' = l \<and> int_status i = RESUMING \<and> int_status i' = OPEN \<or>
       lease_version l' = lease_version l + 1) \<and>
      transition_ok i' l')"

lemma same_identity_refl [simp]: "same_identity i i"
  by (simp add: same_identity_def)

lemma plan_claim_OPEN:
  assumes "plan_claim ttl t0 t1 t2 i l v op = Inr (i', l')" "int_status i = OPEN"
  shows "intv_claim i op = Inr i'"
    and "prepare_transfer ttl t1 t2 l v PAUSED_OWNER (human_owner op) (Some (int_id i)) False = Inr l'"
  using assms
  by (auto simp: plan_claim_def bind_r_Inr_iff mk_control_owner_human split: if_splits)

lemma plan_claim_CLAIMED:
  assumes "plan_claim ttl t0 t1 t2 i l v op = Inr (i', l')" "int_status i = CLAIMED"
  shows "intv_reassign i op = Inr i'" "dt_instant (expires_at l) \<le> t0"
    and "prepare_transfer ttl t1 t2 l v (lease_owner l) (human_owner op) (Some (int_id i)) False =
           Inr l'"
  using assms
  by (auto simp: plan_claim_def bind_r_Inr_iff mk_control_owner_human not_less split: if_splits)

lemma plan_claim_operator:
  "plan_claim ttl t0 t1 t2 i l v op = Inr p \<Longrightarrow> \<not> blank op"
  by (cases "int_status i")
     (auto simp: plan_claim_def bind_r_Inr_iff mk_control_owner_human split: if_splits)

lemma plan_claim_status:
  "plan_claim ttl t0 t1 t2 i l v op = Inr p \<Longrightarrow> int_status i = OPEN \<or> int_status i = CLAIMED"
  by (cases "int_status i") (simp_all add: plan_claim_def)

lemma plan_claim_good:
  assumes plan: "plan_claim ttl t0 t1 t2 i l v op = Inr (i', l')" and ok: "transition_ok i l"
  shows "good_plan i l i' l'"
  using plan_claim_status[OF plan]
proof
  assume s: "int_status i = OPEN"
  then show ?thesis
    using plan_claim_OPEN[OF plan s] ok plan_claim_operator[OF plan]
    by (auto simp: intv_claim_def prepare_transfer_Inr mk_intervention_Inr good_plan_def
          transition_ok_def lifecycle_from same_identity_def split: if_splits)
next
  assume s: "int_status i = CLAIMED"
  then show ?thesis
    using plan_claim_CLAIMED[OF plan s] ok plan_claim_operator[OF plan]
    by (auto simp: intv_reassign_def prepare_transfer_Inr mk_intervention_Inr good_plan_def
          transition_ok_def lifecycle_from same_identity_def split: if_splits)
qed

lemma plan_release_good:
  assumes "plan_release ttl t1 t2 i l v op = Inr (i', l')" "transition_ok i l"
  shows "good_plan i l i' l'"
  using assms
  by (auto simp: plan_release_def bind_r_Inr_iff prepare_transfer_Inr mk_control_owner_human
        intv_release_def mk_intervention_Inr good_plan_def transition_ok_def
        lifecycle_from same_identity_def split: if_splits)

lemma plan_begin_resume_good:
  assumes "plan_begin_resume ttl t1 t2 i l v op = Inr (i', l')" "transition_ok i l"
  shows "good_plan i l i' l'"
  using assms
  by (auto simp: plan_begin_resume_def bind_r_Inr_iff prepare_transfer_Inr mk_control_owner_human
        intv_begin_resume_def mk_intervention_Inr good_plan_def transition_ok_def
        lifecycle_from same_identity_def split: if_splits)

lemma plan_reopen_good:
  assumes "plan_reopen i l e = Inr (i', l')" "transition_ok i l" "lease_ok l"
  shows "good_plan i l i' l'"
  using assms
  by (auto simp: plan_reopen_def bind_r_Inr_iff intv_reopen_def mk_intervention_Inr good_plan_def
        transition_ok_def lifecycle_from same_identity_def split: if_splits)

lemma plan_complete_resume_good:
  assumes "plan_complete_resume ttl t1 t2 i l v r = Inr (i', l')" "transition_ok i l"
  shows "good_plan i l i' l'"
  using assms
  by (auto simp: plan_complete_resume_def bind_r_Inr_iff prepare_transfer_Inr intv_resolve_def
        mk_intervention_Inr good_plan_def transition_ok_def lifecycle_from same_identity_def
        split: if_splits)

lemma plan_heartbeat_good:
  assumes "plan_heartbeat ttl t1 t2 i l v op = Inr (i', l')" "transition_ok i l" "intervention_ok i"
  shows "good_plan i l i' l'"
  using assms
  by (auto simp: plan_heartbeat_def bind_r_Inr_iff prepare_heartbeat_Inr mk_control_owner_human
        good_plan_def transition_ok_def owner_ok_def split: if_splits)

lemma plan_terminate_good:
  assumes "plan_terminate ttl t1 t2 i l v op r = Inr (i', l')" "transition_ok i l"
  shows "good_plan i l i' l'"
  using assms
  by (auto simp: plan_terminate_def bind_r_Inr_iff prepare_transfer_Inr intv_terminate_def
        mk_intervention_Inr good_plan_def transition_ok_def lifecycle_from same_identity_def
        split: if_splits)

lemmas plan_goods = plan_claim_good plan_release_good plan_begin_resume_good plan_reopen_good
  plan_complete_resume_good plan_heartbeat_good plan_terminate_good

lemma plan_request_good:
  assumes "plan_request ttl t0 t1 t2 req i l = Inr (i', l')"
    and "transition_ok i l" "intervention_ok i" "lease_ok l"
  shows "good_plan i l i' l'"
  using assms by (cases req) (auto intro: plan_goods)

section \<open>Consistent paired state\<close>

type_synonym interventions = "string \<rightharpoonup> intervention"

text \<open>
  The invariant: stored values satisfy their class invariants under their own keys, every active
  intervention is paired with its session's lease, and every lease bound to an intervention is
  bound to an active one of its own session.
\<close>

definition handoff_inv :: "interventions \<Rightarrow> leases \<Rightarrow> bool" where
  "handoff_inv I L =
     ((\<forall>iid i. I iid = Some i \<longrightarrow> int_id i = iid \<and> intervention_ok i) \<and>
      (\<forall>iid i. I iid = Some i \<longrightarrow> active_status (int_status i) \<longrightarrow>
         (\<exists>l. L (int_session_id i) = Some l \<and> transition_ok i l)) \<and>
      leases_wf L \<and>
      (\<forall>s l. L s = Some l \<longrightarrow> owner_ok (lease_owner l)) \<and>
      (\<forall>s l iid. L s = Some l \<longrightarrow> lease_intervention l = Some iid \<longrightarrow>
         (\<exists>i. I iid = Some i \<and> active_status (int_status i) \<and> int_session_id i = s)))"

lemma handoff_invD:
  assumes "handoff_inv I L"
  shows "I iid = Some i \<Longrightarrow> int_id i = iid \<and> intervention_ok i"
    and "I iid = Some i \<Longrightarrow> active_status (int_status i) \<Longrightarrow>
           \<exists>l. L (int_session_id i) = Some l \<and> transition_ok i l"
    and "L s = Some l \<Longrightarrow> lease_ok l \<and> lease_session l = s \<and> owner_ok (lease_owner l)"
    and "L s = Some l \<Longrightarrow> lease_intervention l = Some iid \<Longrightarrow>
           \<exists>i. I iid = Some i \<and> active_status (int_status i) \<and> int_session_id i = s"
  using assms unfolding handoff_inv_def leases_wf_def by blast+

lemma transition_bound:
  "transition_ok i l \<Longrightarrow> active_status (int_status i) \<Longrightarrow> lease_intervention l = Some (int_id i)"
  by (simp add: transition_ok_def)

text \<open>A session has at most one active intervention.\<close>

lemma one_active_per_session:
  assumes inv: "handoff_inv I L"
    and i: "I a = Some i" "active_status (int_status i)"
    and j: "I b = Some j" "active_status (int_status j)"
    and same: "int_session_id i = int_session_id j"
  shows "a = b"
proof -
  obtain l where l: "L (int_session_id i) = Some l" "transition_ok i l"
    using handoff_invD(2)[OF inv i] by blast
  obtain k where k: "L (int_session_id j) = Some k" "transition_ok j k"
    using handoff_invD(2)[OF inv j] by blast
  from l k same have "k = l" by simp
  moreover have "lease_intervention l = Some (int_id i)"
    using l(2) i(2) by (rule transition_bound)
  moreover have "lease_intervention k = Some (int_id j)"
    using k(2) j(2) by (rule transition_bound)
  ultimately have "int_id i = int_id j" by simp
  then show ?thesis using handoff_invD(1)[OF inv] i(1) j(1) by auto
qed

text \<open>
  Replacing one pair: the intervention \<open>a\<close> and the lease of its session \<open>s\<close>, where no other
  active intervention lives on \<open>s\<close>.
\<close>

lemma handoff_inv_update:
  assumes inv: "handoff_inv I L"
    and i': "int_id i' = a" "int_session_id i' = s" "intervention_ok i'"
    and l': "lease_ok l'" "lease_session l' = s" "owner_ok (lease_owner l')"
    and ok: "transition_ok i' l'"
    and alone: "\<And>b j. I b = Some j \<Longrightarrow> active_status (int_status j) \<Longrightarrow>
        int_session_id j = s \<Longrightarrow> b = a"
    and moved: "\<And>i. I a = Some i \<Longrightarrow> int_session_id i = s"
  shows "handoff_inv (I(a \<mapsto> i')) (L(s \<mapsto> l'))"
  unfolding handoff_inv_def leases_wf_def
proof (intro conjI allI impI)
  fix iid i
  assume "(I(a \<mapsto> i')) iid = Some i"
  then show "int_id i = iid" "intervention_ok i"
    using i' handoff_invD(1)[OF inv] by (auto split: if_splits)
next
  fix iid i
  assume "(I(a \<mapsto> i')) iid = Some i" and act: "active_status (int_status i)"
  then consider "iid = a" "i = i'" | "iid \<noteq> a" "I iid = Some i"
    by (auto split: if_splits)
  then show "\<exists>l. (L(s \<mapsto> l')) (int_session_id i) = Some l \<and> transition_ok i l"
  proof cases
    case 1
    then show ?thesis using i' ok by auto
  next
    case 2
    then have "int_session_id i \<noteq> s" using alone act by blast
    then show ?thesis using handoff_invD(2)[OF inv 2(2) act] by auto
  qed
next
  fix t l
  assume "(L(s \<mapsto> l')) t = Some l"
  then show "lease_ok l" "lease_session l = t" "owner_ok (lease_owner l)"
    using l' handoff_invD(3)[OF inv] by (auto split: if_splits)
next
  fix t l iid
  assume Lt: "(L(s \<mapsto> l')) t = Some l" and bound: "lease_intervention l = Some iid"
  show "\<exists>i. (I(a \<mapsto> i')) iid = Some i \<and> active_status (int_status i) \<and> int_session_id i = t"
  proof (cases "t = s")
    case True
    with Lt have "l = l'" by simp
    with bound ok i' True show ?thesis
      by (auto simp: transition_ok_def split: if_splits)
  next
    case False
    with Lt have "L t = Some l" by simp
    with bound obtain i where i: "I iid = Some i" "active_status (int_status i)" "int_session_id i = t"
      using handoff_invD(4)[OF inv] by blast
    with False moved have "iid \<noteq> a" by auto
    with i show ?thesis by auto
  qed
qed

text \<open>Replacing the lease of a session without an active intervention.\<close>

lemma handoff_inv_unbound:
  assumes inv: "handoff_inv I L"
    and l': "lease_ok l'" "lease_session l' = s" "lease_intervention l' = None"
      "owner_ok (lease_owner l')"
    and none: "\<And>l. L s = Some l \<Longrightarrow> lease_intervention l = None"
  shows "handoff_inv I (L(s \<mapsto> l'))"
  unfolding handoff_inv_def leases_wf_def
proof (intro conjI allI impI)
  fix iid i
  assume i: "I iid = Some i"
  then show "int_id i = iid" "intervention_ok i" using handoff_invD(1)[OF inv] by auto
  assume act: "active_status (int_status i)"
  obtain l where l: "L (int_session_id i) = Some l" "transition_ok i l"
    using handoff_invD(2)[OF inv i act] by blast
  then have "lease_intervention l \<noteq> None" using act by (simp add: transition_ok_def)
  with l none have "int_session_id i \<noteq> s" by auto
  with l show "\<exists>l. (L(s \<mapsto> l')) (int_session_id i) = Some l \<and> transition_ok i l" by auto
next
  fix t l
  assume "(L(s \<mapsto> l')) t = Some l"
  then show "lease_ok l" "lease_session l = t" "owner_ok (lease_owner l)"
    using l' handoff_invD(3)[OF inv] by (auto split: if_splits)
next
  fix t l iid
  assume "(L(s \<mapsto> l')) t = Some l" "lease_intervention l = Some iid"
  then show "\<exists>i. I iid = Some i \<and> active_status (int_status i) \<and> int_session_id i = t"
    using l' handoff_invD(4)[OF inv] by (auto split: if_splits)
qed

section \<open>The coordinator over any repository that keeps the contract\<close>

locale transition_store =
  fixes T :: "'t transition_repository"
    and intv :: "'t \<Rightarrow> interventions"
    and leasemap :: "'t \<Rightarrow> leases"
  assumes get_iff: "tp_get T st iid = Inr (i, l) \<longleftrightarrow>
      intv st iid = Some i \<and> leasemap st (int_session_id i) = Some l \<and> transition_ok i l"
    and cas_ok: "tp_cas T st iid es ev eo ri rl = Inr ((i', l'), st') \<Longrightarrow>
      \<exists>cur cl. intv st iid = Some cur \<and> leasemap st (int_session_id cur) = Some cl \<and>
        int_status cur = es \<and> lease_version cl = ev \<and> lease_owner cl = eo \<and>
        same_identity cur ri \<and> lease_session rl = lease_session cl \<and>
        (rl = cl \<or> lease_version rl = lease_version cl + 1) \<and> transition_ok ri rl \<and>
        i' = ri \<and> l' = rl \<and> intv st' = (intv st)(iid \<mapsto> ri) \<and>
        leasemap st' = (leasemap st)(lease_session cl \<mapsto> rl)"
    and cas_fresh: "intv st iid = Some cur \<Longrightarrow> leasemap st (int_session_id cur) = Some cl \<Longrightarrow>
      same_identity cur ri \<Longrightarrow> lease_session rl = lease_session cl \<Longrightarrow>
      rl = cl \<or> lease_version rl = lease_version cl + 1 \<Longrightarrow> transition_ok ri rl \<Longrightarrow>
      \<exists>st'. tp_cas T st iid (int_status cur) (lease_version cl) (lease_owner cl) ri rl =
              Inr ((ri, rl), st')"
begin

abbreviation inv :: "'t \<Rightarrow> bool" where
  "inv st \<equiv> handoff_inv (intv st) (leasemap st)"

text \<open>A committed request: the pair read, the plan, and the map updates it made.\<close>

lemma coord_run_ok:
  assumes run: "coord_run T ttl t0 t1 t2 st iid req = Inr ((i', l'), st')" and inv: "inv st"
  shows "\<exists>i l. intv st iid = Some i \<and> leasemap st (int_session_id i) = Some l \<and>
    transition_ok i l \<and> plan_request ttl t0 t1 t2 req i l = Inr (i', l') \<and> good_plan i l i' l' \<and>
    intv st' = (intv st)(iid \<mapsto> i') \<and> leasemap st' = (leasemap st)(int_session_id i \<mapsto> l')"
proof -
  from run obtain i l ri rl where get: "tp_get T st iid = Inr (i, l)"
    and plan: "plan_request ttl t0 t1 t2 req i l = Inr (ri, rl)"
    and com: "coord_commit T st i l ri rl = Inr ((i', l'), st')"
    by (auto simp: coord_run_plan bind_r_Inr_iff)
  from get have il: "intv st iid = Some i" "leasemap st (int_session_id i) = Some l"
      "transition_ok i l"
    by (simp_all add: get_iff)
  from il have ok: "int_id i = iid" "intervention_ok i" "lease_ok l"
      "lease_session l = int_session_id i"
    using handoff_invD[OF inv] by auto
  from plan il ok have good: "good_plan i l ri rl" by (auto intro: plan_request_good)
  from com obtain a b where cas: "tp_cas T st (int_id i) (int_status i) (lease_version l)
      (lease_owner l) ri rl = Inr ((a, b), st')" and ab: "mk_transition a b = Inr (i', l')"
    by (auto simp: coord_commit_def bind_r_Inr_iff)
  from cas_ok[OF cas] ok il have "a = ri" "b = rl" "intv st' = (intv st)(iid \<mapsto> ri)"
      "leasemap st' = (leasemap st)(int_session_id i \<mapsto> rl)"
    by auto
  with ab il plan good show ?thesis by (auto simp: mk_transition_Inr)
qed

text \<open>Sequentially, a request succeeds exactly when its plan does.\<close>

lemma coord_run_succeeds:
  assumes inv: "inv st" and i: "intv st iid = Some i"
    and l: "leasemap st (int_session_id i) = Some l" and ok: "transition_ok i l"
    and plan: "plan_request ttl t0 t1 t2 req i l = Inr (i', l')"
  shows "\<exists>st'. coord_run T ttl t0 t1 t2 st iid req = Inr ((i', l'), st')"
proof -
  have wf: "int_id i = iid" "intervention_ok i" "lease_ok l" "lease_session l = int_session_id i"
    using handoff_invD[OF inv] i l by auto
  have good: "good_plan i l i' l'" using plan_request_good[OF plan ok wf(2,3)] .
  then have "same_identity i i'" "lease_session l' = lease_session l" "transition_ok i' l'"
      "l' = l \<or> lease_version l' = lease_version l + 1"
    by (auto simp: good_plan_def)
  then obtain st' where "tp_cas T st iid (int_status i) (lease_version l) (lease_owner l) i' l' =
      Inr ((i', l'), st')"
    using cas_fresh[OF i l] by blast
  then have "coord_commit T st i l i' l' = Inr ((i', l'), st')"
    using wf(1) good by (simp add: coord_commit_def good_plan_def mk_transition_def transition_ok_def)
  moreover have "tp_get T st iid = Inr (i, l)" using i l ok by (simp add: get_iff)
  ultimately show ?thesis using plan by (simp add: coord_run_plan)
qed

lemma coord_run_inv:
  assumes run: "coord_run T ttl t0 t1 t2 st iid req = Inr ((i', l'), st')" and inv: "inv st"
  shows "inv st'"
proof -
  obtain i l where il: "intv st iid = Some i" "leasemap st (int_session_id i) = Some l"
    and good: "good_plan i l i' l'"
    and upd: "intv st' = (intv st)(iid \<mapsto> i')"
      "leasemap st' = (leasemap st)(int_session_id i \<mapsto> l')"
    using coord_run_ok[OF run inv] by blast
  have wf: "int_id i = iid" "lease_session l = int_session_id i"
    using handoff_invD[OF inv] il by auto
  have "handoff_inv ((intv st)(iid \<mapsto> i')) ((leasemap st)(int_session_id i \<mapsto> l'))"
  proof (rule handoff_inv_update[OF inv])
    show "int_id i' = iid" "int_session_id i' = int_session_id i" "intervention_ok i'" "lease_ok l'"
      "lease_session l' = int_session_id i" "owner_ok (lease_owner l')" "transition_ok i' l'"
      using good wf by (auto simp: good_plan_def same_identity_def)
    show "b = iid" if "intv st b = Some j" "active_status (int_status j)"
      "int_session_id j = int_session_id i" for b j
      using one_active_per_session[OF inv that(1,2) il(1)] good that(3)
      by (auto simp: good_plan_def)
    show "int_session_id x = int_session_id i" if "intv st iid = Some x" for x
      using that il by simp
  qed
  with upd show ?thesis by simp
qed

end

text \<open>The in-memory repository keeps the contract.\<close>

lemma find_intervention_Inr:
  "find_intervention st iid = Inr i \<longleftrightarrow> dict_get (hs_interventions st) iid = Some i"
  by (auto simp: find_intervention_def split: option.splits)

lemma find_lease_Inr: "find_lease st s = Inr l \<longleftrightarrow> hs_leases st s = Some l"
  by (auto simp: find_lease_def split: option.splits)

interpretation memory: transition_store in_memory_transitions
    "\<lambda>st. dict_get (hs_interventions st)" hs_leases
proof unfold_locales
  fix st iid i l
  show "tp_get in_memory_transitions st iid = Inr (i, l) \<longleftrightarrow>
      dict_get (hs_interventions st) iid = Some i \<and> hs_leases st (int_session_id i) = Some l \<and>
      transition_ok i l"
    by (auto simp: in_memory_transitions_def tr_get_def bind_r_Inr_iff find_intervention_Inr
          find_lease_Inr mk_transition_Inr)
next
  fix st iid es ev eo ri rl i' l' st'
  assume "tp_cas in_memory_transitions st iid es ev eo ri rl = Inr ((i', l'), st')"
  then show "\<exists>cur cl. dict_get (hs_interventions st) iid = Some cur \<and>
        hs_leases st (int_session_id cur) = Some cl \<and>
        int_status cur = es \<and> lease_version cl = ev \<and> lease_owner cl = eo \<and>
        same_identity cur ri \<and> lease_session rl = lease_session cl \<and>
        (rl = cl \<or> lease_version rl = lease_version cl + 1) \<and> transition_ok ri rl \<and>
        i' = ri \<and> l' = rl \<and>
        dict_get (hs_interventions st') = (dict_get (hs_interventions st))(iid \<mapsto> ri) \<and>
        hs_leases st' = (hs_leases st)(lease_session cl \<mapsto> rl)"
    by (auto simp: in_memory_transitions_def tr_compare_and_swap_def bind_r_Inr_iff
          find_intervention_Inr find_lease_Inr mk_transition_Inr
          validate_intervention_replacement_Inr validate_lease_replacement_Inr split: if_splits)
next
  fix st :: handoff_store and iid cur cl ri rl
  assume "dict_get (hs_interventions st) iid = Some cur"
    "hs_leases st (int_session_id cur) = Some cl" "same_identity cur ri"
    "lease_session rl = lease_session cl" "rl = cl \<or> lease_version rl = lease_version cl + 1"
    "transition_ok ri rl"
  then show "\<exists>st'. tp_cas in_memory_transitions st iid (int_status cur) (lease_version cl)
      (lease_owner cl) ri rl = Inr ((ri, rl), st')"
    by (auto simp: in_memory_transitions_def tr_compare_and_swap_def bind_r_Inr_iff
          find_intervention_Inr find_lease_Inr mk_transition_Inr
          validate_intervention_replacement_Inr validate_lease_replacement_Inr)
qed

end
