(* ===== verification/HandoffMachine.thy ===== *)
theory HandoffMachine
  imports Handoff
begin

text \<open>
  The hand-off as a state machine over the shared in-memory state: automation creates and renews
  leases (\<^verbatim>\<open>replay/engine.py\<close>, \<^verbatim>\<open>discovery/engine.py\<close>), the router
  opens interventions, and operators and the resume workflow go through the coordinator. Every
  clock reading is arbitrary, so the invariants hold under any interleaving and any passage of
  time.
\<close>

section \<open>The machine\<close>

inductive handoff_step :: "int \<Rightarrow> handoff_store \<Rightarrow> handoff_store \<Rightarrow> bool" for ttl where
  hs_create: "create_for_automation in_memory_leases ttl t (hs_leases st) s = Inr (l, L') \<Longrightarrow>
     handoff_step ttl st (st\<lparr>hs_leases := L'\<rparr>)"
| hs_heartbeat: "svc_heartbeat in_memory_leases ttl t0 t1 t2 (hs_leases st) s v AUTOMATION_OWNER =
       Inr (l, L') \<Longrightarrow> handoff_step ttl st (st\<lparr>hs_leases := L'\<rparr>)"
| hs_open: "router_open ttl t0 t1 t2 st iid rid s v code step ob ctx expl = Inr (iid', st') \<Longrightarrow>
     handoff_step ttl st st'"
| hs_request: "coord_run in_memory_transitions ttl t0 t1 t2 st iid req = Inr (p, st') \<Longrightarrow>
     handoff_step ttl st st'"

inductive handoff_run :: "int \<Rightarrow> handoff_store \<Rightarrow> handoff_store \<Rightarrow> bool" for ttl where
  hr_refl: "handoff_run ttl st st"
| hr_step: "handoff_run ttl st st' \<Longrightarrow> handoff_step ttl st' st'' \<Longrightarrow> handoff_run ttl st st''"

definition reachable :: "int \<Rightarrow> handoff_store \<Rightarrow> bool" where
  "reachable ttl st = handoff_run ttl empty_handoff_store st"

abbreviation store_inv :: "handoff_store \<Rightarrow> bool" where
  "store_inv st \<equiv> handoff_inv (dict_get (hs_interventions st)) (hs_leases st)"

section \<open>The invariant of every run\<close>

lemma transition_ok_paused:
  "transition_ok i l \<Longrightarrow> int_status i = OPEN \<Longrightarrow> owner_kind (lease_owner l) = OwnPaused"
  by (simp add: transition_ok_def)

lemma unbound_automation:
  "lease_ok l \<Longrightarrow> owner_kind (lease_owner l) = OwnAutomation \<Longrightarrow> lease_intervention l = None"
  by (simp add: lease_ok_def)

lemma create_inv:
  assumes "create_for_automation in_memory_leases ttl t (hs_leases st) s = Inr (l, L')"
    and inv: "store_inv st"
  shows "store_inv (st\<lparr>hs_leases := L'\<rparr>)"
proof -
  note ok = memory_leases.create_automation_ok[OF assms(1)]
  then have "lease_intervention l = None" by (auto intro: unbound_automation)
  with ok have "handoff_inv (dict_get (hs_interventions st)) ((hs_leases st)(s \<mapsto> l))"
    by (intro handoff_inv_unbound[OF inv]) auto
  with ok show ?thesis by simp
qed

lemma automation_heartbeat_inv:
  assumes "svc_heartbeat in_memory_leases ttl t0 t1 t2 (hs_leases st) s v AUTOMATION_OWNER =
      Inr (l, L')"
    and inv: "store_inv st"
  shows "store_inv (st\<lparr>hs_leases := L'\<rparr>)"
proof -
  obtain cur where cur: "hs_leases st s = Some cur" "lease_owner cur = AUTOMATION_OWNER"
      "lease_session l = lease_session cur" "lease_ok l" "lease_owner l = AUTOMATION_OWNER"
      "lease_intervention l = lease_intervention cur" "L' = (hs_leases st)(s \<mapsto> l)"
    using memory_leases.heartbeat_ok[OF assms(1)] by blast
  from handoff_invD(3)[OF inv cur(1)] have wf: "lease_ok cur" "lease_session cur = s" by auto
  from wf cur(2) have "lease_intervention cur = None" by (auto intro: unbound_automation)
  with cur wf have "handoff_inv (dict_get (hs_interventions st)) ((hs_leases st)(s \<mapsto> l))"
    by (intro handoff_inv_unbound[OF inv]) auto
  with cur(7) show ?thesis by simp
qed

text \<open>What creation of the pair does.\<close>

lemma create_paused_Inr:
  "tr_create_paused st i ob v ow l = Inr (p, st') \<longleftrightarrow>
     dict_get (hs_interventions st) (int_id i) = None \<and>
     (\<exists>cur. hs_leases st (int_session_id i) = Some cur \<and> lease_version cur = v \<and>
        lease_owner cur = ow \<and> obs_session_id ob = int_session_id i \<and>
        lease_session l = lease_session cur \<and>
        (l = cur \<or> lease_version l = lease_version cur + 1)) \<and>
     transition_ok i l \<and> p = (i, l) \<and>
     st' = st\<lparr>hs_interventions := dict_set (int_id i) i (hs_interventions st),
              hs_observations := dict_set (int_id i) ob (hs_observations st),
              hs_leases := (hs_leases st)(int_session_id i \<mapsto> l)\<rparr>"
  by (cases p; cases "hs_leases st (int_session_id i)")
     (auto simp: tr_create_paused_def find_lease_def bind_r_Inr_iff mk_transition_Inr
        validate_lease_replacement_Inr)

text \<open>The intervention that opening stores.\<close>

definition opened_intervention ::
  "string \<Rightarrow> string \<Rightarrow> string \<Rightarrow> int \<Rightarrow> string \<Rightarrow> string option \<Rightarrow> intervention_context
     \<Rightarrow> string option \<Rightarrow> intervention" where
  "opened_intervention iid rid sid t0 code step ctx explanation =
     \<lparr>int_id = iid, int_run_id = rid, int_session_id = sid, int_trigger_code = code,
      int_explanation =
        (if truthy explanation then the explanation
         else if truthy step then ''Automation paused safely at '' @ the step @ ''.''
         else ''Automation paused safely.''),
      int_status = OPEN, int_created_at = utc t0, int_context = ctx, int_operator_id = None,
      int_resolution = None\<rparr>"

lemma bind_parse_id_Inr:
  "bind_r (parse_id v k) f = Inr y \<longleftrightarrow> parse_id v k = Inr v \<and> f v = Inr y"
  by (cases "parse_id v k") (auto dest: parse_id_value)

lemma router_open_unfold:
  "router_open ttl t0 t1 t2 st iid rid s v code step ob ctx expl = Inr p \<longleftrightarrow>
     is_id INTERVENTION iid \<and> is_id RUN rid \<and> is_id SESSION s \<and> obs_session_id ob = s \<and>
     bind_r (mk_intervention (opened_intervention iid rid s t0 code step ctx expl)) (\<lambda>i.
     bind_r (find_lease st s) (\<lambda>cur.
     bind_r (prepare_transfer ttl t1 t2 cur v AUTOMATION_OWNER PAUSED_OWNER (Some iid) True) (\<lambda>l.
     bind_r (tr_create_paused st i ob v AUTOMATION_OWNER l) (\<lambda>(_, st').
     Inr (iid, st'))))) = Inr p"
  unfolding router_open_def Let_def bind_parse_id_Inr opened_intervention_def
  by (cases "obs_session_id ob = s") simp_all

lemma router_open_Inr:
  assumes "router_open ttl t0 t1 t2 st iid rid s v code step ob ctx expl = Inr (iid', st')"
  defines "i \<equiv> opened_intervention iid rid s t0 code step ctx expl"
  obtains cur l where "iid' = iid" "intervention_ok i" "hs_leases st s = Some cur"
    "prepare_transfer ttl t1 t2 cur v AUTOMATION_OWNER PAUSED_OWNER (Some iid) True = Inr l"
    "tr_create_paused st i ob v AUTOMATION_OWNER l = Inr ((i, l), st')"
proof -
  from assms(1) obtain j cur l p st'' where j: "mk_intervention i = Inr j"
    and cur: "find_lease st s = Inr cur"
    and l: "prepare_transfer ttl t1 t2 cur v AUTOMATION_OWNER PAUSED_OWNER (Some iid) True = Inr l"
    and c: "tr_create_paused st j ob v AUTOMATION_OWNER l = Inr (p, st'')"
    and e: "iid' = iid" "st' = st''"
    unfolding router_open_unfold i_def by (fastforce simp: bind_r_Inr_iff)
  from j have "j = i" "intervention_ok i" by (simp_all add: mk_intervention_Inr)
  moreover from c \<open>j = i\<close> have "p = (i, l)" unfolding create_paused_Inr by blast
  ultimately show ?thesis using that cur l c e by (simp add: find_lease_Inr)
qed

lemma open_inv:
  assumes op: "router_open ttl t0 t1 t2 st iid rid s v code step ob ctx expl = Inr (iid', st')"
    and inv: "store_inv st"
  shows "store_inv st'"
proof -
  define i where "i = opened_intervention iid rid s t0 code step ctx expl"
  obtain cur l where ok: "intervention_ok i" "hs_leases st s = Some cur"
    and tr: "prepare_transfer ttl t1 t2 cur v AUTOMATION_OWNER PAUSED_OWNER (Some iid) True = Inr l"
    and cp: "tr_create_paused st i ob v AUTOMATION_OWNER l = Inr ((i, l), st')"
    using router_open_Inr[OF op] unfolding i_def by blast
  have i: "int_id i = iid" "int_session_id i = s" "int_status i = OPEN"
    by (simp_all add: i_def opened_intervention_def)
  from tr have l: "lease_owner cur = AUTOMATION_OWNER" "lease_ok l"
      "lease_session l = lease_session cur" "lease_owner l = PAUSED_OWNER"
    unfolding prepare_transfer_Inr by auto
  from cp i have new: "dict_get (hs_interventions st) iid = None" "transition_ok i l"
      "st' = st\<lparr>hs_interventions := dict_set iid i (hs_interventions st),
              hs_observations := dict_set iid ob (hs_observations st),
              hs_leases := (hs_leases st)(s \<mapsto> l)\<rparr>"
    by (simp_all add: create_paused_Inr)
  from handoff_invD(3)[OF inv ok(2)] have cur: "lease_ok cur" "lease_session cur = s" by auto
  with l(1) have free: "lease_intervention cur = None" by (auto intro: unbound_automation)
  have "handoff_inv ((dict_get (hs_interventions st))(iid \<mapsto> i)) ((hs_leases st)(s \<mapsto> l))"
  proof (rule handoff_inv_update[OF inv])
    show "b = iid" if j: "dict_get (hs_interventions st) b = Some j"
      "active_status (int_status j)" "int_session_id j = s" for b j
    proof -
      obtain k where "hs_leases st (int_session_id j) = Some k" "transition_ok j k"
        using handoff_invD(2)[OF inv j(1,2)] by blast
      with j ok(2) free transition_bound[of j k] show ?thesis by auto
    qed
    show "int_session_id x = s" if "dict_get (hs_interventions st) iid = Some x" for x
      using that new(1) by simp
  qed (use i ok l cur new in simp_all)
  with new(3) show ?thesis by simp
qed

lemma handoff_step_inv: "handoff_step ttl st st' \<Longrightarrow> store_inv st \<Longrightarrow> store_inv st'"
proof (induction rule: handoff_step.induct)
  case (hs_create t st s l L')
  then show ?case by (rule create_inv)
next
  case (hs_heartbeat t0 t1 t2 st s v l L')
  then show ?case by (rule automation_heartbeat_inv)
next
  case (hs_open t0 t1 t2 st iid rid s v code step ob ctx expl iid' st')
  then show ?case by (rule open_inv)
next
  case (hs_request t0 t1 t2 st iid req p st')
  then show ?case by (cases p) (auto intro: memory.coord_run_inv)
qed

lemma handoff_run_inv: "handoff_run ttl st st' \<Longrightarrow> store_inv st \<Longrightarrow> store_inv st'"
  by (induction rule: handoff_run.induct) (auto intro: handoff_step_inv)

lemma empty_store_inv [simp]: "store_inv empty_handoff_store"
  by (simp add: handoff_inv_def leases_wf_def empty_handoff_store_def)

lemma reachable_inv: "reachable ttl st \<Longrightarrow> store_inv st"
  unfolding reachable_def by (erule handoff_run_inv) (rule empty_store_inv)

section \<open>One step, seen from one session\<close>

text \<open>
  A step replaces the lease of one session by a later version or keeps every lease; it keeps the
  stored interventions except one, which it adds as open or moves along the lifecycle.
\<close>

lemma leases_update_advance:
  "L s = Some cur \<Longrightarrow> l = cur \<or> lease_version l = lease_version cur + 1 \<Longrightarrow>
     versions_advance L (L(s \<mapsto> l))"
  by (auto simp: versions_advance_def)

lemma request_effect:
  assumes "coord_run in_memory_transitions ttl t0 t1 t2 st iid req = Inr (p, st')" "store_inv st"
  obtains i l where "dict_get (hs_interventions st) iid = Some i"
    "hs_leases st (int_session_id i) = Some l" "transition_ok i l"
    "plan_request ttl t0 t1 t2 req i l = Inr p" "good_plan i l (fst p) (snd p)"
    "dict_get (hs_interventions st') = (dict_get (hs_interventions st))(iid \<mapsto> fst p)"
    "hs_leases st' = (hs_leases st)(int_session_id i \<mapsto> snd p)"
  using memory.coord_run_ok[of ttl t0 t1 t2 st iid req "fst p" "snd p" st'] assms by auto

lemma open_effect:
  assumes "router_open ttl t0 t1 t2 st iid rid s v code step ob ctx expl = Inr (iid', st')"
  obtains i l cur where "int_id i = iid" "int_session_id i = s" "int_status i = OPEN"
    "dict_get (hs_interventions st) iid = None" "hs_leases st s = Some cur"
    "lease_version cur = v" "lease_owner cur = AUTOMATION_OWNER" "t1 < dt_instant (expires_at cur)"
    "lease_version l = v + 1" "transition_ok i l"
    "dict_get (hs_interventions st') = (dict_get (hs_interventions st))(iid \<mapsto> i)"
    "hs_leases st' = (hs_leases st)(s \<mapsto> l)"
proof -
  define i where "i = opened_intervention iid rid s t0 code step ctx expl"
  obtain cur l where *: "hs_leases st s = Some cur"
      "prepare_transfer ttl t1 t2 cur v AUTOMATION_OWNER PAUSED_OWNER (Some iid) True = Inr l"
      "tr_create_paused st i ob v AUTOMATION_OWNER l = Inr ((i, l), st')"
    using router_open_Inr[OF assms] unfolding i_def by blast
  have i: "int_id i = iid" "int_session_id i = s" "int_status i = OPEN"
    by (simp_all add: i_def opened_intervention_def)
  show ?thesis
    by (rule that[of i cur l]) (use * i in \<open>auto simp: create_paused_Inr prepare_transfer_Inr\<close>)
qed

lemma handoff_step_advance:
  assumes "handoff_step ttl st st'" "store_inv st"
  shows "versions_advance (hs_leases st) (hs_leases st')"
  using assms
proof (induction rule: handoff_step.induct)
  case (hs_create t st s l L')
  then show ?case by (auto dest: memory_leases.create_moves intro: lease_move_advance)
next
  case (hs_heartbeat t0 t1 t2 st s v l L')
  then show ?case by (auto dest: memory_leases.heartbeat_moves intro: lease_move_advance)
next
  case (hs_open t0 t1 t2 st iid rid s v code step ob ctx expl iid' st')
  from hs_open.hyps show ?case
  proof (rule open_effect)
    fix a l cur
    assume *: "hs_leases st s = Some cur" "lease_version cur = v" "lease_version l = v + 1"
      and st': "hs_leases st' = (hs_leases st)(s \<mapsto> l)"
    show ?thesis unfolding st' using * by (intro leases_update_advance) auto
  qed
next
  case (hs_request t0 t1 t2 st iid req p st')
  obtain i l where il: "hs_leases st (int_session_id i) = Some l" "good_plan i l (fst p) (snd p)"
    and st': "hs_leases st' = (hs_leases st)(int_session_id i \<mapsto> snd p)"
    using request_effect[OF hs_request.hyps hs_request.prems] by blast
  from il(2) have "snd p = l \<or> lease_version (snd p) = lease_version l + 1"
    by (auto simp: good_plan_def)
  with il(1) show ?case unfolding st' by (rule leases_update_advance)
qed

lemma handoff_run_advance:
  "handoff_run ttl st st' \<Longrightarrow> store_inv st \<Longrightarrow> versions_advance (hs_leases st) (hs_leases st')"
proof (induction rule: handoff_run.induct)
  case (hr_step st st' st'')
  then have "store_inv st'" by (blast intro: handoff_run_inv)
  with hr_step show ?case by (blast intro: versions_advance_trans handoff_step_advance)
qed simp

text \<open>What one step does to a stored intervention.\<close>

definition evolves :: "intervention \<Rightarrow> intervention \<Rightarrow> bool" where
  "evolves i j =
     (j = i \<or> active_status (int_status i) \<and> lifecycle (int_status i) (int_status j) \<and>
              same_identity i j)"

lemma handoff_step_evolves:
  assumes "handoff_step ttl st st'" "store_inv st" "dict_get (hs_interventions st) iid = Some i"
  obtains j where "dict_get (hs_interventions st') iid = Some j" "evolves i j"
    "j = i \<or> hs_leases st' (int_session_id i) \<noteq> hs_leases st (int_session_id i) \<or>
       int_status i = RESUMING \<and> int_status j = OPEN"
  using assms
proof (induction rule: handoff_step.induct)
  case (hs_create t st s l L')
  then show ?case by (auto simp: evolves_def)
next
  case (hs_heartbeat t0 t1 t2 st s v l L')
  then show ?case by (auto simp: evolves_def)
next
  case (hs_open t0 t1 t2 st iid' rid s v code step ob ctx expl iid'' st')
  from hs_open.hyps show ?case
  proof (rule open_effect)
    fix a b c
    assume *: "dict_get (hs_interventions st) iid' = None"
      "dict_get (hs_interventions st') = (dict_get (hs_interventions st))(iid' \<mapsto> a)"
    with hs_open.prems(3) have "dict_get (hs_interventions st') iid = Some i" by auto
    then show ?thesis by (rule hs_open.prems(1)) (simp_all add: evolves_def)
  qed
next
  case (hs_request t0 t1 t2 st iid' req p st')
  obtain k l where k: "dict_get (hs_interventions st) iid' = Some k"
      "hs_leases st (int_session_id k) = Some l" "good_plan k l (fst p) (snd p)"
      "dict_get (hs_interventions st') = (dict_get (hs_interventions st))(iid' \<mapsto> fst p)"
      "hs_leases st' = (hs_leases st)(int_session_id k \<mapsto> snd p)"
    using request_effect[OF hs_request.hyps hs_request.prems(2)] by blast
  show ?case
  proof (cases "iid = iid'")
    case True
    with k hs_request.prems have "k = i" by simp
    from k(3) \<open>k = i\<close> have moved: "evolves i (fst p)"
        "fst p = i \<or> snd p \<noteq> l \<or> int_status i = RESUMING \<and> int_status (fst p) = OPEN"
      by (auto simp: good_plan_def evolves_def)
    show ?thesis
      by (rule hs_request.prems(1)[of "fst p"]) (use moved k True \<open>k = i\<close> in auto)
  next
    case False
    with k hs_request.prems show ?thesis by (auto simp: evolves_def)
  qed
qed

inductive evolves_star :: "intervention \<Rightarrow> intervention \<Rightarrow> bool" where
  es_refl: "evolves_star i i"
| es_step: "evolves_star i j \<Longrightarrow> evolves j k \<Longrightarrow> evolves_star i k"

lemma evolves_identity: "evolves i j \<Longrightarrow> same_identity i j"
  by (auto simp: evolves_def)

lemma same_identity_trans: "same_identity i j \<Longrightarrow> same_identity j k \<Longrightarrow> same_identity i k"
  by (simp add: same_identity_def)

lemma evolves_star_identity: "evolves_star i j \<Longrightarrow> same_identity i j"
  by (induction rule: evolves_star.induct) (auto intro: same_identity_trans evolves_identity)

lemma evolves_star_terminal: "evolves_star i j \<Longrightarrow> \<not> active_status (int_status i) \<Longrightarrow> j = i"
  by (induction rule: evolves_star.induct) (auto simp: evolves_def)

lemma handoff_run_evolves:
  assumes "handoff_run ttl st st'" "store_inv st" "dict_get (hs_interventions st) iid = Some i"
  shows "\<exists>j. dict_get (hs_interventions st') iid = Some j \<and> evolves_star i j"
  using assms
proof (induction rule: handoff_run.induct)
  case (hr_refl st)
  then show ?case by (auto intro: es_refl)
next
  case (hr_step st st' st'')
  then obtain j where j: "dict_get (hs_interventions st') iid = Some j" "evolves_star i j" by blast
  have "store_inv st'" using hr_step by (blast intro: handoff_run_inv)
  then obtain k where "dict_get (hs_interventions st'') iid = Some k" "evolves j k"
    using handoff_step_evolves[OF hr_step.hyps(2) _ j(1)] by blast
  with j show ?case by (blast intro: es_step)
qed

text \<open>
  While a session keeps the very same lease, its intervention changes only by a reopening.
\<close>

lemma versions_advance_same:
  assumes "versions_advance L L'" "versions_advance L' L''" "L s = Some l" "L'' s = Some l"
  shows "L' s = Some l"
proof -
  from assms(1,3) obtain l' where l': "L' s = Some l'" "l' = l \<or> lease_version l < lease_version l'"
    unfolding versions_advance_def by blast
  with assms(2,4) have "l = l' \<or> lease_version l' < lease_version l"
    unfolding versions_advance_def by fastforce
  with l' show ?thesis by auto
qed

lemma same_lease_same_intervention:
  assumes "handoff_run ttl st st'" "store_inv st" "dict_get (hs_interventions st) iid = Some i"
    and "hs_leases st (int_session_id i) = Some l" "hs_leases st' (int_session_id i) = Some l"
  shows "\<exists>j. dict_get (hs_interventions st') iid = Some j \<and>
    (j = i \<or> int_status i = RESUMING \<and> int_status j = OPEN) \<and>
    int_session_id j = int_session_id i"
  using assms
proof (induction rule: handoff_run.induct)
  case (hr_refl st)
  then show ?case by auto
next
  case (hr_step st st' st'')
  have inv: "store_inv st'" using hr_step by (blast intro: handoff_run_inv)
  have adv: "versions_advance (hs_leases st) (hs_leases st')"
    using handoff_run_advance[OF hr_step.hyps(1) hr_step.prems(1)] .
  have adv': "versions_advance (hs_leases st') (hs_leases st'')"
    using handoff_step_advance[OF hr_step.hyps(2) inv] .
  have same: "hs_leases st' (int_session_id i) = Some l"
    using versions_advance_same[OF adv adv' hr_step.prems(3,4)] .
  then obtain j where j: "dict_get (hs_interventions st') iid = Some j"
      "j = i \<or> int_status i = RESUMING \<and> int_status j = OPEN" "int_session_id j = int_session_id i"
    using hr_step.IH[OF hr_step.prems(1-3)] by blast
  obtain k where k: "dict_get (hs_interventions st'') iid = Some k" "evolves j k"
      "k = j \<or> hs_leases st'' (int_session_id j) \<noteq> hs_leases st' (int_session_id j) \<or>
       int_status j = RESUMING \<and> int_status k = OPEN"
    using handoff_step_evolves[OF hr_step.hyps(2) inv j(1)] by blast
  from k(2) j(3) have "int_session_id k = int_session_id i"
    by (auto dest!: evolves_identity simp: same_identity_def)
  with k(1,3) j(2,3) same hr_step.prems(4) show ?case by auto
qed

end
