(* ===== verification/HandoffGuarantees.thy ===== *)
theory HandoffGuarantees
  imports HandoffMachine
begin

text \<open>
  The guarantees of the hand-off: consistency of every reachable store, exclusive control,
  atomic commits, refusal of stale commands, liveness of claims, and the two ways in which the
  pairing of interventions and leases gets in the operator's way. The witnesses run the machine
  on a concrete session through an executable script of events.
\<close>

section \<open>Scripts of events\<close>

datatype handoff_event =
    EvCreate int string
  | EvHeartbeat int int int string int
  | EvOpen int int int string string string int string "string option" normalized_observation
      intervention_context "string option"
  | EvRequest int int int string coord_request

text \<open>One event; an operation that raises leaves the store as it was.\<close>

fun handoff_exec :: "int \<Rightarrow> handoff_event \<Rightarrow> handoff_store \<Rightarrow> handoff_store" where
  "handoff_exec ttl (EvCreate t s) st =
     (case create_for_automation in_memory_leases ttl t (hs_leases st) s of
        Inr (l, L') \<Rightarrow> st\<lparr>hs_leases := L'\<rparr> | Inl e \<Rightarrow> st)"
| "handoff_exec ttl (EvHeartbeat t0 t1 t2 s v) st =
     (case svc_heartbeat in_memory_leases ttl t0 t1 t2 (hs_leases st) s v AUTOMATION_OWNER of
        Inr (l, L') \<Rightarrow> st\<lparr>hs_leases := L'\<rparr> | Inl e \<Rightarrow> st)"
| "handoff_exec ttl (EvOpen t0 t1 t2 iid rid s v code step ob ctx expl) st =
     (case router_open ttl t0 t1 t2 st iid rid s v code step ob ctx expl of
        Inr (iid', st') \<Rightarrow> st' | Inl e \<Rightarrow> st)"
| "handoff_exec ttl (EvRequest t0 t1 t2 iid req) st =
     (case coord_run in_memory_transitions ttl t0 t1 t2 st iid req of
        Inr (p, st') \<Rightarrow> st' | Inl e \<Rightarrow> st)"

lemma handoff_exec_run: "handoff_run ttl st (handoff_exec ttl ev st)"
  by (cases ev)
     (auto split: sum.splits intro: handoff_run.intros handoff_step.intros)

lemma handoff_run_trans:
  assumes "handoff_run ttl st' st''" "handoff_run ttl st st'"
  shows "handoff_run ttl st st''"
  using assms by (induction rule: handoff_run.induct) (auto intro: hr_step)

lemma handoff_fold_run: "handoff_run ttl st (fold (handoff_exec ttl) evs st)"
proof (induction evs arbitrary: st)
  case (Cons ev evs)
  then show ?case by (auto intro: handoff_run_trans[OF _ handoff_exec_run])
qed (simp add: hr_refl)

definition handoff_execs :: "int \<Rightarrow> handoff_event list \<Rightarrow> handoff_store" where
  "handoff_execs ttl evs = fold (handoff_exec ttl) evs empty_handoff_store"

lemma reachable_execs: "reachable ttl (handoff_execs ttl evs)"
  by (simp add: reachable_def handoff_execs_def handoff_fold_run)

subsection \<open>A sample session\<close>

definition demo_hex :: string where
  "demo_hex = replicate 32 (CHR ''0'')"

definition demo_sid :: string where "demo_sid = new_id demo_hex SESSION"
definition demo_iid :: string where "demo_iid = new_id demo_hex INTERVENTION"
definition demo_iid2 :: string where "demo_iid2 = new_id (CHR ''1'' # tl demo_hex) INTERVENTION"
definition demo_rid :: string where "demo_rid = new_id demo_hex RUN"

definition demo_observation :: normalized_observation where
  "demo_observation =
     \<lparr>obs_id = new_id demo_hex EVENT, obs_session_id = demo_sid,
      obs_captured_at = utc 0, obs_route = ''/login'',
      obs_viewport = \<lparr>vp_width = 100, vp_height = 100, vp_scale = 1\<rparr>,
      obs_fingerprint = ''f'', obs_landmarks = [], obs_frame_titles = [], obs_controls = [],
      obs_fields = [], obs_tokens = [], obs_active_element = None, obs_dialog_text = None,
      obs_screenshot_key = None\<rparr>"

definition demo_context :: intervention_context where
  "demo_context =
     \<lparr>ctx_run_mode = MODE_DISCOVERY, ctx_application_family = ''billing'', ctx_tenant = ''acme'',
      ctx_task_summary = ''task'', ctx_surface_route = ''/login'', ctx_step_id = None,
      ctx_capability_id = None, ctx_capability_version = None, ctx_capability_name = None\<rparr>"

definition demo_created :: "handoff_event list" where
  "demo_created = [EvCreate 0 demo_sid]"

definition demo_opened :: "handoff_event list" where
  "demo_opened = demo_created @
     [EvOpen 1 1 1 demo_iid demo_rid demo_sid 1 ''login_blocked'' None demo_observation
        demo_context None]"

definition demo_claimed :: "handoff_event list" where
  "demo_claimed = demo_opened @ [EvRequest 2 2 2 demo_iid (ReqClaim 2 ''ann'')]"

definition demo_resuming :: "handoff_event list" where
  "demo_resuming = demo_claimed @ [EvRequest 3 3 3 demo_iid (ReqBeginResume 3 ''ann'')]"

definition demo_resolved :: "handoff_event list" where
  "demo_resolved = demo_resuming @ [EvRequest 4 4 4 demo_iid (ReqCompleteResume 4 ''fixed'')]"

definition demo_paused_again :: "handoff_event list" where
  "demo_paused_again = demo_resolved @
     [EvOpen 5 5 5 demo_iid2 demo_rid demo_sid 5 ''login_blocked'' None demo_observation
        demo_context None]"

text \<open>The intervention and lease of the sample session after a script.\<close>

definition demo_pair :: "handoff_event list \<Rightarrow> (intervention \<times> control_lease) option" where
  "demo_pair evs =
     (let st = handoff_execs 100 evs in
      case (dict_get (hs_interventions st) demo_iid, hs_leases st demo_sid) of
        (Some i, Some l) \<Rightarrow> Some (i, l) | _ \<Rightarrow> None)"

lemma demo_pair_Some:
  assumes "demo_pair evs = Some (i, l)"
  shows "dict_get (hs_interventions (handoff_execs 100 evs)) demo_iid = Some i"
    and "hs_leases (handoff_execs 100 evs) demo_sid = Some l"
  using assms by (auto simp: demo_pair_def Let_def split: option.splits)

section \<open>Consistency of the paired state\<close>

text \<open>
  C8. However automation, the router and the operators interleave, at whatever clock readings:
  every stored intervention sits under its own id and satisfies its class invariant; an active
  one is paired with its session's lease (owner kind, binding and operator agree); a session has
  at most one active intervention; and every lease is well formed, sits under its own session,
  and is bound only to an active intervention of that session.
\<close>

theorem reachable_store_consistent:
  assumes "reachable ttl st"
  shows "(\<forall>iid i. dict_get (hs_interventions st) iid = Some i \<longrightarrow>
            int_id i = iid \<and> intervention_ok i \<and>
            (active_status (int_status i) \<longrightarrow>
               (\<exists>l. hs_leases st (int_session_id i) = Some l \<and> transition_ok i l))) \<and>
         (\<forall>a b i j. dict_get (hs_interventions st) a = Some i \<longrightarrow>
            dict_get (hs_interventions st) b = Some j \<longrightarrow> active_status (int_status i) \<longrightarrow>
            active_status (int_status j) \<longrightarrow> int_session_id i = int_session_id j \<longrightarrow> a = b) \<and>
         (\<forall>s l. hs_leases st s = Some l \<longrightarrow> lease_ok l \<and> lease_session l = s \<and>
            (\<forall>iid. lease_intervention l = Some iid \<longrightarrow>
               (\<exists>i. dict_get (hs_interventions st) iid = Some i \<and>
                    active_status (int_status i) \<and> int_session_id i = s)))"
proof -
  note inv = reachable_inv[OF assms]
  show ?thesis
    using handoff_invD[OF inv] one_active_per_session[OF inv] by blast
qed

lemma reachable_store_consistent_witness:
  "reachable 100 (handoff_execs 100 demo_claimed) \<and>
   (\<exists>l. hs_leases (handoff_execs 100 demo_claimed) demo_sid = Some l \<and> lease_ok l)"
proof -
  have "case demo_pair demo_claimed of None \<Rightarrow> False | Some p \<Rightarrow> True" by code_simp
  then obtain i l where "demo_pair demo_claimed = Some (i, l)" by (auto split: option.splits)
  note l = demo_pair_Some(2)[OF this]
  from reachable_store_consistent[OF reachable_execs[of 100 demo_claimed]] l
  have "lease_ok l" by blast
  with l reachable_execs show ?thesis by blast
qed

section \<open>Exclusive control\<close>

text \<open>
  C9. While an intervention is active, the check every actor makes before acting on the session
  (\<open>assert_can_act\<close>) never admits automation, and it admits a human only when that human has
  claimed the intervention.
\<close>

theorem exclusive_control:
  assumes "reachable ttl st" "dict_get (hs_interventions st) iid = Some i"
    and "active_status (int_status i)"
    and "assert_can_act in_memory_leases t (hs_leases st) (int_session_id i) v ow = Inr l"
  shows "ow \<noteq> AUTOMATION_OWNER \<and>
    (owner_kind ow = OwnHuman \<longrightarrow>
       int_status i = CLAIMED \<and> principal_id ow = int_operator_id i)"
proof -
  note inv = reachable_inv[OF assms(1)]
  obtain k where k: "hs_leases st (int_session_id i) = Some k" "transition_ok i k"
    using handoff_invD(2)[OF inv assms(2,3)] by blast
  from assms(4) k(1) have "lease_owner k = ow" by (simp add: memory_leases.can_act_iff)
  with k(2) assms(3) show ?thesis
    by (cases "int_status i") (auto simp: transition_ok_def)
qed

lemma exclusive_control_witness:
  "\<exists>i l. dict_get (hs_interventions (handoff_execs 100 demo_claimed)) demo_iid = Some i \<and>
     assert_can_act in_memory_leases 50 (hs_leases (handoff_execs 100 demo_claimed)) demo_sid 3
       (human_owner ''ann'') = Inr l \<and> int_status i = CLAIMED"
proof -
  let ?st = "handoff_execs 100 demo_claimed"
  have "case demo_pair demo_claimed of None \<Rightarrow> False | Some (i, l) \<Rightarrow>
      active_status (int_status i) \<and> int_session_id i = demo_sid \<and> lease_version l = 3 \<and>
      lease_owner l = human_owner ''ann'' \<and> 50 < dt_instant (expires_at l)"
    by code_simp
  then obtain i l where p: "demo_pair demo_claimed = Some (i, l)"
    and f: "active_status (int_status i)" "int_session_id i = demo_sid" "lease_version l = 3"
      "lease_owner l = human_owner ''ann''" "50 < dt_instant (expires_at l)"
    by (auto split: option.splits)
  note st = demo_pair_Some[OF p]
  have act: "assert_can_act in_memory_leases 50 (hs_leases ?st) (int_session_id i) 3
      (human_owner ''ann'') = Inr l"
    using st f by (simp add: memory_leases.can_act_iff)
  from exclusive_control[OF reachable_execs st(1) f(1) act] have "int_status i = CLAIMED" by simp
  with st act f(2) show ?thesis by auto
qed

section \<open>Only the holder acts on a live claim\<close>

text \<open>The operator a request names; automation's own resume steps name none.\<close>

fun request_operator :: "coord_request \<Rightarrow> string option" where
  "request_operator (ReqClaim v op) = Some op"
| "request_operator (ReqRelease v op) = Some op"
| "request_operator (ReqBeginResume v op) = Some op"
| "request_operator (ReqHeartbeat v op) = Some op"
| "request_operator (ReqTerminate v op r) = op"
| "request_operator _ = None"

lemma claimed_plan:
  assumes "plan_request ttl t0 t1 t2 req i l = Inr p" "int_status i = CLAIMED"
    and "t0 < dt_instant (expires_at l)"
  shows "request_operator req = int_operator_id i \<and> (\<forall>v op. req \<noteq> ReqClaim v op)"
proof (cases req)
  case (ReqClaim v op)
  with assms have "plan_claim ttl t0 t1 t2 i l v op = Inr (fst p, snd p)" by simp
  from plan_claim_CLAIMED(2)[OF this assms(2)] assms(3) show ?thesis by simp
next
  case (ReqTerminate v op r)
  with assms show ?thesis by (auto simp: plan_terminate_def bind_r_Inr_iff split: if_splits)
next
  case (ReqReopen e)
  with assms show ?thesis by (auto simp: plan_reopen_def bind_r_Inr_iff intv_reopen_def)
next
  case (ReqCompleteResume v r)
  with assms show ?thesis by (auto simp: plan_complete_resume_def bind_r_Inr_iff intv_resolve_def)
qed (use assms in \<open>auto simp: plan_release_def plan_begin_resume_def plan_heartbeat_def split: if_splits\<close>)

text \<open>
  While a claim's lease has not expired, every request that succeeds on the intervention was
  made in the name of the operator who holds it, and no claim succeeds at all: control cannot be
  taken from a human who keeps the lease alive.
\<close>

theorem live_claim_is_exclusive:
  assumes "reachable ttl st" "dict_get (hs_interventions st) iid = Some i"
    and "int_status i = CLAIMED" "hs_leases st (int_session_id i) = Some l"
    and "t0 < dt_instant (expires_at l)"
    and "coord_run in_memory_transitions ttl t0 t1 t2 st iid req = Inr (p, st')"
  shows "request_operator req = int_operator_id i \<and> (\<forall>v op. req \<noteq> ReqClaim v op)"
proof -
  obtain j k where "dict_get (hs_interventions st) iid = Some j"
      "hs_leases st (int_session_id j) = Some k" "plan_request ttl t0 t1 t2 req j k = Inr p"
    using request_effect[OF assms(6) reachable_inv[OF assms(1)]] by blast
  with assms(2,4) have "plan_request ttl t0 t1 t2 req i l = Inr p" by simp
  with assms(3,5) show ?thesis by (rule claimed_plan[rotated 1])
qed

text \<open>
  A request's outcome as a flag, for evaluation.
\<close>

definition succeeds :: "'a result \<Rightarrow> bool" where
  "succeeds r = (case r of Inl e \<Rightarrow> False | Inr x \<Rightarrow> True)"

lemma succeeds_Inr: "succeeds r \<longleftrightarrow> (\<exists>x. r = Inr x)"
  by (cases r) (simp_all add: succeeds_def)

lemma live_claim_is_exclusive_witness:
  "\<exists>i p st'. dict_get (hs_interventions (handoff_execs 100 demo_claimed)) demo_iid = Some i \<and>
     coord_run in_memory_transitions 100 9 9 9 (handoff_execs 100 demo_claimed) demo_iid
       (ReqRelease 3 ''ann'') = Inr (p, st') \<and> int_operator_id i = Some ''ann''"
proof -
  let ?st = "handoff_execs 100 demo_claimed"
  have "case demo_pair demo_claimed of None \<Rightarrow> False | Some (i, l) \<Rightarrow>
      int_status i = CLAIMED \<and> int_session_id i = demo_sid \<and> 9 < dt_instant (expires_at l)"
    by code_simp
  then obtain i l where p: "demo_pair demo_claimed = Some (i, l)"
    and f: "int_status i = CLAIMED" "int_session_id i = demo_sid" "9 < dt_instant (expires_at l)"
    by (auto split: option.splits)
  note st = demo_pair_Some[OF p]
  have "succeeds (coord_run in_memory_transitions 100 9 9 9 ?st demo_iid (ReqRelease 3 ''ann''))"
    by code_simp
  then obtain q st' where run: "coord_run in_memory_transitions 100 9 9 9 ?st demo_iid
      (ReqRelease 3 ''ann'') = Inr (q, st')"
    by (auto simp: succeeds_Inr)
  have "request_operator (ReqRelease 3 ''ann'') = int_operator_id i"
    using live_claim_is_exclusive[OF reachable_execs st(1) f(1) _ f(3) run] st(2) f(2) by simp
  with st run show ?thesis by auto
qed

section \<open>Liveness of claims\<close>

lemma prepare_transfer_human:
  assumes "lease_ok l" "0 < ttl" "lease_intervention l = Some iid"
  shows "prepare_transfer ttl t1 t2 l (lease_version l) (lease_owner l) (human_owner op)
      (Some iid) False =
    Inr \<lparr>lease_session = lease_session l, lease_owner = human_owner op,
         lease_version = lease_version l + 1, issued_at = utc t2, last_heartbeat = utc t2,
         expires_at = utc (t2 + ttl), lease_intervention = Some iid\<rparr>"
  using assms by (auto simp: prepare_transfer_Inr lease_ok_def)

lemma plan_claim_succeeds:
  assumes "transition_ok i l" "lease_ok l" "intervention_ok i" "0 < ttl" "\<not> blank op"
    and "owner_ok (lease_owner l)"
    and "int_status i = OPEN \<or> int_status i = CLAIMED \<and> dt_instant (expires_at l) \<le> t0"
  shows "\<exists>i' l'. plan_claim ttl t0 t1 t2 i l (lease_version l) op = Inr (i', l') \<and>
    int_status i' = CLAIMED \<and> int_operator_id i' = Some op \<and> lease_owner l' = human_owner op \<and>
    expires_at l' = utc (t2 + ttl)"
proof -
  from assms(1,7) have b: "lease_intervention l = Some (int_id i)" by (auto simp: transition_ok_def)
  from assms(5) have ne: "op \<noteq> []" by (auto simp: blank_def)
  from assms(5) have h: "mk_control_owner OwnHuman (Some op) = Inr (human_owner op)"
    by (simp add: mk_control_owner_human)
  note tr = prepare_transfer_human[OF assms(2,4) b]
  from assms(7) show ?thesis
  proof
    assume s: "int_status i = OPEN"
    let ?i = "i\<lparr>int_status := CLAIMED, int_operator_id := Some op\<rparr>"
    from assms(1,6) s have p: "lease_owner l = PAUSED_OWNER"
      by (auto simp: transition_ok_def intro: owner_ok_paused)
    have "intervention_ok ?i"
      using assms(3,5) s by (auto simp: intervention_ok_def)
    then have "intv_claim i op = Inr ?i"
      using s ne by (simp add: intv_claim_def mk_intervention_Inr)
    then show ?thesis using s b h tr p by (simp add: plan_claim_def)
  next
    assume s: "int_status i = CLAIMED \<and> dt_instant (expires_at l) \<le> t0"
    let ?i = "i\<lparr>int_operator_id := Some op\<rparr>"
    have "intervention_ok ?i"
      using assms(3,5) s by (auto simp: intervention_ok_def)
    then have "intv_reassign i op = Inr ?i"
      using s ne by (simp add: intv_reassign_def mk_intervention_Inr)
    moreover have "owner_kind (lease_owner l) = OwnHuman" using assms(1) s by (simp add: transition_ok_def)
    ultimately show ?thesis using s b h tr by (simp add: plan_claim_def)
  qed
qed

text \<open>
  C22. An intervention never gets lost: as long as it is open, or claimed by a human whose lease
  ran out, any operator can claim it, at any clock readings. The claim succeeds with the version
  shown in the store and leaves the operator as the only actor, for a full lease period.
\<close>

theorem intervention_claimable:
  assumes "reachable ttl st" "0 < ttl" "\<not> blank op"
    and "dict_get (hs_interventions st) iid = Some i"
    and "hs_leases st (int_session_id i) = Some l"
    and "int_status i = OPEN \<or> int_status i = CLAIMED \<and> dt_instant (expires_at l) \<le> t0"
  shows "\<exists>i' l' st'. coord_run in_memory_transitions ttl t0 t1 t2 st iid
      (ReqClaim (lease_version l) op) = Inr ((i', l'), st') \<and>
      dict_get (hs_interventions st') iid = Some i' \<and>
      int_status i' = CLAIMED \<and> int_operator_id i' = Some op \<and>
      (\<forall>t<t2 + ttl. assert_can_act in_memory_leases t (hs_leases st') (int_session_id i)
         (lease_version l + 1) (human_owner op) = Inr l')"
proof -
  note inv = reachable_inv[OF assms(1)]
  from assms(6) have "active_status (int_status i)" by auto
  then have tr: "transition_ok i l" using handoff_invD(2)[OF inv assms(4)] assms(5) by auto
  have wf: "lease_ok l" "owner_ok (lease_owner l)" "intervention_ok i"
    using handoff_invD(1,3)[OF inv] assms(4,5) by auto
  obtain i' l' where plan: "plan_claim ttl t0 t1 t2 i l (lease_version l) op = Inr (i', l')"
    and c: "int_status i' = CLAIMED" "int_operator_id i' = Some op" "lease_owner l' = human_owner op"
      "expires_at l' = utc (t2 + ttl)"
    using plan_claim_succeeds[OF tr wf(1,3) assms(2,3) wf(2) assms(6)] by blast
  then obtain st' where run: "coord_run in_memory_transitions ttl t0 t1 t2 st iid
      (ReqClaim (lease_version l) op) = Inr ((i', l'), st')"
    using memory.coord_run_succeeds[OF inv assms(4,5) tr,
        where req = "ReqClaim (lease_version l) op" and ttl = ttl and ?t0.0 = t0 and ?t1.0 = t1
          and ?t2.0 = t2 and i' = i' and l' = l'] by auto
  obtain j k where eff: "dict_get (hs_interventions st) iid = Some j" "good_plan j k i' l'"
      "hs_leases st (int_session_id j) = Some k"
      "dict_get (hs_interventions st') = (dict_get (hs_interventions st))(iid \<mapsto> i')"
      "hs_leases st' = (hs_leases st)(int_session_id j \<mapsto> l')"
    using request_effect[OF run inv] unfolding fst_conv snd_conv by blast
  with assms(4,5) c(1) have "lease_version l' = lease_version l + 1" "j = i"
    by (auto simp: good_plan_def)
  with run c eff show ?thesis by (auto simp: memory_leases.can_act_iff)
qed

lemma intervention_claimable_witness:
  "\<exists>p st'. coord_run in_memory_transitions 100 500 500 500 (handoff_execs 100 demo_claimed)
     demo_iid (ReqClaim 3 ''bob'') = Inr (p, st')"
proof -
  have "case demo_pair demo_claimed of None \<Rightarrow> False | Some (i, l) \<Rightarrow>
      int_status i = CLAIMED \<and> int_session_id i = demo_sid \<and> lease_version l = 3 \<and>
      dt_instant (expires_at l) \<le> 500"
    by code_simp
  then obtain i l where p: "demo_pair demo_claimed = Some (i, l)"
    and f: "int_status i = CLAIMED" "int_session_id i = demo_sid" "lease_version l = 3"
      "dt_instant (expires_at l) \<le> 500"
    by (auto split: option.splits)
  note st = demo_pair_Some[OF p]
  have "\<not> blank ''bob''" by code_simp
  from intervention_claimable[OF reachable_execs _ this st(1), of l 500 500 500] st(2) f
  show ?thesis by auto
qed

section \<open>Atomic commits\<close>

text \<open>
  Optimistic concurrency is sound: a workflow that read a pair, planned on it, and commits
  after any number of steps by others succeeds only if the store still holds exactly that pair,
  so its read, plan and write count as one atomic step. An unchanged lease is not enough by
  itself, because a reopening keeps it: the status check closes that gap.
\<close>

theorem stale_commit_refused:
  assumes "reachable ttl st" "coord_get in_memory_transitions st iid = Inr (i, l)"
    and "handoff_run ttl st st'"
    and "coord_commit in_memory_transitions st' i l ri rl = Inr (p, st'')"
  shows "coord_get in_memory_transitions st' iid = Inr (i, l)"
proof -
  note inv = reachable_inv[OF assms(1)]
  have inv': "store_inv st'" using handoff_run_inv[OF assms(3) inv] .
  from assms(2) have get: "tp_get in_memory_transitions st iid = Inr (i, l)"
    by (auto simp: coord_get_def bind_r_Inr_iff mk_transition_Inr)
  then have il: "dict_get (hs_interventions st) iid = Some i"
      "hs_leases st (int_session_id i) = Some l" "transition_ok i l"
    by (simp_all add: memory.get_iff)
  have wf: "int_id i = iid" "lease_session l = int_session_id i"
    using handoff_invD(1,3)[OF inv] il by auto
  from assms(4) obtain a b where "tp_cas in_memory_transitions st' iid (int_status i)
      (lease_version l) (lease_owner l) ri rl = Inr ((a, b), st'')"
    using wf(1) by (auto simp: coord_commit_def bind_r_Inr_iff)
  from memory.cas_ok[OF this] obtain cur cl where cur:
      "dict_get (hs_interventions st') iid = Some cur"
      "hs_leases st' (int_session_id cur) = Some cl" "int_status cur = int_status i"
      "lease_version cl = lease_version l"
    by blast
  obtain j where "dict_get (hs_interventions st') iid = Some j" "evolves_star i j"
    using handoff_run_evolves[OF assms(3) inv il(1)] by blast
  with cur(1) have "int_session_id cur = int_session_id i"
    by (auto dest!: evolves_star_identity simp: same_identity_def)
  with cur(2,4) il(2) handoff_run_advance[OF assms(3) inv]
  have same: "hs_leases st' (int_session_id i) = Some l" "cl = l"
    unfolding versions_advance_def by force+
  then obtain j where "dict_get (hs_interventions st') iid = Some j"
      "j = i \<or> int_status i = RESUMING \<and> int_status j = OPEN"
    using same_lease_same_intervention[OF assms(3) inv il(1,2)] by blast
  with cur(1,3) have "cur = i" by auto
  with cur same il(3) show ?thesis
    by (simp add: coord_get_def bind_r_Inr_iff memory.get_iff mk_transition_Inr)
qed

lemma stale_commit_refused_witness:
  "\<exists>i l ri rl p st''. coord_get in_memory_transitions (handoff_execs 100 demo_opened) demo_iid =
     Inr (i, l) \<and>
     coord_commit in_memory_transitions (handoff_execs 100 demo_opened) i l ri rl = Inr (p, st'') \<and>
     int_status ri = CLAIMED"
proof -
  let ?st = "handoff_execs 100 demo_opened"
  have "succeeds (coord_run in_memory_transitions 100 9 9 9 ?st demo_iid (ReqClaim 2 ''ann''))"
    by code_simp
  then obtain i' l' st' where run: "coord_run in_memory_transitions 100 9 9 9 ?st demo_iid
      (ReqClaim 2 ''ann'') = Inr ((i', l'), st')"
    by (auto simp: succeeds_Inr)
  from run obtain i l ri rl where get: "tp_get in_memory_transitions ?st demo_iid = Inr (i, l)"
    and plan: "plan_request 100 9 9 9 (ReqClaim 2 ''ann'') i l = Inr (ri, rl)"
    and com: "coord_commit in_memory_transitions ?st i l ri rl = Inr ((i', l'), st')"
    by (auto simp: coord_run_plan bind_r_Inr_iff)
  from get have g: "coord_get in_memory_transitions ?st demo_iid = Inr (i, l)"
    by (simp add: coord_get_def bind_r_Inr_iff memory.get_iff mk_transition_Inr)
  have "int_status ri = CLAIMED"
    using plan plan_claim_status[of 100 9 9 9 i l 2 "''ann''" "(ri, rl)"]
    by (auto simp: mk_intervention_Inr intv_claim_def intv_reassign_def split: if_splits
          dest: plan_claim_OPEN(1) plan_claim_CLAIMED(1))
  with stale_commit_refused[OF reachable_execs g hr_refl com] com show ?thesis by blast
qed

section \<open>Stale commands\<close>

text \<open>The lease version a request presents; a reopening presents none.\<close>

fun request_version :: "coord_request \<Rightarrow> int option" where
  "request_version (ReqClaim v op) = Some v"
| "request_version (ReqRelease v op) = Some v"
| "request_version (ReqBeginResume v op) = Some v"
| "request_version (ReqReopen e) = None"
| "request_version (ReqCompleteResume v r) = Some v"
| "request_version (ReqHeartbeat v op) = Some v"
| "request_version (ReqTerminate v op r) = Some v"

lemma plan_request_version:
  assumes "plan_request ttl t0 t1 t2 req i l = Inr p" "request_version req = Some v"
  shows "lease_version l = v"
proof (cases req)
  case (ReqClaim w op)
  with assms have "plan_claim ttl t0 t1 t2 i l v op = Inr (fst p, snd p)" by simp
  then show ?thesis
    using plan_claim_status[of ttl t0 t1 t2 i l v op p]
    by (cases p) (auto dest: plan_claim_OPEN(2) plan_claim_CLAIMED(3) simp: prepare_transfer_Inr)
next
  case (ReqTerminate w op r)
  with assms show ?thesis
    by (auto simp: plan_terminate_def bind_r_Inr_iff prepare_transfer_Inr)
qed (use assms in \<open>auto simp: plan_release_def plan_begin_resume_def plan_complete_resume_def
       plan_heartbeat_def bind_r_Inr_iff prepare_transfer_Inr prepare_heartbeat_Inr
       split: if_splits\<close>)

text \<open>
  A version is never reused: once a session's lease has been replaced, every request that
  presents the version of the old lease fails, whatever happened in between; automation holding
  the old version fails its pre-action check and its heartbeat.
\<close>

theorem stale_version_refused:
  assumes "reachable ttl st" "hs_leases st s = Some l"
    and "handoff_run ttl st st'" "hs_leases st' s \<noteq> Some l"
    and "dict_get (hs_interventions st') iid = Some i" "int_session_id i = s"
    and "request_version req = Some (lease_version l)"
  shows "(\<forall>p st''. coord_run in_memory_transitions ttl t0 t1 t2 st' iid req \<noteq> Inr (p, st'')) \<and>
    assert_can_act in_memory_leases t (hs_leases st') s (lease_version l) AUTOMATION_OWNER =
      Inl (LeaseConflictError ''control lease version or owner is stale'') \<and>
    svc_heartbeat in_memory_leases ttl t0 t1 t2 (hs_leases st') s (lease_version l)
      AUTOMATION_OWNER = Inl (LeaseConflictError ''control lease version or owner is stale'')"
proof -
  note inv = reachable_inv[OF assms(1)]
  have inv': "store_inv st'" using handoff_run_inv[OF assms(3) inv] .
  from handoff_run_advance[OF assms(3) inv] assms(2,4)
  obtain l' where l': "hs_leases st' s = Some l'" "lease_version l < lease_version l'"
    unfolding versions_advance_def by blast
  have "coord_run in_memory_transitions ttl t0 t1 t2 st' iid req \<noteq> Inr (p, st'')" for p st''
  proof
    assume "coord_run in_memory_transitions ttl t0 t1 t2 st' iid req = Inr (p, st'')"
    from request_effect[OF this inv'] obtain j k where "dict_get (hs_interventions st') iid = Some j"
        "hs_leases st' (int_session_id j) = Some k" "plan_request ttl t0 t1 t2 req j k = Inr p"
      by blast
    with assms(5-7) l' show False by (auto dest: plan_request_version)
  qed
  with l' show ?thesis
    by (simp add: svc_heartbeat_def assert_can_act_def memory_leases.get_lookup)
qed

lemma stale_version_refused_witness:
  "\<exists>l. hs_leases (handoff_execs 100 demo_opened) demo_sid = Some l \<and>
     (\<forall>p st''. coord_run in_memory_transitions 100 9 9 9 (handoff_execs 100 demo_claimed) demo_iid
       (ReqClaim (lease_version l) ''bob'') \<noteq> Inr (p, st''))"
proof -
  let ?st = "handoff_execs 100 demo_opened" and ?st' = "handoff_execs 100 demo_claimed"
  have "case (demo_pair demo_opened, demo_pair demo_claimed) of
      (Some (i, l), Some (j, k)) \<Rightarrow> int_session_id j = demo_sid \<and> lease_version l \<noteq> lease_version k
    | _ \<Rightarrow> False"
    by code_simp
  then obtain i l j k where p: "demo_pair demo_opened = Some (i, l)"
      "demo_pair demo_claimed = Some (j, k)"
    and f: "int_session_id j = demo_sid" "lease_version l \<noteq> lease_version k"
    by (auto split: option.splits)
  note st = demo_pair_Some[OF p(1)] and st' = demo_pair_Some[OF p(2)]
  have run: "handoff_run 100 ?st ?st'"
    unfolding demo_claimed_def handoff_execs_def fold_append comp_def by (rule handoff_fold_run)
  from st'(2) f(2) have "hs_leases ?st' demo_sid \<noteq> Some l" by auto
  from stale_version_refused[OF reachable_execs st(2) run this st'(1) f(1),
      of "ReqClaim (lease_version l) ''bob''" 9 9 9] st(2)
  show ?thesis by auto
qed

section \<open>History\<close>

text \<open>
  C23. No step ever deletes an intervention, changes its identity (session, run, trigger, context,
  creation time), or touches it after it was resolved or terminated; and an unfinished one moves
  only along the documented lifecycle.
\<close>

theorem intervention_history:
  assumes "reachable ttl st" "handoff_run ttl st st'"
    and "dict_get (hs_interventions st) iid = Some i"
  shows "\<exists>j. dict_get (hs_interventions st') iid = Some j \<and> same_identity i j \<and>
    (\<not> active_status (int_status i) \<longrightarrow> j = i) \<and>
    lifecycle\<^sup>*\<^sup>* (int_status i) (int_status j)"
proof -
  obtain j where j: "dict_get (hs_interventions st') iid = Some j" "evolves_star i j"
    using handoff_run_evolves[OF assms(2) reachable_inv[OF assms(1)] assms(3)] by blast
  from j(2) have "lifecycle\<^sup>*\<^sup>* (int_status i) (int_status j)"
    by (induction rule: evolves_star.induct)
       (auto simp: evolves_def intro: rtranclp.rtrancl_into_rtrancl)
  with j show ?thesis using evolves_star_identity evolves_star_terminal by blast
qed

lemma intervention_history_witness:
  "\<exists>i j. dict_get (hs_interventions (handoff_execs 100 demo_claimed)) demo_iid = Some i \<and>
     dict_get (hs_interventions (handoff_execs 100 demo_resuming)) demo_iid = Some j \<and>
     int_status i = CLAIMED \<and> int_status j = RESUMING \<and> same_identity i j"
proof -
  have "case (demo_pair demo_claimed, demo_pair demo_resuming) of
      (Some (i, l), Some (j, k)) \<Rightarrow> int_status i = CLAIMED \<and> int_status j = RESUMING
    | _ \<Rightarrow> False"
    by code_simp
  then obtain i l j k where p: "demo_pair demo_claimed = Some (i, l)"
      "demo_pair demo_resuming = Some (j, k)"
    and f: "int_status i = CLAIMED" "int_status j = RESUMING"
    by (auto split: option.splits)
  have run: "handoff_run 100 (handoff_execs 100 demo_claimed) (handoff_execs 100 demo_resuming)"
    unfolding demo_resuming_def handoff_execs_def fold_append comp_def by (rule handoff_fold_run)
  from intervention_history[OF reachable_execs run demo_pair_Some(1)[OF p(1)]]
    demo_pair_Some(1)[OF p(1)] demo_pair_Some(1)[OF p(2)] f
  show ?thesis by auto
qed

section \<open>Where the pairing gets in the way\<close>

text \<open>
  Reading a finished intervention depends on what its session does later: once the resolved
  intervention's session no longer belongs to automation (it was paused again, or terminated),
  the read that validates the pair raises, and so does every request on it.
\<close>

theorem resolved_read_fails:
  assumes "reachable ttl st" "dict_get (hs_interventions st) iid = Some i"
    and "int_status i = RESOLVED" "hs_leases st (int_session_id i) = Some l"
    and "owner_kind (lease_owner l) \<noteq> OwnAutomation"
  shows "coord_get in_memory_transitions st iid =
      Inl (ValueError ''intervention status and control-lease owner disagree'') \<and>
    coord_run in_memory_transitions ttl t0 t1 t2 st iid req =
      Inl (ValueError ''intervention status and control-lease owner disagree'')"
proof -
  have "lease_session l = int_session_id i"
    using handoff_invD(3)[OF reachable_inv[OF assms(1)] assms(4)] by simp
  with assms have "tp_get in_memory_transitions st iid =
      Inl (ValueError ''intervention status and control-lease owner disagree'')"
    by (simp add: in_memory_transitions_def tr_get_def find_intervention_def find_lease_def
          mk_transition_def)
  then show ?thesis by (simp add: coord_get_def coord_run_plan)
qed

lemma resolved_read_fails_witness:
  "coord_get in_memory_transitions (handoff_execs 100 demo_paused_again) demo_iid =
     Inl (ValueError ''intervention status and control-lease owner disagree'')"
proof -
  have "case demo_pair demo_paused_again of None \<Rightarrow> False | Some (i, l) \<Rightarrow>
      int_status i = RESOLVED \<and> int_session_id i = demo_sid \<and> owner_kind (lease_owner l) = OwnPaused"
    by code_simp
  then obtain i l where p: "demo_pair demo_paused_again = Some (i, l)"
    and f: "int_status i = RESOLVED" "int_session_id i = demo_sid"
      "owner_kind (lease_owner l) = OwnPaused"
    by (auto split: option.splits)
  note st = demo_pair_Some[OF p]
  from resolved_read_fails[OF reachable_execs st(1) f(1), of l] st(2) f show ?thesis by simp
qed

text \<open>
  An intervention whose resume check outlasts the lease is out of every operator's reach: in
  the state resuming, with the paused lease expired, claiming, releasing, heartbeat, termination,
  a second resume and the completion of the first all fail; only the internal reopening is left.
\<close>

theorem expired_resume_stuck:
  assumes "reachable ttl st" "dict_get (hs_interventions st) iid = Some i"
    and "int_status i = RESUMING" "hs_leases st (int_session_id i) = Some l"
    and "dt_instant (expires_at l) \<le> t1" "\<forall>e. req \<noteq> ReqReopen e"
  shows "coord_run in_memory_transitions ttl t0 t1 t2 st iid req \<noteq> Inr (p, st')"
proof
  assume "coord_run in_memory_transitions ttl t0 t1 t2 st iid req = Inr (p, st')"
  from request_effect[OF this reachable_inv[OF assms(1)]] assms(2,4)
  have plan: "plan_request ttl t0 t1 t2 req i l = Inr p" by (metis option.inject)
  show False
  proof (cases req)
    case (ReqClaim v op)
    with plan show False using plan_claim_status[of ttl t0 t1 t2 i l v op p] assms(3) by simp
  qed (use plan assms in \<open>auto simp: plan_release_def plan_begin_resume_def
         plan_complete_resume_def plan_heartbeat_def plan_terminate_def intv_release_def
         intv_begin_resume_def bind_r_Inr_iff prepare_transfer_Inr split: if_splits\<close>)
qed

lemma expired_resume_stuck_witness:
  "\<not> (\<exists>p st'. coord_run in_memory_transitions 100 500 500 500 (handoff_execs 100 demo_resuming)
     demo_iid (ReqCompleteResume 4 ''fixed'') = Inr (p, st'))"
proof -
  have "case demo_pair demo_resuming of None \<Rightarrow> False | Some (i, l) \<Rightarrow>
      int_status i = RESUMING \<and> int_session_id i = demo_sid \<and> dt_instant (expires_at l) \<le> 500"
    by code_simp
  then obtain i l where p: "demo_pair demo_resuming = Some (i, l)"
    and f: "int_status i = RESUMING" "int_session_id i = demo_sid" "dt_instant (expires_at l) \<le> 500"
    by (auto split: option.splits)
  note st = demo_pair_Some[OF p]
  from expired_resume_stuck[OF reachable_execs st(1) f(1) _ f(3),
      of "ReqCompleteResume 4 ''fixed''" 500 500] st(2) f(2)
  show ?thesis by auto
qed

end
