(* ===== verification/Urls.thy ===== *)
theory Urls
  imports Prelude
begin

text \<open>
  The parts of the Python standard library the origin and route checks rest on:
  \<open>urllib.parse.urlsplit\<close> with the properties \<open>hostname\<close>, \<open>port\<close>, \<open>username\<close> and
  \<open>password\<close> of its result, the bracketed-host check, and decimal numbers.
\<close>

section \<open>Decimal numbers\<close>

definition digit_value :: "char \<Rightarrow> nat" where
  "digit_value c = of_char c - 48"

text \<open>\<open>int(s)\<close> for a string of ASCII digits.\<close>

definition decimal_value :: "string \<Rightarrow> nat" where
  "decimal_value s = foldl (\<lambda>n c. 10 * n + digit_value c) 0 s"

fun show_nat :: "nat \<Rightarrow> string" where
  "show_nat n =
     (if n < 10 then [char_of (48 + n)] else show_nat (n div 10) @ [char_of (48 + n mod 10)])"

declare show_nat.simps [simp del]

definition show_int :: "int \<Rightarrow> string" where
  "show_int i = (if i < 0 then CHR ''-'' # show_nat (nat (- i)) else show_nat (nat i))"

definition is_digits :: "string \<Rightarrow> bool" where
  "is_digits s = (s \<noteq> [] \<and> list_all (\<lambda>c. c \<in> set digits) s)"

lemma decimal_value_snoc: "decimal_value (s @ [c]) = 10 * decimal_value s + digit_value c"
  by (simp add: decimal_value_def)

lemma digit_value_char_of: "n < 10 \<Longrightarrow> digit_value (char_of (48 + n)) = n"
  by (simp add: digit_value_def)

lemma decimal_show [simp]: "decimal_value (show_nat n) = n"
proof (induction n rule: show_nat.induct)
  case (1 n)
  show ?case
  proof (cases "n < 10")
    case True
    then show ?thesis
      by (subst show_nat.simps) (simp add: decimal_value_def digit_value_char_of)
  next
    case False
    then have "decimal_value (show_nat (n div 10)) = n div 10" by (rule 1)
    with False show ?thesis
      by (subst show_nat.simps) (simp add: decimal_value_snoc digit_value_char_of)
  qed
qed

lemma digit_char: "(n :: nat) < 10 \<Longrightarrow> char_of (48 + n) \<in> set digits"
proof -
  have "list_all (\<lambda>n :: nat. char_of (48 + n) \<in> set digits) [0..<10]" by code_simp
  then show "n < 10 \<Longrightarrow> char_of (48 + n) \<in> set digits" by (simp add: list_all_iff)
qed

lemma show_nat_digits: "is_digits (show_nat n)"
proof (induction n rule: show_nat.induct)
  case (1 n)
  then show ?case
    by (subst show_nat.simps) (auto simp: is_digits_def digit_char)
qed

section \<open>Splitting once\<close>

text \<open>\<open>s.partition(c)\<close> and \<open>s.rpartition(c)\<close>: the parts and whether \<open>c\<close> occurs.\<close>

definition str_partition :: "char \<Rightarrow> string \<Rightarrow> string \<times> bool \<times> string" where
  "str_partition c s =
     (takeWhile (\<lambda>x. x \<noteq> c) s, c \<in> set s, drop 1 (dropWhile (\<lambda>x. x \<noteq> c) s))"

definition str_rpartition :: "char \<Rightarrow> string \<Rightarrow> string \<times> bool \<times> string" where
  "str_rpartition c s =
     (if c \<in> set s
      then (rev (drop 1 (dropWhile (\<lambda>x. x \<noteq> c) (rev s))), True,
            rev (takeWhile (\<lambda>x. x \<noteq> c) (rev s)))
      else ([], False, s))"

section \<open>Bracketed hosts\<close>

definition any_hex :: "char \<Rightarrow> bool" where
  "any_hex c = (c \<in> set (hex_digits @ ''ABCDEF''))"

definition ipv4_octet :: "string \<Rightarrow> bool" where
  "ipv4_octet s =
     (is_digits s \<and> length s \<le> 3 \<and> (s = ''0'' \<or> hd s \<noteq> CHR ''0'') \<and> decimal_value s \<le> 255)"

definition is_ipv4 :: "string \<Rightarrow> bool" where
  "is_ipv4 s = (let ps = split_on (CHR ''.'') s in length ps = 4 \<and> list_all ipv4_octet ps)"

definition is_hextet :: "string \<Rightarrow> bool" where
  "is_hextet s = (s \<noteq> [] \<and> length s \<le> 4 \<and> list_all any_hex s)"

text \<open>The groups of an address, a trailing dotted quad counting as two.\<close>

definition ipv6_parts :: "string \<Rightarrow> string list option" where
  "ipv6_parts s =
     (let ps = split_on (CHR '':'') s in
      if length ps < 3 then None
      else if CHR ''.'' \<in> set (last ps)
      then (if is_ipv4 (last ps) then Some (butlast ps @ [''0'', ''0'']) else None)
      else Some ps)"

definition inner_gaps :: "string list \<Rightarrow> nat list" where
  "inner_gaps ps = [i \<leftarrow> [1..<length ps - 1]. ps ! i = []]"

definition ipv6_address :: "string \<Rightarrow> bool" where
  "ipv6_address s =
     (case ipv6_parts s of
        None \<Rightarrow> False
      | Some ps \<Rightarrow>
          if 9 < length ps then False
          else case inner_gaps ps of
            [] \<Rightarrow> length ps = 8 \<and> list_all is_hextet ps
          | [k] \<Rightarrow>
              (let hi = (if hd ps = [] then k - 1 else k);
                   lo = (if last ps = [] then length ps - k - 2 else length ps - k - 1)
               in (hd ps = [] \<longrightarrow> hi = 0) \<and> (last ps = [] \<longrightarrow> lo = 0) \<and> hi + lo < 8 \<and>
                  list_all is_hextet (take hi ps) \<and>
                  list_all is_hextet (drop (length ps - lo) ps))
          | _ \<Rightarrow> False)"

definition is_ipv6 :: "string \<Rightarrow> bool" where
  "is_ipv6 s =
     (case str_partition (CHR ''%'') s of
        (addr, has_zone, zone) \<Rightarrow>
          ipv6_address addr \<and> (has_zone \<longrightarrow> zone \<noteq> [] \<and> CHR ''%'' \<notin> set zone))"

definition is_ipvfuture :: "string \<Rightarrow> bool" where
  "is_ipvfuture s =
     (case s of
        [] \<Rightarrow> False
      | c # cs \<Rightarrow> c = CHR ''v'' \<and> takeWhile any_hex cs \<noteq> [] \<and>
          (case dropWhile any_hex cs of [] \<Rightarrow> False | d # ds \<Rightarrow> d = CHR ''.'' \<and> ds \<noteq> []))"

definition bracketed_host_ok :: "string \<Rightarrow> bool" where
  "bracketed_host_ok host =
     (if starts_with ''v'' host then is_ipvfuture host else is_ipv6 host)"

section \<open>Splitting a URL\<close>

record url_parts =
  up_scheme :: string
  up_netloc :: string
  up_path :: string
  up_query :: string
  up_fragment :: string

definition scheme_chars :: string where
  "scheme_chars = lower_letters @ upper_letters @ digits @ ''+-.''"

definition split_scheme :: "string \<Rightarrow> string \<times> string" where
  "split_scheme url =
     (case str_partition (CHR '':'') url of
        (s, found, rest) \<Rightarrow>
          if found \<and> s \<noteq> [] \<and> hd s \<in> set (lower_letters @ upper_letters) \<and>
             list_all (\<lambda>c. c \<in> set scheme_chars) s
          then (py_lower s, rest) else ([], url))"

definition urlsplit :: "string \<Rightarrow> url_parts result" where
  "urlsplit url0 =
     (let url1 = filter (\<lambda>c. of_char c \<notin> {9, 10, 13 :: nat})
                   (dropWhile (\<lambda>c. of_char c \<le> (32 :: nat)) url0);
          (scheme, url2) = split_scheme url1;
          has_netloc = starts_with ''//'' url2;
          stop = (\<lambda>c. c \<notin> set ''/?#'');
          netloc = (if has_netloc then takeWhile stop (drop 2 url2) else []);
          url3 = (if has_netloc then dropWhile stop (drop 2 url2) else url2)
      in if (CHR ''['' \<in> set netloc) \<noteq> (CHR '']'' \<in> set netloc)
         then Inl (ValueError ''Invalid IPv6 URL'')
         else if CHR ''['' \<in> set netloc \<and>
                 \<not> bracketed_host_ok (fst (str_partition (CHR '']'')
                     (snd (snd (str_partition (CHR ''['') netloc)))))
         then Inl (ValueError ''Invalid IPv6 URL'')
         else
           (let (url4, _, fragment) = str_partition (CHR ''#'') url3;
                (path, _, query) = str_partition (CHR ''?'') url4
            in Inr \<lparr>up_scheme = scheme, up_netloc = netloc, up_path = path, up_query = query,
                    up_fragment = fragment\<rparr>))"

definition userinfo :: "url_parts \<Rightarrow> string option \<times> string option" where
  "userinfo u =
     (case str_rpartition (CHR ''@'') (up_netloc u) of
        (info, have_info, _) \<Rightarrow>
          if have_info
          then (case str_partition (CHR '':'') info of
                  (name, have_password, pw) \<Rightarrow> (Some name, if have_password then Some pw else None))
          else (None, None))"

text \<open>Host and port text; a missing or empty port is \<open>None\<close>.\<close>

definition hostinfo :: "url_parts \<Rightarrow> string \<times> string option" where
  "hostinfo u =
     (let (_, _, info) = str_rpartition (CHR ''@'') (up_netloc u);
          (_, open_br, bracketed) = str_partition (CHR ''['') info;
          (host, port) =
            (if open_br
             then (case str_partition (CHR '']'') bracketed of
                     (h, _, rest) \<Rightarrow> (h, snd (snd (str_partition (CHR '':'') rest))))
             else (case str_partition (CHR '':'') info of (h, _, p) \<Rightarrow> (h, p)))
      in (host, if port = [] then None else Some port))"

definition url_hostname :: "url_parts \<Rightarrow> string option" where
  "url_hostname u =
     (let host = fst (hostinfo u) in
      if host = [] then None
      else (case str_partition (CHR ''%'') host of
              (name, found, zone) \<Rightarrow>
                Some (py_lower name @ (if found then ''%'' else []) @ zone)))"

definition url_port :: "url_parts \<Rightarrow> nat option result" where
  "url_port u =
     (case snd (hostinfo u) of
        None \<Rightarrow> Inr None
      | Some p \<Rightarrow>
          if \<not> is_digits p then Inl (ValueError ''Port could not be cast to integer value'')
          else if 65535 < decimal_value p then Inl (ValueError ''Port out of range 0-65535'')
          else Inr (Some (decimal_value p)))"

end
