(* ===== verification/Policy.thy ===== *)
theory Policy
  imports Urls SurfaceModels
begin

text \<open>
  The deny-by-default policy of \<^verbatim>\<open>policy/models.py\<close> and
  \<^verbatim>\<open>policy/evaluator.py\<close>: layers and their intersection, canonical origins, route
  patterns, risk inference and the evaluation of one action. A frozenset is the list of its
  elements in iteration order; only membership matters to the evaluator. The decision's identifier
  and instant are arguments.
\<close>

section \<open>Layers\<close>

datatype principal_type = PRINCIPAL_AUTOMATION | PRINCIPAL_HUMAN

datatype run_mode = RUN_DISCOVERY | RUN_REPLAY | RUN_HUMAN_CONTROL

record policy_layer =
  pl_name :: string
  pl_origins :: "string list"
  pl_routes :: "string list"
  pl_actions :: "string list"
  pl_maximum_risk :: risk
  pl_forbidden :: "data_classification list"

definition is_layer_name :: "string \<Rightarrow> bool" where
  "is_layer_name = matches_ident lower_letters dotted_ident_chars 0 (Some 63)"

definition is_action_name :: "string \<Rightarrow> bool" where
  "is_action_name = matches_ident lower_letters ident_chars 0 None"

definition check_layer_origin :: "string \<Rightarrow> unit result" where
  "check_layer_origin origin =
     bind_r (urlsplit origin) (\<lambda>parsed.
     case url_port parsed of
       Inl e \<Rightarrow> Inl (ValueError ''policy origin contains an invalid port'')
     | Inr _ \<Rightarrow>
         check (up_scheme parsed \<in> {''http'', ''https''} \<and> url_hostname parsed \<noteq> None \<and>
                fst (userinfo parsed) \<in> {None, Some []} \<and> snd (userinfo parsed) \<in> {None, Some []} \<and>
                up_path parsed = [] \<and> up_query parsed = [] \<and> up_fragment parsed = [] \<and>
                \<not> contains_str ''?'' origin \<and> \<not> contains_str ''#'' origin \<and>
                \<not> list_ex py_isspace origin)
           (ValueError ''policy origins must be credential-free HTTP origins''))"

definition mk_policy_layer :: "policy_layer \<Rightarrow> policy_layer result" where
  "mk_policy_layer l =
     (if \<not> is_layer_name (pl_name l)
      then Inl (ValueError ''policy layer name must be a stable identifier'')
      else bind_r (each check_layer_origin (pl_origins l)) (\<lambda>_.
        if \<exists>p\<in>set (pl_routes l). \<not> safe_absolute_path p
        then Inl (ValueError ''policy route patterns must be absolute paths'')
        else if \<exists>a\<in>set (pl_actions l). \<not> is_action_name a
        then Inl (ValueError ''policy action types must be stable identifiers'')
        else Inr l))"

record effective_policy =
  ep_layers :: "string list"
  ep_origins :: "string list"
  ep_routes :: "string list"
  ep_actions :: "string list"
  ep_maximum_risk :: risk
  ep_forbidden :: "data_classification list"

text \<open>\<open>EffectivePolicy.intersect(*layers)\<close>.\<close>

definition intersect_policies :: "policy_layer list \<Rightarrow> effective_policy result" where
  "intersect_policies layers =
     (case layers of
        [] \<Rightarrow> Inl (ValueError ''at least one policy layer is required'')
      | first # rest \<Rightarrow>
          Inr \<lparr>ep_layers = map pl_name layers,
               ep_origins = [x \<leftarrow> pl_origins first. list_all (\<lambda>l. x \<in> set (pl_origins l)) rest],
               ep_routes = [x \<leftarrow> pl_routes first. list_all (\<lambda>l. x \<in> set (pl_routes l)) rest],
               ep_actions = [x \<leftarrow> pl_actions first. list_all (\<lambda>l. x \<in> set (pl_actions l)) rest],
               ep_maximum_risk = fold min (map pl_maximum_risk rest) (pl_maximum_risk first),
               ep_forbidden = remdups (concat (map pl_forbidden layers))\<rparr>)"

section \<open>Contexts and decisions\<close>

record action_context =
  ax_principal_type :: principal_type
  ax_principal_id :: string
  ax_run_mode :: run_mode
  ax_application_family :: string
  ax_tenant :: string
  ax_origin :: string
  ax_route :: string
  ax_action_type :: string
  ax_target_description :: string
  ax_declared_risk :: risk
  ax_control_owner :: string
  ax_classification :: "data_classification option"
  ax_registered_risk :: "risk option"

record policy_decision =
  pd_id :: string
  pd_decision :: decision
  pd_reason_code :: string
  pd_explanation :: string
  pd_layers :: "string list"
  pd_risk :: risk
  pd_evidence :: "string list"
  pd_redaction :: "string list"
  pd_evaluated_at :: datetime

definition stable_names :: "string list \<Rightarrow> bool" where
  "stable_names vs = (vs \<noteq> [] \<and> distinct vs \<and> list_all (\<lambda>v. \<not> blank v) vs)"

definition mk_policy_decision :: "policy_decision \<Rightarrow> policy_decision result" where
  "mk_policy_decision d =
     bind_r (parse_id (pd_id d) (Some DECISION)) (\<lambda>_.
     if \<not> is_action_name (pd_reason_code d)
     then Inl (ValueError ''policy reason code must be a stable identifier'')
     else if blank (pd_explanation d)
     then Inl (ValueError ''policy explanation cannot be empty'')
     else if \<not> stable_names (pd_layers d)
     then Inl (ValueError ''policy matched layers must be non-empty and unique'')
     else if \<not> stable_names (pd_evidence d)
     then Inl (ValueError ''policy required evidence must be non-empty and unique'')
     else if \<not> stable_names (pd_redaction d)
     then Inl (ValueError ''policy redaction directives must be non-empty and unique'')
     else if \<not> dt_aware (pd_evaluated_at d)
     then Inl (ValueError ''policy evaluation timestamp must include an offset'')
     else Inr d)"

section \<open>Origins, routes, risk\<close>

text \<open>\<open>_canonical_origin\<close>.\<close>

definition canonical_origin :: "string \<Rightarrow> string option" where
  "canonical_origin origin =
     (if list_ex py_isspace origin \<or> contains_str ''?'' origin \<or> contains_str ''#'' origin
      then None
      else case urlsplit origin of
        Inl e \<Rightarrow> None
      | Inr parsed \<Rightarrow>
          (case url_hostname parsed of
             None \<Rightarrow> None
           | Some hostname \<Rightarrow>
               if up_scheme parsed \<notin> {''http'', ''https''} then None
               else if fst (userinfo parsed) \<notin> {None, Some []} \<or>
                       snd (userinfo parsed) \<notin> {None, Some []} \<or>
                       up_path parsed \<notin> {[], ''/''} \<or> up_query parsed \<noteq> [] \<or>
                       up_fragment parsed \<noteq> []
               then None
               else
                 (let lowered = py_lower hostname;
                      host = (if CHR '':'' \<in> set lowered then ''['' @ lowered @ '']'' else lowered)
                  in case url_port parsed of
                       Inl e \<Rightarrow> None
                     | Inr port \<Rightarrow>
                         Some (py_lower (up_scheme parsed) @ ''://'' @ host @
                           (case port of None \<Rightarrow> [] | Some n \<Rightarrow> CHR '':'' # show_nat n)))))"

text \<open>
  \<open>_route_matches\<close>. The pattern becomes a regular expression of segments, each a literal or
  \<open>[^/]+\<close>, joined by slashes with an optional slash at the end. A slash or the end follows
  every segment, so matching needs no backtracking.
\<close>

datatype route_part = AnySegment | Literal string

definition route_part_of :: "string \<Rightarrow> route_part" where
  "route_part_of seg =
     (if seg = ''*'' \<or> starts_with '':'' seg \<and> 1 < length seg then AnySegment else Literal seg)"

definition pattern_segments :: "string \<Rightarrow> string list" where
  "pattern_segments pattern =
     (if pattern = ''/'' then [] else split_on (CHR ''/'') (strip_char (CHR ''/'') pattern))"

fun consume_part :: "route_part \<Rightarrow> string \<Rightarrow> string option" where
  "consume_part AnySegment s =
     (if takeWhile (\<lambda>c. c \<noteq> CHR ''/'') s = [] then None
      else Some (dropWhile (\<lambda>c. c \<noteq> CHR ''/'') s))"
| "consume_part (Literal w) s = (if starts_with w s then Some (drop (length w) s) else None)"

fun match_parts :: "route_part list \<Rightarrow> string \<Rightarrow> bool" where
  "match_parts [] s = (s = [] \<or> s = ''/'')"
| "match_parts [p] s =
     (case consume_part p s of None \<Rightarrow> False | Some rest \<Rightarrow> rest = [] \<or> rest = ''/'')"
| "match_parts (p # q # ps) s =
     (case consume_part p s of
        None \<Rightarrow> False
      | Some rest \<Rightarrow> (case rest of
          [] \<Rightarrow> False | c # cs \<Rightarrow> c = CHR ''/'' \<and> match_parts (q # ps) cs))"

definition policy_route_matches :: "string \<Rightarrow> string \<Rightarrow> bool" where
  "policy_route_matches route pattern =
     (starts_with ''/'' route \<and> \<not> contains_str ''?'' route \<and> \<not> contains_str ''#'' route \<and>
      match_parts (map route_part_of (pattern_segments pattern)) (drop 1 route))"

definition SENSITIVE_TARGET_WORDS :: "string list" where
  "SENSITIVE_TARGET_WORDS =
     [''transfer'', ''wire'', ''close account'', ''approve'', ''reveal'', ''full account'']"

definition IRREVERSIBLE_TARGET_WORDS :: "string list" where
  "IRREVERSIBLE_TARGET_WORDS =
     [''submit transfer'', ''send wire'', ''close account'', ''delete account'']"

definition mentions :: "string list \<Rightarrow> string \<Rightarrow> bool" where
  "mentions ws description = list_ex (\<lambda>w. contains_str w (py_casefold description)) ws"

definition infer_risk :: "action_context \<Rightarrow> risk" where
  "infer_risk c =
     (let inferred =
        (if ax_action_type c = ''scroll''
         then (case ax_registered_risk c of None \<Rightarrow> READ_ONLY | Some r \<Rightarrow> r)
         else if mentions IRREVERSIBLE_TARGET_WORDS (ax_target_description c) then IRREVERSIBLE
         else if mentions SENSITIVE_TARGET_WORDS (ax_target_description c) then SENSITIVE
         else case ax_registered_risk c of
           Some r \<Rightarrow> r
         | None \<Rightarrow> if ax_action_type c \<in> {''type'', ''select''} then REVERSIBLE else READ_ONLY)
      in max (ax_declared_risk c) inferred)"

section \<open>Evaluation\<close>

definition location_allowed :: "effective_policy \<Rightarrow> string \<Rightarrow> string \<Rightarrow> bool" where
  "location_allowed policy origin route =
     ((case canonical_origin origin of None \<Rightarrow> False | Some c \<Rightarrow> c \<in> set (ep_origins policy)) \<and>
      list_ex (policy_route_matches route) (ep_routes policy))"

definition deny_decision ::
  "string \<Rightarrow> datetime \<Rightarrow> effective_policy \<Rightarrow> risk \<Rightarrow> string \<Rightarrow> string \<Rightarrow> policy_decision result" where
  "deny_decision did now policy r reason explanation =
     mk_policy_decision
       \<lparr>pd_id = did, pd_decision = DENY, pd_reason_code = reason, pd_explanation = explanation,
        pd_layers = ep_layers policy, pd_risk = r, pd_evidence = [''policy_context''],
        pd_redaction = [''mask_customer_identifiers''], pd_evaluated_at = now\<rparr>"

definition expected_control_owner :: "action_context \<Rightarrow> string" where
  "expected_control_owner c =
     (if ax_principal_type c = PRINCIPAL_HUMAN then ''human:'' @ ax_principal_id c
      else ''automation'')"

definition evaluate_policy ::
  "string \<Rightarrow> datetime \<Rightarrow> effective_policy \<Rightarrow> action_context \<Rightarrow> policy_decision result" where
  "evaluate_policy did now policy c =
     (let r = infer_risk c; deny = deny_decision did now policy r in
      if ax_control_owner c \<noteq> expected_control_owner c
      then deny ''control_owner_mismatch''
             ''The principal does not own the live session control lease.''
      else if ax_principal_type c = PRINCIPAL_HUMAN \<and> ax_run_mode c \<noteq> RUN_HUMAN_CONTROL
      then deny ''principal_mode_mismatch''
             ''Human input is accepted only while the run is in human-control mode.''
      else if (case canonical_origin (ax_origin c) of None \<Rightarrow> True
               | Some origin \<Rightarrow> origin \<notin> set (ep_origins policy))
      then deny ''origin_not_allowed'' ''The current origin is not allowlisted.''
      else if \<not> location_allowed policy (ax_origin c) (ax_route c)
      then deny ''route_not_allowed'' ''The current route is not allowlisted.''
      else if ax_action_type c \<notin> set (ep_actions policy)
      then deny ''action_not_allowed'' ''The action type is not allowlisted.''
      else if (case ax_classification c of None \<Rightarrow> False | Some k \<Rightarrow> k \<in> set (ep_forbidden policy))
      then deny ''field_classification_forbidden''
             ''Policy forbids input into this field classification.''
      else if r = IRREVERSIBLE
      then deny ''irreversible_action_blocked''
             ''Irreversible actions are blocked in this environment.''
      else if ep_maximum_risk policy < r
      then deny ''risk_exceeds_policy''
             ''The independently classified risk exceeds the effective policy ceiling.''
      else if r = SENSITIVE
      then mk_policy_decision
        \<lparr>pd_id = did, pd_decision = REQUIRE_HUMAN_APPROVAL,
         pd_reason_code = ''sensitive_action_requires_approval'',
         pd_explanation = ''A scoped, single-use human approval is required.'',
         pd_layers = ep_layers policy, pd_risk = r,
         pd_evidence = [''policy_context'', ''pre_action_screenshot''],
         pd_redaction = [''mask_customer_identifiers''], pd_evaluated_at = now\<rparr>
      else mk_policy_decision
        \<lparr>pd_id = did, pd_decision = ALLOW, pd_reason_code = ''policy_allowed'',
         pd_explanation = ''The action satisfies every effective policy layer.'',
         pd_layers = ep_layers policy, pd_risk = r,
         pd_evidence = [''action_intent'', ''action_result''],
         pd_redaction = [''mask_customer_identifiers''], pd_evaluated_at = now\<rparr>)"

end
