(* ===== verification/PolicyGuarantees.thy ===== *)
theory PolicyGuarantees
  imports Policy
begin

text \<open>
  What the policy evaluator guarantees: when it allows an action, that layers only restrict, that
  it always answers on well-formed layers, where risk inference is a floor, and that canonical
  origins are in lower case.
\<close>

section \<open>Decisions\<close>

definition decision_ok :: "policy_decision \<Rightarrow> bool" where
  "decision_ok d =
     (is_id DECISION (pd_id d) \<and> is_action_name (pd_reason_code d) \<and> \<not> blank (pd_explanation d) \<and>
      stable_names (pd_layers d) \<and> stable_names (pd_evidence d) \<and> stable_names (pd_redaction d) \<and>
      dt_aware (pd_evaluated_at d))"

lemma mk_policy_decision_Inr: "mk_policy_decision d = Inr d' \<longleftrightarrow> d' = d \<and> decision_ok d"
  by (cases "parse_id (pd_id d) (Some DECISION)")
     (auto simp: mk_policy_decision_def decision_ok_def dest: parse_id_value)

lemma deny_decision_DENY: "deny_decision did now p r x e = Inr d \<Longrightarrow> pd_decision d = DENY"
  by (auto simp: deny_decision_def mk_policy_decision_Inr)

text \<open>The gates an action passes, apart from the final choice by risk.\<close>

definition passes_gates :: "effective_policy \<Rightarrow> action_context \<Rightarrow> bool" where
  "passes_gates p c =
     (ax_control_owner c = expected_control_owner c \<and>
      (ax_principal_type c = PRINCIPAL_HUMAN \<longrightarrow> ax_run_mode c = RUN_HUMAN_CONTROL) \<and>
      location_allowed p (ax_origin c) (ax_route c) \<and>
      ax_action_type c \<in> set (ep_actions p) \<and>
      (\<forall>k. ax_classification c = Some k \<longrightarrow> k \<notin> set (ep_forbidden p)) \<and>
      infer_risk c \<noteq> IRREVERSIBLE \<and> infer_risk c \<le> ep_maximum_risk p)"

lemma evaluate_policy_decision:
  assumes "evaluate_policy did now p c = Inr d"
  shows "pd_decision d =
    (if \<not> passes_gates p c then DENY
     else if infer_risk c = SENSITIVE then REQUIRE_HUMAN_APPROVAL else ALLOW)"
proof (cases "passes_gates p c")
  case True
  then have "\<exists>og. canonical_origin (ax_origin c) = Some og \<and> og \<in> set (ep_origins p)"
    by (auto simp: passes_gates_def location_allowed_def split: option.splits)
  with True assms show ?thesis
    by (auto simp: evaluate_policy_def Let_def passes_gates_def mk_policy_decision_Inr not_less
          split: option.splits if_splits)
next
  case False
  have "pd_decision d = DENY"
  proof (rule ccontr)
    assume nd: "pd_decision d \<noteq> DENY"
    from assms nd have "passes_gates p c"
      unfolding evaluate_policy_def Let_def passes_gates_def location_allowed_def
      by (auto split: if_splits option.splits dest: deny_decision_DENY simp: not_less)
    with False show False ..
  qed
  with False show ?thesis by simp
qed

lemma risk_below_sensitive: "r < SENSITIVE \<longleftrightarrow> r \<noteq> IRREVERSIBLE \<and> r \<noteq> SENSITIVE" for r :: risk
  by (cases r) (simp_all add: less_risk_def)

lemma allow_iff:
  assumes "evaluate_policy did now p c = Inr d"
  shows "pd_decision d = ALLOW \<longleftrightarrow>
    ax_control_owner c =
      (if ax_principal_type c = PRINCIPAL_HUMAN then ''human:'' @ ax_principal_id c
       else ''automation'') \<and>
    (ax_principal_type c = PRINCIPAL_HUMAN \<longrightarrow> ax_run_mode c = RUN_HUMAN_CONTROL) \<and>
    (\<exists>og. canonical_origin (ax_origin c) = Some og \<and> og \<in> set (ep_origins p)) \<and>
    (\<exists>pat\<in>set (ep_routes p). policy_route_matches (ax_route c) pat) \<and>
    ax_action_type c \<in> set (ep_actions p) \<and>
    (\<forall>k. ax_classification c = Some k \<longrightarrow> k \<notin> set (ep_forbidden p)) \<and>
    infer_risk c < SENSITIVE \<and> infer_risk c \<le> ep_maximum_risk p"
  unfolding evaluate_policy_decision[OF assms] passes_gates_def location_allowed_def
    expected_control_owner_def risk_below_sensitive
  by (auto simp: list_ex_iff split: option.splits)

lemma inferred_below:
  fixes b :: risk
  assumes "READ_ONLY \<le> b"
  shows "infer_risk c \<le> b \<longleftrightarrow>
    ax_declared_risk c \<le> b \<and>
    (if ax_action_type c = ''scroll'' then \<forall>g. ax_registered_risk c = Some g \<longrightarrow> g \<le> b
     else if mentions IRREVERSIBLE_TARGET_WORDS (ax_target_description c) then IRREVERSIBLE \<le> b
     else if mentions SENSITIVE_TARGET_WORDS (ax_target_description c) then SENSITIVE \<le> b
     else case ax_registered_risk c of Some g \<Rightarrow> g \<le> b
       | None \<Rightarrow> ax_action_type c \<in> {''type'', ''select''} \<longrightarrow> REVERSIBLE \<le> b)"
  using assms by (auto simp: infer_risk_def Let_def split: option.splits)

lemma read_only_least [simp]: "READ_ONLY \<le> b"
  by (cases b) (simp_all add: less_eq_risk_def)

lemma below_sensitive_le: "r < SENSITIVE \<longleftrightarrow> r \<le> REVERSIBLE" for r :: risk
  by (cases r) (simp_all add: less_risk_def less_eq_risk_def)

lemma allowed_risk:
  "infer_risk c < SENSITIVE \<and> infer_risk c \<le> m \<longleftrightarrow>
    ax_declared_risk c < SENSITIVE \<and> ax_declared_risk c \<le> m \<and>
    (\<forall>g. ax_registered_risk c = Some g \<longrightarrow> g < SENSITIVE \<and> g \<le> m) \<and>
    (ax_action_type c = ''scroll'' \<or>
       \<not> mentions IRREVERSIBLE_TARGET_WORDS (ax_target_description c) \<and>
       \<not> mentions SENSITIVE_TARGET_WORDS (ax_target_description c)) \<and>
    (ax_action_type c \<in> {''type'', ''select''} \<longrightarrow> ax_registered_risk c = None \<longrightarrow> REVERSIBLE \<le> m)"
proof -
  have high: "\<not> IRREVERSIBLE \<le> REVERSIBLE" "\<not> SENSITIVE \<le> REVERSIBLE" "\<not> READ_ONLY < READ_ONLY"
    by (simp_all add: less_eq_risk_def)
  show ?thesis
    unfolding below_sensitive_le inferred_below[OF read_only_least]
    using high by (cases "ax_registered_risk c") auto
qed


definition demo_layer :: "string \<Rightarrow> policy_layer" where
  "demo_layer name =
     \<lparr>pl_name = name, pl_origins = [''http://app.test''], pl_routes = [''/accounts/:id''],
      pl_actions = [''click''], pl_maximum_risk = REVERSIBLE,
      pl_forbidden = [CREDENTIAL, SECRET]\<rparr>"

definition demo_action :: action_context where
  "demo_action =
     \<lparr>ax_principal_type = PRINCIPAL_AUTOMATION, ax_principal_id = ''a'', ax_run_mode = RUN_REPLAY,
      ax_application_family = ''billing'', ax_tenant = ''acme'',
      ax_origin = ''HTTP://App.test/'', ax_route = ''/accounts/7/'', ax_action_type = ''click'',
      ax_target_description = ''Open account'', ax_declared_risk = READ_ONLY,
      ax_control_owner = ''automation'', ax_classification = None, ax_registered_risk = None\<rparr>"

definition demo_decision :: "string list \<Rightarrow> action_context \<Rightarrow> policy_decision result" where
  "demo_decision names c =
     bind_r (intersect_policies (map demo_layer names)) (\<lambda>p.
     evaluate_policy (new_id (replicate 32 (CHR ''0'')) DECISION) (utc 0) p c)"


section \<open>Layers only restrict\<close>

lemma fold_min_le:
  fixes r :: risk
  shows "fold min rs r \<le> r \<and> (\<forall>x\<in>set rs. fold min rs r \<le> x)"
proof (induction rs arbitrary: r)
  case (Cons x rs)
  from Cons[of "min x r"] have "fold min rs (min x r) \<le> min x r"
      "\<forall>y\<in>set rs. fold min rs (min x r) \<le> y" by auto
  then show ?case by auto
qed simp

lemma fold_min_in:
  fixes r :: risk
  shows "fold min rs r \<in> insert r (set rs)"
proof (induction rs arbitrary: r)
  case (Cons x rs)
  have "fold min rs (min x r) \<in> insert (min x r) (set rs)" by (rule Cons)
  moreover have "min x r = x \<or> min x r = r" by (simp add: min_def)
  ultimately show ?case by auto
qed simp

text \<open>What an intersection contains, without reference to the order of its layers.\<close>

lemma intersect_policies_spec:
  assumes "intersect_policies ls = Inr p"
  shows "ls \<noteq> []" "ep_layers p = map pl_name ls"
    and "x \<in> set (ep_origins p) \<longleftrightarrow> (\<forall>l\<in>set ls. x \<in> set (pl_origins l))"
    and "x \<in> set (ep_routes p) \<longleftrightarrow> (\<forall>l\<in>set ls. x \<in> set (pl_routes l))"
    and "x \<in> set (ep_actions p) \<longleftrightarrow> (\<forall>l\<in>set ls. x \<in> set (pl_actions l))"
    and "k \<in> set (ep_forbidden p) \<longleftrightarrow> (\<exists>l\<in>set ls. k \<in> set (pl_forbidden l))"
    and "r \<le> ep_maximum_risk p \<longleftrightarrow> (\<forall>l\<in>set ls. r \<le> pl_maximum_risk l)"
proof -
  from assms obtain a rest where ls: "ls = a # rest"
    by (cases ls) (auto simp: intersect_policies_def)
  then show "ls \<noteq> []" by simp
  from assms ls have p: "ep_layers p = map pl_name ls"
      "ep_origins p = [x \<leftarrow> pl_origins a. list_all (\<lambda>l. x \<in> set (pl_origins l)) rest]"
      "ep_routes p = [x \<leftarrow> pl_routes a. list_all (\<lambda>l. x \<in> set (pl_routes l)) rest]"
      "ep_actions p = [x \<leftarrow> pl_actions a. list_all (\<lambda>l. x \<in> set (pl_actions l)) rest]"
      "ep_maximum_risk p = fold min (map pl_maximum_risk rest) (pl_maximum_risk a)"
      "ep_forbidden p = remdups (concat (map pl_forbidden ls))"
    by (auto simp: intersect_policies_def)
  show "ep_layers p = map pl_name ls" by (rule p)
  show "x \<in> set (ep_origins p) \<longleftrightarrow> (\<forall>l\<in>set ls. x \<in> set (pl_origins l))"
    "x \<in> set (ep_routes p) \<longleftrightarrow> (\<forall>l\<in>set ls. x \<in> set (pl_routes l))"
    "x \<in> set (ep_actions p) \<longleftrightarrow> (\<forall>l\<in>set ls. x \<in> set (pl_actions l))"
    by (auto simp: p ls list_all_iff)
  show "k \<in> set (ep_forbidden p) \<longleftrightarrow> (\<exists>l\<in>set ls. k \<in> set (pl_forbidden l))"
    by (auto simp: p)
  let ?m = "fold min (map pl_maximum_risk rest) (pl_maximum_risk a)"
  have le: "\<forall>l\<in>set ls. ?m \<le> pl_maximum_risk l"
    using fold_min_le[of "map pl_maximum_risk rest" "pl_maximum_risk a"] ls by auto
  have "?m \<in> pl_maximum_risk ` set ls"
    using fold_min_in[of "map pl_maximum_risk rest" "pl_maximum_risk a"] ls by auto
  with le show "r \<le> ep_maximum_risk p \<longleftrightarrow> (\<forall>l\<in>set ls. r \<le> pl_maximum_risk l)"
    unfolding p(5) by (auto intro: order_trans)
qed

lemma gates_mono:
  assumes "intersect_policies ls = Inr p" "intersect_policies ms = Inr q" "set ls \<subseteq> set ms"
    and "passes_gates q c"
  shows "passes_gates p c"
proof -
  note P = intersect_policies_spec[OF assms(1)] and Q = intersect_policies_spec[OF assms(2)]
  from assms(4) have loc: "location_allowed q (ax_origin c) (ax_route c)"
    by (simp add: passes_gates_def)
  then have "location_allowed p (ax_origin c) (ax_route c)"
    using assms(3) unfolding location_allowed_def list_ex_iff Bex_def P(3,4) Q(3,4)
    by (auto split: option.splits)
  with assms(3,4) show ?thesis
    unfolding passes_gates_def P(5-7) Q(5-7) by auto
qed

text \<open>
  Adding policy layers only ever restricts: whatever action a set of layers does not deny, no
  subset of them denies, and the outcome (allow, or human approval) is the same one. Layer order
  and repetition do not matter.
\<close>

theorem more_layers_restrict:
  assumes "intersect_policies ls = Inr p" "intersect_policies ms = Inr q" "set ls \<subseteq> set ms"
    and "evaluate_policy did now q c = Inr d" "evaluate_policy did' now' p c = Inr d'"
    and "pd_decision d \<noteq> DENY"
  shows "pd_decision d' = pd_decision d"
  using assms(6) gates_mono[OF assms(1-3)] evaluate_policy_decision[OF assms(4)]
    evaluate_policy_decision[OF assms(5)]
  by (auto split: if_splits)

lemma more_layers_restrict_witness:
  "\<exists>d d'. demo_decision [''platform'', ''tenant''] demo_action = Inr d \<and>
     demo_decision [''platform''] demo_action = Inr d' \<and> pd_decision d' = pd_decision d"
proof -
  have "case (demo_decision [''platform'', ''tenant''] demo_action,
              demo_decision [''platform''] demo_action) of
      (Inr d, Inr d') \<Rightarrow> pd_decision d = ALLOW | _ \<Rightarrow> False"
    by code_simp
  then obtain d d' where d: "demo_decision [''platform'', ''tenant''] demo_action = Inr d"
      "demo_decision [''platform''] demo_action = Inr d'" "pd_decision d = ALLOW"
    by (cases "demo_decision [''platform'', ''tenant''] demo_action";
        cases "demo_decision [''platform''] demo_action") simp_all
  from d(1) obtain q where q: "intersect_policies (map demo_layer [''platform'', ''tenant'']) = Inr q"
    "evaluate_policy (new_id (replicate 32 (CHR ''0'')) DECISION) (utc 0) q demo_action = Inr d"
    unfolding demo_decision_def bind_r_Inr_iff by blast
  from d(2) obtain p where p: "intersect_policies (map demo_layer [''platform'']) = Inr p"
    "evaluate_policy (new_id (replicate 32 (CHR ''0'')) DECISION) (utc 0) p demo_action = Inr d'"
    unfolding demo_decision_def bind_r_Inr_iff by blast
  have "set (map demo_layer [''platform'']) \<subseteq> set (map demo_layer [''platform'', ''tenant''])"
    by simp
  from more_layers_restrict[OF p(1) q(1) this q(2) p(2)] d show ?thesis by simp
qed

section \<open>The evaluator always answers\<close>

lemma layer_name_not_blank:
  assumes "is_layer_name s"
  shows "\<not> blank s"
proof -
  from assms obtain c cs where c: "s = c # cs" "c \<in> set lower_letters"
    by (cases s) (auto simp: is_layer_name_def)
  have "list_all (\<lambda>x. \<not> py_isspace x) lower_letters" by code_simp
  with c show ?thesis by (auto simp: blank_def list_all_iff)
qed

lemma mk_policy_layer_name: "mk_policy_layer l = Inr l' \<Longrightarrow> is_layer_name (pl_name l)"
  by (cases "is_layer_name (pl_name l)") (simp_all add: mk_policy_layer_def)

lemma stable_texts:
  "is_action_name ''control_owner_mismatch''" "is_action_name ''principal_mode_mismatch''"
  "is_action_name ''origin_not_allowed''" "is_action_name ''route_not_allowed''"
  "is_action_name ''action_not_allowed''" "is_action_name ''field_classification_forbidden''"
  "is_action_name ''irreversible_action_blocked''" "is_action_name ''risk_exceeds_policy''"
  "is_action_name ''sensitive_action_requires_approval''" "is_action_name ''policy_allowed''"
  "stable_names [''policy_context'']" "stable_names [''mask_customer_identifiers'']"
  "stable_names [''policy_context'', ''pre_action_screenshot'']"
  "stable_names [''action_intent'', ''action_result'']"
  by code_simp+

lemma stable_explanations:
  "\<not> blank ''The principal does not own the live session control lease.''"
  "\<not> blank ''Human input is accepted only while the run is in human-control mode.''"
  "\<not> blank ''The current origin is not allowlisted.''"
  "\<not> blank ''The current route is not allowlisted.''"
  "\<not> blank ''The action type is not allowlisted.''"
  "\<not> blank ''Policy forbids input into this field classification.''"
  "\<not> blank ''Irreversible actions are blocked in this environment.''"
  "\<not> blank ''The independently classified risk exceeds the effective policy ceiling.''"
  "\<not> blank ''A scoped, single-use human approval is required.''"
  "\<not> blank ''The action satisfies every effective policy layer.''"
  by code_simp+

lemma stable_names_iff:
  "stable_names vs \<longleftrightarrow> vs \<noteq> [] \<and> distinct vs \<and> (\<forall>v\<in>set vs. \<not> blank v)"
  by (simp add: stable_names_def list_all_iff)

lemma mk_policy_decision_succeeds:
  assumes "is_id DECISION did" "stable_names (ep_layers p)" "dt_aware now"
    and "is_action_name r" "\<not> blank e" "stable_names ev" "stable_names rd"
  shows "mk_policy_decision
     \<lparr>pd_id = did, pd_decision = k, pd_reason_code = r, pd_explanation = e,
      pd_layers = ep_layers p, pd_risk = x, pd_evidence = ev, pd_redaction = rd,
      pd_evaluated_at = now\<rparr> = Inr
     \<lparr>pd_id = did, pd_decision = k, pd_reason_code = r, pd_explanation = e,
      pd_layers = ep_layers p, pd_risk = x, pd_evidence = ev, pd_redaction = rd,
      pd_evaluated_at = now\<rparr>"
  using assms by (simp add: mk_policy_decision_Inr decision_ok_def)

text \<open>
  On the intersection of well-formed layers the evaluator always answers, exactly when their
  names are distinct: a repeated layer name makes every single decision raise, because the
  decision requires its matched layers to be unique while the intersection does not check it.
\<close>

theorem policy_answers_iff_distinct:
  assumes "intersect_policies ls = Inr p" "\<forall>l\<in>set ls. mk_policy_layer l = Inr l"
    and "is_id DECISION did" "dt_aware now"
  shows "(\<exists>d. evaluate_policy did now p c = Inr d) \<longleftrightarrow> distinct (map pl_name ls)"
proof -
  note P = intersect_policies_spec[OF assms(1)]
  from assms(2) have "\<forall>l\<in>set ls. \<not> blank (pl_name l)"
    by (blast dest: mk_policy_layer_name layer_name_not_blank)
  with P(1,2) have names: "stable_names (ep_layers p) \<longleftrightarrow> distinct (map pl_name ls)"
    by (simp add: stable_names_iff)
  show ?thesis
  proof
    assume "\<exists>d. evaluate_policy did now p c = Inr d"
    then obtain d where d: "evaluate_policy did now p c = Inr d" by blast
    then have "stable_names (ep_layers p)"
      unfolding evaluate_policy_def Let_def deny_decision_def
      by (simp split: if_splits add: mk_policy_decision_Inr decision_ok_def)
    with names show "distinct (map pl_name ls)" by simp
  next
    assume "distinct (map pl_name ls)"
    with names have "stable_names (ep_layers p)" by simp
    note ok = mk_policy_decision_succeeds[OF assms(3) this assms(4)]
    show "\<exists>d. evaluate_policy did now p c = Inr d"
      unfolding evaluate_policy_def Let_def deny_decision_def
      by (simp add: ok[OF _ _ stable_texts(11,12)] ok[OF _ _ stable_texts(13,12)]
            ok[OF _ _ stable_texts(14,12)] stable_texts stable_explanations)
  qed
qed

lemma policy_answers_iff_distinct_witness:
  "\<exists>p. intersect_policies [demo_layer ''a'', demo_layer ''a''] = Inr p \<and>
     \<not> (\<exists>d. evaluate_policy (new_id (replicate 32 (CHR ''0'')) DECISION) (utc 0) p demo_action =
              Inr d)"
proof -
  have "mk_policy_layer (demo_layer ''a'') = Inr (demo_layer ''a'')" by code_simp
  then have l: "\<forall>l\<in>set [demo_layer ''a'', demo_layer ''a'']. mk_policy_layer l = Inr l" by simp
  have id: "is_id DECISION (new_id (replicate 32 (CHR ''0'')) DECISION)" by code_simp
  obtain p where p: "intersect_policies [demo_layer ''a'', demo_layer ''a''] = Inr p"
    by (simp add: intersect_policies_def)
  from policy_answers_iff_distinct[OF p l id, of "utc 0" demo_action] p show ?thesis by simp
qed

section \<open>Risk floors\<close>

lemma risk_le_max_iff: "r \<le> max a b \<longleftrightarrow> r \<le> a \<or> r \<le> b" for r :: risk
  by (simp add: le_max_iff_disj)

lemma risk_extremes [simp]: "READ_ONLY \<le> r" "r \<le> IRREVERSIBLE" for r :: risk
  by (cases r; simp add: less_eq_risk_def)+

lemma irreversible_le [simp]: "IRREVERSIBLE \<le> r \<longleftrightarrow> r = IRREVERSIBLE"
  by (cases r) (simp_all add: less_eq_risk_def)

lemma le_sensitive [simp]: "r \<le> SENSITIVE \<longleftrightarrow> r \<noteq> IRREVERSIBLE"
  by (cases r) (simp_all add: less_eq_risk_def)

text \<open>
  Risk inference never goes below the declared risk; and it never goes below the risk
  registered for the target, with one exception: a target registered as irreversible whose
  description mentions a sensitive word but no irreversible one is inferred as sensitive only, so
  the evaluator asks for approval where it should deny.
\<close>

theorem risk_floors:
  "ax_declared_risk c \<le> infer_risk c \<and>
   (\<forall>r. ax_registered_risk c = Some r \<longrightarrow>
      (\<not> r \<le> infer_risk c \<longleftrightarrow>
         r = IRREVERSIBLE \<and> ax_declared_risk c \<noteq> IRREVERSIBLE \<and>
         ax_action_type c \<noteq> ''scroll'' \<and>
         mentions SENSITIVE_TARGET_WORDS (ax_target_description c) \<and>
         \<not> mentions IRREVERSIBLE_TARGET_WORDS (ax_target_description c)))"
  unfolding infer_risk_def Let_def
  by (auto simp: risk_le_max_iff)

definition demo_registered :: action_context where
  "demo_registered = demo_action\<lparr>ax_target_description := ''Approve refund'',
     ax_registered_risk := Some IRREVERSIBLE\<rparr>"

lemma risk_floors_witness:
  "\<not> IRREVERSIBLE \<le> infer_risk demo_registered"
proof -
  have m: "mentions SENSITIVE_TARGET_WORDS (ax_target_description demo_registered)"
    "\<not> mentions IRREVERSIBLE_TARGET_WORDS (ax_target_description demo_registered)"
    "ax_action_type demo_registered \<noteq> ''scroll''" "ax_declared_risk demo_registered \<noteq> IRREVERSIBLE"
    by code_simp+
  have "ax_registered_risk demo_registered = Some IRREVERSIBLE"
    by (simp add: demo_registered_def)
  with risk_floors[of demo_registered] m show ?thesis by blast
qed

section \<open>Canonical origins\<close>

lemma ascii_lower_idem [simp]: "ascii_lower_char (ascii_lower_char c) = ascii_lower_char c"
proof (cases "map_of (zip upper_letters lower_letters) c")
  case None
  then show ?thesis by (simp add: ascii_lower_char_def)
next
  case (Some d)
  have "list_all (\<lambda>x. map_of (zip upper_letters lower_letters) x = None) lower_letters"
    by code_simp
  moreover from Some have "d \<in> set lower_letters"
    by (auto dest!: map_of_SomeD set_zip_rightD)
  ultimately show ?thesis using Some by (simp add: ascii_lower_char_def list_all_iff)
qed

lemma py_lower_idem [simp]: "py_lower (py_lower s) = py_lower s"
  by (simp add: py_lower_def)

lemma py_lower_append: "py_lower (s @ t) = py_lower s @ py_lower t"
  by (simp add: py_lower_def)

lemma py_lower_digits:
  assumes "is_digits s"
  shows "py_lower s = s"
proof -
  have "list_all (\<lambda>c. ascii_lower_char c = c) digits" by code_simp
  with assms show ?thesis by (auto simp: is_digits_def py_lower_def list_all_iff intro: map_idI)
qed

lemma ascii_lower_punct: "ascii_lower_char (CHR '':'') = CHR '':''" "ascii_lower_char (CHR ''/'') = CHR ''/''"
  "ascii_lower_char (CHR ''['') = CHR ''[''" "ascii_lower_char (CHR '']'') = CHR '']''"
  by code_simp+

lemma py_lower_simps: "py_lower (c # s) = ascii_lower_char c # py_lower s" "py_lower [] = []"
  by (simp_all add: py_lower_def)

lemma canonical_origin_shape:
  assumes "canonical_origin s = Some og"
  shows "\<exists>sch host port. og = py_lower sch @ ''://'' @
        (if CHR '':'' \<in> set (py_lower host) then ''['' @ py_lower host @ '']'' else py_lower host) @
        (case port of None \<Rightarrow> [] | Some n \<Rightarrow> CHR '':'' # show_nat n)"
proof -
  from assms obtain u where u: "urlsplit s = Inr u"
    by (cases "urlsplit s") (simp_all add: canonical_origin_def split: if_splits)
  from assms u obtain h where h: "url_hostname u = Some h"
    by (cases "url_hostname u") (simp_all add: canonical_origin_def split: if_splits)
  from assms u h obtain port where port: "url_port u = Inr port"
    by (cases "url_port u") (simp_all add: canonical_origin_def Let_def split: if_splits)
  from assms u h port have "og = py_lower (up_scheme u) @ ''://'' @
        (if CHR '':'' \<in> set (py_lower h) then ''['' @ py_lower h @ '']'' else py_lower h) @
        (case port of None \<Rightarrow> [] | Some n \<Rightarrow> CHR '':'' # show_nat n)"
    by (simp add: canonical_origin_def Let_def split: if_splits)
  then show ?thesis by blast
qed

text \<open>
  A canonical origin is in lower case, so an allowlisted origin containing an upper-case
  letter, which layer validation accepts, can never be matched: with only such origins every
  action is denied, even at that very origin.
\<close>

theorem uppercase_origin_is_dead:
  assumes "\<forall>og\<in>set (ep_origins p). py_lower og \<noteq> og"
    and "evaluate_policy did now p c = Inr d"
  shows "pd_decision d = DENY"
proof -
  have low: "py_lower og = og" if og: "canonical_origin s = Some og" for s og
  proof -
    from canonical_origin_shape[OF og] obtain sch host port where "og = py_lower sch @ ''://'' @
        (if CHR '':'' \<in> set (py_lower host) then ''['' @ py_lower host @ '']'' else py_lower host) @
        (case port of None \<Rightarrow> [] | Some n \<Rightarrow> CHR '':'' # show_nat n)"
      by blast
    then show ?thesis
      by (cases port)
         (auto simp: py_lower_append py_lower_simps ascii_lower_punct py_lower_digits show_nat_digits)
  qed
  have "\<not> passes_gates p c"
    using assms(1) low by (auto simp: passes_gates_def location_allowed_def split: option.splits)
  with evaluate_policy_decision[OF assms(2)] show ?thesis by simp
qed

definition demo_upper_layer :: policy_layer where
  "demo_upper_layer = (demo_layer ''a'')\<lparr>pl_origins := [''http://App.test'']\<rparr>"

lemma uppercase_origin_is_dead_witness:
  "mk_policy_layer demo_upper_layer = Inr demo_upper_layer \<and>
   (\<exists>p d. intersect_policies [demo_upper_layer] = Inr p \<and>
      evaluate_policy (new_id (replicate 32 (CHR ''0'')) DECISION) (utc 0) p demo_action = Inr d \<and>
      pd_decision d = DENY)"
proof -
  let ?id = "new_id (replicate 32 (CHR ''0'')) DECISION"
  have ok: "mk_policy_layer demo_upper_layer = Inr demo_upper_layer" by code_simp
  obtain p where p: "intersect_policies [demo_upper_layer] = Inr p" "ep_origins p = [''http://App.test'']"
    by (simp add: intersect_policies_def demo_upper_layer_def)
  have "case intersect_policies [demo_upper_layer] of Inl e \<Rightarrow> False | Inr q \<Rightarrow>
      (case evaluate_policy ?id (utc 0) q demo_action of Inl e \<Rightarrow> False | Inr d \<Rightarrow> True)"
    by code_simp
  with p(1) obtain d where d: "evaluate_policy ?id (utc 0) p demo_action = Inr d"
    by (cases "evaluate_policy ?id (utc 0) p demo_action") simp_all
  have "py_lower ''http://App.test'' \<noteq> ''http://App.test''" by code_simp
  with p(2) have "\<forall>og\<in>set (ep_origins p). py_lower og \<noteq> og" by simp
  from uppercase_origin_is_dead[OF this d] ok p(1) d show ?thesis by blast
qed

end
