(* ===== verification/Artifact.thy ===== *)
theory Artifact
  imports SurfaceModels
begin

text \<open>
  The data model of the capability artifact (\<^verbatim>\<open>capabilities/models.py\<close>). A
  Pydantic model is a record or a datatype constructor; a discriminated union is a datatype.
  The values are those after parsing (white space stripped, defaults filled in). Floats are
  rationals, frozensets and dictionaries are lists in iteration order. The field constraints and
  validators of each class are in \<open>ArtifactChecks\<close>.
\<close>

section \<open>Values and contracts\<close>

datatype surface_kind = SURFACE_WEB | SURFACE_DESKTOP

datatype persistence_mode = PERSIST_FULL | PERSIST_REDACTED | PERSIST_FORBIDDEN

datatype json_type = TYPE_STRING | TYPE_INTEGER | TYPE_BOOLEAN | TYPE_OBJECT

datatype value_format = FORMAT_DATE | FORMAT_DATE_TIME | FORMAT_DECIMAL

datatype scalar = SStr string | SInt int | SBool bool

text \<open>Python's equality of scalars: a bool equals the int 0 or 1.\<close>

fun scalar_key :: "scalar \<Rightarrow> scalar" where
  "scalar_key (SBool b) = SInt (if b then 1 else 0)"
| "scalar_key s = s"

datatype value_schema = ValueSchema
  (vs_type: json_type)
  (vs_description: string)
  (vs_classification: data_classification)
  (vs_persistence: persistence_mode)
  (vs_required: "string list")
  (vs_properties: "(string \<times> value_schema) list")
  (vs_pattern: "string option")
  (vs_format: "value_format option")
  (vs_enum: "scalar list")
  (vs_const: "scalar option")
  (vs_min_length: "int option")
  (vs_max_length: "int option")
  (vs_example: "scalar option")

record object_contract =
  oc_required :: "string list"
  oc_properties :: "(string \<times> value_schema) list"

datatype value_source = InputValue string | LiteralValue scalar

section \<open>Locators\<close>

datatype match_mode = MATCH_EXACT | MATCH_CONTAINS | MATCH_REGEX

datatype locator_strategy =
    LOC_ROLE_NAME | LOC_LABEL | LOC_TEXT | LOC_RELATIVE_TEXT | LOC_PLACEHOLDER | LOC_TITLE
  | LOC_CSS | LOC_ACCESSIBILITY_PATH | LOC_IMAGE_ANCHOR | LOC_COORDINATES

datatype portability = PORT_HIGH | PORT_MEDIUM | PORT_LOW

record locator_candidate =
  lc_strategy :: locator_strategy
  lc_expected_count :: int
  lc_value :: "string option"
  lc_role :: "string option"
  lc_name :: "string option"
  lc_match :: match_mode
  lc_anchor :: "string option"
  lc_relation :: "string option"
  lc_element :: "string option"
  lc_text :: "string option"
  lc_capture_group_label :: "string option"
  lc_x :: "int option"
  lc_y :: "int option"
  lc_width :: "int option"
  lc_height :: "int option"
  lc_viewport_width :: "int option"
  lc_viewport_height :: "int option"
  lc_portability :: portability

record normalized_region =
  nr_x :: rat
  nr_y :: rat
  nr_width :: rat
  nr_height :: rat

record relative_region =
  rr_x :: rat
  rr_y :: rat
  rr_width :: rat
  rr_height :: rat

record ocr_anchor =
  oa_value :: string
  oa_match :: match_mode
  oa_search_region :: "normalized_region option"
  oa_minimum_confidence :: rat

datatype text_relation = RIGHT_OF | BELOW | SAME_ROW

record ocr_text_candidate =
  ot_value :: string
  ot_match :: match_mode
  ot_search_region :: "normalized_region option"
  ot_minimum_confidence :: rat
  ot_portability :: portability

record ocr_relative_candidate =
  or_anchor :: string
  or_anchor_match :: match_mode
  or_target_text :: "string option"
  or_relation :: text_relation
  or_relative_region :: "relative_region option"
  or_search_region :: "normalized_region option"
  or_minimum_confidence :: rat
  or_portability :: portability

record image_anchor_candidate =
  ia_asset_key :: string
  ia_content_hash :: string
  ia_search_region :: "normalized_region option"
  ia_context_anchor :: "ocr_anchor option"
  ia_relative_region :: "relative_region option"
  ia_minimum_score :: rat
  ia_uniqueness_margin :: rat
  ia_minimum_scale :: rat
  ia_maximum_scale :: rat
  ia_scale_step :: rat
  ia_portability :: portability

text \<open>
  The union of visual candidates. An input text candidate holds the path of its input value; a
  rendered candidate its texts, match mode and, for images, asset key and content hash.
\<close>

datatype visual_candidate =
    InputTextCandidate string "string option" "text_relation option"
  | OcrTextCandidate ocr_text_candidate
  | OcrRelativeCandidate ocr_relative_candidate
  | ImageAnchorCandidate image_anchor_candidate
  | RenderedTextCandidate string match_mode
  | RenderedLabeledControlCandidate string match_mode
  | RenderedFieldValueCandidate string match_mode "text_relation option"
  | RenderedGroupImageCandidate string match_mode string string

record target_state =
  ts_visible :: bool
  ts_enabled :: "bool option"

record locator_bundle =
  lb_description :: string
  lb_registered_risk :: "risk option"
  lb_window :: string
  lb_frame_path :: "locator_candidate list"
  lb_visual_candidates :: "visual_candidate list"
  lb_candidates :: "locator_candidate list"
  lb_state :: target_state
  lb_tenant_overrides_allowed :: bool

section \<open>Conditions\<close>

datatype element_state = EL_EXISTS | EL_ABSENT | EL_VISIBLE | EL_HIDDEN | EL_ENABLED | EL_DISABLED

datatype condition =
    RouteCondition string
  | TextCondition string match_mode
  | RenderedTextCondition string match_mode
  | VisualTextCondition string match_mode "normalized_region option" rat
  | ElementCondition locator_bundle element_state
  | OutputValidCondition string
  | OutputEqualsCondition string string
  | IdentityMatchesCondition string string
  | AllCondition "condition list"
  | AnyCondition "condition list"
  | NotCondition condition

section \<open>Actions and steps\<close>

datatype scroll_direction = SCROLL_UP | SCROLL_DOWN | SCROLL_LEFT | SCROLL_RIGHT

datatype extract_transform = TR_TEXT | TR_TRIM | TR_LOWERCASE | TR_DECIMAL | TR_DATE_TIME

datatype action =
    NavigateAction string
  | ClickAction
  | TypeAction value_source bool
  | PressKeysAction "string list"
  | SelectAction value_source
  | ScrollAction scroll_direction int
  | WaitForAction condition
  | ExtractAction string extract_transform
  | AssertAction condition
  | SwitchContextAction string
  | CheckpointAction string

fun action_kind :: "action \<Rightarrow> string" where
  "action_kind (NavigateAction e) = ''navigate''"
| "action_kind ClickAction = ''click''"
| "action_kind (TypeAction v c) = ''type''"
| "action_kind (PressKeysAction ks) = ''press_keys''"
| "action_kind (SelectAction v) = ''select''"
| "action_kind (ScrollAction d n) = ''scroll''"
| "action_kind (WaitForAction c) = ''wait_for''"
| "action_kind (ExtractAction out t) = ''extract''"
| "action_kind (AssertAction c) = ''assert''"
| "action_kind (SwitchContextAction c) = ''switch_context''"
| "action_kind (CheckpointAction c) = ''checkpoint''"

record retry_policy =
  rp_max_attempts :: int
  rp_backoff_ms :: "int list"
  rp_retry_on :: "string list"

record evidence_requirement =
  er_before :: bool
  er_after :: bool
  er_on_failure :: bool

record step =
  st_id :: string
  st_name :: string
  st_action :: action
  st_target :: "locator_bundle option"
  st_preconditions :: "condition list"
  st_postconditions :: "condition list"
  st_timeout_ms :: int
  st_retry :: retry_policy
  st_recovery_refs :: "string list"
  st_outcome_refs :: "string list"
  st_failure_refs :: "string list"
  st_risk :: risk
  st_evidence :: evidence_requirement

record recovery =
  rc_id :: string
  rc_trigger :: condition
  rc_max_uses :: int
  rc_steps :: "step list"
  rc_resume_at :: string

record business_outcome =
  bo_code :: string
  bo_description :: string
  bo_detect :: condition
  bo_allowed_after_steps :: "string list"
  bo_details :: "(string \<times> value_source) list"

record application_failure =
  af_code :: string
  af_description :: string
  af_detect :: condition
  af_allowed_after_steps :: "string list"
  af_expected_state :: string
  af_observed_state :: string
  af_recoverable :: bool

record checkpoint =
  cp_id :: string
  cp_condition :: condition

section \<open>The artifact\<close>

datatype landmark_kind = LM_HEADING | LM_FIELD | LM_TEXT | LM_VISUAL_TEXT

record landmark =
  lm_kind :: landmark_kind
  lm_value :: string

record compatibility =
  co_application_family :: string
  co_base_variant :: string
  co_supported_variants :: "string list"
  co_surface_contract :: string
  co_entry_point :: string
  co_rendered_surface :: bool
  co_required_landmarks :: "landmark list"
  co_forbidden_landmarks :: "landmark list"

record capability_metadata =
  cm_id :: string
  cm_version :: string
  cm_name :: string
  cm_description :: string
  cm_application_family :: string
  cm_surface :: surface_kind
  cm_risk :: risk
  cm_tags :: "string list"

datatype redaction_mode = REDACT_REMOVE | REDACT_LAST4 | REDACT_TOKENIZE

record capability_policy =
  cy_action_types :: "string list"
  cy_entry_points :: "string list"
  cy_maximum_risk :: risk
  cy_route_patterns :: "string list"
  cy_forbidden_text_inputs :: "string list"
  cy_output_redaction :: "(string \<times> redaction_mode) list"

record provenance =
  pv_discovery_run_id :: string
  pv_provider :: string
  pv_model :: string
  pv_prompt_policy_version :: string
  pv_surface_adapter_version :: string
  pv_compiler_version :: string
  pv_created_at :: datetime
  pv_target_fingerprint :: string
  pv_evidence_manifest_key :: string
  pv_artifact_content_hash :: "string option"

record capability_artifact =
  art_capability :: capability_metadata
  art_compatibility :: compatibility
  art_inputs :: object_contract
  art_outputs :: object_contract
  art_preconditions :: "condition list"
  art_steps :: "step list"
  art_recoveries :: "recovery list"
  art_outcomes :: "business_outcome list"
  art_failures :: "application_failure list"
  art_checkpoint :: checkpoint
  art_policy :: capability_policy
  art_provenance :: provenance

definition recovery_steps :: "capability_artifact \<Rightarrow> step list" where
  "recovery_steps a = concat (map rc_steps (art_recoveries a))"

definition all_steps :: "capability_artifact \<Rightarrow> step list" where
  "all_steps a = art_steps a @ recovery_steps a"

end
