(* ===== verification/ArtifactChecks.thy ===== *)
theory ArtifactChecks
  imports Artifact
begin

text \<open>
  Field constraints and model validators of \<^verbatim>\<open>capabilities/models.py\<close>, class by
  class. A check is a list of conditions with the message of the error raised when one fails, in
  the order of the code; a violated field constraint raises before the model validator runs.
  Python's \<open>re.compile\<close> enters as the predicate \<open>compiles\<close>.
\<close>

section \<open>Lists of checks\<close>

definition checks :: "(bool \<times> string) list \<Rightarrow> unit result" where
  "checks cs = each (\<lambda>(b, msg). check b (ValueError msg)) cs"

lemma checks_simps [simp]:
  "checks [] = Inr ()"
  "checks ((b, msg) # cs) = (if b then checks cs else Inl (ValueError msg))"
  by (simp_all add: checks_def)

lemma checks_Inr_iff: "checks cs = Inr u \<longleftrightarrow> list_all fst cs"
  by (induction cs) (auto split: if_splits)

definition field_error :: string where
  "field_error = ''field constraint violated''"

definition opt_all :: "('a \<Rightarrow> bool) \<Rightarrow> 'a option \<Rightarrow> bool" where
  "opt_all P x = (case x of None \<Rightarrow> True | Some y \<Rightarrow> P y)"

lemma opt_all_simps [simp]: "opt_all P None" "opt_all P (Some y) = P y"
  by (simp_all add: opt_all_def)

definition is_field_name :: "string \<Rightarrow> bool" where
  "is_field_name = matches_ident lower_letters ident_chars 0 (Some 63)"

definition is_stable_id :: "string \<Rightarrow> bool" where
  "is_stable_id = matches_ident lower_letters dotted_ident_chars 0 None"

definition is_step_name :: "string \<Rightarrow> bool" where
  "is_step_name = matches_ident lower_letters dotted_ident_chars 1 None"

definition is_code :: "string \<Rightarrow> bool" where
  "is_code = matches_ident lower_letters ident_chars 1 None"

definition is_family :: "string \<Rightarrow> bool" where
  "is_family = matches_ident lower_letters ident_chars 1 (Some 63)"

definition is_variant :: "string \<Rightarrow> bool" where
  "is_variant = matches_ident lower_letters (ident_chars @ ''-'') 1 (Some 63)"

definition is_surface_contract :: "string \<Rightarrow> bool" where
  "is_surface_contract = matches_ident lower_letters dotted_ident_chars 1 (Some 63)"

definition is_dotted_path :: "string \<Rightarrow> bool" where
  "is_dotted_path s = list_all (matches_ident lower_letters ident_chars 0 None) (split_on (CHR ''.'') s)"

definition is_content_hash :: "string \<Rightarrow> bool" where
  "is_content_hash s = (starts_with ''sha256:'' s \<and> is_hex 64 (drop 7 s))"

definition is_asset_key :: "string \<Rightarrow> bool" where
  "is_asset_key s = (starts_with ''asset://sha256/'' s \<and> is_hex 64 (drop 15 s))"

definition is_run_id :: "string \<Rightarrow> bool" where
  "is_run_id s = (starts_with ''run_'' s \<and> is_hex 32 (drop 4 s))"

definition is_evidence_key :: "string \<Rightarrow> bool" where
  "is_evidence_key s =
     (starts_with ''evidence://'' s \<and> drop 11 s \<noteq> [] \<and> \<not> list_ex py_isspace (drop 11 s))"

definition bounded_text :: "nat \<Rightarrow> string \<Rightarrow> bool" where
  "bounded_text n s = (s \<noteq> [] \<and> length s \<le> n)"

section \<open>Values and contracts\<close>

fun matches_json_type :: "json_type \<Rightarrow> scalar \<Rightarrow> bool" where
  "matches_json_type TYPE_STRING (SStr s) = True"
| "matches_json_type TYPE_INTEGER (SInt i) = True"
| "matches_json_type TYPE_BOOLEAN (SBool b) = True"
| "matches_json_type _ _ = False"

fun check_value_schema :: "(string \<Rightarrow> bool) \<Rightarrow> value_schema \<Rightarrow> unit result" where
  "check_value_schema compiles
     (ValueSchema ty desc cls per req props pat fmt en con mn mx ex) =
     bind_r (each (\<lambda>(name, s). check_value_schema compiles s) props) (\<lambda>_. checks
       [(desc \<noteq> [] \<and> opt_all (\<lambda>n. 0 \<le> n) mn \<and> opt_all (\<lambda>n. 0 \<le> n) mx, field_error),
        (ty = TYPE_OBJECT \<longrightarrow> set req \<subseteq> set (map fst props),
           ''required properties are not declared''),
        (ty = TYPE_OBJECT \<longrightarrow> pat = None \<and> fmt = None \<and> en = [],
           ''object schemas cannot declare scalar constraints''),
        (ty = TYPE_OBJECT \<longrightarrow> con = None \<and> mn = None \<and> mx = None,
           ''object schemas cannot declare scalar constraints''),
        (ty = TYPE_OBJECT \<longrightarrow> ex = None, ''object schema examples are not supported''),
        (ty \<noteq> TYPE_OBJECT \<longrightarrow> props = [] \<and> req = [],
           ''only object schemas may declare properties or required fields''),
        (distinct req, ''required properties must be unique''),
        (list_all is_field_name (map fst props), ''property names are invalid''),
        (ty \<noteq> TYPE_STRING \<longrightarrow> pat = None \<and> fmt = None \<and> mn = None \<and> mx = None,
           ''only string schemas may declare string constraints''),
        (case (mn, mx) of (Some a, Some b) \<Rightarrow> a \<le> b | _ \<Rightarrow> True,
           ''min_length cannot exceed max_length''),
        (opt_all compiles pat, ''pattern must be a valid regular expression''),
        (distinct (map scalar_key en), ''enum values must be unique''),
        (list_all (matches_json_type ty) en, ''enum values must match the declared value type''),
        (opt_all (matches_json_type ty) con, ''const must match the declared value type''),
        (opt_all (matches_json_type ty) ex, ''example must match the declared value type''),
        (opt_all (\<lambda>c. en \<noteq> [] \<longrightarrow> scalar_key c \<in> set (map scalar_key en)) con,
           ''const must be included in enum'')])"

definition check_object_contract :: "object_contract \<Rightarrow> unit result" where
  "check_object_contract c = checks
     [(set (oc_required c) \<subseteq> set (map fst (oc_properties c)),
         ''required properties are not declared''),
      (distinct (oc_required c), ''required properties must be unique''),
      (list_all is_field_name (map fst (oc_properties c)), ''property names are invalid'')]"

definition check_value_source :: "value_source \<Rightarrow> unit result" where
  "check_value_source v =
     (case v of InputValue p \<Rightarrow> checks [(is_dotted_path p, field_error)] | LiteralValue s \<Rightarrow> Inr ())"

section \<open>Locators\<close>

text \<open>The names of the strategy-specific fields that are populated.\<close>

definition populated_fields :: "locator_candidate \<Rightarrow> string list" where
  "populated_fields c =
     map fst (filter snd
       [(''value'', lc_value c \<noteq> None), (''role'', lc_role c \<noteq> None),
        (''name'', lc_name c \<noteq> None), (''anchor'', lc_anchor c \<noteq> None),
        (''relation'', lc_relation c \<noteq> None), (''element'', lc_element c \<noteq> None),
        (''text'', lc_text c \<noteq> None),
        (''capture_group_label'', lc_capture_group_label c \<noteq> None),
        (''x'', lc_x c \<noteq> None), (''y'', lc_y c \<noteq> None), (''width'', lc_width c \<noteq> None),
        (''height'', lc_height c \<noteq> None), (''viewport_width'', lc_viewport_width c \<noteq> None),
        (''viewport_height'', lc_viewport_height c \<noteq> None)])"

fun strategy_fields :: "locator_strategy \<Rightarrow> string list" where
  "strategy_fields LOC_ROLE_NAME = [''role'', ''name'']"
| "strategy_fields LOC_RELATIVE_TEXT = [''anchor'', ''relation'', ''element'', ''text'']"
| "strategy_fields LOC_COORDINATES =
     [''capture_group_label'', ''x'', ''y'', ''width'', ''height'', ''viewport_width'',
      ''viewport_height'']"
| "strategy_fields _ = [''value'']"

text \<open>Python truth of an optional string.\<close>

definition non_empty :: "string option \<Rightarrow> bool" where
  "non_empty x = (case x of None \<Rightarrow> False | Some s \<Rightarrow> s \<noteq> [])"

definition value_strategy :: "locator_strategy \<Rightarrow> bool" where
  "value_strategy s =
     (s \<in> {LOC_LABEL, LOC_TEXT, LOC_PLACEHOLDER, LOC_TITLE, LOC_CSS, LOC_ACCESSIBILITY_PATH,
            LOC_IMAGE_ANCHOR})"

definition check_locator_candidate :: "locator_candidate \<Rightarrow> unit result" where
  "check_locator_candidate c =
     (let coord = (lc_strategy c = LOC_COORDINATES) in checks
       [(1 \<le> lc_expected_count c \<and> lc_expected_count c \<le> 20 \<and>
         opt_all (bounded_text 200) (lc_capture_group_label c) \<and>
         opt_all (\<lambda>n. 0 \<le> n) (lc_x c) \<and> opt_all (\<lambda>n. 0 \<le> n) (lc_y c) \<and>
         opt_all (\<lambda>n. 0 < n) (lc_width c) \<and> opt_all (\<lambda>n. 0 < n) (lc_height c) \<and>
         opt_all (\<lambda>n. 0 < n) (lc_viewport_width c) \<and> opt_all (\<lambda>n. 0 < n) (lc_viewport_height c),
           field_error),
        (lc_strategy c = LOC_ROLE_NAME \<longrightarrow> non_empty (lc_role c) \<and> non_empty (lc_name c),
           ''role_name locator requires role and name''),
        (lc_strategy c = LOC_RELATIVE_TEXT \<longrightarrow>
           non_empty (lc_anchor c) \<and> non_empty (lc_relation c) \<and> non_empty (lc_element c),
           ''relative_text locator requires anchor, relation, and element''),
        (value_strategy (lc_strategy c) \<longrightarrow> non_empty (lc_value c), ''locator requires value''),
        (coord \<longrightarrow> None \<notin> set [lc_x c, lc_y c, lc_width c, lc_height c, lc_viewport_width c,
                              lc_viewport_height c],
           ''coordinate locator requires a region and viewport dimensions''),
        (coord \<longrightarrow> the (lc_x c) + the (lc_width c) \<le> the (lc_viewport_width c) \<and>
                  the (lc_y c) + the (lc_height c) \<le> the (lc_viewport_height c),
           ''coordinate region must fit inside the recorded viewport''),
        (coord \<longrightarrow> lc_portability c = PORT_LOW, ''coordinate locator must declare low portability''),
        (set (populated_fields c) \<subseteq> set (strategy_fields (lc_strategy c)),
           ''locator contains unrelated fields'')])"

definition check_normalized_region :: "normalized_region \<Rightarrow> unit result" where
  "check_normalized_region r = checks
     [(0 \<le> nr_x r \<and> nr_x r \<le> 1 \<and> 0 \<le> nr_y r \<and> nr_y r \<le> 1 \<and> 0 < nr_width r \<and>
       nr_width r \<le> 1 \<and> 0 < nr_height r \<and> nr_height r \<le> 1, field_error),
      (nr_x r + nr_width r \<le> 1 \<and> nr_y r + nr_height r \<le> 1,
         ''normalized region must fit inside the viewport'')]"

definition check_relative_region :: "relative_region \<Rightarrow> unit result" where
  "check_relative_region r = checks
     [(-20 \<le> rr_x r \<and> rr_x r \<le> 20 \<and> -20 \<le> rr_y r \<and> rr_y r \<le> 20 \<and> 0 < rr_width r \<and>
       rr_width r \<le> 40 \<and> 0 < rr_height r \<and> rr_height r \<le> 40, field_error)]"

definition check_opt :: "('a \<Rightarrow> unit result) \<Rightarrow> 'a option \<Rightarrow> unit result" where
  "check_opt f x = (case x of None \<Rightarrow> Inr () | Some y \<Rightarrow> f y)"

definition unit_interval :: "rat \<Rightarrow> bool" where
  "unit_interval q = (0 \<le> q \<and> q \<le> 1)"

definition check_ocr_anchor :: "ocr_anchor \<Rightarrow> unit result" where
  "check_ocr_anchor a =
     bind_r (check_opt check_normalized_region (oa_search_region a)) (\<lambda>_.
     checks [(bounded_text 200 (oa_value a) \<and> unit_interval (oa_minimum_confidence a), field_error)])"

definition check_image_anchor :: "image_anchor_candidate \<Rightarrow> unit result" where
  "check_image_anchor c =
     bind_r (check_opt check_normalized_region (ia_search_region c)) (\<lambda>_.
     bind_r (check_opt check_ocr_anchor (ia_context_anchor c)) (\<lambda>_.
     bind_r (check_opt check_relative_region (ia_relative_region c)) (\<lambda>_. checks
       [(is_asset_key (ia_asset_key c) \<and> is_content_hash (ia_content_hash c) \<and>
         unit_interval (ia_minimum_score c) \<and> unit_interval (ia_uniqueness_margin c) \<and>
         0 < ia_minimum_scale c \<and> ia_minimum_scale c \<le> 4 \<and> 0 < ia_maximum_scale c \<and>
         ia_maximum_scale c \<le> 4 \<and> 0 < ia_scale_step c \<and> ia_scale_step c \<le> 1 / 2, field_error),
        (ia_minimum_scale c \<le> ia_maximum_scale c, ''minimum_scale cannot exceed maximum_scale''),
        ((ia_context_anchor c = None) = (ia_relative_region c = None),
           ''context_anchor and relative_search_region must be provided together''),
        (ia_context_anchor c = None \<or> ia_search_region c = None,
           ''contextual image anchors cannot also declare a top-level search_region'')])))"

definition check_visual_candidate :: "visual_candidate \<Rightarrow> unit result" where
  "check_visual_candidate v =
     (case v of
        InputTextCandidate path txt rel \<Rightarrow> checks
          [(is_dotted_path path \<and> opt_all (bounded_text 200) txt, field_error),
           ((txt = None) = (rel = None),
              ''an input-relative target requires both target_text and relation'')]
      | OcrTextCandidate c \<Rightarrow>
          bind_r (check_opt check_normalized_region (ot_search_region c)) (\<lambda>_. checks
            [(bounded_text 200 (ot_value c) \<and> unit_interval (ot_minimum_confidence c), field_error)])
      | OcrRelativeCandidate c \<Rightarrow>
          bind_r (check_opt check_relative_region (or_relative_region c)) (\<lambda>_.
          bind_r (check_opt check_normalized_region (or_search_region c)) (\<lambda>_. checks
            [(bounded_text 200 (or_anchor c) \<and> opt_all (bounded_text 200) (or_target_text c) \<and>
              unit_interval (or_minimum_confidence c), field_error),
             ((or_target_text c = None) \<noteq> (or_relative_region c = None),
                ''ocr_relative requires exactly one target_text or relative_region'')]))
      | ImageAnchorCandidate c \<Rightarrow> check_image_anchor c
      | RenderedTextCandidate s m \<Rightarrow> checks [(bounded_text 200 s, field_error)]
      | RenderedLabeledControlCandidate s m \<Rightarrow> checks [(bounded_text 200 s, field_error)]
      | RenderedFieldValueCandidate s m rel \<Rightarrow> checks
          [(bounded_text 200 s \<and> rel \<noteq> Some SAME_ROW, field_error)]
      | RenderedGroupImageCandidate s m k h \<Rightarrow> checks
          [(bounded_text 200 s \<and> is_asset_key k \<and> is_content_hash h, field_error)])"

definition check_locator_bundle :: "locator_bundle \<Rightarrow> unit result" where
  "check_locator_bundle b =
     bind_r (each check_locator_candidate (lb_frame_path b)) (\<lambda>_.
     bind_r (each check_visual_candidate (lb_visual_candidates b)) (\<lambda>_.
     bind_r (each check_locator_candidate (lb_candidates b)) (\<lambda>_. checks
       [(lb_description b \<noteq> [], field_error),
        (lb_visual_candidates b \<noteq> [] \<or> lb_candidates b \<noteq> [],
           ''a locator bundle requires at least one candidate'')])))"

section \<open>Conditions, actions, steps\<close>

fun check_condition :: "condition \<Rightarrow> unit result" where
  "check_condition (RouteCondition p) = checks [(p \<noteq> [], field_error)]"
| "check_condition (TextCondition v m) = checks [(v \<noteq> [], field_error)]"
| "check_condition (RenderedTextCondition v m) = checks [(bounded_text 200 v, field_error)]"
| "check_condition (VisualTextCondition v m r q) =
     bind_r (check_opt check_normalized_region r) (\<lambda>_.
     checks [(v \<noteq> [] \<and> unit_interval q, field_error)])"
| "check_condition (ElementCondition t s) = check_locator_bundle t"
| "check_condition (OutputValidCondition out) = Inr ()"
| "check_condition (OutputEqualsCondition out v) = checks [(bounded_text 200 v, field_error)]"
| "check_condition (IdentityMatchesCondition out p) = Inr ()"
| "check_condition (AllCondition cs) =
     bind_r (each check_condition cs) (\<lambda>_. checks [(cs \<noteq> [], field_error)])"
| "check_condition (AnyCondition cs) =
     bind_r (each check_condition cs) (\<lambda>_. checks [(cs \<noteq> [], field_error)])"
| "check_condition (NotCondition c) = check_condition c"

definition KEYBOARD_KEYS :: "string list" where
  "KEYBOARD_KEYS =
     [''Enter'', ''Space'', ''Tab'', ''Escape'', ''Backspace'', ''Delete'', ''Insert'',
      ''ArrowUp'', ''ArrowDown'', ''ArrowLeft'', ''ArrowRight'', ''Home'', ''End'', ''PageUp'',
      ''PageDown'', ''F1'', ''F2'', ''F3'', ''F4'', ''F5'', ''F6'', ''F7'', ''F8'', ''F9'',
      ''F10'', ''F11'', ''F12'', ''Control'', ''Shift'', ''Alt'', ''Meta'', ''A'']"

definition KEY_MODIFIERS :: "string list" where
  "KEY_MODIFIERS = [''Control'', ''Shift'', ''Alt'', ''Meta'']"

definition check_chord :: "string list \<Rightarrow> unit result" where
  "check_chord keys = checks
     [(1 \<le> length keys \<and> length keys \<le> 4 \<and> list_all (\<lambda>k. k \<in> set KEYBOARD_KEYS) keys, field_error),
      (last keys \<notin> set KEY_MODIFIERS \<and> list_all (\<lambda>k. k \<in> set KEY_MODIFIERS) (butlast keys),
         ''a key chord requires modifiers followed by one supported key''),
      (distinct keys, ''a key chord cannot repeat a modifier''),
      (last keys = ''A'' \<longrightarrow> ''Control'' \<in> set (butlast keys) \<or> ''Meta'' \<in> set (butlast keys),
         ''text entry requires a type action; A is only a select-all shortcut'')]"

definition check_action :: "action \<Rightarrow> unit result" where
  "check_action a =
     (case a of
        TypeAction v clear \<Rightarrow> check_value_source v
      | SelectAction v \<Rightarrow> check_value_source v
      | PressKeysAction keys \<Rightarrow> check_chord keys
      | ScrollAction d n \<Rightarrow> checks [(0 < n \<and> n \<le> 2000, field_error)]
      | WaitForAction c \<Rightarrow> check_condition c
      | AssertAction c \<Rightarrow> check_condition c
      | _ \<Rightarrow> Inr ())"

definition check_retry_policy :: "retry_policy \<Rightarrow> unit result" where
  "check_retry_policy r = checks
     [(1 \<le> rp_max_attempts r \<and> rp_max_attempts r \<le> 5, field_error),
      (int (length (rp_backoff_ms r)) \<le> rp_max_attempts r - 1,
         ''backoff entries cannot exceed the number of retries''),
      (list_all (\<lambda>d. 0 \<le> d \<and> d \<le> 30000) (rp_backoff_ms r),
         ''backoff values must be between 0 and 30000 milliseconds''),
      (distinct (rp_retry_on r) \<and> list_all is_stable_id (rp_retry_on r),
         ''retry error codes must be unique stable identifiers''),
      (1 < rp_max_attempts r \<longrightarrow> rp_retry_on r \<noteq> [],
         ''multiple attempts require an explicit retry error code''),
      (rp_max_attempts r = 1 \<longrightarrow> rp_retry_on r = [] \<and> rp_backoff_ms r = [],
         ''single-attempt steps cannot declare retry behavior'')]"

fun requires_target :: "action \<Rightarrow> bool" where
  "requires_target ClickAction = True"
| "requires_target (TypeAction v c) = True"
| "requires_target (SelectAction v) = True"
| "requires_target (ExtractAction out t) = True"
| "requires_target _ = False"

definition check_step :: "step \<Rightarrow> unit result" where
  "check_step s =
     bind_r (check_action (st_action s)) (\<lambda>_.
     bind_r (check_opt check_locator_bundle (st_target s)) (\<lambda>_.
     bind_r (each check_condition (st_preconditions s)) (\<lambda>_.
     bind_r (each check_condition (st_postconditions s)) (\<lambda>_.
     bind_r (check_retry_policy (st_retry s)) (\<lambda>_. checks
       [(is_step_name (st_id s) \<and> st_name s \<noteq> [] \<and> 100 \<le> st_timeout_ms s \<and>
         st_timeout_ms s \<le> 120000, field_error),
        (requires_target (st_action s) \<longrightarrow> st_target s \<noteq> None, ''action requires a target''),
        (\<not> requires_target (st_action s) \<longrightarrow> st_target s = None, ''action cannot declare a target''),
        (distinct (st_recovery_refs s), ''step recovery references must be unique''),
        (distinct (st_outcome_refs s), ''step outcome references must be unique''),
        (distinct (st_failure_refs s), ''step failure references must be unique'')])))))"

definition check_recovery :: "recovery \<Rightarrow> unit result" where
  "check_recovery r =
     bind_r (check_condition (rc_trigger r)) (\<lambda>_.
     bind_r (each check_step (rc_steps r)) (\<lambda>_. checks
       [(is_step_name (rc_id r) \<and> 1 \<le> rc_max_uses r \<and> rc_max_uses r \<le> 3 \<and> rc_steps r \<noteq> [],
           field_error)]))"

definition check_business_outcome :: "business_outcome \<Rightarrow> unit result" where
  "check_business_outcome b =
     bind_r (check_condition (bo_detect b)) (\<lambda>_.
     bind_r (each (\<lambda>(k, v). check_value_source v) (bo_details b)) (\<lambda>_. checks
       [(is_code (bo_code b) \<and> bo_allowed_after_steps b \<noteq> [], field_error)]))"

definition check_application_failure :: "application_failure \<Rightarrow> unit result" where
  "check_application_failure f =
     bind_r (check_condition (af_detect f)) (\<lambda>_. checks
       [(is_code (af_code f) \<and> af_description f \<noteq> [] \<and> af_allowed_after_steps f \<noteq> [] \<and>
         af_expected_state f \<noteq> [] \<and> af_observed_state f \<noteq> [], field_error)])"

definition check_checkpoint :: "checkpoint \<Rightarrow> unit result" where
  "check_checkpoint c =
     bind_r (check_condition (cp_condition c)) (\<lambda>_. checks [(is_code (cp_id c), field_error)])"

section \<open>Metadata, policy, provenance\<close>

definition check_compatibility :: "compatibility \<Rightarrow> unit result" where
  "check_compatibility c = checks
     [(is_family (co_application_family c) \<and> is_variant (co_base_variant c) \<and>
       co_supported_variants c \<noteq> [] \<and> is_surface_contract (co_surface_contract c) \<and>
       is_family (co_entry_point c) \<and> co_required_landmarks c \<noteq> [], field_error),
      (distinct (co_supported_variants c), ''supported variants must be unique''),
      (list_all is_variant (co_supported_variants c),
         ''supported variants contain an invalid identifier'')]"

definition check_metadata :: "capability_metadata \<Rightarrow> unit result" where
  "check_metadata m = checks
     [(is_capability_id (cm_id m) \<and> is_semantic_version (cm_version m) \<and>
       bounded_text 200 (cm_name m) \<and> bounded_text 1000 (cm_description m) \<and>
       is_family (cm_application_family m), field_error),
      (distinct (cm_tags m), ''capability tags must be unique''),
      (list_all (\<lambda>t. length t \<le> 64 \<and> is_stable_id t) (cm_tags m),
         ''capability tags must be stable identifiers'')]"

definition KNOWN_ACTIONS :: "string list" where
  "KNOWN_ACTIONS =
     [''navigate'', ''click'', ''type'', ''press_keys'', ''select'', ''scroll'', ''wait_for'',
      ''extract'', ''assert'', ''switch_context'', ''checkpoint'']"

definition check_capability_policy :: "capability_policy \<Rightarrow> unit result" where
  "check_capability_policy p = checks
     [(cy_action_types p \<noteq> [] \<and> set (cy_action_types p) \<subseteq> set KNOWN_ACTIONS,
         ''capability policy contains unknown action types''),
      (cy_entry_points p \<noteq> [], ''capability policy requires an entry point''),
      (list_all safe_absolute_path (cy_route_patterns p),
         ''capability route patterns must be absolute paths'')]"

definition check_provenance :: "provenance \<Rightarrow> unit result" where
  "check_provenance p = checks
     [(is_run_id (pv_discovery_run_id p) \<and> bounded_text 100 (pv_provider p) \<and>
       bounded_text 200 (pv_model p) \<and> bounded_text 100 (pv_prompt_policy_version p) \<and>
       bounded_text 100 (pv_surface_adapter_version p) \<and> bounded_text 100 (pv_compiler_version p) \<and>
       bounded_text 200 (pv_target_fingerprint p) \<and> is_evidence_key (pv_evidence_manifest_key p) \<and>
       opt_all is_content_hash (pv_artifact_content_hash p), field_error),
      (dt_aware (pv_created_at p), ''provenance timestamp must include an offset'')]"

end
