(* ===== verification/ArtifactSemantics.thy ===== *)
theory ArtifactSemantics
  imports ArtifactChecks
begin

text \<open>
  The cross-field validation of an artifact (\<^verbatim>\<open>CapabilityArtifact.validate_semantics\<close>
  and its helpers in \<^verbatim>\<open>capabilities/models.py\<close>), and the shared inspection of
  conditions in \<^verbatim>\<open>capabilities/conditions.py\<close>. Python sets of names are lists
  whose order is immaterial.
\<close>

section \<open>Inspecting conditions\<close>

fun condition_outputs :: "condition \<Rightarrow> string list" where
  "condition_outputs (OutputValidCondition out) = [out]"
| "condition_outputs (OutputEqualsCondition out v) = [out]"
| "condition_outputs (IdentityMatchesCondition out p) = [out]"
| "condition_outputs (AllCondition cs) = concat (map condition_outputs cs)"
| "condition_outputs (AnyCondition cs) = concat (map condition_outputs cs)"
| "condition_outputs (NotCondition c) = condition_outputs c"
| "condition_outputs _ = []"

fun contains_identity :: "condition \<Rightarrow> bool" where
  "contains_identity (IdentityMatchesCondition out p) = True"
| "contains_identity (AllCondition cs) = list_ex contains_identity cs"
| "contains_identity (AnyCondition cs) = list_ex contains_identity cs"
| "contains_identity (NotCondition c) = contains_identity c"
| "contains_identity _ = False"

fun surface_conditions :: "condition \<Rightarrow> condition list" where
  "surface_conditions (RouteCondition p) = [RouteCondition p]"
| "surface_conditions (TextCondition v m) = [TextCondition v m]"
| "surface_conditions (RenderedTextCondition v m) = [RenderedTextCondition v m]"
| "surface_conditions (VisualTextCondition v m r q) = [VisualTextCondition v m r q]"
| "surface_conditions (ElementCondition t s) = [ElementCondition t s]"
| "surface_conditions (AllCondition cs) = concat (map surface_conditions cs)"
| "surface_conditions (AnyCondition cs) = concat (map surface_conditions cs)"
| "surface_conditions (NotCondition c) =
     (if surface_conditions c \<noteq> [] then [NotCondition c] else [])"
| "surface_conditions _ = []"

fun proves_distinct_surface :: "condition \<Rightarrow> condition \<Rightarrow> bool" where
  "proves_distinct_surface (AllCondition cs) blocked =
     list_ex (\<lambda>c. proves_distinct_surface c blocked) cs"
| "proves_distinct_surface (AnyCondition cs) blocked =
     list_all (\<lambda>c. proves_distinct_surface c blocked) cs"
| "proves_distinct_surface c blocked = (surface_conditions c \<noteq> [] \<and> c \<noteq> blocked)"

fun walk_conditions :: "condition \<Rightarrow> condition list" where
  "walk_conditions (AllCondition cs) = AllCondition cs # concat (map walk_conditions cs)"
| "walk_conditions (AnyCondition cs) = AnyCondition cs # concat (map walk_conditions cs)"
| "walk_conditions (NotCondition c) = NotCondition c # walk_conditions c"
| "walk_conditions c = [c]"

section \<open>Paths and references\<close>

text \<open>The properties of a schema; a scalar has none.\<close>

fun has_path :: "(string \<times> value_schema) list \<Rightarrow> string list \<Rightarrow> bool" where
  "has_path props [] = False"
| "has_path props (p # ps) =
     (case map_of props p of
        None \<Rightarrow> False
      | Some s \<Rightarrow> if ps = [] then True
                  else if vs_type s \<noteq> TYPE_OBJECT then False
                  else has_path (vs_properties s) ps)"

definition contract_has_path :: "object_contract \<Rightarrow> string \<Rightarrow> bool" where
  "contract_has_path contract path = has_path (oc_properties contract) (split_on (CHR ''.'') path)"

definition known_output :: "object_contract \<Rightarrow> string \<Rightarrow> bool" where
  "known_output outputs out = (out \<in> set (map fst (oc_properties outputs)))"

fun condition_reference_ok :: "object_contract \<Rightarrow> object_contract \<Rightarrow> condition \<Rightarrow> unit result" where
  "condition_reference_ok inputs outputs (OutputValidCondition out) =
     checks [(known_output outputs out, ''condition references unknown output'')]"
| "condition_reference_ok inputs outputs (OutputEqualsCondition out v) =
     checks [(known_output outputs out, ''condition references unknown output'')]"
| "condition_reference_ok inputs outputs (IdentityMatchesCondition out p) =
     checks [(known_output outputs out, ''identity condition references unknown output''),
             (contract_has_path inputs p, ''identity condition references unknown input'')]"
| "condition_reference_ok inputs outputs _ = Inr ()"

definition validate_condition_references ::
  "object_contract \<Rightarrow> object_contract \<Rightarrow> condition \<Rightarrow> unit result" where
  "validate_condition_references inputs outputs c =
     each (condition_reference_ok inputs outputs) (walk_conditions c)"

section \<open>Geometry\<close>

definition is_geometry_free_candidate :: "visual_candidate \<Rightarrow> bool" where
  "is_geometry_free_candidate v =
     (case v of
        InputTextCandidate p t r \<Rightarrow> True
      | RenderedTextCandidate s m \<Rightarrow> True
      | RenderedLabeledControlCandidate s m \<Rightarrow> True
      | RenderedFieldValueCandidate s m r \<Rightarrow> True
      | RenderedGroupImageCandidate s m k h \<Rightarrow> True
      | OcrRelativeCandidate c \<Rightarrow> or_target_text c \<noteq> None \<and> or_relative_region c = None \<and>
                                  or_search_region c = None
      | _ \<Rightarrow> False)"

definition validate_geometry_free_target :: "locator_bundle \<Rightarrow> unit result" where
  "validate_geometry_free_target t = checks
     [(lb_candidates t = [], ''rendered-surface targets cannot contain DOM or coordinate locators''),
      (lb_visual_candidates t \<noteq> [], ''rendered-surface targets require rendered candidates''),
      (list_all is_geometry_free_candidate (lb_visual_candidates t),
         ''rendered-surface targets require geometry-free rendered candidates'')]"

fun validate_geometry_free_condition :: "condition \<Rightarrow> unit result" where
  "validate_geometry_free_condition (TextCondition v m) =
     Inl (ValueError ''rendered-surface conditions must use geometry-free rendered text'')"
| "validate_geometry_free_condition (VisualTextCondition v m r q) =
     Inl (ValueError ''rendered-surface conditions must use geometry-free rendered text'')"
| "validate_geometry_free_condition (ElementCondition t s) =
     Inl (ValueError ''rendered-surface conditions cannot contain DOM element locators'')"
| "validate_geometry_free_condition (AllCondition cs) = each validate_geometry_free_condition cs"
| "validate_geometry_free_condition (AnyCondition cs) = each validate_geometry_free_condition cs"
| "validate_geometry_free_condition (NotCondition c) = validate_geometry_free_condition c"
| "validate_geometry_free_condition _ = Inr ()"

definition validate_geometry_free_contract :: "capability_artifact \<Rightarrow> unit result" where
  "validate_geometry_free_contract a =
     bind_r (each (\<lambda>s.
        bind_r (check_opt validate_geometry_free_target (st_target s)) (\<lambda>_.
        each validate_geometry_free_condition (st_preconditions s @ st_postconditions s)))
        (all_steps a)) (\<lambda>_.
     bind_r (each validate_geometry_free_condition (art_preconditions a)) (\<lambda>_.
     bind_r (each (\<lambda>r. validate_geometry_free_condition (rc_trigger r)) (art_recoveries a)) (\<lambda>_.
     bind_r (each (\<lambda>b. validate_geometry_free_condition (bo_detect b)) (art_outcomes a)) (\<lambda>_.
     bind_r (each (\<lambda>f. validate_geometry_free_condition (af_detect f)) (art_failures a)) (\<lambda>_.
     validate_geometry_free_condition (cp_condition (art_checkpoint a)))))))"

text \<open>
  \<open>_validate_no_persisted_coordinates\<close>: the reflective walk over every nested model, here one
  function per class in field order.
\<close>

definition no_coordinates :: "locator_candidate \<Rightarrow> unit result" where
  "no_coordinates c = checks
     [(lc_strategy c \<noteq> LOC_COORDINATES, ''schema 1.4 artifacts cannot persist coordinate locators'')]"

definition no_geometry :: "visual_candidate \<Rightarrow> unit result" where
  "no_geometry v = checks
     [(case v of
         ImageAnchorCandidate c \<Rightarrow> False
       | OcrTextCandidate c \<Rightarrow> ot_search_region c = None
       | OcrRelativeCandidate c \<Rightarrow> or_search_region c = None \<and> or_relative_region c = None
       | _ \<Rightarrow> True, ''schema 1.4 artifacts cannot persist visual geometry'')]"

definition walk_bundle :: "locator_bundle \<Rightarrow> unit result" where
  "walk_bundle b =
     bind_r (each no_coordinates (lb_frame_path b)) (\<lambda>_.
     bind_r (each no_geometry (lb_visual_candidates b)) (\<lambda>_.
     each no_coordinates (lb_candidates b)))"

fun walk_condition :: "condition \<Rightarrow> unit result" where
  "walk_condition (VisualTextCondition v m r q) = checks
     [(r = None, ''schema 1.4 artifacts cannot persist visual geometry'')]"
| "walk_condition (ElementCondition t s) = walk_bundle t"
| "walk_condition (AllCondition cs) = each walk_condition cs"
| "walk_condition (AnyCondition cs) = each walk_condition cs"
| "walk_condition (NotCondition c) = walk_condition c"
| "walk_condition _ = Inr ()"

definition walk_step :: "step \<Rightarrow> unit result" where
  "walk_step s =
     bind_r (case st_action s of WaitForAction c \<Rightarrow> walk_condition c
             | AssertAction c \<Rightarrow> walk_condition c | _ \<Rightarrow> Inr ()) (\<lambda>_.
     bind_r (check_opt walk_bundle (st_target s)) (\<lambda>_.
     bind_r (each walk_condition (st_preconditions s)) (\<lambda>_.
     each walk_condition (st_postconditions s))))"

definition validate_no_persisted_coordinates :: "capability_artifact \<Rightarrow> unit result" where
  "validate_no_persisted_coordinates a =
     bind_r (each walk_condition (art_preconditions a)) (\<lambda>_.
     bind_r (each walk_step (art_steps a)) (\<lambda>_.
     bind_r (each (\<lambda>r. bind_r (walk_condition (rc_trigger r)) (\<lambda>_. each walk_step (rc_steps r)))
               (art_recoveries a)) (\<lambda>_.
     bind_r (each (\<lambda>b. walk_condition (bo_detect b)) (art_outcomes a)) (\<lambda>_.
     bind_r (each (\<lambda>f. walk_condition (af_detect f)) (art_failures a)) (\<lambda>_.
     walk_condition (cp_condition (art_checkpoint a)))))))"

section \<open>The semantic checks\<close>

definition check_outcome_links :: "capability_artifact \<Rightarrow> business_outcome \<Rightarrow> unit result" where
  "check_outcome_links a b =
     bind_r (checks [(distinct (bo_allowed_after_steps b), ''outcome allowed steps must be unique'')])
       (\<lambda>_. each (\<lambda>(k, src). case src of
          InputValue p \<Rightarrow> checks [(contract_has_path (art_inputs a) p,
                                    ''outcome references an unknown input'')]
        | LiteralValue v \<Rightarrow> Inr ()) (bo_details b))"

text \<open>The value source of a typing or selecting action.\<close>

definition input_source :: "action \<Rightarrow> value_source option" where
  "input_source x =
     (case x of TypeAction v c \<Rightarrow> Some v | SelectAction v \<Rightarrow> Some v | _ \<Rightarrow> None)"

definition allowed_after :: "('b \<Rightarrow> string) \<Rightarrow> ('b \<Rightarrow> string list) \<Rightarrow> 'b list \<Rightarrow> string \<Rightarrow> string list" where
  "allowed_after code steps bs c =
     (case map_of (map (\<lambda>b. (code b, steps b)) bs) c of None \<Rightarrow> [] | Some ss \<Rightarrow> ss)"

definition check_target_input :: "object_contract \<Rightarrow> visual_candidate \<Rightarrow> unit result" where
  "check_target_input inputs v =
     (case v of
        InputTextCandidate p txt rel \<Rightarrow>
          checks [(contract_has_path inputs p, ''target references an unknown input'')]
      | _ \<Rightarrow> Inr ())"

definition check_step_links :: "capability_artifact \<Rightarrow> step \<Rightarrow> unit result" where
  "check_step_links a s =
     (let is_recovery = (st_id s \<notin> set (map st_id (art_steps a)));
          policy = art_policy a in
      bind_r (check_opt (\<lambda>t. each (check_target_input (art_inputs a)) (lb_visual_candidates t))
                (st_target s)) (\<lambda>_.
      bind_r (checks
        [(action_kind (st_action s) \<in> set (cy_action_types policy),
            ''step uses a disallowed action type''),
         (st_risk s \<le> cy_maximum_risk policy, ''step exceeds the capability risk ceiling''),
         (is_recovery \<longrightarrow> st_risk s < SENSITIVE, ''recovery step cannot require human approval''),
         (case st_action s of NavigateAction e \<Rightarrow> e \<in> set (cy_entry_points policy) | _ \<Rightarrow> True,
            ''step uses a disallowed entry point''),
         (case input_source (st_action s) of
            Some (InputValue p) \<Rightarrow> contract_has_path (art_inputs a) p | _ \<Rightarrow> True,
            ''step references an unknown input''),
         (case st_action s of ExtractAction out t \<Rightarrow> known_output (art_outputs a) out | _ \<Rightarrow> True,
            ''step binds an unknown output''),
         (set (st_recovery_refs s) \<subseteq> set (map rc_id (art_recoveries a)),
            ''step references an unknown recovery''),
         (set (st_outcome_refs s) \<subseteq> set (map bo_code (art_outcomes a)),
            ''step references an unknown business outcome''),
         (set (st_failure_refs s) \<subseteq> set (map af_code (art_failures a)),
            ''step references an unknown application failure''),
         (case st_action s of CheckpointAction c \<Rightarrow> c = cp_id (art_checkpoint a) | _ \<Rightarrow> True,
            ''step references an unknown checkpoint''),
         (list_all (\<lambda>c. st_id s \<in> set (allowed_after bo_code bo_allowed_after_steps
            (art_outcomes a) c)) (st_outcome_refs s), ''outcome is not allowed after step''),
         (list_all (\<lambda>c. st_id s \<in> set (allowed_after af_code af_allowed_after_steps
            (art_failures a) c)) (st_failure_refs s),
            ''application failure is not allowed after step'')]) (\<lambda>_.
      bind_r (each (validate_condition_references (art_inputs a) (art_outputs a))
               (st_preconditions s @ st_postconditions s)) (\<lambda>_.
      case st_action s of
        AssertAction c \<Rightarrow> validate_condition_references (art_inputs a) (art_outputs a) c
      | WaitForAction c \<Rightarrow> validate_condition_references (art_inputs a) (art_outputs a) c
      | _ \<Rightarrow> Inr ()))))"

text \<open>Outputs extracted by the main steps.\<close>

definition bound_outputs :: "capability_artifact \<Rightarrow> string list" where
  "bound_outputs a =
     concat (map (\<lambda>s. case st_action s of ExtractAction out t \<Rightarrow> [out] | _ \<Rightarrow> []) (art_steps a))"

definition check_recovery_links :: "capability_artifact \<Rightarrow> recovery \<Rightarrow> unit result" where
  "check_recovery_links a r = checks
     [(list_all (\<lambda>s. st_recovery_refs s = []) (rc_steps r), ''recovery cannot invoke a nested recovery''),
      (rc_resume_at r \<in> set (map st_id (art_steps a)), ''recovery resumes at an unknown step'')]"

definition validate_semantics :: "capability_artifact \<Rightarrow> unit result" where
  "validate_semantics a =
     (let policy = art_policy a; compat = art_compatibility a; prov = art_provenance a;
          refs = validate_condition_references (art_inputs a) (art_outputs a);
          ids = map st_id (all_steps a) in
      bind_r (validate_no_persisted_coordinates a) (\<lambda>_.
      bind_r (checks [(cy_route_patterns policy \<noteq> [],
                ''schema 1.4 artifacts require non-empty route patterns'')]) (\<lambda>_.
      bind_r (if co_rendered_surface compat then validate_geometry_free_contract a else Inr ()) (\<lambda>_.
      bind_r (checks
        [(is_hex 64 (pv_target_fingerprint prov),
            ''schema 1.4 artifacts require a SHA-256 target fingerprint''),
         (starts_with (''evidence://'' @ pv_discovery_run_id prov @ ''/'')
            (pv_evidence_manifest_key prov),
            ''schema 1.4 provenance evidence must belong to its discovery run''),
         (cm_application_family (art_capability a) = co_application_family compat,
            ''capability and compatibility application families must match''),
         (cm_risk (art_capability a) = cy_maximum_risk policy,
            ''capability risk and policy maximum risk must match''),
         (co_entry_point compat \<in> set (cy_entry_points policy),
            ''compatibility entry point is not allowed by capability policy''),
         (list_all (known_output (art_outputs a)) (map fst (cy_output_redaction policy)),
            ''output redaction references an unknown output''),
         (list_all (\<lambda>t. \<not> blank t) (cy_forbidden_text_inputs policy),
            ''forbidden text inputs must be non-empty''),
         (distinct (map st_id (art_steps a)), ''step IDs must be unique''),
         (distinct (map rc_id (art_recoveries a)), ''recovery IDs must be unique''),
         (distinct (map bo_code (art_outcomes a)), ''business outcome codes must be unique''),
         (distinct (map af_code (art_failures a)), ''application failure codes must be unique''),
         (set (map bo_code (art_outcomes a)) \<inter> set (map af_code (art_failures a)) = {},
            ''business outcome and application failure codes must be distinct'')]) (\<lambda>_.
      bind_r (each (check_outcome_links a) (art_outcomes a)) (\<lambda>_.
      bind_r (each (\<lambda>f. checks [(distinct (af_allowed_after_steps f),
                ''application failure allowed steps must be unique'')]) (art_failures a)) (\<lambda>_.
      bind_r (checks [(distinct ids, ''main and recovery step IDs must be unique''),
         (list_all (\<lambda>b. set (bo_allowed_after_steps b) \<subseteq> set ids) (art_outcomes a),
            ''outcome references an unknown step''),
         (list_all (\<lambda>f. set (af_allowed_after_steps f) \<subseteq> set ids) (art_failures a),
            ''application failure references an unknown step'')]) (\<lambda>_.
      bind_r (each (check_step_links a) (all_steps a)) (\<lambda>_.
      bind_r (each refs (art_preconditions a)) (\<lambda>_.
      bind_r (each (\<lambda>r. refs (rc_trigger r)) (art_recoveries a)) (\<lambda>_.
      bind_r (each (\<lambda>b. refs (bo_detect b)) (art_outcomes a)) (\<lambda>_.
      bind_r (each (\<lambda>f. refs (af_detect f)) (art_failures a)) (\<lambda>_.
      bind_r (refs (cp_condition (art_checkpoint a))) (\<lambda>_.
      bind_r (checks
        [(set (oc_required (art_outputs a)) \<subseteq> set (bound_outputs a),
            ''required outputs are not bound''),
         (set (oc_required (art_outputs a)) \<subseteq>
            set (condition_outputs (cp_condition (art_checkpoint a))),
            ''checkpoint does not validate required outputs'')]) (\<lambda>_.
      each (check_recovery_links a) (art_recoveries a))))))))))))))))"

text \<open>
  A parsed artifact: the constraints and validators of every nested model hold, then the
  semantic checks. \<open>schema_version\<close> is the literal 1.4.
\<close>

definition check_artifact :: "(string \<Rightarrow> bool) \<Rightarrow> capability_artifact \<Rightarrow> unit result" where
  "check_artifact compiles a =
     bind_r (check_metadata (art_capability a)) (\<lambda>_.
     bind_r (check_compatibility (art_compatibility a)) (\<lambda>_.
     bind_r (each (\<lambda>(k, s). check_value_schema compiles s)
               (oc_properties (art_inputs a) @ oc_properties (art_outputs a))) (\<lambda>_.
     bind_r (check_object_contract (art_inputs a)) (\<lambda>_.
     bind_r (check_object_contract (art_outputs a)) (\<lambda>_.
     bind_r (each check_condition (art_preconditions a)) (\<lambda>_.
     bind_r (each check_step (art_steps a)) (\<lambda>_.
     bind_r (each check_recovery (art_recoveries a)) (\<lambda>_.
     bind_r (each check_business_outcome (art_outcomes a)) (\<lambda>_.
     bind_r (each check_application_failure (art_failures a)) (\<lambda>_.
     bind_r (check_checkpoint (art_checkpoint a)) (\<lambda>_.
     bind_r (check_capability_policy (art_policy a)) (\<lambda>_.
     bind_r (check_provenance (art_provenance a)) (\<lambda>_.
     bind_r (checks [(art_steps a \<noteq> [], field_error)]) (\<lambda>_.
     validate_semantics a))))))))))))))"

end
