(* ===== verification/ArtifactSample.thy ===== *)
theory ArtifactSample
  imports ArtifactSemantics
begin

text \<open>
  A small artifact on which the witnesses evaluate: open the account page, type the account
  number, read the balance; a dialog is dismissed by a recovery; a missing account is a business
  outcome and an unavailable service an application failure.
\<close>

definition sample_bundle :: "string \<Rightarrow> visual_candidate list \<Rightarrow> locator_bundle" where
  "sample_bundle d vs =
     \<lparr>lb_description = d, lb_registered_risk = None, lb_window = ''primary'', lb_frame_path = [],
      lb_visual_candidates = vs, lb_candidates = [], lb_state = \<lparr>ts_visible = True, ts_enabled = None\<rparr>,
      lb_tenant_overrides_allowed = False\<rparr>"

definition once :: retry_policy where
  "once = \<lparr>rp_max_attempts = 1, rp_backoff_ms = [], rp_retry_on = []\<rparr>"

definition sample_step :: "string \<Rightarrow> action \<Rightarrow> locator_bundle option \<Rightarrow> step" where
  "sample_step i x t =
     \<lparr>st_id = i, st_name = i, st_action = x, st_target = t, st_preconditions = [],
      st_postconditions = [], st_timeout_ms = 1000, st_retry = once, st_recovery_refs = [],
      st_outcome_refs = [], st_failure_refs = [], st_risk = REVERSIBLE,
      st_evidence = \<lparr>er_before = False, er_after = True, er_on_failure = True\<rparr>\<rparr>"

definition sample_schema :: value_schema where
  "sample_schema = ValueSchema TYPE_STRING ''text'' OPERATIONAL PERSIST_REDACTED [] [] None None []
     None None None None"

definition sample_open :: step where
  "sample_open = sample_step ''open'' (NavigateAction ''home'') None"

definition sample_account :: step where
  "sample_account = (sample_step ''account'' (TypeAction (InputValue ''account'') True)
     (Some (sample_bundle ''Account'' [RenderedLabeledControlCandidate ''Account'' MATCH_EXACT])))
     \<lparr>st_recovery_refs := [''dismiss''],
      st_retry := \<lparr>rp_max_attempts = 2, rp_backoff_ms = [100], rp_retry_on = [''target_not_found'']\<rparr>\<rparr>"

definition sample_read :: step where
  "sample_read = (sample_step ''read'' (ExtractAction ''balance'' TR_TRIM)
     (Some (sample_bundle ''Balance'' [RenderedFieldValueCandidate ''Balance'' MATCH_EXACT None])))
     \<lparr>st_outcome_refs := [''not_found''], st_failure_refs := [''unavailable'']\<rparr>"

definition sample_dismiss :: step where
  "sample_dismiss = sample_step ''dismiss.press'' (PressKeysAction [''Escape'']) None"

definition sample_artifact :: capability_artifact where
  "sample_artifact =
     \<lparr>art_capability = \<lparr>cm_id = ''billing.balance'', cm_version = ''1.0.0'', cm_name = ''Balance'',
        cm_description = ''Read the balance'', cm_application_family = ''billing'',
        cm_surface = SURFACE_WEB, cm_risk = REVERSIBLE, cm_tags = []\<rparr>,
      art_compatibility = \<lparr>co_application_family = ''billing'', co_base_variant = ''base'',
        co_supported_variants = [''base''], co_surface_contract = ''web.v1'', co_entry_point = ''home'',
        co_rendered_surface = True,
        co_required_landmarks = [\<lparr>lm_kind = LM_HEADING, lm_value = ''Accounts''\<rparr>],
        co_forbidden_landmarks = []\<rparr>,
      art_inputs = \<lparr>oc_required = [''account''], oc_properties = [(''account'', sample_schema)]\<rparr>,
      art_outputs = \<lparr>oc_required = [''balance''], oc_properties = [(''balance'', sample_schema)]\<rparr>,
      art_preconditions = [],
      art_steps = [sample_open, sample_account, sample_read],
      art_recoveries = [\<lparr>rc_id = ''dismiss'', rc_trigger = RenderedTextCondition ''Notice'' MATCH_EXACT,
        rc_max_uses = 1, rc_steps = [sample_dismiss], rc_resume_at = ''account''\<rparr>],
      art_outcomes = [\<lparr>bo_code = ''not_found'', bo_description = ''No such account'',
        bo_detect = RenderedTextCondition ''Unknown account'' MATCH_EXACT,
        bo_allowed_after_steps = [''read''], bo_details = []\<rparr>],
      art_failures = [\<lparr>af_code = ''unavailable'', af_description = ''Service down'',
        af_detect = RenderedTextCondition ''Service unavailable'' MATCH_EXACT,
        af_allowed_after_steps = [''read''], af_expected_state = ''account'',
        af_observed_state = ''error'', af_recoverable = False\<rparr>],
      art_checkpoint = \<lparr>cp_id = ''done'', cp_condition = OutputValidCondition ''balance''\<rparr>,
      art_policy = \<lparr>cy_action_types = [''navigate'', ''type'', ''extract'', ''press_keys''],
        cy_entry_points = [''home''], cy_maximum_risk = REVERSIBLE, cy_route_patterns = [''/accounts''],
        cy_forbidden_text_inputs = [], cy_output_redaction = []\<rparr>,
      art_provenance = \<lparr>pv_discovery_run_id = ''run_'' @ replicate 32 (CHR ''0''),
        pv_provider = ''p'', pv_model = ''m'', pv_prompt_policy_version = ''1'',
        pv_surface_adapter_version = ''1'', pv_compiler_version = ''1'', pv_created_at = utc 0,
        pv_target_fingerprint = replicate 64 (CHR ''0''),
        pv_evidence_manifest_key = ''evidence://run_'' @ replicate 32 (CHR ''0'') @ ''/manifest'',
        pv_artifact_content_hash = None\<rparr>\<rparr>"

lemma sample_artifact_ok: "check_artifact (\<lambda>p. True) sample_artifact = Inr ()"
  by code_simp

end
