(* ===== verification/ArtifactGuarantees.thy ===== *)
theory ArtifactGuarantees
  imports ArtifactSample
begin

text \<open>
  What a parsed artifact guarantees to the replay engine: every reference resolves, risks stay
  below the ceilings, every used input and output is declared, no geometry is stored; and where
  the validation is weaker than its message says.
\<close>

section \<open>Facts of a valid artifact\<close>

lemma validate_semantics_facts:
  assumes "validate_semantics a = Inr ()"
  shows "validate_no_persisted_coordinates a = Inr ()"
    and "co_rendered_surface (art_compatibility a) \<Longrightarrow> validate_geometry_free_contract a = Inr ()"
    and "cm_risk (art_capability a) = cy_maximum_risk (art_policy a)"
    and "co_entry_point (art_compatibility a) \<in> set (cy_entry_points (art_policy a))"
    and "distinct (map st_id (all_steps a))"
    and "distinct (map rc_id (art_recoveries a))"
    and "distinct (map bo_code (art_outcomes a))"
    and "distinct (map af_code (art_failures a))"
    and "set (map bo_code (art_outcomes a)) \<inter> set (map af_code (art_failures a)) = {}"
    and "\<forall>b\<in>set (art_outcomes a). check_outcome_links a b = Inr ()"
    and "\<forall>s\<in>set (all_steps a). check_step_links a s = Inr ()"
    and "\<forall>c\<in>set (art_preconditions a).
           validate_condition_references (art_inputs a) (art_outputs a) c = Inr ()"
    and "\<forall>r\<in>set (art_recoveries a).
           validate_condition_references (art_inputs a) (art_outputs a) (rc_trigger r) = Inr ()"
    and "\<forall>b\<in>set (art_outcomes a).
           validate_condition_references (art_inputs a) (art_outputs a) (bo_detect b) = Inr ()"
    and "\<forall>f\<in>set (art_failures a).
           validate_condition_references (art_inputs a) (art_outputs a) (af_detect f) = Inr ()"
    and "validate_condition_references (art_inputs a) (art_outputs a)
           (cp_condition (art_checkpoint a)) = Inr ()"
    and "set (oc_required (art_outputs a)) \<subseteq> set (bound_outputs a)"
    and "set (oc_required (art_outputs a)) \<subseteq>
           set (condition_outputs (cp_condition (art_checkpoint a)))"
    and "\<forall>r\<in>set (art_recoveries a). check_recovery_links a r = Inr ()"
    and "cy_route_patterns (art_policy a) \<noteq> []"
  using assms unfolding validate_semantics_def Let_def bind_r_Inr_iff each_Inr_iff checks_Inr_iff
  by (simp_all split: if_splits)

lemma check_step_links_facts:
  assumes "check_step_links a s = Inr ()"
  shows "action_kind (st_action s) \<in> set (cy_action_types (art_policy a))"
    and "st_risk s \<le> cy_maximum_risk (art_policy a)"
    and "st_id s \<notin> set (map st_id (art_steps a)) \<Longrightarrow> st_risk s < SENSITIVE"
    and "st_action s = NavigateAction e \<Longrightarrow> e \<in> set (cy_entry_points (art_policy a))"
    and "input_source (st_action s) = Some (InputValue p) \<Longrightarrow> contract_has_path (art_inputs a) p"
    and "st_action s = ExtractAction out tr \<Longrightarrow> known_output (art_outputs a) out"
    and "set (st_recovery_refs s) \<subseteq> set (map rc_id (art_recoveries a))"
    and "set (st_outcome_refs s) \<subseteq> set (map bo_code (art_outcomes a))"
    and "set (st_failure_refs s) \<subseteq> set (map af_code (art_failures a))"
    and "st_action s = CheckpointAction c \<Longrightarrow> c = cp_id (art_checkpoint a)"
    and "c \<in> set (st_outcome_refs s) \<Longrightarrow>
           st_id s \<in> set (allowed_after bo_code bo_allowed_after_steps (art_outcomes a) c)"
    and "c \<in> set (st_failure_refs s) \<Longrightarrow>
           st_id s \<in> set (allowed_after af_code af_allowed_after_steps (art_failures a) c)"
    and "\<forall>c\<in>set (st_preconditions s @ st_postconditions s).
           validate_condition_references (art_inputs a) (art_outputs a) c = Inr ()"
    and "st_target s = Some t \<Longrightarrow> InputTextCandidate p x y \<in> set (lb_visual_candidates t) \<Longrightarrow>
           contract_has_path (art_inputs a) p"
proof -
  note parts = assms[unfolded check_step_links_def Let_def bind_r_Inr_iff each_Inr_iff
      checks_Inr_iff list.pred_inject fst_conv]
  from parts show "action_kind (st_action s) \<in> set (cy_action_types (art_policy a))"
    "st_risk s \<le> cy_maximum_risk (art_policy a)"
    "st_id s \<notin> set (map st_id (art_steps a)) \<Longrightarrow> st_risk s < SENSITIVE"
    "set (st_recovery_refs s) \<subseteq> set (map rc_id (art_recoveries a))"
    "set (st_outcome_refs s) \<subseteq> set (map bo_code (art_outcomes a))"
    "set (st_failure_refs s) \<subseteq> set (map af_code (art_failures a))"
    "\<forall>c\<in>set (st_preconditions s @ st_postconditions s).
           validate_condition_references (art_inputs a) (art_outputs a) c = Inr ()"
    by simp_all
  from parts show "st_action s = NavigateAction e \<Longrightarrow> e \<in> set (cy_entry_points (art_policy a))"
    "input_source (st_action s) = Some (InputValue p) \<Longrightarrow> contract_has_path (art_inputs a) p"
    "st_action s = ExtractAction out tr \<Longrightarrow> known_output (art_outputs a) out"
    "st_action s = CheckpointAction c \<Longrightarrow> c = cp_id (art_checkpoint a)"
    by (simp_all)
  from parts show "c \<in> set (st_outcome_refs s) \<Longrightarrow>
           st_id s \<in> set (allowed_after bo_code bo_allowed_after_steps (art_outcomes a) c)"
    "c \<in> set (st_failure_refs s) \<Longrightarrow>
           st_id s \<in> set (allowed_after af_code af_allowed_after_steps (art_failures a) c)"
    by (simp_all add: list_all_iff)
  assume t: "st_target s = Some t" "InputTextCandidate p x y \<in> set (lb_visual_candidates t)"
  with parts have "check_target_input (art_inputs a) (InputTextCandidate p x y) = Inr ()"
    by (simp add: check_opt_def each_Inr_iff)
  then show "contract_has_path (art_inputs a) p" by (simp add: check_target_input_def split: if_splits)
qed

lemma check_recovery_links_facts:
  assumes "check_recovery_links a r = Inr ()"
  shows "\<forall>s\<in>set (rc_steps r). st_recovery_refs s = []"
    and "rc_resume_at r \<in> set (map st_id (art_steps a))"
  using assms unfolding check_recovery_links_def checks_Inr_iff by (simp_all add: list_all_iff)

lemma check_artifact_semantics: "check_artifact compiles a = Inr u \<Longrightarrow> validate_semantics a = Inr ()"
  unfolding check_artifact_def bind_r_Inr_iff by (elim exE conjE) simp

text \<open>Looking up by a unique key finds the element.\<close>

lemma find_unique:
  assumes "distinct (map f xs)" "x \<in> set xs"
  shows "find (\<lambda>y. f y = f x) xs = Some x"
  using assms
proof (induction xs)
  case (Cons y ys)
  then show ?case by (cases "y = x") (auto simp: rev_image_eqI)
qed simp

lemma allowed_after_member:
  "s \<in> set (allowed_after code steps bs c) \<Longrightarrow> \<exists>b\<in>set bs. code b = c \<and> s \<in> set (steps b)"
  by (cases "map_of (map (\<lambda>b. (code b, steps b)) bs) c")
     (auto simp: allowed_after_def dest!: map_of_SomeD)

section \<open>Closed references\<close>

lemma distinct_append_mapI:
  "distinct (map f (xs @ ys)) \<Longrightarrow> y \<in> set ys \<Longrightarrow> f y \<notin> f ` set xs"
  by auto

text \<open>
  C12. In a parsed artifact every reference the engine follows resolves: a step's recovery exists,
  resumes at a main step and consists of steps without recoveries of their own; a step's outcome
  and failure codes name entries that allow that step; and no code is both. Every step's risk is
  within the capability's ceiling, and every recovery step's is below the level that needs
  approval.
\<close>

theorem artifact_references_closed:
  assumes "check_artifact compiles a = Inr ()" "s \<in> set (all_steps a)"
  shows "(\<forall>c\<in>set (st_recovery_refs s). \<exists>r. find (\<lambda>r. rc_id r = c) (art_recoveries a) = Some r \<and>
            rc_resume_at r \<in> set (map st_id (art_steps a)) \<and>
            (\<forall>t\<in>set (rc_steps r). st_recovery_refs t = [] \<and> st_risk t < SENSITIVE)) \<and>
         (\<forall>c\<in>set (st_outcome_refs s). \<exists>b\<in>set (art_outcomes a).
            bo_code b = c \<and> st_id s \<in> set (bo_allowed_after_steps b)) \<and>
         (\<forall>c\<in>set (st_failure_refs s). \<exists>f\<in>set (art_failures a).
            af_code f = c \<and> st_id s \<in> set (af_allowed_after_steps f)) \<and>
         set (st_outcome_refs s) \<inter> set (st_failure_refs s) = {} \<and>
         st_risk s \<le> cy_maximum_risk (art_policy a) \<and>
         action_kind (st_action s) \<in> set (cy_action_types (art_policy a))"
proof -
  note sem = check_artifact_semantics[OF assms(1)]
  note V = validate_semantics_facts[OF sem]
  from V(11) assms(2) have link: "check_step_links a s = Inr ()" by blast
  note S = check_step_links_facts[OF link]
  have rec: "\<exists>r. find (\<lambda>r. rc_id r = c) (art_recoveries a) = Some r \<and>
      rc_resume_at r \<in> set (map st_id (art_steps a)) \<and>
      (\<forall>t\<in>set (rc_steps r). st_recovery_refs t = [] \<and> st_risk t < SENSITIVE)"
    if c: "c \<in> set (st_recovery_refs s)" for c
  proof -
    from c S(7) obtain r where r: "r \<in> set (art_recoveries a)" "rc_id r = c" by auto
    note R = check_recovery_links_facts[OF V(19)[rule_format, OF r(1)]]
    have "st_risk t < SENSITIVE" if t: "t \<in> set (rc_steps r)" for t
    proof -
      have rt: "t \<in> set (recovery_steps a)" using t r(1) by (auto simp: recovery_steps_def)
      then have "st_id t \<notin> set (map st_id (art_steps a))"
        using V(5) distinct_append_mapI[of st_id "art_steps a" "recovery_steps a" t]
        by (simp add: all_steps_def)
      moreover have "check_step_links a t = Inr ()" using V(11) rt by (simp add: all_steps_def)
      ultimately show ?thesis by (blast intro: check_step_links_facts(3))
    qed
    with R find_unique[OF V(6) r(1)] r(2) show ?thesis by auto
  qed
  have out: "\<exists>b\<in>set (art_outcomes a). bo_code b = c \<and> st_id s \<in> set (bo_allowed_after_steps b)"
    if "c \<in> set (st_outcome_refs s)" for c
    using allowed_after_member[OF S(11)[OF that]] .
  have fail: "\<exists>f\<in>set (art_failures a). af_code f = c \<and> st_id s \<in> set (af_allowed_after_steps f)"
    if "c \<in> set (st_failure_refs s)" for c
    using allowed_after_member[OF S(12)[OF that]] .
  have "set (st_outcome_refs s) \<inter> set (st_failure_refs s) = {}"
    using S(8,9) V(9) by blast
  with rec out fail S(1,2) show ?thesis by blast
qed

lemma artifact_references_closed_witness:
  "\<exists>r. find (\<lambda>r. rc_id r = ''dismiss'') (art_recoveries sample_artifact) = Some r \<and>
     rc_resume_at r \<in> set (map st_id (art_steps sample_artifact))"
proof -
  have "sample_account \<in> set (all_steps sample_artifact)"
    by (simp add: all_steps_def sample_artifact_def)
  from artifact_references_closed[OF sample_artifact_ok this]
  show ?thesis by (auto simp: sample_account_def)
qed

section \<open>Data flow\<close>

lemma condition_outputs_walk:
  "out \<in> set (condition_outputs c) \<Longrightarrow>
     OutputValidCondition out \<in> set (walk_conditions c) \<or>
     (\<exists>v. OutputEqualsCondition out v \<in> set (walk_conditions c)) \<or>
     (\<exists>p. IdentityMatchesCondition out p \<in> set (walk_conditions c))"
  by (induction c) fastforce+

lemma condition_outputs_known:
  assumes "validate_condition_references i os c = Inr ()" "out \<in> set (condition_outputs c)"
  shows "known_output os out"
proof -
  from assms(1) have ok: "\<forall>x\<in>set (walk_conditions c). condition_reference_ok i os x = Inr ()"
    by (simp add: validate_condition_references_def each_Inr_iff)
  from condition_outputs_walk[OF assms(2)] show ?thesis
    by (elim disjE exE) (auto dest!: bspec[OF ok] split: if_splits)
qed

text \<open>
  In a parsed artifact no step reads an undeclared input or touches an undeclared output, in
  its action, target or conditions; the entry point it navigates to and the checkpoint it names
  are the declared ones; and every required output is extracted by some main step.
\<close>

theorem artifact_data_flow_closed:
  assumes "check_artifact compiles a = Inr ()" "s \<in> set (all_steps a)"
  shows "(\<forall>p. input_source (st_action s) = Some (InputValue p) \<longrightarrow> contract_has_path (art_inputs a) p) \<and>
         (\<forall>t p x y. st_target s = Some t \<longrightarrow> InputTextCandidate p x y \<in> set (lb_visual_candidates t) \<longrightarrow>
            contract_has_path (art_inputs a) p) \<and>
         (\<forall>out tr. st_action s = ExtractAction out tr \<longrightarrow> known_output (art_outputs a) out) \<and>
         (\<forall>c\<in>set (st_preconditions s @ st_postconditions s). \<forall>out\<in>set (condition_outputs c).
            known_output (art_outputs a) out) \<and>
         (\<forall>e. st_action s = NavigateAction e \<longrightarrow> e \<in> set (cy_entry_points (art_policy a))) \<and>
         (\<forall>c. st_action s = CheckpointAction c \<longrightarrow> c = cp_id (art_checkpoint a)) \<and>
         (\<forall>out\<in>set (oc_required (art_outputs a)). \<exists>t\<in>set (art_steps a). \<exists>tr.
            st_action t = ExtractAction out tr)"
proof -
  note sem = check_artifact_semantics[OF assms(1)]
  note V = validate_semantics_facts[OF sem]
  from V(11) assms(2) have link: "check_step_links a s = Inr ()" by blast
  note S = check_step_links_facts[OF link]
  have conds: "\<forall>c\<in>set (st_preconditions s @ st_postconditions s). \<forall>out\<in>set (condition_outputs c).
      known_output (art_outputs a) out"
    using S(13) condition_outputs_known by blast
  have bound: "\<exists>t\<in>set (art_steps a). \<exists>tr. st_action t = ExtractAction out tr"
    if req: "out \<in> set (oc_required (art_outputs a))" for out
  proof -
    from req V(17) have "out \<in> set (bound_outputs a)" by blast
    then obtain t where t: "t \<in> set (art_steps a)"
        "out \<in> set (case st_action t of ExtractAction q tr \<Rightarrow> [q] | _ \<Rightarrow> [])"
      unfolding bound_outputs_def set_concat set_map by blast
    from t(2) have "\<exists>tr. st_action t = ExtractAction out tr" by (cases "st_action t") simp_all
    with t(1) show ?thesis by blast
  qed
  show ?thesis using S(4-6,10,14) conds bound by blast
qed

lemma artifact_data_flow_closed_witness:
  "contract_has_path (art_inputs sample_artifact) ''account''"
proof -
  have "sample_account \<in> set (all_steps sample_artifact)"
    by (simp add: all_steps_def sample_artifact_def)
  from artifact_data_flow_closed[OF sample_artifact_ok this]
  show ?thesis by (auto simp: sample_account_def sample_step_def input_source_def)
qed

section \<open>Geometry\<close>

lemma walk_bundle_facts:
  assumes "walk_bundle t = Inr ()"
  shows "\<forall>c\<in>set (lb_candidates t @ lb_frame_path t). lc_strategy c \<noteq> LOC_COORDINATES"
    and "\<forall>v\<in>set (lb_visual_candidates t). no_geometry v = Inr ()"
  using assms unfolding walk_bundle_def bind_r_Inr_iff each_Inr_iff no_coordinates_def
  by (auto split: if_splits)

text \<open>The conditions an artifact stores: its own, those of its steps, and those inside actions.\<close>

definition action_conditions :: "step \<Rightarrow> condition list" where
  "action_conditions s = (case st_action s of WaitForAction c \<Rightarrow> [c] | AssertAction c \<Rightarrow> [c] | _ \<Rightarrow> [])"

definition declared_conditions :: "capability_artifact \<Rightarrow> condition list" where
  "declared_conditions a =
     art_preconditions a @ concat (map (\<lambda>s. st_preconditions s @ st_postconditions s) (all_steps a)) @
     map rc_trigger (art_recoveries a) @ map bo_detect (art_outcomes a) @ map af_detect (art_failures a) @
     [cp_condition (art_checkpoint a)]"

definition stored_conditions :: "capability_artifact \<Rightarrow> condition list" where
  "stored_conditions a = declared_conditions a @ concat (map action_conditions (all_steps a))"

definition bundle_without_geometry :: "locator_bundle \<Rightarrow> bool" where
  "bundle_without_geometry t \<longleftrightarrow>
     (\<forall>c\<in>set (lb_candidates t @ lb_frame_path t). lc_strategy c \<noteq> LOC_COORDINATES) \<and>
     (\<forall>v\<in>set (lb_visual_candidates t). case v of
        ImageAnchorCandidate c \<Rightarrow> False
      | OcrTextCandidate c \<Rightarrow> ot_search_region c = None
      | OcrRelativeCandidate c \<Rightarrow> or_search_region c = None \<and> or_relative_region c = None
      | _ \<Rightarrow> True)"

definition part_without_geometry :: "condition \<Rightarrow> bool" where
  "part_without_geometry w =
     (case w of VisualTextCondition v m r q \<Rightarrow> r = None | ElementCondition t st \<Rightarrow> bundle_without_geometry t | _ \<Rightarrow> True)"

definition rendered_part :: "condition \<Rightarrow> bool" where
  "rendered_part w =
     (case w of TextCondition v m \<Rightarrow> False | VisualTextCondition v m r q \<Rightarrow> False
      | ElementCondition t st \<Rightarrow> False | _ \<Rightarrow> True)"

lemma walk_bundle_without: "walk_bundle t = Inr () \<Longrightarrow> bundle_without_geometry t"
  unfolding bundle_without_geometry_def
  using walk_bundle_facts[of t] by (auto simp: no_geometry_def split: if_splits)

lemma walk_condition_without:
  "walk_condition c = Inr () \<Longrightarrow> \<forall>w\<in>set (walk_conditions c). part_without_geometry w"
  by (induction c rule: walk_condition.induct)
    (auto simp: part_without_geometry_def each_Inr_iff walk_bundle_without split: if_splits)

lemma rendered_condition_parts:
  "validate_geometry_free_condition c = Inr () \<Longrightarrow> \<forall>w\<in>set (walk_conditions c). rendered_part w"
  by (induction c rule: validate_geometry_free_condition.induct) (auto simp: rendered_part_def each_Inr_iff)

lemma walk_step_conditions:
  assumes "walk_step s = Inr ()"
  shows "\<forall>c\<in>set (st_preconditions s @ st_postconditions s @ action_conditions s). walk_condition c = Inr ()"
    and "\<And>t. st_target s = Some t \<Longrightarrow> walk_bundle t = Inr ()"
  using assms
  by (auto simp: walk_step_def action_conditions_def bind_r_Inr_iff each_Inr_iff check_opt_def split: action.splits)

lemma walked_artifact:
  assumes "validate_no_persisted_coordinates a = Inr ()"
  shows "\<forall>s\<in>set (all_steps a). walk_step s = Inr ()"
    and "\<forall>c\<in>set (stored_conditions a). walk_condition c = Inr ()"
proof -
  show steps: "\<forall>s\<in>set (all_steps a). walk_step s = Inr ()"
    using assms
    unfolding validate_no_persisted_coordinates_def bind_r_Inr_iff each_Inr_iff all_steps_def recovery_steps_def
    by auto
  have "\<forall>c\<in>set (art_preconditions a @ map rc_trigger (art_recoveries a) @ map bo_detect (art_outcomes a) @
      map af_detect (art_failures a) @ [cp_condition (art_checkpoint a)]). walk_condition c = Inr ()"
    using assms unfolding validate_no_persisted_coordinates_def bind_r_Inr_iff each_Inr_iff by auto
  then show "\<forall>c\<in>set (stored_conditions a). walk_condition c = Inr ()"
    using steps walk_step_conditions(1) unfolding stored_conditions_def declared_conditions_def by fastforce
qed

lemma rendered_artifact:
  assumes "validate_geometry_free_contract a = Inr ()"
  shows "\<forall>s\<in>set (all_steps a). \<forall>t. st_target s = Some t \<longrightarrow> validate_geometry_free_target t = Inr ()"
    and "\<forall>c\<in>set (declared_conditions a). validate_geometry_free_condition c = Inr ()"
  using assms
  unfolding validate_geometry_free_contract_def bind_r_Inr_iff each_Inr_iff declared_conditions_def
  by (auto simp: check_opt_def)

text \<open>
  C24. A parsed artifact stores no geometry. No target of any step, main or recovery, contains a
  coordinate locator, an image anchor, or a visual candidate with a stored region; and neither does any
  condition the artifact stores, at any depth: of the artifact, of its steps, recoveries, outcomes and
  failures, of the checkpoint, and inside wait and assert actions. On a rendered surface targets have
  geometry-free visual candidates only, and at least one, and the conditions, those inside actions
  excepted, contain no text of the page, no text in a region and no element.
\<close>

theorem artifact_without_geometry:
  assumes "check_artifact compiles a = Inr ()"
  shows "(\<forall>s\<in>set (all_steps a). \<forall>t. st_target s = Some t \<longrightarrow> bundle_without_geometry t \<and>
           (co_rendered_surface (art_compatibility a) \<longrightarrow>
              lb_candidates t = [] \<and> lb_visual_candidates t \<noteq> [] \<and>
              (\<forall>v\<in>set (lb_visual_candidates t). is_geometry_free_candidate v))) \<and>
         (\<forall>c\<in>set (stored_conditions a). \<forall>w\<in>set (walk_conditions c). part_without_geometry w) \<and>
         (co_rendered_surface (art_compatibility a) \<longrightarrow>
            (\<forall>c\<in>set (declared_conditions a). \<forall>w\<in>set (walk_conditions c). rendered_part w))"
proof -
  note V = validate_semantics_facts[OF check_artifact_semantics[OF assms]]
  note walked = walked_artifact[OF V(1)]
  have "bundle_without_geometry t" if "s \<in> set (all_steps a)" "st_target s = Some t" for s t
    using walked(1) walk_step_conditions(2) walk_bundle_without that by blast
  moreover have "lb_candidates t = [] \<and> lb_visual_candidates t \<noteq> [] \<and>
      (\<forall>v\<in>set (lb_visual_candidates t). is_geometry_free_candidate v)"
    if "co_rendered_surface (art_compatibility a)" "s \<in> set (all_steps a)" "st_target s = Some t" for s t
    using rendered_artifact(1)[OF V(2)[OF that(1)]] that(2,3)
    by (auto simp: validate_geometry_free_target_def list_all_iff split: if_splits)
  moreover have "\<forall>c\<in>set (stored_conditions a). \<forall>w\<in>set (walk_conditions c). part_without_geometry w"
    using walked(2) walk_condition_without by blast
  moreover have "\<forall>c\<in>set (declared_conditions a). \<forall>w\<in>set (walk_conditions c). rendered_part w"
    if "co_rendered_surface (art_compatibility a)"
    using rendered_artifact(2)[OF V(2)[OF that]] rendered_condition_parts by blast
  ultimately show ?thesis by blast
qed

lemma artifact_without_geometry_witness:
  "(\<exists>t. st_target sample_account = Some t \<and> lb_candidates t = []) \<and>
   rendered_part (OutputValidCondition ''balance'')"
proof -
  have "sample_account \<in> set (all_steps sample_artifact)"
    by (simp add: all_steps_def sample_artifact_def)
  moreover obtain t where t: "st_target sample_account = Some t"
    by (simp add: sample_account_def sample_step_def)
  moreover have "co_rendered_surface (art_compatibility sample_artifact)"
    "OutputValidCondition ''balance'' \<in> set (declared_conditions sample_artifact)"
    by (simp_all add: sample_artifact_def declared_conditions_def)
  moreover have "OutputValidCondition ''balance'' \<in> set (walk_conditions (OutputValidCondition ''balance''))" by simp
  ultimately show ?thesis using artifact_without_geometry[OF sample_artifact_ok] by blast
qed

section \<open>Where the validation is weaker than it reads\<close>

definition sample_negated_checkpoint :: capability_artifact where
  "sample_negated_checkpoint = sample_artifact
     \<lparr>art_checkpoint := \<lparr>cp_id = ''done'', cp_condition = NotCondition (OutputValidCondition ''balance'')\<rparr>\<rparr>"

definition sample_dom_wait :: capability_artifact where
  "sample_dom_wait = sample_artifact
     \<lparr>art_steps := sample_step ''wait'' (WaitForAction (TextCondition ''Ready'' MATCH_EXACT)) None #
        art_steps sample_artifact,
      art_policy := (art_policy sample_artifact)
        \<lparr>cy_action_types := ''wait_for'' # cy_action_types (art_policy sample_artifact)\<rparr>\<rparr>"

text \<open>
  Two checks promise more than they do. The check that the checkpoint validates every required
  output only looks for a mention: a checkpoint that demands the required output to be invalid is
  accepted. And on a rendered surface, where conditions must use rendered text, the conditions
  inside wait and assert actions are not inspected.
\<close>

theorem weak_artifact_checks:
  "check_artifact (\<lambda>p. True) sample_negated_checkpoint = Inr () \<and>
   oc_required (art_outputs sample_negated_checkpoint) = [''balance''] \<and>
   cp_condition (art_checkpoint sample_negated_checkpoint) =
     NotCondition (OutputValidCondition ''balance'') \<and>
   check_artifact (\<lambda>p. True) sample_dom_wait = Inr () \<and>
   co_rendered_surface (art_compatibility sample_dom_wait) \<and>
   st_action (hd (art_steps sample_dom_wait)) = WaitForAction (TextCondition ''Ready'' MATCH_EXACT) \<and>
   validate_geometry_free_condition (TextCondition ''Ready'' MATCH_EXACT) \<noteq> Inr ()"
proof -
  have "check_artifact (\<lambda>p. True) sample_negated_checkpoint = Inr ()"
    "check_artifact (\<lambda>p. True) sample_dom_wait = Inr ()"
    by code_simp+
  then show ?thesis
    by (simp add: sample_negated_checkpoint_def sample_dom_wait_def sample_artifact_def
          sample_step_def)
qed

end
