(* ===== verification/Values.thy ===== *)
theory Values
  imports ArtifactSemantics Urls "HOL-Library.Char_ord" "HOL-Library.List_Lexorder"
begin

text \<open>
  Runtime values and their validation against a contract (\<^verbatim>\<open>capabilities/values.py\<close>)
  and the text transforms of extraction (\<^verbatim>\<open>capabilities/transforms.py\<close>). Full matches
  of arbitrary regular expressions and the ISO parsers of \<open>datetime\<close> are parameters, collected
  in one record; decimal literals are modelled.
\<close>

section \<open>JSON values\<close>

fun is_str :: "json \<Rightarrow> bool" where
  "is_str (JStr s) = True" | "is_str _ = False"

fun is_int :: "json \<Rightarrow> bool" where
  "is_int (JInt i) = True" | "is_int _ = False"

fun is_bool :: "json \<Rightarrow> bool" where
  "is_bool (JBool b) = True" | "is_bool _ = False"

text \<open>A value as a scalar up to Python's equality.\<close>

fun json_key :: "json \<Rightarrow> scalar option" where
  "json_key (JStr s) = Some (SStr s)"
| "json_key (JInt i) = Some (SInt i)"
| "json_key (JBool b) = Some (SInt (if b then 1 else 0))"
| "json_key (JFloat q) = (if of_int \<lfloor>q\<rfloor> = q then Some (SInt \<lfloor>q\<rfloor>) else None)"
| "json_key _ = None"

definition equals_scalar :: "json \<Rightarrow> scalar \<Rightarrow> bool" where
  "equals_scalar v s = (json_key v = Some (scalar_key s))"

section \<open>Inputs and classifications\<close>

text \<open>\<open>resolve_input\<close>: follow the parts through nested dictionaries.\<close>

fun resolve_parts :: "string \<Rightarrow> json \<Rightarrow> string list \<Rightarrow> json result" where
  "resolve_parts path current [] = Inr current"
| "resolve_parts path current (p # ps) =
     (case current of
        JObj kvs \<Rightarrow>
          (case map_of kvs p of
             None \<Rightarrow> Inl (ContractValidationError path ''input_binding_missing'')
           | Some v \<Rightarrow> resolve_parts path v ps)
      | _ \<Rightarrow> Inl (ContractValidationError path ''input_binding_missing''))"

definition resolve_input :: "(string \<times> json) list \<Rightarrow> string \<Rightarrow> json result" where
  "resolve_input inputs path = resolve_parts path (JObj inputs) (split_on (CHR ''.'') path)"

fun visit_schema :: "string \<Rightarrow> value_schema \<Rightarrow> (string \<times> data_classification) list" where
  "visit_schema path (ValueSchema ty desc cls per req props pat fmt en con mn mx ex) =
     (path, cls) # concat (map (\<lambda>(name, s). visit_schema (path @ ''.'' @ name) s) props)"

text \<open>
  \<open>contract_classifications\<close>: the dictionary built by visiting every schema, then tightened by
  the redaction directives in order.
\<close>

definition apply_redaction ::
  "string \<Rightarrow> string \<times> redaction_mode \<Rightarrow> data_classification dict \<Rightarrow> data_classification dict" where
  "apply_redaction prefix r result =
     (let path = prefix @ ''.'' @ fst r in
      if snd r = REDACT_REMOVE then dict_set path PERSONAL result
      else if dict_get result path = Some PUBLIC \<or> dict_get result path = Some OPERATIONAL
      then dict_set path CUSTOMER_IDENTIFIER result
      else result)"

definition contract_classifications ::
  "object_contract \<Rightarrow> string \<Rightarrow> (string \<times> redaction_mode) list \<Rightarrow> data_classification dict" where
  "contract_classifications contract prefix redactions =
     fold (apply_redaction prefix) redactions
       (dict_of_pairs (concat (map (\<lambda>(name, s). visit_schema (prefix @ ''.'' @ name) s)
          (oc_properties contract))))"

text \<open>\<open>binding_classification\<close>: the first forbidden classification on the path, or the leaf's.\<close>

fun binding_parts ::
  "(string \<times> value_schema) list \<Rightarrow> string list \<Rightarrow> data_classification list
     \<Rightarrow> data_classification option \<Rightarrow> data_classification option" where
  "binding_parts props [] forbidden classification = classification"
| "binding_parts props (p # ps) forbidden classification =
     (case map_of props p of
        None \<Rightarrow> None
      | Some s \<Rightarrow>
          if vs_classification s \<in> set forbidden then Some (vs_classification s)
          else binding_parts (vs_properties s) ps forbidden (Some (vs_classification s)))"

definition binding_classification ::
  "object_contract \<Rightarrow> string \<Rightarrow> data_classification list \<Rightarrow> data_classification option" where
  "binding_classification contract path forbidden =
     binding_parts (oc_properties contract) (split_on (CHR ''.'') path) forbidden None"

section \<open>Decimal literals\<close>

text \<open>
  \<open>Decimal(s)\<close> is finite: optional sign, digits with at most one point and at least one digit,
  optional exponent; underscores are ignored and white space is stripped. An exponent outside the
  range of the decimal implementation raises.
\<close>

definition take_digits :: "string \<Rightarrow> string \<times> string" where
  "take_digits s = (takeWhile (\<lambda>c. c \<in> set digits) s, dropWhile (\<lambda>c. c \<in> set digits) s)"

definition strip_sign :: "string \<Rightarrow> bool \<times> string" where
  "strip_sign s =
     (case s of
        c # cs \<Rightarrow> if c = CHR ''-'' then (True, cs) else if c = CHR ''+'' then (False, cs) else (False, s)
      | [] \<Rightarrow> (False, []))"

definition exponent_part :: "string \<Rightarrow> int option" where
  "exponent_part s =
     (case s of
        [] \<Rightarrow> Some 0
      | c # cs \<Rightarrow>
          if c = CHR ''e'' \<or> c = CHR ''E''
          then (case strip_sign cs of
                  (neg, ds) \<Rightarrow>
                    if is_digits ds
                    then Some (if neg then - int (decimal_value ds) else int (decimal_value ds))
                    else None)
          else None)"

definition is_decimal :: "string \<Rightarrow> bool" where
  "is_decimal value =
     (let s = filter (\<lambda>c. c \<noteq> CHR ''_'') (py_strip value);
          (neg, body) = strip_sign s;
          (whole, rest) = take_digits body;
          (frac, tail) =
            (case rest of
               c # cs \<Rightarrow> if c = CHR ''.'' then take_digits cs else ([], rest)
             | [] \<Rightarrow> ([], []))
      in whole @ frac \<noteq> [] \<and>
         (case exponent_part tail of
            None \<Rightarrow> False
          | Some ex \<Rightarrow>
              (let low = ex - int (length frac);
                   coefficient = dropWhile (\<lambda>c. c = CHR ''0'') (whole @ frac);
                   high = low + max 1 (int (length coefficient)) - 1
               in - 1999999999999999997 \<le> low \<and> high \<le> 999999999999999999)))"

section \<open>Validation\<close>

record formats =
  fm_fullmatch :: "string \<Rightarrow> string \<Rightarrow> bool"
  fm_date :: "string \<Rightarrow> bool"
  fm_datetime :: "string \<Rightarrow> bool option"

definition validate_string :: "formats \<Rightarrow> value_schema \<Rightarrow> string \<Rightarrow> string \<Rightarrow> unit result" where
  "validate_string F schema value path =
     (if \<not> opt_all (\<lambda>n. n \<le> int (length value)) (vs_min_length schema)
      then Inl (ContractValidationError path ''too_short'')
      else if \<not> opt_all (\<lambda>n. int (length value) \<le> n) (vs_max_length schema)
      then Inl (ContractValidationError path ''too_long'')
      else if \<not> opt_all (\<lambda>p. fm_fullmatch F p value) (vs_pattern schema)
      then Inl (ContractValidationError path ''pattern_mismatch'')
      else case vs_format schema of
        None \<Rightarrow> Inr ()
      | Some FORMAT_DECIMAL \<Rightarrow>
          if is_decimal value then Inr () else Inl (ContractValidationError path ''invalid_decimal'')
      | Some FORMAT_DATE \<Rightarrow>
          if fm_date F value then Inr () else Inl (ContractValidationError path ''invalid_date'')
      | Some FORMAT_DATE_TIME \<Rightarrow>
          (case fm_datetime F value of
             None \<Rightarrow> Inl (ContractValidationError path ''invalid_datetime'')
           | Some aware \<Rightarrow>
               if aware then Inr ()
               else Inl (ContractValidationError path ''datetime_requires_timezone'')))"

text \<open>The guards of \<open>validate_object\<close> before it looks at the values.\<close>

definition missing_required :: "string list \<Rightarrow> (string \<times> 'v) list \<Rightarrow> string list" where
  "missing_required required value = filter (\<lambda>k. k \<notin> set (map fst value)) (remdups required)"

definition object_guards ::
  "string list \<Rightarrow> (string \<times> value_schema) list \<Rightarrow> (string \<times> json) list \<Rightarrow> string \<Rightarrow> unit result" where
  "object_guards required props value path =
     (if missing_required required value \<noteq> []
      then Inl (ContractValidationError path
             (''missing_required:'' @ join_with '','' (sort (missing_required required value))))
      else if \<not> set (map fst value) \<subseteq> set (map fst props)
      then Inl (ContractValidationError path ''unknown_properties'')
      else Inr ())"

definition child_path :: "string \<Rightarrow> string \<Rightarrow> string" where
  "child_path path key = (if path = ''$'' then key else path @ ''.'' @ key)"

text \<open>
  \<open>_validate_value\<close>, with \<open>validate_object\<close> on the nested contract of an object schema; a
  nested contract is built by the constructor, which checks it again.
\<close>

fun validate_value :: "formats \<Rightarrow> value_schema \<Rightarrow> json \<Rightarrow> string \<Rightarrow> json result" where
  "validate_value F schema value path =
     bind_r (case vs_type schema of
         TYPE_STRING \<Rightarrow>
           (case value of
              JStr s \<Rightarrow> bind_r (validate_string F schema s path) (\<lambda>_. Inr value)
            | _ \<Rightarrow> Inl (ContractValidationError path ''expected_string''))
       | TYPE_INTEGER \<Rightarrow>
           (if is_int value then Inr value
            else Inl (ContractValidationError path ''expected_integer''))
       | TYPE_BOOLEAN \<Rightarrow>
           (if is_bool value then Inr value
            else Inl (ContractValidationError path ''expected_boolean''))
       | TYPE_OBJECT \<Rightarrow>
           (case value of
              JObj kvs \<Rightarrow>
                bind_r (check_object_contract
                  \<lparr>oc_required = vs_required schema, oc_properties = vs_properties schema\<rparr>) (\<lambda>_.
                bind_r (object_guards (vs_required schema) (vs_properties schema) kvs path) (\<lambda>_.
                bind_r (map_r (\<lambda>(k, item). case map_of (vs_properties schema) k of
                    None \<Rightarrow> Inl (KeyError k)
                  | Some s \<Rightarrow> bind_r (validate_value F s item (child_path path k)) (\<lambda>x. Inr (k, x)))
                  kvs) (\<lambda>items. Inr (JObj items))))
            | _ \<Rightarrow> Inl (ContractValidationError path ''expected_object''))) (\<lambda>v.
     if vs_enum schema \<noteq> [] \<and> \<not> list_ex (equals_scalar v) (vs_enum schema)
     then Inl (ContractValidationError path ''not_in_enum'')
     else if \<not> opt_all (equals_scalar v) (vs_const schema)
     then Inl (ContractValidationError path ''const_mismatch'')
     else Inr v)"

declare validate_value.simps [simp del]

definition validate_object ::
  "formats \<Rightarrow> object_contract \<Rightarrow> (string \<times> json) list \<Rightarrow> string \<Rightarrow> (string \<times> json) list result" where
  "validate_object F contract value path =
     bind_r (object_guards (oc_required contract) (oc_properties contract) value path) (\<lambda>_.
     map_r (\<lambda>(k, item). case map_of (oc_properties contract) k of
         None \<Rightarrow> Inl (KeyError k)
       | Some s \<Rightarrow> bind_r (validate_value F s item (child_path path k)) (\<lambda>x. Inr (k, x))) value)"

section \<open>Transforms\<close>

text \<open>\<open>str.removeprefix\<close> and \<open>str.replace\<close> of one character by nothing.\<close>

definition remove_prefix :: "string \<Rightarrow> string \<Rightarrow> string" where
  "remove_prefix p s = (if starts_with p s then drop (length p) s else s)"

definition transform_extracted_text :: "string \<Rightarrow> extract_transform \<Rightarrow> string" where
  "transform_extracted_text value tr =
     (case tr of
        TR_LOWERCASE \<Rightarrow> py_lower (py_strip value)
      | TR_DECIMAL \<Rightarrow> filter (\<lambda>c. c \<noteq> CHR '','') (remove_prefix ''$'' (py_strip value))
      | TR_TRIM \<Rightarrow> py_strip value
      | TR_DATE_TIME \<Rightarrow> py_strip value
      | TR_TEXT \<Rightarrow> value)"

end
