(* ===== verification/ValuesGuarantees.thy ===== *)
theory ValuesGuarantees
  imports Values ArtifactSample
begin

text \<open>
  What value validation guarantees: it accepts exactly the conforming objects and returns them
  unchanged; its errors name only contract properties, never submitted data; and declared
  required paths resolve in an accepted object.
\<close>

section \<open>Conformance\<close>

definition string_conforms :: "formats \<Rightarrow> value_schema \<Rightarrow> string \<Rightarrow> bool" where
  "string_conforms F s t =
     (opt_all (\<lambda>n. n \<le> int (length t)) (vs_min_length s) \<and>
      opt_all (\<lambda>n. int (length t) \<le> n) (vs_max_length s) \<and>
      opt_all (\<lambda>p. fm_fullmatch F p t) (vs_pattern s) \<and>
      (vs_format s = Some FORMAT_DECIMAL \<longrightarrow> is_decimal t) \<and>
      (vs_format s = Some FORMAT_DATE \<longrightarrow> fm_date F t) \<and>
      (vs_format s = Some FORMAT_DATE_TIME \<longrightarrow> fm_datetime F t = Some True))"

definition fields_conform ::
  "(value_schema \<Rightarrow> json \<Rightarrow> bool) \<Rightarrow> string list \<Rightarrow> (string \<times> value_schema) list
     \<Rightarrow> (string \<times> json) list \<Rightarrow> bool" where
  "fields_conform P required props kvs =
     (set required \<subseteq> set (map fst kvs) \<and>
      list_all (\<lambda>(k, x). case map_of props k of None \<Rightarrow> False | Some s \<Rightarrow> P s x) kvs)"

lemma fields_conform_cong [fundef_cong]:
  assumes "required = required'" "props = props'" "kvs = kvs'"
    and "\<And>k x s. (k, x) \<in> set kvs' \<Longrightarrow> map_of props' k = Some s \<Longrightarrow> P s x = Q s x"
  shows "fields_conform P required props kvs = fields_conform Q required' props' kvs'"
  using assms unfolding fields_conform_def list_all_iff
  by (auto split: option.splits)

fun conforms :: "formats \<Rightarrow> value_schema \<Rightarrow> json \<Rightarrow> bool" where
  "conforms F s v =
     ((case vs_type s of
         TYPE_STRING \<Rightarrow> (case v of JStr t \<Rightarrow> string_conforms F s t | _ \<Rightarrow> False)
       | TYPE_INTEGER \<Rightarrow> is_int v
       | TYPE_BOOLEAN \<Rightarrow> is_bool v
       | TYPE_OBJECT \<Rightarrow>
           (case v of JObj kvs \<Rightarrow> fields_conform (conforms F) (vs_required s) (vs_properties s) kvs
            | _ \<Rightarrow> False)) \<and>
      (vs_enum s = [] \<or> list_ex (equals_scalar v) (vs_enum s)) \<and>
      opt_all (equals_scalar v) (vs_const s))"

declare conforms.simps [simp del]

definition object_conforms :: "formats \<Rightarrow> object_contract \<Rightarrow> (string \<times> json) list \<Rightarrow> bool" where
  "object_conforms F c kvs = fields_conform (conforms F) (oc_required c) (oc_properties c) kvs"

lemma validate_string_Inr: "validate_string F s t p = Inr u \<longleftrightarrow> string_conforms F s t"
  by (cases "vs_format s")
     (auto simp: validate_string_def string_conforms_def split: value_format.splits option.splits)

lemma object_guards_Inr:
  "object_guards req props kvs p = Inr u \<longleftrightarrow>
     set req \<subseteq> set (map fst kvs) \<and> set (map fst kvs) \<subseteq> set (map fst props)"
  by (auto simp: object_guards_def missing_required_def filter_empty_conv)

text \<open>A parsed schema: its nested contracts can be constructed again.\<close>

definition schema_ok :: "(string \<Rightarrow> bool) \<Rightarrow> value_schema \<Rightarrow> bool" where
  "schema_ok compiles s = (check_value_schema compiles s = Inr ())"

lemma schema_ok_nested:
  assumes "schema_ok compiles s"
  shows "(k, t) \<in> set (vs_properties s) \<Longrightarrow> schema_ok compiles t"
    and "vs_type s = TYPE_OBJECT \<Longrightarrow>
      check_object_contract \<lparr>oc_required = vs_required s, oc_properties = vs_properties s\<rparr> = Inr ()"
proof -
  obtain ty desc cls per req props pat fmt en con mn mx ex where
    s: "s = ValueSchema ty desc cls per req props pat fmt en con mn mx ex" by (cases s)
  from assms have ok: "each (\<lambda>(name, t). check_value_schema compiles t) props = Inr ()"
    "ty = TYPE_OBJECT \<longrightarrow> set req \<subseteq> set (map fst props)" "distinct req"
    "list_all is_field_name (map fst props)"
    unfolding schema_ok_def s check_value_schema.simps bind_r_Inr_iff checks_Inr_iff
    by (auto simp: s)
  show "(k, t) \<in> set (vs_properties s) \<Longrightarrow> schema_ok compiles t"
    using ok(1) by (auto simp: s schema_ok_def each_Inr_iff)
  show "vs_type s = TYPE_OBJECT \<Longrightarrow>
      check_object_contract \<lparr>oc_required = vs_required s, oc_properties = vs_properties s\<rparr> = Inr ()"
    using ok(2-4) by (simp add: s check_object_contract_def)
qed

lemma map_of_In_map_fst: "map_of ps k = None \<longleftrightarrow> k \<notin> fst ` set ps"
  by (rule map_of_eq_None_iff)

lemma map_r_pairs_Inr:
  assumes "\<And>k x s y. (k, x) \<in> set kvs \<Longrightarrow> map_of props k = Some s \<Longrightarrow>
      f s x k = Inr y \<longleftrightarrow> y = x \<and> P s x"
  shows "map_r (\<lambda>(k, x). case map_of props k of None \<Rightarrow> Inl (KeyError k)
            | Some s \<Rightarrow> bind_r (f s x k) (\<lambda>y. Inr (k, y))) kvs = Inr ws \<longleftrightarrow>
         ws = kvs \<and> list_all (\<lambda>(k, x). case map_of props k of None \<Rightarrow> False | Some s \<Rightarrow> P s x) kvs"
  using assms
proof (induction kvs arbitrary: ws)
  case (Cons kv kvs)
  obtain k x where kv: "kv = (k, x)" by (cases kv)
  note IH = Cons.IH[OF Cons.prems]
  show ?case
  proof (cases "map_of props k")
    case None
    then show ?thesis by (simp add: kv)
  next
    case (Some s)
    with Cons.prems[of k x s] show ?thesis
      by (auto simp: kv bind_r_Inr_iff IH)
  qed
qed auto

text \<open>Validation of a value is the identity on the conforming values.\<close>

lemma validate_value_Inr:
  "schema_ok compiles s \<Longrightarrow> validate_value F s v p = Inr w \<longleftrightarrow> w = v \<and> conforms F s v"
proof (induction F s v p arbitrary: w rule: validate_value.induct)
  case (1 F s v p)
  show ?case
  proof (cases "vs_type s")
    case TYPE_OBJECT
    show ?thesis
    proof (cases v)
      case (JObj kvs)
      let ?f = "\<lambda>t x k. validate_value F t x (child_path p k)"
      have fields: "map_r (\<lambda>(k, x). case map_of (vs_properties s) k of None \<Rightarrow> Inl (KeyError k)
            | Some t \<Rightarrow> bind_r (?f t x k) (\<lambda>y. Inr (k, y))) kvs = Inr ws \<longleftrightarrow>
          ws = kvs \<and> list_all (\<lambda>(k, x). case map_of (vs_properties s) k of None \<Rightarrow> False
            | Some t \<Rightarrow> conforms F t x) kvs" if g: "object_guards (vs_required s) (vs_properties s) kvs p = Inr ()" for ws
      proof (rule map_r_pairs_Inr)
        fix k x t y
        assume kx: "(k, x) \<in> set kvs" and t: "map_of (vs_properties s) k = Some t"
        have "schema_ok compiles t"
          using schema_ok_nested(1)[OF 1(2)] map_of_SomeD[OF t] .
        with 1(1)[OF TYPE_OBJECT JObj schema_ok_nested(2)[OF 1(2) TYPE_OBJECT] g kx refl t]
        show "?f t x k = Inr y \<longleftrightarrow> y = x \<and> conforms F t x" by simp
      qed
      have guards: "object_guards (vs_required s) (vs_properties s) kvs p = Inr () \<longleftrightarrow>
          set (vs_required s) \<subseteq> set (map fst kvs) \<and>
          set (map fst kvs) \<subseteq> set (map fst (vs_properties s))"
        by (rule object_guards_Inr)
      have known: "list_all (\<lambda>(k, x). case map_of (vs_properties s) k of None \<Rightarrow> False
            | Some t \<Rightarrow> conforms F t x) kvs \<Longrightarrow>
          set (map fst kvs) \<subseteq> set (map fst (vs_properties s))"
        by (fastforce simp: list_all_iff map_of_In_map_fst split: option.splits)
      show ?thesis
      proof (cases "object_guards (vs_required s) (vs_properties s) kvs p")
        case (Inl e)
        then have "\<not> fields_conform (conforms F) (vs_required s) (vs_properties s) kvs"
          using guards known by (auto simp: fields_conform_def)
        with Inl show ?thesis
          by (subst validate_value.simps, subst conforms.simps)
             (simp add: TYPE_OBJECT JObj schema_ok_nested(2)[OF 1(2) TYPE_OBJECT])
      next
        case (Inr u)
        then have g: "object_guards (vs_required s) (vs_properties s) kvs p = Inr ()" by simp
        show ?thesis
          by (subst validate_value.simps, subst conforms.simps)
             (use guards g in \<open>auto simp: TYPE_OBJECT JObj bind_r_Inr_iff fields[OF g]
                schema_ok_nested(2)[OF 1(2) TYPE_OBJECT] fields_conform_def list_ex_iff\<close>)
      qed
    qed (subst validate_value.simps, subst conforms.simps, simp add: TYPE_OBJECT)+
  next
    case TYPE_STRING
    then show ?thesis
      by (subst validate_value.simps, subst conforms.simps)
         (auto simp: bind_r_Inr_iff validate_string_Inr split: json.splits)
  next
    case TYPE_INTEGER
    then show ?thesis
      by (subst validate_value.simps, subst conforms.simps) auto
  next
    case TYPE_BOOLEAN
    then show ?thesis
      by (subst validate_value.simps, subst conforms.simps) auto
  qed
qed

definition contract_ok :: "(string \<Rightarrow> bool) \<Rightarrow> object_contract \<Rightarrow> bool" where
  "contract_ok compiles c =
     (\<forall>(k, s)\<in>set (oc_properties c). schema_ok compiles s)"

lemma contract_ok_lookup:
  "contract_ok compiles c \<Longrightarrow> map_of (oc_properties c) k = Some s \<Longrightarrow> schema_ok compiles s"
  by (auto simp: contract_ok_def dest!: map_of_SomeD)

lemma fields_conform_known:
  "fields_conform P req props kvs \<Longrightarrow> set (map fst kvs) \<subseteq> set (map fst props)"
  by (fastforce simp: fields_conform_def list_all_iff map_of_In_map_fst split: option.splits)

lemma validate_object_Inr:
  assumes "contract_ok compiles c"
  shows "validate_object F c v p = Inr w \<longleftrightarrow> w = v \<and> object_conforms F c v"
proof -
  have fields: "map_r (\<lambda>(k, x). case map_of (oc_properties c) k of None \<Rightarrow> Inl (KeyError k)
            | Some s \<Rightarrow> bind_r (validate_value F s x (child_path p k)) (\<lambda>y. Inr (k, y))) v = Inr w \<longleftrightarrow>
          w = v \<and> list_all (\<lambda>(k, x). case map_of (oc_properties c) k of None \<Rightarrow> False
            | Some s \<Rightarrow> conforms F s x) v" for w
    by (rule map_r_pairs_Inr, rule validate_value_Inr, erule contract_ok_lookup[OF assms])
  show ?thesis
    using fields_conform_known[of "conforms F" "oc_required c" "oc_properties c" v]
    by (auto simp: validate_object_def bind_r_Inr_iff object_guards_Inr fields object_conforms_def
          fields_conform_def)
qed

text \<open>
  C11. Validating an object against a parsed contract accepts exactly the conforming objects and
  returns the object unchanged: nothing is coerced, dropped or reordered, at any depth.
\<close>

theorem validation_is_conformance:
  assumes "contract_ok compiles c"
  shows "validate_object F c v p = Inr w \<longleftrightarrow> w = v \<and> object_conforms F c v"
  using assms by (rule validate_object_Inr)

definition sample_formats :: formats where
  "sample_formats = \<lparr>fm_fullmatch = (\<lambda>p s. p = s), fm_date = (\<lambda>s. length s = 10),
     fm_datetime = (\<lambda>s. None)\<rparr>"

definition sample_address :: value_schema where
  "sample_address = ValueSchema TYPE_OBJECT ''address'' PERSONAL PERSIST_REDACTED [''city'']
     [(''city'', sample_schema), (''zip'', ValueSchema TYPE_INTEGER ''zip'' OPERATIONAL
        PERSIST_REDACTED [] [] None None [] None None None None)]
     None None [] None None None None"

definition sample_contract :: object_contract where
  "sample_contract = \<lparr>oc_required = [''address''], oc_properties = [(''address'', sample_address)]\<rparr>"

definition sample_value :: "(string \<times> json) list" where
  "sample_value = [(''address'', JObj [(''city'', JStr ''Bern''), (''zip'', JInt 3000)])]"

lemma sample_contract_ok: "contract_ok (\<lambda>p. True) sample_contract"
proof -
  have "check_value_schema (\<lambda>p. True) sample_address = Inr ()" by code_simp
  then show ?thesis by (simp add: contract_ok_def schema_ok_def sample_contract_def)
qed

lemma validation_is_conformance_witness:
  "object_conforms sample_formats sample_contract sample_value"
proof -
  have "\<not> (case validate_object sample_formats sample_contract sample_value ''$'' of
      Inl e \<Rightarrow> True | Inr w \<Rightarrow> False)"
    by code_simp
  then obtain w where "validate_object sample_formats sample_contract sample_value ''$'' = Inr w"
    by (cases "validate_object sample_formats sample_contract sample_value ''$''") simp_all
  with validation_is_conformance[OF sample_contract_ok] show ?thesis by blast
qed

section \<open>Errors\<close>

definition error_codes :: "string list" where
  "error_codes =
     [''unknown_properties'', ''expected_string'', ''expected_integer'', ''expected_boolean'',
      ''expected_object'', ''not_in_enum'', ''const_mismatch'', ''too_short'', ''too_long'',
      ''pattern_mismatch'', ''invalid_decimal'', ''invalid_date'', ''invalid_datetime'',
      ''datetime_requires_timezone'']"

text \<open>
  Errors of validating below the path \<open>base\<close> under an object schema with the given required
  names and properties: a fixed code, or the list of missing required names, at a path made of
  declared property names.
\<close>

inductive declared_error ::
  "string list \<Rightarrow> (string \<times> value_schema) list \<Rightarrow> string \<Rightarrow> string \<Rightarrow> string \<Rightarrow> bool" where
  de_code: "code \<in> set error_codes \<Longrightarrow> declared_error req props base base code"
| de_missing: "set names \<subseteq> set req \<Longrightarrow>
    declared_error req props base base (''missing_required:'' @ join_with '','' names)"
| de_nested: "map_of props k = Some s \<Longrightarrow>
    declared_error (vs_required s) (vs_properties s) (child_path base k) path code \<Longrightarrow>
    declared_error req props base path code"

lemma error_code_members:
  "''unknown_properties'' \<in> set error_codes" "''expected_string'' \<in> set error_codes"
  "''expected_integer'' \<in> set error_codes" "''expected_boolean'' \<in> set error_codes"
  "''expected_object'' \<in> set error_codes" "''not_in_enum'' \<in> set error_codes"
  "''const_mismatch'' \<in> set error_codes" "''too_short'' \<in> set error_codes"
  "''too_long'' \<in> set error_codes" "''pattern_mismatch'' \<in> set error_codes"
  "''invalid_decimal'' \<in> set error_codes" "''invalid_date'' \<in> set error_codes"
  "''invalid_datetime'' \<in> set error_codes" "''datetime_requires_timezone'' \<in> set error_codes"
  by (simp_all add: error_codes_def)

definition code_error :: "string \<Rightarrow> exn \<Rightarrow> bool" where
  "code_error p e = (\<exists>code\<in>set error_codes. e = ContractValidationError p code)"

lemma code_error_simp [simp]:
  "code_error p (ContractValidationError p c) \<longleftrightarrow> c \<in> set error_codes"
  by (simp add: code_error_def)

definition declared_failure ::
  "string list \<Rightarrow> (string \<times> value_schema) list \<Rightarrow> string \<Rightarrow> exn \<Rightarrow> bool" where
  "declared_failure req props p e =
     (\<exists>path code. e = ContractValidationError path code \<and> declared_error req props p path code)"

lemma code_error_declared: "code_error p e \<Longrightarrow> declared_failure req props p e"
  by (auto simp: code_error_def declared_failure_def intro: de_code)

lemma nested_failure:
  "map_of props k = Some s \<Longrightarrow>
   declared_failure (vs_required s) (vs_properties s) (child_path p k) e \<Longrightarrow>
   declared_failure req props p e"
  by (auto simp: declared_failure_def intro: de_nested)

lemma object_guards_Inl:
  assumes "object_guards req props kvs p = Inl e"
  shows "declared_failure req props p e"
proof (cases "missing_required req kvs = []")
  case True
  with assms have "e = ContractValidationError p ''unknown_properties''"
    by (auto simp: object_guards_def split: if_splits)
  then show ?thesis by (auto intro: code_error_declared simp: error_code_members)
next
  case False
  have "set (sort (missing_required req kvs)) \<subseteq> set req" by (auto simp: missing_required_def)
  moreover from False assms have "e = ContractValidationError p
      (''missing_required:'' @ join_with '','' (sort (missing_required req kvs)))"
    by (simp add: object_guards_def)
  ultimately show ?thesis unfolding declared_failure_def using de_missing by blast
qed

lemma map_r_Inl: "map_r f xs = Inl e \<Longrightarrow> \<exists>x\<in>set xs. f x = Inl e"
  by (induction xs) (auto simp: bind_r_Inl_iff)

lemma code_errorI: "c \<in> set error_codes \<Longrightarrow> Inl (ContractValidationError p c) = Inl e \<Longrightarrow> code_error p e"
  by (auto simp: code_error_def)

lemma validate_string_Inl:
  assumes e: "validate_string F s t p = Inl e"
  shows "code_error p e"
proof (cases "opt_all (\<lambda>n. n \<le> int (length t)) (vs_min_length s)")
  case short: True
  show ?thesis
  proof (cases "opt_all (\<lambda>n. int (length t) \<le> n) (vs_max_length s)")
    case long: True
    show ?thesis
    proof (cases "opt_all (\<lambda>q. fm_fullmatch F q t) (vs_pattern s)")
      case True
      with short long e obtain k where k: "vs_format s = Some k"
        by (cases "vs_format s") (simp_all add: validate_string_def)
      show ?thesis
      proof (cases k)
        case FORMAT_DATE
        with e k short long True show ?thesis
          by (cases "fm_date F t")
             (auto simp: validate_string_def error_code_members)
      next
        case FORMAT_DATE_TIME
        with e k short long True show ?thesis
          by (cases "fm_datetime F t"; cases "the (fm_datetime F t)")
             (auto simp: validate_string_def error_code_members)
      next
        case FORMAT_DECIMAL
        with e k short long True show ?thesis
          by (cases "is_decimal t")
             (auto simp: validate_string_def error_code_members)
      qed
    next
      case False
      with e short long have "e = ContractValidationError p ''pattern_mismatch''"
        by (simp add: validate_string_def)
      then show ?thesis by (simp add: error_code_members)
    qed
  next
    case False
    with e short have "e = ContractValidationError p ''too_long''"
      by (simp add: validate_string_def)
    then show ?thesis by (simp add: error_code_members)
  qed
next
  case False
  with e have "e = ContractValidationError p ''too_short''" by (simp add: validate_string_def)
  then show ?thesis by (simp add: error_code_members)
qed

lemma fields_Inl:
  assumes "map_r (\<lambda>(k, x). case map_of props k of None \<Rightarrow> Inl (KeyError k)
      | Some t \<Rightarrow> bind_r (f t x k) (\<lambda>y. Inr (k, y))) kvs = Inl e"
    and "set (map fst kvs) \<subseteq> set (map fst props)"
  shows "\<exists>k x t. (k, x) \<in> set kvs \<and> map_of props k = Some t \<and> f t x k = Inl e"
proof -
  obtain kx where kx': "kx \<in> set kvs" and e': "(\<lambda>(k, x). case map_of props k of None \<Rightarrow> Inl (KeyError k)
      | Some t \<Rightarrow> bind_r (f t x k) (\<lambda>y. Inr (k, y))) kx = Inl e"
    using map_r_Inl[OF assms(1)] by blast
  define k x where "k = fst kx" and "x = snd kx"
  then have pair: "kx = (k, x)" by simp
  have kx: "(k, x) \<in> set kvs" using kx' unfolding pair .
  have e: "(case map_of props k of None \<Rightarrow> Inl (KeyError k)
      | Some t \<Rightarrow> bind_r (f t x k) (\<lambda>y. Inr (k, y))) = Inl e"
    using e' unfolding pair prod.case .
  from kx assms(2) have "k \<in> fst ` set props" by force
  then have "map_of props k \<noteq> None" by (simp add: map_of_In_map_fst)
  then obtain t where t: "map_of props k = Some t" by blast
  with e have "f t x k = Inl e" by (simp add: bind_r_Inl_iff)
  with kx t show ?thesis by blast
qed

text \<open>The two ways a validation can fail: before the object's fields, or in one of them.\<close>

lemma finish_Inl:
  assumes "bind_r m (\<lambda>v. if vs_enum s \<noteq> [] \<and> \<not> list_ex (equals_scalar v) (vs_enum s)
      then Inl (ContractValidationError p ''not_in_enum'')
      else if \<not> opt_all (equals_scalar v) (vs_const s)
      then Inl (ContractValidationError p ''const_mismatch'')
      else Inr v) = Inl e"
  shows "m = Inl e \<or> code_error p e"
  using assms by (cases m) (auto simp: error_code_members split: if_splits)

lemma validate_value_Inl:
  "schema_ok compiles s \<Longrightarrow> validate_value F s v p = Inl e \<Longrightarrow>
     declared_failure (vs_required s) (vs_properties s) p e"
proof (induction F s v p arbitrary: e rule: validate_value.induct)
  case (1 F s v p)
  from finish_Inl[OF 1(3)[unfolded validate_value.simps[of F s v p]]] show ?case
  proof
    assume "code_error p e"
    then show ?thesis by (rule code_error_declared)
  next
    assume m: "(case vs_type s of
         TYPE_STRING \<Rightarrow>
           (case v of
              JStr t \<Rightarrow> bind_r (validate_string F s t p) (\<lambda>_. Inr v)
            | _ \<Rightarrow> Inl (ContractValidationError p ''expected_string''))
       | TYPE_INTEGER \<Rightarrow>
           (if is_int v then Inr v else Inl (ContractValidationError p ''expected_integer''))
       | TYPE_BOOLEAN \<Rightarrow>
           (if is_bool v then Inr v else Inl (ContractValidationError p ''expected_boolean''))
       | TYPE_OBJECT \<Rightarrow>
           (case v of
              JObj kvs \<Rightarrow>
                bind_r (check_object_contract
                  \<lparr>oc_required = vs_required s, oc_properties = vs_properties s\<rparr>) (\<lambda>_.
                bind_r (object_guards (vs_required s) (vs_properties s) kvs p) (\<lambda>_.
                bind_r (map_r (\<lambda>(k, item). case map_of (vs_properties s) k of
                    None \<Rightarrow> Inl (KeyError k)
                  | Some t \<Rightarrow> bind_r (validate_value F t item (child_path p k)) (\<lambda>x. Inr (k, x)))
                  kvs) (\<lambda>items. Inr (JObj items))))
            | _ \<Rightarrow> Inl (ContractValidationError p ''expected_object''))) = Inl e"
    show ?thesis
    proof (cases "vs_type s = TYPE_OBJECT \<and> (\<exists>kvs. v = JObj kvs)")
      case False
      with m have "code_error p e"
        by (cases "vs_type s"; cases v)
           (auto simp: error_code_members bind_r_Inl_iff dest: validate_string_Inl)
      then show ?thesis by (rule code_error_declared)
    next
      case True
      then obtain kvs where obj: "vs_type s = TYPE_OBJECT" "v = JObj kvs" by blast
      note con = schema_ok_nested(2)[OF 1(2) obj(1)]
      from m obj con consider "object_guards (vs_required s) (vs_properties s) kvs p = Inl e"
        | (field) "object_guards (vs_required s) (vs_properties s) kvs p = Inr ()"
            "map_r (\<lambda>(k, item). case map_of (vs_properties s) k of
                    None \<Rightarrow> Inl (KeyError k)
                  | Some t \<Rightarrow> bind_r (validate_value F t item (child_path p k)) (\<lambda>x. Inr (k, x)))
                  kvs = Inl e"
        by (auto simp: bind_r_Inl_iff)
      then show ?thesis
      proof cases
        case 1
        then show ?thesis by (rule object_guards_Inl)
      next
        case field
        from field(1) have known: "set (map fst kvs) \<subseteq> set (map fst (vs_properties s))"
          by (simp add: object_guards_Inr)
        obtain k x t where t: "(k, x) \<in> set kvs" "map_of (vs_properties s) k = Some t"
            "validate_value F t x (child_path p k) = Inl e"
          using fields_Inl[OF field(2) known] by blast
        have "schema_ok compiles t" using schema_ok_nested(1)[OF "1.prems"(1)] map_of_SomeD[OF t(2)] .
        from "1.IH"[OF obj con field(1) t(1) refl t(2) this t(3)]
        show ?thesis by (rule nested_failure[OF t(2)])
      qed
    qed
  qed
qed

text \<open>
  Validation of an object against a parsed contract fails only with a contract error, never
  with a missing key or another exception, and the error reveals nothing that was submitted: its
  path consists of property names declared in the contract and its code is one of fourteen fixed
  codes or a list of the contract's required names.
\<close>

theorem validation_errors_are_declared:
  assumes "contract_ok compiles c" "validate_object F c v ''$'' = Inl e"
  shows "\<exists>path code. e = ContractValidationError path code \<and>
    declared_error (oc_required c) (oc_properties c) ''$'' path code"
proof -
  have "declared_failure (oc_required c) (oc_properties c) ''$'' e"
  proof (cases "object_guards (oc_required c) (oc_properties c) v ''$''")
    case (Inl e')
    with assms(2) have "e' = e" by (simp add: validate_object_def)
    with object_guards_Inl[OF Inl] show ?thesis by simp
  next
    case (Inr u)
    then have known: "set (map fst v) \<subseteq> set (map fst (oc_properties c))"
      by (simp add: object_guards_Inr)
    obtain k x t where t: "(k, x) \<in> set v" "map_of (oc_properties c) k = Some t"
        "validate_value F t x (child_path ''$'' k) = Inl e"
      using fields_Inl[OF _ known, of "\<lambda>t x k. validate_value F t x (child_path ''$'' k)" e]
        assms(2) Inr by (auto simp: validate_object_def)
    from validate_value_Inl[OF contract_ok_lookup[OF assms(1) t(2)] t(3)]
    show ?thesis by (rule nested_failure[OF t(2)])
  qed
  then show ?thesis by (simp add: declared_failure_def)
qed

lemma validation_errors_are_declared_witness:
  "\<exists>path code. validate_object sample_formats sample_contract
       [(''address'', JObj [(''city'', JInt 3)])] ''$'' = Inl (ContractValidationError path code) \<and>
     declared_error [''address''] [(''address'', sample_address)] ''$'' path code"
proof -
  have "case validate_object sample_formats sample_contract [(''address'', JObj [(''city'', JInt 3)])]
      ''$'' of Inl e \<Rightarrow> True | Inr w \<Rightarrow> False"
    by code_simp
  then obtain e where e: "validate_object sample_formats sample_contract
      [(''address'', JObj [(''city'', JInt 3)])] ''$'' = Inl e"
    by (cases "validate_object sample_formats sample_contract
      [(''address'', JObj [(''city'', JInt 3)])] ''$''") simp_all
  from validation_errors_are_declared[OF sample_contract_ok e] e
  show ?thesis by (simp add: sample_contract_def)
qed

section \<open>Resolving inputs\<close>

text \<open>A path whose every part is declared and required.\<close>

fun required_path :: "string list \<Rightarrow> (string \<times> value_schema) list \<Rightarrow> string list \<Rightarrow> bool" where
  "required_path req props [] = False"
| "required_path req props (p # ps) =
     (p \<in> set req \<and>
      (case map_of props p of
         None \<Rightarrow> False
       | Some s \<Rightarrow> ps = [] \<or>
           vs_type s = TYPE_OBJECT \<and> required_path (vs_required s) (vs_properties s) ps))"

fun schema_at :: "(string \<times> value_schema) list \<Rightarrow> string list \<Rightarrow> value_schema option" where
  "schema_at props [] = None"
| "schema_at props (p # ps) =
     (case map_of props p of
        None \<Rightarrow> None
      | Some s \<Rightarrow> if ps = [] then Some s else schema_at (vs_properties s) ps)"

lemma fields_conform_lookup:
  assumes "fields_conform P req props kvs" "k \<in> set req" "map_of props k = Some s"
  shows "\<exists>x. map_of kvs k = Some x \<and> P s x"
proof -
  from assms(1,2) have "k \<in> fst ` set kvs" by (auto simp: fields_conform_def)
  then obtain x where x: "map_of kvs k = Some x"
    by (cases "map_of kvs k") (auto simp: map_of_In_map_fst)
  from map_of_SomeD[OF x] assms(1,3) have "P s x"
    by (auto simp: fields_conform_def list_all_iff)
  with x show ?thesis by blast
qed

lemma required_path_resolves:
  "fields_conform (conforms F) req props kvs \<Longrightarrow> required_path req props ps \<Longrightarrow>
     \<exists>x s. resolve_parts path (JObj kvs) ps = Inr x \<and> schema_at props ps = Some s \<and> conforms F s x"
proof (induction ps arbitrary: req props kvs)
  case (Cons p ps)
  from Cons.prems(2) obtain s where s: "p \<in> set req" "map_of props p = Some s"
    by (auto split: option.splits)
  then obtain x where x: "map_of kvs p = Some x" "conforms F s x"
    using fields_conform_lookup[OF Cons.prems(1)] by blast
  show ?case
  proof (cases "ps = []")
    case True
    with s x show ?thesis by simp
  next
    case False
    with Cons.prems(2) s have nested: "vs_type s = TYPE_OBJECT"
        "required_path (vs_required s) (vs_properties s) ps"
      by auto
    from x(2) nested(1) obtain inner where "x = JObj inner"
        "fields_conform (conforms F) (vs_required s) (vs_properties s) inner"
      by (subst (asm) conforms.simps) (auto split: json.splits)
    with Cons.IH[OF _ nested(2)] s x(1) False show ?thesis by simp
  qed
qed simp

text \<open>
  In an accepted object every path that is declared and required all the way down resolves,
  to a value that conforms to the schema declared at that path: the engine's input bindings of
  such paths cannot fail.
\<close>

theorem required_input_resolves:
  assumes "contract_ok compiles c" "validate_object F c v p = Inr w"
    and "required_path (oc_required c) (oc_properties c) (split_on (CHR ''.'') path)"
  shows "\<exists>x s. resolve_input w path = Inr x \<and>
    schema_at (oc_properties c) (split_on (CHR ''.'') path) = Some s \<and> conforms F s x"
proof -
  from validate_object_Inr[OF assms(1)] assms(2) have "w = v" "object_conforms F c v" by blast+
  then show ?thesis
    using required_path_resolves[OF _ assms(3), of F w path]
    by (simp add: object_conforms_def resolve_input_def)
qed

lemma required_input_resolves_witness:
  "\<exists>x. resolve_input sample_value ''address.city'' = Inr x"
proof -
  have "case validate_object sample_formats sample_contract sample_value ''$'' of
      Inl e \<Rightarrow> False | Inr w \<Rightarrow> True"
    by code_simp
  then obtain w where w: "validate_object sample_formats sample_contract sample_value ''$'' = Inr w"
    by (cases "validate_object sample_formats sample_contract sample_value ''$''") simp_all
  have "required_path (oc_required sample_contract) (oc_properties sample_contract)
      (split_on (CHR ''.'') ''address.city'')"
    by code_simp
  from required_input_resolves[OF sample_contract_ok w this]
  have "\<exists>x. resolve_input w ''address.city'' = Inr x" by blast
  moreover from w have "w = sample_value"
    using validate_object_Inr[OF sample_contract_ok] by blast
  ultimately show ?thesis by simp
qed

end
