(* ===== verification/Targeting.thy ===== *)
theory Targeting
  imports Values
begin

text \<open>
  Binding of runtime identities to targets (\<^verbatim>\<open>capabilities/targeting.py\<close>): an input
  text candidate becomes an exact-match candidate for the submitted text, unless the input's
  classification is forbidden. Constructors fill in the defaults of the models.
\<close>

section \<open>Operations\<close>

definition target_input_paths :: "locator_bundle \<Rightarrow> string list" where
  "target_input_paths t =
     concat (map (\<lambda>v. case v of InputTextCandidate p txt rel \<Rightarrow> [p] | _ \<Rightarrow> [])
       (lb_visual_candidates t))"

definition bind_candidate ::
  "(string \<times> json) list \<Rightarrow> object_contract option \<Rightarrow> data_classification list \<Rightarrow> visual_candidate
     \<Rightarrow> visual_candidate result" where
  "bind_candidate inputs contract forbidden v =
     (case v of
        InputTextCandidate path txt rel \<Rightarrow>
          (case (case contract of None \<Rightarrow> None
                 | Some c \<Rightarrow> binding_classification c path forbidden) of
             None \<Rightarrow> Inl (ContractValidationError path ''target_input_forbidden'')
           | Some k \<Rightarrow>
               if k \<in> set forbidden
               then Inl (ContractValidationError path ''target_input_forbidden'')
               else bind_r (resolve_input inputs path) (\<lambda>value.
                 case value of
                   JStr s \<Rightarrow>
                     if blank s \<or> 200 < length s
                     then Inl (ContractValidationError path ''target_input_invalid'')
                     else (case txt of
                       None \<Rightarrow> Inr (RenderedTextCandidate s MATCH_EXACT)
                     | Some t \<Rightarrow>
                         (case rel of
                            None \<Rightarrow> Inl (RuntimeError ''AssertionError'')
                          | Some r \<Rightarrow> Inr (OcrRelativeCandidate
                              \<lparr>or_anchor = s, or_anchor_match = MATCH_EXACT, or_target_text = Some t,
                               or_relation = r, or_relative_region = None, or_search_region = None,
                               or_minimum_confidence = 85 / 100, or_portability = PORT_HIGH\<rparr>)))
                 | _ \<Rightarrow> Inl (ContractValidationError path ''target_input_invalid'')))
      | _ \<Rightarrow> Inr v)"

definition bind_target_inputs ::
  "locator_bundle \<Rightarrow> (string \<times> json) list \<Rightarrow> object_contract option \<Rightarrow> data_classification list
     \<Rightarrow> locator_bundle result" where
  "bind_target_inputs target inputs contract forbidden =
     bind_r (map_r (bind_candidate inputs contract forbidden) (lb_visual_candidates target)) (\<lambda>vs.
     Inr (target\<lparr>lb_visual_candidates := vs\<rparr>))"

section \<open>What binding reveals\<close>

text \<open>The classifications met on a path, from the outside in.\<close>

fun path_classifications :: "(string \<times> value_schema) list \<Rightarrow> string list \<Rightarrow> data_classification list" where
  "path_classifications props [] = []"
| "path_classifications props (p # ps) =
     (case map_of props p of
        None \<Rightarrow> []
      | Some s \<Rightarrow> vs_classification s # path_classifications (vs_properties s) ps)"

lemma binding_parts_allowed:
  "binding_parts props ps forbidden k0 = Some k \<Longrightarrow> k \<notin> set forbidden \<Longrightarrow>
     set (path_classifications props ps) \<inter> set forbidden = {}"
  by (induction props ps forbidden k0 rule: binding_parts.induct) (auto split: option.splits if_splits)

text \<open>A candidate that is not bound from an input.\<close>

definition is_unbound :: "visual_candidate \<Rightarrow> bool" where
  "is_unbound v = (case v of InputTextCandidate p tt rel \<Rightarrow> True | _ \<Rightarrow> False)"

text \<open>
  C25. Binding a target never uses a value under a forbidden classification, at any depth of its
  path: when it succeeds, every bound path is free of forbidden classifications, its value is a
  submitted non-blank text of at most 200 characters, no unbound candidate is left, and
  everything else of the target (its other candidates, locators, scope) is unchanged.
\<close>

theorem binding_respects_classification:
  assumes "bind_target_inputs target inputs (Some c) forbidden = Inr b"
  shows "(\<forall>p\<in>set (target_input_paths target).
            set (path_classifications (oc_properties c) (split_on (CHR ''.'') p)) \<inter> set forbidden = {} \<and>
            (\<exists>s. resolve_input inputs p = Inr (JStr s) \<and> \<not> blank s \<and> length s \<le> 200)) \<and>
         (\<forall>v\<in>set (lb_visual_candidates b). \<not> is_unbound v) \<and>
         list_all2 (\<lambda>v w. \<not> is_unbound v \<longrightarrow> w = v)
           (lb_visual_candidates target) (lb_visual_candidates b) \<and>
         b = target\<lparr>lb_visual_candidates := lb_visual_candidates b\<rparr>"
proof -
  from assms obtain vs where vs: "list_all2 (\<lambda>v w. bind_candidate inputs (Some c) forbidden v = Inr w)
      (lb_visual_candidates target) vs" and b: "b = target\<lparr>lb_visual_candidates := vs\<rparr>"
    by (auto simp: bind_target_inputs_def bind_r_Inr_iff map_r_Inr_iff)
  have one: "(\<not> is_unbound v \<longrightarrow> w = v) \<and> \<not> is_unbound w \<and>
      (\<forall>p tt rel. v = InputTextCandidate p tt rel \<longrightarrow>
         set (path_classifications (oc_properties c) (split_on (CHR ''.'') p)) \<inter> set forbidden = {} \<and>
         (\<exists>s. resolve_input inputs p = Inr (JStr s) \<and> \<not> blank s \<and> length s \<le> 200))"
    if "bind_candidate inputs (Some c) forbidden v = Inr w" for v w
  proof (cases v)
    case (InputTextCandidate p tt rel)
    with that obtain k where k: "binding_classification c p forbidden = Some k" "k \<notin> set forbidden"
      by (auto simp: bind_candidate_def split: option.splits if_splits)
    with that InputTextCandidate obtain x where x: "resolve_input inputs p = Inr x"
      by (auto simp: bind_candidate_def bind_r_Inr_iff)
    with that InputTextCandidate k obtain s where s: "x = JStr s" "\<not> blank s" "length s \<le> 200"
      by (cases x) (auto simp: bind_candidate_def split: if_splits)
    from that InputTextCandidate k x s have "\<not> is_unbound w"
      by (auto simp: bind_candidate_def is_unbound_def split: option.splits)
    moreover have "set (path_classifications (oc_properties c) (split_on (CHR ''.'') p)) \<inter>
        set forbidden = {}"
      using k unfolding binding_classification_def by (rule binding_parts_allowed)
    ultimately show ?thesis using InputTextCandidate x s by (simp add: is_unbound_def)
  qed (use that in \<open>auto simp: bind_candidate_def is_unbound_def\<close>)
  have unbound: "\<forall>w\<in>set vs. \<not> is_unbound w"
  proof
    fix w
    assume "w \<in> set vs"
    then obtain i where "i < length vs" "w = vs ! i" by (auto simp: in_set_conv_nth)
    with vs have "bind_candidate inputs (Some c) forbidden (lb_visual_candidates target ! i) = Inr w"
      by (simp add: list_all2_conv_all_nth)
    with one show "\<not> is_unbound w" by blast
  qed
  have same: "list_all2 (\<lambda>v w. \<not> is_unbound v \<longrightarrow> w = v) (lb_visual_candidates target) vs"
    using vs by (rule list_all2_mono) (use one in \<open>blast\<close>)
  have paths: "set (path_classifications (oc_properties c) (split_on (CHR ''.'') p)) \<inter> set forbidden = {} \<and>
      (\<exists>s. resolve_input inputs p = Inr (JStr s) \<and> \<not> blank s \<and> length s \<le> 200)"
    if "p \<in> set (target_input_paths target)" for p
  proof -
    from that obtain tt rel where "InputTextCandidate p tt rel \<in> set (lb_visual_candidates target)"
      by (auto simp: target_input_paths_def split: visual_candidate.splits)
    then obtain i where i: "i < length (lb_visual_candidates target)"
        "lb_visual_candidates target ! i = InputTextCandidate p tt rel"
      by (auto simp: in_set_conv_nth)
    have "bind_candidate inputs (Some c) forbidden (lb_visual_candidates target ! i) = Inr (vs ! i)"
      using vs i(1) by (simp add: list_all2_conv_all_nth)
    from one[OF this[unfolded i(2)]] show ?thesis by blast
  qed
  have lv: "lb_visual_candidates b = vs" by (simp add: b)
  show ?thesis unfolding lv using unbound same paths b by blast
qed

definition demo_schema :: "data_classification \<Rightarrow> value_schema" where
  "demo_schema k = ValueSchema TYPE_STRING ''name'' k PERSIST_REDACTED [] [] None None []
     None None None None"

definition demo_bundle :: locator_bundle where
  "demo_bundle =
     \<lparr>lb_description = ''Row'', lb_registered_risk = None, lb_window = ''primary'', lb_frame_path = [],
      lb_visual_candidates = [InputTextCandidate ''name'' None None], lb_candidates = [],
      lb_state = \<lparr>ts_visible = True, ts_enabled = None\<rparr>, lb_tenant_overrides_allowed = False\<rparr>"

lemma binding_respects_classification_witness:
  "\<exists>b. bind_target_inputs demo_bundle [(''name'', JStr ''Ann'')]
     (Some \<lparr>oc_required = [''name''], oc_properties = [(''name'', demo_schema PERSONAL)]\<rparr>) [SECRET] = Inr b \<and>
     (\<forall>v\<in>set (lb_visual_candidates b). \<not> is_unbound v)"
proof -
  let ?c = "\<lparr>oc_required = [''name''], oc_properties = [(''name'', demo_schema PERSONAL)]\<rparr>"
  have "case bind_target_inputs demo_bundle [(''name'', JStr ''Ann'')] (Some ?c) [SECRET] of
      Inl e \<Rightarrow> False | Inr b \<Rightarrow> True"
    by code_simp
  then obtain b where b: "bind_target_inputs demo_bundle [(''name'', JStr ''Ann'')] (Some ?c) [SECRET] = Inr b"
    by (cases "bind_target_inputs demo_bundle [(''name'', JStr ''Ann'')] (Some ?c) [SECRET]") simp_all
  from binding_respects_classification[OF b] b show ?thesis by blast
qed

end
