(* ===== verification/Monads.thy ===== *)
theory Monads
  imports Prelude
begin

text \<open>
  Stateful code that may raise: a computation maps a state to a result and the state it leaves,
  also when it raises, as a Python method does. The section on triples gives the rules by which
  the component proofs go through the code: \<open>triple P m Q E\<close> says that from a state satisfying
  \<open>P\<close> the computation ends normally in \<open>Q\<close> or raises in \<open>E\<close>.
\<close>

section \<open>Computations\<close>

type_synonym ('s, 'a) comp = "'s \<Rightarrow> 'a result \<times> 's"

definition ret :: "'a \<Rightarrow> ('s, 'a) comp" where
  "ret x = (\<lambda>s. (Inr x, s))"

definition raise :: "exn \<Rightarrow> ('s, 'a) comp" where
  "raise e = (\<lambda>s. (Inl e, s))"

definition bind_c :: "('s, 'a) comp \<Rightarrow> ('a \<Rightarrow> ('s, 'b) comp) \<Rightarrow> ('s, 'b) comp" where
  "bind_c m f = (\<lambda>s. case m s of (Inl e, s') \<Rightarrow> (Inl e, s') | (Inr x, s') \<Rightarrow> f x s')"

definition then_c :: "('s, 'a) comp \<Rightarrow> ('s, 'b) comp \<Rightarrow> ('s, 'b) comp" where
  "then_c m k = bind_c m (\<lambda>_. k)"

definition lift_c :: "'a result \<Rightarrow> ('s, 'a) comp" where
  "lift_c r = (\<lambda>s. (r, s))"

definition gets :: "('s \<Rightarrow> 'a) \<Rightarrow> ('s, 'a) comp" where
  "gets f = (\<lambda>s. (Inr (f s), s))"

definition update :: "('s \<Rightarrow> 's) \<Rightarrow> ('s, unit) comp" where
  "update f = (\<lambda>s. (Inr (), f s))"

text \<open>\<open>try: m except <classes selected by sel> as x: h(x)\<close>.\<close>

definition catch_c :: "('s, 'a) comp \<Rightarrow> (exn \<Rightarrow> 'x option) \<Rightarrow> ('x \<Rightarrow> ('s, 'a) comp) \<Rightarrow> ('s, 'a) comp" where
  "catch_c m sel h =
     (\<lambda>s. case m s of
        (Inl e, s') \<Rightarrow> (case sel e of None \<Rightarrow> (Inl e, s') | Some x \<Rightarrow> h x s')
      | (Inr x, s') \<Rightarrow> (Inr x, s'))"

text \<open>
  \<open>try: m finally: k\<close>: \<open>k\<close> runs in both cases; an exception of \<open>k\<close> replaces the outcome.
\<close>

definition finally_c :: "('s, 'a) comp \<Rightarrow> ('a option \<Rightarrow> ('s, unit) comp) \<Rightarrow> ('s, 'a) comp" where
  "finally_c m k =
     (\<lambda>s. case m s of
        (Inl e, s') \<Rightarrow> (case k None s' of (Inl e', s'') \<Rightarrow> (Inl e', s'') | (Inr _, s'') \<Rightarrow> (Inl e, s''))
      | (Inr x, s') \<Rightarrow>
          (case k (Some x) s' of (Inl e', s'') \<Rightarrow> (Inl e', s'') | (Inr _, s'') \<Rightarrow> (Inr x, s'')))"

definition surface_only :: "exn \<Rightarrow> surface_error option" where
  "surface_only e = (case e of SurfaceFailure se \<Rightarrow> Some se | _ \<Rightarrow> None)"

definition contract_only :: "exn \<Rightarrow> (string \<times> string) option" where
  "contract_only e = (case e of ContractValidationError p c \<Rightarrow> Some (p, c) | _ \<Rightarrow> None)"

text \<open>A loop that stops at the first value: \<open>for x in xs: ...\<close> with an early return.\<close>

fun first_c :: "('x \<Rightarrow> ('s, 'a option) comp) \<Rightarrow> 'x list \<Rightarrow> ('s, 'a option) comp" where
  "first_c f [] = ret None"
| "first_c f (x # xs) =
     bind_c (f x) (\<lambda>r. case r of None \<Rightarrow> first_c f xs | Some y \<Rightarrow> ret (Some y))"

text \<open>A comprehension with a stateful filter.\<close>

fun filter_c :: "('x \<Rightarrow> ('s, bool) comp) \<Rightarrow> 'x list \<Rightarrow> ('s, 'x list) comp" where
  "filter_c f [] = ret []"
| "filter_c f (x # xs) =
     bind_c (f x) (\<lambda>b. bind_c (filter_c f xs) (\<lambda>ys. ret (if b then x # ys else ys)))"

text \<open>\<open>all(f(x) for x in xs)\<close>, which stops at the first false.\<close>

fun all_c :: "('x \<Rightarrow> ('s, bool) comp) \<Rightarrow> 'x list \<Rightarrow> ('s, bool) comp" where
  "all_c f [] = ret True"
| "all_c f (x # xs) = bind_c (f x) (\<lambda>b. if b then all_c f xs else ret False)"

lemma run_simps [simp]:
  "bind_c (gets f) k s = k (f s) s" "then_c (gets f) m s = m s" "then_c (update g) m s = m (g s)"
  "bind_c (ret x) k s = k x s" "bind_c (raise e) k s = (Inl e, s)"
  by (simp_all add: bind_c_def then_c_def gets_def update_def ret_def raise_def)

text \<open>Inlined, a computation is evaluated in order, with its continuation left alone until then.\<close>

declare ret_def [code_unfold] raise_def [code_unfold] bind_c_def [code_unfold] then_c_def [code_unfold]
  lift_c_def [code_unfold] gets_def [code_unfold] update_def [code_unfold] catch_c_def [code_unfold]
  finally_c_def [code_unfold]

lemmas comp_defs = ret_def raise_def bind_c_def then_c_def lift_c_def gets_def update_def

section \<open>Triples\<close>

definition triple ::
  "('s \<Rightarrow> bool) \<Rightarrow> ('s, 'a) comp \<Rightarrow> ('a \<Rightarrow> 's \<Rightarrow> bool) \<Rightarrow> (exn \<Rightarrow> 's \<Rightarrow> bool) \<Rightarrow> bool" where
  "triple P m Q E =
     (\<forall>s. P s \<longrightarrow> (case m s of (Inr x, s') \<Rightarrow> Q x s' | (Inl e, s') \<Rightarrow> E e s'))"

named_theorems triples \<open>rules of triples, for the constructs of computations\<close>

lemma tripleI:
  assumes "\<And>s x s'. P s \<Longrightarrow> m s = (Inr x, s') \<Longrightarrow> Q x s'"
    and "\<And>s e s'. P s \<Longrightarrow> m s = (Inl e, s') \<Longrightarrow> E e s'"
  shows "triple P m Q E"
  unfolding triple_def
proof (intro allI impI)
  fix s
  assume "P s"
  then show "case m s of (Inr x, s') \<Rightarrow> Q x s' | (Inl e, s') \<Rightarrow> E e s'"
    using assms[of s] by (cases "m s"; cases "fst (m s)") auto
qed

lemma tripleD:
  assumes "triple P m Q E" "P s"
  shows "m s = (Inr x, s') \<Longrightarrow> Q x s'" and "m s = (Inl e, s') \<Longrightarrow> E e s'"
  using assms unfolding triple_def by force+

lemma triple_conseq:
  assumes "triple P m Q E" "\<And>s. P' s \<Longrightarrow> P s" "\<And>x s. Q x s \<Longrightarrow> Q' x s" "\<And>e s. E e s \<Longrightarrow> E' e s"
  shows "triple P' m Q' E'"
  by (rule tripleI) (use assms tripleD[OF assms(1)] in \<open>blast+\<close>)

lemma triple_pre: "triple P m Q E \<Longrightarrow> (\<And>s. P' s \<Longrightarrow> P s) \<Longrightarrow> triple P' m Q E"
  by (erule triple_conseq) simp_all

lemma triple_ret [triples]: "triple (Q x) (ret x) Q E"
  by (rule tripleI) (simp_all add: ret_def)

lemma triple_raise [triples]: "triple (E e) (raise e) Q E"
  by (rule tripleI) (simp_all add: raise_def)

lemma triple_lift [triples]:
  "triple (\<lambda>s. (\<forall>x. r = Inr x \<longrightarrow> Q x s) \<and> (\<forall>e. r = Inl e \<longrightarrow> E e s)) (lift_c r) Q E"
  by (rule tripleI) (simp_all add: lift_c_def)

lemma triple_gets [triples]: "triple (\<lambda>s. Q (f s) s) (gets f) Q E"
  by (rule tripleI) (auto simp: gets_def)

lemma triple_update [triples]: "triple (\<lambda>s. Q () (f s)) (update f) Q E"
  by (rule tripleI) (auto simp: update_def)

lemma triple_bind:
  assumes "triple P m R E" "\<And>x. triple (R x) (f x) Q E"
  shows "triple P (bind_c m f) Q E"
proof (rule tripleI)
  fix s y s'
  assume P: "P s" and run: "bind_c m f s = (Inr y, s')"
  then obtain x t where "m s = (Inr x, t)" "f x t = (Inr y, s')"
    by (cases "m s"; cases "fst (m s)") (auto simp: bind_c_def)
  with tripleD(1)[OF assms(1) P] tripleD(1)[OF assms(2)] show "Q y s'" by blast
next
  fix s e s'
  assume P: "P s" and run: "bind_c m f s = (Inl e, s')"
  then consider "m s = (Inl e, s')" | x t where "m s = (Inr x, t)" "f x t = (Inl e, s')"
    by (cases "m s"; cases "fst (m s)") (auto simp: bind_c_def)
  then show "E e s'"
  proof cases
    case 1
    with tripleD(2)[OF assms(1) P] show ?thesis by blast
  next
    case 2
    with tripleD(1)[OF assms(1) P] tripleD(2)[OF assms(2)] show ?thesis by blast
  qed
qed

lemma triple_then: "triple P m (\<lambda>_. R) E \<Longrightarrow> triple R k Q E \<Longrightarrow> triple P (then_c m k) Q E"
  unfolding then_c_def by (rule triple_bind)

lemma triple_catch:
  assumes "triple P m Q (\<lambda>e s. case sel e of None \<Rightarrow> E e s | Some x \<Rightarrow> H x s)"
    and "\<And>x. triple (H x) (h x) Q E"
  shows "triple P (catch_c m sel h) Q E"
proof (rule tripleI)
  fix s y s'
  assume P: "P s" and run: "catch_c m sel h s = (Inr y, s')"
  then consider "m s = (Inr y, s')" | e t x where "m s = (Inl e, t)" "sel e = Some x" "h x t = (Inr y, s')"
    by (cases "m s"; cases "fst (m s)") (auto simp: catch_c_def split: option.splits)
  then show "Q y s'"
  proof cases
    case 1
    with tripleD(1)[OF assms(1) P] show ?thesis by blast
  next
    case 2
    with tripleD(2)[OF assms(1) P] have "H x t" by force
    with tripleD(1)[OF assms(2)] 2 show ?thesis by blast
  qed
next
  fix s e s'
  assume P: "P s" and run: "catch_c m sel h s = (Inl e, s')"
  then consider "m s = (Inl e, s')" "sel e = None"
    | e' t x where "m s = (Inl e', t)" "sel e' = Some x" "h x t = (Inl e, s')"
    by (cases "m s"; cases "fst (m s)") (auto simp: catch_c_def split: option.splits)
  then show "E e s'"
  proof cases
    case 1
    with tripleD(2)[OF assms(1) P] show ?thesis by force
  next
    case 2
    with tripleD(2)[OF assms(1) P] have "H x t" by force
    with tripleD(2)[OF assms(2)] 2 show ?thesis by blast
  qed
qed

lemma triple_finally:
  assumes "triple P m R F"
    and "\<And>x. triple (R x) (k (Some x)) (\<lambda>_. Q x) E"
    and "\<And>e. triple (F e) (k None) (\<lambda>_. E e) E"
  shows "triple P (finally_c m k) Q E"
proof (rule tripleI)
  fix s y s'
  assume P: "P s" and run: "finally_c m k s = (Inr y, s')"
  then obtain t u where mt: "m s = (Inr y, t)" and ku: "k (Some y) t = (Inr u, s')"
    by (cases "m s"; cases "fst (m s)") (auto simp: finally_c_def split: prod.splits sum.splits)
  from tripleD(1)[OF assms(1) P mt] have "R y t" .
  from tripleD(1)[OF assms(2) this ku] show "Q y s'" .
next
  fix s e s'
  assume P: "P s" and run: "finally_c m k s = (Inl e, s')"
  then consider y t where "m s = (Inr y, t)" "k (Some y) t = (Inl e, s')"
    | e' t where "m s = (Inl e', t)" "k None t = (Inl e, s')"
    | t u where "m s = (Inl e, t)" "k None t = (Inr u, s')"
    by (cases "m s"; cases "fst (m s)") (auto simp: finally_c_def split: prod.splits sum.splits)
  then show "E e s'"
  proof cases
    case 1
    from tripleD(1)[OF assms(1) P 1(1)] have "R y t" .
    from tripleD(2)[OF assms(2) this 1(2)] show ?thesis .
  next
    case 2
    from tripleD(2)[OF assms(1) P 2(1)] have "F e' t" .
    from tripleD(2)[OF assms(3) this 2(2)] show ?thesis .
  next
    case 3
    from tripleD(2)[OF assms(1) P 3(1)] have "F e t" .
    from tripleD(1)[OF assms(3) this 3(2)] show ?thesis .
  qed
qed

lemma triple_if [triples]:
  "(b \<Longrightarrow> triple P m Q E) \<Longrightarrow> (\<not> b \<Longrightarrow> triple P' m' Q E) \<Longrightarrow>
     triple (\<lambda>s. (b \<longrightarrow> P s) \<and> (\<not> b \<longrightarrow> P' s)) (if b then m else m') Q E"
  by (cases b) (simp_all)

lemma triple_option:
  "(x = None \<Longrightarrow> triple P m Q E) \<Longrightarrow> (\<And>y. x = Some y \<Longrightarrow> triple P (f y) Q E) \<Longrightarrow>
     triple P (case x of None \<Rightarrow> m | Some y \<Rightarrow> f y) Q E"
  by (cases x) simp_all

lemma triple_first:
  assumes "\<And>x. x \<in> set xs \<Longrightarrow> triple I (f x) (\<lambda>r s. case r of None \<Rightarrow> I s | Some y \<Rightarrow> Q (Some y) s) E"
    and "\<And>s. I s \<Longrightarrow> Q None s"
  shows "triple I (first_c f xs) Q E"
  using assms
proof (induction xs)
  case Nil
  then show ?case by (auto intro: triple_pre[OF triple_ret])
next
  case (Cons x xs)
  show ?case
    unfolding first_c.simps
  proof (rule triple_bind)
    show "triple I (f x) (\<lambda>r s. case r of None \<Rightarrow> I s | Some y \<Rightarrow> Q (Some y) s) E"
      using Cons.prems by simp
    show "triple (\<lambda>s. case r of None \<Rightarrow> I s | Some y \<Rightarrow> Q (Some y) s)
        (case r of None \<Rightarrow> first_c f xs | Some y \<Rightarrow> ret (Some y)) Q E" for r
      using Cons by (cases r) (auto intro: triple_ret)
  qed
qed

text \<open>A computation that keeps a property of the state, whatever it returns or raises.\<close>

definition keeps :: "('s \<Rightarrow> bool) \<Rightarrow> ('s, 'a) comp \<Rightarrow> bool" where
  "keeps I m = triple I m (\<lambda>_. I) (\<lambda>_. I)"

named_theorems keeping \<open>computations that keep an invariant\<close>

lemma keepsD: "keeps I m \<Longrightarrow> I s \<Longrightarrow> I (snd (m s))"
  unfolding keeps_def triple_def by (cases "m s"; cases "fst (m s)") force+

lemma keepsI: "(\<And>s. I s \<Longrightarrow> I (snd (m s))) \<Longrightarrow> keeps I m"
  unfolding keeps_def by (rule tripleI) force+

lemma keeps_ret [keeping]: "keeps I (ret x)"
  by (rule keepsI) (simp add: ret_def)

lemma keeps_raise [keeping]: "keeps I (raise e)"
  by (rule keepsI) (simp add: raise_def)

lemma keeps_lift [keeping]: "keeps I (lift_c r)"
  by (rule keepsI) (simp add: lift_c_def)

lemma keeps_gets [keeping]: "keeps I (gets f)"
  by (rule keepsI) (simp add: gets_def)

lemma keeps_bind [keeping]: "keeps I m \<Longrightarrow> (\<And>x. keeps I (f x)) \<Longrightarrow> keeps I (bind_c m f)"
  unfolding keeps_def by (rule triple_bind)

lemma keeps_then [keeping]: "keeps I m \<Longrightarrow> keeps I k \<Longrightarrow> keeps I (then_c m k)"
  unfolding then_c_def by (rule keeps_bind)

lemma keeps_catch [keeping]:
  "keeps I m \<Longrightarrow> (\<And>x. keeps I (h x)) \<Longrightarrow> keeps I (catch_c m sel h)"
proof (rule keepsI)
  fix s
  assume m: "keeps I m" and h: "\<And>x. keeps I (h x)" and I: "I s"
  obtain r t where run: "m s = (r, t)" by fastforce
  with keepsD[OF m I] have t: "I t" by simp
  show "I (snd (catch_c m sel h s))"
  proof (cases r)
    case (Inl e)
    then show ?thesis
      using run t keepsD[OF h t] by (cases "sel e") (simp_all add: catch_c_def)
  next
    case (Inr x)
    then show ?thesis using run t by (simp add: catch_c_def)
  qed
qed

lemma keeps_finally [keeping]:
  "keeps I m \<Longrightarrow> (\<And>x. keeps I (k x)) \<Longrightarrow> keeps I (finally_c m k)"
  unfolding keeps_def by (rule triple_finally)

lemma keeps_if [keeping]: "keeps I m \<Longrightarrow> keeps I m' \<Longrightarrow> keeps I (if b then m else m')"
  by simp

lemma keeps_option [keeping]:
  "keeps I m \<Longrightarrow> (\<And>y. keeps I (f y)) \<Longrightarrow> keeps I (case x of None \<Rightarrow> m | Some y \<Rightarrow> f y)"
  by (cases x) simp_all

lemma keeps_first [keeping]: "(\<And>x. keeps I (f x)) \<Longrightarrow> keeps I (first_c f xs)"
proof (induction xs)
  case (Cons x xs)
  have "keeps I (case r of None \<Rightarrow> first_c f xs | Some y \<Rightarrow> ret (Some y))" for r
    by (cases r) (simp_all add: Cons keeps_ret)
  then show ?case unfolding first_c.simps by (intro keeps_bind Cons.prems)
qed (simp add: keeps_ret)

lemma keeps_filter [keeping]: "(\<And>x. keeps I (f x)) \<Longrightarrow> keeps I (filter_c f xs)"
  by (induction xs) (auto intro!: keeping)

lemma keeps_all [keeping]: "(\<And>x. keeps I (f x)) \<Longrightarrow> keeps I (all_c f xs)"
  by (induction xs) (auto intro!: keeping)

text \<open>Two triples of one computation hold together.\<close>

lemma triple_conj:
  assumes "triple P m Q E" "triple P' m Q' E'"
  shows "triple (\<lambda>s. P s \<and> P' s) m (\<lambda>x s. Q x s \<and> Q' x s) (\<lambda>e s. E e s \<and> E' e s)"
  by (rule tripleI) (use tripleD[OF assms(1)] tripleD[OF assms(2)] in \<open>blast+\<close>)

lemma triple_keeps: "keeps I m \<Longrightarrow> triple I m (\<lambda>_. I) (\<lambda>_. I)"
  by (simp add: keeps_def)

lemma triple_any: "triple P m (\<lambda>x s. True) (\<lambda>e s. True)"
  by (rule tripleI) simp_all

end
