(* ===== verification/RunResults.thy ===== *)
theory RunResults
  imports Monads Interventions Policy Values
begin

text \<open>
  What a run returns and reports: the terminal results of \<^verbatim>\<open>runs/results.py\<close> with
  their constructors, the value-free execution diagnostic of
  \<^verbatim>\<open>evidence/diagnostics.py\<close>, and the raw screenshot and retention classes of
  \<^verbatim>\<open>evidence/models.py\<close>. A Pydantic model strips the white space around its strings
  before it checks them; what it makes of an arbitrary JSON mapping is a parameter.
\<close>

section \<open>Terminal results\<close>

text \<open>The white space Pydantic strips: the Unicode property White\_Space below 256.\<close>

definition is_white_space :: "char \<Rightarrow> bool" where
  "is_white_space c = (of_char c \<in> set [9, 10, 11, 12, 13, 32, 133, 160 :: nat])"

definition trim :: "string \<Rightarrow> string" where
  "trim s = rev (dropWhile is_white_space (rev (dropWhile is_white_space s)))"

text \<open>
  The same for a JSON value: its strings and the keys of its objects are stripped, at any depth; of
  keys that become equal, the last keeps its value.
\<close>

function strip_json :: "json \<Rightarrow> json" where
  "strip_json JNull = JNull"
| "strip_json (JBool b) = JBool b"
| "strip_json (JInt i) = JInt i"
| "strip_json (JFloat q) = JFloat q"
| "strip_json (JStr s) = JStr (trim s)"
| "strip_json (JList vs) = JList (map strip_json vs)"
| "strip_json (JObj kvs) = JObj (dict_of_pairs (map (\<lambda>(k, v). (trim k, strip_json v)) kvs))"
  by pat_completeness auto

termination strip_json
proof (relation "measure size")
  fix kvs :: "(string \<times> json) list" and p k v
  assume "p \<in> set kvs" "(k, v) = p"
  then have "size v < size_list (size_prod (\<lambda>_. 0) size) kvs"
    by (induction kvs) auto
  then show "(v, JObj kvs) \<in> measure size" by simp
next
  fix vs :: "json list" and v
  assume "v \<in> set vs"
  then have "size v < size_list size vs" by (induction vs) auto
  then show "(v, JList vs) \<in> measure size" by simp
qed simp

definition strip_object :: "(string \<times> json) list \<Rightarrow> (string \<times> json) list" where
  "strip_object kvs = dict_of_pairs (map (\<lambda>(k, v). (trim k, strip_json v)) kvs)"

definition is_stable_code :: "string \<Rightarrow> bool" where
  "is_stable_code = matches_ident lower_letters ident_chars 0 (Some 63)"

definition is_result_step_id :: "string \<Rightarrow> bool" where
  "is_result_step_id = matches_ident lower_letters dotted_ident_chars 1 None"

definition is_intervention_id :: "string \<Rightarrow> bool" where
  "is_intervention_id s = (starts_with ''int_'' s \<and> is_hex 32 (drop 4 s))"

definition is_result_key :: "string \<Rightarrow> bool" where
  "is_result_key s =
     (starts_with ''evidence://'' s \<and> 11 < length s \<and>
      list_all (\<lambda>c. \<not> is_white_space c) (drop 11 s))"

text \<open>A path into an artifact: the location of a privacy diagnostic.\<close>

function location_tail :: "string \<Rightarrow> bool" where
  "location_tail s =
     (case s of
        [] \<Rightarrow> True
      | c # cs \<Rightarrow>
          if s = '':key'' then True
          else if c = CHR ''.'' then
            (case cs of
               [] \<Rightarrow> False
             | d # ds \<Rightarrow>
                 if d = CHR ''*'' then location_tail ds
                 else d \<in> set lower_letters \<and>
                      location_tail (dropWhile (\<lambda>x. x \<in> set ident_chars) ds))
          else if c = CHR ''['' then
            (case dropWhile (\<lambda>x. x \<in> set digits) cs of
               [] \<Rightarrow> False
             | e # es \<Rightarrow> e = CHR '']'' \<and> takeWhile (\<lambda>x. x \<in> set digits) cs \<noteq> [] \<and>
                         location_tail es)
          else False)"
  by pat_completeness auto

lemma dropWhile_tail_shorter: "dropWhile p xs = y # ys \<Longrightarrow> length ys < length xs"
  using length_dropWhile_le[of p xs] by simp

termination location_tail
  by (relation "measure length")
     (auto simp: less_Suc_eq_le length_dropWhile_le le_SucI dest: dropWhile_tail_shorter)

declare location_tail.simps [simp del]

record privacy_diagnostic =
  pg_source :: string
  pg_location :: string

definition mk_privacy_diagnostic :: "privacy_diagnostic \<Rightarrow> privacy_diagnostic result" where
  "mk_privacy_diagnostic d =
     (let l = trim (pg_location d) in
      if pg_source d \<in> {''invocation'', ''captured''} \<and> length l \<le> 1000 \<and>
         starts_with ''artifact'' l \<and> location_tail (drop 8 l)
      then Inr (d\<lparr>pg_location := l\<rparr>)
      else Inl (ValueError ''ArtifactPrivacyDiagnostic''))"

type_synonym json_object = "(string \<times> json) list"

record success_result =
  su_run_id :: string
  su_capability_id :: string
  su_capability_version :: string
  su_outputs :: json_object
  su_checkpoint :: string
  su_manifest :: string

record outcome_result =
  ou_run_id :: string
  ou_code :: string
  ou_details :: json_object
  ou_manifest :: string

record failure_result =
  fr_run_id :: string
  fr_code :: string
  fr_message :: string
  fr_recoverable :: bool
  fr_step_id :: "string option"
  fr_expected :: "json_object option"
  fr_observed :: "json_object option"
  fr_privacy :: "privacy_diagnostic option"
  fr_manifest :: string

record intervention_result =
  ir_run_id :: string
  ir_intervention_id :: string
  ir_code :: string
  ir_step_id :: "string option"

datatype run_result =
    SuccessResult success_result
  | BusinessOutcomeResult outcome_result
  | FailureResult failure_result
  | InterventionRequiredResult intervention_result

text \<open>\<open>CompletedResultModel\<close>: the fields and the ownership of the manifest.\<close>

definition completed_ok :: "string \<Rightarrow> string \<Rightarrow> bool" where
  "completed_ok run_id manifest =
     (is_run_id run_id \<and> is_result_key manifest \<and>
      starts_with (''evidence://'' @ run_id @ ''/'') manifest)"

text \<open>
  How a result model validates a mapping of JSON values is a parameter: \<open>store\<close>. What Pydantic
  documents of it is that a mapping it accepts is kept with the white space around its strings
  stripped.
\<close>

definition strips :: "(json_object \<Rightarrow> json_object result) \<Rightarrow> bool" where
  "strips store = (\<forall>kvs r. store kvs = Inr r \<longrightarrow> r = strip_object kvs)"

definition mk_success :: "(json_object \<Rightarrow> json_object result) \<Rightarrow> success_result \<Rightarrow> run_result result" where
  "mk_success store r =
     (let rid = trim (su_run_id r); cid = trim (su_capability_id r);
          ver = trim (su_capability_version r); cp = trim (su_checkpoint r);
          mani = trim (su_manifest r) in
      if \<not> (is_capability_id cid \<and> is_semantic_version ver \<and> is_stable_code cp \<and>
             completed_ok rid mani)
      then Inl (ValueError ''SuccessResult'')
      else bind_r (store (su_outputs r)) (\<lambda>outs.
        Inr (SuccessResult \<lparr>su_run_id = rid, su_capability_id = cid, su_capability_version = ver,
          su_outputs = outs, su_checkpoint = cp, su_manifest = mani\<rparr>)))"

definition mk_outcome :: "(json_object \<Rightarrow> json_object result) \<Rightarrow> outcome_result \<Rightarrow> run_result result" where
  "mk_outcome store r =
     (let rid = trim (ou_run_id r); code = trim (ou_code r); mani = trim (ou_manifest r) in
      if \<not> (is_stable_code code \<and> completed_ok rid mani)
      then Inl (ValueError ''BusinessOutcomeResult'')
      else bind_r (store (ou_details r)) (\<lambda>details.
        Inr (BusinessOutcomeResult \<lparr>ou_run_id = rid, ou_code = code, ou_details = details,
          ou_manifest = mani\<rparr>)))"

definition store_option :: "(json_object \<Rightarrow> json_object result) \<Rightarrow> json_object option \<Rightarrow> json_object option result" where
  "store_option store v =
     (case v of None \<Rightarrow> Inr None | Some x \<Rightarrow> bind_r (store x) (\<lambda>y. Inr (Some y)))"

definition mk_failure :: "(json_object \<Rightarrow> json_object result) \<Rightarrow> failure_result \<Rightarrow> run_result result" where
  "mk_failure store r =
     (let rid = trim (fr_run_id r); code = trim (fr_code r); msg = trim (fr_message r);
          sid = map_option trim (fr_step_id r); mani = trim (fr_manifest r) in
      if \<not> (is_stable_code code \<and> msg \<noteq> [] \<and> length msg \<le> 1000 \<and>
             opt_all is_result_step_id sid \<and> completed_ok rid mani)
      then Inl (ValueError ''FailureResult'')
      else bind_r (store_option store (fr_expected r)) (\<lambda>ex.
        bind_r (store_option store (fr_observed r)) (\<lambda>ob.
        Inr (FailureResult (r\<lparr>fr_run_id := rid, fr_code := code, fr_message := msg,
          fr_step_id := sid, fr_expected := ex, fr_observed := ob, fr_manifest := mani\<rparr>)))))"

definition mk_intervention_required :: "intervention_result \<Rightarrow> run_result result" where
  "mk_intervention_required r =
     (let rid = trim (ir_run_id r); iid = trim (ir_intervention_id r); code = trim (ir_code r);
          sid = map_option trim (ir_step_id r) in
      if is_run_id rid \<and> is_intervention_id iid \<and> is_stable_code code \<and>
         opt_all is_result_step_id sid
      then Inr (InterventionRequiredResult \<lparr>ir_run_id = rid, ir_intervention_id = iid,
             ir_code = code, ir_step_id = sid\<rparr>)
      else Inl (ValueError ''InterventionRequiredResult''))"

section \<open>Execution diagnostics\<close>

datatype diagnostic_phase = BEFORE_DISPATCH | AFTER_DISPATCH | COMPLETION_PHASE | UNKNOWN_PHASE

datatype dispatch_state = NOT_ATTEMPTED | ATTEMPTED | UNKNOWN_DISPATCH

fun phase_value :: "diagnostic_phase \<Rightarrow> string" where
  "phase_value BEFORE_DISPATCH = ''before_dispatch''"
| "phase_value AFTER_DISPATCH = ''after_dispatch''"
| "phase_value COMPLETION_PHASE = ''completion''"
| "phase_value UNKNOWN_PHASE = ''unknown''"

fun dispatch_value :: "dispatch_state \<Rightarrow> string" where
  "dispatch_value NOT_ATTEMPTED = ''not_attempted''"
| "dispatch_value ATTEMPTED = ''attempted''"
| "dispatch_value UNKNOWN_DISPATCH = ''unknown''"

record diagnostic =
  dg_phase :: diagnostic_phase
  dg_code :: string
  dg_action_type :: string
  dg_step_ordinal :: "int option"
  dg_condition_kind :: string
  dg_expected_count :: "int option"
  dg_observed_count :: "int option"
  dg_attempt :: int
  dg_max_attempts :: int
  dg_retry_allowed :: bool
  dg_recovery_checked :: bool
  dg_dispatch :: dispatch_state
  dg_effect_absent :: "bool option"

text \<open>The defaults of the optional fields.\<close>

definition plain_diagnostic :: "string \<Rightarrow> diagnostic" where
  "plain_diagnostic code =
     \<lparr>dg_phase = UNKNOWN_PHASE, dg_code = code, dg_action_type = ''unknown'',
      dg_step_ordinal = None, dg_condition_kind = ''unknown'', dg_expected_count = None,
      dg_observed_count = None, dg_attempt = 1, dg_max_attempts = 1, dg_retry_allowed = False,
      dg_recovery_checked = False, dg_dispatch = UNKNOWN_DISPATCH, dg_effect_absent = None\<rparr>"

definition mk_diagnostic :: "diagnostic \<Rightarrow> diagnostic result" where
  "mk_diagnostic d =
     (if opt_all (\<lambda>n. 1 \<le> n \<and> n \<le> 10000) (dg_step_ordinal d) \<and>
         opt_all (\<lambda>n. 0 \<le> n \<and> n \<le> 1000000) (dg_expected_count d) \<and>
         opt_all (\<lambda>n. 0 \<le> n \<and> n \<le> 1000000) (dg_observed_count d) \<and>
         1 \<le> dg_attempt d \<and> dg_attempt d \<le> 5 \<and> 1 \<le> dg_max_attempts d \<and> dg_max_attempts d \<le> 5
      then Inr d else Inl (ValueError ''ExecutionDiagnostic''))"

definition DIAGNOSTIC_CODES :: "string list" where
  "DIAGNOSTIC_CODES =
     [''target_absent'', ''target_ambiguous'', ''action_timeout'', ''action_failed'',
      ''action_condition_mismatch'', ''step_precondition_mismatch'', ''postcondition_mismatch'',
      ''checkpoint_mismatch'', ''policy_blocked'', ''invalid_input'', ''incompatible_tenant'',
      ''sensitive_action_requires_approval'', ''unexpected_dialog'', ''control_lease_expired'',
      ''control_lease_conflict'', ''resume_checkpoint_missing'', ''other'']"

definition DIAGNOSTIC_ACTIONS :: "string list" where
  "DIAGNOSTIC_ACTIONS =
     [''click'', ''type'', ''select'', ''extract'', ''assert'', ''wait_for'', ''checkpoint'',
      ''navigate'', ''switch_context'', ''press_keys'', ''scroll'', ''unknown'']"

definition DIAGNOSTIC_CONDITIONS :: "string list" where
  "DIAGNOSTIC_CONDITIONS =
     [''route'', ''text'', ''visual_text'', ''rendered_text'', ''input_text'', ''element'',
      ''output_valid'', ''output_equals'', ''identity_matches'', ''all'', ''any'', ''not'',
      ''unknown'']"

definition closed_word :: "string list \<Rightarrow> string \<Rightarrow> string \<Rightarrow> string" where
  "closed_word allowed fallback w = (if w \<in> set allowed then w else fallback)"

definition optional_field :: "string \<Rightarrow> ('a \<Rightarrow> json) \<Rightarrow> 'a option \<Rightarrow> json_object" where
  "optional_field k f v = (case v of None \<Rightarrow> [] | Some x \<Rightarrow> [(k, f x)])"

definition safe_payload :: "diagnostic \<Rightarrow> json_object" where
  "safe_payload d =
     [(''phase'', JStr (phase_value (dg_phase d))),
      (''code'', JStr (closed_word DIAGNOSTIC_CODES ''other'' (dg_code d))),
      (''action_type'', JStr (closed_word DIAGNOSTIC_ACTIONS ''unknown'' (dg_action_type d)))] @
     optional_field ''step_ordinal'' JInt (dg_step_ordinal d) @
     [(''expected_condition_kind'',
        JStr (closed_word DIAGNOSTIC_CONDITIONS ''unknown'' (dg_condition_kind d)))] @
     optional_field ''expected_count'' JInt (dg_expected_count d) @
     optional_field ''observed_count'' JInt (dg_observed_count d) @
     [(''attempt'', JInt (dg_attempt d)), (''max_attempts'', JInt (dg_max_attempts d)),
      (''retry_error_allowed'', JBool (dg_retry_allowed d)),
      (''recovery_checked'', JBool (dg_recovery_checked d)),
      (''dispatch_state'', JStr (dispatch_value (dg_dispatch d)))] @
     optional_field ''effect_absent'' JBool (dg_effect_absent d)"

text \<open>\<open>bounded_count((mapping or {}).get("count"))\<close>; a boolean is not an integer here.\<close>

definition bounded_count :: "json option \<Rightarrow> int option" where
  "bounded_count v =
     (case v of
        Some (JInt n) \<Rightarrow> if 0 \<le> n \<and> n \<le> 1000000 then Some n else None
      | _ \<Rightarrow> None)"

definition count_of :: "json_object option \<Rightarrow> int option" where
  "count_of m = (case m of None \<Rightarrow> None | Some kvs \<Rightarrow> bounded_count (map_of kvs ''count''))"

section \<open>Screenshots\<close>

datatype retention_class =
    RETAIN_OPERATIONAL | RETAIN_FAILURE | RETAIN_HUMAN_AUDIT | RETAIN_PROVIDER_METADATA

definition MAX_ATTACHMENT_BYTES :: int where
  "MAX_ATTACHMENT_BYTES = 20000000"

text \<open>The constructor \<open>RawScreenshot(content)\<close>.\<close>

definition mk_raw_screenshot :: "bytes \<Rightarrow> bytes result" where
  "mk_raw_screenshot content =
     (if \<not> starts_with png_signature content
      then Inl (ValueError ''raw screenshot must contain PNG content'')
      else if MAX_ATTACHMENT_BYTES < int (length content)
      then Inl (ValueError ''raw screenshot exceeds the storage limit'')
      else Inr content)"

end
