(* ===== verification/DiscoveryModels.thy ===== *)
theory DiscoveryModels
  imports RunResults
begin

text \<open>
  The data of capability discovery (\<^verbatim>\<open>discovery/models.py\<close>): what a model proposes,
  what the engine records, drafts of a capability, and the contexts shown to the model. The calls
  of the model are named here, so that the history of a run can hold them beside its other calls.
\<close>

section \<open>Proposals\<close>

definition TARGETED_ACTIONS :: "string list" where
  "TARGETED_ACTIONS = [''click'', ''type'', ''select'', ''extract'']"

record act_proposal =
  pp_action :: action
  pp_target :: "locator_bundle option"
  pp_rationale :: string
  pp_expected_effect :: string
  pp_expected_condition :: "condition option"
  pp_declared_risk :: risk
  pp_confidence :: rat

definition mk_act_proposal :: "act_proposal \<Rightarrow> act_proposal result" where
  "mk_act_proposal p =
     bind_r (checks
       [(bounded_text 500 (pp_rationale p) \<and> bounded_text 500 (pp_expected_effect p) \<and>
         0 \<le> pp_confidence p \<and> pp_confidence p \<le> 1, field_error),
        (action_kind (pp_action p) \<in> set TARGETED_ACTIONS \<longrightarrow> pp_target p \<noteq> None,
           ''action requires a target''),
        (action_kind (pp_action p) \<notin> set TARGETED_ACTIONS \<longrightarrow> pp_target p = None,
           ''action cannot declare a target'')]) (\<lambda>_. Inr p)"

text \<open>The union \<open>DiscoveryProposal\<close>; the string of all but the first is the rationale.\<close>

datatype proposal =
    ActProposal act_proposal
  | CompleteProposal string
  | EscalateProposal string string
  | RecordedActionProposal string string "condition option"
  | BranchProposal condition string

fun proposal_kind :: "proposal \<Rightarrow> string" where
  "proposal_kind (ActProposal p) = ''act''"
| "proposal_kind (CompleteProposal r) = ''complete''"
| "proposal_kind (EscalateProposal c r) = ''escalate''"
| "proposal_kind (RecordedActionProposal i r c) = ''recorded_action''"
| "proposal_kind (BranchProposal c r) = ''branch''"

section \<open>Branches and scenarios\<close>

record observed_branch =
  br_after_steps :: int
  br_condition :: condition

definition mk_observed_branch :: "observed_branch \<Rightarrow> observed_branch result" where
  "mk_observed_branch b =
     (if br_after_steps b < 1
      then Inl (ValueError ''a branch requires at least one executed primary action'')
      else Inr b)"

datatype scenario_kind = SCENARIO_OUTCOME | SCENARIO_FAILURE | SCENARIO_RECOVERY

record scenario =
  sn_primary :: capability_artifact
  sn_kind :: scenario_kind

section \<open>Drafts\<close>

record capability_draft =
  dr_operation_slug :: string
  dr_capability_id :: "string option"
  dr_name :: string
  dr_description :: string
  dr_inputs :: object_contract
  dr_outputs :: object_contract
  dr_risk :: risk
  dr_tags :: "string list"
  dr_observation_only :: bool

text \<open>The fields of a contract at every depth, in the order the stack \<open>pending\<close> visits them.\<close>

function draft_fields :: "(string \<times> value_schema) list \<Rightarrow> (string \<times> value_schema) list" where
  "draft_fields [] = []"
| "draft_fields ((name, s) # rest) =
     draft_fields rest @ (name, s) # draft_fields (vs_properties s)"
  by pat_completeness auto

termination
proof (relation "measure (size_list (\<lambda>(n, s). Suc (size s)))")
  fix name :: string and s and rest :: "(string \<times> value_schema) list"
  have props: "size_list (\<lambda>(n, s). Suc (size s)) ps \<le> size_list (size_prod (\<lambda>_. 0) size) ps"
    for ps :: "(string \<times> value_schema) list"
    by (induction ps) auto
  have "size_list (\<lambda>(n, s). Suc (size s)) (vs_properties s) < Suc (size s)"
    using props[of "vs_properties s"] by (cases s) auto
  then show "(vs_properties s, (name, s) # rest) \<in> measure (size_list (\<lambda>(n, s). Suc (size s)))"
    by auto
qed auto

definition credential_words :: "string list" where
  "credential_words = [''password'', ''secret'', ''token'', ''credential'', ''api'', ''key'']"

definition draft_field_checks :: "string \<Rightarrow> string \<times> value_schema \<Rightarrow> (bool \<times> string) list" where
  "draft_field_checks label = (\<lambda>(name, s).
     [(matches_ident lower_letters ident_chars 1 (Some 63) name, label @ '' field name is invalid''),
      (set (split_on (CHR ''_'') name) \<inter> set credential_words = {},
         label @ '' field name appears credential-related''),
      (vs_classification s \<notin> {CREDENTIAL, SECRET}, label @ '' contract contains a forbidden field'')])"

definition draft_contract_checks :: "string \<Rightarrow> object_contract \<Rightarrow> (bool \<times> string) list" where
  "draft_contract_checks label c =
     [(length (oc_properties c) \<le> 50, ''capability drafts cannot declare more than 50 '' @ label @ ''s''),
      (distinct (oc_required c), label @ '' contract contains duplicate required fields'')] @
     concat (map (draft_field_checks label) (draft_fields (oc_properties c)))"

definition mk_draft :: "capability_draft \<Rightarrow> capability_draft result" where
  "mk_draft d =
     bind_r (checks
       ([(is_family (dr_operation_slug d) \<and> opt_all is_capability_id (dr_capability_id d) \<and>
          bounded_text 200 (dr_name d) \<and> bounded_text 1000 (dr_description d) \<and>
          length (dr_tags d) \<le> 20, field_error),
         (oc_required (dr_outputs d) \<noteq> [] \<or> dr_observation_only d,
            ''capability drafts must declare at least one required output'')] @
        draft_contract_checks ''input'' (dr_inputs d) @
        draft_contract_checks ''output'' (dr_outputs d))) (\<lambda>_. Inr d)"

section \<open>Recordings and results\<close>

record recorded_step =
  rd_action :: action
  rd_target :: "locator_bundle option"
  rd_before :: normalized_observation
  rd_after :: normalized_observation
  rd_expected_effect :: string
  rd_rationale :: string
  rd_risk :: risk
  rd_verified :: "condition list"

definition mk_recorded_step :: "recorded_step \<Rightarrow> recorded_step result" where
  "mk_recorded_step r =
     (if (action_kind (rd_action r) \<in> set TARGETED_ACTIONS) \<noteq> (rd_target r \<noteq> None)
      then Inl (ValueError ''recorded action and target do not fit'')
      else if blank (rd_expected_effect r) \<or> blank (rd_rationale r)
      then Inl (ValueError ''recorded discovery step requires intent and rationale'')
      else Inr r)"

record discovery_success =
  ds_run_id :: string
  ds_artifact :: capability_artifact
  ds_manifest :: string
  ds_branch :: "observed_branch option"

definition mk_discovery_success :: "discovery_success \<Rightarrow> discovery_success result" where
  "mk_discovery_success d =
     bind_r (parse_id (ds_run_id d) (Some RUN)) (\<lambda>_.
     if \<not> starts_with (''evidence://'' @ ds_run_id d @ ''/'') (ds_manifest d)
     then Inl (ValueError ''discovery evidence manifest must belong to its run'')
     else Inr d)"

text \<open>A discovery ends with a success, or with the failure or intervention result of a run.\<close>

datatype discovery_result = Discovered discovery_success | NotDiscovered run_result

section \<open>What the model is shown\<close>

record planning_context =
  pc_goal :: string
  pc_inputs :: json_object
  pc_observation :: normalized_observation
  pc_screenshot :: bytes
  pc_maximum_risk :: risk
  pc_requested_id :: "string option"
  pc_application_family :: string
  pc_entry_point :: string
  pc_action_types :: "string list"

definition mk_planning_context :: "planning_context \<Rightarrow> planning_context result" where
  "mk_planning_context p =
     (if blank (pc_goal p) then Inl (ValueError ''discovery goal cannot be empty'')
      else if \<not> starts_with png_signature (pc_screenshot p)
      then Inl (ValueError ''planning context requires a PNG screenshot'')
      else if blank (pc_application_family p) \<or> blank (pc_entry_point p)
      then Inl (ValueError ''planning context requires a registered application entry point'')
      else if pc_action_types p = []
      then Inl (ValueError ''planning context requires allowed action types'')
      else Inr p)"

record provider_context =
  px_goal :: string
  px_inputs :: json_object
  px_observation :: normalized_observation
  px_screenshot :: bytes
  px_action_history :: "string list"
  px_action_types :: "string list"
  px_output_contract :: object_contract
  px_captured :: "string list"
  px_maximum_risk :: risk
  px_previous_text :: "string list"
  px_reference_steps :: "step list"
  px_scenario_kind :: "scenario_kind option"
  px_branch_observed :: bool
  px_recorded_steps :: nat
  px_resume_before :: "step option"
  px_rendered_surface :: bool

definition mk_provider_context :: "provider_context \<Rightarrow> provider_context result" where
  "mk_provider_context p =
     (if \<not> distinct (px_captured p)
      then Inl (ValueError ''captured output names must be unique'')
      else if \<not> set (px_captured p) \<subseteq> set (map fst (oc_properties (px_output_contract p)))
      then Inl (ValueError ''captured outputs must be declared by the output contract'')
      else Inr p)"

definition remaining_outputs :: "provider_context \<Rightarrow> string list" where
  "remaining_outputs p = [n \<leftarrow> oc_required (px_output_contract p). n \<notin> set (px_captured p)]"

text \<open>The calls of the model, and of the adapter that turns a grounded target into a locator.\<close>

datatype model_call =
    Planned planning_context "capability_draft result"
  | Decided provider_context "proposal result"
  | Located resolved_target "locator_bundle result"

end
