(* ===== verification/Replay.thy ===== *)
theory Replay
  imports DiscoveryModels Targeting Transactions
begin

text \<open>
  The deterministic replay engine (\<^verbatim>\<open>replay/engine.py\<close>). The surface session, the run
  recorder, the clock and the random identifiers are not under the engine's control: an
  environment record gives every answer of theirs as a function of the history of calls. Each
  call is written to the history with its answer, newest first, so that the theorems can speak
  of what was asked and dispatched, and in which order. Policy, leases and interventions are the
  modelled components. A Python exception is the left result of a computation; the state it
  leaves is kept. The local variable \<open>dispatched\<close> of a step is the phase the error is raised in.
\<close>

section \<open>Requests, continuations, history\<close>

record replay_request =
  rq_run_id :: string
  rq_artifact :: capability_artifact
  rq_tenant :: string
  rq_inputs :: json_object
  rq_allow_intervention :: bool

text \<open>The session of a continuation is the session of the run.\<close>

record continuation =
  cn_intervention :: string
  cn_request :: replay_request
  cn_inputs :: json_object
  cn_outputs :: json_object
  cn_uses :: "int dict"
  cn_step_index :: int
  cn_fingerprint :: string
  cn_retry_step :: bool
  cn_retry_attempt :: int

datatype event =
    EvCompatibility "unit result"
  | EvOpen string string string "string result"
  | EvLease string "control_lease result"
  | EvCheckLease int "unit result"
  | EvHeartbeat int "control_lease result"
  | EvEvaluate condition "bool result"
  | EvWait condition int "bool result"
  | EvObserve "normalized_observation result"
  | EvResolve locator_bundle int "resolved_target result"
  | EvPolicy action_context "policy_decision result"
  | EvExecute action "resolved_target option" "action_receipt result"
  | EvExtract resolved_target "string result"
  | EvFrame "bytes result"
  | EvAttach string retention_class "unit result"
  | EvRecord string "string option" json_object "unit result"
  | EvSleep int
  | EvRoute string string int "string result"
  | EvRetain continuation "unit result"
  | EvClose "unit result"
  | EvModel model_call

type_synonym history = "event list"

record environment =
  ev_compatibility :: "(history \<Rightarrow> unit result) option"
  ev_open :: "history \<Rightarrow> string \<Rightarrow> string \<Rightarrow> string \<Rightarrow> string result"
  ev_origin :: "history \<Rightarrow> string"
  ev_evaluate :: "history \<Rightarrow> condition \<Rightarrow> json_object \<Rightarrow> json_object \<Rightarrow> bool result"
  ev_wait :: "history \<Rightarrow> condition \<Rightarrow> json_object \<Rightarrow> json_object \<Rightarrow> int \<Rightarrow> bool result"
  ev_observe :: "history \<Rightarrow> normalized_observation result"
  ev_resolve :: "history \<Rightarrow> locator_bundle \<Rightarrow> int \<Rightarrow> resolved_target result"
  ev_execute :: "history \<Rightarrow> action \<Rightarrow> resolved_target option \<Rightarrow> json_object \<Rightarrow> action_receipt result"
  ev_extract :: "history \<Rightarrow> resolved_target \<Rightarrow> string result"
  ev_frame :: "history \<Rightarrow> bytes result"
  ev_close :: "history \<Rightarrow> unit result"
  ev_record :: "history \<Rightarrow> string \<Rightarrow> string option \<Rightarrow> json_object \<Rightarrow> unit result"
  ev_attach :: "history \<Rightarrow> string \<Rightarrow> bytes \<Rightarrow> retention_class \<Rightarrow> unit result"
  ev_manifest :: "history \<Rightarrow> string"
  ev_retain :: "history \<Rightarrow> continuation \<Rightarrow> unit result"
  ev_store :: "json_object \<Rightarrow> json_object result"
  ev_str :: "json \<Rightarrow> string"
  ev_clock :: "history \<Rightarrow> nat \<Rightarrow> int"
  ev_uuid :: "history \<Rightarrow> string"
  ev_formats :: formats
  ev_policy :: effective_policy
  ev_ttl :: int
  ev_has_sink :: bool

text \<open>
  The mutable state: the history, the leases and interventions of the shared services, the
  dictionaries \<open>outputs\<close> and \<open>recovery_uses\<close> of the run, the engine's pause points, and the
  local variables \<open>session\<close> and \<open>preserve_session\<close> of \<open>execute\<close>, which its \<open>finally\<close> reads.
\<close>

record run_state =
  rs_history :: history
  rs_store :: handoff_store
  rs_outputs :: json_object
  rs_uses :: "int dict"
  rs_pauses :: "(bool \<times> int) dict"
  rs_session :: "string option"
  rs_preserve :: bool

type_synonym 'a run = "(run_state, 'a) comp"

section \<open>Calls on the ports\<close>

definition ask :: "(run_state \<Rightarrow> 'a result) \<Rightarrow> ('a result \<Rightarrow> event) \<Rightarrow> 'a run" where
  "ask f ev = (\<lambda>s. (f s, s\<lparr>rs_history := ev (f s) # rs_history s\<rparr>))"

declare ask_def [code_unfold]

definition note_event :: "event \<Rightarrow> unit run" where
  "note_event e = update (\<lambda>s. s\<lparr>rs_history := e # rs_history s\<rparr>)"

text \<open>A lease operation: the lease repository is part of the store.\<close>

definition ask_lease ::
  "(run_state \<Rightarrow> (control_lease \<times> leases) result) \<Rightarrow> (control_lease result \<Rightarrow> event)
     \<Rightarrow> control_lease run" where
  "ask_lease f ev =
     (\<lambda>s. case f s of
        Inl e \<Rightarrow> (Inl e, s\<lparr>rs_history := ev (Inl e) # rs_history s\<rparr>)
      | Inr (l, ls) \<Rightarrow> (Inr l, s\<lparr>rs_history := ev (Inr l) # rs_history s,
                               rs_store := (rs_store s)\<lparr>hs_leases := ls\<rparr>\<rparr>))"

definition create_lease :: "environment \<Rightarrow> string \<Rightarrow> control_lease run" where
  "create_lease E sid = ask_lease
     (\<lambda>s. create_for_automation in_memory_leases (ev_ttl E) (ev_clock E (rs_history s) 0)
            (hs_leases (rs_store s)) sid) (EvLease sid)"

definition heartbeat :: "environment \<Rightarrow> string \<Rightarrow> int \<Rightarrow> control_lease run" where
  "heartbeat E sid version = ask_lease
     (\<lambda>s. let now = ev_clock E (rs_history s) in
          svc_heartbeat in_memory_leases (ev_ttl E) (now 0) (now 1) (now 2)
            (hs_leases (rs_store s)) sid version AUTOMATION_OWNER) (EvHeartbeat version)"

definition check_lease :: "environment \<Rightarrow> string \<Rightarrow> int \<Rightarrow> unit run" where
  "check_lease E sid version = ask
     (\<lambda>s. bind_r (assert_can_act in_memory_leases (ev_clock E (rs_history s) 0)
            (hs_leases (rs_store s)) sid version AUTOMATION_OWNER) (\<lambda>_. Inr ()))
     (EvCheckLease version)"

definition evaluate :: "environment \<Rightarrow> json_object \<Rightarrow> condition \<Rightarrow> bool run" where
  "evaluate E inputs c =
     ask (\<lambda>s. ev_evaluate E (rs_history s) c (rs_outputs s) inputs) (EvEvaluate c)"

definition wait_until :: "environment \<Rightarrow> json_object \<Rightarrow> condition \<Rightarrow> int \<Rightarrow> bool run" where
  "wait_until E inputs c timeout_ms =
     ask (\<lambda>s. ev_wait E (rs_history s) c (rs_outputs s) inputs timeout_ms) (EvWait c timeout_ms)"

definition observe :: "environment \<Rightarrow> normalized_observation run" where
  "observe E = ask (\<lambda>s. ev_observe E (rs_history s)) EvObserve"

definition resolve :: "environment \<Rightarrow> locator_bundle \<Rightarrow> int \<Rightarrow> resolved_target run" where
  "resolve E t timeout_ms = ask (\<lambda>s. ev_resolve E (rs_history s) t timeout_ms) (EvResolve t timeout_ms)"

definition execute_action ::
  "environment \<Rightarrow> json_object \<Rightarrow> action \<Rightarrow> resolved_target option \<Rightarrow> action_receipt run" where
  "execute_action E inputs a t = ask (\<lambda>s. ev_execute E (rs_history s) a t inputs) (EvExecute a t)"

definition extract_text :: "environment \<Rightarrow> resolved_target \<Rightarrow> string run" where
  "extract_text E t = ask (\<lambda>s. ev_extract E (rs_history s) t) (EvExtract t)"

definition close_session :: "environment \<Rightarrow> unit run" where
  "close_session E = ask (\<lambda>s. ev_close E (rs_history s)) EvClose"

definition record_event :: "environment \<Rightarrow> string \<Rightarrow> string option \<Rightarrow> json_object \<Rightarrow> unit run" where
  "record_event E kind step_id details =
     ask (\<lambda>s. ev_record E (rs_history s) kind step_id details) (EvRecord kind step_id details)"

definition manifest_key :: "environment \<Rightarrow> string run" where
  "manifest_key E = gets (\<lambda>s. ev_manifest E (rs_history s))"

text \<open>\<open>recorder.attach_screenshot(kind, RawScreenshot(frame), retention)\<close>.\<close>

definition attach_screenshot :: "environment \<Rightarrow> string \<Rightarrow> bytes \<Rightarrow> retention_class \<Rightarrow> unit run" where
  "attach_screenshot E kind frame retention =
     bind_c (lift_c (mk_raw_screenshot frame)) (\<lambda>content.
     ask (\<lambda>s. ev_attach E (rs_history s) kind content retention) (EvAttach kind retention))"

text \<open>\<open>_attach_handoff_frame\<close> and \<open>_attach_failure_frame\<close>.\<close>

definition attach_handoff_frame :: "environment \<Rightarrow> string \<Rightarrow> unit run" where
  "attach_handoff_frame E kind =
     bind_c (ask (\<lambda>s. ev_frame E (rs_history s)) EvFrame) (\<lambda>frame.
     attach_screenshot E kind frame RETAIN_HUMAN_AUDIT)"

definition attach_failure_frame :: "environment \<Rightarrow> unit run" where
  "attach_failure_frame E =
     bind_c (ask (\<lambda>s. ev_frame E (rs_history s)) EvFrame) (\<lambda>frame.
     attach_screenshot E ''failure-state'' frame RETAIN_FAILURE)"

section \<open>Failures\<close>

definition find_step :: "replay_request \<Rightarrow> string option \<Rightarrow> (nat \<times> step) option" where
  "find_step rq step_id =
     find (\<lambda>(i, s). Some (st_id s) = step_id) (enumerate 0 (art_steps (rq_artifact rq)))"

definition step_ordinal :: "replay_request \<Rightarrow> string option \<Rightarrow> int option" where
  "step_ordinal rq step_id = map_option (\<lambda>(i, s). int i + 1) (find_step rq step_id)"

fun condition_kind :: "condition \<Rightarrow> string" where
  "condition_kind (RouteCondition p) = ''route''"
| "condition_kind (TextCondition v m) = ''text''"
| "condition_kind (RenderedTextCondition v m) = ''rendered_text''"
| "condition_kind (VisualTextCondition v m r c) = ''visual_text''"
| "condition_kind (ElementCondition t e) = ''element''"
| "condition_kind (OutputValidCondition out) = ''output_valid''"
| "condition_kind (OutputEqualsCondition out v) = ''output_equals''"
| "condition_kind (IdentityMatchesCondition out p) = ''identity_matches''"
| "condition_kind (AllCondition cs) = ''all''"
| "condition_kind (AnyCondition cs) = ''any''"
| "condition_kind (NotCondition c) = ''not''"

text \<open>The classes \<open>(OSError, RuntimeError, ValueError)\<close>; a surface error is a RuntimeError.\<close>

definition frame_error :: "exn \<Rightarrow> unit option" where
  "frame_error e =
     (case e of
        TypeError m \<Rightarrow> None | KeyError m \<Rightarrow> None | LeaseNotFoundError m \<Rightarrow> None
      | InterventionNotFoundError m \<Rightarrow> None | CapabilityNotFoundError m \<Rightarrow> None | _ \<Rightarrow> Some ())"

definition simple_error :: "string \<Rightarrow> string \<Rightarrow> surface_error" where
  "simple_error code message =
     \<lparr>se_code = code, se_message = message, se_recoverable = False, se_effect_absent = False,
      se_intervention_recommended = False, se_expected = None, se_observed = None,
      se_failure_frame = None\<rparr>"

definition absent_error :: "string \<Rightarrow> string \<Rightarrow> surface_error" where
  "absent_error code message = (simple_error code message)\<lparr>se_effect_absent := True\<rparr>"

definition default_diagnostic ::
  "replay_request \<Rightarrow> string \<Rightarrow> string option \<Rightarrow> json_object option \<Rightarrow> json_object option
     \<Rightarrow> diagnostic" where
  "default_diagnostic rq code step_id expected observed =
     (plain_diagnostic code)
       \<lparr>dg_step_ordinal := step_ordinal rq step_id,
        dg_action_type := (case find_step rq step_id of
            None \<Rightarrow> ''unknown'' | Some (i, s) \<Rightarrow> action_kind (st_action s)),
        dg_condition_kind := (case find_step rq step_id of
            Some (i, s) \<Rightarrow> (case st_postconditions s of [] \<Rightarrow> ''unknown'' | c # cs \<Rightarrow> condition_kind c)
          | None \<Rightarrow> ''unknown''),
        dg_expected_count := count_of expected, dg_observed_count := count_of observed\<rparr>"

definition capture_failure_frame :: "environment \<Rightarrow> bool \<Rightarrow> bytes option \<Rightarrow> string run" where
  "capture_failure_frame E has_session frame =
     (if has_session \<or> frame \<noteq> None
      then catch_c
        (then_c
           (if has_session then attach_failure_frame E
            else case frame of
              None \<Rightarrow> raise (RuntimeError ''AssertionError'')
            | Some b \<Rightarrow> attach_screenshot E ''failure-state'' b RETAIN_FAILURE)
           (ret ''captured''))
        frame_error (\<lambda>_. ret ''unavailable'')
      else ret ''not_applicable'')"

text \<open>\<open>_failure\<close>.\<close>

definition failure ::
  "environment \<Rightarrow> replay_request \<Rightarrow> string \<Rightarrow> string \<Rightarrow> bool \<Rightarrow> string option \<Rightarrow> json_object option
     \<Rightarrow> json_object option \<Rightarrow> bool \<Rightarrow> diagnostic option \<Rightarrow> bytes option \<Rightarrow> run_result run" where
  "failure E rq code message recoverable step_id expected observed has_session dg frame =
     bind_c (case dg of
         Some d \<Rightarrow> ret d
       | None \<Rightarrow> lift_c (mk_diagnostic (default_diagnostic rq code step_id expected observed))) (\<lambda>d.
     then_c (record_event E ''execution_diagnostic'' step_id (safe_payload d))
     (bind_c (capture_failure_frame E has_session frame) (\<lambda>evidence_frame.
     then_c (record_event E ''replay_failed'' step_id
               [(''code'', JStr code), (''evidence_frame'', JStr evidence_frame)])
     (bind_c (manifest_key E) (\<lambda>manifest.
     lift_c (mk_failure (ev_store E)
       \<lparr>fr_run_id = rq_run_id rq, fr_code = code, fr_message = message,
        fr_recoverable = recoverable, fr_step_id = step_id, fr_expected = expected,
        fr_observed = observed, fr_privacy = None, fr_manifest = manifest\<rparr>))))))"

text \<open>The calls of \<open>_failure\<close> that leave the optional arguments out.\<close>

definition fail_at ::
  "environment \<Rightarrow> replay_request \<Rightarrow> string \<Rightarrow> string \<Rightarrow> string option \<Rightarrow> bool \<Rightarrow> run_result run" where
  "fail_at E rq code message step_id has_session =
     failure E rq code message False step_id None None has_session None None"

section \<open>Policy\<close>

definition action_classification ::
  "replay_request \<Rightarrow> data_classification list \<Rightarrow> step \<Rightarrow> data_classification option" where
  "action_classification rq forbidden s =
     (let source = input_source (st_action s) in
      if source \<noteq> None \<and>
         (case st_target s of
            None \<Rightarrow> False
          | Some t \<Rightarrow> list_ex (\<lambda>term. contains_str (py_casefold term) (py_casefold (lb_description t)))
                        (cy_forbidden_text_inputs (art_policy (rq_artifact rq))))
      then Some CREDENTIAL
      else case source of
        Some (InputValue p) \<Rightarrow> binding_classification (art_inputs (rq_artifact rq)) p forbidden
      | _ \<Rightarrow> None)"

text \<open>\<open>_step_policy\<close>: the context of the action, at the origin the session is on now.\<close>

definition step_context ::
  "environment \<Rightarrow> replay_request \<Rightarrow> step \<Rightarrow> normalized_observation \<Rightarrow> resolved_target option
     \<Rightarrow> string \<Rightarrow> action_context" where
  "step_context E rq s observation target origin =
     \<lparr>ax_principal_type = PRINCIPAL_AUTOMATION, ax_principal_id = ''runtime'',
      ax_run_mode = RUN_REPLAY,
      ax_application_family = cm_application_family (art_capability (rq_artifact rq)),
      ax_tenant = rq_tenant rq, ax_origin = origin, ax_route = obs_route observation,
      ax_action_type = action_kind (st_action s),
      ax_target_description =
        (case st_target s of None \<Rightarrow> st_name s | Some t \<Rightarrow> lb_description t),
      ax_declared_risk = st_risk s, ax_control_owner = owner_value AUTOMATION_OWNER,
      ax_classification = action_classification rq (ep_forbidden (ev_policy E)) s,
      ax_registered_risk =
        (case target of None \<Rightarrow> Some (st_risk s) | Some t \<Rightarrow> rt_registered_risk t)\<rparr>"

definition step_policy ::
  "environment \<Rightarrow> replay_request \<Rightarrow> step \<Rightarrow> normalized_observation \<Rightarrow> resolved_target option
     \<Rightarrow> policy_decision run" where
  "step_policy E rq s observation target =
     bind_c (gets (\<lambda>st. step_context E rq s observation target (ev_origin E (rs_history st)))) (\<lambda>ctx.
     ask (\<lambda>st. evaluate_policy (new_id (ev_uuid E (rs_history st)) DECISION)
                 (utc (ev_clock E (rs_history st) 0)) (ev_policy E) ctx) (EvPolicy ctx))"

section \<open>Interventions\<close>

definition replay_context ::
  "replay_request \<Rightarrow> string option \<Rightarrow> normalized_observation \<Rightarrow> intervention_context" where
  "replay_context rq step_id observation =
     (let cap = art_capability (rq_artifact rq) in
      \<lparr>ctx_run_mode = MODE_REPLAY, ctx_application_family = cm_application_family cap,
       ctx_tenant = rq_tenant rq, ctx_task_summary = cm_description cap,
       ctx_surface_route = obs_route observation, ctx_step_id = step_id,
       ctx_capability_id = Some (cm_id cap), ctx_capability_version = Some (cm_version cap),
       ctx_capability_name = Some (cm_name cap)\<rparr>)"

definition route_intervention ::
  "environment \<Rightarrow> replay_request \<Rightarrow> string \<Rightarrow> string \<Rightarrow> int \<Rightarrow> string \<Rightarrow> string option
     \<Rightarrow> normalized_observation \<Rightarrow> intervention_context \<Rightarrow> string option \<Rightarrow> string run" where
  "route_intervention E rq iid sid version code step_id observation ctx explanation =
     (\<lambda>s. let now = ev_clock E (rs_history s) in
          case router_open (ev_ttl E) (now 0) (now 1) (now 2) (rs_store s) iid (rq_run_id rq) sid
                 version code step_id observation ctx explanation of
            Inl e \<Rightarrow> (Inl e, s\<lparr>rs_history := EvRoute iid code version (Inl e) # rs_history s\<rparr>)
          | Inr (routed, st) \<Rightarrow>
              (Inr routed, s\<lparr>rs_history := EvRoute iid code version (Inr routed) # rs_history s,
                             rs_store := st\<rparr>))"

text \<open>\<open>_intervene\<close>.\<close>

definition intervene ::
  "environment \<Rightarrow> replay_request \<Rightarrow> string \<Rightarrow> string option \<Rightarrow> string \<Rightarrow> normalized_observation
     \<Rightarrow> int \<Rightarrow> string option \<Rightarrow> bool \<Rightarrow> int \<Rightarrow> diagnostic option \<Rightarrow> run_result run" where
  "intervene E rq sid step_id code observation version explanation retry_step retry_attempt dg =
     (if \<not> rq_allow_intervention rq
      then fail_at E rq code ''Unattended validation stopped at an intervention boundary.''
             step_id True
      else
        then_c (case dg of
            None \<Rightarrow> ret ()
          | Some d \<Rightarrow> record_event E ''execution_diagnostic'' step_id (safe_payload d))
        (then_c (attach_handoff_frame E ''handoff-before'')
        (bind_c (gets (\<lambda>s. new_id (ev_uuid E (rs_history s)) INTERVENTION)) (\<lambda>iid.
        bind_c (lift_c (mk_intervention_context (replay_context rq step_id observation))) (\<lambda>ctx.
        bind_c (route_intervention E rq iid sid version code step_id observation ctx explanation)
          (\<lambda>routed.
        if routed \<noteq> iid
        then raise (RuntimeError ''intervention router must preserve the reserved identity'')
        else
          then_c (update (\<lambda>s. s\<lparr>rs_pauses := dict_set iid (retry_step, retry_attempt) (rs_pauses s)\<rparr>))
          (then_c (record_event E ''intervention_required'' step_id [])
          (lift_c (mk_intervention_required
             \<lparr>ir_run_id = rq_run_id rq, ir_intervention_id = iid, ir_code = code,
              ir_step_id = step_id\<rparr>)))))))))"

definition ELIGIBLE_CODES :: "string list" where
  "ELIGIBLE_CODES = [''target_absent'', ''target_ambiguous'', ''action_timeout'', ''action_failed'']"

definition intervention_eligible :: "surface_error \<Rightarrow> diagnostic option \<Rightarrow> bool" where
  "intervention_eligible err dg =
     (se_code err \<in> set ELIGIBLE_CODES \<or>
      se_code err = ''postcondition_mismatch'' \<and>
        (case dg of None \<Rightarrow> False | Some d \<Rightarrow> dg_phase d = AFTER_DISPATCH) \<or>
      se_intervention_recommended err)"

text \<open>\<open>SurfaceError\<close> and \<open>ContractValidationError\<close>.\<close>

definition surface_or_contract :: "exn \<Rightarrow> unit option" where
  "surface_or_contract e =
     (case e of SurfaceFailure se \<Rightarrow> Some () | ContractValidationError p c \<Rightarrow> Some () | _ \<Rightarrow> None)"

definition retry_explanation :: string where
  "retry_explanation =
     ''Restore the interface without performing this task step. Resume will resolve and retry the same step.''"

definition correct_explanation :: string where
  "correct_explanation =
     ''Inspect and complete or correct the interrupted action. Resume must verify its declared effect; it will not repeat the action.''"

text \<open>
  \<open>_surface_failure\<close>: with a main step, a session and a lease it asks for help when the error is
  eligible; otherwise it fails with the error's own classification. \<open>sid\<close> is the session, if any.
\<close>

definition surface_failure ::
  "environment \<Rightarrow> replay_request \<Rightarrow> string option \<Rightarrow> string option \<Rightarrow> surface_error \<Rightarrow> int option
     \<Rightarrow> diagnostic option \<Rightarrow> bool \<Rightarrow> run_result run" where
  "surface_failure E rq sid step_id err version dg allow_intervention =
     (let give_up = failure E rq (se_code err) (se_message err) (se_recoverable err) step_id
            (se_expected err) (se_observed err) (sid \<noteq> None) dg (se_failure_frame err) in
      case (find_step rq step_id, sid, version) of
        (Some (i, s), Some session, Some held) \<Rightarrow>
          if allow_intervention \<and> rq_allow_intervention rq \<and> intervention_eligible err dg
          then bind_c
            (catch_c
               (bind_c (observe E) (\<lambda>observation.
                bind_c (step_policy E rq s observation None) (\<lambda>d. ret (Some (observation, d)))))
               surface_or_contract (\<lambda>_. ret None)) (\<lambda>view.
            case view of
              None \<Rightarrow> failure E rq (se_code err) (se_message err) False step_id None None True dg None
            | Some (observation, d) \<Rightarrow>
                if pd_decision d = DENY
                then fail_at E rq ''policy_blocked'' (pd_explanation d) step_id True
                else
                  (let retry_step = (case dg of None \<Rightarrow> False | Some x \<Rightarrow> dg_phase x = BEFORE_DISPATCH)
                   in intervene E rq session step_id (se_code err) observation held
                        (Some (if retry_step then retry_explanation else correct_explanation))
                        retry_step (case dg of None \<Rightarrow> 1 | Some x \<Rightarrow> dg_attempt x) dg))
          else give_up
      | _ \<Rightarrow> give_up)"

end
