(* ===== verification/ReplaySteps.thy ===== *)
theory ReplaySteps
  imports Replay
begin

text \<open>
  One step of a replay (\<^verbatim>\<open>replay/engine.py\<close>, \<open>_execute_step\<close> and what it calls):
  the gate before the action, the action, the checks after it, the declared recoveries and the
  bounded retries. The code's recursion from a recovery back into a step is layered: recovery
  steps run with recovery switched off, as \<open>_execute_recovery\<close> calls them, so they need no
  recursion. The retry of a step recurses on the attempts left.
\<close>

section \<open>Declared branches\<close>

definition lookup :: "(string \<times> 'v) list \<Rightarrow> string \<Rightarrow> 'v run" where
  "lookup d k = lift_c (case dict_get d k of None \<Rightarrow> Inl (KeyError k) | Some v \<Rightarrow> Inr v)"

text \<open>The referenced branches whose condition holds on the surface now, in reference order.\<close>

fun matching_refs ::
  "environment \<Rightarrow> json_object \<Rightarrow> ('v \<Rightarrow> condition) \<Rightarrow> (string \<times> 'v) list \<Rightarrow> string list \<Rightarrow> 'v list run"
where
  "matching_refs E inputs detect indexed [] = ret []"
| "matching_refs E inputs detect indexed (code # codes) =
     bind_c (lookup indexed code) (\<lambda>v.
     bind_c (evaluate E inputs (detect v)) (\<lambda>b.
     bind_c (matching_refs E inputs detect indexed codes) (\<lambda>vs.
     ret (if b then v # vs else vs))))"

definition at_most_one :: "string \<Rightarrow> 'v list \<Rightarrow> 'v option run" where
  "at_most_one message vs =
     (case vs of
        [] \<Rightarrow> ret None
      | [v] \<Rightarrow> ret (Some v)
      | _ \<Rightarrow> raise (SurfaceFailure (simple_error ''branch_ambiguous'' message)))"

definition indexed_outcomes :: "capability_artifact \<Rightarrow> business_outcome dict" where
  "indexed_outcomes a = dict_of_pairs (map (\<lambda>b. (bo_code b, b)) (art_outcomes a))"

definition indexed_failures :: "capability_artifact \<Rightarrow> application_failure dict" where
  "indexed_failures a = dict_of_pairs (map (\<lambda>f. (af_code f, f)) (art_failures a))"

definition indexed_recoveries :: "capability_artifact \<Rightarrow> recovery dict" where
  "indexed_recoveries a = dict_of_pairs (map (\<lambda>r. (rc_id r, r)) (art_recoveries a))"

definition detect_outcome ::
  "environment \<Rightarrow> capability_artifact \<Rightarrow> step \<Rightarrow> json_object \<Rightarrow> business_outcome option run" where
  "detect_outcome E a s inputs =
     bind_c (matching_refs E inputs bo_detect (indexed_outcomes a) (st_outcome_refs s))
       (at_most_one ''Multiple business outcomes matched.'')"

definition detect_failure ::
  "environment \<Rightarrow> capability_artifact \<Rightarrow> step \<Rightarrow> json_object \<Rightarrow> application_failure option run" where
  "detect_failure E a s inputs =
     bind_c (matching_refs E inputs af_detect (indexed_failures a) (st_failure_refs s))
       (at_most_one ''Multiple application failures matched.'')"

definition application_failure_result ::
  "environment \<Rightarrow> replay_request \<Rightarrow> string \<Rightarrow> application_failure \<Rightarrow> run_result run" where
  "application_failure_result E rq step_id f =
     failure E rq (af_code f) (af_description f) (af_recoverable f) (Some step_id)
       (Some [(''state'', JStr (af_expected_state f))])
       (Some [(''state'', JStr (af_observed_state f))]) True None None"

text \<open>\<open>str\<close> of a JSON value; the text of anything but a string, integer or boolean is a parameter.\<close>

definition py_str :: "environment \<Rightarrow> json \<Rightarrow> string" where
  "py_str E v =
     (case v of
        JStr s \<Rightarrow> s
      | JInt i \<Rightarrow> show_int i
      | JBool b \<Rightarrow> (if b then ''True'' else ''False'')
      | _ \<Rightarrow> ev_str E v)"

fun scalar_json :: "scalar \<Rightarrow> json" where
  "scalar_json (SStr s) = JStr s"
| "scalar_json (SInt i) = JInt i"
| "scalar_json (SBool b) = JBool b"

definition last_four :: "string \<Rightarrow> string" where
  "last_four raw = drop (length raw - 4) raw"

definition outcome_detail :: "environment \<Rightarrow> json_object \<Rightarrow> value_source \<Rightarrow> json result" where
  "outcome_detail E inputs src =
     (case src of
        InputValue p \<Rightarrow> bind_r (resolve_input inputs p) (\<lambda>v.
          let raw = py_str E v in
          Inr (JStr (if raw \<noteq> [] then ''***'' @ last_four raw else ''[REDACTED]'')))
      | LiteralValue v \<Rightarrow> Inr (scalar_json v))"

text \<open>\<open>_business_outcome\<close>.\<close>

definition business_outcome_result ::
  "environment \<Rightarrow> replay_request \<Rightarrow> business_outcome \<Rightarrow> json_object \<Rightarrow> run_result run" where
  "business_outcome_result E rq b inputs =
     bind_c (lift_c (map_r (\<lambda>(name, src). bind_r (outcome_detail E inputs src) (\<lambda>v. Inr (name, v)))
               (bo_details b))) (\<lambda>details.
     then_c (record_event E ''business_outcome'' None [])
     (bind_c (manifest_key E) (\<lambda>manifest.
      lift_c (mk_outcome (ev_store E)
        \<lparr>ou_run_id = rq_run_id rq, ou_code = bo_code b, ou_details = dict_of_pairs details,
         ou_manifest = manifest\<rparr>))))"

section \<open>The gate\<close>

text \<open>How a step ends early: with a terminal result, or by going back to a step after a recovery.\<close>

datatype flow = FlowResult run_result | FlowResume string int

datatype 'a gate = Stop run_result | Go 'a

definition stop_with :: "run_result run \<Rightarrow> 'a gate run" where
  "stop_with m = bind_c m (\<lambda>r. ret (Stop r))"

definition flow_result :: "run_result run \<Rightarrow> flow option run" where
  "flow_result m = bind_c m (\<lambda>r. ret (Some (FlowResult r)))"

text \<open>The arguments of \<open>_execute_step\<close> but the attempt; inputs are the validated ones.\<close>

record step_call =
  sc_request :: replay_request
  sc_session :: string
  sc_step :: step
  sc_inputs :: json_object
  sc_version :: int
  sc_allow_recovery :: bool
  sc_allow_intervention :: bool

abbreviation sc_artifact :: "step_call \<Rightarrow> capability_artifact" where
  "sc_artifact k \<equiv> rq_artifact (sc_request k)"

abbreviation sc_id :: "step_call \<Rightarrow> string" where
  "sc_id k \<equiv> st_id (sc_step k)"

definition bind_step_target :: "environment \<Rightarrow> step_call \<Rightarrow> locator_bundle option run" where
  "bind_step_target E k =
     (case st_target (sc_step k) of
        None \<Rightarrow> ret None
      | Some t \<Rightarrow> catch_c
          (bind_c (lift_c (bind_target_inputs t (sc_inputs k) (Some (art_inputs (sc_artifact k)))
                     (ep_forbidden (ev_policy E)))) (\<lambda>b. ret (Some b)))
          contract_only
          (\<lambda>(path, code). raise (SurfaceFailure (absent_error code
             ''Target input binding is unavailable or forbidden.''))))"

fun decision_value :: "decision \<Rightarrow> string" where
  "decision_value ALLOW = ''allow''"
| "decision_value DENY = ''deny''"
| "decision_value REQUIRE_HUMAN_APPROVAL = ''require_human_approval''"

definition decide_step ::
  "environment \<Rightarrow> step_call \<Rightarrow> normalized_observation \<Rightarrow> resolved_target option \<Rightarrow> policy_decision
     \<Rightarrow> resolved_target option gate run" where
  "decide_step E k observation target d =
     (case pd_decision d of
        DENY \<Rightarrow> stop_with (fail_at E (sc_request k) ''policy_blocked'' (pd_explanation d)
                  (Some (sc_id k)) True)
      | REQUIRE_HUMAN_APPROVAL \<Rightarrow>
          if \<not> sc_allow_intervention k
          then stop_with (fail_at E (sc_request k) ''recovery_requires_human''
                 ''A recovery action requires human approval and cannot run autonomously.''
                 (Some (sc_id k)) True)
          else stop_with (intervene E (sc_request k) (sc_session k) (Some (sc_id k))
                 (pd_reason_code d) observation (sc_version k) (Some (pd_explanation d))
                 False 1 None)
      | ALLOW \<Rightarrow> then_c (record_event E ''action_intent'' (Some (sc_id k)) []) (ret (Go target)))"

text \<open>
  Everything before the action: the lease, the preconditions, one observation, the target bound
  and resolved, and the policy decision on it.
\<close>

definition gate_step :: "environment \<Rightarrow> step_call \<Rightarrow> resolved_target option gate run" where
  "gate_step E k =
     then_c (check_lease E (sc_session k) (sc_version k))
     (bind_c (all_c (evaluate E (sc_inputs k)) (st_preconditions (sc_step k))) (\<lambda>ready.
     if \<not> ready
     then stop_with (fail_at E (sc_request k) ''step_precondition_mismatch''
            ''A step precondition was not satisfied.'' (Some (sc_id k)) True)
     else
       bind_c (observe E) (\<lambda>observation.
       bind_c (bind_step_target E k) (\<lambda>bound.
       bind_c (case bound of
           None \<Rightarrow> ret None
         | Some b \<Rightarrow> bind_c (resolve E b (st_timeout_ms (sc_step k))) (\<lambda>t. ret (Some t))) (\<lambda>target.
       bind_c (step_policy E (sc_request k) (sc_step k) observation target) (\<lambda>d.
       then_c (record_event E ''policy_evaluated'' (Some (sc_id k))
                 [(''decision'', JStr (decision_value (pd_decision d))),
                  (''reason'', JStr (pd_reason_code d))])
       (decide_step E k observation target d)))))))"

section \<open>The action\<close>

definition expect_condition :: "bool \<Rightarrow> unit run" where
  "expect_condition satisfied =
     (if satisfied then ret ()
      else raise (SurfaceFailure (simple_error ''action_condition_mismatch''
             ''The action's declared condition was not satisfied.'')))"

text \<open>The actions handed to the surface; the others only read it.\<close>

fun dispatches :: "action \<Rightarrow> bool" where
  "dispatches (AssertAction c) = False"
| "dispatches (WaitForAction c) = False"
| "dispatches (CheckpointAction c) = False"
| "dispatches (ExtractAction out tr) = False"
| "dispatches _ = True"

definition dispatch :: "environment \<Rightarrow> step_call \<Rightarrow> resolved_target option \<Rightarrow> unit run" where
  "dispatch E k target =
     bind_c (execute_action E (sc_inputs k) (st_action (sc_step k)) target) (\<lambda>receipt.
     if ar_status receipt = FAILED
     then raise (SurfaceFailure (simple_error
            (if truthy (ar_error_code receipt) then the (ar_error_code receipt) else ''action_failed'')
            ''The surface adapter could not complete the action.''))
     else ret ())"

definition store_output :: "string \<Rightarrow> string \<Rightarrow> unit run" where
  "store_output out v = update (\<lambda>s. s\<lparr>rs_outputs := dict_set out (JStr v) (rs_outputs s)\<rparr>)"

definition perform :: "environment \<Rightarrow> step_call \<Rightarrow> resolved_target option \<Rightarrow> unit run" where
  "perform E k target =
     (case st_action (sc_step k) of
        AssertAction c \<Rightarrow> bind_c (evaluate E (sc_inputs k) c) expect_condition
      | WaitForAction c \<Rightarrow>
          bind_c (wait_until E (sc_inputs k) c (st_timeout_ms (sc_step k))) expect_condition
      | CheckpointAction c \<Rightarrow>
          bind_c (evaluate E (sc_inputs k) (cp_condition (art_checkpoint (sc_artifact k))))
            expect_condition
      | ExtractAction out tr \<Rightarrow>
          (case target of
             None \<Rightarrow> raise (SurfaceFailure (simple_error ''target_absent''
                      ''Extraction target was not resolved.''))
           | Some t \<Rightarrow> bind_c (extract_text E t) (\<lambda>v.
               store_output out (transform_extracted_text v tr)))
      | _ \<Rightarrow> dispatch E k target)"

section \<open>After the action\<close>

definition identity_check :: "environment \<Rightarrow> step_call \<Rightarrow> condition \<Rightarrow> flow option run" where
  "identity_check E k c =
     bind_c (catch_c (wait_until E (sc_inputs k) c (st_timeout_ms (sc_step k)))
               surface_only (\<lambda>_. ret False)) (\<lambda>verified.
     if verified then ret None
     else flow_result (fail_at E (sc_request k) ''postcondition_mismatch''
            ''The selected record identity was not verified.'' (Some (sc_id k)) True))"

definition identity_conditions :: "step \<Rightarrow> condition list" where
  "identity_conditions s = filter contains_identity (st_postconditions s)"

definition effect_conditions :: "step \<Rightarrow> condition list" where
  "effect_conditions s = filter (\<lambda>c. \<not> contains_identity c) (st_postconditions s)"

definition outcome_or ::
  "environment \<Rightarrow> step_call \<Rightarrow> flow option run \<Rightarrow> flow option run" where
  "outcome_or E k next =
     bind_c (detect_outcome E (sc_artifact k) (sc_step k) (sc_inputs k)) (\<lambda>found.
     case found of
       Some b \<Rightarrow> flow_result (business_outcome_result E (sc_request k) b (sc_inputs k))
     | None \<Rightarrow> next)"

definition failure_or ::
  "environment \<Rightarrow> step_call \<Rightarrow> flow option run \<Rightarrow> flow option run" where
  "failure_or E k next =
     bind_c (detect_failure E (sc_artifact k) (sc_step k) (sc_inputs k)) (\<lambda>found.
     case found of
       Some f \<Rightarrow> flow_result (application_failure_result E (sc_request k) (sc_id k) f)
     | None \<Rightarrow> next)"

text \<open>\<open>recovering\<close> is the call of \<open>_attempt_recovery\<close>, when recovery is allowed.\<close>

definition recovery_or :: "step_call \<Rightarrow> flow option run \<Rightarrow> flow option run \<Rightarrow> flow option run" where
  "recovery_or k recovering next =
     bind_c (if sc_allow_recovery k then recovering else ret None) (\<lambda>r.
     case r of Some f \<Rightarrow> ret (Some f) | None \<Rightarrow> next)"

definition phase_of :: "bool \<Rightarrow> diagnostic_phase" where
  "phase_of dispatched = (if dispatched then AFTER_DISPATCH else BEFORE_DISPATCH)"

definition dispatch_of :: "bool \<Rightarrow> dispatch_state" where
  "dispatch_of dispatched = (if dispatched then ATTEMPTED else NOT_ATTEMPTED)"

definition effect_diagnostic :: "step_call \<Rightarrow> int \<Rightarrow> condition \<Rightarrow> diagnostic" where
  "effect_diagnostic k attempt c =
     (plain_diagnostic ''postcondition_mismatch'')
       \<lparr>dg_step_ordinal := step_ordinal (sc_request k) (Some (sc_id k)),
        dg_phase := phase_of (dispatches (st_action (sc_step k))),
        dg_dispatch := dispatch_of (dispatches (st_action (sc_step k))),
        dg_action_type := action_kind (st_action (sc_step k)),
        dg_condition_kind := condition_kind c, dg_attempt := attempt,
        dg_max_attempts := rp_max_attempts (st_retry (sc_step k)),
        dg_recovery_checked := sc_allow_recovery k\<rparr>"

definition effect_missing :: "environment \<Rightarrow> step_call \<Rightarrow> int \<Rightarrow> condition \<Rightarrow> flow option run" where
  "effect_missing E k attempt c =
     bind_c (lift_c (mk_diagnostic (effect_diagnostic k attempt c))) (\<lambda>d.
     flow_result (surface_failure E (sc_request k) (Some (sc_session k)) (Some (sc_id k))
       (simple_error ''postcondition_mismatch''
          ''The action completed but its declared effect was not observed.'')
       (Some (sc_version k)) (Some d) (sc_allow_intervention k)))"

definition effect_check ::
  "environment \<Rightarrow> step_call \<Rightarrow> int \<Rightarrow> flow option run \<Rightarrow> condition \<Rightarrow> flow option run" where
  "effect_check E k attempt recovering c =
     bind_c (wait_until E (sc_inputs k) c (st_timeout_ms (sc_step k))) (\<lambda>holds.
     if holds then outcome_or E k (ret None)
     else outcome_or E k (recovery_or k recovering (failure_or E k (effect_missing E k attempt c))))"

definition settle ::
  "environment \<Rightarrow> step_call \<Rightarrow> int \<Rightarrow> flow option run \<Rightarrow> flow option run" where
  "settle E k attempt recovering =
     bind_c (first_c (identity_check E k) (identity_conditions (sc_step k))) (\<lambda>wrong.
     case wrong of
       Some f \<Rightarrow> ret (Some f)
     | None \<Rightarrow> outcome_or E k (failure_or E k (recovery_or k recovering
         (first_c (effect_check E k attempt recovering) (effect_conditions (sc_step k))))))"

definition act_and_settle ::
  "environment \<Rightarrow> step_call \<Rightarrow> int \<Rightarrow> flow option run \<Rightarrow> resolved_target option \<Rightarrow> flow option run"
where
  "act_and_settle E k attempt recovering target =
     then_c (perform E k target)
     (then_c (record_event E ''action_result'' (Some (sc_id k)) [])
     (settle E k attempt recovering))"

section \<open>Attempts\<close>

text \<open>A computation with its surface error as a value.\<close>

definition tried :: "'a run \<Rightarrow> (surface_error + 'a) run" where
  "tried m = catch_c (bind_c m (\<lambda>x. ret (Inr x))) surface_only (\<lambda>err. ret (Inl err))"

text \<open>
  The body of the \<open>try\<close> block, once: a surface error with whether the action had been
  dispatched, or the way the step ended.
\<close>

definition attempt_step ::
  "environment \<Rightarrow> step_call \<Rightarrow> flow option run \<Rightarrow> int \<Rightarrow> ((surface_error \<times> bool) + flow option) run"
where
  "attempt_step E k recovering attempt =
     bind_c (tried (gate_step E k)) (\<lambda>g.
     case g of
       Inl err \<Rightarrow> ret (Inl (err, False))
     | Inr (Stop r) \<Rightarrow> ret (Inr (Some (FlowResult r)))
     | Inr (Go target) \<Rightarrow>
         bind_c (tried (act_and_settle E k attempt recovering target)) (\<lambda>p.
         case p of
           Inl err \<Rightarrow> ret (Inl (err, dispatches (st_action (sc_step k))))
         | Inr f \<Rightarrow> ret (Inr f)))"

definition can_retry :: "step \<Rightarrow> int \<Rightarrow> surface_error \<Rightarrow> bool" where
  "can_retry s attempt err =
     (se_recoverable err \<and> se_effect_absent err \<and> se_code err \<in> set (rp_retry_on (st_retry s)) \<and>
      attempt < rp_max_attempts (st_retry s))"

definition backoff :: "step \<Rightarrow> int \<Rightarrow> int" where
  "backoff s attempt =
     (let bs = rp_backoff_ms (st_retry s); i = attempt - 1 in
      if i < int (length bs) then bs ! nat i else 0)"

definition schedule_retry :: "environment \<Rightarrow> step_call \<Rightarrow> int \<Rightarrow> surface_error \<Rightarrow> unit run" where
  "schedule_retry E k attempt err =
     then_c (record_event E ''step_retry_scheduled'' (Some (sc_id k))
               [(''attempt'', JInt (attempt + 1)), (''reason'', JStr (se_code err))])
     (note_event (EvSleep (backoff (sc_step k) attempt)))"

definition error_diagnostic :: "step_call \<Rightarrow> int \<Rightarrow> surface_error \<Rightarrow> bool \<Rightarrow> diagnostic" where
  "error_diagnostic k attempt err dispatched =
     (plain_diagnostic (se_code err))
       \<lparr>dg_phase := phase_of dispatched, dg_dispatch := dispatch_of dispatched,
        dg_step_ordinal := step_ordinal (sc_request k) (Some (sc_id k)),
        dg_action_type := action_kind (st_action (sc_step k)),
        dg_expected_count := count_of (se_expected err),
        dg_observed_count := count_of (se_observed err), dg_attempt := attempt,
        dg_max_attempts := rp_max_attempts (st_retry (sc_step k)),
        dg_retry_allowed := se_code err \<in> set (rp_retry_on (st_retry (sc_step k))),
        dg_recovery_checked := sc_allow_recovery k,
        dg_effect_absent := Some (\<not> dispatched \<or> se_effect_absent err)\<rparr>"

text \<open>The rest of the exception handler, when the step is not tried again.\<close>

definition give_up ::
  "environment \<Rightarrow> step_call \<Rightarrow> flow option run \<Rightarrow> int \<Rightarrow> surface_error \<times> bool \<Rightarrow> flow option run" where
  "give_up E k recovering attempt failed =
     recovery_or k recovering
       (bind_c (lift_c (mk_diagnostic (error_diagnostic k attempt (fst failed) (snd failed)))) (\<lambda>d.
        flow_result (surface_failure E (sc_request k) (Some (sc_session k)) (Some (sc_id k))
          (fst failed) (Some (sc_version k)) (Some d) (sc_allow_intervention k))))"

text \<open>\<open>_execute_step\<close> with at most the given number of further attempts.\<close>

fun attempts ::
  "environment \<Rightarrow> step_call \<Rightarrow> flow option run \<Rightarrow> nat \<Rightarrow> int \<Rightarrow> flow option run" where
  "attempts E k recovering 0 attempt =
     bind_c (attempt_step E k recovering attempt) (\<lambda>r.
     case r of Inr f \<Rightarrow> ret f | Inl failed \<Rightarrow> give_up E k recovering attempt failed)"
| "attempts E k recovering (Suc n) attempt =
     bind_c (attempt_step E k recovering attempt) (\<lambda>r.
     case r of
       Inr f \<Rightarrow> ret f
     | Inl failed \<Rightarrow>
         if can_retry (sc_step k) attempt (fst failed)
         then then_c (schedule_retry E k attempt (fst failed))
                (attempts E k recovering n (attempt + 1))
         else give_up E k recovering attempt failed)"

definition execute_step ::
  "environment \<Rightarrow> step_call \<Rightarrow> flow option run \<Rightarrow> int \<Rightarrow> flow option run" where
  "execute_step E k recovering attempt =
     attempts E k recovering (nat (rp_max_attempts (st_retry (sc_step k)) - attempt)) attempt"

text \<open>The equation of the code: the attempts left never run out before \<open>can_retry\<close> refuses.\<close>

lemma execute_step_eq:
  "execute_step E k recovering attempt =
     bind_c (attempt_step E k recovering attempt) (\<lambda>r.
     case r of
       Inr f \<Rightarrow> ret f
     | Inl failed \<Rightarrow>
         if can_retry (sc_step k) attempt (fst failed)
         then then_c (schedule_retry E k attempt (fst failed))
                (execute_step E k recovering (attempt + 1))
         else give_up E k recovering attempt failed)"
proof (cases "nat (rp_max_attempts (st_retry (sc_step k)) - attempt)")
  case 0
  then have "\<not> can_retry (sc_step k) attempt err" for err
    by (simp add: can_retry_def)
  with 0 show ?thesis by (simp add: execute_step_def cong: sum.case_cong)
next
  case (Suc n)
  then have n: "nat (rp_max_attempts (st_retry (sc_step k)) - (attempt + 1)) = n" by linarith
  show ?thesis unfolding execute_step_def Suc n attempts.simps ..
qed

section \<open>Recovery\<close>

definition recovery_step_call :: "step_call \<Rightarrow> step \<Rightarrow> int \<Rightarrow> step_call" where
  "recovery_step_call k s version =
     k\<lparr>sc_step := s, sc_version := version, sc_allow_recovery := False,
       sc_allow_intervention := False\<rparr>"

text \<open>The loop of \<open>_execute_recovery\<close>: a result ends it, otherwise the lease version is the value.\<close>

fun recovery_loop :: "environment \<Rightarrow> step_call \<Rightarrow> step list \<Rightarrow> int \<Rightarrow> (run_result + int) run" where
  "recovery_loop E k [] version = ret (Inr version)"
| "recovery_loop E k (s # ss) version =
     bind_c (execute_step E (recovery_step_call k s version) (ret None) 1) (\<lambda>r.
     case r of
       Some (FlowResume i v) \<Rightarrow>
         raise (RuntimeError ''nested recovery control flow is not allowed'')
     | Some (FlowResult result) \<Rightarrow> ret (Inl result)
     | None \<Rightarrow> bind_c (heartbeat E (sc_session k) version) (\<lambda>lease.
         recovery_loop E k ss (lease_version lease)))"

definition execute_recovery ::
  "environment \<Rightarrow> step_call \<Rightarrow> recovery \<Rightarrow> (run_result + int) run" where
  "execute_recovery E k r =
     bind_c (heartbeat E (sc_session k) (sc_version k)) (\<lambda>lease.
     recovery_loop E k (rc_steps r) (lease_version lease))"

definition uses_of :: "string \<Rightarrow> int dict \<Rightarrow> int" where
  "uses_of rid uses = (case dict_get uses rid of None \<Rightarrow> 0 | Some n \<Rightarrow> n)"

definition recovery_exhausted :: "environment \<Rightarrow> step_call \<Rightarrow> recovery \<Rightarrow> int \<Rightarrow> flow option run" where
  "recovery_exhausted E k r uses =
     then_c (record_event E ''recovery_exhausted'' (Some (sc_id k))
               [(''recovery_id'', JStr (rc_id r)), (''uses'', JInt uses)])
       (flow_result (fail_at E (sc_request k) ''recovery_exhausted''
          ''A declared recovery did not restore the expected UI state.'' (Some (sc_id k)) True))"

definition run_recovery :: "environment \<Rightarrow> step_call \<Rightarrow> recovery \<Rightarrow> int \<Rightarrow> flow option run" where
  "run_recovery E k r use =
     then_c (record_event E ''recovery_started'' (Some (sc_id k))
               [(''recovery_id'', JStr (rc_id r)), (''use'', JInt use)])
     (bind_c (execute_recovery E k r) (\<lambda>result.
      case result of
        Inl x \<Rightarrow> ret (Some (FlowResult x))
      | Inr version \<Rightarrow>
          then_c (record_event E ''recovery_completed'' (Some (sc_id k))
                    [(''recovery_id'', JStr (rc_id r)), (''resume_at'', JStr (rc_resume_at r))])
            (ret (Some (FlowResume (rc_resume_at r) version)))))"

definition count_use :: "recovery \<Rightarrow> run_state \<Rightarrow> run_state" where
  "count_use r s =
     s\<lparr>rs_uses := dict_set (rc_id r) (uses_of (rc_id r) (rs_uses s) + 1) (rs_uses s)\<rparr>"

definition use_recovery :: "environment \<Rightarrow> step_call \<Rightarrow> recovery \<Rightarrow> flow option run" where
  "use_recovery E k r =
     bind_c (gets (\<lambda>s. uses_of (rc_id r) (rs_uses s))) (\<lambda>uses.
     if rc_max_uses r \<le> uses then recovery_exhausted E k r uses
     else then_c (update (count_use r)) (run_recovery E k r (uses + 1)))"

definition attempt_recovery :: "environment \<Rightarrow> step_call \<Rightarrow> flow option run" where
  "attempt_recovery E k =
     bind_c (matching_refs E (sc_inputs k) rc_trigger (indexed_recoveries (sc_artifact k))
               (st_recovery_refs (sc_step k))) (\<lambda>matching.
     bind_c (at_most_one ''Multiple recovery conditions matched.'' matching) (\<lambda>found.
     case found of None \<Rightarrow> ret None | Some r \<Rightarrow> use_recovery E k r))"

text \<open>A step of the main sequence.\<close>

definition main_step_call ::
  "replay_request \<Rightarrow> string \<Rightarrow> step \<Rightarrow> json_object \<Rightarrow> int \<Rightarrow> step_call" where
  "main_step_call rq sid s inputs version =
     \<lparr>sc_request = rq, sc_session = sid, sc_step = s, sc_inputs = inputs, sc_version = version,
      sc_allow_recovery = True, sc_allow_intervention = True\<rparr>"

definition execute_main_step :: "environment \<Rightarrow> step_call \<Rightarrow> int \<Rightarrow> flow option run" where
  "execute_main_step E k attempt = execute_step E k (attempt_recovery E k) attempt"

end
