(* ===== verification/ReplayRun.thy ===== *)
theory ReplayRun
  imports ReplaySteps
begin

text \<open>
  Whole replays (\<^verbatim>\<open>replay/engine.py\<close>): \<open>execute\<close>, \<open>resume\<close> and \<open>validate_resume\<close>. The
  loop over the steps goes back when a recovery says so; it runs on fuel, and \<open>None\<close> is running
  out of it. The theory of its termination shows that the fuel \<open>execute\<close> and \<open>resume\<close> start with
  is always enough. A continuation's dictionaries of outputs and recovery uses are those of the
  state, where the run left them.
\<close>

section \<open>Completion and retention\<close>

definition contract_message :: "string \<times> string \<Rightarrow> string" where
  "contract_message e = fst e @ '': '' @ snd e"

definition succeed :: "environment \<Rightarrow> replay_request \<Rightarrow> json_object \<Rightarrow> run_result run" where
  "succeed E rq validated =
     then_c (record_event E ''checkpoint_verified'' None [])
     (bind_c (manifest_key E) (\<lambda>manifest.
      lift_c (mk_success (ev_store E)
        \<lparr>su_run_id = rq_run_id rq, su_capability_id = cm_id (art_capability (rq_artifact rq)),
         su_capability_version = cm_version (art_capability (rq_artifact rq)),
         su_outputs = validated, su_checkpoint = cp_id (art_checkpoint (rq_artifact rq)),
         su_manifest = manifest\<rparr>)))"

text \<open>\<open>_complete\<close>.\<close>

definition complete :: "environment \<Rightarrow> replay_request \<Rightarrow> json_object \<Rightarrow> run_result run" where
  "complete E rq inputs =
     bind_c (wait_until E inputs (cp_condition (art_checkpoint (rq_artifact rq))) 10000) (\<lambda>verified.
     if \<not> verified
     then fail_at E rq ''checkpoint_mismatch'' ''The final success checkpoint was not satisfied.''
            None True
     else bind_c (gets (\<lambda>s. validate_object (ev_formats E) (art_outputs (rq_artifact rq))
                              (rs_outputs s) ''$'')) (\<lambda>r.
       case r of
         Inl e \<Rightarrow>
           (case contract_only e of
              None \<Rightarrow> raise e
            | Some c \<Rightarrow> fail_at E rq ''output_validation_failed'' (contract_message c) None True)
       | Inr validated \<Rightarrow> succeed E rq validated))"

definition pop_pause :: "string \<Rightarrow> (bool \<times> int) run" where
  "pop_pause iid =
     bind_c (gets (\<lambda>s. case dict_get (rs_pauses s) iid of None \<Rightarrow> (False, 1) | Some p \<Rightarrow> p)) (\<lambda>p.
     then_c (update (\<lambda>s. s\<lparr>rs_pauses := AList.delete iid (rs_pauses s)\<rparr>)) (ret p))"

text \<open>\<open>_retain_continuation\<close>.\<close>

definition retain_continuation ::
  "environment \<Rightarrow> string \<Rightarrow> replay_request \<Rightarrow> json_object \<Rightarrow> nat \<Rightarrow> unit run" where
  "retain_continuation E iid rq inputs step_index =
     bind_c (pop_pause iid) (\<lambda>(retry_step, retry_attempt).
     if \<not> ev_has_sink E then ret ()
     else bind_c (observe E) (\<lambda>observation.
       bind_c (gets (\<lambda>s.
         \<lparr>cn_intervention = iid, cn_request = rq, cn_inputs = inputs, cn_outputs = rs_outputs s,
          cn_uses = rs_uses s, cn_step_index = int step_index,
          cn_fingerprint = obs_fingerprint observation, cn_retry_step = retry_step,
          cn_retry_attempt = retry_attempt\<rparr>)) (\<lambda>c.
       ask (\<lambda>s. ev_retain E (rs_history s) c) (EvRetain c))))"

definition is_intervention :: "run_result \<Rightarrow> string option" where
  "is_intervention r =
     (case r of InterventionRequiredResult x \<Rightarrow> Some (ir_intervention_id x) | _ \<Rightarrow> None)"

definition set_preserve :: "bool \<Rightarrow> unit run" where
  "set_preserve b = update (\<lambda>s. s\<lparr>rs_preserve := b\<rparr>)"

text \<open>A step has ended the run: an intervention keeps the session and a continuation.\<close>

definition finish_with ::
  "environment \<Rightarrow> replay_request \<Rightarrow> json_object \<Rightarrow> nat \<Rightarrow> run_result \<Rightarrow> run_result run" where
  "finish_with E rq inputs step_index r =
     then_c (set_preserve (is_intervention r \<noteq> None))
     (then_c (case is_intervention r of
         None \<Rightarrow> ret () | Some iid \<Rightarrow> retain_continuation E iid rq inputs step_index)
     (ret r))"

section \<open>The loop over the steps\<close>

definition step_indexes :: "capability_artifact \<Rightarrow> nat dict" where
  "step_indexes a = dict_of_pairs (map (\<lambda>(i, s). (st_id s, i)) (enumerate 0 (art_steps a)))"

text \<open>The attempt a step starts with: 1, but for the step a continuation interrupted.\<close>

fun step_loop ::
  "environment \<Rightarrow> replay_request \<Rightarrow> string \<Rightarrow> json_object \<Rightarrow> (nat \<Rightarrow> int) \<Rightarrow> nat \<Rightarrow> nat \<Rightarrow> int
     \<Rightarrow> run_result option run" where
  "step_loop E rq sid inputs first_attempt 0 i version = ret None"
| "step_loop E rq sid inputs first_attempt (Suc n) i version =
     (if i < length (art_steps (rq_artifact rq))
      then bind_c (execute_main_step E
             (main_step_call rq sid (art_steps (rq_artifact rq) ! i) inputs version)
             (first_attempt i)) (\<lambda>r.
        case r of
          Some (FlowResume target held) \<Rightarrow>
            bind_c (heartbeat E sid held) (\<lambda>lease.
            bind_c (lookup (step_indexes (rq_artifact rq)) target) (\<lambda>j.
            step_loop E rq sid inputs first_attempt n j (lease_version lease)))
        | Some (FlowResult x) \<Rightarrow> bind_c (finish_with E rq inputs i x) (\<lambda>y. ret (Some y))
        | None \<Rightarrow>
            bind_c (heartbeat E sid version) (\<lambda>lease.
            step_loop E rq sid inputs first_attempt n (i + 1) (lease_version lease)))
      else bind_c (complete E rq inputs) (\<lambda>x. ret (Some x)))"

text \<open>
  Every passage through the loop either moves on by one step or goes back after a counted use of
  a recovery, so the uses left times the steps, and the steps left, bound the passages.
\<close>

definition uses_left :: "capability_artifact \<Rightarrow> int dict \<Rightarrow> nat" where
  "uses_left a uses =
     sum_list (map (\<lambda>r. nat (rc_max_uses r - uses_of (rc_id r) uses)) (art_recoveries a))"

definition loop_fuel :: "capability_artifact \<Rightarrow> int dict \<Rightarrow> nat \<Rightarrow> nat" where
  "loop_fuel a uses i =
     uses_left a uses * (length (art_steps a) + 1) + (length (art_steps a) - i) + 1"

section \<open>execute\<close>

definition close_unless_preserved :: "environment \<Rightarrow> unit run" where
  "close_unless_preserved E =
     bind_c (gets (\<lambda>s. rs_session s \<noteq> None \<and> \<not> rs_preserve s)) (\<lambda>b.
     if b then close_session E else ret ())"

text \<open>The handler of surface errors outside a step.\<close>

definition run_handler :: "environment \<Rightarrow> replay_request \<Rightarrow> surface_error \<Rightarrow> run_result option run" where
  "run_handler E rq err =
     bind_c (gets rs_session) (\<lambda>session.
     bind_c (surface_failure E rq session None err None None True) (\<lambda>r.
     then_c (set_preserve (is_intervention r \<noteq> None)) (ret (Some r))))"

definition open_session :: "environment \<Rightarrow> replay_request \<Rightarrow> string run" where
  "open_session E rq =
     (let family = cm_application_family (art_capability (rq_artifact rq));
          entry = co_entry_point (art_compatibility (rq_artifact rq)) in
      bind_c (ask (\<lambda>s. ev_open E (rs_history s) family (rq_tenant rq) entry)
                (EvOpen family (rq_tenant rq) entry)) (\<lambda>sid.
      then_c (update (\<lambda>s. s\<lparr>rs_session := Some sid\<rparr>)) (ret sid)))"

definition run_session ::
  "environment \<Rightarrow> replay_request \<Rightarrow> json_object \<Rightarrow> run_result option run" where
  "run_session E rq inputs =
     then_c (case ev_compatibility E of
         None \<Rightarrow> ret () | Some f \<Rightarrow> ask (\<lambda>s. f (rs_history s)) EvCompatibility)
     (bind_c (open_session E rq) (\<lambda>sid.
      bind_c (create_lease E sid) (\<lambda>lease.
      then_c (record_event E ''replay_started'' None [])
      (then_c (update (\<lambda>s. s\<lparr>rs_outputs := [], rs_uses := []\<rparr>))
      (bind_c (all_c (evaluate E inputs) (art_preconditions (rq_artifact rq))) (\<lambda>ready.
       if \<not> ready
       then bind_c (fail_at E rq ''precondition_mismatch''
              ''A capability precondition was not satisfied.'' None True) (\<lambda>x. ret (Some x))
       else step_loop E rq sid inputs (\<lambda>i. 1) (loop_fuel (rq_artifact rq) [] 0) 0
              (lease_version lease)))))))"

definition execute :: "environment \<Rightarrow> replay_request \<Rightarrow> run_result option run" where
  "execute E rq =
     (case validate_object (ev_formats E) (art_inputs (rq_artifact rq)) (rq_inputs rq) ''$'' of
        Inl e \<Rightarrow>
          (case contract_only e of
             None \<Rightarrow> raise e
           | Some c \<Rightarrow> bind_c (fail_at E rq ''invalid_input'' (contract_message c) None False)
               (\<lambda>x. ret (Some x)))
      | Inr inputs \<Rightarrow>
          if rq_tenant rq \<notin> set (co_supported_variants (art_compatibility (rq_artifact rq)))
          then bind_c (fail_at E rq ''incompatible_tenant''
                 ''Tenant is not supported by this artifact.'' None False) (\<lambda>x. ret (Some x))
          else
            then_c (update (\<lambda>s. s\<lparr>rs_session := None, rs_preserve := False\<rparr>))
            (finally_c (catch_c (run_session E rq inputs) surface_only (run_handler E rq))
               (\<lambda>_. close_unless_preserved E)))"

section \<open>Resuming\<close>

definition assert_continuation :: "continuation \<Rightarrow> unit result" where
  "assert_continuation c =
     (if \<not> (0 \<le> cn_step_index c \<and>
             cn_step_index c < int (length (art_steps (rq_artifact (cn_request c)))))
      then Inl (ValueError ''continuation step index is outside the artifact'')
      else if \<not> (1 \<le> cn_retry_attempt c \<and> cn_retry_attempt c \<le> 5)
      then Inl (ValueError ''continuation attempt is outside the retry budget'')
      else Inr ())"

definition resume_index :: "continuation \<Rightarrow> nat" where
  "resume_index c = nat (cn_step_index c) + (if cn_retry_step c then 0 else 1)"

definition resume ::
  "environment \<Rightarrow> string \<Rightarrow> continuation \<Rightarrow> int \<Rightarrow> business_outcome option \<Rightarrow> run_result option run"
where
  "resume E sid c version outcome =
     then_c (lift_c (assert_continuation c))
     (case outcome of
        Some b \<Rightarrow>
          then_c (close_session E)
          (bind_c (business_outcome_result E (cn_request c) b (cn_inputs c)) (\<lambda>x. ret (Some x)))
      | None \<Rightarrow>
          then_c (update (\<lambda>s. s\<lparr>rs_session := Some sid, rs_preserve := False\<rparr>))
          (finally_c
             (catch_c
                (bind_c (gets (\<lambda>s. loop_fuel (rq_artifact (cn_request c)) (rs_uses s)
                                     (resume_index c))) (\<lambda>n.
                 step_loop E (cn_request c) sid (cn_inputs c)
                   (\<lambda>i. if i = nat (cn_step_index c) then cn_retry_attempt c else 1) n
                   (resume_index c) version))
                surface_only (run_handler E (cn_request c)))
             (\<lambda>_. close_unless_preserved E)))"

section \<open>Validating a resumption\<close>

definition resume_error :: "string \<Rightarrow> string \<Rightarrow> exn" where
  "resume_error code message = ResumeValidationError code message"

definition demand :: "bool \<Rightarrow> string \<Rightarrow> string \<Rightarrow> unit run" where
  "demand b code message = (if b then ret () else raise (resume_error code message))"

definition resume_target ::
  "environment \<Rightarrow> continuation \<Rightarrow> locator_bundle \<Rightarrow> locator_bundle run" where
  "resume_target E c t =
     catch_c (lift_c (bind_target_inputs t (cn_inputs c)
                (Some (art_inputs (rq_artifact (cn_request c)))) (ep_forbidden (ev_policy E))))
       contract_only
       (\<lambda>_. raise (resume_error ''resume_target_forbidden''
               ''The resume target binding is unavailable or forbidden.''))"

definition resume_conditions :: "continuation \<Rightarrow> step \<Rightarrow> condition list" where
  "resume_conditions c s =
     (if cn_retry_step c then st_preconditions s else []) @
     (if cn_retry_step c then [] else st_postconditions s) @
     map bo_detect [b \<leftarrow> art_outcomes (rq_artifact (cn_request c)). bo_code b \<in> set (st_outcome_refs s)]"

definition needed_outputs :: "continuation \<Rightarrow> step \<Rightarrow> string list" where
  "needed_outputs c s = sort (remdups (concat (map condition_outputs (resume_conditions c s))))"

text \<open>The last step up to the interrupted one that extracts the output.\<close>

definition prior_extraction :: "continuation \<Rightarrow> string \<Rightarrow> (step \<times> extract_transform) option" where
  "prior_extraction c out =
     (case find (\<lambda>s. case st_action s of ExtractAction o2 tr \<Rightarrow> o2 = out | _ \<Rightarrow> False)
             (rev (take (nat (cn_step_index c) + 1) (art_steps (rq_artifact (cn_request c))))) of
        None \<Rightarrow> None
      | Some s \<Rightarrow> (case st_action s of ExtractAction o2 tr \<Rightarrow> Some (s, tr) | _ \<Rightarrow> None))"

definition read_again ::
  "environment \<Rightarrow> continuation \<Rightarrow> normalized_observation \<Rightarrow> string \<Rightarrow> unit run" where
  "read_again E c observation out =
     (case prior_extraction c out of
        None \<Rightarrow> raise (resume_error ''resume_output_unavailable'' ''Fresh output is unavailable.'')
      | Some (s, tr) \<Rightarrow>
          (case st_target s of
             None \<Rightarrow> raise (resume_error ''resume_output_unavailable'' ''Fresh output is unavailable.'')
           | Some t \<Rightarrow>
               bind_c (resume_target E c t) (\<lambda>bound.
               bind_c (resolve E bound 2000) (\<lambda>target.
               bind_c (step_policy E (cn_request c) s observation (Some target)) (\<lambda>d.
               then_c (demand (pd_decision d = ALLOW) ''resume_output_forbidden''
                         ''Fresh output is not permitted.'')
               (bind_c (extract_text E target) (\<lambda>v.
                store_output out (transform_extracted_text v tr))))))))"

fun each_c :: "('x \<Rightarrow> unit run) \<Rightarrow> 'x list \<Rightarrow> unit run" where
  "each_c f [] = ret ()"
| "each_c f (x # xs) = then_c (f x) (each_c f xs)"

definition verified_as :: "environment \<Rightarrow> step \<Rightarrow> string \<Rightarrow> unit run" where
  "verified_as E s disposition =
     then_c (attach_handoff_frame E ''handoff-after'')
       (record_event E ''resume_checkpoint_verified'' (Some (st_id s))
          [(''disposition'', JStr disposition)])"

definition validate_retry ::
  "environment \<Rightarrow> continuation \<Rightarrow> step \<Rightarrow> normalized_observation \<Rightarrow> unit run" where
  "validate_retry E c s observation =
     then_c (demand (obs_fingerprint observation \<noteq> cn_fingerprint c) ''resume_state_unchanged''
               ''Restore the blocked interface first.'')
     (bind_c (all_c (evaluate E (cn_inputs c)) (st_preconditions s)) (\<lambda>ready.
      then_c (demand ready ''resume_checkpoint_mismatch'' ''Step readiness is not verified.'')
      (then_c (case st_target s of
           None \<Rightarrow> ret ()
         | Some t \<Rightarrow> bind_c (resume_target E c t) (\<lambda>bound.
             bind_c (resolve E bound 2000) (\<lambda>_. ret ())))
      (verified_as E s ''retry_step''))))"

definition validate_effect ::
  "environment \<Rightarrow> continuation \<Rightarrow> step \<Rightarrow> business_outcome option run" where
  "validate_effect E c s =
     then_c (each_c (\<lambda>p. bind_c (evaluate E (cn_inputs c) p) (\<lambda>b.
               demand b ''resume_identity_mismatch'' ''The selected record identity was not verified.''))
             (identity_conditions s))
     (bind_c (detect_outcome E (rq_artifact (cn_request c)) s (cn_inputs c)) (\<lambda>outcome.
      case outcome of
        Some b \<Rightarrow> then_c (verified_as E s ''business_outcome'') (ret (Some b))
      | None \<Rightarrow>
          then_c (demand (st_postconditions s \<noteq> []) ''resume_checkpoint_missing''
             ''The interrupted step has no declared postcondition for safe resumption.'')
          (bind_c (all_c (\<lambda>p. wait_until E (cn_inputs c) p 2000) (st_postconditions s)) (\<lambda>holds.
           then_c (demand holds ''resume_checkpoint_mismatch''
             ''The human-modified state does not satisfy the interrupted step postcondition.'')
           (bind_c (observe E) (\<lambda>now.
            then_c (demand (obs_fingerprint now \<noteq> cn_fingerprint c) ''resume_state_unchanged''
              ''The retained session has not changed since automation paused.'')
            (then_c (verified_as E s ''continue'') (ret None))))))))"

definition validate_resume ::
  "environment \<Rightarrow> continuation \<Rightarrow> business_outcome option run" where
  "validate_resume E c =
     then_c (lift_c (assert_continuation c))
     (let s = art_steps (rq_artifact (cn_request c)) ! nat (cn_step_index c) in
      bind_c (observe E) (\<lambda>observation.
      then_c (record_event E ''resume_revalidation_started'' (Some (st_id s)) [])
      (bind_c (gets (\<lambda>st. location_allowed (ev_policy E) (ev_origin E (rs_history st))
                           (obs_route observation))) (\<lambda>here.
       then_c (demand here ''resume_location_not_allowed''
          ''The retained session is outside the capability's allowed location.'')
       (then_c (update (\<lambda>st. st\<lparr>rs_outputs := []\<rparr>))
       (then_c (each_c (read_again E c observation) (needed_outputs c s))
       (if cn_retry_step c
        then then_c (validate_retry E c s observation) (ret None)
        else validate_effect E c s)))))))"

end
