(* ===== verification/ReplayLogic.thy ===== *)
theory ReplayLogic
  imports ReplayRun HandoffMachine
begin

text \<open>
  How the properties of a replay are proved. The history is read as an automaton: a lease check
  opens the gate, a policy decision that allows an action permits it, and anything but a journal
  entry after the decision takes the permission away. Locales carry an invariant through the engine:
  \<open>asking_run\<close> and \<open>quiet_run\<close> for the computations that only ask and report, the second with the
  leases and interventions, and \<open>step_run\<close>, which extends it, for the steps, their recoveries and
  retries.
\<close>

section \<open>Permission to act\<close>

datatype permission = Unchecked | Checked | Permitted action_context

definition still_checked :: "permission \<Rightarrow> permission" where
  "still_checked g = (case g of Checked \<Rightarrow> Checked | _ \<Rightarrow> Unchecked)"

definition decided :: "permission \<Rightarrow> action_context \<Rightarrow> policy_decision result \<Rightarrow> permission" where
  "decided g c r =
     (case r of
        Inl e \<Rightarrow> Unchecked
      | Inr d \<Rightarrow> if g = Checked \<and> pd_decision d = ALLOW then Permitted c else Unchecked)"

fun permission_of :: "history \<Rightarrow> permission" where
  "permission_of [] = Unchecked"
| "permission_of (EvCheckLease v r # h) = (case r of Inl e \<Rightarrow> Unchecked | Inr u \<Rightarrow> Checked)"
| "permission_of (EvPolicy c r # h) = decided (permission_of h) c r"
| "permission_of (EvRecord k i d r # h) = permission_of h"
| "permission_of (EvEvaluate c r # h) = still_checked (permission_of h)"
| "permission_of (EvObserve r # h) = still_checked (permission_of h)"
| "permission_of (EvResolve t ms r # h) = still_checked (permission_of h)"
| "permission_of (_ # h) = Unchecked"

definition allowed_by :: "effective_policy \<Rightarrow> action_context \<Rightarrow> bool" where
  "allowed_by p c = (\<exists>did t d. evaluate_policy did t p c = Inr d \<and> pd_decision d = ALLOW)"

text \<open>The action may be dispatched now: the latest decision is about it and allows it.\<close>

definition permitted :: "effective_policy \<Rightarrow> action \<Rightarrow> history \<Rightarrow> bool" where
  "permitted p a h =
     (\<exists>c. permission_of h = Permitted c \<and> ax_action_type c = action_kind a \<and> allowed_by p c)"

text \<open>Every dispatch of a history was permitted when it was made.\<close>

fun safe_history :: "effective_policy \<Rightarrow> history \<Rightarrow> bool" where
  "safe_history p [] = True"
| "safe_history p (EvExecute a t r # h) = (permitted p a h \<and> safe_history p h)"
| "safe_history p (_ # h) = safe_history p h"

text \<open>Events that neither dispatch, open, close or hand over the session, nor ask a model.\<close>

fun quiet :: "event \<Rightarrow> bool" where
  "quiet (EvExecute a t r) = False"
| "quiet (EvOpen f t e r) = False"
| "quiet (EvClose r) = False"
| "quiet (EvRetain c r) = False"
| "quiet (EvModel c) = False"
| "quiet _ = True"

section \<open>Case rules\<close>

lemma keeps_sum [keeping]:
  "(\<And>e. keeps I (f e)) \<Longrightarrow> (\<And>x. keeps I (g x)) \<Longrightarrow> keeps I (case r of Inl e \<Rightarrow> f e | Inr x \<Rightarrow> g x)"
  by (cases r) simp_all

lemma keeps_prod [keeping]: "(\<And>a b. keeps I (f a b)) \<Longrightarrow> keeps I (case p of (a, b) \<Rightarrow> f a b)"
  by (cases p) simp

lemma keeps_gate [keeping]:
  "(\<And>r. keeps I (f r)) \<Longrightarrow> (\<And>x. keeps I (g x)) \<Longrightarrow> keeps I (case g' of Stop r \<Rightarrow> f r | Go x \<Rightarrow> g x)"
  by (cases g') simp_all

lemma keeps_flow [keeping]:
  "(\<And>r. keeps I (f r)) \<Longrightarrow> (\<And>i v. keeps I (g i v)) \<Longrightarrow>
     keeps I (case x of FlowResult r \<Rightarrow> f r | FlowResume i v \<Rightarrow> g i v)"
  by (cases x) simp_all

lemma keeps_decision [keeping]:
  "keeps I a \<Longrightarrow> keeps I b \<Longrightarrow> keeps I c \<Longrightarrow>
     keeps I (case d of ALLOW \<Rightarrow> a | DENY \<Rightarrow> b | REQUIRE_HUMAN_APPROVAL \<Rightarrow> c)"
  by (cases d) simp_all

lemma keeps_at_most_one [keeping]: "keeps I (at_most_one msg vs)"
  by (auto simp: at_most_one_def intro!: keeping split: list.splits)

lemma keeps_lookup [keeping]: "keeps I (lookup d k)"
  unfolding lookup_def by (rule keeps_lift)

lemma keeps_expect [keeping]: "keeps I (expect_condition b)"
  unfolding expect_condition_def by (intro keeping)

lemma keeps_demand [keeping]: "keeps I (demand b code message)"
  unfolding demand_def by (intro keeping)

lemma keeps_each [keeping]: "(\<And>x. keeps I (f x)) \<Longrightarrow> keeps I (each_c f xs)"
  by (induction xs) (auto intro!: keeping)

section \<open>Computations that only ask and report\<close>

locale asking_run =
  fixes I :: "run_state \<Rightarrow> bool"
  assumes quiet_log: "quiet e \<Longrightarrow> I s \<Longrightarrow> I (s\<lparr>rs_history := e # rs_history s\<rparr>)"
begin

lemma keeps_ask [keeping]: "(\<And>r. quiet (ev r)) \<Longrightarrow> keeps I (ask f ev)"
  by (rule keepsI) (simp add: ask_def quiet_log)

lemma keeps_note [keeping]: "quiet e \<Longrightarrow> keeps I (note_event e)"
  by (rule keepsI) (simp add: note_event_def update_def quiet_log)

lemma keeps_ports [keeping]:
  "keeps I (check_lease E sid v)"
  "keeps I (evaluate E inputs c)" "keeps I (wait_until E inputs c ms)" "keeps I (observe E)"
  "keeps I (resolve E t ms)" "keeps I (extract_text E target)"
  "keeps I (record_event E kind step_id details)" "keeps I (manifest_key E)"
  "keeps I (attach_screenshot E shot b rt)"
  unfolding check_lease_def evaluate_def wait_until_def observe_def
    resolve_def extract_text_def record_event_def manifest_key_def attach_screenshot_def
  by (intro keeping; simp)+

lemma keeps_frames [keeping]:
  "keeps I (attach_handoff_frame E kind)" "keeps I (attach_failure_frame E)"
  "keeps I (capture_failure_frame E b frame)"
  unfolding attach_handoff_frame_def attach_failure_frame_def capture_failure_frame_def
  by (intro keeping; simp)+

lemma keeps_failure [keeping]:
  "keeps I (failure E rq code msg rec step_id ex ob ses dg frame)"
  "keeps I (fail_at E rq code msg step_id ses)"
  unfolding fail_at_def failure_def by (intro keeping)+

lemma keeps_step_policy [keeping]: "keeps I (step_policy E rq s observation target)"
  unfolding step_policy_def by (intro keeping; simp)

end

locale quiet_run = asking_run +
  fixes E :: environment
  assumes quiet_store: "handoff_step (ev_ttl E) (rs_store s) st \<Longrightarrow> I s \<Longrightarrow> I (s\<lparr>rs_store := st\<rparr>)"
    and quiet_pauses: "I s \<Longrightarrow> I (s\<lparr>rs_pauses := ps\<rparr>)"
begin

lemma keeps_ask_lease:
  assumes "\<And>r. quiet (ev r)"
    and "\<And>s l ls. f s = Inr (l, ls) \<Longrightarrow> handoff_step (ev_ttl E) (rs_store s) ((rs_store s)\<lparr>hs_leases := ls\<rparr>)"
  shows "keeps I (ask_lease f ev)"
proof (rule keepsI)
  fix s
  assume I: "I s"
  show "I (snd (ask_lease f ev s))"
  proof (cases "f s")
    case (Inl e)
    then show ?thesis using quiet_log[OF assms(1) I] by (simp add: ask_lease_def)
  next
    case (Inr p)
    obtain l ls where p: "p = (l, ls)" by fastforce
    have "handoff_step (ev_ttl E) (rs_store (s\<lparr>rs_history := ev (Inr l) # rs_history s\<rparr>))
        ((rs_store s)\<lparr>hs_leases := ls\<rparr>)"
      using assms(2)[OF Inr[unfolded p]] by simp
    from quiet_store[OF this quiet_log[OF assms(1) I]] show ?thesis
      by (simp add: ask_lease_def Inr p)
  qed
qed

lemma keeps_leases [keeping]: "keeps I (create_lease E sid)" "keeps I (heartbeat E sid v)"
  unfolding create_lease_def heartbeat_def
  by (rule keeps_ask_lease, simp, auto simp: Let_def intro: hs_create hs_heartbeat)+

lemma keeps_route [keeping]:
  "keeps I (route_intervention E rq iid sid v code step_id observation ctx expl)"
proof (rule keepsI)
  fix s
  assume I: "I s"
  let ?ro = "router_open (ev_ttl E) (ev_clock E (rs_history s) 0) (ev_clock E (rs_history s) 1)
    (ev_clock E (rs_history s) 2) (rs_store s) iid (rq_run_id rq) sid v code step_id observation
    ctx expl"
  show "I (snd (route_intervention E rq iid sid v code step_id observation ctx expl s))"
  proof (cases ?ro)
    case (Inl e)
    then show ?thesis
      using quiet_log[OF _ I] by (simp add: route_intervention_def Let_def)
  next
    case (Inr p)
    obtain routed st where p: "p = (routed, st)" by fastforce
    let ?t = "s\<lparr>rs_history := EvRoute iid code v (Inr routed) # rs_history s\<rparr>"
    from Inr p have "handoff_step (ev_ttl E) (rs_store ?t) st" by (auto intro: hs_open)
    from quiet_store[OF this quiet_log[OF _ I]] show ?thesis
      by (simp add: route_intervention_def Let_def Inr p del: One_nat_def)
  qed
qed

lemma keeps_pauses [keeping]: "keeps I (update (\<lambda>s. s\<lparr>rs_pauses := f s\<rparr>))"
  by (rule keepsI) (simp add: update_def quiet_pauses)

lemma keeps_intervene [keeping]:
  "keeps I (intervene E rq sid step_id code observation v expl retry_step retry_attempt dg)"
  unfolding intervene_def by (intro keeping)

lemma keeps_surface_failure [keeping]:
  "keeps I (surface_failure E rq sid step_id err v dg allow)"
  unfolding surface_failure_def Let_def by (intro keeping)

lemma keeps_matching [keeping]: "keeps I (matching_refs E inputs detect indexed codes)"
  by (induction codes) (auto intro!: keeping)

lemma keeps_branches [keeping]:
  "keeps I (detect_outcome E a s inputs)" "keeps I (detect_failure E a s inputs)"
  "keeps I (application_failure_result E rq step_id af)"
  "keeps I (business_outcome_result E rq b inputs)"
  unfolding detect_outcome_def detect_failure_def application_failure_result_def
    business_outcome_result_def by (intro keeping)+

lemma keeps_stop [keeping]:
  "keeps I m \<Longrightarrow> keeps I (stop_with m)" "keeps I m \<Longrightarrow> keeps I (flow_result m)"
  unfolding stop_with_def flow_result_def by (intro keeping; assumption)+

lemma keeps_bind_target [keeping]: "keeps I (bind_step_target E k)"
  unfolding bind_step_target_def by (intro keeping)

lemma keeps_decide [keeping]: "keeps I (decide_step E k observation target d)"
  unfolding decide_step_def by (intro keeping)

lemma keeps_gate_step [keeping]: "keeps I (gate_step E k)"
  unfolding gate_step_def by (intro keeping)

lemma keeps_checks [keeping]:
  "keeps I (identity_check E k c)" "keeps I (effect_missing E k attempt c)"
  "keeps I (schedule_retry E k attempt err)"
  unfolding identity_check_def effect_missing_def schedule_retry_def by (intro keeping; simp)+

lemma keeps_or [keeping]:
  "keeps I m \<Longrightarrow> keeps I (outcome_or E k m)" "keeps I m \<Longrightarrow> keeps I (failure_or E k m)"
  "keeps I n \<Longrightarrow> keeps I m \<Longrightarrow> keeps I (recovery_or k n m)"
  unfolding outcome_or_def failure_or_def recovery_or_def by (intro keeping; assumption)+

lemma keeps_settle [keeping]:
  assumes "keeps I recovering"
  shows "keeps I (effect_check E k attempt recovering c)" "keeps I (settle E k attempt recovering)"
    "keeps I (give_up E k recovering attempt failed)"
  unfolding settle_def effect_check_def give_up_def by (intro keeping assms)+

lemma keeps_complete [keeping]: "keeps I (succeed E rq outs)" "keeps I (complete E rq inputs)"
  unfolding succeed_def complete_def by (intro keeping)+

end

section \<open>How a step may end a run\<close>

text \<open>An open intervention under the identifier, with its session's lease paused for it.\<close>

definition held :: "string \<Rightarrow> run_state \<Rightarrow> bool" where
  "held iid s =
     (\<exists>i l. dict_get (hs_interventions (rs_store s)) iid = Some i \<and> int_id i = iid \<and>
        int_status i = OPEN \<and> hs_leases (rs_store s) (int_session_id i) = Some l \<and>
        lease_owner l = PAUSED_OWNER \<and> lease_intervention l = Some iid)"

text \<open>
  Where a run that stops now is to go on: the step again when the diagnostic just recorded says
  that its action was not dispatched, with the attempt it names; otherwise the step is not done
  again.
\<close>

definition noted_point :: "history \<Rightarrow> bool \<times> int" where
  "noted_point h =
     (case h of
        EvRecord kind i details r # h' \<Rightarrow>
          if kind = ''execution_diagnostic''
          then (map_of details ''phase'' = Some (JStr ''before_dispatch''),
                case map_of details ''attempt'' of Some (JInt n) \<Rightarrow> n | _ \<Rightarrow> 1)
          else (False, 1)
      | _ \<Rightarrow> (False, 1))"

text \<open>
  The run has just stopped at the step of that identifier: the screen was attached to the journal,
  the intervention routed and recorded, and the point to go on from is the one noted before that.
\<close>

definition paused :: "string \<Rightarrow> intervention_result \<Rightarrow> run_state \<Rightarrow> bool" where
  "paused i x s =
     (\<exists>code v frame h.
        rs_history s = EvRecord ''intervention_required'' (Some i) [] (Inr ()) #
          EvRoute (ir_intervention_id x) code v (Inr (ir_intervention_id x)) #
          EvAttach ''handoff-before'' RETAIN_HUMAN_AUDIT (Inr ()) # EvFrame (Inr frame) # h \<and>
        dict_get (rs_pauses s) (ir_intervention_id x) = Some (noted_point h) \<and>
        ir_code x = trim code \<and> ir_step_id x = Some (trim i))"

text \<open>
  A step never ends a run in success, and with an intervention only when it may ask for one, the
  intervention is held and the run has paused at that very step.
\<close>

definition terminal :: "string option \<Rightarrow> run_result \<Rightarrow> run_state \<Rightarrow> bool" where
  "terminal a r s =
     (case r of
        SuccessResult x \<Rightarrow> False
      | InterventionRequiredResult x \<Rightarrow>
          (case a of None \<Rightarrow> False | Some i \<Rightarrow> held (ir_intervention_id x) s \<and> paused i x s)
      | _ \<Rightarrow> True)"

lemma terminal_any: "terminal None r s \<Longrightarrow> terminal a r s"
  by (simp add: terminal_def split: run_result.splits)

definition ends :: "string option \<Rightarrow> run_result run \<Rightarrow> bool" where
  "ends a m = triple (\<lambda>s. True) m (terminal a) (\<lambda>e s. True)"

named_theorems ending \<open>computations of terminal results\<close>

lemma ends_bind [ending]: "(\<And>x. ends a (f x)) \<Longrightarrow> ends a (bind_c m f)"
  unfolding ends_def by (rule triple_bind[OF triple_any])

lemma ends_then [ending]: "ends a k \<Longrightarrow> ends a (then_c m k)"
  unfolding then_c_def by (rule ends_bind)

lemma ends_if [ending]: "ends a m \<Longrightarrow> ends a n \<Longrightarrow> ends a (if b then m else n)"
  by simp

lemma ends_option [ending]:
  "ends a m \<Longrightarrow> (\<And>y. ends a (f y)) \<Longrightarrow> ends a (case x of None \<Rightarrow> m | Some y \<Rightarrow> f y)"
  by (cases x) simp_all

lemma ends_prod [ending]: "(\<And>x y. ends a (f x y)) \<Longrightarrow> ends a (case p of (x, y) \<Rightarrow> f x y)"
  by (cases p) simp

lemma ends_lift: "(\<And>r s. x = Inr r \<Longrightarrow> terminal a r s) \<Longrightarrow> ends a (lift_c x)"
  unfolding ends_def by (rule triple_pre[OF triple_lift]) simp

lemma ends_failure [ending]:
  "ends a (failure E rq code msg rec step_id ex ob ses dg frame)"
  "ends a (fail_at E rq code msg step_id ses)"
  unfolding fail_at_def failure_def
  by (intro ending ends_lift; auto simp: mk_failure_def Let_def bind_r_Inr_iff terminal_def
        split: if_splits)+

lemma ends_branches [ending]:
  "ends a (application_failure_result E rq step_id af)" "ends a (business_outcome_result E rq b inputs)"
  unfolding application_failure_result_def business_outcome_result_def
  by (intro ending ends_lift; auto simp: mk_outcome_def Let_def bind_r_Inr_iff terminal_def
        split: if_splits)+

lemma trim_plain: "list_all (\<lambda>c. \<not> is_white_space c) s \<Longrightarrow> trim s = s"
proof -
  assume plain: "list_all (\<lambda>c. \<not> is_white_space c) s"
  have keep: "dropWhile is_white_space t = t" if "list_all (\<lambda>c. \<not> is_white_space c) t" for t
    using that by (cases t) auto
  from plain have "list_all (\<lambda>c. \<not> is_white_space c) (rev s)" by (simp add: list_all_iff)
  with plain show ?thesis by (simp add: trim_def keep)
qed

lemma trim_id:
  assumes "is_id k v"
  shows "trim v = v"
proof (rule trim_plain)
  from assms obtain h where v: "v = new_id h k" and h: "is_hex 32 h" by (auto simp: is_id_iff)
  have "\<not> list_ex is_white_space hex_digits" by code_simp
  with h have "list_all (\<lambda>c. \<not> is_white_space c) h" by (auto simp: is_hex_def list_all_iff list_ex_iff)
  moreover have "\<not> list_ex is_white_space (entity_prefix k @ ''_'')"
    by (cases k; hypsubst; code_simp)
  ultimately show "list_all (\<lambda>c. \<not> is_white_space c) v" by (auto simp: v new_id_def list_all_iff list_ex_iff)
qed

lemma route_held:
  "triple (\<lambda>s. True) (route_intervention E rq iid sid v code step_id ob ctx expl)
     (\<lambda>routed s. routed = iid \<and> is_id INTERVENTION iid \<and> held iid s) (\<lambda>e s. True)"
proof (rule tripleI)
  fix s t :: run_state and routed
  let ?now = "ev_clock E (rs_history s)"
  assume run: "route_intervention E rq iid sid v code step_id ob ctx expl s = (Inr routed, t)"
  obtain st where op: "router_open (ev_ttl E) (?now 0) (?now 1) (?now 2) (rs_store s) iid
        (rq_run_id rq) sid v code step_id ob ctx expl = Inr (routed, st)" and t: "rs_store t = st"
    using run by (auto simp: route_intervention_def Let_def split: sum.splits)
  define i where "i = opened_intervention iid (rq_run_id rq) sid (?now 0) code step_id ctx expl"
  obtain cur l where r: "routed = iid" "intervention_ok i"
      "prepare_transfer (ev_ttl E) (?now 1) (?now 2) cur v AUTOMATION_OWNER PAUSED_OWNER (Some iid) True = Inr l"
      "tr_create_paused (rs_store s) i ob v AUTOMATION_OWNER l = Inr ((i, l), st)"
    using router_open_Inr[OF op] unfolding i_def by blast
  from r(3) have "lease_owner l = PAUSED_OWNER" "lease_intervention l = Some iid"
    unfolding prepare_transfer_Inr by auto
  moreover have "int_id i = iid" "int_status i = OPEN" "int_session_id i = sid"
    by (simp_all add: i_def opened_intervention_def)
  moreover from this r(2) have "is_id INTERVENTION iid" by (simp add: intervention_ok_def)
  ultimately show "routed = iid \<and> is_id INTERVENTION iid \<and> held iid t"
    using r(1,4) t unfolding create_paused_Inr by (auto simp: held_def)
qed simp

lemma held_irrelevant [simp]:
  "held iid (s\<lparr>rs_history := h\<rparr>) = held iid s" "held iid (s\<lparr>rs_pauses := p\<rparr>) = held iid s"
  "held iid (s\<lparr>rs_preserve := b\<rparr>) = held iid s"
  by (simp_all add: held_def)

lemma ask_held: "keeps (held iid) (ask f ev)"
  by (rule keepsI) (simp add: ask_def)

text \<open>The screen attached, with the events before it.\<close>

definition framed :: "bool \<times> int \<Rightarrow> history \<Rightarrow> bool" where
  "framed p h =
     (\<exists>frame h'. h = EvAttach ''handoff-before'' RETAIN_HUMAN_AUDIT (Inr ()) #
        EvFrame (Inr frame) # h' \<and> noted_point h' = p)"

lemma frame_framed:
  "triple (\<lambda>s. noted_point (rs_history s) = p) (attach_handoff_frame E ''handoff-before'')
     (\<lambda>_ s. framed p (rs_history s)) (\<lambda>_ _. True)"
  by (rule tripleI)
     (auto simp: attach_handoff_frame_def attach_screenshot_def ask_def bind_c_def lift_c_def
        framed_def split: sum.splits)

lemma diagnostic_noted:
  "triple (\<lambda>s. True) (record_event E ''execution_diagnostic'' step_id (safe_payload d))
     (\<lambda>_ s. noted_point (rs_history s) = (dg_phase d = BEFORE_DISPATCH, dg_attempt d))
     (\<lambda>_ _. True)"
  by (rule tripleI)
     (cases "dg_phase d"; simp add: record_event_def ask_def noted_point_def safe_payload_def
        optional_field_def split: option.splits)

text \<open>The route asked for, in the history.\<close>

definition routed_after :: "string \<Rightarrow> string \<Rightarrow> bool \<times> int \<Rightarrow> run_state \<Rightarrow> bool" where
  "routed_after iid code p s =
     (is_id INTERVENTION iid \<and> held iid s \<and>
      (\<exists>v h. rs_history s = EvRoute iid code v (Inr iid) # h \<and> framed p h))"

lemma route_routed:
  "triple (\<lambda>s. framed p (rs_history s)) (route_intervention E rq iid sid v code step_id ob ctx expl)
     (\<lambda>routed s. routed = iid \<and> routed_after iid code p s) (\<lambda>_ _. True)"
proof (rule tripleI)
  fix s t :: run_state and routed
  assume f: "framed p (rs_history s)"
    and run: "route_intervention E rq iid sid v code step_id ob ctx expl s = (Inr routed, t)"
  from tripleD(1)[OF route_held TrueI run]
  have r: "routed = iid" "is_id INTERVENTION iid" "held iid t" by blast+
  have "rs_history t = EvRoute iid code v (Inr routed) # rs_history s"
    using run by (auto simp: route_intervention_def Let_def split: sum.splits)
  with r f show "routed = iid \<and> routed_after iid code p t" by (auto simp: routed_after_def)
qed simp

text \<open>The answer, once the intervention is routed.\<close>

lemma pause_triple:
  "triple (routed_after iid code p)
     (then_c (update (\<lambda>s. s\<lparr>rs_pauses := dict_set iid p (rs_pauses s)\<rparr>))
     (then_c (record_event E ''intervention_required'' (Some i) [])
     (lift_c (mk_intervention_required
        \<lparr>ir_run_id = run, ir_intervention_id = iid, ir_code = code, ir_step_id = Some i\<rparr>))))
     (terminal (Some i)) (\<lambda>_ _. True)"
proof (rule triple_then)
  let ?R = "\<lambda>s. routed_after iid code p s \<and> dict_get (rs_pauses s) iid = Some p"
  show "triple (routed_after iid code p)
      (update (\<lambda>s. s\<lparr>rs_pauses := dict_set iid p (rs_pauses s)\<rparr>)) (\<lambda>_. ?R) (\<lambda>_ _. True)"
    by (rule triple_pre[OF triple_update]) (simp add: routed_after_def)
  let ?S = "\<lambda>s. is_id INTERVENTION iid \<and> held iid s \<and> dict_get (rs_pauses s) iid = Some p \<and>
      (\<exists>v h. rs_history s = EvRecord ''intervention_required'' (Some i) [] (Inr ()) #
         EvRoute iid code v (Inr iid) # h \<and> framed p h)"
  have recorded: "triple ?R (record_event E ''intervention_required'' (Some i) []) (\<lambda>_. ?S) (\<lambda>_ _. True)"
    by (rule tripleI) (auto simp: record_event_def ask_def routed_after_def)
  have answer: "triple ?S (lift_c (mk_intervention_required
        \<lparr>ir_run_id = run, ir_intervention_id = iid, ir_code = code, ir_step_id = Some i\<rparr>))
      (terminal (Some i)) (\<lambda>_ _. True)"
    by (rule triple_pre[OF triple_lift])
       (auto simp: mk_intervention_required_def Let_def terminal_def paused_def framed_def trim_id
          split: if_splits)
  show "triple ?R (then_c (record_event E ''intervention_required'' (Some i) [])
      (lift_c (mk_intervention_required
        \<lparr>ir_run_id = run, ir_intervention_id = iid, ir_code = code, ir_step_id = Some i\<rparr>)))
      (terminal (Some i)) (\<lambda>_ _. True)"
    by (rule triple_then[OF recorded answer])
qed

text \<open>The point of a pause: the diagnostic's, or the one noted before.\<close>

definition pause_of :: "diagnostic option \<Rightarrow> bool \<times> int" where
  "pause_of dg = (case dg of None \<Rightarrow> (False, 1) | Some d \<Rightarrow> (dg_phase d = BEFORE_DISPATCH, dg_attempt d))"

lemma intervene_ends:
  assumes "(retry_step, retry_attempt) = pause_of dg"
  shows "triple (\<lambda>s. dg = None \<longrightarrow> noted_point (rs_history s) = (False, 1))
     (intervene E rq sid (Some i) code ob v expl retry_step retry_attempt dg)
     (terminal (Some i)) (\<lambda>_ _. True)"
proof -
  let ?P = "\<lambda>s. dg = None \<longrightarrow> noted_point (rs_history s) = (False, 1)"
  have noted: "triple ?P (case dg of
        None \<Rightarrow> ret () | Some d \<Rightarrow> record_event E ''execution_diagnostic'' (Some i) (safe_payload d))
      (\<lambda>_ s. noted_point (rs_history s) = pause_of dg) (\<lambda>_ _. True)"
  proof (cases dg)
    case None
    then show ?thesis by (auto intro!: triple_pre[OF triple_ret] simp: pause_of_def)
  next
    case (Some d)
    then show ?thesis using triple_pre[OF diagnostic_noted] by (simp add: pause_of_def)
  qed
  have fresh: "triple (\<lambda>s. framed p (rs_history s)) (gets f) (\<lambda>_ s. framed p (rs_history s)) (\<lambda>_ _. True)"
    for p and f :: "run_state \<Rightarrow> string"
    by (rule triple_pre[OF triple_gets])
  have build: "triple (\<lambda>s. framed p (rs_history s)) (lift_c y) (\<lambda>_ s. framed p (rs_history s)) (\<lambda>_ _. True)"
    for p and y :: "intervention_context result"
    by (rule triple_pre[OF triple_lift]) simp
  have rest: "triple (\<lambda>s. routed = iid \<and> routed_after iid code p s)
      (if routed \<noteq> iid
       then raise (RuntimeError ''intervention router must preserve the reserved identity'')
       else then_c (update (\<lambda>s. s\<lparr>rs_pauses := dict_set iid p (rs_pauses s)\<rparr>))
          (then_c (record_event E ''intervention_required'' (Some i) [])
          (lift_c (mk_intervention_required
             \<lparr>ir_run_id = rq_run_id rq, ir_intervention_id = iid, ir_code = code,
              ir_step_id = Some i\<rparr>)))) (terminal (Some i)) (\<lambda>_ _. True)" for routed iid p
    by (cases "routed = iid")
       (auto intro!: triple_pre[OF pause_triple] tripleI)
  show ?thesis
  proof (cases "rq_allow_intervention rq")
    case True
    show ?thesis
      unfolding intervene_def assms using True
      by (simp del: if_not_P)
         (rule triple_then[OF noted], rule triple_then[OF frame_framed], rule triple_bind[OF fresh],
          rule triple_bind[OF build], rule triple_bind[OF route_routed], rule rest[simplified])
  next
    case False
    have "triple (\<lambda>s. True) (fail_at E rq code ''Unattended validation stopped at an intervention boundary.''
        (Some i) True) (terminal (Some i)) (\<lambda>_ _. True)"
      using ends_failure(2)[of "Some i"] by (simp add: ends_def)
    from triple_pre[OF this] show ?thesis by (simp add: intervene_def False)
  qed
qed

lemma surface_failure_ends:
  "ends (if allow then Some i else None) (surface_failure E rq sid (Some i) err v (Some d) allow)"
proof -
  have asking: "ends (Some i) (intervene E rq session (Some i) code ob held expl
      (dg_phase d = BEFORE_DISPATCH) (dg_attempt d) (Some d))" for session code ob held expl
    unfolding ends_def
    by (rule triple_pre[OF intervene_ends]) (simp_all add: pause_of_def)
  show ?thesis
  proof (cases allow)
    case True
    show ?thesis
      unfolding surface_failure_def Let_def if_P[OF True] option.case by (intro ending asking)
  next
    case False
    have never: "(False \<and> b) = False" for b by simp
    from False have allow: "allow = False" by simp
    show ?thesis
      unfolding surface_failure_def Let_def allow never if_False by (intro ending)
  qed
qed

section \<open>The gate grants the permission\<close>

definition checked :: "run_state \<Rightarrow> bool" where
  "checked s = (permission_of (rs_history s) = Checked)"

lemma ask_keeps_checked: "(\<And>r h. permission_of (ev r # h) = still_checked (permission_of h)) \<Longrightarrow> keeps checked (ask f ev)"
  by (rule keepsI) (simp add: ask_def checked_def still_checked_def)

lemma keeps_checked [keeping]:
  "keeps checked (evaluate E inputs c)" "keeps checked (observe E)" "keeps checked (resolve E t ms)"
  "keeps checked (bind_step_target E k)"
  unfolding evaluate_def observe_def resolve_def bind_step_target_def
  by (rule ask_keeps_checked, simp)+ (intro keeping)

lemma check_lease_checked: "triple (\<lambda>s. True) (check_lease E sid v) (\<lambda>_. checked) (\<lambda>_ _. True)"
  by (rule tripleI) (auto simp: check_lease_def ask_def checked_def split: sum.splits)

definition permission_for :: "environment \<Rightarrow> step_call \<Rightarrow> policy_decision \<Rightarrow> run_state \<Rightarrow> bool" where
  "permission_for E k d s =
     (pd_decision d = ALLOW \<longrightarrow> permitted (ev_policy E) (st_action (sc_step k)) (rs_history s))"

lemma step_policy_permits:
  "triple checked (step_policy E rq (sc_step k) observation target) (permission_for E k) (\<lambda>_ _. True)"
  unfolding step_policy_def
proof (rule triple_bind)
  let ?ctx = "step_context E rq (sc_step k) observation target"
  show "triple checked (gets (\<lambda>st. ?ctx (ev_origin E (rs_history st))))
      (\<lambda>c s. checked s \<and> ax_action_type c = action_kind (st_action (sc_step k))) (\<lambda>_ _. True)"
    by (rule tripleI) (auto simp: gets_def step_context_def)
  show "triple (\<lambda>s. checked s \<and> ax_action_type c = action_kind (st_action (sc_step k)))
      (ask (\<lambda>st. evaluate_policy (new_id (ev_uuid E (rs_history st)) DECISION)
         (utc (ev_clock E (rs_history st) 0)) (ev_policy E) c) (EvPolicy c))
      (permission_for E k) (\<lambda>_ _. True)" for c
    by (rule tripleI)
       (auto simp: ask_def permission_for_def permitted_def checked_def decided_def allowed_by_def)
qed

lemma record_keeps_permission: "keeps (permission_for E k d) (record_event E kind step_id details)"
  by (rule keepsI) (simp add: record_event_def ask_def permission_for_def permitted_def)

text \<open>The step that a call may pause the run at.\<close>

definition asks :: "step_call \<Rightarrow> string option" where
  "asks k = (if sc_allow_intervention k then Some (sc_id k) else None)"

lemma ends_step_failure [ending]:
  "ends (asks k) (surface_failure E rq sid (Some (sc_id k)) err v (Some d) (sc_allow_intervention k))"
  unfolding asks_def by (rule surface_failure_ends)

definition go_permitted :: "environment \<Rightarrow> step_call \<Rightarrow> 'a gate \<Rightarrow> run_state \<Rightarrow> bool" where
  "go_permitted E k g s =
     (case g of
        Stop r \<Rightarrow> terminal (asks k) r s
      | Go t \<Rightarrow> permitted (ev_policy E) (st_action (sc_step k)) (rs_history s))"

lemma stop_permitted: "ends (asks k) m \<Longrightarrow> triple P (stop_with m) (go_permitted E k) (\<lambda>_ _. True)"
  unfolding stop_with_def ends_def
  by (rule triple_bind[OF triple_pre], assumption, simp, rule triple_pre[OF triple_ret])
     (simp add: go_permitted_def)

lemma triple_weak: "keeps I m \<Longrightarrow> triple I m (\<lambda>_. I) (\<lambda>_ _. True)"
  by (rule triple_conseq[OF triple_keeps]) simp_all

text \<open>The decision is in the journal, so no diagnostic is the latest event.\<close>

definition judged :: "environment \<Rightarrow> step_call \<Rightarrow> policy_decision \<Rightarrow> run_state \<Rightarrow> bool" where
  "judged E k d s = (permission_for E k d s \<and> noted_point (rs_history s) = (False, 1))"

lemma record_judged:
  "kind \<noteq> ''execution_diagnostic'' \<Longrightarrow>
     triple (permission_for E k d) (record_event E kind step_id details) (\<lambda>_. judged E k d) (\<lambda>_ _. True)"
  by (rule tripleI)
     (auto simp: record_event_def ask_def permission_for_def permitted_def judged_def noted_point_def)

lemma decide_permitted:
  "triple (judged E k d) (decide_step E k observation target d) (go_permitted E k) (\<lambda>_ _. True)"
proof (cases "pd_decision d")
  case ALLOW
  have "triple (judged E k d)
      (then_c (record_event E ''action_intent'' (Some (sc_id k)) []) (ret (Go target)))
      (go_permitted E k) (\<lambda>_ _. True)"
    by (rule triple_pre[where P = "permission_for E k d"], rule triple_then[where R = "permission_for E k d"],
        rule triple_weak[OF record_keeps_permission], rule triple_pre[OF triple_ret])
       (simp_all add: go_permitted_def permission_for_def ALLOW judged_def)
  then show ?thesis by (simp add: decide_step_def ALLOW)
next
  case REQUIRE_HUMAN_APPROVAL
  have "triple (judged E k d) (stop_with (intervene E (sc_request k) (sc_session k) (Some (sc_id k))
      (pd_reason_code d) observation (sc_version k) (Some (pd_explanation d)) False 1 None)
        :: resolved_target option gate run)
      (go_permitted E k) (\<lambda>_ _. True)" if "sc_allow_intervention k"
    unfolding stop_with_def
    by (rule triple_bind[OF triple_pre[OF intervene_ends]], simp add: pause_of_def,
        simp add: judged_def, rule triple_pre[OF triple_ret])
       (simp add: go_permitted_def asks_def that)
  moreover have "triple (judged E k d) (stop_with (fail_at E (sc_request k) ''recovery_requires_human''
      ''A recovery action requires human approval and cannot run autonomously.'' (Some (sc_id k)) True)
        :: resolved_target option gate run) (go_permitted E k) (\<lambda>_ _. True)"
    by (intro stop_permitted ending)
  ultimately show ?thesis by (simp add: decide_step_def REQUIRE_HUMAN_APPROVAL)
qed (auto simp: decide_step_def intro!: stop_permitted ending)

lemma gate_permits: "triple (\<lambda>s. True) (gate_step E k) (go_permitted E k) (\<lambda>_ _. True)"
proof -
  have after: "triple checked (bind_c (step_policy E (sc_request k) (sc_step k) ob t) (\<lambda>d.
      then_c (record_event E ''policy_evaluated'' (Some (sc_id k))
                [(''decision'', JStr (decision_value (pd_decision d))),
                 (''reason'', JStr (pd_reason_code d))])
        (decide_step E k ob t d))) (go_permitted E k) (\<lambda>_ _. True)" for ob t
    by (rule triple_bind[OF step_policy_permits], rule triple_then,
        rule record_judged, simp, rule decide_permitted)
  have resolving: "keeps checked (case bound of None \<Rightarrow> ret None
      | Some b \<Rightarrow> bind_c (resolve E b ms) (\<lambda>t. ret (Some t)))" for bound ms
    by (intro keeping)
  have ready: "keeps checked (all_c (evaluate E (sc_inputs k)) cs)" for cs
    by (intro keeping)
  show ?thesis
    unfolding gate_step_def
    by (rule triple_then[OF check_lease_checked], rule triple_bind[OF triple_weak[OF ready]],
        rule triple_pre[OF triple_if], rule stop_permitted[where P = "\<lambda>_. True"], rule ends_failure,
        rule triple_bind[OF triple_weak], rule keeps_checked,
        rule triple_bind[OF triple_weak], rule keeps_checked,
        rule triple_bind[OF triple_weak[OF resolving]], rule after) simp
qed

section \<open>Steps that go back\<close>

text \<open>
  A computation of a flow that keeps \<open>I\<close>, and ends in \<open>J\<close> when it goes back to a step.
\<close>

definition flow_post ::
  "string option \<Rightarrow> (run_state \<Rightarrow> bool) \<Rightarrow> (string \<Rightarrow> int \<Rightarrow> run_state \<Rightarrow> bool) \<Rightarrow> flow option \<Rightarrow> run_state \<Rightarrow> bool"
where
  "flow_post a I J f s =
     (case f of
        None \<Rightarrow> I s
      | Some (FlowResult r) \<Rightarrow> I s \<and> terminal a r s
      | Some (FlowResume i v) \<Rightarrow> J i v s)"

lemma flow_post_simps [simp]:
  "flow_post a I J None s = I s" "flow_post a I J (Some (FlowResult r)) s = (I s \<and> terminal a r s)"
  "flow_post a I J (Some (FlowResume i v)) s = J i v s"
  by (simp_all add: flow_post_def)

definition flows ::
  "string option \<Rightarrow> (run_state \<Rightarrow> bool) \<Rightarrow> (string \<Rightarrow> int \<Rightarrow> run_state \<Rightarrow> bool) \<Rightarrow> flow option run \<Rightarrow> bool" where
  "flows a I J m = triple I m (flow_post a I J) (\<lambda>_. I)"

named_theorems flowing \<open>flow computations, by construct\<close>

lemma flows_keeps: "flows a I (\<lambda>i v. I) m \<Longrightarrow> keeps I m"
  unfolding flows_def keeps_def
  by (erule triple_conseq) (auto simp: flow_post_def split: option.splits flow.splits)

lemma flows_none [flowing]: "flows a I J (ret None)"
  unfolding flows_def by (rule triple_pre[OF triple_ret]) simp

lemma flows_raise [flowing]: "flows a I J (raise e)"
  unfolding flows_def by (rule triple_pre[OF triple_raise])

lemma flows_result [flowing]: "keeps I m \<Longrightarrow> ends a m \<Longrightarrow> flows a I J (flow_result m)"
proof -
  assume m: "keeps I m" "ends a m"
  have "triple I m (\<lambda>r s. I s \<and> terminal a r s) (\<lambda>_. I)"
    by (rule triple_conseq[OF triple_conj[OF triple_keeps[OF m(1)] m(2)[unfolded ends_def]]]) auto
  then show ?thesis
    unfolding flows_def flow_result_def
    by (rule triple_bind, intro triple_pre[OF triple_ret]) simp
qed

lemma flows_bind [flowing]: "keeps I m \<Longrightarrow> (\<And>x. flows a I J (f x)) \<Longrightarrow> flows a I J (bind_c m f)"
  unfolding flows_def by (rule triple_bind[OF triple_keeps])

lemma flows_then [flowing]: "keeps I m \<Longrightarrow> flows a I J k \<Longrightarrow> flows a I J (then_c m k)"
  unfolding then_c_def by (rule flows_bind)

lemma flows_if [flowing]: "flows a I J m \<Longrightarrow> flows a I J n \<Longrightarrow> flows a I J (if b then m else n)"
  by simp

lemma flows_option [flowing]:
  "flows a I J m \<Longrightarrow> (\<And>y. flows a I J (f y)) \<Longrightarrow> flows a I J (case x of None \<Rightarrow> m | Some y \<Rightarrow> f y)"
  by (cases x) simp_all

text \<open>The first that ends the step decides; the next runs only when the first went through.\<close>

lemma flows_seq [flowing]:
  assumes "flows a I J m" "flows a I J n"
  shows "flows a I J (bind_c m (\<lambda>r. case r of None \<Rightarrow> n | Some f \<Rightarrow> ret (Some f)))"
  unfolding flows_def
proof (rule triple_bind[OF assms(1)[unfolded flows_def]])
  show "triple (flow_post a I J r) (case r of None \<Rightarrow> n | Some f \<Rightarrow> ret (Some f)) (flow_post a I J) (\<lambda>_. I)" for r
  proof (cases r)
    case None
    have "flow_post a I J None = I" by (intro ext) simp
    then show ?thesis using assms(2) None by (simp add: flows_def)
  next
    case (Some f)
    show ?thesis unfolding Some option.case by (rule triple_ret)
  qed
qed

lemma flows_first [flowing]: "(\<And>x. flows a I J (f x)) \<Longrightarrow> flows a I J (first_c f xs)"
  by (induction xs) (simp_all add: flows_none flows_seq)

section \<open>Steps\<close>

locale step_run = quiet_run +
  assumes kept_execute: "permitted (ev_policy E) a (rs_history s) \<Longrightarrow> I s \<Longrightarrow>
      I (s\<lparr>rs_history := EvExecute a t r # rs_history s\<rparr>)"
    and kept_outputs: "I s \<Longrightarrow> I (s\<lparr>rs_outputs := outs\<rparr>)"
    and kept_use: "uses_of (rc_id rc) (rs_uses s) < rc_max_uses rc \<Longrightarrow> I s \<Longrightarrow>
      I (count_use rc s)"
begin

lemma keeps_store [keeping]: "keeps I (store_output out v)"
  by (rule keepsI) (simp add: update_def store_output_def kept_outputs)

lemma execute_kept:
  "triple (\<lambda>s. I s \<and> permitted (ev_policy E) a (rs_history s)) (execute_action E inputs a t)
     (\<lambda>_. I) (\<lambda>_. I)"
  by (rule tripleI) (auto simp: execute_action_def ask_def kept_execute)

lemma dispatch_kept:
  "triple (\<lambda>s. I s \<and> permitted (ev_policy E) (st_action (sc_step k)) (rs_history s))
     (dispatch E k t) (\<lambda>_. I) (\<lambda>_. I)"
  unfolding dispatch_def
  by (rule triple_bind[OF execute_kept], rule triple_keeps) (intro keeping)

lemma perform_kept:
  "triple (\<lambda>s. I s \<and> permitted (ev_policy E) (st_action (sc_step k)) (rs_history s))
     (perform E k t) (\<lambda>_. I) (\<lambda>_. I)"
proof -
  have other: "triple (\<lambda>s. I s \<and> permitted (ev_policy E) (st_action (sc_step k)) (rs_history s)) m
      (\<lambda>_. I) (\<lambda>_. I)" if "keeps I m" for m :: "unit run"
    by (rule triple_pre[OF triple_keeps[OF that]]) simp
  show ?thesis
  proof (cases "st_action (sc_step k)")
    case (AssertAction c)
    show ?thesis unfolding perform_def AssertAction action.case
      using other[of "bind_c (evaluate E (sc_inputs k) c) expect_condition"]
      by (simp add: AssertAction keeping)
  next
    case (WaitForAction c)
    show ?thesis unfolding perform_def WaitForAction action.case
      using other[of "bind_c (wait_until E (sc_inputs k) c (st_timeout_ms (sc_step k))) expect_condition"]
      by (simp add: WaitForAction keeping)
  next
    case (CheckpointAction c)
    show ?thesis unfolding perform_def CheckpointAction action.case
      using other[of "bind_c (evaluate E (sc_inputs k)
        (cp_condition (art_checkpoint (sc_artifact k)))) expect_condition"]
      by (simp add: CheckpointAction keeping)
  next
    case (ExtractAction out tr)
    have "keeps I (case t of
        None \<Rightarrow> raise (SurfaceFailure (simple_error ''target_absent''
           ''Extraction target was not resolved.''))
      | Some t \<Rightarrow> bind_c (extract_text E t) (\<lambda>v. store_output out (transform_extracted_text v tr)))"
      by (intro keeping)
    from other[OF this] show ?thesis
      unfolding perform_def ExtractAction action.case by (simp add: ExtractAction)
  qed (use dispatch_kept[of k t] in \<open>simp_all add: perform_def\<close>)
qed

lemma gate_kept:
  "triple I (gate_step E k) (\<lambda>g s. I s \<and> go_permitted E k g s) (\<lambda>_. I)"
  by (rule triple_conseq[OF triple_conj[OF triple_keeps[OF keeps_gate_step] gate_permits]]) simp_all

text \<open>The parts of a step, for any recovery that flows.\<close>

lemma flows_or [flowing]:
  "flows a I J m \<Longrightarrow> flows a I J (outcome_or E k m)" "flows a I J m \<Longrightarrow> flows a I J (failure_or E k m)"
  "flows a I J n \<Longrightarrow> flows a I J m \<Longrightarrow> flows a I J (recovery_or k n m)"
  unfolding outcome_or_def failure_or_def recovery_or_def
  by (intro flowing keeping ending; assumption)+

lemma flows_checks [flowing]:
  "flows a I J (identity_check E k c)" "flows (asks k) I J (effect_missing E k attempt c)"
  unfolding identity_check_def effect_missing_def by (intro flowing keeping ending)+

lemma settle_flows [flowing]:
  assumes "flows (asks k) I J recovering"
  shows "flows (asks k) I J (effect_check E k attempt recovering c)" "flows (asks k) I J (settle E k attempt recovering)"
    "flows (asks k) I J (give_up E k recovering attempt failed)"
  unfolding settle_def effect_check_def give_up_def by (intro flowing keeping ending assms)+

lemma act_flows:
  assumes "flows (asks k) I J recovering"
  shows "triple (\<lambda>s. I s \<and> permitted (ev_policy E) (st_action (sc_step k)) (rs_history s))
    (act_and_settle E k attempt recovering t) (flow_post (asks k) I J) (\<lambda>_. I)"
proof -
  have "flows (asks k) I J (then_c (record_event E ''action_result'' (Some (sc_id k)) [])
      (settle E k attempt recovering))"
    by (intro flowing keeping assms)
  then show ?thesis
    unfolding act_and_settle_def flows_def by (rule triple_then[OF perform_kept])
qed

lemma tried_triple:
  assumes "triple P m Q (\<lambda>_. I)" "\<And>x s. Q x s \<Longrightarrow> R (Inr x) s" "\<And>err s. I s \<Longrightarrow> R (Inl err) s"
  shows "triple P (tried m) R (\<lambda>_. I)"
proof -
  have "triple P (bind_c m (\<lambda>x. ret (Inr x))) R (\<lambda>_. I)"
    by (rule triple_bind[OF assms(1)], rule triple_pre[OF triple_ret]) (rule assms(2))
  then have "triple P (bind_c m (\<lambda>x. ret (Inr x))) R
      (\<lambda>e s. case surface_only e of None \<Rightarrow> I s | Some x \<Rightarrow> I s)"
    by (rule triple_conseq) (auto split: option.splits)
  then show ?thesis
    unfolding tried_def
    by (rule triple_catch, intro triple_pre[OF triple_ret]) (rule assms(3))
qed

definition attempt_post ::
  "string option \<Rightarrow> (string \<Rightarrow> int \<Rightarrow> run_state \<Rightarrow> bool) \<Rightarrow> (surface_error \<times> bool) + flow option \<Rightarrow> run_state \<Rightarrow> bool" where
  "attempt_post a J r s = (case r of Inl failed \<Rightarrow> I s | Inr f \<Rightarrow> flow_post a I J f s)"

lemma attempt_post_simps [simp]:
  "attempt_post a J (Inl failed) = I" "attempt_post a J (Inr f) = flow_post a I J f"
  by (intro ext; simp add: attempt_post_def)+

lemma attempt_flows:
  assumes "flows (asks k) I J recovering"
  shows "triple I (attempt_step E k recovering attempt) (attempt_post (asks k) J) (\<lambda>_. I)"
proof -
  let ?R = "\<lambda>r s. case r of Inl err \<Rightarrow> I s | Inr g \<Rightarrow> I s \<and> go_permitted E k g s"
  have gate: "triple I (tried (gate_step E k)) ?R (\<lambda>_. I)"
    by (rule tried_triple[OF gate_kept]) auto
  have act: "triple (\<lambda>s. I s \<and> permitted (ev_policy E) (st_action (sc_step k)) (rs_history s))
      (tried (act_and_settle E k attempt recovering t))
      (\<lambda>p s. case p of Inl err \<Rightarrow> I s | Inr f \<Rightarrow> flow_post (asks k) I J f s) (\<lambda>_. I)" for t
    by (rule tried_triple[OF act_flows[OF assms]]) auto
  have finish: "triple P (ret x) (attempt_post (asks k) J) (\<lambda>_. I)" if "\<And>s. P s \<Longrightarrow> attempt_post (asks k) J x s" for P x
    by (rule triple_pre[OF triple_ret]) (rule that)
  let ?k = "\<lambda>p. case p of Inl err \<Rightarrow> ret (Inl (err, dispatches (st_action (sc_step k))))
                   | Inr f \<Rightarrow> ret (Inr f)"
  have tail: "triple (case p of Inl err \<Rightarrow> I | Inr f \<Rightarrow> flow_post (asks k) I J f) (?k p) (attempt_post (asks k) J) (\<lambda>_. I)" for p
    by (cases p) (auto intro!: finish simp: attempt_post_def)
  have going: "triple (\<lambda>s. I s \<and> permitted (ev_policy E) (st_action (sc_step k)) (rs_history s))
      (bind_c (tried (act_and_settle E k attempt recovering t)) ?k) (attempt_post (asks k) J) (\<lambda>_. I)" for t
    by (rule triple_bind[OF act], rule triple_pre[OF tail]) (auto split: sum.splits)
  show ?thesis
    unfolding attempt_step_def
  proof (rule triple_bind[OF gate])
    fix r :: "surface_error + resolved_target option gate"
    show "triple (?R r) (case r of Inl err \<Rightarrow> ret (Inl (err, False))
       | Inr (Stop x) \<Rightarrow> ret (Inr (Some (FlowResult x)))
       | Inr (Go target) \<Rightarrow> bind_c (tried (act_and_settle E k attempt recovering target)) ?k)
       (attempt_post (asks k) J) (\<lambda>_. I)"
    proof (cases r)
      case (Inl err)
      show ?thesis unfolding Inl sum.case by (rule finish) (simp add: attempt_post_def)
    next
      case (Inr g)
      show ?thesis
      proof (cases g)
        case (Stop x)
        show ?thesis unfolding Inr Stop sum.case gate.case
          by (rule finish) (simp add: go_permitted_def)
      next
        case (Go t)
        show ?thesis unfolding Inr Go sum.case gate.case
          by (rule triple_pre[OF going]) (simp add: go_permitted_def)
      qed
    qed
  qed
qed

lemma attempts_flows [flowing]:
  "flows (asks k) I J recovering \<Longrightarrow> flows (asks k) I J (attempts E k recovering n attempt)"
proof (induction n arbitrary: attempt)
  case (0 attempt)
  have "triple (attempt_post (asks k) J r) (case r of Inl failed \<Rightarrow> give_up E k recovering attempt failed
      | Inr f \<Rightarrow> ret f) (flow_post (asks k) I J) (\<lambda>_. I)" for r
    using settle_flows(3)[OF 0, of attempt] by (cases r) (simp_all add: flows_def triple_ret)
  then show ?case
    unfolding attempts.simps flows_def by (rule triple_bind[OF attempt_flows[OF 0]])
next
  case (Suc n attempt)
  have retry: "flows (asks k) I J (if can_retry (sc_step k) attempt (fst failed)
      then then_c (schedule_retry E k attempt (fst failed)) (attempts E k recovering n (attempt + 1))
      else give_up E k recovering attempt failed)" for failed
    by (intro flowing keeping Suc)
  have "triple (attempt_post (asks k) J r) (case r of Inl failed \<Rightarrow>
        (if can_retry (sc_step k) attempt (fst failed)
         then then_c (schedule_retry E k attempt (fst failed)) (attempts E k recovering n (attempt + 1))
         else give_up E k recovering attempt failed)
      | Inr f \<Rightarrow> ret f) (flow_post (asks k) I J) (\<lambda>_. I)" for r
    using retry by (cases r) (simp_all add: flows_def triple_ret)
  then show ?case
    unfolding attempts.simps flows_def by (rule triple_bind[OF attempt_flows[OF Suc.prems]])
qed

lemma execute_step_flows [flowing]:
  "flows (asks k) I J recovering \<Longrightarrow> flows (asks k) I J (execute_step E k recovering attempt)"
  unfolding execute_step_def by (rule attempts_flows)

lemma execute_step_kept [keeping]: "keeps I (execute_step E k (ret None) attempt)"
  by (rule flows_keeps[of "asks k"]) (intro flowing)

text \<open>The loop of a recovery ends the run only as a step may, and never asks for help.\<close>

definition loop_post :: "run_result + int \<Rightarrow> run_state \<Rightarrow> bool" where
  "loop_post r s = (I s \<and> (case r of Inl x \<Rightarrow> terminal None x s | Inr v \<Rightarrow> True))"

lemma recovery_loop_ends: "triple I (recovery_loop E k ss v) loop_post (\<lambda>_. I)"
proof (induction ss arbitrary: v)
  case Nil
  show ?case unfolding recovery_loop.simps by (rule triple_pre[OF triple_ret]) (simp add: loop_post_def)
next
  case (Cons s ss)
  have step: "flows None I (\<lambda>i v. I) (execute_step E (recovery_step_call k s v) (ret None) 1)"
    using execute_step_flows[OF flows_none, of "recovery_step_call k s v" "\<lambda>i v. I" 1]
    by (simp add: asks_def recovery_step_call_def)
  have on: "triple I (bind_c (heartbeat E (sc_session k) v)
      (\<lambda>lease. recovery_loop E k ss (lease_version lease))) loop_post (\<lambda>_. I)"
    by (rule triple_bind[OF triple_keeps[OF keeps_leases(2)] Cons.IH])
  show ?case
    unfolding recovery_loop.simps
  proof (rule triple_bind[OF step[unfolded flows_def]])
    fix r :: "flow option"
    let ?m = "case r of
       Some (FlowResume i v) \<Rightarrow> raise (RuntimeError ''nested recovery control flow is not allowed'')
     | Some (FlowResult result) \<Rightarrow> ret (Inl result)
     | None \<Rightarrow> bind_c (heartbeat E (sc_session k) v)
         (\<lambda>lease. recovery_loop E k ss (lease_version lease))"
    show "triple (flow_post None I (\<lambda>i v. I) r) ?m loop_post (\<lambda>_. I)"
    proof (cases r)
      case None
      show ?thesis unfolding None option.case by (rule triple_pre[OF on]) simp
    next
      case (Some f)
      show ?thesis unfolding Some option.case
        by (cases f) (auto intro!: triple_pre[OF triple_ret] triple_pre[OF triple_raise]
              simp: loop_post_def)
    qed
  qed
qed

lemma execute_recovery_ends: "triple I (execute_recovery E k r) loop_post (\<lambda>_. I)"
  unfolding execute_recovery_def
  by (rule triple_bind[OF triple_keeps[OF keeps_leases(2)] recovery_loop_ends])

lemma run_recovery_flows [flowing]: "flows a I (\<lambda>i v. I) (run_recovery E k r n)"
proof -
  have tail: "triple (loop_post x) (case x of
        Inl x \<Rightarrow> ret (Some (FlowResult x))
      | Inr version \<Rightarrow>
          then_c (record_event E ''recovery_completed'' (Some (sc_id k))
                    [(''recovery_id'', JStr (rc_id r)), (''resume_at'', JStr (rc_resume_at r))])
            (ret (Some (FlowResume (rc_resume_at r) version)))) (flow_post a I (\<lambda>i v. I)) (\<lambda>_. I)" for x
  proof (cases x)
    case (Inl y)
    show ?thesis unfolding Inl sum.case
      by (rule triple_pre[OF triple_ret]) (auto simp: loop_post_def intro: terminal_any)
  next
    case (Inr v)
    show ?thesis unfolding Inr sum.case
      by (rule triple_pre[OF triple_then[OF triple_keeps[where I = I]]], intro keeping,
          rule triple_pre[OF triple_ret]) (simp_all add: loop_post_def)
  qed
  have "triple I (bind_c (execute_recovery E k r) (\<lambda>result. case result of
        Inl x \<Rightarrow> ret (Some (FlowResult x))
      | Inr version \<Rightarrow>
          then_c (record_event E ''recovery_completed'' (Some (sc_id k))
                    [(''recovery_id'', JStr (rc_id r)), (''resume_at'', JStr (rc_resume_at r))])
            (ret (Some (FlowResume (rc_resume_at r) version))))) (flow_post a I (\<lambda>i v. I)) (\<lambda>_. I)"
    by (rule triple_bind[OF execute_recovery_ends tail])
  then show ?thesis
    unfolding run_recovery_def flows_def
    by (rule triple_then[OF triple_keeps[OF keeps_ports(7)]])
qed

lemma recovery_exhausted_flows [flowing]: "flows a I J (recovery_exhausted E k r n)"
  unfolding recovery_exhausted_def by (intro flowing keeping ending)

text \<open>The use of a recovery is counted when it starts, and only below its maximum.\<close>

lemma use_recovery_cases:
  "use_recovery E k r s =
     (if rc_max_uses r \<le> uses_of (rc_id r) (rs_uses s)
      then recovery_exhausted E k r (uses_of (rc_id r) (rs_uses s)) s
      else run_recovery E k r (uses_of (rc_id r) (rs_uses s) + 1) (count_use r s))"
  by (simp add: use_recovery_def)

lemma use_recovery_flows: "flows a I (\<lambda>i v. I) (use_recovery E k r)"
  unfolding flows_def
proof (rule tripleI)
  let ?u = "\<lambda>s. uses_of (rc_id r) (rs_uses s)"
  note over = tripleD[OF recovery_exhausted_flows[unfolded flows_def]]
  note on = tripleD[OF run_recovery_flows[unfolded flows_def]]
  {
    fix s t f
    assume "I s" "use_recovery E k r s = (Inr f, t)"
    then show "flow_post a I (\<lambda>i v. I) f t"
      using over(1)[of s k r "?u s" f t] on(1)[of "count_use r s" k r "?u s + 1" f t]
      by (auto simp: use_recovery_cases kept_use split: if_splits)
  next
    fix s t e
    assume "I s" "use_recovery E k r s = (Inl e, t)"
    then show "I t"
      using over(2)[of s k r "?u s" e t] on(2)[of "count_use r s" k r "?u s + 1" e t]
      by (auto simp: use_recovery_cases kept_use split: if_splits)
  }
qed

lemma attempt_recovery_flows: "flows a I (\<lambda>i v. I) (attempt_recovery E k)"
  unfolding attempt_recovery_def by (intro flowing keeping use_recovery_flows)

lemma main_step_flows: "flows (asks k) I (\<lambda>i v. I) (execute_main_step E k attempt)"
  unfolding execute_main_step_def by (intro flowing attempt_recovery_flows)

lemma main_step_kept [keeping]: "keeps I (execute_main_step E k attempt)"
  by (rule flows_keeps[OF main_step_flows])

end

section \<open>Whole runs\<close>

locale whole_run = step_run +
  assumes kept_lifecycle: "\<not> quiet e \<Longrightarrow> (\<forall>a t r. e \<noteq> EvExecute a t r) \<Longrightarrow> I s \<Longrightarrow>
      I (s\<lparr>rs_history := e # rs_history s\<rparr>)"
    and kept_session: "I s \<Longrightarrow> I (s\<lparr>rs_session := x\<rparr>)"
    and kept_preserve: "I s \<Longrightarrow> I (s\<lparr>rs_preserve := b\<rparr>)"
    and kept_fresh: "I s \<Longrightarrow> I (s\<lparr>rs_outputs := [], rs_uses := []\<rparr>)"
begin

lemma keeps_lifecycle [keeping]:
  "keeps I (ask f EvClose)" "keeps I (ask g (EvOpen x y z))" "keeps I (ask f (EvRetain c))"
  by (rule keepsI; simp add: ask_def kept_lifecycle)+

lemma keeps_locals [keeping]:
  "keeps I (set_preserve b)" "keeps I (update (\<lambda>s. s\<lparr>rs_session := x\<rparr>))"
  "keeps I (update (\<lambda>s. s\<lparr>rs_session := x, rs_preserve := b\<rparr>))"
  "keeps I (update (\<lambda>s. s\<lparr>rs_outputs := [], rs_uses := []\<rparr>))"
  "keeps I (update (\<lambda>s. s\<lparr>rs_outputs := []\<rparr>))"
  unfolding set_preserve_def
  by (rule keepsI; simp add: update_def kept_session kept_preserve kept_fresh kept_outputs)+

lemma keeps_closing [keeping]: "keeps I (close_session E)" "keeps I (close_unless_preserved E)"
  unfolding close_unless_preserved_def close_session_def by (intro keeping)+

lemma keeps_finish [keeping]:
  "keeps I (pop_pause iid)" "keeps I (retain_continuation E iid rq inputs i)"
  "keeps I (finish_with E rq inputs i r)" "keeps I (run_handler E rq err)"
  "keeps I (open_session E rq)"
  unfolding finish_with_def retain_continuation_def pop_pause_def run_handler_def open_session_def Let_def
  by (intro keeping)+

lemma step_loop_kept [keeping]: "keeps I (step_loop E rq sid inputs first n i v)"
proof (induction n arbitrary: i v)
  case 0
  show ?case unfolding step_loop.simps by (intro keeping)
next
  case (Suc n)
  show ?case unfolding step_loop.simps by (intro keeping Suc)
qed

lemma keeps_compatibility [keeping]: "keeps I (ask f EvCompatibility)"
  by (intro keeping) simp

lemma execute_kept_all [keeping]: "keeps I (run_session E rq inputs)" "keeps I (execute E rq)"
  unfolding execute_def run_session_def by (intro keeping)+

lemma resume_kept [keeping]: "keeps I (resume E sid c v outcome)"
  unfolding resume_def by (intro keeping)

lemma validate_resume_kept [keeping]: "keeps I (validate_resume E c)"
  unfolding validate_resume_def validate_effect_def validate_retry_def verified_as_def read_again_def
    resume_target_def Let_def by (intro keeping)

end

end
