(* ===== verification/ReplayOutcome.thy ===== *)
theory ReplayOutcome
  imports ReplayLogic
begin

text \<open>
  How a run ends: what a success has verified, what an intervention leaves behind, and when the
  session is closed. The invariant of \<open>step_run\<close> here fixes the local variables of \<open>execute\<close> and
  the number of open sessions, which no step changes.
\<close>

section \<open>The results of a run\<close>

text \<open>Sessions opened and not closed; a call that raised opens or closes nothing.\<close>

fun open_sessions :: "history \<Rightarrow> int" where
  "open_sessions [] = 0"
| "open_sessions (EvOpen f t e r # h) = (case r of Inl x \<Rightarrow> 0 | Inr sid \<Rightarrow> 1) + open_sessions h"
| "open_sessions (EvClose r # h) = open_sessions h - (case r of Inl x \<Rightarrow> 0 | Inr u \<Rightarrow> 1)"
| "open_sessions (_ # h) = open_sessions h"

text \<open>
  A verified success: the last thing the engine asked the surface, but for closing the session,
  was to wait for the checkpoint, the answer was yes, and the outputs then stored conform to the
  contract; those outputs are in the result.
\<close>

definition verified :: "environment \<Rightarrow> replay_request \<Rightarrow> success_result \<Rightarrow> run_state \<Rightarrow> bool" where
  "verified E rq x s =
     (\<exists>closing h outs.
        rs_history s = closing @ EvRecord ''checkpoint_verified'' None [] (Inr ()) #
          EvWait (cp_condition (art_checkpoint (rq_artifact rq))) 10000 (Inr True) # h \<and>
        (\<forall>e\<in>set closing. \<exists>r. e = EvClose r) \<and>
        validate_object (ev_formats E) (art_outputs (rq_artifact rq)) (rs_outputs s) ''$'' = Inr outs \<and>
        ev_store E outs = Inr (su_outputs x))"

text \<open>
  The continuation of an intervention is with the sink, as the run left off: its step is the one the
  intervention was recorded for, its fingerprint that of the observation just made, the inputs are
  the validated ones, outputs and uses those of the run, and it goes on from the point noted when
  the run paused.
\<close>

definition retained ::
  "environment \<Rightarrow> replay_request \<Rightarrow> json_object \<Rightarrow> intervention_result \<Rightarrow> run_state \<Rightarrow> bool" where
  "retained E rq inputs x s =
     (ev_has_sink E \<longrightarrow>
       (\<exists>k ob code v frame h.
          k < length (art_steps (rq_artifact rq)) \<and>
          ir_step_id x = Some (trim (st_id (art_steps (rq_artifact rq) ! k))) \<and>
          rs_history s =
            EvRetain \<lparr>cn_intervention = ir_intervention_id x, cn_request = rq, cn_inputs = inputs,
              cn_outputs = rs_outputs s, cn_uses = rs_uses s, cn_step_index = int k,
              cn_fingerprint = obs_fingerprint ob, cn_retry_step = fst (noted_point h),
              cn_retry_attempt = snd (noted_point h)\<rparr> (Inr ()) #
            EvObserve (Inr ob) #
            EvRecord ''intervention_required'' (Some (st_id (art_steps (rq_artifact rq) ! k))) [] (Inr ()) #
            EvRoute (ir_intervention_id x) code v (Inr (ir_intervention_id x)) #
            EvAttach ''handoff-before'' RETAIN_HUMAN_AUDIT (Inr ()) # EvFrame (Inr frame) # h))"

definition final ::
  "environment \<Rightarrow> replay_request \<Rightarrow> json_object \<Rightarrow> run_result \<Rightarrow> run_state \<Rightarrow> bool" where
  "final E rq inputs r s =
     (case r of
        SuccessResult x \<Rightarrow> verified E rq x s
      | InterventionRequiredResult x \<Rightarrow> held (ir_intervention_id x) s \<and> retained E rq inputs x s
      | _ \<Rightarrow> True)"

text \<open>
  A session left open for an intervention that is held although its run was not retained: after
  the intervention was recorded, the observation or the sink raised.
\<close>

definition not_retained :: "string \<Rightarrow> history \<Rightarrow> bool" where
  "not_retained iid h =
     (\<exists>later failed i code v h'.
        h = later @ failed @ EvRecord ''intervention_required'' (Some i) [] (Inr ()) #
          EvRoute iid code v (Inr iid) # h' \<and>
        ((\<exists>e. failed = [EvObserve (Inl e)]) \<or>
         (\<exists>c e ob. failed = [EvRetain c (Inl e), EvObserve (Inr ob)])))"

definition stranded :: "string \<Rightarrow> run_state \<Rightarrow> bool" where
  "stranded iid s = (held iid s \<and> not_retained iid (rs_history s))"

text \<open>
  What a run that raises leaves: no more open sessions than before, or one more, which could not be
  closed or is stranded.
\<close>

definition released :: "int \<Rightarrow> run_state \<Rightarrow> bool" where
  "released n s =
     (open_sessions (rs_history s) = n \<or>
      open_sessions (rs_history s) = n + 1 \<and>
        ((\<exists>e h. rs_history s = EvClose (Inl e) # h) \<or> (\<exists>iid. stranded iid s)))"

definition still :: "int \<Rightarrow> string option \<Rightarrow> bool \<Rightarrow> run_state \<Rightarrow> bool" where
  "still n session preserve s =
     (open_sessions (rs_history s) = n \<and> rs_session s = session \<and> rs_preserve s = preserve)"

lemma still_log: "quiet e \<Longrightarrow> still n so b (s\<lparr>rs_history := e # rs_history s\<rparr>) = still n so b s"
  by (cases e) (simp_all add: still_def)

lemma still_other [simp]:
  "still n so b (s\<lparr>rs_history := EvExecute a t r # rs_history s\<rparr>) = still n so b s"
  "still n so b (s\<lparr>rs_history := EvRetain c u # rs_history s\<rparr>) = still n so b s"
  "still n so b (s\<lparr>rs_store := st\<rparr>) = still n so b s"
  "still n so b (s\<lparr>rs_pauses := ps\<rparr>) = still n so b s"
  "still n so b (s\<lparr>rs_outputs := outs\<rparr>) = still n so b s"
  "still n so b (s\<lparr>rs_outputs := outs, rs_uses := uses\<rparr>) = still n so b s"
  "still n so b (count_use rc s) = still n so b s"
  by (simp_all add: still_def count_use_def)

interpretation still: step_run "still n so b" E for n so b E
  by unfold_locales (simp_all add: still_log)

lemma not_retained_more: "not_retained iid h \<Longrightarrow> not_retained iid (e # h)"
  unfolding not_retained_def by (metis append_Cons)

interpretation stranding: asking_run "\<lambda>s. still n so b s \<and> stranded iid s" for n so b iid
  by unfold_locales (simp add: still_log stranded_def not_retained_more)

text \<open>The states in which a run may raise.\<close>

definition broken :: "int \<Rightarrow> string option \<Rightarrow> run_state \<Rightarrow> bool" where
  "broken n so s = (still n so False s \<or> still n so True s \<and> (\<exists>iid. stranded iid s))"

lemma broken_still [intro]: "still n so False s \<Longrightarrow> broken n so s"
  by (simp add: broken_def)

section \<open>Completion\<close>

lemma mk_success_outputs:
  "mk_success store r0 = Inr (SuccessResult x) \<Longrightarrow> store (su_outputs r0) = Inr (su_outputs x)"
  "mk_success store r0 = Inr r \<Longrightarrow> \<exists>x. r = SuccessResult x"
  by (auto simp: mk_success_def Let_def bind_r_Inr_iff split: if_splits)

text \<open>What completion returns: a verified success or a failure.\<close>

definition completed :: "environment \<Rightarrow> replay_request \<Rightarrow> run_result \<Rightarrow> run_state \<Rightarrow> bool" where
  "completed E rq r s =
     (case r of SuccessResult x \<Rightarrow> verified E rq x s | _ \<Rightarrow> is_intervention r = None)"

lemma failure_is_failure:
  "triple (\<lambda>s. True) (failure E rq code msg rec step_id ex ob ses dg frame)
     (\<lambda>r s. \<exists>x. r = FailureResult x) (\<lambda>e s. True)"
proof -
  have "triple (\<lambda>s. True) (lift_c (mk_failure store f)) (\<lambda>r s. \<exists>x. r = FailureResult x) (\<lambda>e s. True)"
    for store f
    by (rule triple_pre[OF triple_lift])
       (auto simp: mk_failure_def Let_def bind_r_Inr_iff split: if_splits)
  then show ?thesis
    unfolding failure_def
    by (intro triple_bind[OF triple_any] triple_then[OF triple_any])
qed

text \<open>The checkpoint has just been confirmed.\<close>

definition confirmed :: "replay_request \<Rightarrow> run_state \<Rightarrow> bool" where
  "confirmed rq s =
     (\<exists>h. rs_history s = EvWait (cp_condition (art_checkpoint (rq_artifact rq))) 10000 (Inr True) # h)"

lemma succeed_verified:
  assumes run: "succeed E rq outs s = (Inr r, t)"
    and conf: "confirmed rq s"
    and outs: "validate_object (ev_formats E) (art_outputs (rq_artifact rq)) (rs_outputs s) ''$'' = Inr outs"
  shows "completed E rq r t"
proof -
  let ?s1 = "s\<lparr>rs_history := EvRecord ''checkpoint_verified'' None [] (Inr ()) # rs_history s\<rparr>"
  let ?mk = "mk_success (ev_store E)
    \<lparr>su_run_id = rq_run_id rq, su_capability_id = cm_id (art_capability (rq_artifact rq)),
     su_capability_version = cm_version (art_capability (rq_artifact rq)),
     su_outputs = outs, su_checkpoint = cp_id (art_checkpoint (rq_artifact rq)),
     su_manifest = ev_manifest E
       (EvRecord ''checkpoint_verified'' None [] (Inr ()) # rs_history s)\<rparr>"
  have "ev_record E (rs_history s) ''checkpoint_verified'' None [] = Inr ()"
    using run by (cases "ev_record E (rs_history s) ''checkpoint_verified'' None []")
      (auto simp: succeed_def then_c_def bind_c_def record_event_def ask_def)
  then have mk_t: "?mk = Inr r \<and> ?s1 = t"
    using run by (simp add: succeed_def then_c_def bind_c_def record_event_def ask_def
        manifest_key_def gets_def lift_c_def)
  then have mk: "?mk = Inr r" and t: "t = ?s1" by auto
  then obtain x where x: "r = SuccessResult x" using mk_success_outputs(2) by blast
  from mk_success_outputs(1)[OF mk[unfolded x]] have "ev_store E outs = Inr (su_outputs x)" by simp
  moreover obtain h where "rs_history s =
      EvWait (cp_condition (art_checkpoint (rq_artifact rq))) 10000 (Inr True) # h"
    using conf by (auto simp: confirmed_def)
  ultimately have "verified E rq x t"
    unfolding verified_def t using outs by (intro exI[of _ "[]"] exI[of _ h] exI[of _ outs]) simp
  then show ?thesis by (simp add: completed_def x)
qed

lemma complete_ok:
  "triple (still n so b) (complete E rq inputs)
     (\<lambda>r s. still n so b s \<and> completed E rq r s) (\<lambda>_. still n so b)"
proof -
  have fails: "triple (still n so b) (fail_at E rq code msg None True)
      (\<lambda>r s. still n so b s \<and> completed E rq r s) (\<lambda>_. still n so b)" for code msg
    unfolding fail_at_def
    by (rule triple_conseq[OF triple_conj[OF triple_keeps[OF still.keeps_failure(1)] failure_is_failure]])
       (auto simp: completed_def is_intervention_def)
  let ?check = "\<lambda>s. validate_object (ev_formats E) (art_outputs (rq_artifact rq)) (rs_outputs s) ''$''"
  have good: "triple (\<lambda>s. still n so b s \<and> confirmed rq s \<and> ?check s = Inr outs) (succeed E rq outs)
      (\<lambda>r s. still n so b s \<and> completed E rq r s) (\<lambda>_. still n so b)" for outs
  proof (rule tripleI)
    fix s t r
    assume s: "still n so b s \<and> confirmed rq s \<and> ?check s = Inr outs"
      and run: "succeed E rq outs s = (Inr r, t)"
    then show "still n so b t \<and> completed E rq r t"
      using keepsD[OF still.keeps_complete(1), of n so b s E rq outs] succeed_verified[OF run] by auto
  next
    fix s t e
    assume s: "still n so b s \<and> confirmed rq s \<and> ?check s = Inr outs"
      and run: "succeed E rq outs s = (Inl e, t)"
    then show "still n so b t"
      using keepsD[OF still.keeps_complete(1), of n so b s E rq outs] by simp
  qed
  have wait: "triple (still n so b)
      (wait_until E inputs (cp_condition (art_checkpoint (rq_artifact rq))) 10000)
      (\<lambda>ok s. still n so b s \<and> (ok \<longrightarrow> confirmed rq s)) (\<lambda>_. still n so b)"
    by (rule tripleI) (auto simp: wait_until_def ask_def confirmed_def still_def)
  have validate: "triple (\<lambda>s. still n so b s \<and> confirmed rq s) (gets ?check)
      (\<lambda>v s. still n so b s \<and> confirmed rq s \<and> ?check s = v) (\<lambda>_. still n so b)"
    by (rule tripleI) (auto simp: gets_def)
  have judge: "triple (\<lambda>s. still n so b s \<and> confirmed rq s \<and> ?check s = v)
      (case v of
         Inl e \<Rightarrow>
           (case contract_only e of
              None \<Rightarrow> raise e
            | Some c \<Rightarrow> fail_at E rq ''output_validation_failed'' (contract_message c) None True)
       | Inr validated \<Rightarrow> succeed E rq validated)
      (\<lambda>r s. still n so b s \<and> completed E rq r s) (\<lambda>_. still n so b)" for v
  proof (cases v)
    case (Inl e)
    show ?thesis unfolding Inl sum.case
      by (cases "contract_only e") (auto intro!: triple_pre[OF triple_raise] triple_pre[OF fails])
  next
    case (Inr outs)
    show ?thesis unfolding Inr sum.case by (rule good)
  qed
  show ?thesis
    unfolding complete_def
  proof (rule triple_bind[OF wait])
    fix ok
    show "triple (\<lambda>s. still n so b s \<and> (ok \<longrightarrow> confirmed rq s))
        (if \<not> ok
         then fail_at E rq ''checkpoint_mismatch'' ''The final success checkpoint was not satisfied.''
                None True
         else bind_c (gets ?check) (\<lambda>r. case r of
            Inl e \<Rightarrow>
              (case contract_only e of
                 None \<Rightarrow> raise e
               | Some c \<Rightarrow> fail_at E rq ''output_validation_failed'' (contract_message c) None True)
          | Inr validated \<Rightarrow> succeed E rq validated))
        (\<lambda>r s. still n so b s \<and> completed E rq r s) (\<lambda>_. still n so b)"
    proof (cases ok)
      case True
      show ?thesis
        using triple_bind[OF validate judge] by (simp add: True)
    next
      case False
      show ?thesis by (simp add: False) (rule fails)
    qed
  qed
qed

section \<open>Interventions\<close>

text \<open>The session variables after a result: the session is preserved just for an intervention.\<close>

definition rested :: "int \<Rightarrow> string option \<Rightarrow> run_result \<Rightarrow> run_state \<Rightarrow> bool" where
  "rested n so r = still n so (is_intervention r \<noteq> None)"

lemma retain_triple:
  assumes "k < length (art_steps (rq_artifact rq))"
  shows "triple (\<lambda>s. still n so True s \<and> held (ir_intervention_id x) s \<and>
        paused (st_id (art_steps (rq_artifact rq) ! k)) x s)
     (retain_continuation E (ir_intervention_id x) rq inputs k)
     (\<lambda>_ s. still n so True s \<and> held (ir_intervention_id x) s \<and> retained E rq inputs x s)
     (\<lambda>_. broken n so)"
proof (rule tripleI)
  let ?iid = "ir_intervention_id x" and ?i = "st_id (art_steps (rq_artifact rq) ! k)"
  fix s t :: run_state and u
  assume s: "still n so True s \<and> held ?iid s \<and> paused ?i x s"
    and run: "retain_continuation E ?iid rq inputs k s = (Inr u, t)"
  then obtain code v frame h where
    h: "rs_history s = EvRecord ''intervention_required'' (Some ?i) [] (Inr ()) #
          EvRoute ?iid code v (Inr ?iid) #
          EvAttach ''handoff-before'' RETAIN_HUMAN_AUDIT (Inr ()) # EvFrame (Inr frame) # h"
    and p: "dict_get (rs_pauses s) ?iid = Some (noted_point h)" and i: "ir_step_id x = Some (trim ?i)"
    unfolding paused_def by blast
  have "still n so True t \<and> held ?iid t"
    using run s
    by (auto simp: retain_continuation_def pop_pause_def observe_def ask_def bind_c_def ret_def gets_def
        update_def then_c_def still_def held_def split: if_splits prod.splits sum.splits)
  moreover have "retained E rq inputs x t"
    using run assms i
    by (cases "noted_point h")
       (auto simp: retain_continuation_def pop_pause_def observe_def ask_def bind_c_def ret_def gets_def
        update_def then_c_def retained_def p h split: if_splits prod.splits sum.splits)
  ultimately show "still n so True t \<and> held ?iid t \<and> retained E rq inputs x t" by blast
next
  let ?iid = "ir_intervention_id x" and ?i = "st_id (art_steps (rq_artifact rq) ! k)"
  fix s t :: run_state and e
  assume s: "still n so True s \<and> held ?iid s \<and> paused ?i x s"
    and run: "retain_continuation E ?iid rq inputs k s = (Inl e, t)"
  then obtain code v h where
    h: "rs_history s = EvRecord ''intervention_required'' (Some ?i) [] (Inr ()) #
          EvRoute ?iid code v (Inr ?iid) # h"
    unfolding paused_def by blast
  have "still n so True t \<and> held ?iid t"
    using run s
    by (auto simp: retain_continuation_def pop_pause_def observe_def ask_def bind_c_def ret_def gets_def
        update_def then_c_def still_def held_def split: if_splits prod.splits sum.splits)
  moreover have "\<exists>failed. rs_history t = failed @ rs_history s \<and>
      ((\<exists>e. failed = [EvObserve (Inl e)]) \<or> (\<exists>c e ob. failed = [EvRetain c (Inl e), EvObserve (Inr ob)]))"
    using run
    by (auto simp: retain_continuation_def pop_pause_def observe_def ask_def bind_c_def ret_def gets_def
        update_def then_c_def split: if_splits prod.splits sum.splits)
  then have "not_retained ?iid (rs_history t)"
    unfolding not_retained_def h by (metis append_Nil)
  ultimately show "broken n so t" by (auto simp: broken_def stranded_def)
qed

lemma finish_triple:
  assumes "k < length (art_steps (rq_artifact rq))"
    and "\<And>i. a = Some i \<Longrightarrow> i = st_id (art_steps (rq_artifact rq) ! k)"
  shows "triple (\<lambda>s. still n so b s \<and> terminal a r s) (finish_with E rq inputs k r)
     (\<lambda>x s. rested n so x s \<and> final E rq inputs x s) (\<lambda>_. broken n so)"
proof -
  let ?P = "\<lambda>s. still n so (is_intervention r \<noteq> None) s \<and> terminal a r s"
  have set: "triple (\<lambda>s. still n so b s \<and> terminal a r s) (set_preserve (is_intervention r \<noteq> None))
      (\<lambda>_. ?P) (\<lambda>_. broken n so)"
    unfolding set_preserve_def
    by (rule triple_pre[OF triple_update])
       (simp add: still_def terminal_def held_def paused_def split: run_result.splits option.splits)
  have keep: "triple ?P (case is_intervention r of
        None \<Rightarrow> ret () | Some iid \<Rightarrow> retain_continuation E iid rq inputs k)
      (\<lambda>_ s. still n so (is_intervention r \<noteq> None) s \<and> final E rq inputs r s) (\<lambda>_. broken n so)"
  proof (cases "is_intervention r")
    case None
    then show ?thesis
      by (auto intro!: triple_pre[OF triple_ret] simp: final_def terminal_def is_intervention_def
            split: run_result.splits)
  next
    case (Some iid)
    then obtain x where r: "r = InterventionRequiredResult x" "iid = ir_intervention_id x"
      by (auto simp: is_intervention_def split: run_result.splits)
    have i: "is_intervention r = Some (ir_intervention_id x)" by (simp add: is_intervention_def r)
    have here: "held (ir_intervention_id x) s \<and> paused (st_id (art_steps (rq_artifact rq) ! k)) x s"
      if "terminal a r s" for s
      using that assms(2) by (cases a) (auto simp: r terminal_def)
    show ?thesis
      unfolding i option.case
      by (rule triple_conseq[OF retain_triple[OF assms(1), of n so x E inputs]])
         (use here in \<open>simp_all add: r final_def\<close>)
  qed
  show ?thesis
    unfolding finish_with_def
    by (rule triple_then[OF set], rule triple_then[OF keep], rule triple_pre[OF triple_ret])
       (simp add: rested_def)
qed

section \<open>The loop and the run\<close>

definition loop_ends ::
  "int \<Rightarrow> string option \<Rightarrow> environment \<Rightarrow> replay_request \<Rightarrow> json_object \<Rightarrow> run_result option
     \<Rightarrow> run_state \<Rightarrow> bool" where
  "loop_ends n so E rq inputs x s =
     (case x of None \<Rightarrow> still n so False s | Some r \<Rightarrow> rested n so r s \<and> final E rq inputs r s)"

lemma loop_ends_simps [simp]:
  "loop_ends n so E rq inputs None = still n so False"
  "loop_ends n so E rq inputs (Some r) = (\<lambda>s. rested n so r s \<and> final E rq inputs r s)"
  by (intro ext; simp add: loop_ends_def)+

lemma completed_ends:
  "still n so False s \<Longrightarrow> completed E rq r s \<Longrightarrow> rested n so r s \<and> final E rq inputs r s"
  by (auto simp: completed_def rested_def final_def is_intervention_def split: run_result.splits)

lemma some_result:
  "triple P m (\<lambda>r s. rested n so r s \<and> final E rq inputs r s) F \<Longrightarrow>
     triple P (bind_c m (\<lambda>x. ret (Some x))) (loop_ends n so E rq inputs) F"
  by (rule triple_bind, assumption, rule triple_pre[OF triple_ret]) simp

lemma step_loop_ends:
  "triple (still n so False) (step_loop E rq sid inputs first k i v) (loop_ends n so E rq inputs)
     (\<lambda>_. broken n so)"
proof (induction k arbitrary: i v)
  case 0
  show ?case unfolding step_loop.simps by (rule triple_pre[OF triple_ret]) simp
next
  case (Suc k)
  let ?I = "still n so False" and ?steps = "art_steps (rq_artifact rq)"
  have weak: "triple ?I m Q (\<lambda>_. ?I) \<Longrightarrow> triple ?I m Q (\<lambda>_. broken n so)"
    for m :: "'x run" and Q
    by (erule triple_conseq) auto
  note beat = weak[OF triple_keeps[OF still.keeps_leases(2)]]
  have on: "triple ?I (bind_c (heartbeat E sid v) (\<lambda>lease.
      step_loop E rq sid inputs first k (i + 1) (lease_version lease))) (loop_ends n so E rq inputs)
      (\<lambda>_. broken n so)"
    by (rule triple_bind[OF beat Suc.IH])
  have again: "triple ?I (bind_c (heartbeat E sid w) (\<lambda>lease.
      bind_c (lookup (step_indexes (rq_artifact rq)) target) (\<lambda>j.
      step_loop E rq sid inputs first k j (lease_version lease)))) (loop_ends n so E rq inputs)
      (\<lambda>_. broken n so)" for w target
    by (rule triple_bind[OF beat], rule triple_bind[OF weak[OF triple_keeps[OF keeps_lookup]] Suc.IH])
  show ?case
  proof (cases "i < length ?steps")
    case True
    have step: "triple ?I (execute_main_step E (main_step_call rq sid (?steps ! i) inputs v) (first i))
        (flow_post (Some (st_id (?steps ! i))) ?I (\<lambda>i v. ?I)) (\<lambda>_. broken n so)"
      using still.main_step_flows[of "main_step_call rq sid (?steps ! i) inputs v" n so False E "first i"]
      by (intro weak) (simp add: flows_def asks_def main_step_call_def)
    have rest: "triple (flow_post (Some (st_id (?steps ! i))) ?I (\<lambda>i v. ?I) r) (case r of
          Some (FlowResume target w) \<Rightarrow>
            bind_c (heartbeat E sid w) (\<lambda>lease.
            bind_c (lookup (step_indexes (rq_artifact rq)) target) (\<lambda>j.
            step_loop E rq sid inputs first k j (lease_version lease)))
        | Some (FlowResult x) \<Rightarrow> bind_c (finish_with E rq inputs i x) (\<lambda>y. ret (Some y))
        | None \<Rightarrow>
            bind_c (heartbeat E sid v) (\<lambda>lease.
            step_loop E rq sid inputs first k (i + 1) (lease_version lease)))
        (loop_ends n so E rq inputs) (\<lambda>_. broken n so)" for r
    proof (cases r)
      case None
      show ?thesis unfolding None option.case by (rule triple_pre[OF on]) simp
    next
      case (Some f)
      show ?thesis
      proof (cases f)
        case (FlowResult x)
        show ?thesis unfolding Some FlowResult option.case flow.case
          by (rule some_result,
              rule triple_pre[OF finish_triple[OF True, where a = "Some (st_id (?steps ! i))" and b = False]])
             simp_all
      next
        case (FlowResume target w)
        show ?thesis unfolding Some FlowResume option.case flow.case by (rule triple_pre[OF again]) simp
      qed
    qed
    show ?thesis
      unfolding step_loop.simps if_P[OF True] by (rule triple_bind[OF step rest])
  next
    case False
    have "triple ?I (complete E rq inputs) (\<lambda>r s. rested n so r s \<and> final E rq inputs r s) (\<lambda>_. broken n so)"
      by (rule triple_conseq[OF complete_ok]) (use completed_ends in auto)
    then show ?thesis
      unfolding step_loop.simps if_not_P[OF False] by (rule some_result)
  qed
qed

text \<open>The handler of surface errors never asks for help: it has no lease.\<close>

definition failed_plainly :: "int \<Rightarrow> string option \<Rightarrow> run_result option \<Rightarrow> run_state \<Rightarrow> bool" where
  "failed_plainly n so x s = (still n so False s \<and> (\<exists>y. x = Some (FailureResult y)))"

lemma surface_failure_is_failure:
  assumes "surface_failure E rq sid None err None None True s = (Inr r, t)"
  shows "\<exists>y. r = FailureResult y"
proof -
  have "surface_failure E rq sid None err None None True =
      failure E rq (se_code err) (se_message err) (se_recoverable err) None
        (se_expected err) (se_observed err) (sid \<noteq> None) None (se_failure_frame err)"
    by (simp add: surface_failure_def Let_def split: option.splits)
  then show ?thesis using tripleD(1)[OF failure_is_failure TrueI] assms by simp
qed

lemma handler_ends:
  "triple (broken n so) (run_handler E rq err) (failed_plainly n so) (\<lambda>_. broken n so)"
proof (rule tripleI)
  have keep: "keeps (still n so b) (surface_failure E rq sid None err None None True)" for sid b
    by (rule still.keeps_surface_failure)
  have plain: "surface_failure E rq sid None err None None True =
      failure E rq (se_code err) (se_message err) (se_recoverable err) None
        (se_expected err) (se_observed err) (sid \<noteq> None) None (se_failure_frame err)" for sid
    by (simp add: surface_failure_def Let_def split: option.splits)
  {
    fix s t :: run_state and x
    assume s: "broken n so s" and run: "run_handler E rq err s = (Inr x, t)"
    then obtain b where b: "still n so b s" by (auto simp: broken_def)
    obtain r u where fail: "surface_failure E rq (rs_session s) None err None None True s = (Inr r, u)"
      and x: "x = Some r" and t: "t = u\<lparr>rs_preserve := is_intervention r \<noteq> None\<rparr>"
      using run by (auto simp: run_handler_def bind_c_def gets_def then_c_def set_preserve_def
          update_def ret_def split: prod.splits sum.splits)
    have "still n so b u" using keepsD[OF keep b, of "rs_session s"] fail by simp
    moreover obtain y where "r = FailureResult y" using surface_failure_is_failure[OF fail] by blast
    ultimately show "failed_plainly n so x t"
      by (simp add: x t failed_plainly_def still_def is_intervention_def)
  next
    fix s t :: run_state and e
    assume s: "broken n so s" and run: "run_handler E rq err s = (Inl e, t)"
    have fail: "surface_failure E rq (rs_session s) None err None None True s = (Inl e, t)"
      using run by (auto simp: run_handler_def bind_c_def gets_def then_c_def set_preserve_def
          update_def ret_def split: prod.splits sum.splits)
    from s consider "still n so False s" | iid where "still n so True s \<and> stranded iid s"
      by (auto simp: broken_def)
    then show "broken n so t"
    proof cases
      case 1
      from keepsD[OF keep 1, of "rs_session s"] fail show ?thesis by auto
    next
      case (2 iid)
      from keepsD[OF stranding.keeps_failure(1) 2, of E rq "se_code err" "se_message err"
          "se_recoverable err" None "se_expected err" "se_observed err" "rs_session s \<noteq> None" None
          "se_failure_frame err"] fail[unfolded plain]
      have "still n so True t \<and> stranded iid t" by simp
      then show ?thesis unfolding broken_def by blast
    qed
  }
qed

text \<open>The rest of the function: the handler, then the close in \<open>finally\<close>.\<close>

definition run_ends ::
  "int \<Rightarrow> environment \<Rightarrow> replay_request \<Rightarrow> json_object \<Rightarrow> run_result option \<Rightarrow> run_state \<Rightarrow> bool" where
  "run_ends n E rq inputs x s =
     (case x of
        None \<Rightarrow> True
      | Some r \<Rightarrow> open_sessions (rs_history s) = (if is_intervention r = None then n else n + 1) \<and>
          final E rq inputs r s)"

lemma final_after_close:
  assumes "final E rq inputs r s" "is_intervention r = None"
  shows "final E rq inputs r (s\<lparr>rs_history := EvClose c # rs_history s\<rparr>)"
proof (cases r)
  case (SuccessResult x)
  from assms(1) obtain closing h outs where v:
    "rs_history s = closing @ EvRecord ''checkpoint_verified'' None [] (Inr ()) #
       EvWait (cp_condition (art_checkpoint (rq_artifact rq))) 10000 (Inr True) # h"
    "\<forall>e\<in>set closing. \<exists>r. e = EvClose r"
    "validate_object (ev_formats E) (art_outputs (rq_artifact rq)) (rs_outputs s) ''$'' = Inr outs"
    "ev_store E outs = Inr (su_outputs x)"
    by (auto simp: final_def SuccessResult verified_def)
  show ?thesis
    unfolding final_def SuccessResult run_result.case verified_def
    by (rule exI[of _ "EvClose c # closing"], rule exI[of _ h], rule exI[of _ outs]) (simp add: v)
qed (use assms(2) in \<open>simp_all add: final_def is_intervention_def\<close>)

text \<open>Closing in \<open>finally\<close>: it may raise, and leaves the session it could not close.\<close>

lemma close_released:
  assumes "still (n + 1) (Some sid) b s" "close_session E s = (r, t)"
  shows "released n t"
  using assms by (cases r) (auto simp: close_session_def ask_def still_def released_def)

lemma closing_ends:
  "triple (loop_ends (n + 1) (Some sid) E rq inputs x) (close_unless_preserved E)
     (\<lambda>_. run_ends n E rq inputs x) (\<lambda>_. released n)"
proof (rule tripleI)
  fix s t :: run_state and u
  assume l: "loop_ends (n + 1) (Some sid) E rq inputs x s"
    and run: "close_unless_preserved E s = (Inr u, t)"
  show "run_ends n E rq inputs x t"
  proof (cases x)
    case (Some r)
    from l have s: "open_sessions (rs_history s) = n + 1" "rs_session s \<noteq> None"
      "rs_preserve s = (is_intervention r \<noteq> None)" and f: "final E rq inputs r s"
      by (auto simp: Some rested_def still_def)
    show ?thesis
    proof (cases "is_intervention r")
      case None
      then have "close_session E s = (Inr u, t)"
        using run s by (simp add: close_unless_preserved_def)
      then have "t = s\<lparr>rs_history := EvClose (Inr u) # rs_history s\<rparr>"
        by (auto simp: close_session_def ask_def)
      with None s final_after_close[OF f None] show ?thesis by (simp add: run_ends_def Some)
    next
      case (Some iid)
      then have "t = s" using run s by (simp add: close_unless_preserved_def ret_def)
      with Some s f show ?thesis by (simp add: run_ends_def \<open>x = Some r\<close>)
    qed
  qed (simp add: run_ends_def)
next
  fix s t :: run_state and e
  assume l: "loop_ends (n + 1) (Some sid) E rq inputs x s"
    and run: "close_unless_preserved E s = (Inl e, t)"
  then have "close_session E s = (Inl e, t)"
    by (auto simp: close_unless_preserved_def ret_def split: if_splits)
  moreover from l obtain b where "still (n + 1) (Some sid) b s"
    by (cases x) (auto simp: rested_def)
  ultimately show "released n t" by (blast intro: close_released)
qed

lemma closing_broken:
  "triple (broken (n + 1) (Some sid)) (close_unless_preserved E) (\<lambda>_. released n) (\<lambda>_. released n)"
proof -
  have "released n t" if b: "broken (n + 1) (Some sid) s" and run: "close_unless_preserved E s = (r, t)" for s t r
  proof (cases "rs_preserve s")
    case True
    with b run show ?thesis
      by (auto simp: broken_def still_def close_unless_preserved_def ret_def released_def)
  next
    case False
    with b have s: "still (n + 1) (Some sid) False s" by (auto simp: broken_def still_def)
    with run have "close_session E s = (r, t)"
      by (simp add: still_def close_unless_preserved_def)
    with s show ?thesis by (rule close_released)
  qed
  then show ?thesis by (auto intro: tripleI)
qed

lemma failed_ends: "failed_plainly n so x s \<Longrightarrow> loop_ends n so E rq inputs x s"
  by (auto simp: failed_plainly_def rested_def final_def is_intervention_def)

text \<open>The states in which \<open>execute\<close> may be interrupted: with no session yet, or with one.\<close>

definition midway :: "int \<Rightarrow> run_state \<Rightarrow> bool" where
  "midway n s = (still n None False s \<or> (\<exists>sid. broken (n + 1) (Some sid) s))"

definition after_try ::
  "int \<Rightarrow> environment \<Rightarrow> replay_request \<Rightarrow> json_object \<Rightarrow> run_result option \<Rightarrow> run_state \<Rightarrow> bool" where
  "after_try n E rq inputs x s =
     (failed_plainly n None x s \<or> (\<exists>sid. loop_ends (n + 1) (Some sid) E rq inputs x s))"

lemma open_session_triple:
  "triple (still n None False) (open_session E rq)
     (\<lambda>sid. still (n + 1) (Some sid) False) (\<lambda>_. still n None False)"
  by (rule tripleI)
     (auto simp: open_session_def Let_def bind_c_def ask_def then_c_def update_def ret_def still_def
        split: prod.splits sum.splits)

lemma run_session_ends:
  "triple (still n None False) (run_session E rq inputs) (after_try n E rq inputs) (\<lambda>_. midway n)"
proof -
  let ?I = "\<lambda>sid. still (n + 1) (Some sid) False"
  let ?body = "\<lambda>sid. bind_c (create_lease E sid) (\<lambda>lease.
      then_c (record_event E ''replay_started'' None [])
      (then_c (update (\<lambda>s. s\<lparr>rs_outputs := [], rs_uses := []\<rparr>))
      (bind_c (all_c (evaluate E inputs) (art_preconditions (rq_artifact rq))) (\<lambda>ready.
       if \<not> ready
       then bind_c (fail_at E rq ''precondition_mismatch''
              ''A capability precondition was not satisfied.'' None True) (\<lambda>x. ret (Some x))
       else step_loop E rq sid inputs (\<lambda>i. 1) (loop_fuel (rq_artifact rq) [] 0) 0
              (lease_version lease)))))"
  have weak: "triple (?I sid) m Q (\<lambda>_. ?I sid) \<Longrightarrow> triple (?I sid) m Q (\<lambda>_. broken (n + 1) (Some sid))"
    for m :: "'x run" and Q sid
    by (erule triple_conseq) auto
  have fail: "triple (?I sid) (bind_c (fail_at E rq code msg None True) (\<lambda>x. ret (Some x)))
      (loop_ends (n + 1) (Some sid) E rq inputs) (\<lambda>_. broken (n + 1) (Some sid))" for sid code msg
    unfolding fail_at_def
    by (rule some_result, rule weak,
        rule triple_conseq[OF triple_conj[OF triple_keeps[OF still.keeps_failure(1)] failure_is_failure]])
       (auto simp: rested_def final_def is_intervention_def)
  have body: "triple (?I sid) (?body sid) (loop_ends (n + 1) (Some sid) E rq inputs)
      (\<lambda>_. broken (n + 1) (Some sid))" for sid
  proof (rule triple_bind[OF weak[OF triple_keeps[OF still.keeps_leases(1)]]],
      rule triple_then[OF weak[OF triple_keeps[OF still.keeps_ports(7)]]],
      rule triple_then[where R = "?I sid"])
    show "triple (?I sid) (update (\<lambda>s. s\<lparr>rs_outputs := [], rs_uses := []\<rparr>)) (\<lambda>_. ?I sid)
        (\<lambda>_. broken (n + 1) (Some sid))"
      by (rule triple_pre[OF triple_update]) (simp add: still_def)
    show "triple (?I sid) (bind_c (all_c (evaluate E inputs) (art_preconditions (rq_artifact rq)))
        (\<lambda>ready. if \<not> ready
         then bind_c (fail_at E rq ''precondition_mismatch''
                ''A capability precondition was not satisfied.'' None True) (\<lambda>x. ret (Some x))
         else step_loop E rq sid inputs (\<lambda>i. 1) (loop_fuel (rq_artifact rq) [] 0) 0
                (lease_version lease)))
        (loop_ends (n + 1) (Some sid) E rq inputs) (\<lambda>_. broken (n + 1) (Some sid))" for lease
      by (rule triple_bind[OF weak[OF triple_keeps[OF keeps_all[OF still.keeps_ports(2)]]]])
         (simp add: fail step_loop_ends)
  qed
  have compat: "triple (still n None False) (case ev_compatibility E of
        None \<Rightarrow> ret () | Some f \<Rightarrow> ask (\<lambda>s. f (rs_history s)) EvCompatibility)
      (\<lambda>_. still n None False) (\<lambda>_. midway n)"
  proof -
    have "keeps (still n None False) (case ev_compatibility E of
        None \<Rightarrow> ret () | Some f \<Rightarrow> ask (\<lambda>s. f (rs_history s)) EvCompatibility)"
      by (intro keeping still.keeps_ask) simp
    from triple_keeps[OF this] show ?thesis by (rule triple_conseq) (auto simp: midway_def)
  qed
  show ?thesis
    unfolding run_session_def
    by (rule triple_then[OF compat],
        rule triple_bind[OF triple_conseq[OF open_session_triple]], assumption, assumption,
        simp add: midway_def, rule triple_conseq[OF body])
       (auto simp: midway_def after_try_def)
qed

text \<open>The ends of a whole run, normal or not.\<close>

definition run_over ::
  "int \<Rightarrow> environment \<Rightarrow> replay_request \<Rightarrow> json_object result \<Rightarrow> run_result option result \<Rightarrow> run_state \<Rightarrow> bool" where
  "run_over n E rq inputs x s =
     (case x of
        Inl e \<Rightarrow> released n s
      | Inr None \<Rightarrow> True
      | Inr (Some r) \<Rightarrow>
          open_sessions (rs_history s) = (if is_intervention r = None then n else n + 1) \<and>
          (is_intervention r = None \<longrightarrow> final E rq [] r s) \<and>
          (is_intervention r \<noteq> None \<longrightarrow> (\<exists>ins. inputs = Inr ins \<and> final E rq ins r s)))"

lemma final_inputs: "is_intervention r = None \<Longrightarrow> final E rq ins r s = final E rq [] r s"
  by (simp add: final_def is_intervention_def split: run_result.splits)

lemma run_ends_over:
  "triple P m (run_ends n E rq ins) (\<lambda>_. released n) \<Longrightarrow> P s \<Longrightarrow> m s = (x, t) \<Longrightarrow>
     run_over n E rq (Inr ins) x t"
proof -
  assume t: "triple P m (run_ends n E rq ins) (\<lambda>_. released n)" and P: "P s" and m: "m s = (x, t)"
  show ?thesis
  proof (cases x)
    case (Inl e)
    with tripleD(2)[OF t P] m show ?thesis by (simp add: run_over_def)
  next
    case (Inr y)
    with tripleD(1)[OF t P] m have e: "run_ends n E rq ins y t" by simp
    show ?thesis
    proof (cases y)
      case (Some r)
      with e show ?thesis
        by (cases "is_intervention r") (simp_all add: Inr run_over_def run_ends_def final_inputs[of r E rq ins])
    qed (simp add: Inr run_over_def)
  qed
qed

lemma early_over:
  assumes "open_sessions (rs_history s) = n"
    and "bind_c (fail_at E rq code msg None b) (\<lambda>x. ret (Some x)) s = (x, t)"
  shows "run_over n E rq inputs x t"
proof -
  have "still n (rs_session s) (rs_preserve s) s" using assms(1) by (simp add: still_def)
  from keepsD[OF still.keeps_failure(2) this, of E rq code msg None b] assms(2)
  have n: "open_sessions (rs_history t) = n"
    by (cases "fail_at E rq code msg None b s"; cases "fst (fail_at E rq code msg None b s)")
       (auto simp: still_def bind_c_def ret_def)
  show ?thesis
  proof (cases x)
    case (Inl e)
    with n show ?thesis by (simp add: run_over_def released_def)
  next
    case (Inr y)
    with assms(2) obtain r where "fail_at E rq code msg None b s = (Inr r, t)" "y = Some r"
      by (auto simp: bind_c_def ret_def split: prod.splits sum.splits)
    moreover from this obtain z where "r = FailureResult z"
      using tripleD(1)[OF failure_is_failure TrueI] unfolding fail_at_def by blast
    ultimately show ?thesis using n Inr by (simp add: run_over_def is_intervention_def final_def)
  qed
qed

lemma try_ends:
  "triple (still n None False) (catch_c (run_session E rq inputs) surface_only (run_handler E rq))
     (after_try n E rq inputs) (\<lambda>_. midway n)"
proof (rule triple_catch)
  show "triple (still n None False) (run_session E rq inputs) (after_try n E rq inputs)
      (\<lambda>e s. case surface_only e of None \<Rightarrow> midway n s | Some x \<Rightarrow> midway n s)"
    by (rule triple_conseq[OF run_session_ends]) (auto split: option.splits)
  have none: "broken n None s" if "still n None False s" for s using that by blast
  have over: "triple (broken n None) (run_handler E rq x) (after_try n E rq inputs)
      (\<lambda>_. broken n None)" for x
    by (rule triple_conseq[OF handler_ends]) (auto simp: after_try_def)
  show "triple (midway n) (run_handler E rq x) (after_try n E rq inputs) (\<lambda>_. midway n)" for x
  proof (rule tripleI)
    fix s t y
    assume m: "midway n s" and run: "run_handler E rq x s = (Inr y, t)"
    from m consider "still n None False s" | sid where "broken (n + 1) (Some sid) s"
      by (auto simp: midway_def)
    then show "after_try n E rq inputs y t"
    proof cases
      case 1
      from tripleD(1)[OF handler_ends none[OF 1] run] show ?thesis by (simp add: after_try_def)
    next
      case 2
      from failed_ends[OF tripleD(1)[OF handler_ends this run]] show ?thesis
        by (auto simp: after_try_def)
    qed
  next
    fix s t e
    assume m: "midway n s" and run: "run_handler E rq x s = (Inl e, t)"
    from m consider "still n None False s" | sid where "broken (n + 1) (Some sid) s"
      by (auto simp: midway_def)
    then show "midway n t"
    proof cases
      case 1
      have "keeps (still n None False) (surface_failure E rq sid None x None None True)" for sid
        by (rule still.keeps_surface_failure)
      from keepsD[OF this 1, of "rs_session s"] run show ?thesis
        by (auto simp: midway_def run_handler_def bind_c_def gets_def then_c_def set_preserve_def
            update_def ret_def split: prod.splits sum.splits)
    next
      case 2
      from tripleD(2)[OF handler_ends 2 run] show ?thesis by (auto simp: midway_def)
    qed
  qed
qed

lemma after_try_closes:
  "triple (after_try n E rq inputs x) (close_unless_preserved E) (\<lambda>_. run_ends n E rq inputs x)
     (\<lambda>_. released n)"
proof (rule tripleI)
  fix s t u
  assume "after_try n E rq inputs x s" and run: "close_unless_preserved E s = (Inr u, t)"
  then consider "failed_plainly n None x s" | sid where "loop_ends (n + 1) (Some sid) E rq inputs x s"
    by (auto simp: after_try_def)
  then show "run_ends n E rq inputs x t"
  proof cases
    case 1
    with run show ?thesis
      by (auto simp: failed_plainly_def still_def close_unless_preserved_def ret_def run_ends_def
          is_intervention_def final_def)
  next
    case 2
    show ?thesis by (rule tripleD(1)[OF closing_ends 2 run])
  qed
next
  fix s t e
  assume "after_try n E rq inputs x s" and run: "close_unless_preserved E s = (Inl e, t)"
  then consider "failed_plainly n None x s" | sid where "loop_ends (n + 1) (Some sid) E rq inputs x s"
    by (auto simp: after_try_def)
  then show "released n t"
  proof cases
    case 1
    with run show ?thesis by (auto simp: failed_plainly_def still_def close_unless_preserved_def ret_def)
  next
    case 2
    show ?thesis by (rule tripleD(2)[OF closing_ends 2 run])
  qed
qed

lemma midway_closes:
  "triple (midway n) (close_unless_preserved E) (\<lambda>_. released n) (\<lambda>_. released n)"
proof -
  have "released n t" if m: "midway n s" and run: "close_unless_preserved E s = (r, t)" for s t r
  proof -
    from m consider "still n None False s" | sid where "broken (n + 1) (Some sid) s"
      by (auto simp: midway_def)
    then show ?thesis
    proof cases
      case 1
      with run show ?thesis by (auto simp: still_def close_unless_preserved_def ret_def released_def)
    next
      case 2
      with run tripleD[OF closing_broken 2] show ?thesis by (cases r) auto
    qed
  qed
  then show ?thesis by (auto intro: tripleI)
qed

lemma execute_over:
  assumes "execute E rq s = (x, t)"
  shows "run_over (open_sessions (rs_history s)) E rq
     (validate_object (ev_formats E) (art_inputs (rq_artifact rq)) (rq_inputs rq) ''$'') x t"
proof -
  let ?n = "open_sessions (rs_history s)"
  let ?run = "\<lambda>inputs. finally_c (catch_c (run_session E rq inputs) surface_only (run_handler E rq))
      (\<lambda>_. close_unless_preserved E)"
  have fin: "triple (still ?n None False) (?run inputs) (run_ends ?n E rq inputs) (\<lambda>_. released ?n)" for inputs
    by (rule triple_finally[OF try_ends after_try_closes midway_closes])
  show ?thesis
  proof (cases "validate_object (ev_formats E) (art_inputs (rq_artifact rq)) (rq_inputs rq) ''$''")
    case (Inl e)
    show ?thesis
    proof (cases "contract_only e")
      case None
      with assms Inl have "x = Inl e" "t = s" by (auto simp: execute_def raise_def)
      then show ?thesis by (simp add: run_over_def released_def)
    next
      case (Some c)
      with assms Inl show ?thesis by (simp add: execute_def early_over)
    qed
  next
    case (Inr inputs)
    show ?thesis
    proof (cases "rq_tenant rq \<in> set (co_supported_variants (art_compatibility (rq_artifact rq)))")
      case False
      with assms Inr show ?thesis by (simp add: execute_def early_over)
    next
      case True
      with assms Inr have run: "?run inputs (s\<lparr>rs_session := None, rs_preserve := False\<rparr>) = (x, t)"
        by (simp add: execute_def)
      show ?thesis unfolding Inr by (rule run_ends_over[OF fin _ run]) (simp add: still_def)
    qed
  qed
qed

lemma then_lift: "then_c (lift_c (Inr x)) m s = m s"
  by (simp add: comp_defs)

lemma resume_over:
  assumes "resume E sid c v outcome s = (x, t)" "assert_continuation c = Inr ()"
  shows "run_over (open_sessions (rs_history s) - 1) E (cn_request c) (Inr (cn_inputs c)) x t"
proof -
  let ?n = "open_sessions (rs_history s)" and ?rq = "cn_request c"
  note ok = assms(2)
  show ?thesis
  proof (cases outcome)
    case (Some b)
    show ?thesis
    proof (cases "close_session E s")
      case (Pair r s1)
      show ?thesis
      proof (cases r)
        case (Inl e)
        with Pair assms(1) have "x = Inl e" "t = s1"
          by (auto simp: resume_def Some ok then_c_def bind_c_def lift_c_def)
        moreover have "released (?n - 1) s1"
          using Pair Inl by (auto simp: close_session_def ask_def released_def)
        ultimately show ?thesis by (simp add: run_over_def)
      next
        case (Inr u)
        from Pair Inr have "still (?n - 1) (rs_session s1) (rs_preserve s1) s1"
          by (auto simp: close_session_def ask_def still_def)
        from keepsD[OF still.keeps_branches(4) this, of E ?rq b "cn_inputs c"]
        have kept: "open_sessions (rs_history (snd (business_outcome_result E ?rq b (cn_inputs c) s1))) = ?n - 1"
          by (simp add: still_def)
        from Pair Inr assms(1)
        have "bind_c (business_outcome_result E ?rq b (cn_inputs c)) (\<lambda>x. ret (Some x)) s1 = (x, t)"
          by (simp add: resume_def Some ok then_c_def bind_c_def lift_c_def)
        then have t: "t = snd (business_outcome_result E ?rq b (cn_inputs c) s1)"
          and x: "x = (case fst (business_outcome_result E ?rq b (cn_inputs c) s1) of
              Inl e \<Rightarrow> Inl e | Inr r \<Rightarrow> Inr (Some r))"
          by (auto simp: bind_c_def ret_def split: prod.splits sum.splits)
        have "\<exists>y. r = BusinessOutcomeResult y"
          if "fst (business_outcome_result E ?rq b (cn_inputs c) s1) = Inr r" for r
          using that by (auto simp: business_outcome_result_def then_c_def bind_c_def lift_c_def
              mk_outcome_def Let_def bind_r_Inr_iff split: prod.splits sum.splits if_splits)
        with kept show ?thesis
          by (cases "fst (business_outcome_result E ?rq b (cn_inputs c) s1)")
             (fastforce simp: run_over_def x t released_def is_intervention_def final_def)+
      qed
    qed
  next
    case None
    let ?loop = "bind_c (gets (\<lambda>s. loop_fuel (rq_artifact ?rq) (rs_uses s) (resume_index c))) (\<lambda>n.
        step_loop E ?rq sid (cn_inputs c)
          (\<lambda>i. if i = nat (cn_step_index c) then cn_retry_attempt c else 1) n (resume_index c) v)"
    have loop: "triple (still ?n (Some sid) False) ?loop (loop_ends ?n (Some sid) E ?rq (cn_inputs c))
        (\<lambda>e s. case surface_only e of None \<Rightarrow> broken ?n (Some sid) s | Some x \<Rightarrow> broken ?n (Some sid) s)"
      by (rule triple_bind[where R = "\<lambda>_. still ?n (Some sid) False"],
          rule triple_pre[OF triple_gets], assumption,
          rule triple_conseq[OF step_loop_ends]) (auto split: option.splits)
    have handle: "triple (broken ?n (Some sid)) (run_handler E ?rq x)
        (loop_ends ?n (Some sid) E ?rq (cn_inputs c)) (\<lambda>_. broken ?n (Some sid))" for x
      by (rule triple_conseq[OF handler_ends], assumption, erule failed_ends)
    have close: "triple (loop_ends ?n (Some sid) E ?rq (cn_inputs c) x) (close_unless_preserved E)
        (\<lambda>_. run_ends (?n - 1) E ?rq (cn_inputs c) x) (\<lambda>_. released (?n - 1))" for x
      using closing_ends[of "?n - 1" sid E ?rq "cn_inputs c" x] by simp
    have crash: "triple (broken ?n (Some sid)) (close_unless_preserved E)
        (\<lambda>_. released (?n - 1)) (\<lambda>_. released (?n - 1))"
      using closing_broken[of "?n - 1" sid E] by simp
    note whole = triple_finally[OF triple_catch[OF loop handle] close crash]
    from assms(1) have run: "finally_c (catch_c ?loop surface_only (run_handler E ?rq))
        (\<lambda>_. close_unless_preserved E) (s\<lparr>rs_session := Some sid, rs_preserve := False\<rparr>) = (x, t)"
      by (simp add: resume_def None ok then_lift)
    show ?thesis by (rule run_ends_over[OF whole _ run]) (simp add: still_def)
  qed
qed

lemma resume_refused:
  assumes "assert_continuation c = Inl e"
  shows "resume E sid c v outcome s = (Inl e, s)"
  by (simp add: resume_def then_c_def bind_c_def lift_c_def assms)

end
