(* ===== verification/ReplayTermination.thy ===== *)
theory ReplayTermination
  imports ReplayLogic
begin

text \<open>
  Every run ends: the loop of a replay passes a step again only after counting a use of one of the
  artifact's recoveries, so the fuel \<open>execute\<close> and \<open>resume\<close> start with is never used up.
\<close>

section \<open>The uses left\<close>

lemma uses_of_count:
  "uses_of i (rs_uses (count_use r s)) =
     (if i = rc_id r then uses_of i (rs_uses s) + 1 else uses_of i (rs_uses s))"
  by (simp add: count_use_def uses_of_def)

lemma uses_left_mono: "uses_left a (rs_uses (count_use r s)) \<le> uses_left a (rs_uses s)"
  unfolding uses_left_def by (rule sum_list_mono) (auto simp: uses_of_count intro: nat_mono)

lemma sum_list_strict:
  fixes f g :: "'x \<Rightarrow> nat"
  assumes "x \<in> set xs" "f x < g x" "\<And>y. f y \<le> g y"
  shows "sum_list (map f xs) < sum_list (map g xs)"
  using assms(1)
proof (induction xs)
  case (Cons y ys)
  have rest: "sum_list (map f ys) \<le> sum_list (map g ys)" by (rule sum_list_mono) (rule assms(3))
  show ?case
  proof (cases "x = y")
    case True
    then show ?thesis using assms(2) rest by simp
  next
    case False
    then have "sum_list (map f ys) < sum_list (map g ys)" using Cons by simp
    with assms(3)[of y] show ?thesis by simp
  qed
qed simp

lemma uses_left_strict:
  assumes "r \<in> set (art_recoveries a)" "uses_of (rc_id r) (rs_uses s) < rc_max_uses r"
  shows "uses_left a (rs_uses (count_use r s)) < uses_left a (rs_uses s)"
  unfolding uses_left_def
  by (rule sum_list_strict[OF assms(1)]) (use assms(2) in \<open>auto simp: uses_of_count intro: nat_mono\<close>)

definition uses_within :: "capability_artifact \<Rightarrow> nat \<Rightarrow> run_state \<Rightarrow> bool" where
  "uses_within a b s = (uses_left a (rs_uses s) \<le> b)"

lemma uses_within_other [simp]:
  "uses_within a b (s\<lparr>rs_history := h\<rparr>) = uses_within a b s"
  "uses_within a b (s\<lparr>rs_store := st\<rparr>) = uses_within a b s"
  "uses_within a b (s\<lparr>rs_pauses := ps\<rparr>) = uses_within a b s"
  "uses_within a b (s\<lparr>rs_outputs := outs\<rparr>) = uses_within a b s"
  by (simp_all add: uses_within_def)

interpretation counting: step_run "uses_within a b" E for a b E
proof
  fix s :: run_state and rc
  assume "uses_within a b s"
  then show "uses_within a b (count_use rc s)"
    using uses_left_mono[of a rc s] by (simp add: uses_within_def)
qed simp_all

section \<open>Going back uses up a recovery\<close>

definition spent :: "capability_artifact \<Rightarrow> nat \<Rightarrow> string \<Rightarrow> int \<Rightarrow> run_state \<Rightarrow> bool" where
  "spent a b i v s = (0 < b \<and> uses_within a (b - 1) s)"

lemma use_recovery_spends:
  assumes "r \<in> set (art_recoveries a)"
  shows "flows x (uses_within a b) (spent a b) (use_recovery E k r)"
  unfolding flows_def
proof (rule tripleI)
  let ?u = "\<lambda>s. uses_of (rc_id r) (rs_uses s)"
  note over = tripleD[OF counting.recovery_exhausted_flows[unfolded flows_def], of a b _ E k r]
  note on = tripleD[OF counting.run_recovery_flows[unfolded flows_def], of a "b - 1" _ E k r]
  have step: "0 < b \<and> uses_within a (b - 1) (count_use r s)"
    if "uses_within a b s" "?u s < rc_max_uses r" for s
    using uses_left_strict[OF assms that(2)] that(1) by (simp add: uses_within_def)
  have weak: "uses_within a (b - 1) s \<Longrightarrow> uses_within a b s" for s by (simp add: uses_within_def)
  {
    fix s t f
    assume s: "uses_within a b s" and run: "use_recovery E k r s = (Inr f, t)"
    show "flow_post x (uses_within a b) (spent a b) f t"
    proof (cases "rc_max_uses r \<le> ?u s")
      case True
      then show ?thesis using over(1)[OF s] run by (simp add: counting.use_recovery_cases)
    next
      case False
      then have pos: "0 < b" and c: "uses_within a (b - 1) (count_use r s)" using step[OF s] by auto
      have "flow_post x (uses_within a (b - 1)) (\<lambda>i v. uses_within a (b - 1)) f t"
        using on(1)[OF c] run False by (simp add: counting.use_recovery_cases)
      then show ?thesis
        using pos weak by (auto simp: flow_post_def spent_def split: option.splits flow.splits)
    qed
  next
    fix s t e
    assume s: "uses_within a b s" and run: "use_recovery E k r s = (Inl e, t)"
    show "uses_within a b t"
    proof (cases "rc_max_uses r \<le> ?u s")
      case True
      then show ?thesis using over(2)[OF s] run by (simp add: counting.use_recovery_cases)
    next
      case False
      then show ?thesis
        using on(2) step[OF s] run weak by (auto simp: counting.use_recovery_cases)
    qed
  }
qed

lemma matching_among:
  "triple (uses_within a b) (matching_refs E inputs detect ix codes)
     (\<lambda>vs s. uses_within a b s \<and> set vs \<subseteq> snd ` set ix) (\<lambda>_. uses_within a b)"
proof (induction codes)
  case Nil
  show ?case unfolding matching_refs.simps by (rule triple_pre[OF triple_ret]) simp
next
  case (Cons c codes)
  have look: "triple (uses_within a b) (lookup ix c)
      (\<lambda>v s. uses_within a b s \<and> v \<in> snd ` set ix) (\<lambda>_. uses_within a b)"
    by (rule tripleI) (auto simp: lookup_def lift_c_def split: option.splits
        dest!: map_of_SomeD intro: image_eqI[rotated])
  have ask: "triple (\<lambda>s. uses_within a b s \<and> v \<in> snd ` set ix) (evaluate E inputs (detect v))
      (\<lambda>x s. uses_within a b s \<and> v \<in> snd ` set ix) (\<lambda>_. uses_within a b)" for v
    by (rule tripleI) (auto simp: evaluate_def ask_def)
  have rest: "triple (\<lambda>s. uses_within a b s \<and> v \<in> snd ` set ix)
      (bind_c (matching_refs E inputs detect ix codes) (\<lambda>vs. ret (if x then v # vs else vs)))
      (\<lambda>vs s. uses_within a b s \<and> set vs \<subseteq> snd ` set ix) (\<lambda>_. uses_within a b)" for v x
  proof (cases "v \<in> snd ` set ix")
    case True
    show ?thesis
      by (rule triple_pre[OF triple_bind[OF Cons.IH]], rule triple_pre[OF triple_ret]) (use True in auto)
  qed (simp add: tripleI)
  show ?case
    unfolding matching_refs.simps by (rule triple_bind[OF look triple_bind[OF ask rest]])
qed

lemma dict_of_pairs_values: "snd ` set (dict_of_pairs ps) \<subseteq> snd ` set ps"
proof -
  have "snd ` set (fold (\<lambda>(k, v). dict_set k v) ps d) \<subseteq> snd ` set d \<union> snd ` set ps" for d
  proof (induction ps arbitrary: d)
    case (Cons p ps)
    obtain k v where p: "p = (k, v)" by fastforce
    have "snd ` set (dict_set k v d) \<subseteq> insert v (snd ` set d)" by (induction d) auto
    with Cons[of "dict_set k v d"] show ?case by (auto simp: p)
  qed simp
  from this[of "[]"] show ?thesis by (simp add: dict_of_pairs_def)
qed

lemma attempt_recovery_spends:
  "flows (asks k) (uses_within (sc_artifact k) b) (spent (sc_artifact k) b) (attempt_recovery E k)"
proof -
  let ?a = "sc_artifact k"
  let ?msg = "''Multiple recovery conditions matched.''"
  have one: "triple (\<lambda>s. uses_within ?a b s \<and> set vs \<subseteq> snd ` set (indexed_recoveries ?a))
      (at_most_one ?msg vs)
      (\<lambda>f s. uses_within ?a b s \<and> (\<forall>r. f = Some r \<longrightarrow> r \<in> set (art_recoveries ?a)))
      (\<lambda>_. uses_within ?a b)" for vs
  proof -
    have "snd ` set (indexed_recoveries ?a) \<subseteq> set (art_recoveries ?a)"
      using dict_of_pairs_values[of "map (\<lambda>r. (rc_id r, r)) (art_recoveries ?a)"]
      by (auto simp: indexed_recoveries_def)
    then show ?thesis
      by (intro tripleI) (auto simp: at_most_one_def ret_def raise_def split: list.splits)
  qed
  have use: "triple (\<lambda>s. uses_within ?a b s \<and> (\<forall>r. f = Some r \<longrightarrow> r \<in> set (art_recoveries ?a)))
      (case f of None \<Rightarrow> ret None | Some r \<Rightarrow> use_recovery E k r)
      (flow_post (asks k) (uses_within ?a b) (spent ?a b)) (\<lambda>_. uses_within ?a b)" for f
  proof (cases f)
    case None
    show ?thesis unfolding None option.case by (rule triple_pre[OF triple_ret]) simp
  next
    case (Some r)
    show ?thesis
    proof (cases "r \<in> set (art_recoveries ?a)")
      case True
      show ?thesis unfolding Some option.case
        by (rule triple_pre[OF use_recovery_spends[OF True, unfolded flows_def]]) simp
    next
      case False
      then show ?thesis unfolding Some by (intro tripleI) simp_all
    qed
  qed
  show ?thesis
    unfolding attempt_recovery_def flows_def
    by (rule triple_bind[OF matching_among triple_bind[OF one use]])
qed

lemma main_step_spends:
  "flows (asks k) (uses_within (sc_artifact k) b) (spent (sc_artifact k) b) (execute_main_step E k attempt)"
  unfolding execute_main_step_def by (rule counting.execute_step_flows[OF attempt_recovery_spends])

section \<open>The loop\<close>

fun returns :: "'a option \<Rightarrow> run_state \<Rightarrow> bool" where
  "returns None s = False"
| "returns (Some x) s = True"

lemma some_returns: "triple P (bind_c m (\<lambda>x. ret (Some x))) returns (\<lambda>_ _. True)"
  by (rule triple_bind[OF triple_any], rule triple_pre[OF triple_ret]) simp

lemma step_loop_returns:
  assumes "b * (length (art_steps (rq_artifact rq)) + 1) + (length (art_steps (rq_artifact rq)) - i) < n"
  shows "triple (uses_within (rq_artifact rq) b) (step_loop E rq sid inputs first n i v) returns (\<lambda>_ _. True)"
  using assms
proof (induction n arbitrary: b i v)
  case (Suc n)
  let ?a = "rq_artifact rq" and ?steps = "art_steps (rq_artifact rq)"
  have weak: "keeps (uses_within ?a c) m \<Longrightarrow>
      triple (uses_within ?a c) m (\<lambda>_. uses_within ?a c) (\<lambda>_ _. True)" for c and m :: "'x run"
    by (rule triple_weak)
  note beat = weak[OF counting.keeps_leases(2)]
  show ?case
  proof (cases "i < length ?steps")
    case True
    let ?k = "main_step_call rq sid (?steps ! i) inputs v"
    have art: "sc_artifact ?k = ?a" by (simp add: main_step_call_def)
    have step: "triple (uses_within ?a b) (execute_main_step E ?k (first i))
        (flow_post (asks ?k) (uses_within ?a b) (spent ?a b)) (\<lambda>_ _. True)"
      using main_step_spends[of ?k b E "first i"]
      by (auto simp: flows_def art elim!: triple_conseq)
    have on: "triple (uses_within ?a b) (bind_c (heartbeat E sid v) (\<lambda>lease.
        step_loop E rq sid inputs first n (i + 1) (lease_version lease))) returns (\<lambda>_ _. True)"
      by (rule triple_bind[OF beat Suc.IH]) (use Suc.prems True in linarith)
    have again: "triple (spent ?a b target w) (bind_c (heartbeat E sid w) (\<lambda>lease.
        bind_c (lookup (step_indexes ?a) target) (\<lambda>j.
        step_loop E rq sid inputs first n j (lease_version lease)))) returns (\<lambda>_ _. True)" for w target
    proof (cases "0 < b")
      case pos: True
      then obtain c where c: "b = Suc c" by (cases b) auto
      have "c * (length ?steps + 1) + (length ?steps - j) < n" for j
        using Suc.prems unfolding c by (simp add: algebra_simps)
      from triple_bind[OF beat triple_bind[OF weak[OF keeps_lookup] Suc.IH[OF this]]]
      show ?thesis by (rule triple_pre) (simp add: spent_def c)
    next
      case False
      then show ?thesis by (intro tripleI) (simp_all add: spent_def)
    qed
    have rest: "triple (flow_post (asks ?k) (uses_within ?a b) (spent ?a b) r) (case r of
          Some (FlowResume target w) \<Rightarrow>
            bind_c (heartbeat E sid w) (\<lambda>lease.
            bind_c (lookup (step_indexes ?a) target) (\<lambda>j.
            step_loop E rq sid inputs first n j (lease_version lease)))
        | Some (FlowResult x) \<Rightarrow> bind_c (finish_with E rq inputs i x) (\<lambda>y. ret (Some y))
        | None \<Rightarrow>
            bind_c (heartbeat E sid v) (\<lambda>lease.
            step_loop E rq sid inputs first n (i + 1) (lease_version lease)))
        returns (\<lambda>_ _. True)" for r
    proof (cases r)
      case None
      show ?thesis unfolding None option.case by (rule triple_pre[OF on]) simp
    next
      case (Some f)
      show ?thesis
      proof (cases f)
        case (FlowResult x)
        show ?thesis unfolding Some FlowResult option.case flow.case by (rule some_returns)
      next
        case (FlowResume target w)
        show ?thesis unfolding Some FlowResume option.case flow.case by (rule triple_pre[OF again]) simp
      qed
    qed
    show ?thesis unfolding step_loop.simps if_P[OF True] by (rule triple_bind[OF step rest])
  next
    case False
    show ?thesis unfolding step_loop.simps if_not_P[OF False] by (rule some_returns)
  qed
qed simp

section \<open>Whole runs\<close>

lemma handler_returns: "triple P (run_handler E rq err) returns (\<lambda>_ _. True)"
  unfolding run_handler_def
  by (rule triple_bind[OF triple_any], rule triple_bind[OF triple_any], rule triple_then[OF triple_any],
      rule triple_pre[OF triple_ret]) simp

lemma guarded_returns:
  assumes "triple P m returns (\<lambda>_ _. True)"
  shows "triple P (finally_c (catch_c m surface_only (run_handler E rq)) f) returns (\<lambda>_ _. True)"
proof -
  have "triple P m returns (\<lambda>e s. case surface_only e of None \<Rightarrow> True | Some x \<Rightarrow> True)"
    by (rule triple_conseq[OF assms]) (simp_all split: option.splits)
  from triple_catch[OF this handler_returns] have "triple P (catch_c m surface_only (run_handler E rq)) returns (\<lambda>_ _. True)" .
  then show ?thesis
  proof (rule triple_finally)
    show "triple (returns x) (f (Some x)) (\<lambda>_. returns x) (\<lambda>_ _. True)" for x
      by (rule tripleI) (cases x; simp)+
    show "triple (\<lambda>_. True) (f None) (\<lambda>_ _. True) (\<lambda>_ _. True)" by (rule triple_any)
  qed
qed

lemma run_session_returns: "triple P (run_session E rq inputs) returns (\<lambda>_ _. True)"
proof -
  let ?a = "rq_artifact rq"
  have loop: "triple (uses_within ?a (uses_left ?a []))
      (step_loop E rq sid inputs (\<lambda>i. 1) (loop_fuel ?a [] 0) 0 v) returns (\<lambda>_ _. True)" for sid v
    by (rule step_loop_returns) (simp add: loop_fuel_def)
  have fresh: "triple P (update (\<lambda>s. s\<lparr>rs_outputs := [], rs_uses := []\<rparr>))
      (\<lambda>_. uses_within ?a (uses_left ?a [])) (\<lambda>_ _. True)" for P
    by (rule triple_pre[OF triple_update]) (simp add: uses_within_def)
  have tail: "triple (uses_within ?a (uses_left ?a []))
      (if \<not> ready
       then bind_c (fail_at E rq ''precondition_mismatch''
              ''A capability precondition was not satisfied.'' None True) (\<lambda>x. ret (Some x))
       else step_loop E rq sid inputs (\<lambda>i. 1) (loop_fuel ?a [] 0) 0 v) returns (\<lambda>_ _. True)" for ready sid v
    by (cases ready) (simp_all add: loop some_returns)
  show ?thesis
    unfolding run_session_def
    by (rule triple_then[OF triple_any], rule triple_bind[OF triple_any], rule triple_bind[OF triple_any],
        rule triple_then[OF triple_any], rule triple_then[OF fresh],
        rule triple_bind[OF triple_weak[OF keeps_all[OF counting.keeps_ports(2)]] tail])
qed

lemma triple_all_returns: "triple (\<lambda>_. True) m returns (\<lambda>_ _. True) \<Longrightarrow> fst (m s) \<noteq> Inr None"
  using tripleD(1)[of "\<lambda>_. True" m returns] by (cases "m s") fastforce

lemma execute_returns: "triple (\<lambda>_. True) (execute E rq) returns (\<lambda>_ _. True)"
  unfolding execute_def
  by (auto simp: some_returns intro!: triple_pre[OF triple_raise] triple_then[OF triple_any]
      guarded_returns run_session_returns split: sum.split option.split)

lemma resume_returns: "triple (\<lambda>_. True) (resume E sid c v outcome) returns (\<lambda>_ _. True)"
proof -
  let ?rq = "cn_request c"
  have loop: "triple P (bind_c (gets (\<lambda>s. loop_fuel (rq_artifact ?rq) (rs_uses s) (resume_index c))) (\<lambda>n.
        step_loop E ?rq sid (cn_inputs c) first n (resume_index c) v)) returns (\<lambda>_ _. True)" for first P
  proof (rule tripleI)
    fix s t x
    assume run: "bind_c (gets (\<lambda>s. loop_fuel (rq_artifact ?rq) (rs_uses s) (resume_index c))) (\<lambda>n.
        step_loop E ?rq sid (cn_inputs c) first n (resume_index c) v) s = (Inr x, t)"
    show "returns x t"
      by (rule tripleD(1)[OF step_loop_returns[of "uses_left (rq_artifact ?rq) (rs_uses s)"] _ run[simplified]])
         (simp_all add: loop_fuel_def uses_within_def)
  qed simp
  show ?thesis
    unfolding resume_def
    by (auto simp: some_returns intro!: triple_then[OF triple_any] guarded_returns loop split: option.split)
qed

end
