(* ===== verification/ReplaySample.thy ===== *)
theory ReplaySample
  imports ReplayRun ArtifactSample
begin

text \<open>
  A surface on which the witnesses run the sample artifact: a page of one route, whose rendered
  texts are a function of the history, and services that always answer.
\<close>

definition zeros :: string where
  "zeros = replicate 32 (CHR ''0'')"

definition sample_session :: string where
  "sample_session = ''ses_'' @ zeros"

definition sample_observation :: normalized_observation where
  "sample_observation =
     \<lparr>obs_id = ''evt_'' @ zeros, obs_session_id = sample_session, obs_captured_at = utc 0,
      obs_route = ''/accounts'', obs_viewport = \<lparr>vp_width = 800, vp_height = 600, vp_scale = 1\<rparr>,
      obs_fingerprint = ''page'', obs_landmarks = [], obs_frame_titles = [], obs_controls = [],
      obs_fields = [], obs_tokens = [], obs_active_element = None, obs_dialog_text = None,
      obs_screenshot_key = None\<rparr>"

definition sample_target :: resolved_target where
  "sample_target =
     \<lparr>rt_handle = ''h'', rt_description = ''control'', rt_candidate_index = 0,
      rt_observed_count = 1, rt_registered_risk = None, rt_visual = None\<rparr>"

definition sample_receipt :: action_receipt where
  "sample_receipt =
     \<lparr>ar_status = COMPLETED, ar_started_at = utc 0, ar_completed_at = utc 0,
      ar_observed_effect = None, ar_error_code = None\<rparr>"

definition sample_policy :: effective_policy where
  "sample_policy =
     \<lparr>ep_layers = [''capability''], ep_origins = [''http://bank''], ep_routes = [''/accounts''],
      ep_actions = [''navigate'', ''type'', ''extract'', ''press_keys''],
      ep_maximum_risk = REVERSIBLE, ep_forbidden = [CREDENTIAL, SECRET]\<rparr>"

fun holds :: "(string \<Rightarrow> bool) \<Rightarrow> json_object \<Rightarrow> condition \<Rightarrow> bool" where
  "holds visible outputs (RenderedTextCondition v m) = visible v"
| "holds visible outputs (OutputValidCondition out) = (dict_get outputs out \<noteq> None)"
| "holds visible outputs (AllCondition cs) = list_all (holds visible outputs) cs"
| "holds visible outputs (AnyCondition cs) = list_ex (holds visible outputs) cs"
| "holds visible outputs (NotCondition c) = (\<not> holds visible outputs c)"
| "holds visible outputs _ = True"

definition sample_formats :: formats where
  "sample_formats =
     \<lparr>fm_fullmatch = (\<lambda>p s. True), fm_date = (\<lambda>s. True), fm_datetime = (\<lambda>s. Some True)\<rparr>"

definition sample_environment :: "(history \<Rightarrow> string \<Rightarrow> bool) \<Rightarrow> environment" where
  "sample_environment visible =
     \<lparr>ev_compatibility = None, ev_open = (\<lambda>h f t e. Inr sample_session),
      ev_origin = (\<lambda>h. ''http://bank''),
      ev_evaluate = (\<lambda>h c outs ins. Inr (holds (visible h) outs c)),
      ev_wait = (\<lambda>h c outs ins t. Inr (holds (visible h) outs c)),
      ev_observe = (\<lambda>h. Inr sample_observation), ev_resolve = (\<lambda>h t ms. Inr sample_target),
      ev_execute = (\<lambda>h a t ins. Inr sample_receipt), ev_extract = (\<lambda>h t. Inr '' 42 ''),
      ev_frame = (\<lambda>h. Inr png_signature), ev_close = (\<lambda>h. Inr ()),
      ev_record = (\<lambda>h k s d. Inr ()), ev_attach = (\<lambda>h k b r. Inr ()),
      ev_manifest = (\<lambda>h. ''evidence://run_'' @ zeros @ ''/manifest''),
      ev_retain = (\<lambda>h c. Inr ()), ev_store = (\<lambda>kvs. Inr (strip_object kvs)), ev_str = (\<lambda>v. ''object''),
      ev_clock = (\<lambda>h n. 0), ev_uuid = (\<lambda>h. zeros), ev_formats = sample_formats,
      ev_policy = sample_policy, ev_ttl = 60, ev_has_sink = True\<rparr>"

definition fresh_state :: run_state where
  "fresh_state =
     \<lparr>rs_history = [], rs_store = empty_handoff_store, rs_outputs = [], rs_uses = [],
      rs_pauses = [], rs_session = None, rs_preserve = False\<rparr>"

definition sample_request :: replay_request where
  "sample_request =
     \<lparr>rq_run_id = ''run_'' @ zeros, rq_artifact = sample_artifact, rq_tenant = ''base'',
      rq_inputs = [(''account'', JStr ''7'')], rq_allow_intervention = True\<rparr>"

end
