(* ===== verification/ReplayGuarantees.thy ===== *)
theory ReplayGuarantees
  imports ReplayOutcome ReplayTermination ReplaySample
begin

text \<open>
  The guarantees of the replay engine: every dispatch was permitted by the policy under the lease,
  every run ends, a success was verified, sessions are closed, and an intervention leaves control
  paused with a continuation at hand. The witnesses run the sample artifact.
\<close>

section \<open>The sample runs\<close>

definition executed :: "history \<Rightarrow> action list" where
  "executed h = concat (map (\<lambda>e. case e of EvExecute a t r \<Rightarrow> [a] | _ \<Rightarrow> []) (rev h))"

definition quiet_environment :: environment where
  "quiet_environment = sample_environment (\<lambda>h v. False)"

definition sample_run :: "run_result option result \<times> run_state" where
  "sample_run = execute quiet_environment sample_request fresh_state"

text \<open>An environment whose surface cannot find the control of the second step.\<close>

definition lost_environment :: environment where
  "lost_environment = quiet_environment
     \<lparr>ev_resolve := (\<lambda>h t ms. Inl (SurfaceFailure (simple_error ''target_absent'' ''Control not found.'')))\<rparr>"

definition lost_run :: "run_result option result \<times> run_state" where
  "lost_run = execute lost_environment sample_request fresh_state"

fun is_success :: "run_result option result \<Rightarrow> bool" where
  "is_success (Inr (Some (SuccessResult x))) = True"
| "is_success _ = False"

fun is_pause :: "run_result option result \<Rightarrow> bool" where
  "is_pause (Inr (Some (InterventionRequiredResult x))) = True"
| "is_pause _ = False"

lemma sample_run_evaluates:
  "case sample_run of (r, t) \<Rightarrow> is_success r \<and>
     executed (rs_history t) = [NavigateAction ''home'', TypeAction (InputValue ''account'') True]"
  by code_simp

lemma lost_run_evaluates:
  "case lost_run of (r, t) \<Rightarrow> is_pause r \<and> executed (rs_history t) = [NavigateAction ''home'']"
  by code_simp

lemma is_success_iff: "is_success r = (\<exists>x. r = Inr (Some (SuccessResult x)))"
  by (cases r rule: is_success.cases) auto

lemma is_pause_iff: "is_pause r = (\<exists>x. r = Inr (Some (InterventionRequiredResult x)))"
  by (cases r rule: is_pause.cases) auto

lemma sample_run_success:
  "\<exists>x. execute quiet_environment sample_request fresh_state = (Inr (Some (SuccessResult x)), snd sample_run)"
  "executed (rs_history (snd sample_run)) = [NavigateAction ''home'', TypeAction (InputValue ''account'') True]"
  using sample_run_evaluates by (auto simp: is_success_iff sample_run_def split: prod.splits)

lemma lost_run_pauses:
  "\<exists>x. execute lost_environment sample_request fresh_state =
     (Inr (Some (InterventionRequiredResult x)), snd lost_run)"
  using lost_run_evaluates by (auto simp: is_pause_iff lost_run_def split: prod.splits)

section \<open>Permission\<close>

interpretation guarded: whole_run "\<lambda>s. safe_history (ev_policy E) (rs_history s)" E for E
proof
  fix e :: event and s :: run_state
  show "quiet e \<Longrightarrow> safe_history (ev_policy E) (rs_history s) \<Longrightarrow>
      safe_history (ev_policy E) (rs_history (s\<lparr>rs_history := e # rs_history s\<rparr>))"
    by (cases e) simp_all
  show "\<not> quiet e \<Longrightarrow> (\<forall>a t r. e \<noteq> EvExecute a t r) \<Longrightarrow>
      safe_history (ev_policy E) (rs_history s) \<Longrightarrow>
      safe_history (ev_policy E) (rs_history (s\<lparr>rs_history := e # rs_history s\<rparr>))"
    by (cases e) simp_all
qed (simp_all add: count_use_def)

text \<open>
  C1. No run dispatches an action that was not permitted right then: before every dispatch the
  last thing but journal entries is a policy decision that allows an action of that kind for
  automation, made in this step after the control lease was checked; and the dispatch uses the
  permission up. This holds for execute, resume and the validation of a resumption.
\<close>

theorem dispatch_is_permitted:
  assumes "safe_history (ev_policy E) (rs_history s)"
  shows "safe_history (ev_policy E) (rs_history (snd (execute E rq s))) \<and>
         safe_history (ev_policy E) (rs_history (snd (resume E sid c v outcome s))) \<and>
         safe_history (ev_policy E) (rs_history (snd (validate_resume E c s)))"
  using keepsD[OF guarded.execute_kept_all(2) assms] keepsD[OF guarded.resume_kept assms]
    keepsD[OF guarded.validate_resume_kept assms] by blast

theorem dispatch_is_permitted_witness:
  "safe_history (ev_policy quiet_environment) (rs_history (snd sample_run)) \<and>
   executed (rs_history (snd sample_run)) \<noteq> []"
proof -
  have "safe_history (ev_policy quiet_environment) (rs_history fresh_state)"
    by (simp add: fresh_state_def)
  from dispatch_is_permitted[OF this] show ?thesis
    using sample_run_success(2) by (simp add: sample_run_def)
qed

section \<open>Termination\<close>

text \<open>
  C4. Every run returns: the fuel of the loop over the steps, which is the number of recovery uses
  the artifact has left times the number of steps plus the steps ahead, is never used up, in a
  first execution as in a resumption, whatever the surface and the services answer.
\<close>

theorem replay_returns:
  "fst (execute E rq s) \<noteq> Inr None \<and> fst (resume E sid c v outcome s) \<noteq> Inr None"
  using triple_all_returns[OF execute_returns] triple_all_returns[OF resume_returns] by blast

section \<open>Results\<close>



text \<open>
  C13. No session leaks, whichever way a run ends. A run that returns has closed the session that
  execute opened, or that resume was given, unless the result is an intervention, which keeps
  exactly that session open. A run that raises has closed it too, or tried to: it is left open only
  when closing it raised, or when it is held for an open intervention and the observation or the
  sink raised as the run was to be retained. A continuation that is refused leaves all as it was.
\<close>

theorem sessions_are_released:
  "(execute E rq s = (Inr (Some r), t) \<longrightarrow>
      open_sessions (rs_history t) =
        open_sessions (rs_history s) + (if is_intervention r = None then 0 else 1)) \<and>
   (execute E rq s = (Inl e, t) \<longrightarrow> released (open_sessions (rs_history s)) t) \<and>
   (resume E sid c v outcome s = (Inr (Some r), t) \<longrightarrow>
      open_sessions (rs_history t) =
        open_sessions (rs_history s) - (if is_intervention r = None then 1 else 0)) \<and>
   (resume E sid c v outcome s = (Inl e, t) \<longrightarrow>
      assert_continuation c = Inl e \<and> t = s \<or> released (open_sessions (rs_history s) - 1) t)"
proof -
  show ?thesis
    using execute_over[of E rq s _ t] resume_over[of E sid c v outcome s _ t]
      resume_refused[of c _ E sid v outcome s]
    by (cases "assert_continuation c") (auto simp: run_over_def)
qed

theorem sessions_are_released_witness:
  "open_sessions (rs_history (snd sample_run)) = 0 \<and> open_sessions (rs_history (snd lost_run)) = 1"
proof -
  obtain x y where "execute quiet_environment sample_request fresh_state =
      (Inr (Some (SuccessResult x)), snd sample_run)"
    "execute lost_environment sample_request fresh_state =
      (Inr (Some (InterventionRequiredResult y)), snd lost_run)"
    using sample_run_success(1) lost_run_pauses by blast
  note runs = this
  show ?thesis
    using conjunct1[OF sessions_are_released, THEN mp, OF runs(1)]
      conjunct1[OF sessions_are_released, THEN mp, OF runs(2)]
    by (simp add: is_intervention_def fresh_state_def)
qed

text \<open>
  C6. An intervention is safe to leave: when execute or resume reports that a human is needed, the
  intervention under the reported identifier is open, and the lease of its session is paused for it,
  so automation can do nothing. With a continuation sink the run is retained just as it stopped: the
  sink has the validated inputs, the outputs and recovery uses of the run, the index of the step the
  intervention is about, the fingerprint observed last, and whether to do the step again and as
  which attempt, as the diagnostic recorded right before the pause says.
\<close>

theorem intervention_is_held:
  "(execute E rq s = (Inr (Some (InterventionRequiredResult x)), t) \<longrightarrow>
      (\<exists>inputs.
         validate_object (ev_formats E) (art_inputs (rq_artifact rq)) (rq_inputs rq) ''$'' = Inr inputs \<and>
         held (ir_intervention_id x) t \<and> retained E rq inputs x t)) \<and>
   (resume E sid c v outcome s = (Inr (Some (InterventionRequiredResult x)), t) \<longrightarrow>
      held (ir_intervention_id x) t \<and> retained E (cn_request c) (cn_inputs c) x t)"
  using execute_over[of E rq s "Inr (Some (InterventionRequiredResult x))" t]
    resume_over[of E sid c v outcome s "Inr (Some (InterventionRequiredResult x))" t]
    resume_refused[of c _ E sid v outcome s]
  by (cases "assert_continuation c") (auto simp: run_over_def final_def is_intervention_def)

theorem intervention_is_held_witness:
  "\<exists>x. held (ir_intervention_id x) (snd lost_run) \<and>
     retained lost_environment sample_request [(''account'', JStr ''7'')] x (snd lost_run)"
proof -
  obtain x where run: "execute lost_environment sample_request fresh_state =
      (Inr (Some (InterventionRequiredResult x)), snd lost_run)" using lost_run_pauses by blast
  have "validate_object (ev_formats lost_environment) (art_inputs (rq_artifact sample_request))
      (rq_inputs sample_request) ''$'' = Inr [(''account'', JStr ''7'')]"
    by code_simp
  with conjunct1[OF intervention_is_held, THEN mp, OF run] show ?thesis by auto
qed

section \<open>Composition with the hand-off of control\<close>

interpretation composed: whole_run "\<lambda>s. handoff_run (ev_ttl E) st (rs_store s)" E for st E
  by unfold_locales (auto simp: count_use_def intro: handoff_run.intros)

text \<open>
  C14. Whatever a replay does to leases and interventions is a run of the hand-off machine, so every
  invariant of that machine holds during and after replays: the engine changes that state only
  through the operations of the lease service and the intervention router.
\<close>

theorem replay_is_handoff_run:
  "handoff_run (ev_ttl E) (rs_store s) (rs_store (snd (execute E rq s))) \<and>
   handoff_run (ev_ttl E) (rs_store s) (rs_store (snd (resume E sid c v outcome s))) \<and>
   handoff_run (ev_ttl E) (rs_store s) (rs_store (snd (validate_resume E c s)))"
  using keepsD[OF composed.execute_kept_all(2)] keepsD[OF composed.resume_kept]
    keepsD[OF composed.validate_resume_kept] by (blast intro: handoff_run.intros)

end
