(* ===== verification/Redaction.thy ===== *)
theory Redaction
  imports RunResults
begin

text \<open>
  What may be retained of a run: the positive retention schema of \<^verbatim>\<open>runs/privacy.py\<close>
  and the structured redactor of \<^verbatim>\<open>evidence/redaction.py\<close>. The redactor's regular
  expressions are values of a small pattern language, searched as \<open>re\<close> does. The serialized text
  of a JSON value and the keyed pseudonym of a customer identifier are parameters.
\<close>

section \<open>Retention schema\<close>

definition is_privacy_code :: "string \<Rightarrow> bool" where
  "is_privacy_code = matches_ident lower_letters dotted_ident_chars 0 (Some 127)"

definition CODE_FIELDS :: "string list" where
  "CODE_FIELDS =
     [''code'', ''reason'', ''error_code'', ''recovery_id'', ''resume_at'', ''output'',
      ''input_binding'', ''output_binding'', ''transform'', ''source_step_id'']"

definition COUNT_FIELDS :: "string list" where
  "COUNT_FIELDS =
     [''attempt'', ''uses'', ''use'', ''lease_version'', ''frame_depth'', ''client_sequence'',
      ''source_frame_sequence'', ''viewport_height'', ''viewport_width'', ''x'', ''y'',
      ''character_count'', ''after_step_count'', ''step_ordinal'', ''expected_count'',
      ''observed_count'', ''max_attempts'']"

definition FLAG_FIELDS :: "string list" where
  "FLAG_FIELDS = [''effect_absent'', ''target_present'', ''retry_error_allowed'', ''recovery_checked'']"

definition CONDITION_KINDS :: "string list" where
  "CONDITION_KINDS =
     [''route'', ''text'', ''visual_text'', ''rendered_text'', ''input_text'', ''element'',
      ''output_valid'', ''output_equals'', ''identity_matches'', ''all'', ''any'', ''not'',
      ''unknown'']"

definition ENUM_FIELDS :: "(string \<times> string list) list" where
  "ENUM_FIELDS =
     [(''phase'', [''before_dispatch'', ''after_dispatch'', ''completion'', ''unknown'']),
      (''dispatch_state'', [''not_attempted'', ''attempted'', ''unknown'']),
      (''condition_kind'', CONDITION_KINDS),
      (''decision'', [''allow'', ''deny'', ''require_human_approval'']),
      (''disposition'', [''continue'', ''business_outcome'', ''retry_step'']),
      (''proposal_kind'', [''act'', ''complete'', ''escalate'', ''recorded_action'', ''branch'']),
      (''action_type'',
        [''click'', ''type'', ''select'', ''press_keys'', ''scroll'', ''wait_for'', ''assert'',
         ''extract'', ''checkpoint'', ''navigate'', ''switch_context'', ''unknown'']),
      (''declared_risk'', [''read_only'', ''reversible'', ''sensitive'', ''irreversible'']),
      (''evidence_frame'', [''captured'', ''unavailable'', ''not_applicable'']),
      (''input_type'', [''pointer'', ''key'', ''text'']),
      (''key'',
        [''Enter'', ''Tab'', ''Shift+Tab'', ''Escape'', ''Backspace'', ''Delete'', ''ArrowUp'',
         ''ArrowDown'', ''ArrowLeft'', ''ArrowRight'', ''Home'', ''End''])]"

definition STRATEGIES :: "string list" where
  "STRATEGIES =
     [''role_name'', ''label'', ''text'', ''relative_text'', ''placeholder'', ''title'', ''css'',
      ''accessibility_path'', ''image_anchor'', ''coordinates'', ''ocr_text'', ''ocr_relative'',
      ''rendered_text'', ''rendered_labeled_control'', ''rendered_field_value'',
      ''rendered_group_image'', ''input_text'']"

definition is_handle :: "string \<Rightarrow> bool" where
  "is_handle s = ((starts_with ''ses_'' s \<or> starts_with ''int_'' s) \<and> is_hex 32 (drop 4 s))"

definition is_strategy_name :: "json \<Rightarrow> bool" where
  "is_strategy_name v = (case v of JStr s \<Rightarrow> s \<in> set STRATEGIES | _ \<Rightarrow> False)"

text \<open>The disjunction \<open>safe\<close> of \<open>event_detail_classifications\<close>; a boolean is not an \<open>int\<close> by type.\<close>

definition safe_detail :: "string \<Rightarrow> json \<Rightarrow> bool" where
  "safe_detail key v =
     (case v of
        JStr s \<Rightarrow>
          key \<in> set CODE_FIELDS \<and> is_privacy_code s \<or>
          (case map_of ENUM_FIELDS key of None \<Rightarrow> False | Some allowed \<Rightarrow> s \<in> set allowed) \<or>
          key = ''expected_condition_kind'' \<and> s \<in> set CONDITION_KINDS \<or>
          key \<in> {''session_id'', ''intervention_id''} \<and> is_handle s
      | JInt n \<Rightarrow> key \<in> set COUNT_FIELDS \<and> 0 \<le> n \<and> n \<le> 1000000
      | JBool b \<Rightarrow> key \<in> set FLAG_FIELDS
      | JList vs \<Rightarrow> key = ''locator_strategies'' \<and> list_all is_strategy_name vs
      | _ \<Rightarrow> False)"

type_synonym classifications = "data_classification dict"

definition event_detail_classifications :: "json_object \<Rightarrow> classifications" where
  "event_detail_classifications details =
     dict_of_pairs (map (\<lambda>(key, v).
       (key, if key = ''operator_id'' then CUSTOMER_IDENTIFIER
             else if safe_detail key v then OPERATIONAL else PERSONAL)) details)"

definition OPERATIONAL_RESULT_FIELDS :: "string list" where
  "OPERATIONAL_RESULT_FIELDS =
     [''status'', ''run_id'', ''code'', ''recoverable'', ''step_id'', ''evidence_manifest'',
      ''capability'', ''checkpoint'', ''artifact_content_hash'', ''diagnostic_trace'']"

lemma pairs_size:
  "(\<Sum>(k, x)\<leftarrow>kvs. Suc (size x)) \<le> Suc (size_list (size_prod (\<lambda>_. 0) size) kvs + n)"
  "(\<Sum>p\<leftarrow>kvs. Suc (size (snd p))) \<le> Suc (size_list (size_prod (\<lambda>_. 0) size) kvs + n)"
  by (induction kvs) auto

text \<open>
  \<open>classify_outputs\<close>: the assignments it makes, in order. The inner function is defined with the
  list of pairs still to visit.
\<close>

function classify_pairs :: "classifications \<Rightarrow> (string \<times> json) list \<Rightarrow> classifications" where
  "classify_pairs declared [] = []"
| "classify_pairs declared ((path, v) # rest) =
     (case dict_get declared path of
        Some c \<Rightarrow> [(path, c)]
      | None \<Rightarrow>
          (case v of
             JObj kvs \<Rightarrow>
               classify_pairs declared (map (\<lambda>(k, x). (path @ ''.'' @ k, x)) kvs)
           | _ \<Rightarrow> [(path, PERSONAL)])) @ classify_pairs declared rest"
  by pat_completeness auto

termination
  by (relation "measure (\<lambda>(declared, kvs). \<Sum>(k, v)\<leftarrow>kvs. size v + 1)")
     (auto simp: comp_def case_prod_beta less_Suc_eq_le pairs_size[unfolded case_prod_beta])

text \<open>
  \<open>terminal_classifications\<close>: the outputs classified one by one, and then every declaration that
  is not a relaxation of a field outside the outputs.
\<close>

definition terminal_classifications :: "json_object \<Rightarrow> classifications \<Rightarrow> classifications" where
  "terminal_classifications result declared =
     dict_of_pairs
       (map (\<lambda>(key, v). (key, if key \<in> set OPERATIONAL_RESULT_FIELDS then OPERATIONAL else PERSONAL))
          [(key, v) \<leftarrow> result. key \<noteq> ''outputs''] @
        (case dict_get result ''outputs'' of
           None \<Rightarrow> []
         | Some v \<Rightarrow> classify_pairs declared [(''outputs'', v)]) @
        [(path, c) \<leftarrow> declared.
           starts_with ''outputs.'' path \<or> c \<notin> {OPERATIONAL, PUBLIC}])"

section \<open>The scan for secrets\<close>

text \<open>The part of \<open>re\<close> the patterns use: \<open>\b\<close>, literals, runs over a class, optional words.\<close>

datatype rx =
    Edge
  | Lit string
  | Nocase string
  | Run "char list" nat "nat option"
  | Spaces
  | Opt "string list"

definition is_word :: "char \<Rightarrow> bool" where
  "is_word c = (c \<in> set (lower_letters @ upper_letters @ digits @ ''_''))"

definition at_word :: "string \<Rightarrow> bool" where
  "at_word s = (case s of [] \<Rightarrow> False | c # cs \<Rightarrow> is_word c)"

text \<open>The lengths a run may take: at least \<open>lo\<close>, at most \<open>hi\<close>, over members of the class.\<close>

definition run_lengths :: "(char \<Rightarrow> bool) \<Rightarrow> nat \<Rightarrow> nat option \<Rightarrow> string \<Rightarrow> nat list" where
  "run_lengths p lo hi s =
     [n \<leftarrow> [lo..<Suc (length (takeWhile p s))]. case hi of None \<Rightarrow> True | Some h \<Rightarrow> n \<le> h]"

text \<open>A match at the start of \<open>s\<close>; \<open>before\<close> tells whether a word character precedes it.\<close>

fun match_here :: "rx list \<Rightarrow> bool \<Rightarrow> string \<Rightarrow> bool" where
  "match_here [] before s = True"
| "match_here (Edge # r) before s = (before \<noteq> at_word s \<and> match_here r before s)"
| "match_here (Lit w # r) before s =
     (starts_with w s \<and> match_here r (is_word (last w)) (drop (length w) s))"
| "match_here (Nocase w # r) before s =
     (starts_with (py_lower w) (py_lower s) \<and> match_here r (is_word (last w)) (drop (length w) s))"
| "match_here (Run cs lo hi # r) before s =
     list_ex (\<lambda>n. match_here r (if n = 0 then before else is_word (s ! (n - 1))) (drop n s))
       (run_lengths (\<lambda>c. c \<in> set cs) lo hi s)"
| "match_here (Spaces # r) before s =
     list_ex (\<lambda>n. match_here r (is_word (s ! (n - 1))) (drop n s)) (run_lengths py_isspace 1 None s)"
| "match_here (Opt ws # r) before s =
     (list_ex (\<lambda>w. starts_with w s \<and> match_here r (is_word (last w)) (drop (length w) s)) ws \<or>
      match_here r before s)"

fun search_from :: "rx list \<Rightarrow> bool \<Rightarrow> string \<Rightarrow> bool" where
  "search_from r before [] = match_here r before []"
| "search_from r before (c # cs) = (match_here r before (c # cs) \<or> search_from r (is_word c) cs)"

definition search :: "rx list \<Rightarrow> string \<Rightarrow> bool" where
  "search r s = search_from r False s"

definition TOKEN_PATTERNS :: "rx list list" where
  "TOKEN_PATTERNS =
     [[Edge, Lit ''sk-'', Run (upper_letters @ lower_letters @ digits @ ''_-'') 16 None, Edge],
      [Edge, Lit ''AKIA'', Run (digits @ upper_letters) 16 (Some 16), Edge],
      [Edge, Lit ''gh'', Run ''pousr'' 1 (Some 1), Lit ''_'',
       Run (upper_letters @ lower_letters @ digits) 20 None, Edge],
      [Lit ''-----BEGIN '', Opt [''RSA '', ''EC '', ''OPENSSH ''], Lit ''PRIVATE KEY-----''],
      [Edge, Nocase ''Bearer'', Spaces,
       Run (upper_letters @ lower_letters @ digits @ ''._~+/-'') 16 None, Edge]]"

section \<open>The redactor\<close>

text \<open>
  Evidence content: the text \<open>json.dumps\<close> makes of a value in one of three layouts, or plain
  bytes. The codec's functions are those of Python's \<open>json\<close>, \<open>hashlib\<close> and \<open>datetime\<close>.
\<close>

datatype layout = Compact | Ascii | Indented

datatype content = Json layout json | Raw bytes

record codec =
  cd_dumps :: "layout \<Rightarrow> json \<Rightarrow> bytes"
  cd_loads :: "bytes \<Rightarrow> json option"
  cd_sha256 :: "bytes \<Rightarrow> string"
  cd_iso :: "datetime \<Rightarrow> string"
  cd_from_iso :: "string \<Rightarrow> datetime option"
  cd_zip :: "string \<Rightarrow> bytes \<Rightarrow> bytes"

definition bytes_of :: "codec \<Rightarrow> content \<Rightarrow> bytes" where
  "bytes_of T x = (case x of Json st v \<Rightarrow> cd_dumps T st v | Raw b \<Rightarrow> b)"

text \<open>
  \<open>json.loads\<close>: the text of a value, which was written with sorted keys, is read back as the value.
\<close>

function sort_json :: "json \<Rightarrow> json" where
  "sort_json (JObj kvs) = JObj (sort_key fst (map (\<lambda>(k, v). (k, sort_json v)) kvs))"
| "sort_json (JList vs) = JList (map sort_json vs)"
| "sort_json JNull = JNull"
| "sort_json (JBool b) = JBool b"
| "sort_json (JInt n) = JInt n"
| "sort_json (JFloat r) = JFloat r"
| "sort_json (JStr s) = JStr s"
  by pat_completeness auto

termination
proof (relation "measure size")
  fix kvs :: json_object and p k v
  assume "p \<in> set kvs" "(k, v) = p"
  then have "size v < size_list (size_prod (\<lambda>_. 0) size) kvs"
    by (induction kvs) auto
  then show "(v, JObj kvs) \<in> measure size" by simp
next
  fix vs :: "json list" and v
  assume "v \<in> set vs"
  then have "size v < size_list size vs" by (induction vs) auto
  then show "(v, JList vs) \<in> measure size" by simp
qed simp

lemma map_of_sort_key: "dict_get (sort_key fst kvs) k = dict_get kvs k"
proof -
  have first: "dict_get xs k = (case filter (\<lambda>p. fst p = k) xs of [] \<Rightarrow> None | p # ps \<Rightarrow> Some (snd p))" for xs
    by (induction xs) auto
  show ?thesis unfolding first sort_key_stable ..
qed

definition loads :: "codec \<Rightarrow> content \<Rightarrow> json option" where
  "loads T x = (case x of Json st v \<Rightarrow> Some (sort_json v) | Raw b \<Rightarrow> cd_loads T b)"

definition content_size :: "codec \<Rightarrow> content \<Rightarrow> int" where
  "content_size T x = int (length (bytes_of T x))"

definition content_digest :: "codec \<Rightarrow> content \<Rightarrow> string" where
  "content_digest T x = ''sha256:'' @ cd_sha256 T (bytes_of T x)"

datatype media_type = MEDIA_JSON | MEDIA_PNG | MEDIA_ZIP

text \<open>\<open>SanitizedEvidence\<close> and \<open>RawScreenshot\<close> have the same fields.\<close>

record payload =
  py_content :: content
  py_media :: media_type
  py_directives :: "string list"

definition mk_sanitized :: "codec \<Rightarrow> content \<Rightarrow> media_type \<Rightarrow> string list \<Rightarrow> payload result" where
  "mk_sanitized T x media directives =
     (if bytes_of T x = [] then Inl (ValueError ''sanitized evidence cannot be empty'')
      else if \<not> distinct directives then Inl (ValueError ''redaction directives must be unique'')
      else if [] \<in> set directives then Inl (ValueError ''redaction directives cannot be empty'')
      else Inr \<lparr>py_content = x, py_media = media, py_directives = directives\<rparr>)"

definition screenshot_payload :: "bytes \<Rightarrow> payload result" where
  "screenshot_payload b =
     bind_r (mk_raw_screenshot b) (\<lambda>x.
     Inr \<lparr>py_content = Raw x, py_media = MEDIA_PNG,
          py_directives = [''unredacted:raw-screenshot'']\<rparr>)"

record redactor =
  rd_secrets :: "string list"
  rd_strict :: bool
  rd_pseudonym :: "string \<Rightarrow> json \<Rightarrow> string"

definition FORBIDDEN_KEY_FRAGMENTS :: "string list" where
  "FORBIDDEN_KEY_FRAGMENTS =
     [''authorization'', ''cookie'', ''password'', ''passwd'', ''api_key'', ''token'', ''secret'']"

definition is_trusted_key :: "string \<Rightarrow> bool" where
  "is_trusted_key =
     matches_ident (upper_letters @ lower_letters @ ''_'')
       (upper_letters @ lower_letters @ digits @ ''_./-'') 0 (Some 255)"

definition is_forbidden_key :: "string \<Rightarrow> bool" where
  "is_forbidden_key key =
     (let k = map (\<lambda>c. if c = CHR ''-'' then CHR ''_'' else c) (py_casefold key) in
      list_ex (\<lambda>f. contains_str f k) FORBIDDEN_KEY_FRAGMENTS)"

definition tokenize :: "redactor \<Rightarrow> string \<Rightarrow> json \<Rightarrow> json" where
  "tokenize R salt v = JStr (''customer_'' @ rd_pseudonym R salt v)"

definition redact_sequence_item :: "json \<Rightarrow> json" where
  "redact_sequence_item v =
     (case v of
        JList vs \<Rightarrow> JStr ''[REDACTED_COMPLEX_VALUE]''
      | JObj kvs \<Rightarrow> JStr ''[REDACTED_COMPLEX_VALUE]''
      | _ \<Rightarrow> v)"

definition sub_path :: "string \<Rightarrow> string \<Rightarrow> string" where
  "sub_path prefix key = (if prefix = [] then key else prefix @ ''.'' @ key)"

text \<open>What becomes of an entry before its value is looked into.\<close>

datatype entry_rule = Drop string | Replace json string | Enter

definition entry_rule_of ::
  "redactor \<Rightarrow> classifications \<Rightarrow> string \<Rightarrow> string \<Rightarrow> string \<Rightarrow> json \<Rightarrow> entry_rule" where
  "entry_rule_of R cls salt path key v =
     (if \<not> is_trusted_key key then Drop ''drop:untrusted-key''
      else if is_forbidden_key key then Drop (''drop:'' @ path)
      else case dict_get cls path of
        Some CREDENTIAL \<Rightarrow> Drop (''drop:'' @ path)
      | Some SECRET \<Rightarrow> Drop (''drop:'' @ path)
      | Some PERSONAL \<Rightarrow> Drop (''drop:'' @ path)
      | Some CUSTOMER_IDENTIFIER \<Rightarrow> Replace (tokenize R salt v) (''tokenize:'' @ path)
      | Some FINANCIAL \<Rightarrow> Replace (JStr ''[REDACTED_FINANCIAL]'') (''redact:'' @ path)
      | _ \<Rightarrow> Enter)"

text \<open>The redacted mapping with the directives applied, in the order of the traversal.\<close>

function redact_mapping ::
  "redactor \<Rightarrow> classifications \<Rightarrow> string \<Rightarrow> string \<Rightarrow> json_object \<Rightarrow> json_object \<times> string list"
where
  "redact_mapping R cls salt prefix [] = ([], [])"
| "redact_mapping R cls salt prefix ((key, v) # rest) =
     (let (kept, later) = redact_mapping R cls salt prefix rest;
          path = sub_path prefix key in
      case entry_rule_of R cls salt path key v of
        Drop d \<Rightarrow> (kept, d # later)
      | Replace w d \<Rightarrow> ((key, w) # kept, d # later)
      | Enter \<Rightarrow>
          (case v of
             JObj kvs \<Rightarrow>
               (let (inner, ds) = redact_mapping R cls salt path kvs in
                ((key, JObj inner) # kept, ds @ later))
           | JList vs \<Rightarrow> ((key, JList (map redact_sequence_item vs)) # kept, later)
           | _ \<Rightarrow> ((key, v) # kept, later)))"
  by pat_completeness auto

termination
  by (relation "measure (\<lambda>(R, cls, salt, prefix, kvs). \<Sum>(k, v)\<leftarrow>kvs. size v + 1)")
     (auto simp: less_Suc_eq_le pairs_size)

text \<open>\<open>_scan\<close>: secrets shorter than eight characters are not searched for.\<close>

definition scan_finds :: "redactor \<Rightarrow> string \<Rightarrow> bool" where
  "scan_finds R s =
     (list_ex (\<lambda>p. search p s) TOKEN_PATTERNS \<or>
      list_ex (\<lambda>secret. 8 \<le> length secret \<and> contains_str secret s) (rd_secrets R))"

definition validate_text :: "redactor \<Rightarrow> string \<Rightarrow> unit result" where
  "validate_text R s =
     check (\<not> (scan_finds R s \<and> rd_strict R))
       (EvidenceRejectedError ''evidence contains forbidden secret-like content'')"

definition sanitize_json ::
  "codec \<Rightarrow> redactor \<Rightarrow> json_object \<Rightarrow> classifications \<Rightarrow> string \<Rightarrow> payload result" where
  "sanitize_json T R details cls salt =
     (let (cleaned, directives) = redact_mapping R cls salt [] details;
          content = Json Compact (JObj cleaned) in
      bind_r (validate_text R (bytes_of T content)) (\<lambda>_.
      mk_sanitized T content MEDIA_JSON (sort (remdups directives))))"

end
