(* ===== verification/Evidence.thy ===== *)
theory Evidence
  imports Redaction
begin

text \<open>
  Retained evidence: the models of \<^verbatim>\<open>evidence/models.py\<close> with their JSON forms,
  the local store of \<^verbatim>\<open>evidence/local_store.py\<close> on a map of files, the diagnostic
  archive of \<^verbatim>\<open>evidence/diagnostics.py\<close>, and the independent verification of
  \<^verbatim>\<open>evidence/integrity.py\<close>. A store has no symbolic links; conversions Pydantic
  makes of values of another JSON type are a parameter.
\<close>

section \<open>Records, entries and manifests\<close>

definition MAX_MANIFEST_BYTES :: int where
  "MAX_MANIFEST_BYTES = 2000000"

definition MAX_EVENT_BYTES :: int where
  "MAX_EVENT_BYTES = 2000000"

text \<open>An \<open>EvidenceRecord\<close>; a \<open>ManifestEntry\<close> has the same fields under other checks.\<close>

record evidence_record =
  ed_id :: string
  ed_key :: string
  ed_media :: media_type
  ed_size :: int
  ed_hash :: string
  ed_retention :: retention_class
  ed_directives :: "string list"
  ed_created :: datetime

definition is_sha256 :: "string \<Rightarrow> bool" where
  "is_sha256 s = (starts_with ''sha256:'' s \<and> is_hex 64 (drop 7 s))"

definition directives_ok :: "string list \<Rightarrow> bool" where
  "directives_ok ds = (distinct ds \<and> [] \<notin> set ds)"

definition mk_evidence_record :: "evidence_record \<Rightarrow> evidence_record result" where
  "mk_evidence_record r =
     bind_r (parse_id (ed_id r) (Some EVIDENCE)) (\<lambda>_.
     if \<not> starts_with ''evidence://'' (ed_key r) \<or> ed_key r = ''evidence://'' \<or>
        list_ex py_isspace (ed_key r)
     then Inl (ValueError ''evidence record requires an opaque evidence key'')
     else if \<not> (0 < ed_size r \<and> ed_size r \<le> MAX_ATTACHMENT_BYTES)
     then Inl (ValueError ''evidence record size is outside the supported range'')
     else if \<not> is_sha256 (ed_hash r)
     then Inl (ValueError ''evidence record requires a SHA-256 content hash'')
     else if \<not> dt_aware (ed_created r)
     then Inl (ValueError ''evidence timestamp must include an offset'')
     else if \<not> directives_ok (ed_directives r)
     then Inl (ValueError ''redaction directives must be unique non-empty values'')
     else Inr r)"

text \<open>The field constraints and validators of \<open>ManifestEntry\<close>.\<close>

definition entry_ok :: "evidence_record \<Rightarrow> bool" where
  "entry_ok e =
     (is_sha256 (ed_hash e) \<and> dt_aware (ed_created e) \<and> is_id EVIDENCE (ed_id e) \<and>
      is_result_key (ed_key e) \<and> directives_ok (ed_directives e) \<and>
      0 < ed_size e \<and> ed_size e \<le> MAX_ATTACHMENT_BYTES)"

record run_manifest =
  mf_run :: string
  mf_generated :: datetime
  mf_events :: "evidence_record list"
  mf_attachments :: "evidence_record list"
  mf_terminal :: "evidence_record option"

definition manifest_entries :: "run_manifest \<Rightarrow> evidence_record list" where
  "manifest_entries m =
     mf_events m @ mf_attachments m @ (case mf_terminal m of None \<Rightarrow> [] | Some e \<Rightarrow> [e])"

definition run_prefix :: "string \<Rightarrow> string" where
  "run_prefix run = ''evidence://'' @ run @ ''/''"

text \<open>The validators of \<open>RunEvidenceManifest\<close>; any failure is a \<open>ValidationError\<close>.\<close>

definition manifest_ok :: "run_manifest \<Rightarrow> bool" where
  "manifest_ok m =
     (list_all entry_ok (manifest_entries m) \<and>
      1 \<le> length (mf_events m) \<and> int (length (mf_events m)) \<le> 10000 \<and>
      int (length (mf_attachments m)) \<le> 100 \<and>
      is_id RUN (mf_run m) \<and> dt_aware (mf_generated m) \<and>
      distinct (map ed_key (manifest_entries m)) \<and> distinct (map ed_id (manifest_entries m)) \<and>
      list_all (\<lambda>e. starts_with (run_prefix (mf_run m)) (ed_key e)) (manifest_entries m) \<and>
      list_all (\<lambda>e. ed_media e = MEDIA_JSON) (mf_events m) \<and>
      list_all (\<lambda>e. ed_media e \<noteq> MEDIA_JSON) (mf_attachments m) \<and>
      (case mf_terminal m of None \<Rightarrow> True | Some e \<Rightarrow> ed_media e = MEDIA_JSON))"

record event_evidence =
  ee_details :: json_object
  ee_id :: string
  ee_type :: string
  ee_at :: datetime
  ee_run :: string
  ee_sequence :: int
  ee_step :: "string option"

definition is_event_type :: "string \<Rightarrow> bool" where
  "is_event_type = matches_ident lower_letters ident_chars 1 (Some 63)"

definition is_event_step :: "string \<Rightarrow> bool" where
  "is_event_step = matches_ident lower_letters dotted_ident_chars 1 None"

definition event_ok :: "event_evidence \<Rightarrow> bool" where
  "event_ok e =
     (is_event_type (ee_type e) \<and> 1 \<le> ee_sequence e \<and>
      (case ee_step e of None \<Rightarrow> True | Some s \<Rightarrow> is_event_step s) \<and>
      is_id EVENT (ee_id e) \<and> is_id RUN (ee_run e) \<and> dt_aware (ee_at e))"

section \<open>JSON forms\<close>

text \<open>What Pydantic makes of a JSON value: a text, an integer, an instant.\<close>

record lax =
  lx_int :: "json \<Rightarrow> int option"
  lx_time :: "json \<Rightarrow> datetime option"

abbreviation obind :: "'a option \<Rightarrow> ('a \<Rightarrow> 'b option) \<Rightarrow> 'b option" where
  "obind \<equiv> Option.bind"

definition a_str :: "json \<Rightarrow> string option" where
  "a_str v = (case v of JStr s \<Rightarrow> Some s | _ \<Rightarrow> None)"

definition an_int :: "lax \<Rightarrow> json \<Rightarrow> int option" where
  "an_int L v = (case v of JInt n \<Rightarrow> Some n | _ \<Rightarrow> lx_int L v)"

definition an_object :: "json \<Rightarrow> json_object option" where
  "an_object v = (case v of JObj kvs \<Rightarrow> Some kvs | _ \<Rightarrow> None)"

definition str_list :: "json \<Rightarrow> string list option" where
  "str_list v = (case v of JList vs \<Rightarrow> those (map a_str vs) | _ \<Rightarrow> None)"

fun media_value :: "media_type \<Rightarrow> string" where
  "media_value MEDIA_JSON = ''application/json''"
| "media_value MEDIA_PNG = ''image/png''"
| "media_value MEDIA_ZIP = ''application/zip''"

definition media_of :: "string \<Rightarrow> media_type option" where
  "media_of s = find (\<lambda>m. media_value m = s) [MEDIA_JSON, MEDIA_PNG, MEDIA_ZIP]"

fun retention_value :: "retention_class \<Rightarrow> string" where
  "retention_value RETAIN_OPERATIONAL = ''operational''"
| "retention_value RETAIN_FAILURE = ''failure''"
| "retention_value RETAIN_HUMAN_AUDIT = ''human_audit''"
| "retention_value RETAIN_PROVIDER_METADATA = ''provider_metadata''"

definition retention_of :: "string \<Rightarrow> retention_class option" where
  "retention_of s = find (\<lambda>r. retention_value r = s)
     [RETAIN_OPERATIONAL, RETAIN_FAILURE, RETAIN_HUMAN_AUDIT, RETAIN_PROVIDER_METADATA]"

definition time_json :: "codec \<Rightarrow> datetime \<Rightarrow> json" where
  "time_json T d = JStr (cd_iso T d)"

definition entry_json :: "codec \<Rightarrow> evidence_record \<Rightarrow> json" where
  "entry_json T e = JObj
     [(''content_hash'', JStr (ed_hash e)), (''created_at'', time_json T (ed_created e)),
      (''evidence_id'', JStr (ed_id e)), (''key'', JStr (ed_key e)),
      (''media_type'', JStr (media_value (ed_media e))),
      (''redaction_directives'', JList (map JStr (ed_directives e))),
      (''retention_class'', JStr (retention_value (ed_retention e))),
      (''size_bytes'', JInt (ed_size e))]"

definition optional_json :: "('a \<Rightarrow> json) \<Rightarrow> 'a option \<Rightarrow> json" where
  "optional_json f x = (case x of None \<Rightarrow> JNull | Some y \<Rightarrow> f y)"

definition manifest_json :: "codec \<Rightarrow> run_manifest \<Rightarrow> json" where
  "manifest_json T m = JObj
     [(''schema_version'', JStr ''1.0''), (''run_id'', JStr (mf_run m)),
      (''generated_at'', time_json T (mf_generated m)),
      (''events'', JList (map (entry_json T) (mf_events m))),
      (''attachments'', JList (map (entry_json T) (mf_attachments m))),
      (''terminal_result'', optional_json (entry_json T) (mf_terminal m))]"

definition event_json :: "codec \<Rightarrow> event_evidence \<Rightarrow> json" where
  "event_json T e = JObj
     [(''details'', JObj (ee_details e)), (''event_id'', JStr (ee_id e)),
      (''event_type'', JStr (ee_type e)), (''occurred_at'', time_json T (ee_at e)),
      (''run_id'', JStr (ee_run e)), (''sequence'', JInt (ee_sequence e)),
      (''step_id'', optional_json JStr (ee_step e))]"

text \<open>Reading an object: no field but the declared ones, then each field by name.\<close>

definition fields_of :: "string list \<Rightarrow> json \<Rightarrow> json_object option" where
  "fields_of names v =
     obind (an_object v) (\<lambda>kvs. if set (map fst kvs) \<subseteq> set names then Some kvs else None)"

definition field :: "json_object \<Rightarrow> string \<Rightarrow> (json \<Rightarrow> 'a option) \<Rightarrow> 'a option" where
  "field kvs name f = obind (dict_get kvs name) f"

text \<open>A field with a default, and one that may be null.\<close>

definition field_or :: "json_object \<Rightarrow> string \<Rightarrow> 'a \<Rightarrow> (json \<Rightarrow> 'a option) \<Rightarrow> 'a option" where
  "field_or kvs name d f = (case dict_get kvs name of None \<Rightarrow> Some d | Some v \<Rightarrow> f v)"

definition nullable :: "(json \<Rightarrow> 'a option) \<Rightarrow> json \<Rightarrow> 'a option option" where
  "nullable f v = (case v of JNull \<Rightarrow> Some None | _ \<Rightarrow> map_option Some (f v))"

definition entry_of_json :: "lax \<Rightarrow> json \<Rightarrow> evidence_record option" where
  "entry_of_json L v =
     obind (fields_of [''content_hash'', ''created_at'', ''evidence_id'', ''key'', ''media_type'',
       ''redaction_directives'', ''retention_class'', ''size_bytes''] v) (\<lambda>kvs.
     obind (field kvs ''content_hash'' a_str) (\<lambda>h.
     obind (field kvs ''created_at'' (lx_time L)) (\<lambda>c.
     obind (field kvs ''evidence_id'' a_str) (\<lambda>i.
     obind (field kvs ''key'' a_str) (\<lambda>k.
     obind (field kvs ''media_type'' (\<lambda>x. obind (a_str x) media_of)) (\<lambda>m.
     obind (field kvs ''redaction_directives'' str_list) (\<lambda>ds.
     obind (field kvs ''retention_class'' (\<lambda>x. obind (a_str x) retention_of)) (\<lambda>r.
     obind (field kvs ''size_bytes'' (an_int L)) (\<lambda>n.
     let e = \<lparr>ed_id = i, ed_key = k, ed_media = m, ed_size = n, ed_hash = h, ed_retention = r,
              ed_directives = ds, ed_created = c\<rparr> in
     if entry_ok e then Some e else None)))))))))"

definition entries_of_json :: "lax \<Rightarrow> json \<Rightarrow> evidence_record list option" where
  "entries_of_json L v = (case v of JList vs \<Rightarrow> those (map (entry_of_json L) vs) | _ \<Rightarrow> None)"

definition manifest_of_json :: "lax \<Rightarrow> json \<Rightarrow> run_manifest option" where
  "manifest_of_json L v =
     obind (fields_of [''schema_version'', ''run_id'', ''generated_at'', ''events'', ''attachments'',
       ''terminal_result''] v) (\<lambda>kvs.
     obind (field_or kvs ''schema_version'' ''1.0'' a_str) (\<lambda>sv.
     obind (field kvs ''run_id'' a_str) (\<lambda>run.
     obind (field kvs ''generated_at'' (lx_time L)) (\<lambda>g.
     obind (field kvs ''events'' (entries_of_json L)) (\<lambda>es.
     obind (field_or kvs ''attachments'' [] (entries_of_json L)) (\<lambda>as.
     obind (field_or kvs ''terminal_result'' None (nullable (entry_of_json L))) (\<lambda>t.
     let m = \<lparr>mf_run = run, mf_generated = g, mf_events = es, mf_attachments = as, mf_terminal = t\<rparr> in
     if sv = ''1.0'' \<and> manifest_ok m then Some m else None)))))))"

definition event_of_json :: "lax \<Rightarrow> json \<Rightarrow> event_evidence option" where
  "event_of_json L v =
     obind (fields_of [''details'', ''event_id'', ''event_type'', ''occurred_at'', ''run_id'',
       ''sequence'', ''step_id''] v) (\<lambda>kvs.
     obind (field kvs ''details'' an_object) (\<lambda>d.
     obind (field kvs ''event_id'' a_str) (\<lambda>i.
     obind (field kvs ''event_type'' a_str) (\<lambda>ty.
     obind (field kvs ''occurred_at'' (lx_time L)) (\<lambda>tm.
     obind (field kvs ''run_id'' a_str) (\<lambda>run.
     obind (field kvs ''sequence'' (an_int L)) (\<lambda>n.
     obind (field_or kvs ''step_id'' None (nullable a_str)) (\<lambda>s.
     let e = \<lparr>ee_details = d, ee_id = i, ee_type = ty, ee_at = tm, ee_run = run, ee_sequence = n,
              ee_step = s\<rparr> in
     if event_ok e then Some e else None))))))))"

text \<open>\<open>TerminalResultEvidence\<close>: other fields are allowed; the status and the run.\<close>

definition terminal_of_json :: "json \<Rightarrow> (string \<times> string) option" where
  "terminal_of_json v =
     obind (an_object v) (\<lambda>kvs.
     obind (field kvs ''status'' a_str) (\<lambda>st.
     obind (field kvs ''run_id'' a_str) (\<lambda>run.
     if st \<in> {''success'', ''business_outcome'', ''failure''} \<and> is_id RUN run
     then Some (st, run) else None)))"

section \<open>The local store\<close>

type_synonym path = "string list"

type_synonym files = "path \<Rightarrow> content option"

definition path_step :: "string \<Rightarrow> path \<Rightarrow> path" where
  "path_step part acc =
     (if part = [] \<or> part = ''.'' then acc else if part = ''..'' then tl acc else part # acc)"

text \<open>\<open>(base / relative).resolve()\<close>: an absolute path replaces the base.\<close>

definition resolve_path :: "path \<Rightarrow> string \<Rightarrow> path" where
  "resolve_path base relative =
     rev (fold path_step (split_on (CHR ''/'') relative)
            (if starts_with ''/'' relative then [] else rev base))"

definition resolve_key :: "path \<Rightarrow> string \<Rightarrow> path result" where
  "resolve_key base relative =
     (let destination = resolve_path base relative in
      if take (length base) destination = base then Inr destination
      else Inl (ValueError ''evidence key escapes the configured base''))"

definition store_read :: "path \<Rightarrow> files \<Rightarrow> string \<Rightarrow> content result" where
  "store_read base fs key =
     (if \<not> starts_with ''evidence://'' key
      then Inl (ValueError ''evidence key must use the evidence scheme'')
      else bind_r (resolve_key base (drop 11 key)) (\<lambda>p.
        case fs p of None \<Rightarrow> Inl (OSError ''No such file or directory'') | Some x \<Rightarrow> Inr x))"

text \<open>\<open>_atomic_write\<close>: the link fails when the destination exists.\<close>

definition atomic_write :: "path \<Rightarrow> content \<Rightarrow> files \<Rightarrow> unit result \<times> files" where
  "atomic_write p x fs =
     (if fs p \<noteq> None then (Inl (RuntimeError ''evidence identity collision''), fs)
      else (Inr (), fs(p \<mapsto> x)))"

definition is_evidence_kind :: "string \<Rightarrow> bool" where
  "is_evidence_kind = matches_ident lower_letters (lower_letters @ digits @ ''_-'') 0 (Some 39)"

definition evidence_name :: "string \<Rightarrow> string \<Rightarrow> media_type \<Rightarrow> string" where
  "evidence_name kind i media =
     kind @ ''-'' @ i @ (if media = MEDIA_PNG then ''.png'' else ''.bin'')"

definition evidence_metadata :: "codec \<Rightarrow> payload \<Rightarrow> retention_class \<Rightarrow> datetime \<Rightarrow> json" where
  "evidence_metadata T py retention now = JObj
     [(''content_hash'', JStr (content_digest T (py_content py))),
      (''created_at'', time_json T now), (''media_type'', JStr (media_value (py_media py))),
      (''redaction_directives'', JList (map JStr (py_directives py))),
      (''retention_class'', JStr (retention_value retention)),
      (''size_bytes'', JInt (content_size T (py_content py)))]"

text \<open>\<open>LocalEvidenceStore.write\<close>: the fresh digits of the identity and the time are arguments.\<close>

definition store_write ::
  "codec \<Rightarrow> path \<Rightarrow> string \<Rightarrow> datetime \<Rightarrow> string \<Rightarrow> string \<Rightarrow> payload \<Rightarrow> retention_class \<Rightarrow> files
     \<Rightarrow> evidence_record result \<times> files" where
  "store_write T base uuid now run kind py retention fs =
     (case parse_id run (Some RUN) of
        Inl e \<Rightarrow> (Inl e, fs)
      | Inr _ \<Rightarrow>
          if \<not> is_evidence_kind kind
          then (Inl (ValueError ''evidence kind must be a lowercase safe path segment''), fs)
          else if MAX_ATTACHMENT_BYTES < content_size T (py_content py)
          then (Inl (ValueError ''evidence payload exceeds the storage limit''), fs)
          else
            let i = new_id uuid EVIDENCE;
                relative = run @ ''/'' @ evidence_name kind i (py_media py) in
            case resolve_key base relative of
              Inl e \<Rightarrow> (Inl e, fs)
            | Inr p \<Rightarrow>
                (case atomic_write p (py_content py) fs of
                   (Inl e, fs1) \<Rightarrow> (Inl e, fs1)
                 | (Inr _, fs1) \<Rightarrow>
                     (case atomic_write (butlast p @ [kind @ ''-'' @ i @ ''.metadata.json''])
                             (Raw (cd_dumps T Indented (evidence_metadata T py retention now) @ [CHR 0x0A]))
                             fs1 of
                        (Inl e, fs2) \<Rightarrow> (Inl e, fs2)
                      | (Inr _, fs2) \<Rightarrow>
                          (mk_evidence_record
                             \<lparr>ed_id = i, ed_key = ''evidence://'' @ relative, ed_media = py_media py,
                              ed_size = content_size T (py_content py),
                              ed_hash = content_digest T (py_content py), ed_retention = retention,
                              ed_directives = py_directives py, ed_created = now\<rparr>, fs2))))"

section \<open>The diagnostic archive\<close>

definition strict_int :: "json \<Rightarrow> int option" where
  "strict_int v = (case v of JInt n \<Rightarrow> Some n | _ \<Rightarrow> None)"

definition strict_bool :: "json \<Rightarrow> bool option" where
  "strict_bool v = (case v of JBool b \<Rightarrow> Some b | _ \<Rightarrow> None)"

definition phase_of_value :: "string \<Rightarrow> diagnostic_phase option" where
  "phase_of_value s = find (\<lambda>p. phase_value p = s)
     [BEFORE_DISPATCH, AFTER_DISPATCH, COMPLETION_PHASE, UNKNOWN_PHASE]"

definition dispatch_of_value :: "string \<Rightarrow> dispatch_state option" where
  "dispatch_of_value s = find (\<lambda>p. dispatch_value p = s) [NOT_ATTEMPTED, ATTEMPTED, UNKNOWN_DISPATCH]"

text \<open>\<open>ExecutionDiagnostic.model_validate(details)\<close>, in strict mode.\<close>

definition diagnostic_of_json :: "json_object \<Rightarrow> diagnostic option" where
  "diagnostic_of_json details =
     obind (fields_of [''phase'', ''code'', ''action_type'', ''step_ordinal'',
       ''expected_condition_kind'', ''expected_count'', ''observed_count'', ''attempt'',
       ''max_attempts'', ''retry_error_allowed'', ''recovery_checked'', ''dispatch_state'',
       ''effect_absent''] (JObj details)) (\<lambda>kvs.
     obind (field_or kvs ''phase'' UNKNOWN_PHASE (\<lambda>v. obind (a_str v) phase_of_value)) (\<lambda>ph.
     obind (field kvs ''code'' a_str) (\<lambda>code.
     obind (field_or kvs ''action_type'' ''unknown'' a_str) (\<lambda>act.
     obind (field_or kvs ''step_ordinal'' None (nullable strict_int)) (\<lambda>ord.
     obind (field_or kvs ''expected_condition_kind'' ''unknown'' a_str) (\<lambda>ck.
     obind (field_or kvs ''expected_count'' None (nullable strict_int)) (\<lambda>ec.
     obind (field_or kvs ''observed_count'' None (nullable strict_int)) (\<lambda>oc.
     obind (field_or kvs ''attempt'' 1 strict_int) (\<lambda>tm.
     obind (field_or kvs ''max_attempts'' 1 strict_int) (\<lambda>ma.
     obind (field_or kvs ''retry_error_allowed'' False strict_bool) (\<lambda>ra.
     obind (field_or kvs ''recovery_checked'' False strict_bool) (\<lambda>rc.
     obind (field_or kvs ''dispatch_state'' UNKNOWN_DISPATCH (\<lambda>v. obind (a_str v) dispatch_of_value)) (\<lambda>ds.
     obind (field_or kvs ''effect_absent'' None (nullable strict_bool)) (\<lambda>ea.
     case mk_diagnostic
       \<lparr>dg_phase = ph, dg_code = code, dg_action_type = act, dg_step_ordinal = ord,
        dg_condition_kind = ck, dg_expected_count = ec, dg_observed_count = oc, dg_attempt = tm,
        dg_max_attempts = ma, dg_retry_allowed = ra, dg_recovery_checked = rc, dg_dispatch = ds,
        dg_effect_absent = ea\<rparr> of Inl e \<Rightarrow> None | Inr d \<Rightarrow> Some d))))))))))))))"

definition diagnostic_archive :: "codec \<Rightarrow> redactor \<Rightarrow> string \<Rightarrow> json_object \<Rightarrow> payload result" where
  "diagnostic_archive T R run details =
     bind_r (parse_id run (Some RUN)) (\<lambda>_.
     case diagnostic_of_json details of
       None \<Rightarrow> Inl (ValueError ''ExecutionDiagnostic'')
     | Some d \<Rightarrow>
         let body = dict_of_pairs ((''run_id'', JStr run) # safe_payload d) in
         bind_r (sanitize_json T R body (map (\<lambda>(k, v). (k, OPERATIONAL)) body) run) (\<lambda>py.
         if 65536 < content_size T (py_content py)
         then Inl (ValueError ''diagnostic exceeds the snapshot limit'')
         else mk_sanitized T (Raw (cd_zip T ''diagnostic.json'' (bytes_of T (py_content py))))
                MEDIA_ZIP (py_directives py @ [''retain:value-free-diagnostic''])))"

section \<open>Verification\<close>

definition integrity :: "string \<Rightarrow> exn" where
  "integrity message = ValueError message"

record evidence_verification =
  vf_manifest_key :: string
  vf_manifest_hash :: string
  vf_run :: string
  vf_events :: nat
  vf_attachments :: nat
  vf_terminal :: bool

definition parsed :: "codec \<Rightarrow> (json \<Rightarrow> 'a option) \<Rightarrow> string \<Rightarrow> content \<Rightarrow> 'a result" where
  "parsed T f message x =
     (case obind (loads T x) f of None \<Rightarrow> Inl (integrity message) | Some y \<Rightarrow> Inr y)"

definition verified_content :: "codec \<Rightarrow> path \<Rightarrow> files \<Rightarrow> evidence_record \<Rightarrow> content result" where
  "verified_content T base fs e =
     bind_r (parse_id (ed_id e) (Some EVIDENCE)) (\<lambda>_.
     bind_r (store_read base fs (ed_key e)) (\<lambda>x.
     if content_size T x \<noteq> ed_size e
     then Inl (integrity ''evidence size does not match its manifest entry'')
     else if content_digest T x \<noteq> ed_hash e
     then Inl (integrity ''evidence hash does not match its manifest entry'')
     else Inr x))"

text \<open>The checks on a key: seen before, or of another run.\<close>

definition key_check :: "string \<Rightarrow> string list \<Rightarrow> string \<Rightarrow> string \<Rightarrow> unit result" where
  "key_check prefix seen key message =
     bind_r (check (key \<notin> set seen) (integrity ''evidence manifest contains a duplicate key'')) (\<lambda>_.
     check (starts_with prefix key) (integrity message))"

fun verify_events ::
  "codec \<Rightarrow> lax \<Rightarrow> path \<Rightarrow> files \<Rightarrow> string \<Rightarrow> string list \<Rightarrow> int \<Rightarrow> evidence_record list
     \<Rightarrow> string list result" where
  "verify_events T L base fs run seen n [] = Inr seen"
| "verify_events T L base fs run seen n (e # es) =
     bind_r (key_check (run_prefix run) seen (ed_key e) ''evidence entry belongs to a different run'') (\<lambda>_.
     bind_r (verified_content T base fs e) (\<lambda>x.
     if MAX_EVENT_BYTES < content_size T x
     then Inl (integrity ''event evidence exceeds the verification limit'')
     else bind_r (parsed T (event_of_json L) ''event evidence violates its schema'' x) (\<lambda>ev.
       if ee_run ev \<noteq> run then Inl (integrity ''event payload belongs to a different run'')
       else if ee_sequence ev \<noteq> n then Inl (integrity ''event sequence is not contiguous and ordered'')
       else verify_events T L base fs run (ed_key e # seen) (n + 1) es)))"

definition attachment_check :: "codec \<Rightarrow> evidence_record \<Rightarrow> content \<Rightarrow> unit result" where
  "attachment_check T e x =
     (case ed_media e of
        MEDIA_PNG \<Rightarrow> check (starts_with png_signature (bytes_of T x))
          (integrity ''PNG evidence has an invalid signature'')
      | MEDIA_ZIP \<Rightarrow> check (starts_with ''PK'' (bytes_of T x))
          (integrity ''ZIP evidence has an invalid signature'')
      | MEDIA_JSON \<Rightarrow> Inl (integrity ''structured events cannot be declared as attachments''))"

fun verify_attachments ::
  "codec \<Rightarrow> path \<Rightarrow> files \<Rightarrow> string \<Rightarrow> string list \<Rightarrow> evidence_record list \<Rightarrow> string list result" where
  "verify_attachments T base fs run seen [] = Inr seen"
| "verify_attachments T base fs run seen (e # es) =
     bind_r (key_check (run_prefix run) seen (ed_key e) ''evidence attachment belongs to a different run'') (\<lambda>_.
     bind_r (verified_content T base fs e) (\<lambda>x.
     bind_r (attachment_check T e x) (\<lambda>_.
     verify_attachments T base fs run (ed_key e # seen) es)))"

definition expected_retention :: "string \<Rightarrow> retention_class" where
  "expected_retention status = (if status = ''failure'' then RETAIN_FAILURE else RETAIN_OPERATIONAL)"

definition verify_terminal ::
  "codec \<Rightarrow> path \<Rightarrow> files \<Rightarrow> string \<Rightarrow> string list \<Rightarrow> evidence_record \<Rightarrow> unit result" where
  "verify_terminal T base fs run seen e =
     bind_r (check (ed_key e \<notin> set seen) (integrity ''terminal result duplicates an event key'')) (\<lambda>_.
     bind_r (check (starts_with (run_prefix run) (ed_key e))
               (integrity ''terminal result belongs to a different run'')) (\<lambda>_.
     bind_r (verified_content T base fs e) (\<lambda>x.
     if MAX_EVENT_BYTES < content_size T x
     then Inl (integrity ''terminal result evidence exceeds the verification limit'')
     else bind_r (parsed T terminal_of_json ''terminal result evidence violates its schema'' x) (\<lambda>r.
       if snd r \<noteq> run then Inl (integrity ''terminal result payload belongs to a different run'')
       else check (ed_retention e = expected_retention (fst r))
              (integrity ''terminal result has the wrong retention class'')))))"

definition verify_run_manifest ::
  "codec \<Rightarrow> lax \<Rightarrow> path \<Rightarrow> files \<Rightarrow> string \<Rightarrow> bool \<Rightarrow> evidence_verification result" where
  "verify_run_manifest T L base fs key require_terminal =
     bind_r (store_read base fs key) (\<lambda>x.
     if MAX_MANIFEST_BYTES < content_size T x
     then Inl (integrity ''evidence manifest exceeds the verification limit'')
     else bind_r (parsed T (manifest_of_json L) ''evidence manifest violates its schema'' x) (\<lambda>m.
       if \<not> starts_with (run_prefix (mf_run m)) key
       then Inl (integrity ''manifest key belongs to a different run'')
       else bind_r (verify_events T L base fs (mf_run m) [] 1 (mf_events m)) (\<lambda>seen.
         bind_r (verify_attachments T base fs (mf_run m) seen (mf_attachments m)) (\<lambda>all.
         bind_r (case mf_terminal m of
             None \<Rightarrow> check (\<not> require_terminal)
               (integrity ''completed-run manifest has no terminal result'')
           | Some e \<Rightarrow> verify_terminal T base fs (mf_run m) all e) (\<lambda>_.
         Inr \<lparr>vf_manifest_key = key, vf_manifest_hash = content_digest T x, vf_run = mf_run m,
              vf_events = length (mf_events m), vf_attachments = length (mf_attachments m),
              vf_terminal = (mf_terminal m \<noteq> None)\<rparr>)))))"

end
