(* ===== verification/Journal.thy ===== *)
theory Journal
  imports Evidence
begin

text \<open>
  The run journal of \<^verbatim>\<open>runs/journal.py\<close> on the local store: events and attachments
  are redacted, written, and listed in a manifest snapshot after each of them; finalization adds
  the terminal result. Every method holds the journal's lock, so a method is one step. Fresh
  identities and the time are functions of the number of readings so far. The viewing sink, whose
  errors are suppressed, has no effect on the state and is left out.
\<close>

section \<open>State\<close>

text \<open>A \<open>RunEvent\<close> has the fields of the \<open>EventEvidence\<close> it is written as.\<close>

record journal =
  jn_run :: string
  jn_events :: "event_evidence list"
  jn_records :: "evidence_record list"
  jn_attachments :: "evidence_record list"
  jn_terminal :: "evidence_record option"
  jn_manifest :: "string option"
  jn_finalized :: bool
  jn_files :: files
  jn_tick :: nat

record journal_env =
  je_codec :: codec
  je_redactor :: redactor
  je_base :: path
  je_digits :: "nat \<Rightarrow> string"
  je_clock :: "nat \<Rightarrow> int"
  je_stored :: bool

type_synonym 'a journaling = "(journal, 'a) comp"

definition new_journal :: "string \<Rightarrow> files \<Rightarrow> journal result" where
  "new_journal run fs =
     bind_r (parse_id run (Some RUN)) (\<lambda>_.
     Inr \<lparr>jn_run = run, jn_events = [], jn_records = [], jn_attachments = [], jn_terminal = None,
          jn_manifest = None, jn_finalized = False, jn_files = fs, jn_tick = 0\<rparr>)"

definition default_manifest_key :: "string \<Rightarrow> string" where
  "default_manifest_key run = ''evidence://'' @ run @ ''/manifest.json''"

definition evidence_manifest_key :: "journal \<Rightarrow> string" where
  "evidence_manifest_key s =
     (case jn_manifest s of
        Some k \<Rightarrow> if k = [] then default_manifest_key (jn_run s) else k
      | None \<Rightarrow> default_manifest_key (jn_run s))"

definition tick :: "(nat \<Rightarrow> 'a) \<Rightarrow> 'a journaling" where
  "tick f = bind_c (gets (\<lambda>s. f (jn_tick s))) (\<lambda>x.
     then_c (update (\<lambda>s. s\<lparr>jn_tick := jn_tick s + 1\<rparr>)) (ret x))"

definition read_clock :: "journal_env \<Rightarrow> datetime journaling" where
  "read_clock E = tick (\<lambda>n. utc (je_clock E n))"

definition write_evidence ::
  "journal_env \<Rightarrow> string \<Rightarrow> payload \<Rightarrow> retention_class \<Rightarrow> evidence_record journaling" where
  "write_evidence E kind py retention =
     bind_c (tick (je_digits E)) (\<lambda>digits.
     bind_c (read_clock E) (\<lambda>now.
     (\<lambda>s. case store_write (je_codec E) (je_base E) digits now (jn_run s) kind py retention (jn_files s) of
        (r, fs) \<Rightarrow> (r, s\<lparr>jn_files := fs\<rparr>))))"

section \<open>Payloads\<close>

definition event_payload :: "codec \<Rightarrow> event_evidence \<Rightarrow> string list \<Rightarrow> payload result" where
  "event_payload T e directives =
     (if \<not> event_ok e then Inl (ValueError ''EventEvidence'')
      else mk_sanitized T (Json Ascii (event_json T e)) MEDIA_JSON directives)"

definition manifest_payload :: "codec \<Rightarrow> run_manifest \<Rightarrow> payload result" where
  "manifest_payload T m =
     (if \<not> manifest_ok m then Inl (ValueError ''RunEvidenceManifest'')
      else
        let content = Json Indented (manifest_json T m) in
        if MAX_MANIFEST_BYTES < content_size T content
        then Inl (ValueError ''run manifest exceeds the evidence verification limit'')
        else mk_sanitized T content MEDIA_JSON
               (sort (remdups (concat (map ed_directives (manifest_entries m))))))"

text \<open>Writing the manifest of the journal with the given lists, at the given time.\<close>

definition publish_manifest ::
  "journal_env \<Rightarrow> datetime \<Rightarrow> evidence_record list \<Rightarrow> evidence_record list \<Rightarrow> evidence_record option
     \<Rightarrow> evidence_record journaling" where
  "publish_manifest E generated_at records attachments terminal =
     bind_c (gets jn_run) (\<lambda>run.
     bind_c (lift_c (manifest_payload (je_codec E)
       \<lparr>mf_run = run, mf_generated = generated_at, mf_events = records,
        mf_attachments = attachments, mf_terminal = terminal\<rparr>)) (\<lambda>py.
     write_evidence E ''manifest'' py RETAIN_OPERATIONAL))"

definition retention_class_of :: "string \<Rightarrow> retention_class" where
  "retention_class_of event_type =
     (if ends_with ''_failed'' event_type then RETAIN_FAILURE
      else if event_type = ''intervention_required'' \<or> starts_with ''human_input_'' event_type
      then RETAIN_HUMAN_AUDIT
      else RETAIN_OPERATIONAL)"

text \<open>\<open>f"run-event-{sequence:06d}"\<close>.\<close>

definition event_kind :: "nat \<Rightarrow> string" where
  "event_kind n = ''run-event-'' @ replicate (6 - length (show_nat n)) (CHR ''0'') @ show_nat n"

section \<open>Recording\<close>

definition store_event :: "journal_env \<Rightarrow> event_evidence \<Rightarrow> string list \<Rightarrow> unit journaling" where
  "store_event E event directives =
     bind_c (lift_c (event_payload (je_codec E) event directives)) (\<lambda>py.
     if MAX_EVENT_BYTES < content_size (je_codec E) (py_content py)
     then raise (ValueError ''run event exceeds the evidence verification limit'')
     else
       bind_c (write_evidence E (event_kind (nat (ee_sequence event))) py
                 (retention_class_of (ee_type event))) (\<lambda>record.
       bind_c (gets jn_records) (\<lambda>records.
       bind_c (gets jn_attachments) (\<lambda>attachments.
       bind_c (publish_manifest E (ee_at event) (records @ [record]) attachments None) (\<lambda>manifest.
       update (\<lambda>s. s\<lparr>jn_records := jn_records s @ [record],
                     jn_manifest := Some (ed_key manifest)\<rparr>))))))"

text \<open>The part under the lock: numbering, storing and appending the event.\<close>

definition number_event ::
  "journal_env \<Rightarrow> string \<Rightarrow> string \<Rightarrow> string option \<Rightarrow> json_object \<Rightarrow> nat
     \<Rightarrow> event_evidence journaling" where
  "number_event E event_type run step_id cleaned n =
     bind_c (tick (je_digits E)) (\<lambda>digits.
     bind_c (lift_c (parse_id run (Some RUN))) (\<lambda>run_id.
     bind_c (read_clock E) (\<lambda>now.
     ret \<lparr>ee_details = cleaned, ee_id = new_id digits EVENT, ee_type = event_type, ee_at = now,
          ee_run = run_id, ee_sequence = int n + 1, ee_step = step_id\<rparr>)))"

definition append_event ::
  "journal_env \<Rightarrow> string \<Rightarrow> string \<Rightarrow> string option \<Rightarrow> json_object \<Rightarrow> string list \<Rightarrow> unit journaling"
where
  "append_event E event_type run step_id cleaned directives =
     bind_c (gets jn_finalized) (\<lambda>finalized.
     bind_c (gets jn_events) (\<lambda>events.
     if finalized then raise (RuntimeError ''cannot record an event after run finalization'')
     else if 10000 \<le> int (length events)
     then raise (ValueError ''run journal exceeds the event-count limit'')
     else
       bind_c (number_event E event_type run step_id cleaned (length events)) (\<lambda>event.
       then_c (if je_stored E then store_event E event directives else ret ())
         (update (\<lambda>s. s\<lparr>jn_events := jn_events s @ [event]\<rparr>)))))"

definition journal_record ::
  "journal_env \<Rightarrow> string \<Rightarrow> string \<Rightarrow> string option \<Rightarrow> json_object \<Rightarrow> unit journaling" where
  "journal_record E event_type run step_id details =
     bind_c (gets jn_run) (\<lambda>own.
     if run \<noteq> own then raise (ValueError ''journal cannot record an event for a different run'')
     else if \<not> is_event_type event_type
     then raise (ValueError ''event type must be a lowercase stable identifier'')
     else if (case step_id of None \<Rightarrow> False | Some i \<Rightarrow> \<not> is_event_step i)
     then raise (ValueError ''step ID is invalid'')
     else
       bind_c (lift_c (sanitize_json (je_codec E) (je_redactor E) details
                 (event_detail_classifications details) run)) (\<lambda>sanitized.
       case obind (loads (je_codec E) (py_content sanitized)) an_object of
         None \<Rightarrow> raise (RuntimeError ''structured redactor must preserve mapping shape'')
       | Some cleaned \<Rightarrow>
           append_event E event_type run step_id cleaned (py_directives sanitized)))"

section \<open>Attachments\<close>

definition attachment_guard :: "codec \<Rightarrow> payload \<Rightarrow> unit result" where
  "attachment_guard T py =
     (let b = bytes_of T (py_content py) in
      if py_media py = MEDIA_JSON
      then Inl (ValueError ''run attachments must be PNG images or ZIP archives'')
      else if b = [] then Inl (ValueError ''run attachments cannot be empty'')
      else if MAX_ATTACHMENT_BYTES < int (length b)
      then Inl (ValueError ''run attachment exceeds the twenty-megabyte limit'')
      else if py_media py = MEDIA_PNG \<and> \<not> starts_with png_signature b
      then Inl (ValueError ''PNG run attachment has an invalid signature'')
      else if py_media py = MEDIA_ZIP \<and> \<not> starts_with ''PK'' b
      then Inl (ValueError ''ZIP run attachment has an invalid signature'')
      else Inr ())"

definition append_attachment ::
  "journal_env \<Rightarrow> evidence_record list \<Rightarrow> evidence_record \<Rightarrow> evidence_record journaling" where
  "append_attachment E attachments attachment =
     bind_c (gets jn_records) (\<lambda>records.
     bind_c (read_clock E) (\<lambda>now.
     bind_c (publish_manifest E now records (attachments @ [attachment]) None) (\<lambda>manifest.
     then_c (update (\<lambda>s. s\<lparr>jn_attachments := jn_attachments s @ [attachment],
                          jn_manifest := Some (ed_key manifest)\<rparr>))
     (ret attachment))))"

definition journal_attach ::
  "journal_env \<Rightarrow> string \<Rightarrow> payload \<Rightarrow> retention_class \<Rightarrow> evidence_record journaling" where
  "journal_attach E kind py retention =
     then_c (lift_c (attachment_guard (je_codec E) py))
     (bind_c (gets jn_finalized) (\<lambda>finalized.
      bind_c (gets jn_attachments) (\<lambda>attachments.
      if finalized then raise (RuntimeError ''cannot attach evidence after run finalization'')
      else if \<not> je_stored E then raise (RuntimeError ''run attachments require an evidence store'')
      else if 100 \<le> int (length attachments)
      then raise (ValueError ''run journal exceeds the attachment-count limit'')
      else bind_c (write_evidence E kind py retention) (append_attachment E attachments))))"

section \<open>Finalization\<close>

text \<open>The classes \<open>(OSError, RuntimeError, ValueError)\<close>.\<close>

definition optional_failure :: "exn \<Rightarrow> unit option" where
  "optional_failure e =
     (case e of
        TypeError m \<Rightarrow> None | KeyError m \<Rightarrow> None | LeaseNotFoundError m \<Rightarrow> None
      | InterventionNotFoundError m \<Rightarrow> None | CapabilityNotFoundError m \<Rightarrow> None | _ \<Rightarrow> Some ())"

text \<open>The archive of the last diagnostic, if it can be taken: whether it was.\<close>

definition attach_diagnostic :: "journal_env \<Rightarrow> event_evidence \<Rightarrow> string journaling" where
  "attach_diagnostic E diagnostic =
     catch_c
       (bind_c (gets jn_attachments) (\<lambda>attachments.
        if 100 \<le> int (length attachments) \<or> list_ex (\<lambda>a. ed_media a = MEDIA_ZIP) attachments
        then raise (ValueError ''diagnostic attachment slot unavailable'')
        else
          bind_c (gets jn_run) (\<lambda>run.
          bind_c (lift_c (diagnostic_archive (je_codec E) (je_redactor E) run
                    (ee_details diagnostic))) (\<lambda>py.
          bind_c (write_evidence E ''execution-diagnostic'' py RETAIN_FAILURE) (\<lambda>record.
          then_c (update (\<lambda>s. s\<lparr>jn_attachments := jn_attachments s @ [record]\<rparr>))
          (ret ''captured''))))))
       optional_failure (\<lambda>_. ret ''unavailable'')"

definition sanitize_result ::
  "journal_env \<Rightarrow> json_object \<Rightarrow> classifications \<Rightarrow> payload journaling" where
  "sanitize_result E result cls =
     bind_c (gets jn_run) (\<lambda>run.
     lift_c (sanitize_json (je_codec E) (je_redactor E) result
               (terminal_classifications result cls) run))"

text \<open>The terminal payload: with the trace status when a diagnostic was recorded.\<close>

definition terminal_payload ::
  "journal_env \<Rightarrow> json_object \<Rightarrow> classifications \<Rightarrow> payload \<Rightarrow> payload journaling" where
  "terminal_payload E result cls sanitized =
     bind_c (gets (\<lambda>s. [e \<leftarrow> jn_events s. ee_type e = ''execution_diagnostic''])) (\<lambda>diagnostics.
     if diagnostics = [] then ret sanitized
     else bind_c (attach_diagnostic E (last diagnostics)) (\<lambda>status.
       sanitize_result E (dict_set ''diagnostic_trace'' (JStr status) result) cls))"

definition completed_status :: "json option \<Rightarrow> string result" where
  "completed_status v =
     (case v of
        Some (JStr s) \<Rightarrow>
          if s \<in> {''success'', ''business_outcome'', ''failure''} then Inr s
          else Inl (ValueError ''only completed runs may be finalized'')
      | Some (JList vs) \<Rightarrow> Inl (TypeError ''unhashable type'')
      | Some (JObj kvs) \<Rightarrow> Inl (TypeError ''unhashable type'')
      | _ \<Rightarrow> Inl (ValueError ''only completed runs may be finalized''))"

definition publish_terminal ::
  "journal_env \<Rightarrow> json_object \<Rightarrow> classifications \<Rightarrow> payload \<Rightarrow> string \<Rightarrow> string journaling" where
  "publish_terminal E result cls sanitized status =
     bind_c (terminal_payload E result cls sanitized) (\<lambda>py.
     bind_c (write_evidence E ''terminal-result'' py (expected_retention status)) (\<lambda>terminal.
     bind_c (gets jn_records) (\<lambda>records.
     bind_c (gets jn_attachments) (\<lambda>attachments.
     bind_c (read_clock E) (\<lambda>now.
     bind_c (publish_manifest E now records attachments (Some terminal)) (\<lambda>manifest.
     then_c (update (\<lambda>s. s\<lparr>jn_terminal := Some terminal, jn_manifest := Some (ed_key manifest),
                          jn_finalized := True\<rparr>))
     (ret (ed_key manifest))))))))"

definition finalize ::
  "journal_env \<Rightarrow> json_object \<Rightarrow> classifications \<Rightarrow> string journaling" where
  "finalize E result cls =
     bind_c (gets jn_run) (\<lambda>run.
     if dict_get result ''run_id'' \<noteq> Some (JStr run)
     then raise (ValueError ''terminal result belongs to a different run'')
     else
       bind_c (lift_c (completed_status (dict_get result ''status''))) (\<lambda>status.
       bind_c (sanitize_result E result cls) (\<lambda>sanitized.
       if MAX_EVENT_BYTES < content_size (je_codec E) (py_content sanitized)
       then raise (ValueError ''terminal result exceeds the evidence verification limit'')
       else
         bind_c (gets jn_finalized) (\<lambda>finalized.
         if finalized then raise (RuntimeError ''run evidence has already been finalized'')
         else if \<not> je_stored E
         then then_c (update (\<lambda>s. s\<lparr>jn_finalized := True\<rparr>)) (ret (default_manifest_key run))
         else publish_terminal E result cls sanitized status))))"

end
