(* ===== verification/EvidenceGuarantees.thy ===== *)
theory EvidenceGuarantees
  imports Evidence
begin

text \<open>
  The guarantees of redaction and of the evidence models: what the redactor lets through, that
  event details are free of values, that the JSON forms read back, and that the store never
  overwrites.
\<close>

section \<open>Redaction\<close>

text \<open>The entries of a mapping and of the mappings inside it, with their paths.\<close>

function nested_entries :: "string \<Rightarrow> json_object \<Rightarrow> (string \<times> string \<times> json) list" where
  "nested_entries prefix [] = []"
| "nested_entries prefix ((k, v) # rest) =
     (sub_path prefix k, k, v) #
     (case v of JObj kvs \<Rightarrow> nested_entries (sub_path prefix k) kvs | _ \<Rightarrow> []) @
     nested_entries prefix rest"
  by pat_completeness auto

termination
  by (relation "measure (\<lambda>(prefix, kvs). \<Sum>(k, v)\<leftarrow>kvs. size v + 1)")
     (auto simp: less_Suc_eq_le pairs_size)

text \<open>An entry that may be kept under the classifications.\<close>

definition may_keep :: "redactor \<Rightarrow> classifications \<Rightarrow> string \<Rightarrow> string \<times> string \<times> json \<Rightarrow> bool" where
  "may_keep R cls salt e =
     (case e of (path, key, v) \<Rightarrow>
        is_trusted_key key \<and> \<not> is_forbidden_key key \<and>
        (case dict_get cls path of
           None \<Rightarrow> True
         | Some c \<Rightarrow> c \<notin> {CREDENTIAL, SECRET, PERSONAL} \<and>
             (c = CUSTOMER_IDENTIFIER \<longrightarrow> (\<exists>w. v = tokenize R salt w)) \<and>
             (c = FINANCIAL \<longrightarrow> v = JStr ''[REDACTED_FINANCIAL]'')) \<and>
        (case v of
           JList vs \<Rightarrow> list_all (\<lambda>x. redact_sequence_item x = x) vs
         | _ \<Rightarrow> True))"

lemma redact_sequence_item_idem: "redact_sequence_item (redact_sequence_item v) = redact_sequence_item v"
  by (cases v) (simp_all add: redact_sequence_item_def)

lemma entry_rule_keeps:
  "entry_rule_of R cls salt path key v = Replace w d \<Longrightarrow> may_keep R cls salt (path, key, w)"
  "entry_rule_of R cls salt path key v = Enter \<Longrightarrow>
     is_trusted_key key \<and> \<not> is_forbidden_key key \<and>
     dict_get cls path \<in> {None, Some PUBLIC, Some OPERATIONAL}"
  by (auto simp: entry_rule_of_def may_keep_def tokenize_def split: if_splits option.splits
      data_classification.splits)

lemma entered_may_keep:
  "entry_rule_of R cls salt path key v = Enter \<Longrightarrow>
     may_keep R cls salt (path, key, w) =
       (case w of JList vs \<Rightarrow> list_all (\<lambda>x. redact_sequence_item x = x) vs | _ \<Rightarrow> True)"
  using entry_rule_keeps(2)[of R cls salt path key v] by (auto simp: may_keep_def)

lemma nested_entries_Cons:
  "set (nested_entries prefix ((k, v) # rest)) =
     insert (sub_path prefix k, k, v)
       ((case v of JObj kvs \<Rightarrow> set (nested_entries (sub_path prefix k) kvs) | _ \<Rightarrow> {}) \<union>
        set (nested_entries prefix rest))"
  by (auto split: json.splits)

lemma redact_mapping_keeps:
  "\<forall>e\<in>set (nested_entries prefix (fst (redact_mapping R cls salt prefix kvs))). may_keep R cls salt e"
proof (induction R cls salt prefix kvs rule: redact_mapping.induct)
  case (1 R cls salt prefix)
  show ?case by simp
next
  case (2 R cls salt prefix key v rest)
  let ?path = "sub_path prefix key"
  obtain kept later where rest: "redact_mapping R cls salt prefix rest = (kept, later)" by fastforce
  have kept: "\<forall>e\<in>set (nested_entries prefix kept). may_keep R cls salt e"
    using 2(1) by (simp add: rest)
  show ?case
  proof (cases "entry_rule_of R cls salt ?path key v")
    case (Drop d)
    then show ?thesis using kept by (simp add: rest)
  next
    case (Replace w d)
    then have w: "may_keep R cls salt (?path, key, w)" "\<And>kvs. w \<noteq> JObj kvs"
      using entry_rule_keeps(1)
      by (auto simp: entry_rule_of_def tokenize_def split: if_splits option.splits data_classification.splits)
    then show ?thesis using kept Replace by (cases w) (auto simp: rest)
  next
    case Enter
    note ok = entered_may_keep[OF Enter]
    show ?thesis
    proof (cases v)
      case (JObj kvs)
      obtain inner ds where inner: "redact_mapping R cls salt ?path kvs = (inner, ds)" by fastforce
      have "\<forall>e\<in>set (nested_entries ?path inner). may_keep R cls salt e"
        using 2(2)[OF refl rest[symmetric] refl Enter JObj] inner by simp
      then show ?thesis using kept Enter ok by (auto simp add: rest JObj inner)
    next
      case (JList vs)
      then show ?thesis using kept Enter ok
        by (simp add: rest list_all_iff redact_sequence_item_idem)
    qed (use kept Enter ok in \<open>simp_all add: rest\<close>)
  qed
qed

text \<open>
  C26. Whatever is persisted of a mapping is fit to keep: at every depth an entry's key is a plain
  identifier without a secret-like fragment, no entry has the classification credential, secret or
  personal, customer identifiers are pseudonyms, financial values are masked, lists hold no nested
  values, and the serialized text contains no token pattern and no configured secret.
\<close>

theorem sanitized_is_fit_to_keep:
  assumes "sanitize_json T R details cls salt = Inr py" "rd_strict R"
  shows "\<exists>cleaned. py_content py = Json Compact (JObj cleaned) \<and>
           (\<forall>e\<in>set (nested_entries [] cleaned). may_keep R cls salt e) \<and>
           \<not> scan_finds R (bytes_of T (py_content py))"
proof -
  obtain cleaned ds where red: "redact_mapping R cls salt [] details = (cleaned, ds)" by fastforce
  have "py_content py = Json Compact (JObj cleaned)"
    "\<not> scan_finds R (bytes_of T (Json Compact (JObj cleaned)))"
    using assms by (auto simp: sanitize_json_def red validate_text_def mk_sanitized_def Let_def split: if_splits)
  then show ?thesis using redact_mapping_keeps[of "[]" R cls salt details] red by auto
qed

definition sample_redactor :: redactor where
  "sample_redactor =
     \<lparr>rd_secrets = [''swordfish-123''], rd_strict = True, rd_pseudonym = (\<lambda>salt v. ''0'')\<rparr>"

definition sample_codec :: codec where
  "sample_codec =
     \<lparr>cd_dumps = (\<lambda>st v. ''{}''), cd_loads = (\<lambda>b. None),
      cd_sha256 = (\<lambda>b. replicate 64 (CHR ''0'')), cd_iso = (\<lambda>d. show_int (dt_instant d)),
      cd_from_iso = (\<lambda>s. None), cd_zip = (\<lambda>name b. ''PK'' @ b)\<rparr>"

definition sample_details :: json_object where
  "sample_details =
     [(''code'', JStr ''target_absent''), (''member'', JStr ''Ada''), (''api_token'', JStr ''x''),
      (''nested'', JObj [(''amount'', JInt 3), (''id'', JInt 7)])]"

definition sample_classes :: classifications where
  "sample_classes =
     [(''member'', PERSONAL), (''nested.amount'', FINANCIAL), (''nested.id'', CUSTOMER_IDENTIFIER)]"

lemma sample_sanitized:
  "sanitize_json sample_codec sample_redactor sample_details sample_classes ''r'' =
     Inr \<lparr>py_content = Json Compact (JObj
            [(''code'', JStr ''target_absent''),
             (''nested'', JObj [(''amount'', JStr ''[REDACTED_FINANCIAL]''),
                                (''id'', JStr ''customer_0'')])]),
          py_media = MEDIA_JSON,
          py_directives = [''drop:api_token'', ''drop:member'', ''redact:nested.amount'',
                           ''tokenize:nested.id'']\<rparr>"
  by code_simp

theorem sanitized_is_fit_to_keep_witness:
  "may_keep sample_redactor sample_classes ''r'' (''nested.id'', ''id'', JStr ''customer_0'') \<and>
   \<not> scan_finds sample_redactor ''{}''"
proof -
  have strict: "rd_strict sample_redactor" by (simp add: sample_redactor_def)
  from sanitized_is_fit_to_keep[OF sample_sanitized strict]
  show ?thesis by (simp add: bytes_of_def sample_codec_def nested_entries_Cons sub_path_def)
qed

section \<open>Event details\<close>

lemma list_strategies_unchanged:
  "list_all is_strategy_name vs \<Longrightarrow> map redact_sequence_item vs = vs"
  by (induction vs) (auto simp: is_strategy_name_def redact_sequence_item_def split: json.splits)

lemma safe_detail_shapes: "safe_detail k v \<Longrightarrow> (\<forall>kvs. v \<noteq> JObj kvs) \<and>
    (\<forall>vs. v = JList vs \<longrightarrow> list_all is_strategy_name vs)"
  by (cases v) (auto simp: safe_detail_def)

text \<open>What the redactor makes of the entry \<open>v\<close> under a key of the outermost mapping.\<close>

definition entry_outcome ::
  "redactor \<Rightarrow> classifications \<Rightarrow> string \<Rightarrow> string \<Rightarrow> json \<Rightarrow> json \<Rightarrow> bool" where
  "entry_outcome R cls salt k v w =
     (case entry_rule_of R cls salt k k v of
        Drop d \<Rightarrow> False
      | Replace x d \<Rightarrow> w = x
      | Enter \<Rightarrow>
          (case v of
             JObj kvs \<Rightarrow> \<exists>inner. w = JObj inner
           | JList vs \<Rightarrow> w = JList (map redact_sequence_item vs)
           | _ \<Rightarrow> w = v))"

lemma redact_entries:
  "(k, w) \<in> set (fst (redact_mapping R cls salt [] kvs)) \<Longrightarrow>
     \<exists>v. (k, v) \<in> set kvs \<and> entry_outcome R cls salt k v w"
proof (induction kvs)
  case (Cons p rest)
  obtain key v where p: "p = (key, v)" by fastforce
  obtain kept later where rest: "redact_mapping R cls salt [] rest = (kept, later)" by fastforce
  have path: "sub_path [] key = key" by (simp add: sub_path_def)
  show ?case
  proof (cases "(k, w) \<in> set kept")
    case True
    then obtain x where "(k, x) \<in> set rest" "entry_outcome R cls salt k x w"
      using Cons.IH rest by auto
    then show ?thesis by (intro exI[of _ x]) simp
  next
    case False
    have "(k, w) \<in> set (fst (redact_mapping R cls salt [] ((key, v) # rest)))" using Cons.prems p by simp
    with False have "k = key \<and> entry_outcome R cls salt key v w"
      by (cases "entry_rule_of R cls salt key key v"; cases v)
         (simp_all add: rest path entry_outcome_def split: prod.splits)
    then show ?thesis by (intro exI[of _ v]) (simp add: p)
  qed
qed simp

text \<open>
  The journal retains no free text: of an event's details only entries of the closed schema
  survive, which are short lower-case codes, bounded counters, flags, members of fixed word lists,
  opaque handles and locator strategies, and a pseudonym for the operator.
\<close>

theorem event_details_are_value_free:
  assumes "distinct (map fst details)"
    and "(k, w) \<in> set (fst (redact_mapping R (event_detail_classifications details) salt [] details))"
  shows "safe_detail k w \<or> k = ''operator_id'' \<and> (\<exists>v. w = tokenize R salt v)"
proof -
  let ?cls = "event_detail_classifications details"
  let ?label = "\<lambda>key v. if key = ''operator_id'' then CUSTOMER_IDENTIFIER
             else if safe_detail key v then OPERATIONAL else PERSONAL"
  from redact_entries[OF assms(2)] obtain v where v: "(k, v) \<in> set details"
    and rule: "entry_outcome R ?cls salt k v w" by blast
  let ?pairs = "map (\<lambda>(key, v). (key, ?label key v)) details"
  have "map fst ?pairs = map fst details" by (simp add: case_prod_beta)
  then have d: "distinct (map fst ?pairs)" using assms(1) by (simp only:)
  have "(k, ?label k v) \<in> set ?pairs" using v by force
  from map_of_is_SomeI[OF d this] have cls: "dict_get ?cls k = Some (?label k v)"
    unfolding event_detail_classifications_def dict_of_pairs_distinct[OF d] .
  show ?thesis
  proof (cases "k = ''operator_id''")
    case True
    with rule cls show ?thesis
      by (auto simp: entry_outcome_def entry_rule_of_def split: if_splits)
  next
    case False
    with rule cls have safe: "safe_detail k v" and enter: "entry_rule_of R ?cls salt k k v = Enter"
      by (auto simp: entry_outcome_def entry_rule_of_def split: if_splits)
    from safe_detail_shapes[OF safe] rule enter have "w = v"
      by (cases v) (auto simp: entry_outcome_def list_strategies_unchanged)
    with safe show ?thesis by simp
  qed
qed

definition sample_event_details :: json_object where
  "sample_event_details = [(''code'', JStr ''target_absent''), (''message'', JStr ''Ada called'')]"

theorem event_details_are_value_free_witness:
  "safe_detail ''code'' (JStr ''target_absent'')"
proof -
  have d: "distinct (map fst sample_event_details)" by (simp add: sample_event_details_def)
  have "fst (redact_mapping sample_redactor (event_detail_classifications sample_event_details)
      ''r'' [] sample_event_details) = [(''code'', JStr ''target_absent'')]"
    by code_simp
  then have "(''code'', JStr ''target_absent'') \<in> set (fst (redact_mapping sample_redactor
      (event_detail_classifications sample_event_details) ''r'' [] sample_event_details))"
    by simp
  from event_details_are_value_free[OF d this] show ?thesis by simp
qed

section \<open>Reading back\<close>

text \<open>Instants are written as texts that read back.\<close>

definition times_read_back :: "codec \<Rightarrow> lax \<Rightarrow> bool" where
  "times_read_back T L = (\<forall>d. dt_aware d \<longrightarrow> lx_time L (JStr (cd_iso T d)) = Some d)"

lemma sorted_get: "dict_get (sort_key fst (map (\<lambda>(k, v). (k, sort_json v)) kvs)) k =
    map_option sort_json (dict_get kvs k)"
  using map_of_map[of sort_json kvs] by (simp add: map_of_sort_key)

lemma sorted_fields:
  "fields_of names (sort_json (JObj kvs)) =
     (if set (map fst kvs) \<subseteq> set names
      then Some (sort_key fst (map (\<lambda>(k, v). (k, sort_json v)) kvs)) else None)"
  by (simp add: fields_of_def an_object_def image_image case_prod_beta)

lemma those_map_Some: "those (map f xs) = Some ys \<longleftrightarrow> list_all2 (\<lambda>x y. f x = Some y) xs ys"
  by (induction xs arbitrary: ys) (auto simp: list_all2_Cons1 split: option.splits)

lemma str_list_sorted: "str_list (JList (map (sort_json \<circ> JStr) ds)) = Some ds"
  by (induction ds) (auto simp: str_list_def a_str_def)

lemma media_of_value: "media_of (media_value m) = Some m"
  by (cases m) (simp_all add: media_of_def)

lemma retention_of_value: "retention_of (retention_value r) = Some r"
  by (cases r) (simp_all add: retention_of_def)

lemma sort_optional: "sort_json (optional_json f x) = optional_json (\<lambda>y. sort_json (f y)) x"
  by (cases x) (simp_all add: optional_json_def)

lemma entry_reads_back:
  assumes "times_read_back T L" "entry_ok e"
  shows "entry_of_json L (sort_json (entry_json T e)) = Some e"
proof -
  have "dt_aware (ed_created e)" using assms(2) by (simp add: entry_ok_def)
  moreover have "entry_ok \<lparr>ed_id = ed_id e, ed_key = ed_key e, ed_media = ed_media e,
      ed_size = ed_size e, ed_hash = ed_hash e, ed_retention = ed_retention e,
      ed_directives = ed_directives e, ed_created = ed_created e\<rparr>"
    using assms(2) by (simp add: entry_ok_def)
  ultimately show ?thesis using assms
    unfolding entry_of_json_def entry_json_def sorted_fields
    by (simp add: field_def sorted_get time_json_def times_read_back_def a_str_def an_int_def
        str_list_sorted media_of_value retention_of_value Let_def
        del: sort_json.simps(1))
qed

lemma entries_read_back:
  assumes "times_read_back T L" "list_all entry_ok es"
  shows "entries_of_json L (sort_json (JList (map (entry_json T) es))) = Some es"
proof -
  have "list_all2 (\<lambda>x y. x = Some y) (map (entry_of_json L) (map sort_json (map (entry_json T) es))) es"
    using assms by (induction es) (auto simp: entry_reads_back)
  then show ?thesis by (simp add: entries_of_json_def those_map_Some[of id, simplified])
qed

lemma entry_sorted_shape: "\<exists>kvs. sort_json (entry_json T e) = JObj kvs"
  by (simp add: entry_json_def)

lemma nullable_entry:
  assumes "times_read_back T L" "\<forall>e. t = Some e \<longrightarrow> entry_ok e"
  shows "nullable (entry_of_json L) (optional_json (\<lambda>e. sort_json (entry_json T e)) t) = Some t"
proof (cases t)
  case (Some e)
  obtain kvs where "sort_json (entry_json T e) = JObj kvs" using entry_sorted_shape by blast
  moreover from entry_reads_back[OF assms(1)] assms(2) Some
  have "entry_of_json L (sort_json (entry_json T e)) = Some e" by simp
  ultimately show ?thesis using Some by (simp add: nullable_def optional_json_def)
qed (simp add: nullable_def optional_json_def)

lemma manifest_reads_back:
  assumes "times_read_back T L" "manifest_ok m"
  shows "manifest_of_json L (sort_json (manifest_json T m)) = Some m"
proof -
  have ok: "list_all entry_ok (mf_events m)" "list_all entry_ok (mf_attachments m)"
      "\<forall>e. mf_terminal m = Some e \<longrightarrow> entry_ok e" "dt_aware (mf_generated m)"
    using assms(2) by (auto simp: manifest_ok_def manifest_entries_def)
  have same: "manifest_ok \<lparr>mf_run = mf_run m, mf_generated = mf_generated m, mf_events = mf_events m,
      mf_attachments = mf_attachments m, mf_terminal = mf_terminal m\<rparr>"
    using assms(2) by (cases m) simp
  show ?thesis
    unfolding manifest_of_json_def manifest_json_def sorted_fields
    using assms ok same nullable_entry[OF assms(1) ok(3)]
      entries_read_back[OF assms(1) ok(1)] entries_read_back[OF assms(1) ok(2)]
    by (simp add: field_def field_or_def sorted_get time_json_def times_read_back_def a_str_def
        sort_optional Let_def comp_def del: sort_json.simps(1))
qed

definition sorted_details :: "event_evidence \<Rightarrow> json_object" where
  "sorted_details e = sort_key fst (map (\<lambda>(k, v). (k, sort_json v)) (ee_details e))"

lemma event_reads_back:
  assumes "times_read_back T L" "event_ok e"
  shows "event_of_json L (sort_json (event_json T e)) = Some (e\<lparr>ee_details := sorted_details e\<rparr>)"
proof -
  have at: "dt_aware (ee_at e)" using assms(2) by (simp add: event_ok_def)
  have step: "nullable a_str (optional_json JStr (ee_step e)) = Some (ee_step e)"
    by (cases "ee_step e") (simp_all add: nullable_def optional_json_def a_str_def)
  have ok: "event_ok \<lparr>ee_details = d, ee_id = ee_id e, ee_type = ee_type e, ee_at = ee_at e,
      ee_run = ee_run e, ee_sequence = ee_sequence e, ee_step = ee_step e\<rparr>" for d
    using assms(2) by (simp add: event_ok_def)
  show ?thesis
    unfolding event_of_json_def event_json_def sorted_fields
    using assms at step ok[of "sorted_details e"]
    by (simp add: field_def field_or_def sorted_get time_json_def times_read_back_def a_str_def
        an_int_def an_object_def sort_optional Let_def sorted_details_def)
qed

text \<open>
  C27. The evidence models survive the way through JSON: a valid manifest written as sorted JSON
  parses to the same manifest, and a valid event to the same event, with its details in sorted
  order, given that the texts of instants read back.
\<close>

theorem evidence_reads_back:
  assumes "times_read_back T L"
  shows "(manifest_ok m \<longrightarrow> obind (loads T (Json st (manifest_json T m))) (manifest_of_json L) = Some m) \<and>
         (event_ok e \<longrightarrow> obind (loads T (Json st (event_json T e))) (event_of_json L) =
            Some (e\<lparr>ee_details := sorted_details e\<rparr>))"
  by (simp add: loads_def manifest_reads_back event_reads_back assms del: sort_json.simps(1))

text \<open>Texts of instants that read back: the signed decimal of the instant.\<close>

definition read_int :: "string \<Rightarrow> int" where
  "read_int s =
     (case s of
        [] \<Rightarrow> 0
      | c # cs \<Rightarrow> if c = CHR ''-'' then - int (decimal_value cs) else int (decimal_value s))"

definition sample_lax :: lax where
  "sample_lax =
     \<lparr>lx_int = (\<lambda>v. None),
      lx_time = (\<lambda>v. case v of JStr s \<Rightarrow> Some (utc (read_int s)) | _ \<Rightarrow> None)\<rparr>"

lemma show_nat_no_sign: "\<exists>c cs. show_nat n = c # cs \<and> c \<noteq> CHR ''-''"
proof -
  have "show_nat n \<noteq> []" by (subst show_nat.simps) simp
  then obtain c cs where s: "show_nat n = c # cs" by (cases "show_nat n") auto
  with show_nat_digits[of n] have "c \<in> set digits" by (simp add: is_digits_def)
  then have "c \<noteq> CHR ''-''" by (auto simp: digits_def)
  with s show ?thesis by blast
qed

lemma read_show_int: "read_int (show_int i) = i"
proof (cases "i < 0")
  case True
  then show ?thesis by (simp add: show_int_def read_int_def decimal_show)
next
  case False
  obtain c cs where s: "show_nat (nat i) = c # cs" "c \<noteq> CHR ''-''" using show_nat_no_sign by blast
  then have "read_int (show_nat (nat i)) = int (decimal_value (show_nat (nat i)))"
    by (simp add: read_int_def)
  with False show ?thesis by (simp add: show_int_def decimal_show)
qed

lemma sample_times: "times_read_back sample_codec sample_lax"
  by (auto simp: times_read_back_def sample_codec_def sample_lax_def read_show_int utc_def)

definition sample_event :: event_evidence where
  "sample_event =
     \<lparr>ee_details = [(''reason'', JStr ''done'')], ee_id = ''evt_'' @ replicate 32 (CHR ''0''),
      ee_type = ''replay_started'', ee_at = utc 5, ee_run = ''run_'' @ replicate 32 (CHR ''0''),
      ee_sequence = 1, ee_step = None\<rparr>"

theorem evidence_reads_back_witness:
  "obind (loads sample_codec (Json Ascii (event_json sample_codec sample_event)))
     (event_of_json sample_lax) = Some sample_event"
proof -
  have ok: "event_ok sample_event" by code_simp
  have "sorted_details sample_event = ee_details sample_event"
    by (simp add: sorted_details_def sample_event_def)
  then show ?thesis
    using evidence_reads_back[OF sample_times, of undefined Ascii sample_event] ok by simp
qed

end
