(* ===== verification/JournalGuarantees.thy ===== *)
theory JournalGuarantees
  imports Journal EvidenceGuarantees
begin

text \<open>
  The guarantees of the run journal: evidence is only ever added, the events of a run are numbered
  without a gap, and the manifest a finalized journal publishes passes the independent
  verification.
\<close>

section \<open>The store only grows\<close>

definition grows :: "files \<Rightarrow> files \<Rightarrow> bool" where
  "grows fs fs' = (\<forall>p x. fs p = Some x \<longrightarrow> fs' p = Some x)"

lemma grows_refl [simp]: "grows fs fs"
  by (simp add: grows_def)

lemma grows_trans: "grows fs fs' \<Longrightarrow> grows fs' fs'' \<Longrightarrow> grows fs fs''"
  by (simp add: grows_def)

lemma atomic_write_grows: "atomic_write p x fs = (r, fs') \<Longrightarrow> grows fs fs'"
  by (auto simp: atomic_write_def grows_def split: if_splits)

lemma store_write_grows: "store_write T base hex now run kind py keep fs = (r, fs') \<Longrightarrow> grows fs fs'"
  unfolding store_write_def Let_def
  by (auto split: sum.splits if_splits prod.splits dest: atomic_write_grows intro: grows_trans)

lemma store_read_grows: "grows fs fs' \<Longrightarrow> store_read base fs key = Inr x \<Longrightarrow> store_read base fs' key = Inr x"
  unfolding store_read_def grows_def by (cases "resolve_key base (drop 11 key)") (auto split: if_splits option.splits)

lemma verified_content_grows:
  "grows fs fs' \<Longrightarrow> verified_content T base fs e = Inr x \<Longrightarrow> verified_content T base fs' e = Inr x"
  by (auto simp: verified_content_def bind_r_Inr_iff split: if_splits dest: store_read_grows)

text \<open>What is written can be verified, and stays so.\<close>

lemma store_write_Inr:
  assumes "store_write T base hex now run kind py keep fs = (Inr r, fs')"
  shows "verified_content T base fs' r = Inr (py_content py)" "ed_media r = py_media py"
    "ed_retention r = keep" "starts_with (run_prefix run) (ed_key r)"
    "ed_size r = content_size T (py_content py)"
    "store_read base fs' (ed_key r) = Inr (py_content py)"
    "ed_directives r = py_directives py"
proof -
  let ?i = "new_id hex EVIDENCE"
  let ?rel = "run @ ''/'' @ evidence_name kind ?i (py_media py)"
  let ?rec = "\<lparr>ed_id = ?i, ed_key = ''evidence://'' @ ?rel, ed_media = py_media py,
      ed_size = content_size T (py_content py), ed_hash = content_digest T (py_content py),
      ed_retention = keep, ed_directives = py_directives py, ed_created = now\<rparr>"
  from assms obtain p q m fs1 where p: "resolve_key base ?rel = Inr p"
    and w1: "atomic_write p (py_content py) fs = (Inr (), fs1)"
    and w2: "atomic_write q m fs1 = (Inr (), fs')" and mk: "mk_evidence_record ?rec = Inr r"
    unfolding store_write_def Let_def
    by (auto split: sum.splits if_splits prod.splits)
  have r: "r = ?rec" and pid: "parse_id ?i (Some EVIDENCE) = Inr ?i"
    using mk by (auto simp: mk_evidence_record_def bind_r_Inr_iff split: if_splits dest: parse_id_value)
  have "fs1 p = Some (py_content py)" using w1 by (auto simp: atomic_write_def split: if_splits)
  then have "fs' p = Some (py_content py)" using atomic_write_grows[OF w2] by (simp add: grows_def)
  moreover have pre: "starts_with ''evidence://'' (''evidence://'' @ ?rel)" by simp
  ultimately show read: "store_read base fs' (ed_key r) = Inr (py_content py)"
    using p by (simp add: store_read_def r)
  show "verified_content T base fs' r = Inr (py_content py)"
    using read pid by (simp add: verified_content_def r)
  show "starts_with (run_prefix run) (ed_key r)"
    by (simp add: r run_prefix_def starts_with_iff)
qed (use assms in \<open>auto simp: store_write_def Let_def mk_evidence_record_def bind_r_Inr_iff
      split: sum.splits if_splits prod.splits\<close>)

section \<open>Histories of a journal\<close>

definition then_state :: "'a journaling \<Rightarrow> journal \<Rightarrow> journal" where
  "then_state m s = snd (m s)"

inductive journal_step :: "journal_env \<Rightarrow> journal \<Rightarrow> journal \<Rightarrow> bool" for E where
  js_record: "journal_step E s (then_state (journal_record E ty run step details) s)"
| js_attach: "journal_step E s (then_state (journal_attach E kind py keep) s)"
| js_finalize: "journal_step E s (then_state (finalize E result cls) s)"

inductive journal_run :: "journal_env \<Rightarrow> journal \<Rightarrow> journal \<Rightarrow> bool" for E where
  jr_refl: "journal_run E s s"
| jr_step: "journal_run E s t \<Longrightarrow> journal_step E t u \<Longrightarrow> journal_run E s u"

lemma tick_eval: "tick f s = (Inr (f (jn_tick s)), s\<lparr>jn_tick := jn_tick s + 1\<rparr>)"
  by (simp add: tick_def comp_defs)

text \<open>An invariant of the whole state, carried through the methods.\<close>

locale journal_inv =
  fixes I :: "journal \<Rightarrow> bool"
  assumes inv_tick: "I s \<Longrightarrow> I (s\<lparr>jn_tick := n\<rparr>)"
    and inv_files: "grows (jn_files s) fs \<Longrightarrow> I s \<Longrightarrow> I (s\<lparr>jn_files := fs\<rparr>)"
begin

lemma keeps_tick [keeping]: "keeps I (tick f)" "keeps I (read_clock E')"
  unfolding read_clock_def by (rule keepsI; simp add: tick_eval inv_tick)+

lemma keeps_write [keeping]: "keeps I (write_evidence E kind py keep)"
proof -
  have "keeps I (\<lambda>s. case store_write (je_codec E) (je_base E) hex now (jn_run s) kind py keep (jn_files s) of
        (r, fs) \<Rightarrow> (r, s\<lparr>jn_files := fs\<rparr>))" for hex now
    by (rule keepsI) (auto split: prod.splits intro!: inv_files elim!: store_write_grows)
  then show ?thesis unfolding write_evidence_def by (intro keeping)
qed

lemma keeps_publish [keeping]: "keeps I (publish_manifest E tm rs ats t)"
  unfolding publish_manifest_def by (intro keeping)

lemma keeps_sanitize [keeping]: "keeps I (sanitize_result E result cls)"
  unfolding sanitize_result_def by (intro keeping)

end

section \<open>Good journals\<close>

text \<open>Entry number \<open>n\<close> of a run's manifest holds event number \<open>n\<close> of the run.\<close>

definition event_entry ::
  "codec \<Rightarrow> lax \<Rightarrow> path \<Rightarrow> files \<Rightarrow> string \<Rightarrow> nat \<Rightarrow> evidence_record \<Rightarrow> bool" where
  "event_entry T L base fs run n e =
     (\<exists>x ev. verified_content T base fs e = Inr x \<and> content_size T x \<le> MAX_EVENT_BYTES \<and>
        obind (loads T x) (event_of_json L) = Some ev \<and> ee_run ev = run \<and> ee_sequence ev = int n + 1)"

definition attachment_entry :: "codec \<Rightarrow> path \<Rightarrow> files \<Rightarrow> evidence_record \<Rightarrow> bool" where
  "attachment_entry T base fs e =
     (\<exists>x. verified_content T base fs e = Inr x \<and> attachment_check T e x = Inr ())"

definition good_journal :: "journal_env \<Rightarrow> lax \<Rightarrow> journal \<Rightarrow> bool" where
  "good_journal E L s =
     (is_id RUN (jn_run s) \<and>
      (\<forall>n<length (jn_events s). ee_sequence (jn_events s ! n) = int n + 1) \<and>
      (je_stored E \<longrightarrow> length (jn_records s) = length (jn_events s)) \<and>
      (\<forall>n<length (jn_records s).
         event_entry (je_codec E) L (je_base E) (jn_files s) (jn_run s) n (jn_records s ! n)) \<and>
      list_all (attachment_entry (je_codec E) (je_base E) (jn_files s)) (jn_attachments s))"

lemma event_entry_grows:
  "grows fs fs' \<Longrightarrow> event_entry T L base fs run n e \<Longrightarrow> event_entry T L base fs' run n e"
  by (auto simp: event_entry_def intro: verified_content_grows)

lemma attachment_entry_grows:
  "grows fs fs' \<Longrightarrow> attachment_entry T base fs e \<Longrightarrow> attachment_entry T base fs' e"
  by (auto simp: attachment_entry_def intro: verified_content_grows)

interpretation good: journal_inv "good_journal E L" for E L
  by unfold_locales
     (auto simp: good_journal_def list_all_iff intro: event_entry_grows attachment_entry_grows)

lemma write_triple:
  assumes "\<And>s fs. grows (jn_files s) fs \<Longrightarrow> P s \<Longrightarrow> P (s\<lparr>jn_files := fs\<rparr>)"
    and "\<And>s n. P s \<Longrightarrow> P (s\<lparr>jn_tick := n\<rparr>)"
  shows "triple P (write_evidence E kind py keep)
     (\<lambda>r s. P s \<and> verified_content (je_codec E) (je_base E) (jn_files s) r = Inr (py_content py) \<and>
        ed_media r = py_media py \<and> ed_retention r = keep \<and> starts_with (run_prefix (jn_run s)) (ed_key r) \<and>
        ed_size r = content_size (je_codec E) (py_content py) \<and>
        store_read (je_base E) (jn_files s) (ed_key r) = Inr (py_content py))
     (\<lambda>_. P)"
proof -
  have ticks: "keeps P (tick f)" for f :: "nat \<Rightarrow> 'x"
    by (rule keepsI) (simp add: tick_eval assms(2))
  have clock: "keeps P (read_clock E)" unfolding read_clock_def by (rule ticks)
  show ?thesis
    unfolding write_evidence_def
  proof (rule triple_bind[OF triple_keeps[OF ticks]], rule triple_bind[OF triple_keeps[OF clock]], rule tripleI)
    fix hex now s r s'
    assume P: "P s" and run: "(case store_write (je_codec E) (je_base E) hex now (jn_run s) kind py keep
        (jn_files s) of (r, fs) \<Rightarrow> (r, s\<lparr>jn_files := fs\<rparr>)) = (Inr r, s')"
    then obtain fs where w: "store_write (je_codec E) (je_base E) hex now (jn_run s) kind py keep
        (jn_files s) = (Inr r, fs)" and s': "s' = s\<lparr>jn_files := fs\<rparr>"
      by (auto split: prod.splits)
    show "P s' \<and> verified_content (je_codec E) (je_base E) (jn_files s') r = Inr (py_content py) \<and>
        ed_media r = py_media py \<and> ed_retention r = keep \<and> starts_with (run_prefix (jn_run s')) (ed_key r) \<and>
        ed_size r = content_size (je_codec E) (py_content py) \<and>
        store_read (je_base E) (jn_files s') (ed_key r) = Inr (py_content py)"
      using store_write_Inr[OF w] assms(1)[OF store_write_grows[OF w] P] by (simp add: s')
  next
    fix hex now s e s'
    assume P: "P s" and run: "(case store_write (je_codec E) (je_base E) hex now (jn_run s) kind py keep
        (jn_files s) of (r, fs) \<Rightarrow> (r, s\<lparr>jn_files := fs\<rparr>)) = (Inl e, s')"
    then show "P s'" by (auto split: prod.splits intro: assms(1) store_write_grows)
  qed
qed

text \<open>What the codec must do: instants read back and archives have the ZIP signature.\<close>

definition lawful :: "journal_env \<Rightarrow> lax \<Rightarrow> bool" where
  "lawful E L =
     (times_read_back (je_codec E) L \<and> (\<forall>name b. starts_with ''PK'' (cd_zip (je_codec E) name b)))"

lemma triple_gets_eq: "triple P (gets f) (\<lambda>x s. P s \<and> f s = x) F"
  by (rule tripleI) (auto simp: gets_def)

lemma triple_lift_eq: "triple P (lift_c r) (\<lambda>x s. P s \<and> r = Inr x) (\<lambda>_. P)"
  by (rule tripleI) (auto simp: lift_c_def)

lemma triple_fail: "(\<And>s. P s \<Longrightarrow> F s) \<Longrightarrow> triple P (raise e) Q (\<lambda>_. F)"
  by (rule triple_pre[OF triple_raise])

lemma triple_never: "(\<And>s. \<not> P s) \<Longrightarrow> triple P m Q F"
  by (rule tripleI) simp_all

lemma triple_exc: "triple P m Q (\<lambda>_. P) \<Longrightarrow> (\<And>s. P s \<Longrightarrow> F s) \<Longrightarrow> triple P m Q (\<lambda>_. F)"
  by (erule triple_conseq) auto

text \<open>A manifest that was published can be read.\<close>

definition published :: "journal_env \<Rightarrow> run_manifest \<Rightarrow> evidence_record \<Rightarrow> journal \<Rightarrow> bool" where
  "published E m r s =
     (manifest_ok m \<and>
      store_read (je_base E) (jn_files s) (ed_key r) = Inr (Json Indented (manifest_json (je_codec E) m)) \<and>
      content_size (je_codec E) (Json Indented (manifest_json (je_codec E) m)) \<le> MAX_MANIFEST_BYTES \<and>
      starts_with (run_prefix (mf_run m)) (ed_key r))"

lemma mk_sanitized_Inr:
  "mk_sanitized T x media ds = Inr py \<longleftrightarrow>
     bytes_of T x \<noteq> [] \<and> directives_ok ds \<and>
     py = \<lparr>py_content = x, py_media = media, py_directives = ds\<rparr>"
  by (auto simp: mk_sanitized_def directives_ok_def)

lemma publish_triple:
  assumes "journal_inv P"
  shows "triple P (publish_manifest E now recs ats trm)
     (\<lambda>r s. P s \<and> published E \<lparr>mf_run = jn_run s, mf_generated = now, mf_events = recs,
        mf_attachments = ats, mf_terminal = trm\<rparr> r s) (\<lambda>_. P)"
proof -
  let ?m = "\<lambda>run. \<lparr>mf_run = run, mf_generated = now, mf_events = recs, mf_attachments = ats, mf_terminal = trm\<rparr>"
  have P: "journal_inv (\<lambda>s. P s \<and> jn_run s = run)" for run
    using assms by (auto simp: journal_inv_def)
  have body: "triple (\<lambda>s. P s \<and> jn_run s = run)
      (bind_c (lift_c (manifest_payload (je_codec E) (?m run))) (\<lambda>py.
         write_evidence E ''manifest'' py RETAIN_OPERATIONAL))
      (\<lambda>r s. P s \<and> published E (?m (jn_run s)) r s) (\<lambda>_. P)" for run
  proof (rule triple_bind[OF triple_exc[OF triple_lift_eq]])
    fix py
    show "triple (\<lambda>s. (P s \<and> jn_run s = run) \<and> manifest_payload (je_codec E) (?m run) = Inr py)
        (write_evidence E ''manifest'' py RETAIN_OPERATIONAL)
        (\<lambda>r s. P s \<and> published E (?m (jn_run s)) r s) (\<lambda>_. P)"
    proof (cases "manifest_payload (je_codec E) (?m run) = Inr py")
      case True
      then have "manifest_ok (?m run)" "py_content py = Json Indented (manifest_json (je_codec E) (?m run))"
        "content_size (je_codec E) (Json Indented (manifest_json (je_codec E) (?m run))) \<le> MAX_MANIFEST_BYTES"
        by (auto simp: manifest_payload_def Let_def mk_sanitized_Inr split: if_splits)
      then show ?thesis
        by (intro triple_conseq[OF write_triple[of "\<lambda>s. P s \<and> jn_run s = run"]])
           (use P[of run] in \<open>auto simp: published_def journal_inv_def\<close>)
    qed (auto intro!: triple_never)
  qed simp
  show ?thesis
    unfolding publish_manifest_def by (rule triple_bind[OF triple_gets_eq body])
qed

section \<open>Recording keeps a journal good\<close>

definition before_event :: "journal_env \<Rightarrow> lax \<Rightarrow> string \<Rightarrow> event_evidence list \<Rightarrow> journal \<Rightarrow> bool" where
  "before_event E L run events s = (good_journal E L s \<and> jn_run s = run \<and> jn_events s = events)"

definition with_entry ::
  "journal_env \<Rightarrow> lax \<Rightarrow> string \<Rightarrow> event_evidence list \<Rightarrow> evidence_record \<Rightarrow> journal \<Rightarrow> bool" where
  "with_entry E L run events r s =
     (before_event E L run events s \<and>
      event_entry (je_codec E) L (je_base E) (jn_files s) run (length events) r)"

lemma before_event_inv: "journal_inv (before_event E L run events)"
  by unfold_locales (auto simp: before_event_def good.inv_tick good.inv_files)

lemma with_entry_inv: "journal_inv (with_entry E L run events r)"
  by unfold_locales
     (auto simp: with_entry_def before_event_def good.inv_tick good.inv_files intro: event_entry_grows)

lemma written_event_entry:
  assumes "lawful E L" "event_payload (je_codec E) ev ds = Inr py"
    and "content_size (je_codec E) (py_content py) \<le> MAX_EVENT_BYTES"
    and "verified_content (je_codec E) base fs r = Inr (py_content py)"
    and "ee_sequence ev = int n + 1"
  shows "event_entry (je_codec E) L base fs (ee_run ev) n r"
proof -
  have ev: "event_ok ev" "py_content py = Json Ascii (event_json (je_codec E) ev)"
    using assms(2) by (auto simp: event_payload_def mk_sanitized_Inr split: if_splits)
  have "obind (loads (je_codec E) (py_content py)) (event_of_json L) =
      Some (ev\<lparr>ee_details := sorted_details ev\<rparr>)"
    using assms(1) ev by (simp add: loads_def lawful_def event_reads_back del: sort_json.simps(1))
  then show ?thesis
    unfolding event_entry_def using assms(3-5) by (intro exI[of _ "py_content py"]) auto
qed

lemma good_append:
  assumes "with_entry E L run events r s" "je_stored E" "ee_sequence event = int (length events) + 1"
  shows "good_journal E L (s\<lparr>jn_records := jn_records s @ [r], jn_manifest := k,
           jn_events := jn_events s @ [event]\<rparr>)"
  using assms by (auto simp: with_entry_def before_event_def good_journal_def nth_append less_Suc_eq)

lemma store_event_triple:
  assumes "lawful E L" "je_stored E" "ee_run event = run" "ee_sequence event = int (length events) + 1"
  shows "triple (before_event E L run events)
     (store_event E event ds)
     (\<lambda>_ s. good_journal E L (s\<lparr>jn_events := jn_events s @ [event]\<rparr>)) (\<lambda>_. good_journal E L)"
proof -
  let ?B = "before_event E L run events"
  have good: "?B s \<Longrightarrow> good_journal E L s" for s by (simp add: before_event_def)
  have wgood: "with_entry E L run events r s \<Longrightarrow> good_journal E L s" for r s
    by (simp add: with_entry_def before_event_def)
  have tail: "triple (with_entry E L run events r)
      (bind_c (gets jn_records) (\<lambda>records. bind_c (gets jn_attachments) (\<lambda>attachments.
       bind_c (publish_manifest E (ee_at event) (records @ [r]) attachments None) (\<lambda>manifest.
       update (\<lambda>s. s\<lparr>jn_records := jn_records s @ [r], jn_manifest := Some (ed_key manifest)\<rparr>)))))
      (\<lambda>_ s. good_journal E L (s\<lparr>jn_events := jn_events s @ [event]\<rparr>)) (\<lambda>_. good_journal E L)" for r
    by (rule triple_bind[where R = "\<lambda>_. with_entry E L run events r"], rule triple_pre[OF triple_gets], assumption,
        rule triple_bind[where R = "\<lambda>_. with_entry E L run events r"], rule triple_pre[OF triple_gets], assumption,
        rule triple_bind[OF triple_exc[OF publish_triple[OF with_entry_inv]]], erule wgood,
        rule triple_pre[OF triple_update])
       (auto intro: good_append[OF _ assms(2,4)])
  show ?thesis
    unfolding store_event_def
  proof (rule triple_bind[OF triple_exc[OF triple_lift_eq]])
    fix py
    let ?T = "je_codec E"
    show "triple (\<lambda>s. ?B s \<and> event_payload ?T event ds = Inr py)
        (if MAX_EVENT_BYTES < content_size ?T (py_content py)
         then raise (ValueError ''run event exceeds the evidence verification limit'')
         else bind_c (write_evidence E (event_kind (nat (ee_sequence event))) py
                   (retention_class_of (ee_type event))) (\<lambda>record.
           bind_c (gets jn_records) (\<lambda>records. bind_c (gets jn_attachments) (\<lambda>attachments.
           bind_c (publish_manifest E (ee_at event) (records @ [record]) attachments None) (\<lambda>manifest.
           update (\<lambda>s. s\<lparr>jn_records := jn_records s @ [record], jn_manifest := Some (ed_key manifest)\<rparr>))))))
        (\<lambda>_ s. good_journal E L (s\<lparr>jn_events := jn_events s @ [event]\<rparr>)) (\<lambda>_. good_journal E L)"
    proof (cases "event_payload ?T event ds = Inr py")
      case True
      show ?thesis
      proof (cases "MAX_EVENT_BYTES < content_size ?T (py_content py)")
        case False
        have stored: "triple ?B (write_evidence E kind py keep) (with_entry E L run events) (\<lambda>_. good_journal E L)"
          for kind keep
          by (rule triple_conseq[OF write_triple[of ?B]])
             (use before_event_inv[of E L run events] written_event_entry[OF assms(1) True _ _ assms(4)] False
                good assms(3) in \<open>auto simp: journal_inv_def with_entry_def\<close>)
        show ?thesis
          unfolding if_not_P[OF False] by (rule triple_pre[OF triple_bind[OF stored tail]]) simp
      qed (auto intro: triple_fail good)
    qed (auto intro!: triple_never)
  qed (rule good)
qed

lemma good_append_plain:
  assumes "before_event E L run events s" "\<not> je_stored E" "ee_sequence event = int (length events) + 1"
  shows "good_journal E L (s\<lparr>jn_events := jn_events s @ [event]\<rparr>)"
  using assms by (auto simp: before_event_def good_journal_def nth_append less_Suc_eq)

lemma record_tail_triple:
  assumes "lawful E L" "ee_run event = run" "ee_sequence event = int (length events) + 1"
  shows "triple (before_event E L run events)
     (then_c (if je_stored E then store_event E event ds else ret ())
        (update (\<lambda>s. s\<lparr>jn_events := jn_events s @ [event]\<rparr>)))
     (\<lambda>_. good_journal E L) (\<lambda>_. good_journal E L)"
proof (cases "je_stored E")
  case True
  show ?thesis
    unfolding if_P[OF True]
    by (rule triple_then[OF store_event_triple[OF assms(1) True assms(2,3)]], rule triple_pre[OF triple_update])
next
  case False
  show ?thesis
    unfolding if_not_P[OF False]
    by (rule triple_then[where R = "before_event E L run events"], rule triple_pre[OF triple_ret], assumption,
        rule triple_pre[OF triple_update], rule good_append_plain[OF _ False assms(3)])
qed

lemma number_event_triple:
  "triple (before_event E L run events)
     (number_event E ty run step cleaned (length events))
     (\<lambda>ev s. before_event E L run events s \<and> ee_run ev = run \<and> ee_sequence ev = int (length events) + 1)
     (\<lambda>_. good_journal E L)"
proof -
  let ?B = "before_event E L run events"
  have B: "?B s \<Longrightarrow> good_journal E L s" for s by (simp add: before_event_def)
  have id: "triple ?B (lift_c (parse_id run (Some RUN))) (\<lambda>i s. ?B s \<and> i = run) (\<lambda>_. good_journal E L)"
    by (rule tripleI) (auto simp: lift_c_def B dest: parse_id_value)
  have clock: "keeps (\<lambda>s. ?B s \<and> i = run) (read_clock E)" for i
    by (rule keepsI) (use journal_inv.inv_tick[OF before_event_inv] in \<open>simp add: read_clock_def tick_eval\<close>)
  show ?thesis
    unfolding number_event_def
    by (rule triple_bind[OF triple_exc[OF triple_keeps[OF journal_inv.keeps_tick(1)[OF before_event_inv]]]],
        erule B, rule triple_bind[OF id], rule triple_bind[OF triple_exc[OF triple_keeps[OF clock]]],
        blast intro: B, rule triple_pre[OF triple_ret]) simp
qed

lemma append_event_triple:
  assumes "lawful E L"
  shows "triple (\<lambda>s. good_journal E L s \<and> jn_run s = run) (append_event E ty run step cleaned ds)
     (\<lambda>_. good_journal E L) (\<lambda>_. good_journal E L)"
proof -
  have tail: "triple (\<lambda>s. before_event E L run events s \<and> ee_run ev = run \<and>
        ee_sequence ev = int (length events) + 1)
      (then_c (if je_stored E then store_event E ev ds else ret ())
        (update (\<lambda>s. s\<lparr>jn_events := jn_events s @ [ev]\<rparr>)))
      (\<lambda>_. good_journal E L) (\<lambda>_. good_journal E L)" for ev events
  proof (cases "ee_run ev = run \<and> ee_sequence ev = int (length events) + 1")
    case True
    then show ?thesis
      by (intro triple_pre[OF record_tail_triple[OF assms, of ev run events ds]]) auto
  qed (auto intro!: triple_never)
  note go = triple_bind[OF number_event_triple tail]
  show ?thesis
    unfolding append_event_def
    by (rule triple_bind[OF triple_gets_eq], rule triple_bind[OF triple_gets_eq])
       (auto intro!: triple_fail triple_pre[OF go] simp: before_event_def)
qed

lemma journal_record_good:
  assumes "lawful E L"
  shows "keeps (good_journal E L) (journal_record E ty run step details)"
proof -
  let ?I = "good_journal E L"
  let ?P = "\<lambda>s. ?I s \<and> jn_run s = run"
  have clean: "triple ?P
      (bind_c (lift_c x) (\<lambda>sanitized. case obind (loads (je_codec E) (py_content sanitized)) an_object of
          None \<Rightarrow> raise e
        | Some cleaned \<Rightarrow> append_event E ty run step cleaned (py_directives sanitized)))
      (\<lambda>_. ?I) (\<lambda>_. ?I)" for x e
  proof (rule triple_bind[OF triple_exc[OF triple_keeps[OF keeps_lift]]])
    fix sanitized
    show "triple ?P (case obind (loads (je_codec E) (py_content sanitized)) an_object of
          None \<Rightarrow> raise e
        | Some cleaned \<Rightarrow> append_event E ty run step cleaned (py_directives sanitized)) (\<lambda>_. ?I) (\<lambda>_. ?I)"
      by (cases "obind (loads (je_codec E) (py_content sanitized)) an_object")
         (auto intro!: triple_fail append_event_triple[OF assms])
  qed simp
  have all: "triple (\<lambda>s. ?I s \<and> jn_run s = own)
      (if run \<noteq> own then raise e1 else if b then raise e2 else if c then raise e3
       else bind_c (lift_c x) (\<lambda>sanitized. case obind (loads (je_codec E) (py_content sanitized)) an_object of
          None \<Rightarrow> raise e
        | Some cleaned \<Rightarrow> append_event E ty run step cleaned (py_directives sanitized)))
      (\<lambda>_. ?I) (\<lambda>_. ?I)" for own x e e1 e2 e3 b c
    using clean[of x e] by (auto intro!: triple_fail)
  show ?thesis
    unfolding keeps_def journal_record_def by (rule triple_bind[OF triple_gets_eq all])
qed

section \<open>Attachments keep a journal good\<close>

lemma guarded_attachment:
  "attachment_guard T py = Inr u \<Longrightarrow> ed_media r = py_media py \<Longrightarrow> attachment_check T r (py_content py) = Inr ()"
  by (cases "py_media py") (auto simp: attachment_guard_def attachment_check_def Let_def split: if_splits)

definition with_attachment :: "journal_env \<Rightarrow> lax \<Rightarrow> evidence_record \<Rightarrow> journal \<Rightarrow> bool" where
  "with_attachment E L r s =
     (good_journal E L s \<and> attachment_entry (je_codec E) (je_base E) (jn_files s) r)"

lemma with_attachment_inv: "journal_inv (with_attachment E L r)"
  by unfold_locales
     (auto simp: with_attachment_def good.inv_tick good.inv_files intro: attachment_entry_grows)

lemma good_attach:
  "with_attachment E L r s \<Longrightarrow>
     good_journal E L (s\<lparr>jn_attachments := jn_attachments s @ [r], jn_manifest := k\<rparr>)"
  "with_attachment E L r s \<Longrightarrow> good_journal E L (s\<lparr>jn_attachments := jn_attachments s @ [r]\<rparr>)"
  by (auto simp: with_attachment_def good_journal_def)

lemma write_attachment:
  assumes "\<And>r. ed_media r = py_media py \<Longrightarrow> attachment_check (je_codec E) r (py_content py) = Inr ()"
  shows "triple (good_journal E L) (write_evidence E kind py keep) (with_attachment E L) (\<lambda>_. good_journal E L)"
  by (rule triple_conseq[OF write_triple[of "good_journal E L"]])
     (use assms in \<open>auto simp: good.inv_tick good.inv_files with_attachment_def attachment_entry_def\<close>)

lemma append_attachment_good:
  "triple (with_attachment E L r) (append_attachment E ats r) (\<lambda>_. good_journal E L) (\<lambda>_. good_journal E L)"
proof -
  have wa: "with_attachment E L r s \<Longrightarrow> good_journal E L s" for r s by (simp add: with_attachment_def)
  show ?thesis
    unfolding append_attachment_def
    by (rule triple_bind[where R = "\<lambda>_. with_attachment E L r"], rule triple_pre[OF triple_gets], assumption,
        rule triple_bind[OF triple_exc[OF triple_keeps[OF journal_inv.keeps_tick(2)[OF with_attachment_inv]]]], erule wa,
        rule triple_bind[OF triple_exc[OF publish_triple[OF with_attachment_inv]]], erule wa,
        rule triple_then[where R = "good_journal E L"], rule triple_pre[OF triple_update], blast intro: good_attach,
        rule triple_pre[OF triple_ret])
qed

lemma journal_attach_good: "keeps (good_journal E L) (journal_attach E kind py keep)"
proof -
  let ?I = "good_journal E L"
  have guard: "triple ?I (lift_c (attachment_guard (je_codec E) py))
      (\<lambda>_ s. ?I s \<and> attachment_guard (je_codec E) py = Inr ()) (\<lambda>_. ?I)"
    by (rule tripleI) (auto simp: lift_c_def)
  have stored: "triple ?I (bind_c (write_evidence E kind py keep) (append_attachment E ats)) (\<lambda>_. ?I) (\<lambda>_. ?I)"
    if "attachment_guard (je_codec E) py = Inr ()" for ats
    by (rule triple_bind[OF write_attachment append_attachment_good]) (rule guarded_attachment[OF that])
  have all: "triple (\<lambda>s. ?I s \<and> attachment_guard (je_codec E) py = Inr ())
      (bind_c (gets jn_finalized) (\<lambda>finalized. bind_c (gets jn_attachments) (\<lambda>ats.
        if finalized then raise e1 else if b then raise e2 else if 100 \<le> int (length ats) then raise e3
        else bind_c (write_evidence E kind py keep) (append_attachment E ats))))
      (\<lambda>_. ?I) (\<lambda>_. ?I)" for b e1 e2 e3
  proof (cases "attachment_guard (je_codec E) py = Inr ()")
    case True
    show ?thesis
      by (rule triple_bind[OF triple_gets_eq], rule triple_bind[OF triple_gets_eq])
         (auto intro!: triple_fail triple_pre[OF stored[OF True]])
  qed (auto intro!: triple_never)
  show ?thesis
    unfolding keeps_def journal_attach_def by (rule triple_then[OF guard all])
qed

section \<open>Finalization\<close>

lemma archive_signature:
  assumes "lawful E L" "diagnostic_archive (je_codec E) R run details = Inr py" "ed_media r = py_media py"
  shows "attachment_check (je_codec E) r (py_content py) = Inr ()"
  using assms
  by (auto simp: diagnostic_archive_def bind_r_Inr_iff Let_def mk_sanitized_Inr attachment_check_def
      bytes_of_def lawful_def split: option.splits if_splits)

lemma attach_diagnostic_triple:
  assumes "lawful E L"
  shows "keeps (\<lambda>s. good_journal E L s \<and> jn_run s = run) (attach_diagnostic E d)"
proof -
  let ?I = "\<lambda>s. good_journal E L s \<and> jn_run s = run"
  have inv: "journal_inv ?I" by unfold_locales (auto simp: good.inv_tick good.inv_files)
  have one: "triple ?I (bind_c (lift_c (diagnostic_archive (je_codec E) (je_redactor E) run0 (ee_details d))) (\<lambda>py.
        bind_c (write_evidence E ''execution-diagnostic'' py RETAIN_FAILURE) (\<lambda>record.
        then_c (update (\<lambda>s. s\<lparr>jn_attachments := jn_attachments s @ [record]\<rparr>)) (ret ''captured''))))
      (\<lambda>_. ?I) (\<lambda>_. ?I)" for run0
  proof (rule triple_bind[OF triple_exc[OF triple_lift_eq]])
    fix py
    show "triple (\<lambda>s. ?I s \<and> diagnostic_archive (je_codec E) (je_redactor E) run0 (ee_details d) = Inr py)
        (bind_c (write_evidence E ''execution-diagnostic'' py RETAIN_FAILURE) (\<lambda>record.
          then_c (update (\<lambda>s. s\<lparr>jn_attachments := jn_attachments s @ [record]\<rparr>)) (ret ''captured'')))
        (\<lambda>_. ?I) (\<lambda>_. ?I)"
    proof (cases "diagnostic_archive (je_codec E) (je_redactor E) run0 (ee_details d) = Inr py")
      case True
      have stored: "triple ?I (write_evidence E ''execution-diagnostic'' py RETAIN_FAILURE)
          (\<lambda>r s. with_attachment E L r s \<and> jn_run s = run) (\<lambda>_. ?I)"
        by (rule triple_conseq[OF write_triple[of ?I]])
           (use inv archive_signature[OF assms True] in
             \<open>auto simp: journal_inv_def with_attachment_def attachment_entry_def\<close>)
      have tail: "triple (\<lambda>s. with_attachment E L r s \<and> jn_run s = run)
          (then_c (update (\<lambda>s. s\<lparr>jn_attachments := jn_attachments s @ [r]\<rparr>)) (ret ''captured''))
          (\<lambda>_. ?I) (\<lambda>_. ?I)" for r
        by (rule triple_then[where R = ?I], rule triple_pre[OF triple_update], simp add: good_attach,
            rule triple_pre[OF triple_ret])
      show ?thesis by (rule triple_pre[OF triple_bind[OF stored tail]]) simp
    qed (auto intro!: triple_never)
  qed simp
  have all: "keeps ?I (bind_c (gets jn_attachments) (\<lambda>attachments.
        if 100 \<le> int (length attachments) \<or> list_ex (\<lambda>a. ed_media a = MEDIA_ZIP) attachments
        then raise (ValueError ''diagnostic attachment slot unavailable'')
        else bind_c (gets jn_run) (\<lambda>run.
          bind_c (lift_c (diagnostic_archive (je_codec E) (je_redactor E) run (ee_details d))) (\<lambda>py.
          bind_c (write_evidence E ''execution-diagnostic'' py RETAIN_FAILURE) (\<lambda>record.
          then_c (update (\<lambda>s. s\<lparr>jn_attachments := jn_attachments s @ [record]\<rparr>)) (ret ''captured''))))))"
    by (intro keeping one[folded keeps_def])
  show ?thesis
    unfolding attach_diagnostic_def by (rule keeps_catch[OF all]) (rule keeps_ret)
qed

text \<open>The status and the run of a result survive redaction unless a declaration forbids it.\<close>

definition names_kept :: "classifications \<Rightarrow> bool" where
  "names_kept cls =
     (\<forall>(path, c)\<in>set cls. path = ''status'' \<or> path = ''run_id'' \<longrightarrow> c = OPERATIONAL \<or> c = PUBLIC)"

lemma classify_pairs_prefix:
  "(p, c) \<in> set (classify_pairs declared kvs) \<Longrightarrow> \<exists>q v. (q, v) \<in> set kvs \<and> starts_with q p"
proof (induction declared kvs rule: classify_pairs.induct)
  case (2 declared path v rest)
  show ?case
  proof (cases "(p, c) \<in> set (classify_pairs declared rest)")
    case True
    with 2(2) show ?thesis by auto
  next
    case False
    with 2(3) have "starts_with path p"
    proof (cases "dict_get declared path")
      case None
      show ?thesis
      proof (cases v)
        case (JObj kvs)
        with False None 2(3) have "(p, c) \<in> set (classify_pairs declared
            (map (\<lambda>(k, x). (path @ ''.'' @ k, x)) kvs))" by auto
        with 2(1)[OF None JObj] obtain k where "starts_with (path @ ''.'' @ k) p" by auto
        then show ?thesis by (auto simp: starts_with_iff)
      qed (use False None 2(3) in \<open>auto simp: starts_with_iff\<close>)
    qed (auto simp: starts_with_iff)
    then show ?thesis by auto
  qed
qed simp

lemma map_of_rev_last:
  "(\<And>v. (k, v) \<in> set xs \<Longrightarrow> P v) \<Longrightarrow> (k, w) \<in> set xs \<Longrightarrow> \<exists>v. map_of (rev xs) k = Some v \<and> P v"
  by (metis map_of_SomeD set_rev weak_map_of_SomeI)

lemma name_class:
  assumes "names_kept cls" "k = ''status'' \<or> k = ''run_id''" "dict_get result k = Some v"
  shows "dict_get (terminal_classifications result cls) k \<in> {Some OPERATIONAL, Some PUBLIC}"
proof -
  let ?A = "map (\<lambda>(key, v). (key, if key \<in> set OPERATIONAL_RESULT_FIELDS then OPERATIONAL else PERSONAL))
      [(key, v) \<leftarrow> result. key \<noteq> ''outputs'']"
  let ?B = "case dict_get result ''outputs'' of None \<Rightarrow> [] | Some v \<Rightarrow> classify_pairs cls [(''outputs'', v)]"
  let ?C = "[(path, c) \<leftarrow> cls. starts_with ''outputs.'' path \<or> c \<notin> {OPERATIONAL, PUBLIC}]"
  have k: "k \<in> set OPERATIONAL_RESULT_FIELDS" "k \<noteq> ''outputs''" "\<not> starts_with ''outputs'' k"
    "\<not> starts_with ''outputs.'' k"
    using assms(2) by (auto simp: OPERATIONAL_RESULT_FIELDS_def)
  have "(k, v) \<in> set result" using assms(3) by (rule map_of_SomeD)
  then have member: "(k, OPERATIONAL) \<in> set ?A" using k(1,2) by force
  have b: "(k, c) \<notin> set ?B" for c
  proof
    assume "(k, c) \<in> set ?B"
    then obtain w where "(k, c) \<in> set (classify_pairs cls [(''outputs'', w)])"
      by (cases "dict_get result ''outputs''") (simp_all del: classify_pairs.simps)
    from classify_pairs_prefix[OF this] k(3) show False by auto
  qed
  have plain: "c = OPERATIONAL \<or> c = PUBLIC" if c: "(k, c) \<in> set (?A @ ?B @ ?C)" for c
  proof -
    from c have "(k, c) \<in> set ?A \<or> (k, c) \<in> set ?B \<or> (k, c) \<in> set ?C"
      by (simp only: set_append Un_iff)
    with b consider "(k, c) \<in> set ?A" | "(k, c) \<in> set ?C" by blast
    then show ?thesis
    proof cases
      case 1
      then show ?thesis using k(1) by auto
    next
      case 2
      with k(4) assms(1,2) show ?thesis by (auto simp: names_kept_def)
    qed
  qed
  from member have "(k, OPERATIONAL) \<in> set (?A @ ?B @ ?C)" by (simp only: set_append Un_iff) blast
  from map_of_rev_last[of k "?A @ ?B @ ?C" "\<lambda>c. c = OPERATIONAL \<or> c = PUBLIC", OF plain this]
  obtain c where "map_of (rev (?A @ ?B @ ?C)) k = Some c" "c = OPERATIONAL \<or> c = PUBLIC" by blast
  then show ?thesis unfolding terminal_classifications_def dict_of_pairs_get by blast
qed

lemma redact_mapping_get:
  assumes "dict_get cls k \<in> {Some OPERATIONAL, Some PUBLIC}" "is_trusted_key k" "\<not> is_forbidden_key k"
    and "dict_get kvs k = Some (JStr v)"
  shows "dict_get (fst (redact_mapping R cls salt [] kvs)) k = Some (JStr v)"
  using assms(4)
proof (induction kvs)
  case (Cons p rest)
  obtain key x where p: "p = (key, x)" by fastforce
  obtain kept later where rest: "redact_mapping R cls salt [] rest = (kept, later)" by fastforce
  have path: "sub_path [] key = key" by (simp add: sub_path_def)
  show ?case
  proof (cases "key = k")
    case True
    have "entry_rule_of R cls salt k k (JStr v) = Enter"
      using assms(1-3) by (auto simp: entry_rule_of_def)
    with True Cons.prems show ?thesis by (simp add: p rest sub_path_def)
  next
    case False
    then have "dict_get kept k = Some (JStr v)" using Cons rest by (simp add: p)
    with False show ?thesis
      by (cases "entry_rule_of R cls salt key key x"; cases x) (simp_all add: p rest path split: prod.splits)
  qed
qed simp

lemma sanitized_names:
  assumes "sanitize_json T R result (terminal_classifications result cls) run = Inr py"
    and "dict_get result ''run_id'' = Some (JStr run)" "dict_get result ''status'' = Some (JStr status)"
    and "status \<in> {''success'', ''business_outcome'', ''failure''}" "is_id RUN run" "names_kept cls"
  shows "obind (loads T (py_content py)) terminal_of_json = Some (status, run)"
proof -
  let ?cls = "terminal_classifications result cls"
  obtain cleaned ds where red: "redact_mapping R ?cls run [] result = (cleaned, ds)" by fastforce
  have keys: "is_trusted_key ''status'' \<and> is_trusted_key ''run_id'' \<and> \<not> is_forbidden_key ''status'' \<and>
      \<not> is_forbidden_key ''run_id''" by code_simp
  have got: "dict_get cleaned ''status'' = Some (JStr status)" "dict_get cleaned ''run_id'' = Some (JStr run)"
    using redact_mapping_get[of ?cls "''status''" result status R run]
      redact_mapping_get[of ?cls "''run_id''" result run R run]
      name_class[OF assms(6) _ assms(3)] name_class[OF assms(6) _ assms(2)] assms(2,3) keys
    by (simp_all add: red)
  have "py_content py = Json Compact (JObj cleaned)"
    using assms(1) by (auto simp: sanitize_json_def red Let_def bind_r_Inr_iff mk_sanitized_Inr)
  then show ?thesis
    using got assms(4,5)
    by (auto simp: loads_def terminal_of_json_def an_object_def field_def sorted_get a_str_def)
qed

text \<open>A payload that names its result.\<close>

definition names_result :: "journal_env \<Rightarrow> string \<Rightarrow> string \<Rightarrow> payload \<Rightarrow> bool" where
  "names_result E run status py =
     (obind (loads (je_codec E) (py_content py)) terminal_of_json = Some (status, run))"

definition with_terminal ::
  "journal_env \<Rightarrow> lax \<Rightarrow> string \<Rightarrow> string \<Rightarrow> evidence_record \<Rightarrow> journal \<Rightarrow> bool" where
  "with_terminal E L run status trm s =
     (good_journal E L s \<and> jn_run s = run \<and> ed_retention trm = expected_retention status \<and>
      (\<exists>x. verified_content (je_codec E) (je_base E) (jn_files s) trm = Inr x \<and>
           obind (loads (je_codec E) x) terminal_of_json = Some (status, run)))"

lemma with_terminal_inv: "journal_inv (with_terminal E L run status trm)"
  by unfold_locales
     (auto simp: with_terminal_def good.inv_tick good.inv_files intro: verified_content_grows)

text \<open>The state a finalization leaves.\<close>

definition finalized_with :: "journal_env \<Rightarrow> lax \<Rightarrow> string \<Rightarrow> string \<Rightarrow> string \<Rightarrow> journal \<Rightarrow> bool" where
  "finalized_with E L run status key s =
     (\<exists>trm now r. with_terminal E L run status trm s \<and> jn_terminal s = Some trm \<and> jn_finalized s \<and>
        key = ed_key r \<and>
        published E \<lparr>mf_run = run, mf_generated = now, mf_events = jn_records s,
          mf_attachments = jn_attachments s, mf_terminal = Some trm\<rparr> r s)"

lemma publish_terminal_triple:
  assumes "lawful E L" "names_result E run status sanitized"
    and "dict_get result ''run_id'' = Some (JStr run)" "dict_get result ''status'' = Some (JStr status)"
    and "status \<in> {''success'', ''business_outcome'', ''failure''}" "is_id RUN run" "names_kept cls"
  shows "triple (\<lambda>s. good_journal E L s \<and> jn_run s = run)
     (publish_terminal E result cls sanitized status)
     (finalized_with E L run status) (\<lambda>_. good_journal E L)"
proof -
  let ?P = "\<lambda>s. good_journal E L s \<and> jn_run s = run"
  have inv: "journal_inv ?P" by unfold_locales (auto simp: good.inv_tick good.inv_files)
  have good: "?P s \<Longrightarrow> good_journal E L s" for s by simp
  have enriched: "triple ?P (sanitize_result E (dict_set ''diagnostic_trace'' (JStr v) result) cls)
      (\<lambda>py s. ?P s \<and> names_result E run status py) (\<lambda>_. good_journal E L)" for v
    using sanitized_names[OF _ _ _ assms(5-7)] assms(3,4)
    by (intro tripleI)
       (auto simp: sanitize_result_def lift_c_def names_result_def)
  have payload: "triple ?P (terminal_payload E result cls sanitized)
      (\<lambda>py s. ?P s \<and> names_result E run status py) (\<lambda>_. good_journal E L)"
  proof -
    have "triple ?P (if ds = [] then ret sanitized
        else bind_c (attach_diagnostic E (last ds)) (\<lambda>status.
          sanitize_result E (dict_set ''diagnostic_trace'' (JStr status) result) cls))
        (\<lambda>py s. ?P s \<and> names_result E run status py) (\<lambda>_. good_journal E L)" for ds
    proof (cases "ds = []")
      case True
      show ?thesis unfolding if_P[OF True] by (rule triple_pre[OF triple_ret]) (use assms(2) in simp)
    next
      case False
      show ?thesis
        unfolding if_not_P[OF False]
        by (rule triple_bind[OF triple_exc[OF triple_keeps[OF attach_diagnostic_triple[OF assms(1)]] good] enriched])
    qed
    then show ?thesis
      unfolding terminal_payload_def
      by (intro triple_bind[where R = "\<lambda>_. ?P"] triple_pre[OF triple_gets])
  qed
  have stored: "triple (\<lambda>s. ?P s \<and> names_result E run status py)
      (write_evidence E ''terminal-result'' py (expected_retention status))
      (with_terminal E L run status) (\<lambda>_. good_journal E L)" for py
    by (rule triple_conseq[OF write_triple[of "\<lambda>s. ?P s \<and> names_result E run status py"]])
       (use inv in \<open>auto simp: journal_inv_def with_terminal_def names_result_def\<close>)
  let ?W = "with_terminal E L run status"
  have wt: "?W trm s \<Longrightarrow> good_journal E L s" for trm s by (simp add: with_terminal_def)
  have inv2: "journal_inv (\<lambda>s. ?W trm s \<and> jn_records s = recs \<and> jn_attachments s = ats)" for trm recs ats
    using with_terminal_inv[of E L run status trm] by (auto simp: journal_inv_def)
  have update: "triple (\<lambda>s. (?W trm s \<and> jn_records s = recs \<and> jn_attachments s = ats) \<and>
        published E \<lparr>mf_run = jn_run s, mf_generated = now, mf_events = recs, mf_attachments = ats,
          mf_terminal = Some trm\<rparr> r s)
      (then_c (update (\<lambda>s. s\<lparr>jn_terminal := Some trm, jn_manifest := Some (ed_key r),
                          jn_finalized := True\<rparr>)) (ret (ed_key r)))
      (finalized_with E L run status) (\<lambda>_. good_journal E L)" for trm recs ats now r
    by (rule tripleI)
       (auto simp: then_c_def bind_c_def update_def ret_def finalized_with_def with_terminal_def
          good_journal_def published_def)
  have publish: "triple (?W trm)
      (bind_c (gets jn_records) (\<lambda>records. bind_c (gets jn_attachments) (\<lambda>attachments.
       bind_c (read_clock E) (\<lambda>now.
       bind_c (publish_manifest E now records attachments (Some trm)) (\<lambda>manifest.
       then_c (update (\<lambda>s. s\<lparr>jn_terminal := Some trm, jn_manifest := Some (ed_key manifest),
                            jn_finalized := True\<rparr>))
       (ret (ed_key manifest)))))))
      (finalized_with E L run status) (\<lambda>_. good_journal E L)" for trm
  proof (rule triple_bind[OF triple_gets_eq], rule triple_bind[OF triple_gets_eq])
    fix recs ats
    let ?Q = "\<lambda>s. ?W trm s \<and> jn_records s = recs \<and> jn_attachments s = ats"
    have "triple ?Q (bind_c (read_clock E) (\<lambda>now.
       bind_c (publish_manifest E now recs ats (Some trm)) (\<lambda>manifest.
       then_c (update (\<lambda>s. s\<lparr>jn_terminal := Some trm, jn_manifest := Some (ed_key manifest),
                            jn_finalized := True\<rparr>))
       (ret (ed_key manifest))))) (finalized_with E L run status) (\<lambda>_. good_journal E L)"
      by (rule triple_bind[OF triple_exc[OF triple_keeps[OF journal_inv.keeps_tick(2)[OF inv2]]]],
          blast intro: wt, rule triple_bind[OF triple_exc[OF publish_triple[OF inv2]]], blast intro: wt,
          rule update)
    then show "triple (\<lambda>s. (?W trm s \<and> jn_records s = recs) \<and> jn_attachments s = ats)
       (bind_c (read_clock E) (\<lambda>now.
       bind_c (publish_manifest E now recs ats (Some trm)) (\<lambda>manifest.
       then_c (update (\<lambda>s. s\<lparr>jn_terminal := Some trm, jn_manifest := Some (ed_key manifest),
                            jn_finalized := True\<rparr>))
       (ret (ed_key manifest))))) (finalized_with E L run status) (\<lambda>_. good_journal E L)"
      by (rule triple_pre) simp
  qed
  show ?thesis
    unfolding publish_terminal_def by (rule triple_bind[OF payload triple_bind[OF stored publish]])
qed

lemma sanitize_result_triple:
  assumes "dict_get result ''run_id'' = Some (JStr run)" "dict_get result ''status'' = Some (JStr status)"
    and "status \<in> {''success'', ''business_outcome'', ''failure''}" "is_id RUN run" "names_kept cls"
  shows "triple (\<lambda>s. good_journal E L s \<and> jn_run s = run) (sanitize_result E result cls)
     (\<lambda>py s. (good_journal E L s \<and> jn_run s = run) \<and> names_result E run status py) (\<lambda>_. good_journal E L)"
  using sanitized_names[OF _ assms(1-5)]
  by (intro tripleI) (auto simp: sanitize_result_def lift_c_def names_result_def)

lemma completed_status_Inr:
  "completed_status v = Inr status \<Longrightarrow>
     v = Some (JStr status) \<and> status \<in> {''success'', ''business_outcome'', ''failure''}"
  by (auto simp: completed_status_def split: option.splits json.splits if_splits)

lemma finalize_triple:
  assumes "lawful E L" "names_kept cls" "je_stored E" "is_id RUN run"
  shows "triple (\<lambda>s. good_journal E L s \<and> jn_run s = run) (finalize E result cls)
     (\<lambda>key s. \<exists>status. finalized_with E L run status key s) (\<lambda>_. good_journal E L)"
proof -
  let ?P = "\<lambda>s. good_journal E L s \<and> jn_run s = run"
  let ?Q = "\<lambda>key s. \<exists>status. finalized_with E L run status key s"
  have go: "triple ?P (bind_c (sanitize_result E result cls) (\<lambda>sanitized.
       if MAX_EVENT_BYTES < content_size (je_codec E) (py_content sanitized)
       then raise (ValueError ''terminal result exceeds the evidence verification limit'')
       else bind_c (gets jn_finalized) (\<lambda>finalized.
         if finalized then raise (RuntimeError ''run evidence has already been finalized'')
         else if \<not> je_stored E
         then then_c (update (\<lambda>s. s\<lparr>jn_finalized := True\<rparr>)) (ret (default_manifest_key run0))
         else publish_terminal E result cls sanitized status))) ?Q (\<lambda>_. good_journal E L)"
    if run: "dict_get result ''run_id'' = Some (JStr run)"
      and st: "completed_status (dict_get result ''status'') = Inr status" for run0 status
  proof -
    note status = completed_status_Inr[OF st]
    have pub: "triple (\<lambda>s. ?P s \<and> names_result E run status py)
        (publish_terminal E result cls py status) ?Q (\<lambda>_. good_journal E L)" for py
    proof (cases "names_result E run status py")
      case True
      show ?thesis
        by (rule triple_conseq[OF publish_terminal_triple[OF assms(1) True run _ _ assms(4,2)]])
           (use status in auto)
    qed (auto intro!: triple_never)
    have rest: "triple (\<lambda>s. (?P s \<and> names_result E run status py) \<and> jn_finalized s = b)
        (if b then raise e
         else if \<not> je_stored E
         then then_c (update (\<lambda>s. s\<lparr>jn_finalized := True\<rparr>)) (ret (default_manifest_key run0))
         else publish_terminal E result cls py status) ?Q (\<lambda>_. good_journal E L)" for py b e
    proof (cases b)
      case True
      show ?thesis unfolding if_P[OF True] by (rule triple_fail) simp
    next
      case False
      show ?thesis using assms(3) False by (auto intro!: triple_pre[OF pub])
    qed
    have sized: "triple (\<lambda>s. ?P s \<and> names_result E run status py)
        (if MAX_EVENT_BYTES < content_size (je_codec E) (py_content py) then raise e
         else bind_c (gets jn_finalized) (\<lambda>b. if b then raise e'
           else if \<not> je_stored E
           then then_c (update (\<lambda>s. s\<lparr>jn_finalized := True\<rparr>)) (ret (default_manifest_key run0))
           else publish_terminal E result cls py status)) ?Q (\<lambda>_. good_journal E L)" for py e e'
    proof (cases "MAX_EVENT_BYTES < content_size (je_codec E) (py_content py)")
      case True
      show ?thesis unfolding if_P[OF True] by (rule triple_fail) simp
    next
      case False
      show ?thesis unfolding if_not_P[OF False] by (rule triple_bind[OF triple_gets_eq rest])
    qed
    show ?thesis
      by (rule triple_bind[OF sanitize_result_triple[OF run _ _ assms(4,2), where status = status] sized])
         (use status in auto)
  qed
  have own: "triple (\<lambda>s. ?P s \<and> jn_run s = own)
      (if dict_get result ''run_id'' \<noteq> Some (JStr own)
       then raise (ValueError ''terminal result belongs to a different run'')
       else bind_c (lift_c (completed_status (dict_get result ''status''))) (\<lambda>status.
         bind_c (sanitize_result E result cls) (\<lambda>sanitized.
         if MAX_EVENT_BYTES < content_size (je_codec E) (py_content sanitized)
         then raise (ValueError ''terminal result exceeds the evidence verification limit'')
         else bind_c (gets jn_finalized) (\<lambda>finalized.
           if finalized then raise (RuntimeError ''run evidence has already been finalized'')
           else if \<not> je_stored E
           then then_c (update (\<lambda>s. s\<lparr>jn_finalized := True\<rparr>)) (ret (default_manifest_key own))
           else publish_terminal E result cls sanitized status)))) ?Q (\<lambda>_. good_journal E L)" for own
  proof (cases "own = run \<and> dict_get result ''run_id'' = Some (JStr own)")
    case True
    then have run: "dict_get result ''run_id'' = Some (JStr run)" by simp
    have st: "triple ?P (lift_c (completed_status (dict_get result ''status'')))
        (\<lambda>status s. ?P s \<and> completed_status (dict_get result ''status'') = Inr status)
        (\<lambda>_. good_journal E L)"
      by (rule tripleI) (auto simp: lift_c_def)
    have "triple (\<lambda>s. ?P s \<and> completed_status (dict_get result ''status'') = Inr status)
        (bind_c (sanitize_result E result cls) (\<lambda>sanitized.
         if MAX_EVENT_BYTES < content_size (je_codec E) (py_content sanitized)
         then raise (ValueError ''terminal result exceeds the evidence verification limit'')
         else bind_c (gets jn_finalized) (\<lambda>finalized.
           if finalized then raise (RuntimeError ''run evidence has already been finalized'')
           else if \<not> je_stored E
           then then_c (update (\<lambda>s. s\<lparr>jn_finalized := True\<rparr>)) (ret (default_manifest_key own))
           else publish_terminal E result cls sanitized status))) ?Q (\<lambda>_. good_journal E L)" for status
    proof (cases "completed_status (dict_get result ''status'') = Inr status")
      case ok: True
      show ?thesis by (rule triple_pre[OF go[OF run ok]]) simp
    qed (auto intro!: triple_never)
    from triple_bind[OF st this] show ?thesis using True by (auto elim!: triple_pre)
  next
    case False
    show ?thesis
    proof (cases "own = run")
      case True
      with False have other: "dict_get result ''run_id'' \<noteq> Some (JStr own)" by simp
      show ?thesis unfolding if_P[OF other] by (rule triple_fail) simp
    next
      case False
      show ?thesis by (rule triple_never) (use False in simp)
    qed
  qed
  show ?thesis unfolding finalize_def by (rule triple_bind[OF triple_gets_eq own])
qed


lemma finalize_good:
  assumes "lawful E L"
  shows "keeps (good_journal E L) (finalize E result cls)"
proof -
  have diagnostic: "keeps (good_journal E L) (attach_diagnostic E d)" for d
    by (rule keepsI) (use keepsD[OF attach_diagnostic_triple[OF assms]] in blast)
  have same: "keeps (good_journal E L) (update f)"
    if "\<And>s. good_journal E L s \<Longrightarrow> good_journal E L (f s)" for f
    by (rule keepsI) (simp add: update_def that)
  show ?thesis
    unfolding finalize_def publish_terminal_def terminal_payload_def
    by (intro keeping good.keeps_sanitize good.keeps_write good.keeps_publish good.keeps_tick
          diagnostic same) (simp_all add: good_journal_def)
qed

lemma journal_run_good: "journal_run E s t \<Longrightarrow> lawful E L \<Longrightarrow> good_journal E L s \<Longrightarrow> good_journal E L t"
  by (induction rule: journal_run.induct)
     (auto simp: then_state_def elim!: journal_step.cases
        intro: keepsD[OF journal_record_good] keepsD[OF journal_attach_good] keepsD[OF finalize_good])

lemma new_journal_good: "new_journal run fs = Inr s \<Longrightarrow> good_journal E L s \<and> jn_run s = run"
  by (auto simp: new_journal_def bind_r_Inr_iff good_journal_def dest: parse_id_value)


section \<open>Verification of what a journal published\<close>

lemma key_checked: "key \<notin> set seen \<Longrightarrow> starts_with prefix key \<Longrightarrow> key_check prefix seen key m = Inr ()"
  by (simp add: key_check_def check_def)

lemma events_verify:
  assumes "\<forall>n<length es. event_entry T L base fs run (k + n) (es ! n)"
    and "list_all (\<lambda>e. starts_with (run_prefix run) (ed_key e)) es"
    and "distinct (map ed_key es)" "set seen \<inter> set (map ed_key es) = {}"
  shows "verify_events T L base fs run seen (int k + 1) es = Inr (rev (map ed_key es) @ seen)"
  using assms
proof (induction es arbitrary: seen k)
  case (Cons e es)
  from Cons.prems(1) have "event_entry T L base fs run k e" by fastforce
  then obtain x ev where e: "verified_content T base fs e = Inr x" "content_size T x \<le> MAX_EVENT_BYTES"
    "obind (loads T x) (event_of_json L) = Some ev" "ee_run ev = run" "ee_sequence ev = int k + 1"
    by (auto simp: event_entry_def)
  have "\<forall>n<length es. event_entry T L base fs run (Suc k + n) (es ! n)"
    using Cons.prems(1) by fastforce
  with Cons.prems(2-4) have "verify_events T L base fs run (ed_key e # seen) (int (Suc k) + 1) es =
      Inr (rev (map ed_key es) @ ed_key e # seen)"
    by (intro Cons.IH) auto
  moreover have "key_check (run_prefix run) seen (ed_key e) m = Inr ()" for m
    using Cons.prems by (intro key_checked) auto
  ultimately show ?case using e by (simp add: parsed_def)
qed simp

lemma attachments_verify:
  assumes "list_all (attachment_entry T base fs) es"
    and "list_all (\<lambda>e. starts_with (run_prefix run) (ed_key e)) es"
    and "distinct (map ed_key es)" "set seen \<inter> set (map ed_key es) = {}"
  shows "verify_attachments T base fs run seen es = Inr (rev (map ed_key es) @ seen)"
  using assms
proof (induction es arbitrary: seen)
  case (Cons e es)
  from Cons.prems(1) obtain x where "verified_content T base fs e = Inr x" "attachment_check T e x = Inr ()"
    by (auto simp: attachment_entry_def)
  moreover have "key_check (run_prefix run) seen (ed_key e) m = Inr ()" for m
    using Cons.prems by (intro key_checked) auto
  moreover have "verify_attachments T base fs run (ed_key e # seen) es = Inr (rev (map ed_key es) @ ed_key e # seen)"
    using Cons.prems by (intro Cons.IH) auto
  ultimately show ?case by simp
qed simp

lemma terminal_verifies:
  assumes "verified_content T base fs e = Inr x" "obind (loads T x) terminal_of_json = Some (status, run)"
    and "ed_retention e = expected_retention status" "starts_with (run_prefix run) (ed_key e)"
    and "ed_key e \<notin> set seen"
  shows "verify_terminal T base fs run seen e =
     (if ed_size e \<le> MAX_EVENT_BYTES then Inr ()
      else Inl (integrity ''terminal result evidence exceeds the verification limit''))"
proof -
  have "content_size T x = ed_size e"
    using assms(1) by (auto simp: verified_content_def bind_r_Inr_iff split: if_splits)
  then show ?thesis using assms by (simp add: verify_terminal_def check_def parsed_def)
qed

text \<open>The manifest of a finalized journal, in any store that has grown since.\<close>

lemma finalized_verifies:
  assumes "lawful E L" "finalized_with E L run status key s" "grows (jn_files s) fs"
  shows "\<exists>e m. jn_terminal s = Some e \<and>
     verify_run_manifest (je_codec E) L (je_base E) fs key True =
       (if ed_size e \<le> MAX_EVENT_BYTES
        then Inr \<lparr>vf_manifest_key = key,
               vf_manifest_hash = content_digest (je_codec E) (Json Indented (manifest_json (je_codec E) m)),
               vf_run = run, vf_events = length (jn_records s),
               vf_attachments = length (jn_attachments s), vf_terminal = True\<rparr>
        else Inl (integrity ''terminal result evidence exceeds the verification limit''))"
proof -
  let ?T = "je_codec E" and ?base = "je_base E"
  from assms(2) obtain e now r x where e: "jn_terminal s = Some e" and key: "key = ed_key r"
    and trm: "good_journal E L s" "jn_run s = run" "ed_retention e = expected_retention status"
      "verified_content ?T ?base (jn_files s) e = Inr x"
      "obind (loads ?T x) terminal_of_json = Some (status, run)"
    and pub: "published E \<lparr>mf_run = run, mf_generated = now, mf_events = jn_records s,
          mf_attachments = jn_attachments s, mf_terminal = Some e\<rparr> r s"
    by (auto simp: finalized_with_def with_terminal_def)
  let ?m = "\<lparr>mf_run = run, mf_generated = now, mf_events = jn_records s,
          mf_attachments = jn_attachments s, mf_terminal = Some e\<rparr>"
  have ok: "manifest_ok ?m" and read: "store_read ?base fs key = Inr (Json Indented (manifest_json ?T ?m))"
    and size: "content_size ?T (Json Indented (manifest_json ?T ?m)) \<le> MAX_MANIFEST_BYTES"
    and pre: "starts_with (run_prefix run) key"
    using pub store_read_grows[OF assms(3)] by (auto simp: published_def key)
  have parse: "parsed ?T (manifest_of_json L) msg (Json Indented (manifest_json ?T ?m)) = Inr ?m" for msg
    using manifest_reads_back[OF _ ok] assms(1) by (simp add: parsed_def loads_def lawful_def)
  have keys: "distinct (map ed_key (jn_records s @ jn_attachments s @ [e]))"
      "list_all (\<lambda>e. starts_with (run_prefix run) (ed_key e)) (jn_records s @ jn_attachments s @ [e])"
    using ok by (simp_all add: manifest_ok_def manifest_entries_def)
  have "verify_events ?T L ?base fs run [] (int 0 + 1) (jn_records s) = Inr (rev (map ed_key (jn_records s)) @ [])"
    by (rule events_verify)
       (use trm(1,2) keys event_entry_grows[OF assms(3)] in \<open>auto simp: good_journal_def\<close>)
  moreover have "verify_attachments ?T ?base fs run (rev (map ed_key (jn_records s))) (jn_attachments s) =
      Inr (rev (map ed_key (jn_attachments s)) @ rev (map ed_key (jn_records s)))"
    by (rule attachments_verify)
       (use trm(1) keys attachment_entry_grows[OF assms(3)] in \<open>auto simp: good_journal_def list_all_iff\<close>)
  moreover have "verify_terminal ?T ?base fs run (rev (map ed_key (jn_attachments s)) @ rev (map ed_key (jn_records s))) e =
      (if ed_size e \<le> MAX_EVENT_BYTES then Inr ()
       else Inl (integrity ''terminal result evidence exceeds the verification limit''))"
    by (rule terminal_verifies[OF verified_content_grows[OF assms(3) trm(4)] trm(5,3)])
       (use keys in auto)
  ultimately show ?thesis
    using e read size pre by (intro exI[of _ e] exI[of _ ?m]) (simp add: verify_run_manifest_def parse)
qed


section \<open>A sample run\<close>

definition sample_env :: journal_env where
  "sample_env =
     \<lparr>je_codec = sample_codec, je_redactor = sample_redactor, je_base = [''evidence''],
      je_digits = (\<lambda>n. replicate (32 - length (show_nat n)) (CHR ''0'') @ show_nat n), je_clock = int,
      je_stored = True\<rparr>"

definition sample_run_id :: string where
  "sample_run_id = ''run_'' @ replicate 32 (CHR ''0'')"

definition sample_journal :: journal where
  "sample_journal =
     \<lparr>jn_run = sample_run_id, jn_events = [], jn_records = [], jn_attachments = [], jn_terminal = None,
      jn_manifest = None, jn_finalized = False, jn_files = (\<lambda>p. None), jn_tick = 0\<rparr>"

definition sample_recorded :: journal where
  "sample_recorded =
     then_state (journal_record sample_env ''replay_started'' sample_run_id None [(''attempt'', JInt 1)])
       sample_journal"

definition sample_terminal :: json_object where
  "sample_terminal = [(''run_id'', JStr sample_run_id), (''status'', JStr ''success'')]"

definition returns :: "'a result \<times> journal \<Rightarrow> bool" where
  "returns x = (case x of (Inr _, _) \<Rightarrow> True | (Inl _, _) \<Rightarrow> False)"

lemma returns_iff: "returns x \<longleftrightarrow> (\<exists>y t. x = (Inr y, t))"
  by (cases x; cases "fst x") (auto simp: returns_def)

lemma sample_run_recorded: "journal_run sample_env sample_journal sample_recorded"
  unfolding sample_recorded_def by (intro jr_step[OF jr_refl] js_record)

lemma sample_lawful: "lawful sample_env sample_lax"
  using sample_times by (simp add: lawful_def sample_env_def sample_codec_def)

lemma sample_new: "new_journal sample_run_id (\<lambda>p. None) = Inr sample_journal"
proof -
  have "is_id RUN sample_run_id" by code_simp
  then show ?thesis by (simp add: new_journal_def sample_journal_def)
qed

lemma sample_finalizes: "returns (finalize sample_env sample_terminal [] sample_recorded)"
  by code_simp

section \<open>What a history can change\<close>

text \<open>An invariant that also survives the updates of a journal that is still open.\<close>

locale journal_growth = journal_inv +
  assumes add_event: "I s \<Longrightarrow> I (s\<lparr>jn_events := jn_events s @ [e]\<rparr>)"
    and add_record: "I s \<Longrightarrow> I (s\<lparr>jn_records := jn_records s @ [r], jn_manifest := k\<rparr>)"
    and add_attachment: "I s \<Longrightarrow> I (s\<lparr>jn_attachments := jn_attachments s @ [r]\<rparr>)"
    and new_manifest: "I s \<Longrightarrow> I (s\<lparr>jn_manifest := k\<rparr>)"
    and close: "I s \<Longrightarrow> I (s\<lparr>jn_finalized := True\<rparr>)"
    and add_terminal: "I s \<Longrightarrow> I (s\<lparr>jn_terminal := t\<rparr>)"
begin

lemma keeps_updates [keeping]:
  "keeps I (update (\<lambda>s. s\<lparr>jn_events := jn_events s @ [e]\<rparr>))"
  "keeps I (update (\<lambda>s. s\<lparr>jn_records := jn_records s @ [r], jn_manifest := k\<rparr>))"
  "keeps I (update (\<lambda>s. s\<lparr>jn_attachments := jn_attachments s @ [r], jn_manifest := k\<rparr>))"
  "keeps I (update (\<lambda>s. s\<lparr>jn_attachments := jn_attachments s @ [r]\<rparr>))"
  "keeps I (update (\<lambda>s. s\<lparr>jn_finalized := True\<rparr>))"
  "keeps I (update (\<lambda>s. s\<lparr>jn_terminal := t, jn_manifest := k, jn_finalized := True\<rparr>))"
proof -
  show "keeps I (update (\<lambda>s. s\<lparr>jn_attachments := jn_attachments s @ [r], jn_manifest := k\<rparr>))"
    by (rule keepsI) (simp add: update_def new_manifest[OF add_attachment, simplified])
  show "keeps I (update (\<lambda>s. s\<lparr>jn_terminal := t, jn_manifest := k, jn_finalized := True\<rparr>))"
    by (rule keepsI) (simp add: update_def close[OF new_manifest[OF add_terminal], simplified])
qed (rule keepsI; simp add: update_def add_event add_record add_attachment close)+

lemma keeps_operations:
  "keeps I (journal_record E ty run step details)"
  "keeps I (journal_attach E kind py keep)"
  "keeps I (finalize E result cls)"
  unfolding journal_record_def append_event_def number_event_def store_event_def journal_attach_def
    append_attachment_def finalize_def publish_terminal_def terminal_payload_def attach_diagnostic_def
  by (intro keeping)+

lemma journal_run_keeps: "journal_run E s t \<Longrightarrow> I s \<Longrightarrow> I t"
  by (induction rule: journal_run.induct)
     (auto simp: then_state_def elim!: journal_step.cases
        intro: keepsD[OF keeps_operations(1)] keepsD[OF keeps_operations(2)] keepsD[OF keeps_operations(3)])

end

definition extends :: "journal \<Rightarrow> journal \<Rightarrow> bool" where
  "extends s t =
     (jn_run t = jn_run s \<and> (\<exists>es. jn_events t = jn_events s @ es) \<and>
      (\<exists>rs. jn_records t = jn_records s @ rs) \<and> (\<exists>ats. jn_attachments t = jn_attachments s @ ats) \<and>
      grows (jn_files s) (jn_files t))"

interpretation extended: journal_growth "extends s" for s
  by unfold_locales (auto simp: extends_def intro: grows_trans)

lemma extends_refl: "extends s s"
  by (simp add: extends_def)

text \<open>
  C28. The record of a run is append-only. Whatever sequence of events, attachments and
  finalizations runs, successful or not, the journal stays with its run, its events, entries and
  attachments only gain elements at the end, and no stored file is changed or removed.
\<close>

theorem evidence_is_append_only:
  assumes "journal_run E s t"
  shows "jn_run t = jn_run s \<and> (\<exists>es. jn_events t = jn_events s @ es) \<and>
         (\<exists>rs. jn_records t = jn_records s @ rs) \<and> (\<exists>ats. jn_attachments t = jn_attachments s @ ats) \<and>
         (\<forall>p x. jn_files s p = Some x \<longrightarrow> jn_files t p = Some x)"
  using extended.journal_run_keeps[OF assms extends_refl] by (simp add: extends_def grows_def)

theorem evidence_is_append_only_witness:
  "jn_run sample_recorded = sample_run_id \<and>
   (\<exists>es. jn_events sample_recorded = jn_events sample_journal @ es)"
  using evidence_is_append_only[OF sample_run_recorded] by (simp add: sample_journal_def)

section \<open>A finalized journal is closed\<close>

text \<open>
  A finalized journal takes nothing more: recording, attaching and finalizing again all fail,
  and leave the journal and the store exactly as they were.
\<close>

theorem finalized_is_closed:
  assumes "jn_finalized s"
  shows "(\<exists>e. journal_record E ty run step details s = (Inl e, s)) \<and>
         (\<exists>e. journal_attach E kind py keep s = (Inl e, s)) \<and>
         (\<exists>e. finalize E result cls s = (Inl e, s))"
proof (intro conjI)
  have "\<exists>e. append_event E ty run step cleaned ds s = (Inl e, s)" for cleaned ds
    using assms by (simp add: append_event_def comp_defs)
  then show "\<exists>e. journal_record E ty run step details s = (Inl e, s)"
    by (auto simp: journal_record_def comp_defs split: sum.splits option.splits)
  show "\<exists>e. journal_attach E kind py keep s = (Inl e, s)"
    using assms by (auto simp: journal_attach_def comp_defs split: sum.splits)
  show "\<exists>e. finalize E result cls s = (Inl e, s)"
    using assms by (auto simp: finalize_def sanitize_result_def comp_defs split: sum.splits)
qed

theorem finalized_is_closed_witness:
  "\<exists>e. journal_record sample_env ''step_started'' sample_run_id None []
         (sample_journal\<lparr>jn_finalized := True\<rparr>) = (Inl e, sample_journal\<lparr>jn_finalized := True\<rparr>)"
  using finalized_is_closed[of "sample_journal\<lparr>jn_finalized := True\<rparr>"] by simp

text \<open>
  The events of a run are numbered without a gap. In every history of a new journal, event
  number \<open>n\<close> carries the number \<open>n\<close>; and on a store, the entry at each place of the record reads
  back, with the size and hash it was given, as that event of that run.
\<close>

theorem events_are_numbered:
  assumes "lawful E L" "new_journal run fs = Inr s0" "journal_run E s0 s"
  shows "(\<forall>n<length (jn_events s). ee_sequence (jn_events s ! n) = int n + 1) \<and>
         (je_stored E \<longrightarrow> length (jn_records s) = length (jn_events s)) \<and>
         (\<forall>n<length (jn_records s).
            \<exists>x ev. verified_content (je_codec E) (je_base E) (jn_files s) (jn_records s ! n) = Inr x \<and>
              obind (loads (je_codec E) x) (event_of_json L) = Some ev \<and>
              ee_run ev = run \<and> ee_sequence ev = int n + 1)"
proof -
  have "good_journal E L s" "jn_run s = run"
    using new_journal_good[OF assms(2), of E L] extended.journal_run_keeps[OF assms(3) extends_refl]
      journal_run_good[OF assms(3,1)]
    by (auto simp: extends_def)
  then show ?thesis unfolding good_journal_def event_entry_def by blast
qed

theorem events_are_numbered_witness:
  "length (jn_records sample_recorded) = length (jn_events sample_recorded)"
proof -
  have "je_stored sample_env" by (simp add: sample_env_def)
  with events_are_numbered[OF sample_lawful sample_new sample_run_recorded] show ?thesis by simp
qed




end
