(* ===== verification/Applications.thy ===== *)
theory Applications
  imports Policy ArtifactSemantics Replay
begin

text \<open>
  Registered applications: \<^verbatim>\<open>applications/models.py\<close> (the validators of a
  registration and the resolution of a launch location), \<^verbatim>\<open>applications/registry.py\<close>
  after the YAML text has been parsed, and \<^verbatim>\<open>applications/compatibility.py\<close>. Strings
  are those after Pydantic stripped white space; sets and dictionaries are lists in iteration order.
\<close>

section \<open>Text\<close>

text \<open>\<open>re.findall(r"\{([^{}]+)\}", s)\<close>.\<close>

definition brace :: "char \<Rightarrow> bool" where
  "brace c = (c = CHR ''{'' \<or> c = CHR ''}'')"

fun brace_variables :: "string \<Rightarrow> string list" where
  "brace_variables [] = []"
| "brace_variables (c # cs) =
     (let name = takeWhile (\<lambda>d. \<not> brace d) cs;
          rest = dropWhile (\<lambda>d. \<not> brace d) cs in
      (if c = CHR ''{'' \<and> name \<noteq> [] \<and> starts_with ''}'' rest then [name] else []) @
      brace_variables cs)"

text \<open>\<open>s.count(old)\<close> and \<open>s.replace(old, new)\<close> for a non-empty \<open>old\<close>.\<close>

fun str_count :: "string \<Rightarrow> string \<Rightarrow> nat" where
  "str_count old [] = 0"
| "str_count old (c # cs) =
     (if starts_with old (c # cs) then Suc (str_count old (drop (length old - 1) cs))
      else str_count old cs)"

fun str_replace :: "string \<Rightarrow> string \<Rightarrow> string \<Rightarrow> string" where
  "str_replace old new [] = []"
| "str_replace old new (c # cs) =
     (if starts_with old (c # cs) then new @ str_replace old new (drop (length old - 1) cs)
      else c # str_replace old new cs)"

text \<open>\<open>urllib.parse.quote(s, safe="")\<close>: the UTF-8 bytes, percent-encoded unless unreserved.\<close>

definition unreserved :: string where
  "unreserved = upper_letters @ lower_letters @ digits @ ''_.-~''"

definition upper_hex :: "nat \<Rightarrow> char" where
  "upper_hex n = ''0123456789ABCDEF'' ! n"

definition percent_byte :: "nat \<Rightarrow> string" where
  "percent_byte n = [CHR ''%'', upper_hex (n div 16), upper_hex (n mod 16)]"

definition quote_char :: "char \<Rightarrow> string" where
  "quote_char c =
     (let n = of_char c :: nat in
      if c \<in> set unreserved then [c]
      else if n < 128 then percent_byte n
      else percent_byte (192 + n div 64) @ percent_byte (128 + n mod 64))"

definition quote :: "string \<Rightarrow> string" where
  "quote s = concat (map quote_char s)"

definition rstrip_char :: "char \<Rightarrow> string \<Rightarrow> string" where
  "rstrip_char c s = rev (dropWhile (\<lambda>x. x = c) (rev s))"

section \<open>Registrations\<close>

definition WEB_ACTION_TYPES :: "string list" where
  "WEB_ACTION_TYPES =
     [''navigate'', ''type'', ''click'', ''select'', ''press_keys'', ''scroll'', ''wait_for'',
      ''assert'', ''extract'', ''switch_context'']"

record entry_point_registration =
  en_path_template :: string
  en_rendered_surface :: bool
  en_readiness_frame_title :: "string option"
  en_required_landmarks :: "landmark list"
  en_forbidden_landmarks :: "landmark list"

definition TENANT_VARIABLE :: string where
  "TENANT_VARIABLE = ''{tenant}''"

definition is_path_template :: "string \<Rightarrow> bool" where
  "is_path_template s =
     (starts_with ''/'' s \<and>
      list_all (\<lambda>c. c \<in> set (upper_letters @ lower_letters @ digits @ ''_./{}-'')) (drop 1 s))"

definition check_entry_point :: "entry_point_registration \<Rightarrow> unit result" where
  "check_entry_point e =
     (let path = en_path_template e;
          literal = str_replace TENANT_VARIABLE [] path in
      checks
       [(is_path_template path \<and>
         opt_all (\<lambda>t. 1 \<le> length t \<and> length t \<le> 200) (en_readiness_frame_title e), field_error),
        (set (brace_variables path) \<subseteq> {''tenant''},
           ''entry-point templates may only contain the tenant variable''),
        (str_count TENANT_VARIABLE path \<le> 1, ''entry-point templates may contain tenant only once''),
        (CHR ''{'' \<notin> set literal \<and> CHR ''}'' \<notin> set literal,
           ''entry-point template contains unmatched braces''),
        (\<not> contains_str ''//'' path \<and> \<not> contains_str ''..'' path,
           ''entry-point path template contains an unsafe path'')])"

record application_policy =
  ap_route_patterns :: "string list"
  ap_action_types :: "string list"
  ap_maximum_risk :: risk
  ap_forbidden :: "data_classification list"

definition check_application_policy :: "application_policy \<Rightarrow> unit result" where
  "check_application_policy p =
     bind_r (checks
       [(ap_route_patterns p \<noteq> [] \<and> ap_action_types p \<noteq> [], field_error),
        (set (ap_action_types p) \<subseteq> set WEB_ACTION_TYPES,
           ''application policy contains unsupported web actions''),
        ({CREDENTIAL, SECRET} \<subseteq> set (ap_forbidden p),
           ''application policy must forbid credentials and secrets'')]) (\<lambda>_.
     each (\<lambda>pattern. checks
       [(starts_with ''/'' pattern \<and> \<not> contains_str ''?'' pattern \<and> \<not> contains_str ''#'' pattern,
           ''approved route patterns must be absolute paths''),
        (\<not> contains_str ''//'' pattern \<and> \<not> contains_str ''..'' pattern,
           ''approved route patterns contain an unsafe path'')]) (ap_route_patterns p))"

record application_registration =
  ar_family :: string
  ar_namespace :: string
  ar_origin :: string
  ar_surface :: surface_kind
  ar_surface_contract :: string
  ar_base_variant :: string
  ar_tenants :: "string list"
  ar_entry_points :: "(string \<times> entry_point_registration) list"
  ar_route_aliases :: "(string \<times> string) list"
  ar_policy :: application_policy

definition route_parts :: "string \<Rightarrow> string list" where
  "route_parts route =
     (if route \<noteq> ''/'' then split_on (CHR ''/'') (strip_char (CHR ''/'') route) else [])"

definition part_matches :: "string \<Rightarrow> string \<Rightarrow> bool" where
  "part_matches route_part pattern_part =
     (pattern_part = ''*'' \<or> starts_with '':'' pattern_part \<or> pattern_part = route_part)"

definition application_route_matches :: "string \<Rightarrow> string \<Rightarrow> bool" where
  "application_route_matches route pattern =
     (starts_with ''/'' route \<and> \<not> contains_str ''?'' route \<and> \<not> contains_str ''#'' route \<and>
      list_all2 part_matches (route_parts route) (route_parts pattern))"

definition origin_is_plain :: "string \<Rightarrow> url_parts \<Rightarrow> bool" where
  "origin_is_plain origin parsed =
     (up_scheme parsed \<in> {''http'', ''https''} \<and> url_hostname parsed \<noteq> None \<and>
      fst (userinfo parsed) \<in> {None, Some []} \<and> snd (userinfo parsed) \<in> {None, Some []} \<and>
      up_query parsed = [] \<and> up_fragment parsed = [] \<and> up_path parsed \<in> {[], ''/''} \<and>
      \<not> contains_str ''?'' origin \<and> \<not> contains_str ''#'' origin \<and> \<not> list_ex py_isspace origin)"

definition is_namespace :: "string \<Rightarrow> bool" where
  "is_namespace = matches_ident lower_letters ident_chars 1 (Some 31)"

definition supported_contracts :: "surface_kind \<Rightarrow> string list" where
  "supported_contracts k = (case k of SURFACE_WEB \<Rightarrow> [''web.v1''] | SURFACE_DESKTOP \<Rightarrow> [])"

definition check_registration :: "application_registration \<Rightarrow> unit result" where
  "check_registration r =
     bind_r (each (\<lambda>(n, e). check_entry_point e) (ar_entry_points r)) (\<lambda>_.
     bind_r (check_application_policy (ar_policy r)) (\<lambda>_.
     bind_r (checks
       [(is_family (ar_family r) \<and> is_namespace (ar_namespace r) \<and>
         is_surface_contract (ar_surface_contract r) \<and> is_variant (ar_base_variant r) \<and>
         ar_tenants r \<noteq> [] \<and> ar_entry_points r \<noteq> [], field_error)]) (\<lambda>_.
     bind_r (urlsplit (ar_origin r)) (\<lambda>parsed.
     bind_r (url_port parsed) (\<lambda>_.
     bind_r (checks
       [(origin_is_plain (ar_origin r) parsed,
           ''application origin must be a credential-free HTTP origin''),
        (distinct (ar_tenants r), ''application tenants must be unique''),
        (list_all is_variant (ar_tenants r), ''application tenants have an invalid identifier''),
        (list_all (\<lambda>(n, e). is_family n) (ar_entry_points r),
           ''entry-point identifiers have an invalid format''),
        (ar_surface_contract r \<in> set (supported_contracts (ar_surface r)),
           ''surface contract is not supported by a registered adapter''),
        (list_all (\<lambda>(source, destination). source \<noteq> destination) (ar_route_aliases r),
           ''route aliases must not map a route to itself'')]) (\<lambda>_.
     each (\<lambda>(source, destination). checks
       [(safe_absolute_path source \<and> safe_absolute_path destination,
           ''route aliases must be absolute paths''),
        (list_ex (application_route_matches destination) (ap_route_patterns (ar_policy r)),
           ''route alias destination is outside the approved route policy'')])
       (ar_route_aliases r)))))))"

section \<open>Launch locations\<close>

record surface_launch =
  sl_family :: string
  sl_tenant :: string
  sl_entry_point :: string
  sl_url :: string
  sl_surface :: surface_kind
  sl_surface_contract :: string
  sl_rendered_surface :: bool
  sl_required_landmarks :: "landmark list"
  sl_forbidden_landmarks :: "landmark list"
  sl_readiness_frame_title :: "string option"
  sl_entry_points :: "(string \<times> string) list"

definition tenant_path :: "string \<Rightarrow> string \<Rightarrow> string" where
  "tenant_path tenant template = str_replace TENANT_VARIABLE (quote tenant) template"

definition entry_url :: "application_registration \<Rightarrow> string \<Rightarrow> string \<Rightarrow> string" where
  "entry_url r tenant template = rstrip_char (CHR ''/'') (ar_origin r) @ tenant_path tenant template"

definition resolve_launch ::
  "application_registration \<Rightarrow> string \<Rightarrow> string \<Rightarrow> surface_launch result" where
  "resolve_launch r tenant entry_point =
     (if tenant \<notin> set (ar_tenants r)
      then Inl (ValueError ''tenant is not registered for the application'')
      else case map_of (ar_entry_points r) entry_point of
        None \<Rightarrow> Inl (ValueError ''entry point is not registered for the application'')
      | Some entry \<Rightarrow>
          let path = tenant_path tenant (en_path_template entry) in
          if \<not> starts_with ''/'' path \<or> contains_str ''//'' path \<or> contains_str ''..'' path
          then Inl (ValueError ''resolved entry point is unsafe'')
          else Inr
            \<lparr>sl_family = ar_family r, sl_tenant = tenant, sl_entry_point = entry_point,
             sl_url = rstrip_char (CHR ''/'') (ar_origin r) @ path, sl_surface = ar_surface r,
             sl_surface_contract = ar_surface_contract r,
             sl_rendered_surface = en_rendered_surface entry,
             sl_required_landmarks = en_required_landmarks entry,
             sl_forbidden_landmarks = en_forbidden_landmarks entry,
             sl_readiness_frame_title = en_readiness_frame_title entry,
             sl_entry_points =
               map (\<lambda>(name, e). (name, entry_url r tenant (en_path_template e)))
                 (ar_entry_points r)\<rparr>)"

definition normalize_route :: "application_registration \<Rightarrow> string \<Rightarrow> string" where
  "normalize_route r route =
     (case map_of (ar_route_aliases r) route of None \<Rightarrow> route | Some d \<Rightarrow> d)"

section \<open>The registry\<close>

type_synonym application_registry = "application_registration dict"

definition mk_application_registry :: "application_registry \<Rightarrow> application_registry result" where
  "mk_application_registry regs =
     (if regs = [] then Inl (ValueError ''application registry cannot be empty'')
      else if set (dict_keys regs) \<noteq> ar_family ` set (map snd regs)
      then Inl (ValueError ''application registry keys must match application families'')
      else Inr regs)"

definition get_application :: "application_registry \<Rightarrow> string \<Rightarrow> application_registration result" where
  "get_application reg family =
     (case dict_get reg family of
        None \<Rightarrow> Inl (ValueError ''application family is not registered'')
      | Some r \<Rightarrow> Inr r)"

definition resolve_application ::
  "application_registry \<Rightarrow> string \<Rightarrow> string \<Rightarrow> string \<Rightarrow> surface_launch result" where
  "resolve_application reg family tenant entry_point =
     bind_r (get_application reg family) (\<lambda>r. resolve_launch r tenant entry_point)"

text \<open>The entries of the file, each already read into a registration.\<close>

definition load_applications :: "application_registration list \<Rightarrow> application_registry result" where
  "load_applications entries =
     (if entries = [] then Inl (ValueError ''application registry must contain applications'')
      else
        bind_r (each check_registration entries) (\<lambda>_.
        let regs = dict_of_pairs (map (\<lambda>r. (ar_family r, r)) entries) in
        if length regs \<noteq> length entries
        then Inl (ValueError ''application families must be unique'')
        else mk_application_registry regs))"

section \<open>Compatibility\<close>

definition validate_application_compatibility ::
  "application_registry \<Rightarrow> capability_artifact \<Rightarrow> string \<Rightarrow> unit result" where
  "validate_application_compatibility reg a tenant =
     (case bind_r (get_application reg (cm_application_family (art_capability a))) (\<lambda>r.
           bind_r (resolve_launch r tenant (co_entry_point (art_compatibility a))) (\<lambda>l.
           Inr (r, l))) of
        Inl e \<Rightarrow> Inl (SurfaceFailure (simple_error ''application_not_registered''
                  ''The capability target is not registered.''))
      | Inr (r, l) \<Rightarrow>
          if cm_surface (art_capability a) \<noteq> sl_surface l \<or>
             co_surface_contract (art_compatibility a) \<noteq> sl_surface_contract l \<or>
             co_base_variant (art_compatibility a) \<noteq> ar_base_variant r \<or>
             co_rendered_surface (art_compatibility a) \<noteq> sl_rendered_surface l
          then Inl (SurfaceFailure (simple_error ''application_contract_mismatch''
            ''The registered application no longer matches the capability's surface contract.''))
          else if \<not> set (cy_entry_points (art_policy a)) \<subseteq> set (map fst (ar_entry_points r))
          then Inl (SurfaceFailure (simple_error ''entry_point_contract_mismatch''
            ''A capability navigation entry point is no longer registered.''))
          else Inr ())"

text \<open>
  The readiness of an entry surface. The session's \<open>wait_until\<close> and \<open>evaluate\<close> are
  computations on any state. A landmark whose text is not a valid condition raises.
\<close>

definition readiness_checks :: "surface_launch \<Rightarrow> (landmark \<times> bool) list" where
  "readiness_checks l =
     map (\<lambda>x. (x, True)) (sl_required_landmarks l) @ map (\<lambda>x. (x, False)) (sl_forbidden_landmarks l)"

definition readiness_condition :: "landmark \<Rightarrow> condition" where
  "readiness_condition x = RenderedTextCondition (lm_value x) MATCH_EXACT"

fun ready_landmarks ::
  "(condition \<Rightarrow> ('s, bool) comp) \<Rightarrow> (condition \<Rightarrow> ('s, bool) comp) \<Rightarrow> (landmark \<times> bool) list
     \<Rightarrow> ('s, unit) comp" where
  "ready_landmarks waits shows_now [] = ret ()"
| "ready_landmarks waits shows_now ((x, required) # rest) =
     bind_c (lift_c (check_condition (readiness_condition x))) (\<lambda>_.
     bind_c ((if required then waits else shows_now) (readiness_condition x)) (\<lambda>present.
     if present \<noteq> required
     then raise (SurfaceFailure (simple_error ''compatibility_landmark_mismatch''
       ''The entry surface does not satisfy its registered readiness contract.''))
     else ready_landmarks waits shows_now rest))"

definition validate_rendered_readiness ::
  "(condition \<Rightarrow> ('s, bool) comp) \<Rightarrow> (condition \<Rightarrow> ('s, bool) comp) \<Rightarrow> surface_launch
     \<Rightarrow> ('s, unit) comp" where
  "validate_rendered_readiness waits shows_now l =
     ready_landmarks waits shows_now (readiness_checks l)"

end
