(* ===== verification/ApplicationGuarantees.thy ===== *)
theory ApplicationGuarantees
  imports Applications ArtifactGuarantees
begin

text \<open>
  The guarantees of application registrations: a registered launch location resolves and stays on
  the registered origin, a compatible artifact navigates only to registered locations, and the two
  route matchers of the program agree on safe paths.
\<close>

section \<open>Replacing the tenant variable\<close>

lemma drop_suffix_set: "set (drop n xs) \<subseteq> set xs"
  by (rule set_drop_subset)

lemma str_replace_set: "set (str_replace old new s) \<subseteq> set new \<union> set s"
proof (induction old new s rule: str_replace.induct)
  case (2 old new c cs)
  then show ?case using set_drop_subset[of "length old - 1" cs] by auto
qed simp

lemma quote_plain: "set s \<subseteq> set unreserved \<Longrightarrow> quote s = s"
  by (induction s) (auto simp: quote_def quote_char_def Let_def)

lemma variant_chars: "is_variant t \<Longrightarrow> t \<noteq> [] \<and> set t \<subseteq> set (ident_chars @ ''-'')"
  by (cases t) (auto simp: is_variant_def ident_chars_def list_all_iff)

lemma tenant_quote:
  assumes "is_variant t"
  shows "quote t = t"
proof -
  have "set (ident_chars @ ''-'') \<subseteq> set unreserved"
    by (auto simp: ident_chars_def unreserved_def)
  with variant_chars[OF assms] show ?thesis by (intro quote_plain) blast
qed

text \<open>A doubled character is not created by a replacement that does not hold it.\<close>

lemma doubled_append: "c \<notin> set new \<Longrightarrow> contains_str [c, c] (new @ t) \<Longrightarrow> contains_str [c, c] t"
proof (induction new)
  case (Cons n new)
  then show ?case by (cases "new @ t") auto
qed simp

lemma doubled_drop: "contains_str [c, c] (drop n s) \<Longrightarrow> contains_str [c, c] s"
proof (induction s arbitrary: n)
  case (Cons x s)
  then show ?case by (cases n) auto
qed simp

lemma starts_single: "starts_with [c] s \<longleftrightarrow> s \<noteq> [] \<and> hd s = c"
  by (cases s) auto

lemma doubled_Cons: "contains_str [c, c] (x # s) \<longleftrightarrow> x = c \<and> starts_with [c] s \<or> contains_str [c, c] s"
  by (cases s) auto

lemma replace_starts:
  assumes "c \<notin> set new" "new \<noteq> []" "starts_with [c] (str_replace old new s)"
  shows "starts_with [c] s"
  using assms by (cases s; cases new) (auto split: if_splits)

lemma replace_doubled:
  assumes "c \<notin> set new" "new \<noteq> []"
  shows "contains_str [c, c] (str_replace old new s) \<Longrightarrow> contains_str [c, c] s"
  using assms
proof (induction old new s rule: str_replace.induct)
  case (2 old new x cs)
  show ?case
  proof (cases "starts_with old (x # cs)")
    case True
    with 2 have "contains_str [c, c] (drop (length old - 1) cs)"
      using doubled_append[OF 2(4)] by auto
    then show ?thesis using doubled_drop doubled_Cons by blast
  next
    case False
    with 2(3) have "x = c \<and> starts_with [c] (str_replace old new cs) \<or>
        contains_str [c, c] (str_replace old new cs)"
      by (simp add: doubled_Cons del: contains_str.simps)
    then show ?thesis
      using replace_starts[OF 2(4,5)] 2(2)[OF False _ 2(4,5)] by (auto simp: doubled_Cons simp del: contains_str.simps)
  qed
qed simp

section \<open>What a check of a registration gives\<close>

lemma entry_facts:
  assumes "check_entry_point e = Inr u"
  shows "is_path_template (en_path_template e)" "\<not> contains_str ''//'' (en_path_template e)"
    "\<not> contains_str ''..'' (en_path_template e)"
    "CHR ''{'' \<notin> set (str_replace TENANT_VARIABLE [] (en_path_template e))"
    "CHR ''}'' \<notin> set (str_replace TENANT_VARIABLE [] (en_path_template e))"
  using assms by (auto simp: check_entry_point_def Let_def split: if_splits)

lemma registration_facts:
  assumes "check_registration r = Inr u"
  shows "(n, e) \<in> set (ar_entry_points r) \<Longrightarrow> check_entry_point e = Inr ()"
    and "t \<in> set (ar_tenants r) \<Longrightarrow> is_variant t"
    and "\<exists>parsed. urlsplit (ar_origin r) = Inr parsed \<and> origin_is_plain (ar_origin r) parsed"
    and "(source, d) \<in> set (ar_route_aliases r) \<Longrightarrow>
           list_ex (application_route_matches d) (ap_route_patterns (ar_policy r))"
    and "check_application_policy (ar_policy r) = Inr ()"
  using assms unfolding check_registration_def bind_r_Inr_iff each_Inr_iff checks_Inr_iff
  by (auto simp: list_all_iff split: prod.splits if_splits)

lemma tenant_path_safe:
  assumes "is_variant t" "is_path_template p"
    and "\<not> contains_str ''//'' p" "\<not> contains_str ''..'' p"
  shows "starts_with ''/'' (tenant_path t p)" "\<not> contains_str ''//'' (tenant_path t p)"
    "\<not> contains_str ''..'' (tenant_path t p)"
    "set (tenant_path t p) \<subseteq> set (upper_letters @ lower_letters @ digits @ ''_./{}-'')"
proof -
  have t: "t \<noteq> []" "set t \<subseteq> set (ident_chars @ ''-'')" "quote t = t"
    using variant_chars[OF assms(1)] tenant_quote[OF assms(1)] by auto
  have no: "CHR ''/'' \<notin> set t" "CHR ''.'' \<notin> set t"
    using t(2) by (auto simp: ident_chars_def lower_letters_def digits_def)
  obtain q where p: "p = CHR ''/'' # q"
    using assms(2) by (cases p) (auto simp: is_path_template_def)
  show "starts_with ''/'' (tenant_path t p)"
    by (simp add: tenant_path_def TENANT_VARIABLE_def p)
  show "\<not> contains_str ''//'' (tenant_path t p)" "\<not> contains_str ''..'' (tenant_path t p)"
    using assms(3,4) replace_doubled[OF no(1) t(1)] replace_doubled[OF no(2) t(1)]
    by (auto simp: tenant_path_def t(3))
  have "set p \<subseteq> set (upper_letters @ lower_letters @ digits @ ''_./{}-'')"
    using assms(2) by (auto simp: is_path_template_def p list_all_iff)
  moreover have "set (ident_chars @ ''-'') \<subseteq> set (upper_letters @ lower_letters @ digits @ ''_./{}-'')"
    by (auto simp: ident_chars_def)
  ultimately show "set (tenant_path t p) \<subseteq> set (upper_letters @ lower_letters @ digits @ ''_./{}-'')"
    using str_replace_set[of TENANT_VARIABLE t p] t(2) by (simp only: tenant_path_def t(3)) blast
qed

section \<open>A sample registration\<close>

definition sample_registration :: application_registration where
  "sample_registration =
     \<lparr>ar_family = ''billing'', ar_namespace = ''billing'', ar_origin = ''http://localhost/'',
      ar_surface = SURFACE_WEB, ar_surface_contract = ''web.v1'', ar_base_variant = ''base'',
      ar_tenants = [''acme''],
      ar_entry_points = [(''home'', \<lparr>en_path_template = ''/t/{tenant}/home'', en_rendered_surface = True,
        en_readiness_frame_title = None,
        en_required_landmarks = [\<lparr>lm_kind = LM_HEADING, lm_value = ''Accounts''\<rparr>],
        en_forbidden_landmarks = []\<rparr>)],
      ar_route_aliases = [(''/old'', ''/accounts/1'')],
      ar_policy = \<lparr>ap_route_patterns = [''/accounts/:id''], ap_action_types = [''navigate'', ''click''],
        ap_maximum_risk = REVERSIBLE, ap_forbidden = [CREDENTIAL, SECRET]\<rparr>\<rparr>"

lemma sample_registered: "check_registration sample_registration = Inr ()"
  by code_simp

definition launch_url_of :: "surface_launch result \<Rightarrow> string option" where
  "launch_url_of x = (case x of Inl e \<Rightarrow> None | Inr l \<Rightarrow> Some (sl_url l))"

lemma sample_launch_url:
  "launch_url_of (resolve_launch sample_registration ''acme'' ''home'') =
     Some ''http://localhost/t/acme/home''"
  by code_simp

lemma sample_compatible:
  "validate_application_compatibility [(''billing'', sample_registration)] sample_artifact ''acme'' = Inr ()"
  by code_simp

definition blank_launch :: surface_launch where
  "blank_launch =
     \<lparr>sl_family = ''billing'', sl_tenant = ''acme'', sl_entry_point = ''home'', sl_url = ''http://h/'',
      sl_surface = SURFACE_WEB, sl_surface_contract = ''web.v1'', sl_rendered_surface = True,
      sl_required_landmarks = [\<lparr>lm_kind = LM_HEADING, lm_value = []\<rparr>], sl_forbidden_landmarks = [],
      sl_readiness_frame_title = None, sl_entry_points = []\<rparr>"

lemma registered_path_safe:
  assumes "check_registration r = Inr u" "t \<in> set (ar_tenants r)" "(n, e) \<in> set (ar_entry_points r)"
  shows "starts_with ''/'' (tenant_path t (en_path_template e))"
    "\<not> contains_str ''//'' (tenant_path t (en_path_template e))"
    "\<not> contains_str ''..'' (tenant_path t (en_path_template e))"
    "set (tenant_path t (en_path_template e)) \<subseteq> set (upper_letters @ lower_letters @ digits @ ''_./{}-'')"
  using tenant_path_safe[OF registration_facts(2)[OF assms(1,2)]]
    entry_facts[OF registration_facts(1)[OF assms(1,3)]]
  by blast+

text \<open>
  A registered location always resolves. For an accepted registration the launch of a tenant
  at an entry point succeeds exactly when both are registered: the last check of the resolved
  path never fails.
\<close>

theorem registered_launch_resolves:
  assumes "check_registration r = Inr u"
  shows "(\<exists>l. resolve_launch r t e = Inr l) \<longleftrightarrow>
         t \<in> set (ar_tenants r) \<and> map_of (ar_entry_points r) e \<noteq> None"
proof -
  have "starts_with ''/'' (tenant_path t (en_path_template x)) \<and>
      \<not> contains_str ''//'' (tenant_path t (en_path_template x)) \<and>
      \<not> contains_str ''..'' (tenant_path t (en_path_template x))"
    if "t \<in> set (ar_tenants r)" "map_of (ar_entry_points r) e = Some x" for x
    using registered_path_safe[OF assms that(1) map_of_SomeD[OF that(2)]] by blast
  then show ?thesis
    by (auto simp: resolve_launch_def Let_def split: option.splits)
qed

theorem registered_launch_resolves_witness:
  "\<exists>l. resolve_launch sample_registration ''acme'' ''home'' = Inr l"
proof -
  have "''acme'' \<in> set (ar_tenants sample_registration)"
    "map_of (ar_entry_points sample_registration) ''home'' \<noteq> None"
    by (simp_all add: sample_registration_def)
  with registered_launch_resolves[OF sample_registered, of "''acme''" "''home''"] show ?thesis by simp
qed

section \<open>Splitting a URL on a plain origin\<close>

lemma contains_char: "contains_str [c] s \<longleftrightarrow> c \<in> set s"
  by (induction s) auto

definition url_noise :: "char \<Rightarrow> bool" where
  "url_noise c = (of_char c \<in> {9, 10, 13 :: nat})"

definition url_stop :: "char \<Rightarrow> bool" where
  "url_stop c = (c \<in> set ''/?#'')"

text \<open>The parts of a URL with a network location and a plain path.\<close>

definition plain_url :: "string \<Rightarrow> string \<Rightarrow> string \<Rightarrow> string \<Rightarrow> bool" where
  "plain_url pre s n p =
     (list_all (\<lambda>c. of_char c \<le> (32 :: nat)) pre \<and> s \<noteq> [] \<and>
      hd s \<in> set (lower_letters @ upper_letters) \<and> list_all (\<lambda>c. c \<in> set scheme_chars) s \<and>
      list_all (\<lambda>c. \<not> url_stop c \<and> \<not> url_noise c) n \<and>
      list_all (\<lambda>c. c \<notin> set ''?#'' \<and> \<not> url_noise c) p \<and> (p = [] \<or> hd p = CHR ''/''))"

definition netloc_ok :: "string \<Rightarrow> bool" where
  "netloc_ok n =
     ((CHR ''['' \<in> set n) = (CHR '']'' \<in> set n) \<and>
      (CHR ''['' \<in> set n \<longrightarrow>
         bracketed_host_ok (fst (str_partition (CHR '']'') (snd (snd (str_partition (CHR ''['') n)))))))"

lemma scheme_char_facts:
  assumes "list_all (\<lambda>c. c \<in> set scheme_chars) s"
  shows "CHR '':'' \<notin> set s" "\<forall>c\<in>set s. \<not> url_noise c" "\<forall>c\<in>set s. \<not> of_char c \<le> (32 :: nat)"
proof -
  have "\<forall>c\<in>set scheme_chars. c \<noteq> CHR '':'' \<and> \<not> url_noise c \<and> \<not> of_char c \<le> (32 :: nat)"
    by code_simp
  with assms show "CHR '':'' \<notin> set s" "\<forall>c\<in>set s. \<not> url_noise c" "\<forall>c\<in>set s. \<not> of_char c \<le> (32 :: nat)"
    by (auto simp: list_all_iff)
qed

lemma partition_here: "c \<notin> set a \<Longrightarrow> str_partition c (a @ c # b) = (a, True, b)"
  by (induction a) (auto simp: str_partition_def)

lemma partition_absent: "c \<notin> set a \<Longrightarrow> str_partition c a = (a, False, [])"
  by (induction a) (auto simp: str_partition_def)

lemma urlsplit_plain:
  assumes "plain_url pre s n p"
  shows "urlsplit (pre @ s @ ''://'' @ n @ p) =
     (if netloc_ok n
      then Inr \<lparr>up_scheme = py_lower s, up_netloc = n, up_path = p, up_query = [], up_fragment = []\<rparr>
      else Inl (ValueError ''Invalid IPv6 URL''))"
proof -
  note parts = assms[unfolded plain_url_def]
  have s: "s \<noteq> []" "hd s \<in> set (lower_letters @ upper_letters)" "list_all (\<lambda>c. c \<in> set scheme_chars) s"
    using parts by auto
  note sc = scheme_char_facts[OF s(3)]
  have "dropWhile (\<lambda>c. of_char c \<le> (32::nat)) (pre @ s @ ''://'' @ n @ p) = s @ ''://'' @ n @ p"
    using parts sc(3) s(1) by (cases s) (auto simp: list_all_iff dropWhile_append)
  moreover have "filter (\<lambda>c. of_char c \<notin> {9, 10, 13 :: nat}) (s @ ''://'' @ n @ p) = s @ ''://'' @ n @ p"
    using parts sc(2) by (auto simp: list_all_iff url_noise_def filter_id_conv)
  ultimately have url1: "filter (\<lambda>c. of_char c \<notin> {9, 10, 13 :: nat})
      (dropWhile (\<lambda>c. of_char c \<le> (32::nat)) (pre @ s @ ''://'' @ n @ p)) = s @ CHR '':'' # ''//'' @ n @ p"
    by simp
  have scheme: "split_scheme (s @ CHR '':'' # ''//'' @ n @ p) = (py_lower s, ''//'' @ n @ p)"
    using s by (simp add: split_scheme_def partition_here[OF sc(1)])
  have net: "takeWhile (\<lambda>c. c \<notin> set ''/?#'') (n @ p) = n" "dropWhile (\<lambda>c. c \<notin> set ''/?#'') (n @ p) = p"
    using parts by (cases p; auto simp: list_all_iff url_stop_def takeWhile_append2 dropWhile_append2
        takeWhile_eq_all_conv)+
  have path: "str_partition (CHR ''#'') p = (p, False, [])" "str_partition (CHR ''?'') p = (p, False, [])"
    using parts by (auto simp: list_all_iff intro!: partition_absent)
  show ?thesis
    unfolding urlsplit_def Let_def url1 scheme
    using net path by (auto simp: netloc_ok_def simp del: takeWhile.simps dropWhile.simps)
qed

lemma split_scheme_shape:
  assumes "split_scheme url = (scheme, rest)" "scheme \<noteq> []"
  shows "\<exists>s. url = s @ CHR '':'' # rest \<and> scheme = py_lower s \<and> s \<noteq> [] \<and>
     hd s \<in> set (lower_letters @ upper_letters) \<and> list_all (\<lambda>c. c \<in> set scheme_chars) s"
proof -
  have "CHR '':'' \<in> set url"
    using assms by (auto simp: split_scheme_def str_partition_def split: if_splits)
  then obtain s t where url: "url = s @ CHR '':'' # t" "CHR '':'' \<notin> set s"
    by (meson split_list_first)
  from assms show ?thesis
    unfolding url(1) split_scheme_def partition_here[OF url(2)]
    by (intro exI[of _ s]) (simp split: if_splits)
qed

lemma plain_origin_shape:
  assumes "urlsplit origin = Inr u" "origin_is_plain origin u"
  shows "\<exists>pre s n p. origin = pre @ s @ ''://'' @ n @ p \<and> plain_url pre s n p \<and> netloc_ok n \<and>
     p \<in> {[], ''/''} \<and> n \<noteq> [] \<and> up_scheme u = py_lower s \<and> up_netloc u = n"
proof -
  let ?ctl = "\<lambda>c. of_char c \<le> (32 :: nat)" and ?stop = "\<lambda>c. c \<notin> set ''/?#''"
  define url1 where "url1 = dropWhile ?ctl origin"
  obtain scheme url2 where split: "split_scheme url1 = (scheme, url2)" by fastforce
  define net where "net = (if starts_with ''//'' url2 then takeWhile ?stop (drop 2 url2) else [])"
  define url3 where "url3 = (if starts_with ''//'' url2 then dropWhile ?stop (drop 2 url2) else url2)"
  have plain: "\<not> list_ex py_isspace origin" "CHR ''?'' \<notin> set origin" "CHR ''#'' \<notin> set origin"
    "url_hostname u \<noteq> None" "up_scheme u \<in> {''http'', ''https''}" "up_path u \<in> {[], ''/''}"
    using assms(2) contains_char by (auto simp: origin_is_plain_def)
  have quiet: "\<forall>c\<in>set origin. \<not> url_noise c"
    using plain(1) by (auto simp: list_ex_iff py_isspace_def url_noise_def)
  have sub: "set url1 \<subseteq> set origin" by (auto simp: url1_def dest: set_dropWhileD)
  have noise: "filter (\<lambda>c. of_char c \<notin> {9, 10, 13 :: nat}) (dropWhile ?ctl origin) = url1"
    using quiet sub by (auto simp: url1_def url_noise_def filter_id_conv)
  have sub2: "set url2 \<subseteq> set url1"
    using split by (auto simp: split_scheme_def str_partition_def split: if_splits dest!: in_set_dropD set_dropWhileD)
  have sub3: "set url3 \<subseteq> set origin"
    using sub sub2 by (auto simp: url3_def split: if_splits dest!: set_dropWhileD in_set_dropD)
  have path: "str_partition (CHR ''#'') url3 = (url3, False, [])" "str_partition (CHR ''?'') url3 = (url3, False, [])"
    using plain(2,3) sub3 by (auto intro!: partition_absent)
  have u: "u = \<lparr>up_scheme = scheme, up_netloc = net, up_path = url3, up_query = [], up_fragment = []\<rparr>"
    and ok: "netloc_ok net"
    using assms(1)
    unfolding urlsplit_def Let_def noise split prod.case net_def[symmetric] url3_def[symmetric] path
    by (simp_all add: netloc_ok_def split: if_splits)
  have "net \<noteq> []"
    using plain(4) by (auto simp: u url_hostname_def hostinfo_def str_rpartition_def str_partition_def Let_def)
  then have slashes: "starts_with ''//'' url2" by (auto simp: net_def split: if_splits)
  then have url2: "url2 = ''//'' @ net @ url3"
    by (auto simp: net_def url3_def starts_with_iff)
  have "scheme \<noteq> []" using plain(5) by (auto simp: u)
  from split_scheme_shape[OF split this] obtain s where s: "url1 = s @ CHR '':'' # url2"
      "scheme = py_lower s" "s \<noteq> []" "hd s \<in> set (lower_letters @ upper_letters)"
      "list_all (\<lambda>c. c \<in> set scheme_chars) s"
    by blast
  have "takeWhile ?ctl origin @ url1 = origin" by (simp add: url1_def)
  then have "takeWhile ?ctl origin @ s @ ''://'' @ net @ url3 = origin" by (simp add: s(1) url2)
  note shape = this[symmetric]
  have p3: "url3 \<in> {[], ''/''}" using plain(6) by (simp add: u)
  have "set net \<subseteq> set origin" using sub sub2 by (auto simp: url2)
  moreover have "\<forall>c\<in>set net. \<not> url_stop c"
    by (auto simp: net_def url_stop_def dest: set_takeWhileD)
  ultimately have n: "list_all (\<lambda>c. \<not> url_stop c \<and> \<not> url_noise c) net"
    using quiet by (auto simp: list_all_iff)
  have ctl: "list_all ?ctl (takeWhile ?ctl origin)"
    by (auto simp: list_all_iff dest: set_takeWhileD)
  have "list_all (\<lambda>c. c \<notin> set ''?#'' \<and> \<not> url_noise c) url3"
    using p3 by (auto simp: url_noise_def)
  then have pl: "plain_url (takeWhile ?ctl origin) s net url3"
    unfolding plain_url_def using ctl n s(3-5) p3 by auto
  have rest: "up_scheme u = py_lower s" "up_netloc u = net" "url3 \<in> {[], ''/''}"
    using p3 s(2) by (simp_all add: u)
  show ?thesis
    by (rule exI[of _ "takeWhile ?ctl origin"], rule exI[of _ s], rule exI[of _ net], rule exI[of _ url3])
       (rule conjI[OF shape conjI[OF pl conjI[OF ok conjI[OF rest(3) conjI[OF \<open>net \<noteq> []\<close>
          conjI[OF rest(1,2)]]]]]])
qed


section \<open>Launches stay on the origin\<close>

lemma rstrip_slash:
  assumes "list_all (\<lambda>c. \<not> url_stop c \<and> \<not> url_noise c) n" "n \<noteq> []" "p \<in> {[], ''/''}"
  shows "rstrip_char (CHR ''/'') (xs @ n @ p) = xs @ n"
proof -
  obtain m c where n: "n = m @ [c]" using assms(2) by (cases n rule: rev_cases) auto
  with assms(1) have "c \<noteq> CHR ''/''" by (auto simp: url_stop_def)
  with assms(3) n show ?thesis by (auto simp: rstrip_char_def)
qed

lemma path_chars_plain:
  "set p \<subseteq> set (upper_letters @ lower_letters @ digits @ ''_./{}-'') \<Longrightarrow>
     list_all (\<lambda>c. c \<notin> set ''?#'' \<and> \<not> url_noise c) p"
proof -
  have "list_all (\<lambda>c. c \<notin> set ''?#'' \<and> \<not> url_noise c)
      (upper_letters @ lower_letters @ digits @ ''_./{}-'')"
    by code_simp
  then show "set p \<subseteq> set (upper_letters @ lower_letters @ digits @ ''_./{}-'') \<Longrightarrow> ?thesis"
    by (auto simp: list_all_iff)
qed

lemma entry_url_split:
  assumes "check_registration r = Inr u" "t \<in> set (ar_tenants r)" "(n, e) \<in> set (ar_entry_points r)"
    and "urlsplit (ar_origin r) = Inr org"
  shows "urlsplit (entry_url r t (en_path_template e)) =
     Inr (org\<lparr>up_path := tenant_path t (en_path_template e), up_query := [], up_fragment := []\<rparr>)"
proof -
  have plain: "origin_is_plain (ar_origin r) org"
    using registration_facts(3)[OF assms(1)] assms(4) by auto
  from plain_origin_shape[OF assms(4) plain] obtain pre s net p where
    o: "ar_origin r = pre @ s @ ''://'' @ net @ p" and pu: "plain_url pre s net p" and ok: "netloc_ok net"
    and p: "p \<in> {[], ''/''}" "net \<noteq> []" and org: "up_scheme org = py_lower s" "up_netloc org = net"
    by blast
  let ?path = "tenant_path t (en_path_template e)"
  note safe = registered_path_safe[OF assms(1-3)]
  have new: "plain_url pre s net ?path"
    using pu path_chars_plain[OF safe(4)] safe(1) by (auto simp: plain_url_def starts_single)
  have url: "entry_url r t (en_path_template e) = pre @ s @ ''://'' @ net @ ?path"
    using pu rstrip_slash[of net p "pre @ s @ ''://''"] p
    by (simp add: entry_url_def o plain_url_def)
  show ?thesis
    unfolding url urlsplit_plain[OF new] using ok org by (cases org) simp
qed

text \<open>
  A launch never leaves the registered origin. For an accepted registration the URL of a launch,
  and of every entry point listed with it, has the scheme and the network location of the origin,
  no query and no fragment, and a path without empty or parent segments.
\<close>

theorem launch_stays_on_origin:
  assumes "check_registration r = Inr u" "resolve_launch r t entry = Inr l"
    and "url = sl_url l \<or> url \<in> snd ` set (sl_entry_points l)"
  shows "\<exists>org v. urlsplit (ar_origin r) = Inr org \<and> urlsplit url = Inr v \<and>
     up_scheme v = up_scheme org \<and> up_netloc v = up_netloc org \<and> up_query v = [] \<and> up_fragment v = [] \<and>
     starts_with ''/'' (up_path v) \<and> \<not> contains_str ''//'' (up_path v) \<and> \<not> contains_str ''..'' (up_path v)"
proof -
  from assms(2) obtain e where t: "t \<in> set (ar_tenants r)" and e: "(entry, e) \<in> set (ar_entry_points r)"
    and l: "sl_url l = entry_url r t (en_path_template e)"
      "sl_entry_points l = map (\<lambda>(n, e). (n, entry_url r t (en_path_template e))) (ar_entry_points r)"
    by (auto simp: resolve_launch_def Let_def entry_url_def split: option.splits if_splits dest: map_of_SomeD)
  from assms(3) e l obtain n x where x: "(n, x) \<in> set (ar_entry_points r)"
    and url: "url = entry_url r t (en_path_template x)"
    by auto
  obtain org where org: "urlsplit (ar_origin r) = Inr org"
    using registration_facts(3)[OF assms(1)] by blast
  show ?thesis
    using entry_url_split[OF assms(1) t x org] registered_path_safe(1-3)[OF assms(1) t x]
    by (intro exI[of _ org] exI[of _ "org\<lparr>up_path := tenant_path t (en_path_template x),
          up_query := [], up_fragment := []\<rparr>"]) (simp add: org url)
qed

theorem launch_stays_on_origin_witness:
  "\<exists>v. urlsplit ''http://localhost/t/acme/home'' = Inr v \<and>
     (\<exists>org. urlsplit (ar_origin sample_registration) = Inr org \<and> up_netloc v = up_netloc org)"
proof -
  obtain l where l: "resolve_launch sample_registration ''acme'' ''home'' = Inr l"
      "sl_url l = ''http://localhost/t/acme/home''"
    using sample_launch_url by (auto simp: launch_url_of_def split: sum.splits)
  from launch_stays_on_origin[OF sample_registered l(1) disjI1[OF refl]] l(2) show ?thesis by auto
qed

section \<open>Compatible artifacts\<close>

text \<open>
  A compatible artifact only navigates to registered locations. When a parsed artifact passes the
  compatibility check for a tenant, the launch of its entry point exists, offers the surface and
  contract the artifact was recorded on, and lists a location for every entry point that any of its
  steps navigates to.
\<close>

theorem compatible_artifact_can_navigate:
  assumes "check_artifact compiles a = Inr ()" "validate_application_compatibility reg a t = Inr ()"
  shows "\<exists>l. resolve_application reg (cm_application_family (art_capability a)) t
                (co_entry_point (art_compatibility a)) = Inr l \<and>
     sl_surface l = cm_surface (art_capability a) \<and>
     sl_surface_contract l = co_surface_contract (art_compatibility a) \<and>
     sl_rendered_surface l = co_rendered_surface (art_compatibility a) \<and>
     (\<forall>s\<in>set (all_steps a). \<forall>e. st_action s = NavigateAction e \<longrightarrow>
        (\<exists>url. map_of (sl_entry_points l) e = Some url))"
proof -
  from assms(2) obtain r l where l: "get_application reg (cm_application_family (art_capability a)) = Inr r"
      "resolve_launch r t (co_entry_point (art_compatibility a)) = Inr l"
    and same: "sl_surface l = cm_surface (art_capability a)"
      "sl_surface_contract l = co_surface_contract (art_compatibility a)"
      "sl_rendered_surface l = co_rendered_surface (art_compatibility a)"
    and sub: "set (cy_entry_points (art_policy a)) \<subseteq> fst ` set (ar_entry_points r)"
    by (auto simp: validate_application_compatibility_def bind_r_Inr_iff split: sum.splits prod.splits if_splits)
  have "map fst (sl_entry_points l) = map fst (ar_entry_points r)"
    using l(2) by (auto simp: resolve_launch_def Let_def comp_def case_prod_beta split: option.splits if_splits)
  then have "fst ` set (sl_entry_points l) = fst ` set (ar_entry_points r)" by (metis set_map)
  then have "e \<in> set (cy_entry_points (art_policy a)) \<Longrightarrow> \<exists>url. map_of (sl_entry_points l) e = Some url" for e
    using sub by (metis domD dom_map_of_conv_image_fst subsetD)
  moreover have "e \<in> set (cy_entry_points (art_policy a))"
    if "s \<in> set (all_steps a)" "st_action s = NavigateAction e" for s e
    using check_step_links_facts(4)[OF _ that(2), of a]
      validate_semantics_facts(11)[OF check_artifact_semantics[OF assms(1)]] that(1)
    by blast
  ultimately show ?thesis
    using l same by (intro exI[of _ l]) (auto simp: resolve_application_def)
qed

theorem compatible_artifact_can_navigate_witness:
  "\<exists>l url. resolve_application [(''billing'', sample_registration)] ''billing'' ''acme'' ''home'' = Inr l \<and>
     map_of (sl_entry_points l) ''home'' = Some url"
proof -
  have step: "sample_open \<in> set (all_steps sample_artifact)" "st_action sample_open = NavigateAction ''home''"
    by (simp_all add: all_steps_def sample_artifact_def sample_open_def sample_step_def)
  have names: "cm_application_family (art_capability sample_artifact) = ''billing''"
    "co_entry_point (art_compatibility sample_artifact) = ''home''"
    by (simp_all add: sample_artifact_def)
  from compatible_artifact_can_navigate[OF sample_artifact_ok sample_compatible] step
  show ?thesis by (auto simp: names)
qed

section \<open>The two route matchers\<close>

lemma split_hd_empty: "hd (split_on c m) = [] \<longleftrightarrow> m = [] \<or> hd m = c"
  by (cases m) (auto split: list.splits)

lemma split_tl_nonempty:
  "\<not> contains_str [c, c] m \<Longrightarrow> m = [] \<or> last m \<noteq> c \<Longrightarrow> w \<in> set (tl (split_on c m)) \<Longrightarrow> w \<noteq> []"
proof (induction m)
  case (Cons x m)
  have rest: "\<not> contains_str [c, c] m" "m = [] \<or> last m \<noteq> c"
    using Cons.prems(1,2) by (auto simp: doubled_Cons simp del: contains_str.simps)
  show ?case
  proof (cases "x = c")
    case True
    with Cons.prems(1,2) have m: "m \<noteq> []" "hd m \<noteq> c"
      by (auto simp: doubled_Cons starts_single simp del: contains_str.simps split: if_splits)
    from True Cons.prems(3) have "w = hd (split_on c m) \<or> w \<in> set (tl (split_on c m))"
      by (cases "split_on c m") auto
    moreover have "hd (split_on c m) \<noteq> []" using m by (simp add: split_hd_empty)
    ultimately show ?thesis using Cons.IH[OF rest] by metis
  next
    case False
    with Cons.prems(3) have "w \<in> set (tl (split_on c m))" by (auto split: list.splits)
    then show ?thesis by (rule Cons.IH[OF rest])
  qed
qed simp

lemma split_no_sep: "w \<in> set (split_on c m) \<Longrightarrow> c \<notin> set w"
  by (induction m arbitrary: w) (auto split: if_splits list.splits)

text \<open>The parts of a safe path, and the path as their joining.\<close>

definition path_part :: "string \<Rightarrow> bool" where
  "path_part w = (w \<noteq> [] \<and> CHR ''/'' \<notin> set w)"

lemma safe_path_shape:
  assumes "starts_with ''/'' p" "\<not> contains_str ''//'' p"
  shows "list_all path_part (route_parts p) \<and>
     (\<exists>e. drop 1 p = join_with ''/'' (route_parts p) @ e \<and> e \<in> {[], ''/''} \<and>
        (route_parts p = [] \<longrightarrow> e = []))"
proof -
  obtain q where p: "p = CHR ''/'' # q" using assms(1) by (cases p) auto
  show ?thesis
  proof (cases "q = []")
    case True
    then show ?thesis by (simp add: p route_parts_def)
  next
    case False
    have q: "hd q \<noteq> CHR ''/''" "\<not> contains_str ''//'' q"
      using assms(2) False by (auto simp: p doubled_Cons starts_single simp del: contains_str.simps)
    have front: "dropWhile (\<lambda>x. x = CHR ''/'') q = q" using q(1) False by (cases q) auto
    obtain m e where m: "q = m @ e" "e \<in> {[], ''/''}" "m \<noteq> []" "last m \<noteq> CHR ''/''"
        "rev (dropWhile (\<lambda>x. x = CHR ''/'') (rev q)) = m"
    proof (cases "last q = CHR ''/''")
      case False
      then show ?thesis using that[of q "[]"] \<open>q \<noteq> []\<close>
        by (cases q rule: rev_cases) auto
    next
      case True
      define b where "b = butlast q"
      have q': "q = b @ ''/''" using True append_butlast_last_id[OF \<open>q \<noteq> []\<close>] by (simp add: b_def)
      have b: "b \<noteq> []" using q(1) q' by (cases b) auto
      have "contains_str ''//'' (xs @ [CHR ''/'', CHR ''/''])" for xs :: string
        by (induction xs) (auto simp: starts_with_iff)
      then have "last b \<noteq> CHR ''/''"
        using q(2) q' b append_butlast_last_id[OF b] by (metis append.assoc append_Cons append_Nil)
      then show ?thesis using that[of b "''/''"] q' b
        by (cases b rule: rev_cases) auto
    qed
    have parts: "route_parts p = split_on (CHR ''/'') m"
      using \<open>q \<noteq> []\<close> m(5) by (simp add: route_parts_def p strip_char_def front)
    have clean: "\<not> contains_str ''//'' m"
    proof -
      have "contains_str ''//'' m \<Longrightarrow> contains_str ''//'' (m @ e)" by (induction m) (auto simp: starts_with_iff)
      with q(2) m(1) show ?thesis by blast
    qed
    have hd: "hd m \<noteq> CHR ''/''" using q(1) m(1,3) by (cases m) auto
    have "path_part w" if "w \<in> set (split_on (CHR ''/'') m)" for w
    proof -
      from that have "w = hd (split_on (CHR ''/'') m) \<or> w \<in> set (tl (split_on (CHR ''/'') m))"
        by (cases "split_on (CHR ''/'') m") auto
      then have "w \<noteq> []"
      proof
        assume "w = hd (split_on (CHR ''/'') m)"
        then show ?thesis using hd m(3) by (simp add: split_hd_empty)
      next
        assume "w \<in> set (tl (split_on (CHR ''/'') m))"
        then show ?thesis by (rule split_tl_nonempty[OF clean disjI2[OF m(4)]])
      qed
      with split_no_sep[OF that] show ?thesis by (simp add: path_part_def)
    qed
    moreover have "drop 1 p = join_with ''/'' (split_on (CHR ''/'') m) @ e" by (simp add: p m(1))
    ultimately show ?thesis
      unfolding parts list_all_iff using m(2) by (intro conjI exI[of _ e]) simp_all
  qed
qed

lemma consume_matching:
  assumes "path_part r" "path_part p" "p \<noteq> '':''" "y = [] \<or> hd y = CHR ''/''"
  shows "part_matches r p \<Longrightarrow> consume_part (route_part_of p) (r @ y) = Some y"
    and "\<not> part_matches r p \<Longrightarrow> consume_part (route_part_of p) (r @ y) = None \<or>
      (\<exists>d ds. consume_part (route_part_of p) (r @ y) = Some (d # ds) \<and> d \<noteq> CHR ''/'')"
proof -
  have r: "r \<noteq> []" "\<forall>c\<in>set r. c \<noteq> CHR ''/''" and pp: "p \<noteq> []" "\<forall>c\<in>set p. c \<noteq> CHR ''/''"
    using assms(1,2) by (auto simp: path_part_def)
  have take: "takeWhile (\<lambda>c. c \<noteq> CHR ''/'') (r @ y) = r" "dropWhile (\<lambda>c. c \<noteq> CHR ''/'') (r @ y) = y"
    using r assms(4) by (cases y; auto simp: takeWhile_append2 dropWhile_append2 takeWhile_eq_all_conv)+
  have any: "route_part_of p = AnySegment \<longleftrightarrow> p = ''*'' \<or> starts_with '':'' p"
    using assms(3) by (cases p; cases "tl p") (auto simp: route_part_of_def)
  have lit: "route_part_of p \<noteq> AnySegment \<Longrightarrow> route_part_of p = Literal p"
    by (simp add: route_part_of_def split: if_splits)
  show "part_matches r p \<Longrightarrow> consume_part (route_part_of p) (r @ y) = Some y"
    using any lit take r(1) by (cases "route_part_of p = AnySegment") (auto simp: part_matches_def starts_with_iff)
  assume no: "\<not> part_matches r p"
  then have l: "route_part_of p = Literal p" "p \<noteq> r" using any lit by (auto simp: part_matches_def)
  show "consume_part (route_part_of p) (r @ y) = None \<or>
      (\<exists>d ds. consume_part (route_part_of p) (r @ y) = Some (d # ds) \<and> d \<noteq> CHR ''/'')"
  proof (cases "starts_with p (r @ y)")
    case True
    then obtain t where t: "r @ y = p @ t" by (auto simp: starts_with_iff)
    then obtain us where split: "r = p @ us \<and> us @ y = t \<or> r @ us = p \<and> y = us @ t"
      by (auto simp: append_eq_append_conv2)
    have "\<not> (r @ us = p \<and> y = us @ t)"
    proof
      assume other: "r @ us = p \<and> y = us @ t"
      show False
      proof (cases us)
        case Nil
        with other l(2) show False by simp
      next
        case (Cons u vs)
        with other assms(4) have "u = CHR ''/''" by simp
        moreover have "u \<in> set p" using other Cons by auto
        ultimately show False using pp(2) by blast
      qed
    qed
    with split have "r = p @ us \<and> us @ y = t" by blast
    note us = this
    with l(2) have "us \<noteq> []" by auto
    then obtain d ds where d: "us = d # ds" by (cases us) auto
    with us r(2) have "d \<noteq> CHR ''/''" by simp
    moreover have "consume_part (route_part_of p) (r @ y) = Some (d # ds @ y)"
      using t us d True by (simp add: l(1))
    ultimately show ?thesis by blast
  qed (simp add: l(1))
qed

lemma match_parts_join:
  assumes "list_all path_part rs" "list_all path_part ps" "'':'' \<notin> set ps"
    and "e \<in> {[], ''/''}" "rs = [] \<longrightarrow> e = []"
  shows "match_parts (map route_part_of ps) (join_with ''/'' rs @ e) = list_all2 part_matches rs ps"
  using assms
proof (induction ps arbitrary: rs e)
  case Nil
  then show ?case by (cases rs; cases "tl rs") (auto simp: path_part_def Cons_eq_append_conv append_eq_Cons_conv)
next
  case (Cons p ps)
  show ?case
  proof (cases rs)
    case Nil
    have "consume_part (route_part_of p) [] = None"
      using Cons.prems(2) by (cases p) (auto simp: route_part_of_def path_part_def)
    with Nil Cons.prems show ?thesis by (cases ps) auto
  next
    case (Cons r rest)
    note rs = this
    define y where "y = (if rest = [] then e else CHR ''/'' # join_with ''/'' rest @ e)"
    have join: "join_with ''/'' (r # rest) @ e = r @ y" by (cases rest) (auto simp: y_def)
    have y: "y = [] \<or> hd y = CHR ''/''" using Cons.prems(4) by (auto simp: y_def)
    have parts: "path_part r" "path_part p" "p \<noteq> '':''" "list_all path_part rest"
        "list_all path_part ps" "'':'' \<notin> set ps"
      using Cons.prems(1-3) rs by auto
    note consume = consume_matching[OF parts(1-3) y]
    have IH: "match_parts (map route_part_of ps) (join_with ''/'' rest @ (if rest = [] then [] else e)) =
        list_all2 part_matches rest ps"
      using Cons.prems(4) by (intro Cons.IH parts) auto
    have ends: "y = [] \<or> y = ''/'' \<longleftrightarrow> rest = []"
      using Cons.prems(4) parts(4)
      by (cases rest; cases "tl rest") (auto simp: y_def path_part_def)
    show ?thesis
    proof (cases "part_matches r p")
      case True
      show ?thesis
      proof (cases ps)
        case Nil
        with consume(1)[OF True] ends show ?thesis by (simp add: join rs True)
      next
        case (Cons q qs)
        have "(case y of [] \<Rightarrow> False | c # cs \<Rightarrow> c = CHR ''/'' \<and> match_parts (map route_part_of ps) cs) =
            list_all2 part_matches rest ps"
          using IH y \<open>e \<in> {[], ''/''}\<close> Cons by (cases "rest = []") (auto simp: y_def)
        then have "(case y of [] \<Rightarrow> False | c # cs \<Rightarrow> c = CHR ''/'' \<and>
            match_parts (route_part_of q # map route_part_of qs) cs) = list_all2 part_matches rest ps"
          by (simp only: Cons list.map)
        with consume(1)[OF True] show ?thesis by (simp add: join rs True Cons)
      qed
    next
      case False
      from consume(2)[OF False] show ?thesis
        by (cases ps) (auto simp: join rs False)
    qed
  qed
qed

lemma route_matchers_same:
  assumes "\<not> contains_str ''//'' route"
    and "starts_with ''/'' pattern" "\<not> contains_str ''//'' pattern" "'':'' \<notin> set (route_parts pattern)"
  shows "application_route_matches route pattern = policy_route_matches route pattern"
proof (cases "starts_with ''/'' route")
  case True
  from safe_path_shape[OF True assms(1)] obtain e where r: "list_all path_part (route_parts route)"
    "drop 1 route = join_with ''/'' (route_parts route) @ e" "e \<in> {[], ''/''}"
    "route_parts route = [] \<longrightarrow> e = []"
    by blast
  have p: "list_all path_part (route_parts pattern)" using safe_path_shape[OF assms(2,3)] by blast
  have "pattern_segments pattern = route_parts pattern"
    by (simp add: pattern_segments_def route_parts_def)
  then show ?thesis
    using match_parts_join[OF r(1) p assms(4) r(3,4)] r(2)
    by (simp add: application_route_matches_def policy_route_matches_def)
qed (simp add: application_route_matches_def policy_route_matches_def)

text \<open>
  The two route matchers of the program agree. On absolute routes and patterns without empty
  segments, matching a route as the application registry does and as the policy evaluator does
  give the same answer, unless a segment of the pattern is a bare colon.
\<close>

theorem route_matchers_agree:
  assumes "\<not> contains_str ''//'' route"
    and "starts_with ''/'' pattern" "\<not> contains_str ''//'' pattern" "'':'' \<notin> set (route_parts pattern)"
  shows "application_route_matches route pattern = policy_route_matches route pattern"
  by (rule route_matchers_same[OF assms])

theorem route_matchers_agree_witness:
  "policy_route_matches ''/accounts/7/'' ''/accounts/:id''"
proof -
  have "\<not> contains_str ''//'' ''/accounts/7/''" "starts_with ''/'' ''/accounts/:id''"
    "\<not> contains_str ''//'' ''/accounts/:id''" "'':'' \<notin> set (route_parts ''/accounts/:id'')"
    "application_route_matches ''/accounts/7/'' ''/accounts/:id''"
    by code_simp+
  with route_matchers_agree show ?thesis by blast
qed

section \<open>Landmarks\<close>

text \<open>
  An empty landmark text makes an application unreachable. Registrations accept it, but the
  readiness check of the entry surface raises a value error on it in every state, before anything
  of the surface is read, and that is not one of the surface errors a launch reports.
\<close>

theorem empty_landmark_is_never_ready:
  assumes "sl_required_landmarks l = x # xs" "lm_value x = []"
  shows "validate_rendered_readiness waits shows_now l s = (Inl (ValueError field_error), s)"
  using assms
  by (simp add: validate_rendered_readiness_def readiness_checks_def readiness_condition_def
      bounded_text_def comp_defs)

theorem empty_landmark_is_never_ready_witness:
  "validate_rendered_readiness (\<lambda>c s. (Inr True, s)) (\<lambda>c s. (Inr True, s)) blank_launch (0 :: nat) =
     (Inl (ValueError field_error), 0)"
  by (rule empty_landmark_is_never_ready[of _ "\<lparr>lm_kind = LM_HEADING, lm_value = []\<rparr>" "[]"])
     (simp_all add: blank_launch_def)

end
