(* ===== verification/HumanControl.thy ===== *)
theory HumanControl
  imports HandoffMachine ReplayRun
begin

text \<open>
  Human control of a live session (\<^verbatim>\<open>runtime/composition.py\<close>: the classes
  \<open>LiveBrowserSession\<close>, \<open>ManagedReplayExecutor\<close> and \<open>RuntimeInterventionService\<close>). An operator
  who holds an intervention sees frames of the live session and sends inputs to it, and the
  service resumes, reopens or terminates the run. The coordinator is the one of the hand-off and
  the engine of a run is the modelled replay engine, whose surface, recorder and clock are an
  environment for each run; the driver, the journal, the discovery engine and the finalizer answer
  as functions of what was done so far. The operations run one after the other; the feeds of the
  viewer are left out.
\<close>

section \<open>State\<close>

text \<open>What is done outside the service; \<open>Recorded\<close> is a call of the journal.\<close>

datatype control_event =
    Recorded string string "audit_value dict"
  | Captured string
  | Dispatched string human_input_command
  | ReplayValidated string
  | DiscoveryValidated string
  | ReplayResumed string int
  | DiscoveryResumed string int
  | ResultFinalized
  | DriverClosed string
  | DiscoveryCancelled string

text \<open>A live session; its driver is named by the run that opened it.\<close>

record live_session =
  lv_driver :: string
  lv_frame_sequence :: int
  lv_latest :: "intervention_frame option"
  lv_client :: int

definition new_live_session :: "string \<Rightarrow> live_session" where
  "new_live_session run =
     \<lparr>lv_driver = run, lv_frame_sequence = 0, lv_latest = None, lv_client = 0\<rparr>"

text \<open>
  The state of the service; \<open>ct_engines\<close> holds the state of each run's replay engine between the
  calls on it, under the identifier of the run, but for the leases and interventions, which all
  share.
\<close>

record control =
  ct_store :: handoff_store
  ct_live :: "live_session dict"
  ct_journals :: "string list"
  ct_continuations :: "continuation dict"
  ct_engines :: "run_state dict"
  ct_waits :: "string list"
  ct_history :: "control_event list"
  ct_tick :: nat

type_synonym 'a ctl = "(control, 'a) comp"

record control_env =
  ce_ttl :: int
  ce_clock :: "nat \<Rightarrow> int"
  ce_record :: "control_event list \<Rightarrow> unit result"
  ce_frame :: "control_event list \<Rightarrow> surface_frame result"
  ce_input :: "control_event list \<Rightarrow> unit result"
  ce_engine :: "string \<Rightarrow> environment"
  ce_validate_discovery :: "control_event list \<Rightarrow> unit result"
  ce_finalize :: "control_event list \<Rightarrow> run_result \<Rightarrow> run_result result"
  ce_close :: "control_event list \<Rightarrow> unit result"
  ce_manifest_key :: "control_event list \<Rightarrow> string \<Rightarrow> string"
  ce_store_json :: "json_object \<Rightarrow> json_object result"

text \<open>A call outside: it is noted, and answers from what was done before.\<close>

definition effect :: "control_event \<Rightarrow> (control_event list \<Rightarrow> 'a result) \<Rightarrow> 'a ctl" where
  "effect ev answer =
     bind_c (gets (\<lambda>s. answer (ct_history s))) (\<lambda>r.
     then_c (update (\<lambda>s. s\<lparr>ct_history := ct_history s @ [ev]\<rparr>)) (lift_c r))"

definition audit_event :: "control_env \<Rightarrow> string \<Rightarrow> string \<Rightarrow> audit_value dict \<Rightarrow> unit ctl" where
  "audit_event E event_type run details = effect (Recorded event_type run details) (ce_record E)"

definition read_time :: "control_env \<Rightarrow> int ctl" where
  "read_time E =
     bind_c (gets (\<lambda>s. ce_clock E (ct_tick s))) (\<lambda>t.
     then_c (update (\<lambda>s. s\<lparr>ct_tick := ct_tick s + 1\<rparr>)) (ret t))"

definition put_session :: "string \<Rightarrow> live_session \<Rightarrow> unit ctl" where
  "put_session iid x = update (\<lambda>s. s\<lparr>ct_live := dict_set iid x (ct_live s)\<rparr>)"

definition dict_pop :: "string \<Rightarrow> 'v dict \<Rightarrow> 'v dict" where
  "dict_pop k d = [(k', v) \<leftarrow> d. k' \<noteq> k]"

definition drop_session :: "string \<Rightarrow> unit ctl" where
  "drop_session iid = update (\<lambda>s. s\<lparr>ct_live := dict_pop iid (ct_live s)\<rparr>)"

section \<open>The replay engine of a run\<close>

text \<open>
  The engines of \<open>executor_factory\<close> share one lease service, and their continuation sink puts the
  continuation into the service's dictionary.
\<close>

definition engine_of :: "control_env \<Rightarrow> string \<Rightarrow> environment" where
  "engine_of E run =
     (ce_engine E run)\<lparr>ev_ttl := ce_ttl E, ev_has_sink := True, ev_retain := (\<lambda>h c. Inr ())\<rparr>"

definition engine_state :: "control \<Rightarrow> string \<Rightarrow> run_state" where
  "engine_state s run =
     (case dict_get (ct_engines s) run of
        None \<Rightarrow> \<lparr>rs_history = [], rs_store = ct_store s, rs_outputs = [], rs_uses = [],
                 rs_pauses = [], rs_session = None, rs_preserve = False\<rparr>
      | Some x \<Rightarrow> x\<lparr>rs_store := ct_store s\<rparr>)"

definition retain_event :: "event \<Rightarrow> continuation dict \<Rightarrow> continuation dict" where
  "retain_event e d =
     (case e of EvRetain c (Inr u) \<Rightarrow> dict_set (cn_intervention c) c d | _ \<Rightarrow> d)"

text \<open>A call on the engine of a run; what its sink was given meanwhile is in the history.\<close>

definition call_engine :: "control_env \<Rightarrow> string \<Rightarrow> (environment \<Rightarrow> 'a run) \<Rightarrow> 'a ctl" where
  "call_engine E run m =
     (\<lambda>s. let x = engine_state s run; (r, t) = m (engine_of E run) x;
              events = take (length (rs_history t) - length (rs_history x)) (rs_history t)
          in (r, s\<lparr>ct_store := rs_store t, ct_engines := dict_set run t (ct_engines s),
                   ct_continuations := foldr retain_event events (ct_continuations s)\<rparr>))"

text \<open>The result of an engine; that it never runs out of fuel is a theorem.\<close>

definition returned :: "run_result option \<Rightarrow> run_result ctl" where
  "returned x = (case x of None \<Rightarrow> raise (RuntimeError ''no result'') | Some r \<Rightarrow> ret r)"

section \<open>The live session\<close>

definition capture_frame :: "control_env \<Rightarrow> string \<Rightarrow> live_session \<Rightarrow> intervention_frame ctl" where
  "capture_frame E iid x =
     bind_c (effect (Captured (lv_driver x)) (ce_frame E)) (\<lambda>frame.
     if (case lv_latest x of None \<Rightarrow> False
         | Some f \<Rightarrow> sf_content frame = fr_content f \<and> sf_viewport frame = fr_viewport f)
     then ret (the (lv_latest x))
     else
       then_c (put_session iid (x\<lparr>lv_frame_sequence := lv_frame_sequence x + 1\<rparr>))
       (bind_c (lift_c (mk_intervention_frame
          \<lparr>fr_content = sf_content frame, fr_sequence = lv_frame_sequence x + 1,
           fr_viewport = sf_viewport frame, fr_next_client_sequence = lv_client x + 1\<rparr>)) (\<lambda>f.
        then_c (put_session iid (x\<lparr>lv_frame_sequence := lv_frame_sequence x + 1, lv_latest := Some f\<rparr>))
        (ret f))))"

definition validate_input :: "live_session \<Rightarrow> human_input_command \<Rightarrow> unit result" where
  "validate_input x command =
     (if hc_client_sequence command \<noteq> lv_client x + 1
      then Inl (HumanInputConflictError ''client input sequence is stale or out of order'')
      else case lv_latest x of
        None \<Rightarrow> Inl (HumanInputConflictError ''source frame is stale or unavailable'')
      | Some f \<Rightarrow>
          if hc_source_frame_sequence command \<noteq> fr_sequence f
          then Inl (HumanInputConflictError ''source frame is stale or unavailable'')
          else if hc_viewport command \<noteq> fr_viewport f
          then Inl (HumanInputConflictError ''source viewport dimensions are stale'')
          else Inr ())"

definition invalidate_frame :: "string \<Rightarrow> unit ctl" where
  "invalidate_frame iid =
     update (\<lambda>s. case dict_get (ct_live s) iid of
        None \<Rightarrow> s
      | Some x \<Rightarrow> s\<lparr>ct_live := dict_set iid (x\<lparr>lv_latest := None\<rparr>) (ct_live s)\<rparr>)"

text \<open>\<open>apply_input\<close>: the receipt is the pair of client and source frame sequence.\<close>

definition apply_input ::
  "control_env \<Rightarrow> string \<Rightarrow> live_session \<Rightarrow> human_input_command \<Rightarrow> (int \<times> int) ctl" where
  "apply_input E iid x command =
     then_c (lift_c (validate_input x command))
     (then_c (put_session iid (x\<lparr>lv_client := hc_client_sequence command, lv_latest := None\<rparr>))
     (then_c (effect (Dispatched (lv_driver x) command) (ce_input E))
     (ret (hc_client_sequence command, hc_source_frame_sequence command))))"

section \<open>Operations through the coordinator\<close>

text \<open>The three clock readings an operation may need.\<close>

definition coordinate ::
  "control_env \<Rightarrow> string \<Rightarrow> coord_request \<Rightarrow> (intervention \<times> control_lease) ctl" where
  "coordinate E iid req =
     bind_c (read_time E) (\<lambda>t0. bind_c (read_time E) (\<lambda>t1. bind_c (read_time E) (\<lambda>t2.
     bind_c (gets ct_store) (\<lambda>st.
     bind_c (lift_c (coord_run in_memory_transitions (ce_ttl E) t0 t1 t2 st iid req)) (\<lambda>(p, st').
     then_c (update (\<lambda>s. s\<lparr>ct_store := st'\<rparr>)) (ret p))))))"

definition get_transition :: "string \<Rightarrow> (intervention \<times> control_lease) ctl" where
  "get_transition iid =
     bind_c (gets ct_store) (\<lambda>st. lift_c (coord_get in_memory_transitions st iid))"

definition control_change ::
  "control_env \<Rightarrow> string \<Rightarrow> coord_request \<Rightarrow> (intervention \<times> control_lease) ctl" where
  "control_change E iid req =
     bind_c (coordinate E iid req) (\<lambda>p. then_c (invalidate_frame iid) (ret p))"

definition hc_claim :: "control_env \<Rightarrow> string \<Rightarrow> int \<Rightarrow> string \<Rightarrow> (intervention \<times> control_lease) ctl" where
  "hc_claim E iid v operator = control_change E iid (ReqClaim v operator)"

definition hc_release :: "control_env \<Rightarrow> string \<Rightarrow> int \<Rightarrow> string \<Rightarrow> (intervention \<times> control_lease) ctl" where
  "hc_release E iid v operator = control_change E iid (ReqRelease v operator)"

definition hc_heartbeat :: "control_env \<Rightarrow> string \<Rightarrow> int \<Rightarrow> string \<Rightarrow> (intervention \<times> control_lease) ctl" where
  "hc_heartbeat E iid v operator = control_change E iid (ReqHeartbeat v operator)"

text \<open>The check that the operator holds the claimed intervention under an unexpired lease.\<close>

definition assert_operator ::
  "control_env \<Rightarrow> string \<Rightarrow> int \<Rightarrow> string \<Rightarrow> intervention ctl" where
  "assert_operator E iid v operator =
     bind_c (get_transition iid) (\<lambda>(i, l).
     if int_status i \<noteq> CLAIMED \<or> int_operator_id i \<noteq> Some operator
     then raise (InterventionAuthorizationError ''operator does not own this intervention'')
     else
       bind_c (lift_c (mk_control_owner OwnHuman (Some operator))) (\<lambda>human.
       bind_c (read_time E) (\<lambda>t.
       bind_c (gets ct_store) (\<lambda>st.
       then_c (lift_c (assert_can_act in_memory_leases t (hs_leases st) (int_session_id i) v human))
       (ret i)))))"

definition FRAME_LIMIT :: int where
  "FRAME_LIMIT = 5242880"

definition hc_viewport_frame ::
  "control_env \<Rightarrow> string \<Rightarrow> int \<Rightarrow> string \<Rightarrow> intervention_frame ctl" where
  "hc_viewport_frame E iid v operator =
     bind_c (assert_operator E iid v operator) (\<lambda>i.
     bind_c (gets (\<lambda>s. dict_get (ct_live s) iid)) (\<lambda>session.
     case session of
       None \<Rightarrow> raise (InterventionAuthorizationError ''live intervention session is unavailable'')
     | Some x \<Rightarrow>
         bind_c (capture_frame E iid x) (\<lambda>frame.
         if FRAME_LIMIT < int (length (fr_content frame)) \<or>
            \<not> starts_with png_signature (fr_content frame)
         then raise (RuntimeError ''live viewport frame violates its media contract'')
         else ret frame)))"

definition input_details :: "string \<Rightarrow> string \<Rightarrow> string \<Rightarrow> human_input_command \<Rightarrow> audit_value dict" where
  "input_details iid operator session_id command =
     dict_set ''session_id'' (AuditStr session_id)
       (dict_set ''operator_id'' (AuditStr operator)
         (dict_set ''intervention_id'' (AuditStr iid) (audit_details command)))"

definition input_error_code :: "exn \<Rightarrow> string" where
  "input_error_code e =
     (case e of SurfaceFailure se \<Rightarrow> se_code se | _ \<Rightarrow> ''input_dispatch_failed'')"

text \<open>\<open>except BaseException as error: ...; raise\<close>.\<close>

definition audit_failure ::
  "control_env \<Rightarrow> string \<Rightarrow> audit_value dict \<Rightarrow> 'a ctl \<Rightarrow> 'a ctl" where
  "audit_failure E run details m =
     catch_c m Some (\<lambda>e.
       then_c (audit_event E ''human_input_failed'' run
                 (dict_set ''error_code'' (AuditStr (input_error_code e)) details))
       (raise e))"

definition send_input ::
  "control_env \<Rightarrow> string \<Rightarrow> int \<Rightarrow> string \<Rightarrow> human_input_command \<Rightarrow> (int \<times> int) ctl" where
  "send_input E iid v operator command =
     bind_c (assert_operator E iid v operator) (\<lambda>i.
     bind_c (gets (\<lambda>s. (dict_get (ct_live s) iid, int_run_id i \<in> set (ct_journals s)))) (\<lambda>(session, journal).
     case session of
       None \<Rightarrow> raise (InterventionAuthorizationError ''live intervention session is unavailable'')
     | Some x \<Rightarrow>
         if \<not> journal
         then raise (InterventionAuthorizationError ''live intervention session is unavailable'')
         else
           then_c (lift_c (validate_input x command))
           (let details = input_details iid operator (int_session_id i) command in
            then_c (audit_event E ''human_input_dispatched'' (int_run_id i) details)
            (bind_c (audit_failure E (int_run_id i) details (apply_input E iid x command)) (\<lambda>receipt.
             then_c (audit_event E ''human_input_applied'' (int_run_id i) details)
             (ret receipt))))))"

section \<open>Resuming\<close>

datatype resumption = InterventionResume "intervention \<times> control_lease" "run_result option"

definition close_live :: "control_env \<Rightarrow> string \<Rightarrow> unit ctl" where
  "close_live E iid =
     bind_c (gets (\<lambda>s. dict_get (ct_live s) iid)) (\<lambda>session.
     case session of
       None \<Rightarrow> ret ()
     | Some x \<Rightarrow> then_c (drop_session iid) (effect (DriverClosed (lv_driver x)) (ce_close E)))"

definition reopen_resume :: "control_env \<Rightarrow> string \<Rightarrow> string \<Rightarrow> resumption ctl" where
  "reopen_resume E iid explanation =
     bind_c (coordinate E iid (ReqReopen explanation)) (\<lambda>p. ret (InterventionResume p None))"

definition rejection :: "exn \<Rightarrow> (string \<times> string) option" where
  "rejection e =
     (case e of
        ResumeValidationError code message \<Rightarrow> Some (code, message)
      | SurfaceFailure se \<Rightarrow> Some (se_code se, se_message se)
      | _ \<Rightarrow> None)"

definition validated ::
  "control_env \<Rightarrow> string \<Rightarrow> live_session \<Rightarrow> continuation option \<Rightarrow> business_outcome option ctl" where
  "validated E iid x managed =
     (case managed of
        Some c \<Rightarrow> then_c (effect (ReplayValidated (lv_driver x)) (\<lambda>h. Inr ()))
                    (call_engine E (lv_driver x) (\<lambda>V. validate_resume V c))
      | None \<Rightarrow>
          if lv_client x = 0
          then raise (SurfaceFailure (simple_error ''resume_no_human_input''
            ''Apply a correction before resuming discovery.''))
          else then_c (effect (DiscoveryValidated (lv_driver x)) (ce_validate_discovery E)) (ret None))"

definition resume_failure :: "control_env \<Rightarrow> string \<Rightarrow> run_result ctl" where
  "resume_failure E run =
     then_c (audit_event E ''resume_failed'' run [(''code'', AuditStr ''resume_execution_failed'')])
     (bind_c (gets (\<lambda>s. ce_manifest_key E (ct_history s) run)) (\<lambda>key.
      lift_c (mk_failure (ce_store_json E)
        \<lparr>fr_run_id = run, fr_code = ''resume_execution_failed'',
         fr_message = ''Automation could not continue after validated human handoff.'',
         fr_recoverable = False, fr_step_id = None, fr_expected = None, fr_observed = None,
         fr_privacy = None, fr_manifest = key\<rparr>)))"

text \<open>The engine's \<open>resume\<close>, on the session of the continuation, which is the one the run opened.\<close>

definition resume_engine ::
  "continuation \<Rightarrow> int \<Rightarrow> business_outcome option \<Rightarrow> environment \<Rightarrow> run_result option run" where
  "resume_engine c v outcome V =
     bind_c (gets rs_session) (\<lambda>sid. resume V (case sid of None \<Rightarrow> [] | Some x \<Rightarrow> x) c v outcome)"

definition resume_replay ::
  "control_env \<Rightarrow> string \<Rightarrow> continuation \<Rightarrow> int \<Rightarrow> business_outcome option \<Rightarrow> run_result ctl" where
  "resume_replay E driver c v outcome =
     then_c (effect (ReplayResumed driver v) (\<lambda>h. Inr ()))
     (bind_c (call_engine E driver (resume_engine c v outcome)) returned)"

definition settle_result ::
  "control_env \<Rightarrow> string \<Rightarrow> intervention \<times> control_lease \<Rightarrow> run_result \<Rightarrow> resumption ctl" where
  "settle_result E iid resumed result =
     (case result of
        InterventionRequiredResult r \<Rightarrow>
          bind_c (gets (\<lambda>s. dict_get (ct_live s) iid)) (\<lambda>session.
          case session of
            None \<Rightarrow> raise (KeyError iid)
          | Some x \<Rightarrow>
              then_c (drop_session iid)
              (then_c (put_session (ir_intervention_id r) x)
              (ret (InterventionResume resumed (Some result)))))
      | _ \<Rightarrow>
          bind_c (catch_c (effect ResultFinalized (\<lambda>h. ce_finalize E h result)) Some
                    (\<lambda>e. then_c (close_live E iid) (raise e))) (\<lambda>finalized.
          then_c (close_live E iid) (ret (InterventionResume resumed (Some finalized)))))"

definition continue_run ::
  "control_env \<Rightarrow> string \<Rightarrow> string \<Rightarrow> live_session \<Rightarrow> continuation option \<Rightarrow> bool
     \<Rightarrow> business_outcome option \<Rightarrow> intervention \<times> control_lease \<Rightarrow> resumption ctl" where
  "continue_run E iid run x managed discovery outcome resumed =
     then_c (audit_event E ''automation_resumed'' run
               [(''lease_version'', AuditInt (lease_version (snd resumed)))])
     (if discovery
      then then_c (effect (DiscoveryResumed (lv_driver x) (lease_version (snd resumed))) (\<lambda>h. Inr ()))
             (ret (InterventionResume resumed None))
      else case managed of
        None \<Rightarrow> raise (RuntimeError ''AssertionError'')
      | Some c \<Rightarrow>
          bind_c (catch_c (resume_replay E (lv_driver x) c (lease_version (snd resumed)) outcome) Some
                    (\<lambda>e. resume_failure E run)) (settle_result E iid resumed))"

definition complete_and_continue ::
  "control_env \<Rightarrow> string \<Rightarrow> string \<Rightarrow> int \<Rightarrow> live_session \<Rightarrow> continuation option \<Rightarrow> bool
     \<Rightarrow> business_outcome option \<Rightarrow> resumption ctl" where
  "complete_and_continue E iid run v x managed discovery outcome =
     bind_c (coordinate E iid (ReqCompleteResume v
               ''Fresh state passed the continuation's resume checks.'')) (\<lambda>resumed.
     then_c (update (\<lambda>s. s\<lparr>ct_continuations := dict_pop iid (ct_continuations s)\<rparr>))
     (continue_run E iid run x managed discovery outcome resumed))"

text \<open>A rejected validation is recorded and reopens the intervention.\<close>

definition validate_and_continue ::
  "control_env \<Rightarrow> string \<Rightarrow> string \<Rightarrow> int \<Rightarrow> live_session \<Rightarrow> continuation option \<Rightarrow> bool
     \<Rightarrow> resumption ctl" where
  "validate_and_continue E iid run v x managed discovery =
     bind_c (catch_c (bind_c (validated E iid x managed) (\<lambda>outcome. ret (Inr outcome))) rejection
               (\<lambda>r. ret (Inl r))) (\<lambda>checked.
     case checked of
       Inl (code, message) \<Rightarrow>
         then_c (audit_event E ''resume_rejected'' run [(''code'', AuditStr code)])
         (reopen_resume E iid message)
     | Inr outcome \<Rightarrow> complete_and_continue E iid run v x managed discovery outcome)"

definition hc_begin_resume :: "control_env \<Rightarrow> string \<Rightarrow> int \<Rightarrow> string \<Rightarrow> resumption ctl" where
  "hc_begin_resume E iid v operator =
     bind_c (control_change E iid (ReqBeginResume v operator)) (\<lambda>(i, l).
     let run = int_run_id i in
     bind_c (gets (\<lambda>s. (dict_get (ct_live s) iid, run \<in> set (ct_journals s),
                       dict_get (ct_continuations s) iid, iid \<in> set (ct_waits s))))
       (\<lambda>(session, journal, managed, discovery).
     case session of
       None \<Rightarrow> reopen_resume E iid ''The retained session or run journal is unavailable.''
     | Some x \<Rightarrow>
         if \<not> journal
         then reopen_resume E iid ''The retained session or run journal is unavailable.''
         else if managed = None \<and> \<not> discovery
         then
           then_c (audit_event E ''resume_rejected'' run
                     [(''code'', AuditStr ''continuation_unavailable'')])
           (reopen_resume E iid
              ''A deterministic continuation is unavailable for this intervention.'')
         else validate_and_continue E iid run (lease_version l) x managed discovery))"

definition hc_terminate ::
  "control_env \<Rightarrow> string \<Rightarrow> int \<Rightarrow> string option \<Rightarrow> string \<Rightarrow> (intervention \<times> control_lease) ctl" where
  "hc_terminate E iid v operator resolution =
     bind_c (coordinate E iid (ReqTerminate v operator resolution)) (\<lambda>p.
     bind_c (gets (\<lambda>s. (dict_get (ct_live s) iid, iid \<in> set (ct_waits s)))) (\<lambda>(session, discovery).
     then_c (update (\<lambda>s. s\<lparr>ct_live := dict_pop iid (ct_live s),
                          ct_waits := [w \<leftarrow> ct_waits s. w \<noteq> iid],
                          ct_continuations := dict_pop iid (ct_continuations s)\<rparr>))
     (then_c
       (if discovery then effect (DiscoveryCancelled iid) (\<lambda>h. Inr ())
        else case session of
          None \<Rightarrow> ret ()
        | Some x \<Rightarrow> effect (DriverClosed (lv_driver x)) (ce_close E))
       (ret p))))"

text \<open>
  \<open>ManagedReplayExecutor.execute\<close>, on an engine made for the run: an intervention keeps the
  session, everything else closes the driver.
\<close>

definition keep_or_close :: "control_env \<Rightarrow> string \<Rightarrow> run_result \<Rightarrow> run_result ctl" where
  "keep_or_close E run result =
     (case result of
        InterventionRequiredResult r \<Rightarrow>
          then_c (put_session (ir_intervention_id r) (new_live_session run)) (ret result)
      | _ \<Rightarrow> then_c (effect (DriverClosed run) (ce_close E)) (ret result))"

definition managed_execute :: "control_env \<Rightarrow> replay_request \<Rightarrow> run_result ctl" where
  "managed_execute E rq =
     then_c (update (\<lambda>s. s\<lparr>ct_engines := dict_pop (rq_run_id rq) (ct_engines s)\<rparr>))
     (bind_c (catch_c (bind_c (call_engine E (rq_run_id rq) (\<lambda>V. execute V rq)) returned) Some
                (\<lambda>e. then_c (effect (DriverClosed (rq_run_id rq)) (ce_close E)) (raise e)))
        (keep_or_close E (rq_run_id rq)))"

end
