(* ===== verification/ControlGuarantees.thy ===== *)
theory ControlGuarantees
  imports HumanControl ReplayGuarantees HandoffGuarantees
begin

text \<open>
  The guarantees of human control: an input reaches the driver only for the operator who holds the
  intervention, once, in order and on the frame the operator saw last; and the service moves leases
  and interventions only along the hand-off machine.
\<close>

section \<open>Evaluation of the steps\<close>

lemma effect_eval: "effect ev answer s = (answer (ct_history s), s\<lparr>ct_history := ct_history s @ [ev]\<rparr>)"
  by (cases "answer (ct_history s)") (simp_all add: effect_def comp_defs)

lemma read_time_eval: "read_time E s = (Inr (ce_clock E (ct_tick s)), s\<lparr>ct_tick := ct_tick s + 1\<rparr>)"
  by (simp add: read_time_def comp_defs)

lemma put_session_eval: "put_session iid x s = (Inr (), s\<lparr>ct_live := dict_set iid x (ct_live s)\<rparr>)"
  by (simp add: put_session_def comp_defs)


text \<open>What the check of the operator establishes.\<close>

definition operator_holds ::
  "control_env \<Rightarrow> control \<Rightarrow> string \<Rightarrow> int \<Rightarrow> string \<Rightarrow> intervention \<Rightarrow> bool" where
  "operator_holds E s iid v operator i =
     (\<exists>l l' human. coord_get in_memory_transitions (ct_store s) iid = Inr (i, l) \<and>
        int_status i = CLAIMED \<and> int_operator_id i = Some operator \<and>
        mk_control_owner OwnHuman (Some operator) = Inr human \<and>
        hs_leases (ct_store s) (int_session_id i) = Some l' \<and> lease_version l' = v \<and>
        lease_owner l' = human \<and> ce_clock E (ct_tick s) < dt_instant (expires_at l'))"

lemma assert_operator_Inr:
  assumes "assert_operator E iid v operator s = (Inr i, t)"
  shows "operator_holds E s iid v operator i" "t = s\<lparr>ct_tick := ct_tick s + 1\<rparr>"
proof -
  from assms obtain l human l' where
    get: "coord_get in_memory_transitions (ct_store s) iid = Inr (i, l)"
    and claimed: "int_status i = CLAIMED" "int_operator_id i = Some operator"
    and human: "mk_control_owner OwnHuman (Some operator) = Inr human"
    and act: "assert_can_act in_memory_leases (ce_clock E (ct_tick s)) (hs_leases (ct_store s))
        (int_session_id i) v human = Inr l'"
    and t: "t = s\<lparr>ct_tick := ct_tick s + 1\<rparr>"
    by (auto simp: assert_operator_def get_transition_def comp_defs read_time_eval
        split: sum.splits if_splits prod.splits)
  from act have "hs_leases (ct_store s) (int_session_id i) = Some l' \<and> lease_version l' = v \<and>
      lease_owner l' = human \<and> ce_clock E (ct_tick s) < dt_instant (expires_at l')"
    by (simp add: memory_leases.can_act_iff)
  with get claimed human show "operator_holds E s iid v operator i"
    unfolding operator_holds_def by blast
  show "t = s\<lparr>ct_tick := ct_tick s + 1\<rparr>" by (fact t)
qed

lemma assert_operator_Inl:
  "assert_operator E iid v operator s = (Inl e, t) \<Longrightarrow> ct_history t = ct_history s \<and> ct_live t = ct_live s"
  by (auto simp: assert_operator_def get_transition_def comp_defs read_time_eval
      split: sum.splits if_splits prod.splits)

text \<open>What the check of an input establishes.\<close>

definition input_fits :: "live_session \<Rightarrow> human_input_command \<Rightarrow> bool" where
  "input_fits x c =
     (hc_client_sequence c = lv_client x + 1 \<and>
      (\<exists>f. lv_latest x = Some f \<and> hc_source_frame_sequence c = fr_sequence f \<and>
           hc_viewport c = fr_viewport f))"

lemma validate_input_Inr: "validate_input x c = Inr u \<longleftrightarrow> input_fits x c"
  by (auto simp: validate_input_def input_fits_def split: option.splits)


lemma apply_input_eval:
  assumes "input_fits x c"
  shows "apply_input E iid x c s =
     (case ce_input E (ct_history s) of
        Inl e \<Rightarrow> (Inl e, s\<lparr>ct_live := dict_set iid (x\<lparr>lv_client := hc_client_sequence c, lv_latest := None\<rparr>) (ct_live s),
                    ct_history := ct_history s @ [Dispatched (lv_driver x) c]\<rparr>)
      | Inr u \<Rightarrow> (Inr (hc_client_sequence c, hc_source_frame_sequence c),
                  s\<lparr>ct_live := dict_set iid (x\<lparr>lv_client := hc_client_sequence c, lv_latest := None\<rparr>) (ct_live s),
                    ct_history := ct_history s @ [Dispatched (lv_driver x) c]\<rparr>))"
proof -
  have "validate_input x c = Inr ()" using assms by (simp add: validate_input_Inr)
  then show ?thesis
    by (simp add: apply_input_def then_c_def bind_c_def lift_c_def put_session_eval effect_eval ret_def
        split: sum.splits)
qed

text \<open>The three ways an input can go: nothing is done, only the record, or the record and the input.\<close>

lemma send_input_cases:
  assumes "send_input E iid v operator command s = (r, t)"
  shows "ct_history t = ct_history s \<or>
     (\<exists>i x. operator_holds E s iid v operator i \<and> dict_get (ct_live s) iid = Some x \<and>
        input_fits x command \<and>
        (\<exists>rest. ct_history t = ct_history s @
             Recorded ''human_input_dispatched'' (int_run_id i)
               (input_details iid operator (int_session_id i) command) # rest \<and>
           (rest = [] \<or> (\<exists>ty details. rest = [Dispatched (lv_driver x) command,
                                            Recorded ty (int_run_id i) details]))))"
proof (cases "assert_operator E iid v operator s")
  case (Pair q s1)
  show ?thesis
  proof (cases q)
    case (Inl e)
    with Pair assms have "t = s1" by (simp add: send_input_def bind_c_def)
    with assert_operator_Inl[of E iid v operator s e s1] Pair Inl show ?thesis by simp
  next
    case (Inr i)
    note op = assert_operator_Inr[OF Pair[unfolded Inr]]
    let ?details = "input_details iid operator (int_session_id i) command"
    let ?rec = "Recorded ''human_input_dispatched'' (int_run_id i) ?details"
    consider "dict_get (ct_live s) iid = None \<or> int_run_id i \<notin> set (ct_journals s)"
      | x where "dict_get (ct_live s) iid = Some x" "int_run_id i \<in> set (ct_journals s)" "\<not> input_fits x command"
      | x where "dict_get (ct_live s) iid = Some x" "int_run_id i \<in> set (ct_journals s)" "input_fits x command"
      by (cases "dict_get (ct_live s) iid") auto
    then show ?thesis
    proof cases
      case 1
      then have "t = s1" using assms Pair Inr op(2)
        by (auto simp: send_input_def comp_defs split: option.splits if_splits)
      then show ?thesis using op(2) by simp
    next
      case (2 x)
      then obtain e where "validate_input x command = Inl e"
        using validate_input_Inr[of x command] by (cases "validate_input x command") auto
      then have "t = s1" using assms Pair Inr op(2) 2
        by (auto simp: send_input_def comp_defs)
      then show ?thesis using op(2) by simp
    next
      case (3 x)
      have ok: "validate_input x command = Inr ()" using 3(3) by (simp add: validate_input_Inr)
      have "\<exists>rest. ct_history t = ct_history s @ ?rec # rest \<and>
          (rest = [] \<or> (\<exists>ty details. rest = [Dispatched (lv_driver x) command, Recorded ty (int_run_id i) details]))"
        using assms Pair Inr op(2) 3(1,2) ok
        by (auto simp: send_input_def comp_defs audit_event_def effect_eval audit_failure_def catch_c_def
            apply_input_eval[OF 3(3)] Let_def split: sum.splits)
      with op(1) 3 show ?thesis by blast
    qed
  qed
qed

text \<open>
  C29. Human input is authorized and audited. Whenever sending an input reaches the driver, the
  sender held the claimed intervention under the named version of an unexpired human lease, the
  input carried the next client number and the latest frame of the live session, and the journal
  was told of it just before; and the driver gets that one input only.
\<close>

theorem human_input_is_authorized:
  assumes "send_input E iid v operator command s = (r, t)"
    and "ct_history t = ct_history s @ evs" "Dispatched d c \<in> set evs"
  shows "\<exists>i x ty details. operator_holds E s iid v operator i \<and> dict_get (ct_live s) iid = Some x \<and>
     input_fits x command \<and> d = lv_driver x \<and> c = command \<and>
     evs = [Recorded ''human_input_dispatched'' (int_run_id i)
              (input_details iid operator (int_session_id i) command),
            Dispatched d c, Recorded ty (int_run_id i) details]"
  using send_input_cases[OF assms(1)] assms(2,3) by auto


section \<open>Histories of the service\<close>

definition reached :: "'a ctl \<Rightarrow> control \<Rightarrow> control" where
  "reached m s = snd (m s)"

text \<open>A new session belongs to a run that has had none.\<close>

definition unused_driver :: "string \<Rightarrow> control \<Rightarrow> bool" where
  "unused_driver d s =
     ((\<forall>iid x. dict_get (ct_live s) iid = Some x \<longrightarrow> lv_driver x \<noteq> d) \<and>
      (\<forall>c. Dispatched d c \<notin> set (ct_history s)))"

inductive control_step :: "control_env \<Rightarrow> control \<Rightarrow> control \<Rightarrow> bool" for E where
  cs_claim: "control_step E s (reached (hc_claim E iid v operator) s)"
| cs_release: "control_step E s (reached (hc_release E iid v operator) s)"
| cs_heartbeat: "control_step E s (reached (hc_heartbeat E iid v operator) s)"
| cs_viewport: "control_step E s (reached (hc_viewport_frame E iid v operator) s)"
| cs_input: "control_step E s (reached (send_input E iid v operator command) s)"
| cs_resume: "control_step E s (reached (hc_begin_resume E iid v operator) s)"
| cs_terminate: "control_step E s (reached (hc_terminate E iid v who resolution) s)"
| cs_execute: "unused_driver (rq_run_id rq) s \<Longrightarrow> control_step E s (reached (managed_execute E rq) s)"
| cs_engine: "handoff_run (ce_ttl E) (ct_store s) st \<Longrightarrow>
    control_step E s (s\<lparr>ct_store := st, ct_continuations := conts, ct_waits := waits, ct_journals := js\<rparr>)"

inductive control_run :: "control_env \<Rightarrow> control \<Rightarrow> control \<Rightarrow> bool" for E where
  cr_refl: "control_run E s s"
| cr_step: "control_run E s t \<Longrightarrow> control_step E t u \<Longrightarrow> control_run E s u"

section \<open>The service stays on the hand-off machine\<close>

lemma on_machine_trans:
  "handoff_run ttl b c \<Longrightarrow> handoff_run ttl a b \<Longrightarrow> handoff_run ttl a c"
  by (induction rule: handoff_run.induct) (auto intro: hr_step)

lemma keeps_run_result [keeping]:
  "(\<And>r. keeps I (f r)) \<Longrightarrow> (\<And>r. keeps I (g r)) \<Longrightarrow> (\<And>r. keeps I (h r)) \<Longrightarrow> (\<And>r. keeps I (k r)) \<Longrightarrow>
     keeps I (case x of SuccessResult r \<Rightarrow> f r | BusinessOutcomeResult r \<Rightarrow> g r | FailureResult r \<Rightarrow> h r
       | InterventionRequiredResult r \<Rightarrow> k r)"
  by (cases x) simp_all

text \<open>What an engine does to leases and interventions is a run of the machine.\<close>

lemma engine_moves:
  "ev_ttl V = ttl \<Longrightarrow> handoff_run ttl (rs_store x) (rs_store (snd (execute V rq x)))"
  "ev_ttl V = ttl \<Longrightarrow> handoff_run ttl (rs_store x) (rs_store (snd (resume V sid c v outcome x)))"
  "ev_ttl V = ttl \<Longrightarrow> handoff_run ttl (rs_store x) (rs_store (snd (validate_resume V c x)))"
  using keepsD[OF composed.execute_kept_all(2), of V "rs_store x" x rq]
    keepsD[OF composed.resume_kept, of V "rs_store x" x sid c v outcome]
    keepsD[OF composed.validate_resume_kept, of V "rs_store x" x c] hr_refl by auto

lemma resume_engine_eval:
  "resume_engine c v outcome V x =
     resume V (case rs_session x of None \<Rightarrow> [] | Some sid \<Rightarrow> sid) c v outcome x"
  by (simp add: resume_engine_def comp_defs)

text \<open>An invariant that only looks at the store of the hand-off.\<close>

locale store_steps =
  fixes E :: control_env and I :: "control \<Rightarrow> bool"
  assumes same_store: "ct_store t = ct_store s \<Longrightarrow> I s \<Longrightarrow> I t"
    and machine: "handoff_run (ce_ttl E) (ct_store s) (ct_store t) \<Longrightarrow> I s \<Longrightarrow> I t"
begin

lemma keeps_effect [keeping]: "keeps I (effect ev answer)"
  by (rule keepsI, rule same_store[rotated], assumption) (simp add: effect_eval)

lemma keeps_record [keeping]: "keeps I (audit_event E ty run d)"
  unfolding audit_event_def by (rule keeps_effect)

lemma keeps_same [keeping]: "(\<And>s. ct_store (f s) = ct_store s) \<Longrightarrow> keeps I (update f)"
  by (rule keepsI) (auto simp: update_def intro: same_store)

lemma keeps_rest [keeping]:
  "keeps I (read_time E)" "keeps I (put_session iid x)" "keeps I (drop_session iid)"
  "keeps I (invalidate_frame iid)"
  unfolding read_time_def put_session_def drop_session_def invalidate_frame_def
  by (intro keeping; simp split: option.splits)+

lemma keeps_get [keeping]: "keeps I (get_transition iid)"
  unfolding get_transition_def by (intro keeping)

lemma keeps_coordinate [keeping]: "keeps I (coordinate E iid req)"
proof -
  have commit: "triple (\<lambda>s. I s \<and> ct_store s = st)
      (bind_c (lift_c (coord_run in_memory_transitions (ce_ttl E) t0 t1 t2 st iid req)) (\<lambda>(p, st').
         then_c (update (\<lambda>s. s\<lparr>ct_store := st'\<rparr>)) (ret p))) (\<lambda>_. I) (\<lambda>_. I)" for st t0 t1 t2
  proof (rule tripleI)
    fix s x t
    assume P: "I s \<and> ct_store s = st"
      and run: "bind_c (lift_c (coord_run in_memory_transitions (ce_ttl E) t0 t1 t2 st iid req)) (\<lambda>(p, st').
         then_c (update (\<lambda>s. s\<lparr>ct_store := st'\<rparr>)) (ret p)) s = (Inr x, t)"
    then obtain st' where "coord_run in_memory_transitions (ce_ttl E) t0 t1 t2 st iid req = Inr (x, st')"
        "t = s\<lparr>ct_store := st'\<rparr>"
      by (auto simp: comp_defs split: sum.splits prod.splits)
    with P show "I t" by (auto intro!: machine[of s] hr_step[OF hr_refl] hs_request)
  qed (auto simp: comp_defs split: sum.splits prod.splits)
  have tail: "keeps I (bind_c (gets ct_store) (\<lambda>st.
       bind_c (lift_c (coord_run in_memory_transitions (ce_ttl E) t0 t1 t2 st iid req)) (\<lambda>(p, st').
         then_c (update (\<lambda>s. s\<lparr>ct_store := st'\<rparr>)) (ret p))))" for t0 t1 t2
    unfolding keeps_def
    by (rule triple_bind[where R = "\<lambda>st s. I s \<and> ct_store s = st"], rule tripleI)
       (auto simp: gets_def intro: commit)
  show ?thesis
    unfolding coordinate_def by (intro keeps_bind keeps_rest tail)
qed

lemma keeps_change [keeping]: "keeps I (control_change E iid req)"
  unfolding control_change_def by (intro keeping)

lemma keeps_operator [keeping]: "keeps I (assert_operator E iid v operator)"
  unfolding assert_operator_def by (intro keeping)

lemma keeps_capture [keeping]: "keeps I (capture_frame E iid x)"
  unfolding capture_frame_def by (intro keeping)

text \<open>A call on an engine moves the store as the engine does.\<close>

lemma keeps_call:
  assumes "\<And>V x. ev_ttl V = ce_ttl E \<Longrightarrow> handoff_run (ce_ttl E) (rs_store x) (rs_store (snd (m V x)))"
  shows "keeps I (call_engine E run m)"
proof (rule keepsI)
  fix s assume I: "I s"
  have start: "rs_store (engine_state s run) = ct_store s"
    by (simp add: engine_state_def split: option.splits)
  have "ev_ttl (engine_of E run) = ce_ttl E" by (simp add: engine_of_def)
  from assms[OF this, of "engine_state s run"]
  have "handoff_run (ce_ttl E) (ct_store s) (ct_store (snd (call_engine E run m s)))"
    by (cases "m (engine_of E run) (engine_state s run)") (simp add: call_engine_def Let_def start)
  from machine[OF this I] show "I (snd (call_engine E run m s))" .
qed

lemma keeps_returned [keeping]: "keeps I (returned x)"
  unfolding returned_def by (intro keeping)

lemma keeps_engines [keeping]:
  "keeps I (call_engine E run (\<lambda>V. execute V rq))" "keeps I (call_engine E run (resume_engine c v outcome))"
  "keeps I (call_engine E run (\<lambda>V. validate_resume V c))"
proof -
  show "keeps I (call_engine E run (\<lambda>V. execute V rq))" "keeps I (call_engine E run (\<lambda>V. validate_resume V c))"
    by (rule keeps_call; use engine_moves in metis)+
  show "keeps I (call_engine E run (resume_engine c v outcome))"
    by (rule keeps_call) (use engine_moves in \<open>metis resume_engine_eval\<close>)
qed

lemma keeps_resume_replay [keeping]: "keeps I (resume_replay E d c v outcome)"
  unfolding resume_replay_def by (intro keeping)

lemma keeps_close [keeping]: "keeps I (close_live E iid)"
  unfolding close_live_def by (intro keeping)

lemma keeps_failure [keeping]: "keeps I (resume_failure E run)"
  unfolding resume_failure_def by (intro keeping)

lemma keeps_settle [keeping]: "keeps I (settle_result E iid resumed result)"
  unfolding settle_result_def by (intro keeping)

lemma keeps_continue [keeping]: "keeps I (continue_run E iid run x managed discovery outcome resumed)"
  unfolding continue_run_def by (intro keeping)

lemma keeps_complete [keeping]: "keeps I (complete_and_continue E iid run v x managed discovery outcome)"
  unfolding complete_and_continue_def by (intro keeping; simp)

lemma keeps_validate [keeping]: "keeps I (validate_and_continue E iid run v x managed discovery)"
  unfolding validate_and_continue_def validated_def reopen_resume_def by (intro keeping)

lemma keeps_operations:
  "keeps I (hc_claim E iid v operator)" "keeps I (hc_release E iid v operator)"
  "keeps I (hc_heartbeat E iid v operator)" "keeps I (hc_viewport_frame E iid v operator)"
  "keeps I (send_input E iid v operator command)" "keeps I (hc_begin_resume E iid v operator)"
  "keeps I (hc_terminate E iid v who resolution)" "keeps I (managed_execute E rq)"
  unfolding hc_claim_def hc_release_def hc_heartbeat_def hc_viewport_frame_def send_input_def Let_def
    audit_failure_def apply_input_def hc_begin_resume_def reopen_resume_def hc_terminate_def managed_execute_def
    keep_or_close_def
  by (intro keeping; simp?)+

lemma keeps_run: "control_run E s t \<Longrightarrow> I s \<Longrightarrow> I t"
proof (induction rule: control_run.induct)
  case (cr_step s t u)
  then have "I t" by blast
  with cr_step(2) show ?case
    by (cases rule: control_step.cases)
       (auto simp: reached_def intro: keepsD[OF keeps_operations(1)] keepsD[OF keeps_operations(2)]
          keepsD[OF keeps_operations(3)] keepsD[OF keeps_operations(4)] keepsD[OF keeps_operations(5)]
          keepsD[OF keeps_operations(6)] keepsD[OF keeps_operations(7)] keepsD[OF keeps_operations(8)]
          machine[of t])
qed simp

end

interpretation on_machine: store_steps E "\<lambda>t. handoff_run (ce_ttl E) st (ct_store t)" for E st
  by unfold_locales (auto intro: on_machine_trans)

text \<open>
  C30. The service moves control only along the hand-off machine. In every history of operators,
  executions, resumes and terminations, with the replay engine run inside the calls, the leases and
  interventions change as in some run of the hand-off machine, so all that holds of every such run
  holds under human control.
\<close>

theorem control_is_handoff_run:
  assumes "control_run E s t"
  shows "handoff_run (ce_ttl E) (ct_store s) (ct_store t)"
  using on_machine.keeps_run[OF assms hr_refl] .

section \<open>Inputs arrive in order\<close>

definition input_of :: "string \<Rightarrow> control_event \<Rightarrow> human_input_command list" where
  "input_of d ev = (case ev of Dispatched d' c \<Rightarrow> if d' = d then [c] else [] | _ \<Rightarrow> [])"

definition inputs_of :: "string \<Rightarrow> control_event list \<Rightarrow> human_input_command list" where
  "inputs_of d h = concat (map (input_of d) h)"

definition in_order :: "human_input_command list \<Rightarrow> bool" where
  "in_order cs =
     (map hc_client_sequence cs = map int [1..<Suc (length cs)] \<and>
      sorted_wrt (\<lambda>a b. hc_source_frame_sequence a < hc_source_frame_sequence b) cs)"

text \<open>A session has counted its inputs, and its latest frame is later than the frames they used.\<close>

definition session_ok :: "control_event list \<Rightarrow> live_session \<Rightarrow> bool" where
  "session_ok h x =
     (lv_client x = int (length (inputs_of (lv_driver x) h)) \<and>
      (\<forall>c\<in>set (inputs_of (lv_driver x) h). hc_source_frame_sequence c \<le> lv_frame_sequence x) \<and>
      (case lv_latest x of None \<Rightarrow> True
       | Some f \<Rightarrow> fr_sequence f \<le> lv_frame_sequence x \<and>
           (\<forall>c\<in>set (inputs_of (lv_driver x) h). hc_source_frame_sequence c < fr_sequence f)))"

definition ordered :: "control \<Rightarrow> bool" where
  "ordered s =
     ((\<forall>d. in_order (inputs_of d (ct_history s))) \<and>
      (\<forall>iid x. dict_get (ct_live s) iid = Some x \<longrightarrow> session_ok (ct_history s) x) \<and>
      (\<forall>iid iid' x x'. dict_get (ct_live s) iid = Some x \<longrightarrow> dict_get (ct_live s) iid' = Some x' \<longrightarrow>
         lv_driver x = lv_driver x' \<longrightarrow> iid = iid'))"

lemma inputs_snoc: "inputs_of d (h @ [ev]) = inputs_of d h @ input_of d ev"
  by (simp add: inputs_of_def)

lemma inputs_quiet: "\<forall>d c. ev \<noteq> Dispatched d c \<Longrightarrow> inputs_of d (h @ [ev]) = inputs_of d h"
  by (cases ev) (auto simp: inputs_snoc input_of_def)

lemma session_ok_same:
  "inputs_of (lv_driver x) h' = inputs_of (lv_driver x) h \<Longrightarrow> session_ok h' x = session_ok h x"
  by (simp only: session_ok_def)

lemma dict_pop_get: "dict_get (dict_pop k d) = (dict_get d)(k := None)"
proof
  fix k'
  show "dict_get (dict_pop k d) k' = ((dict_get d)(k := None)) k'"
    by (induction d) (auto simp: dict_pop_def)
qed

lemma in_order_snoc:
  assumes "in_order cs" "hc_client_sequence c = int (length cs) + 1"
    and "\<forall>a\<in>set cs. hc_source_frame_sequence a < hc_source_frame_sequence c"
  shows "in_order (cs @ [c])"
  using assms by (auto simp: in_order_def sorted_wrt_append)

lemma ordered_same:
  "ordered s \<Longrightarrow> ct_live t = ct_live s \<Longrightarrow> (\<And>d. inputs_of d (ct_history t) = inputs_of d (ct_history s)) \<Longrightarrow> ordered t"
  unfolding ordered_def using session_ok_same by metis

lemma ordered_distinct:
  "ordered s \<Longrightarrow> dict_get (ct_live s) i = Some z \<Longrightarrow> dict_get (ct_live s) j = Some w \<Longrightarrow>
     lv_driver z = lv_driver w \<Longrightarrow> i = j"
  unfolding ordered_def by blast

lemma ordered_session: "ordered s \<Longrightarrow> dict_get (ct_live s) i = Some z \<Longrightarrow> session_ok (ct_history s) z"
  unfolding ordered_def by blast

lemma ordered_live:
  assumes "ordered s" "ct_history t = ct_history s"
    and "\<And>iid x. dict_get (ct_live t) iid = Some x \<Longrightarrow> session_ok (ct_history s) x"
    and "\<And>iid iid' x x'. dict_get (ct_live t) iid = Some x \<Longrightarrow> dict_get (ct_live t) iid' = Some x' \<Longrightarrow>
         lv_driver x = lv_driver x' \<Longrightarrow> iid = iid'"
  shows "ordered t"
  unfolding ordered_def assms(2) using assms(1,3,4) by (auto simp: ordered_def)

lemma ordered_change:
  assumes "ordered s" "dict_get (ct_live s) iid = Some x" "lv_driver y = lv_driver x"
    and "session_ok (ct_history s) x \<Longrightarrow> session_ok (ct_history s) y"
  shows "ordered (s\<lparr>ct_live := dict_set iid y (ct_live s)\<rparr>)"
proof (rule ordered_live[OF assms(1)])
  show "session_ok (ct_history s) z" if "dict_get (ct_live (s\<lparr>ct_live := dict_set iid y (ct_live s)\<rparr>)) i = Some z" for i z
    using that assms by (auto simp: ordered_def split: if_splits)
  show "i = j" if "dict_get (ct_live (s\<lparr>ct_live := dict_set iid y (ct_live s)\<rparr>)) i = Some z"
    "dict_get (ct_live (s\<lparr>ct_live := dict_set iid y (ct_live s)\<rparr>)) j = Some w" "lv_driver z = lv_driver w" for i j z w
  proof -
    note distinct = ordered_distinct[OF assms(1)]
    show ?thesis using that assms(2,3) distinct by (auto split: if_splits)
  qed
qed simp

lemma ordered_drop:
  assumes "ordered s"
  shows "ordered (s\<lparr>ct_live := dict_pop iid (ct_live s)\<rparr>)"
  by (rule ordered_live[OF assms])
     (use ordered_session[OF assms] ordered_distinct[OF assms] in \<open>auto simp: dict_pop_get split: if_splits\<close>)

lemma ordered_move:
  assumes "ordered s" "dict_get (ct_live s) iid = Some x"
  shows "ordered (s\<lparr>ct_live := dict_set j x (dict_pop iid (ct_live s))\<rparr>)"
proof -
  note distinct = ordered_distinct[OF assms(1)]
  note ok = ordered_session[OF assms(1)]
  show ?thesis
    by (rule ordered_live[OF assms(1)])
       (use ok distinct assms(2) in \<open>auto simp: dict_pop_get split: if_splits\<close>)
qed

lemma ordered_fresh:
  assumes "ordered s" "unused_driver run s"
  shows "ordered (s\<lparr>ct_live := dict_set iid (new_live_session run) (ct_live s)\<rparr>)"
proof -
  have none: "inputs_of run (ct_history s) = []"
    using assms(2) by (auto simp: inputs_of_def input_of_def unused_driver_def split: control_event.splits)
  note distinct = ordered_distinct[OF assms(1)]
  note ok = ordered_session[OF assms(1)]
  have used: "dict_get (ct_live s) i = Some z \<Longrightarrow> lv_driver z \<noteq> run" for i z
    using assms(2) by (simp add: unused_driver_def)
  have new: "session_ok (ct_history s) (new_live_session run)" "lv_driver (new_live_session run) = run"
    by (simp_all add: new_live_session_def session_ok_def none)
  show ?thesis
    by (rule ordered_live[OF assms(1)])
       (use ok distinct new used used[symmetric] in \<open>auto split: if_splits\<close>)
qed

lemma ordered_input:
  assumes "ordered s" "dict_get (ct_live s) iid = Some x" "input_fits x c"
  shows "ordered (s\<lparr>ct_live := dict_set iid (x\<lparr>lv_client := hc_client_sequence c, lv_latest := None\<rparr>) (ct_live s),
           ct_history := ct_history s @ [Dispatched (lv_driver x) c]\<rparr>)"
proof -
  let ?d = "lv_driver x" and ?h = "ct_history s"
  have ok: "session_ok ?h x" using assms(1,2) unfolding ordered_def by blast
  obtain f where f: "lv_latest x = Some f" "hc_source_frame_sequence c = fr_sequence f"
      "hc_client_sequence c = lv_client x + 1"
    using assms(3) by (auto simp: input_fits_def)
  have later: "\<forall>a\<in>set (inputs_of ?d ?h). hc_source_frame_sequence a < hc_source_frame_sequence c"
    and seq: "hc_client_sequence c = int (length (inputs_of ?d ?h)) + 1"
    and frame: "hc_source_frame_sequence c \<le> lv_frame_sequence x"
    using ok f by (auto simp: session_ok_def)
  have inputs: "inputs_of d (?h @ [Dispatched ?d c]) = (if d = ?d then inputs_of d ?h @ [c] else inputs_of d ?h)" for d
    by (simp add: inputs_snoc input_of_def)
  have all: "in_order (inputs_of d (?h @ [Dispatched ?d c]))" for d
    using assms(1) in_order_snoc[OF _ seq later] by (simp add: inputs ordered_def)
  have new: "session_ok (?h @ [Dispatched ?d c]) (x\<lparr>lv_client := hc_client_sequence c, lv_latest := None\<rparr>)"
    using ok seq frame later by (force simp: session_ok_def inputs)
  note distinct = ordered_distinct[OF assms(1)]
  have others: "session_ok (?h @ [Dispatched ?d c]) z"
    if "dict_get (ct_live s) i = Some z" "i \<noteq> iid" for i z
  proof -
    have "lv_driver z \<noteq> ?d" using distinct[OF that(1) assms(2)] that(2) by blast
    moreover have "session_ok ?h z" using assms(1) that(1) unfolding ordered_def by blast
    ultimately show ?thesis by (simp add: inputs session_ok_same[of z "?h @ [Dispatched ?d c]" ?h])
  qed
  show ?thesis
    unfolding ordered_def using all new others distinct assms(2) by (auto split: if_splits)
qed


section \<open>Every operation keeps the order\<close>

named_theorems ordering \<open>operations that keep the inputs in order\<close>

lemma ordered_effect [ordering]: "\<forall>d c. ev \<noteq> Dispatched d c \<Longrightarrow> keeps ordered (effect ev answer)"
  by (rule keepsI) (simp add: effect_eval, erule ordered_same, simp_all add: inputs_quiet)

lemma ordered_record [ordering]: "keeps ordered (audit_event E ty run d)"
  unfolding audit_event_def by (rule ordered_effect) simp

lemma ordered_update [ordering]:
  "(\<And>s. ct_live (f s) = ct_live s) \<Longrightarrow> (\<And>s. ct_history (f s) = ct_history s) \<Longrightarrow> keeps ordered (update f)"
  by (rule keepsI) (simp add: update_def, erule ordered_same, simp_all)

lemma ordered_time [ordering]: "keeps ordered (read_time E)"
  unfolding read_time_def by (intro keeping ordering) simp_all

lemma ordered_get [ordering]: "keeps ordered (get_transition iid)"
  unfolding get_transition_def by (intro keeping)

lemma ordered_coordinate [ordering]: "keeps ordered (coordinate E iid req)"
  unfolding coordinate_def by (intro keeping ordering) simp_all

lemma ordered_invalidate [ordering]: "keeps ordered (invalidate_frame iid)"
proof (rule keepsI)
  fix s assume "ordered s"
  then show "ordered (snd (invalidate_frame iid s))"
    by (cases "dict_get (ct_live s) iid")
       (auto simp: invalidate_frame_def update_def session_ok_def intro!: ordered_change)
qed

lemma ordered_control_change [ordering]: "keeps ordered (control_change E iid req)"
  unfolding control_change_def by (intro keeping ordering)

lemma ordered_operator [ordering]: "keeps ordered (assert_operator E iid v operator)"
  unfolding assert_operator_def by (intro keeping ordering)

lemma ordered_drop_session [ordering]: "keeps ordered (drop_session iid)"
  by (rule keepsI) (simp add: drop_session_def update_def ordered_drop)

text \<open>A computation that works with the session it looked up.\<close>

abbreviation live_at :: "string \<Rightarrow> live_session \<Rightarrow> control \<Rightarrow> bool" where
  "live_at iid x s \<equiv> ordered s \<and> dict_get (ct_live s) iid = Some x"

definition on_live :: "string \<Rightarrow> live_session \<Rightarrow> 'a ctl \<Rightarrow> bool" where
  "on_live iid x m = triple (live_at iid x) m (\<lambda>_. ordered) (\<lambda>_. ordered)"

lemma on_liveD: "on_live iid x m \<Longrightarrow> live_at iid x s \<Longrightarrow> ordered (snd (m s))"
  unfolding on_live_def triple_def by (cases "m s"; cases "fst (m s)") force+

lemma on_live_keeps: "keeps ordered m \<Longrightarrow> on_live iid x m"
  unfolding keeps_def on_live_def by (erule triple_pre) simp

lemma on_live_first:
  "keeps (live_at iid x) m \<Longrightarrow> (\<And>y. on_live iid x (f y)) \<Longrightarrow> on_live iid x (bind_c m f)"
  unfolding on_live_def keeps_def
  by (rule triple_bind[where R = "\<lambda>_. live_at iid x"], erule triple_conseq) auto

lemma on_live_then: "keeps (live_at iid x) m \<Longrightarrow> on_live iid x k \<Longrightarrow> on_live iid x (then_c m k)"
  unfolding then_c_def by (rule on_live_first)

lemma on_live_last: "on_live iid x m \<Longrightarrow> (\<And>y. keeps ordered (f y)) \<Longrightarrow> on_live iid x (bind_c m f)"
  unfolding on_live_def keeps_def by (rule triple_bind)

lemma looked_up:
  assumes "\<And>x j. on_live iid x (f (Some x) j)" "\<And>j. keeps ordered (f None j)"
  shows "keeps ordered (bind_c (gets (\<lambda>s. (dict_get (ct_live s) iid, g s))) (\<lambda>(session, j). f session j))"
proof (rule keepsI)
  fix s assume o: "ordered s"
  show "ordered (snd (bind_c (gets (\<lambda>s. (dict_get (ct_live s) iid, g s))) (\<lambda>(session, j). f session j) s))"
  proof (cases "dict_get (ct_live s) iid")
    case None
    with keepsD[OF assms(2) o] show ?thesis by simp
  next
    case (Some x)
    have "ordered (snd (f (Some x) (g s) s))"
      by (rule on_liveD[OF assms(1)]) (simp add: o Some)
    then show ?thesis by (simp add: Some)
  qed
qed

lemma looked_up_only:
  assumes "\<And>x. on_live iid x (f (Some x))" "keeps ordered (f None)"
  shows "keeps ordered (bind_c (gets (\<lambda>s. dict_get (ct_live s) iid)) f)"
  using looked_up[of iid "\<lambda>session j. f session" "\<lambda>s. ()"] assms by (simp add: bind_c_def gets_def)

lemma record_live: "keeps (live_at iid x) (audit_event E ty run d)"
proof (rule keepsI)
  fix s assume "live_at iid x s"
  with keepsD[OF ordered_record] show "live_at iid x (snd (audit_event E ty run d s))"
    by (auto simp: audit_event_def effect_eval)
qed

lemma ordered_capture: "on_live iid x (capture_frame E iid x)"
proof -
  have see: "keeps (live_at iid x) (effect (Captured d) answer)" for d and answer :: "control_event list \<Rightarrow> surface_frame result"
  proof (rule keepsI)
    fix s assume "live_at iid x s"
    with keepsD[OF ordered_effect] show "live_at iid x (snd (effect (Captured d) answer s))"
      by (auto simp: effect_eval)
  qed
  let ?y = "x\<lparr>lv_frame_sequence := lv_frame_sequence x + 1\<rparr>"
  let ?P = "\<lambda>s. live_at iid ?y s \<and> session_ok (ct_history s) x"
  have count: "triple (live_at iid x) (put_session iid ?y) (\<lambda>_. ?P) (\<lambda>_. ordered)"
  proof (rule tripleI)
    fix s u t
    assume s: "live_at iid x s" and t: "put_session iid ?y s = (Inr u, t)"
    then have "session_ok (ct_history s) x" by (blast intro: ordered_session)
    moreover from this have "session_ok (ct_history s) ?y"
      by (auto simp: session_ok_def split: option.splits)
    ultimately show "?P t"
      using s t ordered_change[of s iid x ?y] by (auto simp: put_session_eval)
  qed (simp add: put_session_eval)
  have final: "triple ?P (bind_c (lift_c (mk_intervention_frame
          \<lparr>fr_content = ct, fr_sequence = lv_frame_sequence x + 1, fr_viewport = vp,
           fr_next_client_sequence = lv_client x + 1\<rparr>)) (\<lambda>f.
        then_c (put_session iid (x\<lparr>lv_frame_sequence := lv_frame_sequence x + 1, lv_latest := Some f\<rparr>))
        (ret f))) (\<lambda>_. ordered) (\<lambda>_. ordered)" for ct vp
  proof (rule tripleI)
    fix s f t
    let ?f = "\<lparr>fr_content = ct, fr_sequence = lv_frame_sequence x + 1, fr_viewport = vp,
           fr_next_client_sequence = lv_client x + 1\<rparr>"
    let ?z = "x\<lparr>lv_frame_sequence := lv_frame_sequence x + 1, lv_latest := Some ?f\<rparr>"
    assume s: "?P s" and t: "bind_c (lift_c (mk_intervention_frame ?f)) (\<lambda>f.
        then_c (put_session iid (x\<lparr>lv_frame_sequence := lv_frame_sequence x + 1, lv_latest := Some f\<rparr>))
        (ret f)) s = (Inr f, t)"
    then have "t = s\<lparr>ct_live := dict_set iid ?z (ct_live s)\<rparr>"
      by (auto simp: comp_defs put_session_eval mk_intervention_frame_def split: if_splits)
    moreover have "session_ok (ct_history s) ?z"
      using s by (auto simp: session_ok_def)
    ultimately show "ordered t" using s ordered_change[of s iid ?y ?z] by simp
  qed (auto simp: comp_defs put_session_eval split: sum.splits)
  show ?thesis
    unfolding capture_frame_def
  proof (rule on_live_first[OF see])
    fix frame
    show "on_live iid x (if b then ret z else then_c (put_session iid ?y) (bind_c (lift_c (mk_intervention_frame
          \<lparr>fr_content = sf_content frame, fr_sequence = lv_frame_sequence x + 1,
           fr_viewport = sf_viewport frame, fr_next_client_sequence = lv_client x + 1\<rparr>)) (\<lambda>f.
        then_c (put_session iid (x\<lparr>lv_frame_sequence := lv_frame_sequence x + 1, lv_latest := Some f\<rparr>))
        (ret f))))" for b z
      using on_live_keeps[OF keeps_ret[of ordered z], of iid x] triple_then[OF count final]
      by (simp add: on_live_def)
  qed
qed

lemma ordered_viewport: "keeps ordered (hc_viewport_frame E iid v operator)"
  unfolding hc_viewport_frame_def
  by (rule keeps_bind[OF ordered_operator], rule looked_up_only)
     (auto intro!: on_live_last[OF ordered_capture] keeping)

lemma ordered_apply: "on_live iid x (apply_input E iid x c)"
proof (cases "input_fits x c")
  case True
  show ?thesis
    unfolding on_live_def
    by (rule tripleI) (use ordered_input[OF _ _ True] in \<open>auto simp: apply_input_eval[OF True] split: sum.splits\<close>)
next
  case False
  then obtain e where "validate_input x c = Inl e"
    using validate_input_Inr[of x c] by (cases "validate_input x c") auto
  then show ?thesis by (intro on_live_keeps keepsI) (simp add: apply_input_def comp_defs)
qed

lemma ordered_audited: "on_live iid x m \<Longrightarrow> on_live iid x (audit_failure E run d m)"
  unfolding on_live_def audit_failure_def
  by (erule triple_catch[OF triple_conseq, where H = "\<lambda>_. ordered"])
     (auto intro!: keeps_then[unfolded keeps_def] ordered_record[unfolded keeps_def] keeps_raise[unfolded keeps_def])

lemma ordered_send: "keeps ordered (send_input E iid v operator command)"
proof -
  have some: "on_live iid x (if \<not> j then raise e
         else then_c (lift_c (validate_input x command))
           (let details = input_details iid operator sid command in
            then_c (audit_event E ''human_input_dispatched'' run details)
            (bind_c (audit_failure E run details (apply_input E iid x command)) (\<lambda>receipt.
             then_c (audit_event E ''human_input_applied'' run details) (ret receipt)))))" for x j e run sid
    unfolding Let_def
    by (auto intro!: on_live_keeps[OF keeps_raise] on_live_then[OF keeps_lift] on_live_then[OF record_live]
        on_live_last[OF ordered_audited[OF ordered_apply]] keeps_then keeps_ret ordered_record)
  show ?thesis
    unfolding send_input_def
    by (rule keeps_bind[OF ordered_operator], rule looked_up, simp only: option.case, rule some)
       (simp add: keeps_raise)
qed


lemma ordered_close: "keeps ordered (close_live E iid)"
  unfolding close_live_def by (intro keeping ordering) simp_all

lemma ordered_reopen [ordering]: "keeps ordered (reopen_resume E iid e)"
  unfolding reopen_resume_def by (intro keeping ordering)

lemma call_engine_effect:
  "ct_live (snd (call_engine E run m s)) = ct_live s" "ct_history (snd (call_engine E run m s)) = ct_history s"
  by (simp_all add: call_engine_def Let_def split: prod.splits)

lemma ordered_call [ordering]: "keeps ordered (call_engine E run m)"
  by (rule keepsI) (erule ordered_same, simp_all add: call_engine_effect)

lemma ordered_returned [ordering]: "keeps ordered (returned x)"
  unfolding returned_def by (intro keeping ordering)

lemma ordered_resume_replay [ordering]: "keeps ordered (resume_replay E d c v outcome)"
  unfolding resume_replay_def by (intro keeping ordering) simp

lemma ordered_failure [ordering]: "keeps ordered (resume_failure E run)"
  unfolding resume_failure_def by (intro keeping ordering)

lemma ordered_settle [ordering]: "keeps ordered (settle_result E iid resumed result)"
proof -
  have moved: "on_live iid x (then_c (drop_session iid) (then_c (put_session j x) (ret z)))" for x j and z :: resumption
    unfolding on_live_def
    by (rule tripleI) (auto simp: comp_defs drop_session_def put_session_eval ordered_move)
  have again: "keeps ordered (bind_c (gets (\<lambda>s. dict_get (ct_live s) iid)) (\<lambda>session.
          case session of None \<Rightarrow> raise e
          | Some x \<Rightarrow> then_c (drop_session iid) (then_c (put_session j x) (ret z))))" for j e and z :: resumption
    by (rule looked_up_only, simp only: option.case, rule moved) (simp add: keeps_raise)
  have over: "keeps ordered (bind_c (catch_c (effect ResultFinalized (\<lambda>h. ce_finalize E h r)) Some
                    (\<lambda>e. then_c (close_live E iid) (raise e))) (\<lambda>finalized.
          then_c (close_live E iid) (ret (InterventionResume resumed (Some finalized)))))" for r
    by (intro keeping ordering ordered_close) simp
  show ?thesis unfolding settle_result_def using again over by (cases result) simp_all
qed

lemma ordered_continue [ordering]: "keeps ordered (continue_run E iid run x managed discovery outcome resumed)"
  unfolding continue_run_def by (intro keeping ordering) simp

lemma ordered_complete [ordering]: "keeps ordered (complete_and_continue E iid run v x managed discovery outcome)"
  unfolding complete_and_continue_def by (intro keeping ordering) simp_all

lemma ordered_validate [ordering]: "keeps ordered (validate_and_continue E iid run v x managed discovery)"
  unfolding validate_and_continue_def validated_def by (intro keeping ordering) simp_all

lemma ordered_begin_resume: "keeps ordered (hc_begin_resume E iid v operator)"
  unfolding hc_begin_resume_def Let_def by (intro keeping ordering)

lemma ordered_terminate: "keeps ordered (hc_terminate E iid v who resolution)"
proof -
  have drop: "keeps ordered (update (\<lambda>s. s\<lparr>ct_live := dict_pop iid (ct_live s),
      ct_waits := f s, ct_continuations := g s\<rparr>))" for f g
    by (rule keepsI)
       (auto simp: update_def intro: ordered_same[OF ordered_drop])
  show ?thesis
    unfolding hc_terminate_def by (intro keeping ordering drop) simp_all
qed

lemma unused_same:
  "unused_driver d s \<Longrightarrow> ct_live t = ct_live s \<Longrightarrow> ct_history t = ct_history s \<Longrightarrow> unused_driver d t"
  by (simp add: unused_driver_def)

lemma ordered_execute: "ordered s \<Longrightarrow> unused_driver (rq_run_id rq) s \<Longrightarrow> ordered (snd (managed_execute E rq s))"
proof -
  let ?run = "rq_run_id rq" and ?P = "\<lambda>s. ordered s \<and> unused_driver (rq_run_id rq) s"
  have quiet: "keeps ?P m" if "\<And>s. ct_live (snd (m s)) = ct_live s" "\<And>s. ct_history (snd (m s)) = ct_history s"
    for m :: "'x ctl"
    by (rule keepsI) (auto intro: ordered_same unused_same simp: that)
  have run: "triple ?P (bind_c (call_engine E ?run (\<lambda>V. execute V rq)) returned) (\<lambda>_. ?P) (\<lambda>_. ?P)"
    by (rule triple_bind[OF triple_keeps[OF quiet] triple_keeps[OF quiet]])
       (simp_all add: call_engine_effect returned_def ret_def raise_def split: option.splits)
  have closing: "triple ?P (then_c (effect (DriverClosed ?run) (ce_close E)) k) (\<lambda>_. Q) (\<lambda>_. ordered)"
    if "triple ordered k (\<lambda>_. Q) (\<lambda>_. ordered)" for k :: "run_result ctl" and Q
    by (rule triple_then[OF triple_pre[OF triple_keeps[OF ordered_effect]] that]) simp_all
  have crash: "triple ?P (then_c (effect (DriverClosed ?run) (ce_close E)) (raise e :: run_result ctl))
      (\<lambda>_. ?P) (\<lambda>_. ordered)" for e
    by (rule closing) (rule triple_raise)
  have returns: "triple ordered (ret x) (\<lambda>_. ordered) (\<lambda>_. ordered)" for x :: run_result
    by (rule triple_ret)
  have kept: "triple ?P (keep_or_close E ?run r) (\<lambda>_. ordered) (\<lambda>_. ordered)" for r
  proof (cases "is_intervention r")
    case None
    then have "keep_or_close E ?run r = then_c (effect (DriverClosed ?run) (ce_close E)) (ret r)"
      by (cases r) (simp_all add: keep_or_close_def is_intervention_def)
    with closing[OF returns] show ?thesis by simp
  next
    case (Some iid)
    then obtain x where r: "r = InterventionRequiredResult x"
      by (auto simp: is_intervention_def split: run_result.splits)
    show ?thesis
      by (rule tripleI) (auto simp: keep_or_close_def r then_c_def bind_c_def put_session_eval ret_def
          intro: ordered_fresh)
  qed
  have whole: "triple ?P (managed_execute E rq) (\<lambda>_. ordered) (\<lambda>_. ordered)"
    unfolding managed_execute_def
  proof (rule triple_then[where R = ?P])
    show "triple ?P (update (\<lambda>s. s\<lparr>ct_engines := dict_pop ?run (ct_engines s)\<rparr>)) (\<lambda>_. ?P) (\<lambda>_. ordered)"
      by (rule triple_pre[OF triple_update]) (auto intro: ordered_same unused_same)
    show "triple ?P (bind_c (catch_c (bind_c (call_engine E ?run (\<lambda>V. execute V rq)) returned) Some
              (\<lambda>e. then_c (effect (DriverClosed ?run) (ce_close E)) (raise e))) (keep_or_close E ?run))
        (\<lambda>_. ordered) (\<lambda>_. ordered)"
      by (rule triple_bind[OF triple_catch[where H = "\<lambda>_. ?P"] kept],
          rule triple_conseq[OF run], simp_all add: crash)
  qed
  show "ordered (snd (managed_execute E rq s))" if P: "ordered s" "unused_driver ?run s"
  proof (cases "managed_execute E rq s")
    case (Pair r t)
    with tripleD[OF whole, of s _ t] P have "ordered t" by (cases r) simp_all
    with Pair show ?thesis by simp
  qed
qed

lemma ordered_run: "control_run E s t \<Longrightarrow> ordered s \<Longrightarrow> ordered t"
proof (induction rule: control_run.induct)
  case (cr_step s t u)
  then have t: "ordered t" by blast
  note change = keepsD[OF ordered_control_change t]
  from cr_step(2) show ?case
  proof (cases rule: control_step.cases)
    case cs_engine
    with t show ?thesis by (auto intro: ordered_same)
  qed (use t change in \<open>auto simp: reached_def hc_claim_def hc_release_def hc_heartbeat_def
      intro: keepsD[OF ordered_viewport] keepsD[OF ordered_send] keepsD[OF ordered_begin_resume]
        keepsD[OF ordered_terminate] ordered_execute\<close>)
qed

definition idle :: "control \<Rightarrow> bool" where
  "idle s = (ct_live s = [] \<and> ct_history s = [])"

lemma idle_ordered: "idle s \<Longrightarrow> ordered s"
  by (simp add: idle_def ordered_def inputs_of_def in_order_def)

text \<open>
  Human inputs reach a session once and in order. In every history of the service that starts
  without live sessions, the inputs sent to one session are numbered from one without gaps or
  repetitions, and each was made on a later frame than the one before: no frame serves two inputs.
\<close>

theorem inputs_arrive_in_order:
  assumes "idle s" "control_run E s t"
  shows "map hc_client_sequence (inputs_of d (ct_history t)) =
           map int [1..<Suc (length (inputs_of d (ct_history t)))] \<and>
         sorted_wrt (\<lambda>a b. hc_source_frame_sequence a < hc_source_frame_sequence b)
           (inputs_of d (ct_history t))"
  using ordered_run[OF assms(2) idle_ordered[OF assms(1)]] by (simp add: ordered_def in_order_def)

section \<open>A sample session under human control\<close>

text \<open>Ann holds the claimed intervention of the sample session, and every call outside answers.\<close>

definition demo_viewport :: viewport where
  "demo_viewport = \<lparr>vp_width = 100, vp_height = 100, vp_scale = 1\<rparr>"

definition demo_env :: control_env where
  "demo_env =
     \<lparr>ce_ttl = 100, ce_clock = (\<lambda>n. 5), ce_record = (\<lambda>h. Inr ()),
      ce_frame = (\<lambda>h. Inr \<lparr>sf_content = png_signature, sf_viewport = demo_viewport\<rparr>),
      ce_input = (\<lambda>h. Inr ()), ce_engine = (\<lambda>run. quiet_environment),
      ce_validate_discovery = (\<lambda>h. Inr ()),
      ce_finalize = (\<lambda>h r. Inr r), ce_close = (\<lambda>h. Inr ()), ce_manifest_key = (\<lambda>h run. ''key''),
      ce_store_json = Inr\<rparr>"

definition demo_idle :: control where
  "demo_idle =
     \<lparr>ct_store = handoff_execs 100 demo_claimed, ct_live = [], ct_journals = [demo_rid],
      ct_continuations = [], ct_engines = [], ct_waits = [], ct_history = [], ct_tick = 0\<rparr>"

definition demo_started :: control where
  "demo_started = reached (keep_or_close demo_env demo_rid (InterventionRequiredResult
     \<lparr>ir_run_id = demo_rid, ir_intervention_id = demo_iid, ir_code = ''login_blocked'',
      ir_step_id = None\<rparr>)) demo_idle"

definition demo_seen :: control where
  "demo_seen = reached (hc_viewport_frame demo_env demo_iid 3 ''ann'') demo_started"

definition demo_command :: human_input_command where
  "demo_command =
     \<lparr>hc_client_sequence = 1, hc_source_frame_sequence = 1, hc_viewport = demo_viewport,
      hc_action = HumanKeyInput KEY_ENTER\<rparr>"

definition demo_typed :: control where
  "demo_typed = reached (send_input demo_env demo_iid 3 ''ann'' demo_command) demo_seen"

definition history_kinds :: "control \<Rightarrow> string list" where
  "history_kinds s = map (\<lambda>ev. case ev of Recorded ty run d \<Rightarrow> ty | Captured d \<Rightarrow> ''captured''
     | Dispatched d c \<Rightarrow> ''dispatched'' | _ \<Rightarrow> ''other'') (ct_history s)"

lemma demo_history:
  "history_kinds demo_seen = [''captured'']"
  "history_kinds demo_typed =
     [''captured'', ''human_input_dispatched'', ''dispatched'', ''human_input_applied'']"
  by code_simp+

lemma demo_sent:
  "take 1 (ct_history demo_typed) = ct_history demo_seen"
  "Dispatched demo_rid demo_command \<in> set (drop 1 (ct_history demo_typed))"
  by code_simp+

lemma human_input_is_authorized_witness:
  "\<exists>i x ty details. operator_holds demo_env demo_seen demo_iid 3 ''ann'' i \<and>
     dict_get (ct_live demo_seen) demo_iid = Some x \<and> input_fits x demo_command \<and>
     drop 1 (ct_history demo_typed) =
       [Recorded ''human_input_dispatched'' (int_run_id i)
          (input_details demo_iid ''ann'' (int_session_id i) demo_command),
        Dispatched demo_rid demo_command, Recorded ty (int_run_id i) details]"
proof -
  obtain r where r: "send_input demo_env demo_iid 3 ''ann'' demo_command demo_seen = (r, demo_typed)"
    by (metis demo_typed_def reached_def prod.collapse)
  have "ct_history demo_typed = ct_history demo_seen @ drop 1 (ct_history demo_typed)"
    by (metis append_take_drop_id demo_sent(1))
  from human_input_is_authorized[OF r this demo_sent(2)] show ?thesis by auto
qed

lemma control_is_handoff_run_witness:
  "control_run demo_env demo_seen
     (reached (hc_release demo_env demo_iid 3 ''ann'') demo_seen) \<and>
   map_option int_status (dict_get (hs_interventions
     (ct_store (reached (hc_release demo_env demo_iid 3 ''ann'') demo_seen))) demo_iid) = Some OPEN \<and>
   handoff_run 100 (ct_store demo_seen)
     (ct_store (reached (hc_release demo_env demo_iid 3 ''ann'') demo_seen))"
proof -
  have run: "control_run demo_env demo_seen (reached (hc_release demo_env demo_iid 3 ''ann'') demo_seen)"
    using cr_step[OF cr_refl cs_release] .
  have "map_option int_status (dict_get (hs_interventions
     (ct_store (reached (hc_release demo_env demo_iid 3 ''ann'') demo_seen))) demo_iid) = Some OPEN"
    by code_simp
  with run control_is_handoff_run[OF run] show ?thesis by (simp add: demo_env_def)
qed

end
