(* ===== verification/RuntimePolicy.thy ===== *)
theory RuntimePolicy
  imports ApplicationGuarantees PolicyGuarantees
begin

text \<open>
  The effective policies of runs (\<^verbatim>\<open>runtime/composition.py\<close>): the policy of a
  replay is built from the platform, the registered application and the artifact, the policy of a
  discovery from the platform and the registered application. The theorem says what a policy
  built this way lets through.
\<close>

section \<open>Definitions\<close>

definition PLATFORM_ACTIONS :: "string list" where
  "PLATFORM_ACTIONS =
     [''navigate'', ''type'', ''click'', ''select'', ''press_keys'', ''scroll'', ''wait_for'',
      ''assert'', ''extract'', ''switch_context'']"

text \<open>\<open>PolicyLayer(...)\<close>; without classes, credentials and secrets are forbidden.\<close>

definition runtime_layer ::
  "string \<Rightarrow> string \<Rightarrow> string list \<Rightarrow> string list \<Rightarrow> risk \<Rightarrow> data_classification list
     \<Rightarrow> policy_layer result" where
  "runtime_layer name origin routes actions maximum forbidden =
     mk_policy_layer
       \<lparr>pl_name = name, pl_origins = [origin], pl_routes = routes, pl_actions = actions,
        pl_maximum_risk = maximum, pl_forbidden = forbidden\<rparr>"

definition default_forbidden :: "data_classification list" where
  "default_forbidden = [CREDENTIAL, SECRET]"

definition nothing_allowed :: effective_policy where
  "nothing_allowed =
     \<lparr>ep_layers = [''platform'', ''application'', ''tenant'', ''capability'', ''invocation''],
      ep_origins = [], ep_routes = [], ep_actions = [], ep_maximum_risk = READ_ONLY,
      ep_forbidden = default_forbidden\<rparr>"

text \<open>The layers in order; the first one that is not well formed raises.\<close>

fun build_layers :: "policy_layer result list \<Rightarrow> policy_layer list result" where
  "build_layers [] = Inr []"
| "build_layers (l # ls) = bind_r l (\<lambda>x. bind_r (build_layers ls) (\<lambda>xs. Inr (x # xs)))"

definition replay_layers ::
  "capability_policy \<Rightarrow> string \<Rightarrow> application_policy option \<Rightarrow> policy_layer result list" where
  "replay_layers cap origin app =
     (let routes = (case app of
            None \<Rightarrow> cy_route_patterns cap
          | Some a \<Rightarrow> [p \<leftarrow> cy_route_patterns cap. p \<in> set (ap_route_patterns a)]);
          actions = (case app of None \<Rightarrow> PLATFORM_ACTIONS | Some a \<Rightarrow> ap_action_types a);
          maximum = (case app of None \<Rightarrow> SENSITIVE | Some a \<Rightarrow> ap_maximum_risk a);
          forbidden = (case app of None \<Rightarrow> default_forbidden | Some a \<Rightarrow> ap_forbidden a)
      in
      [runtime_layer ''platform'' origin routes PLATFORM_ACTIONS SENSITIVE default_forbidden,
       runtime_layer ''application'' origin routes actions maximum forbidden,
       runtime_layer ''tenant'' origin routes actions maximum default_forbidden,
       runtime_layer ''capability'' origin routes (cy_action_types cap) (cy_maximum_risk cap) default_forbidden,
       runtime_layer ''invocation'' origin routes (cy_action_types cap) (cy_maximum_risk cap) default_forbidden])"

definition effective_replay_policy ::
  "capability_artifact \<Rightarrow> string \<Rightarrow> application_registry option \<Rightarrow> effective_policy result" where
  "effective_replay_policy a origin registry =
     (case registry of
        None \<Rightarrow> bind_r (build_layers (replay_layers (art_policy a) origin None)) intersect_policies
      | Some reg \<Rightarrow>
          (case get_application reg (cm_application_family (art_capability a)) of
             Inl e \<Rightarrow> Inr nothing_allowed
           | Inr r \<Rightarrow> bind_r (build_layers (replay_layers (art_policy a) origin (Some (ar_policy r))))
               intersect_policies))"

text \<open>The policy of \<open>executor_factory\<close>: at the registered origin, or the default one.\<close>

definition run_policy ::
  "application_registry \<Rightarrow> string \<Rightarrow> capability_artifact \<Rightarrow> effective_policy result" where
  "run_policy reg default_origin a =
     effective_replay_policy a
       (case get_application reg (cm_application_family (art_capability a)) of
          Inl e \<Rightarrow> default_origin | Inr r \<Rightarrow> ar_origin r)
       (Some reg)"

text \<open>\<open>discovery_policy\<close>.\<close>

definition discovery_policy :: "application_registry \<Rightarrow> string \<Rightarrow> effective_policy result" where
  "discovery_policy reg family =
     bind_r (get_application reg family) (\<lambda>r.
     let p = ar_policy r in
     bind_r (build_layers
       [runtime_layer ''platform'' (ar_origin r) (ap_route_patterns p) PLATFORM_ACTIONS SENSITIVE default_forbidden,
        runtime_layer ''application'' (ar_origin r) (ap_route_patterns p) (ap_action_types p)
          (ap_maximum_risk p) (ap_forbidden p)])
     intersect_policies)"

section \<open>What a run may do\<close>

lemma layer_Inr: "runtime_layer n og rs acts mx fb = Inr l \<Longrightarrow>
   l = \<lparr>pl_name = n, pl_origins = [og], pl_routes = rs, pl_actions = acts, pl_maximum_risk = mx, pl_forbidden = fb\<rparr>"
  by (auto simp: runtime_layer_def mk_policy_layer_def bind_r_Inr_iff split: if_splits)

lemma below_sensitive: "(r :: risk) < SENSITIVE \<Longrightarrow> r \<le> SENSITIVE"
  by (rule less_imp_le)

lemma registered_replay_policy:
  assumes "get_application reg (cm_application_family (art_capability a)) = Inr r"
    and "effective_replay_policy a origin (Some reg) = Inr p"
  shows "ep_origins p = [origin]"
    and "set (ep_routes p) = set (cy_route_patterns (art_policy a)) \<inter> set (ap_route_patterns (ar_policy r))"
    and "set (ep_actions p) = set PLATFORM_ACTIONS \<inter> set (ap_action_types (ar_policy r)) \<inter>
           set (cy_action_types (art_policy a))"
    and "ep_maximum_risk p = min SENSITIVE (min (ap_maximum_risk (ar_policy r)) (cy_maximum_risk (art_policy a)))"
    and "set (ep_forbidden p) = {CREDENTIAL, SECRET} \<union> set (ap_forbidden (ar_policy r))"
  using assms(2)
  by (auto simp: effective_replay_policy_def assms(1) replay_layers_def Let_def bind_r_Inr_iff
      intersect_policies_def default_forbidden_def min.commute min.left_commute min.assoc
      dest!: layer_Inr)

text \<open>
  C31. A run stays within its registration and its artifact. Under the policy the runtime builds for
  a replay, an action of automation is allowed exactly on the registered origin, on a route that
  both the registration and the artifact list, for an action type that the platform, the
  registration and the artifact list, on data that neither forbids, at a risk below sensitive and
  within both ceilings; and an unregistered application is allowed nothing at all.
\<close>

theorem run_policy_allows_iff:
  assumes "run_policy reg default_origin a = Inr p" "evaluate_policy did now p c = Inr d"
    and "ax_principal_type c = PRINCIPAL_AUTOMATION" "ax_control_owner c = ''automation''"
  shows "pd_decision d = ALLOW \<longleftrightarrow>
    (\<exists>r. get_application reg (cm_application_family (art_capability a)) = Inr r \<and>
       canonical_origin (ax_origin c) = Some (ar_origin r) \<and>
       (\<exists>pat. pat \<in> set (cy_route_patterns (art_policy a)) \<and>
          pat \<in> set (ap_route_patterns (ar_policy r)) \<and> policy_route_matches (ax_route c) pat) \<and>
       ax_action_type c \<in> set PLATFORM_ACTIONS \<inter> set (ap_action_types (ar_policy r)) \<inter>
         set (cy_action_types (art_policy a)) \<and>
       ax_classification c \<notin> Some ` ({CREDENTIAL, SECRET} \<union> set (ap_forbidden (ar_policy r))) \<and>
       infer_risk c < SENSITIVE \<and> infer_risk c \<le> ap_maximum_risk (ar_policy r) \<and>
       infer_risk c \<le> cy_maximum_risk (art_policy a))"
proof (cases "get_application reg (cm_application_family (art_capability a))")
  case (Inl e)
  with assms(1) have "ep_origins p = []"
    by (auto simp: run_policy_def effective_replay_policy_def nothing_allowed_def)
  with Inl show ?thesis by (simp add: allow_iff[OF assms(2)])
next
  case (Inr r)
  with assms(1) have "effective_replay_policy a (ar_origin r) (Some reg) = Inr p"
    by (simp add: run_policy_def)
  note p = registered_replay_policy[OF Inr this]
  have risk: "infer_risk c < SENSITIVE \<and> infer_risk c \<le> ep_maximum_risk p \<longleftrightarrow>
      infer_risk c < SENSITIVE \<and> infer_risk c \<le> ap_maximum_risk (ar_policy r) \<and>
      infer_risk c \<le> cy_maximum_risk (art_policy a)"
    unfolding p(4) min.bounded_iff using below_sensitive by blast
  have classes: "(\<forall>k. ax_classification c = Some k \<longrightarrow> k \<notin> set (ep_forbidden p)) \<longleftrightarrow>
      ax_classification c \<notin> Some ` ({CREDENTIAL, SECRET} \<union> set (ap_forbidden (ar_policy r)))"
    by (auto simp: p(5))
  show ?thesis
    unfolding allow_iff[OF assms(2)] risk classes p(1,2,3) Inr
    by (simp add: assms(3,4)) blast
qed

definition run_registration :: application_registration where
  "run_registration = sample_registration
     \<lparr>ar_origin := ''http://localhost'',
      ar_policy := \<lparr>ap_route_patterns = [''/accounts/:id'', ''/home''],
        ap_action_types = [''navigate'', ''click''], ap_maximum_risk = SENSITIVE,
        ap_forbidden = [CREDENTIAL, SECRET, FINANCIAL]\<rparr>\<rparr>"

definition run_artifact :: capability_artifact where
  "run_artifact = sample_artifact
     \<lparr>art_policy := \<lparr>cy_action_types = [''click'', ''extract''], cy_entry_points = [''home''],
        cy_maximum_risk = REVERSIBLE, cy_route_patterns = [''/accounts/:id''],
        cy_forbidden_text_inputs = [], cy_output_redaction = []\<rparr>\<rparr>"

definition run_action :: action_context where
  "run_action = demo_action\<lparr>ax_origin := ''http://localhost''\<rparr>"

definition run_decision :: "policy_decision result" where
  "run_decision =
     bind_r (run_policy [(''billing'', run_registration)] ''http://demo'' run_artifact)
       (\<lambda>p. evaluate_policy (new_id (replicate 32 (CHR ''0'')) DECISION) (utc 0) p run_action)"

lemma run_policy_allows_iff_witness:
  "\<exists>d. run_decision = Inr d \<and> pd_decision d = ALLOW \<and>
     infer_risk run_action \<le> cy_maximum_risk (art_policy run_artifact)"
proof -
  have "case run_decision of Inl e \<Rightarrow> False | Inr d \<Rightarrow> pd_decision d = ALLOW" by code_simp
  then obtain d where d: "run_decision = Inr d" "pd_decision d = ALLOW"
    by (auto split: sum.splits)
  from d(1) obtain p where
    p: "run_policy [(''billing'', run_registration)] ''http://demo'' run_artifact = Inr p"
    and e: "evaluate_policy (new_id (replicate 32 (CHR ''0'')) DECISION) (utc 0) p run_action = Inr d"
    unfolding run_decision_def bind_r_Inr_iff by blast
  have "ax_principal_type run_action = PRINCIPAL_AUTOMATION" "ax_control_owner run_action = ''automation''"
    by (simp_all add: run_action_def demo_action_def)
  from run_policy_allows_iff[OF p e this] d show ?thesis by blast
qed

text \<open>An accepted registration whose origin ends in a slash has no policy: its runs cannot start.\<close>

lemma slash_origin_has_no_policy:
  "check_registration sample_registration = Inr () \<and>
   run_policy [(''billing'', sample_registration)] ''http://demo'' sample_artifact =
     Inl (ValueError ''policy origins must be credential-free HTTP origins'')"
  by code_simp

end
