(* ===== verification/Compiler.thy ===== *)
theory Compiler
  imports Applications
begin

text \<open>
  The compiler of discovery traces (\<^verbatim>\<open>discovery/compiler.py\<close>): from the recorded steps
  of a verified discovery, and the draft of the capability, to a parsed artifact. A frozenset is
  the list of its elements in iteration order. The hash of an artifact and the check of a regular
  expression are parameters; every string that becomes a field of the artifact is stripped, as its
  models do. All the errors of the compiler are ValueErrors.
\<close>

section \<open>Arguments\<close>

record compiler =
  cz_now :: datetime
  cz_compiles :: "string \<Rightarrow> bool"
  cz_hash :: "capability_artifact \<Rightarrow> string"
  cz_version :: string
  cz_adapter :: string

record trace =
  tx_run_id :: string
  tx_goal :: string
  tx_family :: string
  tx_tenant :: string
  tx_entry_point :: string
  tx_steps :: "recorded_step list"
  tx_final :: normalized_observation
  tx_provider :: string
  tx_model :: string
  tx_manifest :: string
  tx_routes :: "string list option"
  tx_rendered :: bool
  tx_variant :: string
  tx_contract :: "string option"
  tx_maximum_risk :: "risk option"
  tx_actions :: "string list option"
  tx_required :: "landmark list"
  tx_forbidden :: "landmark list"

section \<open>The trace\<close>

definition compilation_error :: "string \<Rightarrow> exn" where
  "compilation_error message = ValueError message"

definition step_source :: "action \<Rightarrow> value_source option" where
  "step_source a = (case a of TypeAction v c \<Rightarrow> Some v | SelectAction v \<Rightarrow> Some v | _ \<Rightarrow> None)"

definition extracted_output :: "recorded_step \<Rightarrow> string list" where
  "extracted_output r = (case rd_action r of ExtractAction out tr \<Rightarrow> [out] | _ \<Rightarrow> [])"

definition coordinates_only :: "locator_bundle \<Rightarrow> bool" where
  "coordinates_only t =
     (lb_visual_candidates t = [] \<and> lb_candidates t \<noteq> [] \<and>
      list_all (\<lambda>c. lc_strategy c = LOC_COORDINATES) (lb_candidates t))"

text \<open>\<open>_validate_trace\<close>: the checks on one recording, then the missing outputs.\<close>

definition validate_recording :: "capability_draft \<Rightarrow> recorded_step \<Rightarrow> unit result" where
  "validate_recording d r = checks
     [(rd_target r \<noteq> None \<or> action_kind (rd_action r) \<notin> set TARGETED_ACTIONS,
         ''every target action requires a stable target''),
      (case step_source (rd_action r) of
         Some (InputValue p) \<Rightarrow>
           hd (split_on (CHR ''.'') p) \<in> set (map fst (oc_properties (dr_inputs d)))
       | _ \<Rightarrow> True, ''trace references an undeclared input''),
      (set (extracted_output r) \<subseteq> set (map fst (oc_properties (dr_outputs d))),
         ''trace extracts an undeclared output''),
      (\<not> (case rd_target r of None \<Rightarrow> False | Some t \<Rightarrow> coordinates_only t),
         ''coordinate-only targets cannot be published'')]"

definition validate_trace :: "capability_draft \<Rightarrow> recorded_step list \<Rightarrow> unit result" where
  "validate_trace d steps =
     (if steps = [] then Inl (compilation_error ''trace contains no actions'')
      else bind_r (each (validate_recording d) steps) (\<lambda>_.
        checks [(set (oc_required (dr_outputs d)) \<subseteq> set (concat (map extracted_output steps)),
                  ''trace is missing required outputs'')]))"

section \<open>Completion\<close>

fun add_label :: "string list \<Rightarrow> visual_candidate list \<Rightarrow> string list" where
  "add_label labels [] = labels"
| "add_label labels (RenderedFieldValueCandidate label m rel # cs) =
     (if label \<notin> set labels then labels @ [label] else add_label labels cs)"
| "add_label labels (c # cs) = add_label labels cs"

definition step_label :: "string list \<Rightarrow> recorded_step \<Rightarrow> string list" where
  "step_label labels r =
     (case (rd_action r, rd_target r) of
        (ExtractAction out tr, Some t) \<Rightarrow> add_label labels (lb_visual_candidates t)
      | _ \<Rightarrow> labels)"

definition mk_condition :: "condition \<Rightarrow> condition result" where
  "mk_condition c = bind_r (check_condition c) (\<lambda>_. Inr c)"

text \<open>\<open>_latest_surface_condition\<close>; verified extraction labels stand in for a missing assertion.\<close>

definition label_condition :: "string list \<Rightarrow> condition option result" where
  "label_condition labels =
     (case labels of
        [] \<Rightarrow> Inr None
      | _ \<Rightarrow>
          bind_r (map_r (\<lambda>l. mk_condition (RenderedTextCondition (trim l) MATCH_EXACT)) labels) (\<lambda>cs.
          case cs of [c] \<Rightarrow> Inr (Some c) | _ \<Rightarrow> bind_r (mk_condition (AllCondition cs)) (\<lambda>c. Inr (Some c))))"

definition latest_surface_condition :: "recorded_step list \<Rightarrow> condition option result" where
  "latest_surface_condition steps =
     (case find (\<lambda>c. surface_conditions c \<noteq> []) (concat (map (\<lambda>r. rev (rd_verified r)) (rev steps))) of
        Some c \<Rightarrow> Inr (Some c)
      | None \<Rightarrow> label_condition (fold (\<lambda>r ls. step_label ls r) steps []))"

section \<open>Routes\<close>

definition trace_route_matches :: "string \<Rightarrow> string \<Rightarrow> bool" where
  "trace_route_matches route pattern =
     (starts_with ''/'' route \<and> \<not> contains_str ''?'' route \<and> \<not> contains_str ''#'' route \<and>
      list_all2 part_matches (route_parts route) (route_parts pattern))"

definition route_specificity :: "string \<Rightarrow> nat \<times> nat" where
  "route_specificity pattern =
     (let parts = route_parts pattern in
      (length [p \<leftarrow> parts. \<not> (p = ''*'' \<or> starts_with '':'' p)], length parts))"

text \<open>Python compares the pairs lexicographically; \<open>max\<close> keeps the first of the largest.\<close>

definition more_specific :: "string \<Rightarrow> string \<Rightarrow> bool" where
  "more_specific p q =
     (let (a, b) = route_specificity p; (c, d) = route_specificity q in c < a \<or> c = a \<and> d < b)"

definition most_specific :: "string \<Rightarrow> string list \<Rightarrow> string" where
  "most_specific p ps = fold (\<lambda>q best. if more_specific q best then q else best) ps p"

definition narrowest_route_pattern :: "string \<Rightarrow> string list option \<Rightarrow> string result" where
  "narrowest_route_pattern route patterns =
     (if \<not> starts_with ''/'' route
      then Inl (compilation_error ''trace contains an invalid observed route'')
      else case patterns of
        None \<Rightarrow> Inr route
      | Some [] \<Rightarrow> Inr route
      | Some ps \<Rightarrow>
          (case filter (trace_route_matches route) ps of
             [] \<Rightarrow> Inl (compilation_error ''trace observed a route outside the registered policy'')
           | q # qs \<Rightarrow> Inr (most_specific q qs)))"

definition observed_routes :: "trace \<Rightarrow> string list" where
  "observed_routes x =
     filter (starts_with ''/'')
       (concat (map (\<lambda>r. [obs_route (rd_before r), obs_route (rd_after r)]) (tx_steps x)) @
        [obs_route (tx_final x)])"

section \<open>Steps\<close>

fun semantic_candidate :: "visual_candidate \<Rightarrow> bool" where
  "semantic_candidate (InputTextCandidate p a r) = True"
| "semantic_candidate (RenderedTextCandidate v m) = True"
| "semantic_candidate (RenderedLabeledControlCandidate v m) = True"
| "semantic_candidate (RenderedFieldValueCandidate v m r) = True"
| "semantic_candidate (RenderedGroupImageCandidate v m k h) = True"
| "semantic_candidate (OcrRelativeCandidate c) =
     (or_target_text c \<noteq> None \<and> or_relative_region c = None \<and> or_search_region c = None)"
| "semantic_candidate _ = False"

definition visual_of :: "recorded_step \<Rightarrow> visual_candidate list" where
  "visual_of r = (case rd_target r of None \<Rightarrow> [] | Some t \<Rightarrow> lb_visual_candidates t)"

definition semantic_visual_mode :: "recorded_step list \<Rightarrow> bool" where
  "semantic_visual_mode steps =
     (list_ex (\<lambda>r. visual_of r \<noteq> []) steps \<and>
      list_all (\<lambda>r. list_all semantic_candidate (visual_of r)) steps)"

definition two_digits :: "nat \<Rightarrow> string" where
  "two_digits n = (let s = show_nat n in if length s < 2 then CHR ''0'' # s else s)"

definition compile_step :: "nat \<Rightarrow> recorded_step \<Rightarrow> step result" where
  "compile_step index r =
     (let s = \<lparr>st_id = ''step_'' @ two_digits index @ ''_'' @ action_kind (rd_action r),
               st_name = trim (case rd_target r of None \<Rightarrow> action_kind (rd_action r)
                                 | Some t \<Rightarrow> lb_description t),
               st_action = rd_action r, st_target = rd_target r, st_preconditions = [],
               st_postconditions =
                 (if rd_verified r \<noteq> [] then rd_verified r
                  else map (\<lambda>out. OutputValidCondition (trim out)) (extracted_output r)),
               st_timeout_ms = 10000,
               st_retry = \<lparr>rp_max_attempts = 2, rp_backoff_ms = [500],
                           rp_retry_on = [''target_temporarily_absent'']\<rparr>,
               st_recovery_refs = [], st_outcome_refs = [], st_failure_refs = [],
               st_risk = rd_risk r,
               st_evidence = \<lparr>er_before = False, er_after = True, er_on_failure = True\<rparr>\<rparr>
      in bind_r (check_step s) (\<lambda>_. Inr s))"

section \<open>The artifact\<close>

definition trace_risk :: "recorded_step list \<Rightarrow> risk" where
  "trace_risk steps = fold max (map rd_risk (tl steps)) (rd_risk (hd steps))"

definition observed_landmarks :: "trace \<Rightarrow> string list" where
  "observed_landmarks x =
     concat (map (\<lambda>r. obs_landmarks (rd_before r) @ obs_landmarks (rd_after r)) (tx_steps x)) @
     obs_landmarks (tx_final x)"

definition or_else :: "string \<Rightarrow> string \<Rightarrow> string" where
  "or_else s t = (if s = [] then t else s)"

definition fingerprint_landmarks :: "trace \<Rightarrow> landmark list" where
  "fingerprint_landmarks x =
     (if tx_required x \<noteq> [] then tx_required x
      else [\<lparr>lm_kind = (if semantic_visual_mode (tx_steps x) then LM_VISUAL_TEXT else LM_HEADING),
             lm_value = trim (case obs_landmarks (rd_before (hd (tx_steps x))) of
                [] \<Rightarrow> ''Application surface'' | l # ls \<Rightarrow> l)\<rparr>])"

definition trace_artifact ::
  "compiler \<Rightarrow> capability_draft \<Rightarrow> trace \<Rightarrow> condition \<Rightarrow> step list \<Rightarrow> string list \<Rightarrow> string \<Rightarrow> string
     \<Rightarrow> capability_artifact" where
  "trace_artifact K d x completion steps routes starting final =
     (let risk = trace_risk (tx_steps x) in
      \<lparr>art_capability =
         \<lparr>cm_id = trim (case dr_capability_id d of
              Some i \<Rightarrow> or_else i (tx_family x @ ''.'' @ dr_operation_slug d)
            | None \<Rightarrow> tx_family x @ ''.'' @ dr_operation_slug d),
          cm_version = ''1.0.0'', cm_name = trim (dr_name d),
          cm_description = trim (or_else (dr_description d) (py_strip (tx_goal x))),
          cm_application_family = trim (tx_family x), cm_surface = SURFACE_WEB, cm_risk = risk,
          cm_tags = map trim (dr_tags d)\<rparr>,
       art_compatibility =
         \<lparr>co_application_family = trim (tx_family x), co_base_variant = trim (tx_variant x),
          co_supported_variants = [trim (tx_tenant x)],
          co_surface_contract = trim (or_else (case tx_contract x of None \<Rightarrow> [] | Some c \<Rightarrow> c) (cz_adapter K)),
          co_entry_point = trim (tx_entry_point x), co_rendered_surface = tx_rendered x,
          co_required_landmarks = fingerprint_landmarks x, co_forbidden_landmarks = tx_forbidden x\<rparr>,
       art_inputs = dr_inputs d, art_outputs = dr_outputs d,
       art_preconditions = [RouteCondition (trim starting)],
       art_steps = steps, art_recoveries = [], art_outcomes = [], art_failures = [],
       art_checkpoint =
         \<lparr>cp_id = dr_operation_slug d @ ''_verified'',
          cp_condition = AllCondition (RouteCondition (trim final) # completion #
             map (\<lambda>out. OutputValidCondition (trim out)) (oc_required (dr_outputs d)))\<rparr>,
       art_policy =
         \<lparr>cy_action_types = remdups (map (\<lambda>s. action_kind (st_action s)) steps),
          cy_entry_points = [trim (tx_entry_point x)], cy_maximum_risk = risk,
          cy_route_patterns = remdups (map trim routes), cy_forbidden_text_inputs = [],
          cy_output_redaction = [(trim n, REDACT_LAST4).
             (n, s) \<leftarrow> oc_properties (dr_outputs d), vs_persistence s = PERSIST_REDACTED]\<rparr>,
       art_provenance =
         \<lparr>pv_discovery_run_id = trim (tx_run_id x), pv_provider = trim (tx_provider x),
          pv_model = trim (tx_model x), pv_prompt_policy_version = ''2.1.2'',
          pv_surface_adapter_version = trim (cz_adapter K), pv_compiler_version = trim (cz_version K),
          pv_created_at = cz_now K, pv_target_fingerprint = trim (obs_fingerprint (tx_final x)),
          pv_evidence_manifest_key = trim (tx_manifest x), pv_artifact_content_hash = None\<rparr>\<rparr>)"

definition with_hash :: "(capability_artifact \<Rightarrow> string) \<Rightarrow> capability_artifact \<Rightarrow> capability_artifact" where
  "with_hash hash a =
     a\<lparr>art_provenance := (art_provenance a)\<lparr>pv_artifact_content_hash := Some (hash a)\<rparr>\<rparr>"

text \<open>The checks between the compiled steps and the artifact.\<close>

definition check_trace :: "trace \<Rightarrow> unit result" where
  "check_trace x =
     checks
       [(opt_all (\<lambda>m. trace_risk (tx_steps x) \<le> m) (tx_maximum_risk x),
           ''trace risk exceeds the registered policy ceiling''),
        (opt_all (\<lambda>as. \<forall>r\<in>set (tx_steps x). action_kind (rd_action r) \<in> set as) (tx_actions x),
           ''trace contains an action outside the registered policy'')]"

definition check_landmarks :: "trace \<Rightarrow> unit result" where
  "check_landmarks x =
     checks
       [(\<forall>l\<in>set (tx_required x). lm_value l \<in> set (observed_landmarks x),
           ''registered readiness landmarks were not confirmed''),
        (\<forall>l\<in>set (tx_forbidden x). lm_value l \<notin> set (observed_landmarks x),
           ''trace observed a forbidden application landmark'')]"

text \<open>\<open>compile_with_spec\<close>.\<close>

definition compile_with_spec ::
  "compiler \<Rightarrow> capability_draft \<Rightarrow> trace \<Rightarrow> capability_artifact result" where
  "compile_with_spec K d x =
     bind_r (validate_trace d (tx_steps x)) (\<lambda>_.
     bind_r (latest_surface_condition (tx_steps x)) (\<lambda>found.
     case found of
       None \<Rightarrow> Inl (compilation_error ''trace completion lacks a verified surface-state condition'')
     | Some completion \<Rightarrow>
         bind_r (map_r (\<lambda>(i, r). compile_step i r) (enumerate 1 (tx_steps x))) (\<lambda>steps.
         bind_r (check_trace x) (\<lambda>_.
         bind_r (map_r (\<lambda>route. narrowest_route_pattern route (tx_routes x)) (observed_routes x)) (\<lambda>routes.
         bind_r (narrowest_route_pattern (obs_route (rd_before (hd (tx_steps x)))) (tx_routes x)) (\<lambda>starting.
         bind_r (narrowest_route_pattern (obs_route (tx_final x)) (tx_routes x)) (\<lambda>final.
         bind_r (check_landmarks x) (\<lambda>_.
         let a = trace_artifact K d x completion steps routes starting final in
         bind_r (check_artifact (cz_compiles K) a) (\<lambda>_. Inr (with_hash (cz_hash K) a)))))))))) "

end
