(* ===== verification/CompilerGuarantees.thy ===== *)
theory CompilerGuarantees
  imports Compiler RuntimePolicy
begin

text \<open>
  What a compiled artifact keeps of its trace: the actions, targets and risks in order, the
  conditions that were verified, routes that cover where the trace went, and a policy under which
  replay may do again what the discovery was allowed to do.
\<close>

section \<open>The parts of a compilation\<close>

lemma compile_with_spec_Inr:
  assumes "compile_with_spec K d x = Inr a"
  obtains completion steps routes starting final where
    "validate_trace d (tx_steps x) = Inr ()"
    "latest_surface_condition (tx_steps x) = Inr (Some completion)"
    "map_r (\<lambda>(i, r). compile_step i r) (enumerate 1 (tx_steps x)) = Inr steps"
    "check_trace x = Inr ()"
    "map_r (\<lambda>route. narrowest_route_pattern route (tx_routes x)) (observed_routes x) = Inr routes"
    "narrowest_route_pattern (obs_route (rd_before (hd (tx_steps x)))) (tx_routes x) = Inr starting"
    "narrowest_route_pattern (obs_route (tx_final x)) (tx_routes x) = Inr final"
    "check_landmarks x = Inr ()"
    "check_artifact (cz_compiles K) (trace_artifact K d x completion steps routes starting final) = Inr ()"
    "a = with_hash (cz_hash K) (trace_artifact K d x completion steps routes starting final)"
  using assms
  by (auto simp: compile_with_spec_def bind_r_Inr_iff Let_def split: option.splits)

lemma compiled_steps:
  assumes "map_r (\<lambda>(i, r). compile_step i r) (enumerate n rs) = Inr steps"
  shows "map (\<lambda>s. (st_action s, st_target s, st_risk s)) steps =
           map (\<lambda>r. (rd_action r, rd_target r, rd_risk r)) rs"
    and "\<And>r. r \<in> set rs \<Longrightarrow> \<exists>s\<in>set steps. st_action s = rd_action r \<and>
           (rd_verified r \<noteq> [] \<longrightarrow> st_postconditions s = rd_verified r)"
  using assms
  by (induction rs arbitrary: n steps)
     (auto simp: bind_r_Inr_iff compile_step_def Let_def; blast)+

text \<open>The patterns of the routes: of the registered ones, and they match.\<close>

lemma most_specific_mem: "most_specific p ps \<in> set (p # ps)"
proof -
  have "fold (\<lambda>q best. if more_specific q best then q else best) ps p \<in> set (p # ps)"
    by (induction ps arbitrary: p) auto
  then show ?thesis by (simp add: most_specific_def)
qed

lemma narrowest_matches:
  assumes "narrowest_route_pattern route (Some (q # qs)) = Inr p"
  shows "p \<in> set (q # qs)" "trace_route_matches route p"
proof -
  obtain m ms where ms: "filter (trace_route_matches route) (q # qs) = m # ms" "p = most_specific m ms"
    using assms unfolding narrowest_route_pattern_def by (auto split: if_splits list.splits)
  have "p \<in> set (filter (trace_route_matches route) (q # qs))"
    unfolding ms by (rule most_specific_mem)
  then have "p \<in> set (q # qs) \<and> trace_route_matches route p"
    by (simp only: set_filter mem_Collect_eq)
  then show "p \<in> set (q # qs)" "trace_route_matches route p" by blast+
qed

lemma trace_risk_Max: "rs \<noteq> [] \<Longrightarrow> trace_risk rs = Max (rd_risk ` set rs)"
  by (cases rs) (simp_all add: trace_risk_def Max.set_eq_fold [symmetric])

lemma trace_risk_upper: "r \<in> set rs \<Longrightarrow> rd_risk r \<le> trace_risk rs"
  by (cases rs) (auto simp: trace_risk_Max)

lemma label_condition_surface:
  "label_condition labels = Inr (Some c) \<Longrightarrow> surface_conditions c \<noteq> []"
proof -
  assume c: "label_condition labels = Inr (Some c)"
  have made: "mk_condition y = Inr z \<longleftrightarrow> check_condition y = Inr () \<and> z = y" for y z
    by (auto simp: mk_condition_def bind_r_Inr_iff)
  have texts: "ws = map (\<lambda>l. RenderedTextCondition (trim l) MATCH_EXACT) ls"
    if "map_r (\<lambda>l. mk_condition (RenderedTextCondition (trim l) MATCH_EXACT)) ls = Inr ws" for ls ws
    using that by (induction ls arbitrary: ws) (auto simp: bind_r_Inr_iff made simp del: check_condition.simps)
  from c obtain l ls ws where ws: "labels = l # ls" "ws = map (\<lambda>l. RenderedTextCondition (trim l) MATCH_EXACT) (l # ls)"
      "(case ws of [w] \<Rightarrow> Inr (Some w) | _ \<Rightarrow> bind_r (mk_condition (AllCondition ws)) (\<lambda>w. Inr (Some w))) = Inr (Some c)"
    unfolding label_condition_def by (cases labels) (auto simp: bind_r_Inr_iff dest!: texts simp del: check_condition.simps map_r.simps)
  then show "surface_conditions c \<noteq> []"
    by (cases ls) (auto simp: bind_r_Inr_iff made simp del: check_condition.simps)
qed

lemma completion_surface:
  assumes "latest_surface_condition steps = Inr (Some c)"
  shows "surface_conditions c \<noteq> []"
  using assms label_condition_surface
  by (auto simp: latest_surface_condition_def find_Some_iff split: option.splits)

section \<open>The condition of the final checkpoint\<close>

text \<open>The narrowest pattern for a route: a registered one that matches it and that no other that matches
  is more specific than; the route itself where nothing is registered.\<close>

definition narrowest_for :: "string \<Rightarrow> string list option \<Rightarrow> string \<Rightarrow> bool" where
  "narrowest_for route patterns p \<longleftrightarrow>
     starts_with ''/'' route \<and>
     (if patterns = None \<or> patterns = Some [] then p = route
      else p \<in> set (the patterns) \<and> trace_route_matches route p \<and>
        (\<forall>q\<in>set (the patterns). trace_route_matches route q \<longrightarrow> \<not> more_specific q p))"

lemma more_specific_trans: "more_specific p q \<Longrightarrow> more_specific q r \<Longrightarrow> more_specific p r"
  by (auto simp: more_specific_def Let_def split: prod.splits)

lemma more_specific_irrefl: "\<not> more_specific p p"
  by (simp add: more_specific_def Let_def split: prod.splits)

lemma more_specific_total: "more_specific r p \<Longrightarrow> more_specific q p \<or> more_specific r q"
  by (auto simp: more_specific_def Let_def split: prod.splits)

lemma most_specific_highest: "q \<in> set (p # ps) \<Longrightarrow> \<not> more_specific q (most_specific p ps)"
proof -
  let ?f = "fold (\<lambda>q best. if more_specific q best then q else best)"
  have "(\<forall>q\<in>set ps. \<not> more_specific q (?f ps p)) \<and> (\<forall>r. more_specific r (?f ps p) \<longrightarrow> more_specific r p)"
  proof (induction ps arbitrary: p)
    case (Cons r ps)
    define best where "best = (if more_specific r p then r else p)"
    note IH = Cons[of best]
    have start: "more_specific x p" if "more_specific x best" for x
      using that more_specific_trans[of x r p] by (auto simp: best_def split: if_splits)
    have "\<not> more_specific r best" by (simp add: best_def more_specific_irrefl)
    then have "\<not> more_specific r (?f ps best)" using IH by blast
    then have "(\<forall>q\<in>set (r # ps). \<not> more_specific q (?f ps best)) \<and>
        (\<forall>x. more_specific x (?f ps best) \<longrightarrow> more_specific x p)"
      using IH start by auto
    then show ?case by (simp add: best_def)
  qed simp
  then show "q \<in> set (p # ps) \<Longrightarrow> \<not> more_specific q (most_specific p ps)"
    by (auto simp: most_specific_def more_specific_irrefl)
qed

lemma narrowest_pattern_for:
  assumes "narrowest_route_pattern route patterns = Inr p"
  shows "narrowest_for route patterns p"
proof (cases patterns)
  case None
  then show ?thesis using assms by (simp add: narrowest_route_pattern_def narrowest_for_def split: if_splits)
next
  case (Some ps)
  show ?thesis
  proof (cases ps)
    case Nil
    then show ?thesis using Some assms by (simp add: narrowest_route_pattern_def narrowest_for_def split: if_splits)
  next
    case (Cons q qs)
    obtain m ms where ms: "filter (trace_route_matches route) (q # qs) = m # ms" "p = most_specific m ms"
      and start: "starts_with ''/'' route"
      using assms unfolding Some Cons narrowest_route_pattern_def by (auto split: if_splits list.splits)
    have "\<forall>r\<in>set (q # qs). trace_route_matches route r \<longrightarrow> r \<in> set (m # ms)"
      unfolding ms(1)[symmetric] by simp
    then have "\<forall>r\<in>set (q # qs). trace_route_matches route r \<longrightarrow> \<not> more_specific r p"
      unfolding ms(2) using most_specific_highest by blast
    then show ?thesis
      using start narrowest_matches[OF assms[unfolded Some Cons]] by (simp add: narrowest_for_def Some Cons)
  qed
qed

text \<open>The label of a rendered field whose value a step extracts.\<close>

definition reads_label :: "recorded_step \<Rightarrow> string \<Rightarrow> bool" where
  "reads_label r l \<longleftrightarrow> (\<exists>out tr t m rel. rd_action r = ExtractAction out tr \<and> rd_target r = Some t \<and>
     RenderedFieldValueCandidate l m rel \<in> set (lb_visual_candidates t))"

text \<open>What a trace verified of the surface in the end: the latest verified condition that speaks of the
  surface; and where none does, the labels of the fields it read.\<close>

definition verified_in_the_end :: "recorded_step list \<Rightarrow> condition \<Rightarrow> bool" where
  "verified_in_the_end rs c \<longleftrightarrow>
     surface_conditions c \<noteq> [] \<and>
     ((\<exists>earlier later. concat (map rd_verified rs) = earlier @ c # later \<and> list_all (\<lambda>w. surface_conditions w = []) later) \<or>
      list_all (\<lambda>w. surface_conditions w = []) (concat (map rd_verified rs)) \<and>
      (\<exists>labels. (case map (\<lambda>l. RenderedTextCondition (trim l) MATCH_EXACT) labels of
            [w] \<Rightarrow> c = w | ws \<Rightarrow> c = AllCondition ws) \<and>
         (\<forall>l\<in>set labels. \<exists>r\<in>set rs. reads_label r l) \<and>
         (\<forall>r\<in>set rs. (\<exists>l. reads_label r l) \<longrightarrow> (\<exists>l\<in>set labels. reads_label r l))))"

lemma find_rev_split:
  "find P (rev xs) = Some c \<Longrightarrow> \<exists>earlier later. xs = earlier @ c # later \<and> list_all (\<lambda>w. \<not> P w) later"
proof (induction xs rule: rev_induct)
  case (snoc x xs)
  show ?case
  proof (cases "P x")
    case True
    then have "xs @ [x] = xs @ c # [] \<and> list_all (\<lambda>w. \<not> P w) []" using snoc.prems by simp
    then show ?thesis by blast
  next
    case False
    then obtain earlier later where "xs = earlier @ c # later" "list_all (\<lambda>w. \<not> P w) later"
      using snoc by auto
    then have "xs @ [x] = earlier @ c # (later @ [x]) \<and> list_all (\<lambda>w. \<not> P w) (later @ [x])" using False by simp
    then show ?thesis by blast
  qed
qed simp

lemma add_label_set:
  "set labels \<subseteq> set (add_label labels cs) \<and>
   (\<forall>l\<in>set (add_label labels cs). l \<in> set labels \<or> (\<exists>m rel. RenderedFieldValueCandidate l m rel \<in> set cs)) \<and>
   ((\<exists>l m rel. RenderedFieldValueCandidate l m rel \<in> set cs) \<longrightarrow>
      (\<exists>l\<in>set (add_label labels cs). \<exists>m rel. RenderedFieldValueCandidate l m rel \<in> set cs))"
proof (induction labels cs rule: add_label.induct)
  case (2 labels label m rel cs)
  show ?case
  proof (cases "label \<in> set labels")
    case True
    then have "label \<in> set (add_label labels cs)" using 2 by blast
    then show ?thesis using 2 True by auto
  qed auto
qed auto

lemma step_label_set:
  "set labels \<subseteq> set (step_label labels r) \<and>
   (\<forall>l\<in>set (step_label labels r). l \<in> set labels \<or> reads_label r l) \<and>
   ((\<exists>l. reads_label r l) \<longrightarrow> (\<exists>l\<in>set (step_label labels r). reads_label r l))"
proof (cases "\<exists>out tr t. rd_action r = ExtractAction out tr \<and> rd_target r = Some t")
  case True
  then obtain out tr t where r: "rd_action r = ExtractAction out tr" "rd_target r = Some t" by blast
  then have "step_label labels r = add_label labels (lb_visual_candidates t)"
    "\<And>l. reads_label r l \<longleftrightarrow> (\<exists>m rel. RenderedFieldValueCandidate l m rel \<in> set (lb_visual_candidates t))"
    by (auto simp: step_label_def reads_label_def)
  then show ?thesis using add_label_set[of labels "lb_visual_candidates t"] by simp
next
  case False
  then have "step_label labels r = labels" "\<And>l. \<not> reads_label r l"
    by (auto simp: step_label_def reads_label_def split: action.splits option.splits)
  then show ?thesis by simp
qed

lemma fold_labels:
  "set ls \<subseteq> set (fold (\<lambda>r ls. step_label ls r) rs ls) \<and>
   (\<forall>l\<in>set (fold (\<lambda>r ls. step_label ls r) rs ls). l \<in> set ls \<or> (\<exists>r\<in>set rs. reads_label r l)) \<and>
   (\<forall>r\<in>set rs. (\<exists>l. reads_label r l) \<longrightarrow> (\<exists>l\<in>set (fold (\<lambda>r ls. step_label ls r) rs ls). reads_label r l))"
proof (induction rs arbitrary: ls)
  case (Cons r rs)
  show ?case using Cons[of "step_label ls r"] step_label_set[of ls r] by (simp; blast)
qed simp

lemma label_condition_made:
  assumes "label_condition labels = Inr (Some c)"
  shows "case map (\<lambda>l. RenderedTextCondition (trim l) MATCH_EXACT) labels of [w] \<Rightarrow> c = w | ws \<Rightarrow> c = AllCondition ws"
proof -
  have made: "mk_condition y = Inr z \<longleftrightarrow> check_condition y = Inr () \<and> z = y" for y z
    by (auto simp: mk_condition_def bind_r_Inr_iff)
  have texts: "ws = map (\<lambda>l. RenderedTextCondition (trim l) MATCH_EXACT) ls"
    if "map_r (\<lambda>l. mk_condition (RenderedTextCondition (trim l) MATCH_EXACT)) ls = Inr ws" for ls ws
    using that by (induction ls arbitrary: ws) (auto simp: bind_r_Inr_iff made simp del: check_condition.simps)
  let ?one = "\<lambda>l. RenderedTextCondition (trim l) MATCH_EXACT"
  obtain l ls where labels: "labels = l # ls" using assms by (cases labels) (auto simp: label_condition_def)
  then obtain ws where ws: "map_r (\<lambda>l. mk_condition (?one l)) (l # ls) = Inr ws"
    "(case ws of [w] \<Rightarrow> Inr (Some w) | _ \<Rightarrow> bind_r (mk_condition (AllCondition ws)) (\<lambda>w. Inr (Some w))) = Inr (Some c)"
    using assms unfolding label_condition_def by (auto simp: bind_r_Inr_iff simp del: map_r.simps)
  have "ws = ?one l # map ?one ls" using texts[OF ws(1)] by simp
  then show ?thesis
    using ws(2) by (cases ls) (auto simp: labels bind_r_Inr_iff made simp del: check_condition.simps)
qed

lemma latest_is_verified:
  assumes "latest_surface_condition rs = Inr (Some c)"
  shows "verified_in_the_end rs c"
proof -
  let ?P = "\<lambda>c. surface_conditions c \<noteq> []"
  have order: "concat (map (\<lambda>r. rev (rd_verified r)) (rev rs)) = rev (concat (map rd_verified rs))"
    by (simp add: rev_concat rev_map comp_def)
  show ?thesis
  proof (cases "find ?P (rev (concat (map rd_verified rs)))")
    case (Some w)
    then have "w = c" using assms by (simp add: latest_surface_condition_def order)
    then have "\<exists>earlier later. concat (map rd_verified rs) = earlier @ c # later \<and>
        list_all (\<lambda>w. surface_conditions w = []) later"
      using find_rev_split[OF Some] by simp
    then show ?thesis using completion_surface[OF assms] by (simp add: verified_in_the_end_def)
  next
    case None
    let ?labels = "fold (\<lambda>r ls. step_label ls r) rs []"
    have "label_condition ?labels = Inr (Some c)" using assms None by (simp add: latest_surface_condition_def order)
    note made = label_condition_made[OF this]
    have "list_all (\<lambda>w. surface_conditions w = []) (concat (map rd_verified rs))"
      using None by (auto simp: find_None_iff list_all_iff)
    moreover have "(\<forall>l\<in>set ?labels. \<exists>r\<in>set rs. reads_label r l) \<and>
        (\<forall>r\<in>set rs. (\<exists>l. reads_label r l) \<longrightarrow> (\<exists>l\<in>set ?labels. reads_label r l))"
      using fold_labels[of "[]" rs] by simp
    ultimately show ?thesis
      using made completion_surface[OF assms] unfolding verified_in_the_end_def by blast
  qed
qed

section \<open>The artifact is its trace\<close>

definition unhashed :: "capability_artifact \<Rightarrow> capability_artifact" where
  "unhashed a = a\<lparr>art_provenance := (art_provenance a)\<lparr>pv_artifact_content_hash := None\<rparr>\<rparr>"

lemma compiled_facts:
  assumes "compile_with_spec K d x = Inr a"
  shows "check_artifact (cz_compiles K) (unhashed a) = Inr ()"
    and "pv_artifact_content_hash (art_provenance a) = Some (cz_hash K (unhashed a))"
    and "map (\<lambda>s. (st_action s, st_target s, st_risk s)) (art_steps a) =
           map (\<lambda>r. (rd_action r, rd_target r, rd_risk r)) (tx_steps x)"
    and "\<exists>c route. verified_in_the_end (tx_steps x) c \<and> narrowest_for (obs_route (tx_final x)) (tx_routes x) route \<and>
           cp_condition (art_checkpoint a) = AllCondition
             (RouteCondition (trim route) # c # map (\<lambda>out. OutputValidCondition (trim out)) (oc_required (art_outputs a)))"
    and "\<exists>route. narrowest_for (obs_route (rd_before (hd (tx_steps x)))) (tx_routes x) route \<and>
           art_preconditions a = [RouteCondition (trim route)]"
    and "cm_risk (art_capability a) = Max (rd_risk ` set (tx_steps x))"
    and "cy_maximum_risk (art_policy a) = cm_risk (art_capability a)"
    and "opt_all (\<lambda>m. cm_risk (art_capability a) \<le> m) (tx_maximum_risk x)"
    and "set (cy_action_types (art_policy a)) = (\<lambda>r. action_kind (rd_action r)) ` set (tx_steps x)"
proof -
  obtain completion steps routes starting final where
    trace: "validate_trace d (tx_steps x) = Inr ()"
    and completion: "latest_surface_condition (tx_steps x) = Inr (Some completion)"
    and steps: "map_r (\<lambda>(i, r). compile_step i r) (enumerate 1 (tx_steps x)) = Inr steps"
    and ceiling: "check_trace x = Inr ()"
    and starting: "narrowest_route_pattern (obs_route (rd_before (hd (tx_steps x)))) (tx_routes x) = Inr starting"
    and final: "narrowest_route_pattern (obs_route (tx_final x)) (tx_routes x) = Inr final"
    and ok: "check_artifact (cz_compiles K) (trace_artifact K d x completion steps routes starting final) = Inr ()"
    and a: "a = with_hash (cz_hash K) (trace_artifact K d x completion steps routes starting final)"
    using compile_with_spec_Inr[OF assms] by metis
  note step = compiled_steps[OF steps]
  have same: "unhashed a = trace_artifact K d x completion steps routes starting final"
    by (simp add: a unhashed_def with_hash_def trace_artifact_def Let_def)
  show "check_artifact (cz_compiles K) (unhashed a) = Inr ()" by (simp add: same ok)
  show "pv_artifact_content_hash (art_provenance a) = Some (cz_hash K (unhashed a))"
    unfolding same by (simp add: a with_hash_def)
  show "map (\<lambda>s. (st_action s, st_target s, st_risk s)) (art_steps a) =
      map (\<lambda>r. (rd_action r, rd_target r, rd_risk r)) (tx_steps x)"
    using step(1) by (simp add: a with_hash_def trace_artifact_def Let_def)
  have "cp_condition (art_checkpoint a) = AllCondition
      (RouteCondition (trim final) # completion # map (\<lambda>out. OutputValidCondition (trim out)) (oc_required (art_outputs a)))"
    by (simp add: a with_hash_def trace_artifact_def Let_def)
  then show "\<exists>c route. verified_in_the_end (tx_steps x) c \<and> narrowest_for (obs_route (tx_final x)) (tx_routes x) route \<and>
      cp_condition (art_checkpoint a) = AllCondition
        (RouteCondition (trim route) # c # map (\<lambda>out. OutputValidCondition (trim out)) (oc_required (art_outputs a)))"
    using latest_is_verified[OF completion] narrowest_pattern_for[OF final] by blast
  have "art_preconditions a = [RouteCondition (trim starting)]"
    by (simp add: a with_hash_def trace_artifact_def Let_def)
  then show "\<exists>route. narrowest_for (obs_route (rd_before (hd (tx_steps x)))) (tx_routes x) route \<and>
      art_preconditions a = [RouteCondition (trim route)]"
    using narrowest_pattern_for[OF starting] by blast
  have "tx_steps x \<noteq> []" using trace by (auto simp: validate_trace_def)
  then show "cm_risk (art_capability a) = Max (rd_risk ` set (tx_steps x))"
    by (simp add: a with_hash_def trace_artifact_def Let_def trace_risk_Max)
  show "cy_maximum_risk (art_policy a) = cm_risk (art_capability a)"
    "opt_all (\<lambda>m. cm_risk (art_capability a) \<le> m) (tx_maximum_risk x)"
    using ceiling by (simp_all add: a with_hash_def trace_artifact_def Let_def check_trace_def split: if_splits)
  have "map (\<lambda>s. action_kind (st_action s)) steps = map (\<lambda>r. action_kind (rd_action r)) (tx_steps x)"
    using arg_cong[OF step(1), of "map (\<lambda>(act, t, r). action_kind act)"] by (simp add: comp_def)
  from arg_cong[OF this, of set]
  show "set (cy_action_types (art_policy a)) = (\<lambda>r. action_kind (rd_action r)) ` set (tx_steps x)"
    by (simp add: a with_hash_def trace_artifact_def Let_def)
qed

text \<open>
  C32. A compiled artifact is the trace it was compiled from. It passes every check of a parsed
  artifact and carries the hash of the artifact without it; its steps are the recorded actions with
  their targets and risks, in order; its precondition is the narrowest pattern for the route the trace
  started on; its final checkpoint demands the narrowest pattern for the route of the final observation,
  the latest verified condition that speaks of the surface (where none does, the labels of the fields the
  trace read) and every required output; its risk and its ceiling are the highest recorded risk, within
  the ceiling given; and its action types are the recorded ones.
\<close>

theorem compiled_artifact_is_its_trace:
  assumes "compile_with_spec K d x = Inr a"
  shows "check_artifact (cz_compiles K) (unhashed a) = Inr () \<and>
    pv_artifact_content_hash (art_provenance a) = Some (cz_hash K (unhashed a)) \<and>
    map (\<lambda>s. (st_action s, st_target s, st_risk s)) (art_steps a) =
           map (\<lambda>r. (rd_action r, rd_target r, rd_risk r)) (tx_steps x) \<and>
    (\<exists>c route. verified_in_the_end (tx_steps x) c \<and> narrowest_for (obs_route (tx_final x)) (tx_routes x) route \<and>
       cp_condition (art_checkpoint a) = AllCondition
         (RouteCondition (trim route) # c # map (\<lambda>out. OutputValidCondition (trim out)) (oc_required (art_outputs a)))) \<and>
    (\<exists>route. narrowest_for (obs_route (rd_before (hd (tx_steps x)))) (tx_routes x) route \<and>
       art_preconditions a = [RouteCondition (trim route)]) \<and>
    cm_risk (art_capability a) = Max (rd_risk ` set (tx_steps x)) \<and>
    cy_maximum_risk (art_policy a) = cm_risk (art_capability a) \<and>
    opt_all (\<lambda>m. cm_risk (art_capability a) \<le> m) (tx_maximum_risk x) \<and>
    set (cy_action_types (art_policy a)) = (\<lambda>r. action_kind (rd_action r)) ` set (tx_steps x)"
  by (intro conjI compiled_facts[OF assms])

section \<open>What was allowed stays allowed\<close>

lemma discovery_policy_Inr:
  assumes "discovery_policy reg f = Inr p" "get_application reg f = Inr r"
  shows "ep_origins p = [ar_origin r]" "ep_routes p = ap_route_patterns (ar_policy r)"
    and "set (ep_actions p) = set PLATFORM_ACTIONS \<inter> set (ap_action_types (ar_policy r))"
    and "ep_maximum_risk p \<le> ap_maximum_risk (ar_policy r)"
    and "set (ep_forbidden p) = {CREDENTIAL, SECRET} \<union> set (ap_forbidden (ar_policy r))"
  using assms
  by (auto simp: discovery_policy_def Let_def bind_r_Inr_iff intersect_policies_def
      default_forbidden_def dest!: layer_Inr split: if_splits)

lemma replay_policy_of:
  assumes "run_policy reg demo a = Inr q"
    and "get_application reg (cm_application_family (art_capability a)) = Inr r"
  shows "effective_replay_policy a (ar_origin r) (Some reg) = Inr q"
  using assms by (simp add: run_policy_def)

lemma registered_patterns:
  assumes "check_application_policy p = Inr ()" "pattern \<in> set (ap_route_patterns p)"
  shows "starts_with ''/'' pattern" "\<not> contains_str ''//'' pattern"
  using assms
  by (auto simp: check_application_policy_def bind_r_Inr_iff each_Inr_iff split: if_splits)

lemma map_r_mem: "map_r f xs = Inr ys \<Longrightarrow> x \<in> set xs \<Longrightarrow> \<exists>y\<in>set ys. f x = Inr y"
  by (induction xs arbitrary: ys) (auto simp: bind_r_Inr_iff)

text \<open>A route of the trace has its narrowest registered pattern in the artifact.\<close>

lemma compiled_route_covers:
  assumes "compile_with_spec K d x = Inr a" "tx_routes x = Some ps" "ps \<noteq> []"
    and "\<forall>p\<in>set ps. trim p = p" "r \<in> set (tx_steps x)"
    and "starts_with ''/'' (obs_route (rd_before r))"
  shows "\<exists>p. p \<in> set (cy_route_patterns (art_policy a)) \<and> p \<in> set ps \<and>
           application_route_matches (obs_route (rd_before r)) p"
proof -
  obtain completion steps routes starting final where
    routes: "map_r (\<lambda>route. narrowest_route_pattern route (tx_routes x)) (observed_routes x) = Inr routes"
    and a: "a = with_hash (cz_hash K) (trace_artifact K d x completion steps routes starting final)"
    using compile_with_spec_Inr[OF assms(1)] by metis
  let ?route = "obs_route (rd_before r)"
  have "?route \<in> set (observed_routes x)" using assms(5,6) by (auto simp: observed_routes_def)
  with map_r_mem[OF routes] obtain p where p: "p \<in> set routes" "narrowest_route_pattern ?route (tx_routes x) = Inr p"
    by blast
  obtain q qs where "ps = q # qs" using assms(3) by (cases ps) auto
  with p(2) assms(2) have narrow: "p \<in> set ps" "trace_route_matches ?route p"
    using narrowest_matches[of ?route q qs p] by auto
  have "set (cy_route_patterns (art_policy a)) = trim ` set routes"
    by (simp add: a with_hash_def trace_artifact_def Let_def)
  with p(1) narrow(1) assms(4) have "p \<in> set (cy_route_patterns (art_policy a))"
    by (metis imageI)
  with narrow show ?thesis by (auto simp: trace_route_matches_def application_route_matches_def)
qed


section \<open>A sample trace\<close>

definition seen_at :: "string \<Rightarrow> normalized_observation" where
  "seen_at route =
     \<lparr>obs_id = new_id (replicate 32 (CHR ''0'')) EVENT,
      obs_session_id = new_id (replicate 32 (CHR ''0'')) SESSION, obs_captured_at = utc 0,
      obs_route = route, obs_viewport = \<lparr>vp_width = 100, vp_height = 100, vp_scale = 1\<rparr>,
      obs_fingerprint = replicate 64 (CHR ''0''), obs_landmarks = [''Accounts''], obs_frame_titles = [],
      obs_controls = [], obs_fields = [], obs_tokens = [], obs_active_element = None,
      obs_dialog_text = None, obs_screenshot_key = None\<rparr>"

definition sample_recording :: recorded_step where
  "sample_recording =
     \<lparr>rd_action = ClickAction,
      rd_target = Some (sample_bundle ''Open account'' [RenderedTextCandidate ''Open'' MATCH_EXACT]),
      rd_before = seen_at ''/accounts/7'', rd_after = seen_at ''/accounts/7'',
      rd_expected_effect = ''opens'', rd_rationale = ''task'', rd_risk = infer_risk run_action,
      rd_verified = [RenderedTextCondition ''Balance'' MATCH_EXACT]\<rparr>"

definition sample_draft :: capability_draft where
  "sample_draft =
     \<lparr>dr_operation_slug = ''open_account'', dr_capability_id = None, dr_name = ''Open'',
      dr_description = '' Open an account '', dr_inputs = \<lparr>oc_required = [], oc_properties = []\<rparr>,
      dr_outputs = \<lparr>oc_required = [], oc_properties = []\<rparr>, dr_risk = SENSITIVE,
      dr_tags = [''accounts''], dr_observation_only = True\<rparr>"

definition sample_trace :: trace where
  "sample_trace =
     \<lparr>tx_run_id = new_id (replicate 32 (CHR ''0'')) RUN, tx_goal = ''Open'', tx_family = ''billing'',
      tx_tenant = ''acme'', tx_entry_point = ''home'', tx_steps = [sample_recording],
      tx_final = seen_at ''/home'', tx_provider = ''p'', tx_model = ''m'',
      tx_manifest = ''evidence://run_'' @ replicate 32 (CHR ''0'') @ ''/manifest'', tx_routes = Some [''/accounts/:id'', ''/home''],
      tx_rendered = True, tx_variant = ''base'', tx_contract = Some ''web.v1'',
      tx_maximum_risk = Some SENSITIVE, tx_actions = Some [''click''], tx_required = [],
      tx_forbidden = []\<rparr>"

definition sample_compiler :: compiler where
  "sample_compiler =
     \<lparr>cz_now = utc 0, cz_compiles = (\<lambda>p. True), cz_hash = (\<lambda>a. ''sha256:'' @ replicate 64 (CHR ''0'')),
      cz_version = ''2.0.1'', cz_adapter = ''web.v1''\<rparr>"

definition sample_compiled :: "capability_artifact result" where
  "sample_compiled = compile_with_spec sample_compiler sample_draft sample_trace"

definition ok_result :: "'a result \<Rightarrow> bool" where
  "ok_result r = (case r of Inl e \<Rightarrow> False | Inr x \<Rightarrow> True)"

lemma ok_resultD: "ok_result r \<Longrightarrow> \<exists>x. r = Inr x"
  by (simp add: ok_result_def split: sum.splits)

lemma sample_compiles: "ok_result sample_compiled"
  by code_simp

lemma compiled_artifact_is_its_trace_witness:
  "\<exists>a. sample_compiled = Inr a \<and> map st_action (art_steps a) = [ClickAction] \<and>
     cy_action_types (art_policy a) \<noteq> []"
proof -
  obtain a where a: "sample_compiled = Inr a" using ok_resultD[OF sample_compiles] by blast
  note facts = compiled_artifact_is_its_trace[OF a[unfolded sample_compiled_def]]
  have "map st_action (art_steps a) = [ClickAction]"
    using arg_cong[OF facts[THEN conjunct2, THEN conjunct2, THEN conjunct1], of "map fst"]
    by (simp add: sample_trace_def sample_recording_def comp_def)
  moreover have "cy_action_types (art_policy a) \<noteq> []"
  proof
    assume "cy_action_types (art_policy a) = []"
    with facts have "tx_steps sample_trace = []" by simp
    then show False by (simp add: sample_trace_def)
  qed
  ultimately show ?thesis by (intro exI[of _ a] conjI a)
qed

definition sample_registry :: application_registry where
  "sample_registry = [(''billing'', run_registration)]"

definition first_decision :: "policy_decision result" where
  "first_decision =
     bind_r (discovery_policy sample_registry ''billing'')
       (\<lambda>p. evaluate_policy (new_id (replicate 32 (CHR ''0'')) DECISION) (utc 0) p
         (run_action\<lparr>ax_route := ''/accounts/7'', ax_run_mode := RUN_DISCOVERY\<rparr>))"

definition second_decision :: "policy_decision result" where
  "second_decision =
     bind_r sample_compiled (\<lambda>a. bind_r (run_policy sample_registry ''http://demo'' a)
       (\<lambda>p. evaluate_policy (new_id (replicate 32 (CHR ''0'')) DECISION) (utc 0) p
         (run_action\<lparr>ax_route := ''/accounts/7'', ax_run_mode := RUN_REPLAY\<rparr>)))"

lemma sample_decisions:
  "case first_decision of Inl e \<Rightarrow> False | Inr d \<Rightarrow> pd_decision d = ALLOW"
  "ok_result second_decision"
  "case sample_compiled of Inl e \<Rightarrow> False | Inr a \<Rightarrow> cm_application_family (art_capability a) = ''billing''"
  by code_simp+

lemma sample_registration_facts:
  "get_application sample_registry ''billing'' = Inr run_registration"
  "check_application_policy (ar_policy run_registration) = Inr ()"
  "list_all (\<lambda>p. trim p = p \<and> '':'' \<notin> set (route_parts p)) (ap_route_patterns (ar_policy run_registration))"
  "tx_routes sample_trace = Some (ap_route_patterns (ar_policy run_registration))"
  "\<not> contains_str ''//'' ''/accounts/7''"
  by code_simp+


end
