(* ===== verification/ArtifactTree.thy ===== *)
theory ArtifactTree
  imports Artifact Ids
begin

text \<open>
  The artifact as Pydantic's reflection shows it (\<open>model_fields\<close>, \<open>model_dump\<close>): a tree of models,
  mappings, sequences, sets and scalars, every model with the name of its class and its fields in
  the order of \<^verbatim>\<open>capabilities/models.py\<close>, constant fields included. The privacy
  guard and the canonical serialization walk this tree.
\<close>

section \<open>Trees\<close>

datatype tree =
    TNull
  | TBool bool
  | TInt int
  | TFloat rat
  | TStr string
  | TTime datetime
  | TSeq "tree list"
  | TSet "tree list"
  | TDict "(string \<times> tree) list"
  | TModel string "(string \<times> tree) list"

definition tree_opt :: "('a \<Rightarrow> tree) \<Rightarrow> 'a option \<Rightarrow> tree" where
  "tree_opt f x = (case x of None \<Rightarrow> TNull | Some y \<Rightarrow> f y)"

definition tree_texts :: "string list \<Rightarrow> tree" where
  "tree_texts ss = TSeq (map TStr ss)"

section \<open>Words\<close>

fun risk_word :: "risk \<Rightarrow> string" where
  "risk_word READ_ONLY = ''read_only''"
| "risk_word REVERSIBLE = ''reversible''"
| "risk_word SENSITIVE = ''sensitive''"
| "risk_word IRREVERSIBLE = ''irreversible''"

fun classification_word :: "data_classification \<Rightarrow> string" where
  "classification_word PUBLIC = ''public''"
| "classification_word OPERATIONAL = ''operational''"
| "classification_word CUSTOMER_IDENTIFIER = ''customer_identifier''"
| "classification_word PERSONAL = ''personal''"
| "classification_word FINANCIAL = ''financial''"
| "classification_word CREDENTIAL = ''credential''"
| "classification_word SECRET = ''secret''"

fun surface_word :: "surface_kind \<Rightarrow> string" where
  "surface_word SURFACE_WEB = ''web''"
| "surface_word SURFACE_DESKTOP = ''desktop''"

fun persistence_word :: "persistence_mode \<Rightarrow> string" where
  "persistence_word PERSIST_FULL = ''full''"
| "persistence_word PERSIST_REDACTED = ''redacted''"
| "persistence_word PERSIST_FORBIDDEN = ''forbidden''"

fun type_word :: "json_type \<Rightarrow> string" where
  "type_word TYPE_STRING = ''string''"
| "type_word TYPE_INTEGER = ''integer''"
| "type_word TYPE_BOOLEAN = ''boolean''"
| "type_word TYPE_OBJECT = ''object''"

fun format_word :: "value_format \<Rightarrow> string" where
  "format_word FORMAT_DATE = ''date''"
| "format_word FORMAT_DATE_TIME = ''date-time''"
| "format_word FORMAT_DECIMAL = ''decimal''"

fun match_word :: "match_mode \<Rightarrow> string" where
  "match_word MATCH_EXACT = ''exact''"
| "match_word MATCH_CONTAINS = ''contains''"
| "match_word MATCH_REGEX = ''regex''"

fun strategy_word :: "locator_strategy \<Rightarrow> string" where
  "strategy_word LOC_ROLE_NAME = ''role_name''"
| "strategy_word LOC_LABEL = ''label''"
| "strategy_word LOC_TEXT = ''text''"
| "strategy_word LOC_RELATIVE_TEXT = ''relative_text''"
| "strategy_word LOC_PLACEHOLDER = ''placeholder''"
| "strategy_word LOC_TITLE = ''title''"
| "strategy_word LOC_CSS = ''css''"
| "strategy_word LOC_ACCESSIBILITY_PATH = ''accessibility_path''"
| "strategy_word LOC_IMAGE_ANCHOR = ''image_anchor''"
| "strategy_word LOC_COORDINATES = ''coordinates''"

fun portability_word :: "portability \<Rightarrow> string" where
  "portability_word PORT_HIGH = ''high''"
| "portability_word PORT_MEDIUM = ''medium''"
| "portability_word PORT_LOW = ''low''"

fun relation_word :: "text_relation \<Rightarrow> string" where
  "relation_word RIGHT_OF = ''right_of''"
| "relation_word BELOW = ''below''"
| "relation_word SAME_ROW = ''same_row''"

fun element_word :: "element_state \<Rightarrow> string" where
  "element_word EL_EXISTS = ''exists''"
| "element_word EL_ABSENT = ''absent''"
| "element_word EL_VISIBLE = ''visible''"
| "element_word EL_HIDDEN = ''hidden''"
| "element_word EL_ENABLED = ''enabled''"
| "element_word EL_DISABLED = ''disabled''"

fun direction_word :: "scroll_direction \<Rightarrow> string" where
  "direction_word SCROLL_UP = ''up''"
| "direction_word SCROLL_DOWN = ''down''"
| "direction_word SCROLL_LEFT = ''left''"
| "direction_word SCROLL_RIGHT = ''right''"

fun transform_word :: "extract_transform \<Rightarrow> string" where
  "transform_word TR_TEXT = ''text''"
| "transform_word TR_TRIM = ''trim''"
| "transform_word TR_LOWERCASE = ''lowercase''"
| "transform_word TR_DECIMAL = ''decimal''"
| "transform_word TR_DATE_TIME = ''date-time''"

fun landmark_word :: "landmark_kind \<Rightarrow> string" where
  "landmark_word LM_HEADING = ''heading''"
| "landmark_word LM_FIELD = ''field''"
| "landmark_word LM_TEXT = ''text''"
| "landmark_word LM_VISUAL_TEXT = ''visual_text''"

fun redaction_word :: "redaction_mode \<Rightarrow> string" where
  "redaction_word REDACT_REMOVE = ''remove''"
| "redaction_word REDACT_LAST4 = ''last4''"
| "redaction_word REDACT_TOKENIZE = ''tokenize''"

section \<open>Contracts and locators\<close>

fun scalar_tree :: "scalar \<Rightarrow> tree" where
  "scalar_tree (SStr s) = TStr s"
| "scalar_tree (SInt i) = TInt i"
| "scalar_tree (SBool b) = TBool b"

fun schema_tree :: "value_schema \<Rightarrow> tree" where
  "schema_tree (ValueSchema ty desc cls per req props pat fmt en con mn mx ex) =
     TModel ''ValueSchema''
       [(''type'', TStr (type_word ty)), (''description'', TStr desc),
        (''data_classification'', TStr (classification_word cls)),
        (''persistence'', TStr (persistence_word per)), (''required'', tree_texts req),
        (''properties'', TDict (map (\<lambda>(n, s). (n, schema_tree s)) props)),
        (''additional_properties'', TBool False), (''pattern'', tree_opt TStr pat),
        (''format'', tree_opt (\<lambda>f. TStr (format_word f)) fmt),
        (''enum'', TSeq (map scalar_tree en)), (''const'', tree_opt scalar_tree con),
        (''min_length'', tree_opt TInt mn), (''max_length'', tree_opt TInt mx),
        (''example'', tree_opt scalar_tree ex)]"

definition contract_tree :: "object_contract \<Rightarrow> tree" where
  "contract_tree c = TModel ''ObjectContract''
     [(''type'', TStr ''object''), (''additional_properties'', TBool False),
      (''required'', tree_texts (oc_required c)),
      (''properties'', TDict (map (\<lambda>(n, s). (n, schema_tree s)) (oc_properties c)))]"

definition input_tree :: "string \<Rightarrow> tree" where
  "input_tree p = TModel ''InputValue'' [(''source'', TStr ''input''), (''path'', TStr p)]"

fun source_tree :: "value_source \<Rightarrow> tree" where
  "source_tree (InputValue p) = input_tree p"
| "source_tree (LiteralValue v) =
     TModel ''LiteralValue'' [(''source'', TStr ''literal''), (''value'', scalar_tree v)]"

definition candidate_tree :: "locator_candidate \<Rightarrow> tree" where
  "candidate_tree c = TModel ''LocatorCandidate''
     [(''strategy'', TStr (strategy_word (lc_strategy c))), (''expected_count'', TInt (lc_expected_count c)),
      (''value'', tree_opt TStr (lc_value c)), (''role'', tree_opt TStr (lc_role c)),
      (''name'', tree_opt TStr (lc_name c)), (''match'', TStr (match_word (lc_match c))),
      (''anchor'', tree_opt TStr (lc_anchor c)), (''relation'', tree_opt TStr (lc_relation c)),
      (''element'', tree_opt TStr (lc_element c)), (''text'', tree_opt TStr (lc_text c)),
      (''capture_group_label'', tree_opt TStr (lc_capture_group_label c)),
      (''x'', tree_opt TInt (lc_x c)), (''y'', tree_opt TInt (lc_y c)),
      (''width'', tree_opt TInt (lc_width c)), (''height'', tree_opt TInt (lc_height c)),
      (''viewport_width'', tree_opt TInt (lc_viewport_width c)),
      (''viewport_height'', tree_opt TInt (lc_viewport_height c)),
      (''portability'', TStr (portability_word (lc_portability c)))]"

definition normalized_region_tree :: "normalized_region \<Rightarrow> tree" where
  "normalized_region_tree r = TModel ''NormalizedRegion''
     [(''x'', TFloat (nr_x r)), (''y'', TFloat (nr_y r)), (''width'', TFloat (nr_width r)),
      (''height'', TFloat (nr_height r))]"

definition relative_region_tree :: "relative_region \<Rightarrow> tree" where
  "relative_region_tree r = TModel ''RelativeRegion''
     [(''x'', TFloat (rr_x r)), (''y'', TFloat (rr_y r)), (''width'', TFloat (rr_width r)),
      (''height'', TFloat (rr_height r))]"

definition anchor_tree :: "ocr_anchor \<Rightarrow> tree" where
  "anchor_tree a = TModel ''OcrAnchor''
     [(''value'', TStr (oa_value a)), (''match'', TStr (match_word (oa_match a))),
      (''search_region'', tree_opt normalized_region_tree (oa_search_region a)),
      (''minimum_confidence'', TFloat (oa_minimum_confidence a))]"

definition relation_tree :: "text_relation \<Rightarrow> tree" where
  "relation_tree r = TStr (relation_word r)"

definition ocr_text_tree :: "ocr_text_candidate \<Rightarrow> tree" where
  "ocr_text_tree c = TModel ''OcrTextCandidate''
     [(''strategy'', TStr ''ocr_text''), (''value'', TStr (ot_value c)),
      (''match'', TStr (match_word (ot_match c))),
      (''search_region'', tree_opt normalized_region_tree (ot_search_region c)),
      (''minimum_confidence'', TFloat (ot_minimum_confidence c)), (''expected_count'', TInt 1),
      (''portability'', TStr (portability_word (ot_portability c)))]"

definition ocr_relative_tree :: "ocr_relative_candidate \<Rightarrow> tree" where
  "ocr_relative_tree c = TModel ''OcrRelativeCandidate''
     [(''strategy'', TStr ''ocr_relative''), (''anchor'', TStr (or_anchor c)),
      (''anchor_match'', TStr (match_word (or_anchor_match c))),
      (''target_text'', tree_opt TStr (or_target_text c)), (''relation'', relation_tree (or_relation c)),
      (''relative_region'', tree_opt relative_region_tree (or_relative_region c)),
      (''search_region'', tree_opt normalized_region_tree (or_search_region c)),
      (''minimum_confidence'', TFloat (or_minimum_confidence c)), (''expected_count'', TInt 1),
      (''portability'', TStr (portability_word (or_portability c)))]"

definition image_anchor_tree :: "image_anchor_candidate \<Rightarrow> tree" where
  "image_anchor_tree c = TModel ''ImageAnchorCandidate''
     [(''strategy'', TStr ''image_anchor''), (''asset_key'', TStr (ia_asset_key c)),
      (''content_hash'', TStr (ia_content_hash c)),
      (''search_region'', tree_opt normalized_region_tree (ia_search_region c)),
      (''context_anchor'', tree_opt anchor_tree (ia_context_anchor c)),
      (''relative_search_region'', tree_opt relative_region_tree (ia_relative_region c)),
      (''minimum_score'', TFloat (ia_minimum_score c)),
      (''uniqueness_margin'', TFloat (ia_uniqueness_margin c)),
      (''minimum_scale'', TFloat (ia_minimum_scale c)), (''maximum_scale'', TFloat (ia_maximum_scale c)),
      (''scale_step'', TFloat (ia_scale_step c)), (''expected_count'', TInt 1),
      (''portability'', TStr (portability_word (ia_portability c)))]"

fun visual_tree :: "visual_candidate \<Rightarrow> tree" where
  "visual_tree (InputTextCandidate p text rel) = TModel ''InputTextCandidate''
     [(''strategy'', TStr ''input_text''), (''value'', input_tree p),
      (''target_text'', tree_opt TStr text), (''relation'', tree_opt relation_tree rel)]"
| "visual_tree (OcrTextCandidate c) = ocr_text_tree c"
| "visual_tree (OcrRelativeCandidate c) = ocr_relative_tree c"
| "visual_tree (ImageAnchorCandidate c) = image_anchor_tree c"
| "visual_tree (RenderedTextCandidate v m) = TModel ''RenderedTextCandidate''
     [(''strategy'', TStr ''rendered_text''), (''value'', TStr v), (''match'', TStr (match_word m))]"
| "visual_tree (RenderedLabeledControlCandidate l m) = TModel ''RenderedLabeledControlCandidate''
     [(''strategy'', TStr ''rendered_labeled_control''), (''label'', TStr l),
      (''label_match'', TStr (match_word m)), (''control_kind'', TStr ''text_input'')]"
| "visual_tree (RenderedFieldValueCandidate l m rel) = TModel ''RenderedFieldValueCandidate''
     [(''strategy'', TStr ''rendered_field_value''), (''label'', TStr l),
      (''label_match'', TStr (match_word m)), (''relation'', tree_opt relation_tree rel)]"
| "visual_tree (RenderedGroupImageCandidate l m k h) = TModel ''RenderedGroupImageCandidate''
     [(''strategy'', TStr ''rendered_group_image''), (''group_label'', TStr l),
      (''group_label_match'', TStr (match_word m)), (''asset_key'', TStr k), (''content_hash'', TStr h)]"

definition bundle_tree :: "locator_bundle \<Rightarrow> tree" where
  "bundle_tree b = TModel ''LocatorBundle''
     [(''description'', TStr (lb_description b)),
      (''registered_risk'', tree_opt (\<lambda>r. TStr (risk_word r)) (lb_registered_risk b)),
      (''scope'', TModel ''LocatorScope''
         [(''window'', TStr (lb_window b)),
          (''frame_path'', TSeq (map (\<lambda>c. TModel ''FrameLocator'' [(''locator'', candidate_tree c)])
             (lb_frame_path b)))]),
      (''visual_candidates'', TSeq (map visual_tree (lb_visual_candidates b))),
      (''candidates'', TSeq (map candidate_tree (lb_candidates b))),
      (''state'', TModel ''TargetState''
         [(''visible'', TBool (ts_visible (lb_state b))), (''enabled'', tree_opt TBool (ts_enabled (lb_state b)))]),
      (''tenant_overrides_allowed'', TBool (lb_tenant_overrides_allowed b))]"

section \<open>Conditions, actions and steps\<close>

fun condition_tree :: "condition \<Rightarrow> tree" where
  "condition_tree (RouteCondition p) =
     TModel ''RouteCondition'' [(''kind'', TStr ''route''), (''pattern'', TStr p)]"
| "condition_tree (TextCondition v m) = TModel ''TextCondition''
     [(''kind'', TStr ''text''), (''value'', TStr v), (''match'', TStr (match_word m))]"
| "condition_tree (RenderedTextCondition v m) = TModel ''RenderedTextCondition''
     [(''kind'', TStr ''rendered_text''), (''value'', TStr v), (''match'', TStr (match_word m))]"
| "condition_tree (VisualTextCondition v m r q) = TModel ''VisualTextCondition''
     [(''kind'', TStr ''visual_text''), (''value'', TStr v), (''match'', TStr (match_word m)),
      (''search_region'', tree_opt normalized_region_tree r), (''minimum_confidence'', TFloat q)]"
| "condition_tree (ElementCondition t s) = TModel ''ElementCondition''
     [(''kind'', TStr ''element''), (''target'', bundle_tree t), (''state'', TStr (element_word s))]"
| "condition_tree (OutputValidCondition out) =
     TModel ''OutputValidCondition'' [(''kind'', TStr ''output_valid''), (''output'', TStr out)]"
| "condition_tree (OutputEqualsCondition out v) = TModel ''OutputEqualsCondition''
     [(''kind'', TStr ''output_equals''), (''output'', TStr out), (''value'', TStr v)]"
| "condition_tree (IdentityMatchesCondition out p) = TModel ''IdentityMatchesCondition''
     [(''kind'', TStr ''identity_matches''), (''extracted_output'', TStr out), (''input_path'', TStr p)]"
| "condition_tree (AllCondition cs) =
     TModel ''AllCondition'' [(''kind'', TStr ''all''), (''conditions'', TSeq (map condition_tree cs))]"
| "condition_tree (AnyCondition cs) =
     TModel ''AnyCondition'' [(''kind'', TStr ''any''), (''conditions'', TSeq (map condition_tree cs))]"
| "condition_tree (NotCondition c) =
     TModel ''NotCondition'' [(''kind'', TStr ''not''), (''condition'', condition_tree c)]"

fun action_tree :: "action \<Rightarrow> tree" where
  "action_tree (NavigateAction e) =
     TModel ''NavigateAction'' [(''kind'', TStr ''navigate''), (''entry_point'', TStr e)]"
| "action_tree ClickAction = TModel ''ClickAction'' [(''kind'', TStr ''click'')]"
| "action_tree (TypeAction v c) = TModel ''TypeAction''
     [(''kind'', TStr ''type''), (''value'', source_tree v), (''clear'', TBool c)]"
| "action_tree (PressKeysAction ks) =
     TModel ''PressKeysAction'' [(''kind'', TStr ''press_keys''), (''keys'', tree_texts ks)]"
| "action_tree (SelectAction v) =
     TModel ''SelectAction'' [(''kind'', TStr ''select''), (''option'', source_tree v)]"
| "action_tree (ScrollAction d n) = TModel ''ScrollAction''
     [(''kind'', TStr ''scroll''), (''direction'', TStr (direction_word d)), (''amount'', TInt n)]"
| "action_tree (WaitForAction c) =
     TModel ''WaitForAction'' [(''kind'', TStr ''wait_for''), (''condition'', condition_tree c)]"
| "action_tree (ExtractAction out tr) = TModel ''ExtractAction''
     [(''kind'', TStr ''extract''), (''output'', TStr out), (''transform'', TStr (transform_word tr))]"
| "action_tree (AssertAction c) =
     TModel ''AssertAction'' [(''kind'', TStr ''assert''), (''condition'', condition_tree c)]"
| "action_tree (SwitchContextAction c) =
     TModel ''SwitchContextAction'' [(''kind'', TStr ''switch_context''), (''context'', TStr c)]"
| "action_tree (CheckpointAction c) =
     TModel ''CheckpointAction'' [(''kind'', TStr ''checkpoint''), (''checkpoint_id'', TStr c)]"

definition step_tree :: "step \<Rightarrow> tree" where
  "step_tree s = TModel ''Step''
     [(''id'', TStr (st_id s)), (''name'', TStr (st_name s)), (''action'', action_tree (st_action s)),
      (''target'', tree_opt bundle_tree (st_target s)),
      (''preconditions'', TSeq (map condition_tree (st_preconditions s))),
      (''postconditions'', TSeq (map condition_tree (st_postconditions s))),
      (''timeout_ms'', TInt (st_timeout_ms s)),
      (''retry'', TModel ''RetryPolicy''
         [(''max_attempts'', TInt (rp_max_attempts (st_retry s))),
          (''backoff_ms'', TSeq (map TInt (rp_backoff_ms (st_retry s)))),
          (''retry_on'', tree_texts (rp_retry_on (st_retry s))), (''require_effect_absent'', TBool True)]),
      (''recovery_refs'', tree_texts (st_recovery_refs s)),
      (''outcome_refs'', tree_texts (st_outcome_refs s)),
      (''failure_refs'', tree_texts (st_failure_refs s)), (''risk'', TStr (risk_word (st_risk s))),
      (''evidence'', TModel ''EvidenceRequirement''
         [(''before'', TBool (er_before (st_evidence s))), (''after'', TBool (er_after (st_evidence s))),
          (''on_failure'', TBool (er_on_failure (st_evidence s)))])]"

section \<open>The artifact\<close>

definition recovery_tree :: "recovery \<Rightarrow> tree" where
  "recovery_tree r = TModel ''Recovery''
     [(''id'', TStr (rc_id r)), (''trigger'', condition_tree (rc_trigger r)),
      (''max_uses'', TInt (rc_max_uses r)), (''steps'', TSeq (map step_tree (rc_steps r))),
      (''resume_at'', TStr (rc_resume_at r))]"

definition outcome_tree :: "business_outcome \<Rightarrow> tree" where
  "outcome_tree b = TModel ''BusinessOutcome''
     [(''code'', TStr (bo_code b)), (''description'', TStr (bo_description b)),
      (''detect'', condition_tree (bo_detect b)),
      (''allowed_after_steps'', tree_texts (bo_allowed_after_steps b)),
      (''result'', TModel ''OutcomeResult''
         [(''status'', TStr ''business_outcome''),
          (''details'', TDict (map (\<lambda>(k, v). (k, source_tree v)) (bo_details b)))])]"

definition application_failure_tree :: "application_failure \<Rightarrow> tree" where
  "application_failure_tree f = TModel ''ApplicationFailure''
     [(''code'', TStr (af_code f)), (''description'', TStr (af_description f)),
      (''detect'', condition_tree (af_detect f)),
      (''allowed_after_steps'', tree_texts (af_allowed_after_steps f)),
      (''expected_state'', TStr (af_expected_state f)), (''observed_state'', TStr (af_observed_state f)),
      (''recoverable'', TBool (af_recoverable f))]"

definition landmark_tree :: "landmark \<Rightarrow> tree" where
  "landmark_tree l = TModel ''Landmark''
     [(''kind'', TStr (landmark_word (lm_kind l))), (''value'', TStr (lm_value l))]"

definition compatibility_tree :: "compatibility \<Rightarrow> tree" where
  "compatibility_tree c = TModel ''Compatibility''
     [(''application_family'', TStr (co_application_family c)), (''base_variant'', TStr (co_base_variant c)),
      (''supported_variants'', tree_texts (co_supported_variants c)),
      (''surface_contract'', TStr (co_surface_contract c)), (''entry_point'', TStr (co_entry_point c)),
      (''rendered_surface'', TBool (co_rendered_surface c)),
      (''fingerprint'', TModel ''SurfaceFingerprint''
         [(''required_landmarks'', TSeq (map landmark_tree (co_required_landmarks c))),
          (''forbidden_landmarks'', TSeq (map landmark_tree (co_forbidden_landmarks c)))])]"

definition metadata_tree :: "capability_metadata \<Rightarrow> tree" where
  "metadata_tree m = TModel ''CapabilityMetadata''
     [(''id'', TStr (cm_id m)), (''version'', TStr (cm_version m)), (''name'', TStr (cm_name m)),
      (''description'', TStr (cm_description m)), (''application_family'', TStr (cm_application_family m)),
      (''surface'', TStr (surface_word (cm_surface m))), (''risk'', TStr (risk_word (cm_risk m))),
      (''tags'', tree_texts (cm_tags m))]"

definition policy_tree :: "capability_policy \<Rightarrow> tree" where
  "policy_tree p = TModel ''CapabilityPolicy''
     [(''allowed_action_types'', TSet (map TStr (cy_action_types p))),
      (''allowed_entry_points'', TSet (map TStr (cy_entry_points p))),
      (''maximum_risk'', TStr (risk_word (cy_maximum_risk p))),
      (''allowed_route_patterns'', TSet (map TStr (cy_route_patterns p))),
      (''forbidden_text_inputs'', tree_texts (cy_forbidden_text_inputs p)),
      (''output_redaction'', TDict (map (\<lambda>(k, m). (k, TStr (redaction_word m))) (cy_output_redaction p)))]"

definition provenance_tree :: "provenance \<Rightarrow> tree" where
  "provenance_tree p = TModel ''Provenance''
     [(''discovery_run_id'', TStr (pv_discovery_run_id p)), (''provider'', TStr (pv_provider p)),
      (''model'', TStr (pv_model p)), (''prompt_policy_version'', TStr (pv_prompt_policy_version p)),
      (''surface_adapter_version'', TStr (pv_surface_adapter_version p)),
      (''compiler_version'', TStr (pv_compiler_version p)), (''created_at'', TTime (pv_created_at p)),
      (''target_fingerprint'', TStr (pv_target_fingerprint p)),
      (''evidence_manifest_key'', TStr (pv_evidence_manifest_key p)),
      (''artifact_content_hash'', tree_opt TStr (pv_artifact_content_hash p))]"

definition artifact_fields :: "capability_artifact \<Rightarrow> (string \<times> tree) list" where
  "artifact_fields a =
     [(''schema_version'', TStr ''1.4''), (''capability'', metadata_tree (art_capability a)),
      (''compatibility'', compatibility_tree (art_compatibility a)),
      (''inputs'', contract_tree (art_inputs a)), (''outputs'', contract_tree (art_outputs a)),
      (''preconditions'', TSeq (map condition_tree (art_preconditions a))),
      (''steps'', TSeq (map step_tree (art_steps a))),
      (''recoveries'', TSeq (map recovery_tree (art_recoveries a))),
      (''outcomes'', TSeq (map outcome_tree (art_outcomes a))),
      (''failures'', TSeq (map application_failure_tree (art_failures a))),
      (''checkpoint'', TModel ''Checkpoint''
         [(''id'', TStr (cp_id (art_checkpoint a))),
          (''condition'', condition_tree (cp_condition (art_checkpoint a)))]),
      (''policy'', policy_tree (art_policy a)), (''provenance'', provenance_tree (art_provenance a))]"

definition artifact_tree :: "capability_artifact \<Rightarrow> tree" where
  "artifact_tree a = TModel ''CapabilityArtifact'' (artifact_fields a)"

end
