(* ===== verification/Serialization.thy ===== *)
theory Serialization
  imports ArtifactTree Applications
begin

text \<open>
  Canonical serialization and content hashes (\<^verbatim>\<open>capabilities/serialization.py\<close>). The
  dump of an artifact is its tree without absent fields; the canonical form turns tuples and sets
  into lists, enumerations and instants into strings, and leaves out the fields whose defaults
  must not change the hash of older artifacts. The texts of \<open>json.dumps\<close>, \<open>isoformat\<close> and the
  digest are parameters.
\<close>

section \<open>Canonical form\<close>

record serializer =
  sz_iso :: "datetime \<Rightarrow> string"
  sz_key :: "json \<Rightarrow> string"
  sz_dumps :: "json \<Rightarrow> bytes"
  sz_sha256 :: "bytes \<Rightarrow> string"

text \<open>\<open>model_dump(mode="python", exclude_none=True)\<close> and \<open>_canonicalize\<close> in one pass.\<close>

fun present :: "tree \<Rightarrow> bool" where
  "present TNull = False"
| "present _ = True"

fun canonicalize :: "serializer \<Rightarrow> tree \<Rightarrow> json" where
  "canonicalize Z TNull = JNull"
| "canonicalize Z (TBool b) = JBool b"
| "canonicalize Z (TInt i) = JInt i"
| "canonicalize Z (TFloat r) = JFloat r"
| "canonicalize Z (TStr s) = JStr s"
| "canonicalize Z (TTime t) = JStr (str_replace ''+00:00'' ''Z'' (sz_iso Z t))"
| "canonicalize Z (TSeq ts) = JList (map (canonicalize Z) ts)"
| "canonicalize Z (TSet ts) = JList (sort_key (sz_key Z) (map (canonicalize Z) ts))"
| "canonicalize Z (TDict kts) = JObj (map (\<lambda>(k, t). (k, canonicalize Z t)) kts)"
| "canonicalize Z (TModel c kts) =
     JObj (map (\<lambda>(k, t). (k, canonicalize Z t)) (filter (\<lambda>(k, t). present t) kts))"

section \<open>Hash-neutral defaults\<close>

fun json_truthy :: "json \<Rightarrow> bool" where
  "json_truthy JNull = False"
| "json_truthy (JBool b) = b"
| "json_truthy (JInt i) = (i \<noteq> 0)"
| "json_truthy (JFloat r) = (r \<noteq> 0)"
| "json_truthy (JStr s) = (s \<noteq> [])"
| "json_truthy (JList vs) = (vs \<noteq> [])"
| "json_truthy (JObj kvs) = (kvs \<noteq> [])"

definition truthy_at :: "string \<Rightarrow> json_object \<Rightarrow> bool" where
  "truthy_at k kvs = (case dict_get kvs k of None \<Rightarrow> False | Some v \<Rightarrow> json_truthy v)"

definition pop_key :: "string \<Rightarrow> json_object \<Rightarrow> json_object" where
  "pop_key k kvs = [(k', v) \<leftarrow> kvs. k' \<noteq> k]"

definition pop_falsy :: "string \<Rightarrow> json_object \<Rightarrow> json_object" where
  "pop_falsy k kvs = (if truthy_at k kvs then kvs else pop_key k kvs)"

text \<open>In-place changes of the value under a key, when it is a mapping.\<close>

definition within_object :: "(json_object \<Rightarrow> json_object) \<Rightarrow> json \<Rightarrow> json" where
  "within_object f v = (case v of JObj kvs \<Rightarrow> JObj (f kvs) | _ \<Rightarrow> v)"

definition at_key :: "string \<Rightarrow> (json \<Rightarrow> json) \<Rightarrow> json_object \<Rightarrow> json_object" where
  "at_key k f kvs = map (\<lambda>(k', v). (k', if k' = k then f v else v)) kvs"

definition each_item :: "(json \<Rightarrow> json) \<Rightarrow> json \<Rightarrow> json" where
  "each_item f v = (case v of JList vs \<Rightarrow> JList (map f vs) | _ \<Rightarrow> v)"

function drop_empty_visuals :: "json \<Rightarrow> json" where
  "drop_empty_visuals (JObj kvs) =
     JObj (map (\<lambda>(k, v). (k, drop_empty_visuals v))
       (filter (\<lambda>(k, v). k \<noteq> ''visual_candidates'' \<or> truthy_at ''visual_candidates'' kvs) kvs))"
| "drop_empty_visuals (JList vs) = JList (map drop_empty_visuals vs)"
| "drop_empty_visuals JNull = JNull"
| "drop_empty_visuals (JBool b) = JBool b"
| "drop_empty_visuals (JInt i) = JInt i"
| "drop_empty_visuals (JFloat r) = JFloat r"
| "drop_empty_visuals (JStr s) = JStr s"
  by pat_completeness auto

termination
proof (relation "measure size")
  fix kvs :: json_object and p k v
  assume "p \<in> set (filter (\<lambda>(k, v). k \<noteq> ''visual_candidates'' \<or> truthy_at ''visual_candidates'' kvs) kvs)" "(k, v) = p"
  then have "(k, v) \<in> set kvs" by auto
  then have "size v < size_list (size_prod (\<lambda>_. 0) size) kvs" by (induction kvs) auto
  then show "(v, JObj kvs) \<in> measure size" by simp
next
  fix vs :: "json list" and v
  assume "v \<in> set vs"
  then have "size v < size_list size vs" by (induction vs) auto
  then show "(v, JList vs) \<in> measure size" by simp
qed simp

definition false_rendered :: "json_object \<Rightarrow> json_object" where
  "false_rendered kvs =
     (if dict_get kvs ''rendered_surface'' = Some (JBool False)
      then pop_key ''rendered_surface'' kvs else kvs)"

definition neutral_step :: "json \<Rightarrow> json" where
  "neutral_step = within_object (pop_falsy ''failure_refs'')"

text \<open>\<open>_remove_hash_neutral_schema_defaults\<close>.\<close>

definition remove_neutral_defaults :: "json_object \<Rightarrow> json_object" where
  "remove_neutral_defaults payload =
     (let p1 = pop_falsy ''failures'' payload;
          p2 = at_key ''compatibility'' (within_object false_rendered) p1;
          p3 = at_key ''policy'' (within_object (pop_falsy ''allowed_route_patterns'')) p2;
          p4 = at_key ''steps'' (each_item neutral_step) p3;
          p5 = at_key ''recoveries''
                 (each_item (within_object (at_key ''steps'' (each_item neutral_step)))) p4
      in case drop_empty_visuals (JObj p5) of JObj kvs \<Rightarrow> kvs | _ \<Rightarrow> p5)"

section \<open>The hash\<close>

definition object_of :: "json \<Rightarrow> json_object" where
  "object_of v = (case v of JObj kvs \<Rightarrow> kvs | _ \<Rightarrow> [])"

definition canonical_payload :: "serializer \<Rightarrow> capability_artifact \<Rightarrow> json_object" where
  "canonical_payload Z a =
     at_key ''provenance'' (within_object (pop_key ''artifact_content_hash''))
       (remove_neutral_defaults (object_of (canonicalize Z (artifact_tree a))))"

definition canonical_artifact_json :: "serializer \<Rightarrow> capability_artifact \<Rightarrow> bytes" where
  "canonical_artifact_json Z a = sz_dumps Z (JObj (canonical_payload Z a))"

definition artifact_content_hash :: "serializer \<Rightarrow> capability_artifact \<Rightarrow> string" where
  "artifact_content_hash Z a = ''sha256:'' @ sz_sha256 Z (canonical_artifact_json Z a)"

definition declared_hash :: "capability_artifact \<Rightarrow> string option" where
  "declared_hash a = pv_artifact_content_hash (art_provenance a)"

definition set_hash :: "string option \<Rightarrow> capability_artifact \<Rightarrow> capability_artifact" where
  "set_hash h a = a\<lparr>art_provenance := (art_provenance a)\<lparr>pv_artifact_content_hash := h\<rparr>\<rparr>"

section \<open>The declared hash is outside the hash\<close>

text \<open>Payloads that differ in the declared hash only.\<close>

definition hash_apart :: "json_object \<Rightarrow> json_object \<Rightarrow> bool" where
  "hash_apart x y =
     (\<exists>pre p q. x = pre @ [(''provenance'', JObj p)] \<and> y = pre @ [(''provenance'', JObj q)] \<and>
        pop_key ''artifact_content_hash'' p = pop_key ''artifact_content_hash'' q)"

lemma hash_apart_pop_falsy:
  "hash_apart x y \<Longrightarrow> k \<noteq> ''provenance'' \<Longrightarrow> hash_apart (pop_falsy k x) (pop_falsy k y)"
  unfolding hash_apart_def pop_falsy_def truthy_at_def pop_key_def
  by (fastforce simp: map_add_def split: option.splits)

lemma hash_apart_at_key:
  "hash_apart x y \<Longrightarrow> k \<noteq> ''provenance'' \<Longrightarrow> hash_apart (at_key k f x) (at_key k f y)"
  unfolding hash_apart_def at_key_def by fastforce

definition keep_visual :: "json_object \<Rightarrow> string \<times> json \<Rightarrow> bool" where
  "keep_visual kvs e = (fst e \<noteq> ''visual_candidates'' \<or> truthy_at ''visual_candidates'' kvs)"

lemma drop_empty_visuals_object:
  "drop_empty_visuals (JObj kvs) = JObj (map (apsnd drop_empty_visuals) (filter (keep_visual kvs) kvs))"
proof -
  have kept: "filter (\<lambda>(k, v). k \<noteq> ''visual_candidates'' \<or> truthy_at ''visual_candidates'' kvs) kvs =
      filter (keep_visual kvs) kvs"
    by (rule filter_cong) (auto simp: keep_visual_def)
  have vals: "map (\<lambda>(k, v). (k, drop_empty_visuals v)) es = map (apsnd drop_empty_visuals) es" for es :: json_object
    by (rule map_cong) auto
  show ?thesis unfolding drop_empty_visuals.simps kept vals ..
qed

lemma truthy_at_pop: "k \<noteq> j \<Longrightarrow> truthy_at k (pop_key j kvs) = truthy_at k kvs"
  unfolding truthy_at_def pop_key_def by (induction kvs) auto

lemma pop_drop_visuals:
  assumes "pop_key j p = pop_key j q" "j \<noteq> ''visual_candidates''"
  shows "pop_key j (map (apsnd drop_empty_visuals) (filter (keep_visual p) p)) =
         pop_key j (map (apsnd drop_empty_visuals) (filter (keep_visual q) q))"
proof -
  have step: "pop_key j (map (apsnd drop_empty_visuals) (filter (keep_visual kvs) kvs)) =
      map (apsnd drop_empty_visuals) (filter (keep_visual kvs) (pop_key j kvs))" for kvs
    unfolding pop_key_def filter_map filter_filter
    by (rule arg_cong[of _ _ "map _"], rule filter_cong) auto
  have "keep_visual p = keep_visual q"
    using truthy_at_pop[of "''visual_candidates''" j p] truthy_at_pop[of "''visual_candidates''" j q] assms
    by (auto simp: keep_visual_def)
  then show ?thesis unfolding step using assms(1) by simp
qed

lemma hash_apart_visuals:
  assumes "hash_apart x y"
  shows "hash_apart (object_of (drop_empty_visuals (JObj x))) (object_of (drop_empty_visuals (JObj y)))"
proof -
  obtain pre p q where xy: "x = pre @ [(''provenance'', JObj p)]" "y = pre @ [(''provenance'', JObj q)]"
      "pop_key ''artifact_content_hash'' p = pop_key ''artifact_content_hash'' q"
    using assms by (auto simp: hash_apart_def)
  have "truthy_at ''visual_candidates'' x = truthy_at ''visual_candidates'' y"
    by (simp add: xy truthy_at_def map_add_def split: option.splits)
  then have same: "keep_visual x = keep_visual y" by (auto simp: keep_visual_def)
  define tail where "tail r = map (apsnd drop_empty_visuals) (filter (keep_visual r) r)" for r
  have "object_of (drop_empty_visuals (JObj z)) =
      map (apsnd drop_empty_visuals) (filter (keep_visual y) pre) @ [(''provenance'', JObj (tail r))]"
    if "z = pre @ [(''provenance'', JObj r)]" "keep_visual z = keep_visual y" for z r
  proof -
    have "keep_visual y (''provenance'', JObj r)" by (simp add: keep_visual_def)
    then show ?thesis
      unfolding drop_empty_visuals_object object_of_def json.case that(2)
      by (simp add: that(1) drop_empty_visuals_object tail_def del: drop_empty_visuals.simps)
  qed
  from this[OF xy(1) same] this[OF xy(2) refl] show ?thesis
    unfolding hash_apart_def
    by (intro exI[of _ "map (apsnd drop_empty_visuals) (filter (keep_visual y) pre)"] exI[of _ "tail p"]
        exI[of _ "tail q"] conjI) (simp_all only: tail_def pop_drop_visuals[OF xy(3), simplified])
qed

lemma hash_apart_neutral: "hash_apart x y \<Longrightarrow> hash_apart (remove_neutral_defaults x) (remove_neutral_defaults y)"
proof -
  assume x: "hash_apart x y"
  have whole: "(case drop_empty_visuals (JObj z) of JObj kvs \<Rightarrow> kvs | _ \<Rightarrow> z) =
      object_of (drop_empty_visuals (JObj z))" for z
    unfolding drop_empty_visuals_object object_of_def by simp
  show ?thesis
    unfolding remove_neutral_defaults_def Let_def whole
    by (intro hash_apart_visuals hash_apart_at_key hash_apart_pop_falsy x) simp_all
qed

lemma hash_apart_end:
  "hash_apart x y \<Longrightarrow> at_key ''provenance'' (within_object (pop_key ''artifact_content_hash'')) x =
     at_key ''provenance'' (within_object (pop_key ''artifact_content_hash'')) y"
  by (auto simp: hash_apart_def at_key_def within_object_def)

lemma hash_apart_artifact:
  "hash_apart (object_of (canonicalize Z (artifact_tree (set_hash h a)))) (object_of (canonicalize Z (artifact_tree a)))"
proof -
  define pre where "pre = map (\<lambda>(k, t). (k, canonicalize Z t)) (butlast (artifact_fields a))"
  define prov where "prov g = object_of (canonicalize Z (provenance_tree (art_provenance (set_hash g a))))" for g
  have fields: "object_of (canonicalize Z (artifact_tree (set_hash g a))) = pre @ [(''provenance'', JObj (prov g))]" for g
    by (simp add: object_of_def artifact_tree_def artifact_fields_def set_hash_def provenance_tree_def pre_def
        prov_def metadata_tree_def compatibility_tree_def contract_tree_def policy_tree_def)
  have pop: "pop_key ''artifact_content_hash'' (prov g) = pop_key ''artifact_content_hash'' (prov None)" for g
    by (cases g) (simp_all add: prov_def provenance_tree_def set_hash_def object_of_def pop_key_def tree_opt_def)
  have own: "set_hash (declared_hash a) a = a" by (simp add: set_hash_def declared_hash_def)
  show ?thesis
    unfolding hash_apart_def
    using fields[of h] fields[of "declared_hash a"] pop[of h] pop[of "declared_hash a"] unfolding own by metis
qed

lemma hash_ignores:
  "artifact_content_hash Z (set_hash h a) = artifact_content_hash Z a"
  unfolding artifact_content_hash_def canonical_artifact_json_def canonical_payload_def
  by (simp only: hash_apart_end[OF hash_apart_neutral[OF hash_apart_artifact]])

text \<open>
  The declared hash is outside the hash. Whatever content hash an artifact declares, its
  content hash is the same; so an artifact that declares its own hash passes the integrity check.
\<close>

theorem content_hash_ignores_declared:
  "artifact_content_hash Z (set_hash h a) = artifact_content_hash Z a"
  by (rule hash_ignores)

end
