(* ===== verification/Registry.thy ===== *)
theory Registry
  imports Serialization "HOL-Library.Product_Lexorder"
begin

text \<open>
  The capability registry (\<^verbatim>\<open>capabilities/registry.py\<close>): the in-memory adapter, and the
  local adapter over a directory of YAML files, with what can go wrong on the disk. The directory
  is the list of its files; the path \<open>root/id/version.yaml\<close> is the pair of id and version. The YAML
  texts and the clock are parameters; the root contains no links, and an operation runs alone.
\<close>

section \<open>Versions and records\<close>

type_synonym semver = "nat \<times> nat \<times> nat"

text \<open>\<open>_semantic_version\<close> on digits; anything else raises.\<close>

definition semantic_version :: "string \<Rightarrow> semver result" where
  "semantic_version s =
     (case split_on (CHR ''.'') s of
        [a, b, c] \<Rightarrow>
          if is_digits a \<and> is_digits b \<and> is_digits c
          then Inr (decimal_value a, decimal_value b, decimal_value c)
          else Inl (ValueError ''invalid version'')
      | _ \<Rightarrow> Inl (ValueError ''invalid version''))"

definition version_text :: "semver \<Rightarrow> string" where
  "version_text v =
     (case v of (a, b, c) \<Rightarrow> join_with ''.'' [show_nat a, show_nat b, show_nat c])"

definition next_patch :: "semver \<Rightarrow> semver" where
  "next_patch v = (case v of (a, b, c) \<Rightarrow> (a, b, c + 1))"

record version_record =
  vr_artifact :: capability_artifact
  vr_hash :: string
  vr_published :: datetime

type_synonym registry_key = "string \<times> string"
type_synonym records = "(registry_key \<times> version_record) list"

definition artifact_key :: "capability_artifact \<Rightarrow> registry_key" where
  "artifact_key a = (cm_id (art_capability a), cm_version (art_capability a))"

definition set_version :: "string \<Rightarrow> capability_artifact \<Rightarrow> capability_artifact" where
  "set_version v a = a\<lparr>art_capability := (art_capability a)\<lparr>cm_version := v\<rparr>\<rparr>"

definition integrity_conflict :: "serializer \<Rightarrow> capability_artifact \<Rightarrow> bool" where
  "integrity_conflict Z a =
     (case declared_hash a of None \<Rightarrow> False | Some h \<Rightarrow> h \<noteq> artifact_content_hash Z a)"

definition hash_mismatch :: exn where
  "hash_mismatch = CapabilityIntegrityError
     ''artifact provenance hash does not match canonical artifact content''"

definition version_conflict :: exn where
  "version_conflict = CapabilityConflictError
     ''capability versions are immutable and cannot be overwritten''"

text \<open>The version after the registered ones, and not below the proposed one.\<close>

definition next_version :: "semver list \<Rightarrow> semver \<Rightarrow> semver" where
  "next_version registered proposed =
     (case registered of [] \<Rightarrow> proposed
      | v # vs \<Rightarrow> max proposed (next_patch (fold max vs v)))"

definition versioned :: "serializer \<Rightarrow> capability_artifact \<Rightarrow> semver \<Rightarrow> capability_artifact" where
  "versioned Z a v =
     (let candidate = set_hash None (set_version (version_text v) a) in
      set_hash (Some (artifact_content_hash Z candidate)) candidate)"

section \<open>The in-memory registry\<close>

definition mem_publish ::
  "serializer \<Rightarrow> datetime \<Rightarrow> records \<Rightarrow> capability_artifact \<Rightarrow> (version_record \<times> records) result" where
  "mem_publish Z now recs a =
     (if integrity_conflict Z a then Inl hash_mismatch
      else case map_of recs (artifact_key a) of
        Some r \<Rightarrow>
          if vr_hash r \<noteq> artifact_content_hash Z a then Inl version_conflict else Inr (r, recs)
      | None \<Rightarrow>
          (let r = \<lparr>vr_artifact = a, vr_hash = artifact_content_hash Z a, vr_published = now\<rparr> in
           Inr (r, AList.update (artifact_key a) r recs)))"

definition registered_versions :: "records \<Rightarrow> string \<Rightarrow> semver list result" where
  "registered_versions recs i =
     map_r (\<lambda>((j, v), r). semantic_version v) (filter (\<lambda>((j, v), r). j = i) recs)"

definition mem_publish_next ::
  "serializer \<Rightarrow> datetime \<Rightarrow> records \<Rightarrow> capability_artifact \<Rightarrow> (version_record \<times> records) result" where
  "mem_publish_next Z now recs a =
     bind_r (registered_versions recs (cm_id (art_capability a))) (\<lambda>registered.
     bind_r (semantic_version (cm_version (art_capability a))) (\<lambda>proposed.
     let b = versioned Z a (next_version registered proposed);
         r = \<lparr>vr_artifact = b, vr_hash = artifact_content_hash Z b, vr_published = now\<rparr>
     in Inr (r, AList.update (artifact_key b) r recs)))"

definition not_found :: exn where
  "not_found = CapabilityNotFoundError ''capability or exact version was not found''"

definition registry_get :: "records \<Rightarrow> string \<Rightarrow> string \<Rightarrow> version_record result" where
  "registry_get recs i v = (case map_of recs (i, v) of None \<Rightarrow> Inl not_found | Some r \<Rightarrow> Inr r)"

text \<open>\<open>sorted(..., reverse=True)\<close> keeps equal elements in order; \<open>max\<close> takes the first largest.\<close>

definition record_version :: "version_record \<Rightarrow> semver result" where
  "record_version r = semantic_version (cm_version (art_capability (vr_artifact r)))"

definition newest_first :: "version_record list \<Rightarrow> version_record list result" where
  "newest_first rs =
     bind_r (map_r (\<lambda>r. bind_r (record_version r) (\<lambda>v. Inr (v, r))) rs) (\<lambda>vrs.
     Inr (map snd (rev (sort_key fst (rev vrs)))))"

definition listed :: "version_record list \<Rightarrow> version_record list result" where
  "listed rs = (if rs = [] then Inl (CapabilityNotFoundError ''capability was not found'') else newest_first rs)"

definition mem_versions :: "records \<Rightarrow> string \<Rightarrow> version_record list result" where
  "mem_versions recs i = listed (map snd (filter (\<lambda>((j, v), r). j = i) recs))"

definition mem_latest :: "records \<Rightarrow> string \<Rightarrow> version_record result" where
  "mem_latest recs i = bind_r (mem_versions recs i) (\<lambda>rs. Inr (hd rs))"

definition mem_all :: "records \<Rightarrow> version_record list" where
  "mem_all recs = map snd recs"

section \<open>The local registry\<close>

record local_file =
  lf_content :: bytes
  lf_mtime :: datetime

type_synonym local_files = "(registry_key \<times> local_file) list"
type_synonym 'a reg = "(local_files, 'a) comp"

record local_env =
  lo_serializer :: serializer
  lo_dump :: "capability_artifact \<Rightarrow> bytes"
  lo_load :: "bytes \<Rightarrow> capability_artifact result"
  lo_maximum :: int

text \<open>
  What may fail during one operation: the lock, reading a file, the temporary file, linking it
  (another process may have put a file there), and the last synchronization.
\<close>

record faults =
  fa_lock :: bool
  fa_read :: "registry_key \<Rightarrow> bool"
  fa_prepare :: bool
  fa_link :: bool
  fa_other :: "local_file option"
  fa_sync :: bool

definition no_faults :: faults where
  "no_faults = \<lparr>fa_lock = False, fa_read = (\<lambda>k. False), fa_prepare = False, fa_link = False,
                fa_other = None, fa_sync = False\<rparr>"

definition storage_error :: "string \<Rightarrow> exn" where
  "storage_error what = CapabilityPublicationError (what @ '' storage is unavailable'')"

definition local_directory :: "string \<Rightarrow> string result" where
  "local_directory i =
     (if is_capability_id i then Inr i else Inl (CapabilityNotFoundError ''capability was not found''))"

definition local_path :: "string \<Rightarrow> string \<Rightarrow> registry_key result" where
  "local_path i v =
     bind_r (local_directory i) (\<lambda>d.
     if v = [] \<or> \<not> list_all (\<lambda>c. c \<in> set (digits @ ''.'')) v then Inl not_found
     else case semantic_version v of Inl e \<Rightarrow> Inl not_found | Inr _ \<Rightarrow> Inr (d, v))"

text \<open>\<open>_load\<close>.\<close>

definition local_record :: "local_env \<Rightarrow> registry_key \<Rightarrow> local_file \<Rightarrow> version_record result" where
  "local_record L k f =
     (if lo_maximum L < int (length (lf_content f))
      then Inl (CapabilityIntegrityError ''artifact exceeds the loading size limit'')
      else case lo_load L (lf_content f) of
        Inl e \<Rightarrow> Inl (CapabilityIntegrityError ''stored artifact failed schema validation'')
      | Inr a \<Rightarrow>
          bind_r (local_path (cm_id (art_capability a)) (cm_version (art_capability a))) (\<lambda>expected.
          if k \<noteq> expected
          then Inl (CapabilityIntegrityError ''artifact identity does not match its storage path'')
          else if integrity_conflict (lo_serializer L) a then Inl hash_mismatch
          else Inr \<lparr>vr_artifact = a, vr_hash = artifact_content_hash (lo_serializer L) a,
                    vr_published = lf_mtime f\<rparr>))"

definition local_load :: "local_env \<Rightarrow> faults \<Rightarrow> local_files \<Rightarrow> registry_key \<Rightarrow> version_record result" where
  "local_load L F files k =
     (case map_of files k of
        None \<Rightarrow> Inl not_found
      | Some f \<Rightarrow> if fa_read F k then Inl (storage_error ''capability'') else local_record L k f)"

text \<open>An existing version is returned when its content is the same.\<close>

definition same_version ::
  "local_env \<Rightarrow> faults \<Rightarrow> registry_key \<Rightarrow> string \<Rightarrow> version_record reg" where
  "same_version L F k h =
     bind_c (gets (\<lambda>files. local_load L F files k)) (\<lambda>r. bind_c (lift_c r) (\<lambda>existing.
     if vr_hash existing \<noteq> h then raise version_conflict else ret existing))"

definition link_file ::
  "local_env \<Rightarrow> faults \<Rightarrow> registry_key \<Rightarrow> string \<Rightarrow> local_file \<Rightarrow> version_record reg" where
  "link_file L F k h f =
     (case fa_other F of
        Some other \<Rightarrow>
          then_c (update (\<lambda>files. AList.update k other files)) (same_version L F k h)
      | None \<Rightarrow>
          if fa_link F then raise (storage_error ''capability publication'')
          else
            then_c (update (\<lambda>files. AList.update k f files))
            (if fa_sync F then raise (storage_error ''capability publication'')
             else bind_c (gets (\<lambda>files. local_load L F files k)) lift_c))"

text \<open>\<open>_publish_locked\<close>.\<close>

definition publish_locked ::
  "local_env \<Rightarrow> faults \<Rightarrow> datetime \<Rightarrow> capability_artifact \<Rightarrow> version_record reg" where
  "publish_locked L F now a =
     (let h = artifact_content_hash (lo_serializer L) a in
      if integrity_conflict (lo_serializer L) a then raise hash_mismatch
      else bind_c (lift_c (local_path (cm_id (art_capability a)) (cm_version (art_capability a)))) (\<lambda>k.
        bind_c (gets (\<lambda>files. map_of files k)) (\<lambda>existing.
        if existing \<noteq> None then same_version L F k h
        else if lo_maximum L < int (length (lo_dump L a))
        then raise (CapabilityIntegrityError ''artifact exceeds the publication size limit'')
        else if fa_prepare F then raise (storage_error ''capability publication'')
        else link_file L F k h \<lparr>lf_content = lo_dump L a, lf_mtime = now\<rparr>)))"

definition local_publish ::
  "local_env \<Rightarrow> faults \<Rightarrow> datetime \<Rightarrow> capability_artifact \<Rightarrow> version_record reg" where
  "local_publish L F now a =
     (if fa_lock F then raise (storage_error ''capability publication'') else publish_locked L F now a)"

text \<open>\<open>_versions_locked\<close>: every file of the directory is read.\<close>

definition versions_locked :: "local_env \<Rightarrow> faults \<Rightarrow> string \<Rightarrow> local_files \<Rightarrow> version_record list result" where
  "versions_locked L F i files =
     bind_r (local_directory i) (\<lambda>d.
     map_r (\<lambda>(k, f). local_load L F files k) (filter (\<lambda>(k, f). fst k = d) files))"

definition local_publish_next ::
  "local_env \<Rightarrow> faults \<Rightarrow> datetime \<Rightarrow> capability_artifact \<Rightarrow> version_record reg" where
  "local_publish_next L F now a =
     (if fa_lock F then raise (storage_error ''capability publication'')
      else
        bind_c (gets (versions_locked L F (cm_id (art_capability a)))) (\<lambda>r.
        bind_c (lift_c r) (\<lambda>existing.
        bind_c (lift_c (semantic_version (cm_version (art_capability a)))) (\<lambda>proposed.
        bind_c (lift_c (map_r record_version existing)) (\<lambda>registered.
        publish_locked L F now (versioned (lo_serializer L) a (next_version registered proposed)))))))"

definition local_get :: "local_env \<Rightarrow> faults \<Rightarrow> local_files \<Rightarrow> string \<Rightarrow> string \<Rightarrow> version_record result" where
  "local_get L F files i v =
     bind_r (local_path i v) (\<lambda>k.
     if map_of files k = None then Inl not_found else local_load L F files k)"

definition local_versions :: "local_env \<Rightarrow> faults \<Rightarrow> local_files \<Rightarrow> string \<Rightarrow> version_record list result" where
  "local_versions L F files i = bind_r (versions_locked L F i files) listed"

definition local_latest :: "local_env \<Rightarrow> faults \<Rightarrow> local_files \<Rightarrow> string \<Rightarrow> version_record result" where
  "local_latest L F files i = bind_r (local_versions L F files i) (\<lambda>rs. Inr (hd rs))"

definition local_all :: "local_env \<Rightarrow> faults \<Rightarrow> local_files \<Rightarrow> version_record list result" where
  "local_all L F files =
     map_r (\<lambda>(k, f). local_load L F files k)
       (sort_key (\<lambda>(k, f). (fst k, snd k @ ''.yaml'')) files)"

end
