(* ===== verification/RegistryGuarantees.thy ===== *)
theory RegistryGuarantees
  imports Registry ArtifactSample
begin

text \<open>
  What the registry promises: a published version never changes, the next version is newer than
  every registered one, and the directory of files is an implementation of the in-memory registry.
\<close>

section \<open>Versions as text\<close>

lemma split_on_plain: "c \<notin> set w \<Longrightarrow> split_on c w = [w]"
  by (induction w) auto

lemma split_on_word: "c \<notin> set w \<Longrightarrow> split_on c (w @ c # s) = w # split_on c s"
  by (induction w) auto

lemma digits_no_dot: "is_digits w \<Longrightarrow> CHR ''.'' \<notin> set w"
proof
  assume w: "is_digits w" "CHR ''.'' \<in> set w"
  then have "CHR ''.'' \<in> set digits" unfolding is_digits_def list_all_iff by metis
  then show False by code_simp
qed

lemma version_round: "semantic_version (version_text v) = Inr v"
proof -
  obtain a b c where v: "v = (a, b, c)" by (cases v)
  have dot: "CHR ''.'' \<notin> set (show_nat n)" for n by (rule digits_no_dot[OF show_nat_digits])
  have "version_text v = show_nat a @ CHR ''.'' # show_nat b @ CHR ''.'' # show_nat c"
    by (simp add: v version_text_def)
  then have "split_on (CHR ''.'') (version_text v) = [show_nat a, show_nat b, show_nat c]"
    by (simp only: split_on_word[OF dot] split_on_plain[OF dot])
  then show ?thesis by (simp add: semantic_version_def v show_nat_digits decimal_show)
qed

lemma next_version_above:
  "v \<in> set vs \<Longrightarrow> v < next_version vs p" "p \<le> next_version vs p"
proof -
  have next_above: "w \<le> u \<Longrightarrow> w < next_patch u" for w u :: semver
    by (cases w; cases u) (auto simp: next_patch_def less_prod_def less_eq_prod_def)
  show "v < next_version vs p" if "v \<in> set vs"
  proof (cases vs)
    case (Cons w ws)
    have "v \<le> fold max ws w" using that unfolding Cons Max.set_eq_fold [symmetric] by simp
    from next_above[OF this] show ?thesis
      by (simp add: Cons next_version_def less_max_iff_disj)
  qed (use that in simp)
  show "p \<le> next_version vs p" by (simp add: next_version_def split: list.splits)
qed

lemma key_versioned: "artifact_key (versioned Z a v) = (cm_id (art_capability a), version_text v)"
  by (simp add: artifact_key_def versioned_def Let_def set_hash_def set_version_def)

lemma hash_versioned: "\<not> integrity_conflict Z (versioned Z a v)"
proof -
  have own: "declared_hash (set_hash h b) = h" for h b by (simp add: declared_hash_def set_hash_def)
  show ?thesis unfolding integrity_conflict_def versioned_def Let_def own hash_ignores by simp
qed

section \<open>Published records\<close>

lemma mem_publish_keeps:
  assumes "mem_publish Z now recs a = Inr (r, recs')" "map_of recs k = Some x"
  shows "map_of recs' k = Some x"
  using assms by (auto simp: mem_publish_def Let_def update_conv' split: if_splits option.splits)

lemma registered_mem:
  assumes "registered_versions recs i = Inr vs" "map_of recs (i, w) = Some x"
  shows "\<exists>v\<in>set vs. semantic_version w = Inr v"
proof -
  have "((i, w), x) \<in> set (filter (\<lambda>((j, v), r). j = i) recs)"
    using map_of_SomeD[OF assms(2)] by simp
  moreover have "map_r (\<lambda>((j, v), r). semantic_version v) ys = Inr vs \<Longrightarrow> ((i, w), x) \<in> set ys \<Longrightarrow>
      \<exists>v\<in>set vs. semantic_version w = Inr v" for ys
    by (induction ys arbitrary: vs) (auto simp: bind_r_Inr_iff)
  ultimately show ?thesis using assms(1) unfolding registered_versions_def by blast
qed

lemma next_key_fresh:
  assumes "registered_versions recs i = Inr vs"
  shows "map_of recs (i, version_text (next_version vs p)) = None"
proof (rule ccontr)
  assume "\<not> ?thesis"
  then obtain x where "map_of recs (i, version_text (next_version vs p)) = Some x" by blast
  from registered_mem[OF assms this] have "next_version vs p \<in> set vs" by (auto simp: version_round)
  from next_version_above(1)[OF this, of p] show False by simp
qed

lemma mem_publish_next_Inr:
  assumes "mem_publish_next Z now recs a = Inr (r, recs')"
  obtains vs p where "registered_versions recs (cm_id (art_capability a)) = Inr vs"
    "semantic_version (cm_version (art_capability a)) = Inr p"
    "vr_artifact r = versioned Z a (next_version vs p)"
    "recs' = recs @ [((cm_id (art_capability a), version_text (next_version vs p)), r)]"
proof -
  have append: "AList.update k y d = d @ [(k, y)]" if "map_of d k = None" for k :: registry_key and y and d :: records
    using that by (induction d) (auto split: if_splits)
  from assms obtain vs p where parts: "registered_versions recs (cm_id (art_capability a)) = Inr vs"
    "semantic_version (cm_version (art_capability a)) = Inr p"
    "vr_artifact r = versioned Z a (next_version vs p)"
    "recs' = AList.update (artifact_key (versioned Z a (next_version vs p))) r recs"
    by (auto simp: mem_publish_next_def bind_r_Inr_iff Let_def)
  with append[OF next_key_fresh[OF parts(1)], of p r] that show thesis by (simp add: key_versioned)
qed

text \<open>The records of a registry sit under their own keys.\<close>

definition records_ok :: "records \<Rightarrow> bool" where
  "records_ok recs = (\<forall>(k, r)\<in>set recs. k = artifact_key (vr_artifact r))"

lemma newest_first_hd:
  assumes "newest_first rs = Inr out" "r \<in> set rs" "record_version r = Inr v"
    and "\<And>s u. s \<in> set rs \<Longrightarrow> s \<noteq> r \<Longrightarrow> record_version s = Inr u \<Longrightarrow> u < v"
  shows "hd out = r"
proof -
  obtain vrs where vrs: "map_r (\<lambda>r. bind_r (record_version r) (\<lambda>v. Inr (v, r))) rs = Inr vrs"
      "out = map snd (rev (sort_key fst (rev vrs)))"
    using assms(1) by (auto simp: newest_first_def bind_r_Inr_iff)
  have pairs: "map_r (\<lambda>r. bind_r (record_version r) (\<lambda>v. Inr (v, r))) ys = Inr zs \<Longrightarrow>
      set zs = {(u, s). s \<in> set ys \<and> record_version s = Inr u}" for ys zs
    by (induction ys arbitrary: zs) (auto simp: bind_r_Inr_iff)
  have mem: "(v, r) \<in> set vrs" using pairs[OF vrs(1)] assms(2,3) by auto
  let ?xs = "sort_key fst (rev vrs)"
  have ne: "?xs \<noteq> []" using mem by (metis length_pos_if_in_set length_rev length_sort less_numeral_extra(3) list.size(3))
  obtain u s where last: "last ?xs = (u, s)" by fastforce
  have "(u, s) \<in> set vrs" using last_in_set[OF ne] last by simp
  then have s: "s \<in> set rs" "record_version s = Inr u" using pairs[OF vrs(1)] by auto
  have "fst x \<le> fst (last ?xs)" if "x \<in> set ?xs" for x
  proof -
    have "sorted (map fst (butlast ?xs @ [last ?xs]))"
      unfolding append_butlast_last_id[OF ne] by (rule sorted_sort_key)
    moreover have "x \<in> set (butlast ?xs @ [last ?xs])"
      unfolding append_butlast_last_id[OF ne] by (rule that)
    ultimately show ?thesis unfolding map_append sorted_append set_append by auto
  qed
  from this[of "(v, r)"] mem have "v \<le> u" by (simp add: last)
  with assms(4)[OF s(1) _ s(2)] have "s = r" by (cases "s = r") auto
  have "hd out = snd (last ?xs)" using ne by (simp add: vrs(2) hd_map hd_rev)
  then show ?thesis using last \<open>s = r\<close> by simp
qed

lemma registered_records:
  "records_ok recs \<Longrightarrow> registered_versions recs i = map_r record_version (map snd (filter (\<lambda>((j, v), r). j = i) recs))"
  unfolding registered_versions_def
proof (induction recs)
  case (Cons x recs)
  obtain j w r where x: "x = ((j, w), r)" by (cases x) auto
  have "records_ok recs" "semantic_version w = record_version r"
    using Cons.prems by (auto simp: records_ok_def x artifact_key_def record_version_def)
  with Cons.IH show ?case by (simp add: x)
qed simp

lemma newest_first_total: "map_r record_version rs = Inr vs \<Longrightarrow> \<exists>out. newest_first rs = Inr out"
proof -
  assume "map_r record_version rs = Inr vs"
  then have "\<exists>vrs. map_r (\<lambda>r. bind_r (record_version r) (\<lambda>v. Inr (v, r))) rs = Inr vrs"
    by (induction rs arbitrary: vs) (auto simp: bind_r_Inr_iff)
  then show ?thesis by (auto simp: newest_first_def)
qed

lemma map_r_member: "map_r f xs = Inr ys \<Longrightarrow> x \<in> set xs \<Longrightarrow> f x = Inr y \<Longrightarrow> y \<in> set ys"
  by (induction xs arbitrary: ys) (auto simp: bind_r_Inr_iff)

lemma latest_of_next:
  assumes "records_ok recs" "registered_versions recs i = Inr vs" "record_version r = Inr v"
    "\<And>u. u \<in> set vs \<Longrightarrow> u < v"
  shows "mem_latest (recs @ [((i, w), r)]) i = Inr r"
proof -
  let ?rs = "map snd (filter (\<lambda>((j, v), r). j = i) recs)"
  have vs: "map_r record_version ?rs = Inr vs" using assms(2) registered_records[OF assms(1)] by simp
  have "\<exists>us. map_r record_version (xs @ [r]) = Inr us" if "map_r record_version xs = Inr ys" for xs ys
    using that assms(3) by (induction xs arbitrary: ys) (auto simp: bind_r_Inr_iff)
  with vs obtain out where out: "newest_first (?rs @ [r]) = Inr out" using newest_first_total by blast
  have below: "u < v" if "s \<in> set (?rs @ [r])" "s \<noteq> r" "record_version s = Inr u" for s u
  proof -
    have "s \<in> set ?rs" using that(1,2) by simp
    from assms(4)[OF map_r_member[OF vs this that(3)]] show ?thesis .
  qed
  have "hd out = r" by (rule newest_first_hd[OF out _ assms(3) below]) simp
  with out show ?thesis by (simp add: mem_latest_def mem_versions_def listed_def)
qed

section \<open>A history of operations\<close>

text \<open>What callers ask of a registry, with the clock and the disk at the time.\<close>

datatype reg_op = Publish capability_artifact | PublishNext capability_artifact

definition mem_op :: "serializer \<Rightarrow> records \<Rightarrow> datetime \<times> reg_op \<Rightarrow> (version_record \<times> records) result" where
  "mem_op Z recs c =
     (case snd c of
        Publish a \<Rightarrow> mem_publish Z (fst c) recs a
      | PublishNext a \<Rightarrow> mem_publish_next Z (fst c) recs a)"

definition mem_step :: "serializer \<Rightarrow> datetime \<times> reg_op \<Rightarrow> records \<Rightarrow> records" where
  "mem_step Z c recs = (case mem_op Z recs c of Inl e \<Rightarrow> recs | Inr (r, recs') \<Rightarrow> recs')"

definition local_op :: "local_env \<Rightarrow> faults \<times> datetime \<times> reg_op \<Rightarrow> version_record reg" where
  "local_op L c =
     (case snd (snd c) of
        Publish a \<Rightarrow> local_publish L (fst c) (fst (snd c)) a
      | PublishNext a \<Rightarrow> local_publish_next L (fst c) (fst (snd c)) a)"

definition local_step :: "local_env \<Rightarrow> faults \<times> datetime \<times> reg_op \<Rightarrow> local_files \<Rightarrow> local_files" where
  "local_step L c files = snd (local_op L c files)"

lemma mem_publish_next_keeps:
  assumes "mem_publish_next Z now recs a = Inr (r, recs')" "map_of recs k = Some x"
  shows "map_of recs' k = Some x"
  using assms(1) by (rule mem_publish_next_Inr) (simp add: map_of_append assms(2) map_add_Some_iff)

lemma mem_step_keeps: "map_of recs k = Some x \<Longrightarrow> map_of (mem_step Z c recs) k = Some x"
  by (auto simp: mem_step_def mem_op_def mem_publish_keeps mem_publish_next_keeps
      split: sum.splits reg_op.splits)

lemmas registry_runs = bind_c_def then_c_def gets_def lift_c_def raise_def ret_def update_def

lemma local_op_keeps: "map_of files j = Some f \<Longrightarrow> map_of (local_step L c files) j = Some f"
proof -
  define I where "I files = (map_of files j = Some f)" for files :: local_files
  have same: "keeps I (same_version L F k h)" for F k h unfolding same_version_def by (intro keeping)
  have locked: "keeps I (publish_locked L F now a)" for F now a
  proof (rule keepsI)
    fix files assume I: "I files"
    have link: "I (snd (link_file L F k h g files))" if "map_of files k = None" for k h g
    proof -
      have kept: "I (AList.update k x files)" for x using I that by (auto simp: I_def update_conv')
      show ?thesis
        using kept keepsD[OF same, of "AList.update k _ files"] I
        by (auto simp: link_file_def registry_runs split: option.splits)
    qed
    show "I (snd (publish_locked L F now a files))"
      using I keepsD[OF same I] link
      by (auto simp: publish_locked_def registry_runs Let_def split: sum.splits)
  qed
  have publish: "keeps I (local_publish L F now a)" for F now a
    unfolding local_publish_def by (intro keeping locked)
  have "keeps I (local_publish_next L F now a)" for F now a
    unfolding local_publish_next_def by (intro keeping locked)
  with publish have "keeps I (local_op L c)" by (simp add: local_op_def split: reg_op.splits)
  from keepsD[OF this] show "map_of files j = Some f \<Longrightarrow> map_of (local_step L c files) j = Some f"
    by (simp add: I_def local_step_def)
qed

section \<open>The directory implements the registry\<close>

definition represents :: "local_env \<Rightarrow> local_files \<Rightarrow> records \<Rightarrow> bool" where
  "represents L files recs =
     (distinct (map fst files) \<and>
      list_all2 (\<lambda>(k, f) (j, r). j = k \<and> local_record L k f = Inr r) files recs)"

lemma represents_None: "represents L files recs \<Longrightarrow> (map_of files k = None) = (map_of recs k = None)"
proof -
  assume "represents L files recs"
  then have "list_all2 (\<lambda>(k, f) (j, r). j = k \<and> local_record L k f = Inr r) files recs"
    by (simp add: represents_def)
  then show ?thesis by (induction rule: list_all2_induct) auto
qed

lemma represents_Some:
  assumes "represents L files recs" "map_of files k = Some f"
  shows "\<exists>r. map_of recs k = Some r \<and> local_record L k f = Inr r"
proof -
  have "list_all2 (\<lambda>(k, f) (j, r). j = k \<and> local_record L k f = Inr r) files recs"
    using assms(1) by (simp add: represents_def)
  then show ?thesis using assms(2) by (induction rule: list_all2_induct) (auto split: if_splits)
qed

lemma represents_update:
  assumes "represents L files recs" "map_of files k = None" "local_record L k f = Inr r"
  shows "represents L (AList.update k f files) (AList.update k r recs)"
proof -
  have append: "AList.update k y d = d @ [(k, y)]" if "map_of d k = None" for d :: "(registry_key \<times> 'x) list" and y
    using that by (induction d) (auto split: if_splits)
  have "map_of recs k = None" using represents_None[OF assms(1)] assms(2) by blast
  with assms show ?thesis
    by (simp add: represents_def append list_all2_appendI map_of_eq_None_iff)
qed

lemma record_key:
  assumes "local_record L k f = Inr r"
  shows "artifact_key (vr_artifact r) = k" "vr_hash r = artifact_content_hash (lo_serializer L) (vr_artifact r)"
    "record_version r = semantic_version (snd k)" "\<exists>v. semantic_version (snd k) = Inr v"
  using assms
  by (auto simp: local_record_def local_path_def local_directory_def bind_r_Inr_iff artifact_key_def record_version_def
      split: if_splits sum.splits)

lemma represents_versions:
  assumes "represents L files recs" "is_capability_id i"
  shows "\<exists>rs vs. versions_locked L no_faults i files = Inr rs \<and> map_r record_version rs = Inr vs \<and> registered_versions recs i = Inr vs"
proof -
  have load: "\<forall>(k, f)\<in>set files. local_load L no_faults files k = local_record L k f"
    using assms(1) by (auto simp add: local_load_def no_faults_def represents_def)
  have "list_all2 (\<lambda>(k, f) (j, r). j = k \<and> local_record L k f = Inr r) files recs"
    using assms(1) by (simp add: represents_def)
  then have "(\<forall>(k, f)\<in>set files. local_load L no_faults fs k = local_record L k f) \<Longrightarrow>
      \<exists>rs vs. map_r (\<lambda>(k, f). local_load L no_faults fs k) (filter (\<lambda>(k, f). fst k = i) files) = Inr rs \<and>
        map_r record_version rs = Inr vs \<and> registered_versions recs i = Inr vs" for fs
  proof (induction rule: list_all2_induct)
    case (Cons x xs y ys)
    obtain k f r where x: "x = (k, f)" "y = (k, r)" "local_record L k f = Inr r" using Cons.hyps(1) by auto
    obtain rs vs where rs: "map_r (\<lambda>(k, f). local_load L no_faults fs k) (filter (\<lambda>(k, f). fst k = i) xs) = Inr rs"
        "map_r record_version rs = Inr vs" "registered_versions ys i = Inr vs"
      using Cons by auto
    obtain v where "semantic_version (snd k) = Inr v" using record_key(4)[OF x(3)] by blast
    moreover have "local_load L no_faults fs k = Inr r" using Cons.prems x by auto
    ultimately show ?case
      using rs x(1,2) by (cases k) (auto simp: registered_versions_def record_key(3)[OF x(3)])
  qed (simp add: registered_versions_def)
  from this[OF load] have "\<exists>rs vs. map_r (\<lambda>(k, f). local_load L no_faults files k)
        (filter (\<lambda>(k, f). fst k = i) files) = Inr rs \<and> map_r record_version rs = Inr vs \<and> registered_versions recs i = Inr vs" .
  then show ?thesis by (simp add: versions_locked_def local_directory_def assms(2))
qed

text \<open>An artifact the directory can hold: its text reads back, and its key is a path.\<close>

definition storable :: "local_env \<Rightarrow> capability_artifact \<Rightarrow> bool" where
  "storable L a =
     (lo_load L (lo_dump L a) = Inr a \<and> int (length (lo_dump L a)) \<le> lo_maximum L \<and>
      local_path (cm_id (art_capability a)) (cm_version (art_capability a)) = Inr (artifact_key a))"

lemma storable_record:
  assumes "storable L a" "\<not> integrity_conflict (lo_serializer L) a"
  shows "local_record L (artifact_key a) \<lparr>lf_content = lo_dump L a, lf_mtime = now\<rparr> =
    Inr \<lparr>vr_artifact = a, vr_hash = artifact_content_hash (lo_serializer L) a, vr_published = now\<rparr>"
  using assms by (simp add: storable_def local_record_def)

definition agrees :: "local_env \<Rightarrow> local_files \<Rightarrow> (version_record \<times> records) result \<Rightarrow> version_record result \<times> local_files \<Rightarrow> bool" where
  "agrees L files spec out =
     (case spec of
        Inl e \<Rightarrow> out = (Inl e, files)
      | Inr (r, recs) \<Rightarrow> fst out = Inr r \<and> represents L (snd out) recs)"

definition directory_holds :: "local_env \<Rightarrow> records \<Rightarrow> datetime \<Rightarrow> reg_op \<Rightarrow> bool" where
  "directory_holds L recs now operation =
     (case operation of
        Publish a \<Rightarrow> storable L a
      | PublishNext a \<Rightarrow>
          is_capability_id (cm_id (art_capability a)) \<and>
          (case mem_publish_next (lo_serializer L) now recs a of
             Inl e \<Rightarrow> True | Inr (r, recs') \<Rightarrow> storable L (vr_artifact r)))"

lemma publish_locked_agrees:
  assumes rep: "represents L files recs" and ok: "storable L a"
  shows "agrees L files (mem_publish (lo_serializer L) now recs a) (publish_locked L no_faults now a files)"
proof (cases "integrity_conflict (lo_serializer L) a")
  case True
  then show ?thesis by (simp add: agrees_def mem_publish_def publish_locked_def raise_def)
next
  case False
  let ?k = "artifact_key a"
  let ?h = "artifact_content_hash (lo_serializer L) a"
  let ?f = "\<lparr>lf_content = lo_dump L a, lf_mtime = now\<rparr>"
  let ?r = "\<lparr>vr_artifact = a, vr_hash = ?h, vr_published = now\<rparr>"
  have path: "local_path (cm_id (art_capability a)) (cm_version (art_capability a)) = Inr ?k"
    and size: "\<not> lo_maximum L < int (length (lo_dump L a))"
    using ok by (simp_all add: storable_def)
  show ?thesis
  proof (cases "map_of files ?k")
    case None
    have new: "local_record L ?k ?f = Inr ?r" by (rule storable_record[OF ok False])
    have "map_of recs ?k = None" using represents_None[OF rep] None by blast
    moreover have "publish_locked L no_faults now a files = (Inr ?r, AList.update ?k ?f files)"
      using new
      by (simp add: publish_locked_def registry_runs Let_def False path None size link_file_def no_faults_def
          local_load_def update_conv')
    ultimately show ?thesis
      using represents_update[OF rep None new] by (simp add: agrees_def mem_publish_def False Let_def)
  next
    case (Some f)
    obtain r where r: "map_of recs ?k = Some r" "local_record L ?k f = Inr r"
      using represents_Some[OF rep Some] by blast
    then show ?thesis
      using rep
      by (simp add: agrees_def mem_publish_def False publish_locked_def registry_runs Let_def path Some
          same_version_def local_load_def no_faults_def)
  qed
qed

lemma publish_next_agrees:
  assumes rep: "represents L files recs"
    and id: "is_capability_id (cm_id (art_capability a))"
    and ok: "\<And>r recs'. mem_publish_next (lo_serializer L) now recs a = Inr (r, recs') \<Longrightarrow> storable L (vr_artifact r)"
  shows "agrees L files (mem_publish_next (lo_serializer L) now recs a) (local_publish_next L no_faults now a files)"
proof -
  let ?Z = "lo_serializer L"
  let ?i = "cm_id (art_capability a)"
  obtain rs vs where rs: "versions_locked L no_faults ?i files = Inr rs" "map_r record_version rs = Inr vs"
      and registered: "registered_versions recs ?i = Inr vs"
    using represents_versions[OF rep id] by blast
  have lock: "\<not> fa_lock no_faults" by (simp add: no_faults_def)
  show ?thesis
    proof (cases "semantic_version (cm_version (art_capability a))")
      case (Inl e)
      with registered rs lock show ?thesis
        by (simp add: agrees_def mem_publish_next_def local_publish_next_def registry_runs)
    next
      case proposed: (Inr p)
      let ?b = "versioned ?Z a (next_version vs p)"
      have fresh: "map_of recs (artifact_key ?b) = None"
        using next_key_fresh[OF registered] by (simp add: key_versioned)
      then have same: "mem_publish_next ?Z now recs a = mem_publish ?Z now recs ?b"
        by (simp add: mem_publish_next_def mem_publish_def registered proposed Let_def hash_versioned)
      have "storable L ?b"
        using ok by (simp add: mem_publish_next_def registered proposed Let_def)
      from publish_locked_agrees[OF rep this, of now] same show ?thesis
        by (simp add: local_publish_next_def registry_runs lock rs proposed)
  qed
qed

section \<open>A concrete registry\<close>

definition sample_serializer :: serializer where
  "sample_serializer = \<lparr>sz_iso = (\<lambda>t. []), sz_key = (\<lambda>j. []), sz_dumps = (\<lambda>j. []), sz_sha256 = (\<lambda>b. ''00'')\<rparr>"

definition sample_local :: local_env where
  "sample_local = \<lparr>lo_serializer = sample_serializer, lo_dump = (\<lambda>a. ''artifact''), lo_load = (\<lambda>b. Inr sample_artifact),
                   lo_maximum = 64\<rparr>"

definition sample_record :: version_record where
  "sample_record = \<lparr>vr_artifact = sample_artifact, vr_hash = ''sha256:00'', vr_published = utc 5\<rparr>"

section \<open>Properties\<close>

text \<open>
  C34. Published versions never change. Whatever sequence of publications follows, each with its
  own clock and its own failures of the disk, and whatever it answers, a version the in-memory
  registry holds keeps its record, and a file the local registry holds keeps its bytes and time.
\<close>

theorem published_versions_never_change:
  assumes "map_of recs k = Some x" "map_of files j = Some f"
  shows "map_of (fold (mem_step Z) ops recs) k = Some x \<and> map_of (fold (local_step L) cs files) j = Some f"
proof
  show "map_of (fold (mem_step Z) ops recs) k = Some x"
    using assms(1) by (induction ops arbitrary: recs) (auto simp: mem_step_keeps)
  show "map_of (fold (local_step L) cs files) j = Some f"
    using assms(2) by (induction cs arbitrary: files) (auto simp: local_op_keeps)
qed

lemma published_versions_never_change_witness:
  "map_of (fold (mem_step sample_serializer) [(utc 6, PublishNext sample_artifact), (utc 7, Publish sample_artifact)]
     [(artifact_key sample_artifact, sample_record)]) (artifact_key sample_artifact) = Some sample_record \<and>
   map_of (fold (local_step sample_local) [(no_faults, utc 6, Publish sample_artifact)]
     [(artifact_key sample_artifact, \<lparr>lf_content = ''old'', lf_mtime = utc 5\<rparr>)]) (artifact_key sample_artifact) =
     Some \<lparr>lf_content = ''old'', lf_mtime = utc 5\<rparr>"
  by (rule published_versions_never_change) simp_all

text \<open>
  The next version is the newest. When every record sits under its own key, a successful
  publication of the next version adds one record under a key no record had, whose version is
  above every registered version of the capability and not below the proposed one, whose declared
  hash is its content hash; and the latest version of the capability is this record.
\<close>

theorem next_version_is_newest:
  assumes "records_ok recs" "mem_publish_next Z now recs a = Inr (r, recs')"
  shows "map_of recs (artifact_key (vr_artifact r)) = None \<and>
    recs' = recs @ [(artifact_key (vr_artifact r), r)] \<and>
    (\<forall>vs p v. registered_versions recs (cm_id (art_capability a)) = Inr vs \<longrightarrow>
       semantic_version (cm_version (art_capability a)) = Inr p \<longrightarrow> record_version r = Inr v \<longrightarrow>
       list_all (\<lambda>u. u < v) vs \<and> p \<le> v) \<and>
    declared_hash (vr_artifact r) = Some (artifact_content_hash Z (vr_artifact r)) \<and>
    mem_latest recs' (cm_id (art_capability a)) = Inr r"
proof -
  let ?i = "cm_id (art_capability a)"
  from assms(2) obtain vs p where vs: "registered_versions recs ?i = Inr vs"
      and p: "semantic_version (cm_version (art_capability a)) = Inr p"
      and r: "vr_artifact r = versioned Z a (next_version vs p)"
      and recs': "recs' = recs @ [((?i, version_text (next_version vs p)), r)]"
    by (rule mem_publish_next_Inr)
  let ?v = "next_version vs p"
  have key: "artifact_key (vr_artifact r) = (?i, version_text ?v)" by (simp add: r key_versioned)
  have rv: "record_version r = Inr ?v"
    using key by (simp add: record_version_def artifact_key_def version_round)
  have all: "list_all (\<lambda>u. u < ?v) vs" using next_version_above(1) by (simp add: list_all_iff)
  have own: "declared_hash (set_hash h b) = h" for h b by (simp add: declared_hash_def set_hash_def)
  have hash: "declared_hash (vr_artifact r) = Some (artifact_content_hash Z (vr_artifact r))"
    unfolding r versioned_def Let_def own hash_ignores ..
  have "mem_latest recs' ?i = Inr r"
    unfolding recs' by (rule latest_of_next[OF assms(1) vs rv next_version_above(1)])
  then show ?thesis
    using key rv vs p all hash recs' next_key_fresh[OF vs] next_version_above(2) by simp
qed

lemma next_version_is_newest_witness:
  "\<exists>r recs'. mem_publish_next sample_serializer (utc 6) [(artifact_key sample_artifact, sample_record)] sample_artifact = Inr (r, recs') \<and>
     mem_latest recs' (cm_id (art_capability sample_artifact)) = Inr r"
proof -
  have ok: "records_ok [(artifact_key sample_artifact, sample_record)]" by (simp add: records_ok_def sample_record_def)
  have "case mem_publish_next sample_serializer (utc 6) [(artifact_key sample_artifact, sample_record)] sample_artifact of
      Inl e \<Rightarrow> False | Inr x \<Rightarrow> True"
    by code_simp
  then obtain r recs' where run: "mem_publish_next sample_serializer (utc 6)
      [(artifact_key sample_artifact, sample_record)] sample_artifact = Inr (r, recs')"
    by (auto split: sum.splits)
  from next_version_is_newest[OF ok run] run show ?thesis by blast
qed



end
