(* ===== verification/DiscoveryPrivacy.thy ===== *)
theory DiscoveryPrivacy
  imports Serialization Redaction DiscoveryModels Targeting
begin

text \<open>
  The leak guard of discovery (\<^verbatim>\<open>discovery/privacy.py\<close>): what a run was given and what it
  read may not be found in the artifact it publishes. The guard walks the tree of the artifact.
  The texts \<open>json\<close> and Pydantic write for floats and instants are parameters; strings are escaped
  here.
\<close>

section \<open>JSON text\<close>

record json_texts =
  jt_float :: "rat \<Rightarrow> string"
  jt_model_float :: "rat \<Rightarrow> string"
  jt_model_time :: "datetime \<Rightarrow> string"

definition hex_digit :: "int \<Rightarrow> char" where
  "hex_digit n = ''0123456789abcdef'' ! nat (n mod 16)"

text \<open>\<open>json.dumps(s, ensure_ascii=False)[1:-1]\<close>.\<close>

definition escape_char :: "char \<Rightarrow> string" where
  "escape_char c =
     (if c = CHR 0x22 then [CHR 0x5C, CHR 0x22]
      else if c = CHR 0x5C then [CHR 0x5C, CHR 0x5C]
      else if c = CHR 0x08 then [CHR 0x5C, CHR ''b'']
      else if c = CHR 0x09 then [CHR 0x5C, CHR ''t'']
      else if c = CHR 0x0A then [CHR 0x5C, CHR ''n'']
      else if c = CHR 0x0C then [CHR 0x5C, CHR ''f'']
      else if c = CHR 0x0D then [CHR 0x5C, CHR ''r'']
      else if (of_char c :: int) < 32
      then CHR 0x5C # ''u00'' @ [hex_digit (of_char c div 16), hex_digit (of_char c)]
      else [c])"

definition json_escape :: "string \<Rightarrow> string" where
  "json_escape s = concat (map escape_char s)"

definition quoted :: "string \<Rightarrow> string" where
  "quoted s = CHR 0x22 # json_escape s @ [CHR 0x22]"

text \<open>\<open>model_dump_json()\<close>.\<close>

fun dump_json :: "json_texts \<Rightarrow> tree \<Rightarrow> string" where
  "dump_json T TNull = ''null''"
| "dump_json T (TBool b) = (if b then ''true'' else ''false'')"
| "dump_json T (TInt i) = show_int i"
| "dump_json T (TFloat r) = jt_model_float T r"
| "dump_json T (TStr s) = quoted s"
| "dump_json T (TTime t) = quoted (jt_model_time T t)"
| "dump_json T (TSeq ts) = ''['' @ join_with '','' (map (dump_json T) ts) @ '']''"
| "dump_json T (TSet ts) = ''['' @ join_with '','' (map (dump_json T) ts) @ '']''"
| "dump_json T (TDict kts) =
     ''{'' @ join_with '','' (map (\<lambda>(k, t). quoted k @ '':'' @ dump_json T t) kts) @ ''}''"
| "dump_json T (TModel c kts) =
     ''{'' @ join_with '','' (map (\<lambda>(k, t). quoted k @ '':'' @ dump_json T t) kts) @ ''}''"

section \<open>Where a literal is found\<close>

datatype leak_source = INVOCATION | CAPTURED

fun leak_word :: "leak_source \<Rightarrow> string" where
  "leak_word INVOCATION = ''invocation''"
| "leak_word CAPTURED = ''captured''"

text \<open>\<open>_REFERENCE_FIELDS\<close>, and the fields of contracts that name schema identifiers.\<close>

definition REFERENCE_FIELDS :: "(string \<times> string list) list" where
  "REFERENCE_FIELDS =
     [(''CapabilityPolicy'', [''output_redaction'']), (''InputValue'', [''path'']),
      (''ExtractAction'', [''output'']), (''OutputValidCondition'', [''output'']),
      (''OutputEqualsCondition'', [''output'']),
      (''IdentityMatchesCondition'', [''extracted_output'', ''input_path''])]"

definition is_reference :: "string \<Rightarrow> string \<Rightarrow> bool" where
  "is_reference cls name =
     ((case map_of REFERENCE_FIELDS cls of None \<Rightarrow> False | Some names \<Rightarrow> name \<in> set names) \<or>
      cls \<in> {''ObjectContract'', ''ValueSchema''} \<and> name \<in> {''properties'', ''required''})"

definition matches_literal :: "string \<Rightarrow> string \<Rightarrow> leak_source \<Rightarrow> bool \<Rightarrow> bool" where
  "matches_literal encoded serialized source reference =
     (if source = CAPTURED \<and> reference then encoded = serialized else contains_str serialized encoded)"

fun first_some :: "('a \<Rightarrow> 'b option) \<Rightarrow> 'a list \<Rightarrow> 'b option" where
  "first_some f [] = None"
| "first_some f (x # xs) = (case f x of None \<Rightarrow> first_some f xs | Some y \<Rightarrow> Some y)"

lemma first_some_cong [fundef_cong]:
  "xs = ys \<Longrightarrow> (\<And>x. x \<in> set ys \<Longrightarrow> f x = g x) \<Longrightarrow> first_some f xs = first_some g ys"
  by (induction ys arbitrary: xs) (auto split: option.splits)

lemma first_some_None: "first_some f xs = None \<longleftrightarrow> (\<forall>x\<in>set xs. f x = None)"
  by (induction xs) (auto split: option.splits)

definition encoded :: "string \<Rightarrow> string" where
  "encoded s = py_casefold (json_escape s)"

lemma entry_size: "(k, t) \<in> set kts \<Longrightarrow> size t < Suc (size_list (size_prod (\<lambda>_. 0) size) kts)"
  by (induction kts) auto

lemma item_size: "(i, t) \<in> set (enumerate n ts) \<Longrightarrow> size t < Suc (size_list size ts)"
  by (induction ts arbitrary: n) (auto, fastforce)

text \<open>\<open>_match_location\<close>; the provenance of the root is not scanned.\<close>

function match_location ::
  "json_texts \<Rightarrow> string \<Rightarrow> leak_source \<Rightarrow> string \<Rightarrow> bool \<Rightarrow> tree \<Rightarrow> string option" where
  "match_location T serialized source path reference (TModel cls kts) =
     first_some (\<lambda>(name, t).
       if path = ''artifact'' \<and> name = ''provenance'' then None
       else if source = INVOCATION \<and> contains_str serialized (py_casefold name)
       then Some (path @ ''.'' @ name @ '':key'')
       else match_location T serialized source (path @ ''.'' @ name) (is_reference cls name) t) kts"
| "match_location T serialized source path reference (TDict entries) =
     first_some (\<lambda>(key, t).
       if matches_literal (encoded key) serialized source reference then Some (path @ ''.*:key'')
       else match_location T serialized source (path @ ''.*'') False t) entries"
| "match_location T serialized source path reference (TSeq ts) =
     first_some (\<lambda>(i, t). match_location T serialized source
         (path @ ''['' @ show_nat i @ '']'') reference t) (enumerate 0 ts)"
| "match_location T serialized source path reference (TSet ts) =
     first_some (\<lambda>(i, t). match_location T serialized source
         (path @ ''['' @ show_nat i @ '']'') reference t) (enumerate 0 ts)"
| "match_location T serialized source path reference (TStr s) =
     (if matches_literal (encoded s) serialized source reference then Some path else None)"
| "match_location T serialized source path reference (TInt i) =
     (if contains_str serialized (show_int i) then Some path else None)"
| "match_location T serialized source path reference (TFloat r) =
     (if contains_str serialized (py_casefold (jt_float T r)) then Some path else None)"
| "match_location T serialized source path reference (TBool b) =
     (if contains_str serialized (if b then ''true'' else ''false'') then Some path else None)"
| "match_location T serialized source path reference (TTime t) = None"
| "match_location T serialized source path reference TNull = None"
  by pat_completeness auto

termination
proof (relation "measure (\<lambda>(T, serialized, source, path, reference, t). size t)")
qed (auto dest: entry_size item_size)

section \<open>Known values\<close>

text \<open>\<open>strings\<close> of \<open>_known_values\<close>: texts of four characters and more, at any depth.\<close>

fun long_texts :: "json \<Rightarrow> string list" where
  "long_texts (JObj kvs) = concat (map (\<lambda>(k, v). long_texts v) kvs)"
| "long_texts (JList vs) = concat (map long_texts vs)"
| "long_texts (JStr s) = (if 4 \<le> length (py_strip s) then [s] else [])"
| "long_texts _ = []"

definition classified_output :: "capability_artifact \<Rightarrow> string \<Rightarrow> bool" where
  "classified_output a name =
     (case dict_get (oc_properties (art_outputs a)) name of
        None \<Rightarrow> False
      | Some s \<Rightarrow> vs_classification s \<in> {PERSONAL, CUSTOMER_IDENTIFIER, FINANCIAL})"

definition known_values ::
  "capability_artifact \<Rightarrow> json_object \<Rightarrow> json_object \<Rightarrow> (leak_source \<times> string) list" where
  "known_values a inputs outputs =
     map (Pair INVOCATION) (long_texts (JObj inputs)) @
     concat (map (\<lambda>(name, v). if classified_output a name then map (Pair CAPTURED) (long_texts v) else [])
       outputs)"

section \<open>The guard\<close>

text \<open>\<open>_PERSONAL_PATTERNS\<close>; the first ignores case.\<close>

definition letters :: string where
  "letters = upper_letters @ lower_letters"

definition PERSONAL_PATTERNS :: "rx list list" where
  "PERSONAL_PATTERNS =
     [[Edge, Run (letters @ digits @ ''._%+-'') 1 None, Lit ''@'', Run (letters @ digits @ ''.-'') 1 None,
       Lit ''.'', Run letters 2 None, Edge],
      [Edge, Run digits 3 (Some 3), Lit ''-'', Run digits 2 (Some 2), Lit ''-'', Run digits 4 (Some 4), Edge]]"

definition leak_of ::
  "json_texts \<Rightarrow> capability_artifact \<Rightarrow> leak_source \<times> string \<Rightarrow> (leak_source \<times> string) option" where
  "leak_of T a = (\<lambda>(source, v).
     map_option (Pair source)
       (match_location T (encoded v) source ''artifact'' False (artifact_tree a)))"

definition validate_artifact_privacy ::
  "json_texts \<Rightarrow> redactor \<Rightarrow> capability_artifact \<Rightarrow> json_object \<Rightarrow> json_object \<Rightarrow> unit result" where
  "validate_artifact_privacy T R a inputs outputs =
     (let content = dump_json T (artifact_tree a) in
      bind_r (validate_text R content) (\<lambda>_.
      if list_ex (\<lambda>p. search p content) PERSONAL_PATTERNS
      then Inl (EvidenceRejectedError ''artifact contains personal-data-shaped text'')
      else case first_some (leak_of T a) (known_values a inputs outputs) of
        None \<Rightarrow> Inr ()
      | Some (source, location) \<Rightarrow> Inl (ArtifactPrivacyError (leak_word source) location)))"

section \<open>Targets\<close>

definition target_contains_invocation_literal ::
  "json_texts \<Rightarrow> locator_bundle \<Rightarrow> json_object \<Rightarrow> bool" where
  "target_contains_invocation_literal T target inputs =
     (let content = py_casefold (dump_json T (bundle_tree target)) in
      list_ex (\<lambda>v. contains_str (encoded v) content) (long_texts (JObj inputs)))"

text \<open>The texts of a candidate that may not hold the value it extracts.\<close>

definition LOCATOR_TEXTS :: "string list" where
  "LOCATOR_TEXTS = [''value'', ''text'', ''name'', ''anchor'', ''label'', ''target_text'', ''group_label'']"

definition candidate_mentions :: "string \<Rightarrow> tree \<Rightarrow> bool" where
  "candidate_mentions value t =
     (case t of
        TModel cls kts \<Rightarrow>
          list_ex (\<lambda>name. case map_of kts name of
              Some (TStr s) \<Rightarrow> contains_str value (py_casefold s)
            | _ \<Rightarrow> False) LOCATOR_TEXTS
      | _ \<Rightarrow> False)"

definition is_field_value :: "visual_candidate \<Rightarrow> bool" where
  "is_field_value v = (case v of RenderedFieldValueCandidate l m r \<Rightarrow> True | _ \<Rightarrow> False)"

definition extraction_locator_contains_value :: "locator_bundle option \<Rightarrow> string \<Rightarrow> bool" where
  "extraction_locator_contains_value target value =
     (let v = py_casefold (py_strip value) in
      case target of
        None \<Rightarrow> False
      | Some t \<Rightarrow>
          4 \<le> length v \<and>
          (list_ex (\<lambda>c. \<not> is_field_value c \<and> candidate_mentions v (visual_tree c))
             (lb_visual_candidates t) \<or>
           list_ex (\<lambda>c. lc_strategy c \<noteq> LOC_RELATIVE_TEXT \<and> candidate_mentions v (candidate_tree c))
             (lb_candidates t)))"

section \<open>Documentation\<close>

text \<open>\<open>redact_contract_descriptions\<close>: only descriptions change, and the hash that covers them.\<close>

fun clean_schema :: "string list \<Rightarrow> value_schema \<Rightarrow> value_schema" where
  "clean_schema private (ValueSchema ty d cl pm req props pat fmt en cn lo hi ex) =
     ValueSchema ty
       (if list_ex (\<lambda>v. contains_str v (py_casefold d)) private then ''[REDACTED]'' else d)
       cl pm req (map (\<lambda>(n, s). (n, clean_schema private s)) props) pat fmt en cn lo hi ex"

definition clean_contract :: "string list \<Rightarrow> object_contract \<Rightarrow> object_contract" where
  "clean_contract private c =
     c\<lparr>oc_properties := map (\<lambda>(n, s). (n, clean_schema private s)) (oc_properties c)\<rparr>"

definition clean_artifact :: "string list \<Rightarrow> capability_artifact \<Rightarrow> capability_artifact" where
  "clean_artifact private a =
     a\<lparr>art_inputs := clean_contract private (art_inputs a),
       art_outputs := clean_contract private (art_outputs a)\<rparr>"

definition redact_contract_descriptions ::
  "json_texts \<Rightarrow> (capability_artifact \<Rightarrow> string) \<Rightarrow> redactor \<Rightarrow> capability_artifact \<Rightarrow> json_object
     \<Rightarrow> json_object \<Rightarrow> capability_artifact result" where
  "redact_contract_descriptions T hash R a inputs outputs =
     bind_r (validate_text R (dump_json T (artifact_tree a))) (\<lambda>_.
     let cleaned = clean_artifact (map (\<lambda>(source, v). py_casefold v) (known_values a inputs outputs)) a
     in Inr (if cleaned = a then a else set_hash (Some (hash cleaned)) cleaned))"

end
