(* ===== verification/Discovery.thy ===== *)
theory Discovery
  imports Replay Compiler DiscoveryPrivacy
begin

text \<open>
  The discovery engine (\<^verbatim>\<open>discovery/engine.py\<close>, with \<^verbatim>\<open>discovery/conditions.py\<close>,
  \<^verbatim>\<open>discovery/constraints.py\<close> and \<^verbatim>\<open>discovery/scenarios.py\<close>): the state
  of a run, the calls on the model, the plan of a contract and the one action of a step. The session,
  the recorder, the clock, the leases and the router are those of the replay engine, and the same
  history records the calls; the model's answers are functions of it.
\<close>

section \<open>Requests\<close>

text \<open>Times are in microseconds.\<close>

definition MIN_DISCOVERY_STEPS :: int where "MIN_DISCOVERY_STEPS = 1"
definition MAX_DISCOVERY_STEPS :: int where "MAX_DISCOVERY_STEPS = 50"
definition MIN_DISCOVERY_TIMEOUT :: int where "MIN_DISCOVERY_TIMEOUT = 10000000"
definition MAX_DISCOVERY_TIMEOUT :: int where "MAX_DISCOVERY_TIMEOUT = 600000000"

record discovery_request =
  dq_run_id :: string
  dq_goal :: string
  dq_family :: string
  dq_tenant :: string
  dq_entry_point :: string
  dq_inputs :: json_object
  dq_existing_id :: "string option"
  dq_scenario :: "scenario option"
  dq_max_steps :: int
  dq_timeout :: int
  dq_max_repeated_state :: int
  dq_max_repeated_action :: int
  dq_minimum_confidence :: rat

definition mk_discovery_request :: "discovery_request \<Rightarrow> discovery_request result" where
  "mk_discovery_request q =
     bind_r (checks
       [(\<not> blank (dq_goal q), ''discovery goal is required''),
        (MIN_DISCOVERY_STEPS \<le> dq_max_steps q \<and> dq_max_steps q \<le> MAX_DISCOVERY_STEPS,
           ''discovery step budget must be between 1 and 50''),
        (MIN_DISCOVERY_TIMEOUT \<le> dq_timeout q \<and> dq_timeout q \<le> MAX_DISCOVERY_TIMEOUT,
           ''discovery timeout must be between 10 and 600 seconds''),
        (1 \<le> dq_max_repeated_state q \<and> 1 \<le> dq_max_repeated_action q,
           ''stuck-detection limits must be positive''),
        (0 \<le> dq_minimum_confidence q \<and> dq_minimum_confidence q \<le> 1,
           ''minimum confidence must be between zero and one''),
        (opt_all (\<lambda>i. \<not> blank i) (dq_existing_id q), ''existing capability id cannot be blank'')])
       (\<lambda>_. Inr q)"

section \<open>The engine and its state\<close>

text \<open>What \<open>getattr\<close> reads of a session.\<close>

record session_attributes =
  sa_rendered :: bool
  sa_variant :: string
  sa_contract :: string
  sa_required :: "landmark list"
  sa_forbidden :: "landmark list"

record discovery_env =
  de_env :: environment
  de_resolver :: "(discovery_request \<Rightarrow> effective_policy result) option"
  de_policy :: "effective_policy option"
  de_planner :: "(history \<Rightarrow> planning_context \<Rightarrow> capability_draft result) option"
  de_decide :: "history \<Rightarrow> provider_context \<Rightarrow> proposal result"
  de_locate :: "history \<Rightarrow> resolved_target \<Rightarrow> locator_bundle result"
  de_attributes :: "history \<Rightarrow> session_attributes"
  de_compiler :: compiler
  de_namespace :: "(string \<Rightarrow> string \<Rightarrow> string result) option"
  de_redactor :: redactor
  de_texts :: json_texts
  de_show :: "act_proposal \<Rightarrow> string"
  de_provider :: string
  de_model :: string
  de_routed :: bool

text \<open>
  The variables of the generator \<open>_run\<close> that change; \<open>outputs\<close> and \<open>session\<close> are those of the run
  state. An action and its target without its description are compared as trees.
\<close>

record discovery_locals =
  dl_started :: int
  dl_version :: int
  dl_recordings :: "recorded_step list"
  dl_branch :: "observed_branch option"
  dl_notes :: "string list"
  dl_fingerprint :: "string option"
  dl_repeated_state :: int
  dl_repeated_action :: int
  dl_previous :: "(tree \<times> tree option) option"

text \<open>The variables that are set once, before the loop.\<close>

record discovery_frame =
  df_request :: discovery_request
  df_policy :: effective_policy
  df_session :: string
  df_draft :: "capability_draft option"

record discovery_pause =
  dp_observation :: normalized_observation
  dp_version :: int
  dp_code :: string
  dp_step_id :: string

text \<open>A suspended generator: its variables, the time it paused, its step and the steps after it.\<close>

record discovery_continuation =
  dc_frame :: discovery_frame
  dc_pause :: discovery_pause
  dc_locals :: discovery_locals
  dc_outputs :: json_object
  dc_paused_at :: int
  dc_step :: nat
  dc_left :: nat

record discovery_state =
  dv_run :: run_state
  dv_locals :: discovery_locals
  dv_continuations :: "discovery_continuation dict"

type_synonym 'a disc = "(discovery_state, 'a) comp"

definition on_run :: "'a run \<Rightarrow> 'a disc" where
  "on_run m = (\<lambda>s. case m (dv_run s) of (r, t) \<Rightarrow> (r, s\<lparr>dv_run := t\<rparr>))"

definition local_of :: "(discovery_locals \<Rightarrow> 'a) \<Rightarrow> 'a disc" where
  "local_of f = gets (\<lambda>s. f (dv_locals s))"

definition set_locals :: "(discovery_locals \<Rightarrow> discovery_locals) \<Rightarrow> unit disc" where
  "set_locals f = update (\<lambda>s. s\<lparr>dv_locals := f (dv_locals s)\<rparr>)"

definition outputs_now :: "json_object disc" where
  "outputs_now = gets (\<lambda>s. rs_outputs (dv_run s))"

definition set_outputs :: "json_object \<Rightarrow> unit disc" where
  "set_outputs outs = update (\<lambda>s. s\<lparr>dv_run := (dv_run s)\<lparr>rs_outputs := outs\<rparr>\<rparr>)"

text \<open>The engine's own reading of the clock, after those of a lease operation.\<close>

definition engine_clock :: "environment \<Rightarrow> int disc" where
  "engine_clock E = gets (\<lambda>s. ev_clock E (rs_history (dv_run s)) 3)"

definition attributes_now :: "discovery_env \<Rightarrow> session_attributes disc" where
  "attributes_now D = gets (\<lambda>s. de_attributes D (rs_history (dv_run s)))"

definition journal_event :: "discovery_env \<Rightarrow> string \<Rightarrow> json_object \<Rightarrow> unit disc" where
  "journal_event D kind details = on_run (record_event (de_env D) kind None details)"

definition capture_provider_frame :: "environment \<Rightarrow> bytes run" where
  "capture_provider_frame E = ask (\<lambda>s. ev_frame E (rs_history s)) EvFrame"

text \<open>\<open>renew_control\<close>.\<close>

definition renew_control :: "discovery_env \<Rightarrow> string \<Rightarrow> unit disc" where
  "renew_control D sid =
     bind_c (local_of dl_version) (\<lambda>v.
     bind_c (on_run (heartbeat (de_env D) sid v)) (\<lambda>lease.
     set_locals (\<lambda>l. l\<lparr>dl_version := lease_version lease\<rparr>)))"

section \<open>Failures\<close>

definition capture_discovery_failure :: "environment \<Rightarrow> bool \<Rightarrow> bytes option \<Rightarrow> string run" where
  "capture_discovery_failure E has_session frame =
     (let attach = (\<lambda>m. catch_c
            (bind_c m (\<lambda>content.
             then_c (attach_screenshot E ''discovery-failure-state'' content RETAIN_FAILURE)
               (ret ''captured'')))
            frame_error (\<lambda>_. ret ''unavailable'')) in
      if has_session then attach (capture_provider_frame E)
      else case frame of None \<Rightarrow> ret ''not_applicable'' | Some content \<Rightarrow> attach (ret content))"

text \<open>\<open>_failure\<close>.\<close>

definition discovery_failure ::
  "environment \<Rightarrow> discovery_request \<Rightarrow> bool \<Rightarrow> string \<Rightarrow> string \<Rightarrow> privacy_diagnostic option
     \<Rightarrow> bytes option \<Rightarrow> run_result run" where
  "discovery_failure E q has_session code message privacy frame =
     bind_c (capture_discovery_failure E has_session frame) (\<lambda>evidence_frame.
     then_c (record_event E ''discovery_failed'' None
               [(''code'', JStr code), (''evidence_frame'', JStr evidence_frame)])
     (bind_c (manifest_key E) (\<lambda>manifest.
      lift_c (mk_failure (ev_store E)
        \<lparr>fr_run_id = dq_run_id q, fr_code = code, fr_message = message, fr_recoverable = False,
         fr_step_id = None, fr_expected = None, fr_observed = None, fr_privacy = privacy,
         fr_manifest = manifest\<rparr>))))"

definition fail_run :: "discovery_env \<Rightarrow> discovery_frame \<Rightarrow> string \<Rightarrow> string \<Rightarrow> run_result disc" where
  "fail_run D F code message =
     on_run (discovery_failure (de_env D) (df_request F) True code message None None)"

section \<open>Conditions and scenarios\<close>

text \<open>A rejection the model may plan around: nothing was done.\<close>

definition replannable :: "string \<Rightarrow> string \<Rightarrow> exn" where
  "replannable code message =
     SurfaceFailure ((simple_error code message)\<lparr>se_recoverable := True, se_effect_absent := True\<rparr>)"

definition bound_output :: "json_object \<Rightarrow> string \<Rightarrow> unit result" where
  "bound_output outputs name =
     check (name \<in> set (map fst outputs))
       (replannable ''condition_output_unbound''
          ''The condition requires an output that has not been captured.'')"

fun validate_condition_bindings :: "json_object \<Rightarrow> json_object \<Rightarrow> condition \<Rightarrow> unit result" where
  "validate_condition_bindings outputs inputs (AllCondition cs) =
     each (validate_condition_bindings outputs inputs) cs"
| "validate_condition_bindings outputs inputs (AnyCondition cs) =
     each (validate_condition_bindings outputs inputs) cs"
| "validate_condition_bindings outputs inputs (NotCondition c) =
     validate_condition_bindings outputs inputs c"
| "validate_condition_bindings outputs inputs (OutputValidCondition out) = bound_output outputs out"
| "validate_condition_bindings outputs inputs (OutputEqualsCondition out v) = bound_output outputs out"
| "validate_condition_bindings outputs inputs (IdentityMatchesCondition out path) =
     bind_r (bound_output outputs out) (\<lambda>_.
     case resolve_input inputs path of
       Inr v \<Rightarrow> Inr ()
     | Inl e \<Rightarrow>
         Inl (if contract_only e = None then e
              else replannable ''condition_input_unbound''
                ''The condition requires an unavailable symbolic input binding.''))"
| "validate_condition_bindings outputs inputs c = Inr ()"

text \<open>\<open>AllCondition(...)\<close> and the other models are built with their validators.\<close>

definition scenario_expected_condition :: "step \<Rightarrow> condition option \<Rightarrow> condition option result" where
  "scenario_expected_condition s proposed =
     (let identities = filter contains_identity (st_postconditions s);
          required = (case proposed of
            None \<Rightarrow> identities
          | Some c \<Rightarrow> if c \<in> set identities then identities else identities @ [c])
      in case required of
           [] \<Rightarrow> Inr None
         | [c] \<Rightarrow> Inr (Some c)
         | cs \<Rightarrow> bind_r (mk_condition (AllCondition cs)) (\<lambda>c. Inr (Some c)))"

section \<open>The plan of a contract\<close>

definition last_part :: "string \<Rightarrow> string" where
  "last_part i = last (split_on (CHR ''.'') i)"

definition provider_error :: "string \<Rightarrow> string \<Rightarrow> exn" where
  "provider_error code message = ModelProviderError code message"

text \<open>The subclasses of ValueError.\<close>

definition value_error :: "exn \<Rightarrow> unit option" where
  "value_error e =
     (case e of
        ValueError m \<Rightarrow> Some () | ContractValidationError p c \<Rightarrow> Some ()
      | EvidenceRejectedError m \<Rightarrow> Some () | ArtifactPrivacyError src l \<Rightarrow> Some ()
      | CapabilityIntegrityError m \<Rightarrow> Some () | InterventionTransitionError m \<Rightarrow> Some ()
      | CapabilityAssetError m \<Rightarrow> Some () | DiscoverySuiteError m \<Rightarrow> Some ()
      | InterventionAuthorizationError m \<Rightarrow> Some () | _ \<Rightarrow> None)"

definition scenario_draft :: "environment \<Rightarrow> discovery_request \<Rightarrow> scenario \<Rightarrow> capability_draft result" where
  "scenario_draft E q sn =
     (let primary = sn_primary sn in
      if cm_application_family (art_capability primary) \<noteq> dq_family q \<or>
         co_entry_point (art_compatibility primary) \<noteq> dq_entry_point q
      then Inl (provider_error ''scenario_target_invalid'' ''Scenario target differs from its primary.'')
      else case validate_object (ev_formats E) (art_inputs primary) (dq_inputs q) ''$'' of
        Inl e \<Rightarrow>
          Inl (if contract_only e = None then e
               else provider_error ''discovery_input_invalid''
                 ''Scenario inputs do not satisfy the primary contract.'')
      | Inr validated \<Rightarrow>
          mk_draft
            \<lparr>dr_operation_slug = last_part (cm_id (art_capability primary)),
             dr_capability_id = Some (cm_id (art_capability primary)),
             dr_name = cm_name (art_capability primary), dr_description = dq_goal q,
             dr_inputs = art_inputs primary,
             dr_outputs = \<lparr>oc_required = [], oc_properties = oc_properties (art_outputs primary)\<rparr>,
             dr_risk = READ_ONLY, dr_tags = [], dr_observation_only = True\<rparr>)"

text \<open>The id of a planned capability: within the registered namespace, or the requested one.\<close>

definition settle_id :: "discovery_env \<Rightarrow> discovery_request \<Rightarrow> capability_draft \<Rightarrow> capability_draft result" where
  "settle_id D q d =
     (case de_namespace D of
        Some resolve_id \<Rightarrow>
          (case (if truthy (dq_existing_id q) then dq_existing_id q else dr_capability_id d) of
             None \<Rightarrow> bind_r (resolve_id (dq_family q) (dr_operation_slug d)) (\<lambda>i.
               Inr (d\<lparr>dr_capability_id := Some i\<rparr>))
           | Some requested \<Rightarrow>
               bind_r (resolve_id (dq_family q) (last_part requested)) (\<lambda>i.
               if i \<noteq> requested
               then Inl (ValueError ''capability id must belong to the registered namespace'')
               else Inr (d\<lparr>dr_capability_id := Some requested\<rparr>)))
      | None \<Rightarrow>
          (case dq_existing_id q of
             None \<Rightarrow> Inr d
           | Some existing \<Rightarrow>
               if dr_capability_id d \<noteq> None \<and> dr_capability_id d \<noteq> Some existing
               then Inl (ValueError ''provider capability id conflicts with the requested id'')
               else Inr (d\<lparr>dr_capability_id := Some existing\<rparr>)))"

definition check_planned_inputs :: "environment \<Rightarrow> discovery_request \<Rightarrow> capability_draft \<Rightarrow> capability_draft result" where
  "check_planned_inputs E q d =
     bind_r (validate_object (ev_formats E) (dr_inputs d) (dq_inputs q) ''$'') (\<lambda>validated. Inr d)"

definition planned_draft ::
  "discovery_env \<Rightarrow> discovery_request \<Rightarrow> effective_policy \<Rightarrow> string
     \<Rightarrow> (history \<Rightarrow> planning_context \<Rightarrow> capability_draft result) \<Rightarrow> capability_draft disc" where
  "planned_draft D q policy sid plan =
     bind_c (on_run (observe (de_env D))) (\<lambda>observation.
     bind_c (on_run (capture_provider_frame (de_env D))) (\<lambda>frame.
     then_c (renew_control D sid)
     (bind_c (lift_c (mk_planning_context
        \<lparr>pc_goal = dq_goal q, pc_inputs = dq_inputs q, pc_observation = observation,
         pc_screenshot = frame, pc_maximum_risk = ep_maximum_risk policy,
         pc_requested_id = dq_existing_id q, pc_application_family = dq_family q,
         pc_entry_point = dq_entry_point q, pc_action_types = ep_actions policy\<rparr>)) (\<lambda>ctx.
      bind_c (on_run (ask (\<lambda>s. plan (rs_history s) ctx) (\<lambda>r. EvModel (Planned ctx r)))) (\<lambda>d.
      then_c (renew_control D sid)
      (lift_c (bind_r (settle_id D q d) (check_planned_inputs (de_env D) q))))))))"

text \<open>\<open>_plan_contract\<close>.\<close>

definition plan_contract ::
  "discovery_env \<Rightarrow> discovery_request \<Rightarrow> effective_policy \<Rightarrow> string \<Rightarrow> capability_draft option disc" where
  "plan_contract D q policy sid =
     (case dq_scenario q of
        Some sn \<Rightarrow> bind_c (lift_c (scenario_draft (de_env D) q sn)) (\<lambda>d. ret (Some d))
      | None \<Rightarrow>
          (case de_planner D of
             None \<Rightarrow> ret None
           | Some plan \<Rightarrow>
               catch_c (bind_c (planned_draft D q policy sid plan) (\<lambda>d. ret (Some d)))
                 (\<lambda>e. if value_error e = None then None else Some e)
                 (\<lambda>e. raise (if contract_only e \<noteq> None
                     then provider_error ''discovery_input_invalid''
                       ''Supplied inputs do not satisfy the planned capability contract.''
                     else provider_error ''provider_contract_invalid''
                       ''The provider returned an invalid capability contract.''))))"

text \<open>The contract of the compiler stands in for a missing draft: it declares no output.\<close>

definition empty_contract :: object_contract where
  "empty_contract = \<lparr>oc_required = [], oc_properties = []\<rparr>"

definition output_contract :: "discovery_frame \<Rightarrow> object_contract" where
  "output_contract F = (case df_draft F of None \<Rightarrow> empty_contract | Some d \<Rightarrow> dr_outputs d)"

definition input_contract :: "discovery_frame \<Rightarrow> object_contract option" where
  "input_contract F = map_option dr_inputs (df_draft F)"

section \<open>Completion\<close>

text \<open>\<open>_compile\<close>: without a draft the compiler refuses.\<close>

definition run_trace ::
  "discovery_env \<Rightarrow> discovery_frame \<Rightarrow> recorded_step list \<Rightarrow> normalized_observation \<Rightarrow> session_attributes
     \<Rightarrow> string \<Rightarrow> trace" where
  "run_trace D F recordings final attrs manifest =
     (let q = df_request F; policy = df_policy F in
      \<lparr>tx_run_id = dq_run_id q, tx_goal = dq_goal q, tx_family = dq_family q, tx_tenant = dq_tenant q,
       tx_entry_point = dq_entry_point q, tx_steps = recordings, tx_final = final,
       tx_provider = de_provider D, tx_model = de_model D, tx_manifest = manifest,
       tx_routes = Some (ep_routes policy), tx_rendered = sa_rendered attrs,
       tx_variant = sa_variant attrs, tx_contract = Some (sa_contract attrs),
       tx_maximum_risk = Some (ep_maximum_risk policy), tx_actions = Some (ep_actions policy),
       tx_required = sa_required attrs, tx_forbidden = sa_forbidden attrs\<rparr>)"

definition compile_run ::
  "discovery_env \<Rightarrow> discovery_frame \<Rightarrow> recorded_step list \<Rightarrow> normalized_observation \<Rightarrow> session_attributes
     \<Rightarrow> string \<Rightarrow> capability_artifact result" where
  "compile_run D F recordings final attrs manifest =
     (case df_draft F of
        Some d \<Rightarrow> compile_with_spec (de_compiler D) d (run_trace D F recordings final attrs manifest)
      | None \<Rightarrow> Inl (compilation_error ''a capability draft is required for generic compilation''))"

definition publishable ::
  "discovery_env \<Rightarrow> discovery_frame \<Rightarrow> recorded_step list \<Rightarrow> normalized_observation \<Rightarrow> session_attributes
     \<Rightarrow> string \<Rightarrow> json_object \<Rightarrow> capability_artifact result" where
  "publishable D F recordings final attrs manifest outputs =
     bind_r (compile_run D F recordings final attrs manifest) (\<lambda>compiled.
     bind_r (redact_contract_descriptions (de_texts D) (cz_hash (de_compiler D)) (de_redactor D) compiled
               (dq_inputs (df_request F)) outputs) (\<lambda>a.
     bind_r (validate_artifact_privacy (de_texts D) (de_redactor D) a (dq_inputs (df_request F)) outputs)
       (\<lambda>_. Inr a)))"

definition fail_private :: "discovery_env \<Rightarrow> discovery_frame \<Rightarrow> string \<Rightarrow> string \<Rightarrow> run_result disc" where
  "fail_private D F source location =
     bind_c (lift_c (mk_privacy_diagnostic \<lparr>pg_source = source, pg_location = location\<rparr>)) (\<lambda>dg.
     on_run (discovery_failure (de_env D) (df_request F) True ''artifact_privacy_rejected''
       (''artifact contains a literal '' @ source @ '' value at '' @ location) (Some dg) None))"

definition reject_artifact :: "discovery_env \<Rightarrow> discovery_frame \<Rightarrow> exn \<Rightarrow> run_result disc" where
  "reject_artifact D F e =
     (case e of
        ArtifactPrivacyError source location \<Rightarrow> fail_private D F source location
      | EvidenceRejectedError m \<Rightarrow>
          fail_run D F ''artifact_privacy_rejected''
            ''The compiled trace contains private or forbidden data.''
      | _ \<Rightarrow>
          if value_error e = None then raise e
          else fail_run D F ''artifact_compilation_failed''
            ''The observed trace could not be compiled into a safe capability.'')"

definition not_discovered :: "run_result disc \<Rightarrow> discovery_result disc" where
  "not_discovered m = bind_c m (\<lambda>r. ret (NotDiscovered r))"

text \<open>\<open>_complete\<close>.\<close>

definition complete_discovery ::
  "discovery_env \<Rightarrow> discovery_frame \<Rightarrow> normalized_observation \<Rightarrow> discovery_result disc" where
  "complete_discovery D F final =
     bind_c (local_of dl_recordings) (\<lambda>recordings.
     bind_c (attributes_now D) (\<lambda>attrs.
     bind_c (on_run (manifest_key (de_env D))) (\<lambda>manifest.
     bind_c outputs_now (\<lambda>outputs.
     case publishable D F recordings final attrs manifest outputs of
       Inl e \<Rightarrow> not_discovered (reject_artifact D F e)
     | Inr a \<Rightarrow>
         bind_c (on_run (wait_until (de_env D) (dq_inputs (df_request F))
                   (cp_condition (art_checkpoint a)) 10000)) (\<lambda>verified.
         if \<not> verified
         then not_discovered (fail_run D F ''completion_not_verified''
                ''Completion lacked deterministic checkpoint evidence.'')
         else case validate_object (ev_formats (de_env D)) (art_outputs a) outputs ''$'' of
           Inl e \<Rightarrow>
             (case contract_only e of
                None \<Rightarrow> raise e
              | Some c \<Rightarrow> not_discovered (fail_run D F ''completion_output_invalid'' (fst c @ '': '' @ snd c)))
         | Inr validated \<Rightarrow>
             then_c (journal_event D ''artifact_compiled'' [])
             (bind_c (on_run (manifest_key (de_env D))) (\<lambda>key.
              bind_c (local_of dl_branch) (\<lambda>branch.
              bind_c (lift_c (mk_discovery_success
                \<lparr>ds_run_id = dq_run_id (df_request F), ds_artifact = a, ds_manifest = key,
                 ds_branch = branch\<rparr>)) (\<lambda>d.
              ret (Discovered d)))))))))) "

text \<open>\<open>_rejoin_ready\<close>.\<close>

definition rejoin_checks ::
  "discovery_env \<Rightarrow> discovery_frame \<Rightarrow> capability_artifact \<Rightarrow> step \<Rightarrow> bool run" where
  "rejoin_checks D F primary s =
     then_c (case st_target s of
         None \<Rightarrow> ret ()
       | Some t \<Rightarrow>
           bind_c (lift_c (bind_target_inputs t (dq_inputs (df_request F)) (Some (art_inputs primary))
                     (ep_forbidden (df_policy F)))) (\<lambda>b.
           bind_c (resolve (de_env D) b (st_timeout_ms s)) (\<lambda>target. ret ())))
     (all_c (evaluate (de_env D) (dq_inputs (df_request F))) (st_preconditions s))"

definition rejoin_ready ::
  "discovery_env \<Rightarrow> discovery_frame \<Rightarrow> scenario \<Rightarrow> observed_branch \<Rightarrow> bool disc" where
  "rejoin_ready D F sn b =
     (let primary = sn_primary sn; i = nat (br_after_steps b) in
      if length (art_steps primary) \<le> i then ret False
      else on_run (catch_c (rejoin_checks D F primary (art_steps primary ! i))
             surface_or_contract (\<lambda>_. ret False)))"

section \<open>One action\<close>

text \<open>How \<open>_act\<close> returns: a recorded step and its note for the model, or a failure.\<close>

datatype acted = Acted recorded_step string | NotActed run_result

definition not_acted :: "run_result disc \<Rightarrow> acted disc" where
  "not_acted m = bind_c m (\<lambda>r. ret (NotActed r))"

text \<open>\<open>str\<close> of a JSON value; the text of anything but a string, integer or boolean is a parameter.\<close>

definition json_str :: "environment \<Rightarrow> json \<Rightarrow> string" where
  "json_str E v =
     (case v of
        JStr s \<Rightarrow> s
      | JInt i \<Rightarrow> show_int i
      | JBool b \<Rightarrow> (if b then ''True'' else ''False'')
      | _ \<Rightarrow> ev_str E v)"

fun literal_json :: "scalar \<Rightarrow> json" where
  "literal_json (SStr s) = JStr s"
| "literal_json (SInt i) = JInt i"
| "literal_json (SBool b) = JBool b"

fun contains_input_literal :: "environment \<Rightarrow> string \<Rightarrow> json \<Rightarrow> bool" where
  "contains_input_literal E literal (JObj kvs) =
     list_ex (\<lambda>(k, v). contains_input_literal E literal v) kvs"
| "contains_input_literal E literal (JList vs) = list_ex (contains_input_literal E literal) vs"
| "contains_input_literal E literal v = (json_str E v = literal)"

definition action_condition :: "action \<Rightarrow> condition option" where
  "action_condition a = (case a of AssertAction c \<Rightarrow> Some c | WaitForAction c \<Rightarrow> Some c | _ \<Rightarrow> None)"

definition embeds_input :: "environment \<Rightarrow> json_object \<Rightarrow> action \<Rightarrow> bool" where
  "embeds_input E inputs a =
     (case input_source a of
        Some (LiteralValue v) \<Rightarrow> contains_input_literal E (json_str E (literal_json v)) (JObj inputs)
      | _ \<Rightarrow> False)"

definition check_condition_bound :: "json_object \<Rightarrow> json_object \<Rightarrow> action \<Rightarrow> unit result" where
  "check_condition_bound outputs inputs a =
     (case action_condition a of
        None \<Rightarrow> Inr () | Some c \<Rightarrow> validate_condition_bindings outputs inputs c)"

definition check_input_bound :: "json_object \<Rightarrow> action \<Rightarrow> unit result" where
  "check_input_bound inputs a =
     (case input_source a of
        Some (InputValue path) \<Rightarrow>
          (case resolve_input inputs path of
             Inr v \<Rightarrow> Inr ()
           | Inl e \<Rightarrow>
               Inl (if contract_only e = None then e
                    else replannable ''input_binding_missing''
                      ''The proposed input binding is unavailable.''))
      | _ \<Rightarrow> Inr ())"

definition check_output_declared :: "object_contract \<Rightarrow> action \<Rightarrow> unit result" where
  "check_output_declared contract a =
     (case a of
        ExtractAction out tr \<Rightarrow>
          check (out \<in> set (map fst (oc_properties contract)))
            (replannable ''output_not_declared''
               ''Extraction output is not declared by the capability contract.'')
      | _ \<Rightarrow> Inr ())"

definition check_target_symbolic :: "json_texts \<Rightarrow> json_object \<Rightarrow> locator_bundle option \<Rightarrow> unit result" where
  "check_target_symbolic T inputs target =
     (case target of
        None \<Rightarrow> Inr ()
      | Some t \<Rightarrow>
          check (\<not> target_contains_invocation_literal T t inputs)
            (replannable ''literal_input_target''
               ''Use an input_text symbolic binding for invocation-dependent record identity.''))"

definition bind_proposed_target ::
  "discovery_frame \<Rightarrow> locator_bundle option \<Rightarrow> locator_bundle option result" where
  "bind_proposed_target F target =
     (case target of
        None \<Rightarrow> Inr None
      | Some t \<Rightarrow>
          (case bind_target_inputs t (dq_inputs (df_request F)) (input_contract F) (ep_forbidden (df_policy F)) of
             Inr b \<Rightarrow> Inr (Some b)
           | Inl e \<Rightarrow>
               Inl (case contract_only e of
                  None \<Rightarrow> e
                | Some (path, code) \<Rightarrow>
                    SurfaceFailure ((simple_error code ''Target input binding is unavailable or forbidden.'')
                      \<lparr>se_recoverable := (code \<noteq> ''target_input_forbidden''), se_effect_absent := True\<rparr>))))"

definition has_input_path :: "locator_bundle option \<Rightarrow> bool" where
  "has_input_path target = (case target of None \<Rightarrow> False | Some t \<Rightarrow> target_input_paths t \<noteq> [])"

definition capture_locator :: "discovery_env \<Rightarrow> resolved_target \<Rightarrow> locator_bundle run" where
  "capture_locator D t =
     ask (\<lambda>s. de_locate D (rs_history s) t) (\<lambda>r. EvModel (Located t r))"

text \<open>The bundle kept of a proposed one: symbolic, or as the surface located it.\<close>

definition first_stable ::
  "discovery_env \<Rightarrow> locator_bundle option \<Rightarrow> resolved_target option \<Rightarrow> locator_bundle option run" where
  "first_stable D proposed target =
     (if has_input_path proposed then ret proposed
      else case target of
        None \<Rightarrow> ret None
      | Some t \<Rightarrow> bind_c (capture_locator D t) (\<lambda>b. ret (Some b)))"

text \<open>On a rendered surface the symbolic candidate is kept only where it is the one grounded.\<close>

definition grounded_candidate ::
  "locator_bundle \<Rightarrow> locator_bundle \<Rightarrow> nat \<Rightarrow> locator_bundle \<Rightarrow> locator_bundle" where
  "grounded_candidate proposed bound i captured =
     (if i < length (lb_visual_candidates bound) \<and>
         lb_visual_candidates captured = [lb_visual_candidates bound ! i]
      then captured\<lparr>lb_visual_candidates := [lb_visual_candidates proposed ! i]\<rparr>
      else captured)"

definition stable_target ::
  "discovery_env \<Rightarrow> locator_bundle option \<Rightarrow> locator_bundle option \<Rightarrow> resolved_target option
     \<Rightarrow> locator_bundle option disc" where
  "stable_target D proposed bound target =
     bind_c (on_run (first_stable D proposed target)) (\<lambda>located.
     bind_c (attributes_now D) (\<lambda>attrs.
     case (proposed, bound, target) of
       (Some p, Some b, Some t) \<Rightarrow>
         if rt_visual t \<noteq> None \<and> sa_rendered attrs \<and> target_input_paths p \<noteq> []
         then bind_c (on_run (capture_locator D t)) (\<lambda>captured.
           ret (Some (grounded_candidate p b (nat (rt_candidate_index t)) captured)))
         else ret located
     | _ \<Rightarrow> ret located))"

definition discovery_context ::
  "discovery_frame \<Rightarrow> act_proposal \<Rightarrow> normalized_observation \<Rightarrow> resolved_target option \<Rightarrow> string
     \<Rightarrow> action_context" where
  "discovery_context F p before target origin =
     \<lparr>ax_principal_type = PRINCIPAL_AUTOMATION, ax_principal_id = ''runtime'',
      ax_run_mode = RUN_DISCOVERY, ax_application_family = dq_family (df_request F),
      ax_tenant = dq_tenant (df_request F), ax_origin = origin, ax_route = obs_route before,
      ax_action_type = action_kind (pp_action p),
      ax_target_description =
        (case pp_target p of None \<Rightarrow> pp_expected_effect p | Some t \<Rightarrow> lb_description t),
      ax_declared_risk = pp_declared_risk p, ax_control_owner = owner_value AUTOMATION_OWNER,
      ax_classification =
        (case (input_contract F, input_source (pp_action p)) of
           (Some c, Some (InputValue path)) \<Rightarrow> binding_classification c path (ep_forbidden (df_policy F))
         | _ \<Rightarrow> None),
      ax_registered_risk = (case target of None \<Rightarrow> None | Some t \<Rightarrow> rt_registered_risk t)\<rparr>"

definition ask_policy ::
  "discovery_env \<Rightarrow> discovery_frame \<Rightarrow> act_proposal \<Rightarrow> normalized_observation \<Rightarrow> resolved_target option
     \<Rightarrow> policy_decision run" where
  "ask_policy D F p before target =
     bind_c (gets (\<lambda>s. discovery_context F p before target (ev_origin (de_env D) (rs_history s)))) (\<lambda>ctx.
     ask (\<lambda>s. evaluate_policy (new_id (ev_uuid (de_env D) (rs_history s)) DECISION)
                (utc (ev_clock (de_env D) (rs_history s) 0)) (df_policy F) ctx) (EvPolicy ctx))"

fun policy_word :: "decision \<Rightarrow> string" where
  "policy_word ALLOW = ''allow''"
| "policy_word DENY = ''deny''"
| "policy_word REQUIRE_HUMAN_APPROVAL = ''require_human_approval''"

text \<open>The value a locator was coupled to may not become an output.\<close>

definition keep_output ::
  "locator_bundle option \<Rightarrow> string \<Rightarrow> extract_transform \<Rightarrow> string \<Rightarrow> unit run" where
  "keep_output located out tr observed =
     (let value = transform_extracted_text observed tr in
      if extraction_locator_contains_value located observed \<or> extraction_locator_contains_value located value
      then raise (replannable ''extraction_locator_value_bound''
             ''The extraction locator depends on the observed output value.'')
      else update (\<lambda>s. s\<lparr>rs_outputs := dict_set out (JStr value) (rs_outputs s)\<rparr>))"

text \<open>The action itself; \<open>Some\<close> is the code and message of a failure.\<close>

definition perform_action ::
  "discovery_env \<Rightarrow> discovery_frame \<Rightarrow> act_proposal \<Rightarrow> locator_bundle option \<Rightarrow> resolved_target option
     \<Rightarrow> (string \<times> string) option run" where
  "perform_action D F p located target =
     (case pp_action p of
        ExtractAction out tr \<Rightarrow>
          (case target of
             None \<Rightarrow> ret (Some (''target_absent'', ''Extraction requires a resolved target.''))
           | Some t \<Rightarrow>
               bind_c (extract_text (de_env D) t) (\<lambda>observed.
               then_c (keep_output located out tr observed) (ret None)))
      | a \<Rightarrow>
          bind_c (execute_action (de_env D) (dq_inputs (df_request F)) a target) (\<lambda>receipt.
          ret (if ar_status receipt = FAILED
               then Some (if truthy (ar_error_code receipt) then the (ar_error_code receipt) else ''action_failed'',
                          ''The discovery action did not complete.'')
               else None)))"

text \<open>
  The conditions that must hold after it: that of an assertion or a wait, and the expected one.
  The result is the verified conditions, or the code and message of a failure.
\<close>

definition verify_condition ::
  "discovery_env \<Rightarrow> discovery_frame \<Rightarrow> condition option \<Rightarrow> string \<times> string \<Rightarrow> condition list
     \<Rightarrow> ((string \<times> string) + condition list) disc" where
  "verify_condition D F c failure_of verified =
     (case c of
        None \<Rightarrow> ret (Inr verified)
      | Some c \<Rightarrow>
          bind_c (on_run (wait_until (de_env D) (dq_inputs (df_request F)) c 10000)) (\<lambda>b.
          if \<not> b then ret (Inl failure_of)
          else then_c (renew_control D (df_session F))
            (ret (Inr (if c \<in> set verified then verified else verified @ [c])))))"

definition verify_effect ::
  "discovery_env \<Rightarrow> discovery_frame \<Rightarrow> act_proposal \<Rightarrow> ((string \<times> string) + condition list) disc" where
  "verify_effect D F p =
     bind_c (verify_condition D F (action_condition (pp_action p))
        (''action_condition_not_verified'', ''The action's condition was not observed.'') []) (\<lambda>r.
     case r of
       Inl e \<Rightarrow> ret (Inl e)
     | Inr verified \<Rightarrow>
         verify_condition D F (pp_expected_condition p)
           (''expected_condition_not_verified'',
            ''The action's expected condition was not observed after execution.'') verified)"

text \<open>An extracted value must satisfy its own schema.\<close>

definition output_errors :: "exn \<Rightarrow> unit option" where
  "output_errors e =
     (case e of ContractValidationError p c \<Rightarrow> Some () | KeyError k \<Rightarrow> Some ()
      | CapabilityNotFoundError m \<Rightarrow> Some () | LeaseNotFoundError m \<Rightarrow> Some ()
      | InterventionNotFoundError m \<Rightarrow> Some () | _ \<Rightarrow> None)"

definition output_value_ok :: "environment \<Rightarrow> object_contract \<Rightarrow> string \<Rightarrow> json_object \<Rightarrow> unit result" where
  "output_value_ok E contract out outputs =
     (case (dict_get (oc_properties contract) out, dict_get outputs out) of
        (Some schema, Some v) \<Rightarrow>
          bind_r (validate_object (ev_formats E) \<lparr>oc_required = [out], oc_properties = [(out, schema)]\<rparr>
                    [(out, v)] ''$'') (\<lambda>_. Inr ())
      | _ \<Rightarrow> Inl (KeyError out))"

text \<open>The end of an action: the extracted value, one observation and the recorded step.\<close>

definition record_action ::
  "discovery_env \<Rightarrow> discovery_frame \<Rightarrow> act_proposal \<Rightarrow> normalized_observation \<Rightarrow> locator_bundle option
     \<Rightarrow> risk \<Rightarrow> condition list \<Rightarrow> acted disc" where
  "record_action D F p before located risk verified =
     bind_c (on_run (observe (de_env D))) (\<lambda>after.
     then_c (journal_event D ''action_result'' [])
     (bind_c (lift_c (mk_recorded_step
        \<lparr>rd_action = pp_action p, rd_target = located, rd_before = before, rd_after = after,
         rd_expected_effect = pp_expected_effect p, rd_rationale = pp_rationale p, rd_risk = risk,
         rd_verified = verified\<rparr>)) (\<lambda>r.
      ret (Acted r (''Completed action: '' @ de_show D p @
        (if action_condition (pp_action p) = None then []
         else '' Condition verified and retained in the recorded trace.''))))))"

definition check_extracted ::
  "discovery_env \<Rightarrow> discovery_frame \<Rightarrow> act_proposal \<Rightarrow> normalized_observation \<Rightarrow> locator_bundle option
     \<Rightarrow> risk \<Rightarrow> condition list \<Rightarrow> acted disc" where
  "check_extracted D F p before located risk verified =
     (case pp_action p of
        ExtractAction out tr \<Rightarrow>
          bind_c outputs_now (\<lambda>outputs.
          case output_value_ok (de_env D) (output_contract F) out outputs of
            Inr u \<Rightarrow> record_action D F p before located risk (verified @ [OutputValidCondition out])
          | Inl e \<Rightarrow>
              if output_errors e = None then raise e
              else
                then_c (journal_event D ''output_validation_failed'' [(''output'', JStr out)])
                (not_acted (fail_run D F ''output_invalid'' ''The extracted output is invalid.'')))
      | _ \<Rightarrow> record_action D F p before located risk verified)"

text \<open>After the policy has allowed the action.\<close>

definition act_allowed ::
  "discovery_env \<Rightarrow> discovery_frame \<Rightarrow> act_proposal \<Rightarrow> normalized_observation \<Rightarrow> locator_bundle option
     \<Rightarrow> resolved_target option \<Rightarrow> risk \<Rightarrow> acted disc" where
  "act_allowed D F p before located target risk =
     then_c (renew_control D (df_session F))
     (then_c (journal_event D ''action_intent'' [])
     (bind_c (on_run (perform_action D F p located target)) (\<lambda>failed.
      case failed of
        Some (code, message) \<Rightarrow> not_acted (fail_run D F code message)
      | None \<Rightarrow>
          then_c (renew_control D (df_session F))
          (bind_c (verify_effect D F p) (\<lambda>r.
           case r of
             Inl (code, message) \<Rightarrow> not_acted (fail_run D F code message)
           | Inr verified \<Rightarrow> check_extracted D F p before located risk verified)))))"

definition act_decided ::
  "discovery_env \<Rightarrow> discovery_frame \<Rightarrow> act_proposal \<Rightarrow> normalized_observation \<Rightarrow> locator_bundle option
     \<Rightarrow> resolved_target option \<Rightarrow> policy_decision \<Rightarrow> acted disc" where
  "act_decided D F p before located target d =
     (case pd_decision d of
        DENY \<Rightarrow> not_acted (fail_run D F ''policy_blocked'' (pd_explanation d))
      | REQUIRE_HUMAN_APPROVAL \<Rightarrow>
          if pd_reason_code d = ''sensitive_action_requires_approval''
          then raise (replannable ''risk_classification_unresolved''
                 ''The proposal must identify a verified inverse or escalate before mutation.'')
          else raise (DiscoveryBlockedError (pd_reason_code d))
      | ALLOW \<Rightarrow> act_allowed D F p before located target (pd_risk d))"

text \<open>From the binding of the target to the decision.\<close>

definition act_bound ::
  "discovery_env \<Rightarrow> discovery_frame \<Rightarrow> act_proposal \<Rightarrow> normalized_observation \<Rightarrow> acted disc" where
  "act_bound D F p before =
     bind_c (lift_c (bind_proposed_target F (pp_target p))) (\<lambda>bound.
     bind_c (case bound of
         None \<Rightarrow> ret None
       | Some b \<Rightarrow> bind_c (on_run (resolve (de_env D) b 10000)) (\<lambda>t. ret (Some t))) (\<lambda>target.
     bind_c (stable_target D (pp_target p) bound target) (\<lambda>located.
     bind_c (on_run (ask_policy D F p before target)) (\<lambda>d.
     then_c (journal_event D ''policy_evaluated''
               [(''decision'', JStr (policy_word (pd_decision d))), (''reason'', JStr (pd_reason_code d))])
     (act_decided D F p before located target d)))))"

text \<open>\<open>_act\<close>.\<close>

definition act ::
  "discovery_env \<Rightarrow> discovery_frame \<Rightarrow> act_proposal \<Rightarrow> normalized_observation \<Rightarrow> acted disc" where
  "act D F p before =
     (let inputs = dq_inputs (df_request F) in
      bind_c outputs_now (\<lambda>outputs.
      then_c (lift_c (check_condition_bound outputs inputs (pp_action p)))
      (if embeds_input (de_env D) inputs (pp_action p)
       then not_acted (fail_run D F ''literal_customer_value''
              ''Discovery cannot publish a customer value embedded in an action.'')
       else
         then_c (lift_c (bind_r (check_input_bound inputs (pp_action p)) (\<lambda>_.
                   bind_r (check_output_declared (output_contract F) (pp_action p)) (\<lambda>_.
                   check_target_symbolic (de_texts D) inputs (pp_target p)))))
         (act_bound D F p before))))"

end
