(* ===== verification/DiscoveryRun.thy ===== *)
theory DiscoveryRun
  imports Discovery
begin

text \<open>
  Whole discovery runs (\<^verbatim>\<open>discovery/engine.py\<close>): the step of the loop, the loop over the step
  budget, the pause and resumption of the generator, and \<open>execute\<close>, \<open>validate_resume\<close>, \<open>resume\<close>
  and \<open>cancel\<close>. The loop is structural in the steps left, so a run always returns. A pause saves
  the generator's variables and the steps left; the handlers and the \<open>finally\<close> of \<open>_run\<close> enclose
  each stretch between two pauses, and a pause does not run the \<open>finally\<close>.
\<close>

section \<open>Notes to the model\<close>

definition handoff_note :: string where
  "handoff_note = ''A human corrected the blocked live session. Reobserve and re-extract outputs. Manual actions are audit evidence, not recorded automation steps. The recorded program must still pass fresh deterministic replay.''"

definition rejoin_note :: string where
  "rejoin_note = ''Completion rejected: recovery requires executed corrective steps, a distinct verified restored-state condition, and readiness of the exact next primary target/preconditions. A branch marker or acknowledgement alone is insufficient. Restore the original surface, including scrolling when necessary; do not click the rejoin target. Assert a distinctive condition on the currently visible restored surface before completing again.''"

definition rejection_note :: "discovery_env \<Rightarrow> act_proposal \<Rightarrow> string \<Rightarrow> string" where
  "rejection_note D p code =
     (if code = ''target_ambiguous''
      then ''Rejected proposal (not executed): '' @ de_show D p @
           CHR 0x0A # ''Previous proposal was not executed (target_ambiguous). Choose a different uniquely identifiable target or anchor from the current screenshot. The relation across every matching anchor must identify one target; repeating this locator cannot resolve ambiguity. Escalate if no supported locator can distinguish the control.''
      else if code = ''visual_select_unsupported''
      then ''Previous proposal was not executed: select requires a native DOM select element. For a rendered/custom dropdown, open the visible control and choose the observed option with click or supported keys. Use input_text for an option bound to invocation data.''
      else if code = ''literal_input_target''
      then ''Previous proposal was not executed: invocation data appeared in its target. Use input_text with the relevant symbolic input path; optionally add the observed control text and its row/column relation.''
      else if code = ''extraction_locator_value_bound''
      then ''Previous extraction was rejected and its output was not bound: the locator contains the value being extracted. Use a stable field label with rendered_field_value (or a structural DOM field locator), not the displayed customer, financial, date, or reference value.''
      else if code \<in> {''condition_output_unbound'', ''condition_input_unbound''}
      then ''Rejected proposal (not executed): '' @ de_show D p @
           CHR 0x0A # ''Condition binding rejected ('' @ code @ ''). Extract the referenced required output before asserting or waiting on it, and use an available symbolic input path. Seeing text on screen does not bind an output. Captured and remaining output fields describe the actual runtime bindings.''
      else if code = ''risk_classification_unresolved''
      then ''Previous proposal was not executed: if the screen visibly proves an explicit inverse, retry with reversible risk; otherwise escalate.''
      else ''Previous proposal was not executed ('' @ code @ ''); choose a different safe target.'')"

definition add_note :: "string \<Rightarrow> unit disc" where
  "add_note n = set_locals (\<lambda>l. l\<lparr>dl_notes := dl_notes l @ [n]\<rparr>)"

section \<open>Summaries and fingerprints\<close>

text \<open>\<open>_operation_fingerprint\<close>: the action, and the target without its description.\<close>

fun without_description :: "tree \<Rightarrow> tree" where
  "without_description (TModel c kts) = TModel c [(k, t) \<leftarrow> kts. k \<noteq> ''description'']"
| "without_description t = t"

definition operation_fingerprint :: "act_proposal \<Rightarrow> tree \<times> tree option" where
  "operation_fingerprint p =
     (action_tree (pp_action p), map_option (\<lambda>t. without_description (bundle_tree t)) (pp_target p))"

fun visual_strategy :: "visual_candidate \<Rightarrow> string" where
  "visual_strategy (InputTextCandidate p a r) = ''input_text''"
| "visual_strategy (OcrTextCandidate c) = ''ocr_text''"
| "visual_strategy (OcrRelativeCandidate c) = ''ocr_relative''"
| "visual_strategy (ImageAnchorCandidate c) = ''image_anchor''"
| "visual_strategy (RenderedTextCandidate v m) = ''rendered_text''"
| "visual_strategy (RenderedLabeledControlCandidate v m) = ''rendered_labeled_control''"
| "visual_strategy (RenderedFieldValueCandidate v m r) = ''rendered_field_value''"
| "visual_strategy (RenderedGroupImageCandidate v m k h) = ''rendered_group_image''"

text \<open>\<open>_proposal_summary\<close>.\<close>

definition act_summary :: "act_proposal \<Rightarrow> json_object" where
  "act_summary p =
     [(''proposal_kind'', JStr ''act''), (''action_type'', JStr (action_kind (pp_action p))),
      (''declared_risk'', JStr (risk_word (pp_declared_risk p))),
      (''target_present'', JBool (pp_target p \<noteq> None)),
      (''frame_depth'', JInt (case pp_target p of None \<Rightarrow> 0 | Some t \<Rightarrow> int (length (lb_frame_path t)))),
      (''locator_strategies'', JList (case pp_target p of None \<Rightarrow> []
         | Some t \<Rightarrow> map (\<lambda>c. JStr (visual_strategy c)) (lb_visual_candidates t) @
                     map (\<lambda>c. JStr (strategy_word (lc_strategy c))) (lb_candidates t)))] @
     (case pp_action p of TypeAction (InputValue path) c \<Rightarrow> [(''input_binding'', JStr path)] | _ \<Rightarrow> []) @
     (case pp_action p of
        ExtractAction out tr \<Rightarrow> [(''output_binding'', JStr out), (''transform'', JStr (transform_word tr))]
      | _ \<Rightarrow> []) @
     (case action_condition (pp_action p) of
        None \<Rightarrow> [] | Some c \<Rightarrow> [(''condition_kind'', JStr (condition_kind c))]) @
     (case pp_expected_condition p of
        None \<Rightarrow> [] | Some c \<Rightarrow> [(''expected_condition_kind'', JStr (condition_kind c))])"

definition proposal_summary :: "proposal \<Rightarrow> json_object" where
  "proposal_summary x =
     (case x of
        RecordedActionProposal step_id r c \<Rightarrow>
          [(''proposal_kind'', JStr ''recorded_action''), (''source_step_id'', JStr step_id)]
      | ActProposal p \<Rightarrow> act_summary p
      | _ \<Rightarrow> [(''proposal_kind'', JStr (proposal_kind x))])"

section \<open>Observing and asking\<close>

text \<open>How a step of the loop ends: go on, wait for a human, or return.\<close>

datatype progress = Next | Blocked string normalized_observation | Done discovery_result

definition fail_step :: "discovery_env \<Rightarrow> discovery_frame \<Rightarrow> string \<Rightarrow> string \<Rightarrow> progress disc" where
  "fail_step D F code message =
     bind_c (fail_run D F code message) (\<lambda>r. ret (Done (NotDiscovered r)))"

definition observational :: "action \<Rightarrow> bool" where
  "observational a =
     (case a of ExtractAction out tr \<Rightarrow> True | AssertAction c \<Rightarrow> True | WaitForAction c \<Rightarrow> True | _ \<Rightarrow> False)"

definition count_repeated_state :: "normalized_observation \<Rightarrow> unit disc" where
  "count_repeated_state observation =
     set_locals (\<lambda>l. l\<lparr>
       dl_repeated_state :=
         (if Some (obs_fingerprint observation) = dl_fingerprint l \<and>
             \<not> (dl_recordings l \<noteq> [] \<and> observational (rd_action (last (dl_recordings l))))
          then dl_repeated_state l + 1 else 0),
       dl_fingerprint := Some (obs_fingerprint observation)\<rparr>)"

definition scenario_steps :: "discovery_frame \<Rightarrow> step list" where
  "scenario_steps F =
     (case dq_scenario (df_request F) of None \<Rightarrow> [] | Some sn \<Rightarrow> art_steps (sn_primary sn))"

definition resume_before :: "discovery_frame \<Rightarrow> observed_branch option \<Rightarrow> step option" where
  "resume_before F branch =
     (case (dq_scenario (df_request F), branch) of
        (Some sn, Some b) \<Rightarrow>
          if sn_kind sn = SCENARIO_RECOVERY \<and> br_after_steps b < int (length (art_steps (sn_primary sn)))
          then Some (art_steps (sn_primary sn) ! nat (br_after_steps b)) else None
      | _ \<Rightarrow> None)"

definition shown_context ::
  "discovery_frame \<Rightarrow> discovery_locals \<Rightarrow> json_object \<Rightarrow> session_attributes \<Rightarrow> normalized_observation
     \<Rightarrow> bytes \<Rightarrow> provider_context" where
  "shown_context F l outputs attrs observation frame =
     \<lparr>px_goal = dq_goal (df_request F), px_inputs = dq_inputs (df_request F),
      px_observation = observation, px_screenshot = frame, px_action_history = dl_notes l,
      px_action_types = ep_actions (df_policy F), px_output_contract = output_contract F,
      px_captured = [n \<leftarrow> map fst (oc_properties (output_contract F)). n \<in> set (map fst outputs)],
      px_maximum_risk = ep_maximum_risk (df_policy F),
      px_previous_text =
        (if dl_recordings l = [] then [] else map tok_text (obs_tokens (rd_before (last (dl_recordings l))))),
      px_reference_steps = scenario_steps F,
      px_scenario_kind = map_option sn_kind (dq_scenario (df_request F)),
      px_branch_observed = (dl_branch l \<noteq> None), px_recorded_steps = length (dl_recordings l),
      px_resume_before = resume_before F (dl_branch l), px_rendered_surface = sa_rendered attrs\<rparr>"

definition ask_model :: "discovery_env \<Rightarrow> discovery_frame \<Rightarrow> normalized_observation \<Rightarrow> proposal disc" where
  "ask_model D F observation =
     bind_c (on_run (capture_provider_frame (de_env D))) (\<lambda>frame.
     then_c (renew_control D (df_session F))
     (bind_c (local_of (\<lambda>l. l)) (\<lambda>l.
      bind_c outputs_now (\<lambda>outputs.
      bind_c (attributes_now D) (\<lambda>attrs.
      bind_c (lift_c (mk_provider_context (shown_context F l outputs attrs observation frame))) (\<lambda>ctx.
      bind_c (on_run (ask (\<lambda>s. de_decide D (rs_history s) ctx) (\<lambda>r. EvModel (Decided ctx r)))) (\<lambda>x.
      then_c (renew_control D (df_session F))
      (then_c (journal_event D ''model_proposal_received'' (proposal_summary x)) (ret x)))))))))"

section \<open>Proposals\<close>

text \<open>A recovery is complete when the corrective steps verified a surface other than the blocker.\<close>

definition restored :: "recorded_step list \<Rightarrow> observed_branch \<Rightarrow> bool" where
  "restored recordings b =
     list_ex (\<lambda>c. proves_distinct_surface c (br_condition b))
       (concat (map rd_verified (drop (nat (br_after_steps b) + 1) recordings)))"

definition finish_run :: "discovery_result disc \<Rightarrow> progress disc" where
  "finish_run m = bind_c m (\<lambda>r. ret (Done r))"

definition reject_rejoin :: "discovery_env \<Rightarrow> discovery_frame \<Rightarrow> progress disc" where
  "reject_rejoin D F =
     then_c (renew_control D (df_session F))
     (then_c (journal_event D ''proposal_rejected''
               [(''code'', JStr ''recovery_rejoin_not_ready''), (''effect_absent'', JBool True)])
     (then_c (add_note rejoin_note) (ret Next)))"

definition complete_proposal ::
  "discovery_env \<Rightarrow> discovery_frame \<Rightarrow> normalized_observation \<Rightarrow> progress disc" where
  "complete_proposal D F observation =
     bind_c (local_of (\<lambda>l. (dl_recordings l, dl_branch l))) (\<lambda>(recordings, branch).
     case (dq_scenario (df_request F), branch) of
       (Some sn, None) \<Rightarrow>
         fail_step D F ''scenario_branch_missing'' ''Scenario completion requires a verified branch marker.''
     | (Some sn, Some b) \<Rightarrow>
         if sn_kind sn = SCENARIO_RECOVERY
         then bind_c (if restored recordings b then rejoin_ready D F sn b else ret False) (\<lambda>ready.
           if ready then finish_run (complete_discovery D F observation) else reject_rejoin D F)
         else finish_run (complete_discovery D F observation)
     | _ \<Rightarrow> finish_run (complete_discovery D F observation))"

text \<open>A proposal made executable: the act, and the branch it would mark; or a failure.\<close>

datatype readied = Ready act_proposal "observed_branch option" | Unready string string

definition reference_act :: "step \<Rightarrow> string \<Rightarrow> condition option \<Rightarrow> act_proposal result" where
  "reference_act s rationale proposed =
     bind_r (scenario_expected_condition s proposed) (\<lambda>expected.
     mk_act_proposal
       \<lparr>pp_action = st_action s, pp_target = st_target s, pp_rationale = rationale,
        pp_expected_effect = ''Reobserve the recorded action's effect.'',
        pp_expected_condition = expected, pp_declared_risk = st_risk s, pp_confidence = 1\<rparr>)"

definition branch_act :: "condition \<Rightarrow> string \<Rightarrow> act_proposal result" where
  "branch_act c rationale =
     mk_act_proposal
       \<lparr>pp_action = AssertAction c, pp_target = None, pp_rationale = rationale,
        pp_expected_effect = ''Verify the observed branch.'', pp_expected_condition = Some c,
        pp_declared_risk = READ_ONLY, pp_confidence = 1\<rparr>"

definition ready_proposal :: "discovery_frame \<Rightarrow> discovery_locals \<Rightarrow> proposal \<Rightarrow> readied result" where
  "ready_proposal F l x =
     (case x of
        RecordedActionProposal step_id rationale proposed \<Rightarrow>
          (case find (\<lambda>s. st_id s = step_id) (scenario_steps F) of
             None \<Rightarrow> Inr (Unready ''scenario_reference_invalid'' ''The requested recorded action is unavailable.'')
           | Some s \<Rightarrow> bind_r (reference_act s rationale proposed) (\<lambda>p. Inr (Ready p None)))
      | BranchProposal c rationale \<Rightarrow>
          if dq_scenario (df_request F) = None \<or> dl_branch l \<noteq> None \<or> dl_recordings l = []
          then Inr (Unready ''scenario_branch_invalid''
                 ''A scenario requires one branch after an executed prefix.'')
          else
            bind_r (mk_observed_branch \<lparr>br_after_steps = int (length (dl_recordings l)), br_condition = c\<rparr>) (\<lambda>b.
            bind_r (branch_act c rationale) (\<lambda>p. Inr (Ready p (Some b))))
      | ActProposal p \<Rightarrow> Inr (Ready p None)
      | _ \<Rightarrow> Inl (RuntimeError ''unreachable''))"

definition count_repeated_action :: "act_proposal \<Rightarrow> unit disc" where
  "count_repeated_action p =
     set_locals (\<lambda>l. l\<lparr>
       dl_repeated_action :=
         (if Some (operation_fingerprint p) = dl_previous l then dl_repeated_action l + 1 else 0),
       dl_previous := Some (operation_fingerprint p)\<rparr>)"

section \<open>The action of a step\<close>

text \<open>What became of an action: done, or left to the model or a human.\<close>

datatype attempted = Performed acted | Left progress

definition reject_action ::
  "discovery_env \<Rightarrow> act_proposal \<Rightarrow> surface_error \<Rightarrow> progress disc" where
  "reject_action D p err =
     (if \<not> se_recoverable err \<or> \<not> se_effect_absent err
      then if se_intervention_recommended err
        then bind_c (on_run (observe (de_env D))) (\<lambda>now. ret (Blocked (se_code err) now))
        else raise (SurfaceFailure err)
      else
        then_c (journal_event D ''proposal_rejected'' [(''code'', JStr (se_code err)), (''effect_absent'', JBool True)])
        (then_c (set_locals (\<lambda>l. l\<lparr>dl_fingerprint := None, dl_repeated_state := 0\<rparr>))
        (then_c (add_note (rejection_note D p (se_code err))) (ret Next))))"

definition act_errors :: "exn \<Rightarrow> exn option" where
  "act_errors e =
     (case e of DiscoveryBlockedError code \<Rightarrow> Some e | SurfaceFailure se \<Rightarrow> Some e | _ \<Rightarrow> None)"

definition attempt ::
  "discovery_env \<Rightarrow> discovery_frame \<Rightarrow> act_proposal \<Rightarrow> normalized_observation \<Rightarrow> attempted disc" where
  "attempt D F p observation =
     catch_c (bind_c (act D F p observation) (\<lambda>a. ret (Performed a))) act_errors
       (\<lambda>e. case e of
          DiscoveryBlockedError code \<Rightarrow> ret (Left (Blocked code observation))
        | SurfaceFailure se \<Rightarrow> bind_c (reject_action D p se) (\<lambda>x. ret (Left x))
        | _ \<Rightarrow> raise e)"

text \<open>A verified terminal marker ends the trace of an outcome or a failure.\<close>

definition keep_recording ::
  "discovery_env \<Rightarrow> discovery_frame \<Rightarrow> recorded_step \<Rightarrow> string \<Rightarrow> observed_branch option \<Rightarrow> progress disc" where
  "keep_recording D F r note pending =
     then_c (set_locals (\<lambda>l. l\<lparr>dl_recordings := dl_recordings l @ [r]\<rparr>))
     (case pending of
        None \<Rightarrow> then_c (add_note note) (ret Next)
      | Some b \<Rightarrow>
          then_c (set_locals (\<lambda>l. l\<lparr>dl_branch := Some b\<rparr>))
          (then_c (journal_event D ''branch_observed''
                    [(''after_step_count'', JInt (br_after_steps b)),
                     (''condition_kind'', JStr (condition_kind (br_condition b)))])
          (case dq_scenario (df_request F) of
             Some sn \<Rightarrow>
               if sn_kind sn \<noteq> SCENARIO_RECOVERY
               then then_c (renew_control D (df_session F)) (finish_run (complete_discovery D F (rd_after r)))
               else then_c (add_note note) (ret Next)
           | None \<Rightarrow> then_c (add_note note) (ret Next))))"

definition act_step ::
  "discovery_env \<Rightarrow> discovery_frame \<Rightarrow> normalized_observation \<Rightarrow> act_proposal \<Rightarrow> observed_branch option
     \<Rightarrow> progress disc" where
  "act_step D F observation p pending =
     then_c (count_repeated_action p)
     (bind_c (local_of dl_repeated_action) (\<lambda>repeated.
      if dq_max_repeated_action (df_request F) \<le> repeated
      then ret (Blocked ''repeated_action'' observation)
      else if pp_confidence p < dq_minimum_confidence (df_request F)
      then ret (Blocked ''low_model_confidence'' observation)
      else
        bind_c (attempt D F p observation) (\<lambda>a.
        case a of
          Left x \<Rightarrow> ret x
        | Performed (NotActed r) \<Rightarrow> ret (Done (NotDiscovered r))
        | Performed (Acted r note) \<Rightarrow> keep_recording D F r note pending)))"

definition proposal_step ::
  "discovery_env \<Rightarrow> discovery_frame \<Rightarrow> normalized_observation \<Rightarrow> proposal \<Rightarrow> progress disc" where
  "proposal_step D F observation x =
     (case x of
        EscalateProposal code r \<Rightarrow> ret (Blocked code observation)
      | CompleteProposal r \<Rightarrow> complete_proposal D F observation
      | _ \<Rightarrow>
          bind_c (local_of (\<lambda>l. ready_proposal F l x)) (\<lambda>r.
          bind_c (lift_c r) (\<lambda>ready.
          case ready of
            Unready code message \<Rightarrow> fail_step D F code message
          | Ready p pending \<Rightarrow> act_step D F observation p pending)))"

text \<open>One passage through the loop.\<close>

definition discovery_step :: "discovery_env \<Rightarrow> discovery_frame \<Rightarrow> progress disc" where
  "discovery_step D F =
     bind_c (engine_clock (de_env D)) (\<lambda>now.
     bind_c (local_of dl_started) (\<lambda>started.
     if dq_timeout (df_request F) \<le> now - started
     then fail_step D F ''discovery_timeout'' ''Time budget exhausted.''
     else
       then_c (renew_control D (df_session F))
       (bind_c (on_run (observe (de_env D))) (\<lambda>observation.
        then_c (journal_event D ''observation_captured'' [])
        (then_c (count_repeated_state observation)
        (bind_c (local_of dl_repeated_state) (\<lambda>repeated.
         if dq_max_repeated_state (df_request F) \<le> repeated
         then ret (Blocked ''repeated_observation'' observation)
         else bind_c (ask_model D F observation) (proposal_step D F observation)))))))) "

section \<open>The generator\<close>

text \<open>A stretch of the generator ends with the result or at a pause.\<close>

datatype stretch = Finished discovery_result | Paused discovery_continuation

definition pause_run ::
  "discovery_env \<Rightarrow> discovery_frame \<Rightarrow> nat \<Rightarrow> nat \<Rightarrow> string \<Rightarrow> normalized_observation \<Rightarrow> stretch disc" where
  "pause_run D F step left code current =
     bind_c (engine_clock (de_env D)) (\<lambda>paused_at.
     bind_c (local_of (\<lambda>l. l)) (\<lambda>l.
     bind_c outputs_now (\<lambda>outputs.
     ret (Paused
       \<lparr>dc_frame = F,
        dc_pause = \<lparr>dp_observation = current, dp_version = dl_version l, dp_code = code,
                    dp_step_id = ''discovery_step_'' @ show_nat step\<rparr>,
        dc_locals = l, dc_outputs = outputs, dc_paused_at = paused_at, dc_step = step,
        dc_left = left\<rparr>))))"

fun discovery_loop :: "discovery_env \<Rightarrow> discovery_frame \<Rightarrow> nat \<Rightarrow> nat \<Rightarrow> stretch disc" where
  "discovery_loop D F 0 step =
     bind_c (fail_run D F ''max_steps_exceeded'' ''Discovery step budget exhausted.'')
       (\<lambda>r. ret (Finished (NotDiscovered r)))"
| "discovery_loop D F (Suc left) step =
     bind_c (discovery_step D F) (\<lambda>x.
     case x of
       Next \<Rightarrow> discovery_loop D F left (step + 1)
     | Blocked code current \<Rightarrow> pause_run D F step left code current
     | Done r \<Rightarrow> ret (Finished r))"

text \<open>The handlers of \<open>_run\<close>.\<close>

definition run_errors :: "exn \<Rightarrow> exn option" where
  "run_errors e =
     (case e of
        ModelProviderError code message \<Rightarrow> Some e | SurfaceFailure se \<Rightarrow> Some e
      | LeaseExpiredError m \<Rightarrow> Some e | LeaseConflictError m \<Rightarrow> Some e | _ \<Rightarrow> None)"

definition handle_run_error :: "discovery_env \<Rightarrow> discovery_request \<Rightarrow> exn \<Rightarrow> stretch disc" where
  "handle_run_error D q e =
     bind_c (gets (\<lambda>s. rs_session (dv_run s) \<noteq> None)) (\<lambda>open_now.
     let fail = (\<lambda>code message frame.
           bind_c (on_run (discovery_failure (de_env D) q open_now code message None frame))
             (\<lambda>r. ret (Finished (NotDiscovered r)))) in
     case e of
       ModelProviderError code message \<Rightarrow> fail code message None
     | SurfaceFailure se \<Rightarrow> fail (se_code se) (se_message se) (se_failure_frame se)
     | LeaseExpiredError m \<Rightarrow> fail ''control_lease_expired'' ''Automation control expired.'' None
     | LeaseConflictError m \<Rightarrow> fail ''control_lease_conflict'' ''Automation ownership changed.'' None
     | _ \<Rightarrow> raise e)"

definition close_now :: "discovery_env \<Rightarrow> unit disc" where
  "close_now D =
     bind_c (gets (\<lambda>s. rs_session (dv_run s) \<noteq> None)) (\<lambda>open_now.
     if open_now then on_run (close_session (de_env D)) else ret ())"

text \<open>\<open>try\<close> of \<open>_run\<close> around a stretch: its handlers, and its \<open>finally\<close> unless it pauses.\<close>

definition within_run :: "discovery_env \<Rightarrow> discovery_request \<Rightarrow> stretch disc \<Rightarrow> stretch disc" where
  "within_run D q m =
     finally_c (catch_c m run_errors (handle_run_error D q))
       (\<lambda>r. case r of Some (Paused c) \<Rightarrow> ret () | _ \<Rightarrow> close_now D)"

definition policy_of_run :: "discovery_env \<Rightarrow> discovery_request \<Rightarrow> effective_policy result" where
  "policy_of_run D q =
     (case de_resolver D of
        Some resolver \<Rightarrow> resolver q
      | None \<Rightarrow>
          (case de_policy D of
             Some p \<Rightarrow> Inr p
           | None \<Rightarrow> Inl (RuntimeError ''discovery policy resolver is not configured'')))"

definition open_discovery :: "discovery_env \<Rightarrow> discovery_request \<Rightarrow> string disc" where
  "open_discovery D q =
     on_run (bind_c (ask (\<lambda>s. ev_open (de_env D) (rs_history s) (dq_family q) (dq_tenant q) (dq_entry_point q))
               (EvOpen (dq_family q) (dq_tenant q) (dq_entry_point q))) (\<lambda>sid.
       then_c (update (\<lambda>s. s\<lparr>rs_session := Some sid\<rparr>)) (ret sid)))"

definition fresh_locals :: "int \<Rightarrow> int \<Rightarrow> discovery_locals" where
  "fresh_locals started version =
     \<lparr>dl_started = started, dl_version = version, dl_recordings = [], dl_branch = None, dl_notes = [],
      dl_fingerprint = None, dl_repeated_state = 0, dl_repeated_action = 0, dl_previous = None\<rparr>"

definition begin_run :: "discovery_env \<Rightarrow> discovery_request \<Rightarrow> int \<Rightarrow> stretch disc" where
  "begin_run D q started =
     bind_c (lift_c (policy_of_run D q)) (\<lambda>policy.
     bind_c (open_discovery D q) (\<lambda>sid.
     bind_c (on_run (create_lease (de_env D) sid)) (\<lambda>lease.
     then_c (set_locals (\<lambda>l. fresh_locals started (lease_version lease)))
     (then_c (journal_event D ''discovery_started'' [])
     (bind_c (plan_contract D q policy sid) (\<lambda>draft.
      then_c (set_outputs [])
      (discovery_loop D
        \<lparr>df_request = q, df_policy = policy, df_session = sid, df_draft = draft\<rparr>
        (nat (dq_max_steps q)) 1)))))))"

text \<open>\<open>_run\<close> up to its first pause.\<close>

definition run_discovery :: "discovery_env \<Rightarrow> discovery_request \<Rightarrow> stretch disc" where
  "run_discovery D q =
     then_c (update (\<lambda>s. s\<lparr>dv_run := (dv_run s)\<lparr>rs_session := None\<rparr>\<rparr>))
     (bind_c (engine_clock (de_env D)) (\<lambda>started. within_run D q (begin_run D q started)))"

text \<open>The rest of \<open>handoff\<close>, after the \<open>yield\<close>, and the loop from the next step.\<close>

definition after_pause :: "discovery_env \<Rightarrow> discovery_continuation \<Rightarrow> int \<Rightarrow> stretch disc" where
  "after_pause D c version =
     (let F = dc_frame c in
      bind_c (engine_clock (de_env D)) (\<lambda>now.
      then_c (set_locals (\<lambda>l. l\<lparr>dl_started := dl_started l + (now - dc_paused_at c), dl_version := version\<rparr>))
      (then_c (renew_control D (df_session F))
      (then_c (set_locals (\<lambda>l. l\<lparr>dl_fingerprint := None, dl_previous := None, dl_repeated_state := 0,
                                  dl_repeated_action := 0\<rparr>))
      (then_c (set_outputs [])
      (then_c (add_note handoff_note)
      (discovery_loop D F (dc_left c) (dc_step c + 1))))))))"

text \<open>The variables of the generator are those it paused with.\<close>

definition restore_run :: "discovery_continuation \<Rightarrow> unit disc" where
  "restore_run c =
     update (\<lambda>s. s\<lparr>dv_locals := dc_locals c,
       dv_run := (dv_run s)\<lparr>rs_outputs := dc_outputs c, rs_session := Some (df_session (dc_frame c))\<rparr>\<rparr>)"

definition continue_discovery :: "discovery_env \<Rightarrow> discovery_continuation \<Rightarrow> int \<Rightarrow> stretch disc" where
  "continue_discovery D c version =
     then_c (restore_run c) (within_run D (df_request (dc_frame c)) (after_pause D c version))"

text \<open>\<open>loop.close()\<close>: the generator is left at its \<open>yield\<close>, through its \<open>finally\<close>.\<close>

definition abandon_run :: "discovery_env \<Rightarrow> discovery_continuation \<Rightarrow> unit disc" where
  "abandon_run D c = then_c (restore_run c) (on_run (close_session (de_env D)))"

section \<open>The engine\<close>

definition discovery_handoff_context :: "discovery_request \<Rightarrow> discovery_pause \<Rightarrow> intervention_context" where
  "discovery_handoff_context q z =
     \<lparr>ctx_run_mode = MODE_DISCOVERY, ctx_application_family = dq_family q, ctx_tenant = dq_tenant q,
      ctx_task_summary = dq_goal q, ctx_surface_route = obs_route (dp_observation z),
      ctx_step_id = Some (dp_step_id z), ctx_capability_id = None, ctx_capability_version = None,
      ctx_capability_name = None\<rparr>"

text \<open>\<open>intervention_router.open\<close> with the arguments of discovery.\<close>

definition route_discovery ::
  "environment \<Rightarrow> discovery_request \<Rightarrow> string \<Rightarrow> string \<Rightarrow> discovery_pause \<Rightarrow> intervention_context
     \<Rightarrow> string run" where
  "route_discovery E q iid sid z ctx =
     (\<lambda>s. let now = ev_clock E (rs_history s) in
          case router_open (ev_ttl E) (now 0) (now 1) (now 2) (rs_store s) iid (dq_run_id q) sid
                 (dp_version z) (dp_code z) (Some (dp_step_id z)) (dp_observation z) ctx
                 (Some ''Discovery is blocked; correct the live state before resuming.'') of
            Inl e \<Rightarrow> (Inl e, s\<lparr>rs_history := EvRoute iid (dp_code z) (dp_version z) (Inl e) # rs_history s\<rparr>)
          | Inr (routed, st) \<Rightarrow>
              (Inr routed, s\<lparr>rs_history := EvRoute iid (dp_code z) (dp_version z) (Inr routed) # rs_history s,
                             rs_store := st\<rparr>))"

definition hand_over :: "discovery_env \<Rightarrow> discovery_continuation \<Rightarrow> discovery_result disc" where
  "hand_over D c =
     (let E = de_env D; q = df_request (dc_frame c); z = dc_pause c in
      bind_c (on_run (capture_provider_frame E)) (\<lambda>frame.
      then_c (on_run (attach_screenshot E ''discovery-handoff-before'' frame RETAIN_HUMAN_AUDIT))
      (bind_c (gets (\<lambda>s. new_id (ev_uuid E (rs_history (dv_run s))) INTERVENTION)) (\<lambda>iid.
       bind_c (lift_c (mk_intervention_context (discovery_handoff_context q z))) (\<lambda>ctx.
       then_c (bind_c (on_run (route_discovery E q iid (df_session (dc_frame c)) z ctx)) (\<lambda>routed. ret ()))
       (then_c (update (\<lambda>s. s\<lparr>dv_continuations := dict_set iid c (dv_continuations s)\<rparr>))
       (then_c (on_run (record_event E ''intervention_required'' (Some (dp_step_id z))
                  [(''code'', JStr (dp_code z))]))
       (bind_c (lift_c (mk_intervention_required
          \<lparr>ir_run_id = dq_run_id q, ir_intervention_id = iid, ir_code = dp_code z,
           ir_step_id = Some (dp_step_id z)\<rparr>)) (\<lambda>r.
        ret (NotDiscovered r)))))))))) "

text \<open>\<open>except BaseException: loop.close(); raise\<close>.\<close>

definition or_close :: "unit disc \<Rightarrow> 'a disc \<Rightarrow> 'a disc" where
  "or_close k m = catch_c m Some (\<lambda>e. then_c k (raise e))"

text \<open>\<open>_advance\<close>.\<close>

definition advance :: "discovery_env \<Rightarrow> stretch disc \<Rightarrow> discovery_result disc" where
  "advance D m =
     bind_c m (\<lambda>x.
     case x of
       Finished r \<Rightarrow> ret r
     | Paused c \<Rightarrow>
         if \<not> de_routed D
         then finally_c
           (not_discovered (on_run (discovery_failure (de_env D) (df_request (dc_frame c)) True
              (dp_code (dc_pause c)) ''Discovery is blocked.'' None None)))
           (\<lambda>r. abandon_run D c)
         else or_close (abandon_run D c) (hand_over D c))"

definition execute_discovery :: "discovery_env \<Rightarrow> discovery_request \<Rightarrow> discovery_result disc" where
  "execute_discovery D q = advance D (run_discovery D q)"

definition continuation_of :: "string \<Rightarrow> discovery_continuation disc" where
  "continuation_of iid =
     bind_c (gets (\<lambda>s. dict_get (dv_continuations s) iid)) (\<lambda>c.
     case c of None \<Rightarrow> raise (KeyError iid) | Some c \<Rightarrow> ret c)"

definition pop_continuation :: "string \<Rightarrow> discovery_continuation disc" where
  "pop_continuation iid =
     bind_c (continuation_of iid) (\<lambda>c.
     then_c (update (\<lambda>s. s\<lparr>dv_continuations := AList.delete iid (dv_continuations s)\<rparr>)) (ret c))"

definition validate_discovery_resume :: "discovery_env \<Rightarrow> string \<Rightarrow> unit disc" where
  "validate_discovery_resume D iid =
     (let E = de_env D in
      bind_c (continuation_of iid) (\<lambda>c.
      bind_c (on_run (observe E)) (\<lambda>observation.
      bind_c (gets (\<lambda>s. location_allowed (df_policy (dc_frame c)) (ev_origin E (rs_history (dv_run s)))
                          (obs_route observation))) (\<lambda>here.
      if \<not> here
      then raise (SurfaceFailure (simple_error ''resume_location_not_allowed''
             ''The session is outside its allowed location.''))
      else if obs_fingerprint observation = obs_fingerprint (dp_observation (dc_pause c))
      then raise (SurfaceFailure (simple_error ''resume_state_unchanged''
             ''The blocked discovery state has not changed.''))
      else
        bind_c (on_run (capture_provider_frame E)) (\<lambda>frame.
        then_c (on_run (attach_screenshot E ''discovery-handoff-after'' frame RETAIN_HUMAN_AUDIT))
        (journal_event D ''resume_checkpoint_verified'' []))))))"

definition resume_discovery :: "discovery_env \<Rightarrow> string \<Rightarrow> int \<Rightarrow> discovery_result disc" where
  "resume_discovery D iid version =
     bind_c (pop_continuation iid) (\<lambda>c. advance D (continue_discovery D c version))"

definition cancel_discovery :: "discovery_env \<Rightarrow> string \<Rightarrow> discovery_result disc" where
  "cancel_discovery D iid =
     bind_c (pop_continuation iid) (\<lambda>c.
     finally_c
       (not_discovered (on_run (discovery_failure (de_env D) (df_request (dc_frame c)) True
          ''discovery_terminated'' ''Discovery was terminated while paused.'' None None)))
       (\<lambda>r. abandon_run D c))"

end
