(* ===== verification/DiscoveryLogic.thy ===== *)
theory DiscoveryLogic
  imports DiscoveryRun ReplayLogic
begin

text \<open>
  How the properties of a discovery run are proved. The locale \<open>discovery_run\<close> carries an invariant
  through everything the engine does but dispatching: it rests on the locale of quiet computations
  of the replay engine, whose ports discovery shares. \<open>discovery_acts\<close> extends it to the action.
\<close>

section \<open>Quiet computations of discovery\<close>

context quiet_run
begin

lemma keeps_capture [keeping]: "keeps I (capture_provider_frame E)"
  unfolding capture_provider_frame_def by (intro keeping; simp)

lemma keeps_discovery_failure [keeping]: "keeps I (discovery_failure E q b code msg pv frame)"
  unfolding discovery_failure_def capture_discovery_failure_def Let_def by (intro keeping)

lemma keeps_route_discovery [keeping]: "keeps I (route_discovery E q iid sid z ctx)"
proof (rule keepsI)
  fix s
  assume I: "I s"
  let ?ro = "router_open (ev_ttl E) (ev_clock E (rs_history s) 0) (ev_clock E (rs_history s) 1)
    (ev_clock E (rs_history s) 2) (rs_store s) iid (dq_run_id q) sid (dp_version z) (dp_code z)
    (Some (dp_step_id z)) (dp_observation z) ctx
    (Some ''Discovery is blocked; correct the live state before resuming.'')"
  show "I (snd (route_discovery E q iid sid z ctx s))"
  proof (cases ?ro)
    case (Inl e)
    then show ?thesis using quiet_log[OF _ I] by (simp add: route_discovery_def Let_def)
  next
    case (Inr p)
    obtain routed st where p: "p = (routed, st)" by fastforce
    let ?t = "s\<lparr>rs_history := EvRoute iid (dp_code z) (dp_version z) (Inr routed) # rs_history s\<rparr>"
    from Inr p have "handoff_step (ev_ttl E) (rs_store ?t) st" by (auto intro: hs_open)
    from quiet_store[OF this quiet_log[OF _ I]] show ?thesis
      by (simp add: route_discovery_def Let_def Inr p del: One_nat_def)
  qed
qed

end

section \<open>Invariants of a run\<close>

text \<open>The calls of the model that ask for a proposal.\<close>

fun is_decision :: "model_call \<Rightarrow> bool" where
  "is_decision (Decided ctx r) = True"
| "is_decision _ = False"

locale discovery_run =
  fixes I :: "discovery_state \<Rightarrow> bool" and D :: discovery_env
  assumes run_log: "quiet e \<Longrightarrow> I s \<Longrightarrow>
      I (s\<lparr>dv_run := (dv_run s)\<lparr>rs_history := e # rs_history (dv_run s)\<rparr>\<rparr>)"
    and run_store: "handoff_step (ev_ttl (de_env D)) (rs_store (dv_run s)) st \<Longrightarrow> I s \<Longrightarrow>
      I (s\<lparr>dv_run := (dv_run s)\<lparr>rs_store := st\<rparr>\<rparr>)"
    and run_pauses: "I s \<Longrightarrow> I (s\<lparr>dv_run := (dv_run s)\<lparr>rs_pauses := ps\<rparr>\<rparr>)"
    and run_outputs: "I s \<Longrightarrow> I (s\<lparr>dv_run := (dv_run s)\<lparr>rs_outputs := outs\<rparr>\<rparr>)"
    and run_locals: "I s \<Longrightarrow> I (s\<lparr>dv_locals := l\<rparr>)"
    and run_model: "\<not> is_decision c \<Longrightarrow> I s \<Longrightarrow>
      I (s\<lparr>dv_run := (dv_run s)\<lparr>rs_history := EvModel c # rs_history (dv_run s)\<rparr>\<rparr>)"
begin

lemma quiet_part: "quiet_run (\<lambda>t. I (s\<lparr>dv_run := t\<rparr>)) (de_env D)"
proof
  show "I (s\<lparr>dv_run := t\<lparr>rs_history := e # rs_history t\<rparr>\<rparr>)" if "quiet e" "I (s\<lparr>dv_run := t\<rparr>)" for e t
    using run_log[OF that] by simp
  show "I (s\<lparr>dv_run := t\<lparr>rs_store := st\<rparr>\<rparr>)"
    if "handoff_step (ev_ttl (de_env D)) (rs_store t) st" "I (s\<lparr>dv_run := t\<rparr>)" for t st
    using run_store[of "s\<lparr>dv_run := t\<rparr>" st] that by simp
  show "I (s\<lparr>dv_run := t\<lparr>rs_pauses := ps\<rparr>\<rparr>)" if "I (s\<lparr>dv_run := t\<rparr>)" for t ps
    using run_pauses[OF that, of ps] by simp
qed

lemma on_run_keeps: "(\<And>s. keeps (\<lambda>t. I (s\<lparr>dv_run := t\<rparr>)) m) \<Longrightarrow> keeps I (on_run m)"
proof (rule keepsI)
  fix s
  assume m: "\<And>s. keeps (\<lambda>t. I (s\<lparr>dv_run := t\<rparr>)) m" and I: "I s"
  from keepsD[OF m[of s], of "dv_run s"] I show "I (snd (on_run m s))"
    by (cases "m (dv_run s)") (simp add: on_run_def)
qed

lemmas asking_part = quiet_run.axioms(1) [OF quiet_part]

lemmas quiet_facts =
  asking_run.keeps_ask [OF asking_part] quiet_run.keeps_leases [OF quiet_part]
  asking_run.keeps_ports [OF asking_part] quiet_run.keeps_capture [OF quiet_part]
  quiet_run.keeps_discovery_failure [OF quiet_part] quiet_run.keeps_route_discovery [OF quiet_part]
  asking_run.keeps_frames [OF asking_part]

lemma keeps_on_ports [keeping]:
  "keeps I (on_run (create_lease (de_env D) sid))" "keeps I (on_run (heartbeat (de_env D) sid v))"
  "keeps I (on_run (evaluate (de_env D) inputs c))" "keeps I (on_run (wait_until (de_env D) inputs c ms))"
  "keeps I (on_run (observe (de_env D)))" "keeps I (on_run (resolve (de_env D) t ms))"
  "keeps I (on_run (extract_text (de_env D) target))"
  "keeps I (on_run (record_event (de_env D) kind step_id details))"
  "keeps I (on_run (manifest_key (de_env D)))" "keeps I (on_run (attach_screenshot (de_env D) shot b rt))"
  "keeps I (on_run (capture_provider_frame (de_env D)))"
  "keeps I (on_run (discovery_failure (de_env D) q open_now code msg pv frame))"
  "keeps I (on_run (route_discovery (de_env D) q iid sid z ctx))"
  by (rule on_run_keeps, rule quiet_facts)+

lemma model_part: "(\<And>r. \<not> is_decision (ev r)) \<Longrightarrow> keeps (\<lambda>t. I (s\<lparr>dv_run := t\<rparr>)) (ask f (\<lambda>r. EvModel (ev r)))"
proof (rule keepsI)
  fix t
  assume ev: "\<And>r. \<not> is_decision (ev r)" and I: "I (s\<lparr>dv_run := t\<rparr>)"
  from run_model[OF ev I, of "f t"] show "I (s\<lparr>dv_run := snd (ask f (\<lambda>r. EvModel (ev r)) t)\<rparr>)"
    by (simp add: ask_def)
qed

lemma keeps_on_model [keeping]:
  "(\<And>r. \<not> is_decision (ev r)) \<Longrightarrow> keeps I (on_run (ask f (\<lambda>r. EvModel (ev r))))"
  by (rule on_run_keeps) (rule model_part)

lemma keeps_own [keeping]:
  "keeps I (local_of f)" "keeps I outputs_now" "keeps I (engine_clock E')" "keeps I (attributes_now D')"
  unfolding local_of_def outputs_now_def engine_clock_def attributes_now_def by (intro keeping)+

lemma keeps_set [keeping]: "keeps I (set_locals g)" "keeps I (set_outputs outs)" "keeps I (add_note n)"
  unfolding add_note_def
  by (rule keepsI, simp add: set_locals_def set_outputs_def update_def run_locals run_outputs)+

lemma keeps_journal [keeping]: "keeps I (journal_event D kind details)" "keeps I (fail_run D F code message)"
  unfolding journal_event_def fail_run_def by (intro keeping)+

lemma keeps_renew [keeping]: "keeps I (renew_control D sid)"
  unfolding renew_control_def by (intro keeping)

lemma keeps_plan [keeping]: "keeps I (plan_contract D q policy sid)"
  unfolding plan_contract_def planned_draft_def by (intro keeping; simp)

lemma keeps_wrappers [keeping]:
  "keeps I m \<Longrightarrow> keeps I (not_discovered m)" "keeps I m \<Longrightarrow> keeps I (not_acted m)"
  "keeps I m' \<Longrightarrow> keeps I (finish_run m')"
  unfolding not_discovered_def not_acted_def finish_run_def by (intro keeping; assumption)+

lemma keeps_reject [keeping]: "keeps I (reject_artifact D F e)"
  unfolding reject_artifact_def fail_private_def by (cases e) (auto intro!: keeping)

lemma keeps_complete [keeping]: "keeps I (complete_discovery D F final)"
  unfolding complete_discovery_def by (intro keeping)

lemma keeps_rejoin_checks: "quiet_run J (de_env D) \<Longrightarrow> keeps J (rejoin_checks D F primary s)"
  unfolding rejoin_checks_def
  by (intro keeping asking_run.keeps_ports quiet_run.axioms(1))

lemma keeps_rejoin [keeping]: "keeps I (rejoin_ready D F sn b)"
proof -
  have "keeps I (on_run (catch_c (rejoin_checks D F primary s) surface_or_contract (\<lambda>_. ret False)))"
    for primary s
    by (rule on_run_keeps) (intro keeping keeps_rejoin_checks quiet_part)
  then show ?thesis unfolding rejoin_ready_def Let_def by (intro keeping)
qed

lemma keeps_targets [keeping]:
  "keeps I (stable_target D p b t)" "keeps I (on_run (ask_policy D F ap before target))"
proof -
  have "keeps I (on_run (first_stable D p t))"
    by (rule on_run_keeps)
       (auto simp: first_stable_def capture_locator_def intro!: keeping quiet_facts(2-) model_part split: option.splits)
  moreover have "keeps I (on_run (capture_locator D x))" for x
    unfolding capture_locator_def by (intro keeping) simp
  ultimately show "keeps I (stable_target D p b t)"
    unfolding stable_target_def by (intro keeping)
  show "keeps I (on_run (ask_policy D F ap before target))"
    by (rule on_run_keeps) (auto simp: ask_policy_def intro!: keeping quiet_facts)
qed

lemma keeps_verify [keeping]: "keeps I (verify_condition D F c fo vs)" "keeps I (verify_effect D F p)"
  unfolding verify_effect_def verify_condition_def by (intro keeping)+

lemma keeps_record_action [keeping]: "keeps I (record_action D F p before st r vs)"
  unfolding record_action_def by (intro keeping)

lemma keeps_extracted [keeping]: "keeps I (check_extracted D F p before st r vs)"
  unfolding check_extracted_def by (cases "pp_action p") (auto intro!: keeping)

lemma keeps_ask_model:
  assumes "\<And>s c. I s \<Longrightarrow> I (s\<lparr>dv_run := (dv_run s)\<lparr>rs_history := EvModel c # rs_history (dv_run s)\<rparr>\<rparr>)"
  shows "keeps I (ask_model D F ob)"
proof -
  have "keeps I (on_run (ask f (\<lambda>r. EvModel (ev r))))" for f :: "run_state \<Rightarrow> proposal result" and ev
  proof (rule keepsI)
    fix s assume "I s"
    from assms[OF this, of "ev (f (dv_run s))"] show "I (snd (on_run (ask f (\<lambda>r. EvModel (ev r))) s))"
      by (simp add: on_run_def ask_def)
  qed
  then show ?thesis
    unfolding ask_model_def supply keeps_on_model [keeping del] by (intro keeping)
qed

lemma keeps_progress [keeping]:
  "keeps I (fail_step D F code message)" "keeps I (reject_rejoin D F)"
  "keeps I (complete_proposal D F ob)" "keeps I (reject_action D p err)"
  unfolding fail_step_def reject_rejoin_def complete_proposal_def reject_action_def
  by (intro keeping)+

lemma keeps_recording [keeping]: "keeps I (keep_recording D F r note pending)"
  unfolding keep_recording_def by (intro keeping)

lemma keeps_counts [keeping]: "keeps I (count_repeated_state ob)" "keeps I (count_repeated_action p)"
  unfolding count_repeated_state_def count_repeated_action_def by (intro keeping)+

lemma keeps_pause [keeping]: "keeps I (pause_run D F step left code current)"
  unfolding pause_run_def by (intro keeping)

lemma keeps_handle [keeping]: "keeps I (handle_run_error D q e)"
  unfolding handle_run_error_def Let_def by (cases e) (auto intro!: keeping)

end

section \<open>Actions\<close>

locale discovery_acts = discovery_run +
  fixes F :: discovery_frame
  assumes acts_kept: "keeps I (act_bound D F p before)"
begin

lemma keeps_act [keeping]: "keeps I (act D F p before)"
  unfolding act_def Let_def by (intro keeping acts_kept)

lemma keeps_attempt [keeping]: "keeps I (attempt D F p ob)"
proof -
  have "keeps I (case e of DiscoveryBlockedError code \<Rightarrow> ret (Left (Blocked code ob))
      | SurfaceFailure se \<Rightarrow> bind_c (reject_action D p se) (\<lambda>x. ret (Left x)) | _ \<Rightarrow> raise e)" for e
    by (cases e) (auto intro!: keeping)
  then show ?thesis unfolding attempt_def by (intro keeping)
qed

lemma keeps_act_step [keeping]: "keeps I (act_step D F ob p pending)"
proof -
  have "keeps I (case a of Left x \<Rightarrow> ret x | Performed (NotActed r) \<Rightarrow> ret (Done (NotDiscovered r))
      | Performed (Acted r note) \<Rightarrow> keep_recording D F r note pending)" for a
    by (cases a; (hypsubst, simp only: attempted.case)?)
       (auto intro!: keeping split: acted.splits)
  then show ?thesis unfolding act_step_def by (intro keeping)
qed

lemma keeps_proposal_step [keeping]: "keeps I (proposal_step D F ob x)"
proof -
  have "keeps I (case r of Unready code message \<Rightarrow> fail_step D F code message
      | Ready p pending \<Rightarrow> act_step D F ob p pending)" for r
    by (cases r) (auto intro!: keeping)
  then show ?thesis unfolding proposal_step_def by (cases x) (auto intro!: keeping)
qed

end

text \<open>With the question to the model the invariant goes through the whole loop.\<close>

locale discovery_asks = discovery_acts +
  assumes asks_kept: "keeps I (ask_model D F ob)"
begin

lemma keeps_step [keeping]: "keeps I (discovery_step D F)"
  unfolding discovery_step_def by (intro keeping asks_kept)

lemma keeps_loop [keeping]: "keeps I (discovery_loop D F left step)"
proof (induction left arbitrary: step)
  case 0
  show ?case unfolding discovery_loop.simps by (intro keeping)
next
  case (Suc left)
  have "keeps I (case x of Next \<Rightarrow> discovery_loop D F left (step + 1)
      | Blocked code current \<Rightarrow> pause_run D F step left code current | Done r \<Rightarrow> ret (Finished r))" for x
    by (cases x) (auto intro!: keeping Suc.IH)
  then show ?case unfolding discovery_loop.simps by (intro keeping)
qed

end

text \<open>An invariant that a dispatch cannot break, whatever was decided before it.\<close>

locale discovery_any = discovery_run +
  assumes run_execute: "I s \<Longrightarrow>
      I (s\<lparr>dv_run := (dv_run s)\<lparr>rs_history := EvExecute a t r # rs_history (dv_run s)\<rparr>\<rparr>)"
begin

lemma keeps_perform: "keeps I (on_run (perform_action D F p located t))"
proof -
  have execute: "keeps I (on_run (execute_action (de_env D) inputs a t))" for inputs a
    by (rule keepsI) (simp add: on_run_def execute_action_def ask_def run_execute)
  have keep: "keeps I (on_run (bind_c (extract_text (de_env D) x) (\<lambda>observed.
      then_c (keep_output located out tr observed) (ret None))))" for x out tr
  proof (rule on_run_keeps)
    fix s
    have "keeps (\<lambda>t. I (s\<lparr>dv_run := t\<rparr>)) (update (\<lambda>u. u\<lparr>rs_outputs := g u\<rparr>))" for g
    proof (rule keepsI)
      fix t assume "I (s\<lparr>dv_run := t\<rparr>)"
      from run_outputs[OF this, of "g t"] show "I (s\<lparr>dv_run := snd (update (\<lambda>u. u\<lparr>rs_outputs := g u\<rparr>) t)\<rparr>)"
        by (simp add: update_def)
    qed
    then have "keeps (\<lambda>t. I (s\<lparr>dv_run := t\<rparr>)) (keep_output located out tr observed)" for observed
      unfolding keep_output_def Let_def by (intro keeping)
    then show "keeps (\<lambda>t. I (s\<lparr>dv_run := t\<rparr>)) (bind_c (extract_text (de_env D) x) (\<lambda>observed.
      then_c (keep_output located out tr observed) (ret None)))"
      by (intro keeping quiet_facts)
  qed
  have split: "keeps I (on_run m) \<Longrightarrow> (\<And>x. keeps I (on_run (f x))) \<Longrightarrow> keeps I (on_run (bind_c m f))"
    for m :: "'x run" and f :: "'x \<Rightarrow> 'y run"
  proof (rule keepsI)
    fix s
    assume m: "keeps I (on_run m)" and f: "\<And>x. keeps I (on_run (f x))" and I: "I s"
    obtain r t where run: "m (dv_run s) = (r, t)" by fastforce
    with keepsD[OF m I] have t: "I (s\<lparr>dv_run := t\<rparr>)" by (simp add: on_run_def)
    show "I (snd (on_run (bind_c m f) s))"
    proof (cases r)
      case (Inr x)
      from keepsD[OF f t, of x] show ?thesis
        by (cases "f x t") (simp add: on_run_def bind_c_def run Inr)
    qed (use run t in \<open>simp add: on_run_def bind_c_def\<close>)
  qed
  have done_with: "keeps I (on_run (ret x))" for x :: 'z
    by (rule keepsI) (simp add: on_run_def ret_def)
  show ?thesis
  proof (cases "pp_action p")
    case (ExtractAction out tr)
    show ?thesis
      by (cases t) (simp_all only: perform_action_def ExtractAction action.case option.case keep done_with)
  qed (simp_all only: perform_action_def action.case, (rule split[OF execute done_with])+)
qed

lemma any_acts: "discovery_acts I D F"
proof
  fix p before
  have allowed: "keeps I (act_allowed D F p before located t risk)" for located t risk
    unfolding act_allowed_def by (intro keeping keeps_perform)
  show "keeps I (act_bound D F p before)"
    unfolding act_bound_def act_decided_def by (intro keeping allowed)
qed

end

end
