(* ===== verification/DiscoveryGuarantees.thy ===== *)
theory DiscoveryGuarantees
  imports DiscoveryLogic
begin

text \<open>
  What a discovery promises: every dispatch was cleared by the policy and by the lease right before
  it, the model is asked no more often than the budget says, the session is released, and what is
  published was verified and holds nothing the run was given.
\<close>

section \<open>Stretches\<close>

text \<open>What a stretch of the loop returns: a pause keeps the frame and loses at least one step.\<close>

definition pause_of :: "discovery_frame \<Rightarrow> nat \<Rightarrow> stretch \<Rightarrow> bool" where
  "pause_of F left x = (case x of Paused c \<Rightarrow> dc_frame c = F \<and> dc_left c < left | Finished r \<Rightarrow> True)"

definition returns :: "('a \<Rightarrow> bool) \<Rightarrow> ('s, 'a) comp \<Rightarrow> bool" where
  "returns P m = triple (\<lambda>s. True) m (\<lambda>x s. P x) (\<lambda>e s. True)"

named_theorems returning \<open>what computations return\<close>

lemma returns_bind [returning]: "(\<And>x. returns P (f x)) \<Longrightarrow> returns P (bind_c m f)"
  unfolding returns_def by (rule triple_bind[OF triple_any])

lemma returns_then [returning]: "returns P k \<Longrightarrow> returns P (then_c m k)"
  unfolding then_c_def by (rule returns_bind)

lemma returns_ret [returning]: "P x \<Longrightarrow> returns P (ret x)"
  unfolding returns_def by (rule triple_pre[OF triple_ret])

lemma returns_raise [returning]: "returns P (raise e)"
  unfolding returns_def by (rule triple_pre[OF triple_raise]) simp

lemma returns_if [returning]: "returns P m \<Longrightarrow> returns P n \<Longrightarrow> returns P (if b then m else n)"
  by simp

lemma returns_catch: "returns P m \<Longrightarrow> (\<And>x. returns P (h x)) \<Longrightarrow> returns P (catch_c m sel h)"
  unfolding returns_def
  by (rule triple_catch[where H = "\<lambda>_ _. True"]) (auto elim!: triple_conseq split: option.splits)

lemma returns_finally: "returns P m \<Longrightarrow> returns P (finally_c m k)"
  unfolding returns_def
  by (rule triple_finally[where R = "\<lambda>x _. P x" and F = "\<lambda>_ _. True"]) (auto simp: triple_def split: prod.splits sum.splits)

lemma returnsD: "returns P m \<Longrightarrow> m s = (Inr x, t) \<Longrightarrow> P x"
  unfolding returns_def by (erule tripleD) simp_all

lemma pause_run_frame: "returns (pause_of F (Suc left)) (pause_run D F step left code current)"
  unfolding pause_run_def by (intro returning) (simp add: pause_of_def)

lemma loop_frame: "returns (pause_of F left) (discovery_loop D F left step)"
proof (induction left arbitrary: step)
  case 0
  show ?case unfolding discovery_loop.simps by (intro returning) (simp add: pause_of_def)
next
  case (Suc left)
  have later: "returns (pause_of F (Suc left)) (discovery_loop D F left (step + 1))"
    using Suc.IH[of "step + 1"] unfolding returns_def
    by (rule triple_conseq) (auto simp: pause_of_def split: stretch.splits)
  have "returns (pause_of F (Suc left)) (case x of Next \<Rightarrow> discovery_loop D F left (step + 1)
      | Blocked code current \<Rightarrow> pause_run D F step left code current | Done r \<Rightarrow> ret (Finished r))" for x
  proof (cases x)
    case (Done r)
    show ?thesis unfolding Done progress.case by (intro returning) (simp add: pause_of_def)
  next
    case Next
    show ?thesis unfolding Next progress.case by (rule later)
  qed (simp add: pause_run_frame)
  then show ?case unfolding discovery_loop.simps by (intro returning)
qed

lemma handle_finishes: "returns (\<lambda>x. \<exists>r. x = Finished r) (handle_run_error D q e)"
  unfolding handle_run_error_def Let_def
  by (cases e) (auto intro!: returning)

definition paused_with :: "(discovery_frame \<Rightarrow> bool) \<Rightarrow> nat \<Rightarrow> stretch \<Rightarrow> bool" where
  "paused_with P left x = (case x of Paused c \<Rightarrow> P (dc_frame c) \<and> dc_left c < left | Finished r \<Rightarrow> True)"

lemma returns_mono: "returns P m \<Longrightarrow> (\<And>x. P x \<Longrightarrow> Q x) \<Longrightarrow> returns Q m"
  unfolding returns_def by (erule triple_conseq) simp_all

lemma within_returns:
  assumes "returns (paused_with P left) m"
  shows "returns (paused_with P left) (within_run D q m)"
proof -
  have "returns (paused_with P left) (handle_run_error D q e)" for e
    by (rule returns_mono[OF handle_finishes]) (auto simp: paused_with_def)
  then show ?thesis unfolding within_run_def by (intro returns_finally returns_catch assms)
qed

text \<open>A policy the engine runs under.\<close>

definition granted :: "discovery_env \<Rightarrow> effective_policy \<Rightarrow> bool" where
  "granted D p = (\<exists>q. policy_of_run D q = Inr p)"

lemma begin_returns:
  "returns (paused_with (\<lambda>F. granted D (df_policy F)) (nat (dq_max_steps q))) (begin_run D q started)"
proof (cases "policy_of_run D q")
  case (Inl e)
  then show ?thesis by (auto simp: begin_run_def returns_def triple_def bind_c_def lift_c_def)
next
  case (Inr p)
  have "returns (paused_with (\<lambda>F. granted D (df_policy F)) n) (discovery_loop D F n step)"
    if "df_policy F = p" for F n step
    by (rule returns_mono[OF loop_frame])
       (use that Inr in \<open>auto simp: pause_of_def paused_with_def granted_def split: stretch.splits\<close>)
  then have "returns (paused_with (\<lambda>F. granted D (df_policy F)) (nat (dq_max_steps q)))
      (bind_c (open_discovery D q) (\<lambda>sid.
     bind_c (on_run (create_lease (de_env D) sid)) (\<lambda>lease.
     then_c (set_locals (\<lambda>l. fresh_locals started (lease_version lease)))
     (then_c (journal_event D ''discovery_started'' [])
     (bind_c (plan_contract D q p sid) (\<lambda>draft.
      then_c (set_outputs [])
      (discovery_loop D
        \<lparr>df_request = q, df_policy = p, df_session = sid, df_draft = draft\<rparr>
        (nat (dq_max_steps q)) 1)))))))"
    by (intro returning) simp
  then show ?thesis by (simp add: begin_run_def Inr bind_c_def lift_c_def)
qed

lemma run_returns:
  "returns (paused_with (\<lambda>F. granted D (df_policy F)) (nat (dq_max_steps q))) (run_discovery D q)"
  unfolding run_discovery_def by (intro returning within_returns begin_returns)

lemma continue_returns:
  "granted D (df_policy (dc_frame c)) \<Longrightarrow>
     returns (paused_with (\<lambda>F. granted D (df_policy F)) (dc_left c)) (continue_discovery D c v)"
  unfolding continue_discovery_def after_pause_def Let_def
  by (intro returning within_returns returns_mono[OF loop_frame])
     (auto simp: pause_of_def paused_with_def split: stretch.splits)

section \<open>Clearance\<close>

text \<open>
  The history as an automaton: a decision that allows an action clears it, the renewal of the lease
  after it completes the clearance, and anything but a journal entry takes it away.
\<close>

datatype clearance = Uncleared | Cleared action_context | Renewed action_context

fun clearance_of :: "history \<Rightarrow> clearance" where
  "clearance_of [] = Uncleared"
| "clearance_of (EvPolicy c r # h) =
     (case r of Inl e \<Rightarrow> Uncleared | Inr d \<Rightarrow> if pd_decision d = ALLOW then Cleared c else Uncleared)"
| "clearance_of (EvRecord k i d r # h) = clearance_of h"
| "clearance_of (EvHeartbeat v r # h) =
     (case r of Inl e \<Rightarrow> Uncleared
      | Inr l \<Rightarrow> (case clearance_of h of Cleared c \<Rightarrow> Renewed c | _ \<Rightarrow> Uncleared))"
| "clearance_of (_ # h) = Uncleared"

definition clears :: "effective_policy \<Rightarrow> action \<Rightarrow> resolved_target option \<Rightarrow> action_context \<Rightarrow> bool" where
  "clears p a t c =
     (ax_action_type c = action_kind a \<and> ax_run_mode c = RUN_DISCOVERY \<and>
      ax_registered_risk c = (case t of None \<Rightarrow> None | Some x \<Rightarrow> rt_registered_risk x) \<and> allowed_by p c)"

text \<open>Every dispatch of a history was cleared when it was made, under a policy of the engine.\<close>

fun cleared_history :: "(effective_policy \<Rightarrow> bool) \<Rightarrow> history \<Rightarrow> bool" where
  "cleared_history G [] = True"
| "cleared_history G (EvExecute a t r # h) =
     ((\<exists>p c. G p \<and> clearance_of h = Renewed c \<and> clears p a t c) \<and> cleared_history G h)"
| "cleared_history G (_ # h) = cleared_history G h"

lemma cleared_quiet: "quiet e \<Longrightarrow> cleared_history G (e # h) = cleared_history G h"
  by (cases e) simp_all

definition discovery_safe :: "discovery_env \<Rightarrow> discovery_state \<Rightarrow> bool" where
  "discovery_safe D s =
     (cleared_history (granted D) (rs_history (dv_run s)) \<and>
      (\<forall>c\<in>set (map snd (dv_continuations s)). granted D (df_policy (dc_frame c))))"

interpretation safe: discovery_run "discovery_safe D" D for D
  by unfold_locales (auto simp: discovery_safe_def cleared_quiet)

definition clearing :: "discovery_frame \<Rightarrow> act_proposal \<Rightarrow> resolved_target option \<Rightarrow> (action_context \<Rightarrow> clearance) \<Rightarrow> discovery_state \<Rightarrow> bool" where
  "clearing F p t K s =
     (\<exists>c. clearance_of (rs_history (dv_run s)) = K c \<and> clears (df_policy F) (pp_action p) t c)"

lemma policy_clears:
  "triple (discovery_safe D) (on_run (ask_policy D F p before t))
     (\<lambda>d s. discovery_safe D s \<and> (pd_decision d = ALLOW \<longrightarrow> clearing F p t Cleared s)) (\<lambda>_. discovery_safe D)"
proof -
  have "triple (\<lambda>s. True) (on_run (ask_policy D F p before t))
      (\<lambda>d s. pd_decision d = ALLOW \<longrightarrow> clearing F p t Cleared s) (\<lambda>_ s. True)"
    by (rule tripleI)
       (auto simp: on_run_def ask_policy_def ask_def clearing_def clears_def allowed_by_def discovery_context_def
          intro!: exI split: prod.splits)
  from triple_conj[OF triple_keeps[OF safe.keeps_targets(2)] this] show ?thesis
    by (rule triple_conseq) simp_all
qed

lemma journal_clears: "keeps (clearing F p t K) (journal_event D kind details)"
  by (rule keepsI) (simp add: journal_event_def on_run_def record_event_def ask_def clearing_def)

lemma renew_clears:
  "triple (clearing F p t Cleared) (renew_control D sid) (\<lambda>_. clearing F p t Renewed) (\<lambda>_ s. True)"
  by (rule tripleI)
     (auto simp: renew_control_def local_of_def on_run_def heartbeat_def ask_lease_def Let_def bind_c_def gets_def
        set_locals_def update_def clearing_def split: sum.splits prod.splits)

lemma perform_cleared:
  assumes "granted D (df_policy F)"
  shows "triple (\<lambda>s. discovery_safe D s \<and> clearing F p t Renewed s) (on_run (perform_action D F p located t))
     (\<lambda>_. discovery_safe D) (\<lambda>_. discovery_safe D)"
proof (cases "\<exists>out tr. pp_action p = ExtractAction out tr")
  case True
  then obtain out tr where p: "pp_action p = ExtractAction out tr" by blast
  have keep: "keeps (discovery_safe D) (on_run (bind_c (extract_text (de_env D) x) (\<lambda>observed.
      then_c (keep_output located out tr observed) (ret None))))" for x
  proof (rule safe.on_run_keeps)
    fix s
    have "keeps (\<lambda>t. discovery_safe D (s\<lparr>dv_run := t\<rparr>)) (keep_output located out tr observed)" for observed
      unfolding keep_output_def Let_def
      by (intro keeping; rule keepsI) (simp add: update_def discovery_safe_def)
    then show "keeps (\<lambda>t. discovery_safe D (s\<lparr>dv_run := t\<rparr>)) (bind_c (extract_text (de_env D) x) (\<lambda>observed.
      then_c (keep_output located out tr observed) (ret None)))"
      by (intro keeping safe.quiet_facts)
  qed
  have "keeps (discovery_safe D) (on_run (perform_action D F p located t))"
  proof (cases t)
    case None
    show ?thesis unfolding perform_action_def p None
      by (rule keepsI) (simp add: on_run_def ret_def discovery_safe_def)
  qed (use keep in \<open>simp add: perform_action_def p\<close>)
  from triple_keeps[OF this] show ?thesis by (rule triple_pre) simp
next
  case False
  then have perform: "perform_action D F p located t =
      bind_c (execute_action (de_env D) (dq_inputs (df_request F)) (pp_action p) t) (\<lambda>receipt.
          ret (if ar_status receipt = FAILED
               then Some (if truthy (ar_error_code receipt) then the (ar_error_code receipt) else ''action_failed'',
                          ''The discovery action did not complete.'')
               else None))"
    unfolding perform_action_def by (cases "pp_action p") simp_all
  have kept: "discovery_safe D (s\<lparr>dv_run := (dv_run s)\<lparr>rs_history := EvExecute (pp_action p) t r # rs_history (dv_run s)\<rparr>\<rparr>)"
    if "discovery_safe D s" "clearing F p t Renewed s" for s r
    using that assms by (auto simp: discovery_safe_def clearing_def)
  show ?thesis unfolding perform
    by (rule tripleI) (auto simp: on_run_def execute_action_def ask_def bind_c_def ret_def kept split: sum.splits)
qed

lemma allowed_kept:
  assumes "granted D (df_policy F)"
  shows "triple (\<lambda>s. discovery_safe D s \<and> clearing F p t Cleared s) (act_allowed D F p before located t risk)
     (\<lambda>_. discovery_safe D) (\<lambda>_. discovery_safe D)"
proof -
  have renew: "triple (\<lambda>s. discovery_safe D s \<and> clearing F p t Cleared s) (renew_control D (df_session F))
      (\<lambda>_ s. discovery_safe D s \<and> clearing F p t Renewed s) (\<lambda>_. discovery_safe D)"
    by (rule triple_conseq[OF triple_conj[OF triple_keeps[OF safe.keeps_renew] renew_clears]]) simp_all
  have logged: "triple (\<lambda>s. discovery_safe D s \<and> clearing F p t Renewed s) (journal_event D kind details)
      (\<lambda>_ s. discovery_safe D s \<and> clearing F p t Renewed s) (\<lambda>_. discovery_safe D)" for kind details
  proof -
    have "keeps (\<lambda>s. discovery_safe D s \<and> clearing F p t Renewed s) (journal_event D kind details)"
      by (rule keepsI) (use keepsD[OF safe.keeps_journal(1)] keepsD[OF journal_clears] in blast)
    from triple_keeps[OF this] show ?thesis by (rule triple_conseq) simp_all
  qed
  have rest: "keeps (discovery_safe D) (case failed of
        Some (code, message) \<Rightarrow> not_acted (fail_run D F code message)
      | None \<Rightarrow>
          then_c (renew_control D (df_session F))
          (bind_c (verify_effect D F p) (\<lambda>r.
           case r of
             Inl (code, message) \<Rightarrow> not_acted (fail_run D F code message)
           | Inr verified \<Rightarrow> check_extracted D F p before located risk verified)))" for failed
    by (intro keeping safe.keeps_renew safe.keeps_wrappers safe.keeps_journal safe.keeps_verify safe.keeps_extracted)
  show ?thesis unfolding act_allowed_def
    by (rule triple_then[OF renew triple_then[OF logged triple_bind[OF perform_cleared[OF assms]
      triple_keeps[OF rest]]]])
qed

lemma bound_kept:
  assumes "granted D (df_policy F)"
  shows "keeps (discovery_safe D) (act_bound D F p before)"
proof -
  let ?J = "\<lambda>d t s. discovery_safe D s \<and> (pd_decision d = ALLOW \<longrightarrow> clearing F p t Cleared s)"
  have decided: "triple (?J d t) (act_decided D F p before located t d) (\<lambda>_. discovery_safe D) (\<lambda>_. discovery_safe D)"
    for d located t
  proof (cases "pd_decision d")
    case ALLOW
    show ?thesis unfolding act_decided_def ALLOW decision.case
      by (rule triple_pre[OF allowed_kept[OF assms]]) (simp add: ALLOW)
  next
    case DENY
    have "keeps (discovery_safe D) (act_decided D F p before located t d)"
      unfolding act_decided_def DENY decision.case
      by (intro safe.keeps_wrappers safe.keeps_journal)
    from triple_keeps[OF this] show ?thesis by (rule triple_pre) simp
  next
    case REQUIRE_HUMAN_APPROVAL
    have "keeps (discovery_safe D) (act_decided D F p before located t d)"
      unfolding act_decided_def REQUIRE_HUMAN_APPROVAL decision.case by (intro keeping)
    from triple_keeps[OF this] show ?thesis by (rule triple_pre) simp
  qed
  have noted: "triple (?J d t) (journal_event D kind details) (\<lambda>_. ?J d t) (\<lambda>_. discovery_safe D)" for d t kind details
  proof -
    have "keeps (?J d t) (journal_event D kind details)"
      by (rule keepsI) (use keepsD[OF safe.keeps_journal(1)] keepsD[OF journal_clears] in blast)
    from triple_keeps[OF this] show ?thesis by (rule triple_conseq) simp_all
  qed
  have policy: "keeps (discovery_safe D) (bind_c (on_run (ask_policy D F p before target)) (\<lambda>d.
     then_c (journal_event D ''policy_evaluated''
               [(''decision'', JStr (policy_word (pd_decision d))), (''reason'', JStr (pd_reason_code d))])
     (act_decided D F p before located target d)))" for target located
    unfolding keeps_def by (rule triple_bind[OF policy_clears triple_then[OF noted decided]])
  show ?thesis unfolding act_bound_def
    by (intro keeping policy safe.keeps_targets safe.keeps_on_ports)
qed

text \<open>The locale of actions, under a policy of the engine.\<close>

lemma safe_acts: "granted D (df_policy F) \<Longrightarrow> discovery_asks (discovery_safe D) D F"
proof -
  assume "granted D (df_policy F)"
  then have bound: "keeps (discovery_safe D) (act_bound D F p before)" for p before by (rule bound_kept)
  show ?thesis
    by unfold_locales (rule bound, rule safe.keeps_ask_model, simp add: discovery_safe_def)
qed

section \<open>The operations of the engine\<close>

lemma open_safe: "keeps (discovery_safe D) (open_discovery D q)" "keeps (discovery_safe D) (close_now D)"
  "keeps (discovery_safe D) (restore_run c)"
proof -
  show "keeps (discovery_safe D) (open_discovery D q)"
    by (rule keepsI)
       (auto simp: open_discovery_def on_run_def ask_def bind_c_def then_c_def update_def ret_def discovery_safe_def
          split: sum.splits)
  show "keeps (discovery_safe D) (close_now D)"
    by (rule keepsI) (simp add: close_now_def close_session_def on_run_def ask_def ret_def discovery_safe_def)
  show "keeps (discovery_safe D) (restore_run c)"
    by (rule keepsI) (simp add: restore_run_def update_def discovery_safe_def)
qed

lemma within_safe: "keeps (discovery_safe D) m \<Longrightarrow> keeps (discovery_safe D) (within_run D q m)"
proof -
  assume m: "keeps (discovery_safe D) m"
  have "keeps (discovery_safe D) (case r of Some (Paused c) \<Rightarrow> ret () | _ \<Rightarrow> close_now D)" for r
    by (auto intro!: keeping open_safe split: option.splits stretch.splits)
  then show ?thesis unfolding within_run_def by (intro keeps_finally keeps_catch m safe.keeps_handle)
qed

lemma begin_safe: "keeps (discovery_safe D) (begin_run D q started)"
proof (cases "policy_of_run D q")
  case (Inl e)
  then show ?thesis by (auto simp: begin_run_def bind_c_def lift_c_def intro!: keepsI)
next
  case (Inr p)
  have "keeps (discovery_safe D) (discovery_loop D F n step)" if "df_policy F = p" for F n step
    by (rule discovery_asks.keeps_loop[OF safe_acts]) (use Inr that in \<open>auto simp: granted_def\<close>)
  then have "keeps (discovery_safe D) (bind_c (open_discovery D q) (\<lambda>sid.
     bind_c (on_run (create_lease (de_env D) sid)) (\<lambda>lease.
     then_c (set_locals (\<lambda>l. fresh_locals started (lease_version lease)))
     (then_c (journal_event D ''discovery_started'' [])
     (bind_c (plan_contract D q p sid) (\<lambda>draft.
      then_c (set_outputs [])
      (discovery_loop D
        \<lparr>df_request = q, df_policy = p, df_session = sid, df_draft = draft\<rparr>
        (nat (dq_max_steps q)) 1)))))))"
    by (intro keeping open_safe safe.keeps_on_ports safe.keeps_set safe.keeps_journal safe.keeps_plan) simp
  then show ?thesis by (simp add: begin_run_def Inr keeps_def triple_def bind_c_def lift_c_def)
qed

lemma run_safe: "keeps (discovery_safe D) (run_discovery D q)"
proof -
  have "keeps (discovery_safe D) (update (\<lambda>s. s\<lparr>dv_run := (dv_run s)\<lparr>rs_session := None\<rparr>\<rparr>))"
    by (rule keepsI) (simp add: update_def discovery_safe_def)
  then show ?thesis unfolding run_discovery_def by (intro keeping safe.keeps_own within_safe begin_safe)
qed

lemma continue_safe:
  "granted D (df_policy (dc_frame c)) \<Longrightarrow> keeps (discovery_safe D) (continue_discovery D c v)"
  unfolding continue_discovery_def after_pause_def Let_def
  by (intro keeping open_safe within_safe safe.keeps_own safe.keeps_set safe.keeps_renew
      discovery_asks.keeps_loop[OF safe_acts])

lemma abandon_safe: "keeps (discovery_safe D) (abandon_run D c)"
proof -
  have "keeps (discovery_safe D) (on_run (close_session (de_env D)))"
    by (rule keepsI) (simp add: close_session_def on_run_def ask_def discovery_safe_def)
  then show ?thesis unfolding abandon_run_def by (intro keeping open_safe)
qed

lemma hand_over_safe:
  assumes "granted D (df_policy (dc_frame c))"
  shows "keeps (discovery_safe D) (hand_over D c)"
proof -
  have "keeps (discovery_safe D) (update (\<lambda>s. s\<lparr>dv_continuations := dict_set iid c (dv_continuations s)\<rparr>))" for iid
  proof (rule keepsI)
    fix s assume s: "discovery_safe D s"
    have "set (map snd (AList.update iid c d)) \<subseteq> insert c (set (map snd d))" for d :: "discovery_continuation dict"
      by (induction d) auto
    with s assms show "discovery_safe D (snd (update (\<lambda>s. s\<lparr>dv_continuations := dict_set iid c (dv_continuations s)\<rparr>) s))"
      by (fastforce simp: update_def discovery_safe_def)
  qed
  then show ?thesis unfolding hand_over_def Let_def by (intro keeping safe.keeps_on_ports)
qed

lemma advance_safe:
  assumes "keeps (discovery_safe D) m" "returns (paused_with (\<lambda>F. granted D (df_policy F)) n) m"
  shows "keeps (discovery_safe D) (advance D m)"
proof -
  have m: "triple (discovery_safe D) m (\<lambda>x s. discovery_safe D s \<and> paused_with (\<lambda>F. granted D (df_policy F)) n x)
      (\<lambda>_. discovery_safe D)"
    by (rule triple_conseq[OF triple_conj[OF triple_keeps[OF assms(1)] assms(2)[unfolded returns_def]]]) simp_all
  have close: "keeps (discovery_safe D) (or_close (abandon_run D c) k)" if "keeps (discovery_safe D) k"
    for c and k :: "discovery_result disc"
    unfolding or_close_def by (intro keeping that abandon_safe)
  have stop: "keeps (discovery_safe D) (finally_c
           (not_discovered (on_run (discovery_failure (de_env D) q True code ''Discovery is blocked.'' None None)))
           (\<lambda>r. abandon_run D c))" for q code c
    by (intro keeping safe.keeps_wrappers safe.keeps_on_ports abandon_safe)
  show ?thesis unfolding advance_def keeps_def
  proof (rule triple_bind[OF m])
    fix x
    show "triple (\<lambda>s. discovery_safe D s \<and> paused_with (\<lambda>F. granted D (df_policy F)) n x)
       (case x of Finished r \<Rightarrow> ret r
        | Paused c \<Rightarrow>
            if \<not> de_routed D
            then finally_c
                  (not_discovered (on_run (discovery_failure (de_env D) (df_request (dc_frame c)) True
                     (dp_code (dc_pause c)) ''Discovery is blocked.'' None None)))
                  (\<lambda>r. abandon_run D c)
            else or_close (abandon_run D c) (hand_over D c))
       (\<lambda>_. discovery_safe D) (\<lambda>_. discovery_safe D)"
    proof (cases x)
      case (Finished r)
      show ?thesis unfolding Finished stretch.case by (rule triple_pre[OF triple_keeps[OF keeps_ret]]) simp
    next
      case (Paused c)
      show ?thesis
      proof (cases "granted D (df_policy (dc_frame c))")
        case True
        then show ?thesis unfolding Paused stretch.case
          by (intro triple_pre[OF triple_keeps[OF keeps_if[OF stop close[OF hand_over_safe]]]]) simp_all
      next
        case False
        then show ?thesis by (auto simp: Paused paused_with_def triple_def)
      qed
    qed
  qed
qed

lemma pop_safe:
  "triple (discovery_safe D) (pop_continuation iid)
     (\<lambda>c s. discovery_safe D s \<and> granted D (df_policy (dc_frame c))) (\<lambda>_. discovery_safe D)"
proof -
  have sub: "set (AList.delete iid d) \<subseteq> set d" for d :: "discovery_continuation dict"
    by (auto simp: AList.delete_eq)
  show ?thesis
  proof (rule tripleI)
    fix s c s'
    assume s: "discovery_safe D s" and run: "pop_continuation iid s = (Inr c, s')"
    then have c: "dict_get (dv_continuations s) iid = Some c"
        and s': "s' = s\<lparr>dv_continuations := AList.delete iid (dv_continuations s)\<rparr>"
      by (auto simp: pop_continuation_def continuation_of_def comp_defs split: option.splits)
    from map_of_SomeD[OF c] have "c \<in> set (map snd (dv_continuations s))" by force
    with s s' sub[of "dv_continuations s"] show "discovery_safe D s' \<and> granted D (df_policy (dc_frame c))"
      by (auto simp: discovery_safe_def)
  next
    fix s e s'
    assume "discovery_safe D s" "pop_continuation iid s = (Inl e, s')"
    then show "discovery_safe D s'"
      by (auto simp: pop_continuation_def continuation_of_def comp_defs split: option.splits)
  qed
qed

section \<open>Any sequence of operations\<close>

datatype discovery_op = Discover discovery_request | ValidateResume string | Resume string int | Cancel string

definition discovery_op_step :: "discovery_env \<Rightarrow> discovery_op \<Rightarrow> discovery_state \<Rightarrow> discovery_state" where
  "discovery_op_step D operation s =
     (case operation of
        Discover q \<Rightarrow> snd (execute_discovery D q s)
      | ValidateResume iid \<Rightarrow> snd (validate_discovery_resume D iid s)
      | Resume iid v \<Rightarrow> snd (resume_discovery D iid v s)
      | Cancel iid \<Rightarrow> snd (cancel_discovery D iid s))"

lemma keeps_continuation_of: "keeps I (continuation_of iid)"
  unfolding continuation_of_def by (intro keeping)

lemma op_safe: "discovery_safe D s \<Longrightarrow> discovery_safe D (discovery_op_step D operation s)"
proof -
  assume s: "discovery_safe D s"
  have execute: "keeps (discovery_safe D) (execute_discovery D q)" for q
    unfolding execute_discovery_def by (rule advance_safe[OF run_safe run_returns])
  have validate: "keeps (discovery_safe D) (validate_discovery_resume D iid)" for iid
    unfolding validate_discovery_resume_def Let_def
    by (intro keeping keeps_continuation_of safe.keeps_on_ports safe.keeps_journal)
  have resume: "keeps (discovery_safe D) (resume_discovery D iid v)" for iid v
    unfolding resume_discovery_def keeps_def
  proof (rule triple_bind[OF pop_safe])
    fix c
    show "triple (\<lambda>s. discovery_safe D s \<and> granted D (df_policy (dc_frame c)))
        (advance D (continue_discovery D c v)) (\<lambda>_. discovery_safe D) (\<lambda>_. discovery_safe D)"
    proof (cases "granted D (df_policy (dc_frame c))")
      case True
      from triple_keeps[OF advance_safe[OF continue_safe continue_returns, OF True True]]
      show ?thesis by (rule triple_pre) simp
    qed (simp add: triple_def)
  qed
  have cancel: "keeps (discovery_safe D) (cancel_discovery D iid)" for iid
  proof -
    have "keeps (discovery_safe D) (finally_c
       (not_discovered (on_run (discovery_failure (de_env D) (df_request (dc_frame c)) True
          ''discovery_terminated'' ''Discovery was terminated while paused.'' None None)))
       (\<lambda>r. abandon_run D c))" for c
      by (intro keeping safe.keeps_wrappers safe.keeps_on_ports abandon_safe)
    then have "triple (\<lambda>s. discovery_safe D s \<and> granted D (df_policy (dc_frame c))) (finally_c
       (not_discovered (on_run (discovery_failure (de_env D) (df_request (dc_frame c)) True
          ''discovery_terminated'' ''Discovery was terminated while paused.'' None None)))
       (\<lambda>r. abandon_run D c)) (\<lambda>_. discovery_safe D) (\<lambda>_. discovery_safe D)" for c
      by (rule triple_pre[OF triple_keeps]) simp
    then show ?thesis unfolding cancel_discovery_def keeps_def by (rule triple_bind[OF pop_safe])
  qed
  show ?thesis
    using keepsD[OF execute s] keepsD[OF validate s] keepsD[OF resume s] keepsD[OF cancel s]
    by (cases operation) (simp_all add: discovery_op_step_def)
qed

text \<open>The engine as it is constructed: no continuation held, nothing done yet.\<close>

definition fresh_engine :: "discovery_state \<Rightarrow> discovery_state" where
  "fresh_engine s = s\<lparr>dv_run := (dv_run s)\<lparr>rs_history := []\<rparr>, dv_continuations := []\<rparr>"

text \<open>
  C3. Discovery dispatches only what was cleared. Whatever runs, resumption checks, resumptions and
  cancellations a fresh engine is asked for, in any order, and whatever the surface, the model and the
  journal answer: every action handed to the surface was preceded, with nothing but journal entries
  in between, by a renewal of the lease and by a decision that allowed that kind of action, as
  automation in discovery, at the risk registered for that very target, under a policy the engine
  resolved for a request.
\<close>

theorem discovery_dispatch_is_cleared:
  "cleared_history (granted D)
     (rs_history (dv_run (fold (discovery_op_step D) operations (fresh_engine s))))"
proof -
  have "discovery_safe D (fresh_engine s)" by (simp add: discovery_safe_def fresh_engine_def)
  moreover have "discovery_safe D (fold (discovery_op_step D) operations u)" if "discovery_safe D u" for u
    using that by (induction operations arbitrary: u) (simp_all add: op_safe)
  ultimately show ?thesis by (simp add: discovery_safe_def)
qed

end
