(* ===== verification/PrivacyGuarantees.thy ===== *)
theory PrivacyGuarantees
  imports DiscoveryPrivacy ArtifactSample
begin

text \<open>
  What the leak guard promises of an artifact it lets pass, and that the redaction of descriptions
  changes nothing a replay executes.
\<close>

section \<open>The texts of an artifact\<close>

text \<open>Every text of a tree, keys of dictionaries included, with whether it stands in a reference field.\<close>

fun labelled_texts :: "bool \<Rightarrow> tree \<Rightarrow> (bool \<times> string) list" where
  "labelled_texts ref (TStr s) = [(ref, s)]"
| "labelled_texts ref (TSeq ts) = concat (map (labelled_texts ref) ts)"
| "labelled_texts ref (TSet ts) = concat (map (labelled_texts ref) ts)"
| "labelled_texts ref (TDict kts) = concat (map (\<lambda>(k, t). (ref, k) # labelled_texts False t) kts)"
| "labelled_texts ref (TModel cls kts) =
     concat (map (\<lambda>(n, t). labelled_texts (is_reference cls n) t) kts)"
| "labelled_texts ref _ = []"

definition published_texts :: "capability_artifact \<Rightarrow> (bool \<times> string) list" where
  "published_texts a =
     concat (map (\<lambda>(n, t). labelled_texts (is_reference ''CapabilityArtifact'' n) t)
       (filter (\<lambda>(n, t). n \<noteq> ''provenance'') (artifact_fields a)))"

section \<open>The walk misses nothing\<close>

lemma child_path: "path @ CHR ''.'' # rest \<noteq> ''artifact''" "path @ CHR ''['' # rest \<noteq> ''artifact''"
proof -
  have "CHR ''.'' \<notin> set ''artifact''" "CHR ''['' \<notin> set ''artifact''" by simp_all
  then show "path @ CHR ''.'' # rest \<noteq> ''artifact''" "path @ CHR ''['' # rest \<noteq> ''artifact''"
    by (metis in_set_conv_decomp)+
qed

lemma no_match_texts:
  "match_location T ser src path ref t = None \<Longrightarrow> path \<noteq> ''artifact'' \<Longrightarrow> (r, s) \<in> set (labelled_texts ref t) \<Longrightarrow>
     \<not> matches_literal (encoded s) ser src r"
proof (induction T ser src path ref t rule: match_location.induct)
  case (1 T ser src path ref cls kts)
  from "1.prems"(3) obtain n t where nt: "(n, t) \<in> set kts" "(r, s) \<in> set (labelled_texts (is_reference cls n) t)"
    by auto
  from "1.prems"(1) nt(1) have
    "(case (n, t) of (name, t) \<Rightarrow>
       if path = ''artifact'' \<and> name = ''provenance'' then None
       else if src = INVOCATION \<and> contains_str ser (py_casefold name)
       then Some (path @ ''.'' @ name @ '':key'')
       else match_location T ser src (path @ ''.'' @ name) (is_reference cls name) t) = None"
    unfolding match_location.simps first_some_None by (rule bspec)
  with "1.prems"(2) have found: "match_location T ser src (path @ ''.'' @ n) (is_reference cls n) t = None"
    and key: "\<not> (src = INVOCATION \<and> contains_str ser (py_casefold n))"
    by (auto split: if_splits)
  have "path @ ''.'' @ n \<noteq> ''artifact''" using child_path(1) by simp
  from "1.IH"[OF nt(1) refl _ key found this nt(2)] "1.prems"(2) show ?case by blast
next
  case (2 T ser src path ref entries)
  from "2.prems"(3) obtain k t where kt: "(k, t) \<in> set entries" "(r, s) = (ref, k) \<or> (r, s) \<in> set (labelled_texts False t)"
    by auto
  from "2.prems"(1) kt(1) have
    "(case (k, t) of (key, t) \<Rightarrow>
       if matches_literal (encoded key) ser src ref then Some (path @ ''.*:key'')
       else match_location T ser src (path @ ''.*'') False t) = None"
    unfolding match_location.simps first_some_None by (rule bspec)
  then have found: "match_location T ser src (path @ ''.*'') False t = None"
    and key: "\<not> matches_literal (encoded k) ser src ref"
    by (auto split: if_splits)
  have "path @ ''.*'' \<noteq> ''artifact''" using child_path(1) by simp
  with "2.IH"[OF kt(1) refl key found] kt(2) key show ?case by blast
next
  case (3 T ser src path ref ts)
  from "3.prems"(3) obtain t where t: "t \<in> set ts" "(r, s) \<in> set (labelled_texts ref t)" by auto
  then obtain i where i: "(i, t) \<in> set (enumerate 0 ts)" by (metis in_set_conv_nth add_0 nth_mem nth_enumerate_eq length_enumerate)
  from "3.prems"(1) i have
    "(case (i, t) of (i, t) \<Rightarrow> match_location T ser src (path @ ''['' @ show_nat i @ '']'') ref t) = None"
    unfolding match_location.simps first_some_None by (rule bspec)
  moreover have "path @ ''['' @ show_nat i @ '']'' \<noteq> ''artifact''" using child_path(2) by simp
  ultimately show ?case using "3.IH"[OF i refl] t(2) by simp
next
  case (4 T ser src path ref ts)
  from "4.prems"(3) obtain t where t: "t \<in> set ts" "(r, s) \<in> set (labelled_texts ref t)" by auto
  then obtain i where i: "(i, t) \<in> set (enumerate 0 ts)" by (metis in_set_conv_nth add_0 nth_mem nth_enumerate_eq length_enumerate)
  from "4.prems"(1) i have
    "(case (i, t) of (i, t) \<Rightarrow> match_location T ser src (path @ ''['' @ show_nat i @ '']'') ref t) = None"
    unfolding match_location.simps first_some_None by (rule bspec)
  moreover have "path @ ''['' @ show_nat i @ '']'' \<noteq> ''artifact''" using child_path(2) by simp
  ultimately show ?case using "4.IH"[OF i refl] t(2) by simp
qed (auto split: if_splits)

lemma no_match_published:
  assumes "match_location T ser src ''artifact'' False (artifact_tree a) = None" "(r, s) \<in> set (published_texts a)"
  shows "\<not> matches_literal (encoded s) ser src r"
proof -
  from assms(2) obtain n t where nt: "(n, t) \<in> set (artifact_fields a)" "n \<noteq> ''provenance''"
      "(r, s) \<in> set (labelled_texts (is_reference ''CapabilityArtifact'' n) t)"
    by (auto simp: published_texts_def)
  from assms(1) nt(1) have
    "(case (n, t) of (name, t) \<Rightarrow>
       if ''artifact'' = ''artifact'' \<and> name = ''provenance'' then None
       else if src = INVOCATION \<and> contains_str ser (py_casefold name)
       then Some (''artifact'' @ ''.'' @ name @ '':key'')
       else match_location T ser src (''artifact'' @ ''.'' @ name) (is_reference ''CapabilityArtifact'' name) t) = None"
    unfolding artifact_tree_def match_location.simps first_some_None by (rule bspec)
  with nt(2) have "match_location T ser src (''artifact'' @ ''.'' @ n) (is_reference ''CapabilityArtifact'' n) t = None"
    by (auto split: if_splits)
  from no_match_texts[OF this _ nt(3)] show ?thesis by simp
qed

section \<open>Escaping\<close>

lemma letters_plain: "c \<in> set upper_letters \<Longrightarrow> escape_char c = [c]" "c \<in> set lower_letters \<Longrightarrow> escape_char c = [c]"
  unfolding upper_letters_def lower_letters_def by (auto simp: escape_char_def)

lemma lower_other: "c \<notin> set upper_letters \<Longrightarrow> ascii_lower_char c = c"
proof -
  assume c: "c \<notin> set upper_letters"
  have "length upper_letters = length lower_letters" by (simp add: upper_letters_def lower_letters_def)
  with c have "map_of (zip upper_letters lower_letters) c = None" by (simp add: map_of_zip_is_None)
  then show ?thesis by (simp add: ascii_lower_char_def)
qed

lemma lower_upper: "c \<in> set upper_letters \<Longrightarrow> ascii_lower_char c \<in> set lower_letters"
proof -
  assume c: "c \<in> set upper_letters"
  have "length upper_letters = length lower_letters" by (simp add: upper_letters_def lower_letters_def)
  with c obtain d where d: "map_of (zip upper_letters lower_letters) c = Some d"
    by (metis map_of_zip_is_Some)
  then have "d \<in> set lower_letters" using map_of_SomeD set_zip_rightD by metis
  with d show ?thesis by (simp add: ascii_lower_char_def)
qed

lemma escape_lower: "map ascii_lower_char (escape_char c) = escape_char (ascii_lower_char c)"
proof (cases "c \<in> set upper_letters")
  case True
  then show ?thesis using letters_plain lower_upper[OF True] by simp
next
  case False
  have hex: "hex_digit n \<in> set ''0123456789abcdef''" for n
  proof -
    have "nat (n mod 16) < length ''0123456789abcdef''" by simp
    from nth_mem[OF this] show ?thesis unfolding hex_digit_def .
  qed
  have digit: "hex_digit n \<notin> set upper_letters" for n
    using hex[of n] unfolding upper_letters_def by auto
  have "\<forall>x\<in>set (escape_char c). x = c \<or> x \<notin> set upper_letters"
    unfolding escape_char_def using digit by (auto simp: upper_letters_def)
  with False have "\<forall>x\<in>set (escape_char c). ascii_lower_char x = x" by (auto intro: lower_other)
  then have "map ascii_lower_char (escape_char c) = escape_char c" by (simp add: map_idI)
  with False show ?thesis by (simp add: lower_other)
qed

lemma encoded_fold: "encoded s = json_escape (py_casefold s)"
  by (induction s) (simp_all add: encoded_def json_escape_def py_lower_def escape_lower)

lemma contains_append: "contains_str v s \<Longrightarrow> contains_str v (a @ s)"
  by (induction a) auto

lemma contains_here: "contains_str v (v @ b)"
proof (cases "v @ b")
  case (Cons x xs)
  have "starts_with v (x # xs)" unfolding starts_with_iff using Cons by metis
  then show ?thesis unfolding Cons by simp
qed simp

lemma contains_split: "contains_str v s \<Longrightarrow> \<exists>a b. s = a @ v @ b"
proof (induction s)
  case (Cons c cs)
  show ?case
  proof (cases "starts_with v (c # cs)")
    case True
    then show ?thesis by (metis append_Nil starts_with_iff)
  next
    case False
    with Cons obtain a b where "cs = a @ v @ b" by auto
    then have "c # cs = (c # a) @ v @ b" by simp
    then show ?thesis by blast
  qed
qed simp

lemma encoded_contains:
  assumes "contains_str (py_casefold v) (py_casefold s)"
  shows "contains_str (encoded v) (encoded s)"
proof -
  from contains_split[OF assms] obtain a b where "py_casefold s = a @ py_casefold v @ b" by blast
  then have "encoded s = json_escape a @ encoded v @ json_escape b"
    by (simp add: encoded_fold json_escape_def)
  then show ?thesis by (simp add: contains_append contains_here)
qed

definition sample_texts :: json_texts where
  "sample_texts = \<lparr>jt_float = (\<lambda>r. ''0.5''), jt_model_float = (\<lambda>r. ''0.5''), jt_model_time = (\<lambda>t. ''now'')\<rparr>"

definition sample_redactor :: redactor where
  "sample_redactor = \<lparr>rd_secrets = [], rd_strict = False, rd_pseudonym = (\<lambda>f v. ''tok'')\<rparr>"

text \<open>
  A text with neither of the marks the personal patterns look for matches none of them; and the dump
  of a tree has only the marks of its texts.
\<close>

definition unmarked :: "string \<Rightarrow> bool" where
  "unmarked s = list_all (\<lambda>c. c \<noteq> CHR ''@'' \<and> c \<noteq> CHR ''-'') s"

fun unmarked_tree :: "json_texts \<Rightarrow> tree \<Rightarrow> bool" where
  "unmarked_tree T TNull = True"
| "unmarked_tree T (TBool b) = True"
| "unmarked_tree T (TInt i) = unmarked (show_int i)"
| "unmarked_tree T (TFloat r) = unmarked (jt_model_float T r)"
| "unmarked_tree T (TStr s) = unmarked s"
| "unmarked_tree T (TTime t) = unmarked (jt_model_time T t)"
| "unmarked_tree T (TSeq ts) = list_all (unmarked_tree T) ts"
| "unmarked_tree T (TSet ts) = list_all (unmarked_tree T) ts"
| "unmarked_tree T (TDict kts) = list_all (\<lambda>(k, t). unmarked k \<and> unmarked_tree T t) kts"
| "unmarked_tree T (TModel c kts) = list_all (\<lambda>(k, t). unmarked k \<and> unmarked_tree T t) kts"

lemma unmarked_append [simp]: "unmarked (a @ b) = (unmarked a \<and> unmarked b)" "unmarked []"
  "unmarked (c # s) = (c \<noteq> CHR ''@'' \<and> c \<noteq> CHR ''-'' \<and> unmarked s)"
  by (auto simp: unmarked_def)

lemma unmarked_escape: "unmarked s \<Longrightarrow> unmarked (json_escape s)"
proof -
  have hex: "hex_digit n \<noteq> CHR ''@'' \<and> hex_digit n \<noteq> CHR ''-''" for n
  proof -
    have "nat (n mod 16) < length ''0123456789abcdef''" by simp
    from nth_mem[OF this] show ?thesis unfolding hex_digit_def by auto
  qed
  have "c \<noteq> CHR ''@'' \<Longrightarrow> c \<noteq> CHR ''-'' \<Longrightarrow> unmarked (escape_char c)" for c
    unfolding escape_char_def using hex by auto
  then show "unmarked s \<Longrightarrow> unmarked (json_escape s)"
    by (induction s) (auto simp: json_escape_def)
qed

lemma unmarked_join_with: "unmarked sep \<Longrightarrow> (\<And>x. x \<in> set xs \<Longrightarrow> unmarked x) \<Longrightarrow> unmarked (join_with sep xs)"
  by (induction sep xs rule: join_with.induct) simp_all

lemma unmarked_join: "(\<And>x. x \<in> set xs \<Longrightarrow> unmarked x) \<Longrightarrow> unmarked (join_with '','' xs)"
  by (rule unmarked_join_with) simp_all

lemma unmarked_dump: "unmarked_tree T t \<Longrightarrow> unmarked (dump_json T t)"
proof (induction T t rule: dump_json.induct)
  case (9 T kts)
  then have "unmarked (quoted k @ '':'' @ dump_json T t)" if "(k, t) \<in> set kts" for k t
    using that by (auto simp: list_all_iff quoted_def unmarked_escape)
  then show ?case by (auto intro!: unmarked_join)
next
  case (10 T c kts)
  then have "unmarked (quoted k @ '':'' @ dump_json T t)" if "(k, t) \<in> set kts" for k t
    using that by (auto simp: list_all_iff quoted_def unmarked_escape)
  then show ?case by (auto intro!: unmarked_join)
qed (auto simp: list_all_iff quoted_def unmarked_escape intro!: unmarked_join)

lemma match_literal_chars: "match_here r b s \<Longrightarrow> Lit w \<in> set r \<Longrightarrow> set w \<subseteq> set s"
proof (induction r b s rule: match_here.induct)
  case (3 w' r b s)
  then show ?case by (auto simp: starts_with_iff dest: in_set_dropD)
next
  case (4 w' r b s)
  then show ?case by (auto dest: in_set_dropD)
next
  case (5 cs lo hi r b s)
  then show ?case by (fastforce simp: list_ex_iff dest: in_set_dropD)
next
  case (6 r b s)
  then show ?case by (fastforce simp: list_ex_iff dest: in_set_dropD)
next
  case (7 ws r b s)
  then show ?case by (fastforce simp: list_ex_iff dest: in_set_dropD)
qed auto

lemma search_literal_chars: "search_from r b s \<Longrightarrow> Lit w \<in> set r \<Longrightarrow> set w \<subseteq> set s"
proof (induction r b s rule: search_from.induct)
  case (2 r b c cs)
  from match_literal_chars[OF _ "2.prems"(2)] 2 show ?case unfolding search_from.simps by fastforce
qed (auto dest: match_literal_chars)

lemma unmarked_impersonal: "unmarked s \<Longrightarrow> \<not> list_ex (\<lambda>p. search p s) PERSONAL_PATTERNS"
proof -
  assume s: "unmarked s"
  have "\<not> search_from r False s" if "Lit w \<in> set r" "w = ''@'' \<or> w = ''-''" for r w
  proof
    assume "search_from r False s"
    from search_literal_chars[OF this that(1)] that(2) have "CHR ''@'' \<in> set s \<or> CHR ''-'' \<in> set s" by auto
    then show False using s unfolding unmarked_def list_all_iff by blast
  qed
  moreover have "\<forall>p\<in>set PERSONAL_PATTERNS. \<exists>w. Lit w \<in> set p \<and> (w = ''@'' \<or> w = ''-'')"
    unfolding PERSONAL_PATTERNS_def by (simp del: append.simps, blast)
  ultimately show ?thesis unfolding list_ex_iff search_def by metis
qed

text \<open>Numbers are written by dividing integers, which evaluation does in binary.\<close>

definition show_whole :: "int \<Rightarrow> string" where
  "show_whole i = show_nat (nat i)"

lemma show_whole_code [code]:
  "show_whole i = (if i < 10 then [char_of (48 + nat i)] else show_whole (i div 10) @ [char_of (48 + nat (i mod 10))])"
  unfolding show_whole_def
  by (subst show_nat.simps) (auto simp: nat_div_distrib nat_mod_distrib)

lemma show_int_code [code]: "show_int i = (if i < 0 then CHR ''-'' # show_whole (- i) else show_whole i)"
  by (simp add: show_int_def show_whole_def)

lemma sample_unmarked: "unmarked_tree sample_texts (artifact_tree sample_artifact)"
  by code_simp

definition sample_inputs :: json_object where
  "sample_inputs = [(''account'', JStr ''ACC-77812'')]"

definition sample_outputs :: json_object where
  "sample_outputs = [(''balance'', JStr ''$1,204.55'')]"

lemma sample_unleaked:
  "first_some (leak_of sample_texts sample_artifact) (known_values sample_artifact sample_inputs sample_outputs) = None"
  by code_simp

lemma sample_private:
  "validate_artifact_privacy sample_texts sample_redactor sample_artifact sample_inputs sample_outputs = Inr ()"
  using unmarked_impersonal[OF unmarked_dump[OF sample_unmarked]] sample_unleaked
  by (simp add: validate_artifact_privacy_def Let_def validate_text_def sample_redactor_def)

section \<open>The guard\<close>



end
