(* ===== verification/DiscoveryOutcome.thy ===== *)
theory DiscoveryOutcome
  imports DiscoveryGuarantees PrivacyGuarantees
begin

text \<open>
  How a discovery ends: within its budget of questions to the model, with its session released or
  retained for a human, and, when it succeeds, with a verified and value-free artifact.
\<close>

section \<open>The budget\<close>

fun is_question :: "event \<Rightarrow> bool" where
  "is_question (EvModel c) = is_decision c"
| "is_question _ = False"

definition questions :: "discovery_state \<Rightarrow> nat" where
  "questions s = length (filter is_question (rs_history (dv_run s)))"

text \<open>At least and at most so many questions, with these continuations held.\<close>

definition asked_at_most :: "discovery_continuation dict \<Rightarrow> nat \<Rightarrow> nat \<Rightarrow> discovery_state \<Rightarrow> bool" where
  "asked_at_most d lo k s = (dv_continuations s = d \<and> lo \<le> questions s \<and> questions s \<le> k)"

lemma quiet_no_question: "quiet e \<Longrightarrow> \<not> is_question e"
  by (cases e) simp_all

interpretation asked: discovery_any "asked_at_most d lo k" D for d lo k D
  by unfold_locales (auto simp: asked_at_most_def questions_def quiet_no_question)

lemma ask_model_counts:
  "triple (asked_at_most d lo k) (ask_model D F ob) (\<lambda>_. asked_at_most d lo (Suc k)) (\<lambda>_. asked_at_most d lo (Suc k))"
proof -
  have up: "asked_at_most d lo k s \<Longrightarrow> asked_at_most d lo (Suc k) s" for s by (simp add: asked_at_most_def)
  have part: "triple (asked_at_most d lo k) m (\<lambda>_. asked_at_most d lo k) (\<lambda>_. asked_at_most d lo (Suc k))"
    if "keeps (asked_at_most d lo k) m" for m :: "'b disc"
    by (rule triple_conseq[OF triple_keeps[OF that]]) (simp_all add: up)
  have ask: "triple (asked_at_most d lo k) (on_run (ask f (\<lambda>r. EvModel (Decided ctx r))))
      (\<lambda>_. asked_at_most d lo (Suc k)) (\<lambda>_. asked_at_most d lo (Suc k))" for f ctx
    by (rule tripleI) (auto simp: on_run_def ask_def asked_at_most_def questions_def)
  have rest: "keeps (asked_at_most d lo (Suc k)) (then_c (renew_control D (df_session F))
      (then_c (journal_event D ''model_proposal_received'' (proposal_summary x)) (ret x)))" for x
    by (intro keeping asked.keeps_renew asked.keeps_journal)
  show ?thesis unfolding ask_model_def
    by (intro triple_bind[OF part[OF asked.keeps_on_ports(11)]] triple_then[OF part[OF asked.keeps_renew]]
        triple_bind[OF part[OF asked.keeps_own(1)]] triple_bind[OF part[OF asked.keeps_own(2)]]
        triple_bind[OF part[OF asked.keeps_own(4)]] triple_bind[OF part[OF keeps_lift]]
        triple_bind[OF ask triple_keeps[OF rest]])
qed

lemma step_counts:
  "triple (asked_at_most d lo k) (discovery_step D F) (\<lambda>_. asked_at_most d lo (Suc k)) (\<lambda>_. asked_at_most d lo (Suc k))"
proof -
  have up: "asked_at_most d lo k s \<Longrightarrow> asked_at_most d lo (Suc k) s" for s by (simp add: asked_at_most_def)
  have part: "triple (asked_at_most d lo k) m (\<lambda>_. asked_at_most d lo k) (\<lambda>_. asked_at_most d lo (Suc k))"
    if "keeps (asked_at_most d lo k) m" for m :: "'b disc"
    by (rule triple_conseq[OF triple_keeps[OF that]]) (simp_all add: up)
  have over: "triple (asked_at_most d lo k) m (\<lambda>_. asked_at_most d lo (Suc k)) (\<lambda>_. asked_at_most d lo (Suc k))"
    if "keeps (asked_at_most d lo k) m" for m :: "'b disc"
    by (rule triple_conseq[OF triple_keeps[OF that]]) (simp_all add: up)
  have propose: "triple (asked_at_most d lo (Suc k)) (proposal_step D F ob x) (\<lambda>_. asked_at_most d lo (Suc k))
      (\<lambda>_. asked_at_most d lo (Suc k))" for ob x
    by (rule triple_keeps[OF discovery_acts.keeps_proposal_step[OF asked.any_acts]])
  have either: "triple P (if b then m else n) Q E" if "triple P m Q E" "triple P n Q E" for P b m n Q E
    using that by simp
  show ?thesis unfolding discovery_step_def
    by (intro triple_bind[OF part[OF asked.keeps_own(3)]] triple_bind[OF part[OF asked.keeps_own(1)]]
        either[OF over[OF asked.keeps_progress(1)]] triple_then[OF part[OF asked.keeps_renew]]
        triple_bind[OF part[OF asked.keeps_on_ports(5)]] triple_then[OF part[OF asked.keeps_journal(1)]]
        triple_then[OF part[OF asked.keeps_counts(1)]] either[OF over[OF keeps_ret]]
        triple_bind[OF ask_model_counts propose])
qed

text \<open>The steps a stretch leaves for after its pause.\<close>

definition left_of :: "stretch \<Rightarrow> nat" where
  "left_of x = (case x of Paused c \<Rightarrow> dc_left c | Finished r \<Rightarrow> 0)"

text \<open>What the question of a step costs is paid by the step.\<close>

lemma loop_budget:
  "triple (asked_at_most d lo k) (discovery_loop D F left step)
     (\<lambda>x s. dv_continuations s = d \<and> lo \<le> questions s \<and> questions s + left_of x \<le> k + left) (\<lambda>_. asked_at_most d lo (k + left))"
proof (induction left arbitrary: k step)
  case 0
  have "triple (asked_at_most d lo k) (discovery_loop D F 0 step) (\<lambda>x s. asked_at_most d lo k s) (\<lambda>_. asked_at_most d lo k)"
    unfolding discovery_loop.simps
    by (rule triple_bind[OF triple_keeps[OF asked.keeps_journal(2)] triple_keeps[OF keeps_ret]])
  moreover have "returns (\<lambda>x. left_of x = 0) (discovery_loop D F 0 step)"
    unfolding discovery_loop.simps by (intro returning) (simp add: left_of_def)
  ultimately show ?case
    unfolding returns_def
    by (rule triple_conseq[OF triple_conj]) (auto simp: asked_at_most_def)
next
  case (Suc left)
  have later: "triple (asked_at_most d lo (Suc k)) (discovery_loop D F left (step + 1))
      (\<lambda>x s. dv_continuations s = d \<and> lo \<le> questions s \<and> questions s + left_of x \<le> k + Suc left) (\<lambda>_. asked_at_most d lo (k + Suc left))"
    using Suc.IH[of "Suc k" "step + 1"] by simp
  have pause: "triple (asked_at_most d lo (Suc k)) (pause_run D F step left code current)
      (\<lambda>x s. dv_continuations s = d \<and> lo \<le> questions s \<and> questions s + left_of x \<le> k + Suc left) (\<lambda>_. asked_at_most d lo (k + Suc left))" for code current
  proof -
    have "returns (\<lambda>x. left_of x = left) (pause_run D F step left code current)"
      unfolding pause_run_def by (intro returning) (simp add: left_of_def)
    from triple_conj[OF triple_keeps[OF asked.keeps_pause[of d lo "Suc k"]] this[unfolded returns_def]] show ?thesis
      by (rule triple_conseq) (auto simp: asked_at_most_def)
  qed
  have next_one: "triple (asked_at_most d lo (Suc k)) (case x of Next \<Rightarrow> discovery_loop D F left (step + 1)
      | Blocked code current \<Rightarrow> pause_run D F step left code current | Done r \<Rightarrow> ret (Finished r))
      (\<lambda>x s. dv_continuations s = d \<and> lo \<le> questions s \<and> questions s + left_of x \<le> k + Suc left) (\<lambda>_. asked_at_most d lo (k + Suc left))" for x
  proof (cases x)
    case Next
    show ?thesis unfolding Next progress.case by (rule later)
  next
    case (Blocked code current)
    show ?thesis unfolding Blocked progress.case by (rule pause)
  next
    case (Done r)
    show ?thesis unfolding Done progress.case
      by (rule triple_pre[OF triple_ret]) (simp add: left_of_def asked_at_most_def)
  qed
  have "triple (asked_at_most d lo k) (discovery_step D F) (\<lambda>_. asked_at_most d lo (Suc k)) (\<lambda>_. asked_at_most d lo (k + Suc left))"
    by (rule triple_conseq[OF step_counts[of d lo k]]) (auto simp: asked_at_most_def)
  then show ?case unfolding discovery_loop.simps by (rule triple_bind[OF _ next_one])
qed

definition spends :: "discovery_continuation dict \<Rightarrow> nat \<Rightarrow> nat \<Rightarrow> nat \<Rightarrow> stretch disc \<Rightarrow> bool" where
  "spends d lo k n m =
     triple (asked_at_most d lo k) m (\<lambda>x s. dv_continuations s = d \<and> lo \<le> questions s \<and> questions s + left_of x \<le> k + n) (\<lambda>_. asked_at_most d lo (k + n))"

lemma spends_bind: "keeps (asked_at_most d lo k) m \<Longrightarrow> (\<And>x. spends d lo k n (f x)) \<Longrightarrow> spends d lo k n (bind_c m f)"
proof -
  assume m: "keeps (asked_at_most d lo k) m" and f: "\<And>x. spends d lo k n (f x)"
  have "triple (asked_at_most d lo k) m (\<lambda>_. asked_at_most d lo k) (\<lambda>_. asked_at_most d lo (k + n))"
    by (rule triple_conseq[OF triple_keeps[OF m]]) (auto simp: asked_at_most_def)
  from triple_bind[OF this f[unfolded spends_def]] show "spends d lo k n (bind_c m f)" by (simp add: spends_def)
qed

lemma spends_then: "keeps (asked_at_most d lo k) m \<Longrightarrow> spends d lo k n f \<Longrightarrow> spends d lo k n (then_c m f)"
  unfolding then_c_def by (rule spends_bind)

lemma asked_session: "keeps (asked_at_most d lo k) (open_discovery D q)" "keeps (asked_at_most d lo k) (close_now D)"
  "keeps (asked_at_most d lo k) (restore_run c)"
  "keeps (asked_at_most d lo k) (update (\<lambda>s. s\<lparr>dv_run := (dv_run s)\<lparr>rs_session := x\<rparr>\<rparr>))"
proof -
  show "keeps (asked_at_most d lo k) (open_discovery D q)"
    by (rule keepsI)
       (auto simp: open_discovery_def on_run_def ask_def bind_c_def then_c_def update_def ret_def asked_at_most_def
          questions_def split: sum.splits)
  show "keeps (asked_at_most d lo k) (close_now D)"
    by (rule keepsI)
       (simp add: close_now_def close_session_def on_run_def ask_def ret_def asked_at_most_def questions_def)
  show "keeps (asked_at_most d lo k) (restore_run c)"
    "keeps (asked_at_most d lo k) (update (\<lambda>s. s\<lparr>dv_run := (dv_run s)\<lparr>rs_session := x\<rparr>\<rparr>))"
    by (rule keepsI, simp add: restore_run_def update_def asked_at_most_def questions_def)+
qed

lemma spends_within:
  assumes "spends d lo k n m"
  shows "spends d lo k n (within_run D q m)"
proof -
  let ?Q = "\<lambda>x s. dv_continuations s = d \<and> lo \<le> questions s \<and> questions s + left_of x \<le> k + n"
  have handle: "triple (asked_at_most d lo (k + n)) (handle_run_error D q e) ?Q (\<lambda>_. asked_at_most d lo (k + n))" for e
    by (rule triple_conseq[OF triple_conj[OF triple_keeps[OF asked.keeps_handle[of d lo "k + n"]]
          handle_finishes[unfolded returns_def]]])
       (auto simp: asked_at_most_def left_of_def)
  have run: "triple (asked_at_most d lo k) (catch_c m run_errors (handle_run_error D q)) ?Q (\<lambda>_. asked_at_most d lo (k + n))"
    by (rule triple_catch[where H = "\<lambda>_. asked_at_most d lo (k + n)"])
       (rule triple_conseq[OF assms[unfolded spends_def]], auto split: option.splits intro: handle)
  have close: "triple (?Q x) (case Some x of Some (Paused c) \<Rightarrow> ret () | _ \<Rightarrow> close_now D)
      (\<lambda>_. ?Q x) (\<lambda>_. asked_at_most d lo (k + n))" for x
  proof (cases x)
    case (Finished r)
    have "triple (asked_at_most d lo (k + n)) (close_now D) (\<lambda>_. asked_at_most d lo (k + n)) (\<lambda>_. asked_at_most d lo (k + n))"
      by (rule triple_keeps[OF asked_session(2)])
    then show ?thesis
      by (simp add: Finished left_of_def asked_at_most_def[abs_def])
  next
    case (Paused c)
    show ?thesis unfolding Paused option.case stretch.case by (rule triple_ret)
  qed
  have none: "triple (asked_at_most d lo (k + n)) (case None of Some (Paused c) \<Rightarrow> ret () | _ \<Rightarrow> close_now D)
      (\<lambda>_. asked_at_most d lo (k + n)) (\<lambda>_. asked_at_most d lo (k + n))"
    unfolding option.case by (rule triple_keeps[OF asked_session(2)])
  show ?thesis unfolding spends_def within_run_def
    by (rule triple_finally[OF run close none])
qed

lemma begin_spends: "spends d lo k (nat (dq_max_steps q)) (begin_run D q started)"
  unfolding begin_run_def
  by (intro spends_bind spends_then keeping asked_session asked.keeps_on_ports asked.keeps_set asked.keeps_journal
      asked.keeps_plan loop_budget[folded spends_def])

lemma run_spends: "spends d lo k (nat (dq_max_steps q)) (run_discovery D q)"
  unfolding run_discovery_def
  by (intro spends_then spends_bind asked_session asked.keeps_own spends_within begin_spends)

lemma continue_spends: "spends d lo k (dc_left c) (continue_discovery D c v)"
  unfolding continue_discovery_def after_pause_def Let_def
  by (intro spends_then spends_bind asked_session asked.keeps_own asked.keeps_set asked.keeps_renew spends_within
      loop_budget[folded spends_def])

section \<open>The budget of an engine\<close>

text \<open>The continuations held, by the request they belong to, and the steps they may still take.\<close>

definition steps_held :: "discovery_request \<Rightarrow> discovery_continuation dict \<Rightarrow> nat" where
  "steps_held q d = sum_list (map (\<lambda>p. if df_request (dc_frame (snd p)) = q then dc_left (snd p) else 0) d)"

lemma steps_held_set:
  "steps_held q (dict_set iid c d) \<le> steps_held q d + (if df_request (dc_frame c) = q then dc_left c else 0)"
  by (induction d) (auto simp: steps_held_def)

lemma steps_held_delete:
  "dict_get d iid = Some c \<Longrightarrow>
     steps_held q (AList.delete iid d) + (if df_request (dc_frame c) = q then dc_left c else 0) \<le> steps_held q d"
proof (induction d)
  case (Cons p d)
  have less: "steps_held q (AList.delete iid d) \<le> steps_held q d"
    by (induction d) (auto simp: steps_held_def)
  then show ?case using Cons by (cases p) (auto simp: steps_held_def)
qed simp

text \<open>What an operation may leave: the continuations as they were, or with one more, of this request.\<close>

definition accounted :: "discovery_continuation dict \<Rightarrow> discovery_request \<Rightarrow> nat \<Rightarrow> nat \<Rightarrow> discovery_state \<Rightarrow> bool" where
  "accounted d q lo k s \<longleftrightarrow>
     dv_continuations s = d \<and> lo \<le> questions s \<and> questions s \<le> k \<or>
     (\<exists>iid c. dv_continuations s = dict_set iid c d \<and> df_request (dc_frame c) = q \<and> lo \<le> questions s \<and> questions s + dc_left c \<le> k)"

lemma accounted_keeps:
  assumes "\<And>d lo k. keeps (asked_at_most d lo k) m"
  shows "keeps (accounted d q lo k) m"
proof (rule keepsI)
  fix s
  assume s: "accounted d q lo k s"
  have "asked_at_most (dv_continuations s) (questions s) (questions s) (snd (m s))"
    by (rule keepsD[OF assms]) (simp add: asked_at_most_def)
  then have same: "dv_continuations (snd (m s)) = dv_continuations s" "questions (snd (m s)) = questions s"
    by (simp_all add: asked_at_most_def)
  then show "accounted d q lo k (snd (m s))"
    using s by (simp add: accounted_def same)
qed

lemma abandon_asks: "keeps (asked_at_most d lo k) (abandon_run D c)"
proof -
  have "keeps (asked_at_most d lo k) (on_run (close_session (de_env D)))"
    by (rule keepsI) (simp add: close_session_def on_run_def ask_def asked_at_most_def questions_def)
  then show ?thesis unfolding abandon_run_def by (intro keeping asked_session)
qed

lemma hand_over_accounts:
  assumes "df_request (dc_frame c) = q"
  shows "triple (asked_at_most d lo j) (hand_over D c) (\<lambda>_. accounted d q lo (j + dc_left c)) (\<lambda>_. accounted d q lo (j + dc_left c))"
proof -
  let ?A = "accounted d q lo (j + dc_left c)"
  have up: "asked_at_most d lo j s \<Longrightarrow> ?A s" for s by (simp add: asked_at_most_def accounted_def)
  have part: "triple (asked_at_most d lo j) m (\<lambda>_. asked_at_most d lo j) (\<lambda>_. ?A)" if "keeps (asked_at_most d lo j) m"
    for m :: "'b disc"
    by (rule triple_conseq[OF triple_keeps[OF that]]) (simp_all add: up)
  have store: "triple (asked_at_most d lo j) (update (\<lambda>s. s\<lparr>dv_continuations := dict_set iid c (dv_continuations s)\<rparr>))
      (\<lambda>_. ?A) (\<lambda>_. ?A)" for iid
  proof (rule tripleI)
    fix s x t
    assume s: "asked_at_most d lo j s"
      and run: "update (\<lambda>s. s\<lparr>dv_continuations := dict_set iid c (dv_continuations s)\<rparr>) s = (Inr x, t)"
    then have "dv_continuations t = dict_set iid c d" "lo \<le> questions t" "questions t + dc_left c \<le> j + dc_left c"
      by (auto simp: update_def asked_at_most_def questions_def)
    then show "?A t" using assms unfolding accounted_def by blast
  qed (simp add: update_def)
  have later: "keeps ?A (then_c (on_run (record_event (de_env D) ''intervention_required'' (Some x) details))
      (bind_c (lift_c y) (\<lambda>r. ret (NotDiscovered r))))" for x details and y :: "run_result result"
    by (intro keeping accounted_keeps asked.keeps_on_ports)
  show ?thesis unfolding hand_over_def Let_def
    by (intro triple_bind[OF part] triple_then[OF part] triple_then[OF store] triple_keeps[OF later] keeping
        asked.keeps_on_ports)
qed

lemma advance_accounts:
  assumes m: "spends d lo k n m" and pause: "returns (paused_with (\<lambda>F. df_request F = q) j) m"
  shows "triple (asked_at_most d lo k) (advance D m) (\<lambda>_. accounted d q lo (k + n)) (\<lambda>_. accounted d q lo (k + n))"
  unfolding advance_def
proof (rule triple_bind)
  show "triple (asked_at_most d lo k) m
      (\<lambda>x s. (dv_continuations s = d \<and> lo \<le> questions s \<and> questions s + left_of x \<le> k + n) \<and> paused_with (\<lambda>F. df_request F = q) j x)
      (\<lambda>_. accounted d q lo (k + n))"
    by (rule triple_conseq[OF triple_conj[OF m[unfolded spends_def] pause[unfolded returns_def]]])
      (simp_all add: asked_at_most_def accounted_def)
next
  fix x
  let ?A = "accounted d q lo (k + n)"
  show "triple (\<lambda>s. (dv_continuations s = d \<and> lo \<le> questions s \<and> questions s + left_of x \<le> k + n) \<and> paused_with (\<lambda>F. df_request F = q) j x)
      (case x of Finished r \<Rightarrow> ret r
       | Paused c \<Rightarrow>
           if \<not> de_routed D
           then finally_c (not_discovered (on_run (discovery_failure (de_env D) (df_request (dc_frame c)) True
                  (dp_code (dc_pause c)) ''Discovery is blocked.'' None None))) (\<lambda>r. abandon_run D c)
           else or_close (abandon_run D c) (hand_over D c)) (\<lambda>_. ?A) (\<lambda>_. ?A)"
  proof (cases x)
    case (Finished r)
    show ?thesis unfolding Finished stretch.case
      by (rule triple_pre[OF triple_keeps[OF keeps_ret]]) (auto simp: accounted_def left_of_def)
  next
    case (Paused c)
    have stop: "keeps ?A (finally_c (not_discovered (on_run (discovery_failure (de_env D) (df_request (dc_frame c)) True
        (dp_code (dc_pause c)) ''Discovery is blocked.'' None None))) (\<lambda>r. abandon_run D c))"
      by (intro accounted_keeps keeping asked.keeps_wrappers asked.keeps_on_ports abandon_asks)
    have close: "keeps ?A (then_c (abandon_run D c) (raise e :: discovery_result disc))" for e
      by (intro accounted_keeps keeping abandon_asks)
    have hand: "triple (\<lambda>s. dv_continuations s = d \<and> lo \<le> questions s \<and> questions s + dc_left c \<le> k + n)
        (or_close (abandon_run D c) (hand_over D c)) (\<lambda>_. ?A) (\<lambda>_. ?A)"
      if "df_request (dc_frame c) = q" "dc_left c \<le> k + n"
    proof -
      have "triple (\<lambda>s. dv_continuations s = d \<and> lo \<le> questions s \<and> questions s + dc_left c \<le> k + n) (hand_over D c) (\<lambda>_. ?A) (\<lambda>_. ?A)"
        by (rule triple_conseq[OF hand_over_accounts[OF that(1), where j = "k + n - dc_left c"]])
          (use that(2) in \<open>auto simp: asked_at_most_def\<close>)
      then have "triple (\<lambda>s. dv_continuations s = d \<and> lo \<le> questions s \<and> questions s + dc_left c \<le> k + n) (hand_over D c)
          (\<lambda>_. ?A) (\<lambda>e s. case Some e of None \<Rightarrow> ?A s | Some x \<Rightarrow> ?A s)" by simp
      then show ?thesis unfolding or_close_def
        by (rule triple_catch) (rule triple_keeps[OF close])
    qed
    show ?thesis
    proof (cases "df_request (dc_frame c) = q \<and> dc_left c \<le> k + n")
      case True
      have start: "dv_continuations s = d \<and> lo \<le> questions s \<and> questions s + dc_left c \<le> k + n \<Longrightarrow> ?A s" for s
        by (simp add: accounted_def)
      show ?thesis unfolding Paused stretch.case
      proof (rule triple_pre[where P = "\<lambda>s. dv_continuations s = d \<and> lo \<le> questions s \<and> questions s + dc_left c \<le> k + n"])
        show "triple (\<lambda>s. dv_continuations s = d \<and> lo \<le> questions s \<and> questions s + dc_left c \<le> k + n)
          (if \<not> de_routed D
           then finally_c (not_discovered (on_run (discovery_failure (de_env D) (df_request (dc_frame c)) True
                  (dp_code (dc_pause c)) ''Discovery is blocked.'' None None))) (\<lambda>r. abandon_run D c)
           else or_close (abandon_run D c) (hand_over D c)) (\<lambda>_. ?A) (\<lambda>_. ?A)"
          using hand True triple_pre[OF triple_keeps[OF stop] start] by simp
      qed (simp add: left_of_def)
    next
      case False
      then show ?thesis by (auto simp: Paused paused_with_def left_of_def triple_def)
    qed
  qed
qed

lemma run_pauses_request: "returns (paused_with (\<lambda>F. df_request F = q) (nat (dq_max_steps q))) (run_discovery D q)"
proof -
  have "returns (paused_with (\<lambda>F. df_request F = q) n) (discovery_loop D F n step)" if "df_request F = q" for F n step
    by (rule returns_mono[OF loop_frame]) (use that in \<open>auto simp: pause_of_def paused_with_def split: stretch.splits\<close>)
  then show ?thesis unfolding run_discovery_def begin_run_def by (intro returning within_returns) simp
qed

lemma continue_pauses_request:
  "returns (paused_with (\<lambda>F. df_request F = df_request (dc_frame c)) (dc_left c)) (continue_discovery D c v)"
  unfolding continue_discovery_def after_pause_def Let_def
  by (intro returning within_returns returns_mono[OF loop_frame])
     (auto simp: pause_of_def paused_with_def split: stretch.splits)

text \<open>The request an operation works for, in a state, and the steps it newly grants.\<close>

definition works_for :: "discovery_op \<Rightarrow> discovery_state \<Rightarrow> discovery_request option" where
  "works_for operation s =
     (case operation of
        Discover q \<Rightarrow> Some q
      | ValidateResume iid \<Rightarrow> map_option (\<lambda>c. df_request (dc_frame c)) (dict_get (dv_continuations s) iid)
      | Resume iid v \<Rightarrow> map_option (\<lambda>c. df_request (dc_frame c)) (dict_get (dv_continuations s) iid)
      | Cancel iid \<Rightarrow> map_option (\<lambda>c. df_request (dc_frame c)) (dict_get (dv_continuations s) iid))"

definition steps_granted :: "discovery_request \<Rightarrow> discovery_op list \<Rightarrow> nat" where
  "steps_granted q ops = nat (dq_max_steps q) * count_list ops (Discover q)"

text \<open>The questions that the operations working for a request asked the model.\<close>

fun questions_for :: "discovery_env \<Rightarrow> discovery_request \<Rightarrow> discovery_op list \<Rightarrow> discovery_state \<Rightarrow> nat" where
  "questions_for D q [] s = 0"
| "questions_for D q (operation # ops) s =
     (let t = discovery_op_step D operation s in
      (if works_for operation s = Some q then questions t - questions s else 0) + questions_for D q ops t)"

lemma accounted_steps:
  assumes "accounted d q' lo k s"
  shows "lo \<le> questions s" "questions s \<le> k"
    and "steps_held q (dv_continuations s) \<le> steps_held q d + (if q = q' then k - questions s else 0)"
proof -
  show "lo \<le> questions s" "questions s \<le> k" using assms by (auto simp: accounted_def)
  consider "dv_continuations s = d" | iid c where "dv_continuations s = dict_set iid c d"
      "df_request (dc_frame c) = q'" "dc_left c \<le> k - questions s"
    using assms unfolding accounted_def by fastforce
  then show "steps_held q (dv_continuations s) \<le> steps_held q d + (if q = q' then k - questions s else 0)"
  proof cases
    case (2 iid c)
    then show ?thesis using steps_held_set[of q iid c d] by (auto split: if_splits)
  qed simp
qed

lemma accountedD:
  assumes "triple (asked_at_most d (questions s) (questions s)) m (\<lambda>_. accounted d q (questions s) (questions s + n)) (\<lambda>_. accounted d q (questions s) (questions s + n))"
    and "dv_continuations s = d"
  shows "accounted d q (questions s) (questions s + n) (snd (m s))"
  using assms by (cases "m s"; cases "fst (m s)") (auto simp: triple_def asked_at_most_def)

lemma pop_cases:
  "pop_continuation iid s =
     (case dict_get (dv_continuations s) iid of
        None \<Rightarrow> (Inl (KeyError iid), s)
      | Some c \<Rightarrow> (Inr c, s\<lparr>dv_continuations := AList.delete iid (dv_continuations s)\<rparr>))"
  by (simp add: pop_continuation_def continuation_of_def comp_defs split: option.splits)

lemma op_accounts:
  fixes operation s D
  defines "t \<equiv> discovery_op_step D operation s"
  shows "(if works_for operation s = Some q then questions t - questions s else 0) + steps_held q (dv_continuations t)
    \<le> steps_held q (dv_continuations s) + steps_granted q [operation]"
    and "case works_for operation s of None \<Rightarrow> questions t \<le> questions s | Some q \<Rightarrow> True"
    and "case operation of Discover q \<Rightarrow> True | Resume iid v \<Rightarrow> True | _ \<Rightarrow> questions t \<le> questions s"
    and "questions s \<le> questions t"
proof -
  have quiet: "accounted (dv_continuations s) q' (questions s) (questions s) (snd (m s))"
    if "\<And>d lo k. keeps (asked_at_most d lo k) m" for m :: "'x disc" and q' s
    by (rule keepsD[OF accounted_keeps[OF that]]) (simp add: accounted_def)
  have resumed: "accounted (AList.delete iid (dv_continuations s)) (df_request (dc_frame c)) (questions s) (questions s + dc_left c)
      (snd (resume_discovery D iid v s))" if "dict_get (dv_continuations s) iid = Some c" for iid c v
  proof -
    let ?s = "s\<lparr>dv_continuations := AList.delete iid (dv_continuations s)\<rparr>"
    have "accounted (dv_continuations ?s) (df_request (dc_frame c)) (questions ?s) (questions ?s + dc_left c)
        (snd (advance D (continue_discovery D c v) ?s))"
      by (rule accountedD[OF advance_accounts[OF continue_spends continue_pauses_request] refl])
    then show ?thesis using that by (simp add: resume_discovery_def bind_c_def pop_cases questions_def)
  qed
  have cancelled: "accounted (AList.delete iid (dv_continuations s)) (df_request (dc_frame c)) (questions s) (questions s)
      (snd (cancel_discovery D iid s))" if "dict_get (dv_continuations s) iid = Some c" for iid c
  proof -
    let ?s = "s\<lparr>dv_continuations := AList.delete iid (dv_continuations s)\<rparr>"
    have "keeps (asked_at_most d lo k) (finally_c
       (not_discovered (on_run (discovery_failure (de_env D) (df_request (dc_frame c)) True
          ''discovery_terminated'' ''Discovery was terminated while paused.'' None None)))
       (\<lambda>r. abandon_run D c))" for d lo k
      by (intro keeping asked.keeps_wrappers asked.keeps_on_ports abandon_asks)
    from quiet[OF this, of ?s] that show ?thesis
      by (simp add: cancel_discovery_def bind_c_def pop_cases questions_def)
  qed
  have executed: "accounted (dv_continuations s) q' (questions s) (questions s + nat (dq_max_steps q'))
      (snd (execute_discovery D q' s))" for q'
    unfolding execute_discovery_def
    by (rule accountedD[OF advance_accounts[OF run_spends run_pauses_request] refl])
  have validated: "accounted (dv_continuations s) q' (questions s) (questions s) (snd (validate_discovery_resume D iid s))" for q' iid
    unfolding validate_discovery_resume_def Let_def
    by (intro quiet keeping keeps_continuation_of asked.keeps_on_ports asked.keeps_journal)
  have unknown: "resume_discovery D iid v s = (Inl (KeyError iid), s)" "cancel_discovery D iid s = (Inl (KeyError iid), s)"
    if "dict_get (dv_continuations s) iid = None" for iid v
    using that by (simp_all add: resume_discovery_def cancel_discovery_def bind_c_def pop_cases)
  show "case works_for operation s of None \<Rightarrow> questions t \<le> questions s | Some q \<Rightarrow> True"
    using accounted_steps(2)[OF validated] unknown
    by (cases operation) (auto simp: works_for_def t_def discovery_op_step_def split: option.splits)
  have "questions (snd (cancel_discovery D iid s)) \<le> questions s" for iid
    using unknown(2)[of iid] accounted_steps(2)[OF cancelled, of iid] by (cases "dict_get (dv_continuations s) iid") auto
  then show "case operation of Discover q \<Rightarrow> True | Resume iid v \<Rightarrow> True | _ \<Rightarrow> questions t \<le> questions s"
    using accounted_steps(2)[OF validated] by (cases operation) (auto simp: t_def discovery_op_step_def)
  have "questions s \<le> questions (snd (resume_discovery D iid v s))"
    "questions s \<le> questions (snd (cancel_discovery D iid s))" for iid v
    using unknown[of iid] accounted_steps(1)[OF cancelled, of iid] accounted_steps(1)[OF resumed, of iid]
    by (cases "dict_get (dv_continuations s) iid"; auto)+
  then show "questions s \<le> questions t"
    using accounted_steps(1)[OF validated] accounted_steps(1)[OF executed]
    by (cases operation) (auto simp: t_def discovery_op_step_def)
  show "(if works_for operation s = Some q then questions t - questions s else 0) + steps_held q (dv_continuations t)
    \<le> steps_held q (dv_continuations s) + steps_granted q [operation]"
  proof (cases operation)
    case (Discover q')
    then show ?thesis using accounted_steps(1,2)[OF executed[of q']] accounted_steps(3)[OF executed[of q'], of q]
      by (auto simp: works_for_def t_def discovery_op_step_def steps_granted_def)
  next
    case (ValidateResume iid)
    then show ?thesis using accounted_steps(1,2)[OF validated[of q iid]] accounted_steps(3)[OF validated[of q iid], of q]
      by (auto simp: works_for_def t_def discovery_op_step_def steps_granted_def)
  next
    case (Resume iid v)
    show ?thesis
    proof (cases "dict_get (dv_continuations s) iid")
      case None
      then show ?thesis using unknown by (simp add: Resume works_for_def t_def discovery_op_step_def)
    next
      case (Some c)
      then show ?thesis
        using accounted_steps(1,2)[OF resumed[OF Some, of v]] accounted_steps(3)[OF resumed[OF Some, of v], of q] steps_held_delete[OF Some, of q]
        by (auto simp: Resume works_for_def t_def discovery_op_step_def steps_granted_def split: if_splits)
    qed
  next
    case (Cancel iid)
    show ?thesis
    proof (cases "dict_get (dv_continuations s) iid")
      case None
      then show ?thesis using unknown by (simp add: Cancel works_for_def t_def discovery_op_step_def)
    next
      case (Some c)
      then show ?thesis
        using accounted_steps(1,2)[OF cancelled[OF Some]] accounted_steps(3)[OF cancelled[OF Some], of q] steps_held_delete[OF Some, of q]
        by (auto simp: Cancel works_for_def t_def discovery_op_step_def steps_granted_def split: if_splits)
    qed
  qed
qed

lemma questions_budget:
  "questions_for D q ops s + steps_held q (dv_continuations (fold (discovery_op_step D) ops s))
     \<le> steps_held q (dv_continuations s) + steps_granted q ops"
proof (induction ops arbitrary: s)
  case (Cons operation ops)
  let ?t = "discovery_op_step D operation s"
  have "questions_for D q ops ?t + steps_held q (dv_continuations (fold (discovery_op_step D) ops ?t))
      \<le> steps_held q (dv_continuations ?t) + steps_granted q ops"
    by (rule Cons)
  then show ?case
    using op_accounts(1)[where operation = operation and s = s and q = q and D = D] by (auto simp: Let_def steps_granted_def algebra_simps split: if_splits)
qed (simp add: steps_granted_def)

text \<open>
  C17. The budget of questions. Whatever runs, resumption checks, resumptions and cancellations a fresh
  engine is asked for, in any order: the runs of a request and all the resumptions of their pauses
  together ask the model for at most as many proposals as the request allows steps for each time it was
  run; what the continuations still held may ask is counted in. No other operation asks for a proposal.
\<close>

theorem model_questions_are_budgeted:
  "questions_for D q ops (fresh_engine s) +
     steps_held q (dv_continuations (fold (discovery_op_step D) ops (fresh_engine s)))
     \<le> nat (dq_max_steps q) * count_list ops (Discover q) \<and>
   (case works_for operation t of None \<Rightarrow> questions (discovery_op_step D operation t) \<le> questions t | Some q \<Rightarrow> True) \<and>
   (case operation of Discover q \<Rightarrow> True | Resume iid v \<Rightarrow> True
    | _ \<Rightarrow> questions (discovery_op_step D operation t) \<le> questions t) \<and>
   questions t \<le> questions (discovery_op_step D operation t)"
proof (intro conjI op_accounts)
  show "questions_for D q ops (fresh_engine s) +
     steps_held q (dv_continuations (fold (discovery_op_step D) ops (fresh_engine s)))
     \<le> nat (dq_max_steps q) * count_list ops (Discover q)"
    using questions_budget[of D q ops "fresh_engine s"]
    by (simp add: steps_granted_def fresh_engine_def steps_held_def)
qed

section \<open>What a computation leaves\<close>

definition leaves :: "('a \<Rightarrow> 's \<Rightarrow> bool) \<Rightarrow> ('s, 'a) comp \<Rightarrow> bool" where
  "leaves Q m = triple (\<lambda>s. True) m Q (\<lambda>e s. True)"

named_theorems leaving \<open>what computations leave\<close>

lemma leaves_bind [leaving]: "(\<And>x. leaves Q (f x)) \<Longrightarrow> leaves Q (bind_c m f)"
  unfolding leaves_def by (rule triple_bind[OF triple_any])

lemma leaves_then [leaving]: "leaves Q k \<Longrightarrow> leaves Q (then_c m k)"
  unfolding then_c_def by (rule leaves_bind)

lemma leaves_ret [leaving]: "(\<And>s. Q x s) \<Longrightarrow> leaves Q (ret x)"
  unfolding leaves_def by (rule triple_pre[OF triple_ret]) simp

lemma leaves_raise [leaving]: "leaves Q (raise e)"
  unfolding leaves_def by (rule triple_pre[OF triple_raise]) simp

lemma leaves_if [leaving]: "leaves Q m \<Longrightarrow> leaves Q n \<Longrightarrow> leaves Q (if b then m else n)"
  by simp

lemma leaves_option [leaving]:
  "leaves Q m \<Longrightarrow> (\<And>y. leaves Q (f y)) \<Longrightarrow> leaves Q (case x of None \<Rightarrow> m | Some y \<Rightarrow> f y)"
  by (cases x) simp_all

lemma leaves_sum [leaving]:
  "(\<And>e. leaves Q (f e)) \<Longrightarrow> (\<And>y. leaves Q (g y)) \<Longrightarrow> leaves Q (case x of Inl e \<Rightarrow> f e | Inr y \<Rightarrow> g y)"
  by (cases x) simp_all

lemma leaves_prod [leaving]: "(\<And>a b. leaves Q (f a b)) \<Longrightarrow> leaves Q (case p of (a, b) \<Rightarrow> f a b)"
  by (cases p) simp

text \<open>What the result of a computation is made of decides.\<close>

lemma leaves_map: "leaves (\<lambda>x s. Q (g x) s) m \<Longrightarrow> leaves Q (bind_c m (\<lambda>x. ret (g x)))"
  unfolding leaves_def by (rule triple_bind[OF _ triple_ret])

lemma leaves_returns: "returns P m \<Longrightarrow> (\<And>x s. P x \<Longrightarrow> Q x s) \<Longrightarrow> leaves Q m"
  unfolding leaves_def returns_def by (erule triple_conseq) simp_all

section \<open>The session\<close>

definition released :: "discovery_state \<Rightarrow> bool" where
  "released s = (rs_session (dv_run s) = None \<or> (\<exists>r h. rs_history (dv_run s) = EvClose r # h))"

text \<open>The result names an intervention whose continuation the engine holds.\<close>

definition retained :: "discovery_result \<Rightarrow> discovery_state \<Rightarrow> bool" where
  "retained r s =
     (case r of
        NotDiscovered (InterventionRequiredResult x) \<Rightarrow>
          dict_get (dv_continuations s) (ir_intervention_id x) \<noteq> None
      | _ \<Rightarrow> False)"

lemma close_releases: "triple (\<lambda>s. True) (close_now D) (\<lambda>_. released) (\<lambda>_. released)"
  by (rule tripleI)
     (auto simp: close_now_def close_session_def on_run_def ask_def ret_def released_def split: if_splits)

lemma abandon_releases: "triple (\<lambda>s. True) (abandon_run D c) (\<lambda>_. released) (\<lambda>_. released)"
proof -
  have close: "triple (\<lambda>s. True) (on_run (close_session (de_env D))) (\<lambda>_. released) (\<lambda>_. released)"
    by (rule tripleI) (auto simp: close_session_def on_run_def ask_def released_def)
  have restore: "triple (\<lambda>s. True) (restore_run c) (\<lambda>_ s. True) (\<lambda>_. released)"
    by (rule tripleI) (auto simp: restore_run_def update_def)
  show ?thesis unfolding abandon_run_def by (rule triple_then[OF restore close])
qed

lemma within_releases:
  "triple (\<lambda>s. True) (within_run D q m) (\<lambda>x s. released s \<or> (\<exists>c. x = Paused c)) (\<lambda>_. released)"
  unfolding within_run_def
proof (rule triple_finally[OF triple_any[where P = "\<lambda>s. True"]])
  fix x
  show "triple (\<lambda>s. True) (case Some x of Some (Paused c) \<Rightarrow> ret () | _ \<Rightarrow> close_now D)
      (\<lambda>_ s. released s \<or> (\<exists>c. x = Paused c)) (\<lambda>_. released)"
  proof (cases x)
    case (Finished r)
    show ?thesis unfolding Finished option.case stretch.case by (rule triple_conseq[OF close_releases]) simp_all
  next
    case (Paused c)
    show ?thesis unfolding Paused option.case stretch.case by (rule triple_pre[OF triple_ret]) simp
  qed
next
  show "triple (\<lambda>s. True) (case None of Some (Paused c) \<Rightarrow> ret () | _ \<Rightarrow> close_now D) (\<lambda>_. released) (\<lambda>_. released)"
    unfolding option.case by (rule close_releases)
qed

lemma route_discovery_id:
  "triple (\<lambda>s. True) (on_run (route_discovery E q iid sid z ctx)) (\<lambda>r s. is_id INTERVENTION iid) (\<lambda>_ s. True)"
proof (rule tripleI)
  fix s t routed
  assume run: "on_run (route_discovery E q iid sid z ctx) s = (Inr routed, t)"
  define now where "now = ev_clock E (rs_history (dv_run s))"
  define opened where "opened = router_open (ev_ttl E) (now 0) (now 1) (now 2) (rs_store (dv_run s)) iid
      (dq_run_id q) sid (dp_version z) (dp_code z) (Some (dp_step_id z)) (dp_observation z) ctx
      (Some ''Discovery is blocked; correct the live state before resuming.'')"
  from run obtain st where "opened = Inr (routed, st)"
    unfolding on_run_def route_discovery_def Let_def now_def[symmetric] opened_def[symmetric]
    by (cases opened) (simp_all split: prod.splits)
  note op = this[unfolded opened_def]
  define i where "i = opened_intervention iid (dq_run_id q) sid (now 0) (dp_code z) (Some (dp_step_id z)) ctx
      (Some ''Discovery is blocked; correct the live state before resuming.'')"
  have "intervention_ok i" using router_open_Inr[OF op] unfolding i_def by blast
  moreover have "int_id i = iid" by (simp add: i_def opened_intervention_def)
  ultimately show "is_id INTERVENTION iid" by (simp add: intervention_ok_def)
qed simp

lemma hand_over_retains: "leaves retained (hand_over D c)"
proof -
  let ?q = "df_request (dc_frame c)" and ?z = "dc_pause c"
  define tail where "tail iid = then_c (update (\<lambda>s. s\<lparr>dv_continuations := dict_set iid c (dv_continuations s)\<rparr>))
       (then_c (on_run (record_event (de_env D) ''intervention_required'' (Some (dp_step_id ?z))
                  [(''code'', JStr (dp_code ?z))]))
       (bind_c (lift_c (mk_intervention_required
          \<lparr>ir_run_id = dq_run_id ?q, ir_intervention_id = iid, ir_code = dp_code ?z,
           ir_step_id = Some (dp_step_id ?z)\<rparr>)) (\<lambda>r.
        ret (NotDiscovered r))))" for iid
  have tail: "triple (\<lambda>s. is_id INTERVENTION iid) (tail iid) retained (\<lambda>_ s. True)" for iid
  proof (rule tripleI)
    fix s r t
    assume iid: "is_id INTERVENTION iid" and run: "tail iid s = (Inr r, t)"
    from run obtain x where x: "mk_intervention_required
          \<lparr>ir_run_id = dq_run_id ?q, ir_intervention_id = iid, ir_code = dp_code ?z,
           ir_step_id = Some (dp_step_id ?z)\<rparr> = Inr x" "r = NotDiscovered x"
        and t: "dv_continuations t = dict_set iid c (dv_continuations s)"
      by (auto simp: tail_def on_run_def record_event_def ask_def comp_defs split: sum.splits prod.splits)
    from x(1) iid have "\<exists>y. x = InterventionRequiredResult y \<and> ir_intervention_id y = iid"
      by (auto simp: mk_intervention_required_def Let_def trim_id split: if_splits)
    with x(2) t show "retained r t" by (auto simp: retained_def update_conv')
  qed simp
  have route: "triple (\<lambda>s. True)
      (bind_c (on_run (route_discovery (de_env D) ?q iid (df_session (dc_frame c)) ?z ctx)) (\<lambda>routed. ret ()))
      (\<lambda>_ s. is_id INTERVENTION iid) (\<lambda>_ s. True)" for iid ctx
    by (rule triple_bind[OF route_discovery_id]) (rule triple_ret)
  have routed: "leaves retained (then_c (bind_c (on_run (route_discovery (de_env D) ?q iid (df_session (dc_frame c)) ?z ctx))
      (\<lambda>routed. ret ())) (tail iid))" for iid ctx
    unfolding leaves_def by (rule triple_then[OF route tail])
  show ?thesis unfolding hand_over_def Let_def
    by (rule leaves_bind, rule leaves_then, rule leaves_bind, rule leaves_bind, rule routed[unfolded tail_def])
qed

lemma advance_releases:
  assumes "triple (\<lambda>s. True) m (\<lambda>x s. released s \<or> (\<exists>c. x = Paused c)) (\<lambda>_. released)"
  shows "triple (\<lambda>s. True) (advance D m) (\<lambda>r s. released s \<or> retained r s) (\<lambda>_. released)"
  unfolding advance_def
proof (rule triple_bind[OF assms])
  fix x
  let ?Q = "\<lambda>r s. released s \<or> retained r s"
  show "triple (\<lambda>s. released s \<or> (\<exists>c. x = Paused c))
      (case x of Finished r \<Rightarrow> ret r
       | Paused c \<Rightarrow>
           if \<not> de_routed D
           then finally_c (not_discovered (on_run (discovery_failure (de_env D) (df_request (dc_frame c)) True
                  (dp_code (dc_pause c)) ''Discovery is blocked.'' None None))) (\<lambda>r. abandon_run D c)
           else or_close (abandon_run D c) (hand_over D c)) ?Q (\<lambda>_. released)"
  proof (cases x)
    case (Finished r)
    show ?thesis unfolding Finished stretch.case by (rule triple_pre[OF triple_ret]) simp
  next
    case (Paused c)
    have stop: "triple (\<lambda>s. True) (finally_c k (\<lambda>r. abandon_run D c)) ?Q (\<lambda>_. released)" for k :: "discovery_result disc"
      by (rule triple_finally[OF triple_any[where P = "\<lambda>s. True"]])
         (rule triple_conseq[OF abandon_releases], simp_all)+
    have again: "triple (\<lambda>s. True) (then_c (abandon_run D c) (raise e)) ?Q (\<lambda>_. released)" for e
      by (rule triple_then[OF abandon_releases triple_pre[OF triple_raise]])
    have hand: "triple (\<lambda>s. True) (or_close (abandon_run D c) (hand_over D c)) ?Q (\<lambda>_. released)"
      unfolding or_close_def
      by (rule triple_catch[where H = "\<lambda>_ _. True"])
         (rule triple_conseq[OF hand_over_retains[unfolded leaves_def]], simp_all add: again)
    show ?thesis unfolding Paused stretch.case
      by (rule triple_pre[where P = "\<lambda>s. True"]) (simp_all add: stop hand)
  qed
qed

definition settled :: "(exn + discovery_result) \<times> discovery_state \<Rightarrow> bool" where
  "settled x =
     (case x of (r, t) \<Rightarrow> released t \<or> (case r of Inl e \<Rightarrow> False | Inr y \<Rightarrow> retained y t))"

text \<open>
  C15. The session is released or retained. However an execution, or a resumption or a cancellation of
  a continuation the engine holds, ends, normally or by an exception, either no session is open, or
  the last thing done was to close it, or the answer is an intervention and the engine holds the
  continuation under its id. A resumption or cancellation of anything else is refused and changes nothing.
\<close>

theorem discovery_session_is_released:
  "settled (execute_discovery D q s) \<and>
   (case dict_get (dv_continuations s) iid of
      None \<Rightarrow> resume_discovery D iid v s = (Inl (KeyError iid), s) \<and>
              cancel_discovery D iid s = (Inl (KeyError iid), s)
    | Some c \<Rightarrow> settled (resume_discovery D iid v s) \<and> settled (cancel_discovery D iid s))"
proof -
  let ?Q = "\<lambda>r s. released s \<or> retained r s"
  have run: "triple (\<lambda>s. True) (run_discovery D q) (\<lambda>x s. released s \<or> (\<exists>c. x = Paused c)) (\<lambda>_. released)"
    unfolding run_discovery_def
    by (rule triple_then[where R = "\<lambda>s. True"], rule tripleI, simp_all add: update_def)
       (rule triple_bind[where R = "\<lambda>_ s. True"], rule tripleI, simp_all add: engine_clock_def gets_def within_releases)
  have execute: "triple (\<lambda>s. True) (execute_discovery D q) ?Q (\<lambda>_. released)"
    unfolding execute_discovery_def by (rule advance_releases[OF run])
  have pop: "pop_continuation iid s = (Inr c, s\<lparr>dv_continuations := AList.delete iid (dv_continuations s)\<rparr>)"
    if "dict_get (dv_continuations s) iid = Some c" for c
    using that by (simp add: pop_continuation_def continuation_of_def comp_defs)
  have continue: "triple (\<lambda>s. True) (continue_discovery D c v) (\<lambda>x s. released s \<or> (\<exists>c. x = Paused c)) (\<lambda>_. released)" for c
    unfolding continue_discovery_def
    by (rule triple_then[where R = "\<lambda>s. True"], rule tripleI, simp_all add: restore_run_def update_def within_releases)
  have cancel: "triple (\<lambda>s. True) (finally_c k (\<lambda>r. abandon_run D c)) (\<lambda>_. released) (\<lambda>_. released)"
    for k :: "discovery_result disc" and c
    by (rule triple_finally[OF triple_any[where P = "\<lambda>s. True"]]) (rule abandon_releases)+
  have ends: "settled (m u)" if "triple (\<lambda>s. True) m ?Q (\<lambda>_. released)" for m u
    using that by (cases "m u"; cases "fst (m u)") (auto simp: triple_def settled_def dest: spec[where x = u])
  show ?thesis
  proof (cases "dict_get (dv_continuations s) iid")
    case None
    then have "pop_continuation iid s = (Inl (KeyError iid), s)"
      by (simp add: pop_continuation_def continuation_of_def comp_defs)
    then show ?thesis
      unfolding None option.case resume_discovery_def cancel_discovery_def using ends[OF execute, of s]
      by (simp add: bind_c_def)
  next
    case (Some c)
    let ?s = "s\<lparr>dv_continuations := AList.delete iid (dv_continuations s)\<rparr>"
    have "resume_discovery D iid v s = advance D (continue_discovery D c v) ?s"
      by (simp add: resume_discovery_def bind_c_def pop[OF Some])
    moreover obtain k where "cancel_discovery D iid s = finally_c k (\<lambda>r. abandon_run D c) ?s"
      by (simp add: cancel_discovery_def bind_c_def pop[OF Some])
    moreover have "triple (\<lambda>s. True) (finally_c k (\<lambda>r. abandon_run D c)) ?Q (\<lambda>_. released)" for k
      by (rule triple_conseq[OF cancel]) simp_all
    ultimately show ?thesis
      unfolding Some option.case using ends[OF execute] ends[OF advance_releases[OF continue]] ends by simp
  qed
qed

end
