(* ===== verification/Suite.thy ===== *)
theory Suite
  imports DiscoveryRun Registry Applications
begin

text \<open>
  Discovery suites (\<^verbatim>\<open>runs/discovery_suite.py\<close>): a primary discovery, the scenarios that
  branch from it, the artifact that joins them, and the gates before it is published; with the
  services that run a discovery (\<^verbatim>\<open>runs/discovery_service.py\<close>) and a replay
  (\<^verbatim>\<open>runs/service.py\<close>). The registry is that of the theory Registry. What a discovery
  or a replay returns is a function of the history of the service's calls. Suites are kept in
  memory, and an operation runs alone.
\<close>

section \<open>Validations and scenarios\<close>

record replay_validation =
  rv_result :: run_result
  rv_recoveries :: "string list"

record discovery_scenario =
  sc_kind :: scenario_kind
  sc_goal :: string
  sc_code :: string
  sc_description :: string
  sc_result :: discovery_result
  sc_inputs :: json_object

definition mk_discovery_scenario :: "discovery_scenario \<Rightarrow> discovery_scenario result" where
  "mk_discovery_scenario c =
     bind_r (checks
       [(is_field_name (sc_code c), ''discovery scenario code is invalid''),
        (\<not> blank (sc_goal c) \<and> \<not> blank (sc_description c),
           ''discovery scenario requires a goal and description'')]) (\<lambda>_. Inr c)"

definition succeeded :: "run_result \<Rightarrow> bool" where
  "succeeded r = (case r of SuccessResult x \<Rightarrow> True | _ \<Rightarrow> False)"

text \<open>\<open>verifies\<close>, without a scenario and with one.\<close>

definition verifies_primary :: "replay_validation \<Rightarrow> bool" where
  "verifies_primary v = (succeeded (rv_result v) \<and> rv_recoveries v = [])"

definition verifies :: "replay_validation \<Rightarrow> discovery_scenario \<Rightarrow> bool" where
  "verifies v c =
     (case sc_kind c of
        SCENARIO_RECOVERY \<Rightarrow> succeeded (rv_result v) \<and> rv_recoveries v = [sc_code c]
      | SCENARIO_OUTCOME \<Rightarrow>
          (case rv_result v of BusinessOutcomeResult x \<Rightarrow> ou_code x = sc_code c | _ \<Rightarrow> False) \<and>
          rv_recoveries v = []
      | SCENARIO_FAILURE \<Rightarrow>
          (case rv_result v of FailureResult f \<Rightarrow> fr_code f = sc_code c | _ \<Rightarrow> False) \<and>
          rv_recoveries v = [])"

section \<open>Suites\<close>

datatype suite_status = COLLECTING | VALIDATED | PUBLISHED | SUITE_FAILED

datatype primary_source = NEW_DISCOVERY | PUBLISHED_CAPABILITY

record validation_failure =
  vf_tenant :: string
  vf_reason :: string

definition mk_validation_failure :: "validation_failure \<Rightarrow> validation_failure result" where
  "mk_validation_failure f =
     bind_r (checks
       [(is_variant (vf_tenant f), ''validation failure tenant is invalid''),
        (is_field_name (vf_reason f), ''validation failure reason code is invalid'')]) (\<lambda>_. Inr f)"

record discovery_suite =
  du_id :: string
  du_goal :: string
  du_family :: string
  du_tenant :: string
  du_entry_point :: string
  du_inputs :: json_object
  du_primary :: discovery_result
  du_scenarios :: "discovery_scenario list"
  du_artifact :: "capability_artifact option"
  du_status :: suite_status
  du_version :: "string option"
  du_failures :: "validation_failure list"
  du_source :: primary_source

definition success_of :: "discovery_result \<Rightarrow> discovery_success option" where
  "success_of r = (case r of Discovered d \<Rightarrow> Some d | NotDiscovered x \<Rightarrow> None)"

definition suite_candidate :: "discovery_suite \<Rightarrow> capability_artifact option" where
  "suite_candidate u =
     (case du_artifact u of
        Some a \<Rightarrow> Some a
      | None \<Rightarrow> map_option ds_artifact (success_of (du_primary u)))"

definition mk_suite :: "discovery_suite \<Rightarrow> discovery_suite result" where
  "mk_suite u =
     (let won = (success_of (du_primary u) \<noteq> None) in
      bind_r (parse_id (du_id u) (Some SUITE)) (\<lambda>_.
      bind_r (checks
        [(\<not> blank (du_goal u), ''discovery suite goal cannot be empty''),
         (is_family (du_family u) \<and> is_variant (du_tenant u) \<and> is_family (du_entry_point u),
            ''discovery suite routing identity is invalid''),
         (distinct (map sc_code (du_scenarios u)), ''discovery scenario codes must be unique''),
         (du_scenarios u = [] \<or> won, ''discovery scenarios require a successful primary run''),
         (du_status u = SUITE_FAILED \<or> won, ''active discovery suite requires a successful primary run''),
         (du_status u \<notin> {VALIDATED, PUBLISHED} \<or> du_artifact u \<noteq> None,
            ''validated and published suites require an artifact''),
         (du_status u \<noteq> PUBLISHED \<or>
            du_version u = map_option (\<lambda>a. cm_version (art_capability a)) (du_artifact u),
            ''published suite version must match its artifact''),
         (du_status u = PUBLISHED \<or> du_version u = None,
            ''only a published suite may declare a published version''),
         (opt_all (\<lambda>a. cm_application_family (art_capability a) = du_family u) (suite_candidate u),
            ''suite artifact belongs to a different application family'')]) (\<lambda>_. Inr u)))"

section \<open>Joining scenarios\<close>

text \<open>\<open>_shared_prefix_length\<close>: the same actions on the same targets at the same risks.\<close>

definition same_operation :: "step \<Rightarrow> step \<Rightarrow> bool" where
  "same_operation s t =
     (action_tree (st_action s) = action_tree (st_action t) \<and>
      map_option (\<lambda>b. without_description (bundle_tree b)) (st_target s) =
        map_option (\<lambda>b. without_description (bundle_tree b)) (st_target t) \<and>
      st_risk s = st_risk t)"

fun shared_prefix_length :: "step list \<Rightarrow> step list \<Rightarrow> nat" where
  "shared_prefix_length (s # ss) (t # ts) =
     (if same_operation s t then Suc (shared_prefix_length ss ts) else 0)"
| "shared_prefix_length _ _ = 0"

definition same_task :: "capability_artifact \<Rightarrow> capability_artifact \<Rightarrow> bool" where
  "same_task a b =
     (cm_id (art_capability b) = cm_id (art_capability a) \<and>
      cm_application_family (art_capability b) = cm_application_family (art_capability a) \<and>
      co_entry_point (art_compatibility b) = co_entry_point (art_compatibility a) \<and>
      art_inputs b = art_inputs a \<and>
      oc_properties (art_outputs b) = oc_properties (art_outputs a))"

definition positive_surface :: "condition \<Rightarrow> bool" where
  "positive_surface c =
     (case c of
        TextCondition v m \<Rightarrow> True | RenderedTextCondition v m \<Rightarrow> True
      | VisualTextCondition v m r q \<Rightarrow> True
      | ElementCondition t s \<Rightarrow> s \<notin> {EL_ABSENT, EL_HIDDEN}
      | _ \<Rightarrow> False)"

text \<open>\<open>_condition_key\<close> in the post-conditions of the step a scenario branches from.\<close>

definition shows_already :: "step \<Rightarrow> condition \<Rightarrow> bool" where
  "shows_already s c =
     (condition_tree c \<in>
        set (map condition_tree (concat (map surface_conditions (st_postconditions s)))))"

record merging =
  mg_steps :: "step list"
  mg_outcomes :: "business_outcome list"
  mg_failures :: "application_failure list"
  mg_recoveries :: "recovery list"

definition merge_error :: "string \<Rightarrow> 'a result" where
  "merge_error m = Inl (ValueError m)"

definition branch_outcome :: "discovery_scenario \<Rightarrow> condition \<Rightarrow> string \<Rightarrow> business_outcome result" where
  "branch_outcome c d after =
     (let b = \<lparr>bo_code = trim (sc_code c), bo_description = trim (sc_description c), bo_detect = d,
               bo_allowed_after_steps = [after], bo_details = []\<rparr> in
      bind_r (check_business_outcome b) (\<lambda>_. Inr b))"

definition branch_failure :: "discovery_scenario \<Rightarrow> condition \<Rightarrow> string \<Rightarrow> application_failure result" where
  "branch_failure c d after =
     (let f = \<lparr>af_code = trim (sc_code c), af_description = trim (sc_description c), af_detect = d,
               af_allowed_after_steps = [after],
               af_expected_state = ''the requested operation is unavailable'',
               af_observed_state = trim (sc_description c), af_recoverable = False\<rparr> in
      bind_r (check_application_failure f) (\<lambda>_. Inr f))"

definition recovery_step :: "string \<Rightarrow> nat \<Rightarrow> step \<Rightarrow> step" where
  "recovery_step code i s =
     s\<lparr>st_id := ''recovery_'' @ code @ ''_'' @ show_nat i, st_recovery_refs := [],
       st_outcome_refs := [], st_failure_refs := []\<rparr>"

definition branch_recovery ::
  "discovery_scenario \<Rightarrow> condition \<Rightarrow> step list \<Rightarrow> string \<Rightarrow> recovery result" where
  "branch_recovery c trigger corrective resume =
     (let r = \<lparr>rc_id = trim (sc_code c), rc_trigger = trigger, rc_max_uses = 1,
               rc_steps = map (\<lambda>(i, s). recovery_step (sc_code c) i s) (enumerate 1 corrective),
               rc_resume_at = resume\<rparr> in
      bind_r (check_recovery r) (\<lambda>_. Inr r))"

text \<open>The marker of the branch in the scenario's own trace.\<close>

definition check_marker :: "discovery_scenario \<Rightarrow> step list \<Rightarrow> nat \<Rightarrow> condition \<Rightarrow> unit result" where
  "check_marker c trace n condition =
     checks
       [(n < length trace, ''scenario branch marker is absent from its executed trace''),
        (st_action (trace ! n) = AssertAction condition,
           ''scenario branch marker does not match its executed assertion''),
        (positive_surface condition, ''branch requires a positive distinctive surface condition''),
        (sc_kind c = SCENARIO_RECOVERY \<or> length trace = n + 1,
           ''terminal scenario must stop after its verified branch marker'')]"

definition check_corrective :: "step list \<Rightarrow> condition \<Rightarrow> unit result" where
  "check_corrective corrective condition =
     checks
       [(corrective \<noteq> [], ''recovery trace contains no recovery actions''),
        (\<not> list_ex (\<lambda>s. SENSITIVE \<le> st_risk s) corrective,
           ''recovery traces must remain read-only or reversible''),
        (list_ex (\<lambda>c. proves_distinct_surface c condition) (concat (map st_postconditions corrective)),
           ''recovery trace lacks a distinct verified restored state'')]"

text \<open>The branch that a scenario adds to the step before it.\<close>

definition add_branch ::
  "discovery_scenario \<Rightarrow> step list \<Rightarrow> nat \<Rightarrow> condition \<Rightarrow> merging \<Rightarrow> merging result" where
  "add_branch c trace n condition m =
     (let i = n - 1; s = mg_steps m ! i in
      case sc_kind c of
        SCENARIO_OUTCOME \<Rightarrow>
          if shows_already s condition
          then merge_error ''business outcome does not establish a distinct branch''
          else bind_r (branch_outcome c condition (st_id s)) (\<lambda>b.
            Inr (m\<lparr>mg_outcomes := mg_outcomes m @ [b],
                   mg_steps := (mg_steps m)[i := s\<lparr>st_outcome_refs := st_outcome_refs s @ [sc_code c]\<rparr>]\<rparr>))
      | SCENARIO_FAILURE \<Rightarrow>
          if shows_already s condition
          then merge_error ''application failure does not establish a distinct branch''
          else bind_r (branch_failure c condition (st_id s)) (\<lambda>f.
            Inr (m\<lparr>mg_failures := mg_failures m @ [f],
                   mg_steps := (mg_steps m)[i := s\<lparr>st_failure_refs := st_failure_refs s @ [sc_code c]\<rparr>]\<rparr>))
      | SCENARIO_RECOVERY \<Rightarrow>
          if length (mg_steps m) \<le> n
          then merge_error ''recovery trace has no primary state to rejoin''
          else
            bind_r (check_corrective (drop (n + 1) trace) condition) (\<lambda>_.
            bind_r (branch_recovery c condition (drop (n + 1) trace) (st_id (mg_steps m ! n))) (\<lambda>r.
            Inr (m\<lparr>mg_recoveries := mg_recoveries m @ [r],
                   mg_steps := (mg_steps m)[i := s\<lparr>st_recovery_refs := st_recovery_refs s @ [sc_code c]\<rparr>]\<rparr>))))"

definition merge_scenario ::
  "capability_artifact \<Rightarrow> discovery_scenario \<Rightarrow> merging \<Rightarrow> merging result" where
  "merge_scenario a c m =
     (case success_of (sc_result c) of
        None \<Rightarrow> merge_error (''scenario '' @ sc_code c @ '' did not produce verified evidence'')
      | Some d \<Rightarrow>
          if \<not> same_task a (ds_artifact d)
          then merge_error ''scenario evidence does not match the primary task contract''
          else case ds_branch d of
            None \<Rightarrow> merge_error ''scenario trace lacks an explicit verified branch marker''
          | Some b \<Rightarrow>
              (let trace = art_steps (ds_artifact d); n = nat (br_after_steps b) in
               if int (shared_prefix_length (art_steps a) trace) < br_after_steps b
               then merge_error ''scenario trace does not share a verified primary prefix''
               else
                 bind_r (check_marker c trace n (br_condition b)) (\<lambda>_.
                 add_branch c trace n (br_condition b) m)))"

fun merge_all ::
  "capability_artifact \<Rightarrow> discovery_scenario list \<Rightarrow> merging \<Rightarrow> merging result" where
  "merge_all a [] m = Inr m"
| "merge_all a (c # cs) m = bind_r (merge_scenario a c m) (merge_all a cs)"

definition merged_policy ::
  "capability_artifact \<Rightarrow> discovery_scenario list \<Rightarrow> merging \<Rightarrow> capability_policy" where
  "merged_policy a cs m =
     (art_policy a)
       \<lparr>cy_action_types := remdups (cy_action_types (art_policy a) @
          map (\<lambda>s. action_kind (st_action s)) (concat (map rc_steps (mg_recoveries m)))),
        cy_route_patterns := remdups (cy_route_patterns (art_policy a) @
          concat (map (\<lambda>c. case success_of (sc_result c) of None \<Rightarrow> []
            | Some d \<Rightarrow> cy_route_patterns (art_policy (ds_artifact d))) cs))\<rparr>"

text \<open>\<open>_merge_scenarios\<close>.\<close>

definition merge_scenarios ::
  "(string \<Rightarrow> bool) \<Rightarrow> capability_artifact \<Rightarrow> discovery_scenario list \<Rightarrow> capability_artifact result" where
  "merge_scenarios compiles a cs =
     bind_r (merge_all a cs
       \<lparr>mg_steps = art_steps a, mg_outcomes = art_outcomes a, mg_failures = art_failures a,
        mg_recoveries = art_recoveries a\<rparr>) (\<lambda>m.
     if mg_outcomes m = [] \<and> mg_failures m = [] \<and> mg_recoveries m = [] then Inr a
     else
       (let b = set_hash None (a\<lparr>art_steps := mg_steps m, art_outcomes := mg_outcomes m,
              art_failures := mg_failures m, art_recoveries := mg_recoveries m,
              art_policy := merged_policy a cs m\<rparr>) in
        bind_r (check_artifact compiles b) (\<lambda>_. Inr b)))"

end
