(* ===== verification/SuiteService.thy ===== *)
theory SuiteService
  imports Suite
begin

text \<open>
  The services over the engines: \<open>ReplayApplicationService\<close> (\<^verbatim>\<open>runs/service.py\<close>),
  \<open>DiscoveryApplicationService\<close> (\<^verbatim>\<open>runs/discovery_service.py\<close>) and
  \<open>DiscoverySuiteService\<close> with its repository and snapshots (\<^verbatim>\<open>runs/discovery_suite.py\<close>).
\<close>

section \<open>State and history\<close>

text \<open>What the service asked for, latest first.\<close>

datatype suite_event =
    EvDiscovery discovery_request "discovery_result result"
  | EvReplay capability_artifact string json_object "replay_validation result"
  | EvPublish capability_artifact "version_record result"

record suite_state =
  ss_suites :: "discovery_suite dict"
  ss_registry :: records
  ss_history :: "suite_event list"

type_synonym 'a suites = "(suite_state, 'a) comp"

text \<open>
  \<open>se_discover\<close> is the executor of a discovery with the finalizer of its result, \<open>se_validator\<close> the
  replay of an unpublished artifact. \<open>se_fault\<close> is what the disk of the registry raises, if anything.
\<close>

record suite_env =
  se_uuid :: "suite_event list \<Rightarrow> string"
  se_clock :: "suite_event list \<Rightarrow> datetime"
  se_discover :: "suite_event list \<Rightarrow> discovery_request \<Rightarrow> discovery_result result"
  se_validator ::
    "(suite_event list \<Rightarrow> capability_artifact \<Rightarrow> string \<Rightarrow> json_object \<Rightarrow> replay_validation result) option"
  se_applications :: "application_registry option"
  se_serializer :: serializer
  se_compiles :: "string \<Rightarrow> bool"
  se_fault :: "suite_event list \<Rightarrow> exn option"

definition log_call :: "suite_event \<Rightarrow> unit suites" where
  "log_call ev = update (\<lambda>s. s\<lparr>ss_history := ev # ss_history s\<rparr>)"

definition suite_error :: "string \<Rightarrow> 'a suites" where
  "suite_error m = raise (DiscoverySuiteError m)"

text \<open>\<open>except ValueError as error: raise DiscoverySuiteError(m)\<close>.\<close>

definition as_suite_error :: "string \<Rightarrow> 'a result \<Rightarrow> 'a result" where
  "as_suite_error m r =
     (case r of
        Inr x \<Rightarrow> Inr x
      | Inl e \<Rightarrow> if value_error e = None then Inl e else Inl (DiscoverySuiteError m))"

section \<open>Replays of the service\<close>

text \<open>
  \<open>ReplayApplicationService\<close>: \<open>invoke\<close> resolves a registered artifact, \<open>validate_artifact\<close> takes an
  unpublished one and adds the tenant to its variants. The executor and the finalizer are arguments.
\<close>

definition resolve_record :: "records \<Rightarrow> string \<Rightarrow> string option \<Rightarrow> version_record result" where
  "resolve_record recs capability version =
     (case version of None \<Rightarrow> mem_latest recs capability | Some v \<Rightarrow> registry_get recs capability v)"

definition invoke_replay ::
  "(version_record \<Rightarrow> replay_request \<Rightarrow> run_result result) \<Rightarrow> (run_result \<Rightarrow> run_result result)
     \<Rightarrow> string \<Rightarrow> records \<Rightarrow> string \<Rightarrow> string option \<Rightarrow> string \<Rightarrow> json_object \<Rightarrow> run_result result" where
  "invoke_replay execute finish uuid recs capability version tenant inputs =
     bind_r (resolve_record recs capability version) (\<lambda>r.
     bind_r (execute r
       \<lparr>rq_run_id = new_id uuid RUN, rq_artifact = vr_artifact r, rq_tenant = tenant, rq_inputs = inputs,
        rq_allow_intervention = True\<rparr>) finish)"

definition for_tenant :: "capability_artifact \<Rightarrow> string \<Rightarrow> capability_artifact" where
  "for_tenant a tenant =
     (if tenant \<in> set (co_supported_variants (art_compatibility a)) then a
      else set_hash None (a\<lparr>art_compatibility := (art_compatibility a)
        \<lparr>co_supported_variants := co_supported_variants (art_compatibility a) @ [tenant]\<rparr>\<rparr>))"

definition validate_unpublished ::
  "serializer \<Rightarrow> datetime \<Rightarrow> (version_record \<Rightarrow> replay_request \<Rightarrow> run_result result)
     \<Rightarrow> (run_result \<Rightarrow> run_result result) \<Rightarrow> string \<Rightarrow> capability_artifact \<Rightarrow> string \<Rightarrow> json_object
     \<Rightarrow> run_result result" where
  "validate_unpublished Z now execute finish uuid a tenant inputs =
     (let b = for_tenant a tenant;
          r = \<lparr>vr_artifact = b, vr_hash = artifact_content_hash Z b, vr_published = now\<rparr> in
      bind_r (execute r
        \<lparr>rq_run_id = new_id uuid RUN, rq_artifact = b, rq_tenant = tenant, rq_inputs = inputs,
         rq_allow_intervention = False\<rparr>) finish)"

section \<open>Discoveries of the service\<close>

definition discover ::
  "suite_env \<Rightarrow> string \<Rightarrow> string \<Rightarrow> string \<Rightarrow> string \<Rightarrow> json_object \<Rightarrow> int \<Rightarrow> int \<Rightarrow> string option
     \<Rightarrow> scenario option \<Rightarrow> discovery_result suites" where
  "discover E goal family tenant entry_point inputs max_steps timeout_seconds existing context =
     bind_c (gets (\<lambda>s. new_id (se_uuid E (ss_history s)) RUN)) (\<lambda>run_id.
     bind_c (lift_c (mk_discovery_request
       \<lparr>dq_run_id = run_id, dq_goal = goal, dq_family = family, dq_tenant = tenant,
        dq_entry_point = entry_point, dq_inputs = inputs, dq_existing_id = existing,
        dq_scenario = context, dq_max_steps = max_steps, dq_timeout = timeout_seconds * 1000000,
        dq_max_repeated_state = 2, dq_max_repeated_action = 2, dq_minimum_confidence = 3 / 5\<rparr>)) (\<lambda>q.
     bind_c (gets (\<lambda>s. se_discover E (ss_history s) q)) (\<lambda>r.
     then_c (log_call (EvDiscovery q r)) (lift_c r))))"

section \<open>The repository and what a suite needs\<close>

definition get_suite :: "string \<Rightarrow> discovery_suite suites" where
  "get_suite i =
     bind_c (gets (\<lambda>s. dict_get (ss_suites s) i)) (\<lambda>found.
     case found of None \<Rightarrow> suite_error ''discovery suite was not found'' | Some u \<Rightarrow> ret u)"

definition save_suite :: "discovery_suite \<Rightarrow> unit suites" where
  "save_suite u = update (\<lambda>s. s\<lparr>ss_suites := dict_set (du_id u) u (ss_suites s)\<rparr>)"

text \<open>\<open>replace(suite, ...)\<close>, which validates, and \<open>save\<close>.\<close>

definition store_suite :: "discovery_suite \<Rightarrow> discovery_suite suites" where
  "store_suite u = bind_c (lift_c (mk_suite u)) (\<lambda>v. then_c (save_suite v) (ret v))"

definition assert_target :: "suite_env \<Rightarrow> string \<Rightarrow> string \<Rightarrow> string \<Rightarrow> unit result" where
  "assert_target E family tenant entry_point =
     (case se_applications E of
        None \<Rightarrow> Inr ()
      | Some reg \<Rightarrow>
          bind_r (as_suite_error ''application target is not registered''
            (resolve_application reg family tenant entry_point)) (\<lambda>l. Inr ()))"

definition run_validator ::
  "suite_env \<Rightarrow> string \<Rightarrow> capability_artifact \<Rightarrow> string \<Rightarrow> json_object \<Rightarrow> replay_validation suites" where
  "run_validator E missing a tenant inputs =
     (case se_validator E of
        None \<Rightarrow> suite_error missing
      | Some validator \<Rightarrow>
          bind_c (gets (\<lambda>s. validator (ss_history s) a tenant inputs)) (\<lambda>r.
          then_c (log_call (EvReplay a tenant inputs r)) (lift_c r)))"

definition record_validation_failure :: "discovery_suite \<Rightarrow> string \<Rightarrow> string \<Rightarrow> unit suites" where
  "record_validation_failure u tenant reason =
     bind_c (lift_c (mk_validation_failure \<lparr>vf_tenant = tenant, vf_reason = reason\<rparr>)) (\<lambda>f.
     bind_c (store_suite (u\<lparr>du_failures := du_failures u @ [f]\<rparr>)) (\<lambda>v. ret ()))"

definition reject_replay :: "discovery_suite \<Rightarrow> string \<Rightarrow> string \<Rightarrow> string \<Rightarrow> 'a suites" where
  "reject_replay u tenant reason message =
     then_c (record_validation_failure u tenant reason) (suite_error message)"

text \<open>\<open>_validate_scenarios\<close>.\<close>

fun validate_scenarios ::
  "suite_env \<Rightarrow> discovery_suite \<Rightarrow> capability_artifact \<Rightarrow> string \<Rightarrow> discovery_scenario list \<Rightarrow> unit suites" where
  "validate_scenarios E u a tenant [] = ret ()"
| "validate_scenarios E u a tenant (c # cs) =
     bind_c (run_validator E [] a tenant (sc_inputs c)) (\<lambda>v.
     if \<not> verifies v c
     then reject_replay u tenant ''scenario_replay_failed''
       ''scenario replay did not verify its declared disposition''
     else validate_scenarios E u a tenant cs)"

definition suite_artifact :: "suite_env \<Rightarrow> discovery_suite \<Rightarrow> discovery_success \<Rightarrow> capability_artifact result" where
  "suite_artifact E u d =
     as_suite_error ''scenario evidence could not be merged safely''
       (case du_artifact u of
          Some a \<Rightarrow> Inr a
        | None \<Rightarrow> merge_scenarios (se_compiles E) (ds_artifact d) (du_scenarios u))"

definition primary_of :: "discovery_suite \<Rightarrow> string \<Rightarrow> discovery_success suites" where
  "primary_of u m =
     (case success_of (du_primary u) of None \<Rightarrow> suite_error m | Some d \<Rightarrow> ret d)"

definition still_open :: "discovery_suite \<Rightarrow> string \<Rightarrow> unit suites" where
  "still_open u m =
     (if du_status u \<in> {COLLECTING, VALIDATED} then ret () else suite_error m)"

section \<open>The operations\<close>

definition new_suite ::
  "string \<Rightarrow> string \<Rightarrow> string \<Rightarrow> string \<Rightarrow> string \<Rightarrow> json_object \<Rightarrow> discovery_result \<Rightarrow> suite_status
     \<Rightarrow> primary_source \<Rightarrow> discovery_suite" where
  "new_suite i goal family tenant entry_point inputs primary status source =
     \<lparr>du_id = i, du_goal = goal, du_family = family, du_tenant = tenant, du_entry_point = entry_point,
      du_inputs = inputs, du_primary = primary, du_scenarios = [], du_artifact = None,
      du_status = status, du_version = None, du_failures = [], du_source = source\<rparr>"

definition create_suite ::
  "suite_env \<Rightarrow> string \<Rightarrow> string \<Rightarrow> string \<Rightarrow> string \<Rightarrow> json_object \<Rightarrow> int \<Rightarrow> int \<Rightarrow> string option
     \<Rightarrow> discovery_suite suites" where
  "create_suite E goal family tenant entry_point inputs max_steps timeout_seconds existing =
     then_c (lift_c (assert_target E family tenant entry_point))
     (bind_c (discover E goal family tenant entry_point inputs max_steps timeout_seconds existing None) (\<lambda>r.
      bind_c (gets (\<lambda>s. new_id (se_uuid E (ss_history s)) SUITE)) (\<lambda>i.
      store_suite (new_suite i goal family tenant entry_point inputs r
        (if success_of r = None then SUITE_FAILED else COLLECTING) NEW_DISCOVERY))))"

definition publication_error :: "exn \<Rightarrow> unit option" where
  "publication_error e =
     (case e of CapabilityConflictError m \<Rightarrow> Some () | CapabilityIntegrityError m \<Rightarrow> Some ()
      | CapabilityPublicationError m \<Rightarrow> Some () | _ \<Rightarrow> None)"

definition unavailable_error :: "exn \<Rightarrow> unit option" where
  "unavailable_error e =
     (case e of CapabilityNotFoundError m \<Rightarrow> Some () | CapabilityIntegrityError m \<Rightarrow> Some ()
      | CapabilityPublicationError m \<Rightarrow> Some () | _ \<Rightarrow> None)"

definition published_primary :: "suite_env \<Rightarrow> string \<Rightarrow> string \<Rightarrow> capability_artifact suites" where
  "published_primary E capability version =
     bind_c (gets (\<lambda>s. case se_fault E (ss_history s) of
         Some e \<Rightarrow> Inl e | None \<Rightarrow> registry_get (ss_registry s) capability version)) (\<lambda>r.
     case r of
       Inr rec \<Rightarrow> ret (vr_artifact rec)
     | Inl e \<Rightarrow>
         if unavailable_error e = None then raise e
         else suite_error ''published primary is unavailable'')"

definition from_published ::
  "suite_env \<Rightarrow> string \<Rightarrow> string \<Rightarrow> string \<Rightarrow> json_object \<Rightarrow> discovery_suite suites" where
  "from_published E capability version tenant inputs =
     bind_c (published_primary E capability version) (\<lambda>a.
     let family = cm_application_family (art_capability a);
         entry_point = co_entry_point (art_compatibility a);
         failed = ''published primary did not pass fresh deterministic replay'' in
     then_c (lift_c (assert_target E family tenant entry_point))
     (bind_c (run_validator E failed a tenant inputs) (\<lambda>v.
      if \<not> verifies_primary v then suite_error failed
      else
        bind_c (lift_c (mk_discovery_success
          \<lparr>ds_run_id = pv_discovery_run_id (art_provenance a), ds_artifact = a,
           ds_manifest = pv_evidence_manifest_key (art_provenance a), ds_branch = None\<rparr>)) (\<lambda>d.
        bind_c (gets (\<lambda>s. new_id (se_uuid E (ss_history s)) SUITE)) (\<lambda>i.
        store_suite (new_suite i (cm_description (art_capability a)) family tenant entry_point inputs
          (Discovered d) COLLECTING PUBLISHED_CAPABILITY))))))"

definition restore_scenarios ::
  "suite_env \<Rightarrow> string \<Rightarrow> discovery_scenario list \<Rightarrow> discovery_suite suites" where
  "restore_scenarios E i scenarios =
     bind_c (get_suite i) (\<lambda>u.
     if du_status u \<noteq> COLLECTING \<or> du_scenarios u \<noteq> []
     then suite_error ''restoration requires an empty collecting suite''
     else case success_of (du_primary u) of
       None \<Rightarrow> suite_error ''restoration requires a primary and bounded scenarios''
     | Some d \<Rightarrow>
         if scenarios = [] \<or> 50 < length scenarios
         then suite_error ''restoration requires a primary and bounded scenarios''
         else
           bind_c (lift_c (merge_scenarios (se_compiles E) (ds_artifact d) scenarios)) (\<lambda>a.
           store_suite (u\<lparr>du_scenarios := scenarios, du_artifact := None\<rparr>)))"

definition scenario_code :: "discovery_suite \<Rightarrow> string option \<Rightarrow> string" where
  "scenario_code u code =
     (if truthy code then the code else ''scenario_'' @ show_nat (length (du_scenarios u) + 1))"

definition add_scenario ::
  "suite_env \<Rightarrow> string \<Rightarrow> scenario_kind \<Rightarrow> string \<Rightarrow> json_object \<Rightarrow> string option \<Rightarrow> string option
     \<Rightarrow> int \<Rightarrow> int \<Rightarrow> discovery_suite suites" where
  "add_scenario E i kind goal inputs code description max_steps timeout_seconds =
     bind_c (get_suite i) (\<lambda>u.
     bind_c (primary_of u ''a scenario requires a successful primary discovery'') (\<lambda>d.
     then_c (still_open u ''suite is no longer collecting scenarios'')
     (if scenario_code u code \<in> set (map sc_code (du_scenarios u))
      then suite_error ''scenario codes must be unique within a suite''
      else
        bind_c (discover E goal (du_family u) (du_tenant u) (du_entry_point u) inputs max_steps
                  timeout_seconds None (Some \<lparr>sn_primary = ds_artifact d, sn_kind = kind\<rparr>)) (\<lambda>r.
        bind_c (lift_c (mk_discovery_scenario
          \<lparr>sc_kind = kind, sc_goal = goal, sc_code = scenario_code u code,
           sc_description = (if truthy description then the description else goal), sc_result = r,
           sc_inputs = inputs\<rparr>)) (\<lambda>c.
        store_suite (u\<lparr>du_scenarios := du_scenarios u @ [c], du_artifact := None,
                       du_status := COLLECTING\<rparr>))))))"

definition publish_merged :: "suite_env \<Rightarrow> capability_artifact \<Rightarrow> version_record result suites" where
  "publish_merged E a =
     bind_c (gets (\<lambda>s. case se_fault E (ss_history s) of
         Some e \<Rightarrow> Inl e
       | None \<Rightarrow> mem_publish_next (se_serializer E) (se_clock E (ss_history s)) (ss_registry s) a)) (\<lambda>r.
     case r of
       Inl e \<Rightarrow> then_c (log_call (EvPublish a (Inl e))) (ret (Inl e))
     | Inr (rec, recs) \<Rightarrow>
         then_c (update (\<lambda>s. s\<lparr>ss_registry := recs\<rparr>))
         (then_c (log_call (EvPublish a (Inr rec))) (ret (Inr rec))))"

definition publish_suite :: "suite_env \<Rightarrow> discovery_suite \<Rightarrow> capability_artifact \<Rightarrow> discovery_suite suites" where
  "publish_suite E u a =
     bind_c (publish_merged E a) (\<lambda>r.
     case r of
       Inl e \<Rightarrow>
         if publication_error e = None then raise e
         else
           bind_c (store_suite (u\<lparr>du_artifact := Some a, du_status := VALIDATED\<rparr>)) (\<lambda>v.
           suite_error ''capability publication failed safely'')
     | Inr rec \<Rightarrow>
         store_suite (u\<lparr>du_artifact := Some (vr_artifact rec), du_status := PUBLISHED,
           du_version := Some (cm_version (art_capability (vr_artifact rec)))\<rparr>))"

definition finalize_suite :: "suite_env \<Rightarrow> string \<Rightarrow> discovery_suite suites" where
  "finalize_suite E i =
     bind_c (get_suite i) (\<lambda>u.
     then_c (still_open u ''suite is not ready for finalization'')
     (bind_c (primary_of u ''cannot finalize an unsuccessful primary discovery'') (\<lambda>d.
      bind_c (lift_c (suite_artifact E u d)) (\<lambda>a.
      if SENSITIVE \<le> cm_risk (art_capability a)
      then
        bind_c (store_suite (u\<lparr>du_artifact := Some a, du_status := SUITE_FAILED\<rparr>)) (\<lambda>v.
        suite_error ''sensitive and irreversible capability drafts cannot be published'')
      else
        bind_c (run_validator E ''final deterministic replay validation is unavailable'' a (du_tenant u)
                  (du_inputs u)) (\<lambda>v.
        if \<not> verifies_primary v
        then reject_replay u (du_tenant u) ''primary_replay_failed''
          ''final deterministic replay did not pass''
        else
          then_c (validate_scenarios E u a (du_tenant u) (du_scenarios u))
          (publish_suite E u a))))))"

definition validate_suite :: "suite_env \<Rightarrow> string \<Rightarrow> string \<Rightarrow> json_object \<Rightarrow> discovery_suite suites" where
  "validate_suite E i tenant inputs =
     bind_c (get_suite i) (\<lambda>u.
     then_c (still_open u ''suite is not accepting compatibility validations'')
     (bind_c (primary_of u ''a scenario requires a successful primary discovery'') (\<lambda>d.
      then_c (lift_c (assert_target E (du_family u) tenant (du_entry_point u)))
      (bind_c (lift_c (suite_artifact E u d)) (\<lambda>a.
       bind_c (run_validator E ''deterministic compatibility validation is unavailable'' a tenant inputs) (\<lambda>v.
       if \<not> verifies_primary v
       then reject_replay u tenant ''compatibility_replay_failed'' ''compatibility replay did not pass''
       else
         then_c (validate_scenarios E u a tenant (du_scenarios u))
         (bind_c (lift_c (if tenant \<in> set (co_supported_variants (art_compatibility a)) then Inr a
              else bind_r (check_artifact (se_compiles E) (for_tenant a tenant)) (\<lambda>_.
                Inr (for_tenant a tenant)))) (\<lambda>b.
          store_suite (u\<lparr>du_artifact := Some b, du_status := VALIDATED\<rparr>)))))))))"

definition published_artifact :: "string \<Rightarrow> capability_artifact suites" where
  "published_artifact i =
     bind_c (get_suite i) (\<lambda>u.
     case (du_status u, du_artifact u) of
       (PUBLISHED, Some a) \<Rightarrow> ret a
     | _ \<Rightarrow> suite_error ''suite artifact is not published'')"

definition scenario_artifact :: "string \<Rightarrow> string \<Rightarrow> capability_artifact suites" where
  "scenario_artifact i code =
     bind_c (get_suite i) (\<lambda>u.
     case find (\<lambda>c. sc_code c = code \<and> success_of (sc_result c) \<noteq> None) (du_scenarios u) of
       Some c \<Rightarrow> ret (ds_artifact (the (success_of (sc_result c))))
     | None \<Rightarrow> suite_error ''verified scenario artifact was not found'')"

section \<open>Snapshots\<close>

definition text_json :: "string option \<Rightarrow> json" where
  "text_json x = (case x of None \<Rightarrow> JNull | Some v \<Rightarrow> JStr v)"

text \<open>\<open>_result_snapshot\<close>.\<close>

definition discovered_snapshot :: "serializer \<Rightarrow> discovery_success \<Rightarrow> json_object" where
  "discovered_snapshot Z d =
     [(''status'', JStr ''success''), (''run_id'', JStr (ds_run_id d)),
      (''capability_id'', JStr (cm_id (art_capability (ds_artifact d)))),
      (''content_hash'', JStr (artifact_content_hash Z (ds_artifact d))),
      (''evidence_manifest'', JStr (ds_manifest d))]"

definition step_entry :: "string option \<Rightarrow> json_object" where
  "step_entry x = (case x of None \<Rightarrow> [] | Some v \<Rightarrow> [(''step_id'', JStr v)])"

definition failure_snapshot :: "failure_result \<Rightarrow> json_object" where
  "failure_snapshot f =
     [(''status'', JStr ''failure''), (''run_id'', JStr (fr_run_id f)), (''code'', JStr (fr_code f))] @
     step_entry (fr_step_id f) @
     [(''recoverable'', JBool (fr_recoverable f)), (''evidence_manifest'', JStr (fr_manifest f))] @
     (case fr_privacy f of
        None \<Rightarrow> []
      | Some g \<Rightarrow> [(''privacy_rejection'',
          JObj [(''source'', JStr (pg_source g)), (''location'', JStr (pg_location g))])])"

definition intervention_snapshot :: "intervention_result \<Rightarrow> json_object" where
  "intervention_snapshot r =
     [(''status'', JStr ''intervention_required''), (''run_id'', JStr (ir_run_id r)),
      (''code'', JStr (ir_code r))] @ step_entry (ir_step_id r) @
     [(''intervention_id'', JStr (ir_intervention_id r)), (''session_live'', JBool True),
      (''control_owner'', JStr ''automation_paused'')]"

definition result_snapshot :: "serializer \<Rightarrow> discovery_result \<Rightarrow> json_object" where
  "result_snapshot Z r =
     (case r of
        Discovered d \<Rightarrow> discovered_snapshot Z d
      | NotDiscovered (FailureResult f) \<Rightarrow> failure_snapshot f
      | NotDiscovered (InterventionRequiredResult x) \<Rightarrow> intervention_snapshot x
      | NotDiscovered x \<Rightarrow> [(''status'', JStr ''unknown'')])"

text \<open>\<open>_contract_snapshot\<close> and \<open>_artifact_snapshot\<close>: shapes and classifications, no values.\<close>

definition contract_snapshot :: "object_contract \<Rightarrow> json_object" where
  "contract_snapshot c =
     [(''required'', JList (map JStr (oc_required c))),
      (''properties'', JObj (map (\<lambda>(name, s).
         (name, JObj
           [(''type'', JStr (type_word (vs_type s))),
            (''data_classification'', JStr (classification_word (vs_classification s))),
            (''persistence'', JStr (persistence_word (vs_persistence s))),
            (''format'', text_json (map_option format_word (vs_format s)))])) (oc_properties c)))]"

definition artifact_snapshot :: "serializer \<Rightarrow> capability_artifact \<Rightarrow> json_object" where
  "artifact_snapshot Z a =
     [(''capability_id'', JStr (cm_id (art_capability a))),
      (''version'', JStr (cm_version (art_capability a))),
      (''risk'', JStr (risk_word (cm_risk (art_capability a)))),
      (''content_hash'', JStr (artifact_content_hash Z a)),
      (''input_fields'', JList (map (\<lambda>(n, s). JStr n) (oc_properties (art_inputs a)))),
      (''output_fields'', JList (map JStr (oc_required (art_outputs a)))),
      (''input_contract'', JObj (contract_snapshot (art_inputs a))),
      (''output_contract'', JObj (contract_snapshot (art_outputs a))),
      (''supported_variants'', JList (map JStr (co_supported_variants (art_compatibility a)))),
      (''step_count'', JInt (int (length (art_steps a)))),
      (''route_patterns'', JList (map JStr (sort (cy_route_patterns (art_policy a)))))]"

fun status_word :: "suite_status \<Rightarrow> string" where
  "status_word COLLECTING = ''collecting''"
| "status_word VALIDATED = ''validated''"
| "status_word PUBLISHED = ''published''"
| "status_word SUITE_FAILED = ''failed''"

fun source_word :: "primary_source \<Rightarrow> string" where
  "source_word NEW_DISCOVERY = ''new_discovery''"
| "source_word PUBLISHED_CAPABILITY = ''published_capability''"

fun scenario_word :: "scenario_kind \<Rightarrow> string" where
  "scenario_word SCENARIO_OUTCOME = ''business_outcome''"
| "scenario_word SCENARIO_FAILURE = ''application_failure''"
| "scenario_word SCENARIO_RECOVERY = ''recovery''"

definition suite_snapshot :: "serializer \<Rightarrow> discovery_suite \<Rightarrow> json_object" where
  "suite_snapshot Z u =
     [(''suite_id'', JStr (du_id u)), (''status'', JStr (status_word (du_status u))),
      (''application_family'', JStr (du_family u)), (''tenant'', JStr (du_tenant u)),
      (''entry_point'', JStr (du_entry_point u)), (''primary'', JObj (result_snapshot Z (du_primary u))),
      (''primary_source'', JStr (source_word (du_source u))),
      (''scenario_count'', JInt (int (length (du_scenarios u)))),
      (''scenarios'', JList (map (\<lambda>c. JObj
         [(''kind'', JStr (scenario_word (sc_kind c))), (''code'', JStr (sc_code c)),
          (''result'', JObj (result_snapshot Z (sc_result c)))]) (du_scenarios u))),
      (''artifact'', (case suite_candidate u of None \<Rightarrow> JNull | Some a \<Rightarrow> JObj (artifact_snapshot Z a))),
      (''published_version'', text_json (du_version u)),
      (''validation_failures'', JList (map (\<lambda>f. JObj
         [(''tenant'', JStr (vf_tenant f)), (''reason'', JStr (vf_reason f))]) (du_failures u)))]"

end
