(* ===== verification/SuiteGuarantees.thy ===== *)
theory SuiteGuarantees
  imports SuiteService RegistryGuarantees ArtifactSample
begin

text \<open>
  What a suite promises: nothing is published that its replays did not prove, and joining scenarios
  adds branches to the primary program without changing what it does.
\<close>

section \<open>The proof of a publication\<close>

text \<open>The replays of the scenarios, in order, each with the disposition its scenario declares.\<close>

fun scenario_proofs ::
  "capability_artifact \<Rightarrow> string \<Rightarrow> discovery_scenario list \<Rightarrow> suite_event list \<Rightarrow> bool" where
  "scenario_proofs a tenant [] evs = (evs = [])"
| "scenario_proofs a tenant (c # cs) (EvReplay b t inputs (Inr v) # evs) =
     (b = a \<and> t = tenant \<and> inputs = sc_inputs c \<and> verifies v c \<and> scenario_proofs a tenant cs evs)"
| "scenario_proofs a tenant (c # cs) evs = False"

lemma scenario_proofs_append:
  "scenario_proofs a tenant cs evs \<Longrightarrow> verifies v c \<Longrightarrow>
     scenario_proofs a tenant (cs @ [c]) (evs @ [EvReplay a tenant (sc_inputs c) (Inr v)])"
  by (induction a tenant cs evs rule: scenario_proofs.induct) auto

text \<open>A history that ends in the replays that prove an artifact of a suite: latest first.\<close>

definition proving ::
  "discovery_suite \<Rightarrow> capability_artifact \<Rightarrow> discovery_scenario list \<Rightarrow> suite_event list \<Rightarrow> bool" where
  "proving u a done h =
     (\<exists>v proofs earlier.
        h = rev proofs @ EvReplay a (du_tenant u) (du_inputs u) (Inr v) # earlier \<and>
        verifies_primary v \<and> scenario_proofs a (du_tenant u) done proofs)"

text \<open>
  The artifact of a suite: the primary program joined with its scenarios, for the tenants that were
  added since.
\<close>

definition derived :: "suite_env \<Rightarrow> discovery_suite \<Rightarrow> capability_artifact \<Rightarrow> bool" where
  "derived E u a =
     (\<exists>d b tenants. success_of (du_primary u) = Some d \<and>
        merge_scenarios (se_compiles E) (ds_artifact d) (du_scenarios u) = Inr b \<and>
        a = fold (\<lambda>t b. for_tenant b t) tenants b)"

definition proven :: "suite_env \<Rightarrow> suite_state \<Rightarrow> discovery_suite \<Rightarrow> bool" where
  "proven E s u =
     (\<exists>a r later earlier v.
        ss_history s = later @ EvPublish a (Inr r) # earlier \<and> proving u a (du_scenarios u) earlier \<and>
        derived E u a \<and> cm_risk (art_capability a) < SENSITIVE \<and>
        vr_artifact r = versioned (se_serializer E) a v \<and> du_artifact u = Some (vr_artifact r) \<and>
        map_of (ss_registry s) (artifact_key (vr_artifact r)) = Some r)"

definition gated :: "suite_env \<Rightarrow> suite_state \<Rightarrow> bool" where
  "gated E s =
     (\<forall>(i, u)\<in>set (ss_suites s).
        i = du_id u \<and> (du_status u = PUBLISHED \<longrightarrow> proven E s u) \<and>
        (du_status u \<noteq> PUBLISHED \<longrightarrow> opt_all (derived E u) (du_artifact u)))"

section \<open>What changes the state\<close>

lemma proven_mono:
  assumes "proven E s u" "ss_history t = newer @ ss_history s"
    and "\<And>k x. map_of (ss_registry s) k = Some x \<Longrightarrow> map_of (ss_registry t) k = Some x"
  shows "proven E t u"
proof -
  from assms(1) obtain a r later earlier v where
    p: "ss_history s = later @ EvPublish a (Inr r) # earlier" "proving u a (du_scenarios u) earlier"
    "derived E u a" "cm_risk (art_capability a) < SENSITIVE"
    "vr_artifact r = versioned (se_serializer E) a v" "du_artifact u = Some (vr_artifact r)"
    "map_of (ss_registry s) (artifact_key (vr_artifact r)) = Some r"
    unfolding proven_def by blast
  have "ss_history t = (newer @ later) @ EvPublish a (Inr r) # earlier" by (simp add: p(1) assms(2))
  with p(2-6) assms(3)[OF p(7)] show ?thesis unfolding proven_def by blast
qed

lemma gated_mono:
  assumes "gated E s" "ss_suites t = ss_suites s" "ss_history t = newer @ ss_history s"
    and "\<And>k x. map_of (ss_registry s) k = Some x \<Longrightarrow> map_of (ss_registry t) k = Some x"
  shows "gated E t"
  unfolding gated_def assms(2)
proof (rule ballI)
  fix x
  assume x: "x \<in> set (ss_suites s)"
  obtain i u where [simp]: "x = (i, u)" by (cases x)
  have "proven E s u \<Longrightarrow> proven E t u" by (rule proven_mono[OF _ assms(3,4)])
  with assms(1) x show "case x of (i, u) \<Rightarrow> i = du_id u \<and> (du_status u = PUBLISHED \<longrightarrow> proven E t u) \<and>
      (du_status u \<noteq> PUBLISHED \<longrightarrow> opt_all (derived E u) (du_artifact u))"
    unfolding gated_def by auto
qed

lemma gated_log: "gated E s \<Longrightarrow> gated E (s\<lparr>ss_history := ev # ss_history s\<rparr>)"
  by (erule gated_mono[where newer = "[ev]"]) simp_all

lemma log_gated: "keeps (gated E) (log_call ev)"
  by (rule keepsI) (simp add: log_call_def update_def gated_log)

lemma suite_simps [simp]:
  "proven E (s\<lparr>ss_suites := us\<rparr>) u = proven E s u"
  by (simp add: proven_def)

text \<open>Only what the gate lets through is stored.\<close>

definition admissible :: "suite_env \<Rightarrow> suite_state \<Rightarrow> discovery_suite \<Rightarrow> bool" where
  "admissible E s u =
     ((du_status u = PUBLISHED \<longrightarrow> proven E s u) \<and>
      (du_status u \<noteq> PUBLISHED \<longrightarrow> opt_all (derived E u) (du_artifact u)))"

lemma set_update: "set (AList.update k v d) \<subseteq> insert (k, v) (set d)"
  by (induction d) auto

lemma store_gated:
  "triple (\<lambda>s. gated E s \<and> admissible E s u) (store_suite u) (\<lambda>_. gated E) (\<lambda>_. gated E)"
proof (rule tripleI)
  fix s v t
  assume pre: "gated E s \<and> admissible E s u" and run: "store_suite u s = (Inr v, t)"
  from run have t: "t = s\<lparr>ss_suites := dict_set (du_id u) u (ss_suites s)\<rparr>"
    by (auto simp: store_suite_def save_suite_def mk_suite_def Let_def comp_defs bind_r_Inr_iff split: sum.splits)
  show "gated E t"
    using pre set_update[of "du_id u" u "ss_suites s"]
    unfolding t gated_def admissible_def by fastforce
next
  fix s e t
  assume "gated E s \<and> admissible E s u" "store_suite u s = (Inl e, t)"
  then show "gated E t"
    by (auto simp: store_suite_def save_suite_def comp_defs split: sum.splits)
qed

lemma store_open:
  assumes "du_status u \<noteq> PUBLISHED" "opt_all (derived E u) (du_artifact u)"
  shows "keeps (gated E) (store_suite u)"
  unfolding keeps_def using assms by (intro triple_pre[OF store_gated]) (simp_all add: admissible_def)

lemma get_gated:
  "triple (gated E) (get_suite i)
     (\<lambda>u s. gated E s \<and> du_id u = i \<and> (du_status u \<noteq> PUBLISHED \<longrightarrow> opt_all (derived E u) (du_artifact u)))
     (\<lambda>_. gated E)"
proof (rule tripleI)
  fix s u t
  assume "gated E s" and run: "get_suite i s = (Inr u, t)"
  then have "map_of (ss_suites s) i = Some u" "t = s"
    by (auto simp: get_suite_def suite_error_def comp_defs split: option.splits)
  with \<open>gated E s\<close> show "gated E t \<and> du_id u = i \<and>
      (du_status u \<noteq> PUBLISHED \<longrightarrow> opt_all (derived E u) (du_artifact u))"
    unfolding gated_def by (auto dest!: map_of_SomeD)
next
  fix s e t
  assume "gated E s" "get_suite i s = (Inl e, t)"
  then show "gated E t"
    by (auto simp: get_suite_def suite_error_def comp_defs split: option.splits)
qed

lemma error_gated: "keeps (gated E) (suite_error m)"
  unfolding suite_error_def by (rule keeps_raise)

lemma discover_gated: "keeps (gated E) (discover E' goal family tenant entry_point inputs n k existing ctx)"
  unfolding discover_def by (intro keeping log_gated)

lemma validator_gated: "keeps (gated E) (run_validator E' missing a tenant inputs)"
  unfolding run_validator_def by (intro keeping log_gated error_gated)

lemmas gate_rules = error_gated discover_gated validator_gated log_gated

text \<open>A failure is recorded in a suite that is still open.\<close>

lemma derived_cong:
  "du_primary v = du_primary u \<Longrightarrow> du_scenarios v = du_scenarios u \<Longrightarrow> derived E v = derived E u"
  unfolding derived_def by auto

lemma reject_gated:
  assumes "du_status u \<noteq> PUBLISHED" "opt_all (derived E u) (du_artifact u)"
  shows "keeps (gated E) (reject_replay u tenant reason message)"
proof -
  have "keeps (gated E) (store_suite (u\<lparr>du_failures := fs\<rparr>))" for fs
    using assms derived_cong[of "u\<lparr>du_failures := fs\<rparr>" u E] by (intro store_open) simp_all
  then show ?thesis
    unfolding reject_replay_def record_validation_failure_def by (intro keeping error_gated)
qed

lemma scenarios_gated:
  assumes "du_status u \<noteq> PUBLISHED" "opt_all (derived E u) (du_artifact u)"
  shows "keeps (gated E) (validate_scenarios E' u a tenant cs)"
proof (induction cs)
  case Nil
  then show ?case by (simp add: keeps_ret)
next
  case (Cons c cs)
  then show ?case
    unfolding validate_scenarios.simps
    by (intro keeps_bind keeps_if validator_gated reject_gated[OF assms])
qed

section \<open>The replays before a publication\<close>

lemma primary_proves:
  "triple (\<lambda>s. True) (run_validator E missing a (du_tenant u) (du_inputs u))
     (\<lambda>v s. verifies_primary v \<longrightarrow> proving u a [] (ss_history s)) (\<lambda>_ s. True)"
proof (rule tripleI)
  fix s v t
  assume "run_validator E missing a (du_tenant u) (du_inputs u) s = (Inr v, t)"
  then have "ss_history t = EvReplay a (du_tenant u) (du_inputs u) (Inr v) # ss_history s"
    by (auto simp: run_validator_def log_call_def suite_error_def comp_defs split: option.splits)
  then show "verifies_primary v \<longrightarrow> proving u a [] (ss_history t)"
    unfolding proving_def by (intro impI exI[of _ v] exI[of _ "[]"] exI[of _ "ss_history s"]) simp
qed simp

lemma scenario_proves:
  "triple (\<lambda>s. proving u a done (ss_history s)) (run_validator E missing a (du_tenant u) (sc_inputs c))
     (\<lambda>v s. verifies v c \<longrightarrow> proving u a (done @ [c]) (ss_history s)) (\<lambda>_ s. True)"
proof (rule tripleI)
  fix s v t
  assume before: "proving u a done (ss_history s)"
    and "run_validator E missing a (du_tenant u) (sc_inputs c) s = (Inr v, t)"
  then have t: "ss_history t = EvReplay a (du_tenant u) (sc_inputs c) (Inr v) # ss_history s"
    by (auto simp: run_validator_def log_call_def suite_error_def comp_defs split: option.splits)
  from before obtain w proofs earlier where
    h: "ss_history s = rev proofs @ EvReplay a (du_tenant u) (du_inputs u) (Inr w) # earlier"
    and ok: "verifies_primary w" "scenario_proofs a (du_tenant u) done proofs"
    unfolding proving_def by blast
  show "verifies v c \<longrightarrow> proving u a (done @ [c]) (ss_history t)"
    unfolding proving_def
    by (intro impI exI[of _ w] exI[of _ "proofs @ [EvReplay a (du_tenant u) (sc_inputs c) (Inr v)]"]
        exI[of _ earlier]) (simp add: t h ok scenario_proofs_append)
qed simp

lemma scenarios_prove:
  "triple (\<lambda>s. proving u a done (ss_history s)) (validate_scenarios E u a (du_tenant u) cs)
     (\<lambda>_ s. proving u a (done @ cs) (ss_history s)) (\<lambda>_ s. True)"
proof (induction cs arbitrary: "done")
  case Nil
  show ?case unfolding validate_scenarios.simps append_Nil2 by (rule triple_ret)
next
  case (Cons c cs)
  have stop: "triple (\<lambda>s. True) (reject_replay u t reason m) Q (\<lambda>_ s. True)" for t reason m Q
    unfolding reject_replay_def suite_error_def
    by (rule triple_then[OF triple_any]) (rule triple_pre[OF triple_raise], simp)
  have rest: "triple (\<lambda>s. verifies v c \<longrightarrow> proving u a (done @ [c]) (ss_history s))
     (if \<not> verifies v c then reject_replay u (du_tenant u) reason m
      else validate_scenarios E u a (du_tenant u) cs)
     (\<lambda>_ s. proving u a (done @ c # cs) (ss_history s)) (\<lambda>_ s. True)" for v reason m
  proof (cases "verifies v c")
    case True
    then show ?thesis using Cons.IH[of "done @ [c]"] by simp
  next
    case False
    then show ?thesis by (simp add: stop)
  qed
  show ?case unfolding validate_scenarios.simps by (rule triple_bind[OF scenario_proves rest])
qed

lemma publish_proves:
  "triple (\<lambda>s. gated E s \<and> proving u a (du_scenarios u) (ss_history s)) (publish_merged E a)
     (\<lambda>r s. gated E s \<and> (\<forall>rec. r = Inr rec \<longrightarrow>
        (\<exists>earlier v. ss_history s = EvPublish a (Inr rec) # earlier \<and> proving u a (du_scenarios u) earlier \<and>
           vr_artifact rec = versioned (se_serializer E) a v \<and>
           map_of (ss_registry s) (artifact_key (vr_artifact rec)) = Some rec)))
     (\<lambda>_. gated E)"
proof (rule tripleI)
  fix s r t
  assume pre: "gated E s \<and> proving u a (du_scenarios u) (ss_history s)"
    and run: "publish_merged E a s = (Inr r, t)"
  show "gated E t \<and> (\<forall>rec. r = Inr rec \<longrightarrow>
        (\<exists>earlier v. ss_history t = EvPublish a (Inr rec) # earlier \<and> proving u a (du_scenarios u) earlier \<and>
           vr_artifact rec = versioned (se_serializer E) a v \<and>
           map_of (ss_registry t) (artifact_key (vr_artifact rec)) = Some rec))"
  proof (cases r)
    case (Inl e)
    with run have "t = s\<lparr>ss_history := EvPublish a (Inl e) # ss_history s\<rparr>"
      by (auto simp: publish_merged_def log_call_def comp_defs split: option.splits sum.splits prod.splits)
    with pre Inl show ?thesis by (simp add: gated_log)
  next
    case (Inr rec)
    with run obtain recs where
      p: "mem_publish_next (se_serializer E) (se_clock E (ss_history s)) (ss_registry s) a = Inr (rec, recs)"
      and t: "t = s\<lparr>ss_registry := recs, ss_history := EvPublish a (Inr rec) # ss_history s\<rparr>"
      by (auto simp: publish_merged_def log_call_def comp_defs split: option.splits sum.splits prod.splits)
    from mem_publish_next_Inr[OF p] obtain vs q where
      art: "vr_artifact rec = versioned (se_serializer E) a (next_version vs q)"
      and fresh: "registered_versions (ss_registry s) (cm_id (art_capability a)) = Inr vs"
      and recs: "recs = ss_registry s @ [((cm_id (art_capability a), version_text (next_version vs q)), rec)]"
      by blast
    have new: "map_of recs (artifact_key (vr_artifact rec)) = Some rec"
      unfolding art key_versioned recs using next_key_fresh[OF fresh, of q] by (simp add: map_add_def)
    from pre have "gated E t"
      by (elim conjE gated_mono[where newer = "[EvPublish a (Inr rec)]"])
         (simp_all add: t mem_publish_next_keeps[OF p])
    moreover have "map_of (ss_registry t) (artifact_key (vr_artifact rec)) = Some rec"
      using new by (simp add: t)
    moreover have "ss_history t = EvPublish a (Inr rec) # ss_history s" by (simp add: t)
    ultimately show ?thesis using pre art Inr by blast
  qed
next
  fix s e t
  assume "gated E s \<and> proving u a (du_scenarios u) (ss_history s)" "publish_merged E a s = (Inl e, t)"
  then show "gated E t"
    by (auto simp: publish_merged_def log_call_def comp_defs split: option.splits sum.splits prod.splits)
qed

section \<open>The operations\<close>

lemma admit_published:
  fixes ver :: "string option"
  assumes "ss_history s = EvPublish a (Inr rec) # earlier" "proving u a (du_scenarios u) earlier"
    and "vr_artifact rec = versioned (se_serializer E) a v"
    and "map_of (ss_registry s) (artifact_key (vr_artifact rec)) = Some rec"
    and "derived E u a" "cm_risk (art_capability a) < SENSITIVE"
  defines "w \<equiv> u\<lparr>du_artifact := Some (vr_artifact rec), du_status := PUBLISHED, du_version := ver\<rparr>"
  shows "admissible E s w"
proof -
  have "proving w a (du_scenarios w) earlier" using assms(2) by (simp add: proving_def w_def)
  moreover have "derived E w a" using assms(5) derived_cong[of w u E] by (simp add: w_def)
  moreover have "ss_history s = [] @ EvPublish a (Inr rec) # earlier" using assms(1) by simp
  moreover have "du_artifact w = Some (vr_artifact rec)" by (simp add: w_def)
  ultimately have "proven E s w" unfolding proven_def using assms(3,4,6) by blast
  then show ?thesis by (simp add: admissible_def w_def)
qed

lemma publish_gated:
  assumes "derived E u a" "cm_risk (art_capability a) < SENSITIVE"
  shows "triple (\<lambda>s. gated E s \<and> proving u a (du_scenarios u) (ss_history s)) (publish_suite E u a)
     (\<lambda>_. gated E) (\<lambda>_. gated E)"
  unfolding publish_suite_def
proof (rule triple_bind[OF publish_proves])
  fix r :: "version_record result"
  let ?P = "\<lambda>s. gated E s \<and> (\<forall>rec. r = Inr rec \<longrightarrow>
        (\<exists>earlier v. ss_history s = EvPublish a (Inr rec) # earlier \<and> proving u a (du_scenarios u) earlier \<and>
           vr_artifact rec = versioned (se_serializer E) a v \<and>
           map_of (ss_registry s) (artifact_key (vr_artifact rec)) = Some rec))"
  show "triple ?P
      (case r of
         Inl e \<Rightarrow> if publication_error e = None then raise e
           else bind_c (store_suite (u\<lparr>du_artifact := Some a, du_status := VALIDATED\<rparr>))
             (\<lambda>v. suite_error ''capability publication failed safely'')
       | Inr rec \<Rightarrow> store_suite (u\<lparr>du_artifact := Some (vr_artifact rec), du_status := PUBLISHED,
           du_version := Some (cm_version (art_capability (vr_artifact rec)))\<rparr>))
      (\<lambda>_. gated E) (\<lambda>_. gated E)"
  proof (cases r)
    case (Inl e)
    have "keeps (gated E) (store_suite (u\<lparr>du_artifact := Some a, du_status := VALIDATED\<rparr>))"
      using assms(1) derived_cong[of "u\<lparr>du_artifact := Some a, du_status := VALIDATED\<rparr>" u E]
      by (intro store_open) simp_all
    then have "keeps (gated E) (if publication_error e = None then raise e
        else bind_c (store_suite (u\<lparr>du_artifact := Some a, du_status := VALIDATED\<rparr>))
          (\<lambda>v. suite_error ''capability publication failed safely'') :: discovery_suite suites)"
      by (intro keeping error_gated)
    from triple_pre[OF triple_keeps[OF this]] show ?thesis by (simp add: Inl)
  next
    case (Inr rec)
    have "?P s \<Longrightarrow> gated E s \<and> admissible E s (u\<lparr>du_artifact := Some (vr_artifact rec), du_status := PUBLISHED,
           du_version := Some (cm_version (art_capability (vr_artifact rec)))\<rparr>)" for s
      using admit_published[OF _ _ _ _ assms] Inr by blast
    from triple_pre[OF store_gated this] show ?thesis by (simp add: Inr)
  qed
qed

lemma artifact_derived:
  assumes "suite_artifact E u d = Inr a" "success_of (du_primary u) = Some d"
    and "opt_all (derived E u) (du_artifact u)"
  shows "derived E u a"
proof (cases "du_artifact u")
  case None
  then have "merge_scenarios (se_compiles E) (ds_artifact d) (du_scenarios u) = Inr a"
    using assms(1) by (auto simp: suite_artifact_def as_suite_error_def split: sum.splits if_splits)
  with assms(2) show ?thesis unfolding derived_def by (intro exI[of _ d] exI[of _ a] exI[of _ "[]"]) simp
next
  case (Some b)
  then show ?thesis using assms(1,3) by (simp add: suite_artifact_def as_suite_error_def)
qed

lemma derived_tenant: "derived E u a \<Longrightarrow> derived E u (for_tenant a t)"
proof -
  assume "derived E u a"
  then obtain d b ts where "success_of (du_primary u) = Some d"
    "merge_scenarios (se_compiles E) (ds_artifact d) (du_scenarios u) = Inr b"
    "a = fold (\<lambda>t b. for_tenant b t) ts b"
    unfolding derived_def by blast
  moreover from this(3) have "for_tenant a t = fold (\<lambda>t b. for_tenant b t) (ts @ [t]) b" by simp
  ultimately show ?thesis unfolding derived_def by blast
qed

lemma gated_lift:
  "(\<And>x. r = Inr x \<Longrightarrow> keeps (gated E) (f x)) \<Longrightarrow> keeps (gated E) (bind_c (lift_c r) f)"
  by (cases r) (simp_all add: keeps_def triple_def bind_c_def lift_c_def)

lemma bind_units: "bind_c (ret x) f = f x" "bind_c (raise e) f = raise e"
  by (simp_all add: fun_eq_iff raise_def ret_def bind_c_def)

lemma gated_primary:
  "(\<And>d. success_of (du_primary u) = Some d \<Longrightarrow> keeps (gated E) (f d)) \<Longrightarrow>
     keeps (gated E) (bind_c (primary_of u m) f)"
  by (cases "success_of (du_primary u)")
     (simp_all add: primary_of_def suite_error_def bind_units keeps_raise)

lemma gated_still_open:
  "(du_status u \<in> {COLLECTING, VALIDATED} \<Longrightarrow> keeps (gated E) k) \<Longrightarrow>
     keeps (gated E) (then_c (still_open u m) k)"
  by (cases "du_status u \<in> {COLLECTING, VALIDATED}")
     (simp_all add: still_open_def suite_error_def then_c_def bind_units keeps_raise)

text \<open>An operation on a stored suite starts from what the store holds of it.\<close>

lemma gated_get:
  assumes "\<And>u. (du_status u \<noteq> PUBLISHED \<Longrightarrow> opt_all (derived E u) (du_artifact u)) \<Longrightarrow> keeps (gated E) (f u)"
  shows "keeps (gated E) (bind_c (get_suite i) f)"
  unfolding keeps_def
proof (rule triple_bind[OF get_gated])
  fix u
  show "triple (\<lambda>s. gated E s \<and> du_id u = i \<and> (du_status u \<noteq> PUBLISHED \<longrightarrow> opt_all (derived E u) (du_artifact u)))
      (f u) (\<lambda>_. gated E) (\<lambda>_. gated E)"
  proof (cases "du_status u \<noteq> PUBLISHED \<longrightarrow> opt_all (derived E u) (du_artifact u)")
    case True
    with assms[of u] show ?thesis by (intro triple_pre[OF triple_keeps]) simp_all
  next
    case False
    then show ?thesis by (simp add: triple_def)
  qed
qed

lemma finalize_gated: "keeps (gated E) (finalize_suite E i)"
  unfolding finalize_suite_def
proof (intro gated_get gated_still_open gated_primary gated_lift)
  fix u d a
  assume sound: "du_status u \<noteq> PUBLISHED \<Longrightarrow> opt_all (derived E u) (du_artifact u)"
    and open_now: "du_status u \<in> {COLLECTING, VALIDATED}"
    and d: "success_of (du_primary u) = Some d" and a: "suite_artifact E u d = Inr a"
  from open_now have active: "du_status u \<noteq> PUBLISHED" by auto
  with sound have own: "opt_all (derived E u) (du_artifact u)" by simp
  from artifact_derived[OF a d own] have der: "derived E u a" .
  have failed: "keeps (gated E) (store_suite (u\<lparr>du_artifact := Some a, du_status := SUITE_FAILED\<rparr>))"
    using der derived_cong[of "u\<lparr>du_artifact := Some a, du_status := SUITE_FAILED\<rparr>" u E]
    by (intro store_open) simp_all
  have publish: "triple (\<lambda>s. gated E s \<and> proving u a [] (ss_history s))
      (then_c (validate_scenarios E u a (du_tenant u) (du_scenarios u)) (publish_suite E u a))
      (\<lambda>_. gated E) (\<lambda>_. gated E)" if "\<not> SENSITIVE \<le> cm_risk (art_capability a)"
  proof (rule triple_then)
    show "triple (\<lambda>s. gated E s \<and> proving u a [] (ss_history s))
        (validate_scenarios E u a (du_tenant u) (du_scenarios u))
        (\<lambda>_ s. gated E s \<and> proving u a (du_scenarios u) (ss_history s)) (\<lambda>_. gated E)"
      by (rule triple_conseq[OF triple_conj[OF triple_keeps[OF scenarios_gated[OF active own]]
            scenarios_prove[of u a "[]"]]]) simp_all
    show "triple (\<lambda>s. gated E s \<and> proving u a (du_scenarios u) (ss_history s)) (publish_suite E u a)
        (\<lambda>_. gated E) (\<lambda>_. gated E)"
      using that by (intro publish_gated[OF der]) simp
  qed
  have replay: "keeps (gated E)
      (bind_c (run_validator E missing a (du_tenant u) (du_inputs u)) (\<lambda>v.
       if \<not> verifies_primary v then reject_replay u (du_tenant u) reason message
       else then_c (validate_scenarios E u a (du_tenant u) (du_scenarios u)) (publish_suite E u a)))"
    if "\<not> SENSITIVE \<le> cm_risk (art_capability a)" for missing reason message
    unfolding keeps_def
  proof (rule triple_bind)
    show "triple (gated E) (run_validator E missing a (du_tenant u) (du_inputs u))
        (\<lambda>v s. gated E s \<and> (verifies_primary v \<longrightarrow> proving u a [] (ss_history s))) (\<lambda>_. gated E)"
      by (rule triple_conseq[OF triple_conj[OF triple_keeps[OF validator_gated] primary_proves]]) simp_all
    fix v
    show "triple (\<lambda>s. gated E s \<and> (verifies_primary v \<longrightarrow> proving u a [] (ss_history s)))
        (if \<not> verifies_primary v then reject_replay u (du_tenant u) reason message
         else then_c (validate_scenarios E u a (du_tenant u) (du_scenarios u)) (publish_suite E u a))
        (\<lambda>_. gated E) (\<lambda>_. gated E)"
    proof (cases "verifies_primary v")
      case True
      then show ?thesis using publish[OF that] by simp
    next
      case False
      then show ?thesis by (simp add: triple_pre[OF triple_keeps[OF reject_gated[OF active own]]])
    qed
  qed
  show "keeps (gated E)
     (if SENSITIVE \<le> cm_risk (art_capability a)
      then bind_c (store_suite (u\<lparr>du_artifact := Some a, du_status := SUITE_FAILED\<rparr>)) (\<lambda>v.
        suite_error ''sensitive and irreversible capability drafts cannot be published'')
      else
        bind_c (run_validator E ''final deterministic replay validation is unavailable'' a (du_tenant u)
                  (du_inputs u)) (\<lambda>v.
        if \<not> verifies_primary v
        then reject_replay u (du_tenant u) ''primary_replay_failed''
          ''final deterministic replay did not pass''
        else
          then_c (validate_scenarios E u a (du_tenant u) (du_scenarios u))
          (publish_suite E u a)))"
    using replay by (cases "SENSITIVE \<le> cm_risk (art_capability a)")
      (simp_all add: keeps_bind[OF failed error_gated])
qed

lemma validate_gated: "keeps (gated E) (validate_suite E i tenant inputs)"
  unfolding validate_suite_def
proof (intro gated_get gated_still_open gated_primary)
  fix u d
  assume sound: "du_status u \<noteq> PUBLISHED \<Longrightarrow> opt_all (derived E u) (du_artifact u)"
    and open_now: "du_status u \<in> {COLLECTING, VALIDATED}"
    and d: "success_of (du_primary u) = Some d"
  from open_now have active: "du_status u \<noteq> PUBLISHED" by auto
  with sound have own: "opt_all (derived E u) (du_artifact u)" by simp
  have store: "keeps (gated E) (store_suite (u\<lparr>du_artifact := Some b, du_status := VALIDATED\<rparr>))"
    if "derived E u b" for b
    using that derived_cong[of "u\<lparr>du_artifact := Some b, du_status := VALIDATED\<rparr>" u E]
    by (intro store_open) simp_all
  have widened: "derived E u b" if "suite_artifact E u d = Inr a"
    "(if tenant \<in> set (co_supported_variants (art_compatibility a)) then Inr a
      else bind_r (check_artifact (se_compiles E) (for_tenant a tenant)) (\<lambda>_. Inr (for_tenant a tenant))) = Inr b"
    for a b
    using that artifact_derived[OF _ d own] derived_tenant
    by (auto simp: bind_r_Inr_iff split: if_splits)
  show "keeps (gated E)
     (then_c (lift_c (assert_target E (du_family u) tenant (du_entry_point u)))
      (bind_c (lift_c (suite_artifact E u d)) (\<lambda>a.
       bind_c (run_validator E ''deterministic compatibility validation is unavailable'' a tenant inputs) (\<lambda>v.
       if \<not> verifies_primary v
       then reject_replay u tenant ''compatibility_replay_failed'' ''compatibility replay did not pass''
       else
         then_c (validate_scenarios E u a tenant (du_scenarios u))
         (bind_c (lift_c (if tenant \<in> set (co_supported_variants (art_compatibility a)) then Inr a
              else bind_r (check_artifact (se_compiles E) (for_tenant a tenant)) (\<lambda>_.
                Inr (for_tenant a tenant)))) (\<lambda>b.
          store_suite (u\<lparr>du_artifact := Some b, du_status := VALIDATED\<rparr>)))))))"
    by (intro keeps_then[OF keeps_lift] gated_lift keeps_bind[OF validator_gated] keeps_if
        reject_gated[OF active own] keeps_then[OF scenarios_gated[OF active own]] store widened)
qed

lemma store_empty: "du_status u \<noteq> PUBLISHED \<Longrightarrow> du_artifact u = None \<Longrightarrow> keeps (gated E) (store_suite u)"
  by (rule store_open) simp_all

lemma create_gated: "keeps (gated E) (create_suite E' goal family tenant entry_point inputs n k existing)"
  unfolding create_suite_def
  by (intro keeping gate_rules store_empty) (simp_all add: new_suite_def)

lemma from_published_gated: "keeps (gated E) (from_published E' capability version tenant inputs)"
proof -
  have look: "keeps (gated E) (published_primary E' capability version)"
    unfolding published_primary_def
    by (intro keeping) (auto split: sum.splits simp: keeps_ret keeps_raise error_gated)
  show ?thesis
    unfolding from_published_def Let_def
    by (intro keeps_bind[OF look] keeping gate_rules store_empty) (simp_all add: new_suite_def)
qed

lemma restore_gated: "keeps (gated E) (restore_scenarios E' i scenarios)"
  unfolding restore_scenarios_def
proof (rule gated_get)
  fix u
  have "keeps (gated E) (store_suite (u\<lparr>du_scenarios := scenarios, du_artifact := None\<rparr>))" if "du_status u = COLLECTING"
    using that by (intro store_empty) simp_all
  then show "keeps (gated E)
     (if du_status u \<noteq> COLLECTING \<or> du_scenarios u \<noteq> []
      then suite_error ''restoration requires an empty collecting suite''
      else case success_of (du_primary u) of
        None \<Rightarrow> suite_error ''restoration requires a primary and bounded scenarios''
      | Some d \<Rightarrow>
          if scenarios = [] \<or> 50 < length scenarios
          then suite_error ''restoration requires a primary and bounded scenarios''
          else
            bind_c (lift_c (merge_scenarios (se_compiles E') (ds_artifact d) scenarios)) (\<lambda>a.
            store_suite (u\<lparr>du_scenarios := scenarios, du_artifact := None\<rparr>)))"
    by (cases "du_status u = COLLECTING") (auto intro!: keeps_option keeps_if keeps_bind keeps_lift error_gated)
qed

lemma add_scenario_gated: "keeps (gated E) (add_scenario E' i kind goal inputs code description n k)"
  unfolding add_scenario_def
  by (intro gated_get gated_primary gated_still_open keeping gate_rules store_empty) simp_all

text \<open>One request to the service.\<close>

datatype suite_op =
    OpCreate string string string string json_object int int "string option"
  | OpFromPublished string string string json_object
  | OpRestore string "discovery_scenario list"
  | OpAddScenario string scenario_kind string json_object "string option" "string option" int int
  | OpFinalize string
  | OpValidate string string json_object

definition suite_step :: "suite_env \<Rightarrow> suite_op \<Rightarrow> suite_state \<Rightarrow> suite_state" where
  "suite_step E op s =
     (case op of
        OpCreate goal family tenant entry_point inputs n k existing \<Rightarrow>
          snd (create_suite E goal family tenant entry_point inputs n k existing s)
      | OpFromPublished capability version tenant inputs \<Rightarrow>
          snd (from_published E capability version tenant inputs s)
      | OpRestore i scenarios \<Rightarrow> snd (restore_scenarios E i scenarios s)
      | OpAddScenario i kind goal inputs code description n k \<Rightarrow>
          snd (add_scenario E i kind goal inputs code description n k s)
      | OpFinalize i \<Rightarrow> snd (finalize_suite E i s)
      | OpValidate i tenant inputs \<Rightarrow> snd (validate_suite E i tenant inputs s))"

lemma step_gated: "gated E s \<Longrightarrow> gated E (suite_step E op s)"
  using keepsD[OF create_gated] keepsD[OF from_published_gated] keepsD[OF restore_gated]
    keepsD[OF add_scenario_gated] keepsD[OF finalize_gated] keepsD[OF validate_gated]
  by (cases op) (simp_all add: suite_step_def)

lemma steps_gated: "gated E s \<Longrightarrow> gated E (fold (suite_step E) ops s)"
  by (induction ops arbitrary: s) (simp_all add: step_gated)

text \<open>The service over some registry, before its first request.\<close>

definition fresh_service :: "records \<Rightarrow> suite_state" where
  "fresh_service recs = \<lparr>ss_suites = [], ss_registry = recs, ss_history = []\<rparr>"

text \<open>
  C2. Only proven artifacts are published. Whatever requests a fresh service gets, over any registry
  and in any order, and whatever discoveries and replays return: every suite it holds as published
  was proven. Its history holds the publication of an artifact, right after a replay of that very
  artifact with the inputs of the primary, which succeeded without a recovery, and after one replay
  per scenario, with that scenario's inputs and the declared disposition. The artifact is the primary
  program joined with all scenarios, at most for more tenants, at a risk below sensitive; and the
  registry still holds it, with a new version and hash, as the suite's artifact.
\<close>

theorem published_suites_are_proven:
  "\<forall>i. case dict_get (ss_suites (fold (suite_step E) ops (fresh_service recs))) i of
         None \<Rightarrow> True
       | Some u \<Rightarrow> du_status u \<in> {COLLECTING, VALIDATED, SUITE_FAILED} \<or>
           proven E (fold (suite_step E) ops (fresh_service recs)) u"
proof
  fix i
  have "gated E (fresh_service recs)" by (simp add: gated_def fresh_service_def)
  note g = steps_gated[OF this, of ops]
  show "case dict_get (ss_suites (fold (suite_step E) ops (fresh_service recs))) i of
      None \<Rightarrow> True
    | Some u \<Rightarrow> du_status u \<in> {COLLECTING, VALIDATED, SUITE_FAILED} \<or>
        proven E (fold (suite_step E) ops (fresh_service recs)) u"
  proof (cases "dict_get (ss_suites (fold (suite_step E) ops (fresh_service recs))) i")
    case (Some u)
    from map_of_SomeD[OF Some] g have "du_status u = PUBLISHED \<longrightarrow>
        proven E (fold (suite_step E) ops (fresh_service recs)) u"
      unfolding gated_def by blast
    then show ?thesis by (cases "du_status u") (simp_all add: Some)
  qed simp
qed

section \<open>What joining scenarios changes\<close>

text \<open>A step without its references to branches.\<close>

definition bare :: "step \<Rightarrow> step" where
  "bare s = s\<lparr>st_recovery_refs := [], st_outcome_refs := [], st_failure_refs := []\<rparr>"

text \<open>What a replay does on the successful path.\<close>

definition same_program :: "capability_artifact \<Rightarrow> capability_artifact \<Rightarrow> bool" where
  "same_program a b =
     (map bare (art_steps b) = map bare (art_steps a) \<and>
      art_capability b = art_capability a \<and> art_compatibility b = art_compatibility a \<and>
      art_inputs b = art_inputs a \<and> art_outputs b = art_outputs a \<and>
      art_preconditions b = art_preconditions a \<and> art_checkpoint b = art_checkpoint a)"

text \<open>The branches that are added: their steps stay below sensitive, and a recovery is used once.\<close>

definition gentle :: "recovery \<Rightarrow> bool" where
  "gentle r = (rc_max_uses r = 1 \<and> (\<forall>s\<in>set (rc_steps r). st_risk s < SENSITIVE))"

definition mild :: "merging \<Rightarrow> merging \<Rightarrow> bool" where
  "mild m n =
     (map bare (mg_steps n) = map bare (mg_steps m) \<and>
      set (mg_outcomes m) \<subseteq> set (mg_outcomes n) \<and> set (mg_failures m) \<subseteq> set (mg_failures n) \<and>
      set (mg_recoveries m) \<subseteq> set (mg_recoveries n) \<and>
      (\<forall>r\<in>set (mg_recoveries n) - set (mg_recoveries m). gentle r))"

lemma mild_refl: "mild m m"
  by (simp add: mild_def)

lemma mild_trans: "mild m n \<Longrightarrow> mild n k \<Longrightarrow> mild m k"
  unfolding mild_def by (elim conjE, intro conjI) (simp, blast+)

lemma bare_refs [simp]:
  "bare (s\<lparr>st_outcome_refs := x\<rparr>) = bare s" "bare (s\<lparr>st_failure_refs := x\<rparr>) = bare s"
  "bare (s\<lparr>st_recovery_refs := x\<rparr>) = bare s"
  by (simp_all add: bare_def)

lemma bare_update: "bare t = bare (ss ! i) \<Longrightarrow> map bare (ss[i := t]) = map bare ss"
  by (simp add: map_update) (metis list_update_id map_update)

lemma recovery_mild:
  assumes "check_corrective corrective c = Inr ()" "branch_recovery x c corrective resume = Inr r"
  shows "gentle r"
proof -
  from assms(1) have risks: "\<forall>s\<in>set corrective. st_risk s < SENSITIVE"
    by (auto simp: check_corrective_def checks_def list_ex_iff not_le split: if_splits)
  from assms(2) have r: "rc_max_uses r = 1"
    "rc_steps r = map (\<lambda>(i, s). recovery_step (sc_code x) i s) (enumerate 1 corrective)"
    by (auto simp: branch_recovery_def Let_def bind_r_Inr_iff)
  have "snd ` set (enumerate 1 corrective) = set corrective" by (metis list.set_map map_snd_enumerate)
  with risks r show ?thesis by (force simp: gentle_def recovery_step_def)
qed

lemma add_branch_mild:
  assumes "add_branch c trace n condition m = Inr k"
  shows "mild m k"
proof (cases "sc_kind c")
  case SCENARIO_OUTCOME
  with assms show ?thesis
    by (auto simp: add_branch_def Let_def merge_error_def bind_r_Inr_iff mild_def bare_update split: if_splits)
next
  case SCENARIO_FAILURE
  with assms show ?thesis
    by (auto simp: add_branch_def Let_def merge_error_def bind_r_Inr_iff mild_def bare_update split: if_splits)
next
  case SCENARIO_RECOVERY
  with assms obtain r where "check_corrective (drop (n + 1) trace) condition = Inr ()"
    "branch_recovery c condition (drop (n + 1) trace) (st_id (mg_steps m ! n)) = Inr r"
    and k: "k = m\<lparr>mg_recoveries := mg_recoveries m @ [r],
        mg_steps := (mg_steps m)[n - 1 := (mg_steps m ! (n - 1))
          \<lparr>st_recovery_refs := st_recovery_refs (mg_steps m ! (n - 1)) @ [sc_code c]\<rparr>]\<rparr>"
    by (auto simp: add_branch_def Let_def merge_error_def bind_r_Inr_iff split: if_splits)
  from recovery_mild[OF this(1,2)] show ?thesis by (auto simp: k mild_def bare_update)
qed

lemma merge_all_mild: "merge_all a cs m = Inr k \<Longrightarrow> mild m k"
proof (induction cs arbitrary: m)
  case (Cons c cs)
  then obtain n where n: "merge_scenario a c m = Inr n" "merge_all a cs n = Inr k"
    by (auto simp: bind_r_Inr_iff)
  from n(1) have "mild m n"
    by (auto simp: merge_scenario_def Let_def merge_error_def bind_r_Inr_iff
        intro: add_branch_mild split: option.splits if_splits)
  with Cons.IH[OF n(2)] show ?case by (rule mild_trans[rotated])
qed (simp add: mild_refl)

lemma merged_program:
  assumes "merge_scenarios compiles a cs = Inr b"
  shows "same_program a b"
    and "\<forall>r\<in>set (art_recoveries b) - set (art_recoveries a). gentle r"
    and "cs \<noteq> [] \<Longrightarrow> b \<noteq> a \<Longrightarrow> check_artifact compiles b = Inr ()"
proof -
  from assms obtain m where m: "merge_all a cs \<lparr>mg_steps = art_steps a, mg_outcomes = art_outcomes a,
      mg_failures = art_failures a, mg_recoveries = art_recoveries a\<rparr> = Inr m"
    and b: "(if mg_outcomes m = [] \<and> mg_failures m = [] \<and> mg_recoveries m = [] then Inr a
     else
       (let b = set_hash None (a\<lparr>art_steps := mg_steps m, art_outcomes := mg_outcomes m,
              art_failures := mg_failures m, art_recoveries := mg_recoveries m,
              art_policy := merged_policy a cs m\<rparr>) in
        bind_r (check_artifact compiles b) (\<lambda>_. Inr b))) = Inr b"
    unfolding merge_scenarios_def by (auto simp: bind_r_Inr_iff)
  from merge_all_mild[OF m] have mild: "map bare (mg_steps m) = map bare (art_steps a)"
    "\<forall>r\<in>set (mg_recoveries m) - set (art_recoveries a). gentle r"
    by (simp_all add: mild_def)
  consider "b = a" | "b = set_hash None (a\<lparr>art_steps := mg_steps m, art_outcomes := mg_outcomes m,
              art_failures := mg_failures m, art_recoveries := mg_recoveries m,
              art_policy := merged_policy a cs m\<rparr>)" "check_artifact compiles b = Inr ()"
    using b by (auto simp: Let_def bind_r_Inr_iff split: if_splits)
  then have "same_program a b \<and> (\<forall>r\<in>set (art_recoveries b) - set (art_recoveries a). gentle r) \<and>
      (b = a \<or> check_artifact compiles b = Inr ())"
  proof cases
    case 1
    then show ?thesis by (simp add: same_program_def)
  next
    case 2
    then show ?thesis using mild by (simp add: same_program_def set_hash_def)
  qed
  then show "same_program a b" "\<forall>r\<in>set (art_recoveries b) - set (art_recoveries a). gentle r"
    "cs \<noteq> [] \<Longrightarrow> b \<noteq> a \<Longrightarrow> check_artifact compiles b = Inr ()"
    by blast+
qed

section \<open>A sample suite\<close>

text \<open>
  A primary that types and waits, and a recovery that branches after its first step: a notice covers
  the page, and escape brings the page back.
\<close>

definition suite_marker :: condition where
  "suite_marker = RenderedTextCondition ''Notice'' MATCH_EXACT"

definition suite_page :: condition where
  "suite_page = RenderedTextCondition ''Accounts'' MATCH_EXACT"

definition suite_primary :: capability_artifact where
  "suite_primary =
     sample_artifact\<lparr>art_steps := [sample_open, sample_account\<lparr>st_recovery_refs := []\<rparr>,
         sample_read\<lparr>st_outcome_refs := [], st_failure_refs := []\<rparr>],
       art_recoveries := [], art_outcomes := [], art_failures := []\<rparr>"

definition suite_trace :: capability_artifact where
  "suite_trace =
     suite_primary\<lparr>art_steps := [sample_open, sample_step ''marker'' (AssertAction suite_marker) None,
       (sample_step ''press'' (PressKeysAction [''Escape'']) None)\<lparr>st_postconditions := [suite_page]\<rparr>]\<rparr>"

definition suite_success :: "capability_artifact \<Rightarrow> observed_branch option \<Rightarrow> discovery_success" where
  "suite_success a b =
     \<lparr>ds_run_id = ''run_'' @ replicate 32 (CHR ''0''), ds_artifact = a,
      ds_manifest = ''evidence://run_'' @ replicate 32 (CHR ''0'') @ ''/manifest'', ds_branch = b\<rparr>"

definition suite_recovery :: discovery_scenario where
  "suite_recovery =
     \<lparr>sc_kind = SCENARIO_RECOVERY, sc_goal = ''Dismiss the notice'', sc_code = ''notice'',
      sc_description = ''A notice covers the page'',
      sc_result = Discovered (suite_success suite_trace
        (Some \<lparr>br_after_steps = 1, br_condition = suite_marker\<rparr>)),
      sc_inputs = [(''account'', JStr ''4711'')]\<rparr>"

definition suite_merged :: "capability_artifact result" where
  "suite_merged = merge_scenarios (\<lambda>p. True) suite_primary [suite_recovery]"

lemma suite_merged_ok: "(case suite_merged of Inr b \<Rightarrow> length (art_recoveries b) = 1 | Inl e \<Rightarrow> False)"
  by code_simp

text \<open>
  C18. Joining scenarios keeps the program. The artifact that joins a primary with its scenarios has
  the same steps but for the names of the branches they may take, the same inputs, outputs,
  preconditions and checkpoint; a recovery it adds is used once and acts below sensitive risk; and
  what differs from the primary passed the validation of an artifact again.
\<close>

theorem merge_keeps_program:
  assumes "merge_scenarios compiles a cs = Inr b"
  shows "same_program a b \<and> (\<forall>r\<in>set (art_recoveries b) - set (art_recoveries a). gentle r) \<and>
     (b = a \<or> cs = [] \<or> check_artifact compiles b = Inr ())"
  using merged_program[OF assms] by blast

theorem merge_keeps_program_witness:
  "\<exists>b. merge_scenarios (\<lambda>p. True) suite_primary [suite_recovery] = Inr b \<and> length (art_recoveries b) = 1 \<and>
     same_program suite_primary b \<and> set (map rc_max_uses (art_recoveries b)) = {1}"
proof -
  obtain b where b: "merge_scenarios (\<lambda>p. True) suite_primary [suite_recovery] = Inr b"
    and one: "length (art_recoveries b) = 1"
    using suite_merged_ok unfolding suite_merged_def by (auto split: sum.splits)
  from merge_keeps_program[OF b] one have "set (map rc_max_uses (art_recoveries b)) = {1}"
    by (cases "art_recoveries b") (auto simp: suite_primary_def gentle_def)
  with merge_keeps_program[OF b] b one show ?thesis by blast
qed

definition suite_sample_env :: suite_env where
  "suite_sample_env =
     \<lparr>se_uuid = (\<lambda>h. replicate 32 (CHR ''0'')), se_clock = (\<lambda>h. utc 6),
      se_discover = (\<lambda>h q. case dq_scenario q of
         None \<Rightarrow> Inr (Discovered (suite_success suite_primary None))
       | Some sn \<Rightarrow> Inr (sc_result suite_recovery)),
      se_validator = Some (\<lambda>h a tenant inputs.
         Inr \<lparr>rv_result = SuccessResult \<lparr>su_run_id = [], su_capability_id = [], su_capability_version = [],
                su_outputs = [], su_checkpoint = [], su_manifest = []\<rparr>,
              rv_recoveries = (if inputs = sc_inputs suite_recovery then [''notice''] else [])\<rparr>),
      se_applications = None, se_serializer = sample_serializer, se_compiles = (\<lambda>p. True),
      se_fault = (\<lambda>h. None)\<rparr>"

definition suite_sample_id :: string where
  "suite_sample_id = ''sui_'' @ replicate 32 (CHR ''0'')"

definition suite_sample_ops :: "suite_op list" where
  "suite_sample_ops =
     [OpCreate ''Read the balance'' ''billing'' ''base'' ''home'' [(''account'', JStr ''1'')] 10 60 None,
      OpAddScenario suite_sample_id SCENARIO_RECOVERY ''Dismiss the notice'' (sc_inputs suite_recovery)
        (Some ''notice'') None 10 60,
      OpFinalize suite_sample_id]"

lemma suite_sample_published:
  "(case dict_get (ss_suites (fold (suite_step suite_sample_env) suite_sample_ops (fresh_service []))) suite_sample_id of
      None \<Rightarrow> False | Some u \<Rightarrow> du_status u = PUBLISHED)"
  by code_simp

theorem published_suites_are_proven_witness:
  "\<exists>u. dict_get (ss_suites (fold (suite_step suite_sample_env) suite_sample_ops (fresh_service []))) suite_sample_id = Some u \<and>
     proven suite_sample_env (fold (suite_step suite_sample_env) suite_sample_ops (fresh_service [])) u"
  using suite_sample_published
    published_suites_are_proven[of suite_sample_env suite_sample_ops "[]", THEN spec, of suite_sample_id]
  by (auto split: option.splits)

end
