(* ===== verification/Geometry.thy ===== *)
theory Geometry
  imports ArtifactChecks
begin

text \<open>
  The geometry of visual grounding (\<^verbatim>\<open>surfaces/vision.py\<close>): overlaps, containment and
  unions of screen regions, regions relative to a viewport or an anchor, and the reviewed limits of
  \<^verbatim>\<open>surfaces/vision_policy.py\<close>. Floating-point numbers are rationals.
\<close>

section \<open>Numbers\<close>

text \<open>Python's \<open>round\<close>: halves go to the even neighbour.\<close>

definition py_round :: "rat \<Rightarrow> int" where
  "py_round r =
     (let f = \<lfloor>r\<rfloor>; d = r - of_int f in
      if d < 1 / 2 \<or> d = 1 / 2 \<and> even f then f else f + 1)"

definition median :: "int list \<Rightarrow> rat" where
  "median xs =
     (let s = sort xs; n = length xs in
      if odd n then of_int (s ! (n div 2))
      else of_int (s ! (n div 2 - 1) + s ! (n div 2)) / 2)"

section \<open>Regions\<close>

abbreviation sr_right :: "screen_region \<Rightarrow> int" where
  "sr_right r \<equiv> sr_x r + sr_width r"

abbreviation sr_bottom :: "screen_region \<Rightarrow> int" where
  "sr_bottom r \<equiv> sr_y r + sr_height r"

definition region_area :: "screen_region \<Rightarrow> int" where
  "region_area r = sr_width r * sr_height r"

definition screen_region_at :: "int \<Rightarrow> int \<Rightarrow> int \<Rightarrow> int \<Rightarrow> screen_region" where
  "screen_region_at x y w h = \<lparr>sr_x = x, sr_y = y, sr_width = w, sr_height = h\<rparr>"

definition region_ok :: "screen_region \<Rightarrow> bool" where
  "region_ok r = (0 \<le> sr_x r \<and> 0 \<le> sr_y r \<and> 0 < sr_width r \<and> 0 < sr_height r)"

lemma mk_screen_region_Inr: "mk_screen_region r = Inr r' \<longleftrightarrow> r' = r \<and> region_ok r"
  by (auto simp: mk_screen_region_def region_ok_def)

definition overlap_length :: "int \<Rightarrow> int \<Rightarrow> int \<Rightarrow> int \<Rightarrow> int" where
  "overlap_length a b c d = max 0 (min b d - max a c)"

definition region_contains :: "screen_region \<Rightarrow> screen_region \<Rightarrow> bool" where
  "region_contains outer inner =
     (sr_x outer \<le> sr_x inner \<and> sr_y outer \<le> sr_y inner \<and> sr_right inner \<le> sr_right outer \<and>
      sr_bottom inner \<le> sr_bottom outer)"

definition strictly_contains :: "screen_region \<Rightarrow> screen_region \<Rightarrow> bool" where
  "strictly_contains outer inner =
     (sr_x outer < sr_x inner \<and> sr_y outer < sr_y inner \<and> sr_right inner < sr_right outer \<and>
      sr_bottom inner < sr_bottom outer)"

definition center_in :: "screen_region \<Rightarrow> screen_region \<Rightarrow> bool" where
  "center_in inner outer =
     (case region_center inner of (x, y) \<Rightarrow>
        sr_x outer \<le> x \<and> x < sr_right outer \<and> sr_y outer \<le> y \<and> y < sr_bottom outer)"

text \<open>\<open>_axis_overlap_ratio\<close>, vertical or horizontal.\<close>

definition axis_overlap_ratio :: "screen_region \<Rightarrow> screen_region \<Rightarrow> bool \<Rightarrow> rat" where
  "axis_overlap_ratio a b vertical =
     (if vertical
      then of_int (overlap_length (sr_y a) (sr_bottom a) (sr_y b) (sr_bottom b)) /
           of_int (max 1 (min (sr_height a) (sr_height b)))
      else of_int (overlap_length (sr_x a) (sr_right a) (sr_x b) (sr_right b)) /
           of_int (max 1 (min (sr_width a) (sr_width b))))"

definition intersection_area :: "screen_region \<Rightarrow> screen_region \<Rightarrow> int" where
  "intersection_area a b =
     max 0 (min (sr_right a) (sr_right b) - max (sr_x a) (sr_x b)) *
     max 0 (min (sr_bottom a) (sr_bottom b) - max (sr_y a) (sr_y b))"

definition text_overlap_ratio :: "screen_region \<Rightarrow> visual_token list \<Rightarrow> rat" where
  "text_overlap_ratio r tokens =
     min 1 (of_int (sum_list (map (\<lambda>t. intersection_area r (tok_region t)) tokens)) /
            of_int (max 1 (region_area r)))"

definition region_iou :: "screen_region \<Rightarrow> screen_region \<Rightarrow> rat" where
  "region_iou a b =
     (let common = intersection_area a b; union = region_area a + region_area b - common in
      if union = 0 then 0 else of_int common / of_int union)"

text \<open>The union of valid regions is valid, so its constructor does not raise.\<close>

fun union_region :: "screen_region option \<Rightarrow> screen_region \<Rightarrow> screen_region" where
  "union_region None b = b"
| "union_region (Some a) b =
     (let left = min (sr_x a) (sr_x b); top = min (sr_y a) (sr_y b) in
      screen_region_at left top (max (sr_right a) (sr_right b) - left)
        (max (sr_bottom a) (sr_bottom b) - top))"

lemma union_ok: "region_ok a \<Longrightarrow> region_ok b \<Longrightarrow> region_ok (union_region (Some a) b)"
  by (auto simp: region_ok_def Let_def screen_region_at_def)

lemma union_contains:
  "region_contains (union_region (Some a) b) a" "region_contains (union_region (Some a) b) b"
  by (auto simp: region_contains_def Let_def screen_region_at_def)

lemma contains_trans: "region_contains a b \<Longrightarrow> region_contains b c \<Longrightarrow> region_contains a c"
  by (auto simp: region_contains_def)

definition tokens_region :: "visual_token list \<Rightarrow> screen_region option" where
  "tokens_region ts = fold (\<lambda>t r. Some (union_region r (tok_region t))) ts None"

definition median_text_height :: "visual_token list \<Rightarrow> rat" where
  "median_text_height ts =
     (let hs = [h \<leftarrow> map (\<lambda>t. sr_height (tok_region t)) ts. 0 < h] in if hs = [] then 1 else median hs)"

definition line_horizontal_overlap :: "visual_token list \<Rightarrow> screen_region \<Rightarrow> int" where
  "line_horizontal_overlap line r =
     (case tokens_region line of
        None \<Rightarrow> 0
      | Some l \<Rightarrow> overlap_length (sr_x l) (sr_right l) (sr_x r) (sr_right r))"

section \<open>Regions of a candidate\<close>

definition clip_region :: "screen_region \<Rightarrow> int \<Rightarrow> int \<Rightarrow> screen_region result" where
  "clip_region r width height =
     (let x = max 0 (min (sr_x r) (width - 1)); y = max 0 (min (sr_y r) (height - 1)) in
      mk_screen_region (screen_region_at x y (min (sr_width r) (width - x)) (min (sr_height r) (height - y))))"

definition relative_screen :: "screen_region \<Rightarrow> relative_region \<Rightarrow> viewport \<Rightarrow> screen_region result" where
  "relative_screen anchor spec vp =
     (let u = of_int (sr_height anchor) in
      bind_r (mk_screen_region (screen_region_at
        (max 0 (py_round (of_int (sr_x anchor) + rr_x spec * u)))
        (max 0 (py_round (of_int (sr_y anchor) + rr_y spec * u)))
        (max 1 (py_round (rr_width spec * u))) (max 1 (py_round (rr_height spec * u))))) (\<lambda>r.
      clip_region r (vp_width vp) (vp_height vp)))"

definition normalized_screen :: "normalized_region \<Rightarrow> viewport \<Rightarrow> screen_region result" where
  "normalized_screen spec vp =
     mk_screen_region (screen_region_at
       (py_round (nr_x spec * of_int (vp_width vp))) (py_round (nr_y spec * of_int (vp_height vp)))
       (max 1 (py_round (nr_width spec * of_int (vp_width vp))))
       (max 1 (py_round (nr_height spec * of_int (vp_height vp)))))"

text \<open>A region within a frame.\<close>

definition inside :: "screen_region \<Rightarrow> int \<Rightarrow> int \<Rightarrow> bool" where
  "inside r width height = (region_ok r \<and> sr_right r \<le> width \<and> sr_bottom r \<le> height)"

lemma clip_inside:
  assumes "region_ok r" "0 < width" "0 < height"
  shows "\<exists>c. clip_region r width height = Inr c \<and> inside c width height"
  using assms by (auto simp: clip_region_def Let_def mk_screen_region_Inr inside_def region_ok_def screen_region_at_def)

lemma clip_Inr_inside: "clip_region r width height = Inr c \<Longrightarrow> inside c width height"
  by (auto simp: clip_region_def Let_def mk_screen_region_Inr inside_def screen_region_at_def)

lemma clip_keeps:
  assumes "inside r width height"
  shows "clip_region r width height = Inr r"
  using assms by (auto simp: clip_region_def Let_def mk_screen_region_Inr inside_def region_ok_def screen_region_at_def)

text \<open>\<open>_has_relation\<close>.\<close>

definition has_relation :: "screen_region \<Rightarrow> screen_region \<Rightarrow> text_relation \<Rightarrow> bool" where
  "has_relation a t relation =
     (let vertical = max 0 (min (sr_bottom a) (sr_bottom t) - max (sr_y a) (sr_y t));
          same_row = (min (sr_height a) (sr_height t) \<le> 2 * vertical);
          horizontal = max 0 (min (sr_right a) (sr_right t) - max (sr_x a) (sr_x t));
          same_column = (min (sr_width a) (sr_width t) \<le> 2 * horizontal) in
      case relation of
        SAME_ROW \<Rightarrow> same_row
      | RIGHT_OF \<Rightarrow> same_row \<and> sr_right a \<le> sr_x t
      | BELOW \<Rightarrow> same_column \<and> sr_bottom a \<le> sr_y t)"

section \<open>The limits\<close>

record ocr_policy =
  vo_minimum_confidence :: rat
  vo_maximum_tokens :: int
  vo_threads :: int

record segmentation_policy =
  vs_minimum_component :: rat
  vs_maximum_component :: rat
  vs_minimum_container :: rat
  vs_maximum_pixels :: int
  vs_maximum_components :: int
  vs_minimum_dimension :: int
  vs_kernel :: int
  vs_duplicate_iou :: rat
  vs_text_overlap :: rat
  vs_control_height :: rat
  vs_control_aspect :: rat
  vs_container_tokens :: int

record association_policy =
  va_axis_overlap :: rat
  va_following_gap :: rat
  va_row_tolerance :: rat
  va_image_tolerance :: rat

record image_policy =
  vi_width :: int
  vi_height :: int
  vi_padding :: int
  vi_signature_pixels :: int
  vi_signature_edges :: int
  vi_capture_iou :: rat
  vi_overlap_weight :: rat
  vi_chamfer_decay :: rat
  vi_minimum_similarity :: rat
  vi_uniqueness_margin :: rat

record vision_policy =
  vy_ocr :: ocr_policy
  vy_line_gap :: rat
  vy_segmentation :: segmentation_policy
  vy_association :: association_policy
  vy_image :: image_policy
  vy_frame_pixels :: int
  vy_milliseconds :: int

definition positive_up_to :: "'a :: linordered_idom \<Rightarrow> 'a \<Rightarrow> bool" where
  "positive_up_to limit v = (0 < v \<and> v \<le> limit)"

definition unit_range :: "rat \<Rightarrow> bool" where
  "unit_range v = (0 \<le> v \<and> v \<le> 1)"

definition check_segmentation :: "segmentation_policy \<Rightarrow> (bool \<times> string) list" where
  "check_segmentation p =
     [(0 < vs_minimum_component p \<and> vs_minimum_component p < 1 \<and>
       positive_up_to 1 (vs_maximum_component p) \<and>
       0 < vs_minimum_container p \<and> vs_minimum_container p < 1 \<and>
       positive_up_to 32000000 (vs_maximum_pixels p) \<and> positive_up_to 20000 (vs_maximum_components p) \<and>
       positive_up_to 64 (vs_minimum_dimension p) \<and> positive_up_to 15 (vs_kernel p) \<and>
       positive_up_to 1 (vs_duplicate_iou p) \<and> unit_range (vs_text_overlap p) \<and>
       positive_up_to 10 (vs_control_height p) \<and> 1 < vs_control_aspect p \<and> vs_control_aspect p \<le> 20 \<and>
       positive_up_to 100 (vs_container_tokens p), ''VisionSegmentationPolicy''),
      (vs_minimum_component p < vs_maximum_component p,
         ''minimum component area must be less than maximum component area''),
      (vs_minimum_container p < vs_maximum_component p,
         ''minimum container area must be less than maximum component area''),
      (vs_kernel p mod 2 \<noteq> 0, ''morphology kernel size must be odd'')]"

definition check_image :: "image_policy \<Rightarrow> (bool \<times> string) list" where
  "check_image p =
     [(positive_up_to 512 (vi_width p) \<and> positive_up_to 512 (vi_height p) \<and>
       0 \<le> vi_padding p \<and> vi_padding p \<le> 64 \<and> positive_up_to 4096 (vi_signature_pixels p) \<and>
       positive_up_to 4096 (vi_signature_edges p) \<and> positive_up_to 1 (vi_capture_iou p) \<and>
       unit_range (vi_overlap_weight p) \<and> positive_up_to 1 (vi_chamfer_decay p) \<and>
       unit_range (vi_minimum_similarity p) \<and> unit_range (vi_uniqueness_margin p), ''VisionImagePolicy''),
      (vi_padding p < min (vi_width p) (vi_height p),
         ''signature padding must leave a non-empty canonical canvas'')]"

definition mk_vision_policy :: "vision_policy \<Rightarrow> vision_policy result" where
  "mk_vision_policy p =
     bind_r (checks
       ([(unit_range (vo_minimum_confidence (vy_ocr p)) \<and> positive_up_to 5000 (vo_maximum_tokens (vy_ocr p)) \<and>
          1 \<le> vo_threads (vy_ocr p) \<and> vo_threads (vy_ocr p) \<le> 4, ''VisionOcrPolicy''),
         (positive_up_to 10 (vy_line_gap p), ''VisionPhrasePolicy'')] @
        check_segmentation (vy_segmentation p) @
        [(positive_up_to 1 (va_axis_overlap (vy_association p)) \<and>
          positive_up_to 20 (va_following_gap (vy_association p)) \<and>
          positive_up_to 5 (va_row_tolerance (vy_association p)) \<and>
          positive_up_to 10 (va_image_tolerance (vy_association p)), ''VisionAssociationPolicy'')] @
        check_image (vy_image p) @
        [(positive_up_to 32000000 (vy_frame_pixels p) \<and> positive_up_to 30000 (vy_milliseconds p),
            ''VisionBudgetPolicy'')])) (\<lambda>_. Inr p)"

end
