(* ===== verification/Assets.thy ===== *)
theory Assets
  imports Artifact Monads
begin

text \<open>
  Content-addressed visual assets (\<^verbatim>\<open>capabilities/assets.py\<close>). The directory is the list of
  its files by name; SHA-256 is a parameter, the disk does not fail, and the write through a temporary
  file and a hard link is one step. A name made of a digest of 64
  hexadecimal digits stays under the root.
\<close>

type_synonym asset_files = "(string \<times> bytes) list"
type_synonym 'a assets = "(asset_files, 'a) comp"

record asset_store =
  at_sha256 :: "bytes \<Rightarrow> string"
  at_maximum :: int
  at_capture :: bool

definition asset_error :: "string \<Rightarrow> exn" where
  "asset_error m = CapabilityAssetError m"

definition asset_name :: "string \<Rightarrow> string" where
  "asset_name digest = digest @ ''.png''"

text \<open>\<open>_validate_content\<close>.\<close>

definition validate_content :: "asset_store \<Rightarrow> bytes \<Rightarrow> unit result" where
  "validate_content A content =
     bind_r (check (starts_with png_signature content) (asset_error ''capability assets must be PNG images''))
       (\<lambda>_. check (int (length content) \<le> at_maximum A) (asset_error ''capability asset exceeds the size limit''))"

definition asset_write :: "asset_store \<Rightarrow> bytes \<Rightarrow> (string \<times> string) assets" where
  "asset_write A content =
     (if \<not> at_capture A
      then raise (asset_error ''capturing unclassified screen pixels as assets is disabled'')
      else
        then_c (lift_c (validate_content A content))
        (let digest = at_sha256 A content; name = asset_name digest;
             answer = ret (''asset://sha256/'' @ digest, ''sha256:'' @ digest) in
         bind_c (gets (\<lambda>fs. map_of fs name)) (\<lambda>old.
         case old of
           Some c \<Rightarrow> if c \<noteq> content then raise (asset_error ''content-addressed asset collision'') else answer
         | None \<Rightarrow> then_c (update (\<lambda>fs. fs @ [(name, content)])) answer)))"

text \<open>\<open>int(digest, 16)\<close> also takes a sign, underscores, a prefix and spaces: a parameter of reading.\<close>

definition asset_read ::
  "asset_store \<Rightarrow> (string \<Rightarrow> bool) \<Rightarrow> asset_files \<Rightarrow> string \<Rightarrow> string \<Rightarrow> bytes result" where
  "asset_read A is_hexadecimal fs key content_hash =
     (let digest = drop (length ''asset://sha256/'') key in
      if \<not> starts_with ''asset://sha256/'' key
      then Inl (asset_error ''asset key must be content-addressed'')
      else if content_hash \<noteq> ''sha256:'' @ digest \<or> length digest \<noteq> 64
      then Inl (asset_error ''asset key and declared hash disagree'')
      else if \<not> is_hexadecimal digest
      then Inl (asset_error ''asset digest is not hexadecimal'')
      else case map_of fs (asset_name digest) of
        None \<Rightarrow> Inl (asset_error ''capability asset is missing'')
      | Some content \<Rightarrow>
          bind_r (validate_content A content) (\<lambda>_.
          if at_sha256 A content \<noteq> digest
          then Inl (asset_error ''capability asset failed integrity verification'')
          else Inr content))"

end
