(* ===== verification/Vision.thy ===== *)
theory Vision
  imports Geometry Assets Replay "HOL-Library.Product_Lexorder"
begin

text \<open>
  The visual grounder (\<^verbatim>\<open>surfaces/vision.py\<close>): from a frame and a visual candidate to one
  region, by texts that were recognized, by the layout of the frame or by a stored image. The text
  recognizer and the image library are parameters; the caches, the clock against the deadline and the
  asset directory are state. A raster is the list of its rows.
\<close>

section \<open>Images\<close>

type_synonym raster = "int list list"

definition raster_height :: "raster \<Rightarrow> int" where
  "raster_height r = int (length r)"

definition raster_width :: "raster \<Rightarrow> int" where
  "raster_width r = (case r of [] \<Rightarrow> 0 | row # rows \<Rightarrow> int (length row))"

definition raster_size :: "raster \<Rightarrow> int" where
  "raster_size r = raster_height r * raster_width r"

text \<open>\<open>image[top:bottom, left:right]\<close>.\<close>

definition crop :: "int \<Rightarrow> int \<Rightarrow> int \<Rightarrow> int \<Rightarrow> raster \<Rightarrow> raster" where
  "crop t b l r img =
     map (\<lambda>row. take (nat (r - l)) (drop (nat l) row)) (take (nat (b - t)) (drop (nat t) img))"

definition crop_region :: "screen_region \<Rightarrow> raster \<Rightarrow> raster" where
  "crop_region b r = crop (sr_y b) (sr_bottom b) (sr_x b) (sr_right b) r"

definition edge_pixels :: "raster \<Rightarrow> int" where
  "edge_pixels r = int (length (filter (\<lambda>p. p \<noteq> 0) (concat r)))"

text \<open>\<open>_trim_edges\<close>: to the bounding rectangle of what is not zero.\<close>

definition nonzero_rows :: "raster \<Rightarrow> nat list" where
  "nonzero_rows r = [i \<leftarrow> [0..<length r]. list_ex (\<lambda>p. p \<noteq> 0) (r ! i)]"

definition nonzero_columns :: "raster \<Rightarrow> nat list" where
  "nonzero_columns r =
     [j \<leftarrow> [0..<nat (raster_width r)]. list_ex (\<lambda>row. j < length row \<and> row ! j \<noteq> 0) r]"

definition trim_edges :: "raster \<Rightarrow> raster" where
  "trim_edges r =
     (if nonzero_rows r = [] then r
      else crop (int (hd (nonzero_rows r))) (int (last (nonzero_rows r)) + 1)
             (int (hd (nonzero_columns r))) (int (last (nonzero_columns r)) + 1) r)"

section \<open>Layout graphs and the grounder\<close>

datatype node_kind = PHRASE | CONTROL | TEXT_ENCLOSURE | IMAGE | CONTAINER

fun node_word :: "node_kind \<Rightarrow> string" where
  "node_word PHRASE = ''phrase''"
| "node_word CONTROL = ''control''"
| "node_word TEXT_ENCLOSURE = ''text_enclosure''"
| "node_word IMAGE = ''image''"
| "node_word CONTAINER = ''container''"

record visual_node =
  nd_id :: string
  nd_kind :: node_kind
  nd_region :: screen_region
  nd_edge :: "raster option"
  nd_token :: "visual_token option"

record layout_graph =
  lg_hash :: string
  lg_viewport :: viewport
  lg_median :: rat
  lg_nodes :: "visual_node list"
  lg_containment :: "(string \<times> string) list"

definition of_kind :: "layout_graph \<Rightarrow> node_kind \<Rightarrow> visual_node list" where
  "of_kind g k = [n \<leftarrow> lg_nodes g. nd_kind n = k]"

record vision_state =
  vz_ocr :: "visual_token list dict"
  vz_graphs :: "layout_graph dict"
  vz_assets :: asset_files
  vz_reads :: nat

type_synonym 'a vision = "(vision_state, 'a) comp"

text \<open>
  The recognizer and the library. \<open>ve_boxes\<close> are the bounding rectangles of the contours of an image
  and its edges, one list per thresholding; \<open>ve_distance\<close> is the distance transform,
  \<open>ve_response\<close> the normalized correlation of a template and \<open>ve_peak\<close> the largest response with its
  place. The clock reads microseconds.
\<close>

record vision_env =
  ve_policy :: "vision_policy option"
  ve_store :: asset_store
  ve_hexadecimal :: "string \<Rightarrow> bool"
  ve_sha256 :: "bytes \<Rightarrow> string"
  ve_clock :: "nat \<Rightarrow> int"
  ve_recognize :: "bytes \<Rightarrow> visual_token list result"
  ve_nfkc :: "string \<Rightarrow> string"
  ve_fullmatch :: "string \<Rightarrow> string \<Rightarrow> bool"
  ve_decode :: "bytes \<Rightarrow> raster option"
  ve_decode_gray :: "bytes \<Rightarrow> raster option"
  ve_encode :: "raster \<Rightarrow> bytes option"
  ve_edges :: "bool \<Rightarrow> raster \<Rightarrow> raster"
  ve_sqrt :: "rat \<Rightarrow> rat"
  ve_exp :: "rat \<Rightarrow> rat"
  ve_resize :: "int \<Rightarrow> int \<Rightarrow> raster \<Rightarrow> raster"
  ve_resize_nearest :: "int \<Rightarrow> int \<Rightarrow> raster \<Rightarrow> raster"
  ve_boxes :: "int \<Rightarrow> raster \<Rightarrow> raster \<Rightarrow> (int \<times> int \<times> int \<times> int) list list"
  ve_distance :: "bool list list \<Rightarrow> rat list list"
  ve_response :: "raster \<Rightarrow> raster \<Rightarrow> rat list list"
  ve_peak :: "rat list list \<Rightarrow> rat \<times> int \<times> int"

section \<open>Errors, budgets and the clock\<close>

definition cardinality_error :: "nat \<Rightarrow> string \<Rightarrow> exn" where
  "cardinality_error count target =
     SurfaceFailure ((simple_error (if 1 < count then ''target_ambiguous'' else ''target_absent'')
         (target @ '' did not resolve exactly once.''))
       \<lparr>se_recoverable := True, se_effect_absent := True, se_expected := Some [(''count'', JInt 1)],
        se_observed := Some [(''count'', JInt (int count))]\<rparr>)"

text \<open>\<open>SurfaceError(code, message, effect_absent=True)\<close>, and the recoverable one.\<close>

definition unaffected :: "string \<Rightarrow> string \<Rightarrow> exn" where
  "unaffected code message = SurfaceFailure (absent_error code message)"

definition retriable :: "string \<Rightarrow> string \<Rightarrow> exn" where
  "retriable code message = SurfaceFailure ((absent_error code message)\<lparr>se_recoverable := True\<rparr>)"

definition score_json :: "rat \<Rightarrow> json" where
  "score_json x = JFloat (of_int (py_round (x * 10000)) / 10000)"

definition required_policy :: "vision_env \<Rightarrow> vision_policy result" where
  "required_policy V =
     (case ve_policy V of
        None \<Rightarrow> Inl (unaffected ''visual_policy_missing''
          ''Semantic visual grounding requires a configured visual policy.'')
      | Some p \<Rightarrow> Inr p)"

definition read_monotonic :: "vision_env \<Rightarrow> int vision" where
  "read_monotonic V =
     bind_c (gets (\<lambda>s. ve_clock V (vz_reads s))) (\<lambda>t.
     then_c (update (\<lambda>s. s\<lparr>vz_reads := vz_reads s + 1\<rparr>)) (ret t))"

definition check_deadline :: "vision_env \<Rightarrow> int \<Rightarrow> unit vision" where
  "check_deadline V started =
     bind_c (lift_c (required_policy V)) (\<lambda>p.
     bind_c (read_monotonic V) (\<lambda>now.
     if vy_milliseconds p * 1000 < now - started
     then raise (unaffected ''visual_grounding_budget_exceeded''
            ''Visual grounding exceeded its bounded execution budget.'')
     else ret ()))"

text \<open>\<open>if self.policy is not None: ...\<close>\<close>

definition with_policy :: "vision_env \<Rightarrow> unit vision \<Rightarrow> unit vision" where
  "with_policy V m = (if ve_policy V = None then ret () else m)"

definition big_endian :: "bytes \<Rightarrow> int" where
  "big_endian bs = fold (\<lambda>b n. n * 256 + of_char b) bs 0"

definition png_dimensions :: "bytes \<Rightarrow> (int \<times> int) option" where
  "png_dimensions png =
     (if length png < 24 \<or> \<not> starts_with png_signature png then None
      else Some (big_endian (take 4 (drop 16 png)), big_endian (take 4 (drop 20 png))))"

definition png_viewport :: "bytes \<Rightarrow> viewport result" where
  "png_viewport png =
     (case png_dimensions png of
        None \<Rightarrow> Inl (SurfaceFailure (simple_error ''frame_invalid''
          ''The rendered surface frame is not a valid PNG.''))
      | Some (w, h) \<Rightarrow> mk_viewport \<lparr>vp_width = w, vp_height = h, vp_scale = 1\<rparr>)"

definition validate_frame_budget :: "vision_env \<Rightarrow> bytes \<Rightarrow> unit result" where
  "validate_frame_budget V png =
     bind_r (required_policy V) (\<lambda>p.
     case png_dimensions png of
       None \<Rightarrow> Inr ()
     | Some (w, h) \<Rightarrow>
         check (0 < w \<and> 0 < h \<and> w * h \<le> vy_frame_pixels p)
           (unaffected ''visual_frame_budget_exceeded''
              ''The rendered frame exceeds the visual grounding pixel budget.''))"

definition frame_hash :: "vision_env \<Rightarrow> bytes \<Rightarrow> string" where
  "frame_hash V png = ''sha256:'' @ ve_sha256 V png"

definition decode_frame :: "vision_env \<Rightarrow> bytes \<Rightarrow> raster result" where
  "decode_frame V png =
     (case ve_decode V png of
        None \<Rightarrow> Inl (SurfaceFailure (simple_error ''frame_invalid''
          ''The rendered surface frame is not a valid image.''))
      | Some r \<Rightarrow> Inr r)"

section \<open>Recognized text\<close>

text \<open>A cache of eight frames; a new one takes the place of the oldest.\<close>

definition evict :: "'a dict \<Rightarrow> 'a dict" where
  "evict d = (if 8 \<le> length d then tl d else d)"

definition recall_tokens :: "vision_env \<Rightarrow> bytes \<Rightarrow> visual_token list vision" where
  "recall_tokens V png =
     (let key = frame_hash V png in
      bind_c (gets (\<lambda>s. dict_get (vz_ocr s) key)) (\<lambda>hit.
      case hit of
        Some ts \<Rightarrow> ret ts
      | None \<Rightarrow>
          then_c (update (\<lambda>s. s\<lparr>vz_ocr := evict (vz_ocr s)\<rparr>))
          (bind_c (lift_c (ve_recognize V png)) (\<lambda>ts.
           then_c (update (\<lambda>s. s\<lparr>vz_ocr := dict_set key ts (vz_ocr s)\<rparr>)) (ret ts)))))"

definition deadline_if :: "vision_env \<Rightarrow> int option \<Rightarrow> unit vision" where
  "deadline_if V started =
     (case started of None \<Rightarrow> ret () | Some t \<Rightarrow> with_policy V (check_deadline V t))"

definition over_token_budget :: "vision_env \<Rightarrow> visual_token list \<Rightarrow> bool" where
  "over_token_budget V ts =
     (case ve_policy V of None \<Rightarrow> False | Some p \<Rightarrow> vo_maximum_tokens (vy_ocr p) < int (length ts))"

text \<open>\<open>_tokens\<close>.\<close>

definition frame_tokens :: "vision_env \<Rightarrow> bytes \<Rightarrow> int option \<Rightarrow> visual_token list vision" where
  "frame_tokens V png started =
     then_c (deadline_if V started)
     (bind_c (recall_tokens V png) (\<lambda>ts.
      if over_token_budget V ts
      then raise (unaffected ''visual_ocr_budget_exceeded''
             ''The rendered frame exceeds the visual OCR token budget.'')
      else then_c (deadline_if V started) (ret ts)))"

text \<open>\<open>_normalize\<close>: NFKC, case folding, single spaces.\<close>

fun py_words :: "string \<Rightarrow> string list" where
  "py_words [] = []"
| "py_words (c # cs) =
     (if py_isspace c then py_words cs
      else case cs of
          [] \<Rightarrow> [[c]]
        | d # ds \<Rightarrow>
            if py_isspace d then [c] # py_words cs
            else (case py_words cs of [] \<Rightarrow> [[c]] | w # ws \<Rightarrow> (c # w) # ws))"

definition normalize :: "vision_env \<Rightarrow> string \<Rightarrow> string" where
  "normalize V s = join_with '' '' (py_words (py_casefold (ve_nfkc V s)))"

definition text_matches :: "vision_env \<Rightarrow> string \<Rightarrow> match_mode \<Rightarrow> visual_token \<Rightarrow> bool" where
  "text_matches V value match t =
     (case match of
        MATCH_EXACT \<Rightarrow> normalize V (tok_text t) = normalize V value
      | MATCH_CONTAINS \<Rightarrow> contains_str (normalize V value) (normalize V (tok_text t))
      | MATCH_REGEX \<Rightarrow> ve_fullmatch V value (tok_text t))"

definition search_screen :: "normalized_region option \<Rightarrow> viewport \<Rightarrow> screen_region option result" where
  "search_screen spec vp =
     (case spec of
        None \<Rightarrow> Inr None
      | Some n \<Rightarrow> bind_r (normalized_screen n vp) (\<lambda>r. Inr (Some r)))"

definition in_search :: "screen_region option \<Rightarrow> visual_token \<Rightarrow> bool" where
  "in_search region t = (case region of None \<Rightarrow> True | Some r \<Rightarrow> center_in (tok_region t) r)"

definition matching_tokens ::
  "vision_env \<Rightarrow> bytes \<Rightarrow> string \<Rightarrow> match_mode \<Rightarrow> rat \<Rightarrow> normalized_region option \<Rightarrow> viewport \<Rightarrow> int option
     \<Rightarrow> visual_token list vision" where
  "matching_tokens V png value match confidence spec vp started =
     bind_c (lift_c (search_screen spec vp)) (\<lambda>region.
     bind_c (frame_tokens V png started) (\<lambda>ts.
     ret [t \<leftarrow> ts. confidence \<le> tok_confidence t \<and> in_search region t \<and> text_matches V value match t]))"

definition target_of :: "screen_region \<Rightarrow> string \<Rightarrow> rat \<Rightarrow> string \<Rightarrow> visual_target_data result" where
  "target_of r method confidence hash =
     mk_visual_target_data
       \<lparr>vt_region = r, vt_method = method, vt_confidence = confidence, vt_frame_hash = hash\<rparr>"

definition unique_text_target :: "visual_token list \<Rightarrow> string \<Rightarrow> string \<Rightarrow> visual_target_data result" where
  "unique_text_target ts method hash =
     (case ts of
        [t] \<Rightarrow> target_of (tok_region t) method (tok_confidence t) hash
      | _ \<Rightarrow> Inl (cardinality_error (length ts) ''visual text''))"

section \<open>Lines and phrases\<close>

text \<open>\<open>_text_lines\<close>: a token joins the first line whose first token it overlaps enough.\<close>

fun join_line :: "rat \<Rightarrow> visual_token \<Rightarrow> visual_token list list \<Rightarrow> visual_token list list" where
  "join_line m t [] = [[t]]"
| "join_line m t (l # ls) =
     (if m \<le> axis_overlap_ratio (tok_region t) (tok_region (hd l)) True then (l @ [t]) # ls
      else l # join_line m t ls)"

definition reading_order :: "visual_token \<Rightarrow> int \<times> int" where
  "reading_order t = (sr_y (tok_region t), sr_x (tok_region t))"

definition left_edge :: "visual_token \<Rightarrow> int" where
  "left_edge t = sr_x (tok_region t)"

definition text_lines :: "vision_policy \<Rightarrow> visual_token list \<Rightarrow> visual_token list list" where
  "text_lines p ts =
     map (sort_key left_edge)
       (fold (join_line (va_axis_overlap (vy_association p))) (sort_key reading_order ts) [])"

text \<open>\<open>_token_groups\<close>: a line is cut where the gap is too wide.\<close>

definition wide_gap :: "rat \<Rightarrow> visual_token \<Rightarrow> visual_token \<Rightarrow> bool" where
  "wide_gap gap a b = (gap < of_int (sr_x (tok_region b) - sr_right (tok_region a)))"

fun cut_line :: "rat \<Rightarrow> visual_token list \<Rightarrow> visual_token list list" where
  "cut_line gap [] = []"
| "cut_line gap [t] = [[t]]"
| "cut_line gap (t # u # ts) =
     (if wide_gap gap t u then [t] # cut_line gap (u # ts)
      else case cut_line gap (u # ts) of [] \<Rightarrow> [[t]] | g # gs \<Rightarrow> (t # g) # gs)"

definition token_groups :: "vision_policy \<Rightarrow> rat \<Rightarrow> visual_token list \<Rightarrow> visual_token list list" where
  "token_groups p height line = cut_line (vy_line_gap p * height) (sort_key left_edge line)"

text \<open>The phrases of a line: every run of tokens without a wide gap.\<close>

definition phrase_of :: "visual_token list \<Rightarrow> visual_token" where
  "phrase_of ts =
     \<lparr>tok_text = join_with '' '' (map tok_text ts),
      tok_confidence = foldl min 1 (map tok_confidence ts),
      tok_region = the (tokens_region ts)\<rparr>"

fun runs_from :: "rat \<Rightarrow> visual_token list \<Rightarrow> visual_token list \<Rightarrow> visual_token list list" where
  "runs_from gap taken [] = []"
| "runs_from gap taken (t # ts) =
     (if taken \<noteq> [] \<and> wide_gap gap (last taken) t then []
      else (taken @ [t]) # runs_from gap (taken @ [t]) ts)"

fun line_runs :: "rat \<Rightarrow> visual_token list \<Rightarrow> visual_token list list" where
  "line_runs gap [] = []"
| "line_runs gap (t # ts) = runs_from gap [] (t # ts) @ line_runs gap ts"

fun each_deadline :: "vision_env \<Rightarrow> int \<Rightarrow> 'x list \<Rightarrow> unit vision" where
  "each_deadline V started [] = ret ()"
| "each_deadline V started (x # xs) = then_c (check_deadline V started) (each_deadline V started xs)"

definition readable :: "vision_policy \<Rightarrow> visual_token list \<Rightarrow> visual_token list" where
  "readable p ts = [t \<leftarrow> ts. vo_minimum_confidence (vy_ocr p) \<le> tok_confidence t]"

definition phrases_of :: "vision_policy \<Rightarrow> visual_token list \<Rightarrow> visual_token list" where
  "phrases_of p ts =
     (let height = median_text_height ts in
      concat (map (\<lambda>line. map phrase_of (line_runs (vy_line_gap p * height) line)) (text_lines p ts)))"

definition semantic_phrases :: "vision_env \<Rightarrow> vision_policy \<Rightarrow> bytes \<Rightarrow> int \<Rightarrow> visual_token list vision" where
  "semantic_phrases V p png started =
     bind_c (frame_tokens V png (Some started)) (\<lambda>ts.
     if readable p ts = [] then ret []
     else
       then_c (each_deadline V started (text_lines p (readable p ts))) (ret (phrases_of p (readable p ts))))"

text \<open>Equal texts in equal places are one match, the last of them in the place of the first.\<close>

definition unique_tokens :: "vision_env \<Rightarrow> visual_token list \<Rightarrow> visual_token list" where
  "unique_tokens V ts =
     map snd (fold (\<lambda>t d. AList.update (normalize V (tok_text t), tok_region t) t d) ts [])"

definition semantic_matching_tokens ::
  "vision_env \<Rightarrow> bytes \<Rightarrow> string \<Rightarrow> match_mode \<Rightarrow> int \<Rightarrow> visual_token list vision" where
  "semantic_matching_tokens V png value match started =
     bind_c (lift_c (required_policy V)) (\<lambda>p.
     bind_c (semantic_phrases V p png started) (\<lambda>ts.
     ret (unique_tokens V [t \<leftarrow> ts. text_matches V value match t])))"

definition semantic_matches_in_region ::
  "vision_env \<Rightarrow> bytes \<Rightarrow> string \<Rightarrow> match_mode \<Rightarrow> normalized_region option \<Rightarrow> viewport \<Rightarrow> int
     \<Rightarrow> visual_token list vision" where
  "semantic_matches_in_region V png value match spec vp started =
     bind_c (semantic_matching_tokens V png value match started) (\<lambda>ts.
     bind_c (lift_c (search_screen spec vp)) (\<lambda>region. ret [t \<leftarrow> ts. in_search region t]))"

end
