(* ===== verification/VisionLayout.thy ===== *)
theory VisionLayout
  imports Vision
begin

text \<open>
  The layout of a frame (\<^verbatim>\<open>surfaces/vision.py\<close>): the boxes of its components, the graph of
  phrases, controls, images and containers, and the associations read from it: the control of a label,
  the value of a field, the one control among equal texts.
\<close>

section \<open>Boxes\<close>

definition raster_area :: "raster \<Rightarrow> int" where
  "raster_area img = max 1 (raster_height img * raster_width img)"

definition frame_region :: "raster \<Rightarrow> screen_region result" where
  "frame_region img = mk_screen_region (screen_region_at 0 0 (raster_width img) (raster_height img))"

definition analysis_scale :: "vision_env \<Rightarrow> segmentation_policy \<Rightarrow> raster \<Rightarrow> rat" where
  "analysis_scale V p img = min 1 (ve_sqrt V (of_int (vs_maximum_pixels p) / of_int (raster_area img)))"

text \<open>The image and its edges at the size that is analysed.\<close>

definition analysis_sources ::
  "vision_env \<Rightarrow> segmentation_policy \<Rightarrow> raster \<Rightarrow> raster \<Rightarrow> (int \<times> int \<times> int \<times> int) list list" where
  "analysis_sources V p img edge =
     (let scale = analysis_scale V p img in
      if scale < 1
      then
        let w = max 1 (py_round (of_int (raster_width img) * scale));
            h = max 1 (py_round (of_int (raster_height img) * scale)) in
        ve_boxes V (vs_kernel p) (ve_resize V w h img) (ve_resize_nearest V w h edge)
      else ve_boxes V (vs_kernel p) img edge)"

text \<open>A contour's rectangle back at the frame's size.\<close>

definition scaled_region :: "rat \<Rightarrow> int \<times> int \<times> int \<times> int \<Rightarrow> screen_region" where
  "scaled_region scale b =
     (case b of (x, y, w, h) \<Rightarrow>
        screen_region_at (py_round (of_int x / scale)) (py_round (of_int y / scale))
          (max 1 (py_round (of_int w / scale))) (max 1 (py_round (of_int h / scale))))"

definition component_size :: "segmentation_policy \<Rightarrow> int \<Rightarrow> screen_region \<Rightarrow> bool" where
  "component_size p area r =
     (of_int area * vs_minimum_component p \<le> of_int (region_area r) \<and>
      of_int (region_area r) \<le> of_int area * vs_maximum_component p \<and>
      vs_minimum_dimension p \<le> sr_width r \<and> vs_minimum_dimension p \<le> sr_height r)"

definition source_regions ::
  "segmentation_policy \<Rightarrow> rat \<Rightarrow> int \<Rightarrow> (int \<times> int \<times> int \<times> int) list \<Rightarrow> screen_region list result" where
  "source_regions p scale area bs =
     map_r mk_screen_region
       (filter (component_size p area) (map (scaled_region scale) (take (nat (vs_maximum_components p)) bs)))"

fun sources_regions ::
  "vision_env \<Rightarrow> int \<Rightarrow> segmentation_policy \<Rightarrow> rat \<Rightarrow> int \<Rightarrow> (int \<times> int \<times> int \<times> int) list list
     \<Rightarrow> screen_region list vision" where
  "sources_regions V started p scale area [] = ret []"
| "sources_regions V started p scale area (bs # bss) =
     bind_c (lift_c (source_regions p scale area bs)) (\<lambda>rs.
     then_c (check_deadline V started)
     (bind_c (sources_regions V started p scale area bss) (\<lambda>rs'. ret (rs @ rs'))))"

text \<open>Of boxes that nearly coincide, the first, which is the largest.\<close>

fun distinct_regions :: "rat \<Rightarrow> screen_region list \<Rightarrow> screen_region list \<Rightarrow> screen_region list" where
  "distinct_regions t kept [] = kept"
| "distinct_regions t kept (r # rs) =
     (if list_ex (\<lambda>k. t < region_iou r k) kept then distinct_regions t kept rs
      else distinct_regions t (kept @ [r]) rs)"

definition segmented_boxes ::
  "vision_env \<Rightarrow> raster \<Rightarrow> raster \<Rightarrow> int \<Rightarrow> int option \<Rightarrow> screen_region list vision" where
  "segmented_boxes V img edge started reference_area =
     bind_c (lift_c (required_policy V)) (\<lambda>policy.
     let p = vy_segmentation policy;
         area = (case reference_area of None \<Rightarrow> raster_area img | Some a \<Rightarrow> a) in
     bind_c (sources_regions V started p (analysis_scale V p img) area (analysis_sources V p img edge)) (\<lambda>rs.
     ret (take (nat (vs_maximum_components p))
            (distinct_regions (vs_duplicate_iou p) [] (sort_key (\<lambda>r. - region_area r) rs)))))"

section \<open>The graph\<close>

definition aspect_ratio :: "screen_region \<Rightarrow> rat" where
  "aspect_ratio r = of_int (sr_width r) / of_int (max 1 (sr_height r))"

definition box_kind ::
  "segmentation_policy \<Rightarrow> rat \<Rightarrow> int \<Rightarrow> visual_token list \<Rightarrow> screen_region \<Rightarrow> node_kind option" where
  "box_kind p height area ts box =
     (if vs_minimum_container p \<le> of_int (region_area box) / of_int area \<and>
         vs_container_tokens p \<le> int (length (filter (\<lambda>t. center_in (tok_region t) box) ts))
      then Some CONTAINER
      else if vs_control_height p * height \<le> of_int (sr_height box) \<and> vs_control_aspect p \<le> aspect_ratio box
      then Some CONTROL
      else if list_ex (\<lambda>t. strictly_contains box (tok_region t)) ts then Some TEXT_ENCLOSURE
      else if text_overlap_ratio box ts \<le> vs_text_overlap p then Some IMAGE
      else None)"

definition node_id :: "node_kind \<Rightarrow> nat \<Rightarrow> string" where
  "node_id k i = node_word k @ '':'' @ show_nat i"

definition viewport_node :: "screen_region \<Rightarrow> visual_node" where
  "viewport_node r =
     \<lparr>nd_id = ''container:viewport'', nd_kind = CONTAINER, nd_region = r, nd_edge = None, nd_token = None\<rparr>"

definition phrase_nodes :: "visual_token list \<Rightarrow> visual_node list" where
  "phrase_nodes ps =
     map (\<lambda>(i, t). \<lparr>nd_id = node_id PHRASE i, nd_kind = PHRASE, nd_region = tok_region t, nd_edge = None,
                    nd_token = Some t\<rparr>) (enumerate 0 ps)"

definition component_nodes ::
  "segmentation_policy \<Rightarrow> rat \<Rightarrow> int \<Rightarrow> visual_token list \<Rightarrow> raster \<Rightarrow> screen_region list \<Rightarrow> visual_node list" where
  "component_nodes p height area ts edge boxes =
     concat (map (\<lambda>(i, box).
       case box_kind p height area ts box of
         None \<Rightarrow> []
       | Some k \<Rightarrow> [\<lparr>nd_id = node_id k i, nd_kind = k, nd_region = box,
                     nd_edge = Some (trim_edges (crop_region box edge)), nd_token = None\<rparr>])
       (enumerate 0 boxes))"

definition containment_of :: "visual_node list \<Rightarrow> (string \<times> string) list" where
  "containment_of ns =
     concat (map (\<lambda>c. map (\<lambda>n. (nd_id c, nd_id n))
       (filter (\<lambda>n. nd_id c \<noteq> nd_id n \<and> region_contains (nd_region c) (nd_region n)) ns))
       (filter (\<lambda>n. nd_kind n = CONTAINER) ns))"

definition build_graph ::
  "vision_env \<Rightarrow> vision_policy \<Rightarrow> bytes \<Rightarrow> viewport \<Rightarrow> int \<Rightarrow> layout_graph vision" where
  "build_graph V p png vp started =
     then_c (lift_c (validate_frame_budget V png))
     (bind_c (lift_c (decode_frame V png)) (\<lambda>img.
      bind_c (frame_tokens V png (Some started)) (\<lambda>all.
      bind_c (semantic_phrases V p png started) (\<lambda>phrases.
      let ts = readable p all; height = median_text_height ts; edge = ve_edges V True img in
      bind_c (segmented_boxes V img edge started None) (\<lambda>boxes.
      bind_c (lift_c (frame_region img)) (\<lambda>whole.
      let nodes = viewport_node whole # phrase_nodes phrases @
                  component_nodes (vy_segmentation p) height (raster_area img) ts edge boxes in
      ret \<lparr>lg_hash = frame_hash V png, lg_viewport = vp, lg_median = height, lg_nodes = nodes,
           lg_containment = containment_of nodes\<rparr>))))))"

text \<open>\<open>_layout_graph\<close>: a graph is kept for the frame and the viewport it was made for.\<close>

definition layout_of :: "vision_env \<Rightarrow> bytes \<Rightarrow> viewport \<Rightarrow> int \<Rightarrow> layout_graph vision" where
  "layout_of V png vp started =
     bind_c (lift_c (required_policy V)) (\<lambda>p.
     let key = frame_hash V png in
     bind_c (gets (\<lambda>s. dict_get (vz_graphs s) key)) (\<lambda>hit.
     case (case hit of None \<Rightarrow> None | Some g \<Rightarrow> if lg_viewport g = vp then Some g else None) of
       Some g \<Rightarrow> then_c (check_deadline V started) (ret g)
     | None \<Rightarrow>
         bind_c (build_graph V p png vp started) (\<lambda>g.
         then_c (update (\<lambda>s. s\<lparr>vz_graphs := dict_set key g (evict (vz_graphs s))\<rparr>))
         (then_c (check_deadline V started) (ret g)))))"

section \<open>One control among equal texts\<close>

fun gather :: "('x \<Rightarrow> ('s, 'a list) comp) \<Rightarrow> 'x list \<Rightarrow> ('s, 'a list) comp" where
  "gather f [] = ret []"
| "gather f (x # xs) = bind_c (f x) (\<lambda>ys. bind_c (gather f xs) (\<lambda>zs. ret (ys @ zs)))"

definition local_text_enclosures ::
  "vision_env \<Rightarrow> raster \<Rightarrow> screen_region \<Rightarrow> int \<Rightarrow> screen_region \<Rightarrow> screen_region list vision" where
  "local_text_enclosures V img label started search =
     (let padding = sr_height label;
          x0 = max 0 (sr_x search - padding); y0 = max 0 (sr_y search - padding);
          x1 = min (raster_width img) (sr_right search + padding);
          y1 = min (raster_height img) (sr_bottom search + padding) in
      if x1 \<le> x0 \<or> y1 \<le> y0 then ret []
      else
        let part = crop y0 y1 x0 x1 img in
        bind_c (lift_c (mk_screen_region (screen_region_at (sr_x label - x0) (sr_y label - y0)
                  (sr_width label) (sr_height label)))) (\<lambda>local_label.
        bind_c (segmented_boxes V part (ve_edges V False part) started
                  (Some (raster_height img * raster_width img))) (\<lambda>boxes.
        ret [screen_region_at (x0 + sr_x b) (y0 + sr_y b) (sr_width b) (sr_height b).
               b \<leftarrow> boxes, strictly_contains (screen_region_at 0 0 (x1 - x0) (y1 - y0)) b \<and>
                 strictly_contains b local_label])))"

definition holds_one :: "visual_token list \<Rightarrow> screen_region \<Rightarrow> bool" where
  "holds_one ts r = (length (filter (\<lambda>t. center_in (tok_region t) r) ts) = 1)"

definition prefer_unique_control ::
  "vision_env \<Rightarrow> visual_token list \<Rightarrow> bytes \<Rightarrow> viewport \<Rightarrow> int \<Rightarrow> visual_token list vision" where
  "prefer_unique_control V ts png vp started =
     bind_c (layout_of V png vp started) (\<lambda>g.
     let controls = filter (holds_one ts) (map nd_region (of_kind g CONTROL @ of_kind g TEXT_ENCLOSURE)) in
     bind_c (lift_c (decode_frame V png)) (\<lambda>img.
     bind_c (gather (\<lambda>t.
        gather (local_text_enclosures V img (tok_region t) started)
          (tok_region t # filter (\<lambda>c. strictly_contains c (tok_region t)) controls)) ts) (\<lambda>found.
     let enclosures = filter (holds_one ts) found;
         contained = filter (\<lambda>t. list_ex (center_in (tok_region t)) enclosures) ts in
     ret (if length contained = 1 then contained else ts))))"

section \<open>The row of a label\<close>

definition holds_label :: "rat \<Rightarrow> screen_region \<Rightarrow> screen_region \<Rightarrow> bool" where
  "holds_label height anchor r =
     (center_in anchor r \<and> height < of_int (snd (region_center anchor) - sr_y r))"

definition in_same_row :: "association_policy \<Rightarrow> rat \<Rightarrow> bool \<Rightarrow> screen_region \<Rightarrow> screen_region \<Rightarrow> bool" where
  "in_same_row a height by_center anchor r =
     (sr_right anchor \<le> sr_x r \<and>
      (va_axis_overlap a \<le> axis_overlap_ratio anchor r True \<or>
       by_center \<and>
       \<bar>of_int (sr_y r) + of_int (sr_height r) / 2 - (of_int (sr_y anchor) + of_int (sr_height anchor) / 2)\<bar>
         \<le> va_image_tolerance a * height))"

definition follows_label :: "association_policy \<Rightarrow> rat \<Rightarrow> screen_region \<Rightarrow> screen_region \<Rightarrow> bool" where
  "follows_label a height anchor r =
     (0 < overlap_length (sr_x anchor) (sr_right anchor) (sr_x r) (sr_right r) \<and>
      - height \<le> of_int (sr_y r - sr_bottom anchor) \<and>
      of_int (sr_y r - sr_bottom anchor) \<le> va_following_gap a * height)"

definition select_structural_row ::
  "association_policy \<Rightarrow> screen_region \<Rightarrow> visual_node list \<Rightarrow> rat \<Rightarrow> bool \<Rightarrow> visual_node list" where
  "select_structural_row a anchor candidates height by_center =
     (let open_nodes = filter (\<lambda>n. \<not> holds_label height anchor (nd_region n)) candidates;
          same_row = filter (\<lambda>n. in_same_row a height by_center anchor (nd_region n)) open_nodes;
          following = filter (\<lambda>n. \<not> in_same_row a height by_center anchor (nd_region n) \<and>
                                  follows_label a height anchor (nd_region n)) open_nodes in
      if same_row \<noteq> [] then same_row
      else if following = [] then []
      else
        let nearest = Min (set (map (\<lambda>n. sr_y (nd_region n)) following)) in
        filter (\<lambda>n. of_int \<bar>sr_y (nd_region n) - nearest\<bar> \<le> va_row_tolerance a * height) following)"

definition intervening_control_text :: "screen_region \<Rightarrow> screen_region \<Rightarrow> visual_token list \<Rightarrow> bool" where
  "intervening_control_text label control ts =
     list_ex (\<lambda>t. case region_center (tok_region t) of (x, y) \<Rightarrow>
       if sr_right label \<le> sr_x control
       then sr_right label < x \<and> x < sr_x control \<and> max (sr_y label) (sr_y control) \<le> y \<and>
            y \<le> min (sr_bottom label) (sr_bottom control)
       else sr_bottom label < y \<and> y < sr_y control \<and>
            sr_x (tok_region t) < min (sr_right label) (sr_right control) \<and>
            max (sr_x label) (sr_x control) < sr_right (tok_region t)) ts"

definition control_like :: "vision_policy \<Rightarrow> rat \<Rightarrow> screen_region \<Rightarrow> screen_region \<Rightarrow> bool" where
  "control_like p height label r =
     (sr_height label \<le> sr_height r \<and>
      of_int (sr_height r) \<le> va_following_gap (vy_association p) * height \<and>
      vs_control_aspect (vy_segmentation p) \<le> aspect_ratio r)"

definition labeled_controls :: "vision_policy \<Rightarrow> layout_graph \<Rightarrow> screen_region \<Rightarrow> visual_node list" where
  "labeled_controls p g label =
     of_kind g CONTROL @
     filter (\<lambda>n. control_like p (lg_median g) label (nd_region n)) (of_kind g CONTAINER @ of_kind g IMAGE)"

definition only_one :: "'a list \<Rightarrow> string \<Rightarrow> 'a result" where
  "only_one xs target = (case xs of [x] \<Rightarrow> Inr x | _ \<Rightarrow> Inl (cardinality_error (length xs) target))"

lemma only_one_Inr: "only_one xs target = Inr x \<longleftrightarrow> xs = [x]"
  by (simp add: only_one_def split: list.splits)

definition resolve_labeled_control ::
  "vision_env \<Rightarrow> string \<Rightarrow> match_mode \<Rightarrow> bytes \<Rightarrow> viewport \<Rightarrow> int \<Rightarrow> visual_target_data vision" where
  "resolve_labeled_control V label_text match png vp started =
     bind_c (semantic_matching_tokens V png label_text match started) (\<lambda>labels.
     bind_c (lift_c (only_one labels ''rendered control label'')) (\<lambda>label.
     bind_c (layout_of V png vp started) (\<lambda>g.
     bind_c (lift_c (required_policy V)) (\<lambda>p.
     bind_c (filter_c (\<lambda>n. bind_c (frame_tokens V png None) (\<lambda>ts.
                ret (\<not> intervening_control_text (tok_region label) (nd_region n) ts)))
              (select_structural_row (vy_association p) (tok_region label)
                 (labeled_controls p g (tok_region label)) (lg_median g) False)) (\<lambda>best.
     bind_c (lift_c (only_one best ''rendered labeled control'')) (\<lambda>control.
     then_c (check_deadline V started)
     (lift_c (target_of (nd_region control) ''rendered_labeled_control'' (tok_confidence label)
        (frame_hash V png)))))))))"

section \<open>The value of a field\<close>

definition horizontal_value_tokens ::
  "vision_policy \<Rightarrow> screen_region \<Rightarrow> visual_token list \<Rightarrow> rat \<Rightarrow> visual_token list result" where
  "horizontal_value_tokens p label ts height =
     (let row = [t \<leftarrow> ts. sr_right label \<le> sr_x (tok_region t) \<and>
                   va_axis_overlap (vy_association p) \<le> axis_overlap_ratio (tok_region t) label True] in
      if row = [] then Inr [] else only_one (token_groups p height row) ''rendered field value'')"

definition line_top :: "visual_token list \<Rightarrow> int" where
  "line_top line = Min (set (map (\<lambda>t. sr_y (tok_region t)) line))"

definition stacked_value_tokens ::
  "vision_policy \<Rightarrow> screen_region \<Rightarrow> visual_token list \<Rightarrow> rat \<Rightarrow> visual_token list result" where
  "stacked_value_tokens p label ts height =
     (let a = vy_association p;
          following = [l \<leftarrow> text_lines p ts. sr_bottom label \<le> line_top l \<and>
            0 < line_horizontal_overlap l label \<and>
            of_int (line_top l - sr_bottom label) \<le> va_following_gap a * height] in
      if following = [] then Inr []
      else
        let nearest_y = Min (set (map line_top following));
            nearest = [l \<leftarrow> following. of_int \<bar>line_top l - nearest_y\<bar> \<le> va_row_tolerance a * height];
            groups = [g \<leftarrow> concat (map (token_groups p height) nearest). 0 < line_horizontal_overlap g label] in
        only_one groups ''rendered field value'')"

definition associated_value_tokens ::
  "vision_policy \<Rightarrow> screen_region \<Rightarrow> visual_token list \<Rightarrow> rat \<Rightarrow> visual_token list result" where
  "associated_value_tokens p label ts height =
     bind_r (horizontal_value_tokens p label ts height) (\<lambda>row.
     if row \<noteq> [] then Inr row else stacked_value_tokens p label ts height)"

text \<open>
  \<open>_field_value_tokens\<close>: the containers from the smallest out. A value on the label's row is taken
  from the first that has one, unless a smaller one had a value below the label.
\<close>

fun scan_containers ::
  "vision_policy \<Rightarrow> rat \<Rightarrow> screen_region \<Rightarrow> visual_token list \<Rightarrow> text_relation option \<Rightarrow> visual_token list
     \<Rightarrow> screen_region list \<Rightarrow> visual_token list result" where
  "scan_containers p height label ts relation stacked [] = Inr stacked"
| "scan_containers p height label ts relation stacked (c # cs) =
     (let scoped = [t \<leftarrow> ts. region_contains c (tok_region t)] in
      bind_r (if relation \<noteq> Some BELOW then horizontal_value_tokens p label scoped height else Inr [])
        (\<lambda>row.
      if row \<noteq> []
      then if stacked \<noteq> [] then Inl (cardinality_error 2 ''competing field value layouts'') else Inr row
      else if stacked = [] \<and> relation \<noteq> Some RIGHT_OF
      then bind_r (stacked_value_tokens p label scoped height) (\<lambda>below.
           if below \<noteq> [] \<and> relation = Some BELOW then Inr below
           else scan_containers p height label ts relation below cs)
      else scan_containers p height label ts relation stacked cs))"

definition field_value_tokens ::
  "vision_policy \<Rightarrow> layout_graph \<Rightarrow> screen_region \<Rightarrow> visual_token list \<Rightarrow> text_relation option
     \<Rightarrow> visual_token list result" where
  "field_value_tokens p g label ts relation =
     scan_containers p (lg_median g) label ts relation []
       (sort_key region_area
          (filter (\<lambda>r. region_contains r label) (map nd_region (of_kind g CONTAINER))))"

definition resolve_field_value ::
  "vision_env \<Rightarrow> string \<Rightarrow> match_mode \<Rightarrow> text_relation option \<Rightarrow> bytes \<Rightarrow> viewport \<Rightarrow> int
     \<Rightarrow> visual_target_data vision" where
  "resolve_field_value V label_text match relation png vp started =
     bind_c (lift_c (required_policy V)) (\<lambda>p.
     bind_c (semantic_matching_tokens V png label_text match started) (\<lambda>labels.
     bind_c (lift_c (only_one labels ''rendered field label'')) (\<lambda>label.
     bind_c (layout_of V png vp started) (\<lambda>g.
     bind_c (frame_tokens V png (Some started)) (\<lambda>all.
     bind_c (lift_c (field_value_tokens p g (tok_region label)
               [t \<leftarrow> readable p all. \<not> center_in (tok_region t) (tok_region label)] relation)) (\<lambda>value_tokens.
     case tokens_region value_tokens of
       None \<Rightarrow> raise (retriable ''target_absent''
                 ''No visual field value was associated with the rendered label.'')
     | Some region \<Rightarrow>
         then_c (check_deadline V started)
         (lift_c (target_of region ''rendered_field_value'' (Min (set (map tok_confidence value_tokens)))
            (frame_hash V png)))))))))"

section \<open>The container of a label\<close>

definition anchor_container ::
  "layout_graph \<Rightarrow> screen_region \<Rightarrow> node_kind \<Rightarrow> visual_node result" where
  "anchor_container g anchor kind =
     (let containers = [c \<leftarrow> of_kind g CONTAINER. region_contains (nd_region c) anchor \<and>
            list_ex (\<lambda>n. (nd_id c, nd_id n) \<in> set (lg_containment g) \<and>
                         (kind \<noteq> PHRASE \<or> region_iou (nd_region n) anchor = 0)) (of_kind g kind)] in
      if containers = []
      then Inl (retriable ''target_absent''
             ''No visual container associated the rendered anchor with a target.'')
      else
        let smallest = Min (set (map (\<lambda>c. region_area (nd_region c)) containers)) in
        only_one [c \<leftarrow> containers. region_area (nd_region c) = smallest] ''visual anchor container'')"

definition nodes_in_anchor_container ::
  "layout_graph \<Rightarrow> screen_region \<Rightarrow> node_kind \<Rightarrow> visual_node list result" where
  "nodes_in_anchor_container g anchor kind =
     bind_r (anchor_container g anchor kind) (\<lambda>c.
     Inr [n \<leftarrow> of_kind g kind. (nd_id c, nd_id n) \<in> set (lg_containment g)])"

end
