(* ===== verification/VisionMatch.thy ===== *)
theory VisionMatch
  imports VisionLayout
begin

text \<open>
  Stored images and the entry points of the grounder (\<^verbatim>\<open>surfaces/vision.py\<close>): signatures
  of components and templates of the frame, the resolution of every visual candidate, extraction and
  text conditions, and the creation of assets.
\<close>

section \<open>Signatures\<close>

definition blank_canvas :: "int \<Rightarrow> int \<Rightarrow> raster" where
  "blank_canvas w h = replicate (nat h) (replicate (nat w) 0)"

text \<open>\<open>canvas[top:top + height, left:left + width] = img\<close>.\<close>

definition paste :: "int \<Rightarrow> int \<Rightarrow> raster \<Rightarrow> raster \<Rightarrow> raster" where
  "paste x y img canvas =
     map (\<lambda>(i, row). map (\<lambda>(j, v).
         if y \<le> int i \<and> int i < y + raster_height img \<and> x \<le> int j \<and> int j < x + raster_width img
         then img ! nat (int i - y) ! nat (int j - x) else v) (enumerate 0 row)) (enumerate 0 canvas)"

text \<open>The size of an image scaled into the canvas without its padding.\<close>

definition signature_size :: "image_policy \<Rightarrow> int \<Rightarrow> int \<Rightarrow> int \<times> int" where
  "signature_size p w h =
     (let scale = min (of_int (vi_width p - vi_padding p) / of_int (max 1 w) :: rat)
                      (of_int (vi_height p - vi_padding p) / of_int (max 1 h)) in
      (max 1 (py_round (of_int w * scale)), max 1 (py_round (of_int h * scale))))"

definition signature_place :: "image_policy \<Rightarrow> int \<times> int \<Rightarrow> int \<times> int" where
  "signature_place p extent = ((vi_width p - fst extent) div 2, (vi_height p - snd extent) div 2)"

definition normalize_signature :: "vision_env \<Rightarrow> image_policy \<Rightarrow> raster \<Rightarrow> raster" where
  "normalize_signature V p edge =
     (let trimmed = trim_edges edge; canvas = blank_canvas (vi_width p) (vi_height p) in
      if raster_size trimmed = 0 then canvas
      else
        let extent = signature_size p (raster_width trimmed) (raster_height trimmed);
            place = signature_place p extent in
        paste (fst place) (snd place) (ve_resize V (fst extent) (snd extent) trimmed) canvas)"

definition edge_mask :: "raster \<Rightarrow> bool list list" where
  "edge_mask r = map (map (\<lambda>v. 0 < v)) r"

definition mask_pairs :: "bool list list \<Rightarrow> bool list list \<Rightarrow> (bool \<times> bool) list" where
  "mask_pairs a b = zip (concat a) (concat b)"

definition count_pairs :: "(bool \<times> bool \<Rightarrow> bool) \<Rightarrow> (bool \<times> bool) list \<Rightarrow> int" where
  "count_pairs f ps = int (length (filter f ps))"

text \<open>The mean of the distances at the places of a mask.\<close>

definition mean_at :: "bool list list \<Rightarrow> rat list list \<Rightarrow> rat" where
  "mean_at marks ds =
     (let vs = map snd (filter fst (zip (concat marks) (concat ds))) in sum_list vs / of_nat (length vs))"

definition mask_overlap :: "bool list list \<Rightarrow> bool list list \<Rightarrow> rat" where
  "mask_overlap a b =
     of_int (count_pairs (\<lambda>(x, y). x \<and> y) (mask_pairs a b)) /
     of_int (max 1 (count_pairs (\<lambda>(x, y). x \<or> y) (mask_pairs a b)))"

definition mask_chamfer :: "vision_env \<Rightarrow> image_policy \<Rightarrow> int \<Rightarrow> bool list list \<Rightarrow> bool list list \<Rightarrow> rat" where
  "mask_chamfer V p height a b =
     ve_exp V (- ((mean_at a (ve_distance V b) + mean_at b (ve_distance V a)) / 2) /
               max 1 (of_int height * vi_chamfer_decay p))"

definition signature_score :: "vision_env \<Rightarrow> image_policy \<Rightarrow> raster \<Rightarrow> raster \<Rightarrow> rat" where
  "signature_score V p template candidate =
     (let a = edge_mask (normalize_signature V p template);
          b = edge_mask (normalize_signature V p candidate) in
      if True \<notin> set (concat a) \<or> True \<notin> set (concat b) then 0
      else vi_overlap_weight p * mask_overlap a b +
           (1 - vi_overlap_weight p) * mask_chamfer V p (raster_height template) a b)"

section \<open>Stored images\<close>

text \<open>\<open>except CapabilityAssetError\<close>.\<close>

definition guard_asset :: "exn \<Rightarrow> 'a result \<Rightarrow> 'a result" where
  "guard_asset e r = (case r of Inl (CapabilityAssetError m) \<Rightarrow> Inl e | _ \<Rightarrow> r)"

definition load_image :: "vision_env \<Rightarrow> string \<Rightarrow> string \<Rightarrow> string \<Rightarrow> raster vision" where
  "load_image V what key hash =
     bind_c (gets vz_assets) (\<lambda>files.
     bind_c (lift_c (guard_asset
       (unaffected ''template_integrity_failed''
          (''The visual '' @ what @ '' is missing or failed integrity verification.''))
       (asset_read (ve_store V) (ve_hexadecimal V) files key hash))) (\<lambda>content.
     case ve_decode_gray V content of
       None \<Rightarrow> raise (SurfaceFailure (simple_error ''template_invalid''
                 (''The visual '' @ what @ '' could not be decoded.'')))
     | Some img \<Rightarrow> ret img))"

text \<open>A method of the asset store, on the directory.\<close>

definition in_assets :: "'a assets \<Rightarrow> 'a vision" where
  "in_assets m = (\<lambda>s. case m (vz_assets s) of (r, files) \<Rightarrow> (r, s\<lparr>vz_assets := files\<rparr>))"

definition store_image :: "vision_env \<Rightarrow> string \<Rightarrow> raster \<Rightarrow> (string \<times> string) vision" where
  "store_image V what img =
     (case ve_encode V img of
        None \<Rightarrow> raise (SurfaceFailure (simple_error ''template_encoding_failed''
                  (''The visual '' @ what @ '' could not be encoded.'')))
      | Some content \<Rightarrow>
          catch_c (in_assets (asset_write (ve_store V) content))
            (\<lambda>e. case e of CapabilityAssetError m \<Rightarrow> Some m | _ \<Rightarrow> None)
            (\<lambda>_. raise (SurfaceFailure (simple_error ''template_storage_failed''
                  (''The visual '' @ what @ '' could not be stored.'')))))"

section \<open>The image of a group\<close>

fun score_nodes ::
  "vision_env \<Rightarrow> image_policy \<Rightarrow> int \<Rightarrow> raster \<Rightarrow> visual_node list \<Rightarrow> (rat \<times> visual_node) list vision" where
  "score_nodes V p started template [] = ret []"
| "score_nodes V p started template (n # ns) =
     then_c (check_deadline V started)
     (bind_c (score_nodes V p started template ns) (\<lambda>rest.
      ret (case nd_edge n of
             None \<Rightarrow> rest
           | Some edge \<Rightarrow> (signature_score V p template edge, n) # rest)))"

definition pick_best :: "image_policy \<Rightarrow> (rat \<times> visual_node) list \<Rightarrow> (rat \<times> visual_node) result" where
  "pick_best p scored =
     (case sort_key (\<lambda>x. - fst x) scored of
        [] \<Rightarrow> Inl (unaffected ''target_absent'' ''No visual component could be compared.'')
      | best # rest \<Rightarrow>
          let second = (case rest of [] \<Rightarrow> 0 | r # rs \<Rightarrow> fst r) in
          if fst best < vi_minimum_similarity p
          then Inl (SurfaceFailure ((absent_error ''target_absent''
                 ''No visual component met the global similarity floor.'')
                 \<lparr>se_recoverable := True, se_observed := Some [(''score'', score_json (fst best))]\<rparr>))
          else if rest \<noteq> [] \<and> fst best - second < vi_uniqueness_margin p
          then Inl (SurfaceFailure ((absent_error ''target_ambiguous''
                 ''The semantic group contains multiple equally similar visual components.'')
                 \<lparr>se_observed := Some [(''best_score'', score_json (fst best)),
                                      (''second_score'', score_json second)]\<rparr>))
          else Inr best)"

definition resolve_group_image ::
  "vision_env \<Rightarrow> string \<Rightarrow> match_mode \<Rightarrow> string \<Rightarrow> string \<Rightarrow> bytes \<Rightarrow> viewport \<Rightarrow> int
     \<Rightarrow> visual_target_data vision" where
  "resolve_group_image V group_label match asset_key content_hash png vp started =
     bind_c (lift_c (required_policy V)) (\<lambda>p.
     bind_c (semantic_matching_tokens V png group_label match started) (\<lambda>labels.
     bind_c (lift_c (only_one labels ''rendered image group label'')) (\<lambda>label.
     bind_c (layout_of V png vp started) (\<lambda>g.
     bind_c (lift_c (nodes_in_anchor_container g (tok_region label) IMAGE)) (\<lambda>images.
     let related = select_structural_row (vy_association p) (tok_region label) images (lg_median g) True in
     if related = []
     then raise (retriable ''target_absent'' ''No visual component was found in the labeled group.'')
     else
       bind_c (load_image V ''signature'' asset_key content_hash) (\<lambda>img.
       bind_c (score_nodes V (vy_image p) started (normalize_signature V (vy_image p) img) related) (\<lambda>scored.
       bind_c (lift_c (pick_best (vy_image p) scored)) (\<lambda>best.
       then_c (check_deadline V started)
       (lift_c (target_of (nd_region (snd best)) ''rendered_group_image'' (fst best)
          (frame_hash V png)))))))))))"

section \<open>Templates\<close>

text \<open>A detection: the score, the place and the size.\<close>

type_synonym detection = "rat \<times> int \<times> int \<times> int \<times> int"

definition suppress :: "int \<Rightarrow> int \<Rightarrow> int \<Rightarrow> int \<Rightarrow> rat list list \<Rightarrow> rat list list" where
  "suppress y0 y1 x0 x1 resp =
     map (\<lambda>(i, row). map (\<lambda>(j, v).
         if y0 \<le> int i \<and> int i < y1 \<and> x0 \<le> int j \<and> int j < x1 then -1 else v) (enumerate 0 row))
       (enumerate 0 resp)"

text \<open>\<open>_template_peaks\<close>: at most \<open>n\<close> peaks, each apart from the ones before.\<close>

fun template_peaks :: "vision_env \<Rightarrow> int \<Rightarrow> int \<Rightarrow> rat \<Rightarrow> nat \<Rightarrow> rat list list \<Rightarrow> detection list" where
  "template_peaks V width height bound 0 resp = []"
| "template_peaks V width height bound (Suc n) resp =
     (case ve_peak V resp of (top_score, x, y) \<Rightarrow>
        if top_score < bound then []
        else
          let rx = max 1 (width div 2); ry = max 1 (height div 2) in
          (top_score, x, y, width, height) #
          template_peaks V width height bound n
            (suppress (max 0 (y - ry)) (y + ry + 1) (max 0 (x - rx)) (x + rx + 1) resp))"

definition same_template_location :: "detection \<Rightarrow> detection \<Rightarrow> bool" where
  "same_template_location a b =
     (case (a, b) of ((_, x, y, w, h), (_, x', y', w', h')) \<Rightarrow>
        \<bar>(2 * x + w) - (2 * x' + w')\<bar> \<le> max w w' \<and> \<bar>(2 * y + h) - (2 * y' + h')\<bar> \<le> max h h')"

text \<open>
  The scales that are tried; a validated candidate has a positive step. Written with the distance to
  the largest one as measure.
\<close>

function scales :: "rat \<Rightarrow> rat \<Rightarrow> rat \<Rightarrow> rat list" where
  "scales step hi scale =
     (if 0 < step \<and> scale \<le> hi + 1 / 1000000000 then scale # scales step hi (scale + step) else [])"
  by pat_completeness auto
termination
proof (relation "measure (\<lambda>(step, hi, scale). nat (\<lfloor>(hi + 1 / 1000000000 - scale) / step\<rfloor> + 1))", goal_cases)
  case 1
  show ?case by simp
next
  case (2 step hi scale)
  define d where "d = (hi + 1 / 1000000000 - scale) / step"
  have "(hi + 1 / 1000000000 - (scale + step)) / step = d - 1"
    using 2 by (simp add: d_def diff_divide_distrib add_divide_distrib)
  moreover have "0 \<le> d" using 2 by (simp add: d_def)
  ultimately show ?case by (simp add: d_def[symmetric])
qed

declare scales.simps [simp del]

definition scale_detections :: "vision_env \<Rightarrow> raster \<Rightarrow> raster \<Rightarrow> rat \<Rightarrow> rat \<Rightarrow> detection list" where
  "scale_detections V haystack template bound scale =
     (let w = max 1 (py_round (of_int (raster_width template) * scale));
          h = max 1 (py_round (of_int (raster_height template) * scale)) in
      if w \<le> raster_width haystack \<and> h \<le> raster_height haystack
      then template_peaks V w h bound 10 (ve_response V haystack (ve_resize V w h template))
      else [])"

fun distinct_detections :: "detection list \<Rightarrow> detection list \<Rightarrow> detection list" where
  "distinct_detections kept [] = kept"
| "distinct_detections kept (d # ds) =
     (if list_ex (same_template_location d) kept then distinct_detections kept ds
      else distinct_detections (kept @ [d]) ds)"

definition pick_detection :: "image_anchor_candidate \<Rightarrow> detection list \<Rightarrow> detection result" where
  "pick_detection c scored =
     (case distinct_detections [] (rev (sort scored)) of
        [] \<Rightarrow> Inl (unaffected ''target_absent'' ''The visual template exceeded the search region.'')
      | best # rest \<Rightarrow>
          let second = (case rest of [] \<Rightarrow> 0 | r # rs \<Rightarrow> fst r) in
          if fst best < ia_minimum_score c
          then Inl (SurfaceFailure ((absent_error ''target_absent''
                 ''No visual template met the confidence floor.'')
                 \<lparr>se_recoverable := True, se_observed := Some [(''score'', score_json (fst best))]\<rparr>))
          else if fst best - second < ia_uniqueness_margin c
          then Inl (SurfaceFailure ((absent_error ''target_ambiguous''
                 ''The visual template did not have a unique match.'')
                 \<lparr>se_observed := Some [(''best_score'', score_json (fst best)),
                                      (''second_score'', score_json second)]\<rparr>))
          else Inr best)"

text \<open>Where the template is looked for.\<close>

definition template_search ::
  "vision_env \<Rightarrow> image_anchor_candidate \<Rightarrow> bytes \<Rightarrow> viewport \<Rightarrow> screen_region vision" where
  "template_search V c png vp =
     (case ia_context_anchor c of
        Some a \<Rightarrow>
          (case ia_relative_region c of
             None \<Rightarrow> raise (RuntimeError ''AssertionError'')
           | Some spec \<Rightarrow>
               bind_c (matching_tokens V png (oa_value a) (oa_match a) (oa_minimum_confidence a)
                         (oa_search_region a) vp None) (\<lambda>anchors.
               bind_c (lift_c (only_one anchors ''visual context anchor'')) (\<lambda>anchor.
               lift_c (relative_screen (tok_region anchor) spec vp))))
      | None \<Rightarrow>
          lift_c (case ia_search_region c of
                    Some n \<Rightarrow> normalized_screen n vp
                  | None \<Rightarrow> mk_screen_region (screen_region_at 0 0 (vp_width vp) (vp_height vp))))"

definition match_template ::
  "vision_env \<Rightarrow> image_anchor_candidate \<Rightarrow> bytes \<Rightarrow> viewport \<Rightarrow> visual_target_data vision" where
  "match_template V c png vp =
     bind_c (lift_c (decode_frame V png)) (\<lambda>img.
     let edges = ve_edges V True img in
     bind_c (template_search V c png vp) (\<lambda>area.
     bind_c (lift_c (clip_region area (raster_width edges) (raster_height edges))) (\<lambda>search.
     bind_c (load_image V ''template'' (ia_asset_key c) (ia_content_hash c)) (\<lambda>template.
     bind_c (lift_c (pick_detection c (concat (map
        (scale_detections V (crop_region search edges) template (ia_minimum_score c - ia_uniqueness_margin c))
        (scales (ia_scale_step c) (ia_maximum_scale c) (ia_minimum_scale c)))))) (\<lambda>(score, x, y, w, h).
     bind_c (lift_c (mk_screen_region (screen_region_at (sr_x search + x) (sr_y search + y) w h))) (\<lambda>r.
     lift_c (target_of r ''image_anchor'' score (frame_hash V png))))))))"

section \<open>Resolution\<close>

definition resolve_ocr_text :: "vision_env \<Rightarrow> ocr_text_candidate \<Rightarrow> bytes \<Rightarrow> viewport \<Rightarrow> visual_target_data vision" where
  "resolve_ocr_text V c png vp =
     bind_c (matching_tokens V png (ot_value c) (ot_match c) (ot_minimum_confidence c) (ot_search_region c) vp None)
       (\<lambda>ts. lift_c (unique_text_target ts ''ocr_text'' (frame_hash V png)))"

text \<open>Only a configured policy allows the semantic retry and the preference of a control.\<close>

definition anchors_of :: "vision_env \<Rightarrow> ocr_relative_candidate \<Rightarrow> bytes \<Rightarrow> viewport \<Rightarrow> int \<Rightarrow> visual_token list vision" where
  "anchors_of V c png vp started =
     bind_c (matching_tokens V png (or_anchor c) (or_anchor_match c) (or_minimum_confidence c)
               (or_search_region c) vp None) (\<lambda>found.
     if length found \<noteq> 1 \<and> ve_policy V \<noteq> None
     then semantic_matches_in_region V png (or_anchor c) (or_anchor_match c) (or_search_region c) vp started
     else ret found)"

definition related_tokens :: "ocr_relative_candidate \<Rightarrow> visual_token list \<Rightarrow> visual_token list \<Rightarrow> visual_token list" where
  "related_tokens c anchors ts =
     [t \<leftarrow> ts. list_ex (\<lambda>a. has_relation (tok_region a) (tok_region t) (or_relation c)) anchors]"

definition related_targets ::
  "vision_env \<Rightarrow> ocr_relative_candidate \<Rightarrow> string \<Rightarrow> visual_token list \<Rightarrow> bytes \<Rightarrow> viewport \<Rightarrow> int
     \<Rightarrow> visual_token list vision" where
  "related_targets V c target anchors png vp started =
     bind_c (matching_tokens V png target MATCH_EXACT (or_minimum_confidence c) (or_search_region c) vp None)
       (\<lambda>found.
     bind_c (if length (related_tokens c anchors found) \<noteq> 1 \<and> ve_policy V \<noteq> None
             then semantic_matches_in_region V png target MATCH_EXACT (or_search_region c) vp started
             else ret found) (\<lambda>ts.
     let related = related_tokens c anchors ts in
     if 1 < length related \<and> ve_policy V \<noteq> None then prefer_unique_control V related png vp started
     else ret related))"

definition resolve_ocr_relative ::
  "vision_env \<Rightarrow> ocr_relative_candidate \<Rightarrow> bytes \<Rightarrow> viewport \<Rightarrow> int \<Rightarrow> visual_target_data vision" where
  "resolve_ocr_relative V c png vp started =
     bind_c (anchors_of V c png vp started) (\<lambda>anchors.
     if anchors = [] then raise (cardinality_error 0 ''OCR anchor'')
     else
       case or_target_text c of
         Some target \<Rightarrow>
           bind_c (related_targets V c target anchors png vp started) (\<lambda>ts.
           lift_c (unique_text_target ts ''ocr_relative_text'' (frame_hash V png)))
       | None \<Rightarrow>
           (case or_relative_region c of
              None \<Rightarrow> raise (RuntimeError ''AssertionError'')
            | Some spec \<Rightarrow>
                bind_c (lift_c (only_one anchors ''OCR anchor'')) (\<lambda>a.
                bind_c (lift_c (relative_screen (tok_region a) spec vp)) (\<lambda>r.
                lift_c (target_of r ''ocr_relative_region'' (tok_confidence a) (frame_hash V png))))))"

definition resolve_rendered_text ::
  "vision_env \<Rightarrow> string \<Rightarrow> match_mode \<Rightarrow> bytes \<Rightarrow> viewport \<Rightarrow> int \<Rightarrow> visual_target_data vision" where
  "resolve_rendered_text V value match png vp started =
     bind_c (semantic_matching_tokens V png value match started) (\<lambda>found.
     bind_c (if 1 < length found then prefer_unique_control V found png vp started else ret found) (\<lambda>ts.
     bind_c (lift_c (unique_text_target ts ''rendered_text'' (frame_hash V png))) (\<lambda>d.
     then_c (check_deadline V started) (ret d))))"

text \<open>\<open>resolve\<close>. An input text candidate is bound to its value before it comes here.\<close>

definition resolve_visual ::
  "vision_env \<Rightarrow> visual_candidate \<Rightarrow> bytes \<Rightarrow> viewport \<Rightarrow> visual_target_data vision" where
  "resolve_visual V candidate png vp =
     bind_c (read_monotonic V) (\<lambda>started.
     then_c (with_policy V (lift_c (validate_frame_budget V png)))
     (case candidate of
        OcrTextCandidate c \<Rightarrow> resolve_ocr_text V c png vp
      | OcrRelativeCandidate c \<Rightarrow> resolve_ocr_relative V c png vp started
      | ImageAnchorCandidate c \<Rightarrow> match_template V c png vp
      | RenderedTextCandidate value match \<Rightarrow> resolve_rendered_text V value match png vp started
      | RenderedLabeledControlCandidate label match \<Rightarrow>
          resolve_labeled_control V label match png vp started
      | RenderedFieldValueCandidate label match relation \<Rightarrow>
          resolve_field_value V label match relation png vp started
      | RenderedGroupImageCandidate label match key hash \<Rightarrow>
          resolve_group_image V label match key hash png vp started
      | InputTextCandidate _ _ _ \<Rightarrow> raise (TypeError ''unsupported visual locator candidate'')))"

section \<open>Reading text\<close>

definition extract_region_text ::
  "vision_env \<Rightarrow> bytes \<Rightarrow> screen_region \<Rightarrow> rat \<Rightarrow> string option \<Rightarrow> string vision" where
  "extract_region_text V png region confidence expected_hash =
     bind_c (read_monotonic V) (\<lambda>started.
     then_c (with_policy V (lift_c (validate_frame_budget V png)))
     (if expected_hash \<noteq> None \<and> expected_hash \<noteq> Some (frame_hash V png)
      then raise (retriable ''visual_frame_changed''
             ''The rendered frame changed between target resolution and extraction.'')
      else
        bind_c (frame_tokens V png (Some started)) (\<lambda>all.
        let ts = sort_key reading_order
                   [t \<leftarrow> all. confidence \<le> tok_confidence t \<and> center_in (tok_region t) region] in
        if ts = []
        then raise (unaffected ''visual_text_absent''
               ''No readable text was found inside the resolved visual region.'')
        else then_c (with_policy V (check_deadline V started)) (ret (join_with '' '' (map tok_text ts))))))"

definition contains_visual_text ::
  "vision_env \<Rightarrow> bytes \<Rightarrow> string \<Rightarrow> match_mode \<Rightarrow> rat \<Rightarrow> normalized_region option \<Rightarrow> viewport \<Rightarrow> bool vision" where
  "contains_visual_text V png value match confidence spec vp =
     bind_c (read_monotonic V) (\<lambda>started.
     then_c (with_policy V (lift_c (validate_frame_budget V png)))
     (bind_c (matching_tokens V png value match confidence spec vp (Some started)) (\<lambda>ts.
      then_c (with_policy V (check_deadline V started)) (ret (ts \<noteq> [])))))"

definition contains_rendered_text :: "vision_env \<Rightarrow> bytes \<Rightarrow> string \<Rightarrow> match_mode \<Rightarrow> bool vision" where
  "contains_rendered_text V png value match =
     bind_c (read_monotonic V) (\<lambda>started.
     then_c (lift_c (validate_frame_budget V png))
     (bind_c (semantic_matching_tokens V png value match started) (\<lambda>ts.
      then_c (check_deadline V started) (ret (ts \<noteq> [])))))"

section \<open>Creating assets\<close>

definition low_information :: "string \<Rightarrow> exn" where
  "low_information what =
     unaffected ''template_low_information''
       (''The visual target does not contain enough stable structure for a '' @ what @ ''.'')"

definition create_edge_template :: "vision_env \<Rightarrow> bytes \<Rightarrow> screen_region \<Rightarrow> (string \<times> string) vision" where
  "create_edge_template V png region =
     bind_c (lift_c (decode_frame V png)) (\<lambda>img.
     bind_c (lift_c (mk_viewport \<lparr>vp_width = raster_width img, vp_height = raster_height img, vp_scale = 1\<rparr>)) (\<lambda>vp.
     bind_c (lift_c (clip_region region (vp_width vp) (vp_height vp))) (\<lambda>clipped.
     let edge = ve_edges V True (crop_region clipped img) in
     if raster_size edge < 64 \<or> edge_pixels edge < 12 then raise (low_information ''template'')
     else store_image V ''template'' edge)))"

text \<open>\<open>max\<close> by overlap: the first of the largest.\<close>

definition best_overlap :: "screen_region \<Rightarrow> visual_node list \<Rightarrow> visual_node" where
  "best_overlap r ns = hd (sort_key (\<lambda>n. - region_iou r (nd_region n)) ns)"

definition create_visual_signature :: "vision_env \<Rightarrow> bytes \<Rightarrow> screen_region \<Rightarrow> (string \<times> string) vision" where
  "create_visual_signature V png region =
     bind_c (lift_c (required_policy V)) (\<lambda>p.
     bind_c (read_monotonic V) (\<lambda>started.
     then_c (lift_c (validate_frame_budget V png))
     (bind_c (lift_c (png_viewport png)) (\<lambda>vp.
      bind_c (layout_of V png vp started) (\<lambda>g.
      bind_c (lift_c (clip_region region (vp_width (lg_viewport g)) (vp_height (lg_viewport g)))) (\<lambda>clipped.
      let near = [n \<leftarrow> of_kind g IMAGE. vi_capture_iou (vy_image p) < region_iou clipped (nd_region n)] in
      if near = []
      then raise (retriable ''target_absent''
             ''The discovery target is not a distinct non-text visual component.'')
      else
        case nd_edge (best_overlap clipped near) of
          None \<Rightarrow> raise (RuntimeError ''AssertionError'')
        | Some edge \<Rightarrow>
            if raster_size edge < vi_signature_pixels (vy_image p) \<or>
               edge_pixels edge < vi_signature_edges (vy_image p)
            then raise (low_information ''signature'')
            else
              bind_c (store_image V ''signature'' (normalize_signature V (vy_image p) edge)) (\<lambda>asset.
              then_c (check_deadline V started) (ret asset))))))))"

section \<open>The text recognizer\<close>

text \<open>
  \<open>RapidOcrTextRecognizer.recognize\<close> on what the engine returns: polygons, texts and scores, which
  are as many as each other.
\<close>

definition polygon_region :: "(rat \<times> rat) list \<Rightarrow> int \<times> int \<times> int \<times> int" where
  "polygon_region ps =
     (\<lfloor>Min (set (map fst ps))\<rfloor>, \<lfloor>Min (set (map snd ps))\<rfloor>, \<lceil>Max (set (map fst ps))\<rceil>, \<lceil>Max (set (map snd ps))\<rceil>)"

fun recognized_tokens ::
  "(rat \<times> rat) list list \<Rightarrow> string list \<Rightarrow> rat list \<Rightarrow> visual_token list result" where
  "recognized_tokens (ps # pss) (t # ts) (c # cs) =
     (case polygon_region ps of (x1, y1, x2, y2) \<Rightarrow>
        if py_strip t \<noteq> [] \<and> x1 < x2 \<and> y1 < y2
        then
          bind_r (mk_screen_region (screen_region_at x1 y1 (x2 - x1) (y2 - y1))) (\<lambda>r.
          bind_r (mk_visual_token \<lparr>tok_text = py_strip t, tok_confidence = c, tok_region = r\<rparr>) (\<lambda>tok.
          bind_r (recognized_tokens pss ts cs) (\<lambda>toks. Inr (tok # toks))))
        else recognized_tokens pss ts cs)"
| "recognized_tokens [] [] [] = Inr []"
| "recognized_tokens _ _ _ = Inl (ValueError ''zip() arguments differ in length'')"

definition recognize ::
  "(bytes \<Rightarrow> (rat \<times> rat) list list option \<times> string list option \<times> rat list option) \<Rightarrow> bytes
     \<Rightarrow> visual_token list result" where
  "recognize engine png =
     (case engine png of
        (Some boxes, Some texts, Some scores) \<Rightarrow> recognized_tokens boxes texts scores
      | _ \<Rightarrow> Inr [])"

definition mk_recognizer_threads :: "int \<Rightarrow> int result" where
  "mk_recognizer_threads n =
     bind_r (check (1 \<le> n \<and> n \<le> 4) (ValueError ''OCR inference threads must be between one and four''))
       (\<lambda>_. Inr n)"

end
