(* ===== verification/VisionCaches.thy ===== *)
theory VisionCaches
  imports VisionMatch
begin

text \<open>
  The caches of the grounder: on a clock and a recognizer of any behaviour every operation keeps them
  small and sound, and never touches the asset directory. Frames of one hash are taken to be read alike.
\<close>


section \<open>Running computations\<close>

lemma bind_c_Inr: "bind_c m f s = (Inr y, s') \<longleftrightarrow> (\<exists>x t. m s = (Inr x, t) \<and> f x t = (Inr y, s'))"
  by (auto simp: bind_c_def split: prod.splits sum.splits)

lemma then_c_Inr: "then_c m k s = (Inr y, s') \<longleftrightarrow> (\<exists>x t. m s = (Inr x, t) \<and> k t = (Inr y, s'))"
  by (simp add: then_c_def bind_c_Inr)

lemma simple_Inr:
  "lift_c r s = (Inr y, s') \<longleftrightarrow> r = Inr y \<and> s' = s" "ret x s = (Inr y, s') \<longleftrightarrow> y = x \<and> s' = s"
  "raise e s \<noteq> (Inr y, s')" "gets f s = (Inr y, s') \<longleftrightarrow> y = f s \<and> s' = s"
  "update g s = (Inr u, s') \<longleftrightarrow> s' = g s"
  by (auto simp: lift_c_def ret_def raise_def gets_def update_def)

lemmas grounding_runs = bind_c_Inr then_c_Inr simple_Inr

section \<open>The caches\<close>

definition cache_ok :: "vision_env \<Rightarrow> vision_state \<Rightarrow> bool" where
  "cache_ok V s =
     (length (vz_ocr s) \<le> 8 \<and> length (vz_graphs s) \<le> 8 \<and> distinct (dict_keys (vz_ocr s)) \<and>
      (\<forall>png ts. dict_get (vz_ocr s) (frame_hash V png) = Some ts \<longrightarrow> ve_recognize V png = Inr ts))"

text \<open>Frames of one hash are read alike.\<close>

definition collision_free :: "vision_env \<Rightarrow> bool" where
  "collision_free V = (\<forall>a b. ve_sha256 V a = ve_sha256 V b \<longrightarrow> ve_recognize V a = ve_recognize V b)"

text \<open>The boxes and the graph of a frame, as a function of the frame.\<close>

definition frame_boxes :: "vision_env \<Rightarrow> segmentation_policy \<Rightarrow> raster \<Rightarrow> raster \<Rightarrow> screen_region list result" where
  "frame_boxes V p img edge =
     bind_r (map_r (source_regions p (analysis_scale V p img) (raster_area img)) (analysis_sources V p img edge)) (\<lambda>rss.
     Inr (take (nat (vs_maximum_components p))
            (distinct_regions (vs_duplicate_iou p) [] (sort_key (\<lambda>r. - region_area r) (concat rss)))))"

definition frame_graph :: "vision_env \<Rightarrow> vision_policy \<Rightarrow> bytes \<Rightarrow> viewport \<Rightarrow> layout_graph result" where
  "frame_graph V p png vp =
     bind_r (decode_frame V png) (\<lambda>img.
     bind_r (ve_recognize V png) (\<lambda>all.
     let ts = readable p all; height = median_text_height ts; edge = ve_edges V True img in
     bind_r (frame_boxes V (vy_segmentation p) img edge) (\<lambda>boxes.
     bind_r (frame_region img) (\<lambda>whole.
     let nodes = viewport_node whole # phrase_nodes (phrases_of p ts) @
                 component_nodes (vy_segmentation p) height (raster_area img) ts edge boxes in
     Inr \<lparr>lg_hash = frame_hash V png, lg_viewport = vp, lg_median = height, lg_nodes = nodes,
          lg_containment = containment_of nodes\<rparr>))))"

text \<open>A cached graph is the graph of the frame it is cached for. Frames of one hash must be decoded alike.\<close>

definition decoded_alike :: "vision_env \<Rightarrow> bool" where
  "decoded_alike V = (\<forall>a b. ve_sha256 V a = ve_sha256 V b \<longrightarrow> ve_decode V a = ve_decode V b)"

definition graphs_ok :: "vision_env \<Rightarrow> vision_state \<Rightarrow> bool" where
  "graphs_ok V s =
     (distinct (dict_keys (vz_graphs s)) \<and>
      (\<forall>p png g. ve_policy V = Some p \<longrightarrow> dict_get (vz_graphs s) (frame_hash V png) = Some g \<longrightarrow>
         frame_graph V p png (lg_viewport g) = Inr g))"

text \<open>The invariant of the grounder, with or without the content of the graphs.\<close>

definition alike_frames :: "vision_env \<Rightarrow> bool \<Rightarrow> bool" where
  "alike_frames V b = (collision_free V \<and> (b \<longrightarrow> decoded_alike V))"

definition grounder_inv :: "vision_env \<Rightarrow> asset_files \<Rightarrow> bool \<Rightarrow> vision_state \<Rightarrow> bool" where
  "grounder_inv V files b s = (cache_ok V s \<and> vz_assets s = files \<and> (b \<longrightarrow> graphs_ok V s))"

lemma evict_length: "length d \<le> 8 \<Longrightarrow> length (evict d) \<le> 7"
  by (auto simp: evict_def)

lemma length_dict_set: "length (dict_set k v d) \<le> Suc (length d)"
  by (induction d) auto

lemma evict_get:
  assumes "distinct (dict_keys d)" "dict_get (evict d) k = Some v"
  shows "dict_get d k = Some v"
proof (cases d)
  case (Cons p d')
  have "fst p \<noteq> k" if "dict_get d' k = Some v"
  proof -
    have "k \<in> fst ` set d'" using map_of_SomeD[OF that] by (rule rev_image_eqI) simp
    then show ?thesis using assms(1) Cons by auto
  qed
  then show ?thesis using assms(2) Cons by (cases p) (auto simp: evict_def split: if_splits)
qed (use assms in \<open>simp add: evict_def\<close>)

lemma evict_distinct: "distinct (dict_keys d) \<Longrightarrow> distinct (dict_keys (evict d))"
  by (cases d) (auto simp: evict_def)

lemma recall_keeps:
  assumes free: "alike_frames V b"
  shows "keeps (grounder_inv V files b) (recall_tokens V png)"
proof (rule keepsI)
  fix s
  assume inv: "grounder_inv V files b s"
  let ?d = "evict (vz_ocr s)" and ?k = "frame_hash V png"
  let ?s = "s\<lparr>vz_ocr := ?d\<rparr>"
  have small: "length ?d \<le> 7" and apart: "distinct (dict_keys ?d)"
    using inv by (auto simp: grounder_inv_def cache_ok_def intro: evict_length evict_distinct)
  have known: "ve_recognize V p = Inr ts" if "dict_get ?d (frame_hash V p) = Some ts" for p ts
    using evict_get[OF _ that] inv by (auto simp: grounder_inv_def cache_ok_def)
  have evicted: "grounder_inv V files b ?s"
    using inv small apart known by (simp add: grounder_inv_def cache_ok_def graphs_ok_def)
  have "grounder_inv V files b (?s\<lparr>vz_ocr := dict_set ?k ts ?d\<rparr>)" if read: "ve_recognize V png = Inr ts" for ts
  proof -
    have "ve_recognize V p = Inr us" if "dict_get (dict_set ?k ts ?d) (frame_hash V p) = Some us" for p us
    proof (cases "frame_hash V p = ?k")
      case True
      then have "ve_sha256 V p = ve_sha256 V png" by (simp add: frame_hash_def)
      then have "ve_recognize V p = ve_recognize V png"
        using free unfolding alike_frames_def collision_free_def by blast
      then show ?thesis using read that True by simp
    next
      case False
      then show ?thesis using that known by simp
    qed
    moreover have "length (dict_set ?k ts ?d) \<le> 8" using length_dict_set[of ?k ts ?d] small by linarith
    ultimately show ?thesis
      using inv apart by (simp add: grounder_inv_def cache_ok_def graphs_ok_def distinct_dict_set)
  qed
  then show "grounder_inv V files b (snd (recall_tokens V png s))"
    using inv evicted
    by (cases "dict_get (vz_ocr s) ?k"; cases "ve_recognize V png")
      (simp_all add: recall_tokens_def Let_def comp_defs)
qed

lemma recall_reads:
  assumes "cache_ok V s"
  shows "fst (recall_tokens V png s) = ve_recognize V png"
proof (cases "dict_get (vz_ocr s) (frame_hash V png)")
  case None
  then show ?thesis by (cases "ve_recognize V png") (simp_all add: recall_tokens_def Let_def comp_defs)
next
  case (Some ts)
  then have "ve_recognize V png = Inr ts" using assms by (simp add: cache_ok_def)
  then show ?thesis using Some by (simp add: recall_tokens_def Let_def comp_defs)
qed

lemma grounder_reads [keeping]: "keeps (grounder_inv V files b) (read_monotonic V)"
  by (rule keepsI) (simp add: read_monotonic_def comp_defs grounder_inv_def cache_ok_def graphs_ok_def)

lemma grounder_deadline [keeping]: "keeps (grounder_inv V files b) (check_deadline V started)"
  unfolding check_deadline_def by (intro keeping)

lemma grounder_with_policy [keeping]: "keeps I m \<Longrightarrow> keeps I (with_policy V m)"
  unfolding with_policy_def by (intro keeping)

lemma grounder_deadline_if [keeping]: "keeps (grounder_inv V files b) (deadline_if V started)"
  unfolding deadline_if_def by (intro keeping)

lemma grounder_each_deadline [keeping]: "keeps (grounder_inv V files b) (each_deadline V started xs)"
  by (induction xs) (auto intro!: keeping)

lemma grounder_gather [keeping]: "(\<And>x. keeps I (f x)) \<Longrightarrow> keeps I (gather f xs)"
  by (induction xs) (auto intro!: keeping)

lemma grounder_sources [keeping]: "keeps (grounder_inv V files b) (sources_regions V started p scale area bss)"
  by (induction bss) (auto intro!: keeping)

lemma grounder_boxes [keeping]: "keeps (grounder_inv V files b) (segmented_boxes V img edge started area)"
  unfolding segmented_boxes_def Let_def by (intro keeping)

lemma grounder_enclosures [keeping]: "keeps (grounder_inv V files b) (local_text_enclosures V img label started search)"
  unfolding local_text_enclosures_def Let_def by (intro keeping)

lemma grounder_score_nodes [keeping]: "keeps (grounder_inv V files b) (score_nodes V p started template ns)"
  by (induction ns) (auto intro!: keeping)

lemma grounder_load [keeping]: "keeps I (load_image V what key hash)"
  unfolding load_image_def by (intro keeping)

lemma same_hash_same_graph:
  assumes "alike_frames V True" "frame_hash V a = frame_hash V b"
  shows "frame_graph V p a vp = frame_graph V p b vp"
proof -
  have hash: "ve_sha256 V a = ve_sha256 V b" using assms(2) by (simp add: frame_hash_def)
  have "ve_decode V a = ve_decode V b" "ve_recognize V a = ve_recognize V b"
    using assms(1) hash unfolding alike_frames_def decoded_alike_def collision_free_def by blast+
  then show ?thesis by (simp add: frame_graph_def decode_frame_def assms(2))
qed

lemma grounder_graph_cache:
  assumes free: "alike_frames V b" and inv: "grounder_inv V files b s"
    and g: "\<And>p. b \<Longrightarrow> ve_policy V = Some p \<Longrightarrow> frame_graph V p png (lg_viewport g) = Inr g"
  shows "grounder_inv V files b (s\<lparr>vz_graphs := dict_set (frame_hash V png) g (evict (vz_graphs s))\<rparr>)"
proof -
  let ?d = "dict_set (frame_hash V png) g (evict (vz_graphs s))"
  have "length (evict (vz_graphs s)) \<le> 7" using inv by (simp add: grounder_inv_def cache_ok_def evict_length)
  then have small: "length ?d \<le> 8" using length_dict_set[of "frame_hash V png" g "evict (vz_graphs s)"] by linarith
  have "graphs_ok V (s\<lparr>vz_graphs := ?d\<rparr>)" if b: b
  proof -
    have old: "graphs_ok V s" using inv b by (simp add: grounder_inv_def)
    then have apart: "distinct (dict_keys ?d)" by (simp add: graphs_ok_def evict_distinct distinct_dict_set)
    have "frame_graph V p frame (lg_viewport h) = Inr h"
      if p: "ve_policy V = Some p" and h: "dict_get ?d (frame_hash V frame) = Some h" for p frame h
    proof (cases "frame_hash V frame = frame_hash V png")
      case True
      then have "h = g" using h by simp
      then show ?thesis
        using g[OF b p] same_hash_same_graph[OF _ True] free b by (simp add: alike_frames_def)
    next
      case False
      then have "dict_get (vz_graphs s) (frame_hash V frame) = Some h"
        using h old evict_get[of "vz_graphs s" "frame_hash V frame" h] by (simp add: graphs_ok_def)
      then show ?thesis using old p by (simp add: graphs_ok_def)
    qed
    then show ?thesis using apart by (simp add: graphs_ok_def)
  qed
  then show ?thesis using inv small by (simp add: grounder_inv_def cache_ok_def)
qed

lemma grounder_tokens [keeping]:
  "alike_frames V b \<Longrightarrow> keeps (grounder_inv V files b) (frame_tokens V png started)"
  unfolding frame_tokens_def by (intro keeping recall_keeps; assumption)

lemma grounder_matching [keeping]:
  "alike_frames V b \<Longrightarrow> keeps (grounder_inv V files b) (matching_tokens V png value match confidence spec vp started)"
  unfolding matching_tokens_def by (intro keeping; assumption)

lemma grounder_phrases [keeping]: "alike_frames V b \<Longrightarrow> keeps (grounder_inv V files b) (semantic_phrases V p png started)"
  unfolding semantic_phrases_def by (intro keeping; assumption)

lemma grounder_semantic [keeping]:
  "alike_frames V b \<Longrightarrow> keeps (grounder_inv V files b) (semantic_matching_tokens V png value match started)"
  "alike_frames V b \<Longrightarrow> keeps (grounder_inv V files b) (semantic_matches_in_region V png value match spec vp started)"
  unfolding semantic_matches_in_region_def semantic_matching_tokens_def by (intro keeping; assumption)+

lemma grounder_build [keeping]: "alike_frames V b \<Longrightarrow> keeps (grounder_inv V files b) (build_graph V p png vp started)"
  unfolding build_graph_def Let_def by (intro keeping; assumption)

text \<open>What is read from a frame is a function of it, and so is its graph.\<close>

lemma frame_tokens_read:
  assumes "frame_tokens V png started s = (Inr ts, s')" "grounder_inv V files b s"
  shows "ve_recognize V png = Inr ts"
proof -
  obtain u v where run: "deadline_if V started s = (Inr (), u)" "recall_tokens V png u = (Inr ts, v)"
    using assms(1) by (auto simp: frame_tokens_def grounding_runs split: if_splits)
  have "grounder_inv V files b u" using keepsD[OF grounder_deadline_if assms(2), of started] run(1) by simp
  then show ?thesis using recall_reads[of V u png] run(2) by (simp add: grounder_inv_def)
qed

lemma phrases_of_Nil [simp]: "phrases_of p [] = []"
  by (simp add: phrases_of_def text_lines_def Let_def)

lemma semantic_phrases_read:
  assumes "semantic_phrases V p png started s = (Inr phrases, s')" "grounder_inv V files b s"
  shows "\<exists>ts. ve_recognize V png = Inr ts \<and> phrases = phrases_of p (readable p ts)"
proof -
  obtain ts u where run: "frame_tokens V png (Some started) s = (Inr ts, u)"
    "phrases = phrases_of p (readable p ts)"
    using assms(1) by (auto simp: semantic_phrases_def grounding_runs split: if_splits)
  then show ?thesis using frame_tokens_read[OF run(1) assms(2)] by blast
qed

lemma sources_regions_read:
  "sources_regions V started p scale area bss s = (Inr rs, s') \<Longrightarrow>
     \<exists>rss. map_r (source_regions p scale area) bss = Inr rss \<and> rs = concat rss"
proof (induction bss arbitrary: s rs)
  case (Cons bs bss)
  then obtain rs1 rs2 u where run: "source_regions p scale area bs = Inr rs1" "rs = rs1 @ rs2"
    "sources_regions V started p scale area bss u = (Inr rs2, s')"
    by (auto simp: grounding_runs)
  then show ?case using Cons.IH[OF run(3)] by (auto simp: bind_r_Inr_iff)
qed (simp add: grounding_runs)

lemma segmented_boxes_read:
  assumes "segmented_boxes V img edge started None s = (Inr boxes, s')" "ve_policy V = Some p"
  shows "frame_boxes V (vy_segmentation p) img edge = Inr boxes"
  using assms
  by (auto simp: segmented_boxes_def required_policy_def grounding_runs Let_def frame_boxes_def bind_r_Inr_iff
      dest!: sources_regions_read)

lemma build_graph_read:
  assumes "build_graph V p png vp started s = (Inr g, s')" "grounder_inv V files b s" "alike_frames V b"
    "ve_policy V = Some p"
  shows "frame_graph V p png vp = Inr g" "lg_viewport g = vp"
proof -
  define edge where "edge = (\<lambda>img. ve_edges V True img)"
  obtain img all phrases boxes whole t u v where run: "decode_frame V png = Inr img"
    "frame_tokens V png (Some started) s = (Inr all, t)"
    "semantic_phrases V p png started t = (Inr phrases, u)"
    "segmented_boxes V img (edge img) started None u = (Inr boxes, v)" "frame_region img = Inr whole"
    and g: "g = (let ts = readable p all;
        nodes = viewport_node whole # phrase_nodes phrases @ component_nodes (vy_segmentation p)
          (median_text_height ts) (raster_area img) ts (edge img) boxes
      in \<lparr>lg_hash = frame_hash V png, lg_viewport = vp, lg_median = median_text_height ts, lg_nodes = nodes,
          lg_containment = containment_of nodes\<rparr>)"
    using assms(1) unfolding build_graph_def Let_def grounding_runs edge_def by blast
  have all: "ve_recognize V png = Inr all" by (rule frame_tokens_read[OF run(2) assms(2)])
  have "grounder_inv V files b t"
    using keepsD[OF grounder_tokens[OF assms(3)] assms(2), of png "Some started"] run(2) by simp
  then have phrases: "phrases = phrases_of p (readable p all)" using semantic_phrases_read[OF run(3)] all by auto
  have "frame_boxes V (vy_segmentation p) img (edge img) = Inr boxes"
    by (rule segmented_boxes_read[OF run(4) assms(4)])
  then show "frame_graph V p png vp = Inr g"
    using all run(1,5) by (simp add: frame_graph_def edge_def Let_def g phrases)
  show "lg_viewport g = vp" by (simp add: g Let_def)
qed

lemma layout_cases:
  assumes "ve_policy V = Some p"
  shows "layout_of V png vp started s =
    (case dict_get (vz_graphs s) (frame_hash V png) of
       Some g \<Rightarrow> if lg_viewport g = vp then then_c (check_deadline V started) (ret g) s
         else bind_c (build_graph V p png vp started) (\<lambda>g.
           then_c (update (\<lambda>s. s\<lparr>vz_graphs := dict_set (frame_hash V png) g (evict (vz_graphs s))\<rparr>))
             (then_c (check_deadline V started) (ret g))) s
     | None \<Rightarrow> bind_c (build_graph V p png vp started) (\<lambda>g.
           then_c (update (\<lambda>s. s\<lparr>vz_graphs := dict_set (frame_hash V png) g (evict (vz_graphs s))\<rparr>))
             (then_c (check_deadline V started) (ret g))) s)"
  by (simp add: layout_of_def required_policy_def assms Let_def gets_def bind_c_def lift_c_def split: option.splits)

lemma grounder_new_graph:
  assumes "alike_frames V b" "ve_policy V = Some p" "grounder_inv V files b s"
  shows "grounder_inv V files b (snd (bind_c (build_graph V p png vp started) (\<lambda>g.
      then_c (update (\<lambda>s. s\<lparr>vz_graphs := dict_set (frame_hash V png) g (evict (vz_graphs s))\<rparr>))
        (then_c (check_deadline V started) (ret g))) s))"
proof -
  obtain r t where build: "build_graph V p png vp started s = (r, t)" by (metis surj_pair)
  have t: "grounder_inv V files b t"
    using keepsD[OF grounder_build[OF assms(1)] assms(3), of p png vp started] build by simp
  show ?thesis
  proof (cases r)
    case (Inl e)
    then show ?thesis using build t by (simp add: bind_c_def)
  next
    case (Inr g)
    let ?t = "t\<lparr>vz_graphs := dict_set (frame_hash V png) g (evict (vz_graphs t))\<rparr>"
    note read = build_graph_read[OF build[unfolded Inr] assms(3,1,2)]
    have "grounder_inv V files b ?t"
      by (rule grounder_graph_cache[OF assms(1) t]) (use read assms(2) in simp)
    then have "grounder_inv V files b (snd (then_c (check_deadline V started) (ret g) ?t))"
      by (rule keepsD[rotated]) (intro keeping)
    then show ?thesis using build Inr by (simp add: bind_c_def then_c_def update_def)
  qed
qed

lemma grounder_layout [keeping]:
  assumes "alike_frames V b"
  shows "keeps (grounder_inv V files b) (layout_of V png vp started)"
proof (rule keepsI)
  fix s
  assume inv: "grounder_inv V files b s"
  show "grounder_inv V files b (snd (layout_of V png vp started s))"
  proof (cases "ve_policy V")
    case None
    then show ?thesis using inv by (simp add: layout_of_def required_policy_def bind_c_def lift_c_def)
  next
    case (Some p)
    have "keeps (grounder_inv V files b) (then_c (check_deadline V started) (ret g))" for g :: layout_graph
      by (intro keeping)
    then have cached: "grounder_inv V files b (snd (then_c (check_deadline V started) (ret g) s))" for g :: layout_graph
      using inv by (rule keepsD)
    show ?thesis
      using cached grounder_new_graph[OF assms Some inv, of png vp started]
      by (simp add: layout_cases[OF Some] split: option.splits)
  qed
qed

lemma layout_read:
  assumes "layout_of V png vp started s = (Inr g, s')" "grounder_inv V files True s" "alike_frames V True"
    and p: "ve_policy V = Some p"
  shows "frame_graph V p png vp = Inr g"
proof -
  consider (cached) "dict_get (vz_graphs s) (frame_hash V png) = Some g" "lg_viewport g = vp"
    | (built) u where "build_graph V p png vp started s = (Inr g, u)"
    using assms(1) by (auto simp: layout_cases[OF p] grounding_runs split: option.splits if_splits)
  then show ?thesis
  proof cases
    case cached
    then show ?thesis using assms(2) p by (auto simp: grounder_inv_def graphs_ok_def)
  next
    case built
    then show ?thesis using build_graph_read(1)[OF built assms(2,3) p] by blast
  qed
qed

lemma grounder_prefer [keeping]: "alike_frames V b \<Longrightarrow> keeps (grounder_inv V files b) (prefer_unique_control V ts png vp started)"
  unfolding prefer_unique_control_def Let_def by (intro keeping; assumption)

lemma grounder_labeled [keeping]:
  "alike_frames V b \<Longrightarrow> keeps (grounder_inv V files b) (resolve_labeled_control V label match png vp started)"
  unfolding resolve_labeled_control_def by (intro keeping; assumption)

lemma grounder_field [keeping]:
  "alike_frames V b \<Longrightarrow> keeps (grounder_inv V files b) (resolve_field_value V label match relation png vp started)"
  unfolding resolve_field_value_def by (intro keeping; assumption)

lemma grounder_group [keeping]:
  "alike_frames V b \<Longrightarrow> keeps (grounder_inv V files b) (resolve_group_image V label match key hash png vp started)"
  unfolding resolve_group_image_def Let_def by (intro keeping; assumption)

lemma grounder_template [keeping]: "alike_frames V b \<Longrightarrow> keeps (grounder_inv V files b) (match_template V c png vp)"
  unfolding match_template_def template_search_def Let_def case_prod_beta by (intro keeping; assumption)

lemma grounder_ocr [keeping]:
  "alike_frames V b \<Longrightarrow> keeps (grounder_inv V files b) (resolve_ocr_text V t png vp)"
  "alike_frames V b \<Longrightarrow> keeps (grounder_inv V files b) (resolve_ocr_relative V c png vp started)"
  "alike_frames V b \<Longrightarrow> keeps (grounder_inv V files b) (resolve_rendered_text V value match png vp started)"
  unfolding resolve_ocr_text_def resolve_ocr_relative_def anchors_of_def related_targets_def
    resolve_rendered_text_def Let_def
  by (intro keeping; assumption)+

lemma grounder_resolve:
  assumes free: "alike_frames V b"
  shows "keeps (grounder_inv V files b) (resolve_visual V candidate png vp)"
proof -
  have "keeps (grounder_inv V files b)
    (case candidate of
        OcrTextCandidate c \<Rightarrow> resolve_ocr_text V c png vp
      | OcrRelativeCandidate c \<Rightarrow> resolve_ocr_relative V c png vp started
      | ImageAnchorCandidate c \<Rightarrow> match_template V c png vp
      | RenderedTextCandidate value match \<Rightarrow> resolve_rendered_text V value match png vp started
      | RenderedLabeledControlCandidate label match \<Rightarrow>
          resolve_labeled_control V label match png vp started
      | RenderedFieldValueCandidate label match relation \<Rightarrow>
          resolve_field_value V label match relation png vp started
      | RenderedGroupImageCandidate label match key hash \<Rightarrow>
          resolve_group_image V label match key hash png vp started
      | InputTextCandidate _ _ _ \<Rightarrow> raise (TypeError ''unsupported visual locator candidate''))" for started
    by (cases candidate) (simp_all add: keeping free)
  then show ?thesis unfolding resolve_visual_def by (intro keeping)
qed

end
