(* ===== verification/VisionGuarantees.thy ===== *)
theory VisionGuarantees
  imports VisionCaches "HOL-Library.Multiset"
begin

text \<open>
  What the grounder promises: its caches never change what is read and stay small, a text target is
  the only match, a region relative to an anchor stays in the viewport, a semantic answer comes within
  its time, an image is told from the others of its group by the reviewed margin, a signature fits its
  canvas, and a stored asset is read back unchanged.
\<close>

lemma cached_state: "cache_ok V s \<Longrightarrow> grounder_inv V (vz_assets s) False s"
  by (simp add: grounder_inv_def)

section \<open>A sample grounder\<close>

text \<open>A frame with one label, \<open>Status\<close>, and one image on its row.\<close>

definition sample_policy :: vision_policy where
  "sample_policy =
     \<lparr>vy_ocr = \<lparr>vo_minimum_confidence = 1 / 2, vo_maximum_tokens = 500, vo_threads = 2\<rparr>,
      vy_line_gap = 2,
      vy_segmentation = \<lparr>vs_minimum_component = 1 / 1000, vs_maximum_component = 9 / 10,
        vs_minimum_container = 1 / 10, vs_maximum_pixels = 1000000, vs_maximum_components = 100,
        vs_minimum_dimension = 2, vs_kernel = 3, vs_duplicate_iou = 9 / 10, vs_text_overlap = 1 / 2,
        vs_control_height = 1, vs_control_aspect = 2, vs_container_tokens = 2\<rparr>,
      vy_association = \<lparr>va_axis_overlap = 1 / 2, va_following_gap = 4, va_row_tolerance = 1 / 2,
        va_image_tolerance = 1\<rparr>,
      vy_image = \<lparr>vi_width = 4, vi_height = 4, vi_padding = 1, vi_signature_pixels = 4,
        vi_signature_edges = 2, vi_capture_iou = 1 / 2, vi_overlap_weight = 1 / 2,
        vi_chamfer_decay = 1 / 4, vi_minimum_similarity = 1 / 2, vi_uniqueness_margin = 1 / 10\<rparr>,
      vy_frame_pixels = 2000000, vy_milliseconds = 2000\<rparr>"

definition sample_digest :: string where
  "sample_digest = replicate 64 (CHR ''0'')"

definition sample_label :: visual_token where
  "sample_label = \<lparr>tok_text = ''Status'', tok_confidence = 1, tok_region = screen_region_at 2 4 10 4\<rparr>"

definition sample_vision :: vision_env where
  "sample_vision =
     \<lparr>ve_policy = Some sample_policy,
      ve_store = \<lparr>at_sha256 = (\<lambda>_. sample_digest), at_maximum = 1000, at_capture = True\<rparr>,
      ve_hexadecimal = is_hex 64, ve_sha256 = (\<lambda>_. sample_digest), ve_clock = (\<lambda>_. 0),
      ve_recognize = (\<lambda>_. Inr [sample_label]), ve_nfkc = (\<lambda>s. s), ve_fullmatch = (\<lambda>p s. p = s),
      ve_decode = (\<lambda>_. Some (replicate 20 (replicate 40 0))), ve_decode_gray = (\<lambda>_. Some [[255]]),
      ve_encode = (\<lambda>_. Some png_signature), ve_edges = (\<lambda>_ _. replicate 20 (replicate 40 255)),
      ve_sqrt = (\<lambda>_. 1), ve_exp = (\<lambda>_. 1), ve_resize = (\<lambda>w h _. replicate (nat h) (replicate (nat w) 255)),
      ve_resize_nearest = (\<lambda>w h r. r), ve_boxes = (\<lambda>_ _ _. [[(20, 3, 6, 6)]]),
      ve_distance = map (map (\<lambda>_. 0)), ve_response = (\<lambda>_ _. [[1]]), ve_peak = (\<lambda>_. (1, 0, 0))\<rparr>"

definition sample_grounder :: vision_state where
  "sample_grounder =
     \<lparr>vz_ocr = [], vz_graphs = [], vz_assets = [(asset_name sample_digest, png_signature)], vz_reads = 0\<rparr>"

definition sample_screen :: viewport where
  "sample_screen = \<lparr>vp_width = 40, vp_height = 20, vp_scale = 1\<rparr>"

definition sample_group_image :: visual_candidate where
  "sample_group_image =
     RenderedGroupImageCandidate ''status'' MATCH_EXACT (''asset://sha256/'' @ sample_digest)
       (''sha256:'' @ sample_digest)"

lemma sample_collision_free: "collision_free sample_vision"
  by (simp add: collision_free_def sample_vision_def)

lemma sample_cache_ok: "cache_ok sample_vision sample_grounder"
  by (simp add: cache_ok_def sample_grounder_def)

lemma sample_run: "fst (resolve_visual sample_vision sample_group_image [] sample_screen sample_grounder) =
  Inr \<lparr>vt_region = screen_region_at 20 3 6 6, vt_method = ''rendered_group_image'', vt_confidence = 1,
       vt_frame_hash = ''sha256:'' @ sample_digest\<rparr>"
  by code_simp

section \<open>Properties\<close>

text \<open>
  C21. Whatever candidate is resolved, the caches stay small and sound and the asset directory is
  untouched: afterwards the texts recalled for any frame are those the recognizer reads from it.
\<close>

theorem grounding_caches_stay_sound:
  assumes "collision_free V" and "cache_ok V s"
  shows "cache_ok V (snd (resolve_visual V candidate png vp s)) \<and>
    vz_assets (snd (resolve_visual V candidate png vp s)) = vz_assets s \<and>
    fst (recall_tokens V frame (snd (resolve_visual V candidate png vp s))) = ve_recognize V frame"
proof -
  have free: "alike_frames V False" using assms(1) by (simp add: alike_frames_def)
  have "grounder_inv V (vz_assets s) False (snd (resolve_visual V candidate png vp s))"
    by (rule keepsD[OF grounder_resolve[OF free] cached_state[OF assms(2)]])
  then show ?thesis by (simp add: grounder_inv_def recall_reads)
qed

theorem grounding_caches_stay_sound_witness:
  "vz_assets (snd (resolve_visual sample_vision sample_group_image [] sample_screen sample_grounder)) =
     vz_assets sample_grounder"
  using grounding_caches_stay_sound[OF sample_collision_free sample_cache_ok] by blast

text \<open>The tokens that match, read from the frame.\<close>

lemma matching_Inr:
  assumes "matching_tokens V png value match confidence spec vp started s = (Inr found, s')" "cache_ok V s"
    "started = None"
  shows "\<exists>ts region. ve_recognize V png = Inr ts \<and> search_screen spec vp = Inr region \<and>
    found = [t \<leftarrow> ts. confidence \<le> tok_confidence t \<and> in_search region t \<and> text_matches V value match t]"
proof -
  from assms(1,3) obtain region ts u where run: "search_screen spec vp = Inr region"
    "recall_tokens V png s = (Inr ts, u)"
    "found = [t \<leftarrow> ts. confidence \<le> tok_confidence t \<and> in_search region t \<and> text_matches V value match t]"
    by (auto simp: matching_tokens_def frame_tokens_def deadline_if_def grounding_runs split: if_splits)
  have "ve_recognize V png = Inr ts" using recall_reads[OF assms(2), of png] run(2) by simp
  with run(1,3) show ?thesis by blast
qed

lemma target_of_Inr:
  "target_of r method confidence hash = Inr d \<Longrightarrow>
     d = \<lparr>vt_region = r, vt_method = method, vt_confidence = confidence, vt_frame_hash = hash\<rparr>"
  by (simp add: target_of_def mk_visual_target_data_def split: if_splits)

lemma unique_text_Inr:
  assumes "unique_text_target ts method hash = Inr d"
  shows "\<exists>t. ts = [t] \<and> d = \<lparr>vt_region = tok_region t, vt_method = method,
     vt_confidence = tok_confidence t, vt_frame_hash = hash\<rparr>"
  using assms by (auto simp: unique_text_target_def dest: target_of_Inr split: list.splits)

lemma run_result: "fst r = Inr x \<Longrightarrow> \<exists>s'. r = (Inr x, s')"
  by (cases r) simp

text \<open>A start reads the clock and leaves the caches.\<close>

lemma resolve_starts:
  assumes "resolve_visual V candidate png vp s = (Inr d, s')"
  defines "u \<equiv> s\<lparr>vz_reads := vz_reads s + 1\<rparr>"
  defines "started \<equiv> ve_clock V (vz_reads s)"
  shows "(case candidate of
        OcrTextCandidate c \<Rightarrow> resolve_ocr_text V c png vp
      | OcrRelativeCandidate c \<Rightarrow> resolve_ocr_relative V c png vp started
      | ImageAnchorCandidate c \<Rightarrow> match_template V c png vp
      | RenderedTextCandidate value match \<Rightarrow> resolve_rendered_text V value match png vp started
      | RenderedLabeledControlCandidate label match \<Rightarrow>
          resolve_labeled_control V label match png vp started
      | RenderedFieldValueCandidate label match relation \<Rightarrow>
          resolve_field_value V label match relation png vp started
      | RenderedGroupImageCandidate label match key hash \<Rightarrow>
          resolve_group_image V label match key hash png vp started
      | InputTextCandidate _ _ _ \<Rightarrow> raise (TypeError ''unsupported visual locator candidate'')) u =
    (Inr d, s')"
  using assms(1) unfolding resolve_visual_def u_def started_def
  by (simp add: bind_c_Inr then_c_Inr with_policy_def read_monotonic_def comp_defs split: if_splits sum.splits)

text \<open>
  C19. A text found by OCR is the only text of the frame, within the search region and over the
  reviewed confidence, that matches: the target is its region.
\<close>

theorem resolved_text_is_the_only_match:
  assumes "cache_ok V s" and "fst (resolve_visual V (OcrTextCandidate c) png vp s) = Inr d"
  shows "\<exists>ts region t. ve_recognize V png = Inr ts \<and> search_screen (ot_search_region c) vp = Inr region \<and>
    [t \<leftarrow> ts. ot_minimum_confidence c \<le> tok_confidence t \<and> in_search region t \<and>
             text_matches V (ot_value c) (ot_match c) t] = [t] \<and>
    d = \<lparr>vt_region = tok_region t, vt_method = ''ocr_text'', vt_confidence = tok_confidence t,
         vt_frame_hash = frame_hash V png\<rparr>"
proof -
  let ?u = "s\<lparr>vz_reads := vz_reads s + 1\<rparr>"
  have ok: "cache_ok V ?u" using assms(1) by (simp add: cache_ok_def)
  obtain s' where "resolve_visual V (OcrTextCandidate c) png vp s = (Inr d, s')"
    using run_result[OF assms(2)] by blast
  from resolve_starts[OF this] obtain found v where
    found: "matching_tokens V png (ot_value c) (ot_match c) (ot_minimum_confidence c) (ot_search_region c) vp None ?u =
        (Inr found, v)" and d: "unique_text_target found ''ocr_text'' (frame_hash V png) = Inr d"
    by (auto simp: resolve_ocr_text_def grounding_runs)
  from matching_Inr[OF found ok] unique_text_Inr[OF d] show ?thesis by force
qed

definition sample_ocr :: ocr_text_candidate where
  "sample_ocr =
     \<lparr>ot_value = ''STATUS'', ot_match = MATCH_EXACT, ot_search_region = None, ot_minimum_confidence = 1 / 2,
      ot_portability = PORT_LOW\<rparr>"

lemma sample_ocr_run:
  "fst (resolve_visual sample_vision (OcrTextCandidate sample_ocr) [] sample_screen sample_grounder) =
    Inr \<lparr>vt_region = screen_region_at 2 4 10 4, vt_method = ''ocr_text'', vt_confidence = 1,
         vt_frame_hash = ''sha256:'' @ sample_digest\<rparr>"
  by code_simp

theorem resolved_text_is_the_only_match_witness:
  "\<exists>ts region t. ve_recognize sample_vision [] = Inr ts \<and>
     [t \<leftarrow> ts. 1 / 2 \<le> tok_confidence t \<and> in_search region t \<and>
        text_matches sample_vision ''STATUS'' MATCH_EXACT t] = [t] \<and> tok_region t = screen_region_at 2 4 10 4"
  using resolved_text_is_the_only_match[OF sample_cache_ok sample_ocr_run]
  by (auto simp: sample_ocr_def) blast

section \<open>Regions in the viewport\<close>

lemma relative_inside: "relative_screen a spec vp = Inr r \<Longrightarrow> inside r (vp_width vp) (vp_height vp)"
  unfolding relative_screen_def Let_def bind_r_Inr_iff using clip_Inr_inside by blast

text \<open>
  A region described relative to an anchor is clipped: whatever the anchor and the offsets, the
  target lies within the viewport.
\<close>

theorem relative_targets_stay_in_the_viewport:
  assumes "fst (resolve_visual V (OcrRelativeCandidate c) png vp s) = Inr d" and "or_target_text c = None"
  shows "inside (vt_region d) (vp_width vp) (vp_height vp)"
proof -
  obtain s' where "resolve_visual V (OcrRelativeCandidate c) png vp s = (Inr d, s')"
    using run_result[OF assms(1)] by blast
  from resolve_starts[OF this] obtain spec r and a :: visual_token where
    "relative_screen (tok_region a) spec vp = Inr r" and
    "target_of r ''ocr_relative_region'' (tok_confidence a) (frame_hash V png) = Inr d"
    using assms(2)
    by (auto simp: resolve_ocr_relative_def grounding_runs split: if_splits option.splits)
  then show ?thesis using relative_inside target_of_Inr by fastforce
qed

definition sample_relative :: ocr_relative_candidate where
  "sample_relative =
     \<lparr>or_anchor = ''status'', or_anchor_match = MATCH_EXACT, or_target_text = None, or_relation = RIGHT_OF,
      or_relative_region = Some \<lparr>rr_x = 3, rr_y = -2, rr_width = 100, rr_height = 1\<rparr>, or_search_region = None,
      or_minimum_confidence = 1 / 2, or_portability = PORT_LOW\<rparr>"

lemma sample_relative_run:
  "fst (resolve_visual sample_vision (OcrRelativeCandidate sample_relative) [] sample_screen sample_grounder) =
    Inr \<lparr>vt_region = screen_region_at 14 0 26 4, vt_method = ''ocr_relative_region'', vt_confidence = 1,
         vt_frame_hash = ''sha256:'' @ sample_digest\<rparr>"
  by code_simp

theorem relative_targets_stay_in_the_viewport_witness:
  "inside (screen_region_at 14 0 26 4) 40 20"
  using relative_targets_stay_in_the_viewport[OF sample_relative_run]
  by (simp add: sample_relative_def sample_screen_def)

section \<open>The time of an answer\<close>

definition in_time :: "vision_env \<Rightarrow> int \<Rightarrow> vision_state \<Rightarrow> bool" where
  "in_time V started s =
     (\<exists>p. ve_policy V = Some p \<and> ve_clock V (vz_reads s - 1) - started \<le> vy_milliseconds p * 1000)"

text \<open>A computation that ends, when it returns, in a state of a kind.\<close>

definition arrives :: "('s \<Rightarrow> bool) \<Rightarrow> ('s, 'a) comp \<Rightarrow> bool" where
  "arrives Q m = (\<forall>s y s'. m s = (Inr y, s') \<longrightarrow> Q s')"

named_theorems arriving \<open>computations that end in a state of a kind\<close>

lemma arrives_bind [arriving]: "(\<And>x. arrives Q (f x)) \<Longrightarrow> arrives Q (bind_c m f)"
  unfolding arrives_def bind_c_Inr by blast

lemma arrivesD: "arrives Q m \<Longrightarrow> m s = (Inr y, s') \<Longrightarrow> Q s'"
  unfolding arrives_def by blast

lemma arrives_raise [arriving]: "arrives Q (raise e)"
  by (simp add: arrives_def simple_Inr)

lemma arrives_if [arriving]: "arrives Q m \<Longrightarrow> arrives Q m' \<Longrightarrow> arrives Q (if b then m else m')"
  by simp

lemma arrives_option [arriving]:
  "arrives Q m \<Longrightarrow> (\<And>y. arrives Q (f y)) \<Longrightarrow> arrives Q (case x of None \<Rightarrow> m | Some y \<Rightarrow> f y)"
  by (cases x) simp_all

lemma deadline_in_time:
  assumes "check_deadline V started s = (Inr u, s')"
  shows "in_time V started s'"
  using assms
  by (auto simp: check_deadline_def read_monotonic_def grounding_runs required_policy_def in_time_def
      split: if_splits option.splits)

lemma arrives_deadline [arriving]:
  "arrives (in_time V started) (then_c (check_deadline V started) (lift_c r))"
  "arrives (in_time V started) (then_c (check_deadline V started) (ret x))"
  unfolding arrives_def then_c_Inr simple_Inr using deadline_in_time by blast+

definition budgeted_candidate :: "visual_candidate \<Rightarrow> bool" where
  "budgeted_candidate c =
     (case c of
        RenderedTextCandidate _ _ \<Rightarrow> True
      | RenderedLabeledControlCandidate _ _ \<Rightarrow> True
      | RenderedFieldValueCandidate _ _ _ \<Rightarrow> True
      | RenderedGroupImageCandidate _ _ _ _ \<Rightarrow> True
      | _ \<Rightarrow> False)"

lemma semantic_arrives:
  "arrives (in_time V started) (resolve_rendered_text V value match png vp started)"
  "arrives (in_time V started) (resolve_labeled_control V label match png vp started)"
  "arrives (in_time V started) (resolve_field_value V label match relation png vp started)"
  "arrives (in_time V started) (resolve_group_image V label match key hash png vp started)"
  unfolding resolve_rendered_text_def resolve_labeled_control_def resolve_field_value_def
    resolve_group_image_def Let_def
  by (intro arriving)+

text \<open>
  C36. A semantic candidate is resolved only under a policy and within its time: the last reading of
  the clock is at most the reviewed number of milliseconds after the first.
\<close>

theorem grounding_answers_in_time:
  assumes "fst (resolve_visual V candidate png vp s) = Inr d" and "budgeted_candidate candidate"
  shows "in_time V (ve_clock V (vz_reads s)) (snd (resolve_visual V candidate png vp s))"
proof -
  obtain s' where run: "resolve_visual V candidate png vp s = (Inr d, s')"
    using run_result[OF assms(1)] by blast
  have "in_time V (ve_clock V (vz_reads s)) s'"
    using resolve_starts[OF run] assms(2)
    by (cases candidate) (auto simp: budgeted_candidate_def dest: semantic_arrives[THEN arrivesD])
  then show ?thesis by (simp add: run)
qed

theorem grounding_answers_in_time_witness:
  "in_time sample_vision (ve_clock sample_vision 0)
     (snd (resolve_visual sample_vision sample_group_image [] sample_screen sample_grounder))"
  using grounding_answers_in_time[OF sample_run]
  by (simp add: budgeted_candidate_def sample_group_image_def sample_grounder_def)

section \<open>Images\<close>

definition node_scores :: "vision_env \<Rightarrow> image_policy \<Rightarrow> raster \<Rightarrow> visual_node list \<Rightarrow> (rat \<times> visual_node) list" where
  "node_scores V p template ns =
     [(signature_score V p template (the (nd_edge n)), n). n \<leftarrow> ns, nd_edge n \<noteq> None]"

lemma score_nodes_Inr:
  "score_nodes V p started template ns s = (Inr sc, s') \<Longrightarrow> sc = node_scores V p template ns"
proof (induction ns arbitrary: s sc)
  case (Cons n ns)
  then show ?case by (auto simp: grounding_runs node_scores_def split: option.splits)
qed (simp add: grounding_runs node_scores_def)

definition wins :: "image_policy \<Rightarrow> rat \<times> visual_node \<Rightarrow> (rat \<times> visual_node) list \<Rightarrow> bool" where
  "wins p best scored =
     (best \<in> set scored \<and> vi_minimum_similarity p \<le> fst best \<and>
      list_all (\<lambda>x. fst x + vi_uniqueness_margin p \<le> fst best) (remove1 best scored))"

lemma pick_best_wins:
  assumes "pick_best p scored = Inr best"
  shows "wins p best scored"
proof -
  obtain rest where order: "sort_key (\<lambda>x. - fst x) scored = best # rest"
    and enough: "vi_minimum_similarity p \<le> fst best"
    and apart: "rest = [] \<or> vi_uniqueness_margin p \<le> fst best - fst (hd rest)"
    using assms by (auto simp: pick_best_def Let_def split: list.splits if_splits)
  have "mset scored = mset (best # rest)" using order mset_sort[of "\<lambda>x. - fst x" scored] by simp
  then have "best \<in> set scored" and others: "mset (remove1 best scored) = mset rest"
    using mset_eq_setD by fastforce+
  moreover have "sorted (map (\<lambda>x. - fst x) (best # rest))" using sorted_sort_key order by metis
  then have below: "fst x \<le> fst (hd rest)" if "x \<in> set rest" for x using that by (cases rest) auto
  have "fst x + vi_uniqueness_margin p \<le> fst best" if x: "x \<in> set rest" for x
    using below[OF x] apart x by (cases "rest = []") auto
  ultimately show ?thesis
    using enough mset_eq_setD[OF others] by (simp add: wins_def list_all_iff)
qed

lemma load_image_Inr:
  assumes "load_image V what key hash s = (Inr img, s')"
  shows "\<exists>content. ve_decode_gray V content = Some img \<and>
    hash = ''sha256:'' @ at_sha256 (ve_store V) content"
proof -
  obtain content where content: "ve_decode_gray V content = Some img"
    "guard_asset (unaffected ''template_integrity_failed''
        (''The visual '' @ what @ '' is missing or failed integrity verification.''))
      (asset_read (ve_store V) (ve_hexadecimal V) (vz_assets s) key hash) = Inr content"
    using assms by (auto simp: load_image_def grounding_runs split: option.splits)
  then have "asset_read (ve_store V) (ve_hexadecimal V) (vz_assets s) key hash = Inr content"
    by (auto simp: guard_asset_def split: sum.splits exn.splits)
  then show ?thesis
    using content(1) by (auto simp: asset_read_def Let_def bind_r_Inr_iff split: if_splits option.splits)
qed

text \<open>Earlier resolutions of any candidates in any frames.\<close>

definition grounding_run ::
  "vision_env \<Rightarrow> (visual_candidate \<times> bytes \<times> viewport) list \<Rightarrow> vision_state \<Rightarrow> vision_state" where
  "grounding_run V calls s = fold (\<lambda>(c, png, vp) s. snd (resolve_visual V c png vp s)) calls s"

lemma grounding_run_inv:
  "alike_frames V b \<Longrightarrow> grounder_inv V files b s \<Longrightarrow> grounder_inv V files b (grounding_run V calls s)"
proof (induction calls arbitrary: s)
  case (Cons c calls)
  obtain candidate png vp where c: "c = (candidate, png, vp)" by (cases c)
  have "grounder_inv V files b (snd (resolve_visual V candidate png vp s))"
    by (rule keepsD[OF grounder_resolve[OF Cons.prems(1)] Cons.prems(2)])
  then show ?case using Cons.IH[OF Cons.prems(1)] by (simp add: grounding_run_def c)
qed (simp add: grounding_run_def)

lemma empty_caches_inv: "vz_ocr s = [] \<Longrightarrow> vz_graphs s = [] \<Longrightarrow> grounder_inv V (vz_assets s) b s"
  by (simp add: grounder_inv_def cache_ok_def graphs_ok_def)

lemma semantic_matching_read:
  assumes "semantic_matching_tokens V png value match started s = (Inr ts, s')" "grounder_inv V files b s"
    "ve_policy V = Some p"
  shows "\<exists>all. ve_recognize V png = Inr all \<and>
    ts = unique_tokens V [t \<leftarrow> phrases_of p (readable p all). text_matches V value match t]"
  using assms
  by (auto simp: semantic_matching_tokens_def required_policy_def grounding_runs dest: semantic_phrases_read)

text \<open>
  C20. Whatever a grounder resolved before, the image it finds in a labeled group looks like the stored
  one, whose content has the declared hash, at least as much as the reviewed floor, and more than every
  other image on the label's row by the reviewed margin. The label is the only phrase read from the frame
  that matches; the images are those of the graph of this frame, in the container of the label and on its
  row.
\<close>

theorem group_image_wins_by_its_margin:
  assumes "collision_free V" and "decoded_alike V" and "vz_ocr s = []" and "vz_graphs s = []"
    and "fst (resolve_visual V (RenderedGroupImageCandidate label match key hash) png vp (grounding_run V calls s)) = Inr d"
  shows "\<exists>p all t g images content img n.
    ve_policy V = Some p \<and> ve_recognize V png = Inr all \<and>
    unique_tokens V [t \<leftarrow> phrases_of p (readable p all). text_matches V label match t] = [t] \<and>
    frame_graph V p png vp = Inr g \<and> nodes_in_anchor_container g (tok_region t) IMAGE = Inr images \<and>
    hash = ''sha256:'' @ at_sha256 (ve_store V) content \<and> ve_decode_gray V content = Some img \<and>
    d = \<lparr>vt_region = nd_region n, vt_method = ''rendered_group_image'', vt_confidence = vt_confidence d,
         vt_frame_hash = frame_hash V png\<rparr> \<and>
    wins (vy_image p) (vt_confidence d, n)
      (node_scores V (vy_image p) (normalize_signature V (vy_image p) img)
         (select_structural_row (vy_association p) (tok_region t) images (lg_median g) True))"
proof -
  let ?c = "RenderedGroupImageCandidate label match key hash" and ?I = "grounder_inv V (vz_assets s) True"
  have alike: "alike_frames V True" using assms(1,2) by (simp add: alike_frames_def)
  define before where "before = grounding_run V calls s"
  have inv: "?I before" unfolding before_def by (rule grounding_run_inv[OF alike empty_caches_inv[OF assms(3,4)]])
  obtain s' where "resolve_visual V ?c png vp before = (Inr d, s')"
    using run_result[OF assms(5)[folded before_def]] by blast
  from resolve_starts[OF this] obtain p labels and t :: visual_token and g images img scored best b0 b1 b2 b3 b4 where
    policy: "ve_policy V = Some p" and
    labels: "semantic_matching_tokens V png label match (ve_clock V (vz_reads before))
      (before\<lparr>vz_reads := vz_reads before + 1\<rparr>) = (Inr labels, b0)" "labels = [t]" and
    graph: "layout_of V png vp (ve_clock V (vz_reads before)) b0 = (Inr g, b1)" and
    images: "nodes_in_anchor_container g (tok_region t) IMAGE = Inr images" and
    load: "load_image V ''signature'' key hash b1 = (Inr img, b2)" and
    scores: "score_nodes V (vy_image p) (ve_clock V (vz_reads before)) (normalize_signature V (vy_image p) img)
        (select_structural_row (vy_association p) (tok_region t) images (lg_median g) True) b2 = (Inr scored, b3)" and
    best: "pick_best (vy_image p) scored = Inr best" and
    d: "target_of (nd_region (snd best)) ''rendered_group_image'' (fst best) (frame_hash V png) = Inr d"
    by (auto simp: resolve_group_image_def Let_def grounding_runs required_policy_def only_one_Inr
        split: if_splits option.splits)
  have started: "?I (before\<lparr>vz_reads := vz_reads before + 1\<rparr>)"
    using inv by (simp add: grounder_inv_def cache_ok_def graphs_ok_def)
  have "?I b0" using keepsD[OF grounder_semantic(1)[OF alike] started] labels(1) by (metis snd_conv)
  note graph = layout_read[OF graph this alike policy]
  note read = semantic_matching_read[OF labels(1) started policy]
  have "wins (vy_image p) (vt_confidence d, snd best) (node_scores V (vy_image p)
      (normalize_signature V (vy_image p) img)
      (select_structural_row (vy_association p) (tok_region t) images (lg_median g) True))"
    using pick_best_wins[OF best] score_nodes_Inr[OF scores] target_of_Inr[OF d] by simp
  moreover have "d = \<lparr>vt_region = nd_region (snd best), vt_method = ''rendered_group_image'', vt_confidence = vt_confidence d,
      vt_frame_hash = frame_hash V png\<rparr>" using target_of_Inr[OF d] by simp
  ultimately show ?thesis using policy read labels(2) graph images load_image_Inr[OF load] by metis
qed

theorem group_image_wins_by_its_margin_witness:
  "\<exists>p all g n scored. ve_policy sample_vision = Some p \<and> ve_recognize sample_vision [] = Inr all \<and>
     frame_graph sample_vision p [] sample_screen = Inr g \<and> nd_region n = screen_region_at 20 3 6 6 \<and>
     wins (vy_image p) (1, n) scored"
proof -
  let ?d = "\<lparr>vt_region = screen_region_at 20 3 6 6, vt_method = ''rendered_group_image'', vt_confidence = 1,
       vt_frame_hash = ''sha256:'' @ sample_digest\<rparr>"
  have alike: "decoded_alike sample_vision" by (simp add: decoded_alike_def sample_vision_def)
  have empty: "vz_ocr sample_grounder = []" "vz_graphs sample_grounder = []" by (simp_all add: sample_grounder_def)
  have run: "fst (resolve_visual sample_vision (RenderedGroupImageCandidate ''status'' MATCH_EXACT
      (''asset://sha256/'' @ sample_digest) (''sha256:'' @ sample_digest)) [] sample_screen
      (grounding_run sample_vision [] sample_grounder)) = Inr ?d"
    using sample_run by (simp add: grounding_run_def sample_group_image_def)
  obtain p all g and n :: visual_node and scored where
    "ve_policy sample_vision = Some p" "ve_recognize sample_vision [] = Inr all"
    "frame_graph sample_vision p [] sample_screen = Inr g" "?d = \<lparr>vt_region = nd_region n,
      vt_method = ''rendered_group_image'', vt_confidence = vt_confidence ?d, vt_frame_hash = frame_hash sample_vision []\<rparr>"
    "wins (vy_image p) (vt_confidence ?d, n) scored"
    using group_image_wins_by_its_margin[OF sample_collision_free alike empty run] by blast
  then have "ve_policy sample_vision = Some p \<and> ve_recognize sample_vision [] = Inr all \<and>
     frame_graph sample_vision p [] sample_screen = Inr g \<and> nd_region n = screen_region_at 20 3 6 6 \<and>
     wins (vy_image p) (1, n) scored" by simp
  then show ?thesis by blast
qed

section \<open>Signatures\<close>

lemma py_round_le: "r \<le> of_int n \<Longrightarrow> py_round r \<le> n"
proof -
  assume r: "r \<le> of_int n"
  then have "\<lfloor>r\<rfloor> \<le> n" by (simp add: floor_le_iff)
  moreover have "r - of_int \<lfloor>r\<rfloor> < 1 / 2" if "\<lfloor>r\<rfloor> = n" using r that by simp
  ultimately show ?thesis by (cases "\<lfloor>r\<rfloor> = n") (auto simp: py_round_def Let_def)
qed

lemma scaled_fits:
  assumes "0 < w" "scale \<le> (of_int m :: rat) / of_int (max 1 w)" "1 \<le> m"
  shows "max 1 (py_round (of_int w * scale)) \<le> m"
proof -
  have "of_int w * scale \<le> of_int w * (of_int m / of_int w :: rat)"
    using assms(1,2) by (intro mult_left_mono) (simp_all add: max_def)
  then have "of_int w * scale \<le> of_int m" using assms(1) by simp
  then show ?thesis using py_round_le assms(3) by simp
qed

lemma centered_fits: "1 \<le> e \<Longrightarrow> e \<le> m - q \<Longrightarrow> 0 \<le> q \<Longrightarrow> 0 \<le> (m - e) div 2 \<and> (m - e) div 2 + e \<le> (m :: int)"
  by linarith

lemma policy_padding:
  assumes "mk_vision_policy p = Inr q"
  shows "0 \<le> vi_padding (vy_image q)" "vi_padding (vy_image q) < vi_width (vy_image q)"
    "vi_padding (vy_image q) < vi_height (vy_image q)"
  using assms by (auto simp: mk_vision_policy_def checks_Inr_iff check_image_def bind_r_Inr_iff simp del: checks_simps)

text \<open>
  Under a validated policy a component of any size is scaled to at least one pixel and to at most
  the canonical canvas, and is placed within it.
\<close>

theorem signatures_fit_their_canvas:
  assumes "mk_vision_policy p = Inr q" and "0 < w" and "0 < h"
    and "signature_size (vy_image q) w h = (width, height)"
    and "signature_place (vy_image q) (width, height) = (left, upper)"
  shows "1 \<le> width \<and> 0 \<le> left \<and> left + width \<le> vi_width (vy_image q) \<and>
    1 \<le> height \<and> 0 \<le> upper \<and> upper + height \<le> vi_height (vy_image q)"
proof -
  let ?p = "vy_image q"
  have fits: "width \<le> vi_width ?p - vi_padding ?p" "height \<le> vi_height ?p - vi_padding ?p"
    using assms(2-4) policy_padding[OF assms(1)] by (auto simp: signature_size_def Let_def intro!: scaled_fits)
  moreover have "1 \<le> width" "1 \<le> height" using assms(4) by (auto simp: signature_size_def Let_def)
  moreover have "left = (vi_width ?p - width) div 2" "upper = (vi_height ?p - height) div 2"
    using assms(5) by (auto simp: signature_place_def)
  ultimately show ?thesis
    using centered_fits[of width "vi_width ?p" "vi_padding ?p"] policy_padding[OF assms(1)]
      centered_fits[of height "vi_height ?p" "vi_padding ?p"] by simp
qed

lemma sample_policy_ok: "mk_vision_policy sample_policy = Inr sample_policy"
  by code_simp

theorem signatures_fit_their_canvas_witness:
  "signature_size (vy_image sample_policy) 6 12 = (2, 3) \<and>
   signature_place (vy_image sample_policy) (2, 3) = (1, 0) \<and>
   1 + 2 \<le> vi_width (vy_image sample_policy) \<and> 0 + 3 \<le> vi_height (vy_image sample_policy)"
proof -
  have extent: "signature_size (vy_image sample_policy) 6 12 = (2, 3)"
    and place: "signature_place (vy_image sample_policy) (2, 3) = (1, 0)" by code_simp+
  show ?thesis
    using signatures_fit_their_canvas[OF sample_policy_ok _ _ extent place] extent place by simp
qed

section \<open>Assets\<close>

text \<open>
  C37. What the asset store wrote is what it reads back under the key and hash it answered, and the
  file of no other asset changed.
\<close>

theorem written_asset_reads_back:
  assumes "asset_write A content files = (Inr (key, hash), files')"
    and "length (at_sha256 A content) = 64" and "is_hexadecimal (at_sha256 A content)"
  shows "asset_read A is_hexadecimal files' key hash = Inr content \<and>
    map_of files' = (map_of files)(asset_name (at_sha256 A content) \<mapsto> content)"
proof -
  let ?d = "at_sha256 A content"
  have valid: "validate_content A content = Inr ()" and answer: "key = ''asset://sha256/'' @ ?d" "hash = ''sha256:'' @ ?d"
    and files: "map_of files' = (map_of files)(asset_name ?d \<mapsto> content)"
    using assms(1)
    by (auto simp: asset_write_def Let_def bind_c_def then_c_def gets_def lift_c_def raise_def ret_def update_def
        fun_eq_iff map_of_append map_add_def split: if_splits option.splits sum.splits)
  then show ?thesis
    using assms(2,3) by (simp add: asset_read_def Let_def starts_with_iff)
qed

theorem written_asset_reads_back_witness:
  "asset_read (ve_store sample_vision) (is_hex 64) [(asset_name sample_digest, png_signature)]
     (''asset://sha256/'' @ sample_digest) (''sha256:'' @ sample_digest) = Inr png_signature"
proof -
  have stored: "asset_write (ve_store sample_vision) png_signature [] =
      (Inr (''asset://sha256/'' @ sample_digest, ''sha256:'' @ sample_digest), [(asset_name sample_digest, png_signature)])"
    by code_simp
  have "length (at_sha256 (ve_store sample_vision) png_signature) = 64"
    "is_hex 64 (at_sha256 (ve_store sample_vision) png_signature)"
    by code_simp+
  then show ?thesis using written_asset_reads_back[OF stored] by blast
qed

end
