(* ===== verification/Viewing.thy ===== *)
theory Viewing
  imports SurfaceModels
begin

text \<open>
  The viewer of executions (\<^verbatim>\<open>runs/viewing.py\<close>): it keeps, for a bounded time and in
  bounded space, what a person who holds the token of an execution may see of it. Every method holds
  one lock, so an operation is a function of the state; the clock reading of an operation, in
  microseconds, the new identifier and the new token are its arguments, and the digest is a parameter.
  An operation that is submitted to the pool runs as further operations of the viewer.
\<close>

section \<open>Limits and executions\<close>

record viewing_limits =
  vl_active :: int
  vl_executions :: int
  vl_frames :: int
  vl_bytes :: int
  vl_frame_bytes :: int
  vl_events :: int
  vl_retention :: int

definition mk_viewing_limits :: "viewing_limits \<Rightarrow> viewing_limits result" where
  "mk_viewing_limits l =
     (if list_ex (\<lambda>v. v < 1) [vl_active l, vl_executions l, vl_frames l, vl_bytes l, vl_frame_bytes l,
          vl_events l, vl_retention l]
      then Inl (ValueError ''viewing limits must be positive'')
      else if vl_executions l < vl_active l
      then Inl (ValueError ''active execution limit exceeds retention capacity'')
      else Inr l)"

definition default_limits :: viewing_limits where
  "default_limits =
     \<lparr>vl_active = 1, vl_executions = 4, vl_frames = 60, vl_bytes = 33554432, vl_frame_bytes = 5242880,
      vl_events = 2000, vl_retention = 300\<rparr>"

datatype view_mode = VIEW_REPLAY | VIEW_DISCOVERY

datatype view_state =
    VIEW_RUNNING | VIEW_PAUSED | VIEW_SUCCESS | VIEW_FAILURE | VIEW_OUTCOME | VIEW_TERMINATED

text \<open>A message is a dictionary, as it comes from \<open>model_dump\<close>.\<close>

type_synonym message = "json dict"

record frame_entry =
  fe_sequence :: int
  fe_run :: string
  fe_phase :: string
  fe_captured :: string
  fe_width :: int
  fe_height :: int
  fe_event_sequence :: int

record execution =
  ex_id :: string
  ex_mode :: view_mode
  ex_token_hash :: bytes
  ex_state :: view_state
  ex_phase :: string
  ex_frames :: "(frame_entry \<times> bytes) list"
  ex_events :: "message list"
  ex_run_ids :: "string list"
  ex_sequence :: int
  ex_event_sequence :: int
  ex_evicted :: int
  ex_bytes :: int
  ex_result :: "message option"
  ex_finished :: "int option"

record run_feed =
  rf_execution :: string
  rf_run :: string
  rf_phase :: string

record viewer =
  vw_items :: "execution dict"
  vw_closed :: bool

text \<open>A \<open>ViewingError\<close>, and what the dictionary and iterator operations raise.\<close>

datatype view_failure =
    ViewingError string int
  | MissingExecution
  | NoFinishedExecution
  | UnhashableStatus

definition new_execution :: "string \<Rightarrow> view_mode \<Rightarrow> bytes \<Rightarrow> execution" where
  "new_execution i mode digest =
     \<lparr>ex_id = i, ex_mode = mode, ex_token_hash = digest, ex_state = VIEW_RUNNING, ex_phase = ''starting'',
      ex_frames = [], ex_events = [], ex_run_ids = [], ex_sequence = 0, ex_event_sequence = 0, ex_evicted = 0,
      ex_bytes = 0, ex_result = None, ex_finished = None\<rparr>"

definition empty_viewer :: viewer where
  "empty_viewer = \<lparr>vw_items = [], vw_closed = False\<rparr>"

section \<open>Starting and expiring\<close>

definition outlived :: "viewing_limits \<Rightarrow> int \<Rightarrow> execution \<Rightarrow> bool" where
  "outlived l now x =
     (case ex_finished x of None \<Rightarrow> False | Some t \<Rightarrow> vl_retention l * 1000000 \<le> now - t)"

definition expire_items :: "viewing_limits \<Rightarrow> int \<Rightarrow> execution dict \<Rightarrow> execution dict" where
  "expire_items l now items = [p \<leftarrow> items. \<not> outlived l now (snd p)]"

definition expire_viewer :: "viewing_limits \<Rightarrow> int \<Rightarrow> viewer \<Rightarrow> viewer" where
  "expire_viewer l now v = v\<lparr>vw_items := expire_items l now (vw_items v)\<rparr>"

definition active_count :: "execution dict \<Rightarrow> int" where
  "active_count items = int (length [p \<leftarrow> items. ex_finished (snd p) = None])"

text \<open>\<open>next(key for key, item in ... if item.finished_at)\<close>: a time of zero would be false.\<close>

fun drop_oldest :: "execution dict \<Rightarrow> execution dict option" where
  "drop_oldest [] = None"
| "drop_oldest (p # items) =
     (if ex_finished (snd p) \<noteq> None \<and> ex_finished (snd p) \<noteq> Some 0 then Some items
      else case drop_oldest items of None \<Rightarrow> None | Some rest \<Rightarrow> Some (p # rest))"

lemma drop_oldest_length: "drop_oldest items = Some rest \<Longrightarrow> length items = Suc (length rest)"
  by (induction items arbitrary: rest) (auto split: if_splits option.splits)

function make_room :: "int \<Rightarrow> execution dict \<Rightarrow> view_failure + execution dict" where
  "make_room m items =
     (if int (length items) < m then Inr items
      else case drop_oldest items of None \<Rightarrow> Inl NoFinishedExecution | Some rest \<Rightarrow> make_room m rest)"
  by pat_completeness auto
termination
  by (relation "measure (\<lambda>(m, items). length items)") (auto dest: drop_oldest_length)

declare make_room.simps [simp del]

definition start_view ::
  "viewing_limits \<Rightarrow> (string \<Rightarrow> bytes) \<Rightarrow> int \<Rightarrow> view_mode \<Rightarrow> string \<Rightarrow> string \<Rightarrow> viewer
     \<Rightarrow> (view_failure + string \<times> string) \<times> viewer" where
  "start_view l digest now mode i token v =
     (let v' = expire_viewer l now v in
      if vw_closed v' then (Inl (ViewingError ''viewer_unavailable'' 503), v')
      else if vl_active l \<le> active_count (vw_items v')
      then (Inl (ViewingError ''execution_capacity_reached'' 429), v')
      else case make_room (vl_executions l) (vw_items v') of
        Inl e \<Rightarrow> (Inl e, v')
      | Inr items \<Rightarrow>
          (Inr (i, token), v'\<lparr>vw_items := dict_set i (new_execution i mode (digest token)) items\<rparr>))"

section \<open>What the holder of the token sees\<close>

definition authorize_view ::
  "viewing_limits \<Rightarrow> (string \<Rightarrow> bytes) \<Rightarrow> int \<Rightarrow> string \<Rightarrow> string \<Rightarrow> viewer \<Rightarrow> view_failure + execution" where
  "authorize_view l digest now i token v =
     (case dict_get (expire_items l now (vw_items v)) i of
        None \<Rightarrow> Inl (ViewingError ''execution_unavailable'' 404)
      | Some x \<Rightarrow>
          if ex_token_hash x = digest token then Inr x
          else Inl (ViewingError ''execution_unavailable'' 404))"

fun mode_text :: "view_mode \<Rightarrow> string" where
  "mode_text VIEW_REPLAY = ''replay''"
| "mode_text VIEW_DISCOVERY = ''discovery''"

fun state_text :: "view_state \<Rightarrow> string" where
  "state_text VIEW_RUNNING = ''running''"
| "state_text VIEW_PAUSED = ''paused''"
| "state_text VIEW_SUCCESS = ''success''"
| "state_text VIEW_FAILURE = ''failure''"
| "state_text VIEW_OUTCOME = ''business_outcome''"
| "state_text VIEW_TERMINATED = ''terminated''"

definition frame_json :: "frame_entry \<Rightarrow> json" where
  "frame_json f = JObj
     [(''sequence'', JInt (fe_sequence f)), (''run_id'', JStr (fe_run f)), (''phase'', JStr (fe_phase f)),
      (''captured_at'', JStr (fe_captured f)), (''width'', JInt (fe_width f)), (''height'', JInt (fe_height f)),
      (''event_sequence'', JInt (fe_event_sequence f))]"

text \<open>Every stored event has its number.\<close>

definition event_number :: "message \<Rightarrow> int" where
  "event_number e = (case dict_get e ''sequence'' of Some (JInt n) \<Rightarrow> n | _ \<Rightarrow> 0)"

definition view_json :: "viewing_limits \<Rightarrow> int \<Rightarrow> execution \<Rightarrow> json" where
  "view_json l after x = JObj
     [(''execution_id'', JStr (ex_id x)), (''mode'', JStr (mode_text (ex_mode x))),
      (''state'', JStr (state_text (ex_state x))), (''phase'', JStr (ex_phase x)),
      (''run_ids'', JList (map JStr (ex_run_ids x))), (''frames'', JList (map (\<lambda>f. frame_json (fst f)) (ex_frames x))),
      (''evicted_frames'', JInt (ex_evicted x)),
      (''events'', JList (map JObj [e \<leftarrow> ex_events x. after < event_number e])),
      (''event_cursor'', JInt (ex_event_sequence x)),
      (''first_event_sequence'', case ex_events x of [] \<Rightarrow> JNull | e # es \<Rightarrow> JInt (event_number e)),
      (''result'', case ex_result x of None \<Rightarrow> JNull | Some r \<Rightarrow> JObj r),
      (''retention_seconds'', JInt (vl_retention l))]"

definition snapshot_view ::
  "viewing_limits \<Rightarrow> (string \<Rightarrow> bytes) \<Rightarrow> int \<Rightarrow> string \<Rightarrow> string \<Rightarrow> int \<Rightarrow> viewer
     \<Rightarrow> (view_failure + json) \<times> viewer" where
  "snapshot_view l digest now i token after v =
     (case authorize_view l digest now i token v of
        Inl e \<Rightarrow> (Inl e, expire_viewer l now v)
      | Inr x \<Rightarrow> (Inr (view_json l after x), expire_viewer l now v))"

definition frame_view ::
  "viewing_limits \<Rightarrow> (string \<Rightarrow> bytes) \<Rightarrow> int \<Rightarrow> string \<Rightarrow> string \<Rightarrow> int \<Rightarrow> viewer
     \<Rightarrow> (view_failure + bytes) \<times> viewer" where
  "frame_view l digest now i token number v =
     (case authorize_view l digest now i token v of
        Inl e \<Rightarrow> (Inl e, expire_viewer l now v)
      | Inr x \<Rightarrow>
          (case map_of (map (\<lambda>f. (fe_sequence (fst f), snd f)) (ex_frames x)) number of
             None \<Rightarrow> (Inl (ViewingError ''frame_expired'' 410), expire_viewer l now v)
           | Some data \<Rightarrow> (Inr data, expire_viewer l now v)))"

section \<open>What the execution reports\<close>

definition update_open :: "string \<Rightarrow> (execution \<Rightarrow> execution) \<Rightarrow> viewer \<Rightarrow> viewer" where
  "update_open i f v =
     (case dict_get (vw_items v) i of
        None \<Rightarrow> v
      | Some x \<Rightarrow> if ex_finished x \<noteq> None then v else v\<lparr>vw_items := dict_set i (f x) (vw_items v)\<rparr>)"

definition phase_view :: "string \<Rightarrow> string \<Rightarrow> viewer \<Rightarrow> viewer" where
  "phase_view i name = update_open i (\<lambda>x. x\<lparr>ex_phase := name\<rparr>)"

definition bind_view :: "string \<Rightarrow> string \<Rightarrow> viewer \<Rightarrow> (view_failure + run_feed) \<times> viewer" where
  "bind_view i run v =
     (case dict_get (vw_items v) i of
        None \<Rightarrow> (Inl MissingExecution, v)
      | Some x \<Rightarrow>
          (Inr \<lparr>rf_execution = i, rf_run = run, rf_phase = ex_phase x\<rparr>,
           if run \<in> set (ex_run_ids x) then v
           else v\<lparr>vw_items := dict_set i (x\<lparr>ex_run_ids := ex_run_ids x @ [run]\<rparr>) (vw_items v)\<rparr>))"

definition frame_maximum :: "viewing_limits \<Rightarrow> execution \<Rightarrow> int" where
  "frame_maximum l x = (if ex_mode x = VIEW_REPLAY then vl_frames l else 1)"

text \<open>The oldest frames go until both limits hold; a frame that is kept fits alone.\<close>

fun trim_frames ::
  "int \<Rightarrow> int \<Rightarrow> (frame_entry \<times> bytes) list \<Rightarrow> int \<Rightarrow> int \<Rightarrow> (frame_entry \<times> bytes) list \<times> int \<times> int" where
  "trim_frames n b [] held evicted = ([], held, evicted)"
| "trim_frames n b (f # fs) held evicted =
     (if n < int (length (f # fs)) \<or> b < held
      then trim_frames n b fs (held - int (length (snd f))) (evicted + 1)
      else (f # fs, held, evicted))"

definition same_as_last :: "execution \<Rightarrow> run_feed \<Rightarrow> bytes \<Rightarrow> bool" where
  "same_as_last x feed data =
     (ex_frames x \<noteq> [] \<and> snd (last (ex_frames x)) = data \<and> fe_run (fst (last (ex_frames x))) = rf_run feed)"

definition add_frame :: "viewing_limits \<Rightarrow> run_feed \<Rightarrow> surface_frame \<Rightarrow> string \<Rightarrow> execution \<Rightarrow> execution" where
  "add_frame l feed frame captured x =
     (if same_as_last x feed (sf_content frame) then x
      else
        let number = ex_sequence x + 1;
            entry = \<lparr>fe_sequence = number, fe_run = rf_run feed, fe_phase = rf_phase feed, fe_captured = captured,
                     fe_width = vp_width (sf_viewport frame), fe_height = vp_height (sf_viewport frame),
                     fe_event_sequence = ex_event_sequence x\<rparr> in
        case trim_frames (frame_maximum l x) (vl_bytes l) (ex_frames x @ [(entry, sf_content frame)])
               (ex_bytes x + int (length (sf_content frame))) (ex_evicted x) of
          (frames, held, evicted) \<Rightarrow>
            x\<lparr>ex_sequence := number, ex_frames := frames, ex_bytes := held, ex_evicted := evicted\<rparr>)"

definition publish_frame ::
  "viewing_limits \<Rightarrow> run_feed \<Rightarrow> surface_frame \<Rightarrow> string \<Rightarrow> viewer \<Rightarrow> viewer" where
  "publish_frame l feed frame captured v =
     (if \<not> starts_with png_signature (sf_content frame) \<or>
         min (vl_frame_bytes l) (vl_bytes l) < int (length (sf_content frame))
      then v else update_open (rf_execution feed) (add_frame l feed frame captured) v)"

definition add_event :: "viewing_limits \<Rightarrow> run_feed \<Rightarrow> message \<Rightarrow> execution \<Rightarrow> execution" where
  "add_event l feed e x =
     (let number = ex_event_sequence x + 1;
          events = ex_events x @ [dict_set ''phase'' (JStr (rf_phase feed))
            (dict_set ''run_id'' (JStr (rf_run feed)) (dict_set ''sequence'' (JInt number) e))] in
      x\<lparr>ex_event_sequence := number, ex_events := drop (length events - nat (vl_events l)) events\<rparr>)"

definition publish_event :: "viewing_limits \<Rightarrow> run_feed \<Rightarrow> message \<Rightarrow> viewer \<Rightarrow> viewer" where
  "publish_event l feed e = update_open (rf_execution feed) (add_event l feed e)"

section \<open>Ending\<close>

definition final_state :: "string \<Rightarrow> view_state option" where
  "final_state s =
     (if s = ''success'' then Some VIEW_SUCCESS
      else if s = ''failure'' then Some VIEW_FAILURE
      else if s = ''business_outcome'' then Some VIEW_OUTCOME
      else if s = ''terminated'' then Some VIEW_TERMINATED
      else None)"

definition invalid_result :: message where
  "invalid_result = [(''status'', JStr ''failure''), (''code'', JStr ''invalid_execution_result'')]"

definition settle_view :: "int \<Rightarrow> message \<Rightarrow> execution \<Rightarrow> execution" where
  "settle_view now r x =
     (case dict_get r ''status'' of
        Some (JStr s) \<Rightarrow>
          if s = ''intervention_required'' then x\<lparr>ex_state := VIEW_PAUSED, ex_result := Some r\<rparr>
          else (case final_state s of
                  Some st \<Rightarrow> x\<lparr>ex_state := st, ex_finished := Some now, ex_result := Some r\<rparr>
                | None \<Rightarrow> x\<lparr>ex_state := VIEW_FAILURE, ex_finished := Some now, ex_result := Some invalid_result\<rparr>)
      | _ \<Rightarrow> x\<lparr>ex_state := VIEW_FAILURE, ex_finished := Some now, ex_result := Some invalid_result\<rparr>)"

text \<open>\<open>status in {...}\<close> needs a value that can be hashed.\<close>

definition unhashable :: "message \<Rightarrow> bool" where
  "unhashable r = (case dict_get r ''status'' of Some (JList _) \<Rightarrow> True | Some (JObj _) \<Rightarrow> True | _ \<Rightarrow> False)"

definition is_open :: "viewer \<Rightarrow> string \<Rightarrow> bool" where
  "is_open v i = (case dict_get (vw_items v) i of None \<Rightarrow> False | Some x \<Rightarrow> ex_finished x = None)"

definition finish_view :: "int \<Rightarrow> string \<Rightarrow> message \<Rightarrow> viewer \<Rightarrow> (view_failure + unit) \<times> viewer" where
  "finish_view now i r v =
     (if is_open v i \<and> unhashable r then (Inl UnhashableStatus, v)
      else (Inr (), update_open i (settle_view now r) v))"

text \<open>\<open>_execute\<close>: an exception of the operation is reported without its text.\<close>

definition execution_failed :: message where
  "execution_failed = [(''status'', JStr ''failure''), (''code'', JStr ''execution_failed'')]"

definition execute_view :: "int \<Rightarrow> string \<Rightarrow> exn + message \<Rightarrow> viewer \<Rightarrow> (view_failure + unit) \<times> viewer" where
  "execute_view now i outcome v =
     finish_view now i (case outcome of Inl e \<Rightarrow> execution_failed | Inr r \<Rightarrow> r) v"

definition reports_end :: "run_feed \<Rightarrow> message \<Rightarrow> bool" where
  "reports_end feed r =
     (rf_phase feed = ''replay'' \<or>
      dict_get r ''status'' \<in> {Some (JStr ''intervention_required''), Some (JStr ''terminated'')})"

definition run_result_view :: "int \<Rightarrow> run_feed \<Rightarrow> message \<Rightarrow> viewer \<Rightarrow> (view_failure + unit) \<times> viewer" where
  "run_result_view now feed r v =
     (if rf_phase feed \<noteq> ''replay'' \<and> unhashable r then (Inl UnhashableStatus, v)
      else if reports_end feed r then finish_view now (rf_execution feed) r v
      else (Inr (), v))"

definition resume_view :: "run_feed \<Rightarrow> viewer \<Rightarrow> viewer" where
  "resume_view feed = update_open (rf_execution feed) (\<lambda>x. x\<lparr>ex_state := VIEW_RUNNING, ex_result := None\<rparr>)"

text \<open>\<open>close\<close> lets the submitted operations end between its two steps.\<close>

definition begin_close :: "viewer \<Rightarrow> viewer" where
  "begin_close v = v\<lparr>vw_closed := True\<rparr>"

definition end_close :: "viewer \<Rightarrow> viewer" where
  "end_close v = v\<lparr>vw_items := []\<rparr>"

section \<open>The viewer as a machine\<close>

datatype view_call =
    StartView view_mode string string
  | ExpireView
  | SnapshotView string string int
  | FetchFrame string string int
  | PhaseView string string
  | BindRun string string
  | PublishFrame run_feed surface_frame string
  | PublishEvent run_feed message
  | RunResult run_feed message
  | ExecuteView string "exn + message"
  | ResumeRun run_feed
  | BeginClose
  | EndClose

definition view_step :: "viewing_limits \<Rightarrow> (string \<Rightarrow> bytes) \<Rightarrow> int \<times> view_call \<Rightarrow> viewer \<Rightarrow> viewer" where
  "view_step l digest c v =
     (case c of (now, call) \<Rightarrow>
        (case call of
           StartView mode i token \<Rightarrow> snd (start_view l digest now mode i token v)
         | ExpireView \<Rightarrow> expire_viewer l now v
         | SnapshotView i token after \<Rightarrow> snd (snapshot_view l digest now i token after v)
         | FetchFrame i token number \<Rightarrow> snd (frame_view l digest now i token number v)
         | PhaseView i name \<Rightarrow> phase_view i name v
         | BindRun i run \<Rightarrow> snd (bind_view i run v)
         | PublishFrame feed frame captured \<Rightarrow> publish_frame l feed frame captured v
         | PublishEvent feed e \<Rightarrow> publish_event l feed e v
         | RunResult feed r \<Rightarrow> snd (run_result_view now feed r v)
         | ExecuteView i outcome \<Rightarrow> snd (execute_view now i outcome v)
         | ResumeRun feed \<Rightarrow> resume_view feed v
         | BeginClose \<Rightarrow> begin_close v
         | EndClose \<Rightarrow> end_close v))"

definition view_run :: "viewing_limits \<Rightarrow> (string \<Rightarrow> bytes) \<Rightarrow> (int \<times> view_call) list \<Rightarrow> viewer \<Rightarrow> viewer" where
  "view_run l digest calls v = fold (view_step l digest) calls v"

end
