(* ===== verification/ViewingGuarantees.thy ===== *)
theory ViewingGuarantees
  imports Viewing "HOL-Library.Sublist"
begin

text \<open>
  The viewer in every reachable state: it stays within its limits, tells an execution only to who
  presents its token, and always finds room for a new execution while fewer than allowed are active.
\<close>

section \<open>Dictionaries of executions\<close>

lemma set_dict_set: "set (dict_set k v d) \<subseteq> insert (k, v) (set d)"
  by (induction d) auto

lemma dict_get_mem: "dict_get d k = Some v \<Longrightarrow> (k, v) \<in> set d"
  by (rule map_of_SomeD)

lemma dict_set_length_same: "dict_get d k = Some x \<Longrightarrow> length (dict_set k v d) = length d"
  by (induction d) (auto split: if_splits)

lemma dict_set_length: "length (dict_set k v d) \<le> Suc (length d)"
  by (induction d) auto

lemma active_dict_set: "active_count (dict_set k v d) \<le> active_count d + 1"
  by (induction d) (auto simp: active_count_def)

lemma active_dict_set_open:
  "dict_get d k = Some x \<Longrightarrow> ex_finished x = None \<Longrightarrow> active_count (dict_set k v d) \<le> active_count d"
  by (induction d) (auto simp: active_count_def split: if_splits)

lemma active_dict_set_same:
  "dict_get d k = Some x \<Longrightarrow> ex_finished y = ex_finished x \<Longrightarrow> active_count (dict_set k y d) = active_count d"
  by (induction d) (auto simp: active_count_def split: if_splits)

lemma active_filter: "active_count (filter P d) \<le> active_count d"
  by (induction d) (auto simp: active_count_def)

section \<open>The invariant\<close>

definition frames_size :: "(frame_entry \<times> bytes) list \<Rightarrow> int" where
  "frames_size fs = sum_list (map (\<lambda>f. int (length (snd f))) fs)"

definition frame_ok :: "viewing_limits \<Rightarrow> frame_entry \<times> bytes \<Rightarrow> bool" where
  "frame_ok l f =
     (starts_with png_signature (snd f) \<and> int (length (snd f)) \<le> min (vl_frame_bytes l) (vl_bytes l))"

definition execution_ok :: "viewing_limits \<Rightarrow> execution \<Rightarrow> bool" where
  "execution_ok l x =
     (int (length (ex_frames x)) \<le> frame_maximum l x \<and>
      ex_bytes x = frames_size (ex_frames x) \<and> ex_bytes x \<le> vl_bytes l \<and>
      list_all (frame_ok l) (ex_frames x) \<and>
      map (\<lambda>f. fe_sequence (fst f)) (ex_frames x) =
        [ex_sequence x - int (length (ex_frames x)) + 1..ex_sequence x] \<and>
      ex_sequence x = ex_evicted x + int (length (ex_frames x)) \<and>
      int (length (ex_events x)) \<le> vl_events l \<and>
      map event_number (ex_events x) =
        [ex_event_sequence x - int (length (ex_events x)) + 1..ex_event_sequence x] \<and>
      (ex_finished x = None \<longleftrightarrow> ex_state x \<in> {VIEW_RUNNING, VIEW_PAUSED}))"

definition viewer_ok :: "viewing_limits \<Rightarrow> viewer \<Rightarrow> bool" where
  "viewer_ok l v =
     (distinct (dict_keys (vw_items v)) \<and> int (length (vw_items v)) \<le> vl_executions l \<and>
      active_count (vw_items v) \<le> vl_active l \<and>
      (\<forall>(i, x) \<in> set (vw_items v). ex_id x = i \<and> execution_ok l x))"

definition limits_ok :: "viewing_limits \<Rightarrow> bool" where
  "limits_ok l = (mk_viewing_limits l = Inr l)"

lemma limits_positive:
  assumes "limits_ok l"
  shows "1 \<le> vl_frames l" "1 \<le> vl_bytes l" "1 \<le> vl_events l" "vl_active l \<le> vl_executions l" "1 \<le> vl_active l"
  using assms by (auto simp: limits_ok_def mk_viewing_limits_def split: if_splits)

lemma update_open_ok:
  assumes ok: "viewer_ok l v"
    and f: "\<And>x. execution_ok l x \<Longrightarrow> ex_finished x = None \<Longrightarrow> execution_ok l (f x) \<and> ex_id (f x) = ex_id x"
  shows "viewer_ok l (update_open i f v)"
proof (cases "dict_get (vw_items v) i")
  case (Some x)
  show ?thesis
  proof (cases "ex_finished x = None")
    case True
    have mem: "(i, x) \<in> set (vw_items v)" using Some by (rule dict_get_mem)
    then have "execution_ok l (f x)" "ex_id (f x) = i" using ok f[of x] True by (auto simp: viewer_ok_def)
    then have "\<forall>(j, y) \<in> set (dict_set i (f x) (vw_items v)). ex_id y = j \<and> execution_ok l y"
      using ok set_dict_set[of i "f x" "vw_items v"] by (auto simp: viewer_ok_def)
    then show ?thesis
      using ok Some True active_dict_set_open[OF Some True, of "f x"]
      by (auto simp: viewer_ok_def update_open_def distinct_dict_set dict_set_length_same)
  qed (use ok Some in \<open>simp add: update_open_def\<close>)
qed (use ok in \<open>simp add: update_open_def\<close>)

lemma expire_ok:
  assumes "viewer_ok l v"
  shows "viewer_ok l (expire_viewer l now v)"
proof -
  let ?f = "filter (\<lambda>p. \<not> outlived l now (snd p))"
  have "int (length (?f (vw_items v))) \<le> vl_executions l"
    using assms by (intro order_trans[OF _ conjunct1[OF conjunct2[OF assms[unfolded viewer_ok_def]]]]) simp
  moreover have "active_count (?f (vw_items v)) \<le> vl_active l"
    using assms active_filter[of "\<lambda>p. \<not> outlived l now (snd p)" "vw_items v"] by (simp add: viewer_ok_def)
  ultimately show ?thesis
    using assms by (auto simp: viewer_ok_def expire_viewer_def expire_items_def distinct_map_filter)
qed

section \<open>Room for a new execution\<close>

lemma drop_oldest_Some:
  assumes "drop_oldest items = Some rest"
  shows "set rest \<subseteq> set items" "active_count rest = active_count items"
    "distinct (dict_keys items) \<Longrightarrow> distinct (dict_keys rest)"
proof -
  have "set rest \<subseteq> set items \<and> active_count rest = active_count items \<and>
    (distinct (dict_keys items) \<longrightarrow> distinct (dict_keys rest))"
    using assms
  proof (induction items arbitrary: rest)
    case (Cons p items)
    then show ?case by (fastforce simp: active_count_def split: if_splits option.splits)
  qed simp
  then show "set rest \<subseteq> set items" "active_count rest = active_count items"
    "distinct (dict_keys items) \<Longrightarrow> distinct (dict_keys rest)"
    by blast+
qed

lemma make_room_Inr:
  "make_room m items = Inr rest \<Longrightarrow> int (length rest) < m \<and> set rest \<subseteq> set items \<and>
     active_count rest = active_count items \<and> (distinct (dict_keys items) \<longrightarrow> distinct (dict_keys rest))"
proof (induction m items rule: make_room.induct)
  case (1 m items)
  show ?case
  proof (cases "int (length items) < m")
    case True
    then show ?thesis using "1.prems" by (simp add: make_room.simps)
  next
    case False
    then obtain less where drop: "drop_oldest items = Some less" and rest: "make_room m less = Inr rest"
      using "1.prems" by (subst (asm) make_room.simps) (auto split: option.splits)
    from "1.IH"[OF False drop rest] drop_oldest_Some[OF drop] show ?thesis by auto
  qed
qed

lemma start_ok:
  assumes limits: "limits_ok l" and ok: "viewer_ok l v"
  shows "viewer_ok l (snd (start_view l digest now mode i token v))"
proof -
  let ?v = "expire_viewer l now v" and ?x = "new_execution i mode (digest token)"
  have old: "viewer_ok l ?v" by (rule expire_ok[OF ok])
  show ?thesis
  proof (cases "vw_closed ?v \<or> vl_active l \<le> active_count (vw_items ?v)")
    case True
    then show ?thesis using old by (auto simp: start_view_def Let_def)
  next
    case False
    show ?thesis
    proof (cases "make_room (vl_executions l) (vw_items ?v)")
      case (Inl e)
      then show ?thesis using False old by (simp add: start_view_def Let_def)
    next
      case (Inr items)
      have x: "execution_ok l ?x" "ex_id ?x = i"
        using limits_positive[OF limits]
        by (simp_all add: execution_ok_def new_execution_def frames_size_def frame_maximum_def)
      have "\<forall>(j, y) \<in> set (dict_set i ?x items). ex_id y = j \<and> execution_ok l y"
        using make_room_Inr[OF Inr] old x set_dict_set[of i ?x items] by (auto simp: viewer_ok_def)
      then show ?thesis
        using make_room_Inr[OF Inr] old False Inr active_dict_set[of i ?x items] dict_set_length[of i ?x items]
        by (simp add: start_view_def Let_def viewer_ok_def distinct_dict_set)
    qed
  qed
qed

section \<open>Frames, events and results\<close>

lemma trim_frames_spec:
  assumes "trim_frames n b fs held evicted = (fs', held', evicted')" "held = frames_size fs" "1 \<le> n"
    "fs \<noteq> []" "int (length (snd (last fs))) \<le> b"
  shows "fs' \<noteq> [] \<and> int (length fs') \<le> n \<and> held' = frames_size fs' \<and> held' \<le> b \<and>
    fs' = drop (length fs - length fs') fs \<and> length fs' \<le> length fs \<and>
    evicted' + int (length fs') = evicted + int (length fs)"
  using assms
proof (induction fs arbitrary: held evicted)
  case (Cons f fs)
  show ?case
  proof (cases "n < int (length (f # fs)) \<or> b < held")
    case True
    have "fs \<noteq> []"
    proof
      assume "fs = []"
      then show False using True Cons.prems by (auto simp: frames_size_def)
    qed
    moreover have "trim_frames n b fs (held - int (length (snd f))) (evicted + 1) = (fs', held', evicted')"
      using True Cons.prems(1) by simp
    moreover have "held - int (length (snd f)) = frames_size fs" using Cons.prems(2) by (simp add: frames_size_def)
    ultimately have "fs' \<noteq> [] \<and> int (length fs') \<le> n \<and> held' = frames_size fs' \<and> held' \<le> b \<and>
        fs' = drop (length fs - length fs') fs \<and> length fs' \<le> length fs \<and>
        evicted' + int (length fs') = evicted + 1 + int (length fs)"
      using Cons.IH[of "held - int (length (snd f))" "evicted + 1"] Cons.prems(3,5) by simp
    then show ?thesis by (auto simp: Suc_diff_le)
  next
    case False
    then have "fs' = f # fs" "held' = held" "evicted' = evicted" using Cons.prems(1) by auto
    then show ?thesis using False Cons.prems by simp
  qed
qed simp

lemma drop_upto: "drop n [i..j] = [i + int n..(j :: int)]"
proof (induction n arbitrary: i)
  case (Suc n)
  show ?case
  proof (cases "i \<le> j")
    case True
    then show ?thesis using Suc[of "i + 1"] by (subst upto_rec1) (simp_all add: algebra_simps)
  qed simp
qed simp

lemma snoc_upto: "i \<le> j + 1 \<Longrightarrow> [i..j] @ [j + 1] = [i..(j :: int) + 1]"
  by (simp add: upto_rec2)

lemma upto_suffix:
  assumes "map f xs = [n - int (length xs) + 1..n]" "ys = drop (length xs - length ys) xs" "length ys \<le> length xs"
  shows "map f ys = [n - int (length ys) + 1..(n :: int)]"
proof -
  have "map f ys = drop (length xs - length ys) (map f xs)" by (subst assms(2)) (simp add: drop_map)
  also have "\<dots> = [n - int (length xs) + 1 + int (length xs - length ys)..n]" by (simp add: assms(1) drop_upto)
  also have "n - int (length xs) + 1 + int (length xs - length ys) = n - int (length ys) + 1"
    using assms(3) by (simp add: of_nat_diff)
  finally show ?thesis .
qed

lemma add_frame_ok:
  assumes limits: "limits_ok l" and ok: "execution_ok l x" and frame: "frame_ok l (entry, sf_content frame)"
  shows "execution_ok l (add_frame l feed frame captured x) \<and> ex_id (add_frame l feed frame captured x) = ex_id x"
proof (cases "same_as_last x feed (sf_content frame)")
  case False
  define number where "number = ex_sequence x + 1"
  define e where "e = \<lparr>fe_sequence = number, fe_run = rf_run feed, fe_phase = rf_phase feed, fe_captured = captured,
     fe_width = vp_width (sf_viewport frame), fe_height = vp_height (sf_viewport frame),
     fe_event_sequence = ex_event_sequence x\<rparr>"
  define fs where "fs = ex_frames x @ [(e, sf_content frame)]"
  obtain fs' held evicted where trim: "trim_frames (frame_maximum l x) (vl_bytes l) fs
      (ex_bytes x + int (length (sf_content frame))) (ex_evicted x) = (fs', held, evicted)"
    by (metis prod_cases3)
  have run: "add_frame l feed frame captured x =
      x\<lparr>ex_sequence := number, ex_frames := fs', ex_bytes := held, ex_evicted := evicted\<rparr>"
    using False trim unfolding add_frame_def Let_def e_def[symmetric] number_def[symmetric] fs_def[symmetric]
    by simp
  have old: "int (length (ex_frames x)) \<le> frame_maximum l x" "ex_bytes x = frames_size (ex_frames x)"
    "list_all (frame_ok l) (ex_frames x)" "ex_sequence x = ex_evicted x + int (length (ex_frames x))"
    "map (\<lambda>f. fe_sequence (fst f)) (ex_frames x) = [ex_sequence x - int (length (ex_frames x)) + 1..ex_sequence x]"
    using ok by (simp_all add: execution_ok_def)
  have spec: "fs' \<noteq> [] \<and> int (length fs') \<le> frame_maximum l x \<and> held = frames_size fs' \<and> held \<le> vl_bytes l \<and>
    fs' = drop (length fs - length fs') fs \<and> length fs' \<le> length fs \<and>
    evicted + int (length fs') = ex_evicted x + int (length fs)"
    by (rule trim_frames_spec[OF trim])
      (use old frame limits_positive[OF limits] in \<open>auto simp: fs_def frames_size_def frame_maximum_def frame_ok_def\<close>)
  have "list_all (frame_ok l) fs" using old(3) frame by (simp add: fs_def frame_ok_def)
  then have good: "list_all (frame_ok l) fs'" using spec by (metis list_all_append append_take_drop_id)
  have "map (\<lambda>f. fe_sequence (fst f)) fs = [number - int (length fs) + 1..number]"
    using old(5) snoc_upto[of "ex_sequence x - int (length (ex_frames x)) + 1" "ex_sequence x"]
    by (simp add: fs_def e_def number_def)
  then have "map (\<lambda>f. fe_sequence (fst f)) fs' = [number - int (length fs') + 1..number]"
    by (rule upto_suffix) (use spec in blast)+
  moreover have "number = evicted + int (length fs')" using spec old(4) by (simp add: number_def fs_def)
  ultimately show ?thesis
    using ok spec good by (simp add: run execution_ok_def frame_maximum_def)
qed (use ok in \<open>simp add: add_frame_def\<close>)

lemma event_number_set: "event_number (dict_set ''phase'' p (dict_set ''run_id'' r (dict_set ''sequence'' (JInt n) e))) = n"
  by (simp add: event_number_def)

lemma add_event_ok:
  assumes limits: "limits_ok l" and ok: "execution_ok l x"
  shows "execution_ok l (add_event l feed e x) \<and> ex_id (add_event l feed e x) = ex_id x"
proof -
  define number where "number = ex_event_sequence x + 1"
  define es where "es = ex_events x @ [dict_set ''phase'' (JStr (rf_phase feed))
            (dict_set ''run_id'' (JStr (rf_run feed)) (dict_set ''sequence'' (JInt number) e))]"
  define es' where "es' = drop (length es - nat (vl_events l)) es"
  have run: "add_event l feed e x = x\<lparr>ex_event_sequence := number, ex_events := es'\<rparr>"
    unfolding add_event_def Let_def number_def[symmetric] es_def[symmetric] es'_def[symmetric] by simp
  have "map event_number es = [number - int (length es) + 1..number]"
    using ok snoc_upto[of "ex_event_sequence x - int (length (ex_events x)) + 1" "ex_event_sequence x"]
    by (simp add: es_def number_def event_number_set execution_ok_def)
  then have "map event_number es' = [number - int (length es') + 1..number]"
    by (rule upto_suffix) (simp_all add: es'_def)
  moreover have "int (length es') \<le> vl_events l" using limits_positive[OF limits] by (simp add: es'_def)
  ultimately show ?thesis using ok by (simp add: run execution_ok_def frame_maximum_def)
qed

lemma settle_cases:
  obtains (paused) "settle_view now r x = x\<lparr>ex_state := VIEW_PAUSED, ex_result := Some r\<rparr>"
  | (ended) st m where "settle_view now r x = x\<lparr>ex_state := st, ex_finished := Some now, ex_result := Some m\<rparr>"
      "st \<in> {VIEW_SUCCESS, VIEW_FAILURE, VIEW_OUTCOME, VIEW_TERMINATED}"
proof (cases "\<exists>s. dict_get r ''status'' = Some (JStr s)")
  case True
  then obtain s where s: "dict_get r ''status'' = Some (JStr s)" by blast
  show ?thesis
  proof (cases "s = ''intervention_required''")
    case True
    then show ?thesis using paused s by (simp add: settle_view_def)
  next
    case False
    then show ?thesis
      using ended s by (cases "final_state s") (auto simp: settle_view_def final_state_def split: if_splits)
  qed
next
  case False
  then have "settle_view now r x = x\<lparr>ex_state := VIEW_FAILURE, ex_finished := Some now, ex_result := Some invalid_result\<rparr>"
    by (auto simp: settle_view_def split: option.split json.split)
  then show ?thesis using ended by blast
qed

lemma settle_ok:
  assumes "execution_ok l x" "ex_finished x = None"
  shows "execution_ok l (settle_view now r x) \<and> ex_id (settle_view now r x) = ex_id x"
  by (cases rule: settle_cases[of now r x]) (use assms in \<open>auto simp: execution_ok_def frame_maximum_def\<close>)

lemma finish_ok: "viewer_ok l v \<Longrightarrow> viewer_ok l (snd (finish_view now i r v))"
  by (simp add: finish_view_def update_open_ok settle_ok)

lemma bind_ok:
  assumes ok: "viewer_ok l v"
  shows "viewer_ok l (snd (bind_view i run v))"
proof (cases "dict_get (vw_items v) i")
  case (Some x)
  let ?y = "x\<lparr>ex_run_ids := ex_run_ids x @ [run]\<rparr>"
  have "ex_id ?y = i" "execution_ok l ?y"
    using ok dict_get_mem[OF Some] by (auto simp: viewer_ok_def execution_ok_def frame_maximum_def)
  then have all: "\<forall>(j, y) \<in> set (dict_set i ?y (vw_items v)). ex_id y = j \<and> execution_ok l y"
    using ok set_dict_set[of i ?y "vw_items v"] by (auto simp: viewer_ok_def)
  have "active_count (dict_set i ?y (vw_items v)) = active_count (vw_items v)"
    by (rule active_dict_set_same[OF Some]) simp
  then show ?thesis
    using ok Some all by (auto simp: bind_view_def viewer_ok_def distinct_dict_set dict_set_length_same)
qed (use ok in \<open>simp add: bind_view_def\<close>)

lemma view_step_ok:
  assumes limits: "limits_ok l" and ok: "viewer_ok l v"
  shows "viewer_ok l (view_step l digest c v)"
proof -
  obtain now call where c: "c = (now, call)" by (cases c)
  have frame: "viewer_ok l (publish_frame l feed frame captured v)" for feed frame captured
  proof (cases "starts_with png_signature (sf_content frame) \<and>
      int (length (sf_content frame)) \<le> min (vl_frame_bytes l) (vl_bytes l)")
    case True
    then have fits: "frame_ok l (entry, sf_content frame)" for entry by (simp add: frame_ok_def)
    have "viewer_ok l (update_open (rf_execution feed) (add_frame l feed frame captured) v)"
      by (rule update_open_ok[OF ok], rule add_frame_ok[OF limits _ fits])
    moreover have "publish_frame l feed frame captured v =
        update_open (rf_execution feed) (add_frame l feed frame captured) v"
      unfolding publish_frame_def by (subst if_not_P) (use True in \<open>auto simp: min_less_iff_disj\<close>)
    ultimately show ?thesis by simp
  next
    case False
    then have "publish_frame l feed frame captured v = v" by (auto simp: publish_frame_def)
    then show ?thesis using ok by simp
  qed
  have result: "viewer_ok l (snd (run_result_view now feed r v))" for feed r
    using ok finish_ok[OF ok] by (simp add: run_result_view_def)
  have rest: "viewer_ok l (phase_view i name v)" "viewer_ok l (publish_event l feed e v)" "viewer_ok l (resume_view feed v)"
    for i name feed e
    unfolding phase_view_def publish_event_def resume_view_def
    by (rule update_open_ok[OF ok]; simp add: add_event_ok[OF limits]; simp add: execution_ok_def frame_maximum_def)+
  have reads: "viewer_ok l (snd (snapshot_view l digest now i token after v))"
    "viewer_ok l (snd (frame_view l digest now i token number v))" for i token after number
    using expire_ok[OF ok]
    by (auto simp: snapshot_view_def frame_view_def split: sum.splits option.splits)
  show ?thesis
    using ok frame result rest reads finish_ok[OF ok] bind_ok[OF ok] start_ok[OF limits ok] expire_ok[OF ok]
    by (cases call) (simp_all add: view_step_def c execute_view_def begin_close_def end_close_def viewer_ok_def
        active_count_def)
qed

lemma view_run_ok:
  assumes "limits_ok l" "viewer_ok l v"
  shows "viewer_ok l (view_run l digest calls v)"
  using assms(2) unfolding view_run_def
  by (induction calls arbitrary: v) (simp_all add: view_step_ok[OF assms(1)])

lemma empty_viewer_ok: "limits_ok l \<Longrightarrow> viewer_ok l empty_viewer"
  using limits_positive[of l] by (simp add: viewer_ok_def empty_viewer_def active_count_def)

section \<open>Properties of every execution that is kept\<close>

definition items_ok :: "(string \<Rightarrow> execution \<Rightarrow> bool) \<Rightarrow> viewer \<Rightarrow> bool" where
  "items_ok Q v = (\<forall>(i, x) \<in> set (vw_items v). Q i x)"

definition kept_by :: "(string \<Rightarrow> execution \<Rightarrow> bool) \<Rightarrow> int \<Rightarrow> bool" where
  "kept_by Q now =
     (\<forall>i x y. Q i x \<longrightarrow> ex_token_hash y = ex_token_hash x \<longrightarrow> ex_finished y \<in> {ex_finished x, Some now} \<longrightarrow> Q i y)"

lemma update_open_items:
  assumes "kept_by Q now" "items_ok Q v"
    and "\<And>x. ex_token_hash (f x) = ex_token_hash x \<and> ex_finished (f x) \<in> {ex_finished x, Some now}"
  shows "items_ok Q (update_open i f v)"
proof (cases "dict_get (vw_items v) i")
  case (Some x)
  then have "Q i x" using assms(2) dict_get_mem[OF Some] by (auto simp: items_ok_def)
  then have "Q i (f x)" using assms(1,3) unfolding kept_by_def by blast
  then show ?thesis
    using Some assms(2) set_dict_set[of i "f x" "vw_items v"] by (auto simp: items_ok_def update_open_def)
qed (use assms in \<open>simp add: update_open_def\<close>)

lemma expire_items_ok: "items_ok Q v \<Longrightarrow> items_ok Q (expire_viewer l now v)"
  by (auto simp: items_ok_def expire_viewer_def expire_items_def)

lemma add_frame_fixed:
  "ex_token_hash (add_frame l feed frame captured x) = ex_token_hash x"
  "ex_finished (add_frame l feed frame captured x) = ex_finished x"
  by (simp_all add: add_frame_def Let_def split: prod.splits)

lemma add_event_fixed:
  "ex_token_hash (add_event l feed e x) = ex_token_hash x" "ex_finished (add_event l feed e x) = ex_finished x"
  by (simp_all add: add_event_def Let_def)

lemma settle_fixed: "ex_token_hash (settle_view now r x) = ex_token_hash x \<and> ex_finished (settle_view now r x) \<in> {ex_finished x, Some now}"
  by (cases rule: settle_cases[of now r x]) auto

lemma start_items:
  assumes "items_ok Q v" "Q i (new_execution i mode (digest token))"
  shows "items_ok Q (snd (start_view l digest now mode i token v))"
proof -
  let ?v = "expire_viewer l now v"
  have old: "items_ok Q ?v" by (rule expire_items_ok[OF assms(1)])
  have "items_ok Q (?v\<lparr>vw_items := dict_set i (new_execution i mode (digest token)) items\<rparr>)"
    if "make_room (vl_executions l) (vw_items ?v) = Inr items" for items
    using make_room_Inr[OF that] old assms(2) set_dict_set[of i "new_execution i mode (digest token)" items]
    by (auto simp: items_ok_def)
  then show ?thesis using old by (simp add: start_view_def Let_def split: sum.split)
qed

lemma view_step_items:
  assumes kept: "kept_by Q (fst c)" and ok: "items_ok Q v"
    and new: "\<And>mode i token. snd c = StartView mode i token \<Longrightarrow> Q i (new_execution i mode (digest token))"
  shows "items_ok Q (view_step l digest c v)"
proof -
  obtain now call where c: "c = (now, call)" by (cases c)
  note opened = update_open_items[OF kept[unfolded c fst_conv] ok]
  have frame: "items_ok Q (publish_frame l feed frame captured v)" for feed frame captured
    unfolding publish_frame_def using ok by (auto simp: add_frame_fixed intro!: opened)
  have finish: "items_ok Q (snd (finish_view now i r v))" for i r
    unfolding finish_view_def using ok opened settle_fixed by auto
  then have result: "items_ok Q (snd (run_result_view now feed r v))" for feed r
    using ok by (simp add: run_result_view_def)
  have rest: "items_ok Q (phase_view i name v)" "items_ok Q (publish_event l feed e v)" "items_ok Q (resume_view feed v)"
    for i name feed e
    unfolding phase_view_def publish_event_def resume_view_def by (rule opened; simp add: add_event_fixed)+
  have binding: "items_ok Q (snd (bind_view i run v))" for i run
  proof (cases "dict_get (vw_items v) i")
    case (Some x)
    let ?y = "x\<lparr>ex_run_ids := ex_run_ids x @ [run]\<rparr>"
    have "Q i x" using ok dict_get_mem[OF Some] by (auto simp: items_ok_def)
    moreover have "ex_token_hash ?y = ex_token_hash x" "ex_finished ?y = ex_finished x" by simp_all
    ultimately have "Q i ?y" using kept unfolding kept_by_def c by blast
    then show ?thesis
      using Some ok set_dict_set[of i ?y "vw_items v"] by (auto simp: bind_view_def items_ok_def)
  qed (use ok in \<open>simp add: bind_view_def\<close>)
  have reads: "items_ok Q (snd (snapshot_view l digest now i token after v))"
    "items_ok Q (snd (frame_view l digest now i token number v))" for i token after number
    using expire_items_ok[OF ok]
    by (auto simp: snapshot_view_def frame_view_def split: sum.splits option.splits)
  have start: "items_ok Q (snd (start_view l digest now mode i token v))" if "call = StartView mode i token" for mode i token
  proof (rule start_items[OF ok])
    show "Q i (new_execution i mode (digest token))" by (rule new) (simp add: c that)
  qed
  show ?thesis
    using ok frame result rest reads finish binding start expire_items_ok[OF ok]
    by (cases call) (simp_all add: view_step_def c execute_view_def begin_close_def end_close_def items_ok_def)
qed

lemma view_run_items:
  assumes "\<And>c. c \<in> set calls \<Longrightarrow> kept_by Q (fst c)" and "items_ok Q v"
    and "\<And>now mode i token. (now, StartView mode i token) \<in> set calls \<Longrightarrow> Q i (new_execution i mode (digest token))"
  shows "items_ok Q (view_run l digest calls v)"
  using assms unfolding view_run_def
proof (induction calls arbitrary: v)
  case (Cons c calls)
  have "items_ok Q (view_step l digest c v)"
  proof (rule view_step_items)
    fix mode i token
    assume "snd c = StartView mode i token"
    then have "(fst c, StartView mode i token) \<in> set (c # calls)" by (cases c) simp
    then show "Q i (new_execution i mode (digest token))" by (rule Cons.prems(3))
  qed (use Cons.prems in simp_all)
  then have "items_ok Q (fold (view_step l digest) calls (view_step l digest c v))"
  proof (rule Cons.IH[rotated])
    show "Q i (new_execution i mode (digest token))" if "(now, StartView mode i token) \<in> set calls" for now mode i token
      by (rule Cons.prems(3)[of now]) (use that in simp)
  qed (use Cons.prems(1) in auto)
  then show ?case by simp
qed simp

lemma make_room_finds:
  assumes "\<forall>(i, x) \<in> set items. ex_finished x \<noteq> Some 0" "active_count items < m"
  shows "\<exists>rest. make_room m items = Inr rest"
  using assms
proof (induction m items rule: make_room.induct)
  case (1 m items)
  show ?case
  proof (cases "int (length items) < m")
    case True
    then show ?thesis by (simp add: make_room.simps)
  next
    case False
    have "drop_oldest items \<noteq> None \<or> active_count items = int (length items)"
      using "1.prems"(1) by (induction items) (auto simp: active_count_def split: option.splits)
    then obtain rest where rest: "drop_oldest items = Some rest" using False "1.prems"(2) by auto
    have "\<forall>(i, x) \<in> set rest. ex_finished x \<noteq> Some 0" "active_count rest < m"
      using drop_oldest_Some(1,2)[OF rest] "1.prems" by auto
    then have "\<exists>less. make_room m rest = Inr less" by (rule "1.IH"[OF False rest])
    then show ?thesis using False rest by (subst make_room.simps) simp
  qed
qed

text \<open>What goes to make room is finished, the oldest first, and no more than is too many.\<close>

definition still_active :: "string \<times> execution \<Rightarrow> bool" where
  "still_active p \<longleftrightarrow> ex_finished (snd p) = None"

lemma drop_oldest_finished:
  assumes "drop_oldest items = Some rest" and "\<forall>(i, x) \<in> set items. ex_finished x \<noteq> Some 0"
  shows "subseq rest items \<and>
    filter still_active rest = filter still_active items \<and>
    filter (Not \<circ> still_active) rest =
      tl (filter (Not \<circ> still_active) items)"
  using assms
proof (induction items arbitrary: rest)
  case (Cons p items)
  show ?case
  proof (cases "ex_finished (snd p) = None")
    case True
    then obtain less where less: "drop_oldest items = Some less" "rest = p # less"
      using Cons.prems(1) by (auto split: option.splits)
    then show ?thesis using Cons.IH[OF less(1)] Cons.prems(2) True by (simp add: still_active_def)
  next
    case False
    then have "rest = items" using Cons.prems by (cases p) auto
    then show ?thesis using False by (simp add: list_emb_Cons still_active_def)
  qed
qed simp

lemma make_room_oldest:
  assumes "make_room m items = Inr rest" and "\<forall>(i, x) \<in> set items. ex_finished x \<noteq> Some 0"
  shows "subseq rest items \<and>
    filter still_active rest = filter still_active items \<and>
    filter (Not \<circ> still_active) rest =
      drop (nat (int (length items) + 1 - m)) (filter (Not \<circ> still_active) items)"
  using assms
proof (induction m items rule: make_room.induct)
  case (1 m items)
  show ?case
  proof (cases "int (length items) < m")
    case True
    then show ?thesis using "1.prems"(1) by (simp add: make_room.simps)
  next
    case False
    then obtain less where drop: "drop_oldest items = Some less" and rest: "make_room m less = Inr rest"
      using "1.prems"(1) by (subst (asm) make_room.simps) (auto split: option.splits)
    have late: "\<forall>(i, x) \<in> set less. ex_finished x \<noteq> Some 0"
      using drop_oldest_Some(1)[OF drop] "1.prems"(2) by auto
    have "nat (int (length items) + 1 - m) = Suc (nat (int (length less) + 1 - m))"
      using False drop_oldest_length[OF drop] by simp
    then show ?thesis
      using "1.IH"[OF False drop rest late] drop_oldest_finished[OF drop "1.prems"(2)]
      by (auto simp: drop_Suc comp_def intro: subseq_order.trans)
  qed
qed

section \<open>Properties\<close>

text \<open>
  C38. Whatever is called on a viewer, and in whatever order, it stays within its limits: as many
  executions, active ones, frames, bytes and events as allowed, every frame a bounded PNG image, frames
  and events numbered without a gap up to the counters, and an execution finished exactly when its state
  says so.
\<close>

theorem viewer_stays_bounded:
  assumes "limits_ok l"
  shows "viewer_ok l (view_run l digest calls empty_viewer)"
  by (rule view_run_ok[OF assms empty_viewer_ok[OF assms]])

lemma default_limits_ok: "limits_ok default_limits"
  by code_simp

theorem viewer_stays_bounded_witness:
  "viewer_ok default_limits
     (view_run default_limits (\<lambda>s. s) [(5 :: int, StartView VIEW_REPLAY ''e'' ''t''), (6, PhaseView ''e'' ''replay'')]
        empty_viewer)"
  by (rule viewer_stays_bounded[OF default_limits_ok])

text \<open>
  C39. What a viewer shows of an execution, a snapshot or a frame, it shows for a token with the digest
  of one that was issued when that execution was started.
\<close>

theorem views_need_their_token:
  assumes "fst (snapshot_view l digest now i token after (view_run l digest calls empty_viewer)) = Inr j \<or>
    fst (frame_view l digest now i token number (view_run l digest calls empty_viewer)) = Inr data"
  shows "\<exists>t mode issued. (t, StartView mode i issued) \<in> set calls \<and> digest token = digest issued"
proof -
  define Q where "Q k x = (\<exists>t mode issued. (t, StartView mode k issued) \<in> set calls \<and>
    ex_token_hash x = digest issued)" for k and x :: execution
  let ?v = "view_run l digest calls empty_viewer"
  have "items_ok Q ?v"
    by (rule view_run_items) (auto simp: kept_by_def Q_def items_ok_def empty_viewer_def new_execution_def)
  then have all: "items_ok Q (expire_viewer l now ?v)" by (rule expire_items_ok)
  obtain x where "authorize_view l digest now i token ?v = Inr x"
    using assms by (auto simp: snapshot_view_def frame_view_def split: sum.splits)
  then have "dict_get (vw_items (expire_viewer l now ?v)) i = Some x" "ex_token_hash x = digest token"
    by (auto simp: authorize_view_def expire_viewer_def split: option.splits if_splits)
  then show ?thesis using all dict_get_mem unfolding items_ok_def Q_def by fastforce
qed

theorem views_need_their_token_witness:
  "\<exists>t mode issued. (t, StartView mode ''e'' issued) \<in> set [(5 :: int, StartView VIEW_REPLAY ''e'' ''t'')] \<and> ''t'' = issued"
proof -
  have "fst (snapshot_view default_limits (\<lambda>s. s) 6 ''e'' ''t'' 0
      (view_run default_limits (\<lambda>s. s) [(5 :: int, StartView VIEW_REPLAY ''e'' ''t'')] empty_viewer)) =
    Inr (view_json default_limits 0 (new_execution ''e'' VIEW_REPLAY ''t''))"
    by code_simp
  from views_need_their_token[OF disjI1[OF this]] show ?thesis by blast
qed

text \<open>
  C40. A new execution is refused, with the executions left as they are, only when the viewer is closed or
  full of active executions. Otherwise it is stored under its id, and to make room only as many executions
  go as are too many, finished ones and the oldest of them first: every active execution stays as it is, the
  other finished ones too, in their order.
\<close>

theorem start_finds_room:
  assumes "limits_ok l" and "list_all (\<lambda>c. 0 < fst c) calls"
  shows "let v = expire_viewer l now (view_run l digest calls empty_viewer);
      items = vw_items v;
      outcome = start_view l digest now mode i token (view_run l digest calls empty_viewer)
    in if vw_closed v then outcome = (Inl (ViewingError ''viewer_unavailable'' 503), v)
       else if vl_active l \<le> active_count items
       then outcome = (Inl (ViewingError ''execution_capacity_reached'' 429), v)
       else fst outcome = Inr (i, token) \<and>
         (\<exists>rest. vw_items (snd outcome) = dict_set i (new_execution i mode (digest token)) rest \<and>
            subseq rest items \<and> filter still_active rest = filter still_active items \<and>
            filter (Not \<circ> still_active) rest =
              drop (nat (int (length items) + 1 - vl_executions l)) (filter (Not \<circ> still_active) items))"
proof -
  let ?v = "view_run l digest calls empty_viewer" and ?Q = "\<lambda>(k :: string) (x :: execution). ex_finished x \<noteq> Some 0"
  let ?items = "expire_items l now (vw_items ?v)"
  have "items_ok ?Q ?v"
    by (rule view_run_items)
      (use assms(2) in \<open>auto simp: kept_by_def items_ok_def empty_viewer_def new_execution_def list_all_iff\<close>)
  then have "items_ok ?Q (expire_viewer l now ?v)" by (rule expire_items_ok)
  then have late: "\<forall>(k, x) \<in> set ?items. ex_finished x \<noteq> Some 0" by (simp add: items_ok_def expire_viewer_def)
  show ?thesis
  proof (cases "vw_closed ?v \<or> vl_active l \<le> active_count ?items")
    case True
    then show ?thesis by (auto simp: start_view_def Let_def expire_viewer_def)
  next
    case False
    then obtain rest where room: "make_room (vl_executions l) ?items = Inr rest"
      using make_room_finds[OF late, of "vl_executions l"] limits_positive(4)[OF assms(1)] by auto
    have new: "vw_items (snd (start_view l digest now mode i token ?v)) = dict_set i (new_execution i mode (digest token)) rest"
      "fst (start_view l digest now mode i token ?v) = Inr (i, token)"
      using False room by (simp_all add: start_view_def Let_def expire_viewer_def)
    have "\<exists>r. dict_set i (new_execution i mode (digest token)) rest = dict_set i (new_execution i mode (digest token)) r \<and>
        subseq r ?items \<and> filter still_active r = filter still_active ?items \<and>
        filter (Not \<circ> still_active) r =
          drop (nat (int (length ?items) + 1 - vl_executions l)) (filter (Not \<circ> still_active) ?items)"
      using make_room_oldest[OF room late] by blast
    then show ?thesis using False new by (simp add: Let_def expire_viewer_def)
  qed
qed

theorem start_finds_room_witness:
  "vw_items (snd (start_view (default_limits\<lparr>vl_executions := 1\<rparr>) (\<lambda>s. s) 9 VIEW_REPLAY ''f'' ''u''
     (view_run (default_limits\<lparr>vl_executions := 1\<rparr>) (\<lambda>s. s)
        [(5 :: int, StartView VIEW_REPLAY ''e'' ''t''), (6, ExecuteView ''e'' (Inr []))] empty_viewer)))
   = [(''f'', new_execution ''f'' VIEW_REPLAY ''u'')]"
proof -
  let ?l = "default_limits\<lparr>vl_executions := 1\<rparr>"
  let ?calls = "[(5 :: int, StartView VIEW_REPLAY ''e'' ''t''), (6, ExecuteView ''e'' (Inr []))]"
  let ?v = "expire_viewer ?l 9 (view_run ?l (\<lambda>s. s) ?calls empty_viewer)"
  have late: "list_all (\<lambda>c. 0 < fst c) ?calls" by simp
  have limits: "limits_ok ?l" by code_simp
  have state: "\<not> vw_closed ?v" "\<not> vl_active ?l \<le> active_count (vw_items ?v)" "length (vw_items ?v) = 1"
    "filter still_active (vw_items ?v) = []"
    "drop (Suc 0) (filter (Not \<circ> still_active) (vw_items ?v)) = []" "vl_executions ?l = 1"
    by code_simp+
  obtain rest where rest: "filter still_active rest = []"
      "filter (Not \<circ> still_active) rest = []"
    and items: "vw_items (snd (start_view ?l (\<lambda>s. s) 9 VIEW_REPLAY ''f'' ''u'' (view_run ?l (\<lambda>s. s) ?calls empty_viewer)))
      = dict_set ''f'' (new_execution ''f'' VIEW_REPLAY ''u'') rest"
    using start_finds_room[OF limits late, of 9 "\<lambda>s. s" VIEW_REPLAY "''f''" "''u''"] state
    by (auto simp: Let_def)
  have "rest = []" using rest by (cases rest) (auto split: if_splits)
  then show ?thesis using items by simp
qed

end
