(* ===== verification/Spec2Isabelle.thy ===== *)
theory Spec2Isabelle
  imports HandoffGuarantees PolicyGuarantees ArtifactGuarantees ValuesGuarantees Targeting ReplayGuarantees JournalGuarantees
    ApplicationGuarantees ControlGuarantees RuntimePolicy CompilerGuarantees RegistryGuarantees DiscoveryOutcome SuiteGuarantees
    VisionGuarantees ViewingGuarantees
begin

text \<open>
  A verification development of Replay Forge, the Python program under
  \<^verbatim>\<open>src/backend/src/replayforge\<close> (paths below are relative to it). The program learns how to
  operate a web application and then repeats it without a model. A \<^emph>\<open>discovery\<close> lets a language
  model propose actions on a live session, performs those the policy allows, and compiles the
  recorded trace into a \<^emph>\<open>capability artifact\<close>: typed inputs and outputs, steps with targets and
  conditions, recoveries, business outcomes and a checkpoint. A \<^emph>\<open>replay\<close> executes an artifact. When
  either is stuck, an \<^emph>\<open>intervention\<close> hands control of the session to a human operator and back,
  under \<^emph>\<open>control leases\<close>. A \<^emph>\<open>journal\<close> keeps redacted evidence of what happened, and a
  \<^emph>\<open>registry\<close> keeps the published versions of artifacts.

  \<^bold>\<open>How the code is translated.\<close> A dataclass or model is a record, a tagged union or an enumeration
  a datatype, a dictionary a list of entries in insertion order, and a string a list of 8-bit
  characters. Validators (\<open>__post_init__\<close>, Pydantic) are functions to a result, \<open>Inl\<close> of an
  exception or \<open>Inr\<close> of the value, with the checks in the order of the code; the constructors of the
  program are the functions \<open>mk_\<dots>\<close>. Code with state is a computation of the theory Monads: a map from a state
  to a result and the state it leaves, also where it raises. Times are in microseconds. The proofs go
  through such code by the rules of \<open>triple\<close>, collected under named theorems, and each long program
  is walked once, inside a locale, for every invariant: \<open>quiet_run\<close> and \<open>step_run\<close> for replays,
  \<open>discovery_run\<close> and its extensions for discoveries, \<open>transition_store\<close> for the coordinator,
  and the locales of the journal, the control service and the registry for theirs.

  \<^bold>\<open>Parts, theories and sources.\<close>
  \<^item> Prelude, Monads, Ids, Urls: exceptions, results, strings, recognisers for the fixed regular
    expressions, computations, identifiers and instants (\<^verbatim>\<open>shared/ids.py\<close>), and the parts of
    \<open>urllib.parse\<close> the origin and route checks use.
  \<^item> SurfaceModels, Leases, Interventions, Transactions, Coordinator (\<^verbatim>\<open>surfaces/models.py\<close>,
    \<^verbatim>\<open>interventions/\<close>): the lease and intervention aggregates, the compare-and-swap
    repositories, the router and the coordinator. Handoff and HandoffMachine prove the operations
    against the repository contract and put them together as a state machine over
    one store, in which automation, the router and operators act in any order; HandoffGuarantees has
    its properties: consistency of every reachable store, exclusive control, no effect of a stale
    command, what can always be claimed, and where a session gets stuck.
  \<^item> Policy, PolicyGuarantees, RuntimePolicy (\<^verbatim>\<open>policy/\<close>, and the policies that
    \<^verbatim>\<open>runtime/composition.py\<close> builds): layers, their intersection, the evaluation of an action, and
    exactly when a run may act.
  \<^item> Artifact, ArtifactChecks, ArtifactSemantics, ArtifactTree, ArtifactSample, ArtifactGuarantees
    (\<^verbatim>\<open>capabilities/models.py\<close>, \<^verbatim>\<open>capabilities/conditions.py\<close>): the data model,
    its field checks and its cross-field validation, the tree Pydantic's reflection sees, and what a
    parsed artifact guarantees to the engine.
  \<^item> Values, Targeting, ValuesGuarantees (\<^verbatim>\<open>capabilities/values.py\<close>,
    \<^verbatim>\<open>capabilities/transforms.py\<close>, \<^verbatim>\<open>capabilities/targeting.py\<close>): the
    validation of runtime values, equivalent to a declarative notion of conformance, and the binding of inputs to targets.
  \<^item> Serialization, Registry, RegistryGuarantees (\<^verbatim>\<open>capabilities/serialization.py\<close>,
    \<^verbatim>\<open>capabilities/registry.py\<close>): canonical form and content hash, publication and versions;
    the registry over a directory of files refines the one in memory.
  \<^item> RunResults, Replay, ReplaySteps, ReplayRun (\<^verbatim>\<open>replay/engine.py\<close>,
    \<^verbatim>\<open>runs/results.py\<close>, \<^verbatim>\<open>evidence/diagnostics.py\<close>): \<open>execute\<close>,
    \<open>resume\<close> and \<open>validate_resume\<close> with all they call. ReplayLogic, ReplayOutcome and
    ReplayTermination carry the proofs, and ReplaySample a surface for the witnesses; ReplayGuarantees
    states that dispatches are permitted under a renewed lease, that a run returns, what a success has
    verified, and what becomes of the session.
  \<^item> Applications, ApplicationGuarantees (\<^verbatim>\<open>applications/\<close>): registrations, launch locations,
    compatibility and readiness.
  \<^item> HumanControl, ControlGuarantees (\<^verbatim>\<open>runtime/composition.py\<close>): live sessions and the
    intervention service through which an operator sees frames and sends inputs; it moves the store
    only along the hand-off machine.
  \<^item> Redaction, Evidence, Journal, EvidenceGuarantees, JournalGuarantees
    (\<^verbatim>\<open>runs/privacy.py\<close>, \<^verbatim>\<open>evidence/\<close>, \<^verbatim>\<open>runs/journal.py\<close>): what may be kept,
    the models of what is kept and their JSON forms, the store, the journal and the independent verification of what it published.
  \<^item> DiscoveryModels, Compiler, CompilerGuarantees (\<^verbatim>\<open>discovery/models.py\<close>,
    \<^verbatim>\<open>discovery/compiler.py\<close>): proposals, drafts, recorded steps, and the compiler from a trace
    to an artifact.
  \<^item> DiscoveryPrivacy, PrivacyGuarantees (\<^verbatim>\<open>discovery/privacy.py\<close>): the leak guard, and what
    it means that it accepts an artifact.
  \<^item> Discovery, DiscoveryRun, DiscoveryLogic, DiscoveryGuarantees, DiscoveryOutcome
    (\<^verbatim>\<open>discovery/engine.py\<close> with \<^verbatim>\<open>discovery/conditions.py\<close>,
    \<^verbatim>\<open>discovery/constraints.py\<close> and \<^verbatim>\<open>discovery/scenarios.py\<close>): the
    discovery engine, its clearance of every action, its budget and the fate of its session.
  \<^item> Suite, SuiteService, SuiteGuarantees (\<^verbatim>\<open>runs/discovery_suite.py\<close>,
    \<^verbatim>\<open>runs/service.py\<close>, \<^verbatim>\<open>runs/discovery_service.py\<close>): suites of
    discovered scenarios, their joining into one artifact, the service that validates and publishes
    them, and the two services that turn invocations into runs. What is published was proven by replays.
  \<^item> Assets, Geometry, Vision, VisionLayout, VisionMatch, VisionCaches, VisionGuarantees
    (\<^verbatim>\<open>capabilities/assets.py\<close>, \<^verbatim>\<open>surfaces/vision.py\<close>,
    \<^verbatim>\<open>surfaces/vision_policy.py\<close>): stored images, the geometry of screen regions, and the
    grounder: recognized texts and their lines and phrases, the layout graph of a frame with the
    associations of labels, controls, values and images, templates and signatures. Its caches are
    transparent, and what it resolves is the only match, wins by a margin, and comes in time.
  \<^item> Viewing, ViewingGuarantees (\<^verbatim>\<open>runs/viewing.py\<close>): the viewer through which a
    person follows an execution; bounded in every reachable state, closed to other tokens, and never
    without room while fewer executions than allowed are active.

  \<^bold>\<open>State and calls.\<close> The engines keep a run state: the store of leases and interventions they share
  with the coordinator, their own dictionaries, and the history of the calls they made on the surface,
  the model, the journal and the clock. What such a call answers is a function, in an environment
  record, of the history before it: an answer can depend on everything done so far, differ from one
  call to the next, or raise. The theorems hold for every environment. The generator of the discovery engine is
  cut at its \<open>yield\<close>: a continuation holds its variables and the steps left, and its \<open>finally\<close> runs with each
  stretch that does not end in a pause.

  \<^bold>\<open>Termination and bounds.\<close> Recursion is structural or has its measure. The replay
  loop takes fuel, the uses its recoveries have left times the steps and one more, plus the steps left, and
  \<open>replay_returns\<close> proves that this is never used up. The discovery loop recurs over the steps left of its budget,
  as the \<open>for\<close> statement does, so it needs no fuel. Integers are unbounded, as they are in Python.

  \<^bold>\<open>Parameters.\<close> SHA-256 and HMAC, the parsing of dates, numbers and arbitrary regular expressions, the
  texts of floats, YAML and ZIP, the text recognizer and the image library are functions passed to the
  definitions, with named hypotheses where a property needs one (that a number or an instant reads
  back, that frames of one hash are read alike). Case mapping is that of ASCII letters, and
  floating-point numbers are rationals.

  \<^bold>\<open>Not modelled.\<close> \<^verbatim>\<open>surfaces/playwright.py\<close> and
  \<^verbatim>\<open>providers/openai.py\<close>, whose work is calls on a browser and a remote model: the engines
  meet them as parameters. The HTTP layer (\<^verbatim>\<open>api/\<close>), start-up and settings
  (\<^verbatim>\<open>runtime/settings.py\<close>, \<^verbatim>\<open>runtime/viewing.py\<close>, the wiring of
  \<^verbatim>\<open>runtime/composition.py\<close>) and the export of evidence (\<^verbatim>\<open>evidence/export.py\<close>) are glue over the parts above.
  Threads are not interleaved inside an operation: locks of the code make the operations atomic, and
  the machines interleave whole operations.
\<close>

end
